(* ===== verification/Ffdb_Prelude.thy ===== *)
theory Ffdb_Prelude
  imports Main "HOL-Library.Char_ord" "HOL-Library.List_Lexorder" "HOL-Library.Code_Target_Nat"
begin

text \<open>
  Shared vocabulary of the development: Rust's \<open>Result\<close> as a sum, the saturating and checked
  operations of the fixed-width integers the sources use, the parts of \<open>str\<close> and \<open>u8\<close> they
  call, decimal formatting, and the JSON value type.

  A Rust \<open>String\<close> or \<open>&str\<close> is the list of its UTF-8 bytes (\<^typ>\<open>char\<close> is an 8-bit byte), so
  \<^const>\<open>length\<close> is Rust's \<open>len\<close>; \<open>chars().count()\<close> is \<open>char_count\<close> below.
  \<open>u64\<close>, \<open>u32\<close>, \<open>u16\<close> and \<open>usize\<close> (64 bits) are natural numbers with their maximum written
  out, \<open>i64\<close> is \<^typ>\<open>int\<close> with its range written out.
\<close>

named_theorems ffdb_result \<open>elimination of the result monad\<close>
named_theorems ffdb_int \<open>bounds of the fixed-width integer operations\<close>

section \<open>Results\<close>

abbreviation Ok :: "'a \<Rightarrow> 'e + 'a" where "Ok \<equiv> Inr"
abbreviation Err :: "'e \<Rightarrow> 'e + 'a" where "Err \<equiv> Inl"

definition bindr :: "'e + 'a \<Rightarrow> ('a \<Rightarrow> 'e + 'b) \<Rightarrow> 'e + 'b" where
  "bindr r f = (case r of Inl e \<Rightarrow> Inl e | Inr a \<Rightarrow> f a)"

lemma bindr_Err [simp]: "bindr (Err e) f = Err e"
  by (simp add: bindr_def)

lemma bindr_Ok [simp]: "bindr (Ok a) f = f a"
  by (simp add: bindr_def)

lemma bindr_eq_Ok [ffdb_result]: "bindr r f = Ok b \<longleftrightarrow> (\<exists>a. r = Ok a \<and> f a = Ok b)"
  by (cases r) simp_all

lemma bindr_eq_Err [ffdb_result]:
  "bindr r f = Err e \<longleftrightarrow> r = Err e \<or> (\<exists>a. r = Ok a \<and> f a = Err e)"
  by (cases r) simp_all

lemma bindr_cong [fundef_cong]:
  "r = r' \<Longrightarrow> (\<And>a. r' = Ok a \<Longrightarrow> f a = g a) \<Longrightarrow> bindr r f = bindr r' g"
  by (cases r') simp_all

text \<open>\<open>ok_or\<close>, and a guard that returns early with an error.\<close>

definition ok_or :: "'a option \<Rightarrow> 'e \<Rightarrow> 'e + 'a" where
  "ok_or x e = (case x of None \<Rightarrow> Err e | Some a \<Rightarrow> Ok a)"

lemma ok_or_simps [simp]: "ok_or None e = Err e" "ok_or (Some a) e = Ok a"
  by (simp_all add: ok_or_def)

lemma bindr_OkE: "bindr x f = Ok y \<Longrightarrow> (\<And>a. x = Ok a \<Longrightarrow> f a = Ok y \<Longrightarrow> P) \<Longrightarrow> P"
  by (auto simp: bindr_def split: sum.split_asm)

lemma if_Err_OkE: "(if b then Err e else x) = Ok y \<Longrightarrow> (\<not> b \<Longrightarrow> x = Ok y \<Longrightarrow> P) \<Longrightarrow> P"
  by (auto split: if_split_asm)

lemma ok_or_eq_Ok [ffdb_result]: "ok_or x e = Ok a \<longleftrightarrow> x = Some a"
  by (cases x) simp_all

lemma ok_or_eq_Err [ffdb_result]: "ok_or x e = Err e' \<longleftrightarrow> x = None \<and> e' = e"
  by (cases x) auto

definition require :: "bool \<Rightarrow> 'e \<Rightarrow> 'e + unit" where
  "require b e = (if b then Ok () else Err e)"

lemma require_simps [simp]: "require True e = Ok ()" "require False e = Err e"
  by (simp_all add: require_def)

lemma require_eq_Ok [ffdb_result]: "require b e = Ok u \<longleftrightarrow> b"
  by (simp add: require_def)

lemma require_eq_Err [ffdb_result]: "require b e = Err e' \<longleftrightarrow> \<not> b \<and> e' = e"
  by (auto simp: require_def)

text \<open>\<open>map_err\<close>, and the conversion of an error by \<open>?\<close>.\<close>

definition map_err :: "('e \<Rightarrow> 'f) \<Rightarrow> 'e + 'a \<Rightarrow> 'f + 'a" where
  "map_err f r = (case r of Inl e \<Rightarrow> Inl (f e) | Inr a \<Rightarrow> Inr a)"

lemma map_err_simps [simp]: "map_err f (Err e) = Err (f e)" "map_err f (Ok a) = Ok a"
  by (simp_all add: map_err_def)

lemma map_err_eq_Ok [ffdb_result]: "map_err f r = Ok a \<longleftrightarrow> r = Ok a"
  by (cases r) simp_all

lemma map_err_eq_Err [ffdb_result]: "map_err f r = Err e \<longleftrightarrow> (\<exists>e'. r = Err e' \<and> e = f e')"
  by (cases r) auto

text \<open>\<open>iter().map(f).collect::<Result<Vec<_>, _>>()\<close>: the first error, or all the results.\<close>

fun mapr :: "('a \<Rightarrow> 'e + 'b) \<Rightarrow> 'a list \<Rightarrow> 'e + 'b list" where
  "mapr f [] = Ok []"
| "mapr f (x # xs) = bindr (f x) (\<lambda>y. bindr (mapr f xs) (\<lambda>ys. Ok (y # ys)))"

lemma mapr_eq_Ok: "mapr f xs = Ok ys \<longleftrightarrow> list_all2 (\<lambda>x y. f x = Ok y) xs ys"
  by (induction xs arbitrary: ys) (auto simp: ffdb_result list_all2_Cons1)

text \<open>An optional value that, when present, satisfies a predicate.\<close>

definition opt_all :: "('a \<Rightarrow> bool) \<Rightarrow> 'a option \<Rightarrow> bool" where
  "opt_all P x = (case x of None \<Rightarrow> True | Some a \<Rightarrow> P a)"

lemma opt_all_simps [simp]: "opt_all P None" "opt_all P (Some a) = P a"
  by (simp_all add: opt_all_def)

text \<open>\<open>Option::or\<close>.\<close>

definition or_else :: "'a option \<Rightarrow> 'a option \<Rightarrow> 'a option" where
  "or_else a b = (case a of Some x \<Rightarrow> Some x | None \<Rightarrow> b)"

section \<open>Fallible operations on a state\<close>

text \<open>
  A Rust method on \<open>&mut self\<close> that returns a \<open>Result\<close>: the state it leaves is part of the outcome
  on error paths too. \<open>sbind\<close> is the sequencing of two such calls by the operator \<open>?\<close>.
\<close>

definition sbind :: "('s \<Rightarrow> ('e + 'a) \<times> 's) \<Rightarrow> ('a \<Rightarrow> 's \<Rightarrow> ('e + 'b) \<times> 's) \<Rightarrow> 's \<Rightarrow> ('e + 'b) \<times> 's" where
  "sbind m f s = (case m s of (Inl e, s') \<Rightarrow> (Inl e, s') | (Inr a, s') \<Rightarrow> f a s')"

definition sok :: "'a \<Rightarrow> 's \<Rightarrow> ('e + 'a) \<times> 's" where
  "sok a s = (Inr a, s)"

definition slift :: "'e + 'a \<Rightarrow> 's \<Rightarrow> ('e + 'a) \<times> 's" where
  "slift r s = (r, s)"

fun sfor :: "'x list \<Rightarrow> ('x \<Rightarrow> 's \<Rightarrow> ('e + unit) \<times> 's) \<Rightarrow> 's \<Rightarrow> ('e + unit) \<times> 's" where
  "sfor [] f s = (Inr (), s)"
| "sfor (x # xs) f s = sbind (f x) (\<lambda>_. sfor xs f) s"

lemma sbind_eq_Ok [ffdb_result]:
  "sbind m f s = (Inr b, t) \<longleftrightarrow> (\<exists>a s'. m s = (Inr a, s') \<and> f a s' = (Inr b, t))"
  by (auto simp: sbind_def split: prod.split sum.split)

lemma sbind_eq_Err [ffdb_result]:
  "sbind m f s = (Inl e, t) \<longleftrightarrow> m s = (Inl e, t) \<or> (\<exists>a s'. m s = (Inr a, s') \<and> f a s' = (Inl e, t))"
  by (auto simp: sbind_def split: prod.split sum.split)

lemma sok_eq [ffdb_result]: "sok a s = (r, t) \<longleftrightarrow> r = Inr a \<and> t = s"
  by (auto simp: sok_def)

lemma slift_eq [ffdb_result]: "slift r s = (r', t) \<longleftrightarrow> r = r' \<and> t = s"
  by (auto simp: slift_def)

text \<open>What every step of a sequence keeps, the sequence keeps.\<close>

lemma sbind_keeps:
  assumes "P s" and "\<And>r t. m s = (r, t) \<Longrightarrow> P t"
    and "\<And>a s' r t. m s = (Inr a, s') \<Longrightarrow> P s' \<Longrightarrow> f a s' = (r, t) \<Longrightarrow> P t"
    and "sbind m f s = (r, t)"
  shows "P t"
  using assms(2-4) by (auto simp: sbind_def split: prod.split_asm sum.split_asm)

lemma sfor_keeps:
  assumes "P s" and "\<And>x s r t. x \<in> set xs \<Longrightarrow> P s \<Longrightarrow> f x s = (r, t) \<Longrightarrow> P t" and "sfor xs f s = (r, t)"
  shows "P t"
  using assms
proof (induction xs arbitrary: s)
  case (Cons x xs)
  show ?case
  proof (cases "f x s")
    case (Pair q u)
    then have "P u" using Cons.prems by (meson list.set_intros(1))
    then show ?thesis
      using Cons.IH [of u] Cons.prems(2,3) Pair by (cases q) (auto simp: sbind_def)
  qed
qed simp

section \<open>Fixed-width integers\<close>

definition u16_max :: nat where "u16_max = 2 ^ 16 - 1"
definition u32_max :: nat where "u32_max = 2 ^ 32 - 1"
definition u64_max :: nat where "u64_max = 2 ^ 64 - 1"
definition i64_max :: int where "i64_max = 2 ^ 63 - 1"
definition i64_min :: int where "i64_min = - (2 ^ 63)"

definition saturating_add_u64 :: "nat \<Rightarrow> nat \<Rightarrow> nat" where
  "saturating_add_u64 a b = min (a + b) u64_max"

definition saturating_sub_u64 :: "nat \<Rightarrow> nat \<Rightarrow> nat" where
  "saturating_sub_u64 a b = (if b \<le> a then a - b else 0)"

definition checked_add_u64 :: "nat \<Rightarrow> nat \<Rightarrow> nat option" where
  "checked_add_u64 a b = (if a + b \<le> u64_max then Some (a + b) else None)"

definition checked_sub_u64 :: "nat \<Rightarrow> nat \<Rightarrow> nat option" where
  "checked_sub_u64 a b = (if b \<le> a then Some (a - b) else None)"

definition checked_mul_u64 :: "nat \<Rightarrow> nat \<Rightarrow> nat option" where
  "checked_mul_u64 a b = (if a * b \<le> u64_max then Some (a * b) else None)"

definition saturating_add_i64 :: "int \<Rightarrow> int \<Rightarrow> int" where
  "saturating_add_i64 a b = max i64_min (min i64_max (a + b))"

definition saturating_sub_i64 :: "int \<Rightarrow> int \<Rightarrow> int" where
  "saturating_sub_i64 a b = max i64_min (min i64_max (a - b))"

definition checked_add_i64 :: "int \<Rightarrow> int \<Rightarrow> int option" where
  "checked_add_i64 a b = (if i64_min \<le> a + b \<and> a + b \<le> i64_max then Some (a + b) else None)"

lemma saturating_add_u64_le [simp]: "saturating_add_u64 a b \<le> u64_max"
  by (simp add: saturating_add_u64_def)

lemma saturating_add_u64_exact [ffdb_int]:
  "a + b \<le> u64_max \<Longrightarrow> saturating_add_u64 a b = a + b"
  by (simp add: saturating_add_u64_def)

lemma saturating_sub_u64_minus [simp]: "saturating_sub_u64 a b = a - b"
  by (simp add: saturating_sub_u64_def)

lemma checked_add_u64_Some [ffdb_int]:
  "checked_add_u64 a b = Some c \<longleftrightarrow> c = a + b \<and> a + b \<le> u64_max"
  by (auto simp: checked_add_u64_def)

lemma checked_add_u64_None [ffdb_int]: "checked_add_u64 a b = None \<longleftrightarrow> u64_max < a + b"
  by (auto simp: checked_add_u64_def)

lemma checked_sub_u64_Some [ffdb_int]: "checked_sub_u64 a b = Some c \<longleftrightarrow> b \<le> a \<and> c = a - b"
  by (auto simp: checked_sub_u64_def)

lemma checked_sub_u64_None [ffdb_int]: "checked_sub_u64 a b = None \<longleftrightarrow> a < b"
  by (auto simp: checked_sub_u64_def)

lemma checked_mul_u64_Some [ffdb_int]:
  "checked_mul_u64 a b = Some c \<longleftrightarrow> c = a * b \<and> a * b \<le> u64_max"
  by (auto simp: checked_mul_u64_def)

lemma checked_add_i64_Some [ffdb_int]:
  "checked_add_i64 a b = Some c \<longleftrightarrow> c = a + b \<and> i64_min \<le> a + b \<and> a + b \<le> i64_max"
  by (auto simp: checked_add_i64_def)

lemma u64_max_pos [simp]: "0 < u64_max" "Suc 0 \<le> u64_max"
  by (simp_all add: u64_max_def)

section \<open>Bytes and strings\<close>

definition code :: "char \<Rightarrow> nat" where "code c = of_char c"

definition is_ascii_lowercase :: "char \<Rightarrow> bool" where
  "is_ascii_lowercase c = (97 \<le> code c \<and> code c \<le> 122)"

definition is_ascii_uppercase :: "char \<Rightarrow> bool" where
  "is_ascii_uppercase c = (65 \<le> code c \<and> code c \<le> 90)"

definition is_ascii_digit :: "char \<Rightarrow> bool" where
  "is_ascii_digit c = (48 \<le> code c \<and> code c \<le> 57)"

definition is_ascii_alphabetic :: "char \<Rightarrow> bool" where
  "is_ascii_alphabetic c = (is_ascii_lowercase c \<or> is_ascii_uppercase c)"

definition is_ascii_alphanumeric :: "char \<Rightarrow> bool" where
  "is_ascii_alphanumeric c = (is_ascii_alphabetic c \<or> is_ascii_digit c)"

text \<open>\<open>u8::is_ascii_whitespace\<close>: space, tab, line feed, form feed, carriage return.\<close>

definition is_ascii_whitespace :: "char \<Rightarrow> bool" where
  "is_ascii_whitespace c = (code c \<in> {32, 9, 10, 12, 13})"

definition to_ascii_upper :: "char \<Rightarrow> char" where
  "to_ascii_upper c = (if is_ascii_lowercase c then char_of (code c - 32) else c)"

definition to_ascii_lower :: "char \<Rightarrow> char" where
  "to_ascii_lower c = (if is_ascii_uppercase c then char_of (code c + 32) else c)"

definition to_ascii_uppercase :: "string \<Rightarrow> string" where
  "to_ascii_uppercase s = map to_ascii_upper s"

definition to_ascii_lowercase :: "string \<Rightarrow> string" where
  "to_ascii_lowercase s = map to_ascii_lower s"

definition eq_ignore_ascii_case :: "string \<Rightarrow> string \<Rightarrow> bool" where
  "eq_ignore_ascii_case a b = (to_ascii_lowercase a = to_ascii_lowercase b)"

fun starts_with :: "string \<Rightarrow> string \<Rightarrow> bool" where
  "starts_with s [] = True"
| "starts_with [] (p # ps) = False"
| "starts_with (c # s) (p # ps) = (c = p \<and> starts_with s ps)"

lemma starts_with_iff: "starts_with s p \<longleftrightarrow> (\<exists>r. s = p @ r)"
  by (induction s p rule: starts_with.induct) auto

text \<open>\<open>strip_prefix\<close>, \<open>split_once\<close> (at the first occurrence of a byte) and \<open>join\<close>.\<close>

definition strip_prefix :: "string \<Rightarrow> string \<Rightarrow> string option" where
  "strip_prefix s p = (if starts_with s p then Some (drop (length p) s) else None)"

fun split_once :: "char \<Rightarrow> string \<Rightarrow> (string \<times> string) option" where
  "split_once d [] = None"
| "split_once d (c # s) =
     (if c = d then Some ([], s)
      else map_option (\<lambda>(a, b). (c # a, b)) (split_once d s))"

lemma split_once_append: "d \<notin> set a \<Longrightarrow> split_once d (a @ d # b) = Some (a, b)"
  by (induction a) auto

lemma split_once_SomeD: "split_once d s = Some (a, b) \<Longrightarrow> s = a @ d # b \<and> d \<notin> set a"
  by (induction s arbitrary: a) (auto split: if_splits)

lemma split_once_None: "split_once d s = None \<longleftrightarrow> d \<notin> set s"
  by (induction s) auto

fun join :: "string \<Rightarrow> string list \<Rightarrow> string" where
  "join sep [] = []"
| "join sep [x] = x"
| "join sep (x # y # zs) = x @ sep @ join sep (y # zs)"

text \<open>
  \<open>chars().count()\<close>: the bytes that are not UTF-8 continuation bytes (\<open>10xxxxxx\<close>).
  \<open>chars().any(char::is_control)\<close>: a code point in U+0000..U+001F, U+007F or, as the two bytes
  C2 80 .. C2 9F, in U+0080..U+009F.
\<close>

definition is_continuation :: "char \<Rightarrow> bool" where
  "is_continuation c = (128 \<le> code c \<and> code c < 192)"

definition char_count :: "string \<Rightarrow> nat" where
  "char_count s = length (filter (\<lambda>c. \<not> is_continuation c) s)"

fun any_control :: "string \<Rightarrow> bool" where
  "any_control [] = False"
| "any_control (c # s) =
     (code c < 32 \<or> code c = 127
      \<or> (code c = 194 \<and> (case s of [] \<Rightarrow> False | d # _ \<Rightarrow> 128 \<le> code d \<and> code d \<le> 159))
      \<or> any_control s)"

text \<open>
  \<open>str::trim\<close> removes Unicode white space at both ends: U+0009..U+000D, U+0020, U+0085, U+00A0,
  U+1680, U+2000..U+200A, U+2028, U+2029, U+202F, U+205F, U+3000, each by its UTF-8 bytes.
\<close>

definition is_white1 :: "char \<Rightarrow> bool" where
  "is_white1 c = ((9 \<le> code c \<and> code c \<le> 13) \<or> code c = 32)"

definition is_white2 :: "char \<Rightarrow> char \<Rightarrow> bool" where
  "is_white2 a b = (code a = 194 \<and> (code b = 133 \<or> code b = 160))"

definition is_white3 :: "char \<Rightarrow> char \<Rightarrow> char \<Rightarrow> bool" where
  "is_white3 a b c =
     ((code a = 225 \<and> code b = 154 \<and> code c = 128)
      \<or> (code a = 226 \<and> code b = 128
          \<and> ((128 \<le> code c \<and> code c \<le> 138) \<or> code c \<in> {168, 169, 175}))
      \<or> (code a = 226 \<and> code b = 129 \<and> code c = 159)
      \<or> (code a = 227 \<and> code b = 128 \<and> code c = 128))"

fun trim_start :: "string \<Rightarrow> string" where
  "trim_start [] = []"
| "trim_start (a # s) =
     (if is_white1 a then trim_start s
      else case s of
          b # t \<Rightarrow>
            (if is_white2 a b then trim_start t
             else (case t of
                 c # u \<Rightarrow> (if is_white3 a b c then trim_start u else a # s)
               | [] \<Rightarrow> a # s))
        | [] \<Rightarrow> a # s)"

fun trim_end_rev :: "string \<Rightarrow> string" where
  "trim_end_rev [] = []"
| "trim_end_rev (a # s) =
     (if is_white1 a then trim_end_rev s
      else case s of
          b # t \<Rightarrow>
            (if is_white2 b a then trim_end_rev t
             else (case t of
                 c # u \<Rightarrow> (if is_white3 c b a then trim_end_rev u else a # s)
               | [] \<Rightarrow> a # s))
        | [] \<Rightarrow> a # s)"

definition trim :: "string \<Rightarrow> string" where
  "trim s = rev (trim_end_rev (rev (trim_start s)))"

declare trim_start.simps(2) [simp del] trim_end_rev.simps(2) [simp del]

lemma set_trim_start: "set (trim_start s) \<subseteq> set s"
proof (induction s rule: trim_start.induct)
  case (2 a s)
  then show ?case
    by (subst trim_start.simps, auto split: list.splits, blast)
qed simp

lemma set_trim_end_rev: "set (trim_end_rev s) \<subseteq> set s"
proof (induction s rule: trim_end_rev.induct)
  case (2 a s)
  then show ?case
    by (subst trim_end_rev.simps, auto split: list.splits, blast)
qed simp

lemma set_trim: "set (trim s) \<subseteq> set s"
proof -
  have "set (trim_end_rev (rev (trim_start s))) \<subseteq> set (rev (trim_start s))"
    by (rule set_trim_end_rev)
  also have "\<dots> \<subseteq> set s"
    using set_trim_start by simp
  finally show ?thesis by (simp add: trim_def)
qed

section \<open>Decimal and hexadecimal formatting\<close>

definition digit_char :: "nat \<Rightarrow> char" where
  "digit_char n = char_of (if n < 10 then 48 + n else 87 + n)"

fun show_nat :: "nat \<Rightarrow> string" where
  "show_nat n = (if n < 10 then [digit_char n] else show_nat (n div 10) @ [digit_char (n mod 10)])"

declare show_nat.simps [simp del]

definition show_int :: "int \<Rightarrow> string" where
  "show_int i = (if i < 0 then CHR ''-'' # show_nat (nat (- i)) else show_nat (nat i))"

definition hex_byte :: "char \<Rightarrow> string" where
  "hex_byte b = [digit_char (code b div 16), digit_char (code b mod 16)]"

text \<open>\<open>chars().any(char::is_whitespace)\<close> on the UTF-8 bytes.\<close>

fun any_whitespace :: "string \<Rightarrow> bool" where
  "any_whitespace [] = False"
| "any_whitespace (a # s) =
     (is_white1 a
      \<or> (case s of [] \<Rightarrow> False
          | b # t \<Rightarrow> is_white2 a b \<or> (case t of [] \<Rightarrow> False | c # _ \<Rightarrow> is_white3 a b c))
      \<or> any_whitespace s)"

text \<open>\<open>split(c)\<close>: the pieces between the occurrences of a byte, and \<open>contains\<close> of a substring.\<close>

fun split_on :: "char \<Rightarrow> string \<Rightarrow> string list" where
  "split_on d [] = [[]]"
| "split_on d (c # s) =
     (if c = d then [] # split_on d s
      else case split_on d s of [] \<Rightarrow> [[c]] | w # ws \<Rightarrow> (c # w) # ws)"

lemma find_append: "List.find P (xs @ ys) = (case List.find P xs of None \<Rightarrow> List.find P ys | Some x \<Rightarrow> Some x)"
  by (induction xs) auto

lemma split_on_not_Nil: "split_on d s \<noteq> []"
  by (induction s) (auto split: list.split)

lemma split_on_append_sep: "split_on d (a @ d # b) = split_on d a @ split_on d b"
  by (induction a) (auto split: list.split simp: split_on_not_Nil)

lemma split_on_plain: "d \<notin> set s \<Longrightarrow> split_on d s = [s]"
  by (induction d s rule: split_on.induct) auto

lemma split_on_append: "d \<notin> set a \<Longrightarrow> split_on d (a @ d # b) = a # split_on d b"
  by (induction d a rule: split_on.induct) auto

fun contains_str :: "string \<Rightarrow> string \<Rightarrow> bool" where
  "contains_str [] p = (p = [])"
| "contains_str (c # s) p = (starts_with (c # s) p \<or> contains_str s p)"

section \<open>JSON values\<close>

text \<open>
  \<open>serde_json::Value\<close>: a number is kept as its literal text, an object as its entry list.
\<close>

datatype json =
    JNull
  | JBool bool
  | JNumber string
  | JString string
  | JArray "json list"
  | JObject "(string \<times> json) list"

type_synonym json_map = "(string \<times> json) list"

end
