(* ===== verification/Collections.thy ===== *)
theory Collections
  imports Ffdb_Prelude
begin

text \<open>
  The standard-library maps the sources keep their state in. \<open>HashMap\<close> is an association list
  with distinct keys, in which an insertion keeps the position of an existing key;
  \<open>BTreeMap\<close> is an association list with strictly increasing keys, so that iteration is in key
  order. Both implement the interface \<open>map_store\<close>, whose laws are what the components rely on;
  the clients' lemmas (what insertion, removal and retention do to a property of all entries)
  are proved once inside it.
\<close>

locale map_store =
  fixes lookup :: "'m \<Rightarrow> 'k \<Rightarrow> 'v option"
    and insert :: "'k \<Rightarrow> 'v \<Rightarrow> 'm \<Rightarrow> 'm"
    and remove :: "'k \<Rightarrow> 'm \<Rightarrow> 'm"
    and retain :: "('k \<Rightarrow> 'v \<Rightarrow> bool) \<Rightarrow> 'm \<Rightarrow> 'm"
    and wf :: "'m \<Rightarrow> bool"
  assumes lookup_insert: "wf m \<Longrightarrow> lookup (insert k v m) = (lookup m)(k \<mapsto> v)"
    and lookup_remove: "wf m \<Longrightarrow> lookup (remove k m) = (lookup m)(k := None)"
    and lookup_retain: "wf m \<Longrightarrow> lookup (retain P m) k =
        (case lookup m k of None \<Rightarrow> None | Some v \<Rightarrow> if P k v then Some v else None)"
    and wf_insert: "wf m \<Longrightarrow> wf (insert k v m)"
    and wf_remove: "wf m \<Longrightarrow> wf (remove k m)"
    and wf_retain: "wf m \<Longrightarrow> wf (retain P m)"
begin

lemma all_insert:
  assumes "wf m" and "\<And>k v. lookup m k = Some v \<Longrightarrow> Q k v" and "Q k v"
    and "lookup (insert k v m) k' = Some v'"
  shows "Q k' v'"
  using assms by (auto simp: lookup_insert split: if_splits)

lemma all_retain:
  assumes "wf m" and "\<And>k v. lookup m k = Some v \<Longrightarrow> Q k v"
    and "lookup (retain P m) k' = Some v'"
  shows "Q k' v' \<and> P k' v'"
  using assms by (auto simp: lookup_retain split: option.splits if_splits)

lemma retain_keeps:
  "wf m \<Longrightarrow> lookup m k = Some v \<Longrightarrow> P k v \<Longrightarrow> lookup (retain P m) k = Some v"
  by (simp add: lookup_retain)

lemma insert_same: "wf m \<Longrightarrow> lookup (insert k v m) k = Some v"
  by (simp add: lookup_insert)

lemma insert_other: "wf m \<Longrightarrow> k' \<noteq> k \<Longrightarrow> lookup (insert k v m) k' = lookup m k'"
  by (simp add: lookup_insert)

end

section \<open>HashMap\<close>

type_synonym ('k, 'v) hash_map = "('k \<times> 'v) list"

definition hm_get :: "('k, 'v) hash_map \<Rightarrow> 'k \<Rightarrow> 'v option" where
  "hm_get m k = map_of m k"

fun hm_insert :: "'k \<Rightarrow> 'v \<Rightarrow> ('k, 'v) hash_map \<Rightarrow> ('k, 'v) hash_map" where
  "hm_insert k v [] = [(k, v)]"
| "hm_insert k v ((k', v') # m) =
     (if k' = k then (k, v) # m else (k', v') # hm_insert k v m)"

definition hm_remove :: "'k \<Rightarrow> ('k, 'v) hash_map \<Rightarrow> ('k, 'v) hash_map" where
  "hm_remove k m = filter (\<lambda>p. fst p \<noteq> k) m"

definition hm_retain :: "('k \<Rightarrow> 'v \<Rightarrow> bool) \<Rightarrow> ('k, 'v) hash_map \<Rightarrow> ('k, 'v) hash_map" where
  "hm_retain P m = filter (\<lambda>p. P (fst p) (snd p)) m"

definition hm_contains_key :: "('k, 'v) hash_map \<Rightarrow> 'k \<Rightarrow> bool" where
  "hm_contains_key m k = (hm_get m k \<noteq> None)"

definition hm_wf :: "('k, 'v) hash_map \<Rightarrow> bool" where
  "hm_wf m = distinct (map fst m)"

lemma hm_get_Nil [simp]: "hm_get [] k = None"
  by (simp add: hm_get_def)

lemma hm_get_Cons: "hm_get ((k', v) # m) k = (if k = k' then Some v else hm_get m k)"
  by (simp add: hm_get_def)

lemma hm_wf_Nil [simp]: "hm_wf []"
  by (simp add: hm_wf_def)

lemma hm_get_insert: "hm_get (hm_insert k v m) = (hm_get m)(k \<mapsto> v)"
  by (induction k v m rule: hm_insert.induct) (auto simp: hm_get_def fun_eq_iff)

lemma keys_hm_insert: "fst ` set (hm_insert k v m) = insert k (fst ` set m)"
  by (induction k v m rule: hm_insert.induct) auto

lemma hm_get_remove: "hm_get (hm_remove k m) = (hm_get m)(k := None)"
  by (induction m) (auto simp: hm_get_def hm_remove_def fun_eq_iff)

lemma hm_get_retain:
  "hm_wf m \<Longrightarrow> hm_get (hm_retain P m) k =
     (case hm_get m k of None \<Rightarrow> None | Some v \<Rightarrow> if P k v then Some v else None)"
proof (induction m)
  case Nil
  then show ?case by (simp add: hm_retain_def)
next
  case (Cons p m)
  obtain k' v' where p: "p = (k', v')" by force
  have IH: "hm_get (hm_retain P m) k =
      (case hm_get m k of None \<Rightarrow> None | Some v \<Rightarrow> if P k v then Some v else None)"
    using Cons by (simp add: hm_wf_def)
  moreover have "hm_get m k' = None"
    using Cons.prems p by (simp add: hm_wf_def hm_get_def map_of_eq_None_iff)
  ultimately show ?case
    by (auto simp: p hm_retain_def hm_get_Cons)
qed

lemma hm_wf_insert: "hm_wf m \<Longrightarrow> hm_wf (hm_insert k v m)"
  by (induction k v m rule: hm_insert.induct) (auto simp: hm_wf_def keys_hm_insert)

lemma hm_wf_filter: "hm_wf m \<Longrightarrow> hm_wf (filter Q m)"
  by (auto simp: hm_wf_def distinct_map inj_on_def)

lemma hm_wf_remove: "hm_wf m \<Longrightarrow> hm_wf (hm_remove k m)"
  unfolding hm_remove_def by (rule hm_wf_filter)

lemma hm_wf_retain: "hm_wf m \<Longrightarrow> hm_wf (hm_retain P m)"
  unfolding hm_retain_def by (rule hm_wf_filter)

interpretation hm: map_store hm_get hm_insert hm_remove hm_retain hm_wf
  by unfold_locales
    (simp_all add: hm_get_insert hm_get_remove hm_get_retain hm_wf_insert hm_wf_remove hm_wf_retain)

lemma hm_length_insert:
  "length (hm_insert k v m) = (if hm_get m k = None then Suc (length m) else length m)"
  by (induction k v m rule: hm_insert.induct) (auto simp: hm_get_Cons)

lemma hm_length_retain [simp]: "length (hm_retain P m) \<le> length m"
  by (simp add: hm_retain_def)

lemma hm_count_insert:
  "hm_wf m \<Longrightarrow>
     length (filter P (map snd (hm_insert k v m)))
       + (case hm_get m k of Some u \<Rightarrow> if P u then 1 else 0 | None \<Rightarrow> 0)
     = length (filter P (map snd m)) + (if P v then 1 else 0)"
proof (induction k v m rule: hm_insert.induct)
  case (2 k v k' v' m)
  show ?case
  proof (cases "k' = k")
    case True
    then show ?thesis by (simp add: hm_get_Cons)
  next
    case False
    have "hm_wf m" using 2(2) by (simp add: hm_wf_def)
    then show ?thesis using 2(1) [OF False] False by (auto simp: hm_get_Cons)
  qed
qed simp

lemma hm_sum_insert:
  "hm_wf m \<Longrightarrow>
     sum_list (map (f \<circ> snd) (hm_insert k v m)) + (case hm_get m k of Some u \<Rightarrow> f u | None \<Rightarrow> (0::nat))
     = sum_list (map (f \<circ> snd) m) + f v"
proof (induction k v m rule: hm_insert.induct)
  case (2 k v k' v' m)
  show ?case
  proof (cases "k' = k")
    case True
    then show ?thesis by (simp add: hm_get_Cons)
  next
    case False
    have "hm_wf m" using 2(2) by (simp add: hm_wf_def)
    then show ?thesis using 2(1) [OF False] False by (simp add: hm_get_Cons)
  qed
qed simp

lemma hm_sum_remove:
  "hm_wf m \<Longrightarrow>
     sum_list (map (f \<circ> snd) (hm_remove k m)) + (case hm_get m k of Some u \<Rightarrow> f u | None \<Rightarrow> (0::nat))
     = sum_list (map (f \<circ> snd) m)"
proof (induction m)
  case (Cons p m)
  obtain k' v' where p: "p = (k', v')" by force
  have "hm_wf m" using Cons.prems by (simp add: hm_wf_def)
  show ?case
  proof (cases "k' = k")
    case True
    then have "filter (\<lambda>p. fst p \<noteq> k) m = m"
      using Cons.prems by (intro filter_True) (auto simp: p hm_wf_def)
    then show ?thesis by (simp add: p True hm_get_Cons hm_remove_def)
  next
    case False
    then show ?thesis
      using Cons.IH [OF \<open>hm_wf m\<close>] by (simp add: p hm_get_Cons hm_remove_def)
  qed
qed (simp add: hm_remove_def)

lemma hm_length_remove:
  "hm_wf m \<Longrightarrow> length (hm_remove k m) = (if hm_get m k = None then length m else length m - 1)"
  using hm_sum_remove [of m "\<lambda>_. 1" k] by (auto simp: sum_list_triv o_def split: option.splits)

lemma hm_get_SomeD: "hm_get m k = Some v \<Longrightarrow> (k, v) \<in> set m"
  by (simp add: hm_get_def map_of_SomeD)

lemma hm_get_iff: "hm_wf m \<Longrightarrow> (k, v) \<in> set m \<longleftrightarrow> hm_get m k = Some v"
  by (simp add: hm_get_def hm_wf_def)

text \<open>A property of every entry, for the states that keep one.\<close>

lemma list_all_hm_insert [simp]:
  "list_all Q m \<Longrightarrow> Q (k, v) \<Longrightarrow> list_all Q (hm_insert k v m)"
  by (induction k v m rule: hm_insert.induct) auto

lemma list_all_hm_retain [simp]: "list_all Q m \<Longrightarrow> list_all Q (hm_retain P m)"
  by (induction m) (auto simp: hm_retain_def)

section \<open>BTreeMap\<close>

type_synonym ('k, 'v) btree_map = "('k \<times> 'v) list"

definition bt_get :: "('k, 'v) btree_map \<Rightarrow> 'k \<Rightarrow> 'v option" where
  "bt_get m k = map_of m k"

fun bt_insert :: "'k::linorder \<Rightarrow> 'v \<Rightarrow> ('k, 'v) btree_map \<Rightarrow> ('k, 'v) btree_map" where
  "bt_insert k v [] = [(k, v)]"
| "bt_insert k v ((k', v') # m) =
     (if k = k' then (k, v) # m
      else if k < k' then (k, v) # (k', v') # m
      else (k', v') # bt_insert k v m)"

definition bt_remove :: "'k \<Rightarrow> ('k, 'v) btree_map \<Rightarrow> ('k, 'v) btree_map" where
  "bt_remove k m = filter (\<lambda>p. fst p \<noteq> k) m"

definition bt_retain :: "('k \<Rightarrow> 'v \<Rightarrow> bool) \<Rightarrow> ('k, 'v) btree_map \<Rightarrow> ('k, 'v) btree_map" where
  "bt_retain P m = filter (\<lambda>p. P (fst p) (snd p)) m"

definition bt_wf :: "('k::linorder, 'v) btree_map \<Rightarrow> bool" where
  "bt_wf m = sorted_wrt (<) (map fst m)"

lemma bt_get_Nil [simp]: "bt_get [] k = None"
  by (simp add: bt_get_def)

lemma bt_get_Cons: "bt_get ((k', v) # m) k = (if k = k' then Some v else bt_get m k)"
  by (simp add: bt_get_def)

lemma bt_wf_Nil [simp]: "bt_wf []"
  by (simp add: bt_wf_def)

lemma keys_bt_insert: "fst ` set (bt_insert k v m) = insert k (fst ` set m)"
  by (induction k v m rule: bt_insert.induct) auto

lemma bt_get_insert: "bt_get (bt_insert k v m) = (bt_get m)(k \<mapsto> v)"
  by (induction k v m rule: bt_insert.induct) (auto simp: bt_get_def fun_eq_iff)

lemma bt_get_remove: "bt_get (bt_remove k m) = (bt_get m)(k := None)"
  by (induction m) (auto simp: bt_get_def bt_remove_def fun_eq_iff)

lemma bt_wf_hm_wf: "bt_wf m \<Longrightarrow> hm_wf m"
  by (simp add: bt_wf_def hm_wf_def strict_sorted_iff)

lemma bt_wf_insert: "bt_wf m \<Longrightarrow> bt_wf (bt_insert k v m)"
proof (induction k v m rule: bt_insert.induct)
  case (2 k v k' v' m)
  moreover have "\<And>x. x \<in> fst ` set (bt_insert k v m) \<Longrightarrow> x = k \<or> x \<in> fst ` set m"
    by (simp add: keys_bt_insert)
  ultimately show ?case
    by (force simp: bt_wf_def keys_bt_insert)
qed (simp add: bt_wf_def)

lemma bt_wf_filter: "bt_wf m \<Longrightarrow> bt_wf (filter Q m)"
  by (induction m) (auto simp: bt_wf_def)

lemma bt_get_retain:
  "bt_wf m \<Longrightarrow> bt_get (bt_retain P m) k =
     (case bt_get m k of None \<Rightarrow> None | Some v \<Rightarrow> if P k v then Some v else None)"
  using hm_get_retain [OF bt_wf_hm_wf]
  by (simp add: bt_get_def hm_get_def bt_retain_def hm_retain_def)

lemma bt_wf_remove: "bt_wf m \<Longrightarrow> bt_wf (bt_remove k m)"
  unfolding bt_remove_def by (rule bt_wf_filter)

lemma bt_wf_retain: "bt_wf m \<Longrightarrow> bt_wf (bt_retain P m)"
  unfolding bt_retain_def by (rule bt_wf_filter)

interpretation bt: map_store bt_get bt_insert bt_remove bt_retain bt_wf
  by unfold_locales
    (simp_all add: bt_get_insert bt_get_remove bt_get_retain bt_wf_insert bt_wf_remove bt_wf_retain)

lemma bt_get_iff: "bt_wf m \<Longrightarrow> (k, v) \<in> set m \<longleftrightarrow> bt_get m k = Some v"
  using hm_get_iff [OF bt_wf_hm_wf] by (simp add: bt_get_def hm_get_def)

end
