(* ===== verification/Transition_System.thy ===== *)
theory Transition_System
  imports Main
begin

text \<open>
  The contract every stateful component of the program is verified against: a set of initial
  states, a step relation (one rule per public operation) and an invariant that holds at the
  start and is kept by every step. The lemmas about whole runs are proved once here and are
  available to each component through its interpretation.
\<close>

locale transition_system =
  fixes init :: "'s \<Rightarrow> bool"
    and step :: "'s \<Rightarrow> 's \<Rightarrow> bool"
    and inv :: "'s \<Rightarrow> bool"
  assumes init_inv: "init s \<Longrightarrow> inv s"
    and step_inv: "step s t \<Longrightarrow> inv s \<Longrightarrow> inv t"
begin

lemma run_inv:
  assumes "step\<^sup>*\<^sup>* s t" and "inv s"
  shows "inv t"
  using assms by (induction rule: rtranclp_induct) (auto intro: step_inv)

lemma reachable_inv:
  assumes "init s" and "step\<^sup>*\<^sup>* s t"
  shows "inv t"
  using assms(2) init_inv [OF assms(1)] by (rule run_inv)

end

text \<open>
  A component that also has a quantity no step decreases (a sequence number, an epoch, a
  version). What is below the quantity now stays below it.
\<close>

locale monotone_system = transition_system init step inv
  for init step and inv :: "'s \<Rightarrow> bool" +
  fixes clock :: "'s \<Rightarrow> 'c::preorder"
  assumes step_clock: "step s t \<Longrightarrow> inv s \<Longrightarrow> clock s \<le> clock t"
begin

lemma run_clock:
  assumes "step\<^sup>*\<^sup>* s t" and "inv s"
  shows "clock s \<le> clock t"
  using assms(1)
proof (induction rule: rtranclp_induct)
  case base
  show ?case by simp
next
  case (step t u)
  have "inv t" using step.hyps(1) assms(2) by (rule run_inv)
  then have "clock t \<le> clock u" using step.hyps(2) by (intro step_clock)
  with step.IH show ?case by (rule order_trans)
qed

end

end
