(* ===== verification/Sync_Engine.thy ===== *)
theory Sync_Engine
  imports Collections Transition_System "HOL-Library.Product_Lexorder"
begin

text \<open>
  The deterministic replication core, \<open>crates/sync-engine/src/lib.rs\<close>: its data, the cursor
  codec, and one definition per operation of \<open>SyncEngine\<close>. An operation that mutates the engine
  returns its result together with the engine after the call, on error paths too.

  The code outside the repository it calls is the record \<open>sync_env\<close>: serde's serialisers,
  base64, SHA-256 and HMAC. \<open>SyncAuthorizer\<close> is the record \<open>sync_authorizer\<close> of its two methods.
\<close>

section \<open>Data\<close>

record sync_context =
  ctx_project_id :: string
  ctx_subject :: string
  ctx_role :: string
  ctx_scope_fingerprint :: string
  ctx_trusted_client_id :: string

datatype mutation_operation = OpUpsert | OpDelete

record sync_authorizer =
  can_read :: "sync_context \<Rightarrow> string \<Rightarrow> json_map \<Rightarrow> bool"
  can_write :: "sync_context \<Rightarrow> string \<Rightarrow> mutation_operation \<Rightarrow> json_map \<Rightarrow> bool"

record client_mutation =
  cm_mutation_id :: string
  cm_table :: string
  cm_primary_key :: json
  cm_operation :: mutation_operation
  cm_values :: json_map
  cm_base_row_version :: "nat option"
  cm_client_timestamp_ms :: "int option"

datatype batch_mode = Atomic | Partial

record push_batch =
  pb_client_id :: string
  pb_schema_version :: nat
  pb_mode :: batch_mode
  pb_mutations :: "client_mutation list"

datatype mutation_outcome = Applied | AlreadyApplied

record mutation_receipt =
  mr_mutation_id :: string
  mr_sequence :: nat
  mr_row_version :: nat
  mr_outcome :: mutation_outcome

record mutation_failure =
  mf_mutation_id :: string
  mf_code :: string

type_synonym opaque_cursor = string

record push_result =
  pr_accepted :: "mutation_receipt list"
  pr_rejected :: "mutation_failure list"
  pr_cursor :: opaque_cursor

record replica_row =
  rr_table :: string
  rr_primary_key :: json
  rr_values :: json_map
  rr_row_version :: nat
  rr_server_sequence :: nat

datatype resnapshot_reason = CursorExpired | SchemaChanged | AuthorizationChanged | PolicyChanged

record event_meta =
  em_transaction_id :: string
  em_row_version :: nat
  em_actor :: string
  em_schema_version :: nat
  em_client_mutation_id :: "string option"

datatype logical_event =
    EvUpsert nat string json json_map event_meta int
      \<comment> \<open>sequence, table, primary key, values, metadata, server commit\<close>
  | EvDelete nat string json json_map event_meta int
      \<comment> \<open>sequence, table, primary key, tombstone, metadata, server commit\<close>
  | EvResnapshotRequired nat resnapshot_reason nat int
      \<comment> \<open>sequence, reason, schema version, server commit\<close>

fun event_sequence :: "logical_event \<Rightarrow> nat" where
  "event_sequence (EvUpsert s _ _ _ _ _) = s"
| "event_sequence (EvDelete s _ _ _ _ _) = s"
| "event_sequence (EvResnapshotRequired s _ _ _) = s"

fun committed_at_ms :: "logical_event \<Rightarrow> int" where
  "committed_at_ms (EvUpsert _ _ _ _ _ c) = c"
| "committed_at_ms (EvDelete _ _ _ _ _ c) = c"
| "committed_at_ms (EvResnapshotRequired _ _ _ c) = c"

record sync_snapshot =
  sn_schema_version :: nat
  sn_rows :: "replica_row list"
  sn_cursor :: opaque_cursor

record pull_result =
  pl_events :: "logical_event list"
  pl_cursor :: opaque_cursor
  pl_has_more :: bool

record sync_config =
  cursor_ttl_ms :: int
  change_retention_ms :: int
  tombstone_retention_ms :: int
  max_pull_events :: nat
  max_push_mutations :: nat
  idempotency_retention_ms :: int
  max_idempotency_records :: nat

record stored_row =
  sr_primary_key :: json
  sr_values :: json_map
  sr_row_version :: nat
  sr_server_sequence :: nat
  sr_deleted_at_ms :: "int option"

record idempotency_record =
  ir_payload_hash :: string
  ir_receipt :: mutation_receipt
  ir_committed_at_ms :: int

record engine_state =
  next_sequence :: nat
  minimum_available_sequence :: nat
  transaction_counter :: nat
  es_rows :: "(string, stored_row) hash_map"
  es_events :: "logical_event list"
  es_idempotency :: "(string, idempotency_record) hash_map"

record checkpoint_envelope =
  ce_format_version :: nat
  ce_project_id :: string
  ce_schema_version :: nat
  ce_state :: engine_state

record cursor_claims =
  cc_project_id :: string
  cc_subject :: string
  cc_trusted_client_id :: string
  cc_sequence :: nat
  cc_schema_version :: nat
  cc_scope_fingerprint :: string
  cc_issued_at_ms :: int
  cc_expires_at_ms :: int

record sync_engine =
  en_project_id :: string
  en_schema_version :: nat
  en_config :: sync_config
  en_secret :: string
  en_state :: engine_state

datatype sync_error =
    InvalidConfiguration
  | InvalidContext
  | InvalidCursor
  | WrongProject
  | ResnapshotRequired resnapshot_reason
  | SchemaMismatch nat nat
  | InvalidSchemaVersion
  | InvalidBatch
  | InvalidMutation
  | RlsDenied
  | MutationIdReused
  | IdempotencyCapacityReached
  | InvalidCheckpoint

fun sync_error_code :: "sync_error \<Rightarrow> string" where
  "sync_error_code InvalidConfiguration = ''sync.invalid_configuration''"
| "sync_error_code InvalidContext = ''sync.invalid_context''"
| "sync_error_code InvalidCursor = ''sync.invalid_cursor''"
| "sync_error_code WrongProject = ''sync.wrong_project''"
| "sync_error_code (ResnapshotRequired _) = ''sync.resnapshot_required''"
| "sync_error_code (SchemaMismatch _ _) = ''sync.schema_mismatch''"
| "sync_error_code InvalidSchemaVersion = ''sync.invalid_schema_version''"
| "sync_error_code InvalidBatch = ''sync.invalid_batch''"
| "sync_error_code InvalidMutation = ''sync.invalid_mutation''"
| "sync_error_code RlsDenied = ''sync.rls_denied''"
| "sync_error_code MutationIdReused = ''sync.mutation_id_reused''"
| "sync_error_code IdempotencyCapacityReached = ''sync.idempotency_capacity_reached''"
| "sync_error_code InvalidCheckpoint = ''sync.invalid_checkpoint''"

record sync_env =
  mutation_to_vec :: "client_mutation \<Rightarrow> string option"
  value_to_string :: "json \<Rightarrow> string option"
  claims_to_vec :: "cursor_claims \<Rightarrow> string option"
  claims_from_slice :: "string \<Rightarrow> cursor_claims option"
  envelope_to_vec :: "checkpoint_envelope \<Rightarrow> string option"
  envelope_from_slice :: "string \<Rightarrow> checkpoint_envelope option"
  b64_encode :: "string \<Rightarrow> string"
  b64_decode :: "string \<Rightarrow> string option"
  sha256 :: "string \<Rightarrow> string"
  hmac_sha256 :: "string \<Rightarrow> string \<Rightarrow> string option"
    \<comment> \<open>key, message; \<open>None\<close> when the key is refused\<close>

section \<open>The cursor codec\<close>

definition codec_encode :: "sync_env \<Rightarrow> string \<Rightarrow> cursor_claims \<Rightarrow> sync_error + opaque_cursor" where
  "codec_encode env secret claims =
     bindr (ok_or (claims_to_vec env claims) InvalidCursor) (\<lambda>payload.
     bindr (ok_or (hmac_sha256 env secret payload) InvalidConfiguration) (\<lambda>mac.
     Ok (b64_encode env payload @ ''.'' @ b64_encode env mac)))"

definition MAX_CURSOR_BYTES :: nat where "MAX_CURSOR_BYTES = 2048"
definition MAX_PAYLOAD_ENCODED_BYTES :: nat where "MAX_PAYLOAD_ENCODED_BYTES = 1900"
definition MAX_PAYLOAD_BYTES :: nat where "MAX_PAYLOAD_BYTES = 1024"

definition codec_decode :: "sync_env \<Rightarrow> string \<Rightarrow> opaque_cursor \<Rightarrow> sync_error + cursor_claims" where
  "codec_decode env secret cursor =
     bindr (require (length cursor \<le> MAX_CURSOR_BYTES) InvalidCursor) (\<lambda>_.
     bindr (ok_or (split_once (CHR ''.'') cursor) InvalidCursor) (\<lambda>(payload, signature).
     bindr (require (length payload \<le> MAX_PAYLOAD_ENCODED_BYTES \<and> length signature = 43) InvalidCursor) (\<lambda>_.
     bindr (ok_or (b64_decode env payload) InvalidCursor) (\<lambda>payload.
     bindr (require (length payload \<le> MAX_PAYLOAD_BYTES) InvalidCursor) (\<lambda>_.
     bindr (ok_or (b64_decode env signature) InvalidCursor) (\<lambda>signature.
     bindr (require (length signature = 32) InvalidCursor) (\<lambda>_.
     bindr (ok_or (hmac_sha256 env secret payload) InvalidConfiguration) (\<lambda>mac.
     bindr (require (mac = signature) InvalidCursor) (\<lambda>_.
     ok_or (claims_from_slice env payload) InvalidCursor)))))))))"

section \<open>Construction, validation, checkpoints\<close>

definition config_rejected :: "string \<Rightarrow> nat \<Rightarrow> string \<Rightarrow> sync_config \<Rightarrow> bool" where
  "config_rejected project_id schema_version secret config =
     (project_id = '''' \<or> schema_version = 0 \<or> length secret < 32
      \<or> cursor_ttl_ms config \<le> 0
      \<or> change_retention_ms config \<le> 0
      \<or> tombstone_retention_ms config < change_retention_ms config
      \<or> max_pull_events config = 0
      \<or> max_push_mutations config = 0
      \<or> idempotency_retention_ms config \<le> 0
      \<or> max_idempotency_records config = 0)"

definition initial_state :: engine_state where
  "initial_state =
     \<lparr>next_sequence = 1, minimum_available_sequence = 0, transaction_counter = 1,
      es_rows = [], es_events = [], es_idempotency = []\<rparr>"

definition engine_new :: "string \<Rightarrow> nat \<Rightarrow> string \<Rightarrow> sync_config \<Rightarrow> sync_error + sync_engine" where
  "engine_new project_id schema_version secret config =
     (if config_rejected project_id schema_version secret config
      then Err InvalidConfiguration
      else Ok \<lparr>en_project_id = project_id, en_schema_version = schema_version,
               en_config = config, en_secret = secret, en_state = initial_state\<rparr>)"

definition CHECKPOINT_FORMAT_VERSION :: nat where "CHECKPOINT_FORMAT_VERSION = 1"
definition MAX_CHECKPOINT_BYTES :: nat where "MAX_CHECKPOINT_BYTES = 256 * 1024 * 1024"

definition checkpoint_from_bytes :: "string \<Rightarrow> sync_error + string" where
  "checkpoint_from_bytes bytes =
     (if bytes = [] \<or> length bytes > MAX_CHECKPOINT_BYTES then Err InvalidCheckpoint else Ok bytes)"

definition checkpoint :: "sync_env \<Rightarrow> sync_engine \<Rightarrow> sync_error + string" where
  "checkpoint env eng =
     bindr (ok_or (envelope_to_vec env
              \<lparr>ce_format_version = CHECKPOINT_FORMAT_VERSION, ce_project_id = en_project_id eng,
               ce_schema_version = en_schema_version eng, ce_state = en_state eng\<rparr>)
            InvalidCheckpoint)
       checkpoint_from_bytes"

fun events_ordered :: "nat \<Rightarrow> nat \<Rightarrow> logical_event list \<Rightarrow> bool" where
  "events_ordered prior bound [] = True"
| "events_ordered prior bound (e # es) =
     (\<not> (event_sequence e \<le> prior \<or> event_sequence e \<ge> bound)
      \<and> events_ordered (event_sequence e) bound es)"

definition row_rejected :: "nat \<Rightarrow> string \<Rightarrow> stored_row \<Rightarrow> bool" where
  "row_rejected bound key row =
     (CHR 0x1F \<notin> set key \<or> sr_server_sequence row = 0 \<or> sr_server_sequence row \<ge> bound
      \<or> sr_row_version row = 0)"

definition record_rejected :: "nat \<Rightarrow> idempotency_record \<Rightarrow> bool" where
  "record_rejected bound record =
     (mr_sequence (ir_receipt record) = 0 \<or> mr_sequence (ir_receipt record) \<ge> bound)"

definition validate_state :: "engine_state \<Rightarrow> sync_config \<Rightarrow> sync_error + unit" where
  "validate_state st config =
     (if next_sequence st = 0
         \<or> minimum_available_sequence st > saturating_sub_u64 (next_sequence st) 1
         \<or> length (es_idempotency st) > max_idempotency_records config
      then Err InvalidCheckpoint
      else if \<not> events_ordered 0 (next_sequence st) (es_events st)
      then Err InvalidCheckpoint
      else if list_ex (\<lambda>(key, row). row_rejected (next_sequence st) key row) (es_rows st)
              \<or> list_ex (\<lambda>(_, record). record_rejected (next_sequence st) record) (es_idempotency st)
      then Err InvalidCheckpoint
      else Ok ())"

definition restore :: "sync_env \<Rightarrow> string \<Rightarrow> string \<Rightarrow> sync_config \<Rightarrow> string \<Rightarrow> sync_error + sync_engine" where
  "restore env project_id secret config bytes =
     bindr (ok_or (envelope_from_slice env bytes) InvalidCheckpoint) (\<lambda>envelope.
     if ce_format_version envelope \<noteq> CHECKPOINT_FORMAT_VERSION
        \<or> ce_project_id envelope \<noteq> project_id
        \<or> ce_schema_version envelope = 0
     then Err InvalidCheckpoint
     else bindr (validate_state (ce_state envelope) config) (\<lambda>_.
          bindr (engine_new project_id (ce_schema_version envelope) secret config) (\<lambda>engine.
          Ok (engine\<lparr>en_state := ce_state envelope\<rparr>))))"

section \<open>Context, cursors, counters\<close>

definition verify_context :: "sync_engine \<Rightarrow> sync_context \<Rightarrow> sync_error + unit" where
  "verify_context eng ctx =
     (if ctx_project_id ctx \<noteq> en_project_id eng then Err WrongProject
      else if ctx_subject ctx = '''' \<or> ctx_role ctx = '''' \<or> ctx_scope_fingerprint ctx = ''''
              \<or> ctx_trusted_client_id ctx = '''' \<or> length (ctx_trusted_client_id ctx) > 200
      then Err InvalidContext
      else Ok ())"

definition cursor_claims_for :: "sync_engine \<Rightarrow> sync_context \<Rightarrow> nat \<Rightarrow> int \<Rightarrow> cursor_claims" where
  "cursor_claims_for eng ctx sequence now_ms =
     \<lparr>cc_project_id = en_project_id eng, cc_subject = ctx_subject ctx,
      cc_trusted_client_id = ctx_trusted_client_id ctx, cc_sequence = sequence,
      cc_schema_version = en_schema_version eng,
      cc_scope_fingerprint = ctx_scope_fingerprint ctx,
      cc_issued_at_ms = now_ms,
      cc_expires_at_ms = saturating_add_i64 now_ms (cursor_ttl_ms (en_config eng))\<rparr>"

definition engine_cursor ::
    "sync_env \<Rightarrow> sync_engine \<Rightarrow> sync_context \<Rightarrow> nat \<Rightarrow> int \<Rightarrow> sync_error + opaque_cursor" where
  "engine_cursor env eng ctx sequence now_ms =
     codec_encode env (en_secret eng) (cursor_claims_for eng ctx sequence now_ms)"

definition allocate_sequence :: "engine_state \<Rightarrow> nat \<times> engine_state" where
  "allocate_sequence st =
     (next_sequence st, st\<lparr>next_sequence := saturating_add_u64 (next_sequence st) 1\<rparr>)"

definition latest_sequence :: "sync_engine \<Rightarrow> nat" where
  "latest_sequence eng = saturating_sub_u64 (next_sequence (en_state eng)) 1"

definition allocate_transaction_id :: "sync_engine \<Rightarrow> string \<times> sync_engine" where
  "allocate_transaction_id eng =
     (''tx-'' @ show_nat (transaction_counter (en_state eng)),
      eng\<lparr>en_state := (en_state eng)\<lparr>transaction_counter :=
             saturating_add_u64 (transaction_counter (en_state eng)) 1\<rparr>\<rparr>)"

section \<open>Snapshot and pull\<close>

definition key_table :: "string \<Rightarrow> string" where
  "key_table key = (case split_once (CHR 0x1F) key of Some (table, _) \<Rightarrow> table | None \<Rightarrow> '''')"

definition snapshot_row ::
    "sync_authorizer \<Rightarrow> sync_context \<Rightarrow> string \<times> stored_row \<Rightarrow> replica_row option" where
  "snapshot_row auth ctx entry =
     (case entry of (key, row) \<Rightarrow>
        if sr_deleted_at_ms row \<noteq> None then None
        else if can_read auth ctx (key_table key) (sr_values row)
        then Some \<lparr>rr_table = key_table key, rr_primary_key = sr_primary_key row,
                   rr_values = sr_values row, rr_row_version = sr_row_version row,
                   rr_server_sequence = sr_server_sequence row\<rparr>
        else None)"

definition snapshot ::
    "sync_env \<Rightarrow> sync_authorizer \<Rightarrow> sync_engine \<Rightarrow> sync_context \<Rightarrow> int \<Rightarrow> sync_error + sync_snapshot" where
  "snapshot env auth eng ctx now_ms =
     bindr (verify_context eng ctx) (\<lambda>_.
     let rows = List.map_filter (snapshot_row auth ctx) (es_rows (en_state eng));
         sorted_rows = sort_key (\<lambda>r. (rr_table r, rr_server_sequence r)) rows
     in bindr (engine_cursor env eng ctx (latest_sequence eng) now_ms) (\<lambda>cursor.
        Ok \<lparr>sn_schema_version = en_schema_version eng, sn_rows = sorted_rows, sn_cursor = cursor\<rparr>))"

fun is_visible :: "sync_authorizer \<Rightarrow> sync_context \<Rightarrow> logical_event \<Rightarrow> bool" where
  "is_visible auth ctx (EvUpsert _ table _ values _ _) = can_read auth ctx table values"
| "is_visible auth ctx (EvDelete _ table _ tombstone _ _) = can_read auth ctx table tombstone"
| "is_visible auth ctx (EvResnapshotRequired _ _ _ _) = True"

text \<open>
  The loop of \<open>pull\<close> over the events after the cursor: the accumulated events, the last examined
  sequence and \<open>has_more\<close>.
\<close>

fun pull_loop ::
    "(logical_event \<Rightarrow> bool) \<Rightarrow> nat \<Rightarrow> logical_event list \<Rightarrow> logical_event list \<Rightarrow> nat
     \<Rightarrow> logical_event list \<times> nat \<times> bool" where
  "pull_loop visible limit [] acc examined = (acc, examined, False)"
| "pull_loop visible limit (e # es) acc examined =
     (if visible e
      then (if length acc = limit then (acc, event_sequence e, True)
            else pull_loop visible limit es (acc @ [e]) (event_sequence e))
      else pull_loop visible limit es acc (event_sequence e))"

definition check_claims ::
    "sync_engine \<Rightarrow> sync_context \<Rightarrow> cursor_claims \<Rightarrow> int \<Rightarrow> sync_error + unit" where
  "check_claims eng ctx claims now_ms =
     (if cc_project_id claims \<noteq> en_project_id eng then Err WrongProject
      else if cc_subject claims \<noteq> ctx_subject ctx
              \<or> cc_trusted_client_id claims \<noteq> ctx_trusted_client_id ctx then Err InvalidCursor
      else if now_ms < cc_issued_at_ms claims then Err InvalidCursor
      else if now_ms \<ge> cc_expires_at_ms claims then Err (ResnapshotRequired CursorExpired)
      else if cc_schema_version claims \<noteq> en_schema_version eng
      then Err (ResnapshotRequired SchemaChanged)
      else if cc_scope_fingerprint claims \<noteq> ctx_scope_fingerprint ctx
      then Err (ResnapshotRequired AuthorizationChanged)
      else if cc_sequence claims < minimum_available_sequence (en_state eng)
      then Err (ResnapshotRequired CursorExpired)
      else Ok ())"

definition clamp_nat :: "nat \<Rightarrow> nat \<Rightarrow> nat \<Rightarrow> nat" where
  "clamp_nat x lo hi = (if x < lo then lo else if x > hi then hi else x)"

definition pull ::
    "sync_env \<Rightarrow> sync_authorizer \<Rightarrow> sync_engine \<Rightarrow> sync_context \<Rightarrow> opaque_cursor \<Rightarrow> nat \<Rightarrow> int
     \<Rightarrow> sync_error + pull_result" where
  "pull env auth eng ctx cursor requested_limit now_ms =
     bindr (verify_context eng ctx) (\<lambda>_.
     bindr (codec_decode env (en_secret eng) cursor) (\<lambda>claims.
     bindr (check_claims eng ctx claims now_ms) (\<lambda>_.
     let limit = clamp_nat requested_limit 1 (max_pull_events (en_config eng)) in
     case pull_loop (is_visible auth ctx) limit
            (filter (\<lambda>e. event_sequence e > cc_sequence claims) (es_events (en_state eng)))
            [] (cc_sequence claims) of
       (events, examined, has_more) \<Rightarrow>
         let examined_sequence = (if has_more then examined else latest_sequence eng) in
         bindr (engine_cursor env eng ctx examined_sequence now_ms) (\<lambda>next_cursor.
         Ok \<lparr>pl_events = events, pl_cursor = next_cursor, pl_has_more = has_more\<rparr>))))"

section \<open>Mutations and push\<close>

definition validate_mutation :: "client_mutation \<Rightarrow> sync_error + unit" where
  "validate_mutation m =
     (if cm_mutation_id m = '''' \<or> length (cm_mutation_id m) > 200
         \<or> cm_table m = '''' \<or> starts_with (cm_table m) ''__ffdb_''
         \<or> \<not> list_all (\<lambda>c. is_ascii_alphanumeric c \<or> c = CHR ''_'') (cm_table m)
         \<or> cm_primary_key m = JNull
         \<or> (cm_operation m = OpUpsert \<and> cm_values m = [])
      then Err InvalidMutation
      else Ok ())"

definition row_key :: "sync_env \<Rightarrow> string \<Rightarrow> json \<Rightarrow> sync_error + string" where
  "row_key env table primary_key =
     bindr (ok_or (value_to_string env primary_key) InvalidMutation) (\<lambda>pk.
     Ok (table @ [CHR 0x1F] @ pk))"

definition idempotency_key :: "sync_context \<Rightarrow> client_mutation \<Rightarrow> string" where
  "idempotency_key ctx m =
     ctx_subject ctx @ [CHR 0x1F] @ ctx_trusted_client_id ctx @ [CHR 0x1F] @ cm_mutation_id m"

definition purge_idempotency :: "sync_engine \<Rightarrow> int \<Rightarrow> sync_engine" where
  "purge_idempotency eng now_ms =
     (let cutoff = saturating_sub_i64 now_ms (idempotency_retention_ms (en_config eng)) in
      eng\<lparr>en_state := (en_state eng)\<lparr>es_idempotency :=
             hm_retain (\<lambda>_ record. ir_committed_at_ms record \<ge> cutoff) (es_idempotency (en_state eng))\<rparr>\<rparr>)"

text \<open>
  The last part of \<open>apply_mutation\<close>, from the row version on: allocate the sequence, write the row
  or tombstone, append the event and record the receipt.
\<close>

definition mutation_row ::
    "client_mutation \<Rightarrow> stored_row option \<Rightarrow> nat \<Rightarrow> nat \<Rightarrow> int \<Rightarrow> stored_row" where
  "mutation_row m prior row_version sequence now_ms =
     (case cm_operation m of
        OpUpsert \<Rightarrow>
          \<lparr>sr_primary_key = cm_primary_key m, sr_values = cm_values m, sr_row_version = row_version,
           sr_server_sequence = sequence, sr_deleted_at_ms = None\<rparr>
      | OpDelete \<Rightarrow>
          \<lparr>sr_primary_key = cm_primary_key m,
           sr_values = (case prior of Some row \<Rightarrow> sr_values row | None \<Rightarrow> []),
           sr_row_version = row_version,
           sr_server_sequence = sequence, sr_deleted_at_ms = Some now_ms\<rparr>)"

definition mutation_event ::
    "sync_engine \<Rightarrow> sync_context \<Rightarrow> string \<Rightarrow> client_mutation \<Rightarrow> stored_row option \<Rightarrow> nat \<Rightarrow> nat \<Rightarrow> int
     \<Rightarrow> logical_event" where
  "mutation_event eng ctx transaction_id m prior row_version sequence now_ms =
     (let meta = \<lparr>em_transaction_id = transaction_id, em_row_version = row_version,
                  em_actor = ctx_subject ctx, em_schema_version = en_schema_version eng,
                  em_client_mutation_id = Some (cm_mutation_id m)\<rparr>
      in case cm_operation m of
           OpUpsert \<Rightarrow> EvUpsert sequence (cm_table m) (cm_primary_key m) (cm_values m) meta now_ms
         | OpDelete \<Rightarrow> EvDelete sequence (cm_table m) (cm_primary_key m)
                        (case prior of Some row \<Rightarrow> sr_values row | None \<Rightarrow> []) meta now_ms)"

definition commit_mutation ::
    "sync_engine \<Rightarrow> sync_context \<Rightarrow> string \<Rightarrow> client_mutation \<Rightarrow> string \<Rightarrow> string \<Rightarrow> stored_row option \<Rightarrow> int
     \<Rightarrow> mutation_receipt \<times> sync_engine" where
  "commit_mutation eng ctx transaction_id m payload_hash rkey prior now_ms =
     (let row_version = (case prior of Some row \<Rightarrow> saturating_add_u64 (sr_row_version row) 1 | None \<Rightarrow> 1);
          (sequence, st) = allocate_sequence (en_state eng);
          receipt = \<lparr>mr_mutation_id = cm_mutation_id m, mr_sequence = sequence,
                     mr_row_version = row_version, mr_outcome = Applied\<rparr>;
          record = \<lparr>ir_payload_hash = payload_hash, ir_receipt = receipt,
                    ir_committed_at_ms = now_ms\<rparr>
      in (receipt,
          eng\<lparr>en_state := st\<lparr>
            es_rows := hm_insert rkey (mutation_row m prior row_version sequence now_ms) (es_rows st),
            es_events := es_events st @
              [mutation_event eng ctx transaction_id m prior row_version sequence now_ms],
            es_idempotency := hm_insert (idempotency_key ctx m) record (es_idempotency st)\<rparr>\<rparr>))"

definition authorization_row :: "client_mutation \<Rightarrow> stored_row option \<Rightarrow> json_map" where
  "authorization_row m prior =
     (if cm_operation m = OpDelete
      then (case prior of Some row \<Rightarrow> sr_values row | None \<Rightarrow> cm_values m)
      else cm_values m)"

definition apply_mutation ::
    "sync_env \<Rightarrow> sync_authorizer \<Rightarrow> sync_engine \<Rightarrow> sync_context \<Rightarrow> string \<Rightarrow> client_mutation \<Rightarrow> int
     \<Rightarrow> (sync_error + mutation_receipt) \<times> sync_engine" where
  "apply_mutation env auth eng ctx transaction_id m now_ms =
     (case bindr (validate_mutation m) (\<lambda>_.
           bindr (ok_or (mutation_to_vec env m) InvalidMutation) (\<lambda>payload.
           bindr (row_key env (cm_table m) (cm_primary_key m)) (\<lambda>rkey.
           Ok (sha256 env payload, rkey)))) of
        Inl e \<Rightarrow> (Err e, eng)
      | Inr (payload_hash, rkey) \<Rightarrow>
          let prior = hm_get (es_rows (en_state eng)) rkey in
          if \<not> can_write auth ctx (cm_table m) (cm_operation m) (authorization_row m prior)
          then (Err RlsDenied, eng)
          else case hm_get (es_idempotency (en_state eng)) (idempotency_key ctx m) of
              Some record \<Rightarrow>
                if ir_payload_hash record \<noteq> payload_hash then (Err MutationIdReused, eng)
                else (Ok ((ir_receipt record)\<lparr>mr_outcome := AlreadyApplied\<rparr>), eng)
            | None \<Rightarrow>
                let eng' = purge_idempotency eng now_ms in
                if length (es_idempotency (en_state eng')) \<ge> max_idempotency_records (en_config eng')
                then (Err IdempotencyCapacityReached, eng')
                else (case commit_mutation eng' ctx transaction_id m payload_hash rkey prior now_ms of
                        (receipt, eng'') \<Rightarrow> (Ok receipt, eng'')))"

definition validate_batch :: "push_batch \<Rightarrow> sync_context \<Rightarrow> nat \<Rightarrow> nat \<Rightarrow> sync_error + unit" where
  "validate_batch batch ctx schema_version max_mutations =
     (if pb_schema_version batch \<noteq> schema_version
      then Err (SchemaMismatch schema_version (pb_schema_version batch))
      else if pb_client_id batch = ''''
              \<or> pb_client_id batch \<noteq> ctx_trusted_client_id ctx
              \<or> pb_mutations batch = []
              \<or> length (pb_mutations batch) > max_mutations
      then Err InvalidBatch
      else Ok ())"

fun apply_batch_loop ::
    "sync_env \<Rightarrow> sync_authorizer \<Rightarrow> sync_context \<Rightarrow> string \<Rightarrow> int \<Rightarrow> client_mutation list
     \<Rightarrow> sync_engine \<Rightarrow> (sync_error + mutation_receipt list) \<times> sync_engine" where
  "apply_batch_loop env auth ctx tx now_ms [] eng = (Ok [], eng)"
| "apply_batch_loop env auth ctx tx now_ms (m # ms) eng =
     (case apply_mutation env auth eng ctx tx m now_ms of
        (Inl e, eng') \<Rightarrow> (Err e, eng')
      | (Inr receipt, eng') \<Rightarrow>
          (case apply_batch_loop env auth ctx tx now_ms ms eng' of
             (Inl e, eng'') \<Rightarrow> (Err e, eng'')
           | (Inr receipts, eng'') \<Rightarrow> (Ok (receipt # receipts), eng'')))"

definition apply_batch ::
    "sync_env \<Rightarrow> sync_authorizer \<Rightarrow> sync_engine \<Rightarrow> sync_context \<Rightarrow> push_batch \<Rightarrow> int
     \<Rightarrow> (sync_error + push_result) \<times> sync_engine" where
  "apply_batch env auth eng ctx batch now_ms =
     (case allocate_transaction_id eng of (tx, eng1) \<Rightarrow>
        case apply_batch_loop env auth ctx tx now_ms (pb_mutations batch) eng1 of
          (Inl e, eng2) \<Rightarrow> (Err e, eng2)
        | (Inr accepted, eng2) \<Rightarrow>
            (bindr (engine_cursor env eng2 ctx (latest_sequence eng2) now_ms) (\<lambda>cursor.
               Ok \<lparr>pr_accepted = accepted, pr_rejected = [], pr_cursor = cursor\<rparr>), eng2))"

fun apply_partial_loop ::
    "sync_env \<Rightarrow> sync_authorizer \<Rightarrow> sync_context \<Rightarrow> string \<Rightarrow> int \<Rightarrow> client_mutation list
     \<Rightarrow> sync_engine \<Rightarrow> (mutation_receipt list \<times> mutation_failure list) \<times> sync_engine" where
  "apply_partial_loop env auth ctx tx now_ms [] eng = (([], []), eng)"
| "apply_partial_loop env auth ctx tx now_ms (m # ms) eng =
     (case apply_mutation env auth eng ctx tx m now_ms of
        (r, eng') \<Rightarrow>
          (case apply_partial_loop env auth ctx tx now_ms ms eng' of
             ((accepted, rejected), eng'') \<Rightarrow>
               (case r of
                  Inr receipt \<Rightarrow> ((receipt # accepted, rejected), eng'')
                | Inl e \<Rightarrow>
                    ((accepted,
                      \<lparr>mf_mutation_id = cm_mutation_id m, mf_code = sync_error_code e\<rparr> # rejected),
                     eng''))))"

definition apply_partial ::
    "sync_env \<Rightarrow> sync_authorizer \<Rightarrow> sync_engine \<Rightarrow> sync_context \<Rightarrow> push_batch \<Rightarrow> int
     \<Rightarrow> (sync_error + push_result) \<times> sync_engine" where
  "apply_partial env auth eng ctx batch now_ms =
     (case allocate_transaction_id eng of (tx, eng1) \<Rightarrow>
        case apply_partial_loop env auth ctx tx now_ms (pb_mutations batch) eng1 of
          ((accepted, rejected), eng2) \<Rightarrow>
            (bindr (engine_cursor env eng2 ctx (latest_sequence eng2) now_ms) (\<lambda>cursor.
               Ok \<lparr>pr_accepted = accepted, pr_rejected = rejected, pr_cursor = cursor\<rparr>), eng2))"

definition push ::
    "sync_env \<Rightarrow> sync_authorizer \<Rightarrow> sync_engine \<Rightarrow> sync_context \<Rightarrow> push_batch \<Rightarrow> int
     \<Rightarrow> (sync_error + push_result) \<times> sync_engine" where
  "push env auth eng ctx batch now_ms =
     (case bindr (verify_context eng ctx) (\<lambda>_.
           validate_batch batch ctx (en_schema_version eng) (max_push_mutations (en_config eng))) of
        Inl e \<Rightarrow> (Err e, eng)
      | Inr _ \<Rightarrow>
          (case pb_mode batch of
             Atomic \<Rightarrow>
               (case apply_batch env auth eng ctx batch now_ms of
                  (Inl e, eng') \<Rightarrow> (Err e, eng'\<lparr>en_state := en_state eng\<rparr>)
                | (Inr result, eng') \<Rightarrow> (Ok result, eng'))
           | Partial \<Rightarrow> apply_partial env auth eng ctx batch now_ms))"

section \<open>Invalidation and compaction\<close>

definition invalidate ::
    "sync_engine \<Rightarrow> resnapshot_reason \<Rightarrow> nat option \<Rightarrow> int \<Rightarrow> (sync_error + nat) \<times> sync_engine" where
  "invalidate eng reason new_schema_version now_ms =
     (case (case new_schema_version of
              None \<Rightarrow> Ok eng
            | Some version \<Rightarrow>
                if version \<le> en_schema_version eng then Err InvalidSchemaVersion
                else Ok (eng\<lparr>en_schema_version := version\<rparr>)) of
        Inl e \<Rightarrow> (Err e, eng)
      | Inr eng1 \<Rightarrow>
          (case allocate_sequence (en_state eng1) of (sequence, st) \<Rightarrow>
             (Ok sequence,
              eng1\<lparr>en_state := st\<lparr>es_events := es_events st @
                [EvResnapshotRequired sequence reason (en_schema_version eng1) now_ms]\<rparr>\<rparr>)))"

record compaction_result =
  removed_events :: nat
  removed_tombstones :: nat
  cr_minimum_available_sequence :: nat

fun compact_minimum :: "int \<Rightarrow> nat \<Rightarrow> logical_event list \<Rightarrow> nat" where
  "compact_minimum cutoff minimum [] = minimum"
| "compact_minimum cutoff minimum (e # es) =
     compact_minimum cutoff
       (if committed_at_ms e \<ge> cutoff then minimum else max minimum (event_sequence e)) es"

definition compact :: "sync_engine \<Rightarrow> int \<Rightarrow> compaction_result \<times> sync_engine" where
  "compact eng now_ms =
     (let st = en_state eng;
          change_cutoff = saturating_sub_i64 now_ms (change_retention_ms (en_config eng));
          tombstone_cutoff = saturating_sub_i64 now_ms (tombstone_retention_ms (en_config eng));
          idempotency_cutoff = saturating_sub_i64 now_ms (idempotency_retention_ms (en_config eng));
          kept = filter (\<lambda>e. committed_at_ms e \<ge> change_cutoff) (es_events st);
          minimum = compact_minimum change_cutoff (minimum_available_sequence st) (es_events st);
          rows = hm_retain (\<lambda>_ row. case sr_deleted_at_ms row of
                    None \<Rightarrow> True | Some deleted_at \<Rightarrow> deleted_at \<ge> tombstone_cutoff) (es_rows st);
          idem = hm_retain (\<lambda>_ record. ir_committed_at_ms record \<ge> idempotency_cutoff) (es_idempotency st)
      in (\<lparr>removed_events = length (es_events st) - length kept,
           removed_tombstones = saturating_sub_u64 (length (es_rows st)) (length rows),
           cr_minimum_available_sequence = minimum\<rparr>,
          eng\<lparr>en_state := st\<lparr>es_events := kept, minimum_available_sequence := minimum,
             es_rows := rows, es_idempotency := idem\<rparr>\<rparr>))"

end
