(* ===== verification/Sync_Invariant.thy ===== *)
theory Sync_Invariant
  imports Sync_Engine
begin

text \<open>
  The well-formedness of the replication engine: what \<open>validate_state\<close> demands of a restored
  checkpoint is an invariant of every engine built by \<open>SyncEngine::new\<close>, as long as the 64-bit
  sequence counter has not saturated. One preservation lemma per operation, assembled by the
  step relation \<open>engine_step\<close> and the interpretation of \<open>monotone_system\<close>.
\<close>

section \<open>What \<open>validate_state\<close> checks\<close>

lemma events_ordered_iff:
  "events_ordered p b es \<longleftrightarrow>
     sorted_wrt (<) (map event_sequence es) \<and> (\<forall>e \<in> set es. p < event_sequence e \<and> event_sequence e < b)"
  by (induction es arbitrary: p) fastforce+

definition state_valid :: "engine_state \<Rightarrow> sync_config \<Rightarrow> bool" where
  "state_valid st config \<longleftrightarrow>
     0 < next_sequence st
     \<and> minimum_available_sequence st < next_sequence st
     \<and> length (es_idempotency st) \<le> max_idempotency_records config
     \<and> events_ordered 0 (next_sequence st) (es_events st)
     \<and> list_all (\<lambda>(k, row). \<not> row_rejected (next_sequence st) k row) (es_rows st)
     \<and> list_all (\<lambda>(k, record). \<not> record_rejected (next_sequence st) record) (es_idempotency st)"

lemma validate_state_Ok: "validate_state st config = Ok () \<longleftrightarrow> state_valid st config"
  by (auto simp: validate_state_def state_valid_def list_ex_iff list_all_iff split: prod.splits)

section \<open>The engine invariant\<close>

definition engine_inv :: "sync_engine \<Rightarrow> bool" where
  "engine_inv eng \<longleftrightarrow>
     \<not> config_rejected (en_project_id eng) (en_schema_version eng) (en_secret eng) (en_config eng)
     \<and> 0 < next_sequence (en_state eng) \<and> next_sequence (en_state eng) \<le> u64_max
     \<and> hm_wf (es_rows (en_state eng))
     \<and> hm_wf (es_idempotency (en_state eng))
     \<and> (next_sequence (en_state eng) < u64_max \<longrightarrow> state_valid (en_state eng) (en_config eng))"

lemma engine_invI:
  assumes "\<not> config_rejected (en_project_id eng) (en_schema_version eng) (en_secret eng) (en_config eng)"
    and "0 < next_sequence (en_state eng)" and "next_sequence (en_state eng) \<le> u64_max"
    and "hm_wf (es_rows (en_state eng))" and "hm_wf (es_idempotency (en_state eng))"
    and "next_sequence (en_state eng) < u64_max \<Longrightarrow> state_valid (en_state eng) (en_config eng)"
  shows "engine_inv eng"
  using assms by (simp add: engine_inv_def)

lemma engine_new_inv: "engine_new p v s c = Ok eng \<Longrightarrow> engine_inv eng"
  by (auto simp: engine_new_def engine_inv_def initial_state_def state_valid_def split: if_splits)

lemma saturating_succ_less:
  "saturating_add_u64 n 1 < u64_max \<Longrightarrow> n < u64_max \<and> saturating_add_u64 n 1 = Suc n"
  by (simp add: saturating_add_u64_def min_def split: if_splits)

lemma saturating_succ_ge: "n \<le> u64_max \<Longrightarrow> n \<le> saturating_add_u64 n 1"
  by (simp add: saturating_add_u64_def)

lemma purge_idempotency_inv: "engine_inv eng \<Longrightarrow> engine_inv (purge_idempotency eng now)"
proof (rule engine_invI)
  assume inv: "engine_inv eng"
  let ?eng = "purge_idempotency eng now"
  show "\<not> config_rejected (en_project_id ?eng) (en_schema_version ?eng) (en_secret ?eng) (en_config ?eng)"
    and "0 < next_sequence (en_state ?eng)" "next_sequence (en_state ?eng) \<le> u64_max"
    and "hm_wf (es_rows (en_state ?eng))"
    using inv by (simp_all add: engine_inv_def purge_idempotency_def Let_def)
  show "hm_wf (es_idempotency (en_state ?eng))"
    using inv by (simp add: engine_inv_def purge_idempotency_def Let_def hm_wf_retain)
  assume "next_sequence (en_state ?eng) < u64_max"
  with inv have "state_valid (en_state eng) (en_config eng)"
    by (simp add: engine_inv_def purge_idempotency_def Let_def)
  then show "state_valid (en_state ?eng) (en_config ?eng)"
    by (simp add: state_valid_def purge_idempotency_def Let_def
        order_trans [OF hm_length_retain])
qed

lemma events_ordered_snoc:
  assumes "events_ordered 0 b es" and "event_sequence e = b" and "0 < b"
  shows "events_ordered 0 (Suc b) (es @ [e])"
  using assms by (fastforce simp: events_ordered_iff sorted_wrt_append)

lemma event_sequence_mutation_event [simp]:
  "event_sequence (mutation_event eng ctx tx m prior v s now) = s"
  by (simp add: mutation_event_def Let_def split: mutation_operation.split)

lemma row_key_Ok: "row_key env t pk = Ok k \<Longrightarrow> \<exists>s. k = t @ CHR 0x1F # s"
  by (auto simp: row_key_def ffdb_result)

lemma rows_accepted_mono:
  "list_all (\<lambda>(k, row). \<not> row_rejected b k row) m \<Longrightarrow> b \<le> b' \<Longrightarrow>
   list_all (\<lambda>(k, row). \<not> row_rejected b' k row) m"
  by (induction m) (auto simp: row_rejected_def)

lemma records_accepted_mono:
  "list_all (\<lambda>(k, record). \<not> record_rejected b record) m \<Longrightarrow> b \<le> b' \<Longrightarrow>
   list_all (\<lambda>(k, record). \<not> record_rejected b' record) m"
  by (induction m) (auto simp: record_rejected_def)

lemma mutation_row_accepted:
  assumes "0 < v" and "0 < s" and "s < b" and "CHR 0x1F \<in> set k"
  shows "\<not> row_rejected b k (mutation_row m prior v s now)"
  using assms by (simp add: row_rejected_def mutation_row_def split: mutation_operation.split)

text \<open>The state after a commit, read off the definition once.\<close>

lemma commit_mutation_state:
  assumes "commit_mutation eng ctx tx m h k prior now = (receipt, eng')"
  obtains v s where "s = next_sequence (en_state eng)" and "0 < v"
    and "receipt = \<lparr>mr_mutation_id = cm_mutation_id m, mr_sequence = s, mr_row_version = v, mr_outcome = Applied\<rparr>"
    and "eng' = eng\<lparr>en_state := (en_state eng)\<lparr>
          next_sequence := saturating_add_u64 s 1,
          es_rows := hm_insert k (mutation_row m prior v s now) (es_rows (en_state eng)),
          es_events := es_events (en_state eng) @ [mutation_event eng ctx tx m prior v s now],
          es_idempotency := hm_insert (idempotency_key ctx m)
             \<lparr>ir_payload_hash = h, ir_receipt = receipt, ir_committed_at_ms = now\<rparr>
             (es_idempotency (en_state eng))\<rparr>\<rparr>"
    and "v = (case prior of Some row \<Rightarrow> saturating_add_u64 (sr_row_version row) 1 | None \<Rightarrow> 1)"
proof -
  let ?v = "case prior of Some row \<Rightarrow> saturating_add_u64 (sr_row_version row) 1 | None \<Rightarrow> 1"
  have "0 < ?v"
    by (simp add: saturating_add_u64_def split: option.split)
  with assms that [of "next_sequence (en_state eng)" ?v] show thesis
    by (auto simp: commit_mutation_def allocate_sequence_def Let_def)
qed

lemma commit_mutation_inv:
  assumes inv: "engine_inv eng" and key: "CHR 0x1F \<in> set k"
    and room: "length (es_idempotency (en_state eng)) < max_idempotency_records (en_config eng)"
    and commit: "commit_mutation eng ctx tx m h k prior now = (receipt, eng')"
  shows "engine_inv eng'"
proof -
  from commit obtain v s where s: "s = next_sequence (en_state eng)" and v: "0 < v"
    and receipt: "receipt = \<lparr>mr_mutation_id = cm_mutation_id m, mr_sequence = s, mr_row_version = v, mr_outcome = Applied\<rparr>"
    and eng': "eng' = eng\<lparr>en_state := (en_state eng)\<lparr>
          next_sequence := saturating_add_u64 s 1,
          es_rows := hm_insert k (mutation_row m prior v s now) (es_rows (en_state eng)),
          es_events := es_events (en_state eng) @ [mutation_event eng ctx tx m prior v s now],
          es_idempotency := hm_insert (idempotency_key ctx m)
             \<lparr>ir_payload_hash = h, ir_receipt = receipt, ir_committed_at_ms = now\<rparr>
             (es_idempotency (en_state eng))\<rparr>\<rparr>"
    by (rule commit_mutation_state)
  have s0: "0 < s" using inv s by (simp add: engine_inv_def)
  show ?thesis
  proof (rule engine_invI)
    show "\<not> config_rejected (en_project_id eng') (en_schema_version eng') (en_secret eng') (en_config eng')"
      using inv by (simp add: engine_inv_def eng')
    show "0 < next_sequence (en_state eng')" "next_sequence (en_state eng') \<le> u64_max"
      by (simp_all add: eng' saturating_add_u64_def)
    show "hm_wf (es_rows (en_state eng'))" "hm_wf (es_idempotency (en_state eng'))"
      using inv by (simp_all add: engine_inv_def eng' hm_wf_insert)
    assume "next_sequence (en_state eng') < u64_max"
    then have s': "s < u64_max" "saturating_add_u64 s 1 = Suc s"
      using saturating_succ_less [of s] by (simp_all add: eng')
    with inv s have valid: "state_valid (en_state eng) (en_config eng)"
      by (simp add: engine_inv_def)
    have rows: "list_all (\<lambda>(k, row). \<not> row_rejected (Suc s) k row) (es_rows (en_state eng'))"
    proof -
      have "list_all (\<lambda>(k, row). \<not> row_rejected (Suc s) k row) (es_rows (en_state eng))"
        using valid rows_accepted_mono [of s "es_rows (en_state eng)" "Suc s"] by (simp add: state_valid_def s)
      then show ?thesis
        using mutation_row_accepted [OF v s0 _ key, of "Suc s"] by (simp add: eng')
    qed
    have records: "list_all (\<lambda>(k, record). \<not> record_rejected (Suc s) record) (es_idempotency (en_state eng'))"
    proof -
      have "list_all (\<lambda>(k, record). \<not> record_rejected (Suc s) record) (es_idempotency (en_state eng))"
        using valid records_accepted_mono [of s "es_idempotency (en_state eng)" "Suc s"] by (simp add: state_valid_def s)
      then show ?thesis
        using s0 by (simp add: eng' record_rejected_def receipt)
    qed
    show "state_valid (en_state eng') (en_config eng')"
      using valid rows records room s0
      by (simp add: state_valid_def eng' s'(2) [simplified] s [symmetric] events_ordered_snoc
          hm_length_insert)
  qed
qed

section \<open>Every operation keeps it\<close>

text \<open>
  The outcomes of \<open>apply_mutation\<close>: refused with the engine unchanged or merely purged, answered
  from a stored receipt with the engine unchanged, or committed.
\<close>

lemma apply_mutation_cases [consumes 1, case_names Refused Full Replay Commit]:
  assumes "apply_mutation env auth eng ctx tx m now = (r, eng')"
  obtains (Refused) e where "r = Err e" "eng' = eng"
  | (Full) "r = Err IdempotencyCapacityReached" "eng' = purge_idempotency eng now"
  | (Replay) payload rcd where
      "hm_get (es_idempotency (en_state eng)) (idempotency_key ctx m) = Some rcd"
      "mutation_to_vec env m = Some payload" "ir_payload_hash rcd = sha256 env payload"
      "r = Ok ((ir_receipt rcd)\<lparr>mr_outcome := AlreadyApplied\<rparr>)" "eng' = eng"
  | (Commit) payload k receipt where
      "validate_mutation m = Ok ()" "mutation_to_vec env m = Some payload"
      "row_key env (cm_table m) (cm_primary_key m) = Ok k"
      "can_write auth ctx (cm_table m) (cm_operation m)
         (authorization_row m (hm_get (es_rows (en_state eng)) k))"
      "hm_get (es_idempotency (en_state eng)) (idempotency_key ctx m) = None"
      "length (es_idempotency (en_state (purge_idempotency eng now)))
         < max_idempotency_records (en_config eng)"
      "commit_mutation (purge_idempotency eng now) ctx tx m (sha256 env payload) k
         (hm_get (es_rows (en_state eng)) k) now = (receipt, eng')"
      "r = Ok receipt"
proof (cases "bindr (validate_mutation m) (\<lambda>_.
           bindr (ok_or (mutation_to_vec env m) InvalidMutation) (\<lambda>payload.
           bindr (row_key env (cm_table m) (cm_primary_key m)) (\<lambda>rkey.
           Ok (sha256 env payload, rkey))))")
  case (Inl e)
  with assms show thesis by (intro Refused) (auto simp: apply_mutation_def)
next
  case (Inr hk)
  then obtain payload k where pre: "validate_mutation m = Ok ()" "mutation_to_vec env m = Some payload"
      "row_key env (cm_table m) (cm_primary_key m) = Ok k" and hk: "hk = (sha256 env payload, k)"
    by (auto simp: ffdb_result)
  have config: "en_config (purge_idempotency eng now) = en_config eng"
    by (simp add: purge_idempotency_def Let_def)
  show thesis
  proof (cases "can_write auth ctx (cm_table m) (cm_operation m)
         (authorization_row m (hm_get (es_rows (en_state eng)) k))")
    case False
    with assms Inr hk show thesis by (intro Refused) (auto simp: apply_mutation_def Let_def)
  next
    case writable: True
    show thesis
    proof (cases "hm_get (es_idempotency (en_state eng)) (idempotency_key ctx m)")
      case (Some rcd)
      with assms Inr hk writable pre show thesis
        by (cases "ir_payload_hash rcd = sha256 env payload")
          (auto simp: apply_mutation_def Let_def intro: Refused Replay)
    next
      case None
      with assms Inr hk writable pre show thesis
        by (auto simp: apply_mutation_def Let_def config not_le split: if_splits prod.splits
            intro: Full Commit)
    qed
  qed
qed

lemma apply_mutation_inv:
  assumes "engine_inv eng" and "apply_mutation env auth eng ctx tx m now = (r, eng')"
  shows "engine_inv eng'"
  using assms(2)
proof (cases rule: apply_mutation_cases)
  case (Commit payload k receipt)
  have "CHR 0x1F \<in> set k"
    using row_key_Ok [OF Commit(3)] by auto
  moreover have "en_config (purge_idempotency eng now) = en_config eng"
    by (simp add: purge_idempotency_def Let_def)
  ultimately show ?thesis
    using commit_mutation_inv [OF purge_idempotency_inv [OF assms(1)] _ _ Commit(7)] Commit(6) by simp
qed (use assms(1) purge_idempotency_inv in auto)

text \<open>
  What one mutation keeps, the two loops keep: the induction over the batch is done once for any
  relation between the engine before and after that is reflexive and transitive.
\<close>

lemma apply_batch_loop_rel:
  assumes refl: "\<And>e. R e e" and trans: "\<And>a b c. R a b \<Longrightarrow> R b c \<Longrightarrow> R a c"
    and step: "\<And>e m r e'. apply_mutation env auth e ctx tx m now = (r, e') \<Longrightarrow> R e e'"
    and run: "apply_batch_loop env auth ctx tx now ms eng = (r, eng')"
  shows "R eng eng'"
  using run
proof (induction ms arbitrary: eng r eng')
  case Nil
  then show ?case using refl by simp
next
  case (Cons m ms)
  obtain r1 e1 where m: "apply_mutation env auth eng ctx tx m now = (r1, e1)" by force
  show ?case
  proof (cases r1)
    case (Inl e)
    with Cons.prems m show ?thesis using step [OF m] by simp
  next
    case (Inr receipt)
    obtain r2 e2 where ms: "apply_batch_loop env auth ctx tx now ms e1 = (r2, e2)" by force
    from Cons.prems m Inr ms have "eng' = e2" by (auto split: sum.splits)
    with trans [OF step [OF m] Cons.IH [OF ms]] show ?thesis by simp
  qed
qed

lemma apply_partial_loop_rel:
  assumes refl: "\<And>e. R e e" and trans: "\<And>a b c. R a b \<Longrightarrow> R b c \<Longrightarrow> R a c"
    and step: "\<And>e m r e'. apply_mutation env auth e ctx tx m now = (r, e') \<Longrightarrow> R e e'"
    and run: "apply_partial_loop env auth ctx tx now ms eng = (r, eng')"
  shows "R eng eng'"
  using run
proof (induction ms arbitrary: eng r eng')
  case Nil
  then show ?case using refl by simp
next
  case (Cons m ms)
  obtain r1 e1 where m: "apply_mutation env auth eng ctx tx m now = (r1, e1)" by force
  obtain r2 e2 where ms: "apply_partial_loop env auth ctx tx now ms e1 = (r2, e2)"
    by (metis surj_pair)
  from Cons.prems m ms have "eng' = e2" by (auto split: sum.splits prod.splits)
  with trans [OF step [OF m] Cons.IH [OF ms]] show ?case by simp
qed

text \<open>The same for a whole push, whatever its outcome.\<close>

lemma push_rel:
  assumes refl: "\<And>e. R e e" and trans: "\<And>a b c. R a b \<Longrightarrow> R b c \<Longrightarrow> R a c"
    and step: "\<And>tx e m r e'. apply_mutation env auth e ctx tx m now = (r, e') \<Longrightarrow> R e e'"
    and tx: "\<And>e. R e (snd (allocate_transaction_id e))"
    and undo: "\<And>e e'. R e e' \<Longrightarrow> R e (e'\<lparr>en_state := en_state e\<rparr>)"
    and push: "push env auth eng ctx batch now = (r, eng')"
  shows "R eng eng'"
proof (cases "bindr (verify_context eng ctx) (\<lambda>_.
    validate_batch batch ctx (en_schema_version eng) (max_push_mutations (en_config eng)))")
  case (Inl e)
  with push show ?thesis using refl by (simp add: push_def)
next
  case (Inr u)
  obtain t e1 where t: "allocate_transaction_id eng = (t, e1)" by force
  have e1: "R eng e1" using tx [of eng] t by simp
  show ?thesis
  proof (cases "pb_mode batch")
    case Atomic
    obtain r2 e2 where ms: "apply_batch_loop env auth ctx t now (pb_mutations batch) e1 = (r2, e2)"
      by force
    have "R eng e2"
      using trans [OF e1 apply_batch_loop_rel [of R, OF refl trans step ms]] .
    moreover from push Inr Atomic t ms have "eng' = e2 \<or> eng' = e2\<lparr>en_state := en_state eng\<rparr>"
      by (auto simp: push_def apply_batch_def split: sum.splits prod.splits)
    ultimately show ?thesis using undo by blast
  next
    case Partial
    obtain r2 e2 where ms: "apply_partial_loop env auth ctx t now (pb_mutations batch) e1 = (r2, e2)"
      by (metis surj_pair)
    have "R eng e2"
      using trans [OF e1 apply_partial_loop_rel [of R, OF refl trans step ms]] .
    moreover from push Inr Partial t ms have "eng' = e2"
      by (auto simp: push_def apply_partial_def split: prod.splits)
    ultimately show ?thesis by simp
  qed
qed

lemma allocate_transaction_id_inv:
  "engine_inv eng \<Longrightarrow> engine_inv (snd (allocate_transaction_id eng))"
  by (simp add: engine_inv_def allocate_transaction_id_def state_valid_def)

text \<open>Every mutating operation leaves the identity, the key and the configuration alone.\<close>

definition same_engine :: "sync_engine \<Rightarrow> sync_engine \<Rightarrow> bool" where
  "same_engine eng eng' \<longleftrightarrow>
     en_project_id eng' = en_project_id eng \<and> en_secret eng' = en_secret eng
     \<and> en_config eng' = en_config eng \<and> en_schema_version eng' = en_schema_version eng"

lemma apply_mutation_same:
  "apply_mutation env auth eng ctx tx m now = (r, eng') \<Longrightarrow> same_engine eng eng'"
  by (auto simp: apply_mutation_def Let_def purge_idempotency_def commit_mutation_def
      allocate_sequence_def same_engine_def split: sum.splits if_splits option.splits prod.splits)

lemma push_same:
  assumes "push env auth eng ctx batch now = (r, eng')"
  shows "same_engine eng eng'"
  by (rule push_rel [of same_engine, OF _ _ _ _ _ assms])
    (auto simp: same_engine_def allocate_transaction_id_def dest: apply_mutation_same
      [unfolded same_engine_def])

lemma push_inv:
  assumes inv: "engine_inv eng" and push: "push env auth eng ctx batch now = (r, eng')"
  shows "engine_inv eng'"
proof -
  let ?R = "\<lambda>e e'. engine_inv e \<longrightarrow> engine_inv e' \<and> same_engine e e'"
  have undo: "engine_inv (e'\<lparr>en_state := en_state e\<rparr>)" if "engine_inv e" "same_engine e e'" for e e'
    using that by (simp add: engine_inv_def same_engine_def)
  have "?R eng eng'"
    by (rule push_rel [of ?R, OF _ _ _ _ _ push])
      (use undo allocate_transaction_id_inv in
        \<open>auto simp: allocate_transaction_id_def dest: apply_mutation_inv apply_mutation_same
          simp: same_engine_def\<close>)
  with inv show ?thesis by simp
qed

lemma invalidate_cases [consumes 1, case_names Refused Committed]:
  assumes "invalidate eng reason v now = (r, eng')"
  obtains (Refused) e where "r = Err e" "eng' = eng"
  | (Committed) w where "r = Ok (next_sequence (en_state eng))" "en_schema_version eng \<le> w"
      "eng' = eng\<lparr>en_schema_version := w, en_state := (en_state eng)\<lparr>
         next_sequence := saturating_add_u64 (next_sequence (en_state eng)) 1,
         es_events := es_events (en_state eng) @
           [EvResnapshotRequired (next_sequence (en_state eng)) reason w now]\<rparr>\<rparr>"
proof (cases v)
  case None
  with assms show thesis
    by (intro Committed [of "en_schema_version eng"]) (auto simp: invalidate_def allocate_sequence_def)
next
  case (Some w)
  show thesis
  proof (cases "w \<le> en_schema_version eng")
    case True
    with assms Some show thesis by (intro Refused) (auto simp: invalidate_def)
  next
    case False
    with assms Some show thesis
      by (intro Committed [of w]) (auto simp: invalidate_def allocate_sequence_def)
  qed
qed

lemma invalidate_inv:
  assumes inv: "engine_inv eng" and run: "invalidate eng reason v now = (r, eng')"
  shows "engine_inv eng'"
  using run
proof (cases rule: invalidate_cases)
  case (Refused e)
  with inv show ?thesis by simp
next
  case (Committed w)
  let ?s = "next_sequence (en_state eng)"
  note eng' = Committed(3) and w = Committed(2)
  show ?thesis
  proof (rule engine_invI)
    show "\<not> config_rejected (en_project_id eng') (en_schema_version eng') (en_secret eng') (en_config eng')"
      using inv w by (simp add: engine_inv_def eng' config_rejected_def)
    show "0 < next_sequence (en_state eng')" "next_sequence (en_state eng') \<le> u64_max"
      by (simp_all add: eng' saturating_add_u64_def)
    show "hm_wf (es_rows (en_state eng'))" "hm_wf (es_idempotency (en_state eng'))"
      using inv by (simp_all add: engine_inv_def eng')
    assume "next_sequence (en_state eng') < u64_max"
    then have s': "?s < u64_max" "saturating_add_u64 ?s 1 = Suc ?s"
      using saturating_succ_less [of ?s] by (simp_all add: eng')
    with inv have "state_valid (en_state eng) (en_config eng)"
      by (simp add: engine_inv_def)
    then show "state_valid (en_state eng') (en_config eng')"
      using rows_accepted_mono [of ?s "es_rows (en_state eng)" "Suc ?s"]
        records_accepted_mono [of ?s "es_idempotency (en_state eng)" "Suc ?s"]
      by (simp add: state_valid_def eng' s'(2) [simplified] events_ordered_snoc)
  qed
qed

lemma compact_minimum_eq:
  "compact_minimum c n es =
     Max (insert n (event_sequence ` {e \<in> set es. committed_at_ms e < c}))"
proof (induction es arbitrary: n)
  case (Cons e es)
  have "{x \<in> set (e # es). committed_at_ms x < c} =
      (if committed_at_ms e < c then {e} else {}) \<union> {x \<in> set es. committed_at_ms x < c}"
    by auto
  with Cons show ?case
    by (cases "{x \<in> set es. committed_at_ms x < c} = {}") (auto simp: max.assoc max.left_commute)
qed simp

lemma compact_minimum_less:
  "n < b \<Longrightarrow> \<forall>e \<in> set es. event_sequence e < b \<Longrightarrow> compact_minimum c n es < b"
  by (auto simp: compact_minimum_eq)

lemma compact_inv:
  assumes inv: "engine_inv eng"
  shows "engine_inv (snd (compact eng now))"
proof (rule engine_invI)
  let ?eng = "snd (compact eng now)"
  show "\<not> config_rejected (en_project_id ?eng) (en_schema_version ?eng) (en_secret ?eng) (en_config ?eng)"
    and "0 < next_sequence (en_state ?eng)" "next_sequence (en_state ?eng) \<le> u64_max"
    using inv by (simp_all add: engine_inv_def compact_def Let_def)
  show "hm_wf (es_rows (en_state ?eng))" "hm_wf (es_idempotency (en_state ?eng))"
    using inv by (simp_all add: engine_inv_def compact_def Let_def hm_wf_retain)
  assume "next_sequence (en_state ?eng) < u64_max"
  with inv have "state_valid (en_state eng) (en_config eng)"
    by (simp add: engine_inv_def compact_def Let_def)
  then show "state_valid (en_state ?eng) (en_config ?eng)"
    by (simp add: state_valid_def compact_def Let_def order_trans [OF hm_length_retain]
        events_ordered_iff compact_minimum_less sorted_wrt_map sorted_wrt_filter)
qed

section \<open>Steps\<close>

text \<open>One rule per public operation that changes an engine.\<close>

inductive engine_step :: "sync_env \<Rightarrow> sync_engine \<Rightarrow> sync_engine \<Rightarrow> bool" for env where
  step_push: "push env auth eng ctx batch now = (r, eng') \<Longrightarrow> engine_step env eng eng'"
| step_invalidate: "invalidate eng reason v now = (r, eng') \<Longrightarrow> engine_step env eng eng'"
| step_compact: "compact eng now = (r, eng') \<Longrightarrow> engine_step env eng eng'"

definition engine_init :: "sync_engine \<Rightarrow> bool" where
  "engine_init eng \<longleftrightarrow> (\<exists>p v s c. engine_new p v s c = Ok eng)"

lemma engine_step_inv: "engine_step env eng eng' \<Longrightarrow> engine_inv eng \<Longrightarrow> engine_inv eng'"
proof (induction rule: engine_step.induct)
  case (step_compact eng now r eng')
  with compact_inv [of eng now] show ?case by simp
qed (auto dest: push_inv invalidate_inv)

interpretation engine: transition_system engine_init "engine_step env" engine_inv for env
  by unfold_locales (auto simp: engine_init_def intro: engine_new_inv engine_step_inv)

end
