(* ===== verification/Sync_Replication.thy ===== *)
theory Sync_Replication
  imports Sync_Invariant
begin

text \<open>
  What replication means: the server's live rows as a map, the effect of one logical event on a
  client's copy of that map, and the lemmas that the event log the engine keeps reproduces every
  change of its rows. The cursor codec's round trip and the behaviour of the \<open>pull\<close> loop are here
  too.
\<close>

section \<open>The cursor codec\<close>

text \<open>
  What the engine relies on of serde, base64 and HMAC for one set of claims: they serialise and
  parse back, base64 decodes what it encoded and never emits a dot, the tag has 32 bytes (43 in
  base64), and the payload is within the decoder's bounds.
\<close>

definition codec_faithful :: "sync_env \<Rightarrow> string \<Rightarrow> cursor_claims \<Rightarrow> bool" where
  "codec_faithful env secret claims \<longleftrightarrow>
     (\<exists>payload mac.
        claims_to_vec env claims = Some payload \<and> claims_from_slice env payload = Some claims
        \<and> hmac_sha256 env secret payload = Some mac \<and> length mac = 32
        \<and> b64_decode env (b64_encode env payload) = Some payload
        \<and> b64_decode env (b64_encode env mac) = Some mac
        \<and> CHR ''.'' \<notin> set (b64_encode env payload)
        \<and> length (b64_encode env mac) = 43
        \<and> length (b64_encode env payload) \<le> MAX_PAYLOAD_ENCODED_BYTES
        \<and> length payload \<le> MAX_PAYLOAD_BYTES)"

lemma codec_roundtrip:
  assumes "codec_faithful env secret claims"
  shows "\<exists>cursor. codec_encode env secret claims = Ok cursor \<and> codec_decode env secret cursor = Ok claims"
  using assms
  by (auto simp: codec_faithful_def codec_encode_def codec_decode_def split_once_append
      MAX_CURSOR_BYTES_def MAX_PAYLOAD_ENCODED_BYTES_def)

text \<open>A decoded cursor carries the HMAC of its payload under the engine's own key.\<close>

lemma codec_decode_authentic:
  assumes "codec_decode env secret cursor = Ok claims"
  shows "\<exists>payload mac p s. hmac_sha256 env secret payload = Some mac
     \<and> claims_from_slice env payload = Some claims
     \<and> cursor = p @ ''.'' @ s \<and> b64_decode env p = Some payload \<and> b64_decode env s = Some mac"
  using assms by (auto simp: codec_decode_def ffdb_result dest!: split_once_SomeD)

section \<open>The pull loop\<close>

lemma pull_loop_events:
  "length acc \<le> limit \<Longrightarrow>
   fst (pull_loop v limit es acc x) = acc @ take (limit - length acc) (filter v es)"
proof (induction v limit es acc x rule: pull_loop.induct)
  case (2 v limit e es acc x)
  show ?case
  proof (cases "v e \<and> length acc < limit")
    case True
    then have "limit - length acc = Suc (limit - Suc (length acc))" by arith
    with True 2 show ?thesis by simp
  next
    case False
    with 2 show ?thesis by auto
  qed
qed simp

lemma pull_loop_has_more:
  "length acc \<le> limit \<Longrightarrow>
   snd (snd (pull_loop v limit es acc x)) \<longleftrightarrow> limit - length acc < length (filter v es)"
proof (induction v limit es acc x rule: pull_loop.induct)
  case (2 v limit e es acc x)
  then show ?case
    by (cases "length acc = limit") auto
qed simp

lemma pull_loop_examined:
  "length acc \<le> limit \<Longrightarrow> snd (snd (pull_loop v limit es acc x)) \<Longrightarrow>
   fst (snd (pull_loop v limit es acc x)) = event_sequence (filter v es ! (limit - length acc))"
proof (induction v limit es acc x rule: pull_loop.induct)
  case (2 v limit e es acc x)
  show ?case
  proof (cases "v e \<and> length acc < limit")
    case True
    then have "limit - length acc = Suc (limit - Suc (length acc))" by arith
    with True 2 show ?thesis by simp
  next
    case False
    with 2 show ?thesis by auto
  qed
qed simp

lemma clamp_nat_pos: "0 < hi \<Longrightarrow> 0 < clamp_nat x 1 hi"
  by (simp add: clamp_nat_def)

text \<open>The events a successful pull chooses from, and what it returns of them.\<close>

definition pull_candidates :: "sync_authorizer \<Rightarrow> sync_engine \<Rightarrow> sync_context \<Rightarrow> nat \<Rightarrow> logical_event list" where
  "pull_candidates auth eng ctx sequence =
     filter (is_visible auth ctx) (filter (\<lambda>e. event_sequence e > sequence) (es_events (en_state eng)))"

lemma pull_Ok:
  assumes "pull env auth eng ctx cursor requested now = Ok res"
  obtains claims examined where "verify_context eng ctx = Ok ()"
    and "codec_decode env (en_secret eng) cursor = Ok claims"
    and "check_claims eng ctx claims now = Ok ()"
    and "pl_events res = take (clamp_nat requested 1 (max_pull_events (en_config eng)))
           (pull_candidates auth eng ctx (cc_sequence claims))"
    and "pl_has_more res \<longleftrightarrow> clamp_nat requested 1 (max_pull_events (en_config eng))
           < length (pull_candidates auth eng ctx (cc_sequence claims))"
    and "engine_cursor env eng ctx (if pl_has_more res then examined else latest_sequence eng) now
           = Ok (pl_cursor res)"
    and "pl_has_more res \<Longrightarrow> examined = event_sequence
           (pull_candidates auth eng ctx (cc_sequence claims) !
             clamp_nat requested 1 (max_pull_events (en_config eng)))"
proof -
  let ?limit = "clamp_nat requested 1 (max_pull_events (en_config eng))"
  from assms obtain claims where pre: "verify_context eng ctx = Ok ()"
      "codec_decode env (en_secret eng) cursor = Ok claims" "check_claims eng ctx claims now = Ok ()"
    by (auto simp: pull_def ffdb_result)
  let ?loop = "pull_loop (is_visible auth ctx) ?limit
      (filter (\<lambda>e. event_sequence e > cc_sequence claims) (es_events (en_state eng))) [] (cc_sequence claims)"
  obtain evs ex more where loop: "?loop = (evs, ex, more)" by (metis surj_pair)
  from assms pre loop have res: "engine_cursor env eng ctx (if more then ex else latest_sequence eng) now
      = Ok (pl_cursor res)" "pl_events res = evs" "pl_has_more res = more"
    by (auto simp: pull_def ffdb_result Let_def)
  let ?es = "filter (\<lambda>e. event_sequence e > cc_sequence claims) (es_events (en_state eng))"
  have ev: "evs = take ?limit (pull_candidates auth eng ctx (cc_sequence claims))"
    using pull_loop_events [of "[]" ?limit "is_visible auth ctx" ?es "cc_sequence claims"]
    unfolding loop pull_candidates_def by simp
  have more: "more \<longleftrightarrow> ?limit < length (pull_candidates auth eng ctx (cc_sequence claims))"
    using pull_loop_has_more [of "[]" ?limit "is_visible auth ctx" ?es "cc_sequence claims"]
    unfolding loop pull_candidates_def by simp
  have ex: "more \<Longrightarrow> ex = event_sequence (pull_candidates auth eng ctx (cc_sequence claims) ! ?limit)"
    using pull_loop_examined [of "[]" ?limit "is_visible auth ctx" ?es "cc_sequence claims"]
    unfolding loop pull_candidates_def by simp
  show thesis
    by (rule that [OF pre, of ex]) (use res ev more ex in simp_all)
qed

section \<open>The server's rows and a client's replica\<close>

text \<open>
  A replica maps a row key to the primary key, values, version and sequence of a live row. The
  server's own is read off its rows by leaving the tombstones out.
\<close>

type_synonym replica = "string \<Rightarrow> (json \<times> json_map \<times> nat \<times> nat) option"

definition row_view :: "stored_row \<Rightarrow> (json \<times> json_map \<times> nat \<times> nat) option" where
  "row_view row =
     (if sr_deleted_at_ms row = None
      then Some (sr_primary_key row, sr_values row, sr_row_version row, sr_server_sequence row)
      else None)"

definition live_rows :: "sync_engine \<Rightarrow> replica" where
  "live_rows eng k = Option.bind (hm_get (es_rows (en_state eng)) k) row_view"

fun apply_event :: "sync_env \<Rightarrow> logical_event \<Rightarrow> replica \<Rightarrow> replica" where
  "apply_event env (EvUpsert s t pk vals meta _) rep =
     (case row_key env t pk of Inr k \<Rightarrow> rep(k \<mapsto> (pk, vals, em_row_version meta, s)) | Inl _ \<Rightarrow> rep)"
| "apply_event env (EvDelete s t pk vals meta _) rep =
     (case row_key env t pk of Inr k \<Rightarrow> rep(k := None) | Inl _ \<Rightarrow> rep)"
| "apply_event env (EvResnapshotRequired _ _ _ _) rep = rep"

definition replay :: "sync_env \<Rightarrow> logical_event list \<Rightarrow> replica \<Rightarrow> replica" where
  "replay env log rep = fold (apply_event env) log rep"

lemma replay_Nil [simp]: "replay env [] rep = rep"
  by (simp add: replay_def)

lemma replay_append: "replay env (xs @ ys) rep = replay env ys (replay env xs rep)"
  by (simp add: replay_def)

lemma replay_single [simp]: "replay env [e] rep = apply_event env e rep"
  by (simp add: replay_def)

lemma live_rows_insert:
  "live_rows (eng\<lparr>en_state := st\<lparr>es_rows := hm_insert k row (es_rows (en_state eng))\<rparr>\<rparr>)
     = (live_rows eng)(k := row_view row)"
  by (simp add: fun_eq_iff live_rows_def hm_get_insert)

section \<open>The log extends with every operation\<close>

definition extends_log :: "sync_env \<Rightarrow> sync_engine \<Rightarrow> logical_event list \<Rightarrow> sync_engine \<Rightarrow> bool" where
  "extends_log env eng new eng' \<longleftrightarrow>
     es_events (en_state eng') = es_events (en_state eng) @ new
     \<and> minimum_available_sequence (en_state eng') = minimum_available_sequence (en_state eng)
     \<and> next_sequence (en_state eng) \<le> next_sequence (en_state eng')
     \<and> (\<forall>e \<in> set new. next_sequence (en_state eng) \<le> event_sequence e)
     \<and> live_rows eng' = replay env new (live_rows eng)"

lemma extends_log_same_state:
  assumes "es_events (en_state eng') = es_events (en_state eng)"
    and "minimum_available_sequence (en_state eng') = minimum_available_sequence (en_state eng)"
    and "next_sequence (en_state eng') = next_sequence (en_state eng)"
    and "es_rows (en_state eng') = es_rows (en_state eng)"
  shows "extends_log env eng [] eng'"
  using assms by (simp add: extends_log_def live_rows_def fun_eq_iff)

lemma extends_log_trans:
  "extends_log env a xs b \<Longrightarrow> extends_log env b ys c \<Longrightarrow> extends_log env a (xs @ ys) c"
  by (auto simp: extends_log_def replay_append)

lemma commit_mutation_extends:
  assumes commit: "commit_mutation eng ctx tx m h k prior now = (receipt, eng')"
    and key: "row_key env (cm_table m) (cm_primary_key m) = Ok k"
    and bound: "next_sequence (en_state eng) \<le> u64_max"
  shows "\<exists>e. extends_log env eng [e] eng'"
proof -
  from commit obtain v s where s: "s = next_sequence (en_state eng)"
    and eng': "eng' = eng\<lparr>en_state := (en_state eng)\<lparr>
          next_sequence := saturating_add_u64 s 1,
          es_rows := hm_insert k (mutation_row m prior v s now) (es_rows (en_state eng)),
          es_events := es_events (en_state eng) @ [mutation_event eng ctx tx m prior v s now],
          es_idempotency := hm_insert (idempotency_key ctx m)
             \<lparr>ir_payload_hash = h, ir_receipt = receipt, ir_committed_at_ms = now\<rparr>
             (es_idempotency (en_state eng))\<rparr>\<rparr>"
    by (rule commit_mutation_state)
  have "live_rows eng' = (live_rows eng)(k := row_view (mutation_row m prior v s now))"
    by (simp add: eng' fun_eq_iff live_rows_def hm_get_insert)
  also have "\<dots> = apply_event env (mutation_event eng ctx tx m prior v s now) (live_rows eng)"
    using key by (simp add: mutation_event_def mutation_row_def row_view_def Let_def
        split: mutation_operation.split)
  finally show ?thesis
    using saturating_succ_ge [OF bound] by (auto simp: extends_log_def eng' s)
qed

text \<open>The relation the batch loops carry: the counter stays within 64 bits and the log extends.\<close>

definition log_step :: "sync_env \<Rightarrow> sync_engine \<Rightarrow> sync_engine \<Rightarrow> bool" where
  "log_step env eng eng' \<longleftrightarrow>
     (next_sequence (en_state eng) \<le> u64_max \<longrightarrow>
        next_sequence (en_state eng') \<le> u64_max \<and> (\<exists>new. extends_log env eng new eng'))"

lemma log_step_same_state:
  assumes "es_events (en_state eng') = es_events (en_state eng)"
    and "minimum_available_sequence (en_state eng') = minimum_available_sequence (en_state eng)"
    and "next_sequence (en_state eng') = next_sequence (en_state eng)"
    and "es_rows (en_state eng') = es_rows (en_state eng)"
  shows "log_step env eng eng'"
  using assms extends_log_same_state by (auto simp: log_step_def)

lemma log_step_trans: "log_step env a b \<Longrightarrow> log_step env b c \<Longrightarrow> log_step env a c"
  unfolding log_step_def by (blast intro: extends_log_trans)

lemma log_step_mutation:
  assumes "apply_mutation env auth eng ctx tx m now = (r, eng')"
  shows "log_step env eng eng'"
  using assms
proof (cases rule: apply_mutation_cases)
  case Full
  then show ?thesis
    by (intro log_step_same_state) (simp_all add: purge_idempotency_def Let_def)
next
  case (Commit payload k receipt)
  let ?p = "purge_idempotency eng now"
  have purge: "log_step env eng ?p"
    by (rule log_step_same_state) (simp_all add: purge_idempotency_def Let_def)
  have "log_step env ?p eng'"
    unfolding log_step_def
    using commit_mutation_extends [OF Commit(7,3)] Commit(7)
    by (auto simp: commit_mutation_def allocate_sequence_def Let_def)
  with purge show ?thesis by (rule log_step_trans)
qed (auto intro: log_step_same_state)

lemma log_step_push:
  assumes "push env auth eng ctx batch now = (r, eng')"
  shows "log_step env eng eng'"
  by (rule push_rel [of "log_step env", OF _ _ _ _ _ assms])
    (auto intro: log_step_same_state log_step_trans log_step_mutation
      simp: allocate_transaction_id_def)

lemma log_step_invalidate:
  assumes "invalidate eng reason v now = (r, eng')"
  shows "log_step env eng eng'"
  using assms
proof (cases rule: invalidate_cases)
  case (Committed w)
  have "live_rows eng' = live_rows eng"
    by (simp add: Committed(3) fun_eq_iff live_rows_def)
  then show ?thesis
    unfolding log_step_def extends_log_def
    using saturating_succ_ge [of "next_sequence (en_state eng)"] by (simp add: Committed(3))
qed (auto intro: log_step_same_state)

lemma engine_step_next:
  "engine_step env eng eng' \<Longrightarrow> engine_inv eng \<Longrightarrow>
   next_sequence (en_state eng) \<le> next_sequence (en_state eng')"
proof (induction rule: engine_step.induct)
  case (step_push auth eng ctx batch now r eng')
  then show ?case
    using log_step_push [OF step_push(1)] by (auto simp: log_step_def extends_log_def engine_inv_def)
next
  case (step_invalidate eng reason v now r eng')
  then show ?case
    using log_step_invalidate [OF step_invalidate(1)]
    by (auto simp: log_step_def extends_log_def engine_inv_def)
qed (auto simp: compact_def Let_def)

text \<open>The sequence counter is the engine's clock: it never goes back.\<close>

interpretation engine_clock: monotone_system engine_init "engine_step env" engine_inv
    "\<lambda>eng. next_sequence (en_state eng)" for env
  by unfold_locales (rule engine_step_next)

section \<open>Runs\<close>

text \<open>
  A run of the engine together with the events it emitted: a push or an invalidation emits the
  events it appended, compaction emits none.
\<close>

definition emitted :: "sync_engine \<Rightarrow> sync_engine \<Rightarrow> logical_event list" where
  "emitted eng eng' = drop (length (es_events (en_state eng))) (es_events (en_state eng'))"

inductive engine_run :: "sync_env \<Rightarrow> sync_engine \<Rightarrow> logical_event list \<Rightarrow> sync_engine \<Rightarrow> bool"
  for env and start :: sync_engine where
  run_refl: "engine_run env start [] start"
| run_push: "engine_run env start log eng \<Longrightarrow> push env auth eng ctx batch now = (r, eng') \<Longrightarrow>
     engine_run env start (log @ emitted eng eng') eng'"
| run_invalidate: "engine_run env start log eng \<Longrightarrow> invalidate eng reason v now = (r, eng') \<Longrightarrow>
     engine_run env start (log @ emitted eng eng') eng'"
| run_compact: "engine_run env start log eng \<Longrightarrow> compact eng now = (r, eng') \<Longrightarrow>
     engine_run env start log eng'"

lemma engine_run_steps: "engine_run env start log eng \<Longrightarrow> (engine_step env)\<^sup>*\<^sup>* start eng"
  by (induction rule: engine_run.induct) (auto intro: engine_step.intros rtranclp.rtrancl_into_rtrancl)

lemma emitted_extends: "extends_log env eng new eng' \<Longrightarrow> emitted eng eng' = new"
  by (simp add: emitted_def extends_log_def)

abbreviation after_seq :: "nat \<Rightarrow> logical_event list \<Rightarrow> logical_event list" where
  "after_seq b es \<equiv> filter (\<lambda>e. b < event_sequence e) es"

text \<open>
  What relates a run's log to the engine at its end, with \<open>low\<close> the latest sequence at its start:
  the log reproduces the rows, its events are newer than \<open>low\<close>, and beyond the compaction
  horizon the engine still holds exactly the log.
\<close>

definition run_inv :: "sync_env \<Rightarrow> sync_engine \<Rightarrow> logical_event list \<Rightarrow> sync_engine \<Rightarrow> bool" where
  "run_inv env start log eng \<longleftrightarrow>
     engine_inv eng
     \<and> next_sequence (en_state start) \<le> next_sequence (en_state eng)
     \<and> (\<forall>e \<in> set log. latest_sequence start < event_sequence e)
     \<and> live_rows eng = replay env log (live_rows start)
     \<and> (let b = max (latest_sequence start) (minimum_available_sequence (en_state eng))
        in after_seq b (es_events (en_state eng)) = after_seq b log)"

lemma run_inv_extend:
  assumes run: "run_inv env start log eng" and ext: "extends_log env eng new eng'"
    and inv: "engine_inv eng'" and pos: "0 < next_sequence (en_state start)"
  shows "run_inv env start (log @ new) eng'"
  using assms by (force simp: run_inv_def extends_log_def replay_append latest_sequence_def Let_def)

lemma compact_fields:
  assumes "compact eng now = (r, eng')"
  shows "es_events (en_state eng') = filter (\<lambda>e. saturating_sub_i64 now (change_retention_ms (en_config eng)) \<le> committed_at_ms e)
           (es_events (en_state eng))"
    and "minimum_available_sequence (en_state eng') = compact_minimum
           (saturating_sub_i64 now (change_retention_ms (en_config eng)))
           (minimum_available_sequence (en_state eng)) (es_events (en_state eng))"
    and "next_sequence (en_state eng') = next_sequence (en_state eng)"
  using assms by (auto simp: compact_def Let_def)

lemma compact_live_rows:
  assumes "compact eng now = (r, eng')" and "hm_wf (es_rows (en_state eng))"
  shows "live_rows eng' = live_rows eng"
  using assms by (auto simp: fun_eq_iff compact_def Let_def live_rows_def hm_get_retain row_view_def
      split: option.splits)

lemma run_inv_compact:
  assumes run: "run_inv env start log eng" and compact: "compact eng now = (r, eng')"
  shows "run_inv env start log eng'"
proof -
  let ?b = "max (latest_sequence start) (minimum_available_sequence (en_state eng))"
  let ?b' = "max (latest_sequence start) (minimum_available_sequence (en_state eng'))"
  note fields = compact_fields [OF compact]
  have kept: "after_seq ?b' (es_events (en_state eng')) = after_seq ?b' (es_events (en_state eng))"
    by (auto simp: fields compact_minimum_eq not_le intro!: filter_cong dest: Max_less_iff [THEN iffD1, rotated -1])
  have le: "minimum_available_sequence (en_state eng) \<le> minimum_available_sequence (en_state eng')"
    by (simp add: fields compact_minimum_eq)
  then have refilter: "after_seq ?b' es = after_seq ?b' (after_seq ?b es)" for es
    by (auto intro: filter_cong)
  have "after_seq ?b (es_events (en_state eng)) = after_seq ?b log"
    using run by (simp add: run_inv_def Let_def)
  with kept have "after_seq ?b' (es_events (en_state eng')) = after_seq ?b' log"
    using refilter [of "es_events (en_state eng)"] refilter [of log] by simp
  moreover have "engine_inv eng'"
    using compact_inv [of eng now] run compact by (simp add: run_inv_def)
  ultimately show ?thesis
    using run compact_live_rows [OF compact] fields(3) by (simp add: run_inv_def engine_inv_def Let_def)
qed

lemma engine_run_inv:
  assumes inv: "engine_inv start" and small: "next_sequence (en_state start) < u64_max"
    and run: "engine_run env start log eng"
  shows "run_inv env start log eng"
  using run
proof (induction rule: engine_run.induct)
  case run_refl
  have "\<forall>e \<in> set (es_events (en_state start)). event_sequence e \<le> latest_sequence start"
    using inv small by (fastforce simp: engine_inv_def state_valid_def events_ordered_iff latest_sequence_def)
  then have "after_seq (max (latest_sequence start) b) (es_events (en_state start)) = []" for b
    by (auto simp: filter_empty_conv)
  with inv show ?case by (simp add: run_inv_def Let_def)
next
  case (run_push log eng auth ctx batch now r eng')
  have inv': "engine_inv eng" "engine_inv eng'"
    using run_push push_inv by (auto simp: run_inv_def)
  then obtain new where "extends_log env eng new eng'"
    using log_step_push [OF run_push(2)] by (auto simp: log_step_def engine_inv_def)
  with run_push inv' inv show ?case
    using run_inv_extend emitted_extends by (fastforce simp: engine_inv_def)
next
  case (run_invalidate log eng reason v now r eng')
  have inv': "engine_inv eng" "engine_inv eng'"
    using run_invalidate invalidate_inv by (auto simp: run_inv_def)
  then obtain new where "extends_log env eng new eng'"
    using log_step_invalidate [OF run_invalidate(2)] by (auto simp: log_step_def engine_inv_def)
  with run_invalidate inv' inv show ?case
    using run_inv_extend emitted_extends by (fastforce simp: engine_inv_def)
next
  case (run_compact log eng now r eng')
  then show ?case by (auto intro: run_inv_compact)
qed

end
