(* ===== verification/Sync_Properties.thy ===== *)
theory Sync_Properties
  imports Sync_Replication "HOL-Library.Multiset"
begin

text \<open>
  The properties of the replication engine: validity of every reachable state and the checkpoint
  round trip, convergence of a replica that took a snapshot and pulls, what a page of events may
  contain, what the page cursor skips, atomicity and idempotency of a push, and the binding of
  cursors to the session they were issued to.
\<close>

section \<open>Loading a snapshot\<close>

definition keys_ok :: "sync_env \<Rightarrow> sync_engine \<Rightarrow> bool" where
  "keys_ok env eng \<longleftrightarrow>
     list_all (\<lambda>(k, row). \<exists>t. row_key env t (sr_primary_key row) = Ok k \<and> CHR 0x1F \<notin> set t)
       (es_rows (en_state eng))"

lemma validate_mutation_table: "validate_mutation m = Ok () \<Longrightarrow> CHR 0x1F \<notin> set (cm_table m)"
  by (auto simp: validate_mutation_def list_all_iff is_ascii_alphanumeric_def is_ascii_alphabetic_def
      is_ascii_lowercase_def is_ascii_uppercase_def is_ascii_digit_def code_def split: if_splits)

lemma keys_ok_mutation:
  assumes "apply_mutation env auth eng ctx tx m now = (r, eng')"
  shows "keys_ok env eng \<longrightarrow> keys_ok env eng'"
  using assms
proof (cases rule: apply_mutation_cases)
  case Full
  then show ?thesis by (simp add: keys_ok_def purge_idempotency_def Let_def)
next
  case (Commit payload k receipt)
  have "row_key env (cm_table m) (sr_primary_key (mutation_row m prior v s now)) = Ok k" for prior v s
    using Commit(3) by (simp add: mutation_row_def split: mutation_operation.split)
  with validate_mutation_table [OF Commit(1)]
  have "\<exists>t. row_key env t (sr_primary_key (mutation_row m prior v s now)) = Ok k \<and> CHR 0x1F \<notin> set t"
    for prior v s by blast
  moreover have "es_rows (en_state (purge_idempotency eng now)) = es_rows (en_state eng)"
    by (simp add: purge_idempotency_def Let_def)
  ultimately show ?thesis
    using Commit(7) by (auto simp: keys_ok_def commit_mutation_def allocate_sequence_def Let_def)
qed auto

lemma keys_ok_push:
  assumes "push env auth eng ctx batch now = (r, eng')"
  shows "keys_ok env eng \<longrightarrow> keys_ok env eng'"
  by (rule push_rel [of "\<lambda>e e'. keys_ok env e \<longrightarrow> keys_ok env e'", OF _ _ _ _ _ assms])
    (use keys_ok_mutation in \<open>auto simp: keys_ok_def allocate_transaction_id_def\<close>)

lemma keys_ok_step: "engine_step env eng eng' \<Longrightarrow> keys_ok env eng \<Longrightarrow> keys_ok env eng'"
proof (induction rule: engine_step.induct)
  case (step_invalidate eng reason v now r eng')
  from step_invalidate(1) show ?case
    by (cases rule: invalidate_cases) (use step_invalidate(2) in \<open>auto simp: keys_ok_def\<close>)
qed (use keys_ok_push in \<open>auto simp: keys_ok_def compact_def Let_def\<close>)

interpretation keyed: transition_system engine_init "engine_step env"
    "\<lambda>e. engine_inv e \<and> keys_ok env e" for env
  by unfold_locales
    (auto simp: engine_init_def keys_ok_def engine_new_def initial_state_def split: if_splits
      intro: engine_new_inv engine_step_inv keys_ok_step [unfolded keys_ok_def])

lemma reachable_keyed:
  assumes "engine_new p v secret config = Ok start" and "(engine_step env)\<^sup>*\<^sup>* start eng"
  shows "engine_inv eng" and "keys_ok env eng"
proof -
  have "engine_init start" using assms(1) by (auto simp: engine_init_def)
  from keyed.reachable_inv [OF this assms(2)] show "engine_inv eng" "keys_ok env eng" by simp_all
qed

text \<open>A client turns the rows of a snapshot into its replica.\<close>

definition load_row :: "sync_env \<Rightarrow> replica_row \<Rightarrow> string \<times> json \<times> json_map \<times> nat \<times> nat" where
  "load_row env r =
     ((case row_key env (rr_table r) (rr_primary_key r) of Inr k \<Rightarrow> k | Inl _ \<Rightarrow> []),
      rr_primary_key r, rr_values r, rr_row_version r, rr_server_sequence r)"

definition load_snapshot :: "sync_env \<Rightarrow> replica_row list \<Rightarrow> replica" where
  "load_snapshot env rows = map_of (map (load_row env) rows)"

lemma load_rows_eq:
  assumes "list_all (\<lambda>(k, row). \<exists>t. row_key env t (sr_primary_key row) = Ok k \<and> CHR 0x1F \<notin> set t) m"
    and "\<And>t v. can_read auth ctx t v"
  shows "map (load_row env) (List.map_filter (snapshot_row auth ctx) m) =
     map (\<lambda>(k, row). (k, the (row_view row))) (filter (\<lambda>(k, row). sr_deleted_at_ms row = None) m)"
  using assms(1)
proof (induction m)
  case (Cons p m)
  obtain k row t where p: "p = (k, row)" and key: "row_key env t (sr_primary_key row) = Ok k"
    and t: "CHR 0x1F \<notin> set t"
    using Cons.prems by (cases p) auto
  from row_key_Ok [OF key] t have "key_table k = t"
    by (auto simp: key_table_def split_once_append)
  with Cons key p assms(2) show ?case
    by (auto simp: List.map_filter_simps snapshot_row_def load_row_def row_view_def)
qed (simp add: List.map_filter_simps)

lemma map_of_live:
  "hm_wf m \<Longrightarrow>
   map_of (map (\<lambda>(k, row). (k, the (row_view row))) (filter (\<lambda>(k, row). sr_deleted_at_ms row = None) m)) k
     = Option.bind (hm_get m k) row_view"
proof (induction m)
  case (Cons p m)
  obtain k' row where p: "p = (k', row)" by force
  from Cons.prems p have "hm_get m k' = None"
    by (simp add: hm_wf_def hm_get_def map_of_eq_None_iff)
  with Cons p show ?case
    by (auto simp: hm_get_Cons hm_wf_def row_view_def)
qed simp

lemma distinct_live_keys:
  "hm_wf m \<Longrightarrow>
   distinct (map fst (map (\<lambda>(k, row). (k, the (row_view row))) (filter (\<lambda>(k, row). sr_deleted_at_ms row = None) m)))"
  by (induction m) (force simp: hm_wf_def)+

lemma map_of_mset_eq:
  assumes "mset xs = mset ys" and "distinct (map fst ys)"
  shows "map_of xs = map_of ys"
proof -
  have "mset (map fst xs) = mset (map fst ys)"
    using assms(1) by simp
  then have "distinct (map fst xs)"
    using assms(2) mset_eq_imp_distinct_iff by blast
  with assms show ?thesis
    by (metis map_of_inject_set mset_eq_setD)
qed

lemma load_snapshot_live:
  assumes "engine_inv eng" and "keys_ok env eng" and read: "\<And>t v. can_read auth ctx t v"
    and snap: "snapshot env auth eng ctx now = Ok snap"
  shows "load_snapshot env (sn_rows snap) = live_rows eng"
proof -
  let ?m = "es_rows (en_state eng)"
  let ?f = "\<lambda>r. (rr_table r, rr_server_sequence r)"
  let ?xs = "List.map_filter (snapshot_row auth ctx) ?m"
  let ?ys = "map (\<lambda>(k, row). (k, the (row_view row))) (filter (\<lambda>(k, row). sr_deleted_at_ms row = None) ?m)"
  have wf: "hm_wf ?m" using assms(1) by (simp add: engine_inv_def)
  have rows: "sn_rows snap = sort_key ?f ?xs"
    using snap by (auto simp: snapshot_def ffdb_result Let_def)
  have xs: "map (load_row env) ?xs = ?ys"
    using load_rows_eq [OF assms(2) [unfolded keys_ok_def] read] .
  have "mset (map (load_row env) (sort_key ?f ?xs)) = mset ?ys"
    by (simp add: xs [symmetric])
  then have "map_of (map (load_row env) (sort_key ?f ?xs)) = map_of ?ys"
    using distinct_live_keys [OF wf] by (rule map_of_mset_eq)
  then show ?thesis
    using map_of_live [OF wf] by (auto simp: load_snapshot_def rows live_rows_def fun_eq_iff)
qed

section \<open>A concrete environment\<close>

text \<open>
  Concrete stand-ins for the external code, used by the witnesses: the sequence is carried in the
  length of the payload and every other claim is fixed.
\<close>

definition demo_config :: sync_config where
  "demo_config = \<lparr>cursor_ttl_ms = 30000, change_retention_ms = 10000, tombstone_retention_ms = 20000,
     max_pull_events = 1, max_push_mutations = 10, idempotency_retention_ms = 30000,
     max_idempotency_records = 100\<rparr>"

definition demo_secret :: string where "demo_secret = replicate 32 (CHR ''k'')"

definition demo_ctx :: sync_context where
  "demo_ctx = \<lparr>ctx_project_id = ''p'', ctx_subject = ''alice'', ctx_role = ''authenticated'',
     ctx_scope_fingerprint = ''s'', ctx_trusted_client_id = ''c''\<rparr>"

definition demo_claims :: "nat \<Rightarrow> cursor_claims" where
  "demo_claims n = \<lparr>cc_project_id = ''p'', cc_subject = ''alice'', cc_trusted_client_id = ''c'',
     cc_sequence = n, cc_schema_version = 1, cc_scope_fingerprint = ''s'',
     cc_issued_at_ms = 0, cc_expires_at_ms = 30000\<rparr>"

definition demo_env :: sync_env where
  "demo_env = \<lparr>
     mutation_to_vec = (\<lambda>m. Some (cm_mutation_id m)),
     value_to_string = (\<lambda>v. case v of JString t \<Rightarrow> Some t | _ \<Rightarrow> None),
     claims_to_vec = (\<lambda>c. Some (replicate (cc_sequence c) (CHR ''a''))),
     claims_from_slice = (\<lambda>p. Some (demo_claims (length p))),
     envelope_to_vec = (\<lambda>_. Some ''e''),
     envelope_from_slice = (\<lambda>_. Some \<lparr>ce_format_version = 1, ce_project_id = ''p'',
       ce_schema_version = 1, ce_state = initial_state\<rparr>),
     b64_encode = (\<lambda>x. if length x = 32 then replicate 43 (CHR ''b'') else x),
     b64_decode = (\<lambda>x. if length x = 43 then Some (replicate 32 (CHR ''m'')) else Some x),
     sha256 = (\<lambda>x. x),
     hmac_sha256 = (\<lambda>_ _. Some (replicate 32 (CHR ''m'')))\<rparr>"

definition demo_auth :: sync_authorizer where
  "demo_auth = \<lparr>can_read = (\<lambda>_ _ _. True), can_write = (\<lambda>_ _ _ _. True)\<rparr>"

definition demo_engine :: sync_engine where
  "demo_engine = \<lparr>en_project_id = ''p'', en_schema_version = 1, en_config = demo_config,
     en_secret = demo_secret, en_state = initial_state\<rparr>"

definition demo_mutation :: "string \<Rightarrow> client_mutation" where
  "demo_mutation i = \<lparr>cm_mutation_id = i, cm_table = ''docs'', cm_primary_key = JString i,
     cm_operation = OpUpsert, cm_values = [(''v'', JBool True)], cm_base_row_version = None,
     cm_client_timestamp_ms = None\<rparr>"

definition demo_batch :: push_batch where
  "demo_batch = \<lparr>pb_client_id = ''c'', pb_schema_version = 1, pb_mode = Atomic,
     pb_mutations = [demo_mutation ''m1'', demo_mutation ''m2'']\<rparr>"

definition demo_pushed :: sync_engine where
  "demo_pushed = snd (push demo_env demo_auth demo_engine demo_ctx demo_batch 0)"

lemmas demo_defs = demo_config_def demo_secret_def demo_ctx_def demo_claims_def demo_env_def
  demo_auth_def demo_engine_def demo_mutation_def demo_batch_def

lemma demo_new: "engine_new ''p'' 1 demo_secret demo_config = Ok demo_engine"
  by (simp add: engine_new_def config_rejected_def demo_config_def demo_secret_def demo_engine_def)

lemma demo_push: "push demo_env demo_auth demo_engine demo_ctx demo_batch 0 =
    (Ok \<lparr>pr_accepted =
          [\<lparr>mr_mutation_id = ''m1'', mr_sequence = 1, mr_row_version = 1, mr_outcome = Applied\<rparr>,
           \<lparr>mr_mutation_id = ''m2'', mr_sequence = 2, mr_row_version = 1, mr_outcome = Applied\<rparr>],
         pr_rejected = [], pr_cursor = ''aa.'' @ replicate 43 (CHR ''b'')\<rparr>, demo_pushed)"
  unfolding demo_pushed_def by code_simp

lemma demo_steps: "(engine_step demo_env)\<^sup>*\<^sup>* demo_engine demo_pushed"
  using demo_push by (blast intro: engine_step.intros)

section \<open>Reachable states and checkpoints\<close>

text \<open>
  C1. Every state the engine can reach from \<open>SyncEngine::new\<close> by pushes, invalidations and
  compactions passes the checks \<open>validate_state\<close> makes of a restored checkpoint: the event log is
  strictly ordered below the sequence counter, the compaction horizon is behind it, the
  idempotency table is within its capacity and rows and receipts carry assigned sequences and
  versions, until the 64-bit sequence counter saturates.
\<close>

theorem reachable_engine_valid:
  assumes "engine_new p v secret config = Ok start"
    and "(engine_step env)\<^sup>*\<^sup>* start eng"
    and "next_sequence (en_state eng) < u64_max"
  shows "validate_state (en_state eng) (en_config eng) = Ok ()"
proof -
  have "engine_inv eng"
    using reachable_keyed assms(1,2) by blast
  with assms(3) show ?thesis
    by (simp add: validate_state_Ok engine_inv_def)
qed

theorem reachable_engine_valid_witness:
  "validate_state (en_state demo_pushed) (en_config demo_pushed) = Ok ()
   \<and> length (es_events (en_state demo_pushed)) = 2"
proof -
  have small: "next_sequence (en_state demo_pushed) < u64_max"
    unfolding demo_pushed_def by code_simp
  have two: "length (es_events (en_state demo_pushed)) = 2"
    unfolding demo_pushed_def by code_simp
  show ?thesis
    using reachable_engine_valid [OF demo_new demo_steps small] two by simp
qed

text \<open>
  C2. A checkpoint of a reachable engine restores to that very engine under the same project, key
  and configuration, provided serde parses back the envelope it wrote.
\<close>

theorem checkpoint_restore_roundtrip:
  assumes "engine_new p v secret config = Ok start"
    and "(engine_step env)\<^sup>*\<^sup>* start eng"
    and "next_sequence (en_state eng) < u64_max"
    and "checkpoint env eng = Ok bytes"
    and serde: "envelope_from_slice env bytes =
      Some \<lparr>ce_format_version = CHECKPOINT_FORMAT_VERSION, ce_project_id = en_project_id eng,
            ce_schema_version = en_schema_version eng, ce_state = en_state eng\<rparr>"
  shows "restore env (en_project_id eng) (en_secret eng) (en_config eng) bytes = Ok eng"
proof -
  have "engine_inv eng"
    using reachable_keyed assms(1,2) by blast
  then have "validate_state (en_state eng) (en_config eng) = Ok ()"
    and "\<not> config_rejected (en_project_id eng) (en_schema_version eng) (en_secret eng) (en_config eng)"
    using assms(3) by (simp_all add: validate_state_Ok engine_inv_def)
  moreover from this(2) have "en_schema_version eng \<noteq> 0"
    by (simp add: config_rejected_def)
  ultimately show ?thesis
    using serde by (simp add: restore_def engine_new_def)
qed

theorem checkpoint_restore_roundtrip_witness:
  "restore demo_env ''p'' demo_secret demo_config ''e'' = Ok demo_engine"
proof -
  have "checkpoint demo_env demo_engine = Ok ''e''" by code_simp
  moreover have "next_sequence (en_state demo_engine) < u64_max" by code_simp
  moreover have "envelope_from_slice demo_env ''e'' =
      Some \<lparr>ce_format_version = CHECKPOINT_FORMAT_VERSION, ce_project_id = en_project_id demo_engine,
            ce_schema_version = en_schema_version demo_engine, ce_state = en_state demo_engine\<rparr>"
    by (simp add: demo_env_def demo_engine_def CHECKPOINT_FORMAT_VERSION_def)
  ultimately show ?thesis
    using checkpoint_restore_roundtrip [OF demo_new rtranclp.rtrancl_refl, of demo_env "''e''"]
    by (simp add: demo_engine_def)
qed

section \<open>Pull\<close>

lemma claims_for_roundtrip:
  assumes "codec_faithful env (en_secret eng) (cursor_claims_for eng ctx n t)"
    and "engine_cursor env eng ctx n t = Ok cursor"
  shows "codec_decode env (en_secret eng) cursor = Ok (cursor_claims_for eng ctx n t)"
  using codec_roundtrip [OF assms(1)] assms(2) by (auto simp: engine_cursor_def)

lemma push_secret: "push env auth eng ctx batch now = (r, eng') \<Longrightarrow> en_secret eng' = en_secret eng"
  using push_same by (simp add: same_engine_def)

lemma step_secret: "engine_step env eng eng' \<Longrightarrow> en_secret eng' = en_secret eng"
proof (induction rule: engine_step.induct)
  case (step_invalidate eng reason v now r eng')
  then show ?case by (cases rule: invalidate_cases) auto
qed (auto simp: push_secret compact_def Let_def)

lemma run_secret: "(engine_step env)\<^sup>*\<^sup>* eng eng' \<Longrightarrow> en_secret eng' = en_secret eng"
  by (induction rule: rtranclp_induct) (auto simp: step_secret)

lemma check_claims_min:
  "check_claims eng ctx claims now = Ok u \<Longrightarrow>
   minimum_available_sequence (en_state eng) \<le> cc_sequence claims"
  by (auto simp: check_claims_def split: if_splits)

text \<open>
  C3. Convergence. A client that may read every row takes a snapshot, the server then executes any
  sequence of pushes, invalidations and compactions, and the client pulls with the snapshot's
  cursor. If the pull succeeds with no further page, replaying its events on the snapshot gives
  exactly the server's live rows: nothing is lost to concurrent writes or to compaction.
\<close>

theorem snapshot_pull_converges:
  assumes new: "engine_new p v secret config = Ok start" "(engine_step env)\<^sup>*\<^sup>* start eng"
    and snap: "snapshot env auth eng ctx t0 = Ok snap"
    and codec: "codec_faithful env (en_secret eng) (cursor_claims_for eng ctx (latest_sequence eng) t0)"
    and run: "engine_run env eng log eng'"
    and small: "next_sequence (en_state eng') < u64_max"
    and pull: "pull env auth eng' ctx (sn_cursor snap) limit t1 = Ok res" "\<not> pl_has_more res"
    and read: "\<And>t v. can_read auth ctx t v"
  shows "replay env (pl_events res) (load_snapshot env (sn_rows snap)) = live_rows eng'"
proof -
  let ?low = "latest_sequence eng"
  have inv: "engine_inv eng" "keys_ok env eng"
    using reachable_keyed [OF new] by simp_all
  have "next_sequence (en_state eng) \<le> next_sequence (en_state eng')"
    using engine_clock.run_clock [OF engine_run_steps [OF run] inv(1)] .
  with small have rinv: "run_inv env eng log eng'"
    using engine_run_inv [OF inv(1) _ run] by simp
  have cursor: "engine_cursor env eng ctx ?low t0 = Ok (sn_cursor snap)"
    using snap by (auto simp: snapshot_def ffdb_result Let_def)
  have secret: "en_secret eng' = en_secret eng"
    using run_secret engine_run_steps [OF run] by blast
  from pull(1) obtain claims where "codec_decode env (en_secret eng') (sn_cursor snap) = Ok claims"
    and "check_claims eng' ctx claims t1 = Ok ()"
    and events: "pl_events res = take (clamp_nat limit 1 (max_pull_events (en_config eng')))
           (pull_candidates auth eng' ctx (cc_sequence claims))"
    and more: "pl_has_more res \<longleftrightarrow> clamp_nat limit 1 (max_pull_events (en_config eng'))
           < length (pull_candidates auth eng' ctx (cc_sequence claims))"
    by (rule pull_Ok)
  then have claims: "cc_sequence claims = ?low" and horizon: "minimum_available_sequence (en_state eng') \<le> ?low"
    using claims_for_roundtrip [OF codec cursor] secret check_claims_min [of eng' ctx claims t1]
    by (auto simp: cursor_claims_for_def)
  have visible: "is_visible auth ctx e" for e
    using read by (cases e) auto
  have "pl_events res = after_seq ?low (es_events (en_state eng'))"
    using events more pull(2) by (simp add: pull_candidates_def claims visible)
  also have "\<dots> = log"
    using rinv horizon by (simp add: run_inv_def max_absorb1 Let_def)
  finally show ?thesis
    using rinv load_snapshot_live [OF inv read snap] by (simp add: run_inv_def)
qed

definition demo_single :: push_batch where
  "demo_single = demo_batch\<lparr>pb_mutations := [demo_mutation ''m1'']\<rparr>"

lemma demo_codec: "n \<noteq> 32 \<Longrightarrow> n \<noteq> 43 \<Longrightarrow> n \<le> 1024 \<Longrightarrow> demo_claims n = c \<Longrightarrow> codec_faithful demo_env demo_secret c"
  unfolding codec_faithful_def
  by (rule exI [of _ "replicate n (CHR ''a'')"], rule exI [of _ "replicate 32 (CHR ''m'')"])
    (auto simp: demo_env_def demo_claims_def MAX_PAYLOAD_ENCODED_BYTES_def MAX_PAYLOAD_BYTES_def)

theorem snapshot_pull_converges_witness:
  "live_rows (snd (push demo_env demo_auth demo_engine demo_ctx demo_single 0))
      (''docs'' @ [CHR 0x1F] @ ''m1'') = Some (JString ''m1'', [(''v'', JBool True)], 1, 1)
   \<and> (\<exists>snap res. snapshot demo_env demo_auth demo_engine demo_ctx 0 = Ok snap
        \<and> pull demo_env demo_auth (snd (push demo_env demo_auth demo_engine demo_ctx demo_single 0))
             demo_ctx (sn_cursor snap) 1 5 = Ok res
        \<and> replay demo_env (pl_events res) (load_snapshot demo_env (sn_rows snap))
             = live_rows (snd (push demo_env demo_auth demo_engine demo_ctx demo_single 0)))"
proof -
  define eng' where "eng' = snd (push demo_env demo_auth demo_engine demo_ctx demo_single 0)"
  obtain r where push: "push demo_env demo_auth demo_engine demo_ctx demo_single 0 = (r, eng')"
    unfolding eng'_def by (metis surj_pair snd_conv)
  have run: "engine_run demo_env demo_engine ([] @ emitted demo_engine eng') eng'"
    by (rule engine_run.run_push [OF engine_run.run_refl push])
  let ?snap = "\<lparr>sn_schema_version = 1, sn_rows = [], sn_cursor = ''.'' @ replicate 43 (CHR ''b'')\<rparr>"
  have snap: "snapshot demo_env demo_auth demo_engine demo_ctx 0 = Ok ?snap"
    by code_simp
  have codec: "codec_faithful demo_env (en_secret demo_engine)
      (cursor_claims_for demo_engine demo_ctx (latest_sequence demo_engine) 0)"
    using demo_codec [of 0]
    by (simp add: demo_defs cursor_claims_for_def latest_sequence_def initial_state_def
        saturating_add_i64_def i64_min_def i64_max_def)
  have small: "next_sequence (en_state eng') < u64_max"
    unfolding eng'_def by code_simp
  have "\<exists>res. pull demo_env demo_auth eng' demo_ctx (sn_cursor ?snap) 1 5 = Ok res \<and> \<not> pl_has_more res"
    unfolding eng'_def sync_snapshot.simps
    by (rule exI [of _ "projr (pull demo_env demo_auth
        (snd (push demo_env demo_auth demo_engine demo_ctx demo_single 0)) demo_ctx
        (''.'' @ replicate 43 (CHR ''b'')) 1 5)"]) code_simp
  then obtain res where pull: "pull demo_env demo_auth eng' demo_ctx (sn_cursor ?snap) 1 5 = Ok res"
    "\<not> pl_has_more res" by blast
  have "replay demo_env (pl_events res) (load_snapshot demo_env (sn_rows ?snap)) = live_rows eng'"
    by (rule snapshot_pull_converges [OF demo_new rtranclp.rtrancl_refl snap codec run small pull])
      (simp add: demo_auth_def)
  moreover have "live_rows eng' (''docs'' @ [CHR 0x1F] @ ''m1'') = Some (JString ''m1'', [(''v'', JBool True)], 1, 1)"
    unfolding eng'_def by code_simp
  ultimately show ?thesis
    using snap pull(1) unfolding eng'_def by blast
qed

text \<open>
  C4. A pull returns only events its caller may read, all of them newer than the cursor, in strictly
  increasing sequence order, at most the clamped limit, and none of the visible events before the
  last one returned is left out.
\<close>

theorem pull_returns_visible_prefix:
  assumes "engine_inv eng" and "next_sequence (en_state eng) < u64_max"
    and "pull env auth eng ctx cursor limit now = Ok res"
    and "codec_decode env (en_secret eng) cursor = Ok claims"
  shows "pl_events res = take (clamp_nat limit 1 (max_pull_events (en_config eng)))
           [e \<leftarrow> es_events (en_state eng). cc_sequence claims < event_sequence e \<and> is_visible auth ctx e]
     \<and> sorted_wrt (<) (map event_sequence (pl_events res))
     \<and> 1 \<le> clamp_nat limit 1 (max_pull_events (en_config eng))"
proof (intro conjI)
  from assms(3,4) have events: "pl_events res = take (clamp_nat limit 1 (max_pull_events (en_config eng)))
      (pull_candidates auth eng ctx (cc_sequence claims))"
    by (elim pull_Ok) auto
  then show "pl_events res = take (clamp_nat limit 1 (max_pull_events (en_config eng)))
      [e \<leftarrow> es_events (en_state eng). cc_sequence claims < event_sequence e \<and> is_visible auth ctx e]"
    by (simp add: pull_candidates_def conj_commute)
  have "sorted_wrt (<) (map event_sequence (es_events (en_state eng)))"
    using assms(1,2) by (simp add: engine_inv_def state_valid_def events_ordered_iff)
  then show "sorted_wrt (<) (map event_sequence (pl_events res))"
    by (simp add: events pull_candidates_def sorted_wrt_map sorted_wrt_filter sorted_wrt_take)
  show "1 \<le> clamp_nat limit 1 (max_pull_events (en_config eng))"
    using assms(1) by (simp add: engine_inv_def config_rejected_def clamp_nat_def)
qed

lemma demo_pull: "pull demo_env demo_auth demo_pushed demo_ctx (''.'' @ replicate 43 (CHR ''b'')) 5 7 =
   Ok \<lparr>pl_events = [hd (es_events (en_state demo_pushed))],
       pl_cursor = ''aa.'' @ replicate 43 (CHR ''b''), pl_has_more = True\<rparr>"
  unfolding demo_pushed_def by code_simp

lemma demo_decode: "codec_decode demo_env (en_secret demo_pushed) (''.'' @ replicate 43 (CHR ''b'')) = Ok (demo_claims 0)"
  unfolding demo_pushed_def by code_simp

lemma demo_small: "next_sequence (en_state demo_pushed) < u64_max"
  unfolding demo_pushed_def by code_simp

theorem pull_returns_visible_prefix_witness:
  "[hd (es_events (en_state demo_pushed))] =
     take 1 [e \<leftarrow> es_events (en_state demo_pushed). 0 < event_sequence e \<and> is_visible demo_auth demo_ctx e]"
proof -
  have "engine_inv demo_pushed" by (rule reachable_keyed [OF demo_new demo_steps])
  moreover have "clamp_nat 5 1 (max_pull_events (en_config demo_pushed)) = 1"
    unfolding demo_pushed_def by code_simp
  ultimately show ?thesis
    using pull_returns_visible_prefix [OF _ demo_small demo_pull demo_decode]
    by (simp add: demo_claims_def)
qed

text \<open>
  When a page is cut by the limit, the cursor it returns is already positioned at the first
  visible event the page left out, and the next pull asks for sequences strictly greater: that
  event is not in the page and no later page of the same client can contain it.
\<close>

theorem pull_page_cursor_skips_an_event:
  assumes "pull env auth eng ctx cursor limit now = Ok res" and "pl_has_more res"
    and "codec_decode env (en_secret eng) cursor = Ok claims"
    and "engine_inv eng" and "next_sequence (en_state eng) < u64_max"
  shows "\<exists>e \<in> set (es_events (en_state eng)).
     is_visible auth ctx e \<and> cc_sequence claims < event_sequence e \<and> e \<notin> set (pl_events res)
     \<and> engine_cursor env eng ctx (event_sequence e) now = Ok (pl_cursor res)
     \<and> e \<notin> set (pull_candidates auth eng ctx (event_sequence e))"
proof -
  let ?limit = "clamp_nat limit 1 (max_pull_events (en_config eng))"
  let ?cs = "pull_candidates auth eng ctx (cc_sequence claims)"
  from assms(1-3) have page: "pl_events res = take ?limit ?cs" and len: "?limit < length ?cs"
    and cur: "engine_cursor env eng ctx (event_sequence (?cs ! ?limit)) now = Ok (pl_cursor res)"
    by (auto elim!: pull_Ok)
  let ?e = "?cs ! ?limit"
  have "sorted_wrt (<) (map event_sequence ?cs)"
    using assms(4,5) by (simp add: engine_inv_def state_valid_def events_ordered_iff pull_candidates_def
        sorted_wrt_map sorted_wrt_filter)
  then have "distinct (map event_sequence ?cs)"
    by (simp add: strict_sorted_iff)
  then have "distinct ?cs" by (simp add: distinct_map)
  then have "?e \<notin> set (take ?limit ?cs)"
    using len by (auto simp: in_set_conv_nth nth_eq_iff_index_eq)
  moreover have "?e \<in> set ?cs" using len by simp
  ultimately show ?thesis
    using page cur by (auto simp: pull_candidates_def)
qed

theorem pull_page_cursor_skips_an_event_witness:
  "\<exists>e \<in> set (es_events (en_state demo_pushed)). e \<noteq> hd (es_events (en_state demo_pushed))
     \<and> engine_cursor demo_env demo_pushed demo_ctx (event_sequence e) 7 = Ok (''aa.'' @ replicate 43 (CHR ''b''))
     \<and> e \<notin> set (pull_candidates demo_auth demo_pushed demo_ctx (event_sequence e))"
  using pull_page_cursor_skips_an_event [OF demo_pull _ demo_decode _ demo_small]
    reachable_keyed(1) [OF demo_new demo_steps] by auto

text \<open>
  A cursor only opens the log for the session it was issued to: if a pull with a cursor issued by
  this engine's \<open>cursor\<close> succeeds, the caller has the same subject, device and authorization scope,
  the engine serves the same project at the same schema version, the cursor is not from the future
  and not expired, and the history it points at has not been compacted.
\<close>

theorem pull_cursor_bound_to_session:
  assumes "codec_faithful env (en_secret eng) (cursor_claims_for eng ctx n t0)"
    and "engine_cursor env eng ctx n t0 = Ok cursor"
    and "en_secret eng' = en_secret eng"
    and "pull env auth eng' ctx' cursor limit now = Ok res"
  shows "ctx_subject ctx' = ctx_subject ctx \<and> ctx_trusted_client_id ctx' = ctx_trusted_client_id ctx
     \<and> ctx_scope_fingerprint ctx' = ctx_scope_fingerprint ctx
     \<and> ctx_project_id ctx' = en_project_id eng \<and> en_project_id eng' = en_project_id eng
     \<and> en_schema_version eng' = en_schema_version eng
     \<and> t0 \<le> now \<and> now < saturating_add_i64 t0 (cursor_ttl_ms (en_config eng))
     \<and> minimum_available_sequence (en_state eng') \<le> n"
proof -
  have decode: "codec_decode env (en_secret eng') cursor = Ok (cursor_claims_for eng ctx n t0)"
    using claims_for_roundtrip [OF assms(1,2)] assms(3) by simp
  from assms(4) decode have "verify_context eng' ctx' = Ok ()"
    and "check_claims eng' ctx' (cursor_claims_for eng ctx n t0) now = Ok ()"
    by (auto elim!: pull_Ok)
  then show ?thesis
    by (auto simp: verify_context_def check_claims_def cursor_claims_for_def not_less split: if_splits)
qed

theorem pull_cursor_bound_to_session_witness:
  "ctx_subject demo_ctx = ''alice'' \<and> (0::int) \<le> 7 \<and> 7 < saturating_add_i64 0 30000"
proof -
  have cursor: "engine_cursor demo_env demo_pushed demo_ctx 0 0 = Ok (''.'' @ replicate 43 (CHR ''b''))"
    unfolding demo_pushed_def by code_simp
  have claims: "cursor_claims_for demo_pushed demo_ctx 0 0 = demo_claims 0"
    unfolding demo_pushed_def by code_simp
  have secret: "en_secret demo_pushed = demo_secret"
    unfolding demo_pushed_def by code_simp
  have ttl: "cursor_ttl_ms (en_config demo_pushed) = 30000"
    unfolding demo_pushed_def by code_simp
  have codec: "codec_faithful demo_env (en_secret demo_pushed) (cursor_claims_for demo_pushed demo_ctx 0 0)"
    using demo_codec [of 0] claims secret by simp
  show ?thesis
    using pull_cursor_bound_to_session [OF codec cursor refl demo_pull] ttl by (simp add: demo_ctx_def)
qed

section \<open>Push\<close>

lemma apply_batch_loop_length:
  "apply_batch_loop env auth ctx tx now ms eng = (Ok receipts, eng') \<Longrightarrow> length receipts = length ms"
  by (induction env auth ctx tx now ms eng arbitrary: receipts eng' rule: apply_batch_loop.induct)
    (auto split: prod.splits sum.splits)

text \<open>
  C5. An atomic push is all or nothing: on any error the engine is exactly the engine before the call,
  counters included; on success there is one receipt per mutation and nothing is rejected.
\<close>

theorem atomic_push_all_or_nothing:
  assumes "pb_mode batch = Atomic" and push: "push env auth eng ctx batch now = (r, eng')"
  shows "case r of Inl e \<Rightarrow> eng' = eng
     | Inr result \<Rightarrow> length (pr_accepted result) = length (pb_mutations batch) \<and> pr_rejected result = []"
proof (cases r)
  case (Inl e)
  have "same_engine eng eng'" using push by (rule push_same)
  moreover have "en_state eng' = en_state eng"
    using push Inl assms(1) by (auto simp: push_def split: sum.splits prod.splits)
  ultimately have "eng' = eng" by (simp add: same_engine_def)
  with Inl show ?thesis by simp
next
  case (Inr result)
  with push assms(1) show ?thesis
    by (auto simp: push_def apply_batch_def ffdb_result dest!: apply_batch_loop_length
        split: sum.splits prod.splits)
qed

definition demo_refuse :: sync_authorizer where
  "demo_refuse = \<lparr>can_read = (\<lambda>_ _ _. True), can_write = (\<lambda>_ _ _ row. row \<noteq> [])\<rparr>"

definition demo_delete :: "string \<Rightarrow> client_mutation" where
  "demo_delete i = (demo_mutation i)\<lparr>cm_operation := OpDelete, cm_values := []\<rparr>"

definition demo_mixed :: push_batch where
  "demo_mixed = demo_batch\<lparr>pb_mutations := [demo_mutation ''m1'', demo_delete ''m2'']\<rparr>"

theorem atomic_push_all_or_nothing_witness:
  "push demo_env demo_refuse demo_engine demo_ctx demo_mixed 0 = (Err RlsDenied, demo_engine)"
proof -
  have r: "fst (push demo_env demo_refuse demo_engine demo_ctx demo_mixed 0) = Err RlsDenied"
    by code_simp
  have mode: "pb_mode demo_mixed = Atomic"
    by (simp add: demo_mixed_def demo_batch_def)
  from r obtain e' where p: "push demo_env demo_refuse demo_engine demo_ctx demo_mixed 0 = (Err RlsDenied, e')"
    by (metis prod.collapse)
  from atomic_push_all_or_nothing [OF mode p] p show ?thesis by simp
qed

end
