(* ===== verification/Sync_Idempotency.thy ===== *)
theory Sync_Idempotency
  imports Sync_Properties
begin

text \<open>
  Retries and authorization of pushes: a batch of upserts that was applied can be sent again without
  effect, nothing is written without \<open>can_write\<close>, and the one case in which the retry of an accepted
  mutation is refused.
\<close>

section \<open>Stored receipts\<close>

definition recorded ::
    "sync_env \<Rightarrow> sync_context \<Rightarrow> int \<Rightarrow> sync_engine \<Rightarrow> client_mutation \<Rightarrow> mutation_receipt \<Rightarrow> bool" where
  "recorded env ctx now eng m receipt \<longleftrightarrow>
     (\<exists>payload. mutation_to_vec env m = Some payload
        \<and> hm_get (es_idempotency (en_state eng)) (idempotency_key ctx m) =
            Some \<lparr>ir_payload_hash = sha256 env payload, ir_receipt = receipt, ir_committed_at_ms = now\<rparr>)"

lemma cutoff_le:
  "i64_min \<le> now \<Longrightarrow> now \<le> i64_max \<Longrightarrow> 0 \<le> ttl \<Longrightarrow> saturating_sub_i64 now ttl \<le> now"
  by (simp add: saturating_sub_i64_def)

lemma commit_mutation_recorded:
  assumes "commit_mutation eng ctx tx m (sha256 env payload) k prior now = (receipt, eng')"
    and "mutation_to_vec env m = Some payload"
  shows "recorded env ctx now eng' m receipt"
proof -
  from assms(1) obtain v s where "eng' = eng\<lparr>en_state := (en_state eng)\<lparr>
          next_sequence := saturating_add_u64 s 1,
          es_rows := hm_insert k (mutation_row m prior v s now) (es_rows (en_state eng)),
          es_events := es_events (en_state eng) @ [mutation_event eng ctx tx m prior v s now],
          es_idempotency := hm_insert (idempotency_key ctx m)
             \<lparr>ir_payload_hash = sha256 env payload, ir_receipt = receipt, ir_committed_at_ms = now\<rparr>
             (es_idempotency (en_state eng))\<rparr>\<rparr>"
    by (rule commit_mutation_state)
  then show ?thesis
    using assms(2) by (simp add: recorded_def hm_get_insert)
qed

text \<open>
  A record is safe from a call at time \<open>t\<close> when the retention cutoff of that call does not lie after
  the commit: the purge keeps it, and a mutation that commits has another idempotency key.
\<close>

definition retains :: "sync_engine \<Rightarrow> int \<Rightarrow> int \<Rightarrow> bool" where
  "retains eng now t \<longleftrightarrow> saturating_sub_i64 t (idempotency_retention_ms (en_config eng)) \<le> now"

lemma recorded_mutation_step:
  assumes inv: "engine_inv eng" and t: "retains eng now t"
    and rec: "recorded env ctx now eng m receipt"
    and step: "apply_mutation env auth eng ctx' tx m' t = (r, eng')"
  shows "recorded env ctx now eng' m receipt"
proof -
  have wf: "hm_wf (es_idempotency (en_state eng))"
    using inv by (simp add: engine_inv_def)
  have purge: "recorded env ctx now (purge_idempotency eng t) m receipt"
    using rec hm.retain_keeps [OF wf] t
    by (auto simp: recorded_def purge_idempotency_def Let_def retains_def)
  from step show ?thesis
  proof (cases rule: apply_mutation_cases)
    case (Commit payload k receipt')
    have "idempotency_key ctx m \<noteq> idempotency_key ctx' m'"
      using rec Commit(5) by (auto simp: recorded_def)
    moreover from Commit(7) obtain v s where "eng' = (purge_idempotency eng t)\<lparr>en_state :=
          (en_state (purge_idempotency eng t))\<lparr>
          next_sequence := saturating_add_u64 s 1,
          es_rows := hm_insert k (mutation_row m' (hm_get (es_rows (en_state eng)) k) v s t)
            (es_rows (en_state (purge_idempotency eng t))),
          es_events := es_events (en_state (purge_idempotency eng t)) @
            [mutation_event (purge_idempotency eng t) ctx' tx m' (hm_get (es_rows (en_state eng)) k) v s t],
          es_idempotency := hm_insert (idempotency_key ctx' m')
             \<lparr>ir_payload_hash = sha256 env payload, ir_receipt = receipt', ir_committed_at_ms = t\<rparr>
             (es_idempotency (en_state (purge_idempotency eng t)))\<rparr>\<rparr>"
      by (rule commit_mutation_state)
    ultimately show ?thesis
      using purge by (simp add: recorded_def hm_get_insert)
  qed (use rec purge in auto)
qed

lemma recorded_tx: "recorded env ctx now (snd (allocate_transaction_id eng)) = recorded env ctx now eng"
  by (simp add: recorded_def allocate_transaction_id_def fun_eq_iff)

text \<open>
  What the calls that retain a record keep of it, as one reflexive and transitive relation: the engine
  invariant, the identity and configuration, and the record.
\<close>

definition keeps_record ::
    "sync_env \<Rightarrow> sync_context \<Rightarrow> int \<Rightarrow> client_mutation \<Rightarrow> mutation_receipt \<Rightarrow> int \<Rightarrow> sync_engine \<Rightarrow> sync_engine
     \<Rightarrow> bool" where
  "keeps_record env ctx now m receipt t e e' \<longleftrightarrow>
     (engine_inv e \<and> retains e now t \<longrightarrow> engine_inv e' \<and> same_engine e e'
        \<and> (recorded env ctx now e m receipt \<longrightarrow> recorded env ctx now e' m receipt))"

lemma same_engine_retains: "same_engine e e' \<Longrightarrow> retains e' now t = retains e now t"
  by (simp add: same_engine_def retains_def)

lemma keeps_record_refl: "keeps_record env ctx now m receipt t e e"
  by (simp add: keeps_record_def same_engine_def)

lemma keeps_record_trans:
  assumes "keeps_record env ctx now m receipt t a b" and "keeps_record env ctx now m receipt t b c"
  shows "keeps_record env ctx now m receipt t a c"
  using assms by (auto simp: keeps_record_def same_engine_retains) (simp_all add: same_engine_def)

lemma keeps_record_mutation:
  assumes "apply_mutation env auth e ctx' tx m' t = (r, e')"
  shows "keeps_record env ctx now m receipt t e e'"
  unfolding keeps_record_def
  by (intro impI conjI; elim conjE)
    (rule apply_mutation_inv [OF _ assms] apply_mutation_same [OF assms] recorded_mutation_step [OF _ _ _ assms];
      assumption)+

lemma keeps_record_tx: "keeps_record env ctx now m receipt t e (snd (allocate_transaction_id e))"
  using allocate_transaction_id_inv [of e]
  by (auto simp: keeps_record_def recorded_tx) (simp add: same_engine_def allocate_transaction_id_def)

lemma keeps_record_undo:
  "keeps_record env ctx now m receipt t e e' \<Longrightarrow> keeps_record env ctx now m receipt t e (e'\<lparr>en_state := en_state e\<rparr>)"
  by (auto simp: keeps_record_def same_engine_def recorded_def engine_inv_def)

lemma keeps_record_loop:
  assumes "apply_batch_loop env auth ctx' tx t ms e = (r, e')"
  shows "keeps_record env ctx now m receipt t e e'"
  by (rule apply_batch_loop_rel [of "keeps_record env ctx now m receipt t", OF keeps_record_refl _ _ assms]; erule keeps_record_trans keeps_record_mutation)

lemma keeps_record_push:
  assumes "push env auth e ctx' batch t = (r, e')"
  shows "keeps_record env ctx now m receipt t e e'"
  by (rule push_rel [of "keeps_record env ctx now m receipt t", OF keeps_record_refl _ _ keeps_record_tx _ assms];
      erule keeps_record_trans keeps_record_mutation keeps_record_undo)

text \<open>After a batch in which every mutation was applied, every mutation has its receipt stored.\<close>

definition replayable :: "sync_env \<Rightarrow> client_mutation \<Rightarrow> bool" where
  "replayable env m \<longleftrightarrow>
     validate_mutation m = Ok () \<and> (\<exists>k. row_key env (cm_table m) (cm_primary_key m) = Ok k)"

lemma apply_batch_loop_records:
  assumes now: "i64_min \<le> now" "now \<le> i64_max"
  shows "engine_inv eng \<Longrightarrow> apply_batch_loop env auth ctx tx now ms eng = (Ok receipts, eng') \<Longrightarrow>
    \<forall>r \<in> set receipts. mr_outcome r = Applied \<Longrightarrow> \<forall>m \<in> set ms. cm_operation m = OpUpsert \<Longrightarrow>
    list_all2 (recorded env ctx now eng') ms receipts \<and> (\<forall>m \<in> set ms. replayable env m)"
proof (induction ms arbitrary: eng receipts)
  case (Cons m ms)
  obtain r1 e1 where m: "apply_mutation env auth eng ctx tx m now = (r1, e1)" by force
  with Cons.prems(2) obtain receipt rs where r1: "r1 = Ok receipt"
    and rs: "apply_batch_loop env auth ctx tx now ms e1 = (Ok rs, eng')" "receipts = receipt # rs"
    by (auto split: sum.splits prod.splits)
  have inv: "engine_inv e1" using Cons.prems(1) m by (rule apply_mutation_inv)
  then have "retains e1 now now"
    using cutoff_le [OF now] by (simp add: retains_def engine_inv_def config_rejected_def)
  with inv keeps_record_loop [OF rs(1), of ctx now m receipt]
  have keep: "recorded env ctx now e1 m receipt \<longrightarrow> recorded env ctx now eng' m receipt"
    by (simp add: keeps_record_def)
  from m have "recorded env ctx now e1 m receipt \<and> replayable env m"
  proof (cases rule: apply_mutation_cases)
    case (Commit payload k receipt')
    with r1 commit_mutation_recorded [OF Commit(7,2)] show ?thesis
      by (auto simp: replayable_def)
  qed (use r1 Cons.prems(3) rs(2) in auto)
  with keep Cons.IH [OF inv rs(1)] Cons.prems(3,4) rs(2) show ?case by simp
qed simp

text \<open>A partial push that rejects nothing is the atomic loop that fails nowhere, and back.\<close>

lemma apply_partial_loop_all_accepted:
  "apply_partial_loop env auth ctx tx now ms eng = ((accepted, []), eng')
     \<longleftrightarrow> apply_batch_loop env auth ctx tx now ms eng = (Ok accepted, eng')"
proof (induction ms arbitrary: eng accepted eng')
  case (Cons m ms)
  obtain r1 e1 where m: "apply_mutation env auth eng ctx tx m now = (r1, e1)" by force
  obtain acc rej e2 where p: "apply_partial_loop env auth ctx tx now ms e1 = ((acc, rej), e2)"
    by (metis surj_pair)
  show ?case
  proof (cases rej)
    case Nil
    with p Cons.IH have "apply_batch_loop env auth ctx tx now ms e1 = (Ok acc, e2)" by blast
    with m p Nil show ?thesis by (auto split: sum.splits)
  next
    case rejected: (Cons f rej')
    have "fst (apply_batch_loop env auth ctx tx now ms e1) \<noteq> Ok xs" for xs
      using Cons.IH [of e1 xs] p rejected by (metis fst_conv list.simps(3) prod.collapse prod.inject)
    with m p rejected show ?thesis by (force split: sum.splits prod.splits)
  qed
qed auto

lemma replay_mutation:
  assumes "recorded env ctx now eng m receipt" and "replayable env m" and "cm_operation m = OpUpsert"
    and "can_write auth ctx (cm_table m) OpUpsert (cm_values m)"
  shows "apply_mutation env auth eng ctx tx m now' = (Ok (receipt\<lparr>mr_outcome := AlreadyApplied\<rparr>), eng)"
  using assms by (auto simp: recorded_def replayable_def apply_mutation_def authorization_row_def Let_def)

lemma replay_loop:
  "list_all2 (recorded env ctx now eng) ms receipts \<Longrightarrow>
   \<forall>m \<in> set ms. replayable env m \<and> cm_operation m = OpUpsert
     \<and> can_write auth ctx (cm_table m) OpUpsert (cm_values m) \<Longrightarrow>
   apply_batch_loop env auth ctx tx now' ms eng =
     (Ok (map (\<lambda>r. r\<lparr>mr_outcome := AlreadyApplied\<rparr>) receipts), eng)"
  by (induction ms receipts rule: list_all2_induct) (auto simp: replay_mutation)

text \<open>
  The calls that may come between a push at time \<open>now\<close> and its retry: any public operation of the
  engine, by any caller with any authorizer, whose retention cutoff has not passed \<open>now\<close>.
\<close>

inductive retained_step :: "sync_env \<Rightarrow> int \<Rightarrow> sync_engine \<Rightarrow> sync_engine \<Rightarrow> bool" for env now where
  retained_push: "push env auth eng ctx batch t = (r, eng') \<Longrightarrow> retains eng now t \<Longrightarrow> retained_step env now eng eng'"
| retained_invalidate: "invalidate eng reason v t = (r, eng') \<Longrightarrow> retained_step env now eng eng'"
| retained_compact: "compact eng t = (r, eng') \<Longrightarrow> retains eng now t \<Longrightarrow> retained_step env now eng eng'"

lemma recorded_compact:
  assumes inv: "engine_inv eng" and t: "retains eng now t" and rec: "recorded env ctx now eng m receipt"
  shows "recorded env ctx now (snd (compact eng t)) m receipt"
proof -
  have "hm_wf (es_idempotency (en_state eng))" using inv by (simp add: engine_inv_def)
  from hm.retain_keeps [OF this] rec t show ?thesis
    by (auto simp: recorded_def compact_def Let_def retains_def)
qed

lemma retained_step_keeps:
  assumes "retained_step env now e e'" and inv: "engine_inv e" and rec: "recorded env ctx now e m receipt"
  shows "recorded env ctx now e' m receipt"
  using assms(1)
proof (cases rule: retained_step.cases)
  case (retained_push auth ctx' batch t r)
  with keeps_record_push [OF retained_push(1), of ctx now m receipt] inv rec show ?thesis
    by (simp add: keeps_record_def)
next
  case (retained_invalidate reason v t r)
  then show ?thesis using rec by (cases rule: invalidate_cases) (auto simp: recorded_def)
next
  case (retained_compact t r)
  with recorded_compact [OF inv retained_compact(2) rec] show ?thesis by simp
qed

lemma retained_step_engine: "retained_step env now e e' \<Longrightarrow> engine_step env e e'"
  by (induction rule: retained_step.induct) (auto intro: engine_step.intros)

lemma engine_step_identity:
  "engine_step env e e' \<Longrightarrow> en_project_id e' = en_project_id e \<and> en_config e' = en_config e"
proof (induction rule: engine_step.induct)
  case (step_push auth eng ctx batch now r eng')
  then show ?case by (auto simp: same_engine_def dest: push_same)
next
  case (step_invalidate eng reason v now r eng')
  then show ?case by (cases rule: invalidate_cases) auto
next
  case (step_compact eng now r eng')
  then show ?case by (auto simp: compact_def Let_def)
qed

lemma retained_run:
  assumes "(retained_step env now)\<^sup>*\<^sup>* e e'" and "engine_inv e"
  shows "engine_inv e' \<and> en_project_id e' = en_project_id e \<and> en_config e' = en_config e
     \<and> (\<forall>m receipt. recorded env ctx now e m receipt \<longrightarrow> recorded env ctx now e' m receipt)"
  using assms
proof (induction rule: rtranclp_induct)
  case (step a b)
  note s = retained_step_engine [OF step.hyps(2)]
  from step show ?case
    using engine_step_inv [OF s] engine_step_identity [OF s] retained_step_keeps [OF step.hyps(2)] by metis
qed simp

text \<open>
  A successful push with no rejection, in either mode, is one run of the atomic loop, and the loop is
  all a push does beside the transaction number.
\<close>

lemma push_all_accepted:
  assumes "push env auth eng ctx batch now = (Ok result, eng')" and "pr_rejected result = []"
  obtains tx where "bindr (verify_context eng ctx) (\<lambda>_.
      validate_batch batch ctx (en_schema_version eng) (max_push_mutations (en_config eng))) = Ok ()"
    and "apply_batch_loop env auth ctx tx now (pb_mutations batch) (snd (allocate_transaction_id eng))
      = (Ok (pr_accepted result), eng')"
proof -
  obtain tx e1 where tx: "allocate_transaction_id eng = (tx, e1)" by force
  from assms(1) have pre: "bindr (verify_context eng ctx) (\<lambda>_.
      validate_batch batch ctx (en_schema_version eng) (max_push_mutations (en_config eng))) = Ok ()"
    by (auto simp: push_def split: sum.splits)
  moreover have "apply_batch_loop env auth ctx tx now (pb_mutations batch) e1 = (Ok (pr_accepted result), eng')"
  proof (cases "pb_mode batch")
    case Atomic
    with assms(1) pre tx show ?thesis
      by (auto simp: push_def apply_batch_def ffdb_result split: sum.splits prod.splits)
  next
    case Partial
    with assms pre tx
    have "apply_partial_loop env auth ctx tx now (pb_mutations batch) e1 = ((pr_accepted result, []), eng')"
      by (auto simp: push_def apply_partial_def ffdb_result split: sum.splits prod.splits)
    then show ?thesis by (simp add: apply_partial_loop_all_accepted)
  qed
  ultimately show thesis using tx that by simp
qed

lemma push_of_loop:
  assumes "bindr (verify_context eng ctx) (\<lambda>_.
      validate_batch batch ctx (en_schema_version eng) (max_push_mutations (en_config eng))) = Ok ()"
    and "allocate_transaction_id eng = (tx, e1)"
    and "apply_batch_loop env auth ctx tx now (pb_mutations batch) e1 = (Ok accepted, e2)"
    and "push env auth eng ctx batch now = (r, eng')"
  shows "r = bindr (engine_cursor env e2 ctx (latest_sequence e2) now) (\<lambda>cursor.
       Ok \<lparr>pr_accepted = accepted, pr_rejected = [], pr_cursor = cursor\<rparr>)
     \<and> (en_state eng' = en_state e2 \<or> en_state eng' = en_state eng)"
proof (cases "pb_mode batch")
  case Atomic
  with assms show ?thesis by (auto simp: push_def apply_batch_def split: sum.splits)
next
  case Partial
  from assms(3) have "apply_partial_loop env auth ctx tx now (pb_mutations batch) e1 = ((accepted, []), e2)"
    by (simp add: apply_partial_loop_all_accepted)
  with Partial assms show ?thesis by (auto simp: push_def apply_partial_def)
qed

text \<open>
  C6. A batch of upserts that was applied in full, in atomic or in partial mode, can be sent again at any
  later point of the engine's life at which its records are not yet due for purging: after any pushes,
  invalidations and compactions whose retention cutoff has not passed the time of the first push. If the
  schema version is still the batch's and the caller may still write those rows, the retry succeeds up to
  signing the new cursor and writes nothing: rows, events, idempotency records and the sequence counter
  are those before the retry, nothing is rejected, and every receipt is the stored one marked
  \<open>AlreadyApplied\<close>.
\<close>

theorem push_retry_is_idempotent:
  assumes inv: "engine_inv eng" and now: "i64_min \<le> now" "now \<le> i64_max"
    and upserts: "\<forall>m \<in> set (pb_mutations batch). cm_operation m = OpUpsert"
    and first: "push env auth eng ctx batch now = (Ok result, eng')"
    and applied: "pr_rejected result = []" "\<forall>r \<in> set (pr_accepted result). mr_outcome r = Applied"
    and between: "(retained_step env now)\<^sup>*\<^sup>* eng' eng2"
    and schema: "en_schema_version eng2 = en_schema_version eng'"
    and allowed: "\<forall>m \<in> set (pb_mutations batch). can_write auth' ctx (cm_table m) OpUpsert (cm_values m)"
    and retry: "push env auth' eng2 ctx batch now' = (r, eng3)"
  shows "es_rows (en_state eng3) = es_rows (en_state eng2) \<and> es_events (en_state eng3) = es_events (en_state eng2)
     \<and> next_sequence (en_state eng3) = next_sequence (en_state eng2)
     \<and> es_idempotency (en_state eng3) = es_idempotency (en_state eng2)
     \<and> r = bindr (engine_cursor env eng2 ctx (latest_sequence eng2) now') (\<lambda>cursor.
         Ok \<lparr>pr_accepted = map (\<lambda>x. x\<lparr>mr_outcome := AlreadyApplied\<rparr>) (pr_accepted result),
             pr_rejected = [], pr_cursor = cursor\<rparr>)"
proof -
  from push_all_accepted [OF first applied(1)] obtain tx where
    pre: "bindr (verify_context eng ctx) (\<lambda>_.
      validate_batch batch ctx (en_schema_version eng) (max_push_mutations (en_config eng))) = Ok ()"
    and loop: "apply_batch_loop env auth ctx tx now (pb_mutations batch) (snd (allocate_transaction_id eng))
      = (Ok (pr_accepted result), eng')" .
  note recs = apply_batch_loop_records [OF now allocate_transaction_id_inv [OF inv] loop applied(2) upserts]
  note run = retained_run [OF between push_inv [OF inv first], of ctx]
  have pre2: "bindr (verify_context eng2 ctx) (\<lambda>_.
      validate_batch batch ctx (en_schema_version eng2) (max_push_mutations (en_config eng2))) = Ok ()"
    using pre run schema push_same [OF first] by (simp add: same_engine_def verify_context_def)
  obtain tx' e2 where tx': "allocate_transaction_id eng2 = (tx', e2)" by force
  then have e2: "e2 = snd (allocate_transaction_id eng2)" by simp
  have "list_all2 (recorded env ctx now e2) (pb_mutations batch) (pr_accepted result)"
    using recs run by (auto simp: e2 recorded_tx elim: list.rel_mono_strong)
  from replay_loop [OF this, of auth' tx' now'] recs upserts allowed
  have loop': "apply_batch_loop env auth' ctx tx' now' (pb_mutations batch) e2 =
      (Ok (map (\<lambda>r. r\<lparr>mr_outcome := AlreadyApplied\<rparr>) (pr_accepted result)), e2)" by blast
  have "engine_cursor env e2 ctx (latest_sequence e2) now' = engine_cursor env eng2 ctx (latest_sequence eng2) now'"
    by (simp add: e2 allocate_transaction_id_def engine_cursor_def cursor_claims_for_def latest_sequence_def)
  with push_of_loop [OF pre2 tx' loop' retry] show ?thesis
    by (auto simp: e2 allocate_transaction_id_def)
qed

text \<open>The batch of the demonstration, in partial mode, with another client's push and a compaction between.\<close>

definition demo_partial :: push_batch where "demo_partial = demo_batch\<lparr>pb_mode := Partial\<rparr>"

definition demo_other :: sync_context where "demo_other = demo_ctx\<lparr>ctx_subject := ''bob''\<rparr>"

definition demo_between :: sync_engine where
  "demo_between = snd (compact (snd (push demo_env demo_auth
     (snd (push demo_env demo_auth demo_engine demo_ctx demo_partial 0)) demo_other demo_batch 7)) 8)"

theorem push_retry_is_idempotent_witness:
  "es_rows (en_state (snd (push demo_env demo_auth demo_between demo_ctx demo_partial 9)))
     = es_rows (en_state demo_between)
   \<and> length (es_events (en_state (snd (push demo_env demo_auth demo_between demo_ctx demo_partial 9)))) = 4"
proof -
  let ?p = "push demo_env demo_auth demo_engine demo_ctx demo_partial 0"
  let ?o = "push demo_env demo_auth (snd ?p) demo_other demo_batch 7"
  have first: "?p = (Ok (projr (fst ?p)), snd ?p)" and rejected: "pr_rejected (projr (fst ?p)) = []"
    and applied: "list_all (\<lambda>r. mr_outcome r = Applied) (pr_accepted (projr (fst ?p)))"
    by code_simp+
  have safe: "retains (snd ?p) 0 7" "retains (snd ?o) 0 8" by code_simp+
  have events: "length (es_events (en_state demo_between)) = 4" by code_simp
  have schema: "en_schema_version demo_between = en_schema_version (snd ?p)" by code_simp
  have "retained_step demo_env 0 (snd ?p) (snd ?o)"
    using safe(1) by (intro retained_push [OF surjective_pairing])
  moreover have "retained_step demo_env 0 (snd ?o) demo_between"
    using safe(2) unfolding demo_between_def by (intro retained_compact [OF surjective_pairing])
  ultimately have between: "(retained_step demo_env 0)\<^sup>*\<^sup>* (snd ?p) demo_between" by simp
  have inv: "engine_inv demo_engine" using demo_new by (rule engine_new_inv)
  have now: "i64_min \<le> 0" "0 \<le> i64_max" by (simp_all add: i64_min_def i64_max_def)
  have upserts: "\<forall>m \<in> set (pb_mutations demo_partial). cm_operation m = OpUpsert"
    "\<forall>m \<in> set (pb_mutations demo_partial). can_write demo_auth demo_ctx (cm_table m) OpUpsert (cm_values m)"
    by (simp_all add: demo_partial_def demo_batch_def demo_mutation_def demo_auth_def)
  from push_retry_is_idempotent [OF inv now upserts(1) first rejected _ between schema upserts(2)
      surjective_pairing, of 9] applied events
  show ?thesis by (simp add: list_all_iff)
qed

section \<open>Authorization\<close>

text \<open>
  No row, event or sequence number changes without the authorizer's consent: when \<open>can_write\<close>
  refuses the caller everything, a push in either mode leaves rows, log and counter as they were.
\<close>

theorem push_without_permission_writes_nothing:
  assumes deny: "\<And>t op row. \<not> can_write auth ctx t op row"
    and push: "push env auth eng ctx batch now = (r, eng')"
  shows "es_rows (en_state eng') = es_rows (en_state eng) \<and> es_events (en_state eng') = es_events (en_state eng)
     \<and> next_sequence (en_state eng') = next_sequence (en_state eng)"
proof -
  let ?R = "\<lambda>e e'. es_rows (en_state e') = es_rows (en_state e) \<and> es_events (en_state e') = es_events (en_state e)
     \<and> next_sequence (en_state e') = next_sequence (en_state e)"
  have step: "?R e e'" if "apply_mutation env auth e ctx tx m now = (x, e')" for tx e m x e'
    using that by (cases rule: apply_mutation_cases) (auto simp: purge_idempotency_def Let_def deny)
  show ?thesis
    by (rule push_rel [of ?R, OF _ _ _ _ _ push]) (auto simp: allocate_transaction_id_def dest: step)
qed

theorem push_without_permission_writes_nothing_witness:
  "es_events (en_state (snd (push demo_env (demo_auth\<lparr>can_write := \<lambda>_ _ _ _. False\<rparr>) demo_engine demo_ctx
      (demo_batch\<lparr>pb_mode := Partial\<rparr>) 0))) = []
   \<and> length (pr_rejected (projr (fst (push demo_env (demo_auth\<lparr>can_write := \<lambda>_ _ _ _. False\<rparr>) demo_engine demo_ctx
      (demo_batch\<lparr>pb_mode := Partial\<rparr>) 0)))) = 2"
proof -
  let ?auth = "demo_auth\<lparr>can_write := \<lambda>_ _ _ _. False\<rparr>"
  obtain r e where p: "push demo_env ?auth demo_engine demo_ctx (demo_batch\<lparr>pb_mode := Partial\<rparr>) 0 = (r, e)"
    by force
  have "es_events (en_state e) = es_events (en_state demo_engine)"
    using push_without_permission_writes_nothing [of ?auth demo_ctx, OF _ p] by simp
  moreover have "length (pr_rejected (projr (fst (push demo_env ?auth demo_engine demo_ctx
      (demo_batch\<lparr>pb_mode := Partial\<rparr>) 0)))) = 2"
    by code_simp
  ultimately show ?thesis
    using p by (simp add: demo_engine_def initial_state_def)
qed

text \<open>
  Authorization of an upsert looks at the new values alone: the row being overwritten does not
  take part. A caller who may write the new values replaces any stored row, also one the
  authorizer would not let the caller write.
\<close>

theorem upsert_authorized_by_new_values_only:
  assumes "cm_operation m = OpUpsert" and "validate_mutation m = Ok ()"
    and "mutation_to_vec env m = Some payload"
    and "row_key env (cm_table m) (cm_primary_key m) = Ok k"
    and "hm_get (es_idempotency (en_state eng)) (idempotency_key ctx m) = None"
    and "length (es_idempotency (en_state eng)) < max_idempotency_records (en_config eng)"
    and "apply_mutation env auth eng ctx tx m now = (r, eng')"
  shows "(can_write auth ctx (cm_table m) OpUpsert (cm_values m) \<longrightarrow>
       (\<exists>receipt. r = Ok receipt)
       \<and> map_option sr_values (hm_get (es_rows (en_state eng')) k) = Some (cm_values m))
     \<and> (\<not> can_write auth ctx (cm_table m) OpUpsert (cm_values m) \<longrightarrow> r = Err RlsDenied \<and> eng' = eng)"
proof -
  have "length (hm_retain P (es_idempotency (en_state eng))) < max_idempotency_records (en_config eng)" for P
    using assms(6) hm_length_retain order.strict_trans1 by blast
  then have room: "length (es_idempotency (en_state (purge_idempotency eng now)))
      < max_idempotency_records (en_config (purge_idempotency eng now))"
    by (simp add: purge_idempotency_def Let_def)
  show ?thesis
    using assms room
    by (auto simp: apply_mutation_def authorization_row_def Let_def not_le commit_mutation_def
        allocate_sequence_def hm_get_insert mutation_row_def)
qed

definition demo_owner :: sync_authorizer where
  "demo_owner = \<lparr>can_read = (\<lambda>ctx _ row. map_of row ''owner'' = Some (JString (ctx_subject ctx))),
     can_write = (\<lambda>ctx _ _ row. map_of row ''owner'' = Some (JString (ctx_subject ctx)))\<rparr>"

definition demo_owned :: "string \<Rightarrow> string \<Rightarrow> client_mutation" where
  "demo_owned i owner = (demo_mutation i)\<lparr>cm_primary_key := JString ''doc'',
     cm_values := [(''owner'', JString owner)]\<rparr>"

definition demo_bob :: sync_context where "demo_bob = demo_ctx\<lparr>ctx_subject := ''bob''\<rparr>"

definition demo_alice_row :: sync_engine where
  "demo_alice_row = snd (apply_mutation demo_env demo_owner demo_engine demo_ctx ''tx-1''
     (demo_owned ''a'' ''alice'') 0)"

theorem upsert_authorized_by_new_values_only_witness:
  "map_option sr_values (hm_get (es_rows (en_state demo_alice_row)) (''docs'' @ [CHR 0x1F] @ ''doc''))
      = Some [(''owner'', JString ''alice'')]
   \<and> map_option sr_values (hm_get (es_rows (en_state (snd (apply_mutation demo_env demo_owner demo_alice_row
        demo_bob ''tx-2'' (demo_owned ''b'' ''bob'') 1)))) (''docs'' @ [CHR 0x1F] @ ''doc''))
      = Some [(''owner'', JString ''bob'')]"
proof -
  let ?m = "demo_owned ''b'' ''bob''"
  have pre: "cm_operation ?m = OpUpsert" "validate_mutation ?m = Ok ()"
      "mutation_to_vec demo_env ?m = Some ''b''"
      "row_key demo_env (cm_table ?m) (cm_primary_key ?m) = Ok (''docs'' @ [CHR 0x1F] @ ''doc'')"
      "hm_get (es_idempotency (en_state demo_alice_row)) (idempotency_key demo_bob ?m) = None"
      "length (es_idempotency (en_state demo_alice_row)) < max_idempotency_records (en_config demo_alice_row)"
      "can_write demo_owner demo_bob (cm_table ?m) OpUpsert (cm_values ?m)"
    unfolding demo_alice_row_def by code_simp+
  have vals: "cm_values ?m = [(''owner'', JString ''bob'')]" by (simp add: demo_owned_def)
  have "map_option sr_values (hm_get (es_rows (en_state demo_alice_row)) (''docs'' @ [CHR 0x1F] @ ''doc''))
      = Some [(''owner'', JString ''alice'')]"
    unfolding demo_alice_row_def by code_simp
  then show ?thesis
    using upsert_authorized_by_new_values_only [OF pre(1-6) surjective_pairing] pre(7) vals by simp
qed

text \<open>
  Deleting a row that does not exist is authorized by the values the client sent, but leaves a
  tombstone with no values, and the retry is authorized by those: an accepted delete can be refused
  when the client repeats it, although its receipt is stored.
\<close>

theorem delete_retry_can_be_denied:
  "\<exists>eng' receipt.
     apply_mutation demo_env demo_owner demo_engine demo_ctx ''tx-1''
       ((demo_owned ''d'' ''alice'')\<lparr>cm_operation := OpDelete\<rparr>) 0 = (Ok receipt, eng')
     \<and> apply_mutation demo_env demo_owner eng' demo_ctx ''tx-2''
       ((demo_owned ''d'' ''alice'')\<lparr>cm_operation := OpDelete\<rparr>) 1 = (Err RlsDenied, eng')"
  by (rule exI [of _ "snd (apply_mutation demo_env demo_owner demo_engine demo_ctx ''tx-1''
       ((demo_owned ''d'' ''alice'')\<lparr>cm_operation := OpDelete\<rparr>) 0)"],
      rule exI [of _ "\<lparr>mr_mutation_id = ''d'', mr_sequence = 1, mr_row_version = 1, mr_outcome = Applied\<rparr>"])
    code_simp

end
