(* ===== verification/Sql_Scanner.thy ===== *)
theory Sql_Scanner
  imports Transition_System Collections
begin

text \<open>
  \<open>crates/sql-parser/src/scanner.rs\<close> and \<open>identifier.rs\<close>: splitting SQL text into statements and
  the validated, safely quoted identifier.

  An index \<open>i\<close> into the byte slice is represented by the suffix \<open>bytes[i..]\<close>; the sub-slice
  \<open>sql[i..j]\<close> is then \<open>slice\<close> of the two suffixes, and \<open>i < bytes.len()\<close> is that the suffix is not
  empty. The nesting depths (\<open>u32\<close>) are natural numbers: they are bounded by the length of the text.
\<close>

section \<open>Bytes of the SQL syntax\<close>

abbreviation squote :: char where "squote \<equiv> CHR 0x27"
abbreviation dquote :: char where "dquote \<equiv> CHR 0x22"
abbreviation backquote :: char where "backquote \<equiv> CHR 0x60"

definition slice :: "string \<Rightarrow> string \<Rightarrow> string" where
  "slice s r = take (length s - length r) s"

definition is_word_start :: "char \<Rightarrow> bool" where
  "is_word_start b = (is_ascii_alphabetic b \<or> b = CHR ''_'')"

definition is_word_continue :: "char \<Rightarrow> bool" where
  "is_word_continue b = (is_ascii_alphanumeric b \<or> b = CHR ''_'' \<or> b = CHR ''$'')"

definition is_newline :: "char \<Rightarrow> bool" where
  "is_newline b = (b = CHR 0x0A \<or> b = CHR 0x0D)"

definition next_is :: "string \<Rightarrow> char \<Rightarrow> bool" where
  "next_is r b = (case r of [] \<Rightarrow> False | c # _ \<Rightarrow> c = b)"

definition skip_line :: "string \<Rightarrow> string" where
  "skip_line r = dropWhile (\<lambda>b. \<not> is_newline b) r"

definition skip_word :: "string \<Rightarrow> string" where
  "skip_word r = dropWhile is_word_continue r"

section \<open>The scanner\<close>

datatype scan_error =
    UnterminatedString
  | UnterminatedIdentifier
  | UnterminatedComment
  | UnbalancedParenthesis

text \<open>
  The three skipping loops, from the suffix after the opening delimiter. The result is the suffix
  after the closing one.
\<close>

fun skip_quoted_loop :: "char \<Rightarrow> string \<Rightarrow> string option" where
  "skip_quoted_loop q [] = None"
| "skip_quoted_loop q (b # r) =
     (if b = q then
        (case r of
           [] \<Rightarrow> Some []
         | c # r' \<Rightarrow> (if c = q then skip_quoted_loop q r' else Some r))
      else skip_quoted_loop q r)"

definition skip_quoted :: "string \<Rightarrow> char \<Rightarrow> scan_error \<Rightarrow> scan_error + string" where
  "skip_quoted r quote error = ok_or (skip_quoted_loop quote (drop 1 r)) error"

fun skip_bracket_loop :: "string \<Rightarrow> string option" where
  "skip_bracket_loop [] = None"
| "skip_bracket_loop (b # r) = (if b = CHR '']'' then Some r else skip_bracket_loop r)"

definition skip_bracket_identifier :: "string \<Rightarrow> scan_error + string" where
  "skip_bracket_identifier r = ok_or (skip_bracket_loop (drop 1 r)) UnterminatedIdentifier"

fun skip_block_loop :: "string \<Rightarrow> string option" where
  "skip_block_loop (b # c # r) =
     (if b = CHR ''*'' \<and> c = CHR ''/'' then Some r else skip_block_loop (c # r))"
| "skip_block_loop _ = None"

definition skip_block_comment :: "string \<Rightarrow> scan_error + string" where
  "skip_block_comment r = ok_or (skip_block_loop (drop 2 r)) UnterminatedComment"

lemma skip_quoted_loop_length: "skip_quoted_loop q r = Some r' \<Longrightarrow> length r' < length r"
  by (induction q r rule: skip_quoted_loop.induct) (auto split: if_splits list.splits)

lemma skip_bracket_loop_length: "skip_bracket_loop r = Some r' \<Longrightarrow> length r' < length r"
  by (induction r rule: skip_bracket_loop.induct) (auto split: if_splits)

lemma skip_block_loop_length: "skip_block_loop r = Some r' \<Longrightarrow> length r' < length r"
  by (induction r rule: skip_block_loop.induct) (auto split: if_splits)

lemma skip_quoted_length: "skip_quoted (b # r) q e = Ok r' \<Longrightarrow> length r' < length r"
  by (auto simp: skip_quoted_def ffdb_result dest: skip_quoted_loop_length)

lemma skip_bracket_length: "skip_bracket_identifier (b # r) = Ok r' \<Longrightarrow> length r' < length r"
  by (auto simp: skip_bracket_identifier_def ffdb_result dest: skip_bracket_loop_length)

lemma skip_block_length: "skip_block_comment (b # r) = Ok r' \<Longrightarrow> length r' < length r"
  by (auto simp: skip_block_comment_def ffdb_result dest!: skip_block_loop_length)

lemma skip_line_length [simp]: "length (skip_line r) \<le> length r"
  by (simp add: skip_line_def length_dropWhile_le)

lemma skip_word_length [simp]: "length (skip_word r) \<le> length r"
  by (simp add: skip_word_def length_dropWhile_le)

lemma skip_line_drop_length [simp]: "length (skip_line (drop n r)) < Suc (length r)"
  using skip_line_length [of "drop n r"] by simp

lemmas skip_lengths = skip_quoted_length skip_bracket_length skip_block_length

text \<open>\<open>is_trivia\<close>: only white space and complete comments.\<close>

function is_trivia :: "string \<Rightarrow> bool" where
  "is_trivia [] = True"
| "is_trivia (b # r) =
     (if is_ascii_whitespace b then is_trivia r
      else if b = CHR ''-'' \<and> next_is r CHR ''-'' then is_trivia (skip_line (drop 1 r))
      else if b = CHR ''/'' \<and> next_is r CHR ''*'' then
        (case skip_block_comment (b # r) of
           Inl e \<Rightarrow> False
         | Inr r' \<Rightarrow> is_trivia r')
      else False)"
  by pat_completeness auto
termination
proof (relation "measure length")
  fix b r r'
  assume "skip_block_comment (b # r) = Inr r'"
  then show "(r', b # r) \<in> measure length"
    using skip_block_length by fastforce
qed simp_all

text \<open>
  The state of \<open>split_sql_statements\<close>: the local variables of the loop other than \<open>index\<close>, which is
  the suffix the loop is called with.
\<close>

record split_state =
  sp_statements :: "string list"
  sp_start :: string
  sp_depth :: nat
  trigger_body_depth :: nat
  possible_trigger :: bool
  sp_words :: "string list"

definition starts_trigger :: "string list \<Rightarrow> bool" where
  "starts_trigger ws =
     (ws = [''CREATE'', ''TRIGGER'']
      \<or> (length ws = 3 \<and> ws ! 0 = ''CREATE'' \<and> ws ! 1 \<in> {''TEMP'', ''TEMPORARY''}
          \<and> ws ! 2 = ''TRIGGER''))"

definition note_word :: "string \<Rightarrow> split_state \<Rightarrow> split_state" where
  "note_word word st =
     (if sp_depth st = 0 then
        (let st1 =
           (if length (sp_words st) < 3 then
              (let ws = sp_words st @ [word]
               in st\<lparr>sp_words := ws, possible_trigger := possible_trigger st \<or> starts_trigger ws\<rparr>)
            else st)
         in if (possible_trigger st1 \<and> word = ''BEGIN'')
               \<or> (0 < trigger_body_depth st1 \<and> word = ''CASE'')
            then st1\<lparr>trigger_body_depth := trigger_body_depth st1 + 1\<rparr>
            else if 0 < trigger_body_depth st1 \<and> word = ''END''
            then st1\<lparr>trigger_body_depth := trigger_body_depth st1 - 1\<rparr>
            else st1)
      else st)"

definition push_statement :: "string \<Rightarrow> string list \<Rightarrow> string list" where
  "push_statement text sts = (if is_trivia text then sts else sts @ [trim text])"

definition end_statement :: "string \<Rightarrow> string \<Rightarrow> split_state \<Rightarrow> split_state" where
  "end_statement here after st =
     st\<lparr>sp_statements := push_statement (slice (sp_start st) here) (sp_statements st),
        sp_start := after, sp_words := [], possible_trigger := False\<rparr>"

function split_loop :: "split_state \<Rightarrow> string \<Rightarrow> scan_error + split_state" where
  "split_loop st [] = Ok st"
| "split_loop st (b # r) =
     (if b = squote then
        bindr (skip_quoted (b # r) squote UnterminatedString) (split_loop st)
      else if b = dquote \<or> b = backquote then
        bindr (skip_quoted (b # r) b UnterminatedIdentifier) (split_loop st)
      else if b = CHR ''['' then
        bindr (skip_bracket_identifier (b # r)) (split_loop st)
      else if b = CHR ''-'' \<and> next_is r CHR ''-'' then
        split_loop st (skip_line (drop 1 r))
      else if b = CHR ''/'' \<and> next_is r CHR ''*'' then
        bindr (skip_block_comment (b # r)) (split_loop st)
      else if b = CHR ''('' then
        split_loop (st\<lparr>sp_depth := sp_depth st + 1\<rparr>) r
      else if b = CHR '')'' then
        (if sp_depth st = 0 then Err UnbalancedParenthesis
         else split_loop (st\<lparr>sp_depth := sp_depth st - 1\<rparr>) r)
      else if is_word_start b then
        split_loop (note_word (to_ascii_uppercase (slice (b # r) (skip_word r))) st) (skip_word r)
      else if b = CHR '';'' \<and> sp_depth st = 0 \<and> trigger_body_depth st = 0 then
        split_loop (end_statement (b # r) r st) r
      else split_loop st r)"
  by pat_completeness auto
termination
  by (relation "measure (length \<circ> snd)")
     (auto simp: le_imp_less_Suc dest: skip_lengths intro: less_SucI)

definition split_init :: "string \<Rightarrow> split_state" where
  "split_init sql = \<lparr>sp_statements = [], sp_start = sql, sp_depth = 0, trigger_body_depth = 0,
     possible_trigger = False, sp_words = []\<rparr>"

definition split_sql_statements :: "string \<Rightarrow> scan_error + string list" where
  "split_sql_statements sql =
     bindr (split_loop (split_init sql) sql) (\<lambda>st.
     if sp_depth st \<noteq> 0 then Err UnbalancedParenthesis
     else Ok (push_statement (sp_start st) (sp_statements st)))"

section \<open>Identifiers\<close>

datatype identifier_error = Identifier_Empty | Identifier_TooLong | Identifier_ControlCharacter

datatype sql_identifier = Identifier (as_str: string)

definition identifier_new :: "string \<Rightarrow> identifier_error + sql_identifier" where
  "identifier_new v =
     (if v = [] then Err Identifier_Empty
      else if char_count v > 128 then Err Identifier_TooLong
      else if any_control v then Err Identifier_ControlCharacter
      else Ok (Identifier v))"

definition is_internal :: "sql_identifier \<Rightarrow> bool" where
  "is_internal i = starts_with (to_ascii_lowercase (as_str i)) ''__ffdb_''"

text \<open>\<open>str::replace\<close> of one byte by the byte doubled, and the rendering of an identifier.\<close>

definition double_byte :: "char \<Rightarrow> string \<Rightarrow> string" where
  "double_byte q s = concat (map (\<lambda>b. if b = q then [q, q] else [b]) s)"

definition quoted :: "sql_identifier \<Rightarrow> string" where
  "quoted i = [dquote] @ double_byte dquote (as_str i) @ [dquote]"

section \<open>What the skipping loops consume\<close>

lemma slice_append [simp]: "slice (p @ r) r = p"
  by (simp add: slice_def)

lemma slice_Cons_append: "r = p @ r' \<Longrightarrow> slice (b # r) r' = b # p"
  by (simp add: slice_def)

lemma skip_quoted_loop_suffix: "skip_quoted_loop q r = Some r' \<Longrightarrow> \<exists>p. r = p @ r'"
proof (induction q r rule: skip_quoted_loop.induct)
  case (2 q b r)
  then show ?case
    by (auto split: if_splits list.splits intro: exI [of _ "[_]"])
qed simp

lemma skip_bracket_loop_suffix: "skip_bracket_loop r = Some r' \<Longrightarrow> \<exists>p. r = p @ r'"
  by (induction r rule: skip_bracket_loop.induct) (auto split: if_splits intro: exI [of _ "_ # _"])

lemma skip_block_loop_suffix: "skip_block_loop r = Some r' \<Longrightarrow> \<exists>p. r = p @ r'"
proof (induction r rule: skip_block_loop.induct)
  case (1 b c r)
  then show ?case
    by (auto split: if_splits)
qed simp_all

lemma drop_suffix: "drop n r = p @ r' \<Longrightarrow> \<exists>p. r = p @ r'"
  by (metis append.assoc append_take_drop_id)

lemma skip_quoted_suffix: "skip_quoted r q e = Ok r' \<Longrightarrow> \<exists>p. r = p @ r'"
  by (auto simp: skip_quoted_def ffdb_result dest!: skip_quoted_loop_suffix drop_suffix)

lemma skip_bracket_suffix: "skip_bracket_identifier r = Ok r' \<Longrightarrow> \<exists>p. r = p @ r'"
  by (auto simp: skip_bracket_identifier_def ffdb_result dest!: skip_bracket_loop_suffix drop_suffix)

lemma skip_block_suffix: "skip_block_comment r = Ok r' \<Longrightarrow> \<exists>p. r = p @ r'"
  by (auto simp: skip_block_comment_def ffdb_result dest!: skip_block_loop_suffix drop_suffix)

lemma skip_line_suffix: "\<exists>p. r = p @ skip_line r"
  by (metis skip_line_def takeWhile_dropWhile_id)

lemma skip_word_suffix: "\<exists>p. r = p @ skip_word r"
  by (metis skip_word_def takeWhile_dropWhile_id)

lemma skip_line_drop_suffix: "\<exists>p. r = p @ skip_line (drop n r)"
  by (metis append.assoc append_take_drop_id skip_line_suffix)

text \<open>
  A text in which the closing quote is doubled is skipped as a whole: nothing in it ends the
  quoted region early.
\<close>

lemma double_byte_simps [simp]:
  "double_byte q [] = []"
  "double_byte q (b # s) = (if b = q then q # q # double_byte q s else b # double_byte q s)"
  by (simp_all add: double_byte_def)

lemma skip_quoted_loop_double:
  "\<not> next_is r q \<Longrightarrow> skip_quoted_loop q (double_byte q s @ q # r) = Some r"
  by (induction s) (auto simp: next_is_def split: list.splits)

lemma skip_quoted_double:
  "\<not> next_is r q \<Longrightarrow> skip_quoted (q # double_byte q s @ q # r) q e = Ok r"
  by (simp add: skip_quoted_def skip_quoted_loop_double)

section \<open>The segments between separators\<close>

lemma note_word_frame [simp]:
  "sp_start (note_word w st) = sp_start st" "sp_statements (note_word w st) = sp_statements st"
  by (simp_all add: note_word_def Let_def)

definition terminated :: "string list \<Rightarrow> string" where
  "terminated segs = concat (map (\<lambda>s. s @ [CHR '';'']) segs)"

definition split_from :: "split_state \<Rightarrow> split_state \<Rightarrow> bool" where
  "split_from st st' \<longleftrightarrow>
     (\<exists>segs. sp_start st = terminated segs @ sp_start st'
           \<and> sp_statements st' = sp_statements st @ map trim (filter (\<lambda>s. \<not> is_trivia s) segs))"

lemma split_from_refl [simp]: "sp_start st' = sp_start st \<Longrightarrow> sp_statements st' = sp_statements st \<Longrightarrow> split_from st st'"
  by (auto simp: split_from_def terminated_def intro: exI [of _ "[]"])

lemma split_from_cong:
  "split_from st st' \<Longrightarrow> sp_start s = sp_start st \<Longrightarrow> sp_statements s = sp_statements st \<Longrightarrow> split_from s st'"
  by (simp add: split_from_def)

lemma split_from_end_statement:
  assumes "split_from (end_statement (CHR '';'' # r) r st) st'" and "sp_start st = p @ CHR '';'' # r"
  shows "split_from st st'"
proof -
  obtain segs where segs: "r = terminated segs @ sp_start st'"
      "sp_statements st' = push_statement p (sp_statements st)
         @ map trim (filter (\<lambda>s. \<not> is_trivia s) segs)"
    using assms by (auto simp: split_from_def end_statement_def)
  show ?thesis
    unfolding split_from_def
    by (rule exI [of _ "p # segs"])
      (use segs assms(2) in \<open>auto simp: terminated_def push_statement_def\<close>)
qed

lemma split_loop_cases:
  assumes "split_loop st (b # r) = Ok st'"
  obtains (Step) st1 p r' where "split_loop st1 r' = Ok st'" "b # r = p @ r'" "p \<noteq> []"
      "sp_start st1 = sp_start st" "sp_statements st1 = sp_statements st"
    | (End) "b = CHR '';''" "split_loop (end_statement (b # r) r st) r = Ok st'"
proof -
  have step: thesis if "split_loop st1 r' = Ok st'" "\<exists>p. b # r = p @ r'" "length r' < length (b # r)"
      "sp_start st1 = sp_start st" "sp_statements st1 = sp_statements st" for st1 r'
    using that Step [of st1 r'] by (metis append_Nil less_irrefl)
  have suffix: "\<exists>p. b # r = p @ r'" if "\<exists>p. r = p @ r'" for r'
    using that by (metis append_Cons)
  consider (quote) q e r' where "skip_quoted (b # r) q e = Ok r'" "split_loop st r' = Ok st'"
    | (bracket) r' where "skip_bracket_identifier (b # r) = Ok r'" "split_loop st r' = Ok st'"
    | (line) "split_loop st (skip_line (drop 1 r)) = Ok st'"
    | (block) r' where "skip_block_comment (b # r) = Ok r'" "split_loop st r' = Ok st'"
    | (paren) d where "split_loop (st\<lparr>sp_depth := d\<rparr>) r = Ok st'"
    | (word) w where "split_loop (note_word w st) (skip_word r) = Ok st'"
    | (semi) "b = CHR '';''" "split_loop (end_statement (b # r) r st) r = Ok st'"
    | (other) "split_loop st r = Ok st'"
    using assms by (auto simp: ffdb_result split: if_splits)
  then show thesis
  proof cases
    case quote
    then show ?thesis by (auto intro!: step [of st] dest: skip_quoted_suffix skip_quoted_length)
  next
    case bracket
    then show ?thesis by (auto intro!: step [of st] dest: skip_bracket_suffix skip_bracket_length)
  next
    case line
    then show ?thesis by (rule step) (simp_all add: suffix skip_line_drop_suffix)
  next
    case block
    then show ?thesis by (auto intro!: step [of st] dest: skip_block_suffix skip_block_length)
  next
    case paren
    then show ?thesis by (rule step) (simp_all add: suffix)
  next
    case word
    then show ?thesis by (rule step) (simp_all add: suffix skip_word_suffix le_imp_less_Suc)
  next
    case semi
    then show ?thesis by (rule End)
  next
    case other
    then show ?thesis by (rule step) (simp_all add: suffix)
  qed
qed

lemma split_loop_from:
  "split_loop st r = Ok st' \<Longrightarrow> sp_start st = p @ r \<Longrightarrow> split_from st st'"
proof (induction "length r" arbitrary: st r p rule: less_induct)
  case less
  show ?case
  proof (cases r)
    case Nil
    then show ?thesis using less.prems by simp
  next
    case (Cons b s)
    from less.prems(1) [unfolded Cons] show ?thesis
    proof (cases rule: split_loop_cases)
      case (Step st1 q r')
      then have "split_from st1 st'"
        using less.prems(2) Cons
        by (intro less.hyps [of r' st1 "p @ q"])
          (metis Cons_eq_append_conv length_append less_add_same_cancel2 length_greater_0_conv, simp_all)
      then show ?thesis using Step by (metis split_from_cong)
    next
      case End
      then have "split_from (end_statement (b # s) s st) st'"
        using Cons by (intro less.hyps [of s _ "[]"]) (simp_all add: end_statement_def)
      then show ?thesis
        using End(1) less.prems(2) Cons by (metis split_from_end_statement)
    qed
  qed
qed

lemma join_terminated: "join [CHR '';''] (segs @ [s]) = terminated segs @ s"
  by (induction segs rule: induct_list012) (simp_all add: terminated_def)

lemma split_sql_statements_segments:
  assumes "split_sql_statements sql = Ok sts"
  obtains segs where "join [CHR '';''] segs = sql"
    "sts = map trim (filter (\<lambda>s. \<not> is_trivia s) segs)" "segs \<noteq> []"
proof -
  obtain st where st: "split_loop (split_init sql) sql = Ok st"
      "sts = push_statement (sp_start st) (sp_statements st)"
    using assms by (auto simp: split_sql_statements_def ffdb_result split: if_splits)
  from st(1) have "split_from (split_init sql) st"
    by (rule split_loop_from [where p = "[]"]) (simp add: split_init_def)
  then obtain segs where "sql = terminated segs @ sp_start st"
      "sp_statements st = map trim (filter (\<lambda>s. \<not> is_trivia s) segs)"
    by (auto simp: split_from_def split_init_def)
  then show thesis
    using st(2) that [of "segs @ [sp_start st]"] by (simp add: join_terminated push_statement_def)
qed

end
