(* ===== verification/Sql_Classifier.thy ===== *)
theory Sql_Classifier
  imports Sql_Scanner
begin

text \<open>
  \<open>crates/sql-parser/src/classifier.rs\<close>: the conservative classification of one statement by its
  top-level words, and the escaped string literal that can never add a statement.
\<close>

section \<open>Data\<close>

datatype statement_kind =
    Kind_Select | Kind_Insert | Kind_Update | Kind_Delete | Kind_Ddl | Kind_Pragma | Kind_Attach
  | Kind_Detach | Kind_Vacuum | Kind_TransactionControl | Kind_Rls | Kind_Other

record statement_class =
  kind :: statement_kind
  read_only :: bool

definition allowed_for_end_user :: "statement_class \<Rightarrow> bool" where
  "allowed_for_end_user c = (kind c \<in> {Kind_Select, Kind_Insert, Kind_Update, Kind_Delete})"

datatype classification_error = ExpectedOneStatement | Ambiguous | Scan scan_error

section \<open>Classification\<close>

text \<open>The words of a statement outside parentheses, quotes and comments, in upper case.\<close>

function top_level_words_loop ::
    "nat \<Rightarrow> string list \<Rightarrow> string \<Rightarrow> scan_error + nat \<times> string list" where
  "top_level_words_loop d ws [] = Ok (d, ws)"
| "top_level_words_loop d ws (b # r) =
     (if b = squote then
        bindr (skip_quoted (b # r) squote UnterminatedString) (top_level_words_loop d ws)
      else if b = dquote \<or> b = backquote then
        bindr (skip_quoted (b # r) b UnterminatedIdentifier) (top_level_words_loop d ws)
      else if b = CHR ''['' then
        bindr (skip_bracket_identifier (b # r)) (top_level_words_loop d ws)
      else if b = CHR ''-'' \<and> next_is r CHR ''-'' then
        top_level_words_loop d ws (skip_line (drop 1 r))
      else if b = CHR ''/'' \<and> next_is r CHR ''*'' then
        bindr (skip_block_comment (b # r)) (top_level_words_loop d ws)
      else if b = CHR ''('' then top_level_words_loop (d + 1) ws r
      else if b = CHR '')'' then
        (if d = 0 then Err UnbalancedParenthesis else top_level_words_loop (d - 1) ws r)
      else if d = 0 \<and> is_word_start b then
        top_level_words_loop d (ws @ [to_ascii_uppercase (slice (b # r) (skip_word r))]) (skip_word r)
      else top_level_words_loop d ws r)"
  by pat_completeness auto
termination
  by (relation "measure (length \<circ> snd \<circ> snd)")
     (auto simp: le_imp_less_Suc dest: skip_lengths intro: less_SucI)

definition top_level_words :: "string \<Rightarrow> scan_error + string list" where
  "top_level_words sql =
     bindr (top_level_words_loop 0 [] sql) (\<lambda>(d, ws).
     if d = 0 then Ok ws else Err UnbalancedParenthesis)"

definition dml_keyword :: "string \<Rightarrow> statement_kind option" where
  "dml_keyword w =
     (if w = ''SELECT'' then Some Kind_Select
      else if w = ''INSERT'' \<or> w = ''REPLACE'' then Some Kind_Insert
      else if w = ''UPDATE'' then Some Kind_Update
      else if w = ''DELETE'' then Some Kind_Delete
      else None)"

fun find_map :: "('a \<Rightarrow> 'b option) \<Rightarrow> 'a list \<Rightarrow> 'b option" where
  "find_map f [] = None"
| "find_map f (x # xs) = (case f x of Some y \<Rightarrow> Some y | None \<Rightarrow> find_map f xs)"

definition classify_with :: "string list \<Rightarrow> classification_error + statement_kind" where
  "classify_with ws = ok_or (find_map dml_keyword (rev (drop 1 ws))) Ambiguous"

definition keyword_kind :: "string \<Rightarrow> string list \<Rightarrow> statement_kind" where
  "keyword_kind first rest =
     (if first = ''CREATE'' \<or> first = ''DROP'' then
        (if rest \<noteq> [] \<and> hd rest = ''POLICY'' then Kind_Rls else Kind_Ddl)
      else if first = ''ALTER'' then
        (if rest \<noteq> [] \<and> hd rest \<in> {''POLICY'', ''TABLE''}
            \<and> list_ex (\<lambda>w. w \<in> {''POLICY'', ''SECURITY''}) (first # rest)
         then Kind_Rls else Kind_Ddl)
      else if first = ''PRAGMA'' then Kind_Pragma
      else if first = ''ATTACH'' then Kind_Attach
      else if first = ''DETACH'' then Kind_Detach
      else if first = ''VACUUM'' then Kind_Vacuum
      else if first \<in> {''BEGIN'', ''COMMIT'', ''END'', ''ROLLBACK'', ''SAVEPOINT'', ''RELEASE''}
      then Kind_TransactionControl
      else Kind_Other)"

definition statement_kind_of :: "string list \<Rightarrow> classification_error + statement_kind" where
  "statement_kind_of tokens =
     (case tokens of
        [] \<Rightarrow> Err Ambiguous
      | first # rest \<Rightarrow>
          (case dml_keyword first of
             Some k \<Rightarrow> Ok k
           | None \<Rightarrow> if first = ''WITH'' then classify_with tokens else Ok (keyword_kind first rest)))"

definition classify_statement :: "string \<Rightarrow> classification_error + statement_class" where
  "classify_statement sql =
     bindr (map_err Scan (split_sql_statements sql)) (\<lambda>statements.
     case statements of
       [statement] \<Rightarrow>
         bindr (map_err Scan (top_level_words statement)) (\<lambda>tokens.
         bindr (statement_kind_of tokens) (\<lambda>k.
         Ok \<lparr>kind = k, read_only = (k = Kind_Select)\<rparr>))
     | _ \<Rightarrow> Err ExpectedOneStatement)"

lemma classify_statement_Ok:
  assumes "classify_statement sql = Ok c"
  obtains st ws where "split_sql_statements sql = Ok [st]" "top_level_words st = Ok ws"
    "statement_kind_of ws = Ok (kind c)" "read_only c = (kind c = Kind_Select)"
proof -
  obtain sts where sts: "split_sql_statements sql = Ok sts"
    using assms by (auto simp: classify_statement_def ffdb_result)
  obtain st where "sts = [st]"
    using assms sts by (cases sts; cases "tl sts") (auto simp: classify_statement_def)
  then show thesis
    using assms sts that by (auto simp: classify_statement_def ffdb_result)
qed

text \<open>A statement is offered to end users only for these first words.\<close>

definition dml_words :: "string list" where
  "dml_words = [''SELECT'', ''INSERT'', ''REPLACE'', ''UPDATE'', ''DELETE'', ''WITH'']"

lemma if_not_in: "a \<notin> S \<Longrightarrow> b \<notin> S \<Longrightarrow> (if c then a else b) \<notin> S"
  by simp

lemma keyword_kind_not_dml:
  "keyword_kind w rest \<notin> {Kind_Select, Kind_Insert, Kind_Update, Kind_Delete}"
  unfolding keyword_kind_def by (intro if_not_in) simp_all

lemma dml_keyword_words: "dml_keyword w = Some k \<Longrightarrow> w \<in> set dml_words"
  by (auto simp: dml_keyword_def dml_words_def split: if_split_asm)

lemma statement_kind_dml:
  assumes "statement_kind_of ws = Ok k" and "k \<in> {Kind_Select, Kind_Insert, Kind_Update, Kind_Delete}"
  shows "ws \<noteq> [] \<and> hd ws \<in> set dml_words"
proof (cases ws)
  case Nil
  then show ?thesis using assms by (simp add: statement_kind_of_def)
next
  case (Cons w rest)
  show ?thesis
  proof (cases "dml_keyword w")
    case None
    then have "w = ''WITH''"
      using assms Cons keyword_kind_not_dml [of w rest]
      by (simp add: statement_kind_of_def split: if_split_asm)
    then show ?thesis using Cons by (simp add: dml_words_def)
  next
    case (Some k)
    then show ?thesis using Cons by (simp add: dml_keyword_words)
  qed
qed

section \<open>An escaped literal inside a statement\<close>

definition sql_literal :: "string \<Rightarrow> string" where
  "sql_literal s = [squote] @ double_byte squote s @ [squote]"

definition literal_query :: "string \<Rightarrow> string" where
  "literal_query s = ''SELECT '' @ sql_literal s @ '' AS payload''"

text \<open>
  The scan up to a literal, over it, and after it: each of the three parts is evaluated for a
  symbolic literal.
\<close>

lemma literal_query_unfold:
  "literal_query s = CHR ''S'' # ''ELECT '' @ squote # double_byte squote s @ squote # '' AS payload''"
  by (simp add: literal_query_def sql_literal_def)

lemmas byte_class_defs = is_word_start_def is_word_continue_def is_ascii_alphanumeric_def
  is_ascii_alphabetic_def is_ascii_lowercase_def is_ascii_uppercase_def is_ascii_digit_def code_def

lemmas scan_eval = byte_class_defs skip_word_def next_is_def slice_def note_word_def Let_def
  starts_trigger_def skip_quoted_double

lemma uppercase_words:
  "to_ascii_uppercase ''SELECT'' = ''SELECT''" "to_ascii_uppercase ''AS'' = ''AS''"
  "to_ascii_uppercase ''payload'' = ''PAYLOAD''"
  by code_simp+

lemma split_loop_literal_query:
  "\<exists>ws. split_loop (split_init (literal_query s)) (literal_query s)
     = Ok ((split_init (literal_query s))\<lparr>sp_words := ws\<rparr>)"
  by (simp add: literal_query_unfold split_init_def scan_eval uppercase_words)

lemma top_level_words_literal_query:
  "top_level_words (literal_query s) = Ok [''SELECT'', ''AS'', ''PAYLOAD'']"
  by (simp add: literal_query_unfold top_level_words_def scan_eval uppercase_words)

lemma trim_literal_query: "trim (literal_query s) = literal_query s"
  by (simp add: literal_query_unfold trim_def trim_start.simps trim_end_rev.simps
      is_white1_def is_white2_def is_white3_def code_def)

lemma literal_query_not_trivia: "\<not> is_trivia (literal_query s)"
  by (simp add: literal_query_unfold is_ascii_whitespace_def code_def)

lemma split_literal_query: "split_sql_statements (literal_query s) = Ok [literal_query s]"
  using split_loop_literal_query [of s]
  by (auto simp: split_sql_statements_def split_init_def push_statement_def literal_query_not_trivia
      trim_literal_query)

end
