(* ===== verification/Rls_Parser.thy ===== *)
theory Rls_Parser
  imports Sql_Classifier
begin

text \<open>
  \<open>crates/sql-parser/src/rls.rs\<close> and the entry point of \<open>lib.rs\<close>: the lexer, the recursive-descent
  parser of the row-level-security statements, the check of policy predicates and the rewriting of
  the public \<open>auth.*\<close> functions.

  As in the scanner an index is a suffix: the lexer works on \<open>bytes[index..]\<close>, the parser on
  \<open>tokens[cursor..]\<close>. The quote characters are ASCII, so \<open>decode_quoted\<close> may walk the bytes of the
  text where the code walks its characters.
\<close>

section \<open>Data\<close>

datatype policy_mode = Permissive | Restrictive

datatype policy_command = Cmd_All | Cmd_Select | Cmd_Insert | Cmd_Update | Cmd_Delete

datatype role_name = RoleName (role_identifier: sql_identifier)

record predicate =
  sql :: string

record create_policy =
  cp_name :: sql_identifier
  cp_table :: sql_identifier
  cp_mode :: policy_mode
  cp_command :: policy_command
  cp_roles :: "role_name list"
  cp_using :: "predicate option"
  cp_with_check :: "predicate option"

record alter_policy =
  ap_name :: sql_identifier
  ap_table :: sql_identifier
  ap_rename_to :: "sql_identifier option"
  ap_roles :: "role_name list option"
  ap_using :: "predicate option"
  ap_with_check :: "predicate option"

record drop_policy =
  dp_name :: sql_identifier
  dp_table :: sql_identifier
  dp_if_exists :: bool

datatype alter_table_rls = Rls_Enable | Rls_Disable | Rls_Force | Rls_NoForce

datatype rls_statement =
    AlterTable sql_identifier alter_table_rls
  | CreatePolicy create_policy
  | AlterPolicy alter_policy
  | DropPolicy drop_policy

datatype rls_parse_error =
    Rls_Empty
  | Rls_Syntax nat string
  | InternalIdentifier
  | UnsafePredicate
  | UnsupportedAuthFunction
  | InvalidClaimArgument
  | MalformedPredicate
  | InvalidPolicyClause policy_command string
  | Rls_Identifier identifier_error
  | Rls_Scan scan_error

datatype token_kind =
    Word string
  | Ident string
  | StringLiteral string
  | Symbol char
  | Other

record token =
  tk_kind :: token_kind
  tk_start :: nat
  tk_end :: nat

section \<open>The lexer\<close>

text \<open>
  \<open>decode_quoted\<close>, from the suffix after the opening quote: the suffix after the closing quote and
  the decoded value. The quote is its own escape in every call.
\<close>

fun decode_loop :: "char \<Rightarrow> string \<Rightarrow> (string \<times> string) option" where
  "decode_loop q [] = None"
| "decode_loop q (b # r) =
     (if b = q then
        (case r of
           [] \<Rightarrow> Some ([], [])
         | c # r' \<Rightarrow>
             (if c = q then map_option (\<lambda>(e, v). (e, q # v)) (decode_loop q r') else Some (r, [])))
      else map_option (\<lambda>(e, v). (e, b # v)) (decode_loop q r))"

definition decode_quoted :: "string \<Rightarrow> char \<Rightarrow> rls_parse_error + string \<times> string" where
  "decode_quoted r quote = ok_or (decode_loop quote (drop 1 r)) MalformedPredicate"

lemma decode_loop_length: "decode_loop q r = Some (e, v) \<Longrightarrow> length e < length r"
  by (induction q r arbitrary: v rule: decode_loop.induct)
     (fastforce split: if_splits list.splits)+

lemma decode_quoted_length: "decode_quoted (b # r) q = Ok (e, v) \<Longrightarrow> length e < length r"
  by (auto simp: decode_quoted_def ffdb_result dest: decode_loop_length)

text \<open>
  The block comment of the lexer, from the suffix after the opening delimiter: the loop stops at
  the terminator or at the last byte, and only the latter is an error; when nothing follows the
  opening delimiter the index moves beyond the text, which ends the outer loop.
\<close>

fun lex_block :: "string \<Rightarrow> string option" where
  "lex_block [] = Some []"
| "lex_block [b] = None"
| "lex_block (b # c # r) = (if b = CHR ''*'' \<and> c = CHR ''/'' then Some r else lex_block (c # r))"

lemma lex_block_length: "lex_block r = Some r' \<Longrightarrow> length r' \<le> length r"
  by (induction r rule: lex_block.induct) (auto split: if_splits)

lemma lex_block_drop_length: "lex_block (drop n r) = Some r' \<Longrightarrow> length r' < Suc (length r)"
  by (drule lex_block_length) simp

definition is_symbol :: "char \<Rightarrow> bool" where
  "is_symbol b = (b \<in> {CHR ''('', CHR '')'', CHR '','', CHR ''.'', CHR '';''})"

text \<open>
  One pass through the loop of \<open>lex\<close>: the kind of the token pushed, if one is, and the suffix at
  which the next pass starts.
\<close>

fun lex_one :: "bool \<Rightarrow> string \<Rightarrow> rls_parse_error + token_kind option \<times> string" where
  "lex_one allow_comments [] = Ok (None, [])"
| "lex_one allow_comments (b # r) =
     (if is_ascii_whitespace b then Ok (None, r)
      else if b = CHR ''-'' \<and> next_is r CHR ''-'' then
        (if \<not> allow_comments then Err UnsafePredicate else Ok (None, skip_line (drop 1 r)))
      else if b = CHR ''/'' \<and> next_is r CHR ''*'' then
        (if \<not> allow_comments then Err UnsafePredicate
         else bindr (ok_or (lex_block (drop 1 r)) MalformedPredicate) (\<lambda>r'. Ok (None, r')))
      else if b = squote then
        bindr (decode_quoted (b # r) squote) (\<lambda>(r', v). Ok (Some (StringLiteral v), r'))
      else if b = dquote \<or> b = backquote then
        bindr (decode_quoted (b # r) b) (\<lambda>(r', v). Ok (Some (Ident v), r'))
      else if b = CHR ''['' then
        bindr (ok_or (skip_bracket_loop r) MalformedPredicate) (\<lambda>r'.
        Ok (Some (Ident (takeWhile (\<lambda>c. c \<noteq> CHR '']'') r)), r'))
      else if is_word_start b then
        Ok (Some (Word (slice (b # r) (skip_word r))), skip_word r)
      else if is_symbol b then Ok (Some (Symbol b), r)
      else Ok (Some Other, r))"

lemma lex_one_length: "lex_one allow_comments (b # r) = Ok (k, r') \<Longrightarrow> length r' \<le> length r"
  by (auto simp: ffdb_result less_Suc_eq_le skip_line_drop_length [unfolded less_Suc_eq_le] split: if_splits
      dest!: lex_block_drop_length skip_bracket_loop_length decode_quoted_length)

definition mk_token :: "nat \<Rightarrow> token_kind \<Rightarrow> string \<Rightarrow> string \<Rightarrow> token" where
  "mk_token n k r r' = \<lparr>tk_kind = k, tk_start = n - length r, tk_end = n - length r'\<rparr>"

definition push_token :: "nat \<Rightarrow> token_kind option \<Rightarrow> string \<Rightarrow> string \<Rightarrow> token list \<Rightarrow> token list" where
  "push_token n k r r' ts = (case k of None \<Rightarrow> ts | Some k \<Rightarrow> mk_token n k r r' # ts)"

text \<open>\<open>n\<close> is the length of the whole text, so that an offset is \<open>n\<close> minus the length of a suffix.\<close>

function lex_loop :: "nat \<Rightarrow> bool \<Rightarrow> string \<Rightarrow> rls_parse_error + token list" where
  "lex_loop n allow_comments [] = Ok []"
| "lex_loop n allow_comments (b # r) =
     bindr (lex_one allow_comments (b # r)) (\<lambda>(k, r').
     bindr (lex_loop n allow_comments r') (\<lambda>ts.
     Ok (push_token n k (b # r) r' ts)))"
  by pat_completeness auto
termination
  by (relation "measure (length \<circ> snd \<circ> snd)")
     (auto simp: less_Suc_eq_le simp del: lex_one.simps dest: lex_one_length)

definition lex :: "string \<Rightarrow> bool \<Rightarrow> rls_parse_error + token list" where
  "lex s allow_comments = lex_loop (length s) allow_comments s"

section \<open>Rewriting the auth functions\<close>

definition kind_at :: "token list \<Rightarrow> nat \<Rightarrow> token_kind option" where
  "kind_at ts i = (if i < length ts then Some (tk_kind (ts ! i)) else None)"

definition internal_name :: "string \<Rightarrow> bool" where
  "internal_name w = starts_with (to_ascii_lowercase w) ''__ffdb_''"

definition names_internal :: "token \<Rightarrow> bool" where
  "names_internal t =
     (case tk_kind t of Word w \<Rightarrow> internal_name w | Ident w \<Rightarrow> internal_name w | _ \<Rightarrow> False)"

definition is_keyword :: "string \<Rightarrow> token \<Rightarrow> bool" where
  "is_keyword expected t =
     (case tk_kind t of Word w \<Rightarrow> eq_ignore_ascii_case w expected | _ \<Rightarrow> False)"

definition auth_replacement :: "string \<Rightarrow> string option" where
  "auth_replacement f =
     (let l = to_ascii_lowercase f in
      if l = ''uid'' then Some ''__ffdb_auth_uid''
      else if l = ''role'' then Some ''__ffdb_auth_role''
      else if l = ''jwt'' then Some ''__ffdb_auth_jwt''
      else if l = ''claim'' then Some ''__ffdb_auth_claim''
      else None)"

definition claim_argument :: "token_kind option \<Rightarrow> bool" where
  "claim_argument k =
     (case k of Some (StringLiteral v) \<Rightarrow> v \<noteq> [] \<and> char_count v \<le> 128 | _ \<Rightarrow> False)"

definition sub :: "string \<Rightarrow> nat \<Rightarrow> nat \<Rightarrow> string" where
  "sub s i j = take (j - i) (drop i s)"

text \<open>The loop over \<open>tokens[index..]\<close> with the output so far and \<open>source_cursor\<close>.\<close>

fun rewrite_loop ::
    "string \<Rightarrow> string \<Rightarrow> nat \<Rightarrow> token list \<Rightarrow> rls_parse_error + string" where
  "rewrite_loop s out cursor [] = Ok (out @ drop cursor s)"
| "rewrite_loop s out cursor (t # ts) =
     (if \<not> is_keyword ''auth'' t then rewrite_loop s out cursor ts
      else if kind_at ts 0 \<noteq> Some (Symbol CHR ''.'') then rewrite_loop s out cursor ts
      else
        (case kind_at ts 1 of
           Some (Word f) \<Rightarrow>
             (case auth_replacement f of
                None \<Rightarrow> Err UnsupportedAuthFunction
              | Some replacement \<Rightarrow>
                  (let out' = out @ sub s cursor (tk_start t) @ replacement;
                       cursor' = tk_end (ts ! 1)
                   in
                   if kind_at ts 2 \<noteq> Some (Symbol CHR ''('') then Err UnsupportedAuthFunction
                   else if replacement = ''__ffdb_auth_claim'' then
                     (if \<not> claim_argument (kind_at ts 3) \<or> kind_at ts 4 \<noteq> Some (Symbol CHR '')'')
                      then Err InvalidClaimArgument
                      else rewrite_loop s out' cursor' (drop 5 ts))
                   else if kind_at ts 3 \<noteq> Some (Symbol CHR '')'') then Err UnsupportedAuthFunction
                   else rewrite_loop s out' cursor' (drop 4 ts)))
         | _ \<Rightarrow> Err UnsupportedAuthFunction))"

definition rewrite_auth_functions :: "string \<Rightarrow> bool \<Rightarrow> rls_parse_error + string" where
  "rewrite_auth_functions s allow_comments =
     bindr (lex s allow_comments) (\<lambda>tokens.
     if list_ex names_internal tokens then Err InternalIdentifier
     else rewrite_loop s [] 0 tokens)"

definition rewrite_auth_functions_for_execution :: "string \<Rightarrow> rls_parse_error + string" where
  "rewrite_auth_functions_for_execution s = rewrite_auth_functions s True"

section \<open>Predicates\<close>

text \<open>The loop of \<open>validate_predicate\<close>: parenthesis depth (\<open>i32\<close>) and reserved names.\<close>

fun check_tokens :: "int \<Rightarrow> token list \<Rightarrow> rls_parse_error + int" where
  "check_tokens d [] = Ok d"
| "check_tokens d (t # ts) =
     (if tk_kind t = Symbol CHR ''('' then check_tokens (d + 1) ts
      else if tk_kind t = Symbol CHR '')'' then
        (if d - 1 < 0 then Err MalformedPredicate else check_tokens (d - 1) ts)
      else if names_internal t then Err InternalIdentifier
      else check_tokens d ts)"

definition validate_predicate :: "string \<Rightarrow> rls_parse_error + unit" where
  "validate_predicate s =
     (if trim s = [] then Err MalformedPredicate
      else
        bindr (lex s False) (\<lambda>tokens.
        if list_ex (\<lambda>t. tk_kind t = Symbol CHR '';'') tokens then Err UnsafePredicate
        else
          bindr (check_tokens 0 tokens) (\<lambda>d.
          if d \<noteq> 0 then Err MalformedPredicate
          else bindr (rewrite_auth_functions s False) (\<lambda>_. Ok ()))))"

definition predicate_new :: "string \<Rightarrow> rls_parse_error + predicate" where
  "predicate_new s = bindr (validate_predicate s) (\<lambda>_. Ok \<lparr>sql = s\<rparr>)"

definition sqlite_sql :: "predicate \<Rightarrow> string" where
  "sqlite_sql p =
     (case rewrite_auth_functions (sql p) False of Inr s \<Rightarrow> s | Inl _ \<Rightarrow> ''0'')"

section \<open>The parser\<close>

text \<open>
  \<open>self\<close> is the text and the remaining tokens; a method that moves the cursor returns the remaining
  tokens with its result.
\<close>

definition syntax_error :: "string \<Rightarrow> token list \<Rightarrow> string \<Rightarrow> rls_parse_error" where
  "syntax_error s ts message =
     Rls_Syntax (case ts of [] \<Rightarrow> length s | t # _ \<Rightarrow> tk_start t) message"

definition consume_keyword :: "string \<Rightarrow> token list \<Rightarrow> bool \<times> token list" where
  "consume_keyword expected ts =
     (case ts of
        [] \<Rightarrow> (False, ts)
      | t # rest \<Rightarrow> (if is_keyword expected t then (True, rest) else (False, ts)))"

definition expect_keyword ::
    "string \<Rightarrow> string \<Rightarrow> token list \<Rightarrow> rls_parse_error + token list" where
  "expect_keyword s expected ts =
     (case consume_keyword expected ts of
        (True, rest) \<Rightarrow> Ok rest
      | (False, _) \<Rightarrow> Err (syntax_error s ts (''expected '' @ expected)))"

fun expect_keywords ::
    "string \<Rightarrow> string list \<Rightarrow> token list \<Rightarrow> rls_parse_error + token list" where
  "expect_keywords s [] ts = Ok ts"
| "expect_keywords s (k # ks) ts = bindr (expect_keyword s k ts) (expect_keywords s ks)"

definition consume_symbol :: "char \<Rightarrow> token list \<Rightarrow> bool \<times> token list" where
  "consume_symbol expected ts =
     (case ts of
        [] \<Rightarrow> (False, ts)
      | t # rest \<Rightarrow> (if tk_kind t = Symbol expected then (True, rest) else (False, ts)))"

definition expect_end :: "string \<Rightarrow> token list \<Rightarrow> rls_parse_error + unit" where
  "expect_end s ts =
     (if ts = [] then Ok () else Err (syntax_error s ts ''unexpected trailing syntax''))"

definition parse_identifier ::
    "string \<Rightarrow> token list \<Rightarrow> rls_parse_error + sql_identifier \<times> token list" where
  "parse_identifier s ts =
     (let expected = syntax_error s ts ''expected identifier'';
          checked = (\<lambda>v rest.
            bindr (map_err Rls_Identifier (identifier_new v)) (\<lambda>i.
            if is_internal i then Err InternalIdentifier else Ok (i, rest)))
      in
      case ts of
        [] \<Rightarrow> Err expected
      | t # rest \<Rightarrow>
          (case tk_kind t of
             Word v \<Rightarrow> checked v rest
           | Ident v \<Rightarrow> checked v rest
           | _ \<Rightarrow> Err expected))"

lemma consume_symbol_length: "consume_symbol b ts = (True, rest) \<Longrightarrow> length rest < length ts"
  by (auto simp: consume_symbol_def split: list.splits if_splits)

lemma parse_identifier_length: "parse_identifier s ts = Ok (i, rest) \<Longrightarrow> length rest < length ts"
  by (auto simp: parse_identifier_def Let_def ffdb_result
      split: list.splits token_kind.splits if_splits)

text \<open>One role, and more after each comma.\<close>

function role_list ::
    "string \<Rightarrow> token list \<Rightarrow> rls_parse_error + role_name list \<times> token list" where
  "role_list s ts =
     bindr (parse_identifier s ts) (\<lambda>(i, rest).
     case consume_symbol CHR '','' rest of
       (False, _) \<Rightarrow> Ok ([RoleName i], rest)
     | (True, rest') \<Rightarrow>
         bindr (role_list s rest') (\<lambda>(roles, rest''). Ok (RoleName i # roles, rest'')))"
  by auto
termination
  by (relation "measure (length \<circ> snd)")
     (auto dest!: parse_identifier_length consume_symbol_length [OF sym])

declare role_list.simps [simp del]

definition policy_commands :: "(string \<times> policy_command) list" where
  "policy_commands = [(''ALL'', Cmd_All), (''SELECT'', Cmd_Select), (''INSERT'', Cmd_Insert),
     (''UPDATE'', Cmd_Update), (''DELETE'', Cmd_Delete)]"

fun first_keyword :: "(string \<times> 'a) list \<Rightarrow> token list \<Rightarrow> ('a \<times> token list) option" where
  "first_keyword [] ts = None"
| "first_keyword ((k, c) # ks) ts =
     (case consume_keyword k ts of (True, rest) \<Rightarrow> Some (c, rest) | (False, _) \<Rightarrow> first_keyword ks ts)"

definition parse_policy_command ::
    "string \<Rightarrow> token list \<Rightarrow> rls_parse_error + policy_command \<times> token list" where
  "parse_policy_command s ts =
     ok_or (first_keyword policy_commands ts)
       (syntax_error s ts ''expected ALL, SELECT, INSERT, UPDATE, or DELETE'')"

text \<open>
  The parenthesized predicate: the text from the end of the opening parenthesis to the start of the
  one that closes it, trimmed and checked.
\<close>

fun find_close :: "nat \<Rightarrow> token list \<Rightarrow> (token \<times> token list) option" where
  "find_close d [] = None"
| "find_close d (t # ts) =
     (if tk_kind t = Symbol CHR ''('' then find_close (d + 1) ts
      else if tk_kind t = Symbol CHR '')'' then
        (if d - 1 = 0 then Some (t, ts) else find_close (d - 1) ts)
      else find_close d ts)"

definition expected_open :: string where
  "expected_open = ''expected '' @ [squote, CHR ''('', squote]"

definition parenthesized_predicate ::
    "string \<Rightarrow> token list \<Rightarrow> rls_parse_error + predicate \<times> token list" where
  "parenthesized_predicate s ts =
     (case ts of
        [] \<Rightarrow> Err (syntax_error s ts expected_open)
      | opening # rest \<Rightarrow>
          if tk_kind opening \<noteq> Symbol CHR ''('' then Err (syntax_error s ts expected_open)
          else
            bindr (ok_or (find_close 1 rest) MalformedPredicate) (\<lambda>(close, rest').
            let v = trim (sub s (tk_end opening) (tk_start close)) in
            if v = [] then Err (syntax_error s rest' ''policy predicate must not be empty'')
            else bindr (predicate_new v) (\<lambda>p. Ok (p, rest'))))"

definition validate_policy_clauses ::
    "policy_command \<Rightarrow> bool \<Rightarrow> bool \<Rightarrow> rls_parse_error + unit" where
  "validate_policy_clauses command has_using has_check =
     (if has_using \<and> command = Cmd_Insert then Err (InvalidPolicyClause command ''USING'')
      else if has_check \<and> command \<in> {Cmd_Select, Cmd_Delete}
      then Err (InvalidPolicyClause command ''WITH CHECK'')
      else Ok ())"

text \<open>The optional clauses of \<open>CREATE POLICY\<close> and \<open>ALTER POLICY\<close>, each with its default.\<close>

definition optional_clause ::
    "string \<Rightarrow> 'a \<Rightarrow> (token list \<Rightarrow> rls_parse_error + 'a \<times> token list) \<Rightarrow> token list
      \<Rightarrow> rls_parse_error + 'a \<times> token list" where
  "optional_clause keyword otherwise parse ts =
     (case consume_keyword keyword ts of
        (True, rest) \<Rightarrow> parse rest
      | (False, _) \<Rightarrow> Ok (otherwise, ts))"

definition parse_mode :: "string \<Rightarrow> token list \<Rightarrow> rls_parse_error + policy_mode \<times> token list" where
  "parse_mode s ts =
     ok_or (first_keyword [(''PERMISSIVE'', Permissive), (''RESTRICTIVE'', Restrictive)] ts)
       (syntax_error s ts ''expected PERMISSIVE or RESTRICTIVE'')"

definition some_result :: "rls_parse_error + 'a \<times> token list \<Rightarrow> rls_parse_error + 'a option \<times> token list" where
  "some_result r = bindr r (\<lambda>(a, rest). Ok (Some a, rest))"

definition parse_using ::
    "string \<Rightarrow> token list \<Rightarrow> rls_parse_error + predicate option \<times> token list" where
  "parse_using s = optional_clause ''USING'' None (\<lambda>ts. some_result (parenthesized_predicate s ts))"

definition parse_with_check ::
    "string \<Rightarrow> token list \<Rightarrow> rls_parse_error + predicate option \<times> token list" where
  "parse_with_check s = optional_clause ''WITH'' None (\<lambda>ts.
     bindr (expect_keyword s ''CHECK'' ts) (\<lambda>ts. some_result (parenthesized_predicate s ts)))"

definition parse_create_policy ::
    "string \<Rightarrow> token list \<Rightarrow> rls_parse_error + create_policy \<times> token list" where
  "parse_create_policy s ts =
     bindr (parse_identifier s ts) (\<lambda>(name, ts).
     bindr (expect_keyword s ''ON'' ts) (\<lambda>ts.
     bindr (parse_identifier s ts) (\<lambda>(table, ts).
     bindr (map_err Rls_Identifier (identifier_new ''public'')) (\<lambda>public_role.
     bindr (optional_clause ''AS'' Permissive (parse_mode s) ts) (\<lambda>(mode, ts).
     bindr (optional_clause ''FOR'' Cmd_All (parse_policy_command s) ts) (\<lambda>(command, ts).
     bindr (optional_clause ''TO'' [RoleName public_role] (role_list s) ts) (\<lambda>(roles, ts).
     bindr (parse_using s ts) (\<lambda>(using_clause, ts).
     bindr (parse_with_check s ts) (\<lambda>(check_clause, ts).
     bindr (validate_policy_clauses command (using_clause \<noteq> None) (check_clause \<noteq> None)) (\<lambda>_.
     Ok (\<lparr>cp_name = name, cp_table = table, cp_mode = mode, cp_command = command,
          cp_roles = roles, cp_using = using_clause, cp_with_check = check_clause\<rparr>, ts)))))))))))"

definition rls_keywords :: "string list" where
  "rls_keywords = [''ROW'', ''LEVEL'', ''SECURITY'']"

definition parse_alter_table ::
    "string \<Rightarrow> token list \<Rightarrow> rls_parse_error + rls_statement \<times> token list" where
  "parse_alter_table s ts =
     bindr (parse_identifier s ts) (\<lambda>(table, ts).
     case first_keyword [(''ENABLE'', (Rls_Enable, rls_keywords)),
                         (''DISABLE'', (Rls_Disable, rls_keywords)),
                         (''FORCE'', (Rls_Force, rls_keywords)),
                         (''NO'', (Rls_NoForce, ''FORCE'' # rls_keywords))] ts of
       None \<Rightarrow> Err (syntax_error s ts ''expected ENABLE, DISABLE, FORCE, or NO FORCE'')
     | Some ((action, keywords), ts) \<Rightarrow>
         bindr (expect_keywords s keywords ts) (\<lambda>ts. Ok (AlterTable table action, ts)))"

definition parse_alter_policy ::
    "string \<Rightarrow> token list \<Rightarrow> rls_parse_error + alter_policy \<times> token list" where
  "parse_alter_policy s ts =
     bindr (parse_identifier s ts) (\<lambda>(name, ts).
     bindr (expect_keyword s ''ON'' ts) (\<lambda>ts.
     bindr (parse_identifier s ts) (\<lambda>(table, ts).
     case consume_keyword ''RENAME'' ts of
       (True, ts) \<Rightarrow>
         bindr (expect_keyword s ''TO'' ts) (\<lambda>ts.
         bindr (parse_identifier s ts) (\<lambda>(to, ts).
         Ok (\<lparr>ap_name = name, ap_table = table, ap_rename_to = Some to, ap_roles = None,
              ap_using = None, ap_with_check = None\<rparr>, ts)))
     | (False, _) \<Rightarrow>
         bindr (optional_clause ''TO'' None (\<lambda>ts. some_result (role_list s ts)) ts) (\<lambda>(roles, ts).
         bindr (parse_using s ts) (\<lambda>(using_clause, ts).
         bindr (parse_with_check s ts) (\<lambda>(check_clause, ts).
         if roles = None \<and> using_clause = None \<and> check_clause = None
         then Err (syntax_error s ts ''ALTER POLICY requires RENAME, TO, USING, or WITH CHECK'')
         else Ok (\<lparr>ap_name = name, ap_table = table, ap_rename_to = None, ap_roles = roles,
                   ap_using = using_clause, ap_with_check = check_clause\<rparr>, ts)))))))"

definition parse_drop_policy ::
    "string \<Rightarrow> token list \<Rightarrow> rls_parse_error + drop_policy \<times> token list" where
  "parse_drop_policy s ts =
     bindr (optional_clause ''IF'' False
       (\<lambda>ts. bindr (expect_keyword s ''EXISTS'' ts) (\<lambda>ts. Ok (True, ts))) ts) (\<lambda>(if_exists, ts).
     bindr (parse_identifier s ts) (\<lambda>(name, ts).
     bindr (expect_keyword s ''ON'' ts) (\<lambda>ts.
     bindr (parse_identifier s ts) (\<lambda>(table, ts).
     let ts' = (case consume_keyword ''CASCADE'' ts of
                  (True, rest) \<Rightarrow> rest
                | (False, _) \<Rightarrow> snd (consume_keyword ''RESTRICT'' ts))
     in Ok (\<lparr>dp_name = name, dp_table = table, dp_if_exists = if_exists\<rparr>, ts')))))"

definition parse_statement ::
    "string \<Rightarrow> token list \<Rightarrow> rls_parse_error + rls_statement \<times> token list" where
  "parse_statement s ts =
     (case consume_keyword ''CREATE'' ts of
        (True, ts) \<Rightarrow>
          bindr (expect_keyword s ''POLICY'' ts) (\<lambda>ts.
          bindr (parse_create_policy s ts) (\<lambda>(p, ts). Ok (CreatePolicy p, ts)))
      | (False, _) \<Rightarrow>
     (case consume_keyword ''ALTER'' ts of
        (True, ts) \<Rightarrow>
          (case consume_keyword ''TABLE'' ts of
             (True, ts) \<Rightarrow> parse_alter_table s ts
           | (False, _) \<Rightarrow>
               bindr (expect_keyword s ''POLICY'' ts) (\<lambda>ts.
               bindr (parse_alter_policy s ts) (\<lambda>(p, ts). Ok (AlterPolicy p, ts))))
      | (False, _) \<Rightarrow>
     (case consume_keyword ''DROP'' ts of
        (True, ts) \<Rightarrow>
          bindr (expect_keyword s ''POLICY'' ts) (\<lambda>ts.
          bindr (parse_drop_policy s ts) (\<lambda>(p, ts). Ok (DropPolicy p, ts)))
      | (False, _) \<Rightarrow>
          Err (syntax_error s ts
            ''expected CREATE POLICY, ALTER POLICY, DROP POLICY, or ALTER TABLE''))))"

definition parse_rls_statement :: "string \<Rightarrow> rls_parse_error + rls_statement" where
  "parse_rls_statement s =
     bindr (lex s True) (\<lambda>tokens.
     if tokens = [] then Err Rls_Empty
     else
       bindr (parse_statement s tokens) (\<lambda>(statement, rest).
       bindr (expect_end s rest) (\<lambda>_. Ok statement)))"

definition parse_rls :: "string \<Rightarrow> rls_parse_error + rls_statement list" where
  "parse_rls s =
     bindr (map_err Rls_Scan (split_sql_statements s)) (\<lambda>statements.
     if statements = [] then Err Rls_Empty else mapr parse_rls_statement statements)"

section \<open>The entry point\<close>

datatype parsed_statement = Parsed_Sql statement_class | Parsed_Rls rls_statement

datatype statement_parse_error =
    Classification_Error classification_error
  | Rls_Error rls_parse_error

definition parse_and_classify_statement :: "string \<Rightarrow> statement_parse_error + parsed_statement" where
  "parse_and_classify_statement s =
     bindr (map_err Classification_Error (classify_statement s)) (\<lambda>class.
     if kind class = Kind_Rls
     then map_err Rls_Error (bindr (parse_rls_statement s) (\<lambda>st. Ok (Parsed_Rls st)))
     else Ok (Parsed_Sql class))"

end
