(* ===== verification/Rls_Lexing.thy ===== *)
theory Rls_Lexing
  imports Rls_Parser
begin

text \<open>
  The lexer is compositional: a text that lexes without comments lexes to the same tokens, at
  shifted offsets, wherever a delimiter follows it. From this, a policy predicate cannot leave the
  parentheses it is placed in, a quoted identifier is one token, and a printed statement can be
  lexed piece by piece.
\<close>

section \<open>Texts in context\<close>

text \<open>Bytes that cannot extend the token before them.\<close>

definition delimiter :: "char \<Rightarrow> bool" where
  "delimiter c = (\<not> is_word_continue c \<and> c \<notin> {squote, dquote, backquote, CHR ''-'', CHR ''*''})"

definition boundary :: "string \<Rightarrow> bool" where
  "boundary r = (case r of [] \<Rightarrow> True | c # _ \<Rightarrow> delimiter c)"

lemma boundary_simps [simp]: "boundary []" "boundary (c # r) = delimiter c"
  by (simp_all add: boundary_def)

lemma delimiter_simps [simp]:
  "delimiter CHR '' ''" "delimiter CHR '')''" "delimiter CHR '',''" "delimiter CHR '';''"
  by (simp_all add: delimiter_def is_word_continue_def is_ascii_alphanumeric_def
      is_ascii_alphabetic_def is_ascii_lowercase_def is_ascii_uppercase_def is_ascii_digit_def code_def)

lemma decode_loop_append:
  assumes "boundary t"
  shows "decode_loop q s = Some (e, v) \<Longrightarrow> q \<in> {squote, dquote, backquote} \<Longrightarrow>
    decode_loop q (s @ t) = Some (e @ t, v)"
proof (induction q s arbitrary: v rule: decode_loop.induct)
  case (2 q b r)
  then show ?case
    using assms
    by (cases r; cases t) (auto simp: delimiter_def split: if_splits)
qed simp

lemma skip_word_append: "boundary t \<Longrightarrow> skip_word (s @ t) = skip_word s @ t"
  by (cases t) (auto simp: skip_word_def dropWhile_append delimiter_def dropWhile_eq_Nil_conv)

lemma slice_word_append: "slice (b # s @ t) (skip_word s @ t) = slice (b # s) (skip_word s)"
  using skip_word_length [of s] by (simp add: slice_def take_Cons' Suc_diff_le)

lemma skip_bracket_loop_append:
  "skip_bracket_loop s = Some e \<Longrightarrow> skip_bracket_loop (s @ t) = Some (e @ t)"
  by (induction s rule: skip_bracket_loop.induct) (auto split: if_splits)

lemma skip_bracket_takeWhile:
  "skip_bracket_loop s = Some e \<Longrightarrow>
     takeWhile (\<lambda>c. c \<noteq> CHR '']'') (s @ t) = takeWhile (\<lambda>c. c \<noteq> CHR '']'') s"
  by (induction s rule: skip_bracket_loop.induct) (auto split: if_splits)

lemma next_is_append:
  "boundary t \<Longrightarrow> c \<in> {CHR ''-'', CHR ''*''} \<Longrightarrow> next_is (s @ t) c \<longleftrightarrow> next_is s c"
  by (cases s; cases t) (auto simp: next_is_def delimiter_def)

lemma quotes_not_whitespace [simp]:
  "\<not> is_ascii_whitespace squote" "\<not> is_ascii_whitespace dquote"
  "\<not> is_ascii_whitespace backquote" "\<not> is_ascii_whitespace CHR ''[''"
  by (simp_all add: is_ascii_whitespace_def code_def)

lemma lex_one_quote:
  "q \<in> {dquote, backquote} \<Longrightarrow>
     lex_one a (q # r) = bindr (decode_quoted (q # r) q) (\<lambda>(r', v). Ok (Some (Ident v), r'))"
  "lex_one a (squote # r) =
     bindr (decode_quoted (squote # r) squote) (\<lambda>(r', v). Ok (Some (StringLiteral v), r'))"
  "lex_one a (CHR ''['' # r) =
     bindr (ok_or (skip_bracket_loop r) MalformedPredicate) (\<lambda>r'.
       Ok (Some (Ident (takeWhile (\<lambda>c. c \<noteq> CHR '']'') r)), r'))"
  by (elim insertE emptyE; simp) simp_all

declare lex_one.simps(2) [simp del]

lemma lex_one_append:
  assumes "boundary t" and "lex_one False (b # s) = Ok (k, r)"
  shows "lex_one allow (b # s @ t) = Ok (k, r @ t)"
proof -
  consider (space) "is_ascii_whitespace b"
    | (comment) "\<not> is_ascii_whitespace b"
        "b = CHR ''-'' \<and> next_is s CHR ''-'' \<or> b = CHR ''/'' \<and> next_is s CHR ''*''"
    | (plain) "\<not> is_ascii_whitespace b" "\<not> (b = CHR ''-'' \<and> next_is s CHR ''-'')"
        "\<not> (b = CHR ''/'' \<and> next_is s CHR ''*'')"
    by blast
  then show ?thesis
  proof cases
    case space
    then show ?thesis using assms(2) by (simp add: lex_one.simps)
  next
    case comment
    then have "lex_one False (b # s) = Err UnsafePredicate" by (auto simp: lex_one.simps)
    then show ?thesis using assms(2) by simp
  next
    case plain
    consider "b = squote" | "b \<in> {dquote, backquote}" | "b = CHR ''[''"
      | "b \<notin> {squote, dquote, backquote, CHR ''[''}"
      by blast
    then show ?thesis
    proof cases
      case 1
      show ?thesis
        using assms unfolding 1
        by (auto simp: lex_one_quote ffdb_result decode_quoted_def decode_loop_append)
    next
      case 2
      show ?thesis
        using assms 2 unfolding lex_one_quote(1) [OF 2]
        by (auto simp: ffdb_result decode_quoted_def decode_loop_append)
    next
      case 3
      show ?thesis
        using assms unfolding 3
        by (auto simp: lex_one_quote ffdb_result skip_bracket_loop_append skip_bracket_takeWhile)
    next
      case 4
      have *: "lex_one a (b # u) =
          (if is_word_start b then Ok (Some (Word (slice (b # u) (skip_word u))), skip_word u)
           else if is_symbol b then Ok (Some (Symbol b), u) else Ok (Some Other, u))"
        if "\<not> (b = CHR ''-'' \<and> next_is u CHR ''-'')" "\<not> (b = CHR ''/'' \<and> next_is u CHR ''*'')" for a u
        using 4 that plain(1) by (auto simp: lex_one.simps)
      show ?thesis
        using assms * [of s False] * [of "s @ t" allow] plain
        by (auto simp: next_is_append skip_word_append slice_word_append split: if_split_asm)
    qed
  qed
qed

definition shift_token :: "nat \<Rightarrow> token \<Rightarrow> token" where
  "shift_token k t = t\<lparr>tk_start := tk_start t + k, tk_end := tk_end t + k\<rparr>"

lemma shift_token_simps [simp]:
  "tk_kind (shift_token k t) = tk_kind t" "tk_start (shift_token k t) = tk_start t + k"
  "tk_end (shift_token k t) = tk_end t + k"
  by (simp_all add: shift_token_def)

lemma push_token_shift:
  assumes "length s \<le> n" and "length r \<le> length s"
  shows "push_token (n + k + length t) kd (s @ t) (r @ t) (map (shift_token k) ts @ ts')
    = map (shift_token k) (push_token n kd s r ts) @ ts'"
  using assms
  by (cases kd) (simp_all add: push_token_def mk_token_def shift_token_def)

lemma lex_loop_append:
  assumes "boundary t"
  shows "lex_loop n False s = Ok ts \<Longrightarrow> length s \<le> n \<Longrightarrow>
    lex_loop (n + k + length t) allow (s @ t) =
      bindr (lex_loop (n + k + length t) allow t) (\<lambda>ts'. Ok (map (shift_token k) ts @ ts'))"
proof (induction "length s" arbitrary: s ts rule: less_induct)
  case less
  show ?case
  proof (cases s)
    case Nil
    then show ?thesis using less.prems by (cases "lex_loop (n + k + length t) allow t") simp_all
  next
    case (Cons b s')
    from less.prems(1) obtain kd r ts1 where one: "lex_one False (b # s') = Ok (kd, r)"
      and rest: "lex_loop n False r = Ok ts1" and ts: "ts = push_token n kd (b # s') r ts1"
      by (auto simp: Cons ffdb_result )
    have len: "length r \<le> length s'"
      using one by (rule lex_one_length)
    have "lex_loop (n + k + length t) allow (r @ t) =
        bindr (lex_loop (n + k + length t) allow t) (\<lambda>ts'. Ok (map (shift_token k) ts1 @ ts'))"
      using less.hyps rest len less.prems(2) Cons by simp
    then show ?thesis
      using lex_one_append [OF assms one, of allow] len less.prems(2)
        push_token_shift [of "b # s'" n r k t kd ts1]
      by (cases "lex_loop (n + k + length t) allow t")
        (simp_all add: Cons ts)
  qed
qed

section \<open>Single tokens\<close>

definition toks :: "string \<Rightarrow> string \<Rightarrow> rls_parse_error + token list" where
  "toks s u = lex_loop (length s) True u"

lemma toks_Nil [simp]: "toks s [] = Ok []"
  by (simp add: toks_def)

lemma toks_space [simp]: "toks s (CHR '' '' # t) = toks s t"
  by (cases "toks s t") (auto simp: toks_def lex_one.simps is_ascii_whitespace_def code_def push_token_def)

lemma toks_one:
  assumes "lex_one True (b # u @ t) = Ok (Some k, t)" and "toks s t = Ok ts"
  shows "\<exists>tok. toks s (b # u @ t) = Ok (tok # ts) \<and> tk_kind tok = k"
  using assms by (simp add: toks_def push_token_def mk_token_def)

definition plain_word :: "string \<Rightarrow> bool" where
  "plain_word w = (case w of [] \<Rightarrow> False | b # r \<Rightarrow> is_word_start b \<and> list_all is_word_continue r)"

lemma is_word_start_plain:
  assumes "is_word_start b"
  shows "\<not> is_ascii_whitespace b" "b \<notin> {squote, dquote, backquote, CHR ''['', CHR ''-'', CHR ''/''}"
  using assms by (auto simp: byte_class_defs is_ascii_whitespace_def)

lemma toks_word:
  assumes "plain_word w" and "boundary t" and "toks s t = Ok ts"
  shows "\<exists>tok. toks s (w @ t) = Ok (tok # ts) \<and> tk_kind tok = Word w"
proof -
  obtain b r where w: "w = b # r" "is_word_start b" "list_all is_word_continue r"
    using assms(1) by (auto simp: plain_word_def split: list.splits)
  have "skip_word (r @ t) = t"
    using w(3) assms(2)
    by (cases t) (auto simp: skip_word_def list_all_iff dropWhile_append delimiter_def)
  moreover from this have "slice (b # r @ t) (skip_word (r @ t)) = w"
    by (simp add: slice_def w(1))
  ultimately have "lex_one True (b # r @ t) = Ok (Some (Word w), t)"
    using is_word_start_plain [OF w(2)] w(2) by (simp add: lex_one.simps)
  from toks_one [OF this assms(3)] show ?thesis by (simp add: w(1))
qed

lemma decode_loop_double:
  "\<not> next_is r q \<Longrightarrow> decode_loop q (double_byte q s @ q # r) = Some (r, s)"
  by (induction s) (auto simp: next_is_def split: list.splits)

lemma boundary_not_quote: "boundary t \<Longrightarrow> \<not> next_is t dquote"
  by (cases t) (auto simp: next_is_def delimiter_def)

lemma lex_one_quoted:
  "boundary t \<Longrightarrow> lex_one allow (quoted i @ t) = Ok (Some (Ident (as_str i)), t)"
  by (simp add: quoted_def lex_one_quote decode_quoted_def decode_loop_double boundary_not_quote)

lemma toks_quoted:
  assumes "boundary t" and "toks s t = Ok ts"
  shows "\<exists>tok. toks s (quoted i @ t) = Ok (tok # ts) \<and> tk_kind tok = Ident (as_str i)"
  using toks_one [of dquote "double_byte dquote (as_str i) @ [dquote]"] lex_one_quoted [of t True i] assms
  by (simp add: quoted_def)

lemma lex_one_symbol:
  "lex_one allow (CHR '','' # t) = Ok (Some (Symbol CHR '',''), t)"
  "lex_one allow (CHR ''('' # t) = Ok (Some (Symbol CHR ''(''), t)"
  "lex_one allow (CHR '')'' # t) = Ok (Some (Symbol CHR '')''), t)"
  by (simp_all add: lex_one.simps is_symbol_def byte_class_defs is_ascii_whitespace_def)

lemma toks_comma:
  "toks s t = Ok ts \<Longrightarrow>
     \<exists>tok. toks s (CHR '','' # t) = Ok (tok # ts) \<and> tk_kind tok = Symbol CHR '',''"
  using toks_one [of "CHR '',''" "[]" t] by (simp add: lex_one_symbol)

section \<open>Predicates stay inside their parentheses\<close>

lemma predicate_newD:
  assumes "predicate_new p = Ok q"
  obtains ts out where "lex p False = Ok ts" "check_tokens 0 ts = Ok 0" "q = \<lparr>sql = p\<rparr>"
    "\<not> list_ex (\<lambda>t. tk_kind t = Symbol CHR '';'') ts" "rewrite_auth_functions p False = Ok out"
    "trim p \<noteq> []"
  using assms
  by (auto simp: predicate_new_def validate_predicate_def ffdb_result split: if_splits)

lemma find_close_balanced:
  "check_tokens d ts = Ok d' \<Longrightarrow> 0 \<le> d \<Longrightarrow> 
     find_close (Suc (nat d)) (map (shift_token k) ts @ rest) = find_close (Suc (nat d')) rest"
proof (induction d ts rule: check_tokens.induct)
  case (2 d t ts)
  have "nat (d + 1) = Suc (nat d)" if "0 \<le> d" using that by simp
  moreover have "Suc (nat (d - 1)) = nat d" "nat d \<noteq> 0" if "\<not> d - 1 < 0" using that by simp_all
  ultimately show ?case
    using 2 by (auto split: if_split_asm)
qed simp

lemma check_tokens_nonneg: "check_tokens d ts = Ok d' \<Longrightarrow> 0 \<le> d \<Longrightarrow> 0 \<le> d'"
  by (induction d ts rule: check_tokens.induct) (auto split: if_splits)

definition enclosed :: "string \<Rightarrow> string" where
  "enclosed p = ''('' @ p @ '')''"

lemma toks_enclosed:
  assumes s: "s = pre @ enclosed p @ t" and lx: "lex p False = Ok ps" and t: "toks s t = Ok ts"
  defines "k \<equiv> length pre + 1"
  shows "toks s (enclosed p @ t) =
    Ok (\<lparr>tk_kind = Symbol CHR ''('', tk_start = length pre, tk_end = k\<rparr> # map (shift_token k) ps @
        \<lparr>tk_kind = Symbol CHR '')'', tk_start = k + length p, tk_end = k + length p + 1\<rparr> # ts)"
proof -
  have len: "length s = length p + k + length (CHR '')'' # t)"
    by (simp add: s k_def enclosed_def)
  have close: "toks s (CHR '')'' # t) = Ok (\<lparr>tk_kind = Symbol CHR '')'', tk_start = k + length p,
      tk_end = k + length p + 1\<rparr> # ts)"
    using t by (simp add: toks_def lex_one_symbol push_token_def mk_token_def len)
  have "toks s (p @ CHR '')'' # t) = bindr (toks s (CHR '')'' # t)) (\<lambda>ts'. Ok (map (shift_token k) ps @ ts'))"
    using lex_loop_append [of "CHR '')'' # t" "length p" p ps k True] lx
    unfolding toks_def len lex_def by simp
  then show ?thesis
    using close by (simp add: toks_def lex_one_symbol push_token_def mk_token_def enclosed_def s k_def)
qed

lemma sub_middle: "sub (a @ b @ c) (length a) (length a + length b) = b"
  by (simp add: sub_def)

lemma parse_enclosed:
  assumes s: "s = pre @ enclosed p @ t" and t: "toks s t = Ok ts"
    and p: "predicate_new p = Ok q" and trimmed: "trim p = p"
  shows "\<exists>ts0. toks s (enclosed p @ t) = Ok ts0 \<and> parenthesized_predicate s ts0 = Ok (q, ts)"
proof -
  obtain ps where ps: "lex p False = Ok ps" "check_tokens 0 ps = Ok 0" and "p \<noteq> []"
    using p trimmed by (metis predicate_newD)
  moreover have "sub s (Suc (length pre)) (Suc (length pre + length p)) = p"
    using sub_middle [of "pre @ ''(''" p "'')'' @ t"] by (simp add: s enclosed_def)
  ultimately show ?thesis
    using p trimmed find_close_balanced [OF ps(2), where k = "length pre + 1"]
    by (simp add: toks_enclosed [OF s ps(1) t] parenthesized_predicate_def Let_def)
qed

end
