(* ===== verification/Rls_Statements.thy ===== *)
theory Rls_Statements
  imports Rls_Lexing
begin

text \<open>
  What a parsed row-level-security statement satisfies, and a canonical printer of
  \<open>CREATE POLICY\<close> from whose text the parser recovers the policy.
\<close>

section \<open>Well-formed statements\<close>

definition identifier_ok :: "sql_identifier \<Rightarrow> bool" where
  "identifier_ok i = (identifier_new (as_str i) = Ok i \<and> \<not> is_internal i)"

definition predicate_ok :: "predicate \<Rightarrow> bool" where
  "predicate_ok p = (predicate_new (sql p) = Ok p)"

definition roles_ok :: "role_name list \<Rightarrow> bool" where
  "roles_ok roles = (roles \<noteq> [] \<and> list_all (identifier_ok \<circ> role_identifier) roles)"

definition clauses_ok :: "policy_command \<Rightarrow> predicate option \<Rightarrow> predicate option \<Rightarrow> bool" where
  "clauses_ok c u q =
     (opt_all predicate_ok u \<and> opt_all predicate_ok q
      \<and> (c = Cmd_Insert \<longrightarrow> u = None) \<and> (c \<in> {Cmd_Select, Cmd_Delete} \<longrightarrow> q = None))"

definition create_policy_ok :: "create_policy \<Rightarrow> bool" where
  "create_policy_ok p =
     (identifier_ok (cp_name p) \<and> identifier_ok (cp_table p) \<and> roles_ok (cp_roles p)
      \<and> clauses_ok (cp_command p) (cp_using p) (cp_with_check p))"

definition alter_policy_ok :: "alter_policy \<Rightarrow> bool" where
  "alter_policy_ok p =
     (identifier_ok (ap_name p) \<and> identifier_ok (ap_table p)
      \<and> opt_all identifier_ok (ap_rename_to p) \<and> opt_all roles_ok (ap_roles p)
      \<and> opt_all predicate_ok (ap_using p) \<and> opt_all predicate_ok (ap_with_check p)
      \<and> (ap_rename_to p \<noteq> None \<or> ap_roles p \<noteq> None \<or> ap_using p \<noteq> None \<or> ap_with_check p \<noteq> None))"

fun rls_statement_ok :: "rls_statement \<Rightarrow> bool" where
  "rls_statement_ok (AlterTable t a) = identifier_ok t"
| "rls_statement_ok (CreatePolicy p) = create_policy_ok p"
| "rls_statement_ok (AlterPolicy p) = alter_policy_ok p"
| "rls_statement_ok (DropPolicy p) = (identifier_ok (dp_name p) \<and> identifier_ok (dp_table p))"

lemma identifier_newD: "identifier_new v = Ok i \<Longrightarrow> as_str i = v"
  by (auto simp: identifier_new_def split: if_splits)

lemma parse_identifier_ok: "parse_identifier s ts = Ok (i, rest) \<Longrightarrow> identifier_ok i"
  by (auto simp: parse_identifier_def Let_def ffdb_result identifier_ok_def identifier_newD
      split: list.splits token_kind.splits if_splits)

lemma role_list_ok: "role_list s ts = Ok (roles, rest) \<Longrightarrow> roles_ok roles"
proof (induction s ts arbitrary: roles rest rule: role_list.induct)
  case (1 s ts)
  obtain i r where i: "parse_identifier s ts = Ok (i, r)"
    using 1(2) by (subst (asm) role_list.simps) (auto simp: ffdb_result)
  obtain c r' where c: "consume_symbol CHR '','' r = (c, r')" by fastforce
  show ?case
  proof (cases c)
    case True
    then obtain rs where "role_list s r' = Ok (rs, rest)" "roles = RoleName i # rs"
      using 1(2) i c by (subst (asm) role_list.simps) (auto simp: ffdb_result)
    then show ?thesis
      using 1(1) [OF i refl c [symmetric]] True parse_identifier_ok [OF i] by (auto simp: roles_ok_def)
  next
    case False
    then show ?thesis
      using 1(2) i c parse_identifier_ok [OF i]
      by (subst (asm) role_list.simps) (auto simp: roles_ok_def)
  qed
qed

lemma predicate_new_ok: "predicate_new s = Ok p \<Longrightarrow> predicate_ok p"
  by (frule predicate_newD) (auto simp: predicate_ok_def)

lemma parenthesized_predicate_ok:
  "parenthesized_predicate s ts = Ok (p, rest) \<Longrightarrow> predicate_ok p"
  by (auto simp: parenthesized_predicate_def ffdb_result Let_def predicate_new_ok
      split: list.splits if_splits)

lemma optional_clause_cases:
  assumes "optional_clause k d parse ts = Ok (v, rest)"
  obtains "v = d" | ts' where "parse ts' = Ok (v, rest)"
  using assms by (auto simp: optional_clause_def split: prod.splits bool.splits)

lemma parse_using_ok: "parse_using s ts = Ok (u, rest) \<Longrightarrow> opt_all predicate_ok u"
  by (auto simp: parse_using_def some_result_def ffdb_result
      elim!: optional_clause_cases dest!: parenthesized_predicate_ok)

lemma parse_with_check_ok: "parse_with_check s ts = Ok (u, rest) \<Longrightarrow> opt_all predicate_ok u"
  by (auto simp: parse_with_check_def some_result_def ffdb_result
      elim!: optional_clause_cases dest!: parenthesized_predicate_ok)

lemma public_role_ok: "identifier_new ''public'' = Ok i \<Longrightarrow> roles_ok [RoleName i]"
proof -
  have "identifier_new ''public'' = Ok (Identifier ''public'')" by code_simp
  moreover have "\<not> is_internal (Identifier ''public'')" by code_simp
  ultimately show "identifier_new ''public'' = Ok i \<Longrightarrow> roles_ok [RoleName i]"
    by (auto simp: roles_ok_def identifier_ok_def)
qed

lemma validate_policy_clauses_ok:
  "validate_policy_clauses c (u \<noteq> None) (q \<noteq> None) = Ok x \<Longrightarrow>
     opt_all predicate_ok u \<Longrightarrow> opt_all predicate_ok q \<Longrightarrow> clauses_ok c u q"
  by (auto simp: validate_policy_clauses_def clauses_ok_def split: if_splits)

lemma parse_create_policy_ok:
  assumes "parse_create_policy s ts = Ok (p, rest)"
  shows "create_policy_ok p"
proof -
  from assms obtain n t1 t2 tb t3 pr m t4 c t5 r t6 u t7 q t8 x where
    *: "parse_identifier s ts = Ok (n, t1)" "parse_identifier s t2 = Ok (tb, t3)"
       "identifier_new ''public'' = Ok pr"
       "optional_clause ''TO'' [RoleName pr] (role_list s) t5 = Ok (r, t6)"
       "parse_using s t6 = Ok (u, t7)" "parse_with_check s t7 = Ok (q, t8)"
       "validate_policy_clauses c (u \<noteq> None) (q \<noteq> None) = Ok x"
    and p: "p = \<lparr>cp_name = n, cp_table = tb, cp_mode = m, cp_command = c, cp_roles = r,
      cp_using = u, cp_with_check = q\<rparr>"
    unfolding parse_create_policy_def by (auto simp: ffdb_result)
  have "roles_ok r"
    using *(4) by (rule optional_clause_cases) (use *(3) public_role_ok role_list_ok in auto)
  then show ?thesis
    using * by (simp add: p create_policy_ok_def parse_identifier_ok validate_policy_clauses_ok
        parse_using_ok parse_with_check_ok)
qed

lemma parse_roles_ok:
  "optional_clause ''TO'' None (\<lambda>ts. some_result (role_list s ts)) ts = Ok (r, rest) \<Longrightarrow>
     opt_all roles_ok r"
  by (auto simp: some_result_def ffdb_result elim!: optional_clause_cases dest!: role_list_ok)

lemma parse_alter_policy_ok:
  assumes "parse_alter_policy s ts = Ok (p, rest)"
  shows "alter_policy_ok p"
proof -
  from assms obtain n t1 t2 tb t3 where
    *: "parse_identifier s ts = Ok (n, t1)" "expect_keyword s ''ON'' t1 = Ok t2"
       "parse_identifier s t2 = Ok (tb, t3)"
    unfolding parse_alter_policy_def by (auto simp: ffdb_result)
  obtain c t4 where c: "consume_keyword ''RENAME'' t3 = (c, t4)" by fastforce
  show ?thesis
  proof (cases c)
    case True
    then show ?thesis
      using assms * c by (auto simp: parse_alter_policy_def ffdb_result alter_policy_ok_def parse_identifier_ok)
  next
    case False
    from assms * c False obtain r t5 u t6 q where
      "optional_clause ''TO'' None (\<lambda>ts. some_result (role_list s ts)) t3 = Ok (r, t5)"
      "parse_using s t5 = Ok (u, t6)" "parse_with_check s t6 = Ok (q, rest)"
      "\<not> (r = None \<and> u = None \<and> q = None)"
      "p = \<lparr>ap_name = n, ap_table = tb, ap_rename_to = None, ap_roles = r, ap_using = u, ap_with_check = q\<rparr>"
      by (auto simp: parse_alter_policy_def ffdb_result split: if_split_asm)
    then show ?thesis
      using * by (simp add: alter_policy_ok_def parse_identifier_ok parse_roles_ok parse_using_ok
          parse_with_check_ok)
  qed
qed

lemma parse_alter_table_ok:
  "parse_alter_table s ts = Ok (st, rest) \<Longrightarrow> rls_statement_ok st"
  by (auto simp: parse_alter_table_def ffdb_result parse_identifier_ok split: option.splits)

lemma parse_drop_policy_ok:
  "parse_drop_policy s ts = Ok (p, rest) \<Longrightarrow> rls_statement_ok (DropPolicy p)"
  by (auto simp: parse_drop_policy_def ffdb_result Let_def parse_identifier_ok)

lemma parse_statement_ok: "parse_statement s ts = Ok (st, rest) \<Longrightarrow> rls_statement_ok st"
  by (auto simp: parse_statement_def ffdb_result
      split: prod.splits bool.splits
      dest: parse_create_policy_ok parse_alter_policy_ok parse_drop_policy_ok parse_alter_table_ok)

lemma parse_rls_statement_ok: "parse_rls_statement s = Ok st \<Longrightarrow> rls_statement_ok st"
  by (auto simp: parse_rls_statement_def ffdb_result split: if_splits dest: parse_statement_ok)

section \<open>Printing and parsing a policy\<close>

definition mode_sql :: "policy_mode \<Rightarrow> string" where
  "mode_sql m = (case m of Permissive \<Rightarrow> ''PERMISSIVE'' | Restrictive \<Rightarrow> ''RESTRICTIVE'')"

definition command_sql :: "policy_command \<Rightarrow> string" where
  "command_sql c = (case c of Cmd_All \<Rightarrow> ''ALL'' | Cmd_Select \<Rightarrow> ''SELECT'' | Cmd_Insert \<Rightarrow> ''INSERT''
     | Cmd_Update \<Rightarrow> ''UPDATE'' | Cmd_Delete \<Rightarrow> ''DELETE'')"

definition roles_sql :: "role_name list \<Rightarrow> string" where
  "roles_sql roles = join '', '' (map (quoted \<circ> role_identifier) roles)"

definition using_sql :: "predicate option \<Rightarrow> string" where
  "using_sql u = (case u of None \<Rightarrow> [] | Some p \<Rightarrow> '' USING '' @ enclosed (sql p))"

definition check_sql :: "predicate option \<Rightarrow> string" where
  "check_sql q = (case q of None \<Rightarrow> [] | Some p \<Rightarrow> '' WITH CHECK '' @ enclosed (sql p))"

definition print_create_policy :: "create_policy \<Rightarrow> string" where
  "print_create_policy p =
     ''CREATE POLICY '' @ quoted (cp_name p) @ '' ON '' @ quoted (cp_table p)
     @ '' AS '' @ mode_sql (cp_mode p) @ '' FOR '' @ command_sql (cp_command p)
     @ '' TO '' @ roles_sql (cp_roles p) @ using_sql (cp_using p) @ check_sql (cp_with_check p)"

text \<open>A keyword and the white space around it, then the rest of the text.\<close>

lemma eq_ignore_ascii_case_refl [simp]: "eq_ignore_ascii_case w w"
  by (simp add: eq_ignore_ascii_case_def)

lemma plain_words [simp]:
  "list_all plain_word [''CREATE'', ''POLICY'', ''ON'', ''AS'', ''FOR'', ''TO'', ''USING'', ''WITH'',
     ''CHECK'', ''PERMISSIVE'', ''RESTRICTIVE'', ''ALL'', ''SELECT'', ''INSERT'', ''UPDATE'', ''DELETE'']"
  by code_simp

lemma toks_keyword:
  assumes "toks s t = Ok ts" and "plain_word w" and "boundary t"
  shows "\<exists>tok. toks s (w @ t) = Ok (tok # ts) \<and> tk_kind tok = Word w
    \<and> consume_keyword w (tok # ts) = (True, ts) \<and> expect_keyword s w (tok # ts) = Ok ts"
  using toks_word [OF assms(2,3,1)]
  by (auto simp: consume_keyword_def expect_keyword_def is_keyword_def)


lemma consume_other:
  assumes "tk_kind tok = Word w" and "\<not> eq_ignore_ascii_case w k"
  shows "consume_keyword k (tok # ts) = (False, tok # ts)"
  using assms by (simp add: consume_keyword_def is_keyword_def)

lemma consume_Nil [simp]: "consume_keyword k [] = (False, [])"
  by (simp add: consume_keyword_def)

text \<open>Each clause of the printed policy is read back, given that the text after it is.\<close>

definition trimmed :: "predicate \<Rightarrow> bool" where
  "trimmed p = (trim (sql p) = sql p)"

lemma read_enclosed:
  assumes "s = pre @ enclosed (sql p) @ t" and "toks s t = Ok ts" and "predicate_ok p" and "trimmed p"
  shows "\<exists>ts0. toks s (enclosed (sql p) @ t) = Ok ts0 \<and> parenthesized_predicate s ts0 = Ok (p, ts)"
  using parse_enclosed [OF assms(1,2)] assms(3,4) by (simp add: predicate_ok_def trimmed_def)

definition heads :: "string list \<Rightarrow> token list \<Rightarrow> bool" where
  "heads ws ts = (ts = [] \<or> (\<exists>w \<in> set ws. tk_kind (hd ts) = Word w))"

lemma read_check:
  assumes "s = pre @ check_sql q" and "opt_all predicate_ok q" and "opt_all trimmed q"
  shows "\<exists>ts. toks s (check_sql q) = Ok ts \<and> parse_with_check s ts = Ok (q, []) \<and> heads [''WITH''] ts"
proof (cases q)
  case None
  then show ?thesis
    by (simp add: check_sql_def parse_with_check_def optional_clause_def heads_def)
next
  case (Some p)
  obtain t0 where t0: "toks s (enclosed (sql p)) = Ok t0" "parenthesized_predicate s t0 = Ok (p, [])"
    using read_enclosed [of s "pre @ '' WITH CHECK ''" p "[]" "[]"] assms Some
    by (auto simp: check_sql_def)
  obtain c where c: "toks s (''CHECK'' @ CHR '' '' # enclosed (sql p)) = Ok (c # t0)"
      "expect_keyword s ''CHECK'' (c # t0) = Ok t0"
    using toks_keyword [of s "CHR '' '' # enclosed (sql p)" t0 "''CHECK''"] t0(1) plain_words by auto
  obtain w where "toks s (''WITH'' @ CHR '' '' # ''CHECK'' @ CHR '' '' # enclosed (sql p)) = Ok (w # c # t0)"
      "tk_kind w = Word ''WITH''" "consume_keyword ''WITH'' (w # c # t0) = (True, c # t0)"
    using toks_keyword [of s "CHR '' '' # ''CHECK'' @ CHR '' '' # enclosed (sql p)" "c # t0" "''WITH''"]
      c(1) plain_words by auto
  then show ?thesis
    using t0 c by (simp add: Some check_sql_def parse_with_check_def optional_clause_def some_result_def
        heads_def)
qed

lemma heads_not:
  assumes "heads ws ts" and "list_all (\<lambda>w. \<not> eq_ignore_ascii_case w k) ws"
  shows "consume_keyword k ts = (False, ts)"
  using assms by (cases ts) (auto simp: heads_def list_all_iff consume_other)

lemma heads_no_symbol: "heads ws ts \<Longrightarrow> consume_symbol b ts = (False, ts)"
  by (cases ts) (auto simp: heads_def consume_symbol_def)

lemma boundary_check_sql: "boundary (check_sql q)"
  by (cases q) (simp_all add: check_sql_def)

lemma boundary_using_sql: "boundary t \<Longrightarrow> boundary (using_sql u @ t)"
  by (cases u) (simp_all add: using_sql_def)

lemma read_using:
  assumes "s = pre @ using_sql u @ t" and "opt_all predicate_ok u" and "opt_all trimmed u"
    and "toks s t = Ok ts" and "heads [''WITH''] ts" and "boundary t"
  shows "\<exists>ts0. toks s (using_sql u @ t) = Ok ts0 \<and> parse_using s ts0 = Ok (u, ts)
    \<and> heads [''WITH'', ''USING''] ts0"
proof (cases u)
  case None
  have "\<not> eq_ignore_ascii_case ''WITH'' ''USING''" by code_simp
  then have "consume_keyword ''USING'' ts = (False, ts)"
    by (intro heads_not [OF assms(5)]) simp
  then show ?thesis
    using assms(4,5) None
    by (auto simp: using_sql_def parse_using_def optional_clause_def heads_def)
next
  case (Some p)
  obtain t0 where t0: "toks s (enclosed (sql p) @ t) = Ok t0" "parenthesized_predicate s t0 = Ok (p, ts)"
    using read_enclosed [of s "pre @ '' USING ''" p t ts] assms Some by (auto simp: using_sql_def)
  obtain w where "toks s (''USING'' @ CHR '' '' # enclosed (sql p) @ t) = Ok (w # t0)"
      "tk_kind w = Word ''USING''" "consume_keyword ''USING'' (w # t0) = (True, t0)"
    using toks_keyword [of s "CHR '' '' # enclosed (sql p) @ t" t0 "''USING''"] t0(1) plain_words by auto
  then show ?thesis
    using t0 by (simp add: Some using_sql_def parse_using_def optional_clause_def some_result_def heads_def)
qed

lemma read_identifier:
  assumes "toks s t = Ok ts" and "boundary t" and "identifier_ok i"
  shows "\<exists>ts0. toks s (quoted i @ t) = Ok ts0 \<and> parse_identifier s ts0 = Ok (i, ts)"
  using toks_quoted [OF assms(2,1), of i] assms(3)
  by (auto simp: parse_identifier_def identifier_ok_def)

lemma read_roles:
  assumes "toks s t = Ok ts" and "boundary t" and "consume_symbol CHR '','' ts = (False, ts)"
  shows "roles_ok roles \<Longrightarrow>
    \<exists>ts0. toks s (roles_sql roles @ t) = Ok ts0 \<and> role_list s ts0 = Ok (roles, ts)"
proof (induction roles rule: induct_list012)
  case (2 r)
  then have "identifier_ok (role_identifier r)" by (simp add: roles_ok_def)
  then show ?case
    using read_identifier [OF assms(1,2)] assms(3)
    by (fastforce simp: roles_sql_def role_list.simps)
next
  case (3 r r' rs)
  then have ok: "identifier_ok (role_identifier r)" "roles_ok (r' # rs)" by (auto simp: roles_ok_def)
  then obtain t1 where t1: "toks s (roles_sql (r' # rs) @ t) = Ok t1" "role_list s t1 = Ok (r' # rs, ts)"
    using 3 by blast
  obtain c where c: "toks s ('', '' @ roles_sql (r' # rs) @ t) = Ok (c # t1)" "tk_kind c = Symbol CHR '',''"
    using toks_comma [of s "CHR '' '' # roles_sql (r' # rs) @ t" t1] t1(1) by auto
  obtain t0 where "toks s (quoted (role_identifier r) @ '', '' @ roles_sql (r' # rs) @ t) = Ok t0"
      "parse_identifier s t0 = Ok (role_identifier r, c # t1)"
    using read_identifier [OF c(1) _ ok(1)] by auto
  then show ?case
    using t1 c by (auto simp: roles_sql_def role_list.simps [of s t0] consume_symbol_def)
qed (simp add: roles_ok_def)

lemma read_keyword_word:
  assumes "toks s t = Ok ts" and "plain_word w" and "boundary t"
  shows "\<exists>ts0. toks s (w @ t) = Ok ts0 \<and> consume_keyword w ts0 = (True, ts)
    \<and> expect_keyword s w ts0 = Ok ts
    \<and> (\<forall>k. \<not> eq_ignore_ascii_case w k \<longrightarrow> consume_keyword k ts0 = (False, ts0))"
  using toks_keyword [OF assms] consume_other by blast

lemma read_mode:
  assumes "toks s t = Ok ts" and "boundary t"
  shows "\<exists>ts0. toks s (mode_sql m @ t) = Ok ts0 \<and> parse_mode s ts0 = Ok (m, ts)"
proof -
  have "plain_word (mode_sql m)" using plain_words by (cases m) (simp_all add: mode_sql_def)
  moreover have "\<not> eq_ignore_ascii_case ''RESTRICTIVE'' ''PERMISSIVE''" by code_simp
  ultimately show ?thesis
    using read_keyword_word [OF assms(1) _ assms(2), of "mode_sql m"]
    by (cases m) (auto simp: mode_sql_def parse_mode_def)
qed

lemma read_command:
  assumes "toks s t = Ok ts" and "boundary t"
  shows "\<exists>ts0. toks s (command_sql c @ t) = Ok ts0 \<and> parse_policy_command s ts0 = Ok (c, ts)"
proof -
  have "plain_word (command_sql c)" using plain_words by (cases c) (simp_all add: command_sql_def)
  moreover have "distinct (map (to_ascii_lowercase \<circ> fst) policy_commands)" by code_simp
  ultimately show ?thesis
    using read_keyword_word [OF assms(1) _ assms(2), of "command_sql c"]
    by (cases c) (auto simp: command_sql_def parse_policy_command_def policy_commands_def
        eq_ignore_ascii_case_def)
qed

text \<open>A clause introduced by a keyword: \<open>k v\<close>, each followed by a space or a delimiter.\<close>

lemma read_clause:
  assumes "\<exists>ts0. toks s (v @ t) = Ok ts0 \<and> parse ts0 = Ok (x, ts)" and "plain_word k"
  shows "\<exists>ts0. toks s (CHR '' '' # k @ CHR '' '' # v @ t) = Ok ts0
    \<and> (\<forall>d. optional_clause k d parse ts0 = Ok (x, ts))"
  using assms read_keyword_word [of s "CHR '' '' # v @ t" _ k] by (fastforce simp: optional_clause_def)

lemma read_word_space:
  assumes "toks s t = Ok ts" and "plain_word k"
  shows "\<exists>ts0. toks s (k @ CHR '' '' # t) = Ok ts0 \<and> expect_keyword s k ts0 = Ok ts
    \<and> consume_keyword k ts0 = (True, ts)"
  using assms read_keyword_word [of s "CHR '' '' # t" _ k] by fastforce

lemma public_identifier: "\<exists>i. identifier_new ''public'' = Ok i"
  by (rule exI [of _ "Identifier ''public''"]) code_simp

lemma clauses_ok_validate:
  "clauses_ok c u q \<Longrightarrow> validate_policy_clauses c (u \<noteq> None) (q \<noteq> None) = Ok ()"
  by (auto simp: clauses_ok_def validate_policy_clauses_def)

lemma read_header:
  assumes "toks s t = Ok ts" and "identifier_ok i" and "boundary t" and "plain_word k"
  shows "\<exists>ts0 ts1. toks s (k @ CHR '' '' # quoted i @ t) = Ok ts0 \<and> expect_keyword s k ts0 = Ok ts1
    \<and> parse_identifier s ts1 = Ok (i, ts)"
proof -
  obtain ts1 where "toks s (quoted i @ t) = Ok ts1" "parse_identifier s ts1 = Ok (i, ts)"
    using read_identifier [OF assms(1,3,2)] by blast
  then show ?thesis using read_word_space [of s "quoted i @ t" ts1 k] assms(4) by blast
qed

lemma parse_print_create_policy:
  assumes ok: "create_policy_ok p"
    and tr: "opt_all trimmed (cp_using p)" "opt_all trimmed (cp_with_check p)"
  shows "parse_rls_statement (print_create_policy p) = Ok (CreatePolicy p)"
proof -
  let ?s = "print_create_policy p"
  let ?check = "check_sql (cp_with_check p)"
  let ?tail = "using_sql (cp_using p) @ ?check"
  let ?to = "CHR '' '' # ''TO'' @ CHR '' '' # roles_sql (cp_roles p) @ ?tail"
  let ?for = "CHR '' '' # ''FOR'' @ CHR '' '' # command_sql (cp_command p) @ ?to"
  let ?as = "CHR '' '' # ''AS'' @ CHR '' '' # mode_sql (cp_mode p) @ ?for"
  let ?on = "CHR '' '' # ''ON'' @ CHR '' '' # quoted (cp_table p) @ ?as"
  let ?policy = "''POLICY'' @ CHR '' '' # quoted (cp_name p) @ ?on"
  have s: "?s = ''CREATE'' @ CHR '' '' # ?policy" by (simp add: print_create_policy_def)
  obtain pre where pre: "?s = pre @ ?tail"
    using that [of "''CREATE POLICY '' @ quoted (cp_name p) @ '' ON '' @ quoted (cp_table p)
     @ '' AS '' @ mode_sql (cp_mode p) @ '' FOR '' @ command_sql (cp_command p)
     @ '' TO '' @ roles_sql (cp_roles p)"] by (simp add: print_create_policy_def)
  have w: "plain_word w" if "w \<in> {''CREATE'', ''POLICY'', ''ON'', ''AS'', ''FOR'', ''TO''}" for w
    using that plain_words by auto
  have b: "boundary ?tail" by (simp add: boundary_using_sql boundary_check_sql)
  obtain t1 where t1: "toks ?s ?check = Ok t1"
      "parse_with_check ?s t1 = Ok (cp_with_check p, [])" "heads [''WITH''] t1"
    using read_check [of ?s "pre @ using_sql (cp_using p)" "cp_with_check p"] pre ok tr
    by (auto simp: create_policy_ok_def clauses_ok_def)
  obtain t2 where t2: "toks ?s ?tail = Ok t2" "parse_using ?s t2 = Ok (cp_using p, t1)"
      "heads [''WITH'', ''USING''] t2"
    using read_using [OF pre _ _ t1(1) t1(3) boundary_check_sql] ok tr
    by (auto simp: create_policy_ok_def clauses_ok_def)
  obtain t3 where t3: "toks ?s ?to = Ok t3"
      "\<And>d. optional_clause ''TO'' d (role_list ?s) t3 = Ok (cp_roles p, t2)"
    using read_clause [OF read_roles [OF t2(1) b heads_no_symbol [OF t2(3)]] w, of "cp_roles p" "''TO''"] ok
    by (auto simp: create_policy_ok_def)
  obtain t4 where t4: "toks ?s ?for = Ok t4"
      "\<And>d. optional_clause ''FOR'' d (parse_policy_command ?s) t4 = Ok (cp_command p, t3)"
    using read_clause [OF read_command [OF t3(1), where c = "cp_command p"] w [of "''FOR''"]] by auto
  obtain t5 where t5: "toks ?s ?as = Ok t5"
      "\<And>d. optional_clause ''AS'' d (parse_mode ?s) t5 = Ok (cp_mode p, t4)"
    using read_clause [OF read_mode [OF t4(1), where m = "cp_mode p"] w [of "''AS''"]] by auto
  obtain t6 t7 where t6: "toks ?s ?on = Ok t6" "expect_keyword ?s ''ON'' t6 = Ok t7"
      "parse_identifier ?s t7 = Ok (cp_table p, t5)"
    using read_header [OF t5(1) _ _ w [of "''ON''"], of "cp_table p"] ok by (auto simp: create_policy_ok_def)
  obtain t8 t9 where t8: "toks ?s ?policy = Ok t8" "expect_keyword ?s ''POLICY'' t8 = Ok t9"
      "parse_identifier ?s t9 = Ok (cp_name p, t6)"
    using read_header [OF t6(1) _ _ w [of "''POLICY''"], of "cp_name p"] ok by (auto simp: create_policy_ok_def)
  obtain t10 where t10: "toks ?s ?s = Ok t10" "consume_keyword ''CREATE'' t10 = (True, t8)"
    using read_word_space [OF t8(1) w [of "''CREATE''"]] s by auto
  have "parse_create_policy ?s t9 = Ok (p, [])"
    using t8(3) t6(2,3) t5(2) t4(2) t3(2) t2(2) t1(2) public_identifier clauses_ok_validate ok
    by (auto simp: parse_create_policy_def create_policy_ok_def)
  moreover have "t10 \<noteq> []"
    using t10(2) by auto
  ultimately show ?thesis
    using t10 t8(2)
    by (simp add: parse_rls_statement_def lex_def toks_def [symmetric] parse_statement_def expect_end_def)
qed

end
