(* ===== verification/Sqlite_Rls.thy ===== *)
theory Sqlite_Rls
  imports Rls_Statements
begin

text \<open>
  \<open>crates/sqlite-rls/src/lib.rs\<close>: the catalog of policies, its update by RLS statements, the
  combination of the policies that apply to an operation into SQL predicates, and the compilation of
  a protected table into a view and three \<open>INSTEAD OF\<close> triggers.

  SHA-256 is code outside the repository: the definitions that name generated objects take it as the
  argument \<open>sha256\<close>, from bytes to bytes.
\<close>

section \<open>Identifiers are ordered by their bytes\<close>

instantiation sql_identifier :: linorder
begin

definition less_eq_sql_identifier :: "sql_identifier \<Rightarrow> sql_identifier \<Rightarrow> bool" where
  "less_eq_sql_identifier a b \<longleftrightarrow> as_str a \<le> as_str b"

definition less_sql_identifier :: "sql_identifier \<Rightarrow> sql_identifier \<Rightarrow> bool" where
  "less_sql_identifier a b \<longleftrightarrow> as_str a < as_str b"

instance
  by standard (auto simp: less_eq_sql_identifier_def less_sql_identifier_def sql_identifier.expand)

end

section \<open>Data\<close>

record column_schema =
  col_name :: sql_identifier
  primary_key_ordinal :: "nat option"
  generated :: bool

record table_schema =
  ts_name :: sql_identifier
  columns :: "column_schema list"
  protected :: bool

record schema_snapshot =
  schema_tables :: "table_schema list"

record policy =
  pol_name :: sql_identifier
  pol_mode :: policy_mode
  pol_command :: policy_command
  pol_roles :: "role_name list"
  pol_using :: "predicate option"
  pol_with_check :: "predicate option"

record table_policies =
  enabled :: bool
  forced :: bool
  policies :: "(sql_identifier, policy) btree_map"

record rls_catalog =
  tables :: "(sql_identifier, table_policies) btree_map"

datatype rls_operation = Op_Select | Op_Insert | Op_Update | Op_Delete

record combined_predicates =
  comb_using :: "string option"
  comb_check :: "string option"

record compiled_table_plan =
  plan_table :: sql_identifier
  backing_table :: sql_identifier
  generated_sources :: "sql_identifier list"
  rename_sql :: "string option"
  drop_generated_sql :: "string list"
  create_generated_sql :: "string list"

datatype rls_compile_error =
    UnknownTable string
  | DuplicatePolicy string string
  | UnknownPolicy string string
  | MissingPrimaryKey string
  | MissingColumns string
  | InvalidInternalIdentifier
  | IncompatibleAlter string

section \<open>The catalog\<close>

definition schema_table :: "schema_snapshot \<Rightarrow> sql_identifier \<Rightarrow> table_schema option" where
  "schema_table schema name = find (\<lambda>t. ts_name t = name) (schema_tables schema)"

definition ensure_table :: "schema_snapshot \<Rightarrow> sql_identifier \<Rightarrow> rls_compile_error + unit" where
  "ensure_table schema table =
     (case schema_table schema table of
        Some _ \<Rightarrow> Ok ()
      | None \<Rightarrow> Err (UnknownTable (as_str table)))"

definition default_policies :: table_policies where
  "default_policies = \<lparr>enabled = False, forced = False, policies = []\<rparr>"

text \<open>\<open>tables.entry(table).or_default()\<close>: the entry, which exists from then on.\<close>

definition entry_or_default :: "rls_catalog \<Rightarrow> sql_identifier \<Rightarrow> table_policies" where
  "entry_or_default cat table =
     (case bt_get (tables cat) table of Some m \<Rightarrow> m | None \<Rightarrow> default_policies)"

definition put_table :: "sql_identifier \<Rightarrow> table_policies \<Rightarrow> rls_catalog \<Rightarrow> rls_catalog" where
  "put_table table m cat = cat\<lparr>tables := bt_insert table m (tables cat)\<rparr>"

definition policy_of :: "create_policy \<Rightarrow> policy" where
  "policy_of p = \<lparr>pol_name = cp_name p, pol_mode = cp_mode p, pol_command = cp_command p,
     pol_roles = cp_roles p, pol_using = cp_using p, pol_with_check = cp_with_check p\<rparr>"

definition set_table_rls :: "alter_table_rls \<Rightarrow> table_policies \<Rightarrow> table_policies" where
  "set_table_rls action m =
     (case action of
        Rls_Enable \<Rightarrow> m\<lparr>enabled := True\<rparr>
      | Rls_Disable \<Rightarrow> m\<lparr>enabled := False\<rparr>
      | Rls_Force \<Rightarrow> m\<lparr>forced := True\<rparr>
      | Rls_NoForce \<Rightarrow> m\<lparr>forced := False\<rparr>)"

definition altered_policy :: "alter_policy \<Rightarrow> policy \<Rightarrow> policy" where
  "altered_policy st p =
     p\<lparr>pol_roles := (case ap_roles st of Some r \<Rightarrow> r | None \<Rightarrow> pol_roles p),
       pol_using := or_else (ap_using st) (pol_using p),
       pol_with_check := or_else (ap_with_check st) (pol_with_check p),
       pol_name := (case ap_rename_to st of Some n \<Rightarrow> n | None \<Rightarrow> pol_name p)\<rparr>"

text \<open>
  The statements work on the table's metadata. The result is paired with the metadata left behind,
  on the error paths too: \<open>ALTER POLICY\<close> removes the policy before it is checked.
\<close>

definition create_policy_in ::
    "create_policy \<Rightarrow> table_policies \<Rightarrow> (rls_compile_error + unit) \<times> table_policies" where
  "create_policy_in st m =
     (case bt_get (policies m) (cp_name st) of
        None \<Rightarrow> (Ok (), m\<lparr>policies := bt_insert (cp_name st) (policy_of st) (policies m)\<rparr>)
      | Some _ \<Rightarrow> (Err (DuplicatePolicy (as_str (cp_table st)) (as_str (cp_name st))), m))"

definition alter_policy_in ::
    "alter_policy \<Rightarrow> table_policies \<Rightarrow> (rls_compile_error + unit) \<times> table_policies" where
  "alter_policy_in st m =
     (case bt_get (policies m) (ap_name st) of
        None \<Rightarrow> (Err (UnknownPolicy (as_str (ap_table st)) (as_str (ap_name st))), m)
      | Some p \<Rightarrow>
          (let m' = m\<lparr>policies := bt_remove (ap_name st) (policies m)\<rparr> in
           if ap_using st \<noteq> None \<and> pol_command p = Cmd_Insert
           then (Err (IncompatibleAlter ''USING''), m')
           else if ap_with_check st \<noteq> None \<and> pol_command p \<in> {Cmd_Select, Cmd_Delete}
           then (Err (IncompatibleAlter ''WITH CHECK''), m')
           else
             (let p' = altered_policy st p;
                  m'' = m'\<lparr>policies := bt_insert (pol_name p') p' (policies m')\<rparr>
              in case bt_get (policies m') (pol_name p') of
                   Some _ \<Rightarrow> (Err (DuplicatePolicy (as_str (ap_table st)) (as_str (pol_name p'))), m'')
                 | None \<Rightarrow> (Ok (), m''))))"

definition drop_policy_in ::
    "drop_policy \<Rightarrow> table_policies \<Rightarrow> (rls_compile_error + unit) \<times> table_policies" where
  "drop_policy_in st m =
     (let m' = m\<lparr>policies := bt_remove (dp_name st) (policies m)\<rparr> in
      if bt_get (policies m) (dp_name st) = None \<and> \<not> dp_if_exists st
      then (Err (UnknownPolicy (as_str (dp_table st)) (as_str (dp_name st))), m')
      else (Ok (), m'))"

fun statement_table :: "rls_statement \<Rightarrow> sql_identifier" where
  "statement_table (AlterTable t a) = t"
| "statement_table (CreatePolicy p) = cp_table p"
| "statement_table (AlterPolicy p) = ap_table p"
| "statement_table (DropPolicy p) = dp_table p"

fun apply_in ::
    "rls_statement \<Rightarrow> table_policies \<Rightarrow> (rls_compile_error + unit) \<times> table_policies" where
  "apply_in (AlterTable t a) m = (Ok (), set_table_rls a m)"
| "apply_in (CreatePolicy p) m = create_policy_in p m"
| "apply_in (AlterPolicy p) m = alter_policy_in p m"
| "apply_in (DropPolicy p) m = drop_policy_in p m"

definition catalog_apply ::
    "schema_snapshot \<Rightarrow> rls_statement \<Rightarrow> rls_catalog \<Rightarrow> (rls_compile_error + unit) \<times> rls_catalog" where
  "catalog_apply schema st cat =
     (let table = statement_table st in
      case ensure_table schema table of
        Inl e \<Rightarrow> (Err e, cat)
      | Inr _ \<Rightarrow>
          (let (r, m) = apply_in st (entry_or_default cat table) in (r, put_table table m cat)))"

section \<open>Combining policies\<close>

definition applies :: "policy_command \<Rightarrow> rls_operation \<Rightarrow> bool" where
  "applies command operation =
     (command = Cmd_All
      \<or> (command, operation) \<in> {(Cmd_Select, Op_Select), (Cmd_Insert, Op_Insert),
           (Cmd_Update, Op_Update), (Cmd_Delete, Op_Delete)})"

definition operation_uses_existing :: "rls_operation \<Rightarrow> bool" where
  "operation_uses_existing operation = (operation \<in> {Op_Select, Op_Update, Op_Delete})"

definition operation_checks_new :: "rls_operation \<Rightarrow> bool" where
  "operation_checks_new operation = (operation \<in> {Op_Insert, Op_Update})"

definition quote_literal :: "string \<Rightarrow> string" where
  "quote_literal v = [squote] @ double_byte squote v @ [squote]"

definition role_str :: "role_name \<Rightarrow> string" where
  "role_str r = as_str (role_identifier r)"

definition role_guard :: "role_name list \<Rightarrow> string" where
  "role_guard roles =
     (if list_ex (\<lambda>r. eq_ignore_ascii_case (role_str r) ''public'') roles then ''1''
      else join '' OR '' (map (\<lambda>r. ''__ffdb_auth_role() = '' @ quote_literal (role_str r)) roles))"

datatype predicate_purpose = Purpose_Using | Purpose_Check

definition purpose_predicate :: "predicate_purpose \<Rightarrow> policy \<Rightarrow> predicate option" where
  "purpose_predicate purpose p =
     (case purpose of
        Purpose_Using \<Rightarrow> pol_using p
      | Purpose_Check \<Rightarrow> or_else (pol_with_check p) (pol_using p))"

definition purpose_sql :: "predicate_purpose \<Rightarrow> policy \<Rightarrow> string" where
  "purpose_sql purpose p =
     (case purpose_predicate purpose p of None \<Rightarrow> ''1'' | Some q \<Rightarrow> sqlite_sql q)"

definition permissive_sql :: "predicate_purpose \<Rightarrow> policy \<Rightarrow> string" where
  "permissive_sql purpose p =
     ''(('' @ role_guard (pol_roles p) @ '') AND ('' @ purpose_sql purpose p @ ''))''"

definition restrictive_sql :: "predicate_purpose \<Rightarrow> policy \<Rightarrow> string" where
  "restrictive_sql purpose p =
     ''((NOT ('' @ role_guard (pol_roles p) @ '')) OR ('' @ purpose_sql purpose p @ ''))''"

definition combine :: "policy list \<Rightarrow> predicate_purpose \<Rightarrow> bool \<Rightarrow> string" where
  "combine ps purpose is_forced =
     (let permissive = map (permissive_sql purpose) (filter (\<lambda>p. pol_mode p = Permissive) ps);
          restrictive = map (restrictive_sql purpose) (filter (\<lambda>p. pol_mode p = Restrictive) ps);
          permissive_text = (if permissive = [] then ''0'' else join '' OR '' permissive);
          restrictive_text = (if restrictive = [] then ''1'' else join '' AND '' restrictive);
          policy_result = ''(('' @ permissive_text @ '') AND ('' @ restrictive_text @ ''))''
      in if is_forced then policy_result
         else ''(__ffdb_is_developer() OR '' @ policy_result @ '')'')"

definition table_metadata :: "rls_catalog \<Rightarrow> sql_identifier \<Rightarrow> table_policies" where
  "table_metadata cat table =
     (case bt_get (tables cat) table of Some m \<Rightarrow> m | None \<Rightarrow> default_policies)"

definition applicable :: "table_policies \<Rightarrow> rls_operation \<Rightarrow> policy list" where
  "applicable m operation = filter (\<lambda>p. applies (pol_command p) operation) (map snd (policies m))"

definition combined_predicates_of :: "rls_catalog \<Rightarrow> sql_identifier \<Rightarrow> rls_operation \<Rightarrow> combined_predicates" where
  "combined_predicates_of cat table operation =
     (let m = table_metadata cat table in
      if \<not> enabled m then
        \<lparr>comb_using = (if operation_uses_existing operation then Some ''1'' else None),
         comb_check = (if operation_checks_new operation then Some ''1'' else None)\<rparr>
      else
        \<lparr>comb_using = (if operation_uses_existing operation
           then Some (combine (applicable m operation) Purpose_Using (forced m)) else None),
         comb_check = (if operation_checks_new operation
           then Some (combine (applicable m operation) Purpose_Check (forced m)) else None)\<rparr>)"

section \<open>Compilation\<close>

definition generated_identifier ::
    "(string \<Rightarrow> string) \<Rightarrow> string \<Rightarrow> sql_identifier \<Rightarrow> rls_compile_error + sql_identifier" where
  "generated_identifier sha256 object_kind table =
     (let encoded = concat (map hex_byte (sha256 (as_str table))) in
      map_err (\<lambda>_. InvalidInternalIdentifier)
        (identifier_new (''__ffdb_'' @ object_kind @ ''_'' @ encoded)))"

definition backing_table_name :: "(string \<Rightarrow> string) \<Rightarrow> sql_identifier \<Rightarrow> rls_compile_error + sql_identifier" where
  "backing_table_name sha256 table = generated_identifier sha256 ''data'' table"

definition generated_source_names ::
    "(string \<Rightarrow> string) \<Rightarrow> sql_identifier \<Rightarrow> rls_compile_error + sql_identifier list" where
  "generated_source_names sha256 table =
     bindr (generated_identifier sha256 ''insert'' table) (\<lambda>i.
     bindr (generated_identifier sha256 ''update'' table) (\<lambda>u.
     bindr (generated_identifier sha256 ''delete'' table) (\<lambda>d.
     Ok [table, i, u, d])))"

definition candidate_row :: "table_schema \<Rightarrow> string \<Rightarrow> string" where
  "candidate_row table row_alias =
     join '', '' (map (\<lambda>c. row_alias @ ''.'' @ quoted (col_name c) @ '' AS '' @ quoted (col_name c))
       (columns table))"

definition comma_list :: "(column_schema \<Rightarrow> string) \<Rightarrow> column_schema list \<Rightarrow> string" where
  "comma_list f cs = join '', '' (map f cs)"

definition unwrap_or_zero :: "string option \<Rightarrow> string" where
  "unwrap_or_zero s = (case s of Some t \<Rightarrow> t | None \<Rightarrow> ''0'')"

definition guard_select :: "string \<Rightarrow> string \<Rightarrow> string \<Rightarrow> string \<Rightarrow> string" where
  "guard_select candidate table_alias condition violation =
     ''SELECT CASE WHEN NOT EXISTS (SELECT 1 FROM (SELECT '' @ candidate @ '') AS '' @ table_alias
     @ '' WHERE ('' @ condition @ '')) THEN RAISE(ABORT, '' @ [squote] @ violation @ [squote] @ '') END; ''"

definition compile_table ::
    "(string \<Rightarrow> string) \<Rightarrow> table_schema \<Rightarrow> rls_catalog \<Rightarrow> rls_compile_error + compiled_table_plan" where
  "compile_table sha256 table cat =
     (if columns table = [] then Err (MissingColumns (as_str (ts_name table)))
      else
        (let primary_key = filter (\<lambda>c. primary_key_ordinal c \<noteq> None) (columns table) in
         if primary_key = [] then Err (MissingPrimaryKey (as_str (ts_name table)))
         else
           bindr (backing_table_name sha256 (ts_name table)) (\<lambda>backing.
           bindr (generated_identifier sha256 ''insert'' (ts_name table)) (\<lambda>trigger_insert.
           bindr (generated_identifier sha256 ''update'' (ts_name table)) (\<lambda>trigger_update.
           bindr (generated_identifier sha256 ''delete'' (ts_name table)) (\<lambda>trigger_delete.
           let name = quoted (ts_name table);
               column_names = comma_list (quoted \<circ> col_name) (columns table);
               sel = combined_predicates_of cat (ts_name table) Op_Select;
               ins = combined_predicates_of cat (ts_name table) Op_Insert;
               upd = combined_predicates_of cat (ts_name table) Op_Update;
               del = combined_predicates_of cat (ts_name table) Op_Delete;
               view_sql = ''CREATE VIEW '' @ name @ '' AS SELECT '' @ column_names @ '' FROM ''
                 @ quoted backing @ '' AS '' @ name @ '' WHERE ('' @ unwrap_or_zero (comb_using sel) @ '')'';
               new_candidate = candidate_row table ''NEW'';
               old_candidate = candidate_row table ''OLD'';
               writable = filter (\<lambda>c. \<not> generated c) (columns table);
               writable_names = comma_list (quoted \<circ> col_name) writable;
               new_values = comma_list (\<lambda>c. ''NEW.'' @ quoted (col_name c)) writable;
               insert_sql = ''CREATE TRIGGER '' @ quoted trigger_insert @ '' INSTEAD OF INSERT ON '' @ name
                 @ '' BEGIN ''
                 @ guard_select new_candidate name (unwrap_or_zero (comb_check ins)) ''rls.with_check_violation''
                 @ ''INSERT INTO '' @ quoted backing @ '' ('' @ writable_names @ '') VALUES ('' @ new_values @ ''); END'';
               assignments = comma_list (\<lambda>c. quoted (col_name c) @ '' = NEW.'' @ quoted (col_name c)) writable;
               key_match = join '' AND ''
                 (map (\<lambda>c. quoted (col_name c) @ '' IS OLD.'' @ quoted (col_name c)) primary_key);
               update_sql = ''CREATE TRIGGER '' @ quoted trigger_update @ '' INSTEAD OF UPDATE ON '' @ name
                 @ '' BEGIN ''
                 @ guard_select old_candidate name (unwrap_or_zero (comb_using upd)) ''rls.using_violation''
                 @ guard_select new_candidate name (unwrap_or_zero (comb_check upd)) ''rls.with_check_violation''
                 @ ''UPDATE '' @ quoted backing @ '' SET '' @ assignments @ '' WHERE '' @ key_match @ ''; END'';
               delete_sql = ''CREATE TRIGGER '' @ quoted trigger_delete @ '' INSTEAD OF DELETE ON '' @ name
                 @ '' BEGIN ''
                 @ guard_select old_candidate name (unwrap_or_zero (comb_using del)) ''rls.using_violation''
                 @ ''DELETE FROM '' @ quoted backing @ '' WHERE '' @ key_match @ ''; END''
           in
           bindr (generated_source_names sha256 (ts_name table)) (\<lambda>sources.
           Ok \<lparr>plan_table = ts_name table, backing_table = backing, generated_sources = sources,
               rename_sql = (if protected table then None
                 else Some (''ALTER TABLE '' @ name @ '' RENAME TO '' @ quoted backing)),
               drop_generated_sql =
                 [''DROP TRIGGER IF EXISTS '' @ quoted trigger_insert,
                  ''DROP TRIGGER IF EXISTS '' @ quoted trigger_update,
                  ''DROP TRIGGER IF EXISTS '' @ quoted trigger_delete,
                  ''DROP VIEW IF EXISTS '' @ name],
               create_generated_sql = [view_sql, insert_sql, update_sql, delete_sql]\<rparr>)))))))"

text \<open>\<open>Compiler::compile\<close>: the tables in the catalog's order, those without RLS and not yet protected skipped.\<close>

fun compile_tables ::
    "(string \<Rightarrow> string) \<Rightarrow> schema_snapshot \<Rightarrow> rls_catalog \<Rightarrow> (sql_identifier \<times> table_policies) list
      \<Rightarrow> rls_compile_error + compiled_table_plan list" where
  "compile_tables sha256 schema cat [] = Ok []"
| "compile_tables sha256 schema cat ((name, metadata) # rest) =
     bindr (ok_or (schema_table schema name) (UnknownTable (as_str name))) (\<lambda>table.
     if \<not> enabled metadata \<and> \<not> protected table then compile_tables sha256 schema cat rest
     else
       bindr (compile_table sha256 table cat) (\<lambda>plan.
       bindr (compile_tables sha256 schema cat rest) (\<lambda>plans. Ok (plan # plans))))"

definition compile ::
    "(string \<Rightarrow> string) \<Rightarrow> schema_snapshot \<Rightarrow> rls_catalog \<Rightarrow> rls_compile_error + compiled_table_plan list" where
  "compile sha256 schema cat = compile_tables sha256 schema cat (tables cat)"

end
