(* ===== verification/Rls_Semantics.thy ===== *)
theory Rls_Semantics
  imports Sqlite_Rls
begin

text \<open>
  The meaning of the combined predicates. \<open>policy_expr\<close> is an abstract syntax of the SQL conditions
  that are generated, with SQLite's three-valued logic; the generated text is its rendering, its
  value is the documented rule \<open>(any permissive) AND (all restrictive)\<close>, and its shape does not depend
  on the precedence of \<open>AND\<close> and \<open>OR\<close>.
\<close>

section \<open>Conditions\<close>

datatype condition =
    True_Const
  | False_Const
  | Is_Developer
  | Role_Is string
  | Policy_Predicate string
  | Paren condition
  | Not_Cond condition
  | Any_Of "condition list"
  | All_Of "condition list"

fun render :: "condition \<Rightarrow> string" where
  "render True_Const = ''1''"
| "render False_Const = ''0''"
| "render Is_Developer = ''__ffdb_is_developer()''"
| "render (Role_Is r) = ''__ffdb_auth_role() = '' @ quote_literal r"
| "render (Policy_Predicate p) = p"
| "render (Paren c) = ''('' @ render c @ '')''"
| "render (Not_Cond c) = ''NOT '' @ render c"
| "render (Any_Of cs) = join '' OR '' (map render cs)"
| "render (All_Of cs) = join '' AND '' (map render cs)"

text \<open>
  The connection-local context and the value of each predicate text for the row at hand; \<open>None\<close> is
  \<open>NULL\<close>.
\<close>

record row_context =
  ctx_role :: string
  ctx_developer :: bool
  predicate_value :: "string \<Rightarrow> bool option"

definition not3 :: "bool option \<Rightarrow> bool option" where
  "not3 a = map_option Not a"

definition or3 :: "bool option \<Rightarrow> bool option \<Rightarrow> bool option" where
  "or3 a b = (if a = Some True \<or> b = Some True then Some True
     else if a = Some False \<and> b = Some False then Some False else None)"

definition and3 :: "bool option \<Rightarrow> bool option \<Rightarrow> bool option" where
  "and3 a b = (if a = Some False \<or> b = Some False then Some False
     else if a = Some True \<and> b = Some True then Some True else None)"

fun holds :: "row_context \<Rightarrow> condition \<Rightarrow> bool option" where
  "holds ctx True_Const = Some True"
| "holds ctx False_Const = Some False"
| "holds ctx Is_Developer = Some (ctx_developer ctx)"
| "holds ctx (Role_Is r) = Some (ctx_role ctx = r)"
| "holds ctx (Policy_Predicate p) = predicate_value ctx p"
| "holds ctx (Paren c) = holds ctx c"
| "holds ctx (Not_Cond c) = not3 (holds ctx c)"
| "holds ctx (Any_Of cs) = fold or3 (map (holds ctx) cs) (Some False)"
| "holds ctx (All_Of cs) = fold and3 (map (holds ctx) cs) (Some True)"

lemma fold_or3_True: "fold or3 xs a = Some True \<longleftrightarrow> a = Some True \<or> Some True \<in> set xs"
  by (induction xs arbitrary: a) (auto simp: or3_def split: if_splits)

lemma fold_and3_True: "fold and3 xs a = Some True \<longleftrightarrow> a = Some True \<and> set xs \<subseteq> {Some True}"
  by (induction xs arbitrary: a) (auto simp: and3_def split: if_splits)

lemma holds_Any_Of: "holds ctx (Any_Of cs) = Some True \<longleftrightarrow> (\<exists>c \<in> set cs. holds ctx c = Some True)"
  by (force simp: fold_or3_True)

lemma holds_All_Of: "holds ctx (All_Of cs) = Some True \<longleftrightarrow> (\<forall>c \<in> set cs. holds ctx c = Some True)"
  by (auto simp: fold_and3_True)

lemma not3_True: "not3 a = Some True \<longleftrightarrow> a = Some False"
  by (cases a) (auto simp: not3_def)

text \<open>
  A condition is unambiguous when no operand of \<open>NOT\<close>, \<open>AND\<close> or \<open>OR\<close> is itself an unparenthesized
  \<open>AND\<close> or \<open>OR\<close> or a raw predicate text.
\<close>

fun closed_operand :: "condition \<Rightarrow> bool" where
  "closed_operand (Policy_Predicate p) = False"
| "closed_operand (Any_Of cs) = False"
| "closed_operand (All_Of cs) = False"
| "closed_operand (Not_Cond c) = False"
| "closed_operand c = True"

fun unambiguous :: "condition \<Rightarrow> bool" where
  "unambiguous (Paren c) = unambiguous c"
| "unambiguous (Not_Cond c) = (closed_operand c \<and> unambiguous c)"
| "unambiguous (Any_Of cs) = (length cs = 1 \<and> list_all unambiguous cs
     \<or> list_all (\<lambda>c. closed_operand c \<and> unambiguous c) cs)"
| "unambiguous (All_Of cs) = (length cs = 1 \<and> list_all unambiguous cs
     \<or> list_all (\<lambda>c. closed_operand c \<and> unambiguous c) cs)"
| "unambiguous c = True"

section \<open>The condition of a list of policies\<close>

definition is_public :: "role_name list \<Rightarrow> bool" where
  "is_public roles = list_ex (\<lambda>r. eq_ignore_ascii_case (role_str r) ''public'') roles"

definition role_condition :: "role_name list \<Rightarrow> condition" where
  "role_condition roles =
     (if is_public roles then True_Const else Any_Of (map (Role_Is \<circ> role_str) roles))"

definition predicate_condition :: "predicate_purpose \<Rightarrow> policy \<Rightarrow> condition" where
  "predicate_condition purpose p =
     (case purpose_predicate purpose p of
        None \<Rightarrow> True_Const
      | Some q \<Rightarrow> Policy_Predicate (sqlite_sql q))"

definition permissive_condition :: "predicate_purpose \<Rightarrow> policy \<Rightarrow> condition" where
  "permissive_condition purpose p =
     Paren (All_Of [Paren (role_condition (pol_roles p)), Paren (predicate_condition purpose p)])"

definition restrictive_condition :: "predicate_purpose \<Rightarrow> policy \<Rightarrow> condition" where
  "restrictive_condition purpose p =
     Paren (Any_Of [Paren (Not_Cond (Paren (role_condition (pol_roles p)))),
                    Paren (predicate_condition purpose p)])"

definition any_condition :: "condition list \<Rightarrow> condition" where
  "any_condition cs = (if cs = [] then False_Const else Any_Of cs)"

definition all_condition :: "condition list \<Rightarrow> condition" where
  "all_condition cs = (if cs = [] then True_Const else All_Of cs)"

definition with_mode :: "policy_mode \<Rightarrow> policy list \<Rightarrow> policy list" where
  "with_mode mode ps = filter (\<lambda>p. pol_mode p = mode) ps"

definition policy_condition :: "predicate_purpose \<Rightarrow> policy list \<Rightarrow> condition" where
  "policy_condition purpose ps =
     Paren (All_Of [Paren (any_condition (map (permissive_condition purpose) (with_mode Permissive ps))),
                    Paren (all_condition (map (restrictive_condition purpose) (with_mode Restrictive ps)))])"

definition combined_condition :: "policy list \<Rightarrow> predicate_purpose \<Rightarrow> bool \<Rightarrow> condition" where
  "combined_condition ps purpose is_forced =
     (if is_forced then policy_condition purpose ps
      else Paren (Any_Of [Is_Developer, policy_condition purpose ps]))"

text \<open>The generated text is the rendering of the condition.\<close>

lemma render_role_condition [simp]: "render (role_condition roles) = role_guard roles"
  by (simp add: role_condition_def role_guard_def is_public_def comp_def)

lemma render_predicate_condition [simp]:
  "render (predicate_condition purpose p) = purpose_sql purpose p"
  by (simp add: predicate_condition_def purpose_sql_def split: option.splits)

lemma render_any_condition:
  "render (any_condition cs) = (if cs = [] then ''0'' else join '' OR '' (map render cs))"
  by (simp add: any_condition_def)

lemma render_all_condition:
  "render (all_condition cs) = (if cs = [] then ''1'' else join '' AND '' (map render cs))"
  by (simp add: all_condition_def)

lemma combine_render: "combine ps purpose is_forced = render (combined_condition ps purpose is_forced)"
proof -
  have "render \<circ> permissive_condition purpose = permissive_sql purpose"
    by (auto simp: permissive_condition_def permissive_sql_def)
  moreover have "render \<circ> restrictive_condition purpose = restrictive_sql purpose"
    by (auto simp: restrictive_condition_def restrictive_sql_def)
  ultimately show ?thesis
    by (simp add: combine_def combined_condition_def policy_condition_def with_mode_def Let_def
        render_any_condition render_all_condition)
qed

lemma combined_condition_unambiguous: "unambiguous (combined_condition ps purpose is_forced)"
proof -
  have role: "unambiguous (role_condition roles)" for roles
    by (simp add: role_condition_def list_all_iff)
  have pred: "unambiguous (predicate_condition purpose p)" for p
    by (simp add: predicate_condition_def split: option.splits)
  have "unambiguous (permissive_condition purpose p)" "closed_operand (permissive_condition purpose p)"
    "unambiguous (restrictive_condition purpose p)" "closed_operand (restrictive_condition purpose p)" for p
    using role pred by (simp_all add: permissive_condition_def restrictive_condition_def)
  then have "unambiguous (policy_condition purpose ps)"
    by (simp add: policy_condition_def any_condition_def all_condition_def list_all_iff)
  then show ?thesis
    by (simp add: combined_condition_def policy_condition_def)
qed

section \<open>The documented rule\<close>

definition role_matches :: "row_context \<Rightarrow> policy \<Rightarrow> bool" where
  "role_matches ctx p = (is_public (pol_roles p) \<or> ctx_role ctx \<in> role_str ` set (pol_roles p))"

definition predicate_true :: "row_context \<Rightarrow> predicate_purpose \<Rightarrow> policy \<Rightarrow> bool" where
  "predicate_true ctx purpose p =
     (case purpose_predicate purpose p of
        None \<Rightarrow> True
      | Some q \<Rightarrow> predicate_value ctx (sqlite_sql q) = Some True)"

definition policies_admit :: "row_context \<Rightarrow> predicate_purpose \<Rightarrow> policy list \<Rightarrow> bool" where
  "policies_admit ctx purpose ps \<longleftrightarrow>
     (\<exists>p \<in> set ps. pol_mode p = Permissive \<and> role_matches ctx p \<and> predicate_true ctx purpose p)
     \<and> (\<forall>p \<in> set ps. pol_mode p = Restrictive \<longrightarrow> role_matches ctx p \<longrightarrow> predicate_true ctx purpose p)"

lemma holds_role_condition: "holds ctx (role_condition (pol_roles p)) = Some (role_matches ctx p)"
proof (cases "is_public (pol_roles p)")
  case False
  have "fold or3 (map (holds ctx \<circ> (Role_Is \<circ> role_str)) rs) (Some b)
      = Some (b \<or> ctx_role ctx \<in> role_str ` set rs)" for rs b
    by (induction rs arbitrary: b) (auto simp: or3_def)
  from this [of "pol_roles p" False] show ?thesis
    using False by (simp add: role_condition_def role_matches_def comp_def)
qed (simp add: role_condition_def role_matches_def)

lemma holds_predicate_condition:
  "holds ctx (predicate_condition purpose p) = Some True \<longleftrightarrow> predicate_true ctx purpose p"
  by (simp add: predicate_condition_def predicate_true_def split: option.splits)

lemma holds_any_condition:
  "holds ctx (any_condition cs) = Some True \<longleftrightarrow> (\<exists>c \<in> set cs. holds ctx c = Some True)"
  by (cases cs) (simp_all add: any_condition_def holds_Any_Of del: holds.simps(8))

lemma holds_all_condition:
  "holds ctx (all_condition cs) = Some True \<longleftrightarrow> (\<forall>c \<in> set cs. holds ctx c = Some True)"
  by (cases cs) (simp_all add: all_condition_def holds_All_Of del: holds.simps(9))

lemma holds_permissive_condition:
  "holds ctx (permissive_condition purpose p) = Some True
     \<longleftrightarrow> role_matches ctx p \<and> predicate_true ctx purpose p"
  unfolding permissive_condition_def holds.simps(6) holds_All_Of
  by (simp add: holds_role_condition holds_predicate_condition)

lemma holds_restrictive_condition:
  "holds ctx (restrictive_condition purpose p) = Some True
     \<longleftrightarrow> (role_matches ctx p \<longrightarrow> predicate_true ctx purpose p)"
  unfolding restrictive_condition_def holds.simps(6) holds_Any_Of
  by (auto simp: holds_role_condition holds_predicate_condition not3_True)

lemma holds_policy_condition:
  "holds ctx (policy_condition purpose ps) = Some True \<longleftrightarrow> policies_admit ctx purpose ps"
  unfolding policy_condition_def holds.simps(6) holds_All_Of policies_admit_def
  by (simp only: list.set ball_simps holds.simps(6) holds_any_condition holds_all_condition set_map
      bex_simps holds_permissive_condition holds_restrictive_condition)
    (auto simp: with_mode_def)

lemma holds_combined_condition:
  "holds ctx (combined_condition ps purpose is_forced) = Some True \<longleftrightarrow>
     \<not> is_forced \<and> ctx_developer ctx \<or> policies_admit ctx purpose ps"
proof (cases is_forced)
  case False
  then show ?thesis
    unfolding combined_condition_def by (simp only: if_False holds.simps(6) holds_Any_Of)
      (simp add: holds_policy_condition del: holds.simps(6-9))
qed (simp add: combined_condition_def holds_policy_condition del: holds.simps(6-9))

end
