(* ===== verification/Sql_Properties.thy ===== *)
theory Sql_Properties
  imports Rls_Statements
begin

text \<open>
  The properties of the SQL front end: splitting loses and invents nothing, escaped text is inert,
  predicates and identifiers cannot leave the place they are put in, the parser produces only
  well-formed statements and reads back what is printed, and what classification guarantees.
\<close>

section \<open>Lexing does not depend on the offset\<close>

definition kinds :: "token list \<Rightarrow> token_kind list" where
  "kinds ts = map tk_kind ts"

lemma kinds_push_token: "kinds ts = kinds ts' \<Longrightarrow> kinds (push_token n k r r' ts) = kinds (push_token m k r r' ts')"
  by (cases k) (simp_all add: kinds_def push_token_def mk_token_def)

lemma lex_loop_kinds:
  "lex_loop n allow s = Ok ts \<Longrightarrow> \<exists>ts'. lex_loop m allow s = Ok ts' \<and> kinds ts' = kinds ts"
proof (induction n allow s arbitrary: ts rule: lex_loop.induct)
  case (2 n allow b r)
  then show ?case by (fastforce simp: ffdb_result intro: kinds_push_token)
qed simp

lemma lex_enclosed:
  assumes p: "predicate_new p = Ok q" and t: "lex t True = Ok ts"
  obtains ps lpar rpar ts' where "lex (enclosed p @ t) True = Ok (lpar # ps @ rpar # ts')"
    "tk_kind lpar = Symbol CHR ''(''" "tk_kind rpar = Symbol CHR '')''" "kinds ts' = kinds ts"
    "list_all (\<lambda>tk. tk_kind tk \<noteq> Symbol CHR '';'') ps"
    "find_close 1 (ps @ rpar # ts') = Some (rpar, ts')"
proof -
  let ?s = "enclosed p @ t"
  obtain ts' where ts': "toks ?s t = Ok ts'" "kinds ts' = kinds ts"
    using t lex_loop_kinds unfolding lex_def toks_def by blast
  obtain ps where ps: "lex p False = Ok ps" "check_tokens 0 ps = Ok 0"
      "\<not> list_ex (\<lambda>t. tk_kind t = Symbol CHR '';'') ps"
    using p by (rule predicate_newD)
  show thesis
    using toks_enclosed [of ?s "[]" p t, OF _ ps(1) ts'(1)] ps ts'(2)
      find_close_balanced [OF ps(2), where k = 1]
    by (intro that [where ps = "map (shift_token 1) ps" and ts' = ts'])
      (auto simp: toks_def lex_def list_all_iff list_ex_iff)
qed

section \<open>Scanning\<close>

text \<open>
  Splitting loses nothing and invents nothing: the text is some list of segments joined by
  semicolons, and the returned statements are, in order, exactly the trimmed segments that hold more
  than white space and comments.
\<close>

theorem split_statements_partition_the_text:
  assumes "split_sql_statements s = Ok statements"
  shows "\<exists>segments. join [CHR '';''] segments = s
    \<and> statements = map trim (filter (\<lambda>segment. \<not> is_trivia segment) segments)"
  using split_sql_statements_segments [OF assms] by metis

theorem split_statements_partition_the_text_witness:
  "\<exists>segments. join [CHR '';''] segments = ''SELECT (1;2) ; -- x'' @ [CHR 0x0A] @ '';DROP t''
     \<and> [''SELECT (1;2)'', ''DROP t''] = map trim (filter (\<lambda>segment. \<not> is_trivia segment) segments)"
  by (rule split_statements_partition_the_text) code_simp

text \<open>
  A string literal escaped by doubling its quotes is inert, whatever it contains: the query
  around it is one statement, and it is classified as a read-only \<open>SELECT\<close>.
\<close>

theorem escaped_literal_is_inert:
  "split_sql_statements (literal_query payload) = Ok [literal_query payload]
   \<and> classify_statement (literal_query payload) = Ok \<lparr>kind = Kind_Select, read_only = True\<rparr>"
  by (simp add: split_literal_query classify_statement_def top_level_words_literal_query
      statement_kind_of_def dml_keyword_def)

text \<open>
  Whatever an identifier contains, its rendering is skipped as a whole by the scanner and is
  exactly one identifier token for the lexer, which decodes it to the identifier's own text.
\<close>

theorem quoted_identifier_is_one_token:
  "skip_quoted (quoted i @ CHR '' '' # r) dquote UnterminatedIdentifier = Ok (CHR '' '' # r)
   \<and> lex (quoted i) allow_comments
      = Ok [\<lparr>tk_kind = Ident (as_str i), tk_start = 0, tk_end = length (quoted i)\<rparr>]"
proof -
  have "skip_quoted (quoted i @ CHR '' '' # r) dquote UnterminatedIdentifier = Ok (CHR '' '' # r)"
    using skip_quoted_double [of "CHR '' '' # r" dquote] by (simp add: quoted_def next_is_def)
  moreover have "lex (quoted i) allow_comments
      = Ok [\<lparr>tk_kind = Ident (as_str i), tk_start = 0, tk_end = length (quoted i)\<rparr>]"
    using lex_one_quoted [of "[]" allow_comments i]
    by (simp add: lex_def quoted_def push_token_def mk_token_def)
  ultimately show ?thesis by blast
qed

section \<open>Predicates and statements\<close>

text \<open>
  C7. A predicate accepted by \<open>Predicate::new\<close> cannot leave the parentheses it is placed in: whatever
  text follows, lexing \<open>(p)\<close> and that text gives the opening parenthesis, tokens among which there is
  no statement separator, a closing parenthesis that is the one matching the opening, and then the
  tokens of the following text.
\<close>

theorem predicate_stays_enclosed:
  assumes "predicate_new p = Ok q" and "lex t True = Ok ts"
  shows "\<exists>ps lpar rpar ts'. lex (enclosed p @ t) True = Ok (lpar # ps @ rpar # ts')
    \<and> find_close 1 (ps @ rpar # ts') = Some (rpar, ts')
    \<and> list_all (\<lambda>tk. tk_kind tk \<noteq> Symbol CHR '';'') ps \<and> kinds ts' = kinds ts"
  using lex_enclosed [OF assms] by metis

definition demo_predicate :: string where
  "demo_predicate = ''note = '' @ sql_literal ''x); DROP TABLE t; --'' @ '' AND owner = auth.uid()''"

theorem predicate_stays_enclosed_witness:
  "\<exists>ps lpar rpar ts'. lex (enclosed demo_predicate @ '' OR 1'') True = Ok (lpar # ps @ rpar # ts')
    \<and> find_close 1 (ps @ rpar # ts') = Some (rpar, ts')
    \<and> list_all (\<lambda>tk. tk_kind tk \<noteq> Symbol CHR '';'') ps
    \<and> kinds ts' = kinds [\<lparr>tk_kind = Word ''OR'', tk_start = 1, tk_end = 3\<rparr>,
        \<lparr>tk_kind = Other, tk_start = 4, tk_end = 5\<rparr>]"
proof (rule predicate_stays_enclosed)
  show "predicate_new demo_predicate = Ok \<lparr>sql = demo_predicate\<rparr>"
    unfolding demo_predicate_def by code_simp
  show "lex '' OR 1'' True = Ok [\<lparr>tk_kind = Word ''OR'', tk_start = 1, tk_end = 3\<rparr>,
        \<lparr>tk_kind = Other, tk_start = 4, tk_end = 5\<rparr>]"
    by code_simp
qed

text \<open>
  Every statement the parser returns is well formed: its identifiers are valid and not reserved,
  a policy has at least one role, its predicates are ones \<open>Predicate::new\<close> accepts, an \<open>INSERT\<close>
  policy has no \<open>USING\<close> and a \<open>SELECT\<close> or \<open>DELETE\<close> policy no \<open>WITH CHECK\<close>, and an \<open>ALTER POLICY\<close>
  changes something.
\<close>

theorem parsed_rls_statements_are_well_formed:
  assumes "parse_rls s = Ok statements"
  shows "list_all rls_statement_ok statements \<and> statements \<noteq> []"
proof -
  obtain sts where sts: "mapr parse_rls_statement sts = Ok statements" "sts \<noteq> []"
    using assms by (auto simp: parse_rls_def ffdb_result split: if_splits)
  have all: "list_all2 (\<lambda>x y. parse_rls_statement x = Ok y) sts statements"
    using sts(1) by (simp add: mapr_eq_Ok)
  then have "statements \<noteq> []"
    using sts(2) by auto
  moreover have "list_all rls_statement_ok statements"
    using all by (fastforce simp: list_all_iff in_set_conv_nth list_all2_conv_all_nth
        dest: parse_rls_statement_ok)
  ultimately show ?thesis by simp
qed

definition demo_rls :: string where
  "demo_rls = ''ALTER TABLE docs ENABLE ROW LEVEL SECURITY;''
     @ ''CREATE POLICY own ON docs FOR SELECT TO a, b USING (owner = auth.uid()); DROP POLICY old ON docs''"

definition demo_statements :: "rls_statement list" where
  "demo_statements =
     [AlterTable (Identifier ''docs'') Rls_Enable,
      CreatePolicy \<lparr>cp_name = Identifier ''own'', cp_table = Identifier ''docs'', cp_mode = Permissive,
        cp_command = Cmd_Select, cp_roles = [RoleName (Identifier ''a''), RoleName (Identifier ''b'')],
        cp_using = Some \<lparr>sql = ''owner = auth.uid()''\<rparr>, cp_with_check = None\<rparr>,
      DropPolicy \<lparr>dp_name = Identifier ''old'', dp_table = Identifier ''docs'', dp_if_exists = False\<rparr>]"

theorem parsed_rls_statements_are_well_formed_witness:
  "list_all rls_statement_ok demo_statements \<and> demo_statements \<noteq> []"
proof (rule parsed_rls_statements_are_well_formed)
  show "parse_rls demo_rls = Ok demo_statements"
    unfolding demo_rls_def demo_statements_def by code_simp
qed

text \<open>
  C8. Printing and parsing: every well-formed policy, with any identifiers, roles and predicates, is
  recovered exactly from its canonical \<open>CREATE POLICY\<close> text.
\<close>

theorem create_policy_roundtrip:
  assumes "create_policy_ok p"
    and "opt_all trimmed (cp_using p)" and "opt_all trimmed (cp_with_check p)"
  shows "parse_rls_statement (print_create_policy p) = Ok (CreatePolicy p)"
  using assms by (rule parse_print_create_policy)

definition demo_policy :: create_policy where
  "demo_policy = \<lparr>cp_name = Identifier (''my '' @ [dquote] @ '' policy; --''), cp_table = Identifier ''docs'',
     cp_mode = Restrictive, cp_command = Cmd_Update,
     cp_roles = [RoleName (Identifier ''editor''), RoleName (Identifier ''a, b'')],
     cp_using = Some \<lparr>sql = demo_predicate\<rparr>, cp_with_check = Some \<lparr>sql = ''auth.claim('' @ sql_literal ''org'' @ '') = org''\<rparr>\<rparr>"

theorem create_policy_roundtrip_witness:
  "parse_rls_statement (print_create_policy demo_policy) = Ok (CreatePolicy demo_policy)"
proof (rule create_policy_roundtrip)
  show "create_policy_ok demo_policy"
    unfolding demo_policy_def demo_predicate_def by code_simp
  show "opt_all trimmed (cp_using demo_policy)"
    unfolding demo_policy_def demo_predicate_def by code_simp
  show "opt_all trimmed (cp_with_check demo_policy)"
    unfolding demo_policy_def demo_predicate_def by code_simp
qed

section \<open>Classification\<close>

text \<open>
  What end users may run is one statement whose first word is \<open>SELECT\<close>, \<open>INSERT\<close>, \<open>REPLACE\<close>,
  \<open>UPDATE\<close>, \<open>DELETE\<close> or \<open>WITH\<close>; a statement with any other first word, or a second statement after
  it, is never offered to them. The entry point returns it as plain SQL, never as an RLS statement.
\<close>

theorem end_user_statement_is_single_dml:
  assumes "classify_statement s = Ok class" and "allowed_for_end_user class"
  shows "\<exists>statement words. split_sql_statements s = Ok [statement]
    \<and> top_level_words statement = Ok words \<and> words \<noteq> [] \<and> hd words \<in> set dml_words
    \<and> parse_and_classify_statement s = Ok (Parsed_Sql class)"
proof -
  obtain st ws where st: "split_sql_statements s = Ok [st]" "top_level_words st = Ok ws"
      "statement_kind_of ws = Ok (kind class)"
    using assms(1) by (rule classify_statement_Ok)
  have dml: "kind class \<in> {Kind_Select, Kind_Insert, Kind_Update, Kind_Delete}"
    using assms(2) by (simp add: allowed_for_end_user_def)
  then have "parse_and_classify_statement s = Ok (Parsed_Sql class)"
    using assms(1) by (auto simp: parse_and_classify_statement_def)
  then show ?thesis
    using st statement_kind_dml [OF st(3) dml] by blast
qed

theorem end_user_statement_is_single_dml_witness:
  "\<exists>statement words. split_sql_statements ''/* DROP */ delete from t;'' = Ok [statement]
    \<and> top_level_words statement = Ok words \<and> words \<noteq> [] \<and> hd words \<in> set dml_words
    \<and> parse_and_classify_statement ''/* DROP */ delete from t;''
      = Ok (Parsed_Sql \<lparr>kind = Kind_Delete, read_only = False\<rparr>)"
proof (rule end_user_statement_is_single_dml)
  show "classify_statement ''/* DROP */ delete from t;'' = Ok \<lparr>kind = Kind_Delete, read_only = False\<rparr>"
    by code_simp
  show "allowed_for_end_user \<lparr>kind = Kind_Delete, read_only = False\<rparr>"
    by (simp add: allowed_for_end_user_def)
qed

text \<open>
  C19. The classification of \<open>WITH\<close> by its last top-level DML keyword does not find the statement's
  body when the body is \<open>INSERT ... SELECT\<close>: for every table name, the insertion is classified as a
  read-only \<open>SELECT\<close>.
\<close>

definition with_insert_words :: "string \<Rightarrow> string list" where
  "with_insert_words table =
     [''WITH'', ''X'', ''AS'', ''INSERT'', ''INTO'', table, ''SELECT'', ''FROM'', ''X'']"

theorem with_insert_select_is_classified_read_only:
  "statement_kind_of (with_insert_words table) = Ok Kind_Select
   \<and> top_level_words ''WITH x AS (SELECT 1) INSERT INTO docs SELECT * FROM x''
      = Ok (with_insert_words ''DOCS'')
   \<and> classify_statement ''WITH x AS (SELECT 1) INSERT INTO docs SELECT * FROM x''
      = Ok \<lparr>kind = Kind_Select, read_only = True\<rparr>"
proof (intro conjI)
  show "statement_kind_of (with_insert_words table) = Ok Kind_Select"
    by (simp add: statement_kind_of_def with_insert_words_def dml_keyword_def classify_with_def)
  show "top_level_words ''WITH x AS (SELECT 1) INSERT INTO docs SELECT * FROM x''
      = Ok (with_insert_words ''DOCS'')"
    by code_simp
  show "classify_statement ''WITH x AS (SELECT 1) INSERT INTO docs SELECT * FROM x''
      = Ok \<lparr>kind = Kind_Select, read_only = True\<rparr>"
    by code_simp
qed

end
