(* ===== verification/Rls_Properties.thy ===== *)
theory Rls_Properties
  imports Rls_Semantics Sql_Properties
begin

text \<open>
  The properties of the RLS compiler: the combined predicates mean what the documentation of RLS
  says, the catalog stays well formed whatever statements are applied to it, what a failed
  \<open>ALTER POLICY\<close> leaves behind, and the names and conditions of the compiled plan.
\<close>

section \<open>The catalog invariant\<close>

definition policy_ok :: "policy \<Rightarrow> bool" where
  "policy_ok p = (roles_ok (pol_roles p) \<and> clauses_ok (pol_command p) (pol_using p) (pol_with_check p))"

definition table_ok :: "table_policies \<Rightarrow> bool" where
  "table_ok m = (bt_wf (policies m) \<and> (\<forall>n p. bt_get (policies m) n = Some p \<longrightarrow> pol_name p = n \<and> policy_ok p))"

definition catalog_ok :: "rls_catalog \<Rightarrow> bool" where
  "catalog_ok cat = (bt_wf (tables cat) \<and> (\<forall>t m. bt_get (tables cat) t = Some m \<longrightarrow> table_ok m))"

definition empty_catalog :: rls_catalog where
  "empty_catalog = \<lparr>tables = []\<rparr>"

lemma default_policies_ok [simp]: "table_ok default_policies"
  by (simp add: default_policies_def table_ok_def)

lemma empty_catalog_ok [simp]: "catalog_ok empty_catalog"
  by (simp add: empty_catalog_def catalog_ok_def)

lemma table_ok_insert:
  "table_ok m \<Longrightarrow> policy_ok p \<Longrightarrow> table_ok (m\<lparr>policies := bt_insert (pol_name p) p (policies m)\<rparr>)"
  by (simp add: table_ok_def bt_get_insert bt_wf_insert)

lemma table_ok_remove: "table_ok m \<Longrightarrow> table_ok (m\<lparr>policies := bt_remove n (policies m)\<rparr>)"
  by (simp add: table_ok_def bt_get_remove bt_wf_remove)

lemma table_okD: "table_ok m \<Longrightarrow> bt_get (policies m) n = Some p \<Longrightarrow> pol_name p = n \<and> policy_ok p"
  by (simp add: table_ok_def)

lemma opt_all_or_else: "opt_all P a \<Longrightarrow> opt_all P b \<Longrightarrow> opt_all P (or_else a b)"
  by (cases a) (simp_all add: or_else_def)

lemma or_else_None: "or_else a b = None \<longleftrightarrow> a = None \<and> b = None"
  by (simp add: or_else_def split: option.splits)

lemma altered_policy_ok:
  assumes "policy_ok p" and "alter_policy_ok st"
    and "\<not> (ap_using st \<noteq> None \<and> pol_command p = Cmd_Insert)"
    and "\<not> (ap_with_check st \<noteq> None \<and> pol_command p \<in> {Cmd_Select, Cmd_Delete})"
  shows "policy_ok (altered_policy st p)"
proof -
  have "roles_ok (case ap_roles st of Some r \<Rightarrow> r | None \<Rightarrow> pol_roles p)"
    using assms(1,2) by (cases "ap_roles st") (simp_all add: policy_ok_def alter_policy_ok_def)
  moreover have "clauses_ok (pol_command p) (or_else (ap_using st) (pol_using p))
      (or_else (ap_with_check st) (pol_with_check p))"
    using assms by (auto simp: policy_ok_def alter_policy_ok_def clauses_ok_def opt_all_or_else or_else_None)
  ultimately show ?thesis
    by (simp add: policy_ok_def altered_policy_def)
qed

lemma create_policy_in_ok:
  assumes "create_policy_ok st" and "table_ok m"
  shows "table_ok (snd (create_policy_in st m))"
proof -
  have "policy_ok (policy_of st)" "pol_name (policy_of st) = cp_name st"
    using assms(1) by (simp_all add: policy_ok_def policy_of_def create_policy_ok_def)
  then show ?thesis
    using assms(2) table_ok_insert [of m "policy_of st"]
    by (simp add: create_policy_in_def split: option.splits)
qed

lemma alter_policy_in_ok:
  assumes "alter_policy_ok st" and "table_ok m"
  shows "table_ok (snd (alter_policy_in st m))"
proof (cases "bt_get (policies m) (ap_name st)")
  case None
  then show ?thesis using assms by (simp add: alter_policy_in_def)
next
  case (Some p)
  have ok: "policy_ok p" using table_okD [OF assms(2) Some] by simp
  let ?m = "m\<lparr>policies := bt_remove (ap_name st) (policies m)\<rparr>"
  have removed: "table_ok ?m" using assms(2) by (rule table_ok_remove)
  show ?thesis
  proof (cases "ap_using st \<noteq> None \<and> pol_command p = Cmd_Insert
      \<or> ap_with_check st \<noteq> None \<and> pol_command p \<in> {Cmd_Select, Cmd_Delete}")
    case True
    then show ?thesis using Some removed by (auto simp: alter_policy_in_def)
  next
    case False
    then have "policy_ok (altered_policy st p)"
      using altered_policy_ok [OF ok assms(1)] by blast
    from table_ok_insert [OF removed this] show ?thesis
      using Some False removed by (simp add: alter_policy_in_def Let_def split: option.splits)
  qed
qed

lemma apply_in_ok:
  assumes "rls_statement_ok st" and "table_ok m"
  shows "table_ok (snd (apply_in st m))"
proof (cases st)
  case (AlterTable t a)
  then show ?thesis
    using assms(2) by (cases a) (simp_all add: set_table_rls_def table_ok_def)
next
  case (DropPolicy p)
  then show ?thesis
    using assms(2) table_ok_remove by (simp add: drop_policy_in_def Let_def)
qed (use assms create_policy_in_ok alter_policy_in_ok in simp_all)

lemma entry_or_default_ok: "catalog_ok cat \<Longrightarrow> table_ok (entry_or_default cat t)"
  by (simp add: entry_or_default_def catalog_ok_def split: option.splits)

lemma entry_put_table [simp]: "entry_or_default (put_table t m cat) t = m"
  by (simp add: entry_or_default_def put_table_def bt_get_insert)

lemma put_table_ok: "catalog_ok cat \<Longrightarrow> table_ok m \<Longrightarrow> catalog_ok (put_table t m cat)"
  by (simp add: catalog_ok_def put_table_def bt_get_insert bt_wf_insert)

lemma catalog_apply_ok:
  assumes "rls_statement_ok st" and "catalog_ok cat"
  shows "catalog_ok (snd (catalog_apply schema st cat))"
  using assms put_table_ok [OF assms(2) apply_in_ok [OF assms(1) entry_or_default_ok [OF assms(2)]]]
  by (auto simp: catalog_apply_def Let_def split: sum.splits prod.splits) (metis snd_conv)

inductive catalog_step :: "rls_catalog \<Rightarrow> rls_catalog \<Rightarrow> bool" where
  apply_statement: "parse_rls_statement s = Ok st \<Longrightarrow> catalog_step cat (snd (catalog_apply schema st cat))"

inductive_cases catalog_stepE: "catalog_step cat cat'"

interpretation catalog: transition_system "\<lambda>cat. cat = empty_catalog" catalog_step catalog_ok
  by unfold_locales (auto elim!: catalog_stepE intro: catalog_apply_ok parse_rls_statement_ok)

section \<open>Generated names\<close>

lemma hex_digit: "n < 16 \<Longrightarrow> 48 \<le> code (digit_char n) \<and> code (digit_char n) < 127"
  by (simp add: digit_char_def code_def)

definition printable :: "string \<Rightarrow> bool" where
  "printable s = list_all (\<lambda>c. 32 \<le> code c \<and> code c < 127) s"

lemma printable_append [simp]: "printable (a @ b) \<longleftrightarrow> printable a \<and> printable b"
  by (simp add: printable_def)

lemma any_control_printable: "printable s \<Longrightarrow> \<not> any_control s"
  by (induction s) (auto simp: printable_def split: list.splits)

lemma code_bound: "code c < 256"
  unfolding code_def by (rule nat_of_char_less_256)

lemma printable_hex: "printable (concat (map hex_byte s))"
proof (induction s)
  case (Cons c s)
  have "code c div 16 < 16" "code c mod 16 < 16"
    using code_bound [of c] by auto
  then have "printable (hex_byte c)"
    using hex_digit [of "code c div 16"] hex_digit [of "code c mod 16"]
    by (simp add: printable_def hex_byte_def)
  with Cons show ?case by simp
qed (simp add: printable_def)

lemma length_hex: "length (concat (map hex_byte s)) = 2 * length s"
  by (induction s) (simp_all add: hex_byte_def)

lemma char_count_le: "char_count s \<le> length s"
  by (simp add: char_count_def)

definition generated_name :: "(string \<Rightarrow> string) \<Rightarrow> string \<Rightarrow> sql_identifier \<Rightarrow> sql_identifier" where
  "generated_name sha256 object_kind table =
     Identifier (''__ffdb_'' @ object_kind @ ''_'' @ concat (map hex_byte (sha256 (as_str table))))"

lemma generated_identifier_Ok:
  assumes "length (sha256 (as_str table)) = 32" and "printable k" and "length k \<le> 50"
  shows "generated_identifier sha256 k table = Ok (generated_name sha256 k table)"
proof -
  let ?n = "''__ffdb_'' @ k @ ''_'' @ concat (map hex_byte (sha256 (as_str table)))"
  have "char_count ?n \<le> 128"
    using char_count_le [of ?n] assms(1,3) length_hex [of "sha256 (as_str table)"] by simp
  moreover have "\<not> any_control ?n"
    using assms(2) printable_hex by (intro any_control_printable) (simp add: printable_def code_def)
  ultimately show ?thesis
    by (simp add: generated_identifier_def identifier_new_def generated_name_def Let_def)
qed

lemma generated_name_internal: "is_internal (generated_name sha256 k table)"
  by (simp add: generated_name_def is_internal_def to_ascii_lowercase_def to_ascii_lower_def
      is_ascii_uppercase_def code_def)

lemma generated_kinds:
  "printable ''data''" "printable ''insert''" "printable ''update''" "printable ''delete''"
  by (simp_all add: printable_def code_def)

definition sources_of :: "(string \<Rightarrow> string) \<Rightarrow> sql_identifier \<Rightarrow> sql_identifier list" where
  "sources_of sha256 t =
     [t, generated_name sha256 ''insert'' t, generated_name sha256 ''update'' t, generated_name sha256 ''delete'' t]"

lemma compile_table_Ok:
  assumes "length (sha256 (as_str (ts_name table))) = 32"
    and "list_ex (\<lambda>c. primary_key_ordinal c \<noteq> None) (columns table)"
  obtains plan where "compile_table sha256 table cat = Ok plan"
    "backing_table plan = generated_name sha256 ''data'' (ts_name table)"
    "generated_sources plan = sources_of sha256 (ts_name table)"
    "create_generated_sql plan ! 0 = ''CREATE VIEW '' @ quoted (ts_name table) @ '' AS SELECT ''
       @ comma_list (quoted \<circ> col_name) (columns table) @ '' FROM '' @ quoted (backing_table plan)
       @ '' AS '' @ quoted (ts_name table)
       @ '' WHERE ('' @ unwrap_or_zero (comb_using (combined_predicates_of cat (ts_name table) Op_Select)) @ '')''"
proof -
  have "columns table \<noteq> []" "filter (\<lambda>c. primary_key_ordinal c \<noteq> None) (columns table) \<noteq> []"
    using assms(2) by (auto simp: list_ex_iff filter_empty_conv)
  then show thesis
    using that generated_identifier_Ok [of sha256 "ts_name table"] assms(1) generated_kinds
    by (simp add: compile_table_def backing_table_name_def generated_source_names_def sources_of_def Let_def)
qed

section \<open>Properties\<close>

text \<open>
  C9. The SQL text of the combined predicates means what the RLS documentation says. For a table with
  RLS enabled, the \<open>USING\<close> text of an operation on existing rows and the \<open>WITH CHECK\<close> text of an
  operation that writes rows are renderings of unambiguously parenthesized conditions, which are true
  in SQL's three-valued logic exactly when some applicable permissive policy admits the row and every
  applicable restrictive policy for the caller's role does, or RLS is not forced and the caller is
  a developer.
\<close>

theorem combined_predicates_follow_the_rule:
  assumes "m = table_metadata cat table" and "enabled m"
  shows "(operation_uses_existing op \<longrightarrow> (\<exists>c. comb_using (combined_predicates_of cat table op) = Some (render c)
        \<and> unambiguous c \<and> (\<forall>ctx. holds ctx c = Some True \<longleftrightarrow>
            \<not> forced m \<and> ctx_developer ctx \<or> policies_admit ctx Purpose_Using (applicable m op))))
    \<and> (operation_checks_new op \<longrightarrow> (\<exists>c. comb_check (combined_predicates_of cat table op) = Some (render c)
        \<and> unambiguous c \<and> (\<forall>ctx. holds ctx c = Some True \<longleftrightarrow>
            \<not> forced m \<and> ctx_developer ctx \<or> policies_admit ctx Purpose_Check (applicable m op))))"
proof -
  have "\<exists>c. combine (applicable m op) purpose (forced m) = render c \<and> unambiguous c
      \<and> (\<forall>ctx. holds ctx c = Some True \<longleftrightarrow>
            \<not> forced m \<and> ctx_developer ctx \<or> policies_admit ctx purpose (applicable m op))" for purpose
    using combine_render combined_condition_unambiguous holds_combined_condition by blast
  then show ?thesis
    using assms by (simp add: combined_predicates_of_def Let_def)
qed

definition demo_rls_schema :: schema_snapshot where
  "demo_rls_schema = \<lparr>schema_tables = [\<lparr>ts_name = Identifier ''docs'',
     columns = [\<lparr>col_name = Identifier ''id'', primary_key_ordinal = Some 1, generated = False\<rparr>,
       \<lparr>col_name = Identifier ''owner'', primary_key_ordinal = None, generated = False\<rparr>],
     protected = False\<rparr>]\<rparr>"

definition demo_catalog :: rls_catalog where
  "demo_catalog = fold (\<lambda>st cat. snd (catalog_apply demo_rls_schema st cat)) demo_statements empty_catalog"

theorem combined_predicates_follow_the_rule_witness:
  "\<exists>c. comb_using (combined_predicates_of demo_catalog (Identifier ''docs'') Op_Select) = Some (render c)
     \<and> unambiguous c \<and> (\<forall>ctx. holds ctx c = Some True \<longleftrightarrow>
         \<not> forced (table_metadata demo_catalog (Identifier ''docs'')) \<and> ctx_developer ctx
         \<or> policies_admit ctx Purpose_Using
             (applicable (table_metadata demo_catalog (Identifier ''docs'')) Op_Select))"
proof -
  have "enabled (table_metadata demo_catalog (Identifier ''docs''))"
    by code_simp
  moreover have "operation_uses_existing Op_Select"
    by (simp add: operation_uses_existing_def)
  ultimately show ?thesis
    using combined_predicates_follow_the_rule
      [OF refl, where cat = demo_catalog and table = "Identifier ''docs''" and op = Op_Select]
    by blast
qed

text \<open>
  C10. Whatever sequence of parsed RLS statements is applied to an empty catalog, and also when some
  of them fail, the maps stay ordered, every policy is stored under its own name, has at least one
  valid role, predicates the parser accepts, and only the clauses its command permits.
\<close>

theorem reachable_catalog_is_well_formed:
  assumes "catalog_step\<^sup>*\<^sup>* empty_catalog cat"
  shows "catalog_ok cat"
  using catalog.reachable_inv [OF refl assms] .

definition demo_drop :: string where
  "demo_drop = ''DROP POLICY IF EXISTS x ON docs''"

theorem reachable_catalog_is_well_formed_witness:
  "catalog_ok (snd (catalog_apply demo_rls_schema
     (DropPolicy \<lparr>dp_name = Identifier ''x'', dp_table = Identifier ''docs'', dp_if_exists = True\<rparr>) empty_catalog))"
proof (rule reachable_catalog_is_well_formed, rule r_into_rtranclp, rule apply_statement)
  show "parse_rls_statement demo_drop =
      Ok (DropPolicy \<lparr>dp_name = Identifier ''x'', dp_table = Identifier ''docs'', dp_if_exists = True\<rparr>)"
    by code_simp
qed

text \<open>
  An \<open>ALTER POLICY\<close> that is refused because its clause does not fit the policy's command has
  already removed the policy: the error leaves a catalog in which the policy, restrictive or not, no
  longer exists.
\<close>

theorem refused_alter_policy_drops_the_policy:
  assumes "ensure_table schema (ap_table st) = Ok ()"
    and "bt_get (policies (entry_or_default cat (ap_table st))) (ap_name st) = Some p"
    and "ap_using st \<noteq> None" and "pol_command p = Cmd_Insert"
  shows "\<exists>cat'. catalog_apply schema (AlterPolicy st) cat = (Err (IncompatibleAlter ''USING''), cat')
    \<and> bt_get (policies (entry_or_default cat' (ap_table st))) (ap_name st) = None"
  using assms
  by (simp add: catalog_apply_def alter_policy_in_def bt_get_remove Let_def)

definition demo_insert_policy :: rls_statement where
  "demo_insert_policy = CreatePolicy \<lparr>cp_name = Identifier ''own'', cp_table = Identifier ''docs'',
     cp_mode = Restrictive, cp_command = Cmd_Insert, cp_roles = [RoleName (Identifier ''a'')],
     cp_using = None, cp_with_check = Some \<lparr>sql = ''owner = auth.uid()''\<rparr>\<rparr>"

definition demo_alter :: alter_policy where
  "demo_alter = \<lparr>ap_name = Identifier ''own'', ap_table = Identifier ''docs'', ap_rename_to = None,
     ap_roles = None, ap_using = Some \<lparr>sql = ''1''\<rparr>, ap_with_check = None\<rparr>"

definition demo_insert_catalog :: rls_catalog where
  "demo_insert_catalog = snd (catalog_apply demo_rls_schema demo_insert_policy empty_catalog)"

theorem refused_alter_policy_drops_the_policy_witness:
  "\<exists>cat'. catalog_apply demo_rls_schema (AlterPolicy demo_alter) demo_insert_catalog
       = (Err (IncompatibleAlter ''USING''), cat')
    \<and> bt_get (policies (entry_or_default cat' (ap_table demo_alter))) (ap_name demo_alter) = None"
proof (rule refused_alter_policy_drops_the_policy)
  show "ensure_table demo_rls_schema (ap_table demo_alter) = Ok ()" by code_simp
  show "bt_get (policies (entry_or_default demo_insert_catalog (ap_table demo_alter))) (ap_name demo_alter)
      = Some \<lparr>pol_name = Identifier ''own'', pol_mode = Restrictive, pol_command = Cmd_Insert,
          pol_roles = [RoleName (Identifier ''a'')], pol_using = None,
          pol_with_check = Some \<lparr>sql = ''owner = auth.uid()''\<rparr>\<rparr>"
    by code_simp
  show "ap_using demo_alter \<noteq> None" by (simp add: demo_alter_def)
qed simp

text \<open>
  Compiling a table with a primary key always succeeds when the digest has 32 bytes. The backing
  table and the triggers get distinct names with the reserved prefix, so no name the parser accepts
  from a user can denote them, and the public view selects from the backing table under the condition
  of C20 for \<open>SELECT\<close>.
\<close>

theorem compiled_table_uses_reserved_names:
  assumes "length (sha256 (as_str (ts_name table))) = 32"
    and "list_ex (\<lambda>c. primary_key_ordinal c \<noteq> None) (columns table)"
    and "enabled (table_metadata cat (ts_name table))"
  shows "\<exists>plan pre c. compile_table sha256 table cat = Ok plan
    \<and> distinct (backing_table plan # tl (generated_sources plan))
    \<and> list_all (\<lambda>i. is_internal i \<and> \<not> identifier_ok i) (backing_table plan # tl (generated_sources plan))
    \<and> create_generated_sql plan ! 0 = pre @ quoted (backing_table plan) @ '' AS '' @ quoted (ts_name table)
        @ '' WHERE ('' @ render c @ '')''
    \<and> (\<forall>ctx. holds ctx c = Some True \<longleftrightarrow>
          \<not> forced (table_metadata cat (ts_name table)) \<and> ctx_developer ctx
          \<or> policies_admit ctx Purpose_Using (applicable (table_metadata cat (ts_name table)) Op_Select))"
proof -
  let ?m = "table_metadata cat (ts_name table)"
  obtain plan where plan: "compile_table sha256 table cat = Ok plan"
      "backing_table plan = generated_name sha256 ''data'' (ts_name table)"
      "generated_sources plan = sources_of sha256 (ts_name table)"
      "create_generated_sql plan ! 0 = ''CREATE VIEW '' @ quoted (ts_name table) @ '' AS SELECT ''
       @ comma_list (quoted \<circ> col_name) (columns table) @ '' FROM '' @ quoted (backing_table plan)
       @ '' AS '' @ quoted (ts_name table)
       @ '' WHERE ('' @ unwrap_or_zero (comb_using (combined_predicates_of cat (ts_name table) Op_Select)) @ '')''"
    using compile_table_Ok [of sha256 table cat] assms(1,2) by blast
  let ?c = "combined_condition (applicable ?m Op_Select) Purpose_Using (forced ?m)"
  have cond: "unwrap_or_zero (comb_using (combined_predicates_of cat (ts_name table) Op_Select)) = render ?c"
    using assms(3)
    by (simp add: combined_predicates_of_def Let_def operation_uses_existing_def unwrap_or_zero_def combine_render)
  have names: "distinct (backing_table plan # tl (generated_sources plan))"
      "list_all (\<lambda>i. is_internal i \<and> \<not> identifier_ok i) (backing_table plan # tl (generated_sources plan))"
    unfolding plan(2,3) sources_of_def
    by (simp add: generated_name_def) (simp add: generated_name_internal identifier_ok_def)
  show ?thesis
    using plan(1) names holds_combined_condition plan(4) [unfolded cond]
    by (intro exI [of _ plan] exI [of _ "''CREATE VIEW '' @ quoted (ts_name table) @ '' AS SELECT ''
       @ comma_list (quoted \<circ> col_name) (columns table) @ '' FROM ''"] exI [of _ ?c]) simp
qed

definition demo_sha256 :: "string \<Rightarrow> string" where
  "demo_sha256 s = take 32 (s @ replicate 32 CHR 0x00)"

definition demo_table :: table_schema where
  "demo_table = hd (schema_tables demo_rls_schema)"

theorem compiled_table_uses_reserved_names_witness:
  "\<exists>plan pre c. compile_table demo_sha256 demo_table demo_catalog = Ok plan
    \<and> distinct (backing_table plan # tl (generated_sources plan))
    \<and> list_all (\<lambda>i. is_internal i \<and> \<not> identifier_ok i) (backing_table plan # tl (generated_sources plan))
    \<and> create_generated_sql plan ! 0 = pre @ quoted (backing_table plan) @ '' AS '' @ quoted (ts_name demo_table)
        @ '' WHERE ('' @ render c @ '')''
    \<and> (\<forall>ctx. holds ctx c = Some True \<longleftrightarrow>
          \<not> forced (table_metadata demo_catalog (ts_name demo_table)) \<and> ctx_developer ctx
          \<or> policies_admit ctx Purpose_Using
              (applicable (table_metadata demo_catalog (ts_name demo_table)) Op_Select))"
proof (rule compiled_table_uses_reserved_names)
  show "length (demo_sha256 (as_str (ts_name demo_table))) = 32" by code_simp
  show "list_ex (\<lambda>c. primary_key_ordinal c \<noteq> None) (columns demo_table)" by code_simp
  show "enabled (table_metadata demo_catalog (ts_name demo_table))" by code_simp
qed

end
