(* ===== verification/Commerce_Catalog.thy ===== *)
theory Commerce_Catalog
  imports Transition_System Collections
begin

text \<open>
  \<open>crates/commerce/src/lib.rs\<close>, first part: validation, money, references, merchant accounts,
  products, prices and order lines.

  Identifiers are UUIDs compared only for equality; they are natural numbers. A method that changes
  \<open>self\<close> returns the changed object; an \<open>Err\<close> leaves the object as it was, because every error is
  returned before the first assignment (\<open>settle_refund\<close>, where this is not evident, returns the
  object on both paths). The generated \<open>new()\<close> of the identifier types and the accessors are not
  separate definitions: identifiers are arguments, accessors are record fields.
\<close>

type_synonym uuid = nat

definition MAX_MINOR_AMOUNT :: nat where "MAX_MINOR_AMOUNT = 9007199254740991"
definition MAX_QUANTITY :: nat where "MAX_QUANTITY = 1000000"

datatype merchant_capability = OneTimePayments | RecurringPayments | Refunds

datatype commerce_error =
    InvalidText string nat
  | InvalidCurrency
  | InvalidSecretReference
  | AmountOutOfRange
  | NonPositiveAmount
  | CurrencyMismatch
  | ArithmeticOverflow
  | AmountUnderflow
  | MerchantUnavailable
  | MissingCapability merchant_capability
  | ProductNotActive
  | PriceInactive
  | ProductPriceMismatch
  | PriceKindMismatch
  | InvalidQuantity
  | InvalidBillingInterval
  | InvalidBillingPeriod
  | OverlappingBillingPeriod
  | InvalidEntitlementKey
  | EmptyOrder
  | ProjectMismatch
  | InvalidStateTransition
  | PaymentExceedsOrderTotal
  | CaptureExceedsAuthorized
  | PaymentNotCaptured
  | PaymentNotVerified
  | InsufficientVerifiedPayment
  | RefundExceedsAvailable
  | RefundNotFound
  | RefundAlreadySettled
  | DuplicateIdentifier
  | OrderNotPaid
  | CheckoutKindMismatch
  | CheckoutExpired
  | InvalidCheckoutExpiration
  | SubscriptionNotEntitled
  | InvalidEventSequence
  | EventHashConflict
  | EventMetadataConflict
  | EventOutOfOrder nat nat
  | DuplicateEvent

section \<open>Validation\<close>

definition validate_quantity :: "nat \<Rightarrow> commerce_error + unit" where
  "validate_quantity quantity =
     (if quantity = 0 \<or> quantity > MAX_QUANTITY then Err InvalidQuantity else Ok ())"

definition validate_expiration :: "int \<Rightarrow> int \<Rightarrow> commerce_error + unit" where
  "validate_expiration created_at_ms expires_at_ms =
     (if expires_at_ms \<le> created_at_ms then Err InvalidCheckoutExpiration else Ok ())"

definition validate_bounded :: "string \<Rightarrow> string \<Rightarrow> nat \<Rightarrow> commerce_error + unit" where
  "validate_bounded field v max_len = (if length v > max_len then Err (InvalidText field max_len) else Ok ())"

definition validate_nonempty_bounded :: "string \<Rightarrow> string \<Rightarrow> nat \<Rightarrow> commerce_error + unit" where
  "validate_nonempty_bounded field v max_len =
     (if trim v = [] \<or> length v > max_len then Err (InvalidText field max_len) else Ok ())"

section \<open>Money\<close>

datatype currency = Currency (currency_code: string)

definition currency_new :: "string \<Rightarrow> commerce_error + currency" where
  "currency_new v =
     (if length v \<noteq> 3 \<or> \<not> list_all is_ascii_uppercase v then Err InvalidCurrency else Ok (Currency v))"

record money =
  money_currency :: currency
  minor :: nat

definition money_new :: "currency \<Rightarrow> nat \<Rightarrow> commerce_error + money" where
  "money_new c n =
     (if n > MAX_MINOR_AMOUNT then Err AmountOutOfRange else Ok \<lparr>money_currency = c, minor = n\<rparr>)"

definition money_positive :: "currency \<Rightarrow> nat \<Rightarrow> commerce_error + money" where
  "money_positive c n = (if n = 0 then Err NonPositiveAmount else money_new c n)"

definition ensure_same_currency :: "money \<Rightarrow> money \<Rightarrow> commerce_error + unit" where
  "ensure_same_currency a b =
     (if money_currency a \<noteq> money_currency b then Err CurrencyMismatch else Ok ())"

definition money_add :: "money \<Rightarrow> money \<Rightarrow> commerce_error + money" where
  "money_add a b =
     bindr (ensure_same_currency a b) (\<lambda>_.
     bindr (ok_or (checked_add_u64 (minor a) (minor b)) ArithmeticOverflow) (\<lambda>n.
     money_new (money_currency a) n))"

definition money_sub :: "money \<Rightarrow> money \<Rightarrow> commerce_error + money" where
  "money_sub a b =
     bindr (ensure_same_currency a b) (\<lambda>_.
     bindr (ok_or (checked_sub_u64 (minor a) (minor b)) AmountUnderflow) (\<lambda>n.
     money_new (money_currency a) n))"

definition money_mul :: "money \<Rightarrow> nat \<Rightarrow> commerce_error + money" where
  "money_mul a quantity =
     bindr (validate_quantity quantity) (\<lambda>_.
     bindr (ok_or (checked_mul_u64 (minor a) quantity) ArithmeticOverflow) (\<lambda>n.
     money_new (money_currency a) n))"

definition require_positive_money :: "money \<Rightarrow> commerce_error + unit" where
  "require_positive_money a = (if minor a = 0 then Err NonPositiveAmount else Ok ())"

section \<open>References\<close>

datatype provider_reference = ProviderReference string

datatype secret_reference = SecretReference string

definition provider_reference_new :: "string \<Rightarrow> commerce_error + provider_reference" where
  "provider_reference_new v =
     bindr (validate_nonempty_bounded ''provider_reference'' v 255) (\<lambda>_. Ok (ProviderReference v))"

definition secret_reference_new :: "string \<Rightarrow> commerce_error + secret_reference" where
  "secret_reference_new v =
     bindr (validate_nonempty_bounded ''secret_reference'' v 255) (\<lambda>_.
     if \<not> starts_with v ''secret://'' \<or> any_whitespace v then Err InvalidSecretReference
     else Ok (SecretReference v))"

section \<open>Merchant accounts\<close>

datatype connected_charge_model = Direct

datatype merchant_provider_mode =
    BringYourOwnCredentials secret_reference
  | ConnectedAccount provider_reference connected_charge_model

datatype merchant_of_record = ProjectOwner

datatype merchant_account_status = Merchant_Pending | Merchant_Restricted | Merchant_Active | Merchant_Disabled

record merchant_account =
  ma_id :: uuid
  ma_project_id :: uuid
  ma_provider_mode :: merchant_provider_mode
  ma_merchant_of_record :: merchant_of_record
  ma_status :: merchant_account_status
  ma_capabilities :: "merchant_capability list"

definition merchant_new :: "uuid \<Rightarrow> uuid \<Rightarrow> merchant_provider_mode \<Rightarrow> merchant_account" where
  "merchant_new i project mode =
     \<lparr>ma_id = i, ma_project_id = project, ma_provider_mode = mode, ma_merchant_of_record = ProjectOwner,
      ma_status = Merchant_Pending, ma_capabilities = []\<rparr>"

definition set_provider_state ::
    "merchant_account_status \<Rightarrow> merchant_capability list \<Rightarrow> merchant_account \<Rightarrow> merchant_account" where
  "set_provider_state status caps m = m\<lparr>ma_status := status, ma_capabilities := remdups caps\<rparr>"

definition require_capability :: "merchant_account \<Rightarrow> merchant_capability \<Rightarrow> commerce_error + unit" where
  "require_capability m c =
     (if ma_status m \<noteq> Merchant_Active then Err MerchantUnavailable
      else if c \<notin> set (ma_capabilities m) then Err (MissingCapability c)
      else Ok ())"

section \<open>Products and prices\<close>

datatype product_status = Product_Draft | Product_Active | Product_Archived

record product =
  pr_id :: uuid
  pr_project_id :: uuid
  pr_name :: string
  pr_description :: "string option"
  pr_status :: product_status

definition product_new ::
    "uuid \<Rightarrow> uuid \<Rightarrow> string \<Rightarrow> string option \<Rightarrow> commerce_error + product" where
  "product_new i project name description =
     bindr (validate_nonempty_bounded ''product_name'' name 200) (\<lambda>_.
     bindr (case description of
              Some v \<Rightarrow> validate_bounded ''product_description'' v 10000
            | None \<Rightarrow> Ok ()) (\<lambda>_.
     Ok \<lparr>pr_id = i, pr_project_id = project, pr_name = name, pr_description = description,
         pr_status = Product_Draft\<rparr>))"

definition product_activate :: "product \<Rightarrow> commerce_error + product" where
  "product_activate p =
     (case pr_status p of
        Product_Draft \<Rightarrow> Ok (p\<lparr>pr_status := Product_Active\<rparr>)
      | _ \<Rightarrow> Err InvalidStateTransition)"

definition product_archive :: "product \<Rightarrow> commerce_error + product" where
  "product_archive p =
     (case pr_status p of
        Product_Archived \<Rightarrow> Err InvalidStateTransition
      | _ \<Rightarrow> Ok (p\<lparr>pr_status := Product_Archived\<rparr>))"

datatype billing_interval_unit = Unit_Day | Unit_Week | Unit_Month | Unit_Year

record billing_interval =
  interval_unit :: billing_interval_unit
  interval_count :: nat

definition billing_interval_new :: "billing_interval_unit \<Rightarrow> nat \<Rightarrow> commerce_error + billing_interval" where
  "billing_interval_new u n =
     (if n = 0 \<or> n > 365 then Err InvalidBillingInterval
      else Ok \<lparr>interval_unit = u, interval_count = n\<rparr>)"

datatype entitlement_key = EntitlementKey string

definition entitlement_byte :: "nat \<Rightarrow> char \<Rightarrow> bool" where
  "entitlement_byte index b =
     (is_ascii_lowercase b
      \<or> (index > 0 \<and> (is_ascii_digit b \<or> b \<in> {CHR ''_'', CHR ''-'', CHR ''.'', CHR '':''})))"

definition entitlement_key_new :: "string \<Rightarrow> commerce_error + entitlement_key" where
  "entitlement_key_new v =
     (let valid = v \<noteq> [] \<and> length v \<le> 128
            \<and> list_all (\<lambda>(i, b). entitlement_byte i b) (zip [0..<length v] v)
      in if \<not> valid then Err InvalidEntitlementKey else Ok (EntitlementKey v))"

datatype entitlement_value = Enabled bool | Quantity nat | Text string

datatype price_kind = OneTime | Recurring billing_interval

type_synonym entitlements = "(entitlement_key, entitlement_value) btree_map"

record price_terms =
  pt_amount :: money
  pt_kind :: price_kind
  pt_entitlements :: entitlements

definition terms_one_time :: "money \<Rightarrow> commerce_error + price_terms" where
  "terms_one_time amount =
     bindr (require_positive_money amount) (\<lambda>_.
     Ok \<lparr>pt_amount = amount, pt_kind = OneTime, pt_entitlements = []\<rparr>)"

definition terms_recurring :: "money \<Rightarrow> billing_interval \<Rightarrow> entitlements \<Rightarrow> commerce_error + price_terms" where
  "terms_recurring amount interval ents =
     bindr (require_positive_money amount) (\<lambda>_.
     Ok \<lparr>pt_amount = amount, pt_kind = Recurring interval, pt_entitlements = ents\<rparr>)"

record price =
  price_id :: uuid
  price_project_id :: uuid
  price_product_id :: uuid
  price_terms_of :: price_terms
  price_active :: bool

definition price_new :: "uuid \<Rightarrow> product \<Rightarrow> price_terms \<Rightarrow> commerce_error + price" where
  "price_new i product terms =
     (if pr_status product \<noteq> Product_Active then Err ProductNotActive
      else Ok \<lparr>price_id = i, price_project_id = pr_project_id product, price_product_id = pr_id product,
               price_terms_of = terms, price_active = True\<rparr>)"

definition price_retire :: "price \<Rightarrow> commerce_error + price" where
  "price_retire p =
     (if \<not> price_active p then Err InvalidStateTransition else Ok (p\<lparr>price_active := False\<rparr>))"

section \<open>Order lines\<close>

record order_line =
  ol_project_id :: uuid
  ol_product_id :: uuid
  ol_price_id :: uuid
  ol_product_name :: string
  ol_unit_amount :: money
  ol_quantity :: nat
  ol_total :: money

definition line_from_price :: "product \<Rightarrow> price \<Rightarrow> nat \<Rightarrow> commerce_error + order_line" where
  "line_from_price product price quantity =
     bindr (validate_quantity quantity) (\<lambda>_.
     if \<not> price_active price then Err PriceInactive
     else if pr_project_id product \<noteq> price_project_id price \<or> pr_id product \<noteq> price_product_id price
     then Err ProductPriceMismatch
     else if pr_status product \<noteq> Product_Active then Err ProductNotActive
     else if pt_kind (price_terms_of price) \<noteq> OneTime then Err PriceKindMismatch
     else
       bindr (money_mul (pt_amount (price_terms_of price)) quantity) (\<lambda>total.
       Ok \<lparr>ol_project_id = pr_project_id product, ol_product_id = pr_id product,
           ol_price_id = price_id price, ol_product_name = pr_name product,
           ol_unit_amount = pt_amount (price_terms_of price), ol_quantity = quantity,
           ol_total = total\<rparr>))"

section \<open>Money stays in range\<close>

definition money_ok :: "money \<Rightarrow> bool" where
  "money_ok a = (minor a \<le> MAX_MINOR_AMOUNT)"

lemma max_minor_u64: "2 * MAX_MINOR_AMOUNT \<le> u64_max"
  by (simp add: MAX_MINOR_AMOUNT_def u64_max_def)

lemma money_new_Ok [ffdb_result]:
  "money_new c n = Ok a \<longleftrightarrow> a = \<lparr>money_currency = c, minor = n\<rparr> \<and> n \<le> MAX_MINOR_AMOUNT"
  by (auto simp: money_new_def)

lemma ensure_same_currency_Ok [ffdb_result]:
  "ensure_same_currency a b = Ok u \<longleftrightarrow> money_currency a = money_currency b"
  by (auto simp: ensure_same_currency_def)

lemma require_positive_money_Ok [ffdb_result]: "require_positive_money a = Ok u \<longleftrightarrow> 0 < minor a"
  by (auto simp: require_positive_money_def)

lemma validate_quantity_Ok [ffdb_result]:
  "validate_quantity q = Ok u \<longleftrightarrow> 0 < q \<and> q \<le> MAX_QUANTITY"
  by (auto simp: validate_quantity_def)

lemma money_add_Ok:
  "money_add a b = Ok c \<longleftrightarrow>
     money_currency a = money_currency b \<and> minor a + minor b \<le> MAX_MINOR_AMOUNT
     \<and> c = \<lparr>money_currency = money_currency a, minor = minor a + minor b\<rparr>"
  using max_minor_u64 by (auto simp: money_add_def ffdb_result ffdb_int)

lemma money_sub_Ok:
  "money_ok a \<Longrightarrow> money_sub a b = Ok c \<longleftrightarrow>
     money_currency a = money_currency b \<and> minor b \<le> minor a
     \<and> c = \<lparr>money_currency = money_currency a, minor = minor a - minor b\<rparr>"
  by (auto simp: money_sub_def ffdb_result ffdb_int money_ok_def)

lemma money_mul_Ok:
  "money_mul a q = Ok c \<longleftrightarrow>
     0 < q \<and> q \<le> MAX_QUANTITY \<and> minor a * q \<le> MAX_MINOR_AMOUNT
     \<and> c = \<lparr>money_currency = money_currency a, minor = minor a * q\<rparr>"
  using max_minor_u64 by (auto simp: money_mul_def ffdb_result ffdb_int)

lemma require_capability_Ok [ffdb_result]:
  "require_capability m c = Ok u \<longleftrightarrow> ma_status m = Merchant_Active \<and> c \<in> set (ma_capabilities m)"
  by (auto simp: require_capability_def)

end
