(* ===== verification/Commerce_Ledger.thy ===== *)
theory Commerce_Ledger
  imports Commerce_Catalog
begin

text \<open>
  The event ledger of \<open>crates/commerce/src/lib.rs\<close>: provider events with an idempotency key, a
  stream and a sequence number, accepted at most once and in stream order. SHA-256 is the argument
  \<open>sha256\<close>.
\<close>

section \<open>Events\<close>

datatype event_key = EventKey (ek_source: string) (ek_idempotency_key: string)

text \<open>The derived order of the key: its fields in order.\<close>

instantiation event_key :: linorder
begin

definition less_eq_event_key :: "event_key \<Rightarrow> event_key \<Rightarrow> bool" where
  "less_eq_event_key a b \<longleftrightarrow>
     ek_source a < ek_source b \<or> (ek_source a = ek_source b \<and> ek_idempotency_key a \<le> ek_idempotency_key b)"

definition less_event_key :: "event_key \<Rightarrow> event_key \<Rightarrow> bool" where
  "less_event_key a b \<longleftrightarrow>
     ek_source a < ek_source b \<or> (ek_source a = ek_source b \<and> ek_idempotency_key a < ek_idempotency_key b)"

instance
  by standard (auto simp: less_eq_event_key_def less_event_key_def intro: event_key.expand)

end

definition event_key_new :: "string \<Rightarrow> string \<Rightarrow> commerce_error + event_key" where
  "event_key_new source key =
     bindr (validate_nonempty_bounded ''event_source'' source 100) (\<lambda>_.
     bindr (validate_nonempty_bounded ''event_idempotency_key'' key 255) (\<lambda>_.
     Ok (EventKey source key)))"

record event_envelope =
  ev_key :: event_key
  ev_stream :: string
  ev_sequence :: nat
  ev_payload_sha256 :: string
  ev_occurred_at_ms :: int

definition from_payload ::
    "(string \<Rightarrow> string) \<Rightarrow> event_key \<Rightarrow> string \<Rightarrow> nat \<Rightarrow> string \<Rightarrow> int \<Rightarrow> commerce_error + event_envelope" where
  "from_payload sha256 key stream sequence payload occurred_at_ms =
     bindr (validate_nonempty_bounded ''event_stream'' stream 255) (\<lambda>_.
     if sequence = 0 then Err InvalidEventSequence
     else Ok \<lparr>ev_key = key, ev_stream = stream, ev_sequence = sequence,
              ev_payload_sha256 = sha256 payload, ev_occurred_at_ms = occurred_at_ms\<rparr>)"

datatype event_classification = Class_New | Class_Duplicate

datatype event_application = Applied | Duplicate

record accepted_event =
  ae_stream :: string
  ae_sequence :: nat
  ae_payload_sha256 :: string

record event_ledger =
  accepted :: "(event_key, accepted_event) btree_map"
  stream_sequences :: "(string, nat) btree_map"

definition ledger_default :: event_ledger where
  "ledger_default = \<lparr>accepted = [], stream_sequences = []\<rparr>"

section \<open>Operations\<close>

definition classify :: "event_ledger \<Rightarrow> event_envelope \<Rightarrow> commerce_error + event_classification" where
  "classify l ev =
     (case bt_get (accepted l) (ev_key ev) of
        Some existing \<Rightarrow>
          if ae_payload_sha256 existing \<noteq> ev_payload_sha256 ev then Err EventHashConflict
          else if ae_stream existing = ev_stream ev \<and> ae_sequence existing = ev_sequence ev
          then Ok Class_Duplicate
          else Err EventMetadataConflict
      | None \<Rightarrow>
          (case bt_get (stream_sequences l) (ev_stream ev) of
             Some last_sequence \<Rightarrow>
               if ev_sequence ev \<le> last_sequence then Err (EventOutOfOrder last_sequence (ev_sequence ev))
               else Ok Class_New
           | None \<Rightarrow> Ok Class_New))"

definition record_event :: "event_envelope \<Rightarrow> event_ledger \<Rightarrow> commerce_error + event_ledger" where
  "record_event ev l =
     bindr (classify l ev) (\<lambda>c.
     if c \<noteq> Class_New then Err DuplicateEvent
     else Ok (l\<lparr>accepted := bt_insert (ev_key ev)
                  \<lparr>ae_stream = ev_stream ev, ae_sequence = ev_sequence ev,
                   ae_payload_sha256 = ev_payload_sha256 ev\<rparr> (accepted l),
                stream_sequences := bt_insert (ev_stream ev) (ev_sequence ev) (stream_sequences l)\<rparr>))"

definition accept :: "event_envelope \<Rightarrow> event_ledger \<Rightarrow> commerce_error + event_application \<times> event_ledger" where
  "accept ev l =
     bindr (classify l ev) (\<lambda>c.
     case c of
       Class_Duplicate \<Rightarrow> Ok (Duplicate, l)
     | Class_New \<Rightarrow> bindr (record_event ev l) (\<lambda>l'. Ok (Applied, l')))"

definition last_sequence :: "event_ledger \<Rightarrow> string \<Rightarrow> nat option" where
  "last_sequence l stream = bt_get (stream_sequences l) stream"

section \<open>The ledger invariant\<close>

text \<open>
  Every accepted event is at or below the last sequence of its stream, and no two accepted events
  share a place in a stream.
\<close>

definition ledger_ok :: "event_ledger \<Rightarrow> bool" where
  "ledger_ok l \<longleftrightarrow> bt_wf (accepted l) \<and> bt_wf (stream_sequences l)
     \<and> (\<forall>k r. bt_get (accepted l) k = Some r \<longrightarrow>
          (\<exists>n. bt_get (stream_sequences l) (ae_stream r) = Some n \<and> ae_sequence r \<le> n))
     \<and> (\<forall>k k' r r'. bt_get (accepted l) k = Some r \<longrightarrow> bt_get (accepted l) k' = Some r' \<longrightarrow>
          ae_stream r = ae_stream r' \<longrightarrow> ae_sequence r = ae_sequence r' \<longrightarrow> k = k')"

definition record_of :: "event_envelope \<Rightarrow> accepted_event" where
  "record_of ev = \<lparr>ae_stream = ev_stream ev, ae_sequence = ev_sequence ev,
     ae_payload_sha256 = ev_payload_sha256 ev\<rparr>"

lemma classify_New:
  "classify l ev = Ok Class_New \<longleftrightarrow> bt_get (accepted l) (ev_key ev) = None
     \<and> (\<forall>n. last_sequence l (ev_stream ev) = Some n \<longrightarrow> n < ev_sequence ev)"
  by (auto simp: classify_def last_sequence_def split: option.splits)

lemma classify_Duplicate:
  "classify l ev = Ok Class_Duplicate \<longleftrightarrow> bt_get (accepted l) (ev_key ev) = Some (record_of ev)"
proof (cases "bt_get (accepted l) (ev_key ev)")
  case None
  then show ?thesis by (simp add: classify_def split: option.splits)
next
  case (Some r)
  then show ?thesis by (cases r) (auto simp: classify_def record_of_def)
qed

lemma record_event_Ok:
  "record_event ev l = Ok l' \<longleftrightarrow> classify l ev = Ok Class_New
     \<and> l' = l\<lparr>accepted := bt_insert (ev_key ev) (record_of ev) (accepted l),
              stream_sequences := bt_insert (ev_stream ev) (ev_sequence ev) (stream_sequences l)\<rparr>"
  by (auto simp: record_event_def record_of_def ffdb_result)

lemma record_event_ledger_ok:
  assumes "record_event ev l = Ok l'" and ok: "ledger_ok l"
  shows "ledger_ok l'"
proof -
  have new: "bt_get (accepted l) (ev_key ev) = None"
      "\<And>n. bt_get (stream_sequences l) (ev_stream ev) = Some n \<Longrightarrow> n < ev_sequence ev"
    and l': "l' = l\<lparr>accepted := bt_insert (ev_key ev) (record_of ev) (accepted l),
              stream_sequences := bt_insert (ev_stream ev) (ev_sequence ev) (stream_sequences l)\<rparr>"
    using assms(1) by (auto simp: record_event_Ok classify_New last_sequence_def)
  have fresh: "ae_sequence r < ev_sequence ev"
    if "bt_get (accepted l) k = Some r" "ae_stream r = ev_stream ev" for k r
    using that ok new(2) unfolding ledger_ok_def by (metis le_less_trans)
  show ?thesis
    unfolding ledger_ok_def
  proof (intro conjI allI impI)
    show "bt_wf (accepted l')" "bt_wf (stream_sequences l')"
      using ok by (simp_all add: l' ledger_ok_def bt_wf_insert)
  next
    fix k r assume "bt_get (accepted l') k = Some r"
    then show "\<exists>n. bt_get (stream_sequences l') (ae_stream r) = Some n \<and> ae_sequence r \<le> n"
      using ok fresh
      by (auto simp: l' ledger_ok_def bt_get_insert record_of_def less_imp_le split: if_splits)
  next
    fix k k' r r'
    assume "bt_get (accepted l') k = Some r" "bt_get (accepted l') k' = Some r'"
      "ae_stream r = ae_stream r'" "ae_sequence r = ae_sequence r'"
    then show "k = k'"
      using ok fresh
      by (auto simp: l' ledger_ok_def bt_get_insert record_of_def split: if_splits) (metis less_irrefl)+
  qed
qed

lemma ledger_default_ok [simp]: "ledger_ok ledger_default"
  by (simp add: ledger_ok_def ledger_default_def)

lemma accept_cases:
  assumes "accept ev l = Ok (a, l')"
  obtains (Applied) "a = Applied" "record_event ev l = Ok l'"
    | (Duplicate) "a = Duplicate" "l' = l" "classify l ev = Ok Class_Duplicate"
proof (cases "classify l ev")
  case (Inr c)
  then show thesis using assms that by (cases c) (auto simp: accept_def ffdb_result)
qed (use assms in \<open>simp add: accept_def\<close>)

lemma accept_ledger_ok: "accept ev l = Ok (a, l') \<Longrightarrow> ledger_ok l \<Longrightarrow> ledger_ok l'"
  by (erule accept_cases) (auto intro: record_event_ledger_ok)

text \<open>What is recorded stays recorded, and a recorded event is a duplicate from then on.\<close>

definition ledger_le :: "event_ledger \<Rightarrow> event_ledger \<Rightarrow> bool" where
  "ledger_le l l' \<longleftrightarrow> (\<forall>k r. bt_get (accepted l) k = Some r \<longrightarrow> bt_get (accepted l') k = Some r)"

lemma ledger_le_refl [simp]: "ledger_le l l"
  by (simp add: ledger_le_def)

lemma ledger_le_trans: "ledger_le a b \<Longrightarrow> ledger_le b c \<Longrightarrow> ledger_le a c"
  by (simp add: ledger_le_def)

lemma record_event_le: "record_event ev l = Ok l' \<Longrightarrow> ledger_le l l'"
  by (auto simp: record_event_Ok classify_New ledger_le_def bt_get_insert)

lemma recorded_duplicate:
  assumes "record_event ev l = Ok l'" and "ledger_le l' l''"
  shows "classify l'' ev = Ok Class_Duplicate"
  using assms by (simp add: classify_Duplicate record_event_Ok ledger_le_def bt_get_insert)

end
