(* ===== verification/Commerce_Subscriptions.thy ===== *)
theory Commerce_Subscriptions
  imports Commerce_Ledger
begin

text \<open>
  Subscriptions of \<open>crates/commerce/src/lib.rs\<close>: the snapshot of the price terms, the billing period
  and the state machine driven by provider events.
\<close>

section \<open>Data\<close>

datatype membership_subject = Individual uuid | Team uuid | Organization uuid

record subscription_terms =
  st_price_id :: uuid
  st_product_id :: uuid
  st_unit_amount :: money
  st_quantity :: nat
  st_interval :: billing_interval
  st_entitlements :: entitlements

datatype subscription_status =
    Sub_Incomplete | Sub_Trialing | Sub_Active | Sub_PastDue | Sub_Paused | Sub_Canceled | Sub_Expired

record billing_period =
  start_ms :: int
  end_ms :: int

definition billing_period_new :: "int \<Rightarrow> int \<Rightarrow> commerce_error + billing_period" where
  "billing_period_new s e = (if s \<ge> e then Err InvalidBillingPeriod else Ok \<lparr>start_ms = s, end_ms = e\<rparr>)"

definition period_contains :: "billing_period \<Rightarrow> int \<Rightarrow> bool" where
  "period_contains p at_ms = (at_ms \<ge> start_ms p \<and> at_ms < end_ms p)"

datatype subscription_transition =
    StartTrial billing_period
  | Activate billing_period
  | Renew billing_period
  | MarkPastDue
  | Pause
  | Cancel
  | Expire

record subscription =
  sub_id :: uuid
  sub_project_id :: uuid
  sub_merchant_account_id :: uuid
  sub_subject :: membership_subject
  sub_terms :: subscription_terms
  sub_status :: subscription_status
  sub_current_period :: "billing_period option"
  sub_events :: event_ledger
  sub_created_at_ms :: int
  sub_ended_at_ms :: "int option"

section \<open>Operations\<close>

definition subscription_new ::
    "uuid \<Rightarrow> merchant_account \<Rightarrow> price \<Rightarrow> membership_subject \<Rightarrow> nat \<Rightarrow> int \<Rightarrow> commerce_error + subscription" where
  "subscription_new i merchant price subject quantity created_at_ms =
     bindr (require_capability merchant RecurringPayments) (\<lambda>_.
     if ma_project_id merchant \<noteq> price_project_id price then Err ProjectMismatch
     else if \<not> price_active price then Err PriceInactive
     else
       bindr (validate_quantity quantity) (\<lambda>_.
       case pt_kind (price_terms_of price) of
         OneTime \<Rightarrow> Err PriceKindMismatch
       | Recurring interval \<Rightarrow>
           bindr (money_mul (pt_amount (price_terms_of price)) quantity) (\<lambda>_.
           Ok \<lparr>sub_id = i, sub_project_id = ma_project_id merchant,
               sub_merchant_account_id = ma_id merchant, sub_subject = subject,
               sub_terms = \<lparr>st_price_id = price_id price, st_product_id = price_product_id price,
                 st_unit_amount = pt_amount (price_terms_of price), st_quantity = quantity,
                 st_interval = interval, st_entitlements = pt_entitlements (price_terms_of price)\<rparr>,
               sub_status = Sub_Incomplete, sub_current_period = None, sub_events = ledger_default,
               sub_created_at_ms = created_at_ms, sub_ended_at_ms = None\<rparr>)))"

definition live_statuses :: "subscription_status list" where
  "live_statuses = [Sub_Incomplete, Sub_Trialing, Sub_Active, Sub_PastDue, Sub_Paused]"

definition preview_transition ::
    "subscription \<Rightarrow> subscription_transition \<Rightarrow> int
      \<Rightarrow> commerce_error + subscription_status \<times> billing_period option \<times> int option" where
  "preview_transition s transition applied_at_ms =
     (let status = sub_status s; current = sub_current_period s in
      case transition of
        StartTrial period \<Rightarrow>
          if status = Sub_Incomplete then Ok (Sub_Trialing, Some period, None)
          else Err InvalidStateTransition
      | Activate period \<Rightarrow>
          if status \<in> {Sub_Incomplete, Sub_Trialing, Sub_PastDue, Sub_Paused}
          then Ok (Sub_Active, Some period, None)
          else Err InvalidStateTransition
      | Renew period \<Rightarrow>
          if status \<in> {Sub_Active, Sub_Trialing} then
            (case current of
               Some c \<Rightarrow>
                 if start_ms period < end_ms c then Err OverlappingBillingPeriod
                 else Ok (Sub_Active, Some period, None)
             | None \<Rightarrow> Ok (Sub_Active, Some period, None))
          else Err InvalidStateTransition
      | MarkPastDue \<Rightarrow>
          if status \<in> {Sub_Active, Sub_Trialing} then Ok (Sub_PastDue, current, None)
          else Err InvalidStateTransition
      | Pause \<Rightarrow>
          if status \<in> {Sub_Active, Sub_Trialing, Sub_PastDue} then Ok (Sub_Paused, current, None)
          else Err InvalidStateTransition
      | Cancel \<Rightarrow>
          if status \<in> set live_statuses then Ok (Sub_Canceled, current, Some applied_at_ms)
          else Err InvalidStateTransition
      | Expire \<Rightarrow>
          if status \<in> set live_statuses then Ok (Sub_Expired, current, Some applied_at_ms)
          else Err InvalidStateTransition)"

definition apply_event ::
    "event_envelope \<Rightarrow> subscription_transition \<Rightarrow> int \<Rightarrow> subscription
      \<Rightarrow> commerce_error + event_application \<times> subscription" where
  "apply_event ev transition applied_at_ms s =
     bindr (classify (sub_events s) ev) (\<lambda>c.
     case c of
       Class_Duplicate \<Rightarrow> Ok (Duplicate, s)
     | Class_New \<Rightarrow>
         bindr (preview_transition s transition applied_at_ms) (\<lambda>(next_status, next_period, ended).
         bindr (record_event ev (sub_events s)) (\<lambda>l.
         Ok (Applied, s\<lparr>sub_events := l, sub_status := next_status,
                        sub_current_period := next_period, sub_ended_at_ms := ended\<rparr>))))"

definition is_entitled_at :: "subscription \<Rightarrow> int \<Rightarrow> bool" where
  "is_entitled_at s at_ms =
     (sub_status s \<in> {Sub_Trialing, Sub_Active}
      \<and> (case sub_current_period s of Some p \<Rightarrow> period_contains p at_ms | None \<Rightarrow> False))"

definition entitlement :: "subscription \<Rightarrow> entitlement_key \<Rightarrow> int \<Rightarrow> entitlement_value option" where
  "entitlement s key at_ms =
     (if is_entitled_at s at_ms then bt_get (st_entitlements (sub_terms s)) key else None)"

section \<open>The state machine\<close>

inductive subscription_step :: "subscription \<Rightarrow> subscription \<Rightarrow> bool" where
  apply_event: "apply_event ev tr at_ms s = Ok (a, s') \<Longrightarrow> subscription_step s s'"

inductive_cases subscription_stepE: "subscription_step s s'"

definition subscription_init :: "subscription \<Rightarrow> bool" where
  "subscription_init s = (\<exists>i merchant price subject quantity created.
     subscription_new i merchant price subject quantity created = Ok s)"

definition terminal :: "subscription_status \<Rightarrow> bool" where
  "terminal s = (s \<in> {Sub_Canceled, Sub_Expired})"

definition has_period :: "subscription_status \<Rightarrow> bool" where
  "has_period st = (st \<in> {Sub_Trialing, Sub_Active, Sub_PastDue, Sub_Paused})"

text \<open>
  The end is recorded exactly for the terminal states, a subscription that was started and has not
  ended has a period, and the ledger is consistent.
\<close>

definition subscription_ok :: "subscription \<Rightarrow> bool" where
  "subscription_ok s \<longleftrightarrow> ledger_ok (sub_events s)
     \<and> (sub_ended_at_ms s \<noteq> None \<longleftrightarrow> terminal (sub_status s))
     \<and> (has_period (sub_status s) \<longrightarrow> sub_current_period s \<noteq> None)"

lemmas preview_defs = preview_transition_def terminal_def has_period_def live_statuses_def Let_def

lemma preview_transition_live:
  "preview_transition s tr at_ms = Ok (st, period, ended) \<Longrightarrow> \<not> terminal (sub_status s)"
  by (cases tr; cases "sub_status s") (simp_all add: preview_defs)

lemma preview_transition_ended:
  "preview_transition s tr at_ms = Ok (st, period, ended) \<Longrightarrow> ended \<noteq> None \<longleftrightarrow> terminal st"
  by (cases tr; cases "sub_status s") (auto simp: preview_defs split: option.split_asm if_split_asm)

lemma preview_transition_period:
  "preview_transition s tr at_ms = Ok (st, period, ended) \<Longrightarrow> has_period st \<Longrightarrow>
     period = None \<Longrightarrow> has_period (sub_status s) \<and> sub_current_period s = None"
  by (cases tr; cases "sub_status s") (auto simp: preview_defs split: option.split_asm if_split_asm)

lemma apply_event_cases:
  assumes "apply_event ev tr at_ms s = Ok (a, s')"
  obtains (Applied) st period ended l where "a = Applied" "classify (sub_events s) ev = Ok Class_New"
      "preview_transition s tr at_ms = Ok (st, period, ended)" "record_event ev (sub_events s) = Ok l"
      "s' = s\<lparr>sub_events := l, sub_status := st, sub_current_period := period, sub_ended_at_ms := ended\<rparr>"
    | (Duplicate) "a = Duplicate" "s' = s" "classify (sub_events s) ev = Ok Class_Duplicate"
proof -
  obtain c where c: "classify (sub_events s) ev = Ok c"
    using assms by (auto simp: apply_event_def ffdb_result)
  show thesis
  proof (cases c)
    case Class_New
    obtain st period ended l where *: "preview_transition s tr at_ms = Ok (st, period, ended)"
        "record_event ev (sub_events s) = Ok l"
      using assms c Class_New by (auto simp: apply_event_def ffdb_result)
    with assms c Class_New show thesis
      by (intro Applied [OF _ _ *]) (simp_all add: apply_event_def)
  next
    case Class_Duplicate
    with assms c show thesis by (intro Duplicate) (simp_all add: apply_event_def)
  qed
qed

lemma subscription_new_ok: "subscription_new i m p sj q t = Ok s \<Longrightarrow> subscription_ok s"
  by (auto simp: subscription_new_def ffdb_result subscription_ok_def terminal_def has_period_def
      split: if_splits price_kind.splits)

lemma apply_event_ok:
  assumes "apply_event ev tr at_ms s = Ok (a, s')" and "subscription_ok s"
  shows "subscription_ok s'"
  using assms(1)
proof (cases rule: apply_event_cases)
  case (Applied st period ended l)
  have "has_period st \<longrightarrow> period \<noteq> None"
    using assms(2) preview_transition_period [OF Applied(3)] by (cases period) (auto simp: subscription_ok_def)
  moreover have "ended \<noteq> None \<longleftrightarrow> terminal st"
    by (rule preview_transition_ended [OF Applied(3)])
  moreover have "ledger_ok l"
    using assms(2) record_event_ledger_ok [OF Applied(4)] by (simp add: subscription_ok_def)
  ultimately show ?thesis
    by (simp add: Applied(5) subscription_ok_def)
qed (use assms(2) in simp)

interpretation subscription: transition_system subscription_init subscription_step subscription_ok
  by unfold_locales
    (auto simp: subscription_init_def elim!: subscription_stepE intro: subscription_new_ok apply_event_ok)

text \<open>A terminal subscription accepts no further transition, and its terms never change.\<close>

lemma terminal_step: "subscription_step s s' \<Longrightarrow> terminal (sub_status s) \<Longrightarrow> s' = s"
proof (erule subscription_stepE)
  fix ev tr at_ms a
  assume "apply_event ev tr at_ms s = Ok (a, s')" "terminal (sub_status s)"
  then show "s' = s"
    by (cases rule: apply_event_cases) (auto dest: preview_transition_live)
qed

lemma step_frame:
  "subscription_step s s' \<Longrightarrow> sub_terms s' = sub_terms s \<and> sub_id s' = sub_id s
     \<and> sub_project_id s' = sub_project_id s \<and> ledger_le (sub_events s) (sub_events s')"
proof (erule subscription_stepE)
  fix ev tr at_ms a
  assume "apply_event ev tr at_ms s = Ok (a, s')"
  then show ?thesis
    by (cases rule: apply_event_cases) (auto intro: record_event_le)
qed

lemma run_frame:
  "subscription_step\<^sup>*\<^sup>* s s' \<Longrightarrow> sub_terms s' = sub_terms s \<and> sub_id s' = sub_id s
     \<and> sub_project_id s' = sub_project_id s \<and> ledger_le (sub_events s) (sub_events s')"
  by (induction rule: rtranclp_induct) (auto dest: step_frame intro: ledger_le_trans)

lemma terminal_run: "subscription_step\<^sup>*\<^sup>* s s' \<Longrightarrow> terminal (sub_status s) \<Longrightarrow> s' = s"
  by (induction rule: rtranclp_induct) (auto dest: terminal_step)

end
