(* ===== verification/Commerce_Payments.thy ===== *)
theory Commerce_Payments
  imports Commerce_Subscriptions
begin

text \<open>
  Orders, payments, refunds and checkout of \<open>crates/commerce/src/lib.rs\<close>.
\<close>

section \<open>Data\<close>

datatype order_status =
    Order_AwaitingPayment | Order_Paid | Order_FulfillmentInProgress | Order_Fulfilled | Order_Canceled

record order =
  or_id :: uuid
  or_project_id :: uuid
  or_merchant_account_id :: uuid
  or_lines :: "order_line list"
  or_total :: money
  or_status :: order_status
  or_created_at_ms :: int
  or_fulfilled_at_ms :: "int option"

datatype payment_status =
    Payment_Pending | Payment_Authorized | Payment_Captured | Payment_PartiallyRefunded
  | Payment_Refunded | Payment_Failed | Payment_Canceled

datatype refund_status = Refund_Requested | Refund_Succeeded | Refund_Failed

record refund =
  rf_id :: uuid
  rf_amount :: money
  rf_status :: refund_status
  rf_requested_at_ms :: int
  rf_settled_at_ms :: "int option"
  rf_provider_reference :: "provider_reference option"

datatype payment_target = Target_Order uuid | Target_Subscription uuid

record payment =
  pay_id :: uuid
  pay_project_id :: uuid
  pay_merchant_account_id :: uuid
  pay_target :: payment_target
  requested_amount :: money
  captured_amount :: "money option"
  pay_status :: payment_status
  pay_provider_reference :: "provider_reference option"
  refunds :: "refund list"
  pay_events :: event_ledger
  pay_created_at_ms :: int
  captured_at_ms :: "int option"

datatype refund_settlement = Settle_Succeeded provider_reference | Settle_Failed

section \<open>Creating orders and payments\<close>

text \<open>The loop of \<open>Order::new\<close> over the lines.\<close>

fun sum_lines :: "uuid \<Rightarrow> money \<Rightarrow> order_line list \<Rightarrow> commerce_error + money" where
  "sum_lines project acc [] = Ok acc"
| "sum_lines project acc (line # ls) =
     (if ol_project_id line \<noteq> project then Err ProjectMismatch
      else bindr (money_add acc (ol_total line)) (\<lambda>acc'. sum_lines project acc' ls))"

definition order_new ::
    "uuid \<Rightarrow> merchant_account \<Rightarrow> order_line list \<Rightarrow> int \<Rightarrow> commerce_error + order" where
  "order_new i merchant lines created_at_ms =
     bindr (require_capability merchant OneTimePayments) (\<lambda>_.
     case lines of
       [] \<Rightarrow> Err EmptyOrder
     | first # _ \<Rightarrow>
         bindr (money_new (money_currency (ol_total first)) 0) (\<lambda>zero.
         bindr (sum_lines (ma_project_id merchant) zero lines) (\<lambda>total.
         bindr (require_positive_money total) (\<lambda>_.
         Ok \<lparr>or_id = i, or_project_id = ma_project_id merchant, or_merchant_account_id = ma_id merchant,
             or_lines = lines, or_total = total, or_status = Order_AwaitingPayment,
             or_created_at_ms = created_at_ms, or_fulfilled_at_ms = None\<rparr>))))"

definition payment_of :: "uuid \<Rightarrow> uuid \<Rightarrow> uuid \<Rightarrow> payment_target \<Rightarrow> money \<Rightarrow> int \<Rightarrow> payment" where
  "payment_of i project merchant target amount created_at_ms =
     \<lparr>pay_id = i, pay_project_id = project, pay_merchant_account_id = merchant, pay_target = target,
      requested_amount = amount, captured_amount = None, pay_status = Payment_Pending,
      pay_provider_reference = None, refunds = [], pay_events = ledger_default,
      pay_created_at_ms = created_at_ms, captured_at_ms = None\<rparr>"

definition payment_new :: "uuid \<Rightarrow> order \<Rightarrow> money \<Rightarrow> int \<Rightarrow> commerce_error + payment" where
  "payment_new i ord amount created_at_ms =
     bindr (require_positive_money amount) (\<lambda>_.
     bindr (ensure_same_currency amount (or_total ord)) (\<lambda>_.
     if minor amount > minor (or_total ord) then Err PaymentExceedsOrderTotal
     else Ok (payment_of i (or_project_id ord) (or_merchant_account_id ord) (Target_Order (or_id ord))
                amount created_at_ms)))"

definition payment_for_subscription ::
    "uuid \<Rightarrow> merchant_account \<Rightarrow> subscription \<Rightarrow> int \<Rightarrow> commerce_error + payment" where
  "payment_for_subscription i merchant s created_at_ms =
     bindr (require_capability merchant RecurringPayments) (\<lambda>_.
     if ma_project_id merchant \<noteq> sub_project_id s \<or> ma_id merchant \<noteq> sub_merchant_account_id s
     then Err ProjectMismatch
     else if sub_status s \<in> {Sub_Canceled, Sub_Expired} then Err InvalidStateTransition
     else
       bindr (money_mul (st_unit_amount (sub_terms s)) (st_quantity (sub_terms s))) (\<lambda>amount.
       bindr (require_positive_money amount) (\<lambda>_.
       Ok (payment_of i (sub_project_id s) (sub_merchant_account_id s) (Target_Subscription (sub_id s))
             amount created_at_ms))))"

definition order_id :: "payment \<Rightarrow> uuid option" where
  "order_id p = (case pay_target p of Target_Order i \<Rightarrow> Some i | Target_Subscription _ \<Rightarrow> None)"

section \<open>Payment operations\<close>

definition mark_authorized :: "payment \<Rightarrow> commerce_error + payment" where
  "mark_authorized p =
     (if pay_status p \<noteq> Payment_Pending then Err InvalidStateTransition
      else Ok (p\<lparr>pay_status := Payment_Authorized\<rparr>))"

definition open_payment :: "payment \<Rightarrow> bool" where
  "open_payment p = (pay_status p \<in> {Payment_Pending, Payment_Authorized})"

definition record_capture ::
    "event_envelope \<Rightarrow> money \<Rightarrow> provider_reference \<Rightarrow> int \<Rightarrow> payment
      \<Rightarrow> commerce_error + event_application \<times> payment" where
  "record_capture ev amount reference at_ms p =
     bindr (classify (pay_events p) ev) (\<lambda>c.
     case c of
       Class_Duplicate \<Rightarrow> Ok (Duplicate, p)
     | Class_New \<Rightarrow>
         if \<not> open_payment p then Err InvalidStateTransition
         else
           bindr (require_positive_money amount) (\<lambda>_.
           bindr (ensure_same_currency amount (requested_amount p)) (\<lambda>_.
           if minor amount > minor (requested_amount p) then Err CaptureExceedsAuthorized
           else
             bindr (record_event ev (pay_events p)) (\<lambda>l.
             Ok (Applied, p\<lparr>pay_events := l, captured_amount := Some amount,
                            pay_provider_reference := Some reference, captured_at_ms := Some at_ms,
                            pay_status := Payment_Captured\<rparr>)))))"

definition mark_failed :: "payment \<Rightarrow> commerce_error + payment" where
  "mark_failed p =
     (if \<not> open_payment p then Err InvalidStateTransition else Ok (p\<lparr>pay_status := Payment_Failed\<rparr>))"

definition payment_cancel :: "payment \<Rightarrow> commerce_error + payment" where
  "payment_cancel p =
     (if \<not> open_payment p then Err InvalidStateTransition else Ok (p\<lparr>pay_status := Payment_Canceled\<rparr>))"

text \<open>\<open>refunds.iter().try_fold\<close> over the refunds whose status is selected.\<close>

fun sum_refunds :: "(refund_status \<Rightarrow> bool) \<Rightarrow> money \<Rightarrow> refund list \<Rightarrow> commerce_error + money" where
  "sum_refunds sel acc [] = Ok acc"
| "sum_refunds sel acc (r # rs) =
     (if sel (rf_status r) then bindr (money_add acc (rf_amount r)) (\<lambda>t. sum_refunds sel t rs)
      else sum_refunds sel acc rs)"

definition refundable_amount :: "payment \<Rightarrow> commerce_error + money" where
  "refundable_amount p =
     bindr (ok_or (captured_amount p) PaymentNotCaptured) (\<lambda>captured.
     bindr (money_new (money_currency captured) 0) (\<lambda>zero.
     bindr (sum_refunds (\<lambda>s. s \<noteq> Refund_Failed) zero (refunds p)) (\<lambda>reserved.
     money_sub captured reserved)))"

definition fulfillable_amount :: "payment \<Rightarrow> commerce_error + money" where
  "fulfillable_amount p =
     (if pay_status p \<notin> {Payment_Captured, Payment_PartiallyRefunded, Payment_Refunded}
      then Err PaymentNotVerified
      else refundable_amount p)"

definition request_refund ::
    "merchant_account \<Rightarrow> uuid \<Rightarrow> money \<Rightarrow> int \<Rightarrow> payment \<Rightarrow> commerce_error + payment" where
  "request_refund merchant i amount at_ms p =
     bindr (require_capability merchant Refunds) (\<lambda>_.
     if ma_project_id merchant \<noteq> pay_project_id p \<or> ma_id merchant \<noteq> pay_merchant_account_id p
     then Err ProjectMismatch
     else if list_ex (\<lambda>r. rf_id r = i) (refunds p) then Err DuplicateIdentifier
     else
       bindr (require_positive_money amount) (\<lambda>_.
       bindr (refundable_amount p) (\<lambda>available.
       bindr (ensure_same_currency amount available) (\<lambda>_.
       if minor amount > minor available then Err RefundExceedsAvailable
       else Ok (p\<lparr>refunds := refunds p @ [\<lparr>rf_id = i, rf_amount = amount, rf_status = Refund_Requested,
              rf_requested_at_ms = at_ms, rf_settled_at_ms = None, rf_provider_reference = None\<rparr>]\<rparr>)))))"

definition refund_outcome :: "refund_settlement \<Rightarrow> int \<Rightarrow> refund \<Rightarrow> refund" where
  "refund_outcome outcome at_ms r =
     (case outcome of
        Settle_Succeeded reference \<Rightarrow>
          r\<lparr>rf_status := Refund_Succeeded, rf_provider_reference := Some reference,
            rf_settled_at_ms := Some at_ms\<rparr>
      | Settle_Failed \<Rightarrow> r\<lparr>rf_status := Refund_Failed, rf_settled_at_ms := Some at_ms\<rparr>)"

definition recompute_refund_status :: "payment \<Rightarrow> commerce_error + payment" where
  "recompute_refund_status p =
     bindr (ok_or (captured_amount p) PaymentNotCaptured) (\<lambda>captured.
     bindr (money_new (money_currency captured) 0) (\<lambda>zero.
     bindr (sum_refunds (\<lambda>s. s = Refund_Succeeded) zero (refunds p)) (\<lambda>succeeded.
     Ok (p\<lparr>pay_status :=
       (if minor succeeded = 0 then Payment_Captured
        else if minor succeeded = minor captured then Payment_Refunded
        else Payment_PartiallyRefunded)\<rparr>))))"

fun position :: "('a \<Rightarrow> bool) \<Rightarrow> 'a list \<Rightarrow> nat option" where
  "position P [] = None"
| "position P (x # xs) = (if P x then Some 0 else map_option Suc (position P xs))"

definition settle_refund ::
    "uuid \<Rightarrow> event_envelope \<Rightarrow> refund_settlement \<Rightarrow> int \<Rightarrow> payment
      \<Rightarrow> (commerce_error + event_application) \<times> payment" where
  "settle_refund i ev outcome at_ms p =
     (case classify (pay_events p) ev of
        Inl e \<Rightarrow> (Err e, p)
      | Inr Class_Duplicate \<Rightarrow> (Ok Duplicate, p)
      | Inr Class_New \<Rightarrow>
          (case position (\<lambda>r. rf_id r = i) (refunds p) of
             None \<Rightarrow> (Err RefundNotFound, p)
           | Some index \<Rightarrow>
               if rf_status (refunds p ! index) \<noteq> Refund_Requested then (Err RefundAlreadySettled, p)
               else
                 (case record_event ev (pay_events p) of
                    Inl e \<Rightarrow> (Err e, p)
                  | Inr l \<Rightarrow>
                      (let p' = p\<lparr>pay_events := l,
                             refunds := (refunds p)[index := refund_outcome outcome at_ms (refunds p ! index)]\<rparr>
                       in case recompute_refund_status p' of
                            Inl e \<Rightarrow> (Err e, p')
                          | Inr p'' \<Rightarrow> (Ok Applied, p'')))))"

section \<open>Order operations\<close>

fun sum_payments :: "order \<Rightarrow> money \<Rightarrow> payment list \<Rightarrow> commerce_error + money" where
  "sum_payments ord paid [] = Ok paid"
| "sum_payments ord paid (p # ps) =
     (if pay_project_id p \<noteq> or_project_id ord \<or> order_id p \<noteq> Some (or_id ord) then Err ProjectMismatch
      else
        bindr (fulfillable_amount p) (\<lambda>amount.
        bindr (money_add paid amount) (\<lambda>paid'. sum_payments ord paid' ps)))"

definition ensure_order_paid :: "order \<Rightarrow> payment list \<Rightarrow> commerce_error + unit" where
  "ensure_order_paid ord ps =
     bindr (money_new (money_currency (or_total ord)) 0) (\<lambda>zero.
     bindr (sum_payments ord zero ps) (\<lambda>paid.
     if minor paid < minor (or_total ord) then Err InsufficientVerifiedPayment else Ok ()))"

definition verify_paid :: "payment list \<Rightarrow> order \<Rightarrow> commerce_error + order" where
  "verify_paid ps ord =
     (if or_status ord \<noteq> Order_AwaitingPayment then Err InvalidStateTransition
      else bindr (ensure_order_paid ord ps) (\<lambda>_. Ok (ord\<lparr>or_status := Order_Paid\<rparr>)))"

definition begin_fulfillment :: "payment list \<Rightarrow> order \<Rightarrow> commerce_error + order" where
  "begin_fulfillment ps ord =
     (if or_status ord \<noteq> Order_Paid then Err OrderNotPaid
      else bindr (ensure_order_paid ord ps) (\<lambda>_. Ok (ord\<lparr>or_status := Order_FulfillmentInProgress\<rparr>)))"

definition mark_fulfilled :: "int \<Rightarrow> order \<Rightarrow> commerce_error + order" where
  "mark_fulfilled at_ms ord =
     (if or_status ord \<noteq> Order_FulfillmentInProgress then Err InvalidStateTransition
      else Ok (ord\<lparr>or_status := Order_Fulfilled, or_fulfilled_at_ms := Some at_ms\<rparr>))"

definition order_cancel :: "order \<Rightarrow> commerce_error + order" where
  "order_cancel ord =
     (if or_status ord \<noteq> Order_AwaitingPayment then Err InvalidStateTransition
      else Ok (ord\<lparr>or_status := Order_Canceled\<rparr>))"

section \<open>Checkout\<close>

datatype checkout_kind =
    Checkout_OneTime uuid money
  | Checkout_Recurring uuid subscription_terms membership_subject

datatype checkout_outcome = Outcome_Payment uuid | Outcome_Subscription uuid

datatype checkout_status = Checkout_Created | Checkout_Completed checkout_outcome | Checkout_Expired | Checkout_Canceled

record checkout_intent =
  ci_id :: uuid
  ci_project_id :: uuid
  ci_merchant_account_id :: uuid
  ci_kind :: checkout_kind
  ci_status :: checkout_status
  ci_created_at_ms :: int
  ci_expires_at_ms :: int

definition checkout_one_time ::
    "uuid \<Rightarrow> merchant_account \<Rightarrow> order \<Rightarrow> int \<Rightarrow> int \<Rightarrow> commerce_error + checkout_intent" where
  "checkout_one_time i merchant ord created_at_ms expires_at_ms =
     bindr (require_capability merchant OneTimePayments) (\<lambda>_.
     bindr (validate_expiration created_at_ms expires_at_ms) (\<lambda>_.
     if ma_project_id merchant \<noteq> or_project_id ord \<or> ma_id merchant \<noteq> or_merchant_account_id ord
     then Err ProjectMismatch
     else if or_status ord \<noteq> Order_AwaitingPayment then Err InvalidStateTransition
     else Ok \<lparr>ci_id = i, ci_project_id = ma_project_id merchant, ci_merchant_account_id = ma_id merchant,
              ci_kind = Checkout_OneTime (or_id ord) (or_total ord), ci_status = Checkout_Created,
              ci_created_at_ms = created_at_ms, ci_expires_at_ms = expires_at_ms\<rparr>))"

definition checkout_recurring ::
    "uuid \<Rightarrow> merchant_account \<Rightarrow> subscription \<Rightarrow> int \<Rightarrow> int \<Rightarrow> commerce_error + checkout_intent" where
  "checkout_recurring i merchant s created_at_ms expires_at_ms =
     bindr (require_capability merchant RecurringPayments) (\<lambda>_.
     bindr (validate_expiration created_at_ms expires_at_ms) (\<lambda>_.
     if ma_project_id merchant \<noteq> sub_project_id s \<or> ma_id merchant \<noteq> sub_merchant_account_id s
     then Err ProjectMismatch
     else if sub_status s \<noteq> Sub_Incomplete then Err InvalidStateTransition
     else Ok \<lparr>ci_id = i, ci_project_id = ma_project_id merchant, ci_merchant_account_id = ma_id merchant,
              ci_kind = Checkout_Recurring (sub_id s) (sub_terms s) (sub_subject s),
              ci_status = Checkout_Created, ci_created_at_ms = created_at_ms,
              ci_expires_at_ms = expires_at_ms\<rparr>))"

definition ensure_completable :: "checkout_intent \<Rightarrow> int \<Rightarrow> commerce_error + unit" where
  "ensure_completable c at_ms =
     (if ci_status c \<noteq> Checkout_Created then Err InvalidStateTransition
      else if at_ms \<ge> ci_expires_at_ms c then Err CheckoutExpired
      else Ok ())"

definition complete_one_time :: "payment \<Rightarrow> int \<Rightarrow> checkout_intent \<Rightarrow> commerce_error + checkout_intent" where
  "complete_one_time p at_ms c =
     bindr (ensure_completable c at_ms) (\<lambda>_.
     case ci_kind c of
       Checkout_Recurring _ _ _ \<Rightarrow> Err CheckoutKindMismatch
     | Checkout_OneTime order amount \<Rightarrow>
         if pay_project_id p \<noteq> ci_project_id c \<or> order_id p \<noteq> Some order then Err ProjectMismatch
         else
           bindr (fulfillable_amount p) (\<lambda>available.
           bindr (ensure_same_currency available amount) (\<lambda>_.
           if minor available < minor amount then Err InsufficientVerifiedPayment
           else Ok (c\<lparr>ci_status := Checkout_Completed (Outcome_Payment (pay_id p))\<rparr>))))"

definition complete_recurring :: "subscription \<Rightarrow> int \<Rightarrow> checkout_intent \<Rightarrow> commerce_error + checkout_intent" where
  "complete_recurring s at_ms c =
     bindr (ensure_completable c at_ms) (\<lambda>_.
     case ci_kind c of
       Checkout_OneTime _ _ \<Rightarrow> Err CheckoutKindMismatch
     | Checkout_Recurring subscription _ _ \<Rightarrow>
         if sub_project_id s \<noteq> ci_project_id c \<or> sub_id s \<noteq> subscription then Err ProjectMismatch
         else if sub_status s \<notin> {Sub_Trialing, Sub_Active} then Err SubscriptionNotEntitled
         else Ok (c\<lparr>ci_status := Checkout_Completed (Outcome_Subscription subscription)\<rparr>))"

definition checkout_expire :: "int \<Rightarrow> checkout_intent \<Rightarrow> commerce_error + checkout_intent" where
  "checkout_expire at_ms c =
     (if ci_status c \<noteq> Checkout_Created \<or> at_ms < ci_expires_at_ms c then Err InvalidStateTransition
      else Ok (c\<lparr>ci_status := Checkout_Expired\<rparr>))"

definition checkout_cancel :: "checkout_intent \<Rightarrow> commerce_error + checkout_intent" where
  "checkout_cancel c =
     (if ci_status c \<noteq> Checkout_Created then Err InvalidStateTransition
      else Ok (c\<lparr>ci_status := Checkout_Canceled\<rparr>))"

end
