(* ===== verification/Commerce_Invariant.thy ===== *)
theory Commerce_Invariant
  imports Commerce_Payments
begin

text \<open>
  The invariant of a payment and that every operation keeps it: captured funds never exceed what was
  requested, refunds reserved or paid out never exceed captured funds, and the status agrees with the
  refunds.
\<close>

section \<open>Sums of refunds\<close>

definition selected_minor :: "(refund_status \<Rightarrow> bool) \<Rightarrow> refund \<Rightarrow> nat" where
  "selected_minor sel r = (if sel (rf_status r) then minor (rf_amount r) else 0)"

definition refund_total :: "(refund_status \<Rightarrow> bool) \<Rightarrow> refund list \<Rightarrow> nat" where
  "refund_total sel rs = sum_list (map (selected_minor sel) rs)"

abbreviation reserved_total :: "refund list \<Rightarrow> nat" where
  "reserved_total \<equiv> refund_total (\<lambda>s. s \<noteq> Refund_Failed)"

abbreviation succeeded_total :: "refund list \<Rightarrow> nat" where
  "succeeded_total \<equiv> refund_total (\<lambda>s. s = Refund_Succeeded)"

lemma refund_total_simps [simp]:
  "refund_total sel [] = 0"
  "refund_total sel (r # rs) = selected_minor sel r + refund_total sel rs"
  "refund_total sel (rs @ rs') = refund_total sel rs + refund_total sel rs'"
  by (simp_all add: refund_total_def)

lemma refund_total_update:
  "i < length rs \<Longrightarrow> selected_minor sel (rs ! i) + refund_total sel (rs[i := r])
     = selected_minor sel r + refund_total sel rs"
proof (induction rs arbitrary: i)
  case (Cons x xs)
  then show ?case by (cases i) auto
qed simp

lemma succeeded_le_reserved: "succeeded_total rs \<le> reserved_total rs"
  by (induction rs) (auto simp: selected_minor_def)

lemma sum_refunds_Ok:
  "list_all (\<lambda>r. money_currency (rf_amount r) = money_currency acc) rs \<Longrightarrow>
     minor acc + refund_total sel rs \<le> MAX_MINOR_AMOUNT \<Longrightarrow>
     sum_refunds sel acc rs = Ok \<lparr>money_currency = money_currency acc, minor = minor acc + refund_total sel rs\<rparr>"
proof (induction rs arbitrary: acc)
  case (Cons r rs)
  show ?case
  proof (cases "sel (rf_status r)")
    case True
    have "money_add acc (rf_amount r)
        = Ok \<lparr>money_currency = money_currency acc, minor = minor acc + minor (rf_amount r)\<rparr>"
      using Cons.prems True by (simp add: money_add_Ok selected_minor_def)
    then show ?thesis using Cons True by (simp add: selected_minor_def add.assoc)
  next
    case False
    then show ?thesis using Cons by (simp add: selected_minor_def)
  qed
qed simp

section \<open>The invariant\<close>

definition settled_status :: "nat \<Rightarrow> nat \<Rightarrow> payment_status" where
  "settled_status succeeded captured =
     (if succeeded = 0 then Payment_Captured
      else if succeeded = captured then Payment_Refunded
      else Payment_PartiallyRefunded)"

definition refunds_ok :: "money \<Rightarrow> refund list \<Rightarrow> bool" where
  "refunds_ok c rs \<longleftrightarrow> distinct (map rf_id rs)
     \<and> list_all (\<lambda>r. money_currency (rf_amount r) = money_currency c) rs
     \<and> reserved_total rs \<le> minor c"

definition payment_ok :: "payment \<Rightarrow> bool" where
  "payment_ok p \<longleftrightarrow> ledger_ok (pay_events p) \<and> money_ok (requested_amount p)
     \<and> (case captured_amount p of
          None \<Rightarrow> refunds p = []
            \<and> pay_status p \<in> {Payment_Pending, Payment_Authorized, Payment_Failed, Payment_Canceled}
        | Some c \<Rightarrow> money_currency c = money_currency (requested_amount p)
            \<and> 0 < minor c \<and> minor c \<le> minor (requested_amount p)
            \<and> refunds_ok c (refunds p)
            \<and> pay_status p = settled_status (succeeded_total (refunds p)) (minor c))"

lemma payment_okD:
  assumes "payment_ok p" and "captured_amount p = Some c"
  shows "refunds_ok c (refunds p)" "money_ok c" "0 < minor c" "minor c \<le> minor (requested_amount p)"
    "pay_status p = settled_status (succeeded_total (refunds p)) (minor c)"
  using assms by (simp_all add: payment_ok_def money_ok_def)

lemma refunds_ok_sum:
  assumes "refunds_ok c rs" and "money_ok c" and "refund_total sel rs \<le> reserved_total rs"
  shows "sum_refunds sel \<lparr>money_currency = money_currency c, minor = 0\<rparr> rs
    = Ok \<lparr>money_currency = money_currency c, minor = refund_total sel rs\<rparr>"
  using sum_refunds_Ok [of "\<lparr>money_currency = money_currency c, minor = 0\<rparr>" rs sel] assms
  by (simp add: refunds_ok_def money_ok_def)

lemma refundable_amount_captured:
  assumes "refunds_ok c (refunds p)" and "money_ok c" and "captured_amount p = Some c"
  shows "refundable_amount p
    = Ok \<lparr>money_currency = money_currency c, minor = minor c - reserved_total (refunds p)\<rparr>"
  using refunds_ok_sum [OF assms(1,2), of "\<lambda>s. s \<noteq> Refund_Failed"] assms
  by (simp add: refundable_amount_def money_new_def money_sub_Ok refunds_ok_def)

lemma recompute_refund_status_captured:
  assumes "refunds_ok c (refunds p)" and "money_ok c" and "captured_amount p = Some c"
  shows "recompute_refund_status p
    = Ok (p\<lparr>pay_status := settled_status (succeeded_total (refunds p)) (minor c)\<rparr>)"
  using refunds_ok_sum [OF assms(1,2) succeeded_le_reserved] assms(3)
  by (simp add: recompute_refund_status_def money_new_def settled_status_def)

section \<open>The operations keep the invariant\<close>

lemma open_not_captured: "payment_ok p \<Longrightarrow> open_payment p \<Longrightarrow> captured_amount p = None"
  by (cases "captured_amount p") (auto simp: payment_ok_def open_payment_def settled_status_def split: if_splits)

lemma not_captured_status:
  assumes "payment_ok p" and "captured_amount p = None"
    and "st \<in> {Payment_Authorized, Payment_Failed, Payment_Canceled}"
  shows "payment_ok (p\<lparr>pay_status := st\<rparr>)"
  using assms by (auto simp: payment_ok_def)

lemma mark_authorized_ok: "mark_authorized p = Ok p' \<Longrightarrow> payment_ok p \<Longrightarrow> payment_ok p'"
  using open_not_captured not_captured_status
  by (auto simp: mark_authorized_def open_payment_def split: if_splits)

lemma mark_failed_ok: "mark_failed p = Ok p' \<Longrightarrow> payment_ok p \<Longrightarrow> payment_ok p'"
  using open_not_captured not_captured_status by (auto simp: mark_failed_def split: if_splits)

lemma payment_cancel_ok: "payment_cancel p = Ok p' \<Longrightarrow> payment_ok p \<Longrightarrow> payment_ok p'"
  using open_not_captured not_captured_status by (auto simp: payment_cancel_def split: if_splits)

lemma record_capture_cases:
  assumes "record_capture ev amount reference at_ms p = Ok (a, p')"
  obtains (Applied) l where "a = Applied" "open_payment p" "record_event ev (pay_events p) = Ok l"
      "0 < minor amount" "money_currency amount = money_currency (requested_amount p)"
      "minor amount \<le> minor (requested_amount p)"
      "p' = p\<lparr>pay_events := l, captured_amount := Some amount, pay_provider_reference := Some reference,
              captured_at_ms := Some at_ms, pay_status := Payment_Captured\<rparr>"
    | (Duplicate) "a = Duplicate" "p' = p"
proof -
  obtain c where c: "classify (pay_events p) ev = Ok c"
    using assms by (auto simp: record_capture_def ffdb_result)
  show thesis
  proof (cases c)
    case Class_New
    from assms c Class_New obtain l where "record_event ev (pay_events p) = Ok l" "open_payment p"
        "0 < minor amount" "money_currency amount = money_currency (requested_amount p)"
        "\<not> minor amount > minor (requested_amount p)"
      by (auto simp: record_capture_def ffdb_result split: if_split_asm)
    with assms c Class_New show thesis
      by (intro Applied) (auto simp: record_capture_def require_positive_money_def ensure_same_currency_def)
  next
    case Class_Duplicate
    with assms c show thesis by (intro Duplicate) (simp_all add: record_capture_def)
  qed
qed

lemma record_capture_ok:
  assumes "record_capture ev amount reference at_ms p = Ok (a, p')" and ok: "payment_ok p"
  shows "payment_ok p'"
  using assms(1)
proof (cases rule: record_capture_cases)
  case (Applied l)
  have "refunds p = []"
    using ok open_not_captured [OF ok Applied(2)] by (simp add: payment_ok_def)
  moreover have "ledger_ok l"
    using ok record_event_ledger_ok [OF Applied(3)] by (simp add: payment_ok_def)
  ultimately show ?thesis
    using ok Applied(4-7) by (simp add: payment_ok_def refunds_ok_def settled_status_def)
qed (use ok in simp)

lemma request_refund_cases:
  assumes "request_refund merchant i amount at_ms p = Ok p'"
  obtains available where "refundable_amount p = Ok available" "0 < minor amount"
    "money_currency amount = money_currency available" "minor amount \<le> minor available"
    "i \<notin> rf_id ` set (refunds p)"
    "p' = p\<lparr>refunds := refunds p @ [\<lparr>rf_id = i, rf_amount = amount, rf_status = Refund_Requested,
              rf_requested_at_ms = at_ms, rf_settled_at_ms = None, rf_provider_reference = None\<rparr>]\<rparr>"
  using assms
  by (fastforce simp: request_refund_def ffdb_result list_ex_iff split: if_split_asm)

lemma request_refund_ok:
  assumes "request_refund merchant i amount at_ms p = Ok p'" and ok: "payment_ok p"
  shows "payment_ok p'"
proof -
  obtain available where a: "refundable_amount p = Ok available"
      "money_currency amount = money_currency available" "minor amount \<le> minor available"
      "i \<notin> rf_id ` set (refunds p)"
    and p': "p' = p\<lparr>refunds := refunds p @ [\<lparr>rf_id = i, rf_amount = amount, rf_status = Refund_Requested,
              rf_requested_at_ms = at_ms, rf_settled_at_ms = None, rf_provider_reference = None\<rparr>]\<rparr>"
    using assms(1) by (rule request_refund_cases)
  obtain c where c: "captured_amount p = Some c"
    using a(1) by (auto simp: refundable_amount_def ffdb_result)
  note okc = payment_okD [OF ok c]
  have "available = \<lparr>money_currency = money_currency c, minor = minor c - reserved_total (refunds p)\<rparr>"
    using refundable_amount_captured [OF okc(1,2) c] a(1) by simp
  then have "refunds_ok c (refunds p')"
    using okc(1) a(2-4) by (auto simp: p' refunds_ok_def selected_minor_def)
  moreover have "succeeded_total (refunds p') = succeeded_total (refunds p)"
    by (simp add: p' selected_minor_def)
  ultimately show ?thesis
    using ok okc c by (simp add: payment_ok_def p')
qed

lemma position_Some: "position P xs = Some i \<Longrightarrow> i < length xs \<and> P (xs ! i)"
  by (induction xs arbitrary: i) (auto split: if_splits)

lemma refund_outcome_simps [simp]:
  "rf_id (refund_outcome oc at_ms r) = rf_id r" "rf_amount (refund_outcome oc at_ms r) = rf_amount r"
  by (cases oc; simp add: refund_outcome_def)+

lemma refunds_ok_update:
  assumes "refunds_ok c rs" and "i < length rs" and "rf_status (rs ! i) = Refund_Requested"
  shows "refunds_ok c (rs[i := refund_outcome oc at_ms (rs ! i)])"
proof -
  let ?r = "refund_outcome oc at_ms (rs ! i)"
  have "selected_minor (\<lambda>s. s \<noteq> Refund_Failed) ?r \<le> selected_minor (\<lambda>s. s \<noteq> Refund_Failed) (rs ! i)"
    using assms(3) by (cases oc) (simp_all add: selected_minor_def refund_outcome_def)
  then have "reserved_total (rs[i := ?r]) \<le> reserved_total rs"
    using refund_total_update [OF assms(2), of "\<lambda>s. s \<noteq> Refund_Failed" ?r] by simp
  moreover have "map rf_id (rs[i := ?r]) = map rf_id rs"
    using assms(2) list_update_id [of "map rf_id rs" i] by (simp add: map_update)
  moreover have "list_all (\<lambda>r. money_currency (rf_amount r) = money_currency c) (rs[i := ?r])"
    using assms(1,2) by (auto simp: refunds_ok_def list_all_length nth_list_update)
  ultimately show ?thesis
    using assms(1) by (simp add: refunds_ok_def)
qed

text \<open>
  Settling either does nothing, or records the event, settles exactly one requested refund and
  recomputes the status; once the event is recorded no error can follow.
\<close>

lemma settle_refund_cases:
  assumes "settle_refund i ev outcome at_ms p = (r, p')" and ok: "payment_ok p"
  obtains (Unchanged) "p' = p" "r \<noteq> Ok Applied"
    | (Settled) index c l where "r = Ok Applied" "index < length (refunds p)"
        "rf_status (refunds p ! index) = Refund_Requested" "rf_id (refunds p ! index) = i"
        "captured_amount p = Some c"
        "record_event ev (pay_events p) = Ok l"
        "p' = p\<lparr>pay_events := l,
             refunds := (refunds p)[index := refund_outcome outcome at_ms (refunds p ! index)],
             pay_status := settled_status
               (succeeded_total ((refunds p)[index := refund_outcome outcome at_ms (refunds p ! index)]))
               (minor c)\<rparr>"
proof (cases "classify (pay_events p) ev = Ok Class_New \<and> position (\<lambda>r. rf_id r = i) (refunds p) \<noteq> None
    \<and> rf_status (refunds p ! the (position (\<lambda>r. rf_id r = i) (refunds p))) = Refund_Requested")
  case True
  then obtain index where index: "position (\<lambda>r. rf_id r = i) (refunds p) = Some index" by blast
  note at = position_Some [OF index]
  obtain c where c: "captured_amount p = Some c"
    using at ok by (cases "captured_amount p") (auto simp: payment_ok_def)
  obtain l where l: "record_event ev (pay_events p) = Ok l"
    using True by (simp add: record_event_Ok)
  let ?p = "p\<lparr>pay_events := l, refunds := (refunds p)[index := refund_outcome outcome at_ms (refunds p ! index)]\<rparr>"
  have "refunds_ok c (refunds ?p)"
    using refunds_ok_update [OF payment_okD(1) [OF ok c]] at True index by simp
  then have "recompute_refund_status ?p
      = Ok (?p\<lparr>pay_status := settled_status (succeeded_total (refunds ?p)) (minor c)\<rparr>)"
    using payment_okD(2) [OF ok c] c by (intro recompute_refund_status_captured) simp_all
  then show thesis
    using assms(1) True index at c l by (intro Settled [of index c l]) (simp_all add: settle_refund_def Let_def)
next
  case False
  then show thesis
    using assms(1)
    by (intro Unchanged)
      (auto simp: settle_refund_def split: sum.split_asm event_classification.split_asm option.split_asm if_split_asm)
qed

lemma settle_refund_ok:
  assumes "settle_refund i ev outcome at_ms p = (r, p')" and ok: "payment_ok p"
  shows "payment_ok p'"
  using assms
proof (cases rule: settle_refund_cases)
  case (Settled index c l)
  have "ledger_ok l"
    using ok record_event_ledger_ok [OF Settled(6)] by (simp add: payment_ok_def)
  then show ?thesis
    using ok Settled(5) refunds_ok_update [OF payment_okD(1) [OF ok Settled(5)] Settled(2,3)]
    by (simp add: Settled(7) payment_ok_def)
qed (use ok in simp)

section \<open>Reachable payments\<close>

inductive payment_step :: "payment \<Rightarrow> payment \<Rightarrow> bool" where
  authorize: "mark_authorized p = Ok p' \<Longrightarrow> payment_step p p'"
| capture: "record_capture ev amount reference at_ms p = Ok (a, p') \<Longrightarrow> payment_step p p'"
| fail: "mark_failed p = Ok p' \<Longrightarrow> payment_step p p'"
| cancel: "payment_cancel p = Ok p' \<Longrightarrow> payment_step p p'"
| refund: "request_refund merchant i amount at_ms p = Ok p' \<Longrightarrow> payment_step p p'"
| settle: "settle_refund i ev outcome at_ms p = (r, p') \<Longrightarrow> payment_step p p'"

inductive_cases payment_stepE: "payment_step p p'"

definition payment_init :: "payment \<Rightarrow> bool" where
  "payment_init p \<longleftrightarrow>
     (\<exists>i ord amount t. money_ok amount \<and> payment_new i ord amount t = Ok p)
     \<or> (\<exists>i merchant s t. payment_for_subscription i merchant s t = Ok p)"

lemma payment_of_ok: "money_ok amount \<Longrightarrow> payment_ok (payment_of i pr m t amount at_ms)"
  by (simp add: payment_of_def payment_ok_def)

lemma payment_init_ok: "payment_init p \<Longrightarrow> payment_ok p"
  by (auto simp: payment_init_def payment_new_def payment_for_subscription_def ffdb_result money_mul_Ok
      split: if_split_asm intro!: payment_of_ok) (simp add: money_ok_def)

lemma payment_step_ok: "payment_step p p' \<Longrightarrow> payment_ok p \<Longrightarrow> payment_ok p'"
  by (erule payment_stepE)
    (auto intro: mark_authorized_ok mark_failed_ok payment_cancel_ok record_capture_ok request_refund_ok
      settle_refund_ok)

interpretation payment: transition_system payment_init payment_step payment_ok
  by unfold_locales (fact payment_init_ok, fact payment_step_ok)

end
