(* ===== verification/Commerce_Properties.thy ===== *)
theory Commerce_Properties
  imports Commerce_Invariant
begin

text \<open>
  The properties of the commerce domain: exactly-once, in-order events; refunds bounded by captures;
  order totals; fulfilment only of paid orders, and how a repeated payment defeats it; the
  subscription life cycle; checkout.
\<close>

section \<open>Sample data\<close>

definition demo_usd :: "nat \<Rightarrow> money" where
  "demo_usd n = \<lparr>money_currency = Currency ''USD'', minor = n\<rparr>"

definition demo_merchant :: merchant_account where
  "demo_merchant = set_provider_state Merchant_Active [OneTimePayments, RecurringPayments, Refunds]
     (merchant_new 1 7 (BringYourOwnCredentials (SecretReference ''secret://p'')))"

definition demo_product :: product where
  "demo_product = \<lparr>pr_id = 2, pr_project_id = 7, pr_name = ''Keyboard'', pr_description = None,
     pr_status = Product_Active\<rparr>"

definition demo_price :: price where
  "demo_price = \<lparr>price_id = 3, price_project_id = 7, price_product_id = 2,
     price_terms_of = \<lparr>pt_amount = demo_usd 5000, pt_kind = OneTime, pt_entitlements = []\<rparr>, price_active = True\<rparr>"

definition demo_line :: order_line where
  "demo_line = \<lparr>ol_project_id = 7, ol_product_id = 2, ol_price_id = 3, ol_product_name = ''Keyboard'',
     ol_unit_amount = demo_usd 5000, ol_quantity = 2, ol_total = demo_usd 10000\<rparr>"

definition demo_order :: order where
  "demo_order = \<lparr>or_id = 4, or_project_id = 7, or_merchant_account_id = 1, or_lines = [demo_line],
     or_total = demo_usd 10000, or_status = Order_AwaitingPayment, or_created_at_ms = 100,
     or_fulfilled_at_ms = None\<rparr>"

definition demo_event :: "string \<Rightarrow> nat \<Rightarrow> event_envelope" where
  "demo_event key n = \<lparr>ev_key = EventKey ''stripe'' key, ev_stream = ''payments'', ev_sequence = n,
     ev_payload_sha256 = key, ev_occurred_at_ms = 0\<rparr>"

definition demo_payment :: "nat \<Rightarrow> payment" where
  "demo_payment n = payment_of 5 7 1 (Target_Order 4) (demo_usd n) 100"

definition demo_captured :: "nat \<Rightarrow> payment" where
  "demo_captured n = (case record_capture (demo_event ''c'' 1) (demo_usd n) (ProviderReference ''r'') 110
     (demo_payment n) of Inr (_, p) \<Rightarrow> p | Inl _ \<Rightarrow> demo_payment n)"

section \<open>The event ledger\<close>

text \<open>Offering events one after the other; a refused event leaves the ledger as it was.\<close>

fun offer_all :: "event_envelope list \<Rightarrow> event_ledger \<Rightarrow> event_envelope list \<times> event_ledger" where
  "offer_all [] l = ([], l)"
| "offer_all (ev # evs) l =
     (case accept ev l of
        Inr (Applied, l') \<Rightarrow> (let (applied, l'') = offer_all evs l' in (ev # applied, l''))
      | _ \<Rightarrow> offer_all evs l)"

definition in_stream :: "string \<Rightarrow> event_envelope list \<Rightarrow> nat list" where
  "in_stream s evs = map ev_sequence (filter (\<lambda>ev. ev_stream ev = s) evs)"

lemma accept_Applied: "accept ev l = Ok (Applied, l') \<longleftrightarrow> record_event ev l = Ok l'"
  by (cases "classify l ev")
    (auto simp: accept_def record_event_def ffdb_result split: event_classification.splits)

lemma offer_all_Cons:
  "offer_all (ev # evs) l =
     (case record_event ev l of
        Inr l' \<Rightarrow> (ev # fst (offer_all evs l'), snd (offer_all evs l'))
      | Inl _ \<Rightarrow> offer_all evs l)"
proof (cases "record_event ev l")
  case (Inr l')
  then have "accept ev l = Ok (Applied, l')" by (simp add: accept_Applied)
  then show ?thesis using Inr by (simp add: case_prod_unfold Let_def)
next
  case (Inl e)
  then have "\<And>l'. accept ev l \<noteq> Ok (Applied, l')" by (simp add: accept_Applied)
  then show ?thesis
    using Inl by (auto split: sum.splits event_application.splits)
qed

lemma offer_all_le: "ledger_le l (snd (offer_all evs l))"
proof (induction evs arbitrary: l)
  case (Cons ev evs)
  then show ?case
    by (auto simp: offer_all_Cons simp del: offer_all.simps split: sum.splits
        intro: ledger_le_trans record_event_le)
qed simp

lemma offer_all_fresh:
  assumes "ev \<in> set (fst (offer_all evs l))"
  shows "bt_get (accepted l) (ev_key ev) = None \<and> (\<forall>n. last_sequence l (ev_stream ev) = Some n \<longrightarrow> n < ev_sequence ev)"
  using assms
proof (induction evs arbitrary: l)
  case (Cons e evs)
  show ?case
  proof (cases "record_event e l")
    case (Inl x)
    then show ?thesis using Cons by (simp add: offer_all_Cons del: offer_all.simps)
  next
    case (Inr l')
    then have new: "classify l e = Ok Class_New"
      and l': "l' = l\<lparr>accepted := bt_insert (ev_key e) (record_of e) (accepted l),
              stream_sequences := bt_insert (ev_stream e) (ev_sequence e) (stream_sequences l)\<rparr>"
      by (simp_all add: record_event_Ok)
    show ?thesis
    proof (cases "ev = e")
      case True
      then show ?thesis using new by (simp add: classify_New)
    next
      case False
      then have "ev \<in> set (fst (offer_all evs l'))"
        using Cons.prems Inr by (simp add: offer_all_Cons del: offer_all.simps)
      from Cons.IH [OF this] show ?thesis
        using new by (auto simp: l' bt_get_insert classify_New last_sequence_def split: if_splits)
    qed
  qed
qed simp

lemma offer_all_ordered:
  "distinct (map ev_key (fst (offer_all evs l))) \<and> (\<forall>s. sorted_wrt (<) (in_stream s (fst (offer_all evs l))))"
proof (induction evs arbitrary: l)
  case (Cons e evs)
  show ?case
  proof (cases "record_event e l")
    case (Inl x)
    then show ?thesis using Cons by (simp add: offer_all_Cons del: offer_all.simps)
  next
    case (Inr l')
    then have l': "l' = l\<lparr>accepted := bt_insert (ev_key e) (record_of e) (accepted l),
              stream_sequences := bt_insert (ev_stream e) (ev_sequence e) (stream_sequences l)\<rparr>"
      by (simp add: record_event_Ok)
    have fresh: "ev_key ev \<noteq> ev_key e \<and> (ev_stream ev = ev_stream e \<longrightarrow> ev_sequence e < ev_sequence ev)"
      if "ev \<in> set (fst (offer_all evs l'))" for ev
      using offer_all_fresh [OF that] by (auto simp: l' bt_get_insert last_sequence_def split: if_splits)
    then have "ev_key e \<notin> ev_key ` set (fst (offer_all evs l'))" by force
    then show ?thesis
      using Cons [of l'] fresh Inr
      by (auto simp: offer_all_Cons in_stream_def simp del: offer_all.simps)
  qed
qed (simp add: in_stream_def)

text \<open>
  C11. The ledger applies every event at most once and in order: of any sequence of offered events,
  those applied have pairwise different keys and strictly increasing sequence numbers within each
  stream, and offering an applied event again is answered as a duplicate that changes nothing.
\<close>

theorem ledger_applies_once_in_order:
  assumes "offer_all events ledger_default = (applied, l)"
  shows "distinct (map ev_key applied) \<and> (\<forall>s. sorted_wrt (<) (in_stream s applied))
    \<and> list_all (\<lambda>ev. accept ev l = Ok (Duplicate, l)) applied"
proof -
  have "accept ev (snd (offer_all evs l0)) = Ok (Duplicate, snd (offer_all evs l0))"
    if "ev \<in> set (fst (offer_all evs l0))" for ev evs l0
    using that
  proof (induction evs arbitrary: l0)
    case (Cons e evs)
    show ?case
    proof (cases "record_event e l0")
      case (Inl x)
      then show ?thesis using Cons by (simp add: offer_all_Cons del: offer_all.simps)
    next
      case (Inr l')
      show ?thesis
      proof (cases "ev = e")
        case True
        then have "classify (snd (offer_all evs l')) ev = Ok Class_Duplicate"
          using recorded_duplicate [OF Inr offer_all_le] by simp
        then show ?thesis using Inr by (simp add: offer_all_Cons accept_def del: offer_all.simps)
      next
        case False
        then show ?thesis using Cons Inr by (simp add: offer_all_Cons del: offer_all.simps)
      qed
    qed
  qed simp
  from this [of _ events ledger_default] show ?thesis
    using assms offer_all_ordered [of events ledger_default] by (simp add: list_all_iff)
qed

definition demo_offers :: "event_envelope list" where
  "demo_offers = [demo_event ''a'' 1, demo_event ''b'' 3, demo_event ''a'' 1, demo_event ''d'' 2, demo_event ''e'' 4]"

theorem ledger_applies_once_in_order_witness:
  "distinct (map ev_key [demo_event ''a'' 1, demo_event ''b'' 3, demo_event ''e'' 4])
    \<and> (\<forall>s. sorted_wrt (<) (in_stream s [demo_event ''a'' 1, demo_event ''b'' 3, demo_event ''e'' 4]))
    \<and> list_all (\<lambda>ev. accept ev (snd (offer_all demo_offers ledger_default))
        = Ok (Duplicate, snd (offer_all demo_offers ledger_default)))
        [demo_event ''a'' 1, demo_event ''b'' 3, demo_event ''e'' 4]"
proof (rule ledger_applies_once_in_order)
  have "fst (offer_all demo_offers ledger_default) = [demo_event ''a'' 1, demo_event ''b'' 3, demo_event ''e'' 4]"
    by code_simp
  then show "offer_all demo_offers ledger_default
      = ([demo_event ''a'' 1, demo_event ''b'' 3, demo_event ''e'' 4], snd (offer_all demo_offers ledger_default))"
    by (metis prod.collapse)
qed

section \<open>Payments and refunds\<close>

lemma position_distinct:
  "distinct (map f xs) \<Longrightarrow> i < length xs \<Longrightarrow> f (xs ! i) = v \<Longrightarrow> position (\<lambda>x. f x = v) xs = Some i"
proof (induction xs arbitrary: i)
  case (Cons x xs)
  then show ?case by (cases i) (auto dest: nth_mem [of _ xs] intro: imageI)
qed simp

text \<open>
  C12. However captures, refunds and their settlements are interleaved, a captured payment never
  captures more than was requested, the refunds paid out and those still pending never exceed what
  was captured, its status is determined by the refunds that succeeded, and the refundable amount is
  always defined and is exactly the rest.
\<close>

theorem refunds_never_exceed_capture:
  assumes "payment_init p0" and "payment_step\<^sup>*\<^sup>* p0 p" and "captured_amount p = Some c"
  shows "minor c \<le> minor (requested_amount p) \<and> minor c \<le> MAX_MINOR_AMOUNT
    \<and> succeeded_total (refunds p) \<le> reserved_total (refunds p) \<and> reserved_total (refunds p) \<le> minor c
    \<and> pay_status p = settled_status (succeeded_total (refunds p)) (minor c)
    \<and> refundable_amount p = Ok \<lparr>money_currency = money_currency c, minor = minor c - reserved_total (refunds p)\<rparr>"
proof -
  have ok: "payment_ok p"
    using assms(1,2) by (rule payment.reachable_inv)
  note okc = payment_okD [OF ok assms(3)]
  show ?thesis
    using okc refundable_amount_captured [OF okc(1,2) assms(3)] succeeded_le_reserved [of "refunds p"]
    by (simp add: refunds_ok_def money_ok_def)
qed

definition demo_refunded :: payment where
  "demo_refunded = (case request_refund demo_merchant 9 (demo_usd 4000) 120 (demo_captured 10000) of
     Inr p \<Rightarrow> snd (settle_refund 9 (demo_event ''s'' 2) (Settle_Succeeded (ProviderReference ''x'')) 130 p)
   | Inl _ \<Rightarrow> demo_captured 10000)"

lemma demo_refunded_reachable:
  "payment_init (demo_payment 10000) \<and> payment_step\<^sup>*\<^sup>* (demo_payment 10000) demo_refunded
   \<and> captured_amount demo_refunded = Some (demo_usd 10000)"
proof (intro conjI)
  have "money_ok (demo_usd 10000)" "payment_new 5 demo_order (demo_usd 10000) 100 = Ok (demo_payment 10000)"
    by code_simp+
  then show "payment_init (demo_payment 10000)" unfolding payment_init_def by blast
  have 1: "record_capture (demo_event ''c'' 1) (demo_usd 10000) (ProviderReference ''r'') 110 (demo_payment 10000)
      = Ok (Applied, demo_captured 10000)"
    by code_simp
  obtain q where 2: "request_refund demo_merchant 9 (demo_usd 4000) 120 (demo_captured 10000) = Ok q"
    by (cases "request_refund demo_merchant 9 (demo_usd 4000) 120 (demo_captured 10000)") (code_simp, simp)
  then have 3: "settle_refund 9 (demo_event ''s'' 2) (Settle_Succeeded (ProviderReference ''x'')) 130 q
      = (fst (settle_refund 9 (demo_event ''s'' 2) (Settle_Succeeded (ProviderReference ''x'')) 130 q), demo_refunded)"
    by (simp add: demo_refunded_def)
  have "payment_step (demo_payment 10000) (demo_captured 10000)" using 1 by (rule payment_step.capture)
  moreover have "payment_step (demo_captured 10000) q" using 2 by (rule payment_step.refund)
  moreover have "payment_step q demo_refunded" using 3 by (rule payment_step.settle)
  ultimately show "payment_step\<^sup>*\<^sup>* (demo_payment 10000) demo_refunded"
    by (meson r_into_rtranclp rtranclp.rtrancl_into_rtrancl)
  show "captured_amount demo_refunded = Some (demo_usd 10000)" by code_simp
qed

lemma demo_captured_ok: "payment_ok (demo_captured 10000)"
proof -
  have "payment_init (demo_payment 10000)" using demo_refunded_reachable by blast
  moreover have "payment_step (demo_payment 10000) (demo_captured 10000)"
    by (rule payment_step.capture [where ev = "demo_event ''c'' 1" and amount = "demo_usd 10000"
          and reference = "ProviderReference ''r''" and at_ms = 110 and a = Applied]) code_simp
  ultimately show ?thesis using payment_init_ok payment_step_ok by blast
qed

theorem refunds_never_exceed_capture_witness:
  "minor (demo_usd 10000) \<le> minor (requested_amount demo_refunded) \<and> minor (demo_usd 10000) \<le> MAX_MINOR_AMOUNT
    \<and> succeeded_total (refunds demo_refunded) \<le> reserved_total (refunds demo_refunded)
    \<and> reserved_total (refunds demo_refunded) \<le> minor (demo_usd 10000)
    \<and> pay_status demo_refunded = settled_status (succeeded_total (refunds demo_refunded)) (minor (demo_usd 10000))
    \<and> refundable_amount demo_refunded = Ok \<lparr>money_currency = money_currency (demo_usd 10000),
        minor = minor (demo_usd 10000) - reserved_total (refunds demo_refunded)\<rparr>"
  using refunds_never_exceed_capture demo_refunded_reachable by blast

text \<open>
  Settling is exactly once: a settlement that is applied turns one requested refund into a
  succeeded or failed one and records its event; the same settlement sent again, under the same event,
  is a duplicate that changes nothing, and under a new event it is refused.
\<close>

theorem refund_settles_exactly_once:
  assumes "payment_ok p" and "settle_refund i ev outcome at_ms p = (Ok Applied, p')"
  shows "settle_refund i ev outcome at_ms' p' = (Ok Duplicate, p')
    \<and> (\<forall>ev' outcome'. classify (pay_events p') ev' = Ok Class_New \<longrightarrow>
         settle_refund i ev' outcome' at_ms' p' = (Err RefundAlreadySettled, p'))"
  using assms(2,1)
proof (cases rule: settle_refund_cases)
  case (Settled index c l)
  have ids: "map rf_id (refunds p') = map rf_id (refunds p)"
    using Settled(2) list_update_id [of "map rf_id (refunds p)" index] by (simp add: Settled(7) map_update)
  have "distinct (map rf_id (refunds p'))"
    using payment_okD(1) [OF assms(1) Settled(5)] by (simp add: ids refunds_ok_def)
  moreover have index: "index < length (refunds p')" "rf_id (refunds p' ! index) = i"
    using Settled(2,4) by (simp_all add: Settled(7))
  ultimately have pos: "position (\<lambda>r. rf_id r = i) (refunds p') = Some index"
    by (rule position_distinct)
  have "rf_status (refunds p' ! index) \<noteq> Refund_Requested"
    using Settled(2) by (cases outcome) (simp_all add: Settled(7) refund_outcome_def)
  moreover have "classify (pay_events p') ev = Ok Class_Duplicate"
    using recorded_duplicate [OF Settled(6) ledger_le_refl] by (simp add: Settled(7))
  ultimately show ?thesis
    using pos by (simp add: settle_refund_def)
qed simp

definition demo_requested :: payment where
  "demo_requested = (case request_refund demo_merchant 9 (demo_usd 4000) 120 (demo_captured 10000) of
     Inr p \<Rightarrow> p | Inl _ \<Rightarrow> demo_captured 10000)"

theorem refund_settles_exactly_once_witness:
  "settle_refund 9 (demo_event ''s'' 2) Settle_Failed 140
     (snd (settle_refund 9 (demo_event ''s'' 2) Settle_Failed 130 demo_requested))
   = (Ok Duplicate, snd (settle_refund 9 (demo_event ''s'' 2) Settle_Failed 130 demo_requested))"
proof -
  have "payment_step (demo_captured 10000) demo_requested"
    by (rule payment_step.refund [where merchant = demo_merchant and i = 9 and amount = "demo_usd 4000"
          and at_ms = 120]) code_simp
  then have ok: "payment_ok demo_requested"
    using demo_captured_ok by (rule payment_step_ok)
  have "fst (settle_refund 9 (demo_event ''s'' 2) Settle_Failed 130 demo_requested) = Ok Applied"
    by code_simp
  then have "settle_refund 9 (demo_event ''s'' 2) Settle_Failed 130 demo_requested
      = (Ok Applied, snd (settle_refund 9 (demo_event ''s'' 2) Settle_Failed 130 demo_requested))"
    by (metis prod.collapse)
  then show ?thesis using refund_settles_exactly_once [OF ok] by blast
qed

section \<open>Orders\<close>

lemma sum_lines_Ok:
  "sum_lines project acc ls = Ok t \<Longrightarrow>
     minor t = minor acc + sum_list (map (minor \<circ> ol_total) ls) \<and> money_currency t = money_currency acc
     \<and> (ls \<noteq> [] \<longrightarrow> minor t \<le> MAX_MINOR_AMOUNT)
     \<and> list_all (\<lambda>l. ol_project_id l = project \<and> money_currency (ol_total l) = money_currency acc) ls"
proof (induction ls arbitrary: acc)
  case (Cons l ls)
  obtain acc' where a: "ol_project_id l = project" "money_add acc (ol_total l) = Ok acc'"
      "sum_lines project acc' ls = Ok t"
    using Cons.prems by (auto simp: ffdb_result split: if_split_asm)
  then show ?case
    using Cons.IH [OF a(3)] by (cases ls) (auto simp: money_add_Ok)
qed simp

text \<open>
  The total of an order is exactly the sum over its lines of unit price times quantity, is
  positive and within the range of amounts that are exact in JSON, and all lines belong to the
  merchant's project and share one currency. Nothing wraps around: an order whose total does not fit is
  refused.
\<close>

theorem order_total_is_exact:
  assumes "order_new i merchant ls at_ms = Ok ord"
    and "list_all (\<lambda>l. \<exists>product price q. line_from_price product price q = Ok l) ls"
  shows "minor (or_total ord) = sum_list (map (\<lambda>l. minor (ol_unit_amount l) * ol_quantity l) ls)
    \<and> 0 < minor (or_total ord) \<and> minor (or_total ord) \<le> MAX_MINOR_AMOUNT
    \<and> list_all (\<lambda>l. ol_project_id l = or_project_id ord
        \<and> money_currency (ol_total l) = money_currency (or_total ord)) (or_lines ord)"
proof -
  obtain first rest t where ls: "ls = first # rest"
    and t: "sum_lines (ma_project_id merchant) \<lparr>money_currency = money_currency (ol_total first), minor = 0\<rparr> ls = Ok t"
    and ord: "0 < minor t" "or_total ord = t" "or_lines ord = ls" "or_project_id ord = ma_project_id merchant"
    using assms(1) by (auto simp: order_new_def ffdb_result split: list.split_asm)
  have "minor (ol_total l) = minor (ol_unit_amount l) * ol_quantity l" if "l \<in> set ls" for l
    using that assms(2) by (auto simp: list_all_iff line_from_price_def ffdb_result money_mul_Ok split: if_split_asm)
  then have "sum_list (map (minor \<circ> ol_total) ls) = sum_list (map (\<lambda>l. minor (ol_unit_amount l) * ol_quantity l) ls)"
    by (simp cong: map_cong)
  then show ?thesis
    using sum_lines_Ok [OF t] ord ls by simp
qed

theorem order_total_is_exact_witness:
  "minor (or_total demo_order) = sum_list (map (\<lambda>l. minor (ol_unit_amount l) * ol_quantity l) [demo_line])
    \<and> 0 < minor (or_total demo_order) \<and> minor (or_total demo_order) \<le> MAX_MINOR_AMOUNT
    \<and> list_all (\<lambda>l. ol_project_id l = or_project_id demo_order
        \<and> money_currency (ol_total l) = money_currency (or_total demo_order)) (or_lines demo_order)"
proof (rule order_total_is_exact)
  show "order_new 4 demo_merchant [demo_line] 100 = Ok demo_order" by code_simp
  have "line_from_price demo_product demo_price 2 = Ok demo_line" by code_simp
  then show "list_all (\<lambda>l. \<exists>product price q. line_from_price product price q = Ok l) [demo_line]" by auto
qed

text \<open>What a payment still holds for its order.\<close>

definition held :: "payment \<Rightarrow> nat" where
  "held p = (case captured_amount p of None \<Rightarrow> 0 | Some c \<Rightarrow> minor c - reserved_total (refunds p))"

lemma fulfillable_held:
  assumes "payment_ok p" and "fulfillable_amount p = Ok a"
  shows "minor a = held p \<and> captured_amount p \<noteq> None"
proof -
  obtain c where c: "captured_amount p = Some c"
    using assms(2) by (auto simp: fulfillable_amount_def refundable_amount_def ffdb_result split: if_split_asm)
  show ?thesis
    using assms(2) refundable_amount_captured [OF payment_okD(1,2) [OF assms(1) c] c] c
    by (auto simp: fulfillable_amount_def held_def split: if_split_asm)
qed

lemma sum_payments_held:
  "sum_payments ord acc ps = Ok t \<Longrightarrow> list_all payment_ok ps \<Longrightarrow>
     minor t = minor acc + sum_list (map held ps)
     \<and> list_all (\<lambda>p. order_id p = Some (or_id ord) \<and> captured_amount p \<noteq> None) ps"
proof (induction ps arbitrary: acc)
  case (Cons p ps)
  obtain a acc' where a: "order_id p = Some (or_id ord)" "fulfillable_amount p = Ok a"
      "money_add acc a = Ok acc'" "sum_payments ord acc' ps = Ok t"
    using Cons.prems(1) by (auto simp: ffdb_result split: if_split_asm)
  then show ?case
    using Cons.IH [OF a(4)] Cons.prems(2) fulfillable_held [OF _ a(2)] by (auto simp: money_add_Ok)
qed simp

text \<open>
  Fulfilment of an order begins only when it is paid: the order was verified as paid before, all
  the payments presented are captured payments of this order, and what they hold after successful and
  pending refunds covers its total at that moment.
\<close>

theorem fulfillment_requires_held_funds:
  assumes "begin_fulfillment ps ord = Ok ord'" and "list_all payment_ok ps"
  shows "or_status ord = Order_Paid \<and> or_status ord' = Order_FulfillmentInProgress
    \<and> list_all (\<lambda>p. order_id p = Some (or_id ord) \<and> captured_amount p \<noteq> None) ps
    \<and> minor (or_total ord) \<le> sum_list (map held ps)"
proof -
  obtain t where "sum_payments ord \<lparr>money_currency = money_currency (or_total ord), minor = 0\<rparr> ps = Ok t"
      "\<not> minor t < minor (or_total ord)"
    and ord: "or_status ord = Order_Paid" "ord' = ord\<lparr>or_status := Order_FulfillmentInProgress\<rparr>"
    using assms(1) by (auto simp: begin_fulfillment_def ensure_order_paid_def ffdb_result split: if_split_asm)
  then show ?thesis
    using sum_payments_held [OF _ assms(2)] by fastforce
qed

theorem fulfillment_requires_held_funds_witness:
  "or_status (demo_order\<lparr>or_status := Order_Paid\<rparr>) = Order_Paid
    \<and> or_status (demo_order\<lparr>or_status := Order_FulfillmentInProgress\<rparr>) = Order_FulfillmentInProgress
    \<and> list_all (\<lambda>p. order_id p = Some (or_id (demo_order\<lparr>or_status := Order_Paid\<rparr>)) \<and> captured_amount p \<noteq> None)
        [demo_captured 10000]
    \<and> minor (or_total (demo_order\<lparr>or_status := Order_Paid\<rparr>)) \<le> sum_list (map held [demo_captured 10000])"
proof (rule fulfillment_requires_held_funds)
  show "begin_fulfillment [demo_captured 10000] (demo_order\<lparr>or_status := Order_Paid\<rparr>)
      = Ok (demo_order\<lparr>or_status := Order_FulfillmentInProgress\<rparr>)"
    by code_simp
  show "list_all payment_ok [demo_captured 10000]"
    using demo_captured_ok by simp
qed

text \<open>
  The payments are presented as a list in which one payment may occur twice, and each occurrence
  counts: a single payment that covers half of an order verifies the order as paid when it is listed
  twice.
\<close>

theorem repeated_payment_verifies_order:
  assumes "or_status ord = Order_AwaitingPayment" and "pay_project_id p = or_project_id ord"
    and "order_id p = Some (or_id ord)" and "fulfillable_amount p = Ok a"
    and "money_currency a = money_currency (or_total ord)"
    and "minor a < minor (or_total ord)" and "minor (or_total ord) \<le> 2 * minor a"
    and "2 * minor a \<le> MAX_MINOR_AMOUNT"
  shows "verify_paid [p] ord = Err InsufficientVerifiedPayment
    \<and> verify_paid [p, p] ord = Ok (ord\<lparr>or_status := Order_Paid\<rparr>)"
proof -
  let ?m = "\<lambda>n. \<lparr>money_currency = money_currency (or_total ord), minor = n\<rparr>"
  have "money_add (?m 0) a = Ok (?m (minor a))" "money_add (?m (minor a)) a = Ok (?m (2 * minor a))"
    using assms(5,8) by (simp_all add: money_add_Ok)
  then show ?thesis
    using assms by (simp add: verify_paid_def ensure_order_paid_def money_new_def)
qed

theorem repeated_payment_verifies_order_witness:
  "verify_paid [demo_captured 5000] demo_order = Err InsufficientVerifiedPayment
    \<and> verify_paid [demo_captured 5000, demo_captured 5000] demo_order
      = Ok (demo_order\<lparr>or_status := Order_Paid\<rparr>)"
proof (rule repeated_payment_verifies_order)
  show "fulfillable_amount (demo_captured 5000) = Ok (demo_usd 5000)" by code_simp
qed code_simp+

section \<open>Subscriptions and checkout\<close>

text \<open>
  C13. The life cycle of a subscription: whatever events arrive, the snapshot of the price terms taken at
  creation never changes; the end is recorded exactly when the subscription is canceled or expired;
  from then on no event changes it and it entitles to nothing; and a subscription that entitles at
  some instant has a billing period around it.
\<close>

theorem subscription_lifecycle:
  assumes "subscription_init s0" and "subscription_step\<^sup>*\<^sup>* s0 s" and "subscription_step\<^sup>*\<^sup>* s s'"
  shows "sub_terms s = sub_terms s0
    \<and> (sub_ended_at_ms s \<noteq> None \<longleftrightarrow> terminal (sub_status s))
    \<and> (terminal (sub_status s) \<longrightarrow> s' = s \<and> (\<forall>key at_ms. entitlement s key at_ms = None))
    \<and> (\<forall>at_ms. is_entitled_at s at_ms \<longrightarrow>
         (\<exists>period. sub_current_period s = Some period \<and> start_ms period \<le> at_ms \<and> at_ms < end_ms period))"
proof -
  have ok: "subscription_ok s"
    using assms(1,2) by (rule subscription.reachable_inv)
  have "entitlement s key at_ms = None" if "terminal (sub_status s)" for key at_ms
    using that by (auto simp: entitlement_def is_entitled_at_def terminal_def)
  moreover have "s' = s" if "terminal (sub_status s)"
    using terminal_run [OF assms(3) that] .
  moreover have "sub_terms s = sub_terms s0"
    using run_frame [OF assms(2)] by simp
  ultimately show ?thesis
    using ok by (auto simp: subscription_ok_def is_entitled_at_def period_contains_def split: option.splits)
qed

definition demo_monthly :: price where
  "demo_monthly = demo_price\<lparr>price_terms_of := \<lparr>pt_amount = demo_usd 700,
     pt_kind = Recurring \<lparr>interval_unit = Unit_Month, interval_count = 1\<rparr>,
     pt_entitlements = [(EntitlementKey ''seats'', Quantity 10)]\<rparr>\<rparr>"

definition demo_subscription :: subscription where
  "demo_subscription = \<lparr>sub_id = 11, sub_project_id = 7, sub_merchant_account_id = 1, sub_subject = Team 12,
     sub_terms = \<lparr>st_price_id = 3, st_product_id = 2, st_unit_amount = demo_usd 700, st_quantity = 3,
       st_interval = \<lparr>interval_unit = Unit_Month, interval_count = 1\<rparr>,
       st_entitlements = [(EntitlementKey ''seats'', Quantity 10)]\<rparr>,
     sub_status = Sub_Incomplete, sub_current_period = None, sub_events = ledger_default,
     sub_created_at_ms = 100, sub_ended_at_ms = None\<rparr>"

definition demo_canceled :: subscription where
  "demo_canceled = (case apply_event (demo_event ''x'' 1) Cancel 150 demo_subscription of
     Inr (_, s) \<Rightarrow> s | Inl _ \<Rightarrow> demo_subscription)"

theorem subscription_lifecycle_witness:
  "sub_terms demo_canceled = sub_terms demo_subscription
    \<and> sub_ended_at_ms demo_canceled \<noteq> None \<and> terminal (sub_status demo_canceled)
    \<and> (\<forall>key at_ms. entitlement demo_canceled key at_ms = None)"
proof -
  have "subscription_new 11 demo_merchant demo_monthly (Team 12) 3 100 = Ok demo_subscription" by code_simp
  then have init: "subscription_init demo_subscription" unfolding subscription_init_def by blast
  have "apply_event (demo_event ''x'' 1) Cancel 150 demo_subscription = Ok (Applied, demo_canceled)" by code_simp
  then have run: "subscription_step\<^sup>*\<^sup>* demo_subscription demo_canceled"
    by (intro r_into_rtranclp subscription_step.apply_event)
  have "terminal (sub_status demo_canceled)" by code_simp
  then show ?thesis
    using subscription_lifecycle [OF init run rtranclp.rtrancl_refl] by simp
qed

text \<open>
  A one-time checkout completes at most once, before it expires, and only with a captured payment
  of its own order whose funds, after refunds, cover the amount of the checkout; afterwards it can be
  neither completed again, nor expired, nor canceled.
\<close>

theorem checkout_completes_once_with_funds:
  assumes "complete_one_time p at_ms c = Ok c'" and "payment_ok p"
  shows "ci_status c = Checkout_Created \<and> at_ms < ci_expires_at_ms c
    \<and> (\<exists>order amount. ci_kind c = Checkout_OneTime order amount \<and> order_id p = Some order
         \<and> minor amount \<le> held p)
    \<and> ci_status c' = Checkout_Completed (Outcome_Payment (pay_id p))
    \<and> complete_one_time p' t c' = Err InvalidStateTransition
    \<and> complete_recurring s t c' = Err InvalidStateTransition
    \<and> checkout_expire t c' = Err InvalidStateTransition \<and> checkout_cancel c' = Err InvalidStateTransition"
proof -
  obtain order amount available where *: "ci_status c = Checkout_Created" "at_ms < ci_expires_at_ms c"
      "ci_kind c = Checkout_OneTime order amount" "order_id p = Some order"
      "fulfillable_amount p = Ok available" "\<not> minor available < minor amount"
    and c': "c' = c\<lparr>ci_status := Checkout_Completed (Outcome_Payment (pay_id p))\<rparr>"
    using assms(1)
    by (auto simp: complete_one_time_def ensure_completable_def ffdb_result
        split: if_split_asm checkout_kind.split_asm)
  then show ?thesis
    using fulfillable_held [OF assms(2) *(5)]
    by (simp add: complete_one_time_def complete_recurring_def checkout_expire_def checkout_cancel_def
        ensure_completable_def)
qed

definition demo_checkout :: checkout_intent where
  "demo_checkout = \<lparr>ci_id = 6, ci_project_id = 7, ci_merchant_account_id = 1,
     ci_kind = Checkout_OneTime 4 (demo_usd 10000), ci_status = Checkout_Created,
     ci_created_at_ms = 100, ci_expires_at_ms = 500\<rparr>"

theorem checkout_completes_once_with_funds_witness:
  "complete_one_time (demo_captured 10000) 450
     (demo_checkout\<lparr>ci_status := Checkout_Completed (Outcome_Payment 5)\<rparr>) = Err InvalidStateTransition"
proof -
  have "complete_one_time (demo_captured 10000) 400 demo_checkout
      = Ok (demo_checkout\<lparr>ci_status := Checkout_Completed (Outcome_Payment 5)\<rparr>)"
    by code_simp
  then show ?thesis using checkout_completes_once_with_funds demo_captured_ok by blast
qed

end
