(* ===== verification/Auth_Tokens.thy ===== *)
theory Auth_Tokens
  imports Transition_System Collections
begin

text \<open>
  \<open>crates/auth/src/opaque_token.rs\<close>, \<open>refresh.rs\<close> and \<open>one_time.rs\<close>: opaque tokens, the refresh-token
  state machine and one-time tokens.

  Base64 and HMAC-SHA256 are code outside the repository (record \<open>token_env\<close>). The operating system's
  randomness and the identifiers generated by \<open>Uuid::now_v7\<close> are arguments of the operations that
  draw them. Each store is one value behind a mutex, so that concurrent calls are a sequence of
  operations on it.
\<close>

section \<open>Opaque tokens\<close>

record token_env =
  te_b64_encode :: "string \<Rightarrow> string"
  te_b64_decode :: "string \<Rightarrow> string option"
  te_hmac :: "string \<Rightarrow> string \<Rightarrow> string option"
    \<comment> \<open>key, message; \<open>None\<close> when the key is refused\<close>

datatype token_error = InvalidKey | Malformed | InvalidDigest | EntropyUnavailable

type_synonym credential_digest = string

definition digest_from_slice :: "string \<Rightarrow> token_error + credential_digest" where
  "digest_from_slice v = (if length v = 32 then Ok v else Err InvalidDigest)"

record token_parts =
  tp_prefix :: string
  tp_digest :: credential_digest

record opaque_token_codec =
  label :: string
  pepper :: string

definition codec_new :: "string \<Rightarrow> string \<Rightarrow> token_error + opaque_token_codec" where
  "codec_new l p =
     (if l = [] \<or> \<not> list_all (\<lambda>b. is_ascii_lowercase b \<or> b = CHR ''_'') l \<or> length p < 32
      then Err InvalidKey
      else Ok \<lparr>label = l, pepper = p\<rparr>)"

definition token_digest :: "token_env \<Rightarrow> opaque_token_codec \<Rightarrow> string \<Rightarrow> token_error + credential_digest" where
  "token_digest env c v = ok_or (te_hmac env (pepper c) v) InvalidKey"

text \<open>The entropy is the 12 and 32 random bytes, or \<open>None\<close> when \<open>getrandom\<close> fails.\<close>

type_synonym entropy = "(string \<times> string) option"

definition token_text :: "opaque_token_codec \<Rightarrow> string \<Rightarrow> string \<Rightarrow> string" where
  "token_text c prefix secret = ''ffdb_'' @ label c @ ''_'' @ prefix @ ''.'' @ secret"

definition token_issue ::
    "token_env \<Rightarrow> opaque_token_codec \<Rightarrow> entropy \<Rightarrow> token_error + string \<times> token_parts" where
  "token_issue env c ent =
     bindr (ok_or ent EntropyUnavailable) (\<lambda>(prefix_bytes, secret_bytes).
     let prefix = te_b64_encode env prefix_bytes;
         secret = te_b64_encode env secret_bytes;
         plaintext = token_text c prefix secret
     in
     bindr (token_digest env c plaintext) (\<lambda>digest.
     Ok (plaintext, \<lparr>tp_prefix = prefix, tp_digest = digest\<rparr>)))"

definition parse_and_digest ::
    "token_env \<Rightarrow> opaque_token_codec \<Rightarrow> string \<Rightarrow> token_error + token_parts" where
  "parse_and_digest env c token =
     (if length token > 256 then Err Malformed
      else
        bindr (ok_or (strip_prefix token (''ffdb_'' @ label c @ ''_'')) Malformed) (\<lambda>remainder.
        bindr (ok_or (split_once CHR ''.'' remainder) Malformed) (\<lambda>(prefix, secret).
        if CHR ''.'' \<in> set secret then Err Malformed
        else
          bindr (ok_or (te_b64_decode env prefix) Malformed) (\<lambda>prefix_bytes.
          bindr (ok_or (te_b64_decode env secret) Malformed) (\<lambda>secret_bytes.
          if length prefix_bytes \<noteq> 12 \<or> length secret_bytes \<noteq> 32
             \<or> te_b64_encode env prefix_bytes \<noteq> prefix \<or> te_b64_encode env secret_bytes \<noteq> secret
          then Err Malformed
          else
            bindr (token_digest env c token) (\<lambda>digest.
            Ok \<lparr>tp_prefix = prefix, tp_digest = digest\<rparr>))))))"

definition verify_digest :: "credential_digest \<Rightarrow> credential_digest \<Rightarrow> bool" where
  "verify_digest candidate expected = (candidate = expected)"

section \<open>Refresh tokens\<close>

definition REFRESH_TOKEN_TTL_MS :: int where "REFRESH_TOKEN_TTL_MS = 30 * 24 * 60 * 60 * 1000"

type_synonym token_uuid = nat

record session_record =
  se_id :: token_uuid
  se_project_id :: token_uuid
  se_user_id :: token_uuid
  se_expires_at_ms :: int
  se_revoked_at_ms :: "int option"
  se_revoke_reason :: "string option"

record refresh_family =
  fa_id :: token_uuid
  fa_project_id :: token_uuid
  fa_user_id :: token_uuid
  fa_session_id :: token_uuid
  fa_revoked_at_ms :: "int option"
  fa_revoke_reason :: "string option"

record refresh_token_record =
  rt_id :: token_uuid
  rt_family_id :: token_uuid
  rt_prefix :: string
  rt_digest :: credential_digest
  rt_issued_at_ms :: int
  rt_expires_at_ms :: int
  rt_used_at_ms :: "int option"
  rt_replaced_by :: "token_uuid option"

record refresh_issue =
  ri_plaintext :: string
  ri_session :: session_record
  ri_family :: refresh_family
  ri_token :: refresh_token_record

datatype refresh_rotation =
    Rotated string refresh_token_record refresh_family
  | ReuseDetected token_uuid token_uuid
  | Rotation_Rejected

datatype refresh_store_error = Refresh_Unavailable | Refresh_Invalid

record refresh_state =
  sessions :: "(token_uuid, session_record) hash_map"
  families :: "(token_uuid, refresh_family) hash_map"
  tokens :: "(token_uuid, refresh_token_record) hash_map"
  token_by_prefix :: "(string, token_uuid) hash_map"

definition refresh_default :: refresh_state where
  "refresh_default = \<lparr>sessions = [], families = [], tokens = [], token_by_prefix = []\<rparr>"

definition put_token :: "refresh_token_record \<Rightarrow> refresh_state \<Rightarrow> refresh_state" where
  "put_token t st = st\<lparr>token_by_prefix := hm_insert (rt_prefix t) (rt_id t) (token_by_prefix st),
     tokens := hm_insert (rt_id t) t (tokens st)\<rparr>"

text \<open>The three identifiers are those of the new session, family and token.\<close>

definition issue_session ::
    "token_env \<Rightarrow> opaque_token_codec \<Rightarrow> entropy \<Rightarrow> token_uuid \<times> token_uuid \<times> token_uuid
      \<Rightarrow> token_uuid \<Rightarrow> token_uuid \<Rightarrow> int \<Rightarrow> refresh_state
      \<Rightarrow> (refresh_store_error + refresh_issue) \<times> refresh_state" where
  "issue_session env c ent ids project user now_ms st =
     (let (sid, fid, tid) = ids in
      case checked_add_i64 now_ms REFRESH_TOKEN_TTL_MS of
        None \<Rightarrow> (Err Refresh_Invalid, st)
      | Some expires \<Rightarrow>
          (case token_issue env c ent of
             Inl e \<Rightarrow> (Err Refresh_Unavailable, st)
           | Inr (plaintext, parts) \<Rightarrow>
               (let session = \<lparr>se_id = sid, se_project_id = project, se_user_id = user,
                      se_expires_at_ms = expires, se_revoked_at_ms = None, se_revoke_reason = None\<rparr>;
                    family = \<lparr>fa_id = fid, fa_project_id = project, fa_user_id = user,
                      fa_session_id = sid, fa_revoked_at_ms = None, fa_revoke_reason = None\<rparr>;
                    token = \<lparr>rt_id = tid, rt_family_id = fid, rt_prefix = tp_prefix parts,
                      rt_digest = tp_digest parts, rt_issued_at_ms = now_ms, rt_expires_at_ms = expires,
                      rt_used_at_ms = None, rt_replaced_by = None\<rparr>;
                    st1 = st\<lparr>sessions := hm_insert sid session (sessions st),
                             families := hm_insert fid family (families st)\<rparr>
                in (Ok \<lparr>ri_plaintext = plaintext, ri_session = session, ri_family = family, ri_token = token\<rparr>,
                    put_token token st1))))"

definition get_or_insert :: "'a \<Rightarrow> 'a option \<Rightarrow> 'a option" where
  "get_or_insert v x = (case x of Some y \<Rightarrow> Some y | None \<Rightarrow> Some v)"

definition revoke_family_locked ::
    "token_uuid \<Rightarrow> int \<Rightarrow> string \<Rightarrow> refresh_state \<Rightarrow> refresh_state" where
  "revoke_family_locked fid now_ms reason st =
     (case hm_get (families st) fid of
        None \<Rightarrow> st
      | Some f \<Rightarrow>
          (let st1 = st\<lparr>families := hm_insert fid
                 (f\<lparr>fa_revoked_at_ms := get_or_insert now_ms (fa_revoked_at_ms f),
                    fa_revoke_reason := get_or_insert reason (fa_revoke_reason f)\<rparr>) (families st)\<rparr>
           in case hm_get (sessions st1) (fa_session_id f) of
                None \<Rightarrow> st1
              | Some s \<Rightarrow> st1\<lparr>sessions := hm_insert (fa_session_id f)
                  (s\<lparr>se_revoked_at_ms := get_or_insert now_ms (se_revoked_at_ms s),
                     se_revoke_reason := get_or_insert reason (se_revoke_reason s)\<rparr>) (sessions st1)\<rparr>))"

definition rotation_refused ::
    "refresh_family \<Rightarrow> session_record \<Rightarrow> refresh_token_record \<Rightarrow> int \<Rightarrow> bool" where
  "rotation_refused family session current now_ms =
     (fa_revoked_at_ms family \<noteq> None \<or> se_revoked_at_ms session \<noteq> None
      \<or> se_expires_at_ms session \<le> now_ms \<or> rt_expires_at_ms current \<le> now_ms)"

text \<open>
  The lookups of \<open>rotate\<close>, each with its early return: the result is the value returned early, or the
  token presented with its family and session, none of them revoked or expired.
\<close>

definition find_presented ::
    "token_env \<Rightarrow> opaque_token_codec \<Rightarrow> string \<Rightarrow> int \<Rightarrow> refresh_state
      \<Rightarrow> (refresh_store_error + refresh_rotation)
         + (token_uuid \<times> refresh_token_record \<times> refresh_family \<times> session_record)" where
  "find_presented env c presented now_ms st =
     bindr (map_err (\<lambda>_. Ok Rotation_Rejected) (parse_and_digest env c presented)) (\<lambda>candidate.
     bindr (ok_or (hm_get (token_by_prefix st) (tp_prefix candidate)) (Ok Rotation_Rejected)) (\<lambda>token_id.
     bindr (ok_or (hm_get (tokens st) token_id) (Err Refresh_Unavailable)) (\<lambda>current.
     bindr (require (verify_digest (tp_digest candidate) (rt_digest current)) (Ok Rotation_Rejected)) (\<lambda>_.
     bindr (ok_or (hm_get (families st) (rt_family_id current)) (Err Refresh_Unavailable)) (\<lambda>family.
     bindr (ok_or (hm_get (sessions st) (fa_session_id family)) (Err Refresh_Unavailable)) (\<lambda>session.
     bindr (require (\<not> rotation_refused family session current now_ms) (Ok Rotation_Rejected)) (\<lambda>_.
     Ok (token_id, current, family, session))))))))"

definition next_token ::
    "token_uuid \<Rightarrow> int \<Rightarrow> token_parts \<Rightarrow> refresh_token_record \<Rightarrow> refresh_family \<Rightarrow> refresh_token_record" where
  "next_token next_id now_ms parts current family =
     \<lparr>rt_id = next_id, rt_family_id = fa_id family, rt_prefix = tp_prefix parts,
      rt_digest = tp_digest parts, rt_issued_at_ms = now_ms,
      rt_expires_at_ms = rt_expires_at_ms current, rt_used_at_ms = None, rt_replaced_by = None\<rparr>"

definition rotate_token ::
    "token_env \<Rightarrow> opaque_token_codec \<Rightarrow> entropy \<Rightarrow> token_uuid \<Rightarrow> string \<Rightarrow> int \<Rightarrow> refresh_state
      \<Rightarrow> (refresh_store_error + refresh_rotation) \<times> refresh_state" where
  "rotate_token env c ent next_id presented now_ms st =
     (case find_presented env c presented now_ms st of
        Inl early \<Rightarrow> (early, st)
      | Inr (token_id, current, family, session) \<Rightarrow>
          if rt_used_at_ms current \<noteq> None then
            (Ok (ReuseDetected (fa_id family) (fa_session_id family)),
             revoke_family_locked (fa_id family) now_ms ''refresh_reuse'' st)
          else
            (case token_issue env c ent of
               Inl _ \<Rightarrow> (Err Refresh_Unavailable, st)
             | Inr (plaintext, parts) \<Rightarrow>
                 (let next = next_token next_id now_ms parts current family;
                      st1 = st\<lparr>tokens := hm_insert token_id
                        (current\<lparr>rt_used_at_ms := Some now_ms, rt_replaced_by := Some next_id\<rparr>) (tokens st)\<rparr>
                  in (Ok (Rotated plaintext next family), put_token next st1))))"

definition revoke_session ::
    "token_uuid \<Rightarrow> int \<Rightarrow> string \<Rightarrow> refresh_state \<Rightarrow> (refresh_store_error + bool) \<times> refresh_state" where
  "revoke_session sid now_ms reason st =
     (if reason = [] \<or> length reason > 64 then (Err Refresh_Invalid, st)
      else
        (case find (\<lambda>(k, f). fa_session_id f = sid) (families st) of
           None \<Rightarrow> (Ok False, st)
         | Some (_, f) \<Rightarrow> (Ok True, revoke_family_locked (fa_id f) now_ms reason st)))"

section \<open>One-time tokens\<close>

definition ONE_TIME_TOKEN_TTL_MS :: int where "ONE_TIME_TOKEN_TTL_MS = 30 * 60 * 1000"

datatype one_time_purpose = EmailVerification | PasswordReset

record one_time_record =
  ot_id :: token_uuid
  ot_project_id :: token_uuid
  ot_user_id :: token_uuid
  ot_purpose :: one_time_purpose
  ot_prefix :: string
  ot_digest :: credential_digest
  ot_expires_at_ms :: int
  ot_consumed_at_ms :: "int option"

datatype one_time_error = OneTime_Rejected | OneTime_Unavailable

record one_time_state =
  ot_tokens :: "(token_uuid, one_time_record) hash_map"
  ot_by_prefix :: "(string, token_uuid) hash_map"

definition one_time_default :: one_time_state where
  "one_time_default = \<lparr>ot_tokens = [], ot_by_prefix = []\<rparr>"

definition superseded ::
    "token_uuid \<Rightarrow> token_uuid \<Rightarrow> one_time_purpose \<Rightarrow> int \<Rightarrow> one_time_record \<Rightarrow> one_time_record" where
  "superseded project user purpose now_ms r =
     (if ot_project_id r = project \<and> ot_user_id r = user \<and> ot_purpose r = purpose
         \<and> ot_consumed_at_ms r = None
      then r\<lparr>ot_consumed_at_ms := Some now_ms\<rparr> else r)"

definition one_time_issue ::
    "token_env \<Rightarrow> opaque_token_codec \<Rightarrow> entropy \<Rightarrow> token_uuid \<Rightarrow> token_uuid \<Rightarrow> token_uuid
      \<Rightarrow> one_time_purpose \<Rightarrow> int \<Rightarrow> one_time_state
      \<Rightarrow> (one_time_error + string \<times> one_time_record) \<times> one_time_state" where
  "one_time_issue env c ent tid project user purpose now_ms st =
     (case checked_add_i64 now_ms ONE_TIME_TOKEN_TTL_MS of
        None \<Rightarrow> (Err OneTime_Unavailable, st)
      | Some expires \<Rightarrow>
          (case token_issue env c ent of
             Inl _ \<Rightarrow> (Err OneTime_Unavailable, st)
           | Inr (plaintext, parts) \<Rightarrow>
               (let superseding = map (\<lambda>(k, r). (k, superseded project user purpose now_ms r)) (ot_tokens st);
                    r = \<lparr>ot_id = tid, ot_project_id = project, ot_user_id = user, ot_purpose = purpose,
                         ot_prefix = tp_prefix parts, ot_digest = tp_digest parts,
                         ot_expires_at_ms = expires, ot_consumed_at_ms = None\<rparr>
                in (Ok (plaintext, r),
                    st\<lparr>ot_by_prefix := hm_insert (tp_prefix parts) tid (ot_by_prefix st),
                       ot_tokens := hm_insert tid r superseding\<rparr>))))"

definition one_time_consume ::
    "token_env \<Rightarrow> opaque_token_codec \<Rightarrow> string \<Rightarrow> one_time_purpose \<Rightarrow> int \<Rightarrow> one_time_state
      \<Rightarrow> (one_time_error + one_time_record) \<times> one_time_state" where
  "one_time_consume env c plaintext purpose now_ms st =
     (case parse_and_digest env c plaintext of
        Inl _ \<Rightarrow> (Err OneTime_Rejected, st)
      | Inr candidate \<Rightarrow>
     (case hm_get (ot_by_prefix st) (tp_prefix candidate) of
        None \<Rightarrow> (Err OneTime_Rejected, st)
      | Some tid \<Rightarrow>
     (case hm_get (ot_tokens st) tid of
        None \<Rightarrow> (Err OneTime_Unavailable, st)
      | Some r \<Rightarrow>
          if ot_purpose r \<noteq> purpose \<or> ot_consumed_at_ms r \<noteq> None \<or> ot_expires_at_ms r \<le> now_ms
             \<or> \<not> verify_digest (tp_digest candidate) (ot_digest r)
          then (Err OneTime_Rejected, st)
          else
            (let r' = r\<lparr>ot_consumed_at_ms := Some now_ms\<rparr>
             in (Ok r', st\<lparr>ot_tokens := hm_insert tid r' (ot_tokens st)\<rparr>)))))"

end
