(* ===== verification/Auth_Properties.thy ===== *)
theory Auth_Properties
  imports Auth_Tokens
begin

text \<open>
  The refresh-token and one-time-token state machines: their invariants over every interleaving of
  operations, single use, reuse detection and revocation.
\<close>

section \<open>Refresh tokens: cases of a rotation\<close>

lemma find_presented_Ok:
  "find_presented env c presented now_ms st = Ok (tid, cur, fam, ses) \<longleftrightarrow>
     (\<exists>parts. parse_and_digest env c presented = Ok parts
       \<and> hm_get (token_by_prefix st) (tp_prefix parts) = Some tid \<and> tp_digest parts = rt_digest cur)
     \<and> hm_get (tokens st) tid = Some cur
     \<and> hm_get (families st) (rt_family_id cur) = Some fam
     \<and> hm_get (sessions st) (fa_session_id fam) = Some ses \<and> \<not> rotation_refused fam ses cur now_ms"
  by (auto simp: find_presented_def ffdb_result verify_digest_def)

lemma find_presented_Err:
  "find_presented env c presented now_ms st = Err early \<Longrightarrow>
     early \<in> {Ok Rotation_Rejected, Err Refresh_Unavailable}"
  by (auto simp: find_presented_def ffdb_result)

lemma rotate_token_cases:
  assumes "rotate_token env c ent next_id presented now_ms st = (r, st')"
  obtains (Same) "st' = st" "r \<in> {Ok Rotation_Rejected, Err Refresh_Unavailable}"
    | (Reuse) tid cur fam ses where "find_presented env c presented now_ms st = Ok (tid, cur, fam, ses)"
        "rt_used_at_ms cur \<noteq> None" "r = Ok (ReuseDetected (fa_id fam) (fa_session_id fam))"
        "st' = revoke_family_locked (fa_id fam) now_ms ''refresh_reuse'' st"
    | (Rotate) tid cur fam ses plaintext parts where
        "find_presented env c presented now_ms st = Ok (tid, cur, fam, ses)"
        "rt_used_at_ms cur = None" "token_issue env c ent = Ok (plaintext, parts)"
        "r = Ok (Rotated plaintext (next_token next_id now_ms parts cur fam) fam)"
        "st' = put_token (next_token next_id now_ms parts cur fam) (st\<lparr>tokens := hm_insert tid
           (cur\<lparr>rt_used_at_ms := Some now_ms, rt_replaced_by := Some next_id\<rparr>) (tokens st)\<rparr>)"
proof (cases "find_presented env c presented now_ms st")
  case (Inl early)
  then show thesis
    using assms find_presented_Err [OF Inl] by (intro Same) (simp_all add: rotate_token_def)
next
  case (Inr x)
  obtain tid cur fam ses where x: "x = (tid, cur, fam, ses)" by (cases x) auto
  show thesis
  proof (cases "rt_used_at_ms cur = None")
    case False
    then show thesis using assms Inr x by (intro Reuse) (auto simp: rotate_token_def)
  next
    case True
    show thesis
    proof (cases "token_issue env c ent")
      case (Inl e)
      then show thesis using assms Inr x True by (intro Same) (simp_all add: rotate_token_def)
    next
      case issue: (Inr y)
      then obtain plaintext parts where "token_issue env c ent = Ok (plaintext, parts)" by (cases y) auto
      then show thesis
        using assms Inr x True by (intro Rotate) (auto simp: rotate_token_def Let_def)
    qed
  qed
qed

section \<open>Refresh tokens: the invariant\<close>

text \<open>
  The maps agree with each other, and a family never has two tokens that are both unused.
\<close>

definition maps_ok :: "refresh_state \<Rightarrow> bool" where
  "maps_ok st \<longleftrightarrow>
     (\<forall>p t. hm_get (token_by_prefix st) p = Some t \<longrightarrow> (\<exists>r. hm_get (tokens st) t = Some r \<and> rt_prefix r = p))
     \<and> (\<forall>t r. hm_get (tokens st) t = Some r \<longrightarrow> rt_id r = t \<and> hm_get (families st) (rt_family_id r) \<noteq> None)
     \<and> (\<forall>i f. hm_get (families st) i = Some f \<longrightarrow> fa_id f = i \<and> hm_get (sessions st) (fa_session_id f) \<noteq> None)"

definition one_unused :: "refresh_state \<Rightarrow> bool" where
  "one_unused st \<longleftrightarrow> (\<forall>t t' r r'. hm_get (tokens st) t = Some r \<longrightarrow> hm_get (tokens st) t' = Some r' \<longrightarrow>
     rt_family_id r = rt_family_id r' \<longrightarrow> rt_used_at_ms r = None \<longrightarrow> rt_used_at_ms r' = None \<longrightarrow> t = t')"

definition refresh_ok :: "refresh_state \<Rightarrow> bool" where
  "refresh_ok st = (maps_ok st \<and> one_unused st)"

text \<open>
  The operations in any order. Identifiers and prefixes are drawn fresh: \<open>Uuid::now_v7\<close> and 96 random
  bits do not repeat one already in the store.
\<close>

definition fresh_prefix :: "token_env \<Rightarrow> opaque_token_codec \<Rightarrow> entropy \<Rightarrow> refresh_state \<Rightarrow> bool" where
  "fresh_prefix env c ent st \<longleftrightarrow>
     (\<forall>plaintext parts. token_issue env c ent = Ok (plaintext, parts) \<longrightarrow>
        hm_get (token_by_prefix st) (tp_prefix parts) = None)"

inductive refresh_step :: "token_env \<Rightarrow> opaque_token_codec \<Rightarrow> refresh_state \<Rightarrow> refresh_state \<Rightarrow> bool"
  for env c where
  issue: "issue_session env c ent (sid, fid, tid) project user now_ms st = (r, st') \<Longrightarrow>
    hm_get (sessions st) sid = None \<Longrightarrow> hm_get (families st) fid = None \<Longrightarrow> hm_get (tokens st) tid = None \<Longrightarrow>
    fresh_prefix env c ent st \<Longrightarrow> refresh_step env c st st'"
| rotate: "rotate_token env c ent next_id presented now_ms st = (r, st') \<Longrightarrow>
    hm_get (tokens st) next_id = None \<Longrightarrow> fresh_prefix env c ent st \<Longrightarrow> refresh_step env c st st'"
| revoke: "revoke_session sid now_ms reason st = (r, st') \<Longrightarrow> refresh_step env c st st'"

inductive_cases refresh_stepE: "refresh_step env c st st'"

lemma revoke_family_frame [simp]:
  "tokens (revoke_family_locked fid now_ms reason st) = tokens st"
  "token_by_prefix (revoke_family_locked fid now_ms reason st) = token_by_prefix st"
  by (simp_all add: revoke_family_locked_def Let_def split: option.splits)

lemma revoke_family_maps: "maps_ok st \<Longrightarrow> maps_ok (revoke_family_locked fid now_ms reason st)"
  unfolding maps_ok_def revoke_family_locked_def
  by (auto simp: hm_get_insert Let_def split: option.splits if_split_asm) fastforce

lemma revoke_family_ok: "refresh_ok st \<Longrightarrow> refresh_ok (revoke_family_locked fid now_ms reason st)"
  by (simp add: refresh_ok_def revoke_family_maps) (simp add: one_unused_def)

lemma issue_session_cases:
  assumes "issue_session env c ent (sid, fid, tid) project user now_ms st = (r, st')"
  obtains (Same) "st' = st"
    | (Issued) plaintext parts ses fam tok where "token_issue env c ent = Ok (plaintext, parts)"
        "se_id ses = sid" "fa_id fam = fid" "fa_session_id fam = sid" "rt_id tok = tid"
        "rt_family_id tok = fid" "rt_prefix tok = tp_prefix parts" "rt_used_at_ms tok = None"
        "st' = put_token tok (st\<lparr>sessions := hm_insert sid ses (sessions st),
                 families := hm_insert fid fam (families st)\<rparr>)"
proof (cases "checked_add_i64 now_ms REFRESH_TOKEN_TTL_MS")
  case None
  then show thesis using assms by (intro Same) (simp add: issue_session_def)
next
  case expires: (Some e)
  show thesis
  proof (cases "token_issue env c ent")
    case (Inl x)
    then show thesis using assms expires by (intro Same) (simp add: issue_session_def)
  next
    case (Inr y)
    obtain plaintext parts where "y = (plaintext, parts)" by force
    then show thesis
      using assms expires Inr by (intro Issued) (auto simp: issue_session_def Let_def)
  qed
qed

lemma put_token_maps:
  assumes "maps_ok st" and "rt_id tok = tid" and "hm_get (families st) (rt_family_id tok) \<noteq> None"
    and "hm_get (tokens st) tid = None"
  shows "maps_ok (put_token tok st)"
  using assms unfolding maps_ok_def put_token_def
  by (auto simp: hm_get_insert split: if_split_asm) (metis option.distinct(1))

lemma issue_session_ok:
  assumes "issue_session env c ent (sid, fid, tid) project user now_ms st = (r, st')" and ok: "refresh_ok st"
    and fresh: "hm_get (sessions st) sid = None" "hm_get (families st) fid = None" "hm_get (tokens st) tid = None"
  shows "refresh_ok st'"
  using assms(1)
proof (cases rule: issue_session_cases)
  case (Issued plaintext parts ses fam tok)
  let ?st = "st\<lparr>sessions := hm_insert sid ses (sessions st), families := hm_insert fid fam (families st)\<rparr>"
  have "maps_ok ?st"
    using ok Issued(3,4) unfolding refresh_ok_def maps_ok_def by (auto simp: hm_get_insert)
  then have "maps_ok st'"
    unfolding Issued(9) using Issued(5,6) fresh(3) by (intro put_token_maps) (simp_all add: hm_get_insert)
  moreover have "one_unused st'"
  proof -
    have "rt_family_id r \<noteq> fid" if "hm_get (tokens st) t = Some r" for t r
      using that ok fresh(2) unfolding refresh_ok_def maps_ok_def by metis
    then show ?thesis
      using ok Issued(5,6) unfolding Issued(9) refresh_ok_def one_unused_def put_token_def
      by (auto simp: hm_get_insert split: if_split_asm) metis+
  qed
  ultimately show ?thesis by (simp add: refresh_ok_def)
qed (use ok in simp)

lemma rotate_token_ok:
  assumes "rotate_token env c ent next_id presented now_ms st = (r, st')" and ok: "refresh_ok st"
    and fresh: "hm_get (tokens st) next_id = None"
  shows "refresh_ok st'"
  using assms(1)
proof (cases rule: rotate_token_cases)
  case (Rotate tid cur fam ses plaintext parts)
  let ?used = "cur\<lparr>rt_used_at_ms := Some now_ms, rt_replaced_by := Some next_id\<rparr>"
  let ?st = "st\<lparr>tokens := hm_insert tid ?used (tokens st)\<rparr>"
  let ?next = "next_token next_id now_ms parts cur fam"
  have found: "hm_get (tokens st) tid = Some cur" "hm_get (families st) (rt_family_id cur) = Some fam"
    using Rotate(1) by (simp_all add: find_presented_Ok)
  have fid: "fa_id fam = rt_family_id cur"
    using ok found(2) by (simp add: refresh_ok_def maps_ok_def)
  have "tid \<noteq> next_id" using found(1) fresh by auto
  have "maps_ok ?st"
    using ok found(1) unfolding refresh_ok_def maps_ok_def
    by (auto simp: hm_get_insert) (metis option.inject)
  then have "maps_ok st'"
    unfolding Rotate(5) using found(2) fresh \<open>tid \<noteq> next_id\<close>
    by (intro put_token_maps) (auto simp: next_token_def fid hm_get_insert)
  moreover have used: "rt_used_at_ms r \<noteq> None"
    if "hm_get (tokens st) t = Some r" "rt_family_id r = rt_family_id cur" "t \<noteq> tid" for t r
    using ok found(1) Rotate(2) that unfolding refresh_ok_def one_unused_def by metis
  have "one_unused st'"
  proof -
    have "one_unused st" using ok by (simp add: refresh_ok_def)
    then show ?thesis
      using used \<open>tid \<noteq> next_id\<close> fresh
      unfolding Rotate(5) one_unused_def put_token_def
      by (simp add: hm_get_insert next_token_def fid)
  qed
  ultimately show ?thesis by (simp add: refresh_ok_def)
qed (use ok revoke_family_ok in simp_all)

lemma revoke_session_ok: "revoke_session sid now_ms reason st = (r, st') \<Longrightarrow> refresh_ok st \<Longrightarrow> refresh_ok st'"
  by (auto simp: revoke_session_def intro: revoke_family_ok split: if_split_asm option.split_asm)

lemma refresh_default_ok: "refresh_ok refresh_default"
  by (simp add: refresh_ok_def maps_ok_def one_unused_def refresh_default_def)

interpretation refresh: transition_system "\<lambda>st. st = refresh_default" "refresh_step env c" refresh_ok for env c
  by unfold_locales
    (auto simp: refresh_default_ok elim!: refresh_stepE
      intro: issue_session_ok rotate_token_ok revoke_session_ok)

section \<open>Refresh tokens: what stays\<close>

text \<open>A prefix whose token has been used, and a family that has been revoked with its session.\<close>

definition spent :: "string \<Rightarrow> refresh_state \<Rightarrow> bool" where
  "spent p st \<longleftrightarrow> (\<exists>t r. hm_get (token_by_prefix st) p = Some t \<and> hm_get (tokens st) t = Some r
     \<and> rt_used_at_ms r \<noteq> None)"

definition revoked :: "token_uuid \<Rightarrow> refresh_state \<Rightarrow> bool" where
  "revoked fid st \<longleftrightarrow> (\<exists>f. hm_get (families st) fid = Some f \<and> fa_revoked_at_ms f \<noteq> None)"

lemma put_token_spent:
  assumes "spent p st" and "hm_get (tokens st) (rt_id tok) = None" and "hm_get (token_by_prefix st) (rt_prefix tok) = None"
  shows "spent p (put_token tok st)"
  using assms unfolding spent_def put_token_def by (auto simp: hm_get_insert)

lemma revoke_family_revoked:
  "revoked i st \<Longrightarrow> revoked i (revoke_family_locked fid now_ms reason st)"
  unfolding revoked_def revoke_family_locked_def get_or_insert_def
  by (auto simp: hm_get_insert Let_def split: option.splits)

lemma revoke_family_locked_revokes:
  "hm_get (families st) fid \<noteq> None \<Longrightarrow> revoked fid (revoke_family_locked fid now_ms reason st)"
  unfolding revoked_def revoke_family_locked_def get_or_insert_def
  by (auto simp: hm_get_insert Let_def split: option.splits)

lemma rotate_spent:
  assumes "rotate_token env c ent next_id presented now_ms st = (r, st')" and "spent p st"
    and fresh: "hm_get (tokens st) next_id = None" "fresh_prefix env c ent st"
  shows "spent p st'"
  using assms(1)
proof (cases rule: rotate_token_cases)
  case (Rotate tid cur fam ses plaintext parts)
  let ?st = "st\<lparr>tokens := hm_insert tid (cur\<lparr>rt_used_at_ms := Some now_ms, rt_replaced_by := Some next_id\<rparr>) (tokens st)\<rparr>"
  have cur: "hm_get (tokens st) tid = Some cur"
    using Rotate(1) by (simp add: find_presented_Ok)
  have "spent p ?st"
    using assms(2) unfolding spent_def by (auto simp: hm_get_insert)
  then show ?thesis
    unfolding Rotate(5) using fresh cur Rotate(3)
    by (intro put_token_spent) (auto simp: next_token_def hm_get_insert fresh_prefix_def)
qed (use assms(2) in \<open>simp_all add: spent_def\<close>)

lemma step_spent: "refresh_step env c st st' \<Longrightarrow> spent p st \<Longrightarrow> spent p st'"
proof (erule refresh_stepE)
  fix ent sid fid tid project user now_ms r
  assume "issue_session env c ent (sid, fid, tid) project user now_ms st = (r, st')" "spent p st"
    "hm_get (tokens st) tid = None" "fresh_prefix env c ent st"
  then show "spent p st'"
  proof (cases rule: issue_session_cases)
    case (Issued plaintext parts ses fam tok)
    have "spent p (st\<lparr>sessions := hm_insert sid ses (sessions st), families := hm_insert fid fam (families st)\<rparr>)"
      using \<open>spent p st\<close> by (simp add: spent_def)
    then show ?thesis
      unfolding Issued(9) using Issued(1,5,7) \<open>fresh_prefix env c ent st\<close> \<open>hm_get (tokens st) tid = None\<close>
      by (intro put_token_spent) (simp_all add: fresh_prefix_def)
  qed simp
next
  fix ent next_id presented now_ms r
  assume "rotate_token env c ent next_id presented now_ms st = (r, st')" "spent p st"
    "hm_get (tokens st) next_id = None" "fresh_prefix env c ent st"
  then show "spent p st'" using rotate_spent by blast
next
  fix sid now_ms reason r
  assume "revoke_session sid now_ms reason st = (r, st')" "spent p st"
  then show "spent p st'"
    by (auto simp: revoke_session_def spent_def split: if_split_asm option.split_asm)
qed

lemma step_revoked: "refresh_step env c st st' \<Longrightarrow> revoked i st \<Longrightarrow> revoked i st'"
proof (erule refresh_stepE)
  fix ent sid fid tid project user now_ms r
  assume *: "issue_session env c ent (sid, fid, tid) project user now_ms st = (r, st')" "revoked i st"
    "hm_get (families st) fid = None"
  from *(1) show "revoked i st'"
    by (cases rule: issue_session_cases) (use *(2,3) in \<open>auto simp: revoked_def put_token_def hm_get_insert\<close>)
next
  fix ent next_id presented now_ms r
  assume *: "rotate_token env c ent next_id presented now_ms st = (r, st')" "revoked i st"
  from *(1) show "revoked i st'"
    by (cases rule: rotate_token_cases)
      (use *(2) revoke_family_revoked in \<open>auto simp: revoked_def put_token_def\<close>)
next
  fix sid now_ms reason r
  assume "revoke_session sid now_ms reason st = (r, st')" "revoked i st"
  then show "revoked i st'"
    by (auto simp: revoke_session_def intro: revoke_family_revoked split: if_split_asm option.split_asm)
qed

lemma run_spent: "(refresh_step env c)\<^sup>*\<^sup>* st st' \<Longrightarrow> spent p st \<Longrightarrow> spent p st'"
  by (induction rule: rtranclp_induct) (auto intro: step_spent)

lemma run_revoked: "(refresh_step env c)\<^sup>*\<^sup>* st st' \<Longrightarrow> revoked i st \<Longrightarrow> revoked i st'"
  by (induction rule: rtranclp_induct) (auto intro: step_revoked)

section \<open>Refresh tokens: properties\<close>

lemma rotate_available:
  assumes "refresh_ok st" and "rotate_token env c ent next_id presented now_ms st = (Err e, st')"
  shows "\<exists>tid cur fam ses. find_presented env c presented now_ms st = Ok (tid, cur, fam, ses) \<and> rt_used_at_ms cur = None"
proof (cases "find_presented env c presented now_ms st")
  case (Inl early)
  have "early \<noteq> Err e'" for e'
    using Inl assms(1)
    by (auto simp: find_presented_def ffdb_result refresh_ok_def maps_ok_def) (metis option.distinct(1))+
  then show ?thesis using Inl assms(2) by (auto simp: rotate_token_def)
next
  case (Inr x)
  then show ?thesis using assms(2) by (cases x) (auto simp: rotate_token_def split: if_split_asm)
qed

text \<open>
  A refresh token is single use, whatever happens in between: once a presented token has been
  rotated, presenting it again, after any later sequence of sign-ins, rotations and revocations, never
  yields a new token. It is rejected, or it is recognized as reuse, and then its family is revoked.
  At every moment a family has at most one token that is not used up.
\<close>

theorem refresh_token_is_single_use:
  assumes "(refresh_step env c)\<^sup>*\<^sup>* refresh_default st"
    and "rotate_token env c ent next_id presented now_ms st = (Ok (Rotated plaintext next fam), st')"
    and "hm_get (tokens st) next_id = None" and "fresh_prefix env c ent st"
    and "(refresh_step env c)\<^sup>*\<^sup>* st' st''"
    and "rotate_token env c ent2 next_id2 presented now_ms2 st'' = (r, st3)"
  shows "one_unused st'' \<and>
    (r = Ok Rotation_Rejected \<or> (\<exists>fid sid. r = Ok (ReuseDetected fid sid) \<and> revoked fid st3))"
proof -
  have ok: "refresh_ok st" using refresh.reachable_inv [OF refl assms(1)] .
  have ok': "refresh_ok st'" using assms(2) ok assms(3) by (rule rotate_token_ok)
  have ok'': "refresh_ok st''" using assms(5) ok' by (rule refresh.run_inv)
  obtain parts where parts: "parse_and_digest env c presented = Ok parts" and "spent (tp_prefix parts) st'"
    using assms(2)
  proof (cases rule: rotate_token_cases)
    case (Rotate tid cur fam' ses plaintext' parts')
    then obtain parts where p: "parse_and_digest env c presented = Ok parts"
        "hm_get (token_by_prefix st) (tp_prefix parts) = Some tid" "hm_get (tokens st) tid = Some cur"
      by (auto simp: find_presented_Ok)
    have "tid \<noteq> next_id" "tp_prefix parts \<noteq> tp_prefix parts'"
      using p assms(3,4) Rotate(3) by (auto simp: fresh_prefix_def)
    then have "spent (tp_prefix parts) st'"
      using p unfolding Rotate(5) spent_def put_token_def by (simp add: next_token_def hm_get_insert)
    with p(1) show thesis by (rule that)
  qed auto
  then have spent: "spent (tp_prefix parts) st''"
    using run_spent [OF assms(5)] by blast
  from assms(6) have "r = Ok Rotation_Rejected \<or> (\<exists>fid sid. r = Ok (ReuseDetected fid sid) \<and> revoked fid st3)"
  proof (cases rule: rotate_token_cases)
    case Same
    then show ?thesis
      using rotate_available [OF ok'', of env c ent2 next_id2 presented now_ms2] assms(6) spent parts
      by (fastforce simp: spent_def find_presented_Ok)
  next
    case (Reuse tid cur fam2 ses)
    then have "hm_get (families st'') (fa_id fam2) \<noteq> None"
      using ok'' by (auto simp: find_presented_Ok refresh_ok_def maps_ok_def)
    then show ?thesis
      using Reuse(3,4) revoke_family_locked_revokes by blast
  next
    case (Rotate tid cur fam2 ses plaintext2 parts2)
    then show ?thesis using spent parts by (auto simp: find_presented_Ok spent_def)
  qed
  then show ?thesis using ok'' by (simp add: refresh_ok_def)
qed

text \<open>Sample codec: the identity for base64, a keyed prefix for the MAC.\<close>

definition demo_token_env :: token_env where
  "demo_token_env = \<lparr>te_b64_encode = (\<lambda>s. s), te_b64_decode = Some,
     te_hmac = (\<lambda>k s. Some (take 1 k @ s))\<rparr>"

definition demo_codec :: opaque_token_codec where
  "demo_codec = \<lparr>label = ''refresh'', pepper = replicate 32 CHR ''k''\<rparr>"

definition demo_entropy :: "char \<Rightarrow> entropy" where
  "demo_entropy b = Some (replicate 12 b, replicate 32 b)"

definition demo_token :: "char \<Rightarrow> string" where
  "demo_token b = token_text demo_codec (replicate 12 b) (replicate 32 b)"

definition demo_store :: refresh_state where
  "demo_store = snd (issue_session demo_token_env demo_codec (demo_entropy CHR ''a'') (1, 2, 3) 7 8 1000 refresh_default)"

definition demo_rotated :: refresh_state where
  "demo_rotated = snd (rotate_token demo_token_env demo_codec (demo_entropy CHR ''b'') 4 (demo_token CHR ''a'') 2000 demo_store)"

lemma demo_fresh:
  "fresh_prefix demo_token_env demo_codec (demo_entropy CHR ''a'') refresh_default"
  "fresh_prefix demo_token_env demo_codec (demo_entropy CHR ''b'') demo_store"
proof -
  have "token_issue demo_token_env demo_codec (demo_entropy CHR ''b'')
      = Ok (demo_token CHR ''b'', \<lparr>tp_prefix = replicate 12 CHR ''b'', tp_digest = CHR ''k'' # demo_token CHR ''b''\<rparr>)"
    by code_simp
  moreover have "hm_get (token_by_prefix demo_store) (replicate 12 CHR ''b'') = None" by code_simp
  ultimately show "fresh_prefix demo_token_env demo_codec (demo_entropy CHR ''b'') demo_store"
    by (simp add: fresh_prefix_def)
qed (simp add: fresh_prefix_def refresh_default_def)

lemma demo_store_reachable: "(refresh_step demo_token_env demo_codec)\<^sup>*\<^sup>* refresh_default demo_store"
proof (rule r_into_rtranclp, rule refresh_step.issue)
  show "issue_session demo_token_env demo_codec (demo_entropy CHR ''a'') (1, 2, 3) 7 8 1000 refresh_default
      = (fst (issue_session demo_token_env demo_codec (demo_entropy CHR ''a'') (1, 2, 3) 7 8 1000 refresh_default),
         demo_store)"
    by (simp add: demo_store_def)
qed (simp_all add: refresh_default_def demo_fresh(1) [unfolded refresh_default_def])

theorem refresh_token_is_single_use_witness:
  "one_unused demo_rotated \<and>
    (fst (rotate_token demo_token_env demo_codec (demo_entropy CHR ''c'') 5 (demo_token CHR ''a'') 2001 demo_rotated)
       = Ok Rotation_Rejected
     \<or> (\<exists>fid sid. fst (rotate_token demo_token_env demo_codec (demo_entropy CHR ''c'') 5 (demo_token CHR ''a'') 2001 demo_rotated)
         = Ok (ReuseDetected fid sid)
       \<and> revoked fid (snd (rotate_token demo_token_env demo_codec (demo_entropy CHR ''c'') 5 (demo_token CHR ''a'') 2001 demo_rotated))))"
proof (rule refresh_token_is_single_use [OF demo_store_reachable])
  have "\<exists>plaintext next fam. fst (rotate_token demo_token_env demo_codec (demo_entropy CHR ''b'') 4 (demo_token CHR ''a'') 2000 demo_store)
      = Ok (Rotated plaintext next fam)"
    by (intro exI) code_simp
  show "rotate_token demo_token_env demo_codec (demo_entropy CHR ''b'') 4 (demo_token CHR ''a'') 2000 demo_store
      = (Ok (Rotated (demo_token CHR ''b'') (the (hm_get (tokens demo_rotated) 4))
          (the (hm_get (families demo_rotated) 2))), demo_rotated)"
    by code_simp
  show "hm_get (tokens demo_store) 4 = None" by code_simp
qed (simp_all add: demo_fresh)

text \<open>
  Revocation is final: once a family is revoked, by reuse detection or by a revoked session, then
  after any later sequence of operations every token of the family is rejected, whether it was used
  before or not, and nothing changes.
\<close>

theorem revoked_family_stays_revoked:
  assumes "refresh_ok st" and "revoked fid st" and "(refresh_step env c)\<^sup>*\<^sup>* st st'"
    and "parse_and_digest env c presented = Ok parts"
    and "hm_get (token_by_prefix st') (tp_prefix parts) = Some tid"
    and "hm_get (tokens st') tid = Some cur" and "rt_family_id cur = fid"
  shows "rotate_token env c ent next_id presented now_ms st' = (Ok Rotation_Rejected, st')"
proof -
  obtain f where f: "hm_get (families st') fid = Some f" "fa_revoked_at_ms f \<noteq> None"
    using run_revoked [OF assms(3,2)] by (auto simp: revoked_def)
  have "refresh_ok st'" using assms(3,1) by (rule refresh.run_inv)
  then obtain s where "hm_get (sessions st') (fa_session_id f) = Some s"
    using f(1) unfolding refresh_ok_def maps_ok_def by fast
  then show ?thesis
    using f assms(4-7) by (auto simp: rotate_token_def find_presented_def rotation_refused_def require_def)
qed

definition demo_revoked :: refresh_state where
  "demo_revoked = snd (revoke_session 1 3000 ''logout'' demo_rotated)"

theorem revoked_family_stays_revoked_witness:
  "rotate_token demo_token_env demo_codec None 9 (demo_token CHR ''b'') 3001 demo_revoked
    = (Ok Rotation_Rejected, demo_revoked)"
proof (rule revoked_family_stays_revoked)
  have "rotate_token demo_token_env demo_codec (demo_entropy CHR ''b'') 4 (demo_token CHR ''a'') 2000 demo_store
      = (fst (rotate_token demo_token_env demo_codec (demo_entropy CHR ''b'') 4 (demo_token CHR ''a'') 2000 demo_store),
         demo_rotated)"
    by (simp add: demo_rotated_def)
  moreover have "refresh_ok demo_store"
    using refresh.reachable_inv [OF refl demo_store_reachable] .
  moreover have "hm_get (tokens demo_store) 4 = None" by code_simp
  ultimately have "refresh_ok demo_rotated" by (rule rotate_token_ok)
  then show "refresh_ok demo_revoked"
    by (rule revoke_session_ok [of 1 3000 "''logout''" demo_rotated, rotated]) (simp add: demo_revoked_def prod_eq_iff)
  have "hm_get (families demo_revoked) 2 \<noteq> None \<and> fa_revoked_at_ms (the (hm_get (families demo_revoked) 2)) \<noteq> None"
    by code_simp
  then show "revoked 2 demo_revoked" by (auto simp: revoked_def)
  show "parse_and_digest demo_token_env demo_codec (demo_token CHR ''b'')
      = Ok \<lparr>tp_prefix = replicate 12 CHR ''b'', tp_digest = CHR ''k'' # demo_token CHR ''b''\<rparr>"
    by code_simp
  show "hm_get (token_by_prefix demo_revoked) (tp_prefix \<lparr>tp_prefix = replicate 12 CHR ''b'',
      tp_digest = CHR ''k'' # demo_token CHR ''b''\<rparr>) = Some 4"
    by code_simp
  show "hm_get (tokens demo_revoked) 4 = Some (the (hm_get (tokens demo_revoked) 4))" by code_simp
  show "rt_family_id (the (hm_get (tokens demo_revoked) 4)) = 2" by code_simp
qed simp

end
