(* ===== verification/Auth_One_Time.thy ===== *)
theory Auth_One_Time
  imports Auth_Properties
begin

text \<open>
  Opaque tokens and one-time tokens: the codec reads back what it issues, and a one-time token is
  good for one use, for one purpose, until a later one for the same purpose replaces it.
\<close>

section \<open>The codec\<close>

text \<open>What the code relies on from base64url without padding and from HMAC-SHA256.\<close>

definition token_env_laws :: "token_env \<Rightarrow> bool" where
  "token_env_laws env \<longleftrightarrow>
     (\<forall>s. te_b64_decode env (te_b64_encode env s) = Some s)
     \<and> (\<forall>s. CHR ''.'' \<notin> set (te_b64_encode env s))
     \<and> (\<forall>s. length (te_b64_encode env s) \<le> 2 * length s)
     \<and> (\<forall>k s. te_hmac env k s \<noteq> None)"

lemma strip_prefix_append: "strip_prefix (p @ s) p = Some s"
proof -
  have "starts_with (p @ s) p" by (induction p) simp_all
  then show ?thesis by (simp add: strip_prefix_def)
qed

section \<open>One-time tokens\<close>

lemma hm_get_map_values: "hm_get (map (\<lambda>(k, v). (k, f v)) m) k = map_option f (hm_get m k)"
  by (induction m) (auto simp: hm_get_def)

inductive one_time_step :: "token_env \<Rightarrow> opaque_token_codec \<Rightarrow> one_time_state \<Rightarrow> one_time_state \<Rightarrow> bool"
  for env c where
  issue: "one_time_issue env c ent tid project user purpose now_ms st = (r, st') \<Longrightarrow>
    hm_get (ot_tokens st) tid = None \<Longrightarrow>
    (\<And>plaintext parts. token_issue env c ent = Ok (plaintext, parts) \<Longrightarrow>
       hm_get (ot_by_prefix st) (tp_prefix parts) = None) \<Longrightarrow>
    one_time_step env c st st'"
| consume: "one_time_consume env c plaintext purpose now_ms st = (r, st') \<Longrightarrow> one_time_step env c st st'"

inductive_cases one_time_stepE: "one_time_step env c st st'"

text \<open>A prefix whose token has been consumed or replaced.\<close>

definition ot_spent :: "string \<Rightarrow> one_time_state \<Rightarrow> bool" where
  "ot_spent p st \<longleftrightarrow> (\<exists>t r. hm_get (ot_by_prefix st) p = Some t \<and> hm_get (ot_tokens st) t = Some r
     \<and> ot_consumed_at_ms r \<noteq> None)"

lemma superseded_consumed:
  "ot_consumed_at_ms r \<noteq> None \<Longrightarrow> superseded project user purpose now_ms r = r"
  by (simp add: superseded_def)

lemma one_time_issue_cases:
  assumes "one_time_issue env c ent tid project user purpose now_ms st = (r, st')"
  obtains (Same) e where "st' = st" "r = Err e"
    | (Issued) plaintext parts rec where "token_issue env c ent = Ok (plaintext, parts)" "r = Ok (plaintext, rec)"
        "hm_get (ot_by_prefix st') = (hm_get (ot_by_prefix st))(tp_prefix parts \<mapsto> tid)"
        "hm_get (ot_tokens st') = (\<lambda>k. if k = tid then Some rec
           else map_option (superseded project user purpose now_ms) (hm_get (ot_tokens st) k))"
proof (cases "checked_add_i64 now_ms ONE_TIME_TOKEN_TTL_MS")
  case None
  then show thesis using assms by (intro Same) (auto simp: one_time_issue_def)
next
  case expires: (Some e)
  show thesis
  proof (cases "token_issue env c ent")
    case (Inl x)
    then show thesis using assms expires by (intro Same) (auto simp: one_time_issue_def)
  next
    case (Inr y)
    obtain plaintext parts where y: "y = (plaintext, parts)" by force
    show thesis
      using assms expires Inr unfolding y
      by (intro Issued) (auto simp: one_time_issue_def Let_def hm_get_insert hm_get_map_values fun_eq_iff)
  qed
qed

lemma one_time_consume_cases:
  assumes "one_time_consume env c plaintext purpose now_ms st = (r, st')"
  obtains (Same) e where "st' = st" "r = Err e"
    | (Consumed) parts tid rec where "parse_and_digest env c plaintext = Ok parts"
        "hm_get (ot_by_prefix st) (tp_prefix parts) = Some tid" "hm_get (ot_tokens st) tid = Some rec"
        "ot_purpose rec = purpose" "ot_consumed_at_ms rec = None" "now_ms < ot_expires_at_ms rec"
        "r = Ok (rec\<lparr>ot_consumed_at_ms := Some now_ms\<rparr>)"
        "st' = st\<lparr>ot_tokens := hm_insert tid (rec\<lparr>ot_consumed_at_ms := Some now_ms\<rparr>) (ot_tokens st)\<rparr>"
proof (cases "fst (one_time_consume env c plaintext purpose now_ms st)")
  case (Inl e)
  then show thesis
    using assms by (intro Same) (auto simp: one_time_consume_def Let_def split: sum.splits option.splits if_splits)
next
  case (Inr x)
  then obtain parts tid rec where found: "parse_and_digest env c plaintext = Ok parts"
      "hm_get (ot_by_prefix st) (tp_prefix parts) = Some tid" "hm_get (ot_tokens st) tid = Some rec"
    by (auto simp: one_time_consume_def split: sum.split_asm option.split_asm)
  then have "\<not> (ot_purpose rec \<noteq> purpose \<or> ot_consumed_at_ms rec \<noteq> None \<or> ot_expires_at_ms rec \<le> now_ms
      \<or> \<not> verify_digest (tp_digest parts) (ot_digest rec))"
    using Inr by (auto simp: one_time_consume_def split: if_split_asm)
  with found show thesis
    using assms by (intro Consumed) (auto simp: one_time_consume_def Let_def)
qed

lemma one_time_step_spent: "one_time_step env c st st' \<Longrightarrow> ot_spent p st \<Longrightarrow> ot_spent p st'"
proof (erule one_time_stepE)
  fix ent tid project user purpose now_ms r
  assume *: "one_time_issue env c ent tid project user purpose now_ms st = (r, st')" "ot_spent p st"
    "hm_get (ot_tokens st) tid = None"
    "\<And>plaintext parts. token_issue env c ent = Ok (plaintext, parts) \<Longrightarrow>
       hm_get (ot_by_prefix st) (tp_prefix parts) = None"
  from *(1) show "ot_spent p st'"
  proof (cases rule: one_time_issue_cases)
    case (Issued plaintext parts rec)
    then show ?thesis
      using *(2,3) *(4) [OF Issued(1)] unfolding ot_spent_def by (auto simp: superseded_consumed)
  qed (use *(2) in simp)
next
  fix plaintext purpose now_ms r
  assume *: "one_time_consume env c plaintext purpose now_ms st = (r, st')" "ot_spent p st"
  from *(1) show "ot_spent p st'"
    by (cases rule: one_time_consume_cases) (use *(2) in \<open>auto simp: ot_spent_def hm_get_insert\<close>)
qed

lemma one_time_run_spent: "(one_time_step env c)\<^sup>*\<^sup>* st st' \<Longrightarrow> ot_spent p st \<Longrightarrow> ot_spent p st'"
  by (induction rule: rtranclp_induct) (auto intro: one_time_step_spent)

lemma ot_spent_rejected:
  "ot_spent (tp_prefix parts) st \<Longrightarrow> parse_and_digest env c plaintext = Ok parts \<Longrightarrow>
     one_time_consume env c plaintext purpose now_ms st = (Err OneTime_Rejected, st)"
  by (auto simp: ot_spent_def one_time_consume_def)

text \<open>
  A one-time token works once, for its own purpose and before it expires: a successful
  consumption found an unconsumed record of the purpose asked for, and from then on, after any later
  sequence of issues and consumptions, the same token is rejected for every purpose and changes nothing.
\<close>

theorem one_time_token_is_single_use:
  assumes "one_time_consume env c plaintext purpose now_ms st = (Ok r, st')"
    and "(one_time_step env c)\<^sup>*\<^sup>* st' st''"
  shows "ot_purpose r = purpose \<and> ot_consumed_at_ms r = Some now_ms \<and> now_ms < ot_expires_at_ms r
    \<and> one_time_consume env c plaintext purpose2 now_ms2 st'' = (Err OneTime_Rejected, st'')"
  using assms(1)
proof (cases rule: one_time_consume_cases)
  case (Consumed parts tid rec)
  then have "ot_spent (tp_prefix parts) st'" by (auto simp: ot_spent_def hm_get_insert)
  then have "ot_spent (tp_prefix parts) st''" using one_time_run_spent [OF assms(2)] by blast
  then show ?thesis using Consumed ot_spent_rejected by simp
qed simp

definition demo_ot_issued :: one_time_state where
  "demo_ot_issued = snd (one_time_issue demo_token_env demo_codec (demo_entropy CHR ''a'') 3 7 8 PasswordReset 1000
     one_time_default)"

theorem one_time_token_is_single_use_witness:
  "\<exists>r st'. one_time_consume demo_token_env demo_codec (demo_token CHR ''a'') PasswordReset 2000 demo_ot_issued = (Ok r, st')
     \<and> one_time_consume demo_token_env demo_codec (demo_token CHR ''a'') PasswordReset 2001 st'
         = (Err OneTime_Rejected, st')"
proof -
  have "case fst (one_time_consume demo_token_env demo_codec (demo_token CHR ''a'') PasswordReset 2000 demo_ot_issued) of
      Inl e \<Rightarrow> False | Inr r \<Rightarrow> True"
    by code_simp
  then obtain r st' where
    *: "one_time_consume demo_token_env demo_codec (demo_token CHR ''a'') PasswordReset 2000 demo_ot_issued = (Ok r, st')"
    by (cases "one_time_consume demo_token_env demo_codec (demo_token CHR ''a'') PasswordReset 2000 demo_ot_issued")
      (auto split: sum.split_asm)
  show ?thesis
    using one_time_token_is_single_use [OF * rtranclp.rtrancl_refl, of PasswordReset 2001] * by blast
qed

text \<open>
  Issuing replaces: once a new one-time token is issued, every earlier token of the same project,
  user and purpose is rejected after any later sequence of operations, while tokens of another user,
  project or purpose keep their records.
\<close>

theorem one_time_issue_replaces_earlier:
  assumes "one_time_issue env c ent tid project user purpose now_ms st = (Ok (plaintext, r), st')"
    and "hm_get (ot_tokens st) tid = None"
    and "\<And>plaintext parts. token_issue env c ent = Ok (plaintext, parts) \<Longrightarrow>
       hm_get (ot_by_prefix st) (tp_prefix parts) = None"
    and "parse_and_digest env c earlier = Ok parts"
    and "hm_get (ot_by_prefix st) (tp_prefix parts) = Some tid0" and "hm_get (ot_tokens st) tid0 = Some old"
  shows "if ot_project_id old = project \<and> ot_user_id old = user \<and> ot_purpose old = purpose
    then \<forall>st''. (one_time_step env c)\<^sup>*\<^sup>* st' st'' \<longrightarrow>
      one_time_consume env c earlier purpose2 now_ms2 st'' = (Err OneTime_Rejected, st'')
    else hm_get (ot_by_prefix st') (tp_prefix parts) = Some tid0 \<and> hm_get (ot_tokens st') tid0 = Some old"
  using assms(1)
proof (cases rule: one_time_issue_cases)
  case (Issued plaintext2 parts2 rec)
  have kept: "tid0 \<noteq> tid" "tp_prefix parts2 \<noteq> tp_prefix parts"
    using assms(2,5,6) assms(3) [OF Issued(1)] by auto
  show ?thesis
  proof (cases "ot_project_id old = project \<and> ot_user_id old = user \<and> ot_purpose old = purpose")
    case True
    then have "ot_consumed_at_ms (superseded project user purpose now_ms old) \<noteq> None"
      by (auto simp: superseded_def)
    then have "ot_spent (tp_prefix parts) st'"
      unfolding ot_spent_def Issued(3,4) using kept assms(5,6) by auto
    then show ?thesis
      using True ot_spent_rejected [OF one_time_run_spent assms(4)] by auto
  next
    case False
    then have "superseded project user purpose now_ms old = old" by (auto simp: superseded_def)
    then show ?thesis using False kept assms(5,6) by (auto simp: Issued(3,4))
  qed
qed simp

theorem one_time_issue_replaces_earlier_witness:
  "one_time_consume demo_token_env demo_codec (demo_token CHR ''a'') PasswordReset 1600
     (snd (one_time_issue demo_token_env demo_codec (demo_entropy CHR ''b'') 4 7 8 PasswordReset 1500 demo_ot_issued))
   = (Err OneTime_Rejected,
      snd (one_time_issue demo_token_env demo_codec (demo_entropy CHR ''b'') 4 7 8 PasswordReset 1500 demo_ot_issued))"
proof -
  let ?issue = "one_time_issue demo_token_env demo_codec (demo_entropy CHR ''b'') 4 7 8 PasswordReset 1500 demo_ot_issued"
  let ?rec = "\<lparr>ot_id = 4, ot_project_id = 7, ot_user_id = 8, ot_purpose = PasswordReset,
    ot_prefix = replicate 12 CHR ''b'', ot_digest = CHR ''k'' # demo_token CHR ''b'',
    ot_expires_at_ms = 1801500, ot_consumed_at_ms = None\<rparr>"
  let ?old = "\<lparr>ot_id = 3, ot_project_id = 7, ot_user_id = 8, ot_purpose = PasswordReset,
    ot_prefix = replicate 12 CHR ''a'', ot_digest = CHR ''k'' # demo_token CHR ''a'',
    ot_expires_at_ms = 1801000, ot_consumed_at_ms = None\<rparr>"
  have "fst ?issue = Ok (demo_token CHR ''b'', ?rec)" by code_simp
  then have issue: "?issue = (Ok (demo_token CHR ''b'', ?rec), snd ?issue)" by (simp add: prod_eq_iff)
  have parts: "token_issue demo_token_env demo_codec (demo_entropy CHR ''b'')
      = Ok (demo_token CHR ''b'', \<lparr>tp_prefix = replicate 12 CHR ''b'', tp_digest = CHR ''k'' # demo_token CHR ''b''\<rparr>)"
    "hm_get (ot_by_prefix demo_ot_issued) (replicate 12 CHR ''b'') = None"
    "hm_get (ot_tokens demo_ot_issued) 4 = None"
    by code_simp+
  have old: "parse_and_digest demo_token_env demo_codec (demo_token CHR ''a'')
      = Ok \<lparr>tp_prefix = replicate 12 CHR ''a'', tp_digest = CHR ''k'' # demo_token CHR ''a''\<rparr>"
    "hm_get (ot_by_prefix demo_ot_issued) (tp_prefix \<lparr>tp_prefix = replicate 12 CHR ''a'',
      tp_digest = CHR ''k'' # demo_token CHR ''a''\<rparr>) = Some 3"
    "hm_get (ot_tokens demo_ot_issued) 3 = Some ?old"
    by code_simp+
  show ?thesis
    using one_time_issue_replaces_earlier [OF issue parts(3) _ old, of PasswordReset 1600] parts(1,2)
    by auto
qed

text \<open>
  The codec reads its own tokens: for a codec accepted by \<open>new\<close> whose label is at most 150 bytes,
  an issued token parses back to the stored prefix and digest, and its digest verifies.
\<close>

theorem issued_token_parses_back:
  assumes "token_env_laws env" and "length (label c) \<le> 150"
    and "length prefix_bytes = 12" and "length secret_bytes = 32"
  shows "\<exists>plaintext parts. token_issue env c (Some (prefix_bytes, secret_bytes)) = Ok (plaintext, parts)
    \<and> parse_and_digest env c plaintext = Ok parts
    \<and> token_digest env c plaintext = Ok (tp_digest parts) \<and> verify_digest (tp_digest parts) (tp_digest parts)"
proof -
  let ?p = "te_b64_encode env prefix_bytes" and ?s = "te_b64_encode env secret_bytes"
  obtain d where d: "te_hmac env (pepper c) (token_text c ?p ?s) = Some d"
    using assms(1) unfolding token_env_laws_def by fast
  have laws: "CHR ''.'' \<notin> set ?p" "CHR ''.'' \<notin> set ?s" "length ?p \<le> 24" "length ?s \<le> 64"
      "te_b64_decode env ?p = Some prefix_bytes" "te_b64_decode env ?s = Some secret_bytes"
    using assms(1,3,4) unfolding token_env_laws_def by (metis mult_2 numeral_Bit0)+
  have "strip_prefix (token_text c ?p ?s) (''ffdb_'' @ label c @ ''_'') = Some (?p @ CHR ''.'' # ?s)"
    using strip_prefix_append [of "''ffdb_'' @ label c @ ''_''" "?p @ CHR ''.'' # ?s"]
    by (simp add: token_text_def)
  moreover have "\<not> 256 < length (token_text c ?p ?s)"
    using laws(3,4) assms(2) by (simp add: token_text_def)
  ultimately have "parse_and_digest env c (token_text c ?p ?s) = Ok \<lparr>tp_prefix = ?p, tp_digest = d\<rparr>"
    using laws d assms(3,4)
    by (simp add: parse_and_digest_def split_once_append token_digest_def)
  then show ?thesis
    using d by (auto simp: token_issue_def token_digest_def verify_digest_def Let_def)
qed

text \<open>A model of the laws: bytes as two hexadecimal letters.\<close>

definition letter_pair :: "char \<Rightarrow> string" where
  "letter_pair b = [char_of (97 + of_char b div (16::nat)), char_of (97 + of_char b mod (16::nat))]"

fun letters_decode :: "string \<Rightarrow> string option" where
  "letters_decode [] = Some []"
| "letters_decode [x] = None"
| "letters_decode (x # y # s) =
     map_option ((#) (char_of (((of_char x :: nat) - 97) * 16 + (of_char y - 97)))) (letters_decode s)"

definition letter_token_env :: token_env where
  "letter_token_env = \<lparr>te_b64_encode = concat \<circ> map letter_pair, te_b64_decode = letters_decode,
     te_hmac = (\<lambda>k s. Some (take 1 k @ s))\<rparr>"

lemma of_char_less: "(of_char b :: nat) < 256"
  by simp

lemma letter_pair_ok:
  "letters_decode (letter_pair b @ s) = map_option ((#) b) (letters_decode s)" "CHR ''.'' \<notin> set (letter_pair b)"
proof -
  have lt: "(of_char b :: nat) < 256" by (rule of_char_less)
  then have "97 + of_char b div (16::nat) < 256" "97 + of_char b mod (16::nat) < 256"
    by linarith+
  then have wrap: "(97 + of_char b div (16::nat)) mod 256 = 97 + of_char b div 16"
      "(97 + of_char b mod (16::nat)) mod 256 = 97 + of_char b mod 16"
    by (metis mod_less)+
  then have oc: "of_char (char_of (97 + of_char b div (16::nat))) = (97 + of_char b div 16 :: nat)"
      "of_char (char_of (97 + of_char b mod (16::nat))) = (97 + of_char b mod 16 :: nat)"
    by simp_all
  show "letters_decode (letter_pair b @ s) = map_option ((#) b) (letters_decode s)"
    by (simp add: letter_pair_def wrap)
  show "CHR ''.'' \<notin> set (letter_pair b)"
  proof
    assume "CHR ''.'' \<in> set (letter_pair b)"
    then consider "CHR ''.'' = char_of (97 + of_char b div (16::nat))"
      | "CHR ''.'' = char_of (97 + of_char b mod (16::nat))"
      unfolding letter_pair_def by auto
    then have "(of_char CHR ''.'' :: nat) \<ge> 97"
      by cases (simp_all only: oc le_add1)
    then show False by simp
  qed
qed

lemma letter_token_env_laws: "token_env_laws letter_token_env"
proof -
  have "letters_decode (concat (map letter_pair s)) = Some s" for s
    by (induction s) (simp_all add: letter_pair_ok)
  moreover have "CHR ''.'' \<notin> set (concat (map letter_pair s))" for s
    by (induction s) (simp_all add: letter_pair_ok)
  moreover have "length (concat (map letter_pair s)) \<le> 2 * length s" for s
    by (induction s) (simp_all add: letter_pair_def)
  ultimately show ?thesis by (simp add: token_env_laws_def letter_token_env_def)
qed

theorem issued_token_parses_back_witness:
  "\<exists>plaintext parts. token_issue letter_token_env demo_codec (demo_entropy CHR ''a'') = Ok (plaintext, parts)
    \<and> parse_and_digest letter_token_env demo_codec plaintext = Ok parts"
  using issued_token_parses_back [OF letter_token_env_laws, of demo_codec "replicate 12 CHR ''a''" "replicate 32 CHR ''a''"]
  by (auto simp: demo_codec_def demo_entropy_def)

end
