(* ===== verification/Rate_Quota.thy ===== *)
theory Rate_Quota
  imports Collections
begin

text \<open>
  \<open>crates/rate-limits/src/lib.rs\<close>: rate-limit keys and the fixed-window quota. The clock is the
  argument \<open>now_ms\<close> of each call; HMAC-SHA256 is the argument \<open>hmac\<close>. The token bucket of the same
  file computes with floating-point numbers and is not modelled.
\<close>

datatype rate_dimension = Ip | AuthProject | AuthUser | AuthApiKey | Dim_Project | Dim_User | ApiKey

datatype rate_limit_error = InvalidConfiguration | InvalidCost | Saturated | Rate_Unavailable

fun dimension_name :: "rate_dimension \<Rightarrow> string" where
  "dimension_name Ip = ''ip''"
| "dimension_name AuthProject = ''auth_project''"
| "dimension_name AuthUser = ''auth_user''"
| "dimension_name AuthApiKey = ''auth_api_key''"
| "dimension_name Dim_Project = ''project''"
| "dimension_name Dim_User = ''user''"
| "dimension_name ApiKey = ''api_key''"

record rate_limit_key =
  rk_dimension :: rate_dimension
  rk_digest :: string

definition key_derive ::
    "(string \<Rightarrow> string \<Rightarrow> string option) \<Rightarrow> rate_dimension \<Rightarrow> string \<Rightarrow> string
      \<Rightarrow> rate_limit_error + rate_limit_key" where
  "key_derive hmac dim namespace_secret ident =
     (if length namespace_secret < 32 \<or> ident = [] \<or> length ident > 1024 then Err InvalidConfiguration
      else
        bindr (ok_or (hmac namespace_secret (dimension_name dim @ [char_of (0::nat)] @ ident)) InvalidConfiguration)
          (\<lambda>digest. Ok \<lparr>rk_dimension = dim, rk_digest = digest\<rparr>))"

section \<open>Fixed-window quota\<close>

record quota_config =
  qc_limit :: nat
  qc_window_ms :: int
  qc_max_entries :: nat

datatype quota_decision = Allowed nat int | Denied int

record quota_state =
  window_start_ms :: int
  consumed :: nat

record fixed_window_quota =
  q_config :: quota_config
  q_entries :: "(rate_limit_key, quota_state) hash_map"

definition quota_new :: "quota_config \<Rightarrow> rate_limit_error + fixed_window_quota" where
  "quota_new cfg =
     (if qc_limit cfg = 0 \<or> qc_window_ms cfg \<le> 0 \<or> qc_max_entries cfg = 0 then Err InvalidConfiguration
      else Ok \<lparr>q_config = cfg, q_entries = []\<rparr>)"

definition window_of :: "quota_config \<Rightarrow> int \<Rightarrow> int" where
  "window_of cfg now_ms = now_ms - now_ms mod qc_window_ms cfg"

text \<open>The making of room for a new key: \<open>retain\<close> the current window, and fail closed when that is not enough.\<close>

definition make_room ::
    "quota_config \<Rightarrow> rate_limit_key \<Rightarrow> int \<Rightarrow> (rate_limit_key, quota_state) hash_map
      \<Rightarrow> bool \<times> (rate_limit_key, quota_state) hash_map" where
  "make_room cfg key start entries =
     (if \<not> hm_contains_key entries key \<and> length entries \<ge> qc_max_entries cfg then
        (let kept = hm_retain (\<lambda>_ entry. window_start_ms entry \<ge> start) entries
         in (length kept < qc_max_entries cfg, kept))
      else (True, entries))"

text \<open>The entry of the key after \<open>or_insert\<close> and the reset of a stale window.\<close>

definition current_entry ::
    "rate_limit_key \<Rightarrow> int \<Rightarrow> (rate_limit_key, quota_state) hash_map \<Rightarrow> quota_state" where
  "current_entry key start entries =
     (let entry = (case hm_get entries key of
                     Some e \<Rightarrow> e | None \<Rightarrow> \<lparr>window_start_ms = start, consumed = 0\<rparr>)
      in if window_start_ms entry \<noteq> start then \<lparr>window_start_ms = start, consumed = 0\<rparr> else entry)"

definition quota_consume ::
    "rate_limit_key \<Rightarrow> nat \<Rightarrow> int \<Rightarrow> fixed_window_quota
      \<Rightarrow> (rate_limit_error + quota_decision) \<times> fixed_window_quota" where
  "quota_consume key units now_ms q =
     (let cfg = q_config q in
      if units = 0 \<or> units > qc_limit cfg \<or> now_ms < 0 then (Err InvalidCost, q)
      else
        (let start = window_of cfg now_ms in
         case checked_add_i64 start (qc_window_ms cfg) of
           None \<Rightarrow> (Err InvalidCost, q)
         | Some reset_at_ms \<Rightarrow>
             (let (room, entries) = make_room cfg key start (q_entries q) in
              if \<not> room then (Err Saturated, q\<lparr>q_entries := entries\<rparr>)
              else
                (let entry = current_entry key start entries in
                 case checked_add_u64 (consumed entry) units of
                   None \<Rightarrow> (Err InvalidCost, q\<lparr>q_entries := hm_insert key entry entries\<rparr>)
                 | Some next \<Rightarrow>
                     if next > qc_limit cfg
                     then (Ok (Denied reset_at_ms), q\<lparr>q_entries := hm_insert key entry entries\<rparr>)
                     else (Ok (Allowed (qc_limit cfg - next) reset_at_ms),
                           q\<lparr>q_entries := hm_insert key (entry\<lparr>consumed := next\<rparr>) entries\<rparr>)))))"

section \<open>Runs\<close>

text \<open>A sequence of calls, and the units granted to a key in a window over it.\<close>

type_synonym quota_call = "rate_limit_key \<times> nat \<times> int"

definition is_allowed :: "rate_limit_error + quota_decision \<Rightarrow> bool" where
  "is_allowed r = (case r of Inr (Allowed _ _) \<Rightarrow> True | _ \<Rightarrow> False)"

fun quota_run :: "quota_call list \<Rightarrow> fixed_window_quota \<Rightarrow> quota_call list \<times> fixed_window_quota" where
  "quota_run [] q = ([], q)"
| "quota_run ((key, units, now_ms) # cs) q =
     (let (r, q1) = quota_consume key units now_ms q;
          (granted, q2) = quota_run cs q1
      in (if is_allowed r then (key, units, now_ms) # granted else granted, q2))"

definition granted_units :: "quota_config \<Rightarrow> rate_limit_key \<Rightarrow> int \<Rightarrow> quota_call list \<Rightarrow> nat" where
  "granted_units cfg key start calls =
     sum_list (map (\<lambda>(k, units, now_ms). if k = key \<and> window_of cfg now_ms = start then units else 0) calls)"

definition call_time :: "quota_call \<Rightarrow> int" where
  "call_time call = snd (snd call)"

text \<open>
  The invariant of the table at time \<open>now_ms\<close>: distinct keys, no entry of a later window, no entry
  over the limit and never more entries than the configuration allows.
\<close>

definition quota_ok :: "int \<Rightarrow> fixed_window_quota \<Rightarrow> bool" where
  "quota_ok now_ms q \<longleftrightarrow> hm_wf (q_entries q) \<and> 0 < qc_window_ms (q_config q)
     \<and> 0 < qc_max_entries (q_config q) \<and> length (q_entries q) \<le> qc_max_entries (q_config q)
     \<and> (\<forall>k e. hm_get (q_entries q) k = Some e \<longrightarrow>
          window_start_ms e \<le> window_of (q_config q) now_ms \<and> consumed e \<le> qc_limit (q_config q))"

text \<open>What the table still has on record for a key in a window.\<close>

definition recorded :: "rate_limit_key \<Rightarrow> int \<Rightarrow> fixed_window_quota \<Rightarrow> nat" where
  "recorded key start q =
     (case hm_get (q_entries q) key of
        None \<Rightarrow> 0 | Some e \<Rightarrow> if window_start_ms e = start then consumed e else 0)"

lemma window_of_mono: "0 < qc_window_ms cfg \<Longrightarrow> s \<le> t \<Longrightarrow> window_of cfg s \<le> window_of cfg t"
  unfolding window_of_def minus_mod_eq_mult_div
  by (intro mult_left_mono zdiv_mono1) auto

lemma quota_ok_later: "quota_ok s q \<Longrightarrow> s \<le> t \<Longrightarrow> quota_ok t q"
  unfolding quota_ok_def by (meson order_trans window_of_mono)

lemma make_room_cases:
  assumes "make_room cfg key start entries = (room, entries')" and "hm_wf entries"
  shows "hm_wf entries'" and "length entries' \<le> length entries"
    and "room \<Longrightarrow> length entries \<le> qc_max_entries cfg \<Longrightarrow>
         hm_contains_key entries' key \<or> length entries' < qc_max_entries cfg"
    and "hm_get entries' key = hm_get entries key"
    and "hm_get entries' k = Some e \<Longrightarrow> hm_get entries k = Some e"
    and "hm_get entries k = Some e \<Longrightarrow> start \<le> window_start_ms e \<Longrightarrow> hm_get entries' k = Some e"
proof -
  let ?kept = "hm_retain (\<lambda>_ entry. window_start_ms entry \<ge> start) entries"
  consider (Purge) "entries' = ?kept" "room = (length ?kept < qc_max_entries cfg)" "\<not> hm_contains_key entries key"
    | (Keep) "entries' = entries" "room" "hm_contains_key entries key \<or> length entries < qc_max_entries cfg"
    using assms(1) by (auto simp: make_room_def Let_def split: if_split_asm)
  note cases = this
  show "hm_wf entries'" using cases by cases (use assms(2) in \<open>simp_all add: hm_wf_retain\<close>)
  show "length entries' \<le> length entries" using cases by cases simp_all
  show "hm_get entries' key = hm_get entries key"
    using cases by cases (use assms(2) in \<open>auto simp: hm_get_retain hm_contains_key_def\<close>)
  show "hm_contains_key entries' key \<or> length entries' < qc_max_entries cfg" if room
    using cases by cases (use that in auto)
  show "hm_get entries k = Some e" if "hm_get entries' k = Some e"
    using cases by cases (use that assms(2) in \<open>auto simp: hm_get_retain split: option.split_asm if_split_asm\<close>)
  show "hm_get entries' k = Some e" if "hm_get entries k = Some e" "start \<le> window_start_ms e"
    using cases by cases (use that assms(2) in \<open>auto simp: hm_get_retain\<close>)
qed

lemma hm_length_insert_bound:
  "hm_contains_key m k \<or> length m < n \<Longrightarrow> length m \<le> n \<Longrightarrow> length (hm_insert k v m) \<le> n"
  by (auto simp: hm_length_insert hm_contains_key_def)

lemma make_room_recorded:
  assumes "make_room cfg key start (q_entries q) = (room, entries')" and "hm_wf (q_entries q)" and "start \<le> w"
  shows "recorded k w (q\<lparr>q_entries := entries'\<rparr>) = recorded k w q"
proof (cases "hm_get (q_entries q) k")
  case None
  then have "hm_get entries' k = None"
    using make_room_cases(5) [OF assms(1,2)] by (metis option.exhaust)
  then show ?thesis using None by (simp add: recorded_def)
next
  case (Some e)
  then consider "hm_get entries' k = Some e" | "hm_get entries' k = None" "window_start_ms e < start"
    using make_room_cases(5,6) [OF assms(1,2)] by (metis linorder_not_le option.exhaust option.inject)
  then show ?thesis using Some assms(3) by cases (auto simp: recorded_def)
qed

section \<open>One call\<close>

lemma quota_consume_config [simp]: "q_config (snd (quota_consume key units now_ms q)) = q_config q"
  by (simp add: quota_consume_def Let_def split: option.split prod.split)

text \<open>The table after a call: unchanged, short of stale entries, or with the key's entry written.\<close>

lemma quota_consume_table:
  assumes "quota_consume key units now_ms q = (r, q')" and "quota_ok now_ms q"
  defines "start \<equiv> window_of (q_config q) now_ms"
  obtains (Same) "q' = q" "\<not> is_allowed r"
    | (Full) "q_entries q' = snd (make_room (q_config q) key start (q_entries q))" "\<not> is_allowed r"
    | (Written) entries e where "make_room (q_config q) key start (q_entries q) = (True, entries)"
        "window_start_ms e = start" "q_entries q' = hm_insert key e entries"
        "consumed e = recorded key start q + (if is_allowed r then units else 0)"
        "consumed e \<le> qc_limit (q_config q)"
proof (cases "q' = q \<and> \<not> is_allowed r")
  case True
  then show thesis by (intro Same) auto
next
  case changed: False
  then have guards: "\<not> (units = 0 \<or> units > qc_limit (q_config q) \<or> now_ms < 0)"
  proof (rule contrapos_nn)
    assume "units = 0 \<or> units > qc_limit (q_config q) \<or> now_ms < 0"
    then show "q' = q \<and> \<not> is_allowed r"
      using assms(1) by (auto simp: quota_consume_def Let_def is_allowed_def)
  qed
  obtain reset where reset: "checked_add_i64 start (qc_window_ms (q_config q)) = Some reset"
    using assms(1) changed guards
    by (cases "checked_add_i64 start (qc_window_ms (q_config q))")
      (auto simp: quota_consume_def Let_def is_allowed_def start_def)
  obtain room entries where room: "make_room (q_config q) key start (q_entries q) = (room, entries)"
    by force
  show thesis
  proof (cases room)
    case False
    then show thesis
      using assms(1) guards reset room
      by (intro Full) (auto simp: quota_consume_def Let_def start_def is_allowed_def)
  next
    case True
    let ?e = "current_entry key start entries"
    have "hm_get entries key = hm_get (q_entries q) key"
      using assms(2) by (intro make_room_cases(4) [OF room]) (simp add: quota_ok_def)
    then have e: "window_start_ms ?e = start" "consumed ?e = recorded key start q" "consumed ?e \<le> qc_limit (q_config q)"
      using assms(2) by (auto simp: current_entry_def recorded_def quota_ok_def split: option.splits)
    have q': "(case checked_add_u64 (consumed ?e) units of
                   None \<Rightarrow> (Err InvalidCost, q\<lparr>q_entries := hm_insert key ?e entries\<rparr>)
                 | Some next \<Rightarrow>
                     if next > qc_limit (q_config q)
                     then (Ok (Denied reset), q\<lparr>q_entries := hm_insert key ?e entries\<rparr>)
                     else (Ok (Allowed (qc_limit (q_config q) - next) reset),
                           q\<lparr>q_entries := hm_insert key (?e\<lparr>consumed := next\<rparr>) entries\<rparr>)) = (r, q')"
      using assms(1) guards reset room True unfolding start_def by (simp add: quota_consume_def Let_def)
    show thesis
    proof (cases "is_allowed r")
      case allowed: True
      then have "q_entries q' = hm_insert key (?e\<lparr>consumed := consumed ?e + units\<rparr>) entries"
          "consumed ?e + units \<le> qc_limit (q_config q)"
        using q' by (auto simp: is_allowed_def ffdb_int split: option.split_asm if_split_asm)
      then show thesis using room True e allowed by (intro Written) auto
    next
      case denied: False
      then have "q_entries q' = hm_insert key ?e entries"
        using q' by (auto simp: is_allowed_def split: option.split_asm if_split_asm)
      then show thesis using room True e denied by (intro Written) auto
    qed
  qed
qed

lemma quota_consume_ok:
  assumes "quota_consume key units now_ms q = (r, q')" and "quota_ok now_ms q"
  shows "quota_ok now_ms q'"
proof -
  have cfg: "q_config q' = q_config q" using assms(1) quota_consume_config by (metis snd_conv)
  from assms show ?thesis
  proof (cases rule: quota_consume_table)
    case Same
    then show ?thesis using assms(2) by simp
  next
    case Full
    let ?start = "window_of (q_config q) now_ms"
    have wf: "hm_wf (q_entries q)" using assms(2) by (simp add: quota_ok_def)
    let ?kept = "snd (make_room (q_config q) key ?start (q_entries q))"
    note room = make_room_cases [of "q_config q" key ?start "q_entries q", OF surjective_pairing wf]
    have "length ?kept \<le> qc_max_entries (q_config q)"
      using room(2) assms(2) by (simp add: quota_ok_def)
    then show ?thesis
      using assms(2) room(1) unfolding quota_ok_def cfg Full(1) by (blast dest: room(5))
  next
    case (Written entries e)
    have "hm_wf (q_entries q)" using assms(2) by (simp add: quota_ok_def)
    note room = make_room_cases [OF Written(1) this]
    have "length (hm_insert key e entries) \<le> qc_max_entries (q_config q)"
      using room(2,3) assms(2) by (intro hm_length_insert_bound) (auto simp: quota_ok_def)
    moreover have "hm_wf (hm_insert key e entries)" using room(1) by (rule hm_wf_insert)
    moreover have "window_start_ms e' \<le> window_of (q_config q) now_ms \<and> consumed e' \<le> qc_limit (q_config q)"
      if "hm_get (hm_insert key e entries) k = Some e'" for k e'
      using that room(5) [of k e'] assms(2) Written(2,5)
      by (auto simp: hm_get_insert quota_ok_def split: if_split_asm)
    ultimately show ?thesis
      using assms(2) unfolding quota_ok_def cfg Written(3) by blast
  qed
qed

text \<open>The account of a window that is current or still to come.\<close>

lemma quota_consume_recorded:
  assumes "quota_consume key units now_ms q = (r, q')" and "quota_ok now_ms q"
    and "window_of (q_config q) now_ms \<le> w"
  shows "recorded k w q' = recorded k w q
    + (if is_allowed r \<and> k = key \<and> window_of (q_config q) now_ms = w then units else 0)"
  using assms(1,2)
proof (cases rule: quota_consume_table)
  case Full
  have "hm_wf (q_entries q)" using assms(2) by (simp add: quota_ok_def)
  then have "recorded k w q' = recorded k w q"
    using make_room_recorded [OF surjective_pairing _ assms(3), where key = key and k = k] by (simp add: recorded_def Full(1))
  then show ?thesis using Full(2) by simp
next
  case (Written entries e)
  have "hm_wf (q_entries q)" using assms(2) by (simp add: quota_ok_def)
  then have "recorded k w q' = recorded k w q" if "k \<noteq> key"
    using make_room_recorded [OF Written(1) _ assms(3), where k = k] that
    by (simp add: recorded_def Written(3) hm_get_insert)
  moreover have "recorded key w q' = (if window_of (q_config q) now_ms = w then consumed e else 0)"
    unfolding recorded_def Written(3) using Written(2) by (simp add: hm_get_insert)
  moreover have "recorded key w q = 0" if "window_of (q_config q) now_ms \<noteq> w"
    using that assms(2,3) by (fastforce simp: recorded_def quota_ok_def split: option.splits)
  ultimately show ?thesis using Written(4) by (cases "k = key") auto
qed simp


section \<open>Runs of calls\<close>

lemma quota_run_config [simp]: "q_config (snd (quota_run cs q)) = q_config q"
proof (induction cs q rule: quota_run.induct)
  case (2 key units now_ms cs q)
  obtain r q1 where "quota_consume key units now_ms q = (r, q1)" by force
  moreover from this have "q_config q1 = q_config q" using quota_consume_config by (metis snd_conv)
  ultimately show ?case using 2 [OF _ refl] by (simp add: Let_def case_prod_beta)
qed simp

lemma quota_run_Cons:
  assumes "quota_consume key units now_ms q = (r, q1)"
  shows "quota_run ((key, units, now_ms) # cs) q
    = ((if is_allowed r then [(key, units, now_ms)] else []) @ fst (quota_run cs q1), snd (quota_run cs q1))"
  using assms by (simp add: Let_def split: prod.split)

lemma granted_units_append [simp]:
  "granted_units cfg k w (as @ bs) = granted_units cfg k w as + granted_units cfg k w bs"
  by (simp add: granted_units_def)

lemma granted_units_Nil [simp]: "granted_units cfg k w [] = 0"
  by (simp add: granted_units_def)

lemma granted_units_single [simp]:
  "granted_units cfg k w [(key, units, now_ms)] = (if key = k \<and> window_of cfg now_ms = w then units else 0)"
  by (simp add: granted_units_def)

text \<open>The calls come in the order of the clock, the first not before \<open>t\<close>.\<close>

definition in_order :: "int \<Rightarrow> quota_call list \<Rightarrow> bool" where
  "in_order t cs = sorted (t # map call_time cs)"

lemma in_order_Cons [simp]:
  "in_order t ((key, units, now_ms) # cs) \<longleftrightarrow> t \<le> now_ms \<and> in_order now_ms cs"
  by (auto simp: in_order_def call_time_def)

text \<open>The table records exactly what the run granted in the current window.\<close>

lemma quota_run_recorded:
  assumes "quota_ok t q" and "in_order t cs" and "in_order t (cs @ [(key, units, now_ms)])"
  shows "quota_ok now_ms (snd (quota_run cs q))
    \<and> recorded k (window_of (q_config q) now_ms) (snd (quota_run cs q))
      = recorded k (window_of (q_config q) now_ms) q
        + granted_units (q_config q) k (window_of (q_config q) now_ms) (fst (quota_run cs q))"
  using assms
proof (induction cs arbitrary: t q)
  case Nil
  then show ?case by (auto intro: quota_ok_later)
next
  case (Cons call cs)
  obtain ck cu ct where call: "call = (ck, cu, ct)" by (cases call)
  obtain r q1 where step: "quota_consume ck cu ct q = (r, q1)" by force
  have cfg: "q_config q1 = q_config q" using step quota_consume_config by (metis snd_conv)
  have ok: "quota_ok ct q" using Cons.prems call by (auto intro: quota_ok_later)
  then have ok1: "quota_ok ct q1" using step quota_consume_ok by blast
  have "ct \<le> now_ms"
    using Cons.prems(3) by (auto simp: call in_order_def call_time_def sorted_append)
  then have "window_of (q_config q) ct \<le> window_of (q_config q) now_ms"
    using ok by (intro window_of_mono) (auto simp: quota_ok_def)
  note this_call = quota_consume_recorded [OF step ok this, of k]
  show ?case
    using Cons.IH [OF ok1] Cons.prems(2,3) this_call unfolding call quota_run_Cons [OF step]
    by (auto simp: cfg)
qed

lemma quota_run_past:
  assumes "in_order t cs" and "0 < qc_window_ms (q_config q)" and "w < window_of (q_config q) t"
  shows "granted_units (q_config q) k w (fst (quota_run cs q)) = 0"
  using assms
proof (induction cs arbitrary: t q)
  case (Cons call cs)
  obtain ck cu ct where call: "call = (ck, cu, ct)" by (cases call)
  obtain r q1 where step: "quota_consume ck cu ct q = (r, q1)" by force
  have cfg: "q_config q1 = q_config q" using step quota_consume_config by (metis snd_conv)
  have "window_of (q_config q) t \<le> window_of (q_config q) ct"
    using Cons.prems by (intro window_of_mono) (auto simp: call)
  then have w: "w < window_of (q_config q1) ct" using Cons.prems(3) cfg by simp
  show ?case
    using Cons.IH [OF _ _ w] Cons.prems w unfolding call quota_run_Cons [OF step] by (simp add: cfg)
qed simp

lemma quota_run_bound:
  assumes "quota_ok t q" and "in_order t cs" and "window_of (q_config q) t \<le> w"
  shows "recorded k w q + granted_units (q_config q) k w (fst (quota_run cs q)) \<le> qc_limit (q_config q)"
  using assms
proof (induction cs arbitrary: t q)
  case Nil
  then show ?case by (auto simp: recorded_def quota_ok_def split: option.splits)
next
  case (Cons call cs)
  obtain ck cu ct where call: "call = (ck, cu, ct)" by (cases call)
  obtain r q1 where step: "quota_consume ck cu ct q = (r, q1)" by force
  have cfg: "q_config q1 = q_config q" using step quota_consume_config by (metis snd_conv)
  have ok: "quota_ok ct q" using Cons.prems call by (auto intro: quota_ok_later)
  then have ok1: "quota_ok ct q1" using step quota_consume_ok by blast
  have order: "in_order ct cs" using Cons.prems(2) call by simp
  show ?case
  proof (cases "window_of (q_config q) ct \<le> w")
    case True
    then show ?thesis
      using Cons.IH [OF ok1 order] quota_consume_recorded [OF step ok True, of k]
      unfolding call quota_run_Cons [OF step] by (auto simp: cfg)
  next
    case False
    then have "granted_units (q_config q1) k w (fst (quota_run cs q1)) = 0"
      using order ok by (intro quota_run_past) (auto simp: cfg quota_ok_def)
    then show ?thesis
      using False Cons.prems(1) unfolding call quota_run_Cons [OF step]
      by (auto simp: cfg recorded_def quota_ok_def split: option.splits)
  qed
qed

lemma quota_new_ok: "quota_new cfg = Ok q \<Longrightarrow> quota_ok t q \<and> q_config q = cfg \<and> recorded k w q = 0"
  by (auto simp: quota_new_def quota_ok_def recorded_def split: if_split_asm)

lemma quota_decision:
  assumes "quota_consume key units now_ms q = (Ok d, q')" and "quota_ok now_ms q"
  shows "d = (let g = recorded key (window_of (q_config q) now_ms) q;
                  reset = window_of (q_config q) now_ms + qc_window_ms (q_config q)
              in if g + units \<le> qc_limit (q_config q)
                 then Allowed (qc_limit (q_config q) - (g + units)) reset else Denied reset)"
proof -
  let ?start = "window_of (q_config q) now_ms"
  obtain room entries where room: "make_room (q_config q) key ?start (q_entries q) = (room, entries)" by force
  have "hm_get entries key = hm_get (q_entries q) key"
    using assms(2) by (intro make_room_cases(4) [OF room]) (simp add: quota_ok_def)
  then have e: "consumed (current_entry key ?start entries) = recorded key ?start q"
    by (auto simp: current_entry_def recorded_def split: option.splits)
  show ?thesis
    using assms(1) room
    by (auto simp: quota_consume_def Let_def e ffdb_int split: if_split_asm option.split_asm)
qed

text \<open>
  C14. The quota is exact while the clock does not run backwards. Over any sequence of calls on a
  new quota, whatever the keys, saturation and evictions in between: no key is granted more than the
  limit in any window; the table never exceeds its bound; and a further call that is decided is allowed
  exactly when the units granted to its key in its window leave room for it, with the rest as
  \<open>remaining\<close>.
\<close>

theorem quota_grants_exactly_the_limit:
  assumes "quota_new cfg = Ok q" and "in_order t (cs @ [(key, units, now_ms)])"
    and "quota_run cs q = (granted, q')" and "quota_consume key units now_ms q' = (r, q'')"
  shows "granted_units cfg k w granted \<le> qc_limit cfg
    \<and> length (q_entries q'') \<le> qc_max_entries cfg
    \<and> (\<forall>d. r = Ok d \<longrightarrow>
        d = (let g = granted_units cfg key (window_of cfg now_ms) granted;
                 reset = window_of cfg now_ms + qc_window_ms cfg
             in if g + units \<le> qc_limit cfg then Allowed (qc_limit cfg - (g + units)) reset
                else Denied reset))"
proof -
  have order: "in_order t cs" using assms(2) by (simp add: in_order_def sorted_append)
  have new: "quota_ok t q" "q_config q = cfg" "recorded k' w' q = 0" for k' w'
    using quota_new_ok [OF assms(1)] by auto
  have run: "quota_ok now_ms q'" "q_config q' = cfg"
      "recorded key (window_of cfg now_ms) q' = granted_units cfg key (window_of cfg now_ms) granted"
    using quota_run_recorded [OF new(1) order assms(2), of key] new(2,3) assms(3)
      quota_run_config [of cs q] by auto
  have "granted_units cfg k w granted \<le> qc_limit cfg"
  proof (cases "window_of cfg t \<le> w")
    case True
    then show ?thesis using quota_run_bound [OF new(1) order, of w k] new(2,3) assms(3) by simp
  next
    case False
    then show ?thesis
      using quota_run_past [OF order, of q w k] new(1,2) assms(3) by (simp add: quota_ok_def)
  qed
  moreover have "length (q_entries q'') \<le> qc_max_entries cfg"
    using quota_consume_ok [OF assms(4) run(1)] quota_consume_config [of key units now_ms q'] assms(4) run(2)
    by (simp add: quota_ok_def)
  moreover have "d = (let g = granted_units cfg key (window_of cfg now_ms) granted;
      reset = window_of cfg now_ms + qc_window_ms cfg
      in if g + units \<le> qc_limit cfg then Allowed (qc_limit cfg - (g + units)) reset else Denied reset)"
    if "r = Ok d" for d
    using quota_decision [OF assms(4) [unfolded that] run(1)] unfolding run(2,3) .
  ultimately show ?thesis by blast
qed

definition demo_quota_config :: quota_config where
  "demo_quota_config = \<lparr>qc_limit = 5, qc_window_ms = 1000, qc_max_entries = 2\<rparr>"

definition demo_rate_key :: rate_limit_key where
  "demo_rate_key = \<lparr>rk_dimension = Ip, rk_digest = ''d''\<rparr>"

definition demo_quota :: fixed_window_quota where
  "demo_quota = \<lparr>q_config = demo_quota_config, q_entries = []\<rparr>"

definition demo_quota_calls :: "quota_call list" where
  "demo_quota_calls = [(demo_rate_key, 3, 100), (demo_rate_key, 3, 200), (demo_rate_key, 2, 900)]"

theorem quota_grants_exactly_the_limit_witness:
  "granted_units demo_quota_config demo_rate_key 0 (fst (quota_run demo_quota_calls demo_quota)) = 5
   \<and> fst (quota_consume demo_rate_key 1 950 (snd (quota_run demo_quota_calls demo_quota))) = Ok (Denied 1000)"
proof -
  let ?run = "quota_run demo_quota_calls demo_quota"
  let ?last = "quota_consume demo_rate_key 1 950 (snd ?run)"
  have new: "quota_new demo_quota_config = Ok demo_quota"
    by (simp add: quota_new_def demo_quota_config_def demo_quota_def)
  have order: "in_order 0 (demo_quota_calls @ [(demo_rate_key, 1, 950)])"
    by (simp add: in_order_def demo_quota_calls_def call_time_def)
  have five: "granted_units demo_quota_config demo_rate_key 0 (fst ?run) = 5" by code_simp
  have "\<exists>d. fst ?last = Ok d" by (rule exI) code_simp
  then obtain d where d: "fst ?last = Ok d" by blast
  have "window_of demo_quota_config 950 = 0" by code_simp
  then show ?thesis
    using quota_grants_exactly_the_limit [OF new order surjective_pairing surjective_pairing, of demo_rate_key 0] d five
    by (simp add: demo_quota_config_def)
qed

text \<open>When the clock does run backwards, the counter of the window is forgotten: here ten units in a
  window of five.\<close>

lemma quota_clock_backwards:
  "granted_units demo_quota_config demo_rate_key 1000
     (fst (quota_run [(demo_rate_key, 5, 1500), (demo_rate_key, 1, 999), (demo_rate_key, 5, 1501)] demo_quota)) = 10"
  by code_simp

end
