(* ===== verification/Control_Registry.thy ===== *)
theory Control_Registry
  imports Transition_System Collections
begin

text \<open>
  \<open>crates/control-plane/src/lib.rs\<close>: the registry of organizations, projects, databases, routes and
  nodes. The in-memory registry is modelled whole; of the PostgreSQL registry, the decision on the
  project allowance and the conversions of stored values. New identifiers (\<open>Uuid::now_v7\<close>) are
  arguments. The registry is one value behind a read-write lock.
\<close>

section \<open>Data\<close>

type_synonym uuid = nat

datatype registry_error =
    Reg_InvalidInput | Reg_NotFound | Reg_Conflict | Reg_Unavailable | Reg_Forbidden | Reg_BillingLimit
  | Reg_StaleGeneration | Reg_Inconsistent | Reg_DatastoreUnavailable

datatype routing_error =
    Routing_NotFound | Routing_Unavailable | Routing_StaleGeneration | Routing_Inconsistent

datatype organization_role = Role_Owner | Role_Admin | Role_Developer | Role_Viewer

datatype project_lifecycle_state =
    Provisioning | Active | Suspended | Restoring | Deleting | Deleted | Failed

record organization_summary =
  og_id :: uuid
  og_name :: string
  og_slug :: string
  og_role :: organization_role
  og_created_at_ms :: int

record project_summary =
  pj_id :: uuid
  pj_organization_id :: uuid
  pj_name :: string
  pj_slug :: string
  pj_region :: string
  pj_state :: project_lifecycle_state
  pj_schema_version :: nat
  pj_created_at_ms :: int

record database_route =
  ro_project_id :: uuid
  ro_database_id :: uuid
  ro_node_id :: uuid
  ro_generation :: nat

record provisioned_project =
  pv_project :: project_summary
  pv_route :: database_route

record project_record =
  pr_summary :: project_summary
  pr_database_id :: uuid

record create_project_request =
  cp_organization_id :: uuid
  cp_name :: string
  cp_slug :: string
  cp_region :: "string option"

record memory_state =
  organizations :: "(uuid, organization_summary) hash_map"
  organization_slugs :: "(string, uuid) hash_map"
  memberships :: "(uuid \<times> uuid, organization_role) hash_map"
  projects :: "(uuid, project_record) hash_map"
  project_slugs :: "(uuid \<times> string, uuid) hash_map"
  database_by_project :: "(uuid, uuid) hash_map"
  routes :: "(uuid, database_route) hash_map"
  nodes :: "(uuid, string) hash_map"

definition registry_default :: memory_state where
  "registry_default = \<lparr>organizations = [], organization_slugs = [], memberships = [], projects = [],
     project_slugs = [], database_by_project = [], routes = [], nodes = []\<rparr>"

section \<open>Validation\<close>

definition slug_byte :: "char \<Rightarrow> bool" where
  "slug_byte b = (is_ascii_lowercase b \<or> is_ascii_digit b)"

definition validate_slug :: "string \<Rightarrow> registry_error + unit" where
  "validate_slug slug =
     require (2 \<le> length slug \<and> length slug \<le> 63 \<and> slug \<noteq> [] \<and> slug_byte (hd slug)
       \<and> list_all (\<lambda>b. slug_byte b \<or> b = CHR ''-'') slug) Reg_InvalidInput"

definition validate_name :: "string \<Rightarrow> registry_error + unit" where
  "validate_name name =
     require (trim name = name \<and> 1 \<le> length name \<and> length name \<le> 128 \<and> \<not> any_control name) Reg_InvalidInput"

definition validate_region :: "string \<Rightarrow> registry_error + string" where
  "validate_region region =
     (if region = [] \<or> length region > 64
         \<or> \<not> list_all (\<lambda>b. slug_byte b \<or> b = CHR ''-'' \<or> b = CHR ''_'') region
      then Err Reg_InvalidInput else Ok region)"

definition valid_transition :: "project_lifecycle_state \<Rightarrow> project_lifecycle_state \<Rightarrow> bool" where
  "valid_transition from to =
     (from = to
      \<or> (case from of
           Provisioning \<Rightarrow> to \<in> {Active, Failed}
         | Active \<Rightarrow> to \<in> {Suspended, Restoring, Deleting, Failed}
         | Suspended \<Rightarrow> to \<in> {Active, Deleting}
         | Restoring \<Rightarrow> to \<in> {Active, Failed}
         | Deleting \<Rightarrow> to \<in> {Deleted, Failed}
         | Failed \<Rightarrow> to \<in> {Provisioning, Deleting}
         | Deleted \<Rightarrow> False))"

fun project_state_name :: "project_lifecycle_state \<Rightarrow> string" where
  "project_state_name Provisioning = ''provisioning''"
| "project_state_name Active = ''active''"
| "project_state_name Suspended = ''suspended''"
| "project_state_name Restoring = ''restoring''"
| "project_state_name Deleting = ''deleting''"
| "project_state_name Deleted = ''deleted''"
| "project_state_name Failed = ''failed''"

fun database_state_for_project :: "project_lifecycle_state \<Rightarrow> string option" where
  "database_state_for_project Provisioning = Some ''provisioning''"
| "database_state_for_project Active = Some ''active''"
| "database_state_for_project Restoring = Some ''restoring''"
| "database_state_for_project Failed = Some ''failed''"
| "database_state_for_project _ = None"

definition parse_project_state :: "string \<Rightarrow> registry_error + project_lifecycle_state" where
  "parse_project_state v =
     (if v = ''provisioning'' then Ok Provisioning
      else if v = ''active'' then Ok Active
      else if v = ''suspended'' then Ok Suspended
      else if v = ''restoring'' then Ok Restoring
      else if v = ''deleting'' then Ok Deleting
      else if v = ''deleted'' then Ok Deleted
      else if v = ''failed'' then Ok Failed
      else Err Reg_Inconsistent)"

definition parse_organization_role :: "string \<Rightarrow> registry_error + organization_role" where
  "parse_organization_role v =
     (if v = ''owner'' then Ok Role_Owner
      else if v = ''admin'' then Ok Role_Admin
      else if v = ''developer'' then Ok Role_Developer
      else if v = ''viewer'' then Ok Role_Viewer
      else Err Reg_Inconsistent)"

fun map_routing_error :: "registry_error \<Rightarrow> routing_error" where
  "map_routing_error Reg_NotFound = Routing_NotFound"
| "map_routing_error Reg_Unavailable = Routing_Unavailable"
| "map_routing_error Reg_DatastoreUnavailable = Routing_Unavailable"
| "map_routing_error Reg_StaleGeneration = Routing_StaleGeneration"
| "map_routing_error Reg_Inconsistent = Routing_Inconsistent"
| "map_routing_error _ = Routing_Unavailable"

section \<open>Operations of the in-memory registry\<close>

definition create_organization ::
    "uuid \<Rightarrow> string \<Rightarrow> string \<Rightarrow> uuid \<Rightarrow> int \<Rightarrow> memory_state
      \<Rightarrow> (registry_error + organization_summary) \<times> memory_state" where
  "create_organization oid name slug owner now_ms st =
     (case bindr (validate_slug slug) (\<lambda>_. validate_name name) of
        Inl e \<Rightarrow> (Err e, st)
      | Inr _ \<Rightarrow>
          if hm_contains_key (organization_slugs st) slug then (Err Reg_Conflict, st)
          else
            (let summary = \<lparr>og_id = oid, og_name = name, og_slug = slug, og_role = Role_Owner,
                   og_created_at_ms = now_ms\<rparr>
             in (Ok summary,
                 st\<lparr>organization_slugs := hm_insert slug oid (organization_slugs st),
                    memberships := hm_insert (oid, owner) Role_Owner (memberships st),
                    organizations := hm_insert oid summary (organizations st)\<rparr>)))"

definition register_node ::
    "uuid \<Rightarrow> string \<Rightarrow> memory_state \<Rightarrow> (registry_error + unit) \<times> memory_state" where
  "register_node nid name st =
     (case validate_name name of
        Inl e \<Rightarrow> (Err e, st)
      | Inr _ \<Rightarrow>
          if hm_get (nodes st) nid = Some name then (Ok (), st)
          else if \<exists>p\<in>set (nodes st). snd p = name then (Err Reg_Conflict, st)
          else if hm_contains_key (nodes st) nid then (Err Reg_Conflict, st)
          else (Ok (), st\<lparr>nodes := hm_insert nid name (nodes st)\<rparr>))"

definition list_organizations :: "uuid \<Rightarrow> memory_state \<Rightarrow> registry_error + organization_summary list" where
  "list_organizations uid st =
     Ok (sort_key og_slug
       (List.map_filter (\<lambda>((oid, member), role).
          if member \<noteq> uid then None
          else map_option (\<lambda>org. org\<lparr>og_role := role\<rparr>) (hm_get (organizations st) oid)) (memberships st)))"

definition list_projects :: "uuid \<Rightarrow> uuid \<Rightarrow> memory_state \<Rightarrow> registry_error + project_summary list" where
  "list_projects oid uid st =
     (if \<not> hm_contains_key (memberships st) (oid, uid) then Err Reg_Forbidden
      else Ok (sort_key pj_slug
        (map pr_summary (filter (\<lambda>p. pj_organization_id (pr_summary p) = oid) (map snd (projects st))))))"

text \<open>The projects of an organization that count against its allowance.\<close>

definition counted :: "uuid \<Rightarrow> project_record \<Rightarrow> bool" where
  "counted oid p = (pj_organization_id (pr_summary p) = oid \<and> pj_state (pr_summary p) \<noteq> Deleted)"

definition project_count :: "uuid \<Rightarrow> memory_state \<Rightarrow> nat" where
  "project_count oid st = length (filter (counted oid) (map snd (projects st)))"

definition create_project ::
    "uuid \<Rightarrow> uuid \<Rightarrow> create_project_request \<Rightarrow> uuid \<Rightarrow> int \<Rightarrow> memory_state
      \<Rightarrow> (registry_error + provisioned_project) \<times> memory_state" where
  "create_project pid did rq nid now_ms st =
     (case bindr (validate_slug (cp_slug rq)) (\<lambda>_. bindr (validate_name (cp_name rq)) (\<lambda>_.
             validate_region (case cp_region rq of Some r \<Rightarrow> r | None \<Rightarrow> ''local''))) of
        Inl e \<Rightarrow> (Err e, st)
      | Inr region \<Rightarrow>
          if \<not> hm_contains_key (organizations st) (cp_organization_id rq) \<or> \<not> hm_contains_key (nodes st) nid
          then (Err Reg_NotFound, st)
          else if project_count (cp_organization_id rq) st \<ge> 2 then (Err Reg_BillingLimit, st)
          else if hm_contains_key (project_slugs st) (cp_organization_id rq, cp_slug rq) then (Err Reg_Conflict, st)
          else
            (let summary = \<lparr>pj_id = pid, pj_organization_id = cp_organization_id rq, pj_name = cp_name rq,
                   pj_slug = cp_slug rq, pj_region = region, pj_state = Provisioning, pj_schema_version = 0,
                   pj_created_at_ms = now_ms\<rparr>;
                 route = \<lparr>ro_project_id = pid, ro_database_id = did, ro_node_id = nid, ro_generation = 1\<rparr>
             in (Ok \<lparr>pv_project = summary, pv_route = route\<rparr>,
                 st\<lparr>project_slugs := hm_insert (cp_organization_id rq, cp_slug rq) pid (project_slugs st),
                    projects := hm_insert pid \<lparr>pr_summary = summary, pr_database_id = did\<rparr> (projects st),
                    database_by_project := hm_insert pid did (database_by_project st),
                    routes := hm_insert pid route (routes st)\<rparr>)))"

definition create_project_authorized ::
    "uuid \<Rightarrow> uuid \<Rightarrow> create_project_request \<Rightarrow> uuid \<Rightarrow> uuid \<Rightarrow> int \<Rightarrow> memory_state
      \<Rightarrow> (registry_error + provisioned_project) \<times> memory_state" where
  "create_project_authorized pid did rq nid actor now_ms st =
     (if hm_get (memberships st) (cp_organization_id rq, actor) \<notin> {Some Role_Owner, Some Role_Admin}
      then (Err Reg_Forbidden, st)
      else create_project pid did rq nid now_ms st)"

definition resolve_route :: "uuid \<Rightarrow> memory_state \<Rightarrow> registry_error + database_route" where
  "resolve_route pid st =
     bindr (ok_or (hm_get (projects st) pid) Reg_NotFound) (\<lambda>project.
     bindr (require (pj_state (pr_summary project) \<in> {Provisioning, Active}) Reg_Unavailable) (\<lambda>_.
     bindr (ok_or (hm_get (database_by_project st) pid) Reg_Inconsistent) (\<lambda>did.
     bindr (ok_or (hm_get (routes st) pid) Reg_Inconsistent) (\<lambda>route.
     if did \<noteq> pr_database_id project \<or> ro_database_id route \<noteq> did then Err Reg_Inconsistent
     else Ok route))))"

definition reroute ::
    "uuid \<Rightarrow> nat \<Rightarrow> uuid \<Rightarrow> memory_state \<Rightarrow> (registry_error + database_route) \<times> memory_state" where
  "reroute pid expected_generation nid st =
     (if \<not> hm_contains_key (nodes st) nid then (Err Reg_NotFound, st)
      else
        (case hm_get (routes st) pid of
           None \<Rightarrow> (Err Reg_NotFound, st)
         | Some route \<Rightarrow>
             if ro_generation route \<noteq> expected_generation then (Err Reg_StaleGeneration, st)
             else
               (case checked_add_u64 (ro_generation route) 1 of
                  None \<Rightarrow> (Err Reg_Inconsistent, st)
                | Some g \<Rightarrow>
                    (let route' = route\<lparr>ro_generation := g, ro_node_id := nid\<rparr>
                     in (Ok route', st\<lparr>routes := hm_insert pid route' (routes st)\<rparr>)))))"

definition set_project_state ::
    "uuid \<Rightarrow> project_lifecycle_state \<Rightarrow> memory_state \<Rightarrow> (registry_error + unit) \<times> memory_state" where
  "set_project_state pid new_state st =
     (case hm_get (projects st) pid of
        None \<Rightarrow> (Err Reg_NotFound, st)
      | Some project \<Rightarrow>
          if \<not> valid_transition (pj_state (pr_summary project)) new_state then (Err Reg_InvalidInput, st)
          else (Ok (), st\<lparr>projects := hm_insert pid
                 (project\<lparr>pr_summary := (pr_summary project)\<lparr>pj_state := new_state\<rparr>\<rparr>) (projects st)\<rparr>))"

section \<open>The allowance of the PostgreSQL registry\<close>

text \<open>What the queries of \<open>enforce_project_allowance\<close> return, in the order they are made.\<close>

record allowance_rows =
  al_organization_exists :: bool
  al_billing_enforced :: bool
  al_exempt :: bool
  al_paid_entitlement :: bool
  al_free_limit :: "int option"
  al_project_count :: int

definition enforce_project_allowance :: "allowance_rows \<Rightarrow> registry_error + unit" where
  "enforce_project_allowance a =
     (if \<not> al_organization_exists a then Err Reg_NotFound
      else if \<not> al_billing_enforced a then Ok ()
      else if al_exempt a then Ok ()
      else if al_paid_entitlement a then Ok ()
      else bindr (ok_or (al_free_limit a) Reg_Inconsistent) (\<lambda>free_limit.
        if al_project_count a \<ge> free_limit then Err Reg_BillingLimit else Ok ()))"

end
