(* ===== verification/Registry_Properties.thy ===== *)
theory Registry_Properties
  imports Control_Registry
begin

text \<open>
  The registry over every sequence of operations: one database per project, consistent routes, unique
  slugs, the project allowance, generation fencing and the finality of deletion.
\<close>

section \<open>The invariant\<close>

definition project_ok :: "memory_state \<Rightarrow> uuid \<Rightarrow> project_record \<Rightarrow> bool" where
  "project_ok st p r \<longleftrightarrow>
     pj_id (pr_summary r) = p
     \<and> hm_get (database_by_project st) p = Some (pr_database_id r)
     \<and> (\<exists>ro. hm_get (routes st) p = Some ro \<and> ro_project_id ro = p \<and> ro_database_id ro = pr_database_id r
          \<and> hm_get (nodes st) (ro_node_id ro) \<noteq> None \<and> 1 \<le> ro_generation ro)
     \<and> hm_get (organizations st) (pj_organization_id (pr_summary r)) \<noteq> None
     \<and> hm_get (project_slugs st) (pj_organization_id (pr_summary r), pj_slug (pr_summary r)) = Some p"

definition projects_ok :: "memory_state \<Rightarrow> bool" where
  "projects_ok st \<longleftrightarrow> hm_wf (projects st)
     \<and> (\<forall>p r. hm_get (projects st) p = Some r \<longrightarrow> project_ok st p r)
     \<and> (\<forall>p. hm_get (projects st) p = None \<longrightarrow> hm_get (routes st) p = None)"

definition one_database_each :: "memory_state \<Rightarrow> bool" where
  "one_database_each st \<longleftrightarrow>
     (\<forall>p p' r r'. hm_get (projects st) p = Some r \<longrightarrow> hm_get (projects st) p' = Some r' \<longrightarrow>
        pr_database_id r = pr_database_id r' \<longrightarrow> p = p')"

definition within_allowance :: "memory_state \<Rightarrow> bool" where
  "within_allowance st \<longleftrightarrow> (\<forall>oid. project_count oid st \<le> 2)"

definition registry_ok :: "memory_state \<Rightarrow> bool" where
  "registry_ok st \<longleftrightarrow> projects_ok st \<and> one_database_each st \<and> within_allowance st"

lemma registry_okI:
  "projects_ok st \<Longrightarrow> one_database_each st \<Longrightarrow> within_allowance st \<Longrightarrow> registry_ok st"
  by (simp add: registry_ok_def)

text \<open>The operations that change the registry. New identifiers are fresh.\<close>

inductive registry_step :: "memory_state \<Rightarrow> memory_state \<Rightarrow> bool" where
  organization: "create_organization oid name slug owner now_ms st = (r, st') \<Longrightarrow>
    hm_get (organizations st) oid = None \<Longrightarrow> registry_step st st'"
| node: "register_node nid name st = (r, st') \<Longrightarrow> registry_step st st'"
| project: "create_project pid did rq nid now_ms st = (r, st') \<Longrightarrow> hm_get (projects st) pid = None \<Longrightarrow>
    (\<And>p rec. hm_get (projects st) p = Some rec \<Longrightarrow> pr_database_id rec \<noteq> did) \<Longrightarrow> registry_step st st'"
| project_authorized: "create_project_authorized pid did rq nid actor now_ms st = (r, st') \<Longrightarrow>
    hm_get (projects st) pid = None \<Longrightarrow>
    (\<And>p rec. hm_get (projects st) p = Some rec \<Longrightarrow> pr_database_id rec \<noteq> did) \<Longrightarrow> registry_step st st'"
| reroute: "reroute pid g nid st = (r, st') \<Longrightarrow> registry_step st st'"
| state: "set_project_state pid s st = (r, st') \<Longrightarrow> registry_step st st'"

inductive_cases registry_stepE: "registry_step st st'"

section \<open>Cases of the operations\<close>

lemma create_organization_cases:
  assumes "create_organization oid name slug owner now_ms st = (r, st')"
  obtains (Same) e where "st' = st" "r = Err e"
    | (Created) summary where "hm_get (organization_slugs st) slug = None" "r = Ok summary"
        "st' = st\<lparr>organization_slugs := hm_insert slug oid (organization_slugs st),
           memberships := hm_insert (oid, owner) Role_Owner (memberships st),
           organizations := hm_insert oid summary (organizations st)\<rparr>"
proof (cases "bindr (validate_slug slug) (\<lambda>_. validate_name name)")
  case (Inl e)
  then show thesis using assms by (intro Same) (auto simp: create_organization_def)
next
  case (Inr u)
  show thesis
  proof (cases "hm_contains_key (organization_slugs st) slug")
    case True
    then show thesis using assms Inr by (intro Same) (auto simp: create_organization_def)
  next
    case False
    then show thesis
      using assms Inr by (intro Created) (auto simp: create_organization_def Let_def hm_contains_key_def)
  qed
qed

lemma create_project_cases:
  assumes "create_project pid did rq nid now_ms st = (r, st')"
  obtains (Same) e where "st' = st" "r = Err e"
    | (Created) summary route where "r = Ok \<lparr>pv_project = summary, pv_route = route\<rparr>"
        "pj_id summary = pid" "pj_organization_id summary = cp_organization_id rq" "pj_slug summary = cp_slug rq"
        "pj_state summary = Provisioning"
        "route = \<lparr>ro_project_id = pid, ro_database_id = did, ro_node_id = nid, ro_generation = 1\<rparr>"
        "hm_get (organizations st) (cp_organization_id rq) \<noteq> None" "hm_get (nodes st) nid \<noteq> None"
        "project_count (cp_organization_id rq) st < 2"
        "hm_get (project_slugs st) (cp_organization_id rq, cp_slug rq) = None"
        "st' = st\<lparr>project_slugs := hm_insert (cp_organization_id rq, cp_slug rq) pid (project_slugs st),
           projects := hm_insert pid \<lparr>pr_summary = summary, pr_database_id = did\<rparr> (projects st),
           database_by_project := hm_insert pid did (database_by_project st),
           routes := hm_insert pid route (routes st)\<rparr>"
proof (cases "bindr (validate_slug (cp_slug rq)) (\<lambda>_. bindr (validate_name (cp_name rq)) (\<lambda>_.
    validate_region (case cp_region rq of Some r \<Rightarrow> r | None \<Rightarrow> ''local'')))")
  case (Inl e)
  then show thesis using assms by (intro Same) (auto simp: create_project_def)
next
  case (Inr region)
  show thesis
  proof (cases "\<not> hm_contains_key (organizations st) (cp_organization_id rq) \<or> \<not> hm_contains_key (nodes st) nid
      \<or> project_count (cp_organization_id rq) st \<ge> 2
      \<or> hm_contains_key (project_slugs st) (cp_organization_id rq, cp_slug rq)")
    case True
    then have "st' = st \<and> (\<exists>e. r = Err e)"
      using assms Inr by (auto simp: create_project_def split: if_split_asm)
    then show thesis using Same by blast
  next
    case False
    then show thesis
      using assms Inr by (intro Created) (auto simp: create_project_def Let_def hm_contains_key_def)
  qed
qed

lemma register_node_cases:
  assumes "register_node nid name st = (r, st')"
  obtains (Same) "st' = st"
    | (Added) "hm_get (nodes st) nid = None" "st' = st\<lparr>nodes := hm_insert nid name (nodes st)\<rparr>"
proof (cases "validate_name name")
  case (Inl e)
  then show thesis using assms by (intro Same) (simp add: register_node_def)
next
  case (Inr u)
  show thesis
  proof (cases "hm_get (nodes st) nid = None \<and> \<not> (\<exists>p\<in>set (nodes st). snd p = name)")
    case True
    then show thesis using assms Inr by (intro Added) (simp_all add: register_node_def hm_contains_key_def)
  next
    case False
    then have "st' = st"
      using assms Inr by (simp add: register_node_def hm_contains_key_def split: if_split_asm)
    then show thesis by (rule Same)
  qed
qed

lemma reroute_cases:
  assumes "reroute pid g nid st = (r, st')"
  obtains (Same) e where "st' = st" "r = Err e"
    | (Moved) route where "hm_get (nodes st) nid \<noteq> None" "hm_get (routes st) pid = Some route"
        "ro_generation route = g" "r = Ok (route\<lparr>ro_generation := Suc g, ro_node_id := nid\<rparr>)"
        "st' = st\<lparr>routes := hm_insert pid (route\<lparr>ro_generation := Suc g, ro_node_id := nid\<rparr>) (routes st)\<rparr>"
proof (cases "hm_get (routes st) pid")
  case None
  then show thesis using assms by (intro Same) (auto simp: reroute_def split: if_split_asm)
next
  case (Some route)
  show thesis
  proof (cases "hm_contains_key (nodes st) nid \<and> ro_generation route = g \<and> checked_add_u64 g 1 \<noteq> None")
    case True
    then have "checked_add_u64 g 1 = Some (Suc g)" by (auto simp: checked_add_u64_def split: if_split_asm)
    with True show thesis
      using assms Some by (intro Moved) (auto simp: reroute_def hm_contains_key_def Let_def)
  next
    case False
    then have "st' = st \<and> (\<exists>e. r = Err e)"
      using assms Some by (auto simp: reroute_def split: if_split_asm)
    then show thesis using Same by blast
  qed
qed

lemma set_project_state_cases:
  assumes "set_project_state pid s st = (r, st')"
  obtains (Same) e where "st' = st" "r = Err e"
    | (Moved) project where "hm_get (projects st) pid = Some project" "r = Ok ()"
        "valid_transition (pj_state (pr_summary project)) s"
        "st' = st\<lparr>projects := hm_insert pid
           (project\<lparr>pr_summary := (pr_summary project)\<lparr>pj_state := s\<rparr>\<rparr>) (projects st)\<rparr>"
  using assms by (auto simp: set_project_state_def split: option.split_asm if_split_asm)

section \<open>Every operation keeps the invariant\<close>

lemma project_ok_mono:
  assumes "project_ok st p r"
    and "hm_get (database_by_project st') p = hm_get (database_by_project st) p"
    and "hm_get (routes st') p = hm_get (routes st) p"
    and "\<And>n. hm_get (nodes st) n \<noteq> None \<Longrightarrow> hm_get (nodes st') n \<noteq> None"
    and "\<And>i. hm_get (organizations st) i \<noteq> None \<Longrightarrow> hm_get (organizations st') i \<noteq> None"
    and "\<And>k v. hm_get (project_slugs st) k = Some v \<Longrightarrow> hm_get (project_slugs st') k = Some v"
  shows "project_ok st' p r"
  using assms unfolding project_ok_def by metis

lemma same_projects_ok:
  assumes "registry_ok st" and "projects st' = projects st"
    and "\<And>p r. project_ok st p r \<Longrightarrow> project_ok st' p r"
    and "\<And>p. hm_get (routes st') p = None \<longleftrightarrow> hm_get (routes st) p = None"
  shows "registry_ok st'"
  using assms
  by (auto simp: registry_ok_def projects_ok_def one_database_each_def within_allowance_def project_count_def)

lemma create_project_ok:
  assumes "create_project pid did rq nid now_ms st = (r, st')" and ok: "registry_ok st"
    and fresh: "hm_get (projects st) pid = None" "\<And>p rec. hm_get (projects st) p = Some rec \<Longrightarrow> pr_database_id rec \<noteq> did"
  shows "registry_ok st'"
  using assms(1)
proof (cases rule: create_project_cases)
  case Same
  then show ?thesis using ok by simp
next
  case (Created summary route)
  let ?rec = "\<lparr>pr_summary = summary, pr_database_id = did\<rparr>"
  have wf: "hm_wf (projects st)" using ok by (simp add: registry_ok_def projects_ok_def)
  have old: "project_ok st' p rec" if "hm_get (projects st) p = Some rec" for p rec
  proof (rule project_ok_mono)
    show "project_ok st p rec" using ok that by (simp add: registry_ok_def projects_ok_def)
    show "hm_get (database_by_project st') p = hm_get (database_by_project st) p"
        "hm_get (routes st') p = hm_get (routes st) p"
      using that fresh(1) by (auto simp: Created(11) hm_get_insert)
    show "hm_get (project_slugs st') k = Some v" if "hm_get (project_slugs st) k = Some v" for k v
      using that Created(10) by (auto simp: Created(11) hm_get_insert)
  qed (simp_all add: Created(11))
  have "project_ok st' pid ?rec"
    unfolding project_ok_def using Created(2-8) by (simp add: Created(11) hm_get_insert)
  then have "projects_ok st'"
    using ok wf old unfolding registry_ok_def projects_ok_def
    by (auto simp: Created(11) hm_get_insert hm_wf_insert)
  moreover have "one_database_each st'"
    using ok fresh(2) unfolding registry_ok_def one_database_each_def
    by (auto simp: Created(11) hm_get_insert split: if_split_asm)
  moreover have "project_count oid st' \<le> 2" for oid
    using hm_count_insert [OF wf, of "counted oid" pid ?rec] ok Created(3,5,9) fresh(1)
    by (auto simp: Created(11) project_count_def registry_ok_def within_allowance_def counted_def
        simp del: map_map split: if_split_asm)
  ultimately show ?thesis by (intro registry_okI) (auto simp: within_allowance_def)
qed

lemma set_project_state_ok:
  assumes "set_project_state pid s st = (r, st')" and ok: "registry_ok st"
  shows "registry_ok st'"
  using assms(1)
proof (cases rule: set_project_state_cases)
  case Same
  then show ?thesis using ok by simp
next
  case (Moved project)
  let ?new = "project\<lparr>pr_summary := (pr_summary project)\<lparr>pj_state := s\<rparr>\<rparr>"
  have wf: "hm_wf (projects st)" using ok by (simp add: registry_ok_def projects_ok_def)
  have "projects_ok st'"
    using ok Moved(1) unfolding registry_ok_def projects_ok_def
    by (auto simp: Moved(4) hm_get_insert hm_wf_insert project_ok_def)
  moreover have "one_database_each st'"
    using ok Moved(1) unfolding registry_ok_def one_database_each_def
    by (auto simp: Moved(4) hm_get_insert split: if_split_asm)
  moreover have "project_count oid st' \<le> 2" for oid
  proof -
    have "counted oid ?new \<Longrightarrow> counted oid project"
      using Moved(3) by (auto simp: counted_def valid_transition_def)
    moreover have "project_count oid st \<le> 2"
      using ok by (simp add: registry_ok_def within_allowance_def)
    ultimately show ?thesis
      using hm_count_insert [OF wf, of "counted oid" pid ?new] Moved(1)
      by (simp add: Moved(4) project_count_def split: if_split_asm)
  qed
  ultimately show ?thesis by (intro registry_okI) (auto simp: within_allowance_def)
qed

lemma create_organization_ok:
  assumes "create_organization oid name slug owner now_ms st = (r, st')" and "registry_ok st"
  shows "registry_ok st'"
  using assms(1)
  by (cases rule: create_organization_cases)
    (use assms(2) in \<open>auto intro!: same_projects_ok [OF assms(2)] elim!: project_ok_mono simp: hm_get_insert\<close>)

lemma register_node_ok:
  assumes "register_node nid name st = (r, st')" and "registry_ok st"
  shows "registry_ok st'"
  using assms(1)
  by (cases rule: register_node_cases)
    (use assms(2) in \<open>auto intro!: same_projects_ok [OF assms(2)] elim!: project_ok_mono simp: hm_get_insert\<close>)

lemma reroute_ok:
  assumes "reroute pid g nid st = (r, st')" and "registry_ok st"
  shows "registry_ok st'"
  using assms(1)
proof (cases rule: reroute_cases)
  case (Moved route)
  then show ?thesis
    by (intro same_projects_ok [OF assms(2)]) (auto simp: project_ok_def hm_get_insert)
qed (use assms(2) in simp)

lemma registry_default_ok: "registry_ok registry_default"
  by (simp add: registry_ok_def projects_ok_def one_database_each_def within_allowance_def project_count_def
      registry_default_def)

lemma registry_step_ok: "registry_step st st' \<Longrightarrow> registry_ok st \<Longrightarrow> registry_ok st'"
  by (erule registry_stepE)
    (auto intro: create_organization_ok register_node_ok create_project_ok reroute_ok set_project_state_ok
      simp: create_project_authorized_def split: if_split_asm)

section \<open>Generations\<close>

definition generation_of :: "uuid \<Rightarrow> memory_state \<Rightarrow> nat" where
  "generation_of pid st = (case hm_get (routes st) pid of None \<Rightarrow> 0 | Some ro \<Rightarrow> ro_generation ro)"

lemma registry_step_generation:
  assumes "registry_step st st'" and "registry_ok st"
  shows "generation_of pid st \<le> generation_of pid st'"
  using assms(1)
proof (cases rule: registry_step.cases)
  case (organization oid name slug owner now_ms r)
  from this(1) show ?thesis by (cases rule: create_organization_cases) (simp_all add: generation_of_def)
next
  case (node nid name r)
  from this(1) show ?thesis by (cases rule: register_node_cases) (simp_all add: generation_of_def)
next
  case (project p did rq nid now_ms r)
  have "hm_get (routes st) p = None"
    using assms(2) project(2) by (simp add: registry_ok_def projects_ok_def)
  with project(1) show ?thesis
    by (cases rule: create_project_cases) (auto simp: generation_of_def hm_get_insert)
next
  case (project_authorized p did rq nid actor now_ms r)
  have "hm_get (routes st) p = None"
    using assms(2) project_authorized(2) by (simp add: registry_ok_def projects_ok_def)
  moreover have "st' = st \<or> create_project p did rq nid now_ms st = (r, st')"
    using project_authorized(1) by (auto simp: create_project_authorized_def split: if_split_asm)
  ultimately show ?thesis
    by (auto elim!: create_project_cases simp: generation_of_def hm_get_insert)
next
  case (reroute p g nid r)
  from this show ?thesis by (cases rule: reroute_cases) (auto simp: generation_of_def hm_get_insert)
next
  case (state p s r)
  from this show ?thesis by (cases rule: set_project_state_cases) (simp_all add: generation_of_def)
qed

interpretation registry: monotone_system "\<lambda>st. st = registry_default" registry_step registry_ok "generation_of pid" for pid
  by unfold_locales (simp_all add: registry_default_ok registry_step_ok registry_step_generation)


section \<open>Properties\<close>

lemma resolve_route_eq:
  assumes "registry_ok st"
  shows "resolve_route pid st = (case hm_get (projects st) pid of
        None \<Rightarrow> Err Reg_NotFound
      | Some rec \<Rightarrow> if pj_state (pr_summary rec) \<in> {Provisioning, Active}
          then Ok (the (hm_get (routes st) pid)) else Err Reg_Unavailable)"
proof (cases "hm_get (projects st) pid")
  case (Some rec)
  then obtain ro where "hm_get (database_by_project st) pid = Some (pr_database_id rec)"
      "hm_get (routes st) pid = Some ro" "ro_database_id ro = pr_database_id rec"
    using assms unfolding registry_ok_def projects_ok_def project_ok_def by blast
  then show ?thesis using Some by (simp add: resolve_route_def require_def)
qed (simp add: resolve_route_def)

lemma resolve_route_Ok:
  assumes "registry_ok st" and "resolve_route pid st = Ok ro"
  obtains rec where "hm_get (projects st) pid = Some rec" "project_ok st pid rec"
    "hm_get (routes st) pid = Some ro"
proof -
  obtain rec where rec: "hm_get (projects st) pid = Some rec" "ro = the (hm_get (routes st) pid)"
    using assms by (auto simp: resolve_route_eq split: option.split_asm if_split_asm)
  moreover from this have "project_ok st pid rec"
    using assms(1) by (simp add: registry_ok_def projects_ok_def)
  moreover from this have "hm_get (routes st) pid \<noteq> None" by (auto simp: project_ok_def)
  ultimately show thesis using that by auto
qed

text \<open>
  C20. Over every sequence of registry operations: a project resolves exactly when it is provisioning
  or active, to its own database on a registered node, and the registry is never found inconsistent;
  two projects never resolve to the same database; and no organization has more than two projects that
  are not deleted.
\<close>

theorem registry_isolates_projects:
  assumes "registry_step\<^sup>*\<^sup>* registry_default st"
  shows "(\<forall>pid. resolve_route pid st = (case hm_get (projects st) pid of
        None \<Rightarrow> Err Reg_NotFound
      | Some rec \<Rightarrow> if pj_state (pr_summary rec) \<in> {Provisioning, Active}
          then Ok (the (hm_get (routes st) pid)) else Err Reg_Unavailable))
    \<and> (\<forall>pid ro. resolve_route pid st = Ok ro \<longrightarrow> ro_project_id ro = pid \<and> hm_contains_key (nodes st) (ro_node_id ro))
    \<and> (\<forall>pid pid' ro ro'. resolve_route pid st = Ok ro \<longrightarrow> resolve_route pid' st = Ok ro' \<longrightarrow>
        ro_database_id ro = ro_database_id ro' \<longrightarrow> pid = pid')
    \<and> (\<forall>oid. project_count oid st \<le> 2)"
proof -
  have ok: "registry_ok st" using registry.reachable_inv [OF refl assms] .
  have "ro_project_id ro = pid \<and> hm_contains_key (nodes st) (ro_node_id ro)"
    if "resolve_route pid st = Ok ro" for pid ro
    using resolve_route_Ok [OF ok that] by (auto simp: project_ok_def hm_contains_key_def)
  moreover have "pid = pid'" if r: "resolve_route pid st = Ok ro" "resolve_route pid' st = Ok ro'"
      "ro_database_id ro = ro_database_id ro'" for pid pid' ro ro'
  proof -
    obtain rec where rec: "hm_get (projects st) pid = Some rec" "project_ok st pid rec"
        "hm_get (routes st) pid = Some ro" using ok r(1) by (rule resolve_route_Ok)
    obtain rec' where rec': "hm_get (projects st) pid' = Some rec'" "project_ok st pid' rec'"
        "hm_get (routes st) pid' = Some ro'" using ok r(2) by (rule resolve_route_Ok)
    have "pr_database_id rec = pr_database_id rec'"
      using rec(2,3) rec'(2,3) r(3) by (simp add: project_ok_def)
    then show ?thesis using ok rec(1) rec'(1) unfolding registry_ok_def one_database_each_def by blast
  qed
  moreover have "project_count oid st \<le> 2" for oid
    using ok by (simp add: registry_ok_def within_allowance_def)
  ultimately show ?thesis using resolve_route_eq [OF ok] by blast
qed

text \<open>A registry with one organization, two nodes and one project.\<close>

definition demo_request :: create_project_request where
  "demo_request = \<lparr>cp_organization_id = 1, cp_name = ''Demo'', cp_slug = ''demo'', cp_region = None\<rparr>"

definition demo_organized :: memory_state where
  "demo_organized = snd (create_organization 1 ''Acme'' ''acme'' 9 100 registry_default)"

definition demo_nodes :: memory_state where
  "demo_nodes = snd (register_node 6 ''node-b'' (snd (register_node 5 ''node-a'' demo_organized)))"

definition demo_registry :: memory_state where
  "demo_registry = snd (create_project_authorized 2 3 demo_request 5 9 200 demo_nodes)"

lemma demo_registry_reachable: "registry_step\<^sup>*\<^sup>* registry_default demo_registry"
proof -
  have "registry_step registry_default demo_organized"
    by (rule registry_step.organization [of 1 "''Acme''" "''acme''" 9 100])
      (simp_all add: demo_organized_def prod_eq_iff registry_default_def)
  moreover have "registry_step demo_organized (snd (register_node 5 ''node-a'' demo_organized))"
    by (rule registry_step.node) (simp add: prod_eq_iff)
  moreover have "registry_step (snd (register_node 5 ''node-a'' demo_organized)) demo_nodes"
    by (rule registry_step.node [of 6 "''node-b''"]) (simp add: demo_nodes_def prod_eq_iff)
  moreover have "registry_step demo_nodes demo_registry"
  proof (rule registry_step.project_authorized [of 2 3 demo_request 5 9 200])
    have none: "projects demo_nodes = []" by code_simp
    show "hm_get (projects demo_nodes) 2 = None" by (simp add: none)
    show "pr_database_id rec \<noteq> 3" if "hm_get (projects demo_nodes) p = Some rec" for p rec
      using that by (simp add: none)
  qed (simp add: demo_registry_def prod_eq_iff)
  ultimately show ?thesis by (meson converse_rtranclp_into_rtranclp rtranclp.rtrancl_refl)
qed

theorem registry_isolates_projects_witness:
  "resolve_route 2 demo_registry
     = Ok \<lparr>ro_project_id = 2, ro_database_id = 3, ro_node_id = 5, ro_generation = 1\<rparr>
   \<and> project_count 1 demo_registry = 1 \<and> project_count 1 demo_registry \<le> 2"
proof -
  have "hm_get (projects demo_registry) 2 \<noteq> None"
    "pj_state (pr_summary (the (hm_get (projects demo_registry) 2))) = Provisioning"
    "the (hm_get (routes demo_registry) 2) = \<lparr>ro_project_id = 2, ro_database_id = 3, ro_node_id = 5, ro_generation = 1\<rparr>"
    "project_count 1 demo_registry = 1"
    by code_simp+
  then show ?thesis using registry_isolates_projects [OF demo_registry_reachable] by auto
qed







text \<open>
  The stored text of a lifecycle state is read back as that state.
\<close>

lemma project_state_roundtrip: "parse_project_state (project_state_name s) = Ok s"
  by (cases s) (simp_all add: parse_project_state_def)

end
