(* ===== verification/Sqlite_Context.thy ===== *)
theory Sqlite_Context
  imports Transition_System Collections
begin

text \<open>
  \<open>crates/sqlite-runtime/src\<close>: the errors of the runtime (\<open>lib.rs\<close>), the request context and its
  leases (\<open>context.rs\<close>), the execution limits (\<open>limits.rs\<close>), values (\<open>value.rs\<close>) and the decision
  the SQLite authorizer callback takes on every action of a statement (\<open>authorizer.rs\<close>).

  An \<open>f64\<close> is the bit pattern SQLite returned; a JSON number is its literal text, read by the two
  accessors of \<open>serde_json::Number\<close>, which are arguments. A set of names is a set.
\<close>

section \<open>Errors\<close>

datatype runtime_error =
    InvalidDatabaseRoute | InvalidLimits | ContextAlreadyInstalled | Poisoned | SqlTooLarge
  | TooManyVariables | StatementNotAllowed | ResponseTooLarge | DatabaseTooLarge | Cancelled
  | DeadlineExceeded | ConstraintViolation | SyncCursorInvalid | SyncSchemaMismatch
  | SyncMutationInvalid | StorageQuotaExceeded | StorageReservationDuplicate
  | StorageReservationMismatch | UsageReceiptConflict | UsageReceiptInvalid | Database

datatype rusqlite_error =
    SqliteConstraint | SqliteAuthDenied | SqliteFailure nat | UserFunctionError | ExecuteReturnedResults
  | OtherRusqlite

fun from_rusqlite :: "rusqlite_error \<Rightarrow> runtime_error" where
  "from_rusqlite SqliteConstraint = ConstraintViolation"
| "from_rusqlite SqliteAuthDenied = StatementNotAllowed"
| "from_rusqlite _ = Database"

section \<open>Paths\<close>

definition is_ascii_hexdigit :: "char \<Rightarrow> bool" where
  "is_ascii_hexdigit c =
     (is_ascii_digit c \<or> (97 \<le> code c \<and> code c \<le> 102) \<or> (65 \<le> code c \<and> code c \<le> 70))"

text \<open>\<open>TrustedDatabasePath::for_database\<close>; on Unix an absolute path starts with a slash, and \<open>join\<close> of
  a relative name appends it after one separator.\<close>

definition path_join :: "string \<Rightarrow> string \<Rightarrow> string" where
  "path_join root name = (if root \<noteq> [] \<and> last root = CHR ''/'' then root @ name else root @ ''/'' @ name)"

definition for_database :: "string \<Rightarrow> string \<Rightarrow> runtime_error + string" where
  "for_database root database_id =
     (if \<not> starts_with root ''/'' \<or> length database_id \<noteq> 36
         \<or> \<not> list_all (\<lambda>c. is_ascii_hexdigit c \<or> c = CHR ''-'') database_id
         \<or> contains_str database_id ''..''
      then Err InvalidDatabaseRoute
      else Ok (path_join root (database_id @ ''.sqlite3'')))"

section \<open>Execution limits\<close>

record execution_limits =
  max_sql_bytes :: nat
  max_variables :: nat
  max_rows :: nat
  max_response_bytes :: nat
  statement_timeout :: nat
  transaction_timeout :: nat
  max_database_bytes :: nat
  progress_ops :: int

definition limits_default :: execution_limits where
  "limits_default =
     \<lparr>max_sql_bytes = 256 * 1024, max_variables = 999, max_rows = 10000, max_response_bytes = 8 * 1024 * 1024,
      statement_timeout = 5000, transaction_timeout = 15000, max_database_bytes = 1024 * 1024 * 1024,
      progress_ops = 1000\<rparr>"

definition limits_validate :: "execution_limits \<Rightarrow> bool" where
  "limits_validate l =
     (max_sql_bytes l > 0 \<and> max_variables l > 0 \<and> max_rows l > 0 \<and> max_response_bytes l > 0
      \<and> statement_timeout l \<noteq> 0 \<and> transaction_timeout l \<noteq> 0 \<and> max_database_bytes l > 0 \<and> progress_ops l > 0)"

definition restricted_by :: "execution_limits \<Rightarrow> execution_limits \<Rightarrow> execution_limits" where
  "restricted_by l r =
     \<lparr>max_sql_bytes = min (max_sql_bytes l) (max_sql_bytes r),
      max_variables = min (max_variables l) (max_variables r),
      max_rows = min (max_rows l) (max_rows r),
      max_response_bytes = min (max_response_bytes l) (max_response_bytes r),
      statement_timeout = min (statement_timeout l) (statement_timeout r),
      transaction_timeout = min (transaction_timeout l) (transaction_timeout r),
      max_database_bytes = min (max_database_bytes l) (max_database_bytes r),
      progress_ops = min (progress_ops l) (progress_ops r)\<rparr>"

section \<open>Values\<close>

datatype sql_parameter = Par_Null | Par_Integer int | Par_Real nat | Par_Text string | Par_Blob string

datatype value_ref = Ref_Null | Ref_Integer int | Ref_Real nat | Ref_Text string | Ref_Blob string

datatype result_value = Res_Null | Res_Integer int | IntegerString string | Res_Real nat | Res_Text string | Res_Blob string

text \<open>\<open>to_sql\<close>: a parameter is bound as the value of its kind.\<close>

fun to_sql :: "sql_parameter \<Rightarrow> value_ref" where
  "to_sql Par_Null = Ref_Null"
| "to_sql (Par_Integer i) = Ref_Integer i"
| "to_sql (Par_Real r) = Ref_Real r"
| "to_sql (Par_Text t) = Ref_Text t"
| "to_sql (Par_Blob b) = Ref_Blob b"

text \<open>\<open>from_value_ref\<close>: an integer a JavaScript number cannot hold becomes its decimal text. The lossy
  decoding of invalid UTF-8 and base64 are arguments.\<close>

fun from_value_ref :: "(string \<Rightarrow> string) \<Rightarrow> (string \<Rightarrow> string) \<Rightarrow> value_ref \<Rightarrow> result_value" where
  "from_value_ref utf8 b64 Ref_Null = Res_Null"
| "from_value_ref utf8 b64 (Ref_Integer v) =
     (if -9007199254740991 \<le> v \<and> v \<le> 9007199254740991 then Res_Integer v else IntegerString (show_int v))"
| "from_value_ref utf8 b64 (Ref_Real r) = Res_Real r"
| "from_value_ref utf8 b64 (Ref_Text t) = Res_Text (utf8 t)"
| "from_value_ref utf8 b64 (Ref_Blob b) = Res_Blob (b64 b)"

definition decimal_len :: "int \<Rightarrow> nat" where
  "decimal_len v = length (show_int v)"

fun value_encoded_size :: "result_value \<Rightarrow> nat" where
  "value_encoded_size Res_Null = 4"
| "value_encoded_size (Res_Integer v) = decimal_len v"
| "value_encoded_size (IntegerString v) = saturating_add_u64 (length v) 2"
| "value_encoded_size (Res_Text v) = saturating_add_u64 (length v) 2"
| "value_encoded_size (Res_Real _) = 24"
| "value_encoded_size (Res_Blob d) = saturating_add_u64 (length d) 12"

record result_column =
  rc_name :: string
  rc_declared_type :: "string option"

record query_result =
  qr_columns :: "result_column list"
  qr_rows :: "result_value list list"
  qr_affected_rows :: nat
  qr_last_insert_rowid :: "int option"
  qr_truncated :: bool

definition result_encoded_size :: "query_result \<Rightarrow> nat" where
  "result_encoded_size q =
     (let columns = sum_list (map (\<lambda>c. saturating_add_u64 (length (rc_name c)) 32) (qr_columns q));
          rows = sum_list (map (\<lambda>v. saturating_add_u64 (value_encoded_size v) 1) (concat (qr_rows q)))
      in saturating_add_u64 (saturating_add_u64 columns rows) 128)"

section \<open>The request context\<close>

record developer_principal =
  dp_actor_id :: string
  dp_api_key_id :: string

record rt_auth_context =
  ra_project_id :: string
  ra_subject :: string
  ra_role :: string
  ra_claims :: json_map
  ra_token_id :: string

datatype execution_mode = Developer developer_principal | EndUser rt_auth_context

record context_state =
  active :: "execution_mode option"
  internal_depth :: nat
  public_auth_depth :: nat
  approved_sources :: "string set"
  request_transaction_id :: "string option"
  client_mutation_id :: "string option"

definition context_default :: context_state where
  "context_default = \<lparr>active = None, internal_depth = 0, public_auth_depth = 0, approved_sources = {},
     request_transaction_id = None, client_mutation_id = None\<rparr>"

text \<open>\<open>ContextLease::install\<close> and its \<open>drop\<close>; the transaction id is a fresh UUID.\<close>

definition install_context :: "execution_mode \<Rightarrow> string \<Rightarrow> context_state \<Rightarrow> runtime_error + context_state" where
  "install_context mode transaction_id st =
     (if active st \<noteq> None \<or> internal_depth st \<noteq> 0 \<or> public_auth_depth st \<noteq> 0 then Err ContextAlreadyInstalled
      else Ok (st\<lparr>active := Some mode, request_transaction_id := Some transaction_id, client_mutation_id := None\<rparr>))"

definition drop_context :: "context_state \<Rightarrow> context_state" where
  "drop_context st =
     st\<lparr>active := None, internal_depth := 0, public_auth_depth := 0, request_transaction_id := None,
        client_mutation_id := None\<rparr>"

definition enter_public_auth :: "context_state \<Rightarrow> runtime_error + context_state" where
  "enter_public_auth st =
     (if public_auth_depth st + 1 > u32_max then Err Poisoned
      else Ok (st\<lparr>public_auth_depth := public_auth_depth st + 1\<rparr>))"

definition leave_public_auth :: "context_state \<Rightarrow> context_state" where
  "leave_public_auth st = st\<lparr>public_auth_depth := public_auth_depth st - 1\<rparr>"

definition install_mutation :: "string \<Rightarrow> context_state \<Rightarrow> runtime_error + context_state" where
  "install_mutation mutation_id st =
     (if client_mutation_id st \<noteq> None then Err ContextAlreadyInstalled
      else Ok (st\<lparr>client_mutation_id := Some mutation_id\<rparr>))"

definition drop_mutation :: "context_state \<Rightarrow> context_state" where
  "drop_mutation st = st\<lparr>client_mutation_id := None\<rparr>"

definition enter_internal :: "context_state \<Rightarrow> runtime_error + context_state" where
  "enter_internal st =
     (if internal_depth st + 1 > u32_max then Err Poisoned
      else Ok (st\<lparr>internal_depth := internal_depth st + 1\<rparr>))"

definition leave_internal :: "context_state \<Rightarrow> context_state" where
  "leave_internal st = st\<lparr>internal_depth := internal_depth st - 1\<rparr>"

section \<open>The functions of the request context in SQL\<close>

text \<open>A function that fails makes the statement fail; \<open>None\<close> below is that failure.\<close>

definition with_end_user :: "context_state \<Rightarrow> (rt_auth_context \<Rightarrow> value_ref) \<Rightarrow> value_ref option" where
  "with_end_user st callback =
     (case active st of
        Some (EndUser c) \<Rightarrow> Some (callback c)
      | Some (Developer _) \<Rightarrow> Some Ref_Null
      | None \<Rightarrow> None)"

definition auth_uid :: "context_state \<Rightarrow> value_ref option" where
  "auth_uid st = with_end_user st (\<lambda>c. Ref_Text (ra_subject c))"

definition auth_role :: "context_state \<Rightarrow> value_ref option" where
  "auth_role st =
     (case active st of
        Some (EndUser c) \<Rightarrow> Some (Ref_Text (ra_role c))
      | Some (Developer _) \<Rightarrow> Some (Ref_Text ''service_role'')
      | None \<Rightarrow> None)"

text \<open>The claims as one JSON object; the identity the server checked replaces what a claim of the same
  name says. \<open>serde_json\<close>'s map keeps its keys sorted.\<close>

definition jwt_claims :: "rt_auth_context \<Rightarrow> json_map" where
  "jwt_claims c =
     bt_insert ''jti'' (JString (ra_token_id c))
      (bt_insert ''project_id'' (JString (ra_project_id c))
        (bt_insert ''role'' (JString (ra_role c))
          (bt_insert ''sub'' (JString (ra_subject c)) (ra_claims c))))"

definition auth_jwt :: "(json \<Rightarrow> string) \<Rightarrow> context_state \<Rightarrow> value_ref option" where
  "auth_jwt to_string st = with_end_user st (\<lambda>c. Ref_Text (to_string (JObject (jwt_claims c))))"

record number_env =
  as_i64 :: "string \<Rightarrow> int option"
  as_f64 :: "string \<Rightarrow> nat option"
  json_to_string :: "json \<Rightarrow> string"

fun json_to_sqlite :: "number_env \<Rightarrow> json \<Rightarrow> value_ref" where
  "json_to_sqlite ne JNull = Ref_Null"
| "json_to_sqlite ne (JBool b) = Ref_Integer (if b then 1 else 0)"
| "json_to_sqlite ne (JNumber n) =
     (case as_i64 ne n of
        Some i \<Rightarrow> Ref_Integer i
      | None \<Rightarrow> (case as_f64 ne n of None \<Rightarrow> Ref_Null | Some r \<Rightarrow> Ref_Real r))"
| "json_to_sqlite ne (JString s) = Ref_Text s"
| "json_to_sqlite ne (JArray a) = Ref_Text (json_to_string ne (JArray a))"
| "json_to_sqlite ne (JObject m) = Ref_Text (json_to_string ne (JObject m))"

definition auth_claim :: "number_env \<Rightarrow> string \<Rightarrow> context_state \<Rightarrow> value_ref option" where
  "auth_claim ne name st =
     with_end_user st (\<lambda>c. case bt_get (ra_claims c) name of None \<Rightarrow> Ref_Null | Some v \<Rightarrow> json_to_sqlite ne v)"

definition is_developer :: "context_state \<Rightarrow> int option" where
  "is_developer st =
     (case active st of Some (Developer _) \<Rightarrow> Some 1 | Some (EndUser _) \<Rightarrow> Some 0 | None \<Rightarrow> None)"

definition actor :: "context_state \<Rightarrow> string option" where
  "actor st =
     (case active st of
        Some (EndUser c) \<Rightarrow> Some (ra_subject c)
      | Some (Developer d) \<Rightarrow> Some (dp_actor_id d)
      | None \<Rightarrow> None)"

section \<open>The authorizer\<close>

text \<open>\<open>rusqlite::hooks::AuthAction\<close>, the actions SQLite asks about while it prepares a statement.\<close>

datatype auth_action =
    CreateIndex string string | CreateTable string | CreateTempIndex string string | CreateTempTable string
  | CreateTempTrigger string string | CreateTempView string | CreateTrigger string string | CreateView string
  | Act_Del string | DropIndex string string | DropTable string | DropTempIndex string string
  | DropTempTable string | DropTempTrigger string string | DropTempView string | DropTrigger string string
  | DropView string | Act_Insert string | Act_Pragma string "string option" | Act_Read string string
  | Act_Select | Act_Transaction | Act_Update string string | Act_Attach string | Act_Detach string
  | AlterTable string | Act_Reindex string | Act_Analyze string | CreateVtable string string
  | DropVtable string string | Act_Function string | Act_Savepoint string | Act_Recursive | Act_Unknown

record auth_request =
  aq_action :: auth_action
  aq_accessor :: "string option"

definition internal_object :: "string \<Rightarrow> bool" where
  "internal_object name = starts_with (to_ascii_lowercase name) ''__ffdb_''"

definition dangerous_function :: "string \<Rightarrow> bool" where
  "dangerous_function name =
     (to_ascii_lowercase name \<in> {''load_extension'', ''readfile'', ''writefile'', ''edit'', ''fts3_tokenizer'',
        ''zipfile'', ''shell_add_schema'', ''shell_module_schema''})"

definition sqlite_schema_name :: "string \<Rightarrow> bool" where
  "sqlite_schema_name name = (eq_ignore_ascii_case name ''sqlite_schema'' \<or> eq_ignore_ascii_case name ''sqlite_master'')"

definition is_public_auth_implementation :: "string \<Rightarrow> bool" where
  "is_public_auth_implementation name =
     (to_ascii_lowercase name \<in> {''__ffdb_auth_uid'', ''__ffdb_auth_role'', ''__ffdb_auth_jwt'', ''__ffdb_auth_claim''})"

definition approved_generated_source :: "string \<Rightarrow> string set \<Rightarrow> bool" where
  "approved_generated_source source approved = (to_ascii_lowercase source \<in> approved)"

definition is_protected :: "string set \<Rightarrow> string \<Rightarrow> bool" where
  "is_protected approved name = (internal_object name \<or> to_ascii_lowercase name \<in> approved)"

fun creates_or_drops_protected :: "auth_action \<Rightarrow> string set \<Rightarrow> bool" where
  "creates_or_drops_protected (CreateTable t) a = is_protected a t"
| "creates_or_drops_protected (CreateTempTable t) a = is_protected a t"
| "creates_or_drops_protected (DropTable t) a = is_protected a t"
| "creates_or_drops_protected (DropTempTable t) a = is_protected a t"
| "creates_or_drops_protected (CreateView v) a = is_protected a v"
| "creates_or_drops_protected (CreateTempView v) a = is_protected a v"
| "creates_or_drops_protected (DropView v) a = is_protected a v"
| "creates_or_drops_protected (DropTempView v) a = is_protected a v"
| "creates_or_drops_protected (CreateTrigger g t) a = (is_protected a g \<or> is_protected a t)"
| "creates_or_drops_protected (CreateTempTrigger g t) a = (is_protected a g \<or> is_protected a t)"
| "creates_or_drops_protected (DropTrigger g t) a = (is_protected a g \<or> is_protected a t)"
| "creates_or_drops_protected (DropTempTrigger g t) a = (is_protected a g \<or> is_protected a t)"
| "creates_or_drops_protected (CreateIndex i t) a = (is_protected a i \<or> is_protected a t)"
| "creates_or_drops_protected (CreateTempIndex i t) a = (is_protected a i \<or> is_protected a t)"
| "creates_or_drops_protected (DropIndex i t) a = (is_protected a i \<or> is_protected a t)"
| "creates_or_drops_protected (DropTempIndex i t) a = (is_protected a i \<or> is_protected a t)"
| "creates_or_drops_protected (CreateVtable t m) a = is_protected a t"
| "creates_or_drops_protected (DropVtable t m) a = is_protected a t"
| "creates_or_drops_protected (AlterTable t) a = is_protected a t"
| "creates_or_drops_protected _ a = False"

fun is_schema_action :: "auth_action \<Rightarrow> bool" where
  "is_schema_action (AlterTable _) = True"
| "is_schema_action (CreateIndex _ _) = True"
| "is_schema_action (CreateTable _) = True"
| "is_schema_action (CreateTempIndex _ _) = True"
| "is_schema_action (CreateTempTable _) = True"
| "is_schema_action (CreateTempTrigger _ _) = True"
| "is_schema_action (CreateTempView _) = True"
| "is_schema_action (CreateTrigger _ _) = True"
| "is_schema_action (CreateView _) = True"
| "is_schema_action (DropIndex _ _) = True"
| "is_schema_action (DropTable _) = True"
| "is_schema_action (DropTempIndex _ _) = True"
| "is_schema_action (DropTempTable _) = True"
| "is_schema_action (DropTempTrigger _ _) = True"
| "is_schema_action (DropTempView _) = True"
| "is_schema_action (DropTrigger _ _) = True"
| "is_schema_action (DropView _) = True"
| "is_schema_action (CreateVtable _ _) = True"
| "is_schema_action (DropVtable _ _) = True"
| "is_schema_action _ = False"

definition pragma_always_denied :: "string \<Rightarrow> bool" where
  "pragma_always_denied name =
     (name \<in> {''writable_schema'', ''trusted_schema'', ''temp_store_directory'', ''data_store_directory'',
        ''load_extension'', ''journal_mode'', ''locking_mode''})"

text \<open>\<open>True\<close> is \<open>Authorization::Allow\<close>.\<close>

definition authorize_pragma :: "execution_mode \<Rightarrow> string \<Rightarrow> string option \<Rightarrow> bool" where
  "authorize_pragma mode name0 v =
     (let name = to_ascii_lowercase name0
      in if pragma_always_denied name then False
         else case mode of
             EndUser _ \<Rightarrow> False
           | Developer _ \<Rightarrow>
               v = None \<or> name \<in> {''foreign_keys'', ''defer_foreign_keys'', ''recursive_triggers''})"

text \<open>The table of a read or a data change.\<close>

fun data_table :: "auth_action \<Rightarrow> string option" where
  "data_table (Act_Read t c) = Some t"
| "data_table (Act_Insert t) = Some t"
| "data_table (Act_Del t) = Some t"
| "data_table (Act_Update t c) = Some t"
| "data_table _ = None"

definition developer_only :: "execution_mode \<Rightarrow> bool" where
  "developer_only mode = (case mode of Developer _ \<Rightarrow> True | EndUser _ \<Rightarrow> False)"

definition from_approved :: "context_state \<Rightarrow> string option \<Rightarrow> bool" where
  "from_approved st source =
     (case source of None \<Rightarrow> False | Some s \<Rightarrow> approved_generated_source s (approved_sources st))"

text \<open>\<open>authorize\<close>, the arms of its match in their order.\<close>

definition authorize_action :: "context_state \<Rightarrow> execution_mode \<Rightarrow> string option \<Rightarrow> auth_action \<Rightarrow> bool" where
  "authorize_action st mode source action =
     (case action of
        Act_Attach _ \<Rightarrow> False
      | Act_Detach _ \<Rightarrow> False
      | Act_Function f \<Rightarrow>
          if dangerous_function f then False
          else if internal_object f then
            public_auth_depth st > 0 \<and> source = None \<and> is_public_auth_implementation f \<or> from_approved st source
          else True
      | _ \<Rightarrow>
          if creates_or_drops_protected action (approved_sources st) then False
          else (case data_table action of
              Some t \<Rightarrow>
                if internal_object t then from_approved st source
                else if sqlite_schema_name t then developer_only mode
                else True
            | None \<Rightarrow>
                (case action of
                   Act_Pragma name v \<Rightarrow> authorize_pragma mode name v
                 | CreateVtable t m \<Rightarrow> developer_only mode \<and> eq_ignore_ascii_case m ''fts5''
                 | _ \<Rightarrow> if is_schema_action action then developer_only mode else True)))"

definition authorize :: "context_state \<Rightarrow> auth_request \<Rightarrow> bool" where
  "authorize st rq =
     (if internal_depth st > 0 then True
      else case active st of
          None \<Rightarrow> False
        | Some mode \<Rightarrow> authorize_action st mode (aq_accessor rq) (aq_action rq))"

end
