(* ===== verification/Sqlite_Session.thy ===== *)
theory Sqlite_Session
  imports Sqlite_Context Sqlite_Rls
begin

text \<open>
  \<open>crates/sqlite-runtime/src/lib.rs\<close>: the sessions a request runs in. \<open>Database::with_context_budget\<close>
  installs the request context and runs a callback; \<open>Session\<close> validates and executes single statements
  inside a savepoint, probes a write, runs transactions and applies compiled row-level-security plans.

  SQLite itself is outside the repository and enters as the record \<open>sqlite_env\<close>: the authorizer
  questions a statement raises, its preparation, its execution, schema queries and the failures of
  transaction control. Transaction control (\<open>BEGIN\<close>, \<open>COMMIT\<close>, \<open>ROLLBACK\<close>, \<open>SAVEPOINT\<close>,
  \<open>ROLLBACK TO\<close>, \<open>RELEASE\<close>) is SQL the source executes itself and has SQLite's stack semantics. The
  clock and the cancellation flag are read many times during a request; the \<open>n\<close>-th reading is an
  argument.
\<close>

section \<open>Connections\<close>

record 'd connection =
  cn_data :: 'd
  cn_begin :: "'d option"
  cn_saves :: "(string \<times> 'd) list"

datatype control =
  Begin_Immediate | Commit | Rollback | Savepoint string | Rollback_To string | Release string

definition in_transaction :: "'d connection \<Rightarrow> bool" where
  "in_transaction c \<longleftrightarrow> cn_begin c \<noteq> None \<or> cn_saves c \<noteq> []"

text \<open>The content when the outermost transaction or savepoint was opened.\<close>

definition outermost :: "'d connection \<Rightarrow> 'd" where
  "outermost c = (case cn_begin c of Some d \<Rightarrow> d | None \<Rightarrow> (if cn_saves c = [] then cn_data c else snd (last (cn_saves c))))"

definition sql_error :: rusqlite_error where "sql_error = SqliteFailure 1"

fun apply_control :: "control \<Rightarrow> 'd connection \<Rightarrow> (rusqlite_error + unit) \<times> 'd connection" where
  "apply_control Begin_Immediate c =
     (if in_transaction c then (Err sql_error, c) else (Ok (), c\<lparr>cn_begin := Some (cn_data c)\<rparr>))"
| "apply_control Commit c =
     (if in_transaction c then (Ok (), c\<lparr>cn_begin := None, cn_saves := []\<rparr>) else (Err sql_error, c))"
| "apply_control Rollback c =
     (if in_transaction c then (Ok (), \<lparr>cn_data = outermost c, cn_begin = None, cn_saves = []\<rparr>)
      else (Err sql_error, c))"
| "apply_control (Savepoint n) c = (Ok (), c\<lparr>cn_saves := (n, cn_data c) # cn_saves c\<rparr>)"
| "apply_control (Rollback_To n) c =
     (case dropWhile (\<lambda>p. fst p \<noteq> n) (cn_saves c) of
        [] \<Rightarrow> (Err sql_error, c)
      | (m, d) # rest \<Rightarrow> (Ok (), c\<lparr>cn_data := d, cn_saves := (m, d) # rest\<rparr>))"
| "apply_control (Release n) c =
     (case dropWhile (\<lambda>p. fst p \<noteq> n) (cn_saves c) of
        [] \<Rightarrow> (Err sql_error, c)
      | _ # rest \<Rightarrow> (Ok (), c\<lparr>cn_saves := rest\<rparr>))"

section \<open>SQLite\<close>

record prepared =
  pr_columns :: "result_column list"
  pr_parameter_count :: nat

text \<open>The rows a statement yields and the error, if any, of the step after the last of them.\<close>

record run_outcome =
  ro_rows :: "value_ref list list"
  ro_error :: "rusqlite_error option"
  ro_affected :: nat
  ro_last_insert_rowid :: int

record 'd sqlite_env =
  sq_actions :: "string \<Rightarrow> 'd \<Rightarrow> auth_request list"
  sq_prepare :: "string \<Rightarrow> 'd \<Rightarrow> rusqlite_error + prepared"
  sq_run :: "context_state \<Rightarrow> string \<Rightarrow> value_ref list \<Rightarrow> 'd connection \<Rightarrow> (rusqlite_error + run_outcome) \<times> 'd connection"
  sq_batch :: "string \<Rightarrow> 'd \<Rightarrow> (rusqlite_error + unit) \<times> 'd"
  sq_control_fails :: "control \<Rightarrow> 'd connection \<Rightarrow> rusqlite_error option"
  sq_pages :: "'d \<Rightarrow> rusqlite_error + (nat \<times> nat)"
  sq_capture_triggers :: "'d \<Rightarrow> rusqlite_error + string list"
  sq_table_names :: "'d \<Rightarrow> rusqlite_error + string list"
  sq_table_exists :: "string \<Rightarrow> 'd \<Rightarrow> rusqlite_error + bool"
  sq_table_xinfo :: "string \<Rightarrow> 'd \<Rightarrow> rusqlite_error + (string \<times> nat \<times> nat) list"
  sq_catalog_json :: "'d \<Rightarrow> rusqlite_error + string option"
  sq_decode_catalog :: "string \<Rightarrow> rls_catalog option"
  sq_utf8_lossy :: "string \<Rightarrow> string"
  sq_base64 :: "string \<Rightarrow> string"
  sq_sha256 :: "string \<Rightarrow> string"
  sq_now :: "nat \<Rightarrow> nat"
  sq_cancelled :: "nat \<Rightarrow> bool"
  sq_instant_max :: nat

record 'd session =
  ss_connection :: "'d connection"
  ss_context :: context_state
  ss_mode :: execution_mode
  ss_limits :: execution_limits
  ss_transaction_deadline :: "nat option"
  ss_request_deadline :: nat
  ss_reading :: nat

record statement_request =
  st_sql :: string
  st_parameters :: "sql_parameter list"

type_synonym ('d, 'a) session_op = "'d session \<Rightarrow> (runtime_error + 'a) \<times> 'd session"

section \<open>Access to the connection, the clock and the leases\<close>

definition control_op :: "'d sqlite_env \<Rightarrow> control \<Rightarrow> ('d, unit) session_op" where
  "control_op env c s =
     (case sq_control_fails env c (ss_connection s) of
        Some e \<Rightarrow> (Err (from_rusqlite e), s)
      | None \<Rightarrow>
          (let (r, conn) = apply_control c (ss_connection s)
           in (map_err from_rusqlite r, s\<lparr>ss_connection := conn\<rparr>)))"

text \<open>\<open>let _ = execute_batch(...)\<close>: the outcome is dropped.\<close>

definition control_ignored :: "'d sqlite_env \<Rightarrow> control \<Rightarrow> 'd session \<Rightarrow> 'd session" where
  "control_ignored env c s = snd (control_op env c s)"

definition batch_op :: "'d sqlite_env \<Rightarrow> string \<Rightarrow> ('d, unit) session_op" where
  "batch_op env stmt s =
     (let (r, d) = sq_batch env stmt (cn_data (ss_connection s))
      in (map_err from_rusqlite r, s\<lparr>ss_connection := (ss_connection s)\<lparr>cn_data := d\<rparr>\<rparr>))"

definition query_op :: "('d \<Rightarrow> rusqlite_error + 'a) \<Rightarrow> ('d, 'a) session_op" where
  "query_op q s = (map_err from_rusqlite (q (cn_data (ss_connection s))), s)"

definition read_now :: "'d sqlite_env \<Rightarrow> 'd session \<Rightarrow> nat \<times> 'd session" where
  "read_now env s = (sq_now env (ss_reading s), s\<lparr>ss_reading := ss_reading s + 1\<rparr>)"

definition read_cancelled :: "'d sqlite_env \<Rightarrow> 'd session \<Rightarrow> bool \<times> 'd session" where
  "read_cancelled env s = (sq_cancelled env (ss_reading s), s\<lparr>ss_reading := ss_reading s + 1\<rparr>)"

text \<open>\<open>Instant::now().checked_add(timeout).ok_or(DeadlineExceeded)\<close>.\<close>

definition deadline_after :: "'d sqlite_env \<Rightarrow> nat \<Rightarrow> ('d, nat) session_op" where
  "deadline_after env timeout s =
     (let (now, s') = read_now env s
      in if now + timeout \<le> sq_instant_max env then (Ok (now + timeout), s') else (Err DeadlineExceeded, s'))"

definition with_internal :: "('d, 'a) session_op \<Rightarrow> ('d, 'a) session_op" where
  "with_internal body s =
     (case enter_internal (ss_context s) of
        Inl e \<Rightarrow> (Err e, s)
      | Inr c \<Rightarrow>
          (let (r, s') = body (s\<lparr>ss_context := c\<rparr>)
           in (r, s'\<lparr>ss_context := leave_internal (ss_context s')\<rparr>)))"

definition with_public_auth :: "bool \<Rightarrow> ('d, 'a) session_op \<Rightarrow> ('d, 'a) session_op" where
  "with_public_auth wanted body s =
     (if \<not> wanted then body s
      else case enter_public_auth (ss_context s) of
        Inl e \<Rightarrow> (Err e, s)
      | Inr c \<Rightarrow>
          (let (r, s') = body (s\<lparr>ss_context := c\<rparr>)
           in (r, s'\<lparr>ss_context := leave_public_auth (ss_context s')\<rparr>)))"

section \<open>The schema and change capture\<close>

definition as_database :: "'e + 'a \<Rightarrow> runtime_error + 'a" where
  "as_database r = map_err (\<lambda>_. Database) r"

definition load_rls_catalog :: "'d sqlite_env \<Rightarrow> ('d, rls_catalog) session_op" where
  "load_rls_catalog env =
     with_internal (sbind (query_op (sq_catalog_json env)) (\<lambda>json.
       slift (case json of
           None \<Rightarrow> Ok \<lparr>tables = []\<rparr>
         | Some text_json \<Rightarrow> ok_or (sq_decode_catalog env text_json) Database)))"

text \<open>The columns of one table, from \<open>PRAGMA table_xinfo\<close>: name, ordinal in the primary key, hidden kind.\<close>

definition column_of :: "string \<times> nat \<times> nat \<Rightarrow> runtime_error + column_schema" where
  "column_of row =
     (let (name, primary_key, hidden) = row
      in bindr (as_database (identifier_new name)) (\<lambda>n.
         Ok \<lparr>col_name = n, primary_key_ordinal = (if primary_key > 0 then Some primary_key else None),
             generated = (hidden = 2 \<or> hidden = 3)\<rparr>))"

definition table_of :: "'d sqlite_env \<Rightarrow> string \<times> bool \<Rightarrow> ('d, table_schema) session_op" where
  "table_of env entry =
     (let (logical_name, is_protected_table) = entry
      in sbind (slift (bindr (as_database (identifier_new logical_name)) (\<lambda>logical.
           bindr (if is_protected_table then as_database (backing_table_name (sq_sha256 env) logical) else Ok logical)
             (\<lambda>physical. Ok (logical, physical))))) (\<lambda>(logical, physical).
         sbind (query_op (sq_table_xinfo env (as_str physical))) (\<lambda>rows.
         slift (bindr (mapr column_of rows) (\<lambda>cols.
           Ok \<lparr>ts_name = logical, columns = cols, protected = is_protected_table\<rparr>)))))"

fun smap :: "('x \<Rightarrow> ('d, 'y) session_op) \<Rightarrow> 'x list \<Rightarrow> ('d, 'y list) session_op" where
  "smap f [] = sok []"
| "smap f (x # xs) = sbind (f x) (\<lambda>y. sbind (smap f xs) (\<lambda>ys. sok (y # ys)))"

text \<open>The protected tables whose backing table exists and whose name is not that of a plain table.\<close>

fun protected_names ::
    "'d sqlite_env \<Rightarrow> sql_identifier list \<Rightarrow> (string \<times> bool) list \<Rightarrow> ('d, (string \<times> bool) list) session_op" where
  "protected_names env [] names = sok names"
| "protected_names env (t # ts) names =
     sbind (slift (as_database (backing_table_name (sq_sha256 env) t))) (\<lambda>backing.
     sbind (query_op (sq_table_exists env (as_str backing))) (\<lambda>exists.
     protected_names env ts
       (if exists \<and> as_str t \<notin> fst ` set names then names @ [(as_str t, True)] else names)))"

definition schema_snapshot :: "'d sqlite_env \<Rightarrow> rls_catalog \<Rightarrow> ('d, schema_snapshot) session_op" where
  "schema_snapshot env catalog =
     with_internal (sbind (query_op (sq_table_names env)) (\<lambda>plain.
       sbind (protected_names env (map fst (tables catalog)) (map (\<lambda>n. (n, False)) plain)) (\<lambda>names.
       sbind (smap (table_of env) names) (\<lambda>ts.
       sok \<lparr>schema_tables = sort_key ts_name ts\<rparr>))))"

definition suspend_change_capture :: "'d sqlite_env \<Rightarrow> ('d, unit) session_op" where
  "suspend_change_capture env =
     with_internal (sbind (query_op (sq_capture_triggers env)) (\<lambda>names.
       sfor names (\<lambda>name.
         sbind (slift (as_database (identifier_new name))) (\<lambda>n.
         batch_op env (''DROP TRIGGER '' @ quoted n)))))"

definition capture_source_names :: "(string \<Rightarrow> string) \<Rightarrow> string \<Rightarrow> runtime_error + sql_identifier list" where
  "capture_source_names sha256 table =
     (let suffix = take 16 (concat (map hex_byte (sha256 table)))
      in mapr (\<lambda>event. as_database (identifier_new (''__ffdb_sync_capture_'' @ event @ ''_'' @ suffix)))
           [''insert'', ''update'', ''delete'', ''guard''])"

definition sql_literal :: "string \<Rightarrow> string" where
  "sql_literal v = [squote] @ double_byte squote v @ [squote]"

definition json_object_sql :: "string \<Rightarrow> sql_identifier list \<Rightarrow> string" where
  "json_object_sql row_alias cols =
     ''json_object('' @ join '', '' (concat (map (\<lambda>c.
        [sql_literal (as_str c), ''json(__ffdb_sync_json('' @ row_alias @ ''.'' @ quoted c @ ''))'']) cols)) @ '')''"

definition capture_one_trigger ::
    "sql_identifier \<Rightarrow> sql_identifier \<Rightarrow> string \<Rightarrow> string \<Rightarrow> string \<Rightarrow> string \<Rightarrow> string option \<Rightarrow> string option \<Rightarrow> bool
      \<Rightarrow> string" where
  "capture_one_trigger name physical timing table_literal key_json operation values_json tombstone_json deleted =
     ''CREATE TRIGGER '' @ quoted name @ '' '' @ timing @ '' ON '' @ quoted physical @ '' BEGIN ''
     @ ''UPDATE __ffdb_sync_state SET next_sequence=next_sequence+1 WHERE singleton=1; ''
     @ ''INSERT INTO __ffdb_sync_changes ''
     @ ''(sequence,transaction_id,table_name,primary_key_json,operation,row_version,values_json,''
     @ ''tombstone_json,actor,schema_version,committed_at_ms,client_mutation_id) ''
     @ ''VALUES ((SELECT next_sequence-1 FROM __ffdb_sync_state WHERE singleton=1), ''
     @ ''__ffdb_transaction_id(), '' @ table_literal @ '', '' @ key_json @ '', '' @ [squote] @ operation @ [squote] @ '', ''
     @ ''COALESCE((SELECT row_version FROM __ffdb_sync_versions ''
     @ ''WHERE table_name='' @ table_literal @ '' AND primary_key_json='' @ key_json @ ''),0)+1, ''
     @ (case values_json of None \<Rightarrow> ''NULL'' | Some v \<Rightarrow> v) @ '', ''
     @ (case tombstone_json of None \<Rightarrow> ''NULL'' | Some v \<Rightarrow> v) @ '', __ffdb_actor(), ''
     @ ''(SELECT schema_version FROM __ffdb_schema_state WHERE singleton=1), ''
     @ ''CAST((julianday('' @ [squote] @ ''now'' @ [squote] @ '')-2440587.5)*86400000 AS INTEGER), ''
     @ ''__ffdb_client_mutation_id()); ''
     @ ''INSERT INTO __ffdb_sync_versions ''
     @ ''(table_name,primary_key_json,row_version,last_sequence,deleted) ''
     @ ''SELECT '' @ table_literal @ '', '' @ key_json @ '', row_version, sequence, '' @ (if deleted then ''1'' else ''0'') @ '' ''
     @ ''FROM __ffdb_sync_changes WHERE sequence=(SELECT next_sequence-1 FROM __ffdb_sync_state WHERE singleton=1) ''
     @ ''ON CONFLICT(table_name,primary_key_json) DO UPDATE SET ''
     @ ''row_version=excluded.row_version,last_sequence=excluded.last_sequence,deleted=excluded.deleted; END''"

definition primary_key_columns :: "table_schema \<Rightarrow> sql_identifier list" where
  "primary_key_columns t =
     map snd (sort_key fst
       (List.map_filter (\<lambda>c. map_option (\<lambda>i. (i, col_name c)) (primary_key_ordinal c)) (columns t)))"

definition capture_trigger_sql :: "table_schema \<Rightarrow> sql_identifier \<Rightarrow> sql_identifier list \<Rightarrow> string list" where
  "capture_trigger_sql t physical names =
     (let pk = primary_key_columns t;
          table_literal = sql_literal (as_str (ts_name t));
          new_key = json_object_sql ''NEW'' pk;
          old_key = json_object_sql ''OLD'' pk;
          new_row = json_object_sql ''NEW'' (map col_name (columns t));
          old_row = json_object_sql ''OLD'' (map col_name (columns t));
          guard_columns = join '', '' (map quoted pk);
          guard_when = join '' OR '' (map (\<lambda>c. ''OLD.'' @ quoted c @ '' IS NOT NEW.'' @ quoted c) pk)
      in [capture_one_trigger (names ! 0) physical ''AFTER INSERT'' table_literal new_key ''insert'' (Some new_row) None False,
          capture_one_trigger (names ! 1) physical ''AFTER UPDATE'' table_literal new_key ''update'' (Some new_row) None False,
          capture_one_trigger (names ! 2) physical ''AFTER DELETE'' table_literal old_key ''delete'' None (Some old_row) True,
          ''CREATE TRIGGER '' @ quoted (names ! 3) @ '' BEFORE UPDATE OF '' @ guard_columns @ '' ON '' @ quoted physical
          @ '' WHEN '' @ guard_when @ '' BEGIN SELECT RAISE(ABORT, '' @ [squote]
          @ ''primary key updates are not supported'' @ [squote] @ ''); END''])"

text \<open>The body of the closure of \<open>refresh_change_capture\<close>, table by table; its value is the list of the
  generated names.\<close>

fun refresh_tables ::
    "'d sqlite_env \<Rightarrow> table_schema list \<Rightarrow> sql_identifier list \<Rightarrow> ('d, sql_identifier list) session_op" where
  "refresh_tables env [] acc = sok acc"
| "refresh_tables env (t # ts) acc =
     sbind (slift (capture_source_names (sq_sha256 env) (as_str (ts_name t)))) (\<lambda>names.
     sbind (sfor names (\<lambda>n. batch_op env (''DROP TRIGGER IF EXISTS '' @ quoted n))) (\<lambda>_.
     if list_all (\<lambda>c. primary_key_ordinal c = None) (columns t) then refresh_tables env ts acc
     else
       sbind (slift (if protected t then as_database (backing_table_name (sq_sha256 env) (ts_name t))
                     else Ok (ts_name t))) (\<lambda>physical.
       sbind (sfor (capture_trigger_sql t physical names) (batch_op env)) (\<lambda>_.
       refresh_tables env ts (acc @ names)))))"

definition approve :: "sql_identifier list \<Rightarrow> 'd session \<Rightarrow> 'd session" where
  "approve names s =
     s\<lparr>ss_context := (ss_context s)\<lparr>approved_sources :=
        approved_sources (ss_context s) \<union> set (map (\<lambda>n. to_ascii_lowercase (as_str n)) names)\<rparr>\<rparr>"

definition refresh_change_capture :: "'d sqlite_env \<Rightarrow> rls_catalog \<Rightarrow> ('d, unit) session_op" where
  "refresh_change_capture env catalog =
     sbind (schema_snapshot env catalog) (\<lambda>schema.
     with_internal (sbind (control_op env (Savepoint ''__ffdb_sync_capture_refresh'')) (\<lambda>_ s.
       (case refresh_tables env (schema_tables schema) [] s of
          (Inl e, s') \<Rightarrow>
            (Err e, control_ignored env (Release ''__ffdb_sync_capture_refresh'')
                      (control_ignored env (Rollback_To ''__ffdb_sync_capture_refresh'') s'))
        | (Inr names, s') \<Rightarrow>
            sbind (control_op env (Release ''__ffdb_sync_capture_refresh'')) (\<lambda>_ s''. (Ok (), approve names s'')) s'))))"

section \<open>Statements\<close>

definition session_validate :: "statement_request \<Rightarrow> 'd session \<Rightarrow> runtime_error + unit" where
  "session_validate rq s =
     (if length (st_sql rq) > max_sql_bytes (ss_limits s) then Err SqlTooLarge
      else if length (st_parameters rq) > max_variables (ss_limits s) then Err TooManyVariables
      else bindr (map_err (\<lambda>_. StatementNotAllowed) (classify_statement (st_sql rq))) (\<lambda>c.
        case ss_mode s of
          EndUser _ \<Rightarrow> if allowed_for_end_user c then Ok () else Err StatementNotAllowed
        | Developer _ \<Rightarrow>
            if kind c = Kind_Attach \<or> kind c = Kind_Detach then Err StatementNotAllowed
            else if kind c = Kind_Vacuum \<and> contains_str (to_ascii_uppercase (st_sql rq)) ''INTO''
            then Err StatementNotAllowed
            else if kind c = Kind_Rls then Err StatementNotAllowed
            else Ok ()))"

definition check_database_size :: "'d sqlite_env \<Rightarrow> ('d, unit) session_op" where
  "check_database_size env =
     with_internal (sbind (query_op (sq_pages env)) (\<lambda>(page_count, page_size) s.
       (if min (page_count * page_size) u64_max > max_database_bytes (ss_limits s) then Err DatabaseTooLarge else Ok (), s)))"

text \<open>The values of one row, counted into the size of the response.\<close>

fun encode_row ::
    "execution_limits \<Rightarrow> (value_ref \<Rightarrow> result_value) \<Rightarrow> nat \<Rightarrow> value_ref list
      \<Rightarrow> runtime_error + result_value list \<times> nat" where
  "encode_row l conv n [] = Ok ([], n)"
| "encode_row l conv n (v # vs) =
     (let m = saturating_add_u64 n (value_encoded_size (conv v) + 1)
      in if m > max_response_bytes l then Err ResponseTooLarge
         else bindr (encode_row l conv m vs) (\<lambda>(row, m'). Ok (conv v # row, m')))"

text \<open>\<open>taken\<close> rows have been output. The next row is stepped to before the limit is compared.\<close>

fun collect_rows ::
    "execution_limits \<Rightarrow> (value_ref \<Rightarrow> result_value) \<Rightarrow> rusqlite_error option \<Rightarrow> nat \<Rightarrow> nat \<Rightarrow> value_ref list list
      \<Rightarrow> runtime_error + result_value list list \<times> bool" where
  "collect_rows l conv failure taken n [] =
     (case failure of Some e \<Rightarrow> Err (from_rusqlite e) | None \<Rightarrow> Ok ([], False))"
| "collect_rows l conv failure taken n (row # rows) =
     (if taken = max_rows l then Ok ([], True)
      else bindr (encode_row l conv n row) (\<lambda>(out, n').
        bindr (collect_rows l conv failure (taken + 1) n' rows) (\<lambda>(outs, truncated).
        Ok (out # outs, truncated))))"

definition changes_data :: "statement_kind option \<Rightarrow> bool" where
  "changes_data k = (k \<in> {Some Kind_Insert, Some Kind_Update, Some Kind_Delete})"

definition query_output ::
    "'d sqlite_env \<Rightarrow> execution_limits \<Rightarrow> statement_kind option \<Rightarrow> result_column list \<Rightarrow> run_outcome
      \<Rightarrow> runtime_error + query_result" where
  "query_output env l k cols out =
     (if cols = [] then
        Ok \<lparr>qr_columns = cols, qr_rows = [], qr_affected_rows = ro_affected out,
            qr_last_insert_rowid = (if k = Some Kind_Insert then Some (ro_last_insert_rowid out) else None),
            qr_truncated = False\<rparr>
      else
        bindr (collect_rows l (from_value_ref (sq_utf8_lossy env) (sq_base64 env)) (ro_error out) 0
            (sum_list (map (\<lambda>c. length (rc_name c) + 24) cols)) (ro_rows out)) (\<lambda>(rows, truncated).
        Ok \<lparr>qr_columns = cols, qr_rows = rows,
            qr_affected_rows = (if changes_data k then ro_affected out else 0),
            qr_last_insert_rowid = None, qr_truncated = truncated\<rparr>))"

text \<open>Preparation asks the authorizer about every action; one refusal refuses the statement.\<close>

definition prepare_op :: "'d sqlite_env \<Rightarrow> string \<Rightarrow> ('d, prepared) session_op" where
  "prepare_op env stmt s =
     (if list_all (authorize (ss_context s)) (sq_actions env stmt (cn_data (ss_connection s)))
      then query_op (sq_prepare env stmt) s
      else (Err (from_rusqlite SqliteAuthDenied), s))"

definition run_op :: "'d sqlite_env \<Rightarrow> string \<Rightarrow> sql_parameter list \<Rightarrow> ('d, run_outcome) session_op" where
  "run_op env stmt parameters s =
     (let (r, conn) = sq_run env (ss_context s) stmt (map to_sql parameters) (ss_connection s)
      in (map_err from_rusqlite r, s\<lparr>ss_connection := conn\<rparr>))"

definition statement_kind_option :: "string \<Rightarrow> statement_kind option" where
  "statement_kind_option stmt = (case classify_statement stmt of Inl _ \<Rightarrow> None | Inr c \<Rightarrow> Some (kind c))"

definition execute_inner :: "'d sqlite_env \<Rightarrow> statement_request \<Rightarrow> ('d, query_result) session_op" where
  "execute_inner env rq =
     sbind (slift (map_err (\<lambda>_. StatementNotAllowed) (rewrite_auth_functions_for_execution (st_sql rq)))) (\<lambda>stmt.
     with_public_auth (stmt \<noteq> st_sql rq)
       (sbind (prepare_op env stmt) (\<lambda>p s.
         if pr_parameter_count p > max_variables (ss_limits s) then (Err TooManyVariables, s)
         else sbind (run_op env stmt (st_parameters rq)) (\<lambda>out s'.
           (query_output env (ss_limits s') (statement_kind_option (st_sql rq)) (pr_columns p) out, s')) s)))"

definition is_write :: "string \<Rightarrow> bool" where
  "is_write stmt = (case classify_statement stmt of Inl _ \<Rightarrow> True | Inr c \<Rightarrow> \<not> read_only c)"

definition statement_limit :: string where "statement_limit = ''__ffdb_statement_limit''"

definition undo_statement :: "'d sqlite_env \<Rightarrow> 'd session \<Rightarrow> 'd session" where
  "undo_statement env s =
     control_ignored env (Release statement_limit) (control_ignored env (Rollback_To statement_limit) s)"

text \<open>The statement with its change-capture maintenance: \<open>Ddl\<close> statements run without the capture
  triggers, which are rebuilt after it.\<close>

definition run_captured :: "'d sqlite_env \<Rightarrow> statement_request \<Rightarrow> ('d, query_result) session_op" where
  "run_captured env rq =
     sbind (execute_inner env rq) (\<lambda>q.
     if statement_kind_option (st_sql rq) = Some Kind_Ddl then
       sbind (sbind (load_rls_catalog env) (refresh_change_capture env)) (\<lambda>_. sok q)
     else sok q)"

definition finish_write :: "'d sqlite_env \<Rightarrow> (runtime_error + query_result) \<times> 'd session
    \<Rightarrow> (runtime_error + query_result) \<times> 'd session" where
  "finish_write env outcome =
     (let (r, s) = outcome
      in case r of
          Inl e \<Rightarrow> (Err e, undo_statement env s)
        | Inr q \<Rightarrow>
            (case check_database_size env s of
               (Inl e, s') \<Rightarrow> (Err e, undo_statement env s')
             | (Inr _, s') \<Rightarrow> sbind (control_op env (Release statement_limit)) (\<lambda>_. sok q) s'))"

text \<open>A failure of SQLite during which the request was cancelled, or its deadline passed, is reported as
  that.\<close>

definition report :: "'d sqlite_env \<Rightarrow> nat \<Rightarrow> (runtime_error + query_result) \<times> 'd session
    \<Rightarrow> (runtime_error + query_result) \<times> 'd session" where
  "report env deadline outcome =
     (let (r, s) = outcome
      in if r \<noteq> Err Database then (r, s)
         else (let (cancelled, s1) = read_cancelled env s
               in if cancelled then (Err Cancelled, s1)
                  else (let (now, s2) = read_now env s1
                        in if now \<ge> deadline then (Err DeadlineExceeded, s2) else (r, s2))))"

definition execute_bounded :: "'d sqlite_env \<Rightarrow> statement_request \<Rightarrow> nat \<Rightarrow> ('d, query_result) session_op" where
  "execute_bounded env rq deadline s0 =
     (let (cancelled, s) = read_cancelled env s0
      in if cancelled then (Err Cancelled, s)
         else if \<not> is_write (st_sql rq) then report env deadline (run_captured env rq s)
         else
           (case control_op env (Savepoint statement_limit) s of
              (Inl e, s1) \<Rightarrow> (Err e, s1)
            | (Inr _, s1) \<Rightarrow>
                if statement_kind_option (st_sql rq) = Some Kind_Ddl then
                  (case suspend_change_capture env s1 of
                     (Inl e, s2) \<Rightarrow> (Err e, undo_statement env s2)
                   | (Inr _, s2) \<Rightarrow> report env deadline (finish_write env (run_captured env rq s2)))
                else report env deadline (finish_write env (run_captured env rq s1))))"

definition execute :: "'d sqlite_env \<Rightarrow> statement_request \<Rightarrow> ('d, query_result) session_op" where
  "execute env rq =
     sbind (\<lambda>s. (session_validate rq s, s)) (\<lambda>_ s.
     sbind (deadline_after env (statement_timeout (ss_limits s))) (\<lambda>d s'.
       execute_bounded env rq
         (min (case ss_transaction_deadline s' of None \<Rightarrow> d | Some t \<Rightarrow> min t d) (ss_request_deadline s')) s') s)"

definition write_probe :: string where "write_probe = ''__ffdb_write_probe''"

definition probe_write :: "'d sqlite_env \<Rightarrow> statement_request \<Rightarrow> ('d, unit) session_op" where
  "probe_write env rq s =
     (case classify_statement (st_sql rq) of
        Inl _ \<Rightarrow> (Err StatementNotAllowed, s)
      | Inr c \<Rightarrow>
          if kind c \<notin> {Kind_Insert, Kind_Update, Kind_Delete} then (Err StatementNotAllowed, s)
          else
            (case control_op env (Savepoint write_probe) s of
               (Inl e, s1) \<Rightarrow> (Err e, s1)
             | (Inr _, s1) \<Rightarrow>
                 (let (r, s2) = execute env rq s1;
                      (rollback, s3) = sbind (control_op env (Rollback_To write_probe)) (\<lambda>_.
                        control_op env (Release write_probe)) s2
                  in case r of Inl e \<Rightarrow> (Err e, s3) | Inr _ \<Rightarrow> (rollback, s3))))"

section \<open>Transactions\<close>

fun run_requests :: "'d sqlite_env \<Rightarrow> nat \<Rightarrow> statement_request list \<Rightarrow> ('d, query_result list) session_op" where
  "run_requests env bytes [] = sok []"
| "run_requests env bytes (rq # rqs) =
     sbind (execute env rq) (\<lambda>q s.
     (let bytes' = saturating_add_u64 bytes (result_encoded_size q)
      in if bytes' > max_response_bytes (ss_limits s) then (Err ResponseTooLarge, s)
         else sbind (run_requests env bytes' rqs) (\<lambda>qs. sok (q # qs)) s))"

definition transaction_in_current_atomic ::
    "'d sqlite_env \<Rightarrow> statement_request list \<Rightarrow> ('d, query_result list) session_op" where
  "transaction_in_current_atomic env rqs s =
     (if ss_transaction_deadline s = None \<or> rqs = [] \<or> length rqs > 100 then (Err StatementNotAllowed, s)
      else run_requests env 0 rqs s)"

definition abort_atomic :: "'d sqlite_env \<Rightarrow> string set \<Rightarrow> 'd session \<Rightarrow> 'd session" where
  "abort_atomic env approved_before s =
     (let s' = control_ignored env Rollback s
      in s'\<lparr>ss_context := (ss_context s')\<lparr>approved_sources := approved_before\<rparr>, ss_transaction_deadline := None\<rparr>)"

text \<open>The match on the result of the callback: check the size and commit, or roll back.\<close>

definition finish_atomic :: "'d sqlite_env \<Rightarrow> string set \<Rightarrow> (runtime_error + 'a) \<times> 'd session
    \<Rightarrow> (runtime_error + 'a) \<times> 'd session" where
  "finish_atomic env approved_before outcome =
     (case outcome of
        (Inl e, s) \<Rightarrow> (Err e, abort_atomic env approved_before s)
      | (Inr v, s) \<Rightarrow>
          (case check_database_size env s of
             (Inl e, s1) \<Rightarrow> (Err e, abort_atomic env approved_before s1)
           | (Inr _, s1) \<Rightarrow>
               (case control_op env Commit s1 of
                  (Inl e, s2) \<Rightarrow> (Err e, abort_atomic env approved_before s2)
                | (Inr _, s2) \<Rightarrow> (Ok v, s2\<lparr>ss_transaction_deadline := None\<rparr>))))"

definition atomic :: "'d sqlite_env \<Rightarrow> ('d, 'a) session_op \<Rightarrow> ('d, 'a) session_op" where
  "atomic env callback s0 =
     (if ss_transaction_deadline s0 \<noteq> None then (Err StatementNotAllowed, s0)
      else case deadline_after env (transaction_timeout (ss_limits s0)) s0 of
        (Inl e, s) \<Rightarrow> (Err e, s)
      | (Inr d, s) \<Rightarrow>
          (case control_op env Begin_Immediate s of
             (Inl e, s1) \<Rightarrow> (Err e, s1)
           | (Inr _, s1) \<Rightarrow>
               finish_atomic env (approved_sources (ss_context s))
                 (callback (s1\<lparr>ss_transaction_deadline := Some (min d (ss_request_deadline s1))\<rparr>))))"

definition transaction :: "'d sqlite_env \<Rightarrow> statement_request list \<Rightarrow> ('d, query_result list) session_op" where
  "transaction env rqs = atomic env (transaction_in_current_atomic env rqs)"

section \<open>Row-level-security plans\<close>

definition rls_plan :: string where "rls_plan = ''__ffdb_rls_plan''"

definition plan_statements :: "compiled_table_plan \<Rightarrow> string list" where
  "plan_statements p =
     (case rename_sql p of None \<Rightarrow> [] | Some stmt \<Rightarrow> [stmt]) @ drop_generated_sql p @ create_generated_sql p"

definition apply_rls_plan :: "'d sqlite_env \<Rightarrow> compiled_table_plan list \<Rightarrow> ('d, unit) session_op" where
  "apply_rls_plan env plan =
     with_internal (sbind (control_op env (Savepoint rls_plan)) (\<lambda>_ s.
       (case sfor (concat (map plan_statements plan)) (batch_op env) s of
          (Inl e, s') \<Rightarrow>
            (Err e, control_ignored env (Release rls_plan) (control_ignored env (Rollback_To rls_plan) s'))
        | (Inr _, s') \<Rightarrow>
            sbind (control_op env (Release rls_plan)) (\<lambda>_ s''.
              (Ok (), approve (concat (map generated_sources plan)) s'')) s')))"

section \<open>Requests\<close>

record request_budget =
  bu_limits :: execution_limits
  bu_deadline :: nat

record 'd database =
  db_connection :: "'d connection"
  db_context :: context_state
  db_limits :: execution_limits
  db_poisoned :: bool

definition context_clean :: "context_state \<Rightarrow> bool" where
  "context_clean c \<longleftrightarrow> active c = None \<and> internal_depth c = 0 \<and> public_auth_depth c = 0"

text \<open>The mutex around the connection serialises requests, so a request is one step from one database
  state to the next. \<open>n\<close> is the first reading of the clock.\<close>

definition with_context_budget ::
    "'d sqlite_env \<Rightarrow> execution_mode \<Rightarrow> string \<Rightarrow> request_budget \<Rightarrow> nat \<Rightarrow> ('d, 'a) session_op
      \<Rightarrow> 'd database \<Rightarrow> (runtime_error + 'a) \<times> 'd database" where
  "with_context_budget env mode transaction_id budget n callback db =
     (if db_poisoned db then (Err Poisoned, db)
      else if \<not> limits_validate (bu_limits budget) then (Err InvalidLimits, db)
      else if bu_deadline budget \<le> sq_now env n then (Err DeadlineExceeded, db)
      else case install_context mode transaction_id (db_context db) of
        Inl e \<Rightarrow> (Err e, db)
      | Inr c \<Rightarrow>
          (let (r, s) = callback
                 \<lparr>ss_connection = db_connection db, ss_context = c, ss_mode = mode,
                  ss_limits = restricted_by (db_limits db) (bu_limits budget),
                  ss_transaction_deadline = None, ss_request_deadline = bu_deadline budget,
                  ss_reading = n + 1\<rparr>;
               db' = db\<lparr>db_connection := ss_connection s, db_context := drop_context (ss_context s)\<rparr>
           in if context_clean (db_context db') then (r, db')
              else (Err Poisoned, db'\<lparr>db_poisoned := True\<rparr>)))"

text \<open>\<open>with_context\<close>: the database's own limits, and its transaction timeout from now.\<close>

definition with_context ::
    "'d sqlite_env \<Rightarrow> execution_mode \<Rightarrow> string \<Rightarrow> nat \<Rightarrow> ('d, 'a) session_op \<Rightarrow> 'd database
      \<Rightarrow> (runtime_error + 'a) \<times> 'd database" where
  "with_context env mode transaction_id n callback db =
     (let deadline = sq_now env n + transaction_timeout (db_limits db)
      in if deadline > sq_instant_max env then (Err DeadlineExceeded, db)
         else with_context_budget env mode transaction_id
           \<lparr>bu_limits = db_limits db, bu_deadline = deadline\<rparr> (n + 1) callback db)"

end
