(* ===== verification/Sqlite_Properties.thy ===== *)
theory Sqlite_Properties
  imports Sqlite_Session
begin

text \<open>
  What a session guarantees whatever SQL a client sends: the statement that runs was authorized action
  by action and its result is bounded, a transaction that fails leaves the data as they were, a probed
  write leaves no trace.

  Of SQLite one law is used, \<open>control_is_explicit\<close>: a statement that is not itself transaction
  control keeps the transaction and its savepoints, or fails and rolls the whole transaction back (the
  \<open>ROLLBACK\<close> conflict resolution).
\<close>

section \<open>What the parts of a session keep\<close>

abbreviation conn_begin :: "'d session \<Rightarrow> 'd option" where
  "conn_begin s \<equiv> cn_begin (ss_connection s)"

definition control_is_explicit :: "'d sqlite_env \<Rightarrow> bool" where
  "control_is_explicit env \<longleftrightarrow>
     (\<forall>ctx stmt0 stmt ps c r c'. statement_kind_option stmt0 \<noteq> Some Kind_TransactionControl
        \<longrightarrow> rewrite_auth_functions_for_execution stmt0 = Ok stmt \<longrightarrow> sq_run env ctx stmt ps c = (r, c')
        \<longrightarrow> cn_begin c' = cn_begin c \<and> cn_saves c' = cn_saves c
          \<or> (\<exists>e. r = Err e) \<and> in_transaction c \<and> c' = \<lparr>cn_data = outermost c, cn_begin = None, cn_saves = []\<rparr>)"

text \<open>The fields an operation never touches.\<close>

definition same_frame :: "'d session \<Rightarrow> 'd session \<Rightarrow> bool" where
  "same_frame s t \<longleftrightarrow> ss_mode t = ss_mode s \<and> ss_limits t = ss_limits s
     \<and> ss_transaction_deadline t = ss_transaction_deadline s \<and> ss_request_deadline t = ss_request_deadline s"

lemma same_frame_refl [simp]: "same_frame s s"
  by (simp add: same_frame_def)

lemma same_frame_trans: "same_frame s t \<Longrightarrow> same_frame t u \<Longrightarrow> same_frame s u"
  by (simp add: same_frame_def)

text \<open>
  \<open>stays k d\<close>: inside a transaction begun on content \<open>d\<close>, by \<open>BEGIN\<close> or (not \<open>k\<close>) by the savepoint of a probe.
  \<open>lost d\<close>: SQLite rolled that transaction back. An outcome is \<open>guarded\<close> if the transaction is still
  there, or lost and the outcome an error.
\<close>

definition stays :: "bool \<Rightarrow> 'd \<Rightarrow> 'd session \<Rightarrow> bool" where
  "stays k d s \<longleftrightarrow> k \<and> conn_begin s = Some d
     \<or> \<not> k \<and> conn_begin s = None
       \<and> (\<exists>ys. cn_saves (ss_connection s) = ys @ [(write_probe, d)] \<and> write_probe \<notin> fst ` set ys)"

definition lost :: "'d \<Rightarrow> 'd session \<Rightarrow> bool" where
  "lost d s \<longleftrightarrow> ss_connection s = \<lparr>cn_data = d, cn_begin = None, cn_saves = []\<rparr>"

definition guarded :: "bool \<Rightarrow> 'd \<Rightarrow> 'd session \<Rightarrow> (runtime_error + 'a) \<times> 'd session \<Rightarrow> bool" where
  "guarded k d s out \<longleftrightarrow> same_frame s (snd out)
     \<and> (stays k d (snd out) \<or> (\<exists>e. fst out = Err e) \<and> lost d (snd out))"

lemma guardedI: "same_frame s t \<Longrightarrow> stays k d t \<Longrightarrow> guarded k d s (r, t)"
  by (simp add: guarded_def)

lemma guarded_sbind:
  assumes "guarded k d s (m s)" and "\<And>a t. m s = (Ok a, t) \<Longrightarrow> stays k d t \<Longrightarrow> same_frame s t \<Longrightarrow> guarded k d t (f a t)"
  shows "guarded k d s (sbind m f s)"
proof -
  obtain r t where m: "m s = (r, t)" by force
  show ?thesis
  proof (cases r)
    case (Inl e)
    then show ?thesis using assms(1) m by (simp add: guarded_def sbind_def)
  next
    case (Inr a)
    then have "stays k d t" "same_frame s t" using assms(1) m by (auto simp: guarded_def)
    then have "guarded k d t (f a t)" using assms(2) m Inr by blast
    then show ?thesis using \<open>same_frame s t\<close> m Inr by (auto simp: guarded_def sbind_def intro: same_frame_trans)
  qed
qed

definition own_savepoint :: "control \<Rightarrow> bool" where
  "own_savepoint c \<longleftrightarrow> (\<exists>n. n \<noteq> write_probe \<and> (c = Savepoint n \<or> c = Rollback_To n \<or> c = Release n))"

lemma own_savepoint_simps [simp]:
  "own_savepoint (Savepoint n) = (n \<noteq> write_probe)" "own_savepoint (Rollback_To n) = (n \<noteq> write_probe)"
  "own_savepoint (Release n) = (n \<noteq> write_probe)"
  by (auto simp: own_savepoint_def)

lemma savepoint_names [simp]:
  "statement_limit \<noteq> write_probe" "rls_plan \<noteq> write_probe" "''__ffdb_sync_capture_refresh'' \<noteq> write_probe"
  by (simp_all add: statement_limit_def write_probe_def rls_plan_def)

lemma control_op_frame:
  "control_op env c s = (r, t) \<Longrightarrow> same_frame s t \<and> ss_context t = ss_context s"
  by (auto simp: control_op_def same_frame_def split: option.split_asm prod.split_asm)

lemma dropWhile_probe:
  assumes "dropWhile (\<lambda>p. fst p \<noteq> n) (ys @ [(write_probe, d)]) = (m, e) # rest"
    and "n \<noteq> write_probe" and "write_probe \<notin> fst ` set ys"
  shows "m = n \<and> (\<exists>zs. rest = zs @ [(write_probe, d)] \<and> write_probe \<notin> fst ` set zs)"
  using assms
proof (induction ys)
  case (Cons y ys)
  then show ?case by (cases "fst y = n") (auto simp: prod_eq_iff)
qed (auto split: if_split_asm)

lemma control_op_stays:
  assumes "stays k d s" and "own_savepoint c" and "control_op env c s = (r, t)"
  shows "stays k d t"
proof -
  obtain n where n: "n \<noteq> write_probe" and c: "c = Savepoint n \<or> c = Rollback_To n \<or> c = Release n"
    using assms(2) by (auto simp: own_savepoint_def)
  have opened: "conn_begin t = conn_begin s"
    using assms(3) c by (auto simp: control_op_def split: option.split_asm list.split_asm)
  show ?thesis
  proof (cases k)
    case True
    then show ?thesis using opened assms(1) by (simp add: stays_def)
  next
    case False
    then obtain ys where none: "conn_begin s = None" and ys: "cn_saves (ss_connection s) = ys @ [(write_probe, d)]"
        "write_probe \<notin> fst ` set ys"
      using assms(1) by (auto simp: stays_def)
    have "\<exists>zs. cn_saves (ss_connection t) = zs @ [(write_probe, d)] \<and> write_probe \<notin> fst ` set zs"
    proof (cases "sq_control_fails env c (ss_connection s)")
      case (Some e)
      then show ?thesis using assms(3) ys by (auto simp: control_op_def)
    next
      case no_failure: None
      show ?thesis
      proof (cases "c = Savepoint n")
        case True
        then have "cn_saves (ss_connection t) = ((n, cn_data (ss_connection s)) # ys) @ [(write_probe, d)]"
          using assms(3) ys no_failure by (auto simp: control_op_def)
        then show ?thesis using ys(2) n by (intro exI [of _ "(n, cn_data (ss_connection s)) # ys"]) auto
      next
        case False
        show ?thesis
        proof (cases "dropWhile (\<lambda>p. fst p \<noteq> n) (ys @ [(write_probe, d)])")
          case Nil
          then show ?thesis using assms(3) ys no_failure c False by (auto simp: control_op_def)
        next
          case (Cons p rest)
          obtain m e where p: "p = (m, e)" by force
          obtain zs where zs: "m = n" "rest = zs @ [(write_probe, d)]" "write_probe \<notin> fst ` set zs"
            using dropWhile_probe [OF Cons [unfolded p] n ys(2)] by blast
          then have "cn_saves (ss_connection t) = ((n, e) # zs) @ [(write_probe, d)]
              \<or> cn_saves (ss_connection t) = zs @ [(write_probe, d)]"
            using assms(3) ys no_failure c False Cons p by (auto simp: control_op_def)
          then show ?thesis using zs(3) n by (metis image_insert insertE list.simps(15) fst_conv)
        qed
      qed
    qed
    then show ?thesis using opened none False by (simp add: stays_def)
  qed
qed

lemma control_op_lost:
  assumes "lost d s" and "c \<in> {Rollback_To n, Release n, Rollback}"
  shows "lost d (control_ignored env c s)"
  using assms by (auto simp: control_ignored_def control_op_def lost_def in_transaction_def split: option.split)

lemma control_guarded: "stays k d s \<Longrightarrow> own_savepoint c \<Longrightarrow> guarded k d s (control_op env c s)"
  using control_op_stays [of k d s c env] control_op_frame [of env c s]
  by (cases "control_op env c s") (auto simp: guarded_def)

lemma control_ignored_frame [simp]: "same_frame s (control_ignored env c s)"
  using control_op_frame [of env c s] by (cases "control_op env c s") (auto simp: control_ignored_def)

lemma control_ignored_stays: "stays k d s \<Longrightarrow> own_savepoint c \<Longrightarrow> stays k d (control_ignored env c s)"
  using control_op_stays [of k d s c env] by (cases "control_op env c s") (auto simp: control_ignored_def)

lemma query_guarded: "stays k d s \<Longrightarrow> guarded k d s (query_op q s)"
  by (simp add: query_op_def guardedI)

lemma slift_guarded: "stays k d s \<Longrightarrow> guarded k d s (slift r s)"
  by (simp add: slift_def guardedI)

lemma sok_guarded: "stays k d s \<Longrightarrow> guarded k d s (sok r s)"
  by (simp add: sok_def guardedI)

lemma batch_guarded: "stays k d s \<Longrightarrow> guarded k d s (batch_op env b s)"
  by (auto simp: batch_op_def stays_def same_frame_def intro!: guardedI split: prod.split)

lemma with_internal_guarded:
  assumes "stays k d s" and "\<And>t. stays k d t \<Longrightarrow> guarded k d t (body t)"
  shows "guarded k d s (with_internal body s)"
proof (cases "enter_internal (ss_context s)")
  case (Inl e)
  then show ?thesis using assms(1) by (simp add: with_internal_def guardedI)
next
  case (Inr c)
  have "guarded k d (s\<lparr>ss_context := c\<rparr>) (body (s\<lparr>ss_context := c\<rparr>))"
    using assms by (simp add: stays_def)
  then show ?thesis
    using Inr by (auto simp: with_internal_def guarded_def same_frame_def stays_def lost_def split: prod.split)
qed

lemma with_public_auth_guarded:
  assumes "stays k d s" and "\<And>t. stays k d t \<Longrightarrow> guarded k d t (body t)"
  shows "guarded k d s (with_public_auth b body s)"
proof (cases b)
  case True
  show ?thesis
  proof (cases "enter_public_auth (ss_context s)")
    case (Inl e)
    then show ?thesis using assms(1) True by (simp add: with_public_auth_def guardedI)
  next
    case (Inr c)
    have "guarded k d (s\<lparr>ss_context := c\<rparr>) (body (s\<lparr>ss_context := c\<rparr>))"
      using assms by (simp add: stays_def)
    then show ?thesis
      using Inr True
      by (auto simp: with_public_auth_def guarded_def same_frame_def stays_def lost_def split: prod.split)
  qed
qed (simp add: with_public_auth_def assms)

lemma sfor_guarded:
  assumes "stays k d s" and "\<And>x t. stays k d t \<Longrightarrow> guarded k d t (f x t)"
  shows "guarded k d s (sfor xs f s)"
  using assms(1)
proof (induction xs arbitrary: s)
  case (Cons x xs)
  then show ?case using guarded_sbind [of k d s "f x" "\<lambda>_. sfor xs f"] assms(2) by simp
qed (simp add: guardedI)

lemma smap_guarded:
  assumes "stays k d s" and "\<And>x t. stays k d t \<Longrightarrow> guarded k d t (f x t)"
  shows "guarded k d s (smap f xs s)"
  using assms(1)
proof (induction xs arbitrary: s)
  case (Cons x xs)
  then show ?case by (auto intro!: guarded_sbind assms(2) sok_guarded)
qed (simp add: sok_guarded)

lemmas guarded_intros =
  guarded_sbind query_guarded slift_guarded sok_guarded batch_guarded sfor_guarded smap_guarded with_internal_guarded

lemma load_rls_catalog_guarded: "stays k d s \<Longrightarrow> guarded k d s (load_rls_catalog env s)"
  unfolding load_rls_catalog_def by (intro guarded_intros) auto

lemma protected_names_guarded: "stays k d s \<Longrightarrow> guarded k d s (protected_names env ts ns s)"
  by (induction env ts ns arbitrary: s rule: protected_names.induct) (auto intro!: guarded_intros)

lemma table_of_guarded: "stays k d s \<Longrightarrow> guarded k d s (table_of env x s)"
  by (cases x) (auto simp: table_of_def intro!: guarded_intros split: prod.split)

lemma schema_snapshot_guarded: "stays k d s \<Longrightarrow> guarded k d s (schema_snapshot env cat s)"
  unfolding schema_snapshot_def by (intro guarded_intros protected_names_guarded table_of_guarded) auto

lemma suspend_guarded: "stays k d s \<Longrightarrow> guarded k d s (suspend_change_capture env s)"
  unfolding suspend_change_capture_def by (intro guarded_intros) auto

lemma refresh_tables_guarded: "stays k d s \<Longrightarrow> guarded k d s (refresh_tables env ts acc s)"
  by (induction env ts acc arbitrary: s rule: refresh_tables.induct) (auto intro!: guarded_intros)

text \<open>Undoing to a savepoint keeps the transaction, or finds it already lost.\<close>

lemma undo_guarded:
  assumes "guarded k d s (Err e, t)" and "n \<noteq> write_probe"
  shows "guarded k d s (Err e', control_ignored env (Release n) (control_ignored env (Rollback_To n) t))"
proof -
  let ?u = "control_ignored env (Release n) (control_ignored env (Rollback_To n) t)"
  have "same_frame s ?u"
    using assms(1) control_ignored_frame by (metis guarded_def same_frame_trans snd_conv)
  moreover have "stays k d ?u \<or> lost d ?u"
    using assms control_ignored_stays [of k d] control_op_lost [of d] by (auto simp: guarded_def)
  ultimately show ?thesis by (simp add: guarded_def)
qed

lemma refresh_change_capture_guarded:
  assumes "stays k d s"
  shows "guarded k d s (refresh_change_capture env cat s)"
proof -
  have tail: "guarded k d t (case refresh_tables env ts [] t of
      (Inl e, s') \<Rightarrow> (Err e, control_ignored env (Release n) (control_ignored env (Rollback_To n) s'))
    | (Inr names, s') \<Rightarrow> sbind (control_op env (Release n)) (\<lambda>_ s''. (Ok (), approve names s'')) s')"
    if "stays k d t" "n \<noteq> write_probe" for t ts n
  proof (cases "refresh_tables env ts [] t")
    case (Pair r t')
    have g: "guarded k d t (r, t')" using refresh_tables_guarded [OF that(1), of env ts "[]"] Pair by simp
    show ?thesis
    proof (cases r)
      case (Inl e)
      then show ?thesis using g undo_guarded [of k d t e t' n e env] that(2) Pair by simp
    next
      case (Inr names)
      then have "stays k d t'" "same_frame t t'" using g by (auto simp: guarded_def)
      have "guarded k d t' (sbind (control_op env (Release n)) (\<lambda>_ s''. (Ok (), approve names s'')) t')"
        using \<open>stays k d t'\<close> that(2)
        by (intro guarded_sbind control_guarded) (auto simp: approve_def stays_def same_frame_def intro!: guardedI)
      then show ?thesis
        using Pair Inr \<open>same_frame t t'\<close> by (auto simp: guarded_def intro: same_frame_trans)
    qed
  qed
  show ?thesis
    unfolding refresh_change_capture_def
    by (intro guarded_sbind schema_snapshot_guarded with_internal_guarded control_guarded tail assms) auto
qed

section \<open>Statements inside a transaction\<close>

lemma check_database_size_guarded: "stays k d s \<Longrightarrow> guarded k d s (check_database_size env s)"
  unfolding check_database_size_def by (intro guarded_intros) (auto intro: guardedI)

lemma prepare_guarded: "stays k d s \<Longrightarrow> guarded k d s (prepare_op env b s)"
  by (simp add: prepare_op_def query_guarded guardedI)

lemma run_guarded:
  assumes "control_is_explicit env" and "statement_kind_option stmt0 \<noteq> Some Kind_TransactionControl"
    and "rewrite_auth_functions_for_execution stmt0 = Ok stmt" and "stays k d s"
  shows "guarded k d s (run_op env stmt ps s)"
proof -
  obtain r c where run: "sq_run env (ss_context s) stmt (map to_sql ps) (ss_connection s) = (r, c)" by force
  have "outermost (ss_connection s) = d" using assms(4) by (auto simp: stays_def outermost_def)
  moreover have "cn_begin c = conn_begin s \<and> cn_saves c = cn_saves (ss_connection s)
      \<or> (\<exists>e. r = Err e) \<and> c = \<lparr>cn_data = outermost (ss_connection s), cn_begin = None, cn_saves = []\<rparr>"
    using assms(1-3) run unfolding control_is_explicit_def by blast
  ultimately show ?thesis
    using run assms(4) by (auto simp: run_op_def guarded_def same_frame_def stays_def lost_def)
qed

lemma execute_inner_guarded:
  assumes "control_is_explicit env" and "statement_kind_option (st_sql rq) \<noteq> Some Kind_TransactionControl"
    and "stays k d s"
  shows "guarded k d s (execute_inner env rq s)"
  unfolding execute_inner_def
proof (intro guarded_sbind slift_guarded with_public_auth_guarded prepare_guarded assms(3))
  fix stmt t p u
  assume "slift (map_err (\<lambda>_. StatementNotAllowed) (rewrite_auth_functions_for_execution (st_sql rq))) s = (Ok stmt, t)"
  then have stmt: "rewrite_auth_functions_for_execution (st_sql rq) = Ok stmt"
    by (simp add: slift_def map_err_eq_Ok)
  assume u: "stays k d u"
  have "guarded k d u (sbind (run_op env stmt (st_parameters rq)) (\<lambda>out s'.
       (query_output env (ss_limits s') (statement_kind_option (st_sql rq)) (pr_columns p) out, s')) u)"
    using assms(1,2) stmt u by (intro guarded_sbind run_guarded) (auto intro: guardedI)
  then show "guarded k d u (if pr_parameter_count p > max_variables (ss_limits u) then (Err TooManyVariables, u)
      else sbind (run_op env stmt (st_parameters rq)) (\<lambda>out s'.
       (query_output env (ss_limits s') (statement_kind_option (st_sql rq)) (pr_columns p) out, s')) u)"
    using u by (simp add: guardedI)
qed

lemma run_captured_guarded:
  assumes "control_is_explicit env" and "statement_kind_option (st_sql rq) \<noteq> Some Kind_TransactionControl"
    and "stays k d s"
  shows "guarded k d s (run_captured env rq s)"
  unfolding run_captured_def
proof (rule guarded_sbind)
  show "guarded k d s (execute_inner env rq s)" using assms by (rule execute_inner_guarded)
qed (auto intro!: guarded_sbind load_rls_catalog_guarded refresh_change_capture_guarded sok_guarded)

lemma finish_write_guarded:
  assumes "guarded k d s out"
  shows "guarded k d s (finish_write env out)"
proof -
  obtain r t where out: "out = (r, t)" by force
  show ?thesis
  proof (cases r)
    case (Inl e)
    then show ?thesis using undo_guarded [of k d s e t statement_limit e env] assms out by (simp add: finish_write_def undo_statement_def)
  next
    case (Inr q)
    then have t: "stays k d t" "same_frame s t" using assms out by (auto simp: guarded_def)
    obtain v u where size: "check_database_size env t = (v, u)" by force
    have g: "guarded k d s (v, u)"
      using check_database_size_guarded [OF t(1), of env] t(2) size by (auto simp: guarded_def intro: same_frame_trans)
    show ?thesis
    proof (cases v)
      case (Inl e)
      then show ?thesis using undo_guarded [of k d s e u statement_limit e env] g out Inr size by (simp add: finish_write_def undo_statement_def)
    next
      case (Inr w)
      then have u: "stays k d u" "same_frame s u" using g by (auto simp: guarded_def)
      have "guarded k d u (sbind (control_op env (Release statement_limit)) (\<lambda>_. sok q) u)"
        using u by (intro guarded_sbind control_guarded sok_guarded) auto
      then show ?thesis
        using u out \<open>r = Inr q\<close> size Inr by (auto simp: finish_write_def guarded_def intro: same_frame_trans)
    qed
  qed
qed

lemma report_guarded: "guarded k d s out \<Longrightarrow> guarded k d s (report env deadline out)"
  by (cases out) (auto simp: report_def read_cancelled_def read_now_def guarded_def same_frame_def stays_def lost_def)

lemma guarded_frame: "guarded k d t out \<Longrightarrow> same_frame s t \<Longrightarrow> guarded k d s out"
  by (auto simp: guarded_def intro: same_frame_trans)

lemma execute_bounded_guarded:
  assumes law: "control_is_explicit env" "statement_kind_option (st_sql rq) \<noteq> Some Kind_TransactionControl"
    and "stays k d s"
  shows "guarded k d s (execute_bounded env rq deadline s)"
proof -
  define t where "t = s\<lparr>ss_reading := Suc (ss_reading s)\<rparr>"
  have t: "stays k d t" "same_frame s t" using assms(3) by (simp_all add: t_def stays_def same_frame_def)
  obtain v u where save: "control_op env (Savepoint statement_limit) t = (v, u)" by force
  then have u: "stays k d u" "same_frame t u"
    using t(1) control_op_stays [OF t(1) _ save] control_op_frame [OF save] by simp_all
  obtain w x where susp: "suspend_change_capture env u = (w, x)" by force
  have g: "guarded k d u (w, x)" using suspend_guarded [OF u(1), of env] susp by simp
  have captured: "guarded k d t' (report env deadline (finish_write env (run_captured env rq t')))" if "stays k d t'" for t'
    using that law by (intro report_guarded finish_write_guarded run_captured_guarded)
  have ddl: "guarded k d u (case suspend_change_capture env u of
      (Inl e, s2) \<Rightarrow> (Err e, undo_statement env s2)
    | (Inr _, s2) \<Rightarrow> report env deadline (finish_write env (run_captured env rq s2)))"
  proof (cases w)
    case (Inl e)
    then show ?thesis using undo_guarded [of k d u e x statement_limit e env] g susp by (simp add: undo_statement_def)
  next
    case (Inr y)
    then have "stays k d x" "same_frame u x" using g by (auto simp: guarded_def)
    then show ?thesis using captured [of x] susp Inr by (auto intro: guarded_frame)
  qed
  have "guarded k d t (execute_bounded env rq deadline s)"
  proof (cases "is_write (st_sql rq) \<and> \<not> sq_cancelled env (ss_reading s)")
    case True
    show ?thesis
    proof (cases v)
      case (Inl e)
      then show ?thesis
        using True save u by (simp add: execute_bounded_def read_cancelled_def guardedI flip: t_def)
    next
      case (Inr y)
      then have "execute_bounded env rq deadline s =
          (if statement_kind_option (st_sql rq) = Some Kind_Ddl then
             (case suspend_change_capture env u of
                (Inl e, s2) \<Rightarrow> (Err e, undo_statement env s2)
              | (Inr _, s2) \<Rightarrow> report env deadline (finish_write env (run_captured env rq s2)))
           else report env deadline (finish_write env (run_captured env rq u)))"
        using True save by (simp add: execute_bounded_def read_cancelled_def flip: t_def)
      then show ?thesis using ddl captured [OF u(1)] u(2) by (auto intro: guarded_frame)
    qed
  next
    case False
    then show ?thesis
      using t law
      by (auto simp: execute_bounded_def read_cancelled_def intro!: guardedI report_guarded run_captured_guarded simp flip: t_def)
  qed
  then show ?thesis using t(2) by (rule guarded_frame)
qed

text \<open>A statement the session accepts is transaction control only in developer mode.\<close>

lemma session_validate_kind:
  assumes "session_validate rq s = Ok u" and "\<not> developer_only (ss_mode s)"
  shows "statement_kind_option (st_sql rq) \<noteq> Some Kind_TransactionControl"
  using assms
  by (auto simp: session_validate_def developer_only_def ffdb_result statement_kind_option_def allowed_for_end_user_def
      split: if_split_asm execution_mode.split_asm)

definition no_control :: "execution_mode \<Rightarrow> statement_request \<Rightarrow> bool" where
  "no_control mode rq \<longleftrightarrow>
     developer_only mode \<longrightarrow> statement_kind_option (st_sql rq) \<noteq> Some Kind_TransactionControl"

lemma execute_guarded:
  assumes "control_is_explicit env" and "no_control (ss_mode s) rq" and "stays k d s"
  shows "guarded k d s (execute env rq s)"
proof (cases "session_validate rq s")
  case (Inl e)
  then show ?thesis using assms(3) by (simp add: execute_def sbind_def guardedI)
next
  case (Inr u)
  have law: "statement_kind_option (st_sql rq) \<noteq> Some Kind_TransactionControl"
    using assms(2) session_validate_kind [OF Inr] by (auto simp: no_control_def)
  have "guarded k d s (deadline_after env n s)" for n
    using assms(3) by (auto simp: deadline_after_def read_now_def stays_def same_frame_def intro!: guardedI)
  then have "guarded k d s (sbind (deadline_after env (statement_timeout (ss_limits s))) (\<lambda>d s'.
       execute_bounded env rq
         (min (case ss_transaction_deadline s' of None \<Rightarrow> d | Some t \<Rightarrow> min t d) (ss_request_deadline s')) s') s)"
    by (intro guarded_sbind execute_bounded_guarded assms(1) law) auto
  then show ?thesis using Inr by (simp add: execute_def sbind_def)
qed

lemma run_requests_guarded:
  assumes "control_is_explicit env" and "list_all (no_control (ss_mode s)) rqs" and "stays k d s"
  shows "guarded k d s (run_requests env n rqs s)"
  using assms(2,3)
proof (induction rqs arbitrary: n s)
  case (Cons rq rqs)
  show ?case
    unfolding run_requests.simps
  proof (rule guarded_sbind)
    show "guarded k d s (execute env rq s)" using Cons assms(1) by (auto intro!: execute_guarded)
  next
    fix q t
    assume t: "stays k d t" "same_frame s t"
    then show "guarded k d t (let bytes' = saturating_add_u64 n (result_encoded_size q)
        in if bytes' > max_response_bytes (ss_limits t) then (Err ResponseTooLarge, t)
           else sbind (run_requests env bytes' rqs) (\<lambda>qs. sok (q # qs)) t)"
      using Cons by (auto simp: Let_def same_frame_def intro!: guardedI guarded_sbind sok_guarded)
  qed
qed (simp add: sok_guarded)

lemma run_requests_Ok:
  assumes "control_is_explicit env" and "list_all (no_control (ss_mode s)) rqs" and "stays k d s"
    and "run_requests env n rqs s = (Ok qs, t)" and "n \<le> max_response_bytes (ss_limits s)"
  shows "length qs = length rqs
    \<and> min (n + sum_list (map result_encoded_size qs)) u64_max \<le> max_response_bytes (ss_limits s)"
  using assms(2-5)
proof (induction rqs arbitrary: n s qs)
  case Nil
  then show ?case by (auto simp: sok_def)
next
  case (Cons rq rqs)
  obtain q u where q: "execute env rq s = (Ok q, u)"
    using Cons.prems(3) by (auto simp: ffdb_result)
  define m where "m = saturating_add_u64 n (result_encoded_size q)"
  have "guarded k d s (execute env rq s)"
    using Cons.prems assms(1) by (intro execute_guarded) auto
  then have u: "stays k d u" "same_frame s u" using q by (auto simp: guarded_def)
  obtain qs' where qs': "run_requests env m rqs u = (Ok qs', t)" "qs = q # qs'" "m \<le> max_response_bytes (ss_limits u)"
    using Cons.prems(3) q by (auto simp: ffdb_result m_def Let_def split: if_split_asm)
  show ?case
    using Cons.IH [of u m qs'] Cons.prems u qs'
    by (auto simp: same_frame_def m_def saturating_add_u64_def min_def split: if_split_asm)
qed

section \<open>Transactions are all or nothing\<close>

lemma check_database_size_Ok:
  assumes "check_database_size env s = (Ok u, t)"
  shows "ss_connection t = ss_connection s \<and> same_frame s t
    \<and> (\<exists>pc ps. sq_pages env (cn_data (ss_connection s)) = Ok (pc, ps)
        \<and> min (pc * ps) u64_max \<le> max_database_bytes (ss_limits s))"
  using assms
  by (auto simp: check_database_size_def with_internal_def sbind_def query_op_def same_frame_def map_err_def
      split: sum.split_asm prod.split_asm if_split_asm)

lemma abort_atomic_restores:
  assumes "conn_begin t = Some d \<or> lost d t" and "\<And>c. sq_control_fails env Rollback c = None"
  shows "ss_connection (abort_atomic env a t) = \<lparr>cn_data = d, cn_begin = None, cn_saves = []\<rparr>
    \<and> approved_sources (ss_context (abort_atomic env a t)) = a"
  using assms
  by (auto simp: abort_atomic_def Let_def control_ignored_def control_op_def stays_def lost_def in_transaction_def outermost_def)

lemma check_database_size_connection:
  "check_database_size env s = (r, t) \<Longrightarrow> ss_connection t = ss_connection s"
  by (auto simp: check_database_size_def with_internal_def sbind_def query_op_def
      split: sum.split_asm prod.split_asm if_split_asm)

text \<open>The end of a transaction begun on content \<open>d\<close>: rolled back, or committed with what the callback
  left and within the size limit.\<close>

lemma finish_atomic_cases:
  assumes "finish_atomic env a (v, w) = (r, t)"
    and "conn_begin w = Some d \<or> (\<exists>e. v = Err e) \<and> lost d w"
    and rollback: "\<And>c. sq_control_fails env Rollback c = None"
  obtains (Failed) e where "r = Err e" "ss_connection t = \<lparr>cn_data = d, cn_begin = None, cn_saves = []\<rparr>"
      "approved_sources (ss_context t) = a"
    | (Committed) x where "v = Ok x" "r = Ok x" "cn_data (ss_connection t) = cn_data (ss_connection w)"
      "\<not> in_transaction (ss_connection t)"
      "\<exists>pc ps. sq_pages env (cn_data (ss_connection w)) = Ok (pc, ps)
        \<and> min (pc * ps) u64_max \<le> max_database_bytes (ss_limits w)"
proof -
  have fail: thesis if "r = Err e" "t = abort_atomic env a x" "ss_connection x = ss_connection w" for e x
    using Failed [OF that(1)] abort_atomic_restores [of x d env a] rollback assms(2) that(2,3)
    by (auto simp: stays_def lost_def)
  show thesis
  proof (cases v)
    case (Inl e)
    then show thesis using assms(1) fail [of e w] by (simp add: finish_atomic_def)
  next
    case v: (Inr x)
    then have w: "conn_begin w = Some d" using assms(2) by auto
    obtain q s1 where size: "check_database_size env w = (q, s1)" by force
    have s1: "ss_connection s1 = ss_connection w" using size by (rule check_database_size_connection)
    obtain c s2 where commit: "control_op env Commit s1 = (c, s2)" by force
    show thesis
    proof (cases q)
      case (Inl e)
      then show thesis using assms(1) v size s1 fail [of e s1] by (simp add: finish_atomic_def)
    next
      case q: (Inr y)
      show thesis
      proof (cases c)
        case (Inl e)
        then have "ss_connection s2 = ss_connection w"
          using commit s1 w by (auto simp: control_op_def in_transaction_def split: option.split_asm)
        then show thesis using assms(1) v size q commit Inl fail [of e s2] by (simp add: finish_atomic_def)
      next
        case (Inr z)
        then have "ss_connection s2 = (ss_connection w)\<lparr>cn_begin := None, cn_saves := []\<rparr>"
          using commit s1 w by (auto simp: control_op_def in_transaction_def split: option.split_asm)
        moreover have "r = Ok x" "t = s2\<lparr>ss_transaction_deadline := None\<rparr>"
          using assms(1) v size q commit Inr by (simp_all add: finish_atomic_def)
        ultimately show thesis
          using Committed [OF v] check_database_size_Ok [OF size [unfolded q]] by (simp add: in_transaction_def)
      qed
    qed
  qed
qed

text \<open>The beginning: refused with nothing changed, or the callback runs in a transaction.\<close>

lemma atomic_cases:
  assumes "atomic env callback s = (r, t)" and "\<not> in_transaction (ss_connection s)"
  obtains (Refused) e where "r = Err e" "ss_connection t = ss_connection s" "ss_context t = ss_context s"
    | (Begun) u where "ss_connection u = (ss_connection s)\<lparr>cn_begin := Some (cn_data (ss_connection s))\<rparr>"
        "ss_context u = ss_context s" "ss_mode u = ss_mode s" "ss_limits u = ss_limits s"
        "ss_transaction_deadline u \<noteq> None"
        "finish_atomic env (approved_sources (ss_context s)) (callback u) = (r, t)"
proof -
  obtain q s1 where dl: "deadline_after env (transaction_timeout (ss_limits s)) s = (q, s1)" by force
  then have s1: "ss_connection s1 = ss_connection s" "ss_context s1 = ss_context s" "same_frame s s1"
    by (auto simp: deadline_after_def read_now_def same_frame_def split: if_split_asm)
  obtain v s2 where bg: "control_op env Begin_Immediate s1 = (v, s2)" by force
  then have s2: "v = Ok () \<and> ss_connection s2 = (ss_connection s)\<lparr>cn_begin := Some (cn_data (ss_connection s))\<rparr>
      \<or> (\<exists>e. v = Err e) \<and> s2 = s1" "ss_context s2 = ss_context s1" "same_frame s1 s2"
    using assms(2) s1 control_op_frame [OF bg] by (auto simp: control_op_def split: option.split_asm)
  show thesis
  proof (cases "ss_transaction_deadline s \<noteq> None \<or> (\<exists>e. q = Err e) \<or> (\<exists>e. v = Err e)")
    case True
    then show thesis using assms(1) dl bg s1 s2 Refused
      by (cases q; cases v) (auto simp: atomic_def split: if_split_asm)
  next
    case False
    then obtain d where q: "q = Ok d" by (cases q) auto
    show thesis
      using Begun [of "s2\<lparr>ss_transaction_deadline := Some (min d (ss_request_deadline s2))\<rparr>"]
        assms(1) dl bg s1 s2 False q by (auto simp: atomic_def same_frame_def)
  qed
qed

text \<open>
  C27. A transaction is all or nothing. Whatever statements a client sends in a transaction (a
  developer: other than transaction control), and whatever fails, on an error the data and the
  approved sources are as before and no transaction is left open. On success every statement has its
  result, the results together fit the response limit and the database its size limit.
\<close>

theorem transaction_all_or_nothing:
  assumes "control_is_explicit env" and "\<And>c. sq_control_fails env Rollback c = None"
    and "\<not> in_transaction (ss_connection s)" and "list_all (no_control (ss_mode s)) rqs"
    and "transaction env rqs s = (r, t)"
  shows "\<not> in_transaction (ss_connection t)
    \<and> (\<forall>e. r = Err e \<longrightarrow> cn_data (ss_connection t) = cn_data (ss_connection s)
         \<and> approved_sources (ss_context t) = approved_sources (ss_context s))
    \<and> (\<forall>qs. r = Ok qs \<longrightarrow> length qs = length rqs \<and> length rqs \<le> 100
         \<and> min (sum_list (map result_encoded_size qs)) u64_max \<le> max_response_bytes (ss_limits s)
         \<and> (\<exists>pc ps. sq_pages env (cn_data (ss_connection t)) = Ok (pc, ps)
              \<and> min (pc * ps) u64_max \<le> max_database_bytes (ss_limits s)))"
  using assms(5) [unfolded transaction_def] assms(3)
proof (cases rule: atomic_cases)
  case (Refused e)
  then show ?thesis using assms(3) by simp
next
  case (Begun u)
  define d where "d = cn_data (ss_connection s)"
  have u: "stays True d u" "list_all (no_control (ss_mode u)) rqs"
    using Begun assms(4) by (simp_all add: stays_def d_def)
  obtain v w where cb: "transaction_in_current_atomic env rqs u = (v, w)" by force
  have g: "guarded True d u (v, w)"
    using run_requests_guarded [OF assms(1) u(2,1), of 0] u(1) cb
    by (auto simp: transaction_in_current_atomic_def intro: guardedI split: if_split_asm)
  then have w: "conn_begin w = Some d \<or> (\<exists>e. v = Err e) \<and> lost d w" "ss_limits w = ss_limits s"
    using Begun(4) by (auto simp: guarded_def stays_def same_frame_def)
  from Begun(6) [unfolded cb] w(1) assms(2) show ?thesis
  proof (cases rule: finish_atomic_cases)
    case (Failed e)
    then show ?thesis by (simp add: d_def in_transaction_def)
  next
    case (Committed qs)
    then have rr: "run_requests env 0 rqs u = (Ok qs, w)" "length rqs \<le> 100"
      using cb by (auto simp: transaction_in_current_atomic_def split: if_split_asm)
    then show ?thesis
      using run_requests_Ok [OF assms(1) u(2,1) rr(1)] Committed w(2) Begun(4) by simp
  qed
qed

section \<open>A probed write\<close>

text \<open>
  A probed write leaves no trace. The statement with which a trusted service asks whether a
  user may make a change, run outside a transaction, leaves the data unchanged and no transaction
  open, whether it was allowed, refused or failed in any way.
\<close>

theorem probe_leaves_no_trace:
  assumes "control_is_explicit env"
    and "\<And>c. sq_control_fails env (Rollback_To write_probe) c = None"
    and "\<And>c. sq_control_fails env (Release write_probe) c = None"
    and "\<not> in_transaction (ss_connection s)" and "probe_write env rq s = (r, t)"
  shows "cn_data (ss_connection t) = cn_data (ss_connection s) \<and> \<not> in_transaction (ss_connection t)"
proof -
  define d where "d = cn_data (ss_connection s)"
  obtain v u where save: "control_op env (Savepoint write_probe) s = (v, u)" by force
  obtain c where kind: "classify_statement (st_sql rq) = Ok c \<and> kind c \<in> {Kind_Insert, Kind_Update, Kind_Delete}
      \<or> t = s"
    using assms(5) by (auto simp: probe_write_def split: sum.split_asm if_split_asm)
  show ?thesis
  proof (cases "t = s \<or> (\<exists>e. v = Err e)")
    case True
    then have "ss_connection t = ss_connection s"
      using save assms(5)
      by (auto simp: probe_write_def control_op_def split: sum.split_asm if_split_asm option.split_asm)
    then show ?thesis using assms(4) by simp
  next
    case False
    then obtain y where v: "v = Ok y" by (cases v) auto
    have u: "stays False d u"
      using save v assms(4)
      by (auto simp: control_op_def stays_def d_def in_transaction_def split: option.split_asm)
    have "no_control (ss_mode u) rq"
      using kind False by (auto simp: no_control_def statement_kind_option_def)
    then have "guarded False d u (execute env rq u)" using assms(1) u by (intro execute_guarded)
    then obtain q w where ex: "execute env rq u = (q, w)" and w: "stays False d w \<or> lost d w"
      by (cases "execute env rq u") (auto simp: guarded_def)
    have t: "t = snd (sbind (control_op env (Rollback_To write_probe)) (\<lambda>_. control_op env (Release write_probe)) w)"
      using assms(5) kind False save v ex
      by (auto simp: probe_write_def split: sum.split_asm prod.split_asm)
    from w show ?thesis
    proof
      assume "lost d w"
      then show ?thesis
        using t assms(2) by (simp add: lost_def sbind_def control_op_def in_transaction_def d_def)
    next
      assume "stays False d w"
      then obtain ys where ys: "cn_saves (ss_connection w) = ys @ [(write_probe, d)]" "write_probe \<notin> fst ` set ys"
          "conn_begin w = None"
        by (auto simp: stays_def)
      have "dropWhile (\<lambda>p. fst p \<noteq> write_probe) (ys @ [(write_probe, d)]) = [(write_probe, d)]"
        using ys(2) by (subst dropWhile_append2) (auto simp: image_iff)
      then show ?thesis
        using t assms(2,3) ys by (simp add: sbind_def control_op_def in_transaction_def d_def)
    qed
  qed
qed

section \<open>The statement that runs\<close>

lemma end_user_actions:
  assumes "authorize ctx a" and "internal_depth ctx = 0" and "active ctx = Some mode" and "\<not> developer_only mode"
  shows "(\<forall>t. data_table (aq_action a) = Some t \<longrightarrow>
        \<not> sqlite_schema_name t \<and> (internal_object t \<longrightarrow> from_approved ctx (aq_accessor a)))
    \<and> (\<forall>f. aq_action a = Act_Function f \<longrightarrow> \<not> dangerous_function f
        \<and> (internal_object f \<longrightarrow> from_approved ctx (aq_accessor a)
             \<or> aq_accessor a = None \<and> is_public_auth_implementation f \<and> public_auth_depth ctx > 0))
    \<and> \<not> is_schema_action (aq_action a)
    \<and> (\<forall>n v. aq_action a \<noteq> Act_Pragma n v) \<and> (\<forall>n. aq_action a \<noteq> Act_Attach n) \<and> (\<forall>n. aq_action a \<noteq> Act_Detach n)"
proof -
  have act: "authorize_action ctx mode (aq_accessor a) (aq_action a)"
    using assms by (simp add: authorize_def)
  have internal: "\<not> sqlite_schema_name t" if "internal_object t" for t
    using that by (auto simp: internal_object_def sqlite_schema_name_def eq_ignore_ascii_case_def
        to_ascii_lowercase_def to_ascii_lower_def is_ascii_uppercase_def code_def)
  show ?thesis
    using act assms(4) internal
    by (cases "aq_action a")
       (auto simp: authorize_action_def authorize_pragma_def developer_only_def
         split: if_split_asm execution_mode.split_asm)
qed

definition values_size :: "result_value list \<Rightarrow> nat" where
  "values_size vs = sum_list (map (\<lambda>v. value_encoded_size v + 1) vs)"

lemma values_size_simps [simp]:
  "values_size [] = 0" "values_size (v # vs) = value_encoded_size v + 1 + values_size vs"
  "values_size (vs @ ws) = values_size vs + values_size ws"
  by (simp_all add: values_size_def)

lemma encode_row_bounded:
  assumes "encode_row l conv n vs = Ok (row, m)"
  shows "min (n + values_size row) u64_max = min m u64_max \<and> (row = [] \<longrightarrow> m = n)
    \<and> (row \<noteq> [] \<longrightarrow> m \<le> max_response_bytes l)"
  using assms
proof (induction l conv n vs arbitrary: row m rule: encode_row.induct)
  case (2 l conv n v vs)
  then show ?case
    by (fastforce simp: ffdb_result Let_def saturating_add_u64_def min_def split: if_split_asm)
qed simp

lemma collect_rows_bounded:
  assumes "collect_rows l conv failure taken n rows = Ok (out, truncated)" and "taken \<le> max_rows l"
  shows "taken + length out \<le> max_rows l
    \<and> (concat out \<noteq> [] \<longrightarrow> min (n + values_size (concat out)) u64_max \<le> max_response_bytes l)"
  using assms
proof (induction l conv failure taken n rows arbitrary: out truncated rule: collect_rows.induct)
  case (2 l conv failure taken n row rows)
  show ?case
  proof (cases "taken = max_rows l")
    case False
    then obtain o1 n' os where o: "encode_row l conv n row = Ok (o1, n')" "out = o1 # os"
        "collect_rows l conv failure (Suc taken) n' rows = Ok (os, truncated)"
      using "2.prems"(1) by (auto simp: ffdb_result)
    have IH: "Suc taken + length os \<le> max_rows l
        \<and> (concat os \<noteq> [] \<longrightarrow> min (n' + values_size (concat os)) u64_max \<le> max_response_bytes l)"
      using "2.IH" [OF False o(1) refl] o(3) "2.prems"(2) False by simp
    have enc: "min (n + values_size o1) u64_max = min n' u64_max" "o1 = [] \<longrightarrow> n' = n"
        "o1 \<noteq> [] \<longrightarrow> n' \<le> max_response_bytes l"
      using encode_row_bounded [OF o(1)] by auto
    have "min (n + values_size (concat out)) u64_max = min (n' + values_size (concat os)) u64_max"
      using enc(1) unfolding o(2) by (auto simp: min_def split: if_split_asm)
    moreover have "concat out \<noteq> [] \<longrightarrow> concat os \<noteq> [] \<or> o1 \<noteq> []" unfolding o(2) by auto
    ultimately show ?thesis using IH enc(3) o(2)
      by (cases "concat os = []") (auto simp del: concat_eq_Nil_conv simp: min.coboundedI1)
  qed (use 2 in auto)
qed (auto split: option.split_asm)

lemma query_output_bounded:
  assumes "query_output env l k cols out = Ok q"
  shows "length (qr_rows q) \<le> max_rows l
    \<and> min (values_size (concat (qr_rows q))) u64_max \<le> max_response_bytes l"
proof (cases "cols = []")
  case True
  then show ?thesis using assms by (auto simp: query_output_def)
next
  case False
  then obtain rows truncated where c: "collect_rows l (from_value_ref (sq_utf8_lossy env) (sq_base64 env)) (ro_error out) 0
      (sum_list (map (\<lambda>c. length (rc_name c) + 24) cols)) (ro_rows out) = Ok (rows, truncated)" "qr_rows q = rows"
    using assms by (auto simp: query_output_def ffdb_result)
  show ?thesis
  proof (cases "concat rows = []")
    case True
    then show ?thesis
      using collect_rows_bounded [OF c(1)] c(2) by (simp del: concat_eq_Nil_conv)
  next
    case False
    then have "min (sum_list (map (\<lambda>c. length (rc_name c) + 24) cols) + values_size (concat rows)) u64_max \<le> max_response_bytes l"
      using collect_rows_bounded [OF c(1)] by blast
    then show ?thesis using collect_rows_bounded [OF c(1)] c(2) by (auto simp: min_def split: if_split_asm)
  qed
qed

text \<open>What the execution of one statement read and returned.\<close>

lemma execute_inner_Ok:
  assumes "execute_inner env rq s = (Ok q, t)"
  obtains stmt ctx where "rewrite_auth_functions_for_execution (st_sql rq) = Ok stmt"
    "ctx = (if stmt = st_sql rq then ss_context s
       else (ss_context s)\<lparr>public_auth_depth := public_auth_depth (ss_context s) + 1\<rparr>)"
    "list_all (authorize ctx) (sq_actions env stmt (cn_data (ss_connection s)))"
    "length (qr_rows q) \<le> max_rows (ss_limits s)"
    "min (values_size (concat (qr_rows q))) u64_max \<le> max_response_bytes (ss_limits s)"
    "same_frame s t"
proof -
  obtain stmt where stmt: "rewrite_auth_functions_for_execution (st_sql rq) = Ok stmt"
    using assms by (auto simp: execute_inner_def ffdb_result)
  define body where "body = sbind (prepare_op env stmt) (\<lambda>p s.
         if pr_parameter_count p > max_variables (ss_limits s) then (Err TooManyVariables, s)
         else sbind (run_op env stmt (st_parameters rq)) (\<lambda>out s'.
           (query_output env (ss_limits s') (statement_kind_option (st_sql rq)) (pr_columns p) out, s')) s)"
  have run: "with_public_auth (stmt \<noteq> st_sql rq) body s = (Ok q, t)"
    using assms stmt by (simp add: execute_inner_def sbind_def slift_def body_def)
  have body: "list_all (authorize (ss_context u)) (sq_actions env stmt (cn_data (ss_connection u)))
      \<and> length (qr_rows q) \<le> max_rows (ss_limits u)
      \<and> min (values_size (concat (qr_rows q))) u64_max \<le> max_response_bytes (ss_limits u) \<and> same_frame u w"
    if inner: "body u = (Ok q, w)" for u w
  proof -
    obtain p x where p: "prepare_op env stmt u = (Ok p, x)" and rest: "(if pr_parameter_count p > max_variables (ss_limits x)
         then (Err TooManyVariables, x)
         else sbind (run_op env stmt (st_parameters rq)) (\<lambda>out s'.
           (query_output env (ss_limits s') (statement_kind_option (st_sql rq)) (pr_columns p) out, s')) x) = (Ok q, w)"
      using inner unfolding body_def sbind_eq_Ok by blast
    then obtain out where out: "run_op env stmt (st_parameters rq) x = (Ok out, w)"
        "query_output env (ss_limits w) (statement_kind_option (st_sql rq)) (pr_columns p) out = Ok q"
      by (auto simp: sbind_eq_Ok split: if_split_asm)
    have "x = u" "list_all (authorize (ss_context u)) (sq_actions env stmt (cn_data (ss_connection u)))"
      using p by (auto simp: prepare_op_def query_op_def split: if_split_asm)
    moreover have "same_frame x w" using out(1) by (auto simp: run_op_def same_frame_def split: prod.split_asm)
    ultimately show ?thesis using query_output_bounded [OF out(2)] by (simp add: same_frame_def)
  qed
  show thesis
  proof (cases "stmt = st_sql rq")
    case True
    then show thesis using that [OF stmt refl] body run by (simp add: with_public_auth_def)
  next
    case False
    define u where "u = s\<lparr>ss_context := (ss_context s)\<lparr>public_auth_depth := public_auth_depth (ss_context s) + 1\<rparr>\<rparr>"
    obtain w where w: "body u = (Ok q, w)" "t = w\<lparr>ss_context := leave_public_auth (ss_context w)\<rparr>"
      using run False
      by (auto simp: with_public_auth_def enter_public_auth_def u_def split: if_split_asm prod.split_asm)
    show thesis
      using that [OF stmt refl] body [OF w(1)] False w(2) by (simp add: u_def same_frame_def)
  qed
qed

lemma report_Ok: "report env deadline out = (Ok q, t) \<Longrightarrow> out = (Ok q, t)"
  by (cases out) (auto simp: report_def read_cancelled_def read_now_def split: if_split_asm)

lemma finish_write_Ok:
  assumes "finish_write env out = (Ok q, t)"
  obtains s where "out = (Ok q, s)" "\<exists>pc ps. sq_pages env (cn_data (ss_connection t)) = Ok (pc, ps)
      \<and> min (pc * ps) u64_max \<le> max_database_bytes (ss_limits s)"
proof -
  obtain s where out: "out = (Ok q, s)"
    using assms by (cases out) (auto simp: finish_write_def sbind_def sok_def split: sum.split_asm prod.split_asm)
  obtain v u where size: "check_database_size env s = (v, u)" by force
  then obtain y where v: "v = Ok y" and rel: "sbind (control_op env (Release statement_limit)) (\<lambda>_. sok q) u = (Ok q, t)"
    using assms out by (cases v) (auto simp: finish_write_def)
  have "cn_data (ss_connection t) = cn_data (ss_connection u)"
    using rel by (auto simp: ffdb_result control_op_def split: option.split_asm list.split_asm)
  then show thesis using that [OF out] check_database_size_Ok [OF size [unfolded v]] by simp
qed

text \<open>A data statement that succeeded ran once, on the data and in the context the session had.\<close>

lemma execute_runs_once:
  assumes "execute env rq s = (Ok q, t)" and "is_write (st_sql rq) = (k \<noteq> Kind_Select)"
    and "statement_kind_option (st_sql rq) = Some k" and "\<And>u. run_captured env rq u = execute_inner env rq u"
    and "k \<in> {Kind_Select, Kind_Insert, Kind_Update, Kind_Delete}"
  shows "\<exists>u w. execute_inner env rq u = (Ok q, w) \<and> cn_data (ss_connection u) = cn_data (ss_connection s)
    \<and> ss_context u = ss_context s \<and> same_frame s u
    \<and> (k \<noteq> Kind_Select \<longrightarrow> (\<exists>pc ps. sq_pages env (cn_data (ss_connection t)) = Ok (pc, ps)
         \<and> min (pc * ps) u64_max \<le> max_database_bytes (ss_limits w)))"
proof -
  obtain d x where x: "execute_bounded env rq d x = (Ok q, t)" "ss_connection x = ss_connection s"
      "ss_context x = ss_context s" "same_frame s x"
    using assms(1) by (auto simp: execute_def ffdb_result deadline_after_def read_now_def same_frame_def split: if_split_asm)
  define y where "y = x\<lparr>ss_reading := Suc (ss_reading x)\<rparr>"
  have y: "ss_connection y = ss_connection s" "ss_context y = ss_context s" "same_frame s y"
    using x by (simp_all add: y_def same_frame_def)
  show ?thesis
  proof (cases "k = Kind_Select")
    case True
    then have "execute_inner env rq y = (Ok q, t)"
      using x(1) assms(2,4)
      by (auto simp: execute_bounded_def read_cancelled_def dest!: report_Ok split: if_split_asm simp flip: y_def)
    then show ?thesis using True y by auto
  next
    case False
    obtain v u where save: "control_op env (Savepoint statement_limit) y = (v, u)" by force
    have u: "cn_data (ss_connection u) = cn_data (ss_connection s)" "ss_context u = ss_context s" "same_frame s u"
      using save control_op_frame [OF save] y
      by (auto simp: control_op_def intro: same_frame_trans split: option.split_asm)
    have "report env d (finish_write env (execute_inner env rq u)) = (Ok q, t)"
      using x(1) assms(2-5) False save
      by (cases v) (auto simp: execute_bounded_def read_cancelled_def split: if_split_asm simp flip: y_def)
    then show ?thesis using u by (auto dest!: report_Ok elim!: finish_write_Ok)
  qed
qed

text \<open>
  C28. What a user's statement can touch. A statement executed in end-user mode is a single select,
  insert, update or delete; every action SQLite asked about was allowed, so internal tables were
  reached only from generated views and triggers, internal functions only from there or as one of the
  four public auth functions the rewriter inserted, and no schema, pragma, attach or dangerous function
  was involved; the result stays within the row and response limits. The size of the database is checked
  only after a statement the classifier takes for a write: after those it is within its limit. A
  \<open>WITH ... INSERT ... SELECT\<close> is taken for a read and skips the check
  (\<open>with_insert_skips_size_limit\<close>).
\<close>

theorem user_statement_is_contained:
  assumes "execute env rq s = (Ok q, t)" and "active (ss_context s) = Some (ss_mode s)"
    and "internal_depth (ss_context s) = 0" and "public_auth_depth (ss_context s) = 0"
    and "\<not> developer_only (ss_mode s)"
  shows "\<exists>c stmt. classify_statement (st_sql rq) = Ok c \<and> kind c \<in> {Kind_Select, Kind_Insert, Kind_Update, Kind_Delete}
    \<and> rewrite_auth_functions_for_execution (st_sql rq) = Ok stmt
    \<and> (\<forall>a\<in>set (sq_actions env stmt (cn_data (ss_connection s))).
         (\<forall>x. data_table (aq_action a) = Some x \<longrightarrow>
            \<not> sqlite_schema_name x \<and> (internal_object x \<longrightarrow> from_approved (ss_context s) (aq_accessor a)))
         \<and> (\<forall>f. aq_action a = Act_Function f \<longrightarrow> \<not> dangerous_function f
            \<and> (internal_object f \<longrightarrow> from_approved (ss_context s) (aq_accessor a)
                 \<or> aq_accessor a = None \<and> is_public_auth_implementation f \<and> stmt \<noteq> st_sql rq))
         \<and> \<not> is_schema_action (aq_action a)
         \<and> (\<forall>n v. aq_action a \<noteq> Act_Pragma n v) \<and> (\<forall>n. aq_action a \<noteq> Act_Attach n) \<and> (\<forall>n. aq_action a \<noteq> Act_Detach n))
    \<and> length (qr_rows q) \<le> max_rows (ss_limits s)
    \<and> min (values_size (concat (qr_rows q))) u64_max \<le> max_response_bytes (ss_limits s)
    \<and> (kind c \<noteq> Kind_Select \<longrightarrow> (\<exists>pc ps. sq_pages env (cn_data (ss_connection t)) = Ok (pc, ps)
         \<and> min (pc * ps) u64_max \<le> max_database_bytes (ss_limits s)))"
proof -
  obtain c where c: "classify_statement (st_sql rq) = Ok c" "kind c \<in> {Kind_Select, Kind_Insert, Kind_Update, Kind_Delete}"
    using assms(1,5)
    by (auto simp: execute_def session_validate_def ffdb_result developer_only_def allowed_for_end_user_def
        split: if_split_asm execution_mode.split_asm)
  obtain c' where c': "read_only c = (kind c = Kind_Select)" using classify_statement_Ok [OF c(1)] by metis
  have is_w: "is_write (st_sql rq) = (kind c \<noteq> Kind_Select)" "statement_kind_option (st_sql rq) = Some (kind c)"
    using c(1) c' by (simp_all add: is_write_def statement_kind_option_def)
  have captured: "run_captured env rq u = execute_inner env rq u" for u
    using c(2) is_w(2) by (auto simp: run_captured_def sbind_def sok_def split: prod.split sum.split)
  obtain u w where u: "execute_inner env rq u = (Ok q, w)" "cn_data (ss_connection u) = cn_data (ss_connection s)"
      "ss_context u = ss_context s" "same_frame s u"
      "kind c \<noteq> Kind_Select \<longrightarrow> (\<exists>pc ps. sq_pages env (cn_data (ss_connection t)) = Ok (pc, ps)
         \<and> min (pc * ps) u64_max \<le> max_database_bytes (ss_limits w))"
    using execute_runs_once [OF assms(1) is_w captured c(2)] by blast
  from u(1) obtain stmt ctx where e: "rewrite_auth_functions_for_execution (st_sql rq) = Ok stmt"
      "ctx = (if stmt = st_sql rq then ss_context u
         else (ss_context u)\<lparr>public_auth_depth := public_auth_depth (ss_context u) + 1\<rparr>)"
      "list_all (authorize ctx) (sq_actions env stmt (cn_data (ss_connection u)))"
      "length (qr_rows q) \<le> max_rows (ss_limits u)"
      "min (values_size (concat (qr_rows q))) u64_max \<le> max_response_bytes (ss_limits u)" "same_frame u w"
    by (rule execute_inner_Ok)
  have ctx: "internal_depth ctx = 0" "active ctx = Some (ss_mode s)" "approved_sources ctx = approved_sources (ss_context s)"
      "public_auth_depth ctx > 0 \<longleftrightarrow> stmt \<noteq> st_sql rq"
    using e(2) u(3) assms(2-4) by auto
  have approved: "from_approved ctx = from_approved (ss_context s)"
    by (simp add: fun_eq_iff from_approved_def ctx(3) split: option.split)
  have "authorize ctx a" if "a \<in> set (sq_actions env stmt (cn_data (ss_connection s)))" for a
    using that e(3) u(2) by (simp add: list_all_iff)
  note actions = end_user_actions [OF this ctx(1,2) assms(5), unfolded approved ctx(4)]
  have "ss_limits u = ss_limits s" "ss_limits w = ss_limits s" using u(4) e(6) by (simp_all add: same_frame_def)
  then show ?thesis
    using c e(1,4,5) u(5) by (intro exI [of _ c] exI [of _ stmt] conjI ballI actions) simp_all
qed

section \<open>Witnesses, and transaction control in a developer's transaction\<close>

text \<open>A database that counts the rows inserted into it and refuses deletions by a constraint.\<close>

definition demo_outcome :: run_outcome where
  "demo_outcome = \<lparr>ro_rows = [], ro_error = None, ro_affected = 1, ro_last_insert_rowid = 7\<rparr>"

definition demo_run ::
    "context_state \<Rightarrow> string \<Rightarrow> value_ref list \<Rightarrow> nat connection \<Rightarrow> (rusqlite_error + run_outcome) \<times> nat connection" where
  "demo_run ctx stmt ps c =
     (if starts_with stmt ''DELETE'' then (Err SqliteConstraint, c) else (Ok demo_outcome, c\<lparr>cn_data := cn_data c + 1\<rparr>))"

definition demo_env :: "nat sqlite_env" where
  "demo_env =
     \<lparr>sq_actions = (\<lambda>_ _. [\<lparr>aq_action = Act_Insert ''__ffdb_data_notes'', aq_accessor = Some ''notes''\<rparr>]),
      sq_prepare = (\<lambda>_ _. Ok \<lparr>pr_columns = [], pr_parameter_count = 0\<rparr>), sq_run = demo_run,
      sq_batch = (\<lambda>_ d. (Ok (), d)), sq_control_fails = (\<lambda>_ _. None), sq_pages = (\<lambda>d. Ok (d, 4096)),
      sq_capture_triggers = (\<lambda>_. Ok []), sq_table_names = (\<lambda>_. Ok []), sq_table_exists = (\<lambda>_ _. Ok False),
      sq_table_xinfo = (\<lambda>_ _. Ok []), sq_catalog_json = (\<lambda>_. Ok None), sq_decode_catalog = (\<lambda>_. None),
      sq_utf8_lossy = (\<lambda>x. x), sq_base64 = (\<lambda>x. x), sq_sha256 = (\<lambda>x. x), sq_now = (\<lambda>n. n),
      sq_cancelled = (\<lambda>_. False), sq_instant_max = 1000000\<rparr>"

lemma demo_control_is_explicit: "control_is_explicit demo_env"
  by (auto simp: control_is_explicit_def demo_env_def demo_run_def split: if_split_asm)

definition demo_mode :: execution_mode where
  "demo_mode = EndUser \<lparr>ra_project_id = ''p'', ra_subject = ''u'', ra_role = ''authenticated'', ra_claims = [], ra_token_id = ''t''\<rparr>"

definition demo_session :: "execution_mode \<Rightarrow> nat session" where
  "demo_session mode =
     \<lparr>ss_connection = \<lparr>cn_data = 5, cn_begin = None, cn_saves = []\<rparr>,
      ss_context = context_default\<lparr>active := Some mode, approved_sources := {''notes''}\<rparr>,
      ss_mode = mode, ss_limits = limits_default, ss_transaction_deadline = None, ss_request_deadline = 1000,
      ss_reading = 0\<rparr>"

definition insert_request :: statement_request where
  "insert_request = \<lparr>st_sql = ''INSERT INTO notes VALUES (1)'', st_parameters = []\<rparr>"

definition delete_request :: statement_request where
  "delete_request = \<lparr>st_sql = ''DELETE FROM notes'', st_parameters = []\<rparr>"

definition failed_transaction :: "nat session" where
  "failed_transaction = snd (transaction demo_env [insert_request, delete_request] (demo_session demo_mode))"

lemma failed_transaction_run:
  "transaction demo_env [insert_request, delete_request] (demo_session demo_mode)
     = (Err ConstraintViolation, failed_transaction)"
  by code_simp

theorem transaction_all_or_nothing_witness:
  "transaction demo_env [insert_request, delete_request] (demo_session demo_mode)
     = (Err ConstraintViolation, failed_transaction)
   \<and> cn_data (ss_connection failed_transaction) = 5 \<and> \<not> in_transaction (ss_connection failed_transaction)"
proof -
  have "\<not> in_transaction (ss_connection (demo_session demo_mode))"
    "list_all (no_control (ss_mode (demo_session demo_mode))) [insert_request, delete_request]"
    "\<And>c. sq_control_fails demo_env Rollback c = None"
    by (simp_all add: demo_session_def in_transaction_def no_control_def demo_mode_def developer_only_def demo_env_def)
  then show ?thesis
    using transaction_all_or_nothing [OF demo_control_is_explicit _ _ _ failed_transaction_run] failed_transaction_run
    by (auto simp: demo_session_def)
qed

definition probed :: "nat session" where
  "probed = snd (probe_write demo_env insert_request (demo_session demo_mode))"

lemma probed_run: "probe_write demo_env insert_request (demo_session demo_mode) = (Ok (), probed)"
  by code_simp

theorem probe_leaves_no_trace_witness:
  "probe_write demo_env insert_request (demo_session demo_mode) = (Ok (), probed)
   \<and> cn_data (ss_connection probed) = 5 \<and> \<not> in_transaction (ss_connection probed)"
proof -
  have "\<not> in_transaction (ss_connection (demo_session demo_mode))"
    "\<And>x c. sq_control_fails demo_env x c = None"
    by (simp_all add: demo_session_def in_transaction_def demo_env_def)
  then show ?thesis
    using probe_leaves_no_trace [OF demo_control_is_explicit _ _ _ probed_run] probed_run
    by (auto simp: demo_session_def)
qed

definition executed :: "query_result \<times> nat session" where
  "executed = (case execute demo_env insert_request (demo_session demo_mode) of (r, t) \<Rightarrow> (case r of Inr q \<Rightarrow> (q, t)))"

lemma executed_run: "execute demo_env insert_request (demo_session demo_mode) = (Ok (fst executed), snd executed)"
  by code_simp

theorem user_statement_is_contained_witness:
  "execute demo_env insert_request (demo_session demo_mode) = (Ok (fst executed), snd executed)
   \<and> (\<exists>c. classify_statement (st_sql insert_request) = Ok c \<and> kind c \<in> {Kind_Select, Kind_Insert, Kind_Update, Kind_Delete})
   \<and> length (qr_rows (fst executed)) \<le> max_rows limits_default"
  using user_statement_is_contained [OF executed_run] executed_run
  by (auto simp: demo_session_def context_default_def demo_mode_def developer_only_def)

text \<open>
  The size limit does not bind an end user's insertion written with a common table expression: it is
  classified as a read, so the database is left larger than the limit that refuses the plain insertion.
\<close>

definition with_insert_request :: statement_request where
  "with_insert_request = \<lparr>st_sql = ''WITH x AS (SELECT 1) INSERT INTO notes SELECT * FROM x'', st_parameters = []\<rparr>"

definition full_session :: "nat session" where
  "full_session = (demo_session demo_mode)\<lparr>ss_limits := limits_default\<lparr>max_database_bytes := 5 * 4096\<rparr>\<rparr>"

lemma with_insert_skips_size_limit:
  "fst (execute demo_env insert_request full_session) = Err DatabaseTooLarge
   \<and> (case execute demo_env with_insert_request full_session of (r, t) \<Rightarrow>
        r \<noteq> Err DatabaseTooLarge \<and> cn_data (ss_connection t) = 6
        \<and> (\<exists>q. r = Ok q) \<and> sq_pages demo_env (cn_data (ss_connection t)) = Ok (6, 4096)
        \<and> max_database_bytes (ss_limits t) < 6 * 4096)"
proof (intro conjI)
  show "fst (execute demo_env insert_request full_session) = Err DatabaseTooLarge" by code_simp
  have "case execute demo_env with_insert_request full_session of (r, t) \<Rightarrow>
      (case r of Inl _ \<Rightarrow> False | Inr _ \<Rightarrow> True) \<and> cn_data (ss_connection t) = 6
      \<and> max_database_bytes (ss_limits t) < 6 * 4096" by code_simp
  then show "case execute demo_env with_insert_request full_session of (r, t) \<Rightarrow>
        r \<noteq> Err DatabaseTooLarge \<and> cn_data (ss_connection t) = 6
        \<and> (\<exists>q. r = Ok q) \<and> sq_pages demo_env (cn_data (ss_connection t)) = Ok (6, 4096)
        \<and> max_database_bytes (ss_limits t) < 6 * 4096"
    by (auto simp: demo_env_def split: sum.split_asm)
qed

text \<open>
  In developer mode the session accepts \<open>COMMIT\<close> as a statement. In a transaction it commits what ran
  before it; the transaction then fails, because its savepoint is gone, and cannot roll back: the caller
  is told of an error and the insert stays.
\<close>

definition committing_env :: "nat sqlite_env" where
  "committing_env = demo_env\<lparr>sq_run := \<lambda>ctx stmt ps c.
     if stmt = ''COMMIT'' then (case apply_control Commit c of (Inl e, c') \<Rightarrow> (Err e, c') | (Inr _, c') \<Rightarrow> (Ok demo_outcome, c'))
     else demo_run ctx stmt ps c\<rparr>"

definition developer_mode :: execution_mode where
  "developer_mode = Developer \<lparr>dp_actor_id = ''a'', dp_api_key_id = ''k''\<rparr>"

lemma developer_commit_escapes_transaction:
  "(case transaction committing_env [insert_request, \<lparr>st_sql = ''COMMIT'', st_parameters = []\<rparr>] (demo_session developer_mode) of
      (r, t) \<Rightarrow> r = Err Database \<and> cn_data (ss_connection (demo_session developer_mode)) = 5
        \<and> cn_data (ss_connection t) = 6 \<and> \<not> in_transaction (ss_connection t))"
  by code_simp

end
