(* ===== verification/Storage_Gateway.thy ===== *)
theory Storage_Gateway
  imports Transition_System Collections
begin

text \<open>
  \<open>crates/object-storage/src/lib.rs\<close>: the gateway between the row-level-security decision on object
  metadata, the quota reservation and the object provider.

  JSON, base64, HMAC-SHA256 and the parser of URLs are code outside the repository (record
  \<open>storage_env\<close>; a URL is the record of its parts). The metadata store behind the trait
  \<open>MetadataAuthorizer\<close> and the provider behind \<open>S3Presigner\<close> and \<open>ObjectProvider\<close> are arguments, as they
  are type parameters of the gateway. The local reservations are one value behind a mutex: each
  critical section is one definition.
\<close>

section \<open>Data\<close>

datatype storage_action =
    Upload | Download | Act_Delete | Act_List | CreateMultipart | UploadPart | CompleteMultipart | AbortMultipart

datatype storage_error =
    RlsDenied | InvalidObjectKey | InvalidProviderKey | InvalidMultipartRequest | InvalidGrant | ExpiredGrant
  | ObjectQuotaExceeded | ProjectQuotaExceeded | OrganizationQuotaExceeded | DuplicateReservation
  | InvalidTtl | Provider | ProviderMetadataMismatch | Sto_InvalidConfiguration
  | InvalidAuthorizationDecision | TooManyReservations | UnsafeProviderEndpoint | Sto_Internal

record auth_context =
  ac_project_id :: string
  ac_subject :: string
  ac_role :: string
  ac_claims :: json_map
  ac_token_id :: string

record authorization_request =
  ar_auth :: auth_context
  ar_bucket :: string
  ar_object_key :: string
  ar_action :: storage_action
  ar_content_length :: "nat option"
  ar_checksum_sha256 :: "string option"
  ar_content_type :: "string option"
  ar_upload_id :: "string option"
  ar_part_number :: "nat option"

record metadata_authorization =
  md_provider_key :: string
  md_scope_fingerprint :: string
  md_project_quota_bytes :: nat
  md_current_project_bytes :: nat
  md_max_object_bytes :: nat
  md_reservation_bytes :: nat
  md_replacement_fingerprint :: "string option"

record storage_reservation_request =
  sr_auth :: auth_context
  sr_nonce :: string
  sr_bytes :: nat
  sr_expires_at_ms :: int
  sr_provider_key :: string
  sr_action :: storage_action
  sr_upload_id :: "string option"

record storage_metadata_commit =
  sm_auth :: auth_context
  sm_bucket :: string
  sm_object_key :: string
  sm_provider_key :: string
  sm_action :: storage_action
  sm_content_length :: "nat option"
  sm_checksum_sha256 :: "string option"
  sm_content_type :: "string option"
  sm_upload_id :: "string option"
  sm_part_number :: "nat option"
  sm_etag :: "string option"
  sm_version_id :: "string option"
  sm_reservation_nonce :: string
  sm_reservation_bytes :: nat
  sm_reservation_expires_at_ms :: int
  sm_replacement_fingerprint :: "string option"

record storage_receipt_request =
  sq_auth :: auth_context
  sq_bucket :: string
  sq_object_key :: string
  sq_provider_key :: string
  sq_action :: storage_action
  sq_content_length :: "nat option"
  sq_checksum_sha256 :: "string option"
  sq_content_type :: "string option"
  sq_upload_id :: "string option"
  sq_part_number :: "nat option"
  sq_reservation_nonce :: string
  sq_reservation_bytes :: nat
  sq_reservation_expires_at_ms :: int
  sq_replacement_fingerprint :: "string option"

record storage_commit_result =
  sc_content_length :: "nat option"
  sc_checksum_sha256 :: "string option"
  sc_etag :: "string option"
  sc_version_id :: "string option"

record grant_claims =
  gc_project_id :: string
  gc_subject :: string
  gc_token_id :: string
  gc_bucket :: string
  gc_object_key :: string
  gc_provider_key :: string
  gc_action :: storage_action
  gc_max_bytes :: "nat option"
  gc_checksum_sha256 :: "string option"
  gc_content_type :: "string option"
  gc_upload_id :: "string option"
  gc_part_number :: "nat option"
  gc_scope_fingerprint :: string
  gc_issued_at_ms :: int
  gc_expires_at_ms :: int
  gc_nonce :: string
  gc_reservation_bytes :: nat
  gc_reservation_expires_at_ms :: int
  gc_replacement_fingerprint :: "string option"

record provider_operation =
  po_action :: storage_action
  po_bucket :: string
  po_provider_key :: string
  po_max_bytes :: "nat option"
  po_checksum_sha256 :: "string option"
  po_content_type :: "string option"
  po_upload_id :: "string option"
  po_part_number :: "nat option"

record storage_limits =
  sl_signed_url_ttl_ms :: int
  sl_grant_ttl_ms :: int
  sl_max_pending_reservations :: nat

record reservation =
  rs_project_id :: string
  rs_bytes :: nat
  rs_expires_at_ms :: int

record reservations =
  by_nonce :: "(string, reservation) hash_map"
  by_project :: "(string, nat) hash_map"

definition reservations_default :: reservations where
  "reservations_default = \<lparr>by_nonce = [], by_project = []\<rparr>"

record storage_env =
  sv_claims_json_len :: "json_map \<Rightarrow> nat"
  sv_encode :: "grant_claims \<Rightarrow> string"
  sv_decode :: "string \<Rightarrow> grant_claims option"
  sv_b64_encode :: "string \<Rightarrow> string"
  sv_b64_decode :: "string \<Rightarrow> string option"
  sv_hmac :: "string \<Rightarrow> string \<Rightarrow> string"

section \<open>Grants\<close>

definition token_parse :: "string \<Rightarrow> storage_error + string" where
  "token_parse v = (if v = [] \<or> length v > 8192 \<or> any_control v then Err InvalidGrant else Ok v)"

record grant_codec =
  cd_secret :: string
  cd_max_ttl_ms :: int

definition grant_codec_new :: "string \<Rightarrow> int \<Rightarrow> storage_error + grant_codec" where
  "grant_codec_new secret max_ttl_ms =
     (if length secret < 32 \<or> max_ttl_ms \<le> 0 then Err Sto_InvalidConfiguration
      else Ok \<lparr>cd_secret = secret, cd_max_ttl_ms = max_ttl_ms\<rparr>)"

definition grant_issue :: "storage_env \<Rightarrow> grant_codec \<Rightarrow> grant_claims \<Rightarrow> string" where
  "grant_issue env c claims =
     sv_b64_encode env (sv_encode env claims) @ ''.''
       @ sv_b64_encode env (sv_hmac env (cd_secret c) (sv_encode env claims))"

definition verify_authenticated :: "storage_env \<Rightarrow> grant_codec \<Rightarrow> string \<Rightarrow> storage_error + grant_claims" where
  "verify_authenticated env c token =
     (if length token > 8192 then Err InvalidGrant
      else
        bindr (ok_or (split_once CHR ''.'' token) InvalidGrant) (\<lambda>(payload64, signature64).
        if length payload64 > 7000 \<or> length signature64 \<noteq> 43 then Err InvalidGrant
        else
          bindr (ok_or (sv_b64_decode env payload64) InvalidGrant) (\<lambda>payload.
          if length payload > 5120 then Err InvalidGrant
          else
            bindr (ok_or (sv_b64_decode env signature64) InvalidGrant) (\<lambda>signature.
            if length signature \<noteq> 32 then Err InvalidGrant
            else if signature \<noteq> sv_hmac env (cd_secret c) payload then Err InvalidGrant
            else ok_or (sv_decode env payload) InvalidGrant))))"

definition grant_verify :: "storage_env \<Rightarrow> grant_codec \<Rightarrow> string \<Rightarrow> int \<Rightarrow> storage_error + grant_claims" where
  "grant_verify env c token now_ms =
     bindr (verify_authenticated env c token) (\<lambda>claims.
     if now_ms < gc_issued_at_ms claims \<or> now_ms \<ge> gc_expires_at_ms claims
        \<or> gc_expires_at_ms claims - gc_issued_at_ms claims > cd_max_ttl_ms c
     then Err ExpiredGrant else Ok claims)"

section \<open>Validation\<close>

definition requires_durable_reservation :: "storage_action \<Rightarrow> bool" where
  "requires_durable_reservation a = (a \<notin> {Download, Act_List})"

definition unsafe_path :: "string \<Rightarrow> bool" where
  "unsafe_path key = (\<exists>segment\<in>set (split_on CHR ''/'' key). segment = ''.'' \<or> segment = ''..'')"

definition validate_request :: "storage_env \<Rightarrow> authorization_request \<Rightarrow> storage_error + unit" where
  "validate_request env rq =
     (if ac_role (ar_auth rq) = [] \<or> length (ac_role (ar_auth rq)) > 128
         \<or> length (ac_claims (ar_auth rq)) > 128 \<or> sv_claims_json_len env (ac_claims (ar_auth rq)) > 16384
         \<or> ar_bucket rq = [] \<or> ar_object_key rq = [] \<or> length (ar_bucket rq) > 63
         \<or> length (ar_object_key rq) > 1024 \<or> starts_with (ar_object_key rq) ''/''
         \<or> CHR 0x00 \<in> set (ar_object_key rq)
         \<or> \<not> opt_all (\<lambda>v. v \<noteq> [] \<and> length v \<le> 255 \<and> \<not> any_control v) (ar_content_type rq)
         \<or> \<not> opt_all (\<lambda>v. v \<noteq> [] \<and> length v \<le> 128 \<and> \<not> any_whitespace v) (ar_checksum_sha256 rq)
         \<or> \<not> opt_all (\<lambda>v. v \<noteq> [] \<and> length v \<le> 256 \<and> \<not> any_control v) (ar_upload_id rq)
         \<or> unsafe_path (ar_object_key rq)
      then Err InvalidObjectKey
      else if ar_action rq = UploadPart
         \<and> (ar_upload_id rq = None \<or> ar_content_length rq = None \<or> ar_part_number rq = None)
      then Err InvalidMultipartRequest
      else if ar_action rq \<in> {CompleteMultipart, AbortMultipart} \<and> ar_upload_id rq = None
      then Err InvalidMultipartRequest
      else if \<not> opt_all (\<lambda>n. 1 \<le> n \<and> n \<le> 10000) (ar_part_number rq)
         \<or> ar_part_number rq \<noteq> None \<and> ar_action rq \<noteq> UploadPart
      then Err InvalidMultipartRequest
      else Ok ())"

definition validate_provider_key :: "string \<Rightarrow> storage_error + unit" where
  "validate_provider_key key =
     (if key = [] \<or> length key > 1024 \<or> starts_with key ''/'' \<or> CHR 0x00 \<in> set key \<or> unsafe_path key
      then Err InvalidProviderKey else Ok ())"

definition valid_upload_id :: "string option \<Rightarrow> storage_error + string" where
  "valid_upload_id v =
     (case v of
        Some u \<Rightarrow> if u \<noteq> [] \<and> length u \<le> 256 \<and> \<not> any_control u then Ok u else Err InvalidMultipartRequest
      | None \<Rightarrow> Err InvalidMultipartRequest)"

section \<open>Endpoints\<close>

text \<open>Addresses with the classification of \<open>std::net\<close>: an IPv4 address is its four octets, an IPv6
  address its eight segments.\<close>

datatype ip_addr = V4 nat nat nat nat | V6 nat nat nat nat nat nat nat nat

fun ip_is_private :: "ip_addr \<Rightarrow> bool" where
  "ip_is_private (V4 a b c d) = (a = 10 \<or> (a = 172 \<and> 16 \<le> b \<and> b \<le> 31) \<or> (a = 192 \<and> b = 168))"
| "ip_is_private (V6 a b c d e f g h) = (a div 512 = 126)"

fun ip_is_loopback :: "ip_addr \<Rightarrow> bool" where
  "ip_is_loopback (V4 a b c d) = (a = 127)"
| "ip_is_loopback (V6 a b c d e f g h) = ([a, b, c, d, e, f, g, h] = [0, 0, 0, 0, 0, 0, 0, 1])"

definition is_private_network :: "ip_addr \<Rightarrow> bool" where
  "is_private_network ip = ip_is_private ip"

definition is_private_or_loopback :: "ip_addr \<Rightarrow> bool" where
  "is_private_or_loopback ip = (ip_is_private ip \<or> ip_is_loopback ip)"

fun is_public_ip :: "ip_addr \<Rightarrow> bool" where
  "is_public_ip (V4 a b c d) =
     (\<not> (ip_is_private (V4 a b c d) \<or> ip_is_loopback (V4 a b c d)
         \<or> (a = 169 \<and> b = 254)
         \<or> (a = 255 \<and> b = 255 \<and> c = 255 \<and> d = 255)
         \<or> (a = 192 \<and> b = 0 \<and> c = 2) \<or> (a = 198 \<and> b = 51 \<and> c = 100) \<or> (a = 203 \<and> b = 0 \<and> c = 113)
         \<or> (a = 0 \<and> b = 0 \<and> c = 0 \<and> d = 0)
         \<or> (224 \<le> a \<and> a \<le> 239)
         \<or> a = 0))"
| "is_public_ip (V6 a b c d e f g h) =
     (\<not> (ip_is_loopback (V6 a b c d e f g h)
         \<or> [a, b, c, d, e, f, g, h] = [0, 0, 0, 0, 0, 0, 0, 0]
         \<or> a div 256 = 255
         \<or> a div 512 = 126
         \<or> a div 64 = 1018))"

record endpoint_url =
  ur_scheme :: string
  ur_username :: string
  ur_password :: "string option"
  ur_host :: "string option"
  ur_query :: "string option"
  ur_fragment :: "string option"

definition validate_s3_endpoint ::
    "endpoint_url \<Rightarrow> string list \<Rightarrow> ip_addr list \<Rightarrow> bool \<Rightarrow> string option \<Rightarrow> string option
      \<Rightarrow> storage_error + unit" where
  "validate_s3_endpoint endpoint allowed_hosts resolved allow_insecure_localhost development_host private_host =
     (case ur_host endpoint of
        None \<Rightarrow> Err UnsafeProviderEndpoint
      | Some host \<Rightarrow>
          (let local_host = (host \<in> {''localhost'', ''127.0.0.1'', ''::1''});
               development_service = (development_host = Some host);
               private_network_service = (private_host = Some host \<and> ur_scheme endpoint = ''https'')
           in if ur_username endpoint \<noteq> [] \<or> ur_password endpoint \<noteq> None \<or> ur_query endpoint \<noteq> None
                \<or> ur_fragment endpoint \<noteq> None
                \<or> \<not> (host \<in> set allowed_hosts \<or> allow_insecure_localhost \<and> local_host)
                \<or> (ur_scheme endpoint \<noteq> ''https''
                    \<and> \<not> (allow_insecure_localhost \<and> local_host \<or> development_service))
                \<or> resolved = []
                \<or> (\<exists>ip\<in>set resolved.
                     \<not> (is_public_ip ip
                        \<or> allow_insecure_localhost \<and> local_host \<and> ip_is_loopback ip
                        \<or> development_service \<and> is_private_or_loopback ip
                        \<or> private_network_service \<and> is_private_network ip))
              then Err UnsafeProviderEndpoint else Ok ()))"

section \<open>Local reservations\<close>

definition project_bytes :: "reservations \<Rightarrow> string \<Rightarrow> nat" where
  "project_bytes rs p = (case hm_get (by_project rs) p of Some b \<Rightarrow> b | None \<Rightarrow> 0)"

text \<open>The removal of a reservation and of its bytes from its project's total.\<close>

definition drop_reservation :: "string \<Rightarrow> reservation \<Rightarrow> reservations \<Rightarrow> reservations" where
  "drop_reservation nonce r rs =
     (let remaining = saturating_sub_u64 (project_bytes rs (rs_project_id r)) (rs_bytes r)
      in rs\<lparr>by_nonce := hm_remove nonce (by_nonce rs),
            by_project := (if remaining = 0 then hm_remove (rs_project_id r) (by_project rs)
                           else hm_insert (rs_project_id r) remaining (by_project rs))\<rparr>)"

fun drop_all :: "string list \<Rightarrow> reservations \<Rightarrow> reservations" where
  "drop_all [] rs = rs"
| "drop_all (n # ns) rs =
     drop_all ns (case hm_get (by_nonce rs) n of Some r \<Rightarrow> drop_reservation n r rs | None \<Rightarrow> rs)"

definition expired_nonces :: "reservations \<Rightarrow> int \<Rightarrow> string list" where
  "expired_nonces rs now_ms = map fst (filter (\<lambda>(n, r). rs_expires_at_ms r \<le> now_ms) (by_nonce rs))"

definition sweep_expired :: "reservations \<Rightarrow> int \<Rightarrow> nat \<times> reservations" where
  "sweep_expired rs now_ms = (length (expired_nonces rs now_ms), drop_all (expired_nonces rs now_ms) rs)"

text \<open>The critical section of \<open>authorize_with_nonce\<close>.\<close>

definition local_reserve ::
    "storage_limits \<Rightarrow> string \<Rightarrow> string \<Rightarrow> nat \<Rightarrow> nat \<Rightarrow> nat \<Rightarrow> int \<Rightarrow> reservations
      \<Rightarrow> (storage_error + unit) \<times> reservations" where
  "local_reserve limits nonce project bytes current quota now_ms rs0 =
     (let rs = snd (sweep_expired rs0 now_ms) in
      if hm_contains_key (by_nonce rs) nonce then (Err DuplicateReservation, rs)
      else if length (by_nonce rs) \<ge> sl_max_pending_reservations limits then (Err TooManyReservations, rs)
      else
        (let reserved = project_bytes rs project in
         if saturating_add_u64 (saturating_add_u64 current reserved) bytes > quota
         then (Err ProjectQuotaExceeded, rs)
         else (Ok (),
               rs\<lparr>by_nonce := hm_insert nonce
                     \<lparr>rs_project_id = project, rs_bytes = bytes,
                      rs_expires_at_ms = saturating_add_i64 now_ms (sl_grant_ttl_ms limits)\<rparr> (by_nonce rs),
                  by_project := hm_insert project (saturating_add_u64 reserved bytes) (by_project rs)\<rparr>)))"

definition binding_differs :: "reservation \<Rightarrow> string \<Rightarrow> nat \<Rightarrow> int \<Rightarrow> bool" where
  "binding_differs r project bytes expires =
     (rs_project_id r \<noteq> project \<or> rs_bytes r \<noteq> bytes \<or> rs_expires_at_ms r \<noteq> expires)"

definition validate_local_reservation ::
    "grant_claims \<Rightarrow> int \<Rightarrow> reservations \<Rightarrow> (storage_error + unit) \<times> reservations" where
  "validate_local_reservation claims now_ms rs0 =
     (if gc_reservation_bytes claims = 0 then (Ok (), rs0)
      else
        (let rs = snd (sweep_expired rs0 now_ms) in
         case hm_get (by_nonce rs) (gc_nonce claims) of
           Some r \<Rightarrow>
             if binding_differs r (gc_project_id claims) (gc_reservation_bytes claims)
                  (gc_reservation_expires_at_ms claims)
             then (Err InvalidGrant, rs) else (Ok (), rs)
         | None \<Rightarrow> (Ok (), rs)))"

definition release_local_reservation ::
    "string \<Rightarrow> string \<Rightarrow> nat \<Rightarrow> int \<Rightarrow> int \<Rightarrow> reservations \<Rightarrow> (storage_error + nat) \<times> reservations" where
  "release_local_reservation project nonce bytes expires now_ms rs0 =
     (let rs = snd (sweep_expired rs0 now_ms) in
      case hm_get (by_nonce rs) nonce of
        None \<Rightarrow> (Ok 0, rs)
      | Some r \<Rightarrow>
          if binding_differs r project bytes expires then (Err InvalidGrant, rs)
          else (Ok (rs_bytes r), drop_reservation nonce r rs))"

section \<open>The gateway\<close>

text \<open>The trait \<open>MetadataAuthorizer\<close> over a store of type \<open>'m\<close>.\<close>

record 'm metadata_authorizer =
  ma_authorize :: "authorization_request \<Rightarrow> 'm \<Rightarrow> (storage_error + metadata_authorization) \<times> 'm"
  ma_reserve :: "storage_reservation_request \<Rightarrow> 'm \<Rightarrow> (storage_error + unit) \<times> 'm"
  ma_commit :: "storage_metadata_commit \<Rightarrow> 'm \<Rightarrow> (storage_error + unit) \<times> 'm"
  ma_receipt :: "storage_receipt_request \<Rightarrow> 'm \<Rightarrow> storage_error + storage_commit_result option"
  ma_release :: "auth_context \<Rightarrow> string \<Rightarrow> nat \<Rightarrow> int \<Rightarrow> 'm \<Rightarrow> (storage_error + unit) \<times> 'm"
  ma_cleanup :: "int \<Rightarrow> 'm \<Rightarrow> (storage_error + nat) \<times> 'm"

record 'm gateway =
  gw_local :: reservations
  gw_store :: 'm

record gateway_config =
  gf_codec :: grant_codec
  gf_limits :: storage_limits

definition gateway_new :: "string \<Rightarrow> storage_limits \<Rightarrow> 'm \<Rightarrow> storage_error + gateway_config \<times> 'm gateway" where
  "gateway_new secret limits store =
     (if sl_signed_url_ttl_ms limits \<le> 0 \<or> sl_grant_ttl_ms limits \<le> 0 \<or> sl_max_pending_reservations limits = 0
      then Err Sto_InvalidConfiguration
      else bindr (grant_codec_new secret (sl_grant_ttl_ms limits)) (\<lambda>codec.
        Ok (\<lparr>gf_codec = codec, gf_limits = limits\<rparr>, \<lparr>gw_local = reservations_default, gw_store = store\<rparr>)))"

definition claims_for ::
    "storage_limits \<Rightarrow> authorization_request \<Rightarrow> metadata_authorization \<Rightarrow> int \<Rightarrow> string \<Rightarrow> grant_claims" where
  "claims_for limits rq a now_ms nonce =
     \<lparr>gc_project_id = ac_project_id (ar_auth rq), gc_subject = ac_subject (ar_auth rq),
      gc_token_id = ac_token_id (ar_auth rq), gc_bucket = ar_bucket rq, gc_object_key = ar_object_key rq,
      gc_provider_key = md_provider_key a, gc_action = ar_action rq, gc_max_bytes = ar_content_length rq,
      gc_checksum_sha256 = ar_checksum_sha256 rq, gc_content_type = ar_content_type rq,
      gc_upload_id = ar_upload_id rq, gc_part_number = ar_part_number rq,
      gc_scope_fingerprint = md_scope_fingerprint a, gc_issued_at_ms = now_ms,
      gc_expires_at_ms = saturating_add_i64 now_ms (sl_grant_ttl_ms limits), gc_nonce = nonce,
      gc_reservation_bytes = md_reservation_bytes a,
      gc_reservation_expires_at_ms = saturating_add_i64 now_ms (sl_grant_ttl_ms limits),
      gc_replacement_fingerprint = md_replacement_fingerprint a\<rparr>"

definition size_checked :: "storage_action \<Rightarrow> bool" where
  "size_checked a = (a \<in> {Upload, CreateMultipart, UploadPart, CompleteMultipart})"

text \<open>The checks on the decision of the metadata store.\<close>

definition check_decision :: "authorization_request \<Rightarrow> metadata_authorization \<Rightarrow> storage_error + unit" where
  "check_decision rq a =
     bindr (validate_provider_key (md_provider_key a)) (\<lambda>_.
     if md_scope_fingerprint a = [] \<or> length (md_scope_fingerprint a) > 256
     then Err InvalidAuthorizationDecision
     else if size_checked (ar_action rq)
       \<and> (case ar_content_length rq of None \<Rightarrow> True | Some n \<Rightarrow> n > md_max_object_bytes a)
     then Err ObjectQuotaExceeded
     else Ok ())"

definition authorize_with_nonce ::
    "storage_env \<Rightarrow> gateway_config \<Rightarrow> 'm metadata_authorizer \<Rightarrow> authorization_request \<Rightarrow> int \<Rightarrow> string
      \<Rightarrow> 'm gateway \<Rightarrow> (storage_error + string) \<times> 'm gateway" where
  "authorize_with_nonce env cfg ma rq now_ms nonce gw =
     (let limits = gf_limits cfg;
          project = ac_project_id (ar_auth rq);
          expires = saturating_add_i64 now_ms (sl_grant_ttl_ms limits)
      in case bindr (validate_request env rq) (\<lambda>_.
            require (16 \<le> length nonce \<and> length nonce \<le> 128) InvalidGrant) of
        Inl e \<Rightarrow> (Err e, gw)
      | Inr _ \<Rightarrow>
      (case ma_authorize ma rq (gw_store gw) of
         (Inl e, m) \<Rightarrow> (Err e, gw\<lparr>gw_store := m\<rparr>)
       | (Inr a, m) \<Rightarrow>
      (case check_decision rq a of
         Inl e \<Rightarrow> (Err e, gw\<lparr>gw_store := m\<rparr>)
       | Inr _ \<Rightarrow>
      (let bytes = md_reservation_bytes a;
           (reserved, rs) =
             (if bytes > 0
              then local_reserve limits nonce project bytes (md_current_project_bytes a)
                     (md_project_quota_bytes a) now_ms (gw_local gw)
              else (Ok (), gw_local gw))
       in case reserved of
            Inl e \<Rightarrow> (Err e, gw\<lparr>gw_local := rs, gw_store := m\<rparr>)
          | Inr _ \<Rightarrow>
              (let (durable, m') =
                 (if requires_durable_reservation (ar_action rq)
                  then ma_reserve ma
                    \<lparr>sr_auth = ar_auth rq, sr_nonce = nonce, sr_bytes = bytes, sr_expires_at_ms = expires,
                     sr_provider_key = md_provider_key a, sr_action = ar_action rq,
                     sr_upload_id = ar_upload_id rq\<rparr> m
                  else (Ok (), m))
               in case durable of
                    Inl e \<Rightarrow>
                      if bytes > 0 then
                        (case release_local_reservation project nonce bytes expires now_ms rs of
                           (Inl e', rs') \<Rightarrow> (Err e', gw\<lparr>gw_local := rs', gw_store := m'\<rparr>)
                         | (Inr _, rs') \<Rightarrow> (Err e, gw\<lparr>gw_local := rs', gw_store := m'\<rparr>))
                      else (Err e, gw\<lparr>gw_local := rs, gw_store := m'\<rparr>)
                  | Inr _ \<Rightarrow>
                      (Ok (grant_issue env (gf_codec cfg) (claims_for limits rq a now_ms nonce)),
                       gw\<lparr>gw_local := rs, gw_store := m'\<rparr>))))))"

definition operation_of :: "grant_claims \<Rightarrow> provider_operation" where
  "operation_of claims =
     \<lparr>po_action = gc_action claims, po_bucket = gc_bucket claims, po_provider_key = gc_provider_key claims,
      po_max_bytes = gc_max_bytes claims, po_checksum_sha256 = gc_checksum_sha256 claims,
      po_content_type = gc_content_type claims, po_upload_id = gc_upload_id claims,
      po_part_number = gc_part_number claims\<rparr>"

definition presign ::
    "storage_env \<Rightarrow> gateway_config \<Rightarrow> (provider_operation \<Rightarrow> int \<Rightarrow> int \<Rightarrow> storage_error + 'u)
      \<Rightarrow> string \<Rightarrow> int \<Rightarrow> int \<Rightarrow> storage_error + 'u" where
  "presign env cfg presigner token requested_ttl_ms now_ms =
     bindr (grant_verify env (gf_codec cfg) token now_ms) (\<lambda>claims.
     if requested_ttl_ms \<le> 0 \<or> requested_ttl_ms > sl_signed_url_ttl_ms (gf_limits cfg) then Err InvalidTtl
     else presigner (operation_of claims)
       (min requested_ttl_ms (saturating_sub_i64 (gc_expires_at_ms claims) now_ms)) now_ms)"

definition identity_differs :: "grant_claims \<Rightarrow> auth_context \<Rightarrow> bool" where
  "identity_differs claims auth =
     (gc_project_id claims \<noteq> ac_project_id auth \<or> gc_subject claims \<noteq> ac_subject auth
      \<or> gc_token_id claims \<noteq> ac_token_id auth)"

definition release_reservation ::
    "storage_env \<Rightarrow> gateway_config \<Rightarrow> 'm metadata_authorizer \<Rightarrow> string \<Rightarrow> auth_context \<Rightarrow> int
      \<Rightarrow> 'm gateway \<Rightarrow> (storage_error + nat) \<times> 'm gateway" where
  "release_reservation env cfg ma token auth now_ms gw =
     (case verify_authenticated env (gf_codec cfg) token of
        Inl e \<Rightarrow> (Err e, gw)
      | Inr claims \<Rightarrow>
          if identity_differs claims auth then (Err InvalidGrant, gw)
          else
            (case validate_local_reservation claims now_ms (gw_local gw) of
               (Inl e, rs) \<Rightarrow> (Err e, gw\<lparr>gw_local := rs\<rparr>)
             | (Inr _, rs) \<Rightarrow>
                 (let (released, m) =
                    (if requires_durable_reservation (gc_action claims)
                     then ma_release ma auth (gc_nonce claims) (gc_reservation_bytes claims)
                       (gc_reservation_expires_at_ms claims) (gw_store gw)
                     else (Ok (), gw_store gw))
                  in case released of
                       Inl e \<Rightarrow> (Err e, gw\<lparr>gw_local := rs, gw_store := m\<rparr>)
                     | Inr _ \<Rightarrow>
                         (let (r, rs') = release_local_reservation (gc_project_id claims) (gc_nonce claims)
                            (gc_reservation_bytes claims) (gc_reservation_expires_at_ms claims) now_ms rs
                          in (r, gw\<lparr>gw_local := rs', gw_store := m\<rparr>)))))"

definition receipt_request :: "grant_claims \<Rightarrow> auth_context \<Rightarrow> storage_receipt_request" where
  "receipt_request claims auth =
     \<lparr>sq_auth = auth, sq_bucket = gc_bucket claims, sq_object_key = gc_object_key claims,
      sq_provider_key = gc_provider_key claims, sq_action = gc_action claims,
      sq_content_length = gc_max_bytes claims, sq_checksum_sha256 = gc_checksum_sha256 claims,
      sq_content_type = gc_content_type claims, sq_upload_id = gc_upload_id claims,
      sq_part_number = gc_part_number claims, sq_reservation_nonce = gc_nonce claims,
      sq_reservation_bytes = gc_reservation_bytes claims,
      sq_reservation_expires_at_ms = gc_reservation_expires_at_ms claims,
      sq_replacement_fingerprint = gc_replacement_fingerprint claims\<rparr>"

definition metadata_commit :: "grant_claims \<Rightarrow> auth_context \<Rightarrow> storage_commit_result \<Rightarrow> storage_metadata_commit" where
  "metadata_commit claims auth result =
     \<lparr>sm_auth = auth, sm_bucket = gc_bucket claims, sm_object_key = gc_object_key claims,
      sm_provider_key = gc_provider_key claims, sm_action = gc_action claims,
      sm_content_length = or_else (sc_content_length result) (gc_max_bytes claims),
      sm_checksum_sha256 = or_else (sc_checksum_sha256 result) (gc_checksum_sha256 claims),
      sm_content_type = gc_content_type claims, sm_upload_id = gc_upload_id claims,
      sm_part_number = gc_part_number claims, sm_etag = sc_etag result, sm_version_id = sc_version_id result,
      sm_reservation_nonce = gc_nonce claims, sm_reservation_bytes = gc_reservation_bytes claims,
      sm_reservation_expires_at_ms = gc_reservation_expires_at_ms claims,
      sm_replacement_fingerprint = gc_replacement_fingerprint claims\<rparr>"

definition result_refused :: "grant_claims \<Rightarrow> storage_commit_result \<Rightarrow> bool" where
  "result_refused claims result =
     ((case (sc_content_length result, gc_max_bytes claims) of
         (Some actual, Some maximum) \<Rightarrow> actual > maximum | _ \<Rightarrow> False)
      \<or> (case (sc_checksum_sha256 result, gc_checksum_sha256 claims) of
         (Some actual, Some expected) \<Rightarrow> actual \<noteq> expected | _ \<Rightarrow> False))"

text \<open>The release at the end of a commit; its value is dropped, its error is returned.\<close>

definition finish_commit :: "grant_claims \<Rightarrow> int \<Rightarrow> 'm gateway \<Rightarrow> (storage_error + unit) \<times> 'm gateway" where
  "finish_commit claims now_ms gw =
     (let (r, rs) = release_local_reservation (gc_project_id claims) (gc_nonce claims)
        (gc_reservation_bytes claims) (gc_reservation_expires_at_ms claims) now_ms (gw_local gw)
      in (case r of Inl e \<Rightarrow> Err e | Inr _ \<Rightarrow> Ok (), gw\<lparr>gw_local := rs\<rparr>))"

definition commit_metadata ::
    "storage_env \<Rightarrow> gateway_config \<Rightarrow> 'm metadata_authorizer \<Rightarrow> string \<Rightarrow> auth_context \<Rightarrow> storage_commit_result
      \<Rightarrow> int \<Rightarrow> 'm gateway \<Rightarrow> (storage_error + unit) \<times> 'm gateway" where
  "commit_metadata env cfg ma token auth result now_ms gw =
     (case grant_verify env (gf_codec cfg) token now_ms of
        Inl e \<Rightarrow> (Err e, gw)
      | Inr claims \<Rightarrow>
          if identity_differs claims auth \<or> result_refused claims result then (Err InvalidGrant, gw)
          else
            (case ma_receipt ma (receipt_request claims auth) (gw_store gw) of
               Inl e \<Rightarrow> (Err e, gw)
             | Inr (Some committed) \<Rightarrow>
                 if committed \<noteq> result then (Err InvalidGrant, gw) else finish_commit claims now_ms gw
             | Inr None \<Rightarrow>
                 (case validate_local_reservation claims now_ms (gw_local gw) of
                    (Inl e, rs) \<Rightarrow> (Err e, gw\<lparr>gw_local := rs\<rparr>)
                  | (Inr _, rs) \<Rightarrow>
                      (case ma_commit ma (metadata_commit claims auth result) (gw_store gw) of
                         (Inl e, m) \<Rightarrow> (Err e, gw\<lparr>gw_local := rs, gw_store := m\<rparr>)
                       | (Inr _, m) \<Rightarrow> finish_commit claims now_ms (gw\<lparr>gw_local := rs, gw_store := m\<rparr>)))))"

definition prior_receipt ::
    "storage_env \<Rightarrow> gateway_config \<Rightarrow> 'm metadata_authorizer \<Rightarrow> string \<Rightarrow> auth_context \<Rightarrow> storage_action \<Rightarrow> int
      \<Rightarrow> 'm gateway \<Rightarrow> storage_error + storage_commit_result option" where
  "prior_receipt env cfg ma token auth expected_action now_ms gw =
     bindr (grant_verify env (gf_codec cfg) token now_ms) (\<lambda>claims.
     if identity_differs claims auth \<or> gc_action claims \<noteq> expected_action then Err InvalidGrant
     else ma_receipt ma (receipt_request claims auth) (gw_store gw))"

definition verify_provider_and_commit ::
    "storage_env \<Rightarrow> gateway_config \<Rightarrow> 'm metadata_authorizer
      \<Rightarrow> (provider_operation \<Rightarrow> int \<Rightarrow> storage_error + storage_commit_result)
      \<Rightarrow> string \<Rightarrow> auth_context \<Rightarrow> int \<Rightarrow> 'm gateway \<Rightarrow> (storage_error + storage_commit_result) \<times> 'm gateway" where
  "verify_provider_and_commit env cfg ma provider token auth now_ms gw =
     (case bindr (grant_verify env (gf_codec cfg) token now_ms) (\<lambda>claims.
         if identity_differs claims auth then Err InvalidGrant else provider (operation_of claims) now_ms) of
        Inl e \<Rightarrow> (Err e, gw)
      | Inr result \<Rightarrow>
          (case commit_metadata env cfg ma token auth result now_ms gw of
             (Inl e, gw') \<Rightarrow> (Err e, gw')
           | (Inr _, gw') \<Rightarrow> (Ok result, gw')))"

definition stage_refused :: "storage_action \<Rightarrow> grant_claims \<Rightarrow> storage_commit_result \<Rightarrow> bool" where
  "stage_refused expected_action claims result =
     (gc_action claims \<noteq> expected_action
      \<or> expected_action \<notin> {CreateMultipart, UploadPart, AbortMultipart}
      \<or> expected_action = CreateMultipart
          \<and> (case sc_version_id result of None \<Rightarrow> True
              | Some u \<Rightarrow> u = [] \<or> length u > 256 \<or> any_control u)
      \<or> expected_action = UploadPart
          \<and> (case sc_etag result of None \<Rightarrow> True | Some e \<Rightarrow> e = [] \<or> length e > 256))"

definition commit_multipart_stage ::
    "storage_env \<Rightarrow> gateway_config \<Rightarrow> 'm metadata_authorizer \<Rightarrow> string \<Rightarrow> auth_context \<Rightarrow> storage_action
      \<Rightarrow> storage_commit_result \<Rightarrow> int \<Rightarrow> 'm gateway \<Rightarrow> (storage_error + unit) \<times> 'm gateway" where
  "commit_multipart_stage env cfg ma token auth expected_action result now_ms gw =
     (case grant_verify env (gf_codec cfg) token now_ms of
        Inl e \<Rightarrow> (Err e, gw)
      | Inr claims \<Rightarrow>
          if stage_refused expected_action claims result then (Err InvalidMultipartRequest, gw)
          else commit_metadata env cfg ma token auth result now_ms gw)"

definition cleanup_expired_reservations ::
    "'m metadata_authorizer \<Rightarrow> int \<Rightarrow> 'm gateway \<Rightarrow> (storage_error + nat) \<times> 'm gateway" where
  "cleanup_expired_reservations ma now_ms gw =
     (case ma_cleanup ma now_ms (gw_store gw) of
        (Inl e, m) \<Rightarrow> (Err e, gw\<lparr>gw_store := m\<rparr>)
      | (Inr durable, m) \<Rightarrow>
          (let (n, rs) = sweep_expired (gw_local gw) now_ms
           in (Ok (saturating_add_u64 durable n), gw\<lparr>gw_local := rs, gw_store := m\<rparr>)))"

definition cleanup_local_reservations :: "int \<Rightarrow> 'm gateway \<Rightarrow> nat \<times> 'm gateway" where
  "cleanup_local_reservations now_ms gw =
     (let (n, rs) = sweep_expired (gw_local gw) now_ms in (n, gw\<lparr>gw_local := rs\<rparr>))"


text \<open>The internal operations of the S3 provider, over a provider state of type \<open>'p\<close>.\<close>

record 'p multipart_provider =
  mp_recover :: "string \<Rightarrow> int \<Rightarrow> 'p \<Rightarrow> (storage_error + string option) \<times> 'p"
  mp_initiate :: "string \<Rightarrow> string option \<Rightarrow> bool \<Rightarrow> int \<Rightarrow> 'p \<Rightarrow> (storage_error + string) \<times> 'p"
  mp_abort :: "string \<Rightarrow> string \<Rightarrow> int \<Rightarrow> 'p \<Rightarrow> (storage_error + unit) \<times> 'p"

definition find_or_initiate ::
    "'p multipart_provider \<Rightarrow> grant_claims \<Rightarrow> int \<Rightarrow> 'p \<Rightarrow> (storage_error + string) \<times> 'p" where
  "find_or_initiate mp claims now_ms p =
     (case mp_recover mp (gc_provider_key claims) now_ms p of
        (Inl e, p') \<Rightarrow> (Err e, p')
      | (Inr (Some u), p') \<Rightarrow> (Ok u, p')
      | (Inr None, p') \<Rightarrow>
          mp_initiate mp (gc_provider_key claims) (gc_content_type claims) (gc_checksum_sha256 claims \<noteq> None) now_ms p')"

definition initiate_multipart_and_commit ::
    "storage_env \<Rightarrow> gateway_config \<Rightarrow> 'm metadata_authorizer \<Rightarrow> 'p multipart_provider \<Rightarrow> string \<Rightarrow> auth_context \<Rightarrow> int
      \<Rightarrow> 'm gateway \<times> 'p \<Rightarrow> (storage_error + string) \<times> 'm gateway \<times> 'p" where
  "initiate_multipart_and_commit env cfg ma mp token auth now_ms st =
     (let (gw, p) = st in
      case prior_receipt env cfg ma token auth CreateMultipart now_ms gw of
        Inl e \<Rightarrow> (Err e, gw, p)
      | Inr (Some receipt) \<Rightarrow> (valid_upload_id (sc_version_id receipt), gw, p)
      | Inr None \<Rightarrow>
      (case grant_verify env (gf_codec cfg) token now_ms of
        Inl e \<Rightarrow> (Err e, gw, p)
      | Inr claims \<Rightarrow>
      (case find_or_initiate mp claims now_ms p of
        (Inl e, p1) \<Rightarrow> (Err e, gw, p1)
      | (Inr upload_id, p1) \<Rightarrow>
          (let result = \<lparr>sc_content_length = None, sc_checksum_sha256 = None, sc_etag = None,
                 sc_version_id = Some upload_id\<rparr>
           in case commit_multipart_stage env cfg ma token auth CreateMultipart result now_ms gw of
                (Inl e, gw') \<Rightarrow>
                  (Err e, gw', snd (mp_abort mp (gc_provider_key claims) upload_id now_ms p1))
              | (Inr _, gw') \<Rightarrow> (Ok upload_id, gw', p1)))))"

end
