(* ===== verification/Storage_Ledger.thy ===== *)
theory Storage_Ledger
  imports Sqlite_Context "HOL-Library.Product_Lexorder"
begin

text \<open>
  \<open>crates/sqlite-runtime/src/storage.rs\<close>: the durable side of object storage inside a project's SQLite
  database. Quota reservations, upload bindings, commit receipts and the queue of provider objects
  to clean up are tables; a table is the list of its rows in insertion order, and each definition
  translates the fixed SQL statements of one method. Sums and additions are computed in SQL on 64-bit
  integers, where an overflow fails the statement.

  The statements on \<open>storage_objects\<close> run through its row-level-security view: \<open>storage_rls\<close> holds the
  predicates the project's policies give for a user, as compiled by the row-level-security component.
  A row outside the select predicate is not found; a change the policies refuse raises a constraint
  error. UUIDs come from the generator \<open>uuid\<close>, indexed by the number drawn so far.
\<close>

section \<open>Rows\<close>

record bucket_row =
  bk_id :: string
  bk_name :: string
  bk_owner_id :: string
  bk_max_object_bytes :: int
  bk_project_quota_bytes :: int

record object_row =
  ob_id :: string
  ob_bucket_id :: string
  ob_object_key :: string
  ob_owner_id :: string
  ob_size_bytes :: int
  ob_content_type :: "string option"
  ob_checksum_sha256 :: "string option"
  ob_etag :: "string option"
  ob_version_id :: "string option"
  ob_created_at_ms :: int
  ob_updated_at_ms :: int

record upload_row =
  up_id :: string
  up_bucket_id :: string
  up_object_key :: string
  up_owner_id :: string
  up_expected_size_bytes :: "int option"
  up_checksum_sha256 :: "string option"
  up_content_type :: "string option"
  up_status :: string
  up_created_at_ms :: int
  up_expires_at_ms :: int

record version_row =
  vr_id :: string
  vr_object_id :: string
  vr_owner_id :: string
  vr_size_bytes :: int
  vr_checksum_sha256 :: "string option"
  vr_etag :: "string option"
  vr_provider_version_id :: string
  vr_created_at_ms :: int

record reservation_row =
  lr_project_id :: string
  lr_nonce :: string
  lr_subject :: string
  lr_token_id :: string
  lr_bytes :: int
  lr_expires_at_ms :: int
  lr_provider_key :: "string option"
  lr_action :: "string option"
  lr_upload_id :: "string option"

record upload_binding_row =
  ub_upload_id :: string
  ub_provider_key :: string
  ub_reserved_bytes :: int
  ub_replacement_fingerprint :: "string option"

record part_row =
  pt_upload_id :: string
  pt_part_number :: nat
  pt_size_bytes :: "int option"
  pt_checksum_sha256 :: "string option"
  pt_etag :: "string option"

record receipt_row =
  cr_project_id :: string
  cr_nonce :: string
  cr_subject :: string
  cr_token_id :: string
  cr_binding_digest :: string
  cr_commit_digest :: string
  cr_result_json :: string
  cr_committed_at_ms :: int
  cr_expires_at_ms :: int

record cleanup_row =
  cq_id :: string
  cq_provider_key :: string
  cq_action :: string
  cq_upload_id :: "string option"
  cq_created_at_ms :: int
  cq_available_at_ms :: int
  cq_lease_token :: "string option"
  cq_lease_expires_at_ms :: "int option"
  cq_attempts :: int

record storage_db =
  sd_buckets :: "bucket_row list"
  sd_objects :: "object_row list"
  sd_uploads :: "upload_row list"
  sd_versions :: "version_row list"
  sd_provider_objects :: "(string \<times> string) list"
  sd_reservations :: "reservation_row list"
  sd_provider_uploads :: "upload_binding_row list"
  sd_upload_parts :: "part_row list"
  sd_receipts :: "receipt_row list"
  sd_cleanup :: "cleanup_row list"
  sd_drawn :: nat

type_synonym 'a storage_op = "storage_db \<Rightarrow> (runtime_error + 'a) \<times> storage_db"

record storage_rls =
  rl_bucket_select :: "bucket_row \<Rightarrow> bool"
  rl_object_select :: "object_row \<Rightarrow> bool"
  rl_object_insert :: "object_row \<Rightarrow> bool"
  rl_object_update :: "object_row \<Rightarrow> object_row \<Rightarrow> bool"
  rl_object_delete :: "object_row \<Rightarrow> bool"
  rl_upload_select :: "upload_row \<Rightarrow> bool"
  rl_upload_insert :: "upload_row \<Rightarrow> bool"
  rl_upload_update :: "upload_row \<Rightarrow> upload_row \<Rightarrow> bool"
  rl_upload_delete :: "upload_row \<Rightarrow> bool"
  rl_version_insert :: "version_row \<Rightarrow> bool"

section \<open>SQL\<close>

definition i64_ok :: "int \<Rightarrow> bool" where
  "i64_ok i \<longleftrightarrow> i64_min \<le> i \<and> i \<le> i64_max"

text \<open>\<open>COALESCE(SUM(column),0)\<close> and \<open>+\<close>.\<close>

definition sql_sum :: "int list \<Rightarrow> runtime_error + int" where
  "sql_sum xs = (if i64_ok (sum_list xs) then Ok (sum_list xs) else Err Database)"

definition sql_add :: "int \<Rightarrow> int \<Rightarrow> runtime_error + int" where
  "sql_add a b = (if i64_ok (a + b) then Ok (a + b) else Err Database)"

definition i64_of_u64 :: "nat \<Rightarrow> runtime_error \<Rightarrow> runtime_error + int" where
  "i64_of_u64 n e = (if int n \<le> i64_max then Ok (int n) else Err e)"

definition u64_of_i64 :: "int \<Rightarrow> runtime_error + nat" where
  "u64_of_i64 i = (if 0 \<le> i then Ok (nat i) else Err Database)"

text \<open>\<open>Uuid::now_v7()\<close>.\<close>

definition draw :: "(nat \<Rightarrow> string) \<Rightarrow> string storage_op" where
  "draw uuid db = (Ok (uuid (sd_drawn db)), db\<lparr>sd_drawn := sd_drawn db + 1\<rparr>)"

section \<open>Actions\<close>

definition valid_storage_action :: "string \<Rightarrow> bool" where
  "valid_storage_action a \<longleftrightarrow> a \<in> {''upload'', ''download'', ''delete'', ''list'', ''create_multipart'', ''upload_part'',
     ''complete_multipart'', ''abort_multipart''}"

definition cleanup_required :: "string \<Rightarrow> bool" where
  "cleanup_required a \<longleftrightarrow> a \<in> {''upload'', ''create_multipart'', ''upload_part'', ''complete_multipart'', ''abort_multipart''}"

definition cleanup_target_present :: "string \<Rightarrow> string option \<Rightarrow> bool" where
  "cleanup_target_present a upload_id =
     (if a \<in> {''upload'', ''create_multipart'', ''complete_multipart''} then True
      else if a \<in> {''upload_part'', ''abort_multipart''} then upload_id \<noteq> None
      else False)"

definition enqueue_cleanup :: "(nat \<Rightarrow> string) \<Rightarrow> string \<Rightarrow> string \<Rightarrow> string option \<Rightarrow> int \<Rightarrow> unit storage_op" where
  "enqueue_cleanup uuid provider_key action upload_id now_ms db =
     (if provider_key = [] \<or> length provider_key > 1024 \<or> \<not> cleanup_required action then (Err StatementNotAllowed, db)
      else sbind (draw uuid) (\<lambda>i db'.
        if i \<in> cq_id ` set (sd_cleanup db') then (Err ConstraintViolation, db')
        else (Ok (), db'\<lparr>sd_cleanup := sd_cleanup db' @
          [\<lparr>cq_id = i, cq_provider_key = provider_key, cq_action = action, cq_upload_id = upload_id,
            cq_created_at_ms = now_ms, cq_available_at_ms = now_ms, cq_lease_token = None,
            cq_lease_expires_at_ms = None, cq_attempts = 0\<rparr>]\<rparr>)) db)"

section \<open>Objects\<close>

text \<open>\<open>DELETE FROM storage_objects WHERE id=?1\<close> through the view.\<close>

definition delete_objects :: "storage_rls \<Rightarrow> string \<Rightarrow> unit storage_op" where
  "delete_objects rls object_id db =
     (let hit = (\<lambda>o'. ob_id o' = object_id \<and> rl_object_select rls o')
      in if list_ex (\<lambda>o'. hit o' \<and> \<not> rl_object_delete rls o') (sd_objects db) then (Err ConstraintViolation, db)
         else (Ok (), db\<lparr>sd_objects := filter (\<lambda>o'. \<not> hit o') (sd_objects db),
                         sd_versions := filter (\<lambda>v. \<not> list_ex (\<lambda>o'. hit o' \<and> ob_id o' = vr_object_id v) (sd_objects db))
                           (sd_versions db)\<rparr>))"

text \<open>\<open>probe_write\<close>: the change is made and undone; only its error is seen.\<close>

definition probe :: "unit storage_op \<Rightarrow> unit storage_op" where
  "probe write db = (fst (write db), db)"

definition storage_probe_object_delete :: "(string \<Rightarrow> bool) \<Rightarrow> storage_rls \<Rightarrow> string \<Rightarrow> unit storage_op" where
  "storage_probe_object_delete is_uuid rls object_id db =
     (if \<not> is_uuid object_id then (Err StatementNotAllowed, db) else probe (delete_objects rls object_id) db)"

definition storage_delete_object :: "(string \<Rightarrow> bool) \<Rightarrow> storage_rls \<Rightarrow> string \<Rightarrow> unit storage_op" where
  "storage_delete_object is_uuid rls object_id db =
     (if \<not> is_uuid object_id then (Err StatementNotAllowed, db) else delete_objects rls object_id db)"

section \<open>Usage and reservations\<close>

record storage_totals =
  su_current_bytes :: nat
  su_reserved_bytes :: nat

definition used_bytes :: "storage_db \<Rightarrow> runtime_error + int" where
  "used_bytes db = sql_sum (map ob_size_bytes (sd_objects db))"

definition upload_bytes :: "storage_db \<Rightarrow> runtime_error + int" where
  "upload_bytes db = sql_sum (map ub_reserved_bytes (sd_provider_uploads db))"

definition storage_usage :: "int \<Rightarrow> storage_db \<Rightarrow> runtime_error + storage_totals" where
  "storage_usage now_ms db =
     bindr (used_bytes db) (\<lambda>current.
     bindr (sql_sum (map lr_bytes (filter (\<lambda>r. lr_expires_at_ms r > now_ms) (sd_reservations db)))) (\<lambda>pending.
     bindr (upload_bytes db) (\<lambda>uploads.
     bindr (u64_of_i64 current) (\<lambda>c.
     bindr (ok_or (checked_add_i64 pending uploads) Database) (\<lambda>sum.
     bindr (u64_of_i64 sum) (\<lambda>r.
     Ok \<lparr>su_current_bytes = c, su_reserved_bytes = r\<rparr>))))))"

definition live_reserved :: "string \<Rightarrow> int \<Rightarrow> storage_db \<Rightarrow> int list" where
  "live_reserved project now_ms db =
     map lr_bytes (filter (\<lambda>r. lr_project_id r = project \<and> lr_expires_at_ms r > now_ms) (sd_reservations db))"

text \<open>\<open>SELECT MIN(project_quota_bytes)\<close>: \<open>NULL\<close> when there is no bucket.\<close>

definition min_quota :: "storage_db \<Rightarrow> int option" where
  "min_quota db =
     (case map bk_project_quota_bytes (sd_buckets db) of [] \<Rightarrow> None | q # qs \<Rightarrow> Some (fold min qs q))"

text \<open>The checks of a reservation, from the conversion of the bytes to the comparison with the quota.\<close>

definition reservation_admitted :: "string \<Rightarrow> string \<Rightarrow> nat \<Rightarrow> int \<Rightarrow> storage_db \<Rightarrow> runtime_error + int" where
  "reservation_admitted project nonce bytes now_ms db =
     bindr (i64_of_u64 bytes StorageQuotaExceeded) (\<lambda>b.
     if list_ex (\<lambda>r. lr_project_id r = project \<and> lr_nonce r = nonce) (sd_reservations db)
     then Err StorageReservationDuplicate
     else bindr (ok_or (min_quota db) StorageQuotaExceeded) (\<lambda>quota.
       bindr (used_bytes db) (\<lambda>used.
       bindr (bindr (sql_sum (live_reserved project now_ms db)) (\<lambda>r. bindr (upload_bytes db) (sql_add r))) (\<lambda>reserved.
       case Option.bind (checked_add_i64 used reserved) (\<lambda>v. checked_add_i64 v b) of
         None \<Rightarrow> Err StorageQuotaExceeded
       | Some total_bytes \<Rightarrow> if total_bytes > quota then Err StorageQuotaExceeded else Ok b))))"

definition storage_reserve ::
    "string \<Rightarrow> string \<Rightarrow> string \<Rightarrow> string \<Rightarrow> nat \<Rightarrow> int \<Rightarrow> int \<Rightarrow> string \<Rightarrow> string \<Rightarrow> string option \<Rightarrow> unit storage_op" where
  "storage_reserve project subject token_id nonce bytes expires_at_ms now_ms provider_key action upload_id db =
     (if project = [] \<or> subject = [] \<or> token_id = [] \<or> length nonce < 16 \<or> length nonce > 128
         \<or> expires_at_ms \<le> now_ms \<or> provider_key = [] \<or> \<not> valid_storage_action action
      then (Err StatementNotAllowed, db)
      else
        (case reservation_admitted project nonce bytes now_ms db of
           Inl e \<Rightarrow> (Err e, db)
         | Inr b \<Rightarrow>
             (Ok (), db\<lparr>sd_reservations := sd_reservations db @
               [\<lparr>lr_project_id = project, lr_nonce = nonce, lr_subject = subject, lr_token_id = token_id, lr_bytes = b,
                 lr_expires_at_ms = expires_at_ms, lr_provider_key = Some provider_key, lr_action = Some action,
                 lr_upload_id = upload_id\<rparr>]\<rparr>)))"

text \<open>A \<open>DELETE\<close> that must remove exactly one row.\<close>

definition delete_one :: "(reservation_row \<Rightarrow> bool) \<Rightarrow> unit storage_op" where
  "delete_one P db =
     (let db' = db\<lparr>sd_reservations := filter (\<lambda>r. \<not> P r) (sd_reservations db)\<rparr>
      in (if length (filter P (sd_reservations db)) = 1 then Ok () else Err StorageReservationMismatch, db'))"

definition storage_consume_reservation ::
    "string \<Rightarrow> string \<Rightarrow> string \<Rightarrow> string \<Rightarrow> nat \<Rightarrow> int \<Rightarrow> int \<Rightarrow> string \<Rightarrow> string \<Rightarrow> string option \<Rightarrow> unit storage_op" where
  "storage_consume_reservation project subject token_id nonce expected_bytes expected_expires now_ms provider_key
     action upload_id db =
     (case i64_of_u64 expected_bytes StorageReservationMismatch of
        Inl e \<Rightarrow> (Err e, db)
      | Inr b \<Rightarrow>
          delete_one (\<lambda>r. lr_project_id r = project \<and> lr_nonce r = nonce \<and> lr_subject r = subject
            \<and> lr_token_id r = token_id \<and> lr_bytes r = b \<and> lr_expires_at_ms r = expected_expires
            \<and> lr_expires_at_ms r > now_ms \<and> lr_provider_key r = Some provider_key \<and> lr_action r = Some action
            \<and> lr_upload_id r = upload_id) db)"

text \<open>The cleanup of one expired reservation.\<close>

definition expire_reservation :: "(nat \<Rightarrow> string) \<Rightarrow> int \<Rightarrow> reservation_row \<Rightarrow> unit storage_op" where
  "expire_reservation uuid now_ms r =
     sbind (case (lr_provider_key r, lr_action r) of
          (Some key, Some action) \<Rightarrow>
            if cleanup_target_present action (lr_upload_id r)
            then enqueue_cleanup uuid key action (lr_upload_id r) now_ms else sok ()
        | _ \<Rightarrow> sok ()) (\<lambda>_.
     delete_one (\<lambda>x. lr_project_id x = lr_project_id r \<and> lr_nonce x = lr_nonce r \<and> lr_expires_at_ms x \<le> now_ms))"

definition expire_upload :: "(nat \<Rightarrow> string) \<Rightarrow> int \<Rightarrow> string \<times> string \<Rightarrow> unit storage_op" where
  "expire_upload uuid now_ms entry =
     (let (upload_id, provider_key) = entry
      in sbind (enqueue_cleanup uuid provider_key ''abort_multipart'' (Some upload_id) now_ms) (\<lambda>_ db.
         (Ok (), db\<lparr>sd_upload_parts := filter (\<lambda>p. pt_upload_id p \<noteq> upload_id) (sd_upload_parts db),
                    sd_provider_uploads := filter (\<lambda>b. ub_upload_id b \<noteq> upload_id) (sd_provider_uploads db),
                    sd_uploads := filter (\<lambda>u. up_id u \<noteq> upload_id) (sd_uploads db)\<rparr>)))"

text \<open>The join of the uploads with their provider bindings.\<close>

definition expired_uploads :: "int \<Rightarrow> nat \<Rightarrow> storage_db \<Rightarrow> (string \<times> string) list" where
  "expired_uploads now_ms limit db =
     take limit (map (\<lambda>(u, b). (up_id u, ub_provider_key b))
       (sort_key (\<lambda>(u, b). (up_expires_at_ms u, up_id u))
         (concat (map (\<lambda>u. map (Pair u) (filter (\<lambda>b. ub_upload_id b = up_id u) (sd_provider_uploads db)))
           (filter (\<lambda>u. up_expires_at_ms u \<le> now_ms) (sd_uploads db))))))"

definition expired_reservations :: "int \<Rightarrow> nat \<Rightarrow> storage_db \<Rightarrow> reservation_row list" where
  "expired_reservations now_ms limit db =
     take limit (sort_key (\<lambda>r. (lr_expires_at_ms r, lr_nonce r))
       (filter (\<lambda>r. lr_expires_at_ms r \<le> now_ms) (sd_reservations db)))"

text \<open>The second half: expired uploads, then expired receipts. \<open>n\<close> reservations were removed before.\<close>

definition expire_rest :: "(nat \<Rightarrow> string) \<Rightarrow> int \<Rightarrow> nat \<Rightarrow> nat \<Rightarrow> nat storage_op" where
  "expire_rest uuid now_ms limit n db =
     sbind (sfor (expired_uploads now_ms limit db) (expire_upload uuid now_ms)) (\<lambda>_ db'.
       (Ok n, db'\<lparr>sd_receipts := filter (\<lambda>r. \<not> cr_expires_at_ms r \<le> now_ms) (sd_receipts db')\<rparr>)) db"

definition storage_prepare_expired_cleanup :: "(nat \<Rightarrow> string) \<Rightarrow> int \<Rightarrow> nat \<Rightarrow> nat storage_op" where
  "storage_prepare_expired_cleanup uuid now_ms limit db =
     (if limit = 0 \<or> limit > 100 then (Err StatementNotAllowed, db)
      else
        (let rs = expired_reservations now_ms limit db
         in sbind (sfor rs (expire_reservation uuid now_ms)) (\<lambda>_. expire_rest uuid now_ms limit (length rs)) db))"

definition storage_cleanup_expired_reservations :: "(nat \<Rightarrow> string) \<Rightarrow> int \<Rightarrow> nat storage_op" where
  "storage_cleanup_expired_reservations uuid now_ms = storage_prepare_expired_cleanup uuid now_ms 100"

text \<open>The columns \<open>provider_key\<close> and \<open>action\<close> are read as text: a row of a database older than them
  fails the statement.\<close>

definition storage_release_reservation_bound ::
    "(nat \<Rightarrow> string) \<Rightarrow> string \<Rightarrow> string \<Rightarrow> string \<Rightarrow> string \<Rightarrow> nat \<Rightarrow> int \<Rightarrow> int \<Rightarrow> unit storage_op" where
  "storage_release_reservation_bound uuid project subject token_id nonce expected_bytes expected_expires now_ms db =
     (case i64_of_u64 expected_bytes StorageReservationMismatch of
        Inl e \<Rightarrow> (Err e, db)
      | Inr b \<Rightarrow>
          (let bound = (\<lambda>r. lr_project_id r = project \<and> lr_nonce r = nonce \<and> lr_subject r = subject
                 \<and> lr_token_id r = token_id \<and> lr_bytes r = b \<and> lr_expires_at_ms r = expected_expires)
           in case find (\<lambda>r. bound r \<and> lr_expires_at_ms r > now_ms) (sd_reservations db) of
                None \<Rightarrow> (Err StorageReservationMismatch, db)
              | Some r \<Rightarrow>
                  (case (lr_provider_key r, lr_action r) of
                     (Some key, Some action) \<Rightarrow>
                       sbind (if cleanup_target_present action (lr_upload_id r)
                              then enqueue_cleanup uuid key action (lr_upload_id r) now_ms else sok ()) (\<lambda>_.
                       delete_one bound) db
                   | _ \<Rightarrow> (Err Database, db))))"

section \<open>Commit receipts\<close>

definition storage_record_commit_receipt ::
    "string \<Rightarrow> string \<Rightarrow> string \<Rightarrow> string \<Rightarrow> string \<Rightarrow> string \<Rightarrow> string \<Rightarrow> int \<Rightarrow> int \<Rightarrow> unit storage_op" where
  "storage_record_commit_receipt project nonce subject token_id binding_digest commit_digest result_json
     committed_at_ms expires_at_ms db =
     (if expires_at_ms \<le> committed_at_ms \<or> length result_json > 8192 then (Err StatementNotAllowed, db)
      else if list_ex (\<lambda>r. cr_project_id r = project \<and> cr_nonce r = nonce) (sd_receipts db)
      then (Err ConstraintViolation, db)
      else (Ok (), db\<lparr>sd_receipts := sd_receipts db @
        [\<lparr>cr_project_id = project, cr_nonce = nonce, cr_subject = subject, cr_token_id = token_id,
          cr_binding_digest = binding_digest, cr_commit_digest = commit_digest, cr_result_json = result_json,
          cr_committed_at_ms = committed_at_ms, cr_expires_at_ms = expires_at_ms\<rparr>]\<rparr>))"

definition storage_commit_receipt ::
    "string \<Rightarrow> string \<Rightarrow> string \<Rightarrow> string \<Rightarrow> string \<Rightarrow> int \<Rightarrow> storage_db \<Rightarrow> runtime_error + (string \<times> string) option" where
  "storage_commit_receipt project nonce subject token_id binding_digest now_ms db =
     (case find (\<lambda>r. cr_project_id r = project \<and> cr_nonce r = nonce) (sd_receipts db) of
        None \<Rightarrow> Ok None
      | Some r \<Rightarrow>
          if cr_subject r \<noteq> subject \<or> cr_token_id r \<noteq> token_id \<or> cr_binding_digest r \<noteq> binding_digest
             \<or> cr_expires_at_ms r \<le> now_ms
          then Err StorageReservationMismatch
          else Ok (Some (cr_commit_digest r, cr_result_json r)))"

section \<open>The cleanup queue\<close>

definition max_cleanup_attempts :: int where "max_cleanup_attempts = 12"

record cleanup_item =
  ci_id :: string
  ci_provider_key :: string
  ci_action :: string
  ci_upload_id :: "string option"
  ci_lease_token :: string
  ci_attempt :: nat
  ci_lease_expires_at_ms :: int

datatype cleanup_disposition = Deleted | Retry

text \<open>Available, and not leased or with a lease that ran out.\<close>

definition leasable :: "int \<Rightarrow> cleanup_row \<Rightarrow> bool" where
  "leasable now_ms q \<longleftrightarrow> cq_available_at_ms q \<le> now_ms
     \<and> (cq_lease_token q = None \<or> (case cq_lease_expires_at_ms q of None \<Rightarrow> False | Some e \<Rightarrow> e \<le> now_ms))"

definition cleanup_candidates :: "int \<Rightarrow> nat \<Rightarrow> storage_db \<Rightarrow> cleanup_row list" where
  "cleanup_candidates now_ms limit db =
     take limit (sort_key (\<lambda>q. (cq_available_at_ms q, cq_created_at_ms q, cq_id q))
       (filter (\<lambda>q. leasable now_ms q \<and> cq_attempts q < max_cleanup_attempts) (sd_cleanup db)))"

definition update_cleanup :: "(cleanup_row \<Rightarrow> bool) \<Rightarrow> (cleanup_row \<Rightarrow> cleanup_row) \<Rightarrow> nat storage_op" where
  "update_cleanup P f db =
     (Ok (length (filter P (sd_cleanup db))),
      db\<lparr>sd_cleanup := map (\<lambda>q. if P q then f q else q) (sd_cleanup db)\<rparr>)"

definition next_attempt :: "cleanup_row \<Rightarrow> int" where
  "next_attempt q = min (saturating_add_i64 (cq_attempts q) 1) max_cleanup_attempts"

definition claim_one :: "(nat \<Rightarrow> string) \<Rightarrow> int \<Rightarrow> int \<Rightarrow> cleanup_row \<Rightarrow> cleanup_item storage_op" where
  "claim_one uuid now_ms lease_expires q =
     sbind (draw uuid) (\<lambda>token.
     sbind (update_cleanup (\<lambda>x. cq_id x = cq_id q \<and> leasable now_ms x)
        (\<lambda>x. x\<lparr>cq_lease_token := Some token, cq_lease_expires_at_ms := Some lease_expires, cq_attempts := next_attempt q\<rparr>))
       (\<lambda>updated. slift (if updated \<noteq> 1 then Err StorageReservationMismatch
         else Ok \<lparr>ci_id = cq_id q, ci_provider_key = cq_provider_key q, ci_action = cq_action q,
           ci_upload_id = cq_upload_id q, ci_lease_token = token, ci_attempt = nat (next_attempt q),
           ci_lease_expires_at_ms = lease_expires\<rparr>)))"

fun claim_all :: "(nat \<Rightarrow> string) \<Rightarrow> int \<Rightarrow> int \<Rightarrow> cleanup_row list \<Rightarrow> cleanup_item list storage_op" where
  "claim_all uuid now_ms lease_expires [] = sok []"
| "claim_all uuid now_ms lease_expires (q # qs) =
     sbind (claim_one uuid now_ms lease_expires q) (\<lambda>i.
     sbind (claim_all uuid now_ms lease_expires qs) (\<lambda>is. sok (i # is)))"

definition storage_claim_cleanup :: "(nat \<Rightarrow> string) \<Rightarrow> int \<Rightarrow> nat \<Rightarrow> int \<Rightarrow> cleanup_item list storage_op" where
  "storage_claim_cleanup uuid now_ms limit lease_duration_ms db =
     (if limit = 0 \<or> limit > 100 \<or> lease_duration_ms < 1000 \<or> lease_duration_ms > 15 * 60 * 1000
      then (Err StatementNotAllowed, db)
      else claim_all uuid now_ms (saturating_add_i64 now_ms lease_duration_ms) (cleanup_candidates now_ms limit db) db)"

text \<open>\<open>u32::try_from(attempts.saturating_sub(1)).unwrap_or(u32::MAX).min(12)\<close> is the exponent.\<close>

definition backoff_exponent :: "int \<Rightarrow> nat" where
  "backoff_exponent attempts =
     (let previous = saturating_sub_i64 attempts 1
      in min (if 0 \<le> previous \<and> previous \<le> int u32_max then nat previous else u32_max) 12)"

definition backoff_ms :: "int \<Rightarrow> int" where
  "backoff_ms attempts = min (1000 * 2 ^ backoff_exponent attempts) 3600000"

definition ack_one :: "int \<Rightarrow> string \<times> string \<times> cleanup_disposition \<Rightarrow> unit storage_op" where
  "ack_one now_ms entry db =
     (let (item_id, token, outcome) = entry;
          mine = (\<lambda>q. cq_id q = item_id \<and> cq_lease_token q = Some token)
      in case outcome of
           Deleted \<Rightarrow>
             (if length (filter mine (sd_cleanup db)) \<noteq> 1 then Err StorageReservationMismatch else Ok (),
              db\<lparr>sd_cleanup := filter (\<lambda>q. \<not> mine q) (sd_cleanup db)\<rparr>)
         | Retry \<Rightarrow>
             (case find mine (sd_cleanup db) of
                None \<Rightarrow> (Err StorageReservationMismatch, db)
              | Some q \<Rightarrow>
                  sbind (update_cleanup mine (\<lambda>x. x\<lparr>cq_available_at_ms := saturating_add_i64 now_ms (backoff_ms (cq_attempts q)),
                      cq_lease_token := None, cq_lease_expires_at_ms := None\<rparr>))
                    (\<lambda>changed. slift (if changed \<noteq> 1 then Err StorageReservationMismatch else Ok ())) db))"

definition storage_ack_cleanup ::
    "int \<Rightarrow> (string \<times> string \<times> cleanup_disposition) list \<Rightarrow> (nat \<times> nat) storage_op" where
  "storage_ack_cleanup now_ms dispositions db =
     (if dispositions = [] \<or> length dispositions > 100 then (Err StatementNotAllowed, db)
      else sbind (sfor dispositions (ack_one now_ms)) (\<lambda>_.
        sok (length (filter (\<lambda>(_, _, d). d = Deleted) dispositions),
             length (filter (\<lambda>(_, _, d). d = Retry) dispositions))) db)"

definition storage_enqueue_provider_cleanup ::
    "(nat \<Rightarrow> string) \<Rightarrow> string \<Rightarrow> string \<Rightarrow> string option \<Rightarrow> int \<Rightarrow> unit storage_op" where
  "storage_enqueue_provider_cleanup uuid provider_key action upload_id now_ms =
     enqueue_cleanup uuid provider_key action upload_id now_ms"

section \<open>Provider keys\<close>

definition storage_provider_key :: "string \<Rightarrow> storage_db \<Rightarrow> string option" where
  "storage_provider_key object_id db = map_of (sd_provider_objects db) object_id"

text \<open>\<open>INSERT ... ON CONFLICT(object_id) DO UPDATE\<close>; \<open>provider_key\<close> is unique.\<close>

definition storage_set_provider_key :: "string \<Rightarrow> string \<Rightarrow> unit storage_op" where
  "storage_set_provider_key object_id provider_key db =
     (if list_ex (\<lambda>(o', k). o' \<noteq> object_id \<and> k = provider_key) (sd_provider_objects db) then (Err ConstraintViolation, db)
      else (Ok (), db\<lparr>sd_provider_objects := hm_insert object_id provider_key (sd_provider_objects db)\<rparr>))"

definition storage_remove_provider_key :: "string \<Rightarrow> unit storage_op" where
  "storage_remove_provider_key object_id db =
     (Ok (), db\<lparr>sd_provider_objects := hm_remove object_id (sd_provider_objects db)\<rparr>)"

definition storage_upload_provider_key :: "string \<Rightarrow> storage_db \<Rightarrow> string option" where
  "storage_upload_provider_key upload_id db =
     map_option ub_provider_key (find (\<lambda>b. ub_upload_id b = upload_id) (sd_provider_uploads db))"

record provider_upload_binding =
  pb_provider_key :: string
  pb_reserved_bytes :: nat
  pb_replacement_fingerprint :: "string option"

definition storage_upload_provider_binding :: "string \<Rightarrow> storage_db \<Rightarrow> runtime_error + provider_upload_binding option" where
  "storage_upload_provider_binding upload_id db =
     (case find (\<lambda>b. ub_upload_id b = upload_id) (sd_provider_uploads db) of
        None \<Rightarrow> Ok None
      | Some b \<Rightarrow> bindr (u64_of_i64 (ub_reserved_bytes b)) (\<lambda>n.
          Ok (Some \<lparr>pb_provider_key = ub_provider_key b, pb_reserved_bytes = n,
            pb_replacement_fingerprint = ub_replacement_fingerprint b\<rparr>)))"

definition put_binding :: "upload_binding_row \<Rightarrow> upload_binding_row list \<Rightarrow> upload_binding_row list" where
  "put_binding b bs =
     (if list_ex (\<lambda>x. ub_upload_id x = ub_upload_id b) bs
      then map (\<lambda>x. if ub_upload_id x = ub_upload_id b then b else x) bs else bs @ [b])"

definition storage_set_upload_provider_binding :: "string \<Rightarrow> string \<Rightarrow> nat \<Rightarrow> string option \<Rightarrow> unit storage_op" where
  "storage_set_upload_provider_binding upload_id provider_key reserved_bytes fingerprint db =
     (case i64_of_u64 reserved_bytes StorageQuotaExceeded of
        Inl e \<Rightarrow> (Err e, db)
      | Inr n \<Rightarrow>
          if list_ex (\<lambda>x. ub_upload_id x \<noteq> upload_id \<and> ub_provider_key x = provider_key) (sd_provider_uploads db)
          then (Err ConstraintViolation, db)
          else (Ok (), db\<lparr>sd_provider_uploads := put_binding
            \<lparr>ub_upload_id = upload_id, ub_provider_key = provider_key, ub_reserved_bytes = n,
             ub_replacement_fingerprint = fingerprint\<rparr> (sd_provider_uploads db)\<rparr>))"

definition storage_set_upload_provider_key :: "string \<Rightarrow> string \<Rightarrow> unit storage_op" where
  "storage_set_upload_provider_key upload_id provider_key =
     storage_set_upload_provider_binding upload_id provider_key 0 None"

definition storage_remove_upload_provider_key :: "string \<Rightarrow> unit storage_op" where
  "storage_remove_upload_provider_key upload_id db =
     (Ok (), db\<lparr>sd_provider_uploads := filter (\<lambda>b. ub_upload_id b \<noteq> upload_id) (sd_provider_uploads db)\<rparr>)"

definition put_part :: "part_row \<Rightarrow> part_row list \<Rightarrow> part_row list" where
  "put_part p ps =
     (let same = (\<lambda>x. pt_upload_id x = pt_upload_id p \<and> pt_part_number x = pt_part_number p)
      in if list_ex same ps then map (\<lambda>x. if same x then p else x) ps else ps @ [p])"

definition storage_store_upload_part ::
    "string \<Rightarrow> nat \<Rightarrow> nat option \<Rightarrow> string option \<Rightarrow> string option \<Rightarrow> unit storage_op" where
  "storage_store_upload_part upload_id part_number size_bytes checksum etag db =
     (if part_number < 1 \<or> part_number > 10000 then (Err StatementNotAllowed, db)
      else case (case size_bytes of None \<Rightarrow> Ok None
                 | Some n \<Rightarrow> bindr (i64_of_u64 n StorageQuotaExceeded) (\<lambda>i. Ok (Some i))) of
        Inl e \<Rightarrow> (Err e, db)
      | Inr sz \<Rightarrow>
          (Ok (), db\<lparr>sd_upload_parts := put_part
            \<lparr>pt_upload_id = upload_id, pt_part_number = part_number, pt_size_bytes = sz,
             pt_checksum_sha256 = checksum, pt_etag = etag\<rparr> (sd_upload_parts db)\<rparr>))"

definition storage_remove_upload_parts :: "string \<Rightarrow> unit storage_op" where
  "storage_remove_upload_parts upload_id db =
     (Ok (), db\<lparr>sd_upload_parts := filter (\<lambda>p. pt_upload_id p \<noteq> upload_id) (sd_upload_parts db)\<rparr>)"

end
