(* ===== verification/Storage_Metadata.thy ===== *)
theory Storage_Metadata
  imports Storage_Gateway Storage_Ledger
begin

text \<open>
  \<open>apps/database-worker/src/storage.rs\<close>: the metadata store of the storage gateway
  (\<open>SqliteMetadataAuthorizer\<close>) over the durable ledger. It decides an action under the user's
  row-level-security policies, reserves quota, commits exactly the reserved operation together with a
  receipt, releases and cleans up, and lists objects by signed cursors.

  Serde's JSON, SHA-256, HMAC, base64 and the parser of UUIDs are code outside the repository
  (record \<open>worker_env\<close>). \<open>we_rls\<close> gives the policies of a user. A session's own limits and deadlines
  are those of the SQLite session component; here a callback runs to its result, \<open>atomic\<close> undoes the
  changes of one that fails, and the store's clock \<open>now_ms\<close> is an argument.
\<close>

section \<open>Environment\<close>

record list_cursor =
  lc_project_id :: string
  lc_subject :: string
  lc_token_id :: string
  lc_scope_fingerprint :: string
  lc_bucket :: string
  lc_prefix :: string
  lc_object_key :: string
  lc_id :: string

text \<open>The fields of the JSON object a commit binding is the digest of.\<close>

record binding_payload =
  bp_project_id :: string
  bp_subject :: string
  bp_token_id :: string
  bp_bucket :: string
  bp_object_key :: string
  bp_provider_key :: string
  bp_action :: string
  bp_content_length :: "nat option"
  bp_checksum_sha256 :: "string option"
  bp_content_type :: "string option"
  bp_upload_id :: "string option"
  bp_part_number :: "nat option"
  bp_reservation_nonce :: string
  bp_reservation_bytes :: nat
  bp_reservation_expires_at_ms :: int
  bp_replacement_fingerprint :: "string option"

record worker_env =
  we_uuid :: "nat \<Rightarrow> string"
  we_parse_uuid :: "string \<Rightarrow> string option"
  we_rls :: "auth_context \<Rightarrow> storage_rls"
  we_sha256 :: "string \<Rightarrow> string"
  we_hmac :: "string \<Rightarrow> string \<Rightarrow> string"
  we_b64_encode :: "string \<Rightarrow> string"
  we_b64_decode :: "string \<Rightarrow> string option"
  we_cursor_json :: "list_cursor \<Rightarrow> string"
  we_cursor_parse :: "string \<Rightarrow> list_cursor option"
  we_fingerprint_json :: "string \<times> string \<times> string \<times> nat \<times> string \<Rightarrow> string"
  we_binding_json :: "binding_payload \<Rightarrow> string"
  we_result_digest_json :: "string \<Rightarrow> storage_commit_result \<Rightarrow> string"
  we_result_json :: "storage_commit_result \<Rightarrow> string"
  we_result_parse :: "string \<Rightarrow> storage_commit_result option"
  we_scope_json :: "string \<Rightarrow> json_map \<Rightarrow> string"

record metadata_config =
  mc_project_id :: string
  mc_secret :: string

definition is_uuid :: "worker_env \<Rightarrow> string \<Rightarrow> bool" where
  "is_uuid env s \<longleftrightarrow> we_parse_uuid env s \<noteq> None"

section \<open>Cursors and fingerprints\<close>

definition cursor_codec_new :: "string \<Rightarrow> storage_error + string" where
  "cursor_codec_new secret = (if length secret < 32 then Err Sto_Internal else Ok secret)"

definition max_list_cursor_bytes :: nat where "max_list_cursor_bytes = 4096"

definition cursor_encode :: "worker_env \<Rightarrow> string \<Rightarrow> list_cursor \<Rightarrow> storage_error + string" where
  "cursor_encode env secret cursor =
     (let payload = we_cursor_json env cursor;
          encoded = we_b64_encode env payload @ ''.'' @ we_b64_encode env (we_hmac env secret payload)
      in if length encoded > max_list_cursor_bytes then Err Sto_Internal else Ok encoded)"

definition cursor_decode :: "worker_env \<Rightarrow> string \<Rightarrow> string \<Rightarrow> storage_error + list_cursor" where
  "cursor_decode env secret cursor =
     (if cursor = [] \<or> length cursor > max_list_cursor_bytes then Err InvalidGrant
      else case split_once CHR ''.'' cursor of
        None \<Rightarrow> Err InvalidGrant
      | Some (payload64, signature64) \<Rightarrow>
          if CHR ''.'' \<in> set signature64 then Err InvalidGrant
          else bindr (ok_or (we_b64_decode env payload64) InvalidGrant) (\<lambda>payload.
            bindr (ok_or (we_b64_decode env signature64) InvalidGrant) (\<lambda>signature.
            if signature \<noteq> we_hmac env secret payload then Err InvalidGrant
            else ok_or (we_cursor_parse env payload) InvalidGrant)))"

record object_metadata =
  om_id :: string
  om_size_bytes :: nat

definition replacement_fingerprint ::
    "worker_env \<Rightarrow> metadata_config \<Rightarrow> string \<Rightarrow> object_metadata \<Rightarrow> string \<Rightarrow> string" where
  "replacement_fingerprint env cfg bucket_id object provider_key =
     we_b64_encode env (we_hmac env (mc_secret cfg)
       (we_fingerprint_json env (mc_project_id cfg, bucket_id, om_id object, om_size_bytes object, provider_key)))"

definition scope_fingerprint :: "worker_env \<Rightarrow> auth_context \<Rightarrow> string" where
  "scope_fingerprint env auth = concat (map hex_byte (we_sha256 env (we_scope_json env (ac_role auth) (ac_claims auth))))"

definition provider_object_key :: "string \<Rightarrow> string \<Rightarrow> string \<Rightarrow> string" where
  "provider_object_key project_id bucket_id object_id =
     ''projects/'' @ project_id @ ''/buckets/'' @ bucket_id @ ''/objects/'' @ object_id"

fun storage_action_name :: "storage_action \<Rightarrow> string" where
  "storage_action_name Upload = ''upload''"
| "storage_action_name Download = ''download''"
| "storage_action_name Act_Delete = ''delete''"
| "storage_action_name Act_List = ''list''"
| "storage_action_name CreateMultipart = ''create_multipart''"
| "storage_action_name UploadPart = ''upload_part''"
| "storage_action_name CompleteMultipart = ''complete_multipart''"
| "storage_action_name AbortMultipart = ''abort_multipart''"

definition protocol_storage_action :: "string \<Rightarrow> runtime_error + storage_action" where
  "protocol_storage_action a =
     ok_or (find (\<lambda>x. storage_action_name x = a)
       [Upload, Download, Act_Delete, Act_List, CreateMultipart, UploadPart, CompleteMultipart, AbortMultipart]) Database"

fun map_runtime :: "runtime_error \<Rightarrow> storage_error" where
  "map_runtime StorageQuotaExceeded = ProjectQuotaExceeded"
| "map_runtime StorageReservationDuplicate = DuplicateReservation"
| "map_runtime StorageReservationMismatch = Sto_Internal"
| "map_runtime StatementNotAllowed = RlsDenied"
| "map_runtime ConstraintViolation = RlsDenied"
| "map_runtime Database = RlsDenied"
| "map_runtime _ = Sto_Internal"

section \<open>Sessions\<close>

text \<open>\<open>Session::atomic\<close>: a failed callback leaves the tables as they were; drawn UUIDs stay drawn.\<close>

definition atomically :: "'a storage_op \<Rightarrow> 'a storage_op" where
  "atomically callback db =
     (case callback db of
        (Inl e, db') \<Rightarrow> (Err e, db\<lparr>sd_drawn := sd_drawn db'\<rparr>)
      | (Inr v, db') \<Rightarrow> (Ok v, db'))"

definition check_project :: "metadata_config \<Rightarrow> auth_context \<Rightarrow> storage_error + unit" where
  "check_project cfg auth = (if ac_project_id auth \<noteq> mc_project_id cfg then Err RlsDenied else Ok ())"

definition with_user ::
    "metadata_config \<Rightarrow> auth_context \<Rightarrow> 'a storage_op \<Rightarrow> storage_db \<Rightarrow> (storage_error + 'a) \<times> storage_db" where
  "with_user cfg auth callback db =
     (case check_project cfg auth of
        Inl e \<Rightarrow> (Err e, db)
      | Inr _ \<Rightarrow> (let (r, db') = callback db in (map_err map_runtime r, db')))"

definition with_maintenance :: "'a storage_op \<Rightarrow> storage_db \<Rightarrow> (storage_error + 'a) \<times> storage_db" where
  "with_maintenance callback db = (let (r, db') = callback db in (map_err map_runtime r, db'))"

section \<open>Statements on the metadata tables\<close>

definition integer :: "nat option \<Rightarrow> runtime_error + int" where
  "integer v = bindr (ok_or v StatementNotAllowed) (\<lambda>n. i64_of_u64 n StorageQuotaExceeded)"

definition optional_integer :: "nat option \<Rightarrow> runtime_error + int option" where
  "optional_integer v =
     (case v of None \<Rightarrow> Ok None | Some n \<Rightarrow> bindr (i64_of_u64 n StorageQuotaExceeded) (\<lambda>i. Ok (Some i)))"

record bucket_metadata =
  bm_id :: string
  bm_max_object_bytes :: nat
  bm_project_quota_bytes :: nat

record upload_metadata =
  um_id :: string
  um_owner_id :: string
  um_expected_size_bytes :: "nat option"
  um_checksum_sha256 :: "string option"
  um_content_type :: "string option"
  um_status :: string

definition load_bucket :: "storage_rls \<Rightarrow> string \<Rightarrow> storage_db \<Rightarrow> runtime_error + bucket_metadata" where
  "load_bucket rls name db =
     bindr (ok_or (find (\<lambda>b. bk_name b = name \<and> rl_bucket_select rls b) (sd_buckets db)) StatementNotAllowed) (\<lambda>b.
     bindr (u64_of_i64 (bk_max_object_bytes b)) (\<lambda>mx.
     bindr (u64_of_i64 (bk_project_quota_bytes b)) (\<lambda>quota.
     Ok \<lparr>bm_id = bk_id b, bm_max_object_bytes = mx, bm_project_quota_bytes = quota\<rparr>)))"

definition load_object :: "storage_rls \<Rightarrow> string \<Rightarrow> string \<Rightarrow> storage_db \<Rightarrow> runtime_error + object_metadata option" where
  "load_object rls bucket_id object_key db =
     (case find (\<lambda>o'. ob_bucket_id o' = bucket_id \<and> ob_object_key o' = object_key \<and> rl_object_select rls o')
          (sd_objects db) of
        None \<Rightarrow> Ok None
      | Some o' \<Rightarrow> bindr (u64_of_i64 (ob_size_bytes o')) (\<lambda>n. Ok (Some \<lparr>om_id = ob_id o', om_size_bytes = n\<rparr>)))"

definition nullable_unsigned :: "int option \<Rightarrow> runtime_error + nat option" where
  "nullable_unsigned v = (case v of None \<Rightarrow> Ok None | Some i \<Rightarrow> bindr (u64_of_i64 i) (\<lambda>n. Ok (Some n)))"

definition load_upload ::
    "storage_rls \<Rightarrow> string \<Rightarrow> string \<Rightarrow> string \<Rightarrow> storage_db \<Rightarrow> runtime_error + upload_metadata option" where
  "load_upload rls upload_id bucket_id object_key db =
     (case find (\<lambda>u. up_id u = upload_id \<and> up_bucket_id u = bucket_id \<and> up_object_key u = object_key
          \<and> rl_upload_select rls u) (sd_uploads db) of
        None \<Rightarrow> Ok None
      | Some u \<Rightarrow> bindr (nullable_unsigned (up_expected_size_bytes u)) (\<lambda>n.
          Ok (Some \<lparr>um_id = up_id u, um_owner_id = up_owner_id u, um_expected_size_bytes = n,
            um_checksum_sha256 = up_checksum_sha256 u, um_content_type = up_content_type u, um_status = up_status u\<rparr>)))"

definition load_committed_upload ::
    "storage_rls \<Rightarrow> bucket_metadata \<Rightarrow> storage_metadata_commit \<Rightarrow> storage_db \<Rightarrow> runtime_error + upload_metadata" where
  "load_committed_upload rls bucket rq db =
     bindr (ok_or (sm_upload_id rq) StatementNotAllowed) (\<lambda>upload_id.
     bindr (load_upload rls upload_id (bm_id bucket) (sm_object_key rq) db) (\<lambda>u.
     case u of
       Some upload \<Rightarrow> if um_owner_id upload = ac_subject (sm_auth rq) then Ok upload else Err StatementNotAllowed
     | None \<Rightarrow> Err StatementNotAllowed))"

definition verify_upload_provider ::
    "upload_metadata \<Rightarrow> string \<Rightarrow> storage_db \<Rightarrow> runtime_error + provider_upload_binding" where
  "verify_upload_provider upload provider_key db =
     bindr (storage_upload_provider_binding (um_id upload) db) (\<lambda>b.
     bindr (ok_or b Database) (\<lambda>expected.
     if pb_provider_key expected \<noteq> provider_key then Err StatementNotAllowed else Ok expected))"

definition insert_upload :: "storage_rls \<Rightarrow> upload_row \<Rightarrow> unit storage_op" where
  "insert_upload rls u db =
     (if \<not> rl_upload_insert rls u \<or> up_id u \<in> up_id ` set (sd_uploads db)
         \<or> up_bucket_id u \<notin> bk_id ` set (sd_buckets db)
      then (Err ConstraintViolation, db)
      else (Ok (), db\<lparr>sd_uploads := sd_uploads db @ [u]\<rparr>))"

definition set_upload_status :: "storage_rls \<Rightarrow> string \<Rightarrow> string \<Rightarrow> unit storage_op" where
  "set_upload_status rls upload_id status db =
     (let hit = (\<lambda>u. up_id u = upload_id \<and> rl_upload_select rls u)
      in if list_ex (\<lambda>u. hit u \<and> \<not> rl_upload_update rls u (u\<lparr>up_status := status\<rparr>)) (sd_uploads db)
         then (Err ConstraintViolation, db)
         else (Ok (), db\<lparr>sd_uploads := map (\<lambda>u. if hit u then u\<lparr>up_status := status\<rparr> else u) (sd_uploads db)\<rparr>))"

definition delete_uploads :: "storage_rls \<Rightarrow> string \<Rightarrow> unit storage_op" where
  "delete_uploads rls upload_id db =
     (let hit = (\<lambda>u. up_id u = upload_id \<and> rl_upload_select rls u)
      in if list_ex (\<lambda>u. hit u \<and> \<not> rl_upload_delete rls u) (sd_uploads db) then (Err ConstraintViolation, db)
         else (Ok (), db\<lparr>sd_uploads := filter (\<lambda>u. \<not> hit u) (sd_uploads db)\<rparr>))"

definition insert_object :: "storage_rls \<Rightarrow> object_row \<Rightarrow> unit storage_op" where
  "insert_object rls o' db =
     (if \<not> rl_object_insert rls o' \<or> ob_id o' \<in> ob_id ` set (sd_objects db)
         \<or> list_ex (\<lambda>x. ob_bucket_id x = ob_bucket_id o' \<and> ob_object_key x = ob_object_key o') (sd_objects db)
         \<or> ob_bucket_id o' \<notin> bk_id ` set (sd_buckets db)
      then (Err ConstraintViolation, db)
      else (Ok (), db\<lparr>sd_objects := sd_objects db @ [o']\<rparr>))"

definition update_objects :: "storage_rls \<Rightarrow> string \<Rightarrow> (object_row \<Rightarrow> object_row) \<Rightarrow> unit storage_op" where
  "update_objects rls object_id f db =
     (let hit = (\<lambda>o'. ob_id o' = object_id \<and> rl_object_select rls o')
      in if list_ex (\<lambda>o'. hit o' \<and> \<not> rl_object_update rls o' (f o')) (sd_objects db) then (Err ConstraintViolation, db)
         else (Ok (), db\<lparr>sd_objects := map (\<lambda>o'. if hit o' then f o' else o') (sd_objects db)\<rparr>))"

definition insert_version :: "storage_rls \<Rightarrow> version_row \<Rightarrow> unit storage_op" where
  "insert_version rls v db =
     (if \<not> rl_version_insert rls v \<or> vr_id v \<in> vr_id ` set (sd_versions db)
         \<or> vr_object_id v \<notin> ob_id ` set (sd_objects db)
      then (Err ConstraintViolation, db)
      else (Ok (), db\<lparr>sd_versions := sd_versions db @ [v]\<rparr>))"

section \<open>Authorization\<close>

definition day_ms :: int where "day_ms = 24 * 60 * 60 * 1000"

definition upload_row_of ::
    "string \<Rightarrow> string \<Rightarrow> string \<Rightarrow> string \<Rightarrow> int option \<Rightarrow> string option \<Rightarrow> string option \<Rightarrow> string \<Rightarrow> int \<Rightarrow> upload_row" where
  "upload_row_of upload_id bucket_id object_key owner expected checksum content_type status now_ms =
     \<lparr>up_id = upload_id, up_bucket_id = bucket_id, up_object_key = object_key, up_owner_id = owner,
      up_expected_size_bytes = expected, up_checksum_sha256 = checksum, up_content_type = content_type,
      up_status = status, up_created_at_ms = now_ms, up_expires_at_ms = saturating_add_i64 now_ms day_ms\<rparr>"

definition probe_upload_insert ::
    "storage_rls \<Rightarrow> string \<Rightarrow> string \<Rightarrow> authorization_request \<Rightarrow> int \<Rightarrow> unit storage_op" where
  "probe_upload_insert rls upload_id bucket_id rq now_ms =
     sbind (slift (optional_integer (ar_content_length rq))) (\<lambda>expected.
     probe (insert_upload rls (upload_row_of upload_id bucket_id (ar_object_key rq) (ac_subject (ar_auth rq)) expected
       (ar_checksum_sha256 rq) (ar_content_type rq) ''authorizing'' now_ms)))"

definition probe_upload_update :: "storage_rls \<Rightarrow> string \<Rightarrow> string \<Rightarrow> unit storage_op" where
  "probe_upload_update rls upload_id status = probe (set_upload_status rls upload_id status)"

definition probe_object_insert ::
    "storage_rls \<Rightarrow> string \<Rightarrow> string \<Rightarrow> authorization_request \<Rightarrow> int \<Rightarrow> unit storage_op" where
  "probe_object_insert rls object_id bucket_id rq now_ms =
     sbind (slift (integer (ar_content_length rq))) (\<lambda>n.
     probe (insert_object rls \<lparr>ob_id = object_id, ob_bucket_id = bucket_id, ob_object_key = ar_object_key rq,
       ob_owner_id = ac_subject (ar_auth rq), ob_size_bytes = n, ob_content_type = ar_content_type rq,
       ob_checksum_sha256 = ar_checksum_sha256 rq, ob_etag = None, ob_version_id = None,
       ob_created_at_ms = now_ms, ob_updated_at_ms = now_ms\<rparr>))"

definition probe_object_update ::
    "storage_rls \<Rightarrow> object_metadata \<Rightarrow> authorization_request \<Rightarrow> int \<Rightarrow> unit storage_op" where
  "probe_object_update rls object rq now_ms =
     sbind (slift (integer (ar_content_length rq))) (\<lambda>n.
     probe (update_objects rls (om_id object) (\<lambda>o'. o'\<lparr>ob_size_bytes := n, ob_content_type := ar_content_type rq,
       ob_checksum_sha256 := ar_checksum_sha256 rq, ob_updated_at_ms := now_ms\<rparr>)))"

definition verify_replacement_state ::
    "worker_env \<Rightarrow> metadata_config \<Rightarrow> bucket_metadata \<Rightarrow> object_metadata option \<Rightarrow> string option \<Rightarrow> storage_db
      \<Rightarrow> runtime_error + unit" where
  "verify_replacement_state env cfg bucket object expected db =
     (case (object, expected) of
        (None, None) \<Rightarrow> Ok ()
      | (Some o', Some fingerprint) \<Rightarrow>
          bindr (ok_or (storage_provider_key (om_id o') db) Database) (\<lambda>key.
          if replacement_fingerprint env cfg (bm_id bucket) o' key = fingerprint then Ok ()
          else Err StorageReservationMismatch)
      | _ \<Rightarrow> Err StorageReservationMismatch)"

text \<open>The decision of one arm: provider key, bytes to reserve, fingerprint of the object replaced.\<close>

type_synonym arm = "string \<times> nat \<times> string option"

text \<open>The check of a new or replaced object, shared by the arms \<open>Upload\<close> and \<open>CreateMultipart\<close>.\<close>

definition probe_object ::
    "worker_env \<Rightarrow> metadata_config \<Rightarrow> storage_rls \<Rightarrow> bucket_metadata \<Rightarrow> object_metadata option \<Rightarrow> authorization_request
      \<Rightarrow> int \<Rightarrow> string option storage_op" where
  "probe_object env cfg rls bucket object rq now_ms =
     (case object of
        Some o' \<Rightarrow>
          sbind (probe_object_update rls o' rq now_ms) (\<lambda>_ db.
          (bindr (ok_or (storage_provider_key (om_id o') db) Database) (\<lambda>key.
            Ok (Some (replacement_fingerprint env cfg (bm_id bucket) o' key))), db))
      | None \<Rightarrow>
          sbind (draw (we_uuid env)) (\<lambda>object_id.
          sbind (probe_object_insert rls object_id (bm_id bucket) rq now_ms) (\<lambda>_. sok None)))"

definition new_provider_key :: "worker_env \<Rightarrow> metadata_config \<Rightarrow> bucket_metadata \<Rightarrow> string storage_op" where
  "new_provider_key env cfg bucket =
     sbind (draw (we_uuid env)) (\<lambda>i. sok (provider_object_key (mc_project_id cfg) (bm_id bucket) i))"

definition sized :: "bucket_metadata \<Rightarrow> authorization_request \<Rightarrow> runtime_error + nat" where
  "sized bucket rq =
     bindr (ok_or (ar_content_length rq) StatementNotAllowed) (\<lambda>n.
     if n > bm_max_object_bytes bucket then Err StorageQuotaExceeded else Ok n)"

definition authorize_upload ::
    "worker_env \<Rightarrow> metadata_config \<Rightarrow> storage_rls \<Rightarrow> bucket_metadata \<Rightarrow> object_metadata option \<Rightarrow> authorization_request
      \<Rightarrow> int \<Rightarrow> arm storage_op" where
  "authorize_upload env cfg rls bucket object rq now_ms =
     sbind (slift (sized bucket rq)) (\<lambda>n.
     sbind (probe_object env cfg rls bucket object rq now_ms) (\<lambda>fingerprint.
     sbind (new_provider_key env cfg bucket) (\<lambda>key.
     sok (key, (case object of Some o' \<Rightarrow> saturating_sub_u64 n (om_size_bytes o') | None \<Rightarrow> n), fingerprint))))"

definition authorize_create_multipart ::
    "worker_env \<Rightarrow> metadata_config \<Rightarrow> storage_rls \<Rightarrow> bucket_metadata \<Rightarrow> object_metadata option \<Rightarrow> authorization_request
      \<Rightarrow> int \<Rightarrow> arm storage_op" where
  "authorize_create_multipart env cfg rls bucket object rq now_ms =
     sbind (slift (sized bucket rq)) (\<lambda>_.
     sbind (probe_object env cfg rls bucket object rq now_ms) (\<lambda>fingerprint.
     sbind (draw (we_uuid env)) (\<lambda>metadata_id.
     sbind (probe_upload_insert rls metadata_id (bm_id bucket) rq now_ms) (\<lambda>_.
     sbind (new_provider_key env cfg bucket) (\<lambda>key.
     sok (key, 0, fingerprint))))))"

definition existing_upload ::
    "storage_rls \<Rightarrow> bucket_metadata \<Rightarrow> authorization_request \<Rightarrow> storage_db \<Rightarrow> runtime_error + upload_metadata" where
  "existing_upload rls bucket rq db =
     bindr (ok_or (ar_upload_id rq) StatementNotAllowed) (\<lambda>upload_id.
     bindr (load_upload rls upload_id (bm_id bucket) (ar_object_key rq) db) (\<lambda>u.
     bindr (ok_or u StatementNotAllowed) (\<lambda>upload.
     if um_owner_id upload \<noteq> ac_subject (ar_auth rq) \<or> um_status upload \<noteq> ''active''
     then Err StatementNotAllowed else Ok upload)))"

definition too_large :: "bucket_metadata \<Rightarrow> authorization_request \<Rightarrow> bool" where
  "too_large bucket rq \<longleftrightarrow> \<not> opt_all (\<lambda>n. n \<le> bm_max_object_bytes bucket) (ar_content_length rq)"

definition binding_of :: "upload_metadata \<Rightarrow> storage_db \<Rightarrow> runtime_error + provider_upload_binding" where
  "binding_of upload db = bindr (storage_upload_provider_binding (um_id upload) db) (\<lambda>b. ok_or b Database)"

definition authorize_upload_part ::
    "storage_rls \<Rightarrow> bucket_metadata \<Rightarrow> authorization_request \<Rightarrow> arm storage_op" where
  "authorize_upload_part rls bucket rq db =
     (case bindr (existing_upload rls bucket rq db) (\<lambda>u.
         if ar_part_number rq = None \<or> ar_content_length rq = None \<or> too_large bucket rq
         then Err StatementNotAllowed else Ok u) of
        Inl e \<Rightarrow> (Err e, db)
      | Inr upload \<Rightarrow>
          sbind (probe_upload_update rls (um_id upload) ''active'') (\<lambda>_ db'.
          (bindr (binding_of upload db') (\<lambda>b. Ok (pb_provider_key b, 0, None)), db')) db)"

definition authorize_complete_multipart ::
    "worker_env \<Rightarrow> metadata_config \<Rightarrow> storage_rls \<Rightarrow> bucket_metadata \<Rightarrow> object_metadata option \<Rightarrow> authorization_request
      \<Rightarrow> arm storage_op" where
  "authorize_complete_multipart env cfg rls bucket object rq db =
     (case bindr (existing_upload rls bucket rq db) (\<lambda>u.
         if um_expected_size_bytes u \<noteq> ar_content_length rq \<or> ar_content_length rq = None \<or> too_large bucket rq
            \<or> um_checksum_sha256 u \<noteq> ar_checksum_sha256 rq \<or> um_content_type u \<noteq> ar_content_type rq
         then Err StatementNotAllowed else Ok u) of
        Inl e \<Rightarrow> (Err e, db)
      | Inr upload \<Rightarrow>
          sbind (probe_upload_update rls (um_id upload) ''active'') (\<lambda>_ db'.
          (bindr (binding_of upload db') (\<lambda>b.
           bindr (verify_replacement_state env cfg bucket object (pb_replacement_fingerprint b) db') (\<lambda>_.
           Ok (pb_provider_key b,
               saturating_sub_u64 (case ar_content_length rq of Some n \<Rightarrow> n | None \<Rightarrow> 0)
                 (case object of Some o' \<Rightarrow> om_size_bytes o' | None \<Rightarrow> 0),
               pb_replacement_fingerprint b))), db')) db)"

definition authorize_abort_multipart ::
    "storage_rls \<Rightarrow> bucket_metadata \<Rightarrow> authorization_request \<Rightarrow> arm storage_op" where
  "authorize_abort_multipart rls bucket rq db =
     (case existing_upload rls bucket rq db of
        Inl e \<Rightarrow> (Err e, db)
      | Inr upload \<Rightarrow>
          sbind (probe (delete_uploads rls (um_id upload))) (\<lambda>_ db'.
          (bindr (binding_of upload db') (\<lambda>b. Ok (pb_provider_key b, 0, None)), db')) db)"

definition object_provider_key :: "object_metadata \<Rightarrow> storage_db \<Rightarrow> runtime_error + arm" where
  "object_provider_key o' db = bindr (ok_or (storage_provider_key (om_id o') db) Database) (\<lambda>key. Ok (key, 0, None))"

definition authorize_arm ::
    "worker_env \<Rightarrow> metadata_config \<Rightarrow> storage_rls \<Rightarrow> bucket_metadata \<Rightarrow> object_metadata option \<Rightarrow> authorization_request
      \<Rightarrow> int \<Rightarrow> arm storage_op" where
  "authorize_arm env cfg rls bucket object rq now_ms =
     (case ar_action rq of
        Upload \<Rightarrow> authorize_upload env cfg rls bucket object rq now_ms
      | Download \<Rightarrow>
          sbind (slift (ok_or object StatementNotAllowed)) (\<lambda>o' db. (object_provider_key o' db, db))
      | Act_Delete \<Rightarrow>
          sbind (slift (ok_or object StatementNotAllowed)) (\<lambda>o'.
          sbind (storage_probe_object_delete (is_uuid env) rls (om_id o')) (\<lambda>_ db. (object_provider_key o' db, db)))
      | CreateMultipart \<Rightarrow> authorize_create_multipart env cfg rls bucket object rq now_ms
      | UploadPart \<Rightarrow> authorize_upload_part rls bucket rq
      | CompleteMultipart \<Rightarrow> authorize_complete_multipart env cfg rls bucket object rq
      | AbortMultipart \<Rightarrow> authorize_abort_multipart rls bucket rq
      | Act_List \<Rightarrow> slift (Err StatementNotAllowed))"

text \<open>The decision on a bucket and object that were found.\<close>

definition authorize_found ::
    "worker_env \<Rightarrow> metadata_config \<Rightarrow> authorization_request \<Rightarrow> int \<Rightarrow> bucket_metadata \<times> object_metadata option
      \<Rightarrow> metadata_authorization storage_op" where
  "authorize_found env cfg rq now_ms found =
     (let (bucket, object) = found
      in sbind (authorize_arm env cfg (we_rls env (ar_auth rq)) bucket object rq now_ms) (\<lambda>(key, bytes, fingerprint) db.
         (bindr (storage_usage now_ms db) (\<lambda>usage.
          Ok \<lparr>md_provider_key = key, md_scope_fingerprint = scope_fingerprint env (ar_auth rq),
              md_project_quota_bytes = bm_project_quota_bytes bucket,
              md_current_project_bytes = su_current_bytes usage,
              md_max_object_bytes = bm_max_object_bytes bucket, md_reservation_bytes = bytes,
              md_replacement_fingerprint = fingerprint\<rparr>), db)))"

definition authorize_sync ::
    "worker_env \<Rightarrow> metadata_config \<Rightarrow> int \<Rightarrow> authorization_request \<Rightarrow> storage_db
      \<Rightarrow> (storage_error + metadata_authorization) \<times> storage_db" where
  "authorize_sync env cfg now_ms rq =
     with_user cfg (ar_auth rq) (\<lambda>db.
       case bindr (load_bucket (we_rls env (ar_auth rq)) (ar_bucket rq) db) (\<lambda>bucket.
             bindr (load_object (we_rls env (ar_auth rq)) (bm_id bucket) (ar_object_key rq) db) (\<lambda>object. Ok (bucket, object))) of
          Inl e \<Rightarrow> (Err e, db)
        | Inr found \<Rightarrow> authorize_found env cfg rq now_ms found db)"

definition reserve_sync ::
    "worker_env \<Rightarrow> metadata_config \<Rightarrow> int \<Rightarrow> storage_reservation_request \<Rightarrow> storage_db \<Rightarrow> (storage_error + unit) \<times> storage_db" where
  "reserve_sync env cfg now_ms rq =
     with_user cfg (sr_auth rq) (atomically
       (storage_reserve (ac_project_id (sr_auth rq)) (ac_subject (sr_auth rq)) (ac_token_id (sr_auth rq)) (sr_nonce rq)
         (sr_bytes rq) (sr_expires_at_ms rq) now_ms (sr_provider_key rq) (storage_action_name (sr_action rq))
         (sr_upload_id rq)))"

end
