(* ===== verification/Storage_Commit.thy ===== *)
theory Storage_Commit
  imports Storage_Metadata
begin

text \<open>
  \<open>apps/database-worker/src/storage.rs\<close>, continued: the commit of a granted operation with its receipt,
  releases, the cleanup queue and the listing of objects; and the store as the \<open>MetadataAuthorizer\<close>
  of the gateway.
\<close>

section \<open>Digests\<close>

definition binding_digest :: "worker_env \<Rightarrow> binding_payload \<Rightarrow> string" where
  "binding_digest env p = we_sha256 env (we_binding_json env p)"

definition commit_binding_digest :: "worker_env \<Rightarrow> storage_metadata_commit \<Rightarrow> string" where
  "commit_binding_digest env rq = binding_digest env
     \<lparr>bp_project_id = ac_project_id (sm_auth rq), bp_subject = ac_subject (sm_auth rq), bp_token_id = ac_token_id (sm_auth rq),
      bp_bucket = sm_bucket rq, bp_object_key = sm_object_key rq, bp_provider_key = sm_provider_key rq,
      bp_action = storage_action_name (sm_action rq), bp_content_length = sm_content_length rq,
      bp_checksum_sha256 = sm_checksum_sha256 rq, bp_content_type = sm_content_type rq, bp_upload_id = sm_upload_id rq,
      bp_part_number = sm_part_number rq, bp_reservation_nonce = sm_reservation_nonce rq,
      bp_reservation_bytes = sm_reservation_bytes rq, bp_reservation_expires_at_ms = sm_reservation_expires_at_ms rq,
      bp_replacement_fingerprint = sm_replacement_fingerprint rq\<rparr>"

definition receipt_binding_digest :: "worker_env \<Rightarrow> storage_receipt_request \<Rightarrow> string" where
  "receipt_binding_digest env rq = binding_digest env
     \<lparr>bp_project_id = ac_project_id (sq_auth rq), bp_subject = ac_subject (sq_auth rq), bp_token_id = ac_token_id (sq_auth rq),
      bp_bucket = sq_bucket rq, bp_object_key = sq_object_key rq, bp_provider_key = sq_provider_key rq,
      bp_action = storage_action_name (sq_action rq), bp_content_length = sq_content_length rq,
      bp_checksum_sha256 = sq_checksum_sha256 rq, bp_content_type = sq_content_type rq, bp_upload_id = sq_upload_id rq,
      bp_part_number = sq_part_number rq, bp_reservation_nonce = sq_reservation_nonce rq,
      bp_reservation_bytes = sq_reservation_bytes rq, bp_reservation_expires_at_ms = sq_reservation_expires_at_ms rq,
      bp_replacement_fingerprint = sq_replacement_fingerprint rq\<rparr>"

definition commit_result :: "storage_metadata_commit \<Rightarrow> storage_commit_result" where
  "commit_result rq =
     \<lparr>sc_content_length = sm_content_length rq, sc_checksum_sha256 = sm_checksum_sha256 rq, sc_etag = sm_etag rq,
      sc_version_id = sm_version_id rq\<rparr>"

definition commit_result_digest :: "worker_env \<Rightarrow> string \<Rightarrow> storage_commit_result \<Rightarrow> string" where
  "commit_result_digest env digest result = we_sha256 env (we_result_digest_json env (we_b64_encode env digest) result)"

section \<open>Commit\<close>

text \<open>\<open>provider_key.rsplit('/').next()\<close>: the part after the last slash.\<close>

definition last_segment :: "string \<Rightarrow> string" where
  "last_segment s = last (split_on CHR ''/'' s)"

definition replace_object ::
    "worker_env \<Rightarrow> storage_rls \<Rightarrow> object_metadata \<Rightarrow> storage_metadata_commit \<Rightarrow> int \<Rightarrow> string storage_op" where
  "replace_object env rls o' rq now_ms db =
     (case bindr (ok_or (storage_provider_key (om_id o') db) Database) (\<lambda>old.
         bindr (integer (sm_content_length rq)) (\<lambda>n. Ok (old, n))) of
        Inl e \<Rightarrow> (Err e, db)
      | Inr (old, n) \<Rightarrow>
          sbind (update_objects rls (om_id o') (\<lambda>x. x\<lparr>ob_size_bytes := n, ob_content_type := sm_content_type rq,
             ob_checksum_sha256 := sm_checksum_sha256 rq, ob_etag := sm_etag rq, ob_version_id := sm_version_id rq,
             ob_updated_at_ms := now_ms\<rparr>)) (\<lambda>_.
          sbind (storage_set_provider_key (om_id o') (sm_provider_key rq)) (\<lambda>_.
          sbind (if old \<noteq> sm_provider_key rq
                 then storage_enqueue_provider_cleanup (we_uuid env) old ''upload'' None now_ms else sok ()) (\<lambda>_.
          sok (om_id o')))) db)"

definition new_object ::
    "worker_env \<Rightarrow> storage_rls \<Rightarrow> bucket_metadata \<Rightarrow> storage_metadata_commit \<Rightarrow> int \<Rightarrow> string storage_op" where
  "new_object env rls bucket rq now_ms =
     sbind (slift (bindr (ok_or (we_parse_uuid env (last_segment (sm_provider_key rq))) StatementNotAllowed) (\<lambda>i.
        bindr (integer (sm_content_length rq)) (\<lambda>n. Ok (i, n))))) (\<lambda>(object_id, n).
     sbind (insert_object rls \<lparr>ob_id = object_id, ob_bucket_id = bm_id bucket, ob_object_key = sm_object_key rq,
        ob_owner_id = ac_subject (sm_auth rq), ob_size_bytes = n, ob_content_type = sm_content_type rq,
        ob_checksum_sha256 = sm_checksum_sha256 rq, ob_etag = sm_etag rq, ob_version_id = sm_version_id rq,
        ob_created_at_ms = now_ms, ob_updated_at_ms = now_ms\<rparr>) (\<lambda>_.
     sbind (storage_set_provider_key object_id (sm_provider_key rq)) (\<lambda>_. sok object_id)))"

definition commit_object_upload ::
    "worker_env \<Rightarrow> metadata_config \<Rightarrow> storage_rls \<Rightarrow> bucket_metadata \<Rightarrow> storage_metadata_commit \<Rightarrow> int \<Rightarrow> unit storage_op" where
  "commit_object_upload env cfg rls bucket rq now_ms db =
     (case bindr (load_object rls (bm_id bucket) (sm_object_key rq) db) (\<lambda>object.
         bindr (verify_replacement_state env cfg bucket object (sm_replacement_fingerprint rq) db) (\<lambda>_. Ok object)) of
        Inl e \<Rightarrow> (Err e, db)
      | Inr object \<Rightarrow>
          sbind (case object of
               Some o' \<Rightarrow> replace_object env rls o' rq now_ms
             | None \<Rightarrow> new_object env rls bucket rq now_ms) (\<lambda>object_id.
          case sm_version_id rq of
            None \<Rightarrow> sok ()
          | Some version \<Rightarrow>
              sbind (draw (we_uuid env)) (\<lambda>i.
              sbind (slift (integer (sm_content_length rq))) (\<lambda>n.
              insert_version rls \<lparr>vr_id = i, vr_object_id = object_id, vr_owner_id = ac_subject (sm_auth rq),
                vr_size_bytes = n, vr_checksum_sha256 = sm_checksum_sha256 rq, vr_etag = sm_etag rq,
                vr_provider_version_id = version, vr_created_at_ms = now_ms\<rparr>))) db)"

definition commit_create_multipart ::
    "worker_env \<Rightarrow> metadata_config \<Rightarrow> storage_rls \<Rightarrow> bucket_metadata \<Rightarrow> storage_metadata_commit \<Rightarrow> int \<Rightarrow> unit storage_op" where
  "commit_create_multipart env cfg rls bucket rq now_ms db =
     (if sm_upload_id rq \<noteq> None \<or> sm_content_length rq = None then (Err StorageReservationMismatch, db)
      else case bindr (ok_or (sm_version_id rq) StatementNotAllowed) (\<lambda>provider_upload_id.
          bindr (load_object rls (bm_id bucket) (sm_object_key rq) db) (\<lambda>object.
          bindr (verify_replacement_state env cfg bucket object (sm_replacement_fingerprint rq) db) (\<lambda>_.
          bindr (optional_integer (sm_content_length rq)) (\<lambda>n. Ok (provider_upload_id, n))))) of
        Inl e \<Rightarrow> (Err e, db)
      | Inr (provider_upload_id, n) \<Rightarrow>
          sbind (insert_upload rls (upload_row_of provider_upload_id (bm_id bucket) (sm_object_key rq)
             (ac_subject (sm_auth rq)) n (sm_checksum_sha256 rq) (sm_content_type rq) ''active'' now_ms)) (\<lambda>_.
          storage_set_upload_provider_binding provider_upload_id (sm_provider_key rq) (sm_reservation_bytes rq)
            (sm_replacement_fingerprint rq)) db)"

definition commit_upload_part ::
    "storage_rls \<Rightarrow> bucket_metadata \<Rightarrow> storage_metadata_commit \<Rightarrow> unit storage_op" where
  "commit_upload_part rls bucket rq db =
     (case bindr (load_committed_upload rls bucket rq db) (\<lambda>upload.
         bindr (verify_upload_provider upload (sm_provider_key rq) db) (\<lambda>_.
         bindr (ok_or (sm_part_number rq) StatementNotAllowed) (\<lambda>part. Ok (upload, part)))) of
        Inl e \<Rightarrow> (Err e, db)
      | Inr (upload, part) \<Rightarrow>
          sbind (storage_store_upload_part (um_id upload) part (sm_content_length rq) (sm_checksum_sha256 rq) (sm_etag rq)) (\<lambda>_.
          set_upload_status rls (um_id upload) ''active'') db)"

definition forget_upload :: "storage_rls \<Rightarrow> string \<Rightarrow> unit storage_op" where
  "forget_upload rls upload_id =
     sbind (delete_uploads rls upload_id) (\<lambda>_.
     sbind (storage_remove_upload_parts upload_id) (\<lambda>_.
     storage_remove_upload_provider_key upload_id))"

definition commit_complete_multipart ::
    "worker_env \<Rightarrow> metadata_config \<Rightarrow> storage_rls \<Rightarrow> bucket_metadata \<Rightarrow> storage_metadata_commit \<Rightarrow> int \<Rightarrow> unit storage_op" where
  "commit_complete_multipart env cfg rls bucket rq now_ms db =
     (case bindr (load_committed_upload rls bucket rq db) (\<lambda>upload.
         bindr (verify_upload_provider upload (sm_provider_key rq) db) (\<lambda>b.
         if pb_replacement_fingerprint b \<noteq> sm_replacement_fingerprint rq \<or> um_status upload \<noteq> ''active''
            \<or> um_expected_size_bytes upload \<noteq> sm_content_length rq \<or> um_checksum_sha256 upload \<noteq> sm_checksum_sha256 rq
            \<or> um_content_type upload \<noteq> sm_content_type rq
         then Err StorageReservationMismatch else Ok upload)) of
        Inl e \<Rightarrow> (Err e, db)
      | Inr upload \<Rightarrow>
          sbind (commit_object_upload env cfg rls bucket rq now_ms) (\<lambda>_. forget_upload rls (um_id upload)) db)"

definition commit_abort_multipart ::
    "storage_rls \<Rightarrow> bucket_metadata \<Rightarrow> storage_metadata_commit \<Rightarrow> unit storage_op" where
  "commit_abort_multipart rls bucket rq db =
     (case bindr (load_committed_upload rls bucket rq db) (\<lambda>upload.
         bindr (verify_upload_provider upload (sm_provider_key rq) db) (\<lambda>_. Ok upload)) of
        Inl e \<Rightarrow> (Err e, db)
      | Inr upload \<Rightarrow> forget_upload rls (um_id upload) db)"

definition commit_delete ::
    "worker_env \<Rightarrow> storage_rls \<Rightarrow> bucket_metadata \<Rightarrow> storage_metadata_commit \<Rightarrow> unit storage_op" where
  "commit_delete env rls bucket rq db =
     (case bindr (load_object rls (bm_id bucket) (sm_object_key rq) db) (\<lambda>object.
         bindr (ok_or object StatementNotAllowed) (\<lambda>o'.
         bindr (ok_or (storage_provider_key (om_id o') db) Database) (\<lambda>expected.
         if expected \<noteq> sm_provider_key rq then Err StatementNotAllowed else Ok o'))) of
        Inl e \<Rightarrow> (Err e, db)
      | Inr o' \<Rightarrow>
          sbind (storage_delete_object (is_uuid env) rls (om_id o')) (\<lambda>_. storage_remove_provider_key (om_id o')) db)"

definition apply_commit ::
    "worker_env \<Rightarrow> metadata_config \<Rightarrow> storage_rls \<Rightarrow> bucket_metadata \<Rightarrow> storage_metadata_commit \<Rightarrow> int \<Rightarrow> unit storage_op" where
  "apply_commit env cfg rls bucket rq now_ms =
     (case sm_action rq of
        Upload \<Rightarrow> commit_object_upload env cfg rls bucket rq now_ms
      | Act_Delete \<Rightarrow> commit_delete env rls bucket rq
      | CreateMultipart \<Rightarrow> commit_create_multipart env cfg rls bucket rq now_ms
      | UploadPart \<Rightarrow> commit_upload_part rls bucket rq
      | CompleteMultipart \<Rightarrow> commit_complete_multipart env cfg rls bucket rq now_ms
      | AbortMultipart \<Rightarrow> commit_abort_multipart rls bucket rq
      | Download \<Rightarrow> sok ()
      | Act_List \<Rightarrow> slift (Err StatementNotAllowed))"

definition oversized_commit :: "bucket_metadata \<Rightarrow> storage_metadata_commit \<Rightarrow> bool" where
  "oversized_commit bucket rq \<longleftrightarrow> sm_action rq \<in> {Upload, CreateMultipart, CompleteMultipart}
     \<and> (case sm_content_length rq of None \<Rightarrow> True | Some n \<Rightarrow> n > bm_max_object_bytes bucket)"

definition consume_for :: "int \<Rightarrow> storage_metadata_commit \<Rightarrow> unit storage_op" where
  "consume_for now_ms rq =
     (if requires_durable_reservation (sm_action rq)
      then storage_consume_reservation (ac_project_id (sm_auth rq)) (ac_subject (sm_auth rq)) (ac_token_id (sm_auth rq))
        (sm_reservation_nonce rq) (sm_reservation_bytes rq) (sm_reservation_expires_at_ms rq) now_ms
        (sm_provider_key rq) (storage_action_name (sm_action rq)) (sm_upload_id rq)
      else sok ())"

definition record_receipt :: "worker_env \<Rightarrow> int \<Rightarrow> storage_metadata_commit \<Rightarrow> unit storage_op" where
  "record_receipt env now_ms rq =
     storage_record_commit_receipt (ac_project_id (sm_auth rq)) (sm_reservation_nonce rq) (ac_subject (sm_auth rq))
       (ac_token_id (sm_auth rq)) (commit_binding_digest env rq)
       (commit_result_digest env (commit_binding_digest env rq) (commit_result rq))
       (we_result_json env (commit_result rq)) now_ms (saturating_add_i64 now_ms day_ms)"

text \<open>The commit that has no receipt yet: consume the reservation, apply, record the receipt.\<close>

definition first_commit :: "worker_env \<Rightarrow> metadata_config \<Rightarrow> int \<Rightarrow> storage_metadata_commit \<Rightarrow> unit storage_op" where
  "first_commit env cfg now_ms rq =
     sbind (consume_for now_ms rq) (\<lambda>_ db.
     (let rls = we_rls env (sm_auth rq)
      in case load_bucket rls (sm_bucket rq) db of
           Inl e \<Rightarrow> (Err e, db)
         | Inr bucket \<Rightarrow>
             if oversized_commit bucket rq then (Err StorageQuotaExceeded, db)
             else sbind (apply_commit env cfg rls bucket rq now_ms) (\<lambda>_. record_receipt env now_ms rq) db))"

definition commit_callback :: "worker_env \<Rightarrow> metadata_config \<Rightarrow> int \<Rightarrow> storage_metadata_commit \<Rightarrow> unit storage_op" where
  "commit_callback env cfg now_ms rq db =
     (case storage_commit_receipt (ac_project_id (sm_auth rq)) (sm_reservation_nonce rq) (ac_subject (sm_auth rq))
          (ac_token_id (sm_auth rq)) (commit_binding_digest env rq) now_ms db of
        Inl e \<Rightarrow> (Err e, db)
      | Inr (Some (digest, _)) \<Rightarrow>
          (if digest = commit_result_digest env (commit_binding_digest env rq) (commit_result rq) then Ok ()
           else Err StorageReservationMismatch, db)
      | Inr None \<Rightarrow> first_commit env cfg now_ms rq db)"

definition commit_sync ::
    "worker_env \<Rightarrow> metadata_config \<Rightarrow> int \<Rightarrow> storage_metadata_commit \<Rightarrow> storage_db \<Rightarrow> (storage_error + unit) \<times> storage_db" where
  "commit_sync env cfg now_ms rq = with_user cfg (sm_auth rq) (atomically (commit_callback env cfg now_ms rq))"

definition receipt_sync ::
    "worker_env \<Rightarrow> metadata_config \<Rightarrow> int \<Rightarrow> storage_receipt_request \<Rightarrow> storage_db
      \<Rightarrow> storage_error + storage_commit_result option" where
  "receipt_sync env cfg now_ms rq db =
     fst (with_user cfg (sq_auth rq) (\<lambda>db.
       (bindr (storage_commit_receipt (ac_project_id (sq_auth rq)) (sq_reservation_nonce rq) (ac_subject (sq_auth rq))
           (ac_token_id (sq_auth rq)) (receipt_binding_digest env rq) now_ms db) (\<lambda>receipt.
        case receipt of
          None \<Rightarrow> Ok None
        | Some (_, json) \<Rightarrow> bindr (ok_or (we_result_parse env json) Database) (\<lambda>r. Ok (Some r))), db)) db)"

section \<open>Release, cleanup\<close>

definition release_reservation_sync ::
    "worker_env \<Rightarrow> metadata_config \<Rightarrow> int \<Rightarrow> auth_context \<Rightarrow> string \<Rightarrow> nat \<Rightarrow> int \<Rightarrow> storage_db
      \<Rightarrow> (storage_error + unit) \<times> storage_db" where
  "release_reservation_sync env cfg now_ms auth nonce bytes expires =
     with_user cfg auth (atomically (storage_release_reservation_bound (we_uuid env) (ac_project_id auth) (ac_subject auth)
       (ac_token_id auth) nonce bytes expires now_ms))"

definition cleanup_expired_reservations_sync ::
    "worker_env \<Rightarrow> int \<Rightarrow> storage_db \<Rightarrow> (storage_error + nat) \<times> storage_db" where
  "cleanup_expired_reservations_sync env now_ms =
     with_maintenance (atomically (storage_cleanup_expired_reservations (we_uuid env) now_ms))"

definition cleanup_lease_ms :: int where "cleanup_lease_ms = 5 * 60 * 1000"

definition cleanup_claim_sync ::
    "worker_env \<Rightarrow> int \<Rightarrow> nat \<Rightarrow> storage_db
      \<Rightarrow> (storage_error + nat \<times> (cleanup_item \<times> storage_action) list) \<times> storage_db" where
  "cleanup_claim_sync env now_ms limit =
     with_maintenance (atomically (
       sbind (storage_prepare_expired_cleanup (we_uuid env) now_ms limit) (\<lambda>removed.
       sbind (storage_claim_cleanup (we_uuid env) now_ms limit cleanup_lease_ms) (\<lambda>items.
       slift (bindr (mapr (\<lambda>i. bindr (protocol_storage_action (ci_action i)) (\<lambda>a. Ok (i, a))) items) (\<lambda>out.
         Ok (removed, out)))))))"

definition cleanup_ack_sync ::
    "int \<Rightarrow> (string \<times> string \<times> cleanup_disposition) list \<Rightarrow> storage_db \<Rightarrow> (storage_error + nat \<times> nat) \<times> storage_db" where
  "cleanup_ack_sync now_ms items = with_maintenance (atomically (storage_ack_cleanup now_ms items))"

text \<open>\<open>impl MetadataAuthorizer\<close>: the store as the gateway sees it, at the store's time.\<close>

definition sqlite_authorizer :: "worker_env \<Rightarrow> metadata_config \<Rightarrow> int \<Rightarrow> storage_db metadata_authorizer" where
  "sqlite_authorizer env cfg now_ms =
     \<lparr>ma_authorize = authorize_sync env cfg now_ms, ma_reserve = reserve_sync env cfg now_ms,
      ma_commit = commit_sync env cfg now_ms, ma_receipt = receipt_sync env cfg now_ms,
      ma_release = release_reservation_sync env cfg now_ms, ma_cleanup = cleanup_expired_reservations_sync env\<rparr>"

section \<open>Listing\<close>

record storage_list_request =
  rq_bucket :: string
  rq_prefix :: string
  rq_cursor :: "string option"
  rq_limit :: nat

record storage_object_item =
  si_id :: string
  si_object_key :: string
  si_owner_id :: string
  si_size_bytes :: nat
  si_content_type :: "string option"
  si_checksum_sha256 :: "string option"
  si_etag :: "string option"
  si_version_id :: "string option"
  si_created_at_ms :: int
  si_updated_at_ms :: int

definition storage_item :: "object_row \<Rightarrow> runtime_error + storage_object_item" where
  "storage_item o' =
     bindr (u64_of_i64 (ob_size_bytes o')) (\<lambda>n.
     Ok \<lparr>si_id = ob_id o', si_object_key = ob_object_key o', si_owner_id = ob_owner_id o', si_size_bytes = n,
         si_content_type = ob_content_type o', si_checksum_sha256 = ob_checksum_sha256 o', si_etag = ob_etag o',
         si_version_id = ob_version_id o', si_created_at_ms = ob_created_at_ms o', si_updated_at_ms = ob_updated_at_ms o'\<rparr>)"

definition listed :: "storage_rls \<Rightarrow> string \<Rightarrow> string \<Rightarrow> string \<times> string \<Rightarrow> storage_db \<Rightarrow> object_row list" where
  "listed rls bucket_name prefix after db =
     sort_key (\<lambda>o'. (ob_object_key o', ob_id o'))
       (filter (\<lambda>o'. rl_object_select rls o'
           \<and> list_ex (\<lambda>b. rl_bucket_select rls b \<and> bk_id b = ob_bucket_id o' \<and> bk_name b = bucket_name) (sd_buckets db)
           \<and> starts_with (ob_object_key o') prefix
           \<and> (ob_object_key o' > fst after \<or> (ob_object_key o' = fst after \<and> ob_id o' > snd after)))
         (sd_objects db))"

definition cursor_foreign :: "worker_env \<Rightarrow> auth_context \<Rightarrow> storage_list_request \<Rightarrow> list_cursor \<Rightarrow> bool" where
  "cursor_foreign env auth rq c \<longleftrightarrow>
     lc_project_id c \<noteq> ac_project_id auth \<or> lc_subject c \<noteq> ac_subject auth \<or> lc_token_id c \<noteq> ac_token_id auth
     \<or> lc_scope_fingerprint c \<noteq> scope_fingerprint env auth \<or> lc_bucket c \<noteq> rq_bucket rq \<or> lc_prefix c \<noteq> rq_prefix rq"

definition list_page ::
    "worker_env \<Rightarrow> metadata_config \<Rightarrow> auth_context \<Rightarrow> storage_list_request \<Rightarrow> string \<times> string \<Rightarrow> storage_db
      \<Rightarrow> runtime_error + storage_object_item list \<times> string option" where
  "list_page env cfg auth rq after db =
     bindr (mapr storage_item (take (rq_limit rq + 1) (listed (we_rls env auth) (rq_bucket rq) (rq_prefix rq) after db))) (\<lambda>items.
     if length items > rq_limit rq then
       (let page = take (rq_limit rq) items
        in case (if page = [] then Ok None
                 else bindr (cursor_encode env (mc_secret cfg)
                   \<lparr>lc_project_id = ac_project_id auth, lc_subject = ac_subject auth, lc_token_id = ac_token_id auth,
                    lc_scope_fingerprint = scope_fingerprint env auth, lc_bucket = rq_bucket rq, lc_prefix = rq_prefix rq,
                    lc_object_key = si_object_key (last page), lc_id = si_id (last page)\<rparr>) (\<lambda>c. Ok (Some c))) of
             Inl _ \<Rightarrow> Err Database
           | Inr c \<Rightarrow> Ok (page, c))
     else Ok (items, None))"

definition list_sync ::
    "worker_env \<Rightarrow> metadata_config \<Rightarrow> auth_context \<Rightarrow> storage_list_request \<Rightarrow> storage_db
      \<Rightarrow> storage_error + storage_object_item list \<times> string option" where
  "list_sync env cfg auth rq db =
     (if rq_limit rq = 0 \<or> rq_limit rq > 200 \<or> length (rq_prefix rq) > 1024 \<or> CHR 0x00 \<in> set (rq_prefix rq)
      then Err InvalidObjectKey
      else bindr (case rq_cursor rq of None \<Rightarrow> Ok None
                  | Some c \<Rightarrow> bindr (cursor_decode env (mc_secret cfg) c) (\<lambda>d. Ok (Some d))) (\<lambda>cursor.
        if \<not> opt_all (\<lambda>c. \<not> cursor_foreign env auth rq c) cursor then Err InvalidGrant
        else fst (with_user cfg auth (\<lambda>db.
          (list_page env cfg auth rq
            (case cursor of None \<Rightarrow> ([], []) | Some c \<Rightarrow> (lc_object_key c, lc_id c)) db, db)) db)))"

end
