(* ===== verification/Storage_Durable.thy ===== *)
theory Storage_Durable
  imports Storage_Commit
begin

text \<open>
  The durable store over every sequence of its operations: the keys of its tables stay unique, a
  reservation is granted within the quota and consumed by exactly one commit, a commit is recorded in a
  receipt, and the cleanup queue hands out each item under one lease at a time.
\<close>

section \<open>What operations preserve\<close>

definition preserves :: "(storage_db \<Rightarrow> bool) \<Rightarrow> 'a storage_op \<Rightarrow> bool" where
  "preserves P m \<longleftrightarrow> (\<forall>db r db'. P db \<longrightarrow> m db = (r, db') \<longrightarrow> P db')"

lemma preservesI: "(\<And>db r db'. P db \<Longrightarrow> m db = (r, db') \<Longrightarrow> P db') \<Longrightarrow> preserves P m"
  by (auto simp: preserves_def)

lemma preservesD: "preserves P m \<Longrightarrow> P db \<Longrightarrow> m db = (r, db') \<Longrightarrow> P db'"
  by (auto simp: preserves_def)

lemma preserves_sbind: "preserves P m \<Longrightarrow> (\<And>a. preserves P (f a)) \<Longrightarrow> preserves P (sbind m f)"
proof (rule preservesI)
  fix db r db'
  assume "preserves P m" "\<And>a. preserves P (f a)" "P db" "sbind m f db = (r, db')"
  moreover obtain q u where "m db = (q, u)" by force
  ultimately show "P db'" by (cases q) (auto simp: sbind_def dest: preservesD)
qed

lemma preserves_sok [intro]: "preserves P (sok a)"
  by (simp add: preserves_def sok_def)

lemma preserves_slift [intro]: "preserves P (slift r)"
  by (simp add: preserves_def slift_def)

lemma preserves_query [intro]: "preserves P (\<lambda>db. (q db, db))"
  by (simp add: preserves_def)

lemma preserves_probe [intro]: "preserves P (probe m)"
  by (simp add: preserves_def probe_def)

lemma preserves_sfor: "(\<And>x. x \<in> set xs \<Longrightarrow> preserves P (f x)) \<Longrightarrow> preserves P (sfor xs f)"
proof (induction xs)
  case (Cons x xs)
  then have "preserves P (sbind (f x) (\<lambda>_. sfor xs f))" by (intro preserves_sbind) auto
  then show ?case by (simp add: preserves_def)
qed (simp add: preserves_def)

lemma preserves_case_sum:
  "(\<And>b. preserves P (g b)) \<Longrightarrow> preserves P (\<lambda>db. case q db of Inl e \<Rightarrow> (Err e, db) | Inr b \<Rightarrow> g b db)"
  unfolding preserves_def by (auto split: sum.split_asm)

lemma preserves_if:
  "preserves P m \<Longrightarrow> preserves P (\<lambda>db. if c db then (Err e, db) else m db)"
  unfolding preserves_def by (auto split: if_split_asm)

lemma preserves_atomically:
  assumes "preserves P m" and "\<And>db n. P (db\<lparr>sd_drawn := n\<rparr>) = P db"
  shows "preserves P (atomically m)"
proof (rule preservesI)
  fix db r db'
  assume "P db" "atomically m db = (r, db')"
  moreover obtain q u where "m db = (q, u)" by force
  ultimately show "P db'" using assms by (cases q) (auto simp: atomically_def dest: preservesD)
qed

lemma preserves_with_user: "preserves P m \<Longrightarrow> P db \<Longrightarrow> with_user cfg auth m db = (r, db') \<Longrightarrow> P db'"
  unfolding preserves_def with_user_def by (auto split: sum.split_asm prod.split_asm)

lemma preserves_with_maintenance: "preserves P m \<Longrightarrow> P db \<Longrightarrow> with_maintenance m db = (r, db') \<Longrightarrow> P db'"
  unfolding preserves_def with_maintenance_def by (auto split: prod.split_asm)

section \<open>The parts of the store an operation leaves alone\<close>

text \<open>Reservations and receipts.\<close>

definition quota_tables :: "reservation_row list \<Rightarrow> receipt_row list \<Rightarrow> storage_db \<Rightarrow> bool" where
  "quota_tables R C db \<longleftrightarrow> sd_reservations db = R \<and> sd_receipts db = C"

text \<open>The cleanup queue.\<close>

definition queue_is :: "cleanup_row list \<Rightarrow> storage_db \<Rightarrow> bool" where
  "queue_is Q db \<longleftrightarrow> sd_cleanup db = Q"

lemma drawn_irrelevant [simp]:
  "quota_tables R C (db\<lparr>sd_drawn := n\<rparr>) = quota_tables R C db" "queue_is Q (db\<lparr>sd_drawn := n\<rparr>) = queue_is Q db"
  by (simp_all add: quota_tables_def queue_is_def)

lemma draw_preserves: "(\<And>db n. P (db\<lparr>sd_drawn := n\<rparr>) = P db) \<Longrightarrow> preserves P (draw uuid)"
  by (auto simp: preserves_def draw_def)

lemmas metadata_statements = insert_upload_def set_upload_status_def delete_uploads_def insert_object_def
  update_objects_def insert_version_def delete_objects_def storage_set_provider_key_def
  storage_remove_provider_key_def storage_set_upload_provider_binding_def storage_remove_upload_provider_key_def
  storage_store_upload_part_def storage_remove_upload_parts_def

lemma metadata_keeps_quota [intro]:
  "preserves (quota_tables R C) (insert_upload rls u)" "preserves (quota_tables R C) (set_upload_status rls i s)"
  "preserves (quota_tables R C) (delete_uploads rls i)" "preserves (quota_tables R C) (insert_object rls ob)"
  "preserves (quota_tables R C) (update_objects rls i f)" "preserves (quota_tables R C) (insert_version rls v)"
  "preserves (quota_tables R C) (delete_objects rls i)" "preserves (quota_tables R C) (storage_set_provider_key i k)"
  "preserves (quota_tables R C) (storage_remove_provider_key i)"
  "preserves (quota_tables R C) (storage_set_upload_provider_binding i k n fp)"
  "preserves (quota_tables R C) (storage_remove_upload_provider_key i)"
  "preserves (quota_tables R C) (storage_store_upload_part i pn sz cs et)"
  "preserves (quota_tables R C) (storage_remove_upload_parts i)"
  by (auto simp: preserves_def quota_tables_def metadata_statements Let_def split: if_split_asm sum.split_asm option.split_asm)

lemma metadata_keeps_queue [intro]:
  "preserves (queue_is Q) (insert_upload rls u)" "preserves (queue_is Q) (set_upload_status rls i s)"
  "preserves (queue_is Q) (delete_uploads rls i)" "preserves (queue_is Q) (insert_object rls ob)"
  "preserves (queue_is Q) (update_objects rls i f)" "preserves (queue_is Q) (insert_version rls v)"
  "preserves (queue_is Q) (delete_objects rls i)" "preserves (queue_is Q) (storage_set_provider_key i k)"
  "preserves (queue_is Q) (storage_remove_provider_key i)"
  "preserves (queue_is Q) (storage_set_upload_provider_binding i k n fp)"
  "preserves (queue_is Q) (storage_remove_upload_provider_key i)"
  "preserves (queue_is Q) (storage_store_upload_part i pn sz cs et)"
  "preserves (queue_is Q) (storage_remove_upload_parts i)"
  by (auto simp: preserves_def queue_is_def metadata_statements Let_def split: if_split_asm sum.split_asm option.split_asm)

lemma enqueue_keeps_quota: "preserves (quota_tables R C) (enqueue_cleanup uuid k a u n)"
  unfolding enqueue_cleanup_def
  by (intro preserves_if preserves_sbind draw_preserves) (auto simp: preserves_def quota_tables_def split: if_split_asm)

text \<open>An operation that keeps the queue keeps everything that is said of the queue alone.\<close>

lemma preserves_queue_property:
  "(\<And>Q. preserves (queue_is Q) m) \<Longrightarrow> preserves (\<lambda>db. p (sd_cleanup db)) m"
  unfolding preserves_def queue_is_def by metis

lemma preserves_quota_property:
  "(\<And>R C. preserves (quota_tables R C) m) \<Longrightarrow> preserves (\<lambda>db. p (sd_reservations db) (sd_receipts db)) m"
  unfolding preserves_def quota_tables_def by metis

section \<open>Commits\<close>

lemma preserves_case_option:
  "preserves P m \<Longrightarrow> (\<And>x. preserves P (f x)) \<Longrightarrow> preserves P (case z of None \<Rightarrow> m | Some x \<Rightarrow> f x)"
  by (cases z) simp_all

lemma preserves_if_op: "preserves P m \<Longrightarrow> preserves P m' \<Longrightarrow> preserves P (if c then m else m')"
  by simp

lemma preserves_guarded_op:
  "preserves P m \<Longrightarrow> preserves P (\<lambda>db. if c then (Err e, db) else m db)"
  by (rule preserves_if)

text \<open>
  The changes of a commit are metadata statements, draws and cleanup entries: a predicate those keep,
  every commit keeps.
\<close>

locale commit_frame =
  fixes P :: "storage_db \<Rightarrow> bool" and uuid :: "nat \<Rightarrow> string"
  assumes drawn: "\<And>db n. P (db\<lparr>sd_drawn := n\<rparr>) = P db"
    and uploads: "\<And>rls u. preserves P (insert_upload rls u)" "\<And>rls i st. preserves P (set_upload_status rls i st)"
      "\<And>rls i. preserves P (delete_uploads rls i)"
    and objects: "\<And>rls x. preserves P (insert_object rls x)" "\<And>rls i f. preserves P (update_objects rls i f)"
      "\<And>rls i. preserves P (delete_objects rls i)" "\<And>rls v. preserves P (insert_version rls v)"
    and keys: "\<And>i k. preserves P (storage_set_provider_key i k)" "\<And>i. preserves P (storage_remove_provider_key i)"
      "\<And>i k n fp. preserves P (storage_set_upload_provider_binding i k n fp)"
      "\<And>i. preserves P (storage_remove_upload_provider_key i)"
    and parts: "\<And>i pn sz cs et. preserves P (storage_store_upload_part i pn sz cs et)"
      "\<And>i. preserves P (storage_remove_upload_parts i)"
    and enqueue: "\<And>k a u n. preserves P (enqueue_cleanup uuid k a u n)"
begin

lemmas statements = uploads objects keys parts enqueue draw_preserves [OF drawn]

lemma forget_upload_keeps: "preserves P (forget_upload rls i)"
  unfolding forget_upload_def by (intro preserves_sbind statements)

lemma commit_object_upload_keeps:
  assumes "we_uuid env = uuid"
  shows "preserves P (commit_object_upload env cfg rls bucket rq now_ms)"
proof -
  have "preserves P (replace_object env rls ob rq now_ms)" for ob
    unfolding replace_object_def storage_enqueue_provider_cleanup_def
    by (intro preserves_case_sum) (auto simp: assms intro!: preserves_sbind statements)
  moreover have "preserves P (new_object env rls bucket rq now_ms)"
    unfolding new_object_def by (auto intro!: preserves_sbind statements)
  ultimately show ?thesis
    unfolding commit_object_upload_def
    by (intro preserves_case_sum preserves_sbind preserves_case_option) (auto intro!: preserves_sbind statements)
qed

lemma apply_commit_keeps:
  assumes "we_uuid env = uuid"
  shows "preserves P (apply_commit env cfg rls bucket rq now_ms)"
proof -
  have "preserves P (commit_delete env rls bucket rq)"
    unfolding commit_delete_def storage_delete_object_def
    by (intro preserves_case_sum preserves_sbind preserves_guarded_op statements)
  moreover have "preserves P (commit_create_multipart env cfg rls bucket rq now_ms)"
    unfolding commit_create_multipart_def
    by (intro preserves_guarded_op preserves_case_sum) (auto intro!: preserves_sbind statements)
  moreover have "preserves P (commit_upload_part rls bucket rq)"
    unfolding commit_upload_part_def by (intro preserves_case_sum) (auto intro!: preserves_sbind statements)
  moreover have "preserves P (commit_complete_multipart env cfg rls bucket rq now_ms)"
    unfolding commit_complete_multipart_def
    by (intro preserves_case_sum preserves_sbind commit_object_upload_keeps assms forget_upload_keeps)
  moreover have "preserves P (commit_abort_multipart rls bucket rq)"
    unfolding commit_abort_multipart_def by (intro preserves_case_sum forget_upload_keeps)
  ultimately show ?thesis
    by (auto simp: apply_commit_def commit_object_upload_keeps [OF assms] split: storage_action.split)
qed

end

interpretation quota_frame: commit_frame "quota_tables R C" uuid for R C uuid
  by unfold_locales (auto intro: enqueue_keeps_quota)

text \<open>The keys of the tables, and the leases of the queue.\<close>

definition queue_wf :: "cleanup_row list \<Rightarrow> bool" where
  "queue_wf Q \<longleftrightarrow> distinct (map cq_id Q)
     \<and> (\<forall>q\<in>set Q. 0 \<le> cq_attempts q \<and> cq_attempts q \<le> max_cleanup_attempts
          \<and> (cq_lease_token q = None \<longleftrightarrow> cq_lease_expires_at_ms q = None))"

abbreviation queue_ok :: "storage_db \<Rightarrow> bool" where
  "queue_ok db \<equiv> queue_wf (sd_cleanup db)"

definition reservation_key :: "reservation_row \<Rightarrow> string \<times> string" where
  "reservation_key r = (lr_project_id r, lr_nonce r)"

definition receipt_key :: "receipt_row \<Rightarrow> string \<times> string" where
  "receipt_key r = (cr_project_id r, cr_nonce r)"

definition quota_wf :: "reservation_row list \<Rightarrow> receipt_row list \<Rightarrow> bool" where
  "quota_wf R C \<longleftrightarrow> distinct (map reservation_key R) \<and> distinct (map receipt_key C)
     \<and> (\<forall>r\<in>set R. 0 \<le> lr_bytes r \<and> 16 \<le> length (lr_nonce r) \<and> length (lr_nonce r) \<le> 128)"

abbreviation quota_ok :: "storage_db \<Rightarrow> bool" where
  "quota_ok db \<equiv> quota_wf (sd_reservations db) (sd_receipts db)"

lemma enqueue_queue_ok: "preserves queue_ok (enqueue_cleanup uuid k a u n)"
  unfolding enqueue_cleanup_def
proof (rule preserves_if, rule preserves_sbind)
  fix i
  show "preserves queue_ok (\<lambda>db'. if i \<in> cq_id ` set (sd_cleanup db') then (Err ConstraintViolation, db')
        else (Ok (), db'\<lparr>sd_cleanup := sd_cleanup db' @
          [\<lparr>cq_id = i, cq_provider_key = k, cq_action = a, cq_upload_id = u, cq_created_at_ms = n,
            cq_available_at_ms = n, cq_lease_token = None, cq_lease_expires_at_ms = None, cq_attempts = 0\<rparr>]\<rparr>))"
    by (intro preservesI) (auto simp: queue_wf_def max_cleanup_attempts_def split: if_split_asm)
qed (simp add: draw_preserves)

section \<open>The invariant of the store\<close>

lemma authorize_arm_keeps:
  assumes "\<And>db n. P (db\<lparr>sd_drawn := n\<rparr>) = P db"
  shows "preserves P (authorize_arm env cfg rls bucket object rq now_ms)"
proof -
  note draws = draw_preserves [of P, OF assms]
  have object: "preserves P (probe_object env cfg rls bucket object rq now_ms)" for object
    unfolding probe_object_def probe_object_update_def probe_object_insert_def
    by (intro preserves_case_option preserves_sbind draws) auto
  have key: "preserves P (new_provider_key env cfg bucket)"
    unfolding new_provider_key_def by (intro preserves_sbind draws) auto
  have "preserves P (authorize_upload env cfg rls bucket object rq now_ms)"
    unfolding authorize_upload_def by (intro preserves_sbind object key) auto
  moreover have "preserves P (authorize_create_multipart env cfg rls bucket object rq now_ms)"
    unfolding authorize_create_multipart_def probe_upload_insert_def
    by (intro preserves_sbind object key draws) auto
  moreover have "preserves P (authorize_upload_part rls bucket rq)"
    "preserves P (authorize_complete_multipart env cfg rls bucket object rq)"
    "preserves P (authorize_abort_multipart rls bucket rq)"
    unfolding authorize_upload_part_def authorize_complete_multipart_def authorize_abort_multipart_def
      probe_upload_update_def
    by (intro preserves_case_sum preserves_sbind preserves_probe preserves_query)+
  moreover have "preserves P (storage_probe_object_delete (is_uuid env) rls i)" for i
    unfolding storage_probe_object_delete_def by (intro preserves_guarded_op preserves_probe)
  ultimately show ?thesis
    by (auto simp: authorize_arm_def intro!: preserves_sbind split: storage_action.split)
qed

lemma authorize_sync_keeps:
  assumes "\<And>db n. P (db\<lparr>sd_drawn := n\<rparr>) = P db" and "authorize_sync env cfg now_ms rq db = (r, db')" and "P db"
  shows "P db'"
proof -
  have "preserves P (authorize_found env cfg rq now_ms found)" for found
    by (cases found) (auto simp: authorize_found_def intro!: preserves_sbind authorize_arm_keeps assms(1))
  from preserves_case_sum [of P, OF this] assms(3) assms(2) [unfolded authorize_sync_def] show ?thesis
    by (rule preserves_with_user)
qed

lemma delete_one_keeps: "preserves queue_ok (delete_one p)" "preserves quota_ok (delete_one p)"
  by (auto simp: preserves_def delete_one_def Let_def quota_wf_def distinct_map inj_on_def)

lemma reservation_admitted_Ok:
  assumes "reservation_admitted pr no by now_ms db = Ok b"
  obtains quota used live uploads where "b = int by"
    "(pr, no) \<notin> reservation_key ` set (sd_reservations db)"
    "min_quota db = Some quota" "used_bytes db = Ok used" "sql_sum (live_reserved pr now_ms db) = Ok live"
    "upload_bytes db = Ok uploads" "used + (live + uploads) + int by \<le> quota"
proof -
  have b: "i64_of_u64 by StorageQuotaExceeded = Ok (int by)"
    "\<not> list_ex (\<lambda>r. lr_project_id r = pr \<and> lr_nonce r = no) (sd_reservations db)"
    using assms by (auto simp: reservation_admitted_def i64_of_u64_def split: if_split_asm)
  then have rest: "bindr (ok_or (min_quota db) StorageQuotaExceeded) (\<lambda>quota.
       bindr (used_bytes db) (\<lambda>used.
       bindr (bindr (sql_sum (live_reserved pr now_ms db)) (\<lambda>r. bindr (upload_bytes db) (sql_add r))) (\<lambda>reserved.
       case Option.bind (checked_add_i64 used reserved) (\<lambda>v. checked_add_i64 v (int by)) of
         None \<Rightarrow> Err StorageQuotaExceeded
       | Some total_bytes \<Rightarrow> if total_bytes > quota then Err StorageQuotaExceeded else Ok (int by)))) = Ok b"
    using assms by (simp add: reservation_admitted_def)
  then obtain quota used live uploads reserved where q: "min_quota db = Some quota" "used_bytes db = Ok used"
      "sql_sum (live_reserved pr now_ms db) = Ok live" "upload_bytes db = Ok uploads" "sql_add live uploads = Ok reserved"
      "(case Option.bind (checked_add_i64 used reserved) (\<lambda>v. checked_add_i64 v (int by)) of
         None \<Rightarrow> Err StorageQuotaExceeded
       | Some total_bytes \<Rightarrow> if total_bytes > quota then Err StorageQuotaExceeded else Ok (int by)) = Ok b"
    unfolding bindr_eq_Ok ok_or_eq_Ok by blast
  then have "b = int by \<and> used + reserved + int by \<le> quota"
    by (auto simp: checked_add_i64_def split: option.split_asm if_split_asm)
  moreover have "reserved = live + uploads" using q(5) by (simp add: sql_add_def split: if_split_asm)
  moreover have "(pr, no) \<notin> reservation_key ` set (sd_reservations db)"
    using b(2) by (auto simp: list_ex_iff reservation_key_def)
  ultimately show thesis using that q(1-4) by simp
qed

definition project_invalid :: "string \<Rightarrow> string \<Rightarrow> string \<Rightarrow> string \<Rightarrow> int \<Rightarrow> int \<Rightarrow> string \<Rightarrow> string \<Rightarrow> bool" where
  "project_invalid pr su tk no ex now_ms key ac \<longleftrightarrow> pr = [] \<or> su = [] \<or> tk = [] \<or> length no < 16 \<or> length no > 128
     \<or> ex \<le> now_ms \<or> key = [] \<or> \<not> valid_storage_action ac"

lemma storage_reserve_cases:
  assumes "storage_reserve pr su tk no by ex now_ms key ac up db = (r, db')"
  obtains (Refused) e where "r = Err e" "db' = db"
    | (Reserved) b where "r = Ok ()" "ex > now_ms" "16 \<le> length no" "length no \<le> 128"
        "reservation_admitted pr no by now_ms db = Ok b"
        "db' = db\<lparr>sd_reservations := sd_reservations db @
           [\<lparr>lr_project_id = pr, lr_nonce = no, lr_subject = su, lr_token_id = tk, lr_bytes = b,
             lr_expires_at_ms = ex, lr_provider_key = Some key, lr_action = Some ac, lr_upload_id = up\<rparr>]\<rparr>"
proof (cases "project_invalid pr su tk no ex now_ms key ac \<or> (\<exists>e. reservation_admitted pr no by now_ms db = Err e)")
  case True
  then show thesis
    using assms Refused by (cases "project_invalid pr su tk no ex now_ms key ac") (auto simp: storage_reserve_def project_invalid_def)
next
  case False
  then obtain b where "reservation_admitted pr no by now_ms db = Ok b"
    by (cases "reservation_admitted pr no by now_ms db") auto
  then show thesis using assms Reserved False by (auto simp: storage_reserve_def project_invalid_def)
qed

lemma storage_reserve_keeps:
  "preserves queue_ok (storage_reserve pr su tk no by ex now_ms key ac up)"
  "preserves quota_ok (storage_reserve pr su tk no by ex now_ms key ac up)"
  by (rule preservesI, erule storage_reserve_cases,
      auto simp: quota_wf_def reservation_key_def elim!: reservation_admitted_Ok)+

lemma record_receipt_keeps:
  "preserves queue_ok (record_receipt env now_ms rq)" "preserves quota_ok (record_receipt env now_ms rq)"
  by (auto simp: preserves_def record_receipt_def storage_record_commit_receipt_def quota_wf_def receipt_key_def
      list_ex_iff split: if_split_asm)

text \<open>
  A predicate that a commit keeps, and that reservations, receipts and the removal of expired rows keep,
  is kept by every request of the worker other than claims and acknowledgements of cleanup work, and by
  the preparation of a claim.
\<close>

locale store_frame = commit_frame +
  assumes delete: "\<And>p. preserves P (delete_one p)"
    and reserve: "\<And>pr su tk no by ex now_ms key ac up. preserves P (storage_reserve pr su tk no by ex now_ms key ac up)"
    and receipt: "\<And>env now_ms rq. preserves P (record_receipt env now_ms rq)"
    and expired_receipts: "\<And>db now_ms. P db \<Longrightarrow>
      P (db\<lparr>sd_receipts := filter (\<lambda>r. \<not> cr_expires_at_ms r \<le> now_ms) (sd_receipts db)\<rparr>)"
    and expired_upload: "\<And>db a b c. P db \<Longrightarrow>
      P (db\<lparr>sd_upload_parts := a, sd_provider_uploads := b, sd_uploads := c\<rparr>)"
begin

lemma expire_reservation_keeps: "preserves P (expire_reservation uuid now_ms r)"
  unfolding expire_reservation_def by (auto intro!: preserves_sbind delete enqueue split: option.split)

lemma expire_upload_keeps: "preserves P (expire_upload uuid now_ms e)"
  by (cases e, auto simp: expire_upload_def intro!: preserves_sbind enqueue intro: preservesI expired_upload)

lemma expire_rest_keeps: "preserves P (expire_rest uuid now_ms limit n)"
proof (rule preservesI)
  fix db r db'
  assume "P db" "expire_rest uuid now_ms limit n db = (r, db')"
  moreover have "preserves P (sbind (sfor (expired_uploads now_ms limit db) (expire_upload uuid now_ms)) (\<lambda>_ db'.
     (Ok n, db'\<lparr>sd_receipts := filter (\<lambda>r. \<not> cr_expires_at_ms r \<le> now_ms) (sd_receipts db')\<rparr>)))"
    using expired_receipts by (intro preserves_sbind preserves_sfor expire_upload_keeps) (auto simp: preserves_def)
  ultimately show "P db'" by (auto simp: expire_rest_def dest: preservesD)
qed

lemma prepare_keeps: "preserves P (storage_prepare_expired_cleanup uuid now_ms limit)"
proof (rule preservesI)
  fix db r db'
  assume "P db" "storage_prepare_expired_cleanup uuid now_ms limit db = (r, db')"
  moreover have "preserves P (sbind (sfor rs (expire_reservation uuid now_ms)) (\<lambda>_. expire_rest uuid now_ms limit n))" for rs n
    by (intro preserves_sbind preserves_sfor expire_reservation_keeps expire_rest_keeps)
  ultimately show "P db'"
    by (auto simp: storage_prepare_expired_cleanup_def Let_def dest: preservesD split: if_split_asm)
qed

lemma first_commit_keeps:
  assumes "we_uuid env = uuid"
  shows "preserves P (first_commit env cfg now_ms rq)"
proof -
  have "preserves P (consume_for now_ms rq)"
    unfolding consume_for_def storage_consume_reservation_def by (simp add: preserves_sok preserves_case_sum delete)
  then show ?thesis
    unfolding first_commit_def Let_def
    by (intro preserves_sbind preserves_case_sum preserves_guarded_op apply_commit_keeps [OF assms] receipt)
qed

lemma release_keeps: "preserves P (storage_release_reservation_bound uuid pr su tk no by ex now_ms)"
proof (rule preservesI)
  fix db r db'
  assume P: "P db" and run: "storage_release_reservation_bound uuid pr su tk no by ex now_ms db = (r, db')"
  have ops: "preserves P (sbind (if c then enqueue_cleanup uuid k a u now_ms else sok ()) (\<lambda>_. delete_one p))" for c k a u p
    by (intro preserves_sbind preserves_if_op preserves_sok enqueue delete)
  show "P db'"
    using P run
    by (auto simp: storage_release_reservation_bound_def Let_def dest: preservesD [OF ops]
        split: sum.split_asm option.split_asm)
qed

lemma authorize_step: "authorize_sync env cfg now_ms arq db = (a, db') \<Longrightarrow> P db \<Longrightarrow> P db'"
  by (rule authorize_sync_keeps [OF drawn])

lemma reserve_step: "reserve_sync env cfg now_ms rrq db = (u, db') \<Longrightarrow> P db \<Longrightarrow> P db'"
  unfolding reserve_sync_def by (rule preserves_with_user [OF preserves_atomically [OF reserve drawn]])

lemma commit_step:
  assumes "we_uuid env = uuid" and "commit_sync env cfg now_ms crq db = (u, db')" and "P db"
  shows "P db'"
proof -
  have "preserves P (commit_callback env cfg now_ms crq)"
    using first_commit_keeps [OF assms(1), of cfg now_ms crq]
    by (auto simp: preserves_def commit_callback_def split: sum.split_asm option.split_asm)
  from preserves_atomically [OF this drawn] assms(3,2) [unfolded commit_sync_def] show ?thesis
    by (rule preserves_with_user)
qed

lemma release_step:
  "we_uuid env = uuid \<Longrightarrow> release_reservation_sync env cfg now_ms auth nonce bytes expires db = (u, db') \<Longrightarrow> P db \<Longrightarrow> P db'"
  unfolding release_reservation_sync_def by (auto intro: preserves_with_user [OF preserves_atomically [OF release_keeps drawn]])

lemma expire_step:
  "we_uuid env = uuid \<Longrightarrow> cleanup_expired_reservations_sync env now_ms db = (n, db') \<Longrightarrow> P db \<Longrightarrow> P db'"
  unfolding cleanup_expired_reservations_sync_def storage_cleanup_expired_reservations_def
  by (auto intro: preserves_with_maintenance [OF preserves_atomically [OF prepare_keeps drawn]])

lemma claim_step:
  assumes "we_uuid env = uuid" and "preserves P (storage_claim_cleanup uuid now_ms limit cleanup_lease_ms)"
    and "cleanup_claim_sync env now_ms limit db = (b, db')" and "P db"
  shows "P db'"
proof -
  have "preserves P (atomically (sbind (storage_prepare_expired_cleanup (we_uuid env) now_ms limit) (\<lambda>removed.
       sbind (storage_claim_cleanup (we_uuid env) now_ms limit cleanup_lease_ms) (\<lambda>items.
       slift (bindr (mapr (\<lambda>i. bindr (protocol_storage_action (ci_action i)) (\<lambda>a. Ok (i, a))) items) (\<lambda>out.
         Ok (removed, out)))))))"
    unfolding assms(1) by (intro preserves_atomically preserves_sbind prepare_keeps assms(2) preserves_slift drawn)
  from this assms(4,3) [unfolded cleanup_claim_sync_def] show ?thesis by (rule preserves_with_maintenance)
qed

lemma ack_step:
  assumes "\<And>e. e \<in> set items \<Longrightarrow> preserves P (ack_one now_ms e)" and "cleanup_ack_sync now_ms items db = (p, db')" and "P db"
  shows "P db'"
proof -
  have "preserves P (storage_ack_cleanup now_ms items)"
    unfolding storage_ack_cleanup_def by (intro preserves_guarded_op preserves_sbind preserves_sok preserves_sfor assms(1))
  from preserves_atomically [OF this drawn] assms(3,2) [unfolded cleanup_ack_sync_def] show ?thesis
    by (rule preserves_with_maintenance)
qed

end

lemma update_cleanup_queue_wf:
  assumes "queue_wf Q" and "\<And>q. q \<in> set Q \<Longrightarrow> p q \<Longrightarrow> cq_id (f q) = cq_id q \<and> 0 \<le> cq_attempts (f q)
      \<and> cq_attempts (f q) \<le> max_cleanup_attempts \<and> (cq_lease_token (f q) = None \<longleftrightarrow> cq_lease_expires_at_ms (f q) = None)"
  shows "queue_wf (map (\<lambda>q. if p q then f q else q) Q)"
proof -
  have "map cq_id (map (\<lambda>q. if p q then f q else q) Q) = map cq_id Q" using assms(2) by auto
  then show ?thesis using assms unfolding queue_wf_def by (simp only: set_map) auto
qed

lemma claim_all_quota: "preserves quota_ok (claim_all uuid now_ms l qs)"
proof -
  have "preserves quota_ok (claim_one uuid now_ms l q)" for q
    unfolding claim_one_def
    by (intro preserves_sbind draw_preserves preserves_slift) (auto simp: preserves_def update_cleanup_def)
  then show ?thesis by (induction qs) (auto intro!: preserves_sbind)
qed

lemma claim_all_queue:
  assumes "\<forall>q\<in>set qs. 0 \<le> cq_attempts q"
  shows "preserves queue_ok (claim_all uuid now_ms l qs)"
proof -
  have one: "preserves queue_ok (claim_one uuid now_ms l q)" if "0 \<le> cq_attempts q" for q
    unfolding claim_one_def
  proof (intro preserves_sbind draw_preserves preserves_slift)
    fix token
    show "preserves queue_ok (update_cleanup (\<lambda>x. cq_id x = cq_id q \<and> leasable now_ms x)
        (\<lambda>x. x\<lparr>cq_lease_token := Some token, cq_lease_expires_at_ms := Some l, cq_attempts := next_attempt q\<rparr>))"
      using that by (auto simp: preserves_def update_cleanup_def next_attempt_def max_cleanup_attempts_def
          saturating_add_i64_def i64_max_def i64_min_def intro!: update_cleanup_queue_wf)
  qed simp
  show ?thesis
    using assms by (induction qs) (auto intro!: preserves_sbind one)
qed

lemma candidates_subset: "set (cleanup_candidates now_ms limit db) \<subseteq> {q \<in> set (sd_cleanup db). leasable now_ms q \<and> cq_attempts q < max_cleanup_attempts}"
  unfolding cleanup_candidates_def by (rule subset_trans [OF set_take_subset]) auto

lemma claim_cleanup_keeps: "preserves quota_ok (storage_claim_cleanup uuid now_ms limit dur)"
  "preserves queue_ok (storage_claim_cleanup uuid now_ms limit dur)"
proof -
  have "\<forall>q\<in>set (cleanup_candidates now_ms limit db). 0 \<le> cq_attempts q" if "queue_ok db" for db
    using that candidates_subset [of now_ms limit db] by (auto simp: queue_wf_def)
  then show "preserves queue_ok (storage_claim_cleanup uuid now_ms limit dur)"
    by (intro preservesI)
      (auto simp: storage_claim_cleanup_def dest: preservesD [OF claim_all_queue] split: if_split_asm)
  show "preserves quota_ok (storage_claim_cleanup uuid now_ms limit dur)"
    by (intro preservesI)
      (auto simp: storage_claim_cleanup_def dest: preservesD [OF claim_all_quota] split: if_split_asm)
qed

lemma ack_one_keeps: "preserves queue_ok (ack_one now_ms e)" "preserves quota_ok (ack_one now_ms e)"
proof -
  obtain i token outcome where e: "e = (i, token, outcome)" by (cases e) auto
  have wf: "queue_wf (filter p Q)" if "queue_wf Q" for p Q
    using that by (auto simp: queue_wf_def distinct_map inj_on_def)
  show "preserves queue_ok (ack_one now_ms e)"
  proof (rule preservesI)
    fix db r db'
    assume ok: "queue_ok db" and run: "ack_one now_ms e db = (r, db')"
    show "queue_ok db'"
    proof (cases outcome)
      case Deleted
      then show ?thesis using ok run wf by (auto simp: e ack_one_def)
    next
      case Retry
      have "queue_wf (map (\<lambda>q. if cq_id q = i \<and> cq_lease_token q = Some token
          then q\<lparr>cq_available_at_ms := n, cq_lease_token := None, cq_lease_expires_at_ms := None\<rparr> else q) (sd_cleanup db))" for n
        using ok by (rule update_cleanup_queue_wf) (use ok in \<open>auto simp: queue_wf_def\<close>)
      then show ?thesis
        using Retry ok run by (auto simp: e ack_one_def Let_def sbind_def update_cleanup_def slift_def split: option.split_asm)
    qed
  qed
  show "preserves quota_ok (ack_one now_ms e)"
    by (rule preservesI)
       (auto simp: e ack_one_def Let_def sbind_def update_cleanup_def slift_def
         split: option.split_asm cleanup_disposition.split_asm)
qed

definition store_ok :: "storage_db \<Rightarrow> bool" where
  "store_ok db \<longleftrightarrow> queue_ok db \<and> quota_ok db"

lemma preserves_store_ok: "preserves queue_ok m \<Longrightarrow> preserves quota_ok m \<Longrightarrow> preserves store_ok m"
  by (auto simp: preserves_def store_ok_def)

lemma store_ok_drawn [simp]: "store_ok (db\<lparr>sd_drawn := n\<rparr>) = store_ok db"
  by (simp add: store_ok_def)

interpretation frame: store_frame store_ok uuid for uuid
proof -
  have enqueue_quota: "preserves quota_ok (enqueue_cleanup uuid k a u n)" for k a u n
    by (rule preserves_quota_property, rule enqueue_keeps_quota)
  show "store_frame store_ok uuid"
    by unfold_locales
      (auto intro!: preserves_store_ok preserves_queue_property preserves_quota_property enqueue_queue_ok enqueue_quota
        delete_one_keeps storage_reserve_keeps record_receipt_keeps
        simp: store_ok_def quota_wf_def distinct_map inj_on_def)
qed

text \<open>The requests of the worker, each one transaction.\<close>

inductive storage_step :: "worker_env \<Rightarrow> metadata_config \<Rightarrow> storage_db \<Rightarrow> storage_db \<Rightarrow> bool" for env cfg where
  authorize: "authorize_sync env cfg now_ms arq db = (a, db') \<Longrightarrow> storage_step env cfg db db'"
| reserve: "reserve_sync env cfg now_ms rrq db = (u, db') \<Longrightarrow> storage_step env cfg db db'"
| commit: "commit_sync env cfg now_ms crq db = (u, db') \<Longrightarrow> storage_step env cfg db db'"
| release: "release_reservation_sync env cfg now_ms auth nonce bytes expires db = (u, db') \<Longrightarrow> storage_step env cfg db db'"
| expire: "cleanup_expired_reservations_sync env now_ms db = (n, db') \<Longrightarrow> storage_step env cfg db db'"
| claim: "cleanup_claim_sync env now_ms limit db = (b, db') \<Longrightarrow> storage_step env cfg db db'"
| ack: "cleanup_ack_sync now_ms items db = (p, db') \<Longrightarrow> storage_step env cfg db db'"

lemma storage_step_ok: "storage_step env cfg db db' \<Longrightarrow> store_ok db \<Longrightarrow> store_ok db'"
proof (induction rule: storage_step.induct)
  case (claim now_ms limit db b db')
  from refl preserves_store_ok [OF claim_cleanup_keeps(2,1)] claim show ?case by (rule frame.claim_step)
next
  case (ack now_ms items db p db')
  from preserves_store_ok [OF ack_one_keeps] ack show ?case by (rule frame.ack_step)
qed (auto dest: frame.authorize_step frame.reserve_step frame.commit_step [OF refl]
    frame.release_step [OF refl] frame.expire_step [OF refl])

definition empty_tables :: "storage_db \<Rightarrow> bool" where
  "empty_tables db \<longleftrightarrow> sd_reservations db = [] \<and> sd_receipts db = [] \<and> sd_cleanup db = []"

lemma empty_store_ok: "empty_tables db \<Longrightarrow> store_ok db"
  by (simp add: empty_tables_def store_ok_def queue_wf_def quota_wf_def)

interpretation store: transition_system empty_tables "storage_step env cfg" store_ok for env cfg
  by unfold_locales (rule empty_store_ok, assumption, rule storage_step_ok)

end
