(* ===== verification/Storage_Properties.thy ===== *)
theory Storage_Properties
  imports Storage_Gateway
begin

text \<open>
  The gateway's local quota over every interleaving of its critical sections, and the binding of a
  commit to the grant it was made with.
\<close>

section \<open>Local reservations: the invariant\<close>

definition pending :: "string \<Rightarrow> reservations \<Rightarrow> nat" where
  "pending p rs = sum_list (map ((\<lambda>r. if rs_project_id r = p then rs_bytes r else 0) \<circ> snd) (by_nonce rs))"

definition reservations_ok :: "storage_limits \<Rightarrow> reservations \<Rightarrow> bool" where
  "reservations_ok limits rs \<longleftrightarrow> hm_wf (by_nonce rs)
     \<and> (\<forall>p. project_bytes rs p = pending p rs)
     \<and> length (by_nonce rs) \<le> sl_max_pending_reservations limits"

lemma project_bytes_drop:
  "project_bytes (drop_reservation n r rs) p =
     (if p = rs_project_id r then project_bytes rs p - rs_bytes r else project_bytes rs p)"
  by (auto simp: project_bytes_def drop_reservation_def Let_def hm_get_insert hm_get_remove saturating_sub_u64_minus
      split: option.splits)

lemma by_nonce_drop [simp]: "by_nonce (drop_reservation n r rs) = hm_remove n (by_nonce rs)"
  by (simp add: drop_reservation_def Let_def)

lemma pending_remove:
  assumes "hm_wf (by_nonce rs)" and "hm_get (by_nonce rs) n = Some r" and "by_nonce rs' = hm_remove n (by_nonce rs)"
  shows "pending p rs' + (if rs_project_id r = p then rs_bytes r else 0) = pending p rs"
  using hm_sum_remove [OF assms(1), of "\<lambda>r. if rs_project_id r = p then rs_bytes r else 0" n] assms(2,3)
  by (simp add: pending_def)

lemma drop_reservation_ok:
  assumes "reservations_ok limits rs" and "hm_get (by_nonce rs) n = Some r"
  shows "reservations_ok limits (drop_reservation n r rs)"
proof -
  have wf: "hm_wf (by_nonce rs)" using assms(1) by (simp add: reservations_ok_def)
  have "project_bytes (drop_reservation n r rs) p = pending p (drop_reservation n r rs)" for p
    using pending_remove [OF wf assms(2), of "drop_reservation n r rs" p] assms(1)
    by (auto simp: project_bytes_drop reservations_ok_def)
  then show ?thesis
    using assms hm_length_remove [OF wf, of n] by (auto simp: reservations_ok_def hm_wf_remove)
qed

lemma drop_all_ok: "reservations_ok limits rs \<Longrightarrow> reservations_ok limits (drop_all ns rs)"
  by (induction ns rs rule: drop_all.induct) (auto simp: drop_reservation_ok split: option.split)

lemma drop_all_get:
  "hm_get (by_nonce (drop_all ns rs)) n = (if n \<in> set ns then None else hm_get (by_nonce rs) n)"
  by (induction ns rs rule: drop_all.induct) (auto simp: hm_get_remove split: option.split)

lemma sweep_ok: "reservations_ok limits rs \<Longrightarrow> reservations_ok limits (snd (sweep_expired rs now_ms))"
  by (simp add: sweep_expired_def drop_all_ok)

lemma sweep_get:
  assumes "hm_wf (by_nonce rs)"
  shows "hm_get (by_nonce (snd (sweep_expired rs now_ms))) n = Some r
    \<longleftrightarrow> hm_get (by_nonce rs) n = Some r \<and> now_ms < rs_expires_at_ms r"
proof -
  have "n \<in> set (expired_nonces rs now_ms) \<longleftrightarrow> (\<exists>r. hm_get (by_nonce rs) n = Some r \<and> rs_expires_at_ms r \<le> now_ms)"
    using hm_get_iff [OF assms] by (force simp: expired_nonces_def)
  then show ?thesis by (auto simp: sweep_expired_def drop_all_get)
qed

text \<open>Every critical section, in any order. Quotas come from an \<open>INTEGER\<close> column, hence the bound.\<close>

inductive local_step :: "storage_limits \<Rightarrow> reservations \<Rightarrow> reservations \<Rightarrow> bool" for limits where
  reserve: "local_reserve limits nonce project bytes current quota now_ms rs = (r, rs') \<Longrightarrow> 0 < bytes \<Longrightarrow>
    int quota \<le> i64_max \<Longrightarrow> local_step limits rs rs'"
| validate: "validate_local_reservation claims now_ms rs = (r, rs') \<Longrightarrow> local_step limits rs rs'"
| release: "release_local_reservation project nonce bytes expires now_ms rs = (r, rs') \<Longrightarrow> local_step limits rs rs'"
| sweep: "sweep_expired rs now_ms = (n, rs') \<Longrightarrow> local_step limits rs rs'"

inductive_cases local_stepE: "local_step limits rs rs'"

lemma saturating_exact:
  "saturating_add_u64 (saturating_add_u64 a b) c \<le> q \<Longrightarrow> int q \<le> i64_max \<Longrightarrow>
     a + b + c \<le> q \<and> saturating_add_u64 b c = b + c"
  by (auto simp: saturating_add_u64_def i64_max_def u64_max_def)

lemma local_reserve_cases:
  assumes "local_reserve limits nonce project bytes current quota now_ms rs = (r, rs')"
  obtains (Refused) e where "r = Err e" "rs' = snd (sweep_expired rs now_ms)"
    | (Reserved) s where "s = snd (sweep_expired rs now_ms)" "r = Ok ()" "hm_get (by_nonce s) nonce = None"
        "length (by_nonce s) < sl_max_pending_reservations limits"
        "saturating_add_u64 (saturating_add_u64 current (project_bytes s project)) bytes \<le> quota"
        "rs' = s\<lparr>by_nonce := hm_insert nonce \<lparr>rs_project_id = project, rs_bytes = bytes,
              rs_expires_at_ms = saturating_add_i64 now_ms (sl_grant_ttl_ms limits)\<rparr> (by_nonce s),
            by_project := hm_insert project (saturating_add_u64 (project_bytes s project) bytes) (by_project s)\<rparr>"
  using assms
  by (auto simp: local_reserve_def Let_def hm_contains_key_def not_le not_less split: if_split_asm)

lemma local_reserve_ok:
  assumes "local_reserve limits nonce project bytes current quota now_ms rs = (r, rs')"
    and "reservations_ok limits rs" and "int quota \<le> i64_max"
  shows "reservations_ok limits rs' \<and> (r = Ok () \<longrightarrow> current + pending project rs' \<le> quota)"
  using assms(1)
proof (cases rule: local_reserve_cases)
  case (Refused e)
  then show ?thesis using sweep_ok [OF assms(2)] by simp
next
  case (Reserved s)
  have ok: "reservations_ok limits s" unfolding Reserved(1) using assms(2) by (rule sweep_ok)
  then have wf: "hm_wf (by_nonce s)" by (simp add: reservations_ok_def)
  have exact: "current + project_bytes s project + bytes \<le> quota"
      "saturating_add_u64 (project_bytes s project) bytes = project_bytes s project + bytes"
    using saturating_exact [OF Reserved(5) assms(3)] by auto
  have sum: "pending p rs' = pending p s + (if project = p then bytes else 0)" for p
    using hm_sum_insert [OF wf, of "\<lambda>r. if rs_project_id r = p then rs_bytes r else 0" nonce
        "\<lparr>rs_project_id = project, rs_bytes = bytes,
          rs_expires_at_ms = saturating_add_i64 now_ms (sl_grant_ttl_ms limits)\<rparr>"] Reserved(3)
    by (simp add: pending_def Reserved(6))
  have "project_bytes rs' p = pending p rs'" for p
    using ok exact(2) unfolding sum
    by (auto simp: reservations_ok_def Reserved(6) project_bytes_def hm_get_insert split: option.splits)
  then show ?thesis
    using ok wf exact Reserved(3,4) sum [of project]
    by (auto simp: reservations_ok_def Reserved(6) hm_wf_insert hm_length_insert)
qed

lemma validate_local_sweeps:
  "validate_local_reservation claims now_ms rs = (r, rs') \<Longrightarrow>
     rs' = rs \<or> rs' = snd (sweep_expired rs now_ms)"
  by (auto simp: validate_local_reservation_def Let_def split: if_split_asm option.split_asm)

lemma release_local_cases:
  assumes "release_local_reservation project nonce bytes expires now_ms rs = (r, rs')"
  obtains (Kept) "rs' = snd (sweep_expired rs now_ms)" "r = Ok 0 \<and> hm_get (by_nonce rs') nonce = None \<or> r = Err InvalidGrant"
    | (Released) res where "hm_get (by_nonce (snd (sweep_expired rs now_ms))) nonce = Some res"
        "\<not> binding_differs res project bytes expires" "r = Ok (rs_bytes res)"
        "rs' = drop_reservation nonce res (snd (sweep_expired rs now_ms))"
  using assms by (auto simp: release_local_reservation_def Let_def split: if_split_asm option.split_asm)

lemma release_local_ok:
  assumes "release_local_reservation project nonce bytes expires now_ms rs = (r, rs')" and "reservations_ok limits rs"
  shows "reservations_ok limits rs'"
  using assms(1)
  by (cases rule: release_local_cases) (use sweep_ok [OF assms(2)] in \<open>auto intro: drop_reservation_ok\<close>)

lemma local_step_ok: "local_step limits rs rs' \<Longrightarrow> reservations_ok limits rs \<Longrightarrow> reservations_ok limits rs'"
proof (erule local_stepE)
  fix nonce project bytes current quota now_ms r
  assume "local_reserve limits nonce project bytes current quota now_ms rs = (r, rs')" "reservations_ok limits rs"
    "int quota \<le> i64_max"
  then show "reservations_ok limits rs'" using local_reserve_ok by blast
next
  fix claims now_ms r
  assume "validate_local_reservation claims now_ms rs = (r, rs')" "reservations_ok limits rs"
  then show "reservations_ok limits rs'" using validate_local_sweeps sweep_ok by blast
next
  fix project nonce bytes expires now_ms r
  assume "release_local_reservation project nonce bytes expires now_ms rs = (r, rs')" "reservations_ok limits rs"
  then show "reservations_ok limits rs'" by (rule release_local_ok)
next
  fix now_ms n
  assume "sweep_expired rs now_ms = (n, rs')" "reservations_ok limits rs"
  then show "reservations_ok limits rs'" using sweep_ok [of limits rs now_ms] by simp
qed

lemma reservations_default_ok: "reservations_ok limits reservations_default"
  by (simp add: reservations_ok_def reservations_default_def project_bytes_def pending_def)

interpretation local_quota: transition_system "\<lambda>rs. rs = reservations_default" "local_step limits"
    "reservations_ok limits" for limits
  by unfold_locales (auto simp: local_step_ok reservations_default_ok)

text \<open>
  C23. The local quota is never overcommitted. Over every interleaving of the gateway's critical
  sections: the total kept for a project is exactly the bytes of its pending reservations, the number of
  pending reservations stays within its limit, and a reservation that is granted used a new nonce,
  counts only reservations that have not expired, and leaves the committed bytes plus all pending bytes
  within the project's quota.
\<close>

theorem storage_quota_not_overcommitted:
  assumes "(local_step limits)\<^sup>*\<^sup>* reservations_default rs"
    and "local_reserve limits nonce project bytes current quota now_ms rs = (Ok (), rs')"
    and "int quota \<le> i64_max" and "0 < sl_grant_ttl_ms limits" and "now_ms < i64_max"
  shows "current + pending project rs' \<le> quota
    \<and> (\<forall>p. project_bytes rs' p = pending p rs')
    \<and> length (by_nonce rs') \<le> sl_max_pending_reservations limits
    \<and> (\<forall>n r. hm_get (by_nonce rs') n = Some r \<longrightarrow> now_ms < rs_expires_at_ms r)
    \<and> (\<forall>r. hm_get (by_nonce rs) nonce = Some r \<longrightarrow> rs_expires_at_ms r \<le> now_ms)"
proof -
  have ok: "reservations_ok limits rs" using local_quota.reachable_inv [OF refl assms(1)] .
  then have wf: "hm_wf (by_nonce rs)" by (simp add: reservations_ok_def)
  have "reservations_ok limits rs'" "current + pending project rs' \<le> quota"
    using local_reserve_ok [OF assms(2) ok assms(3)] by auto
  moreover have "(\<forall>n r. hm_get (by_nonce rs') n = Some r \<longrightarrow> now_ms < rs_expires_at_ms r)
      \<and> (\<forall>r. hm_get (by_nonce rs) nonce = Some r \<longrightarrow> rs_expires_at_ms r \<le> now_ms)"
    using assms(2)
  proof (cases rule: local_reserve_cases)
    case (Reserved s)
    have live: "now_ms < rs_expires_at_ms r" if "hm_get (by_nonce s) n = Some r" for n r
      using that unfolding Reserved(1) by (simp add: sweep_get [OF wf])
    have "rs_expires_at_ms r \<le> now_ms" if "hm_get (by_nonce rs) nonce = Some r" for r
      using that Reserved(3) sweep_get [OF wf, of now_ms nonce r] unfolding Reserved(1) by force
    moreover have "now_ms < saturating_add_i64 now_ms (sl_grant_ttl_ms limits)"
      using assms(4,5) by (simp add: saturating_add_i64_def)
    ultimately show ?thesis
      using live unfolding Reserved(6) by (auto simp: hm_get_insert split: if_split_asm)
  qed simp
  ultimately show ?thesis by (simp add: reservations_ok_def)
qed

definition demo_limits :: storage_limits where
  "demo_limits = \<lparr>sl_signed_url_ttl_ms = 1000, sl_grant_ttl_ms = 5000, sl_max_pending_reservations = 4\<rparr>"

definition demo_reserved :: reservations where
  "demo_reserved = snd (local_reserve demo_limits ''nonce-0000000001'' ''p'' 40 10 100 1000 reservations_default)"

theorem storage_quota_not_overcommitted_witness:
  "\<exists>rs'. local_reserve demo_limits ''nonce-0000000002'' ''p'' 50 10 100 2000 demo_reserved = (Ok (), rs')
    \<and> 10 + pending ''p'' rs' \<le> 100 \<and> pending ''p'' rs' = 90"
proof -
  have "(local_step demo_limits)\<^sup>*\<^sup>* reservations_default demo_reserved"
    by (rule r_into_rtranclp, rule local_step.reserve
        [of demo_limits "''nonce-0000000001''" "''p''" 40 10 100 1000])
      (simp_all add: demo_reserved_def prod_eq_iff i64_max_def)
  moreover define out where
    "out = local_reserve demo_limits ''nonce-0000000002'' ''p'' 50 10 100 2000 demo_reserved"
  have "fst out = Ok ()" "pending ''p'' (snd out) = 90" unfolding out_def by code_simp+
  moreover from this(1) have *: "local_reserve demo_limits ''nonce-0000000002'' ''p'' 50 10 100 2000 demo_reserved
      = (Ok (), snd out)"
    unfolding out_def by (simp add: prod_eq_iff)
  ultimately show ?thesis
    using storage_quota_not_overcommitted [OF _ *] by (auto simp: i64_max_def demo_limits_def)
qed


section \<open>Grants and commits\<close>

lemma verify_authenticated_Ok:
  assumes "verify_authenticated env c token = Ok claims"
  obtains payload64 signature64 payload where "token = payload64 @ CHR ''.'' # signature64"
    "sv_b64_decode env payload64 = Some payload"
    "sv_b64_decode env signature64 = Some (sv_hmac env (cd_secret c) payload)"
    "sv_decode env payload = Some claims"
proof -
  obtain payload64 signature64 where s: "split_once CHR ''.'' token = Some (payload64, signature64)"
    using assms by (auto simp: verify_authenticated_def ffdb_result split: if_split_asm)
  obtain payload where p: "sv_b64_decode env payload64 = Some payload"
    using assms s by (auto simp: verify_authenticated_def ffdb_result split: if_split_asm)
  have "sv_b64_decode env signature64 = Some (sv_hmac env (cd_secret c) payload)" "sv_decode env payload = Some claims"
    using assms s p by (auto simp: verify_authenticated_def ffdb_result split: if_split_asm)
  then show thesis using that split_once_SomeD [OF s] p by blast
qed

lemma finish_commit_Ok:
  assumes "finish_commit claims now_ms gw = (Ok (), gw')"
  shows "gw_store gw' = gw_store gw \<and> hm_get (by_nonce (gw_local gw')) (gc_nonce claims) = None"
proof -
  obtain r rs where rel: "release_local_reservation (gc_project_id claims) (gc_nonce claims)
      (gc_reservation_bytes claims) (gc_reservation_expires_at_ms claims) now_ms (gw_local gw) = (r, rs)"
    by force
  then have gw': "gw' = gw\<lparr>gw_local := rs\<rparr>" and "\<exists>n. r = Ok n"
    using assms by (auto simp: finish_commit_def split: sum.split_asm)
  from rel have "hm_get (by_nonce rs) (gc_nonce claims) = None"
    by (cases rule: release_local_cases) (use \<open>\<exists>n. r = Ok n\<close> in \<open>auto simp: hm_get_remove\<close>)
  with gw' show ?thesis by simp
qed

lemma finish_commit_released:
  assumes "hm_get (by_nonce (gw_local gw)) (gc_nonce claims) = None" and "hm_wf (by_nonce (gw_local gw))"
  shows "fst (finish_commit claims now_ms gw) = Ok () \<and> gw_store (snd (finish_commit claims now_ms gw)) = gw_store gw"
proof -
  have "hm_get (by_nonce (snd (sweep_expired (gw_local gw) now_ms))) (gc_nonce claims) = None"
    using assms(1) sweep_get [OF assms(2), of now_ms "gc_nonce claims"] by (metis option.distinct(1) option.exhaust)
  then show ?thesis
    by (simp add: finish_commit_def release_local_reservation_def Let_def)
qed

lemma drop_all_wf: "hm_wf (by_nonce rs) \<Longrightarrow> hm_wf (by_nonce (drop_all ns rs))"
  by (induction ns rs rule: drop_all.induct) (auto simp: hm_wf_remove split: option.split)

lemma sweep_wf: "hm_wf (by_nonce rs) \<Longrightarrow> hm_wf (by_nonce (snd (sweep_expired rs now_ms)))"
  by (simp add: sweep_expired_def drop_all_wf)

lemma finish_commit_wf:
  assumes "finish_commit claims now_ms gw = (r, gw')" and "hm_wf (by_nonce (gw_local gw))"
  shows "hm_wf (by_nonce (gw_local gw'))"
proof -
  obtain q rs where rel: "release_local_reservation (gc_project_id claims) (gc_nonce claims)
      (gc_reservation_bytes claims) (gc_reservation_expires_at_ms claims) now_ms (gw_local gw) = (q, rs)"
    by force
  from rel have "hm_wf (by_nonce rs)"
    by (cases rule: release_local_cases) (use sweep_wf [OF assms(2)] in \<open>auto simp: hm_wf_remove\<close>)
  then show ?thesis using assms(1) rel by (auto simp: finish_commit_def)
qed

lemma commit_metadata_Ok:
  assumes "commit_metadata env cfg ma token auth result now_ms gw = (Ok (), gw')"
  obtains claims where "grant_verify env (gf_codec cfg) token now_ms = Ok claims"
    "\<not> identity_differs claims auth" "\<not> result_refused claims result"
    "hm_get (by_nonce (gw_local gw')) (gc_nonce claims) = None"
    "ma_receipt ma (receipt_request claims auth) (gw_store gw) = Ok (Some result) \<and> gw_store gw' = gw_store gw
     \<or> ma_receipt ma (receipt_request claims auth) (gw_store gw) = Ok None
       \<and> ma_commit ma (metadata_commit claims auth result) (gw_store gw) = (Ok (), gw_store gw')"
proof -
  obtain claims where claims: "grant_verify env (gf_codec cfg) token now_ms = Ok claims"
    using assms by (auto simp: commit_metadata_def split: sum.split_asm)
  have checks: "\<not> identity_differs claims auth" "\<not> result_refused claims result"
    using assms claims by (auto simp: commit_metadata_def split: if_split_asm)
  obtain receipt where receipt: "ma_receipt ma (receipt_request claims auth) (gw_store gw) = Ok receipt"
    using assms claims checks by (auto simp: commit_metadata_def split: sum.split_asm)
  show thesis
  proof (cases receipt)
    case (Some committed)
    then have "committed = result" and "finish_commit claims now_ms gw = (Ok (), gw')"
      using assms claims checks receipt by (auto simp: commit_metadata_def split: if_split_asm)
    then show thesis
      using that [OF claims checks] receipt Some finish_commit_Ok [of claims now_ms gw gw'] by simp
  next
    case None
    obtain v rs where v: "validate_local_reservation claims now_ms (gw_local gw) = (v, rs)" by force
    obtain u where u: "v = Ok u" using assms claims checks receipt None v
      by (cases v) (auto simp: commit_metadata_def)
    obtain d m where d: "ma_commit ma (metadata_commit claims auth result) (gw_store gw) = (d, m)" by force
    have "d = Ok () \<and> finish_commit claims now_ms (gw\<lparr>gw_local := rs, gw_store := m\<rparr>) = (Ok (), gw')"
      using assms claims checks receipt None v u d by (cases d) (auto simp: commit_metadata_def)
    then show thesis
      using that [OF claims checks] receipt None d finish_commit_Ok by fastforce
  qed
qed

lemma commit_metadata_wf:
  assumes "commit_metadata env cfg ma token auth result now_ms gw = (r, gw')" and "hm_wf (by_nonce (gw_local gw))"
  shows "hm_wf (by_nonce (gw_local gw'))"
proof -
  have swept: "hm_wf (by_nonce rs)" if "validate_local_reservation claims now_ms (gw_local gw) = (v, rs)" for claims v rs
    using validate_local_sweeps [OF that] sweep_wf [OF assms(2)] assms(2) by auto
  show ?thesis
    using assms
    by (auto simp: commit_metadata_def split: sum.split_asm if_split_asm option.split_asm prod.split_asm
        dest!: swept dest: finish_commit_wf)
qed

end
