(* ===== verification/Storage_Guarantees.thy ===== *)
theory Storage_Guarantees
  imports Storage_Durable Storage_Properties
begin

text \<open>
  The guarantees of the durable store, and of the gateway on top of it: quota, exactly-once commits,
  cleanup leases, and what a client that repeats a commit sees.
\<close>

section \<open>Quota\<close>

lemma fold_min_le:
  fixes a :: "'a::linorder"
  shows "fold min xs a \<le> a \<and> (\<forall>x\<in>set xs. fold min xs a \<le> x)"
proof (induction xs arbitrary: a)
  case (Cons x xs)
  show ?case using Cons [of "min x a"] by auto
qed simp

lemma min_quota_le: "min_quota db = Some quota \<Longrightarrow> b \<in> set (sd_buckets db) \<Longrightarrow> quota \<le> bk_project_quota_bytes b"
  using fold_min_le by (fastforce simp: min_quota_def split: list.split_asm)

lemma sql_sum_Ok: "sql_sum xs = Ok v \<longleftrightarrow> i64_ok (sum_list xs) \<and> v = sum_list xs"
  by (auto simp: sql_sum_def)

lemma with_user_Ok:
  "with_user cfg auth m db = (Ok v, db') \<longleftrightarrow> ac_project_id auth = mc_project_id cfg \<and> m db = (Ok v, db')"
  by (auto simp: with_user_def check_project_def map_err_def split: prod.split_asm sum.split_asm)

lemma atomically_Ok: "atomically m db = (Ok v, db') \<longleftrightarrow> m db = (Ok v, db')"
  by (auto simp: atomically_def split: prod.split_asm sum.split_asm)

text \<open>A small store for the examples: one bucket with a quota of 100 bytes, every row visible.\<close>

definition sample_rls :: storage_rls where
  "sample_rls = \<lparr>rl_bucket_select = (\<lambda>_. True), rl_object_select = (\<lambda>_. True), rl_object_insert = (\<lambda>_. True),
     rl_object_update = (\<lambda>_ _. True), rl_object_delete = (\<lambda>_. True), rl_upload_select = (\<lambda>_. True),
     rl_upload_insert = (\<lambda>_. True), rl_upload_update = (\<lambda>_ _. True), rl_upload_delete = (\<lambda>_. True),
     rl_version_insert = (\<lambda>_. True)\<rparr>"

definition sample_result :: storage_commit_result where
  "sample_result = \<lparr>sc_content_length = Some 40, sc_checksum_sha256 = None, sc_etag = Some ''e1'', sc_version_id = None\<rparr>"

definition sample_worker :: worker_env where
  "sample_worker = \<lparr>we_uuid = (\<lambda>n. replicate n CHR ''u''), we_parse_uuid = Some, we_rls = (\<lambda>_. sample_rls), we_sha256 = id,
     we_hmac = (@), we_b64_encode = id, we_b64_decode = Some, we_cursor_json = (\<lambda>_. []), we_cursor_parse = (\<lambda>_. None),
     we_fingerprint_json = (\<lambda>_. []), we_binding_json = (\<lambda>b. bp_provider_key b), we_result_digest_json = (\<lambda>d r. d @ (case sc_etag r of None \<Rightarrow> [] | Some e \<Rightarrow> e)),
     we_result_json = (\<lambda>_. ''r''), we_result_parse = (\<lambda>_. Some sample_result), we_scope_json = (\<lambda>_ _. [])\<rparr>"

definition sample_config :: metadata_config where
  "sample_config = \<lparr>mc_project_id = ''p'', mc_secret = ''s''\<rparr>"

definition sample_auth :: auth_context where
  "sample_auth = \<lparr>ac_project_id = ''p'', ac_subject = ''u'', ac_role = ''user'', ac_claims = [], ac_token_id = ''t''\<rparr>"

definition sample_store :: storage_db where
  "sample_store = \<lparr>sd_buckets = [\<lparr>bk_id = ''b1'', bk_name = ''photos'', bk_owner_id = ''u'', bk_max_object_bytes = 100,
       bk_project_quota_bytes = 100\<rparr>],
     sd_objects = [], sd_uploads = [], sd_versions = [], sd_provider_objects = [], sd_reservations = [],
     sd_provider_uploads = [], sd_upload_parts = [], sd_receipts = [], sd_cleanup = [], sd_drawn = 0\<rparr>"

definition sample_reservation :: "string \<Rightarrow> nat \<Rightarrow> storage_reservation_request" where
  "sample_reservation nonce bytes = \<lparr>sr_auth = sample_auth, sr_nonce = nonce, sr_bytes = bytes, sr_expires_at_ms = 9000,
     sr_provider_key = ''projects/p/buckets/b1/objects/o1'', sr_action = Upload, sr_upload_id = None\<rparr>"

definition sample_reserved_store :: storage_db where
  "sample_reserved_store = snd (reserve_sync sample_worker sample_config 1000 (sample_reservation ''nonce-0000000001'' 40) sample_store)"

lemma sample_store_empty: "empty_tables sample_store"
  by (simp add: empty_tables_def sample_store_def)

lemma sample_reserved_reachable: "(storage_step sample_worker sample_config)\<^sup>*\<^sup>* sample_store sample_reserved_store"
  by (rule r_into_rtranclp, rule storage_step.reserve [of _ _ 1000 "sample_reservation ''nonce-0000000001'' 40"])
     (simp add: sample_reserved_store_def prod_eq_iff)

text \<open>
  Reserved quota is never overcommitted. In every reachable store, a reservation that is granted
  used a new nonce and leaves the stored bytes, all of the project's reservations that have not
  expired and the bytes held by uploads together within the quota of every bucket; a refused one changes
  nothing.
\<close>

theorem durable_reservation_within_quota:
  assumes "empty_tables db0" and "(storage_step env cfg)\<^sup>*\<^sup>* db0 db" and "reserve_sync env cfg now_ms rq db = (r, db')"
  shows "(\<forall>e. r = Err e \<longrightarrow> db' = db)
    \<and> (r = Ok () \<longrightarrow>
        (\<forall>b\<in>set (sd_buckets db').
           sum_list (map ob_size_bytes (sd_objects db')) + sum_list (live_reserved (ac_project_id (sr_auth rq)) now_ms db')
             + sum_list (map ub_reserved_bytes (sd_provider_uploads db')) \<le> bk_project_quota_bytes b)
        \<and> (ac_project_id (sr_auth rq), sr_nonce rq) \<notin> reservation_key ` set (sd_reservations db)
        \<and> distinct (map reservation_key (sd_reservations db')))"
proof -
  have "store_ok db" using assms(1,2) by (rule store.reachable_inv)
  moreover have "storage_step env cfg db db'" using assms(3) by (rule storage_step.reserve)
  ultimately have ok: "store_ok db'" by (rule storage_step_ok [rotated])
  define pr where "pr = ac_project_id (sr_auth rq)"
  define m where "m = storage_reserve pr (ac_subject (sr_auth rq)) (ac_token_id (sr_auth rq)) (sr_nonce rq)
    (sr_bytes rq) (sr_expires_at_ms rq) now_ms (sr_provider_key rq) (storage_action_name (sr_action rq)) (sr_upload_id rq)"
  obtain q db1 where run: "m db = (q, db1)" by force
  show ?thesis
    using run unfolding m_def
  proof (cases rule: storage_reserve_cases)
    case (Refused e)
    then show ?thesis
      using assms(3) run by (auto simp: reserve_sync_def with_user_def atomically_def check_project_def m_def pr_def split: if_split_asm)
  next
    case (Reserved b)
    from Reserved(5) obtain quota used live uploads where adm: "b = int (sr_bytes rq)"
        "(pr, sr_nonce rq) \<notin> reservation_key ` set (sd_reservations db)"
        "min_quota db = Some quota" "used_bytes db = Ok used" "sql_sum (live_reserved pr now_ms db) = Ok live"
        "upload_bytes db = Ok uploads" "used + (live + uploads) + int (sr_bytes rq) \<le> quota"
      by (rule reservation_admitted_Ok)
    have sums: "used = sum_list (map ob_size_bytes (sd_objects db))" "live = sum_list (live_reserved pr now_ms db)"
        "uploads = sum_list (map ub_reserved_bytes (sd_provider_uploads db))"
      using adm(4-6) by (simp_all add: used_bytes_def upload_bytes_def sql_sum_Ok)
    have "sum_list (live_reserved pr now_ms db1) = live + int (sr_bytes rq)"
      using Reserved(2) by (simp add: Reserved(6) live_reserved_def sums(2) adm(1))
    then have "\<forall>x\<in>set (sd_buckets db1). sum_list (map ob_size_bytes (sd_objects db1)) + sum_list (live_reserved pr now_ms db1)
         + sum_list (map ub_reserved_bytes (sd_provider_uploads db1)) \<le> bk_project_quota_bytes x"
      using min_quota_le [OF adm(3)] adm(7) sums by (fastforce simp: Reserved(6))
    moreover have "db' = (if r = Ok () then db1 else db)"
      using assms(3) run Reserved(1)
      by (auto simp: reserve_sync_def with_user_def atomically_def check_project_def m_def pr_def split: if_split_asm)
    moreover have "(pr, sr_nonce rq) \<notin> reservation_key ` set (sd_reservations db)"
      by (rule adm(2))
    ultimately show ?thesis using ok by (auto simp: pr_def store_ok_def quota_wf_def)
  qed
qed

theorem durable_reservation_within_quota_witness:
  "\<exists>db'. reserve_sync sample_worker sample_config 2000 (sample_reservation ''nonce-0000000002'' 60) sample_reserved_store = (Ok (), db')
     \<and> sum_list (map ob_size_bytes (sd_objects db')) + sum_list (live_reserved ''p'' 2000 db')
        + sum_list (map ub_reserved_bytes (sd_provider_uploads db')) \<le> 100
     \<and> sum_list (live_reserved ''p'' 2000 db') = 100
     \<and> fst (reserve_sync sample_worker sample_config 2000 (sample_reservation ''nonce-0000000002'' 61) sample_reserved_store)
        = Err ProjectQuotaExceeded"
proof -
  define out where "out = reserve_sync sample_worker sample_config 2000 (sample_reservation ''nonce-0000000002'' 60) sample_reserved_store"
  have "fst out = Ok ()" "map bk_project_quota_bytes (sd_buckets (snd out)) = [100]"
      "sum_list (live_reserved ''p'' 2000 (snd out)) = 100"
      "fst (reserve_sync sample_worker sample_config 2000 (sample_reservation ''nonce-0000000002'' 61) sample_reserved_store)
        = Err ProjectQuotaExceeded"
    unfolding out_def by code_simp+
  moreover from this(1) have run: "reserve_sync sample_worker sample_config 2000 (sample_reservation ''nonce-0000000002'' 60)
      sample_reserved_store = (Ok (), snd out)"
    unfolding out_def by (simp add: prod_eq_iff)
  ultimately show ?thesis
    using durable_reservation_within_quota [OF sample_store_empty sample_reserved_reachable run]
    by (auto simp: sample_reservation_def sample_auth_def)
qed

section \<open>Exactly once\<close>

lemma delete_one_Ok:
  assumes "delete_one p db = (Ok u, db')"
  shows "(\<exists>x\<in>set (sd_reservations db). p x) \<and> db' = db\<lparr>sd_reservations := filter (\<lambda>r. \<not> p r) (sd_reservations db)\<rparr>"
proof -
  have "length (filter p (sd_reservations db)) = 1"
    using assms by (auto simp: delete_one_def Let_def split: if_split_asm)
  then have "set (filter p (sd_reservations db)) \<noteq> {}" by (metis length_0_conv one_neq_zero set_empty)
  then show ?thesis using assms by (auto simp: delete_one_def Let_def split: if_split_asm)
qed

text \<open>The columns a consumed reservation matched.\<close>

definition reservation_matches :: "int \<Rightarrow> storage_metadata_commit \<Rightarrow> reservation_row \<Rightarrow> bool" where
  "reservation_matches now_ms rq r \<longleftrightarrow> lr_project_id r = ac_project_id (sm_auth rq) \<and> lr_nonce r = sm_reservation_nonce rq
     \<and> lr_subject r = ac_subject (sm_auth rq) \<and> lr_token_id r = ac_token_id (sm_auth rq)
     \<and> lr_bytes r = int (sm_reservation_bytes rq) \<and> lr_expires_at_ms r = sm_reservation_expires_at_ms rq
     \<and> lr_expires_at_ms r > now_ms \<and> lr_provider_key r = Some (sm_provider_key rq)
     \<and> lr_action r = Some (storage_action_name (sm_action rq)) \<and> lr_upload_id r = sm_upload_id rq"

lemma consume_for_Ok:
  assumes "consume_for now_ms rq db = (Ok u, db')"
  shows "sd_receipts db' = sd_receipts db
    \<and> (requires_durable_reservation (sm_action rq) \<longrightarrow>
        (\<exists>x\<in>set (sd_reservations db). reservation_matches now_ms rq x)
        \<and> sd_reservations db' = filter (\<lambda>x. \<not> reservation_matches now_ms rq x) (sd_reservations db))"
proof (cases "requires_durable_reservation (sm_action rq)")
  case True
  then have "delete_one (reservation_matches now_ms rq) db = (Ok u, db')"
    using assms
    by (auto simp: consume_for_def storage_consume_reservation_def i64_of_u64_def reservation_matches_def [abs_def]
        split: if_split_asm)
  then show ?thesis using delete_one_Ok True by fastforce
next
  case False
  then show ?thesis using assms by (simp add: consume_for_def sok_def)
qed

definition receipt_of :: "worker_env \<Rightarrow> int \<Rightarrow> storage_metadata_commit \<Rightarrow> receipt_row" where
  "receipt_of env now_ms rq =
     \<lparr>cr_project_id = ac_project_id (sm_auth rq), cr_nonce = sm_reservation_nonce rq, cr_subject = ac_subject (sm_auth rq),
      cr_token_id = ac_token_id (sm_auth rq), cr_binding_digest = commit_binding_digest env rq,
      cr_commit_digest = commit_result_digest env (commit_binding_digest env rq) (commit_result rq),
      cr_result_json = we_result_json env (commit_result rq), cr_committed_at_ms = now_ms,
      cr_expires_at_ms = saturating_add_i64 now_ms day_ms\<rparr>"

lemma first_commit_Ok:
  assumes "first_commit env cfg now_ms rq db = (Ok u, db')"
  shows "sd_receipts db' = sd_receipts db @ [receipt_of env now_ms rq]
    \<and> (requires_durable_reservation (sm_action rq) \<longrightarrow>
        (\<exists>x\<in>set (sd_reservations db). reservation_matches now_ms rq x)
        \<and> sd_reservations db' = filter (\<lambda>x. \<not> reservation_matches now_ms rq x) (sd_reservations db))
    \<and> now_ms < saturating_add_i64 now_ms day_ms"
proof -
  obtain v db1 where consumed: "consume_for now_ms rq db = (Ok v, db1)"
    and rest: "(case load_bucket (we_rls env (sm_auth rq)) (sm_bucket rq) db1 of
           Inl e \<Rightarrow> (Err e, db1)
         | Inr bucket \<Rightarrow>
             if oversized_commit bucket rq then (Err StorageQuotaExceeded, db1)
             else sbind (apply_commit env cfg (we_rls env (sm_auth rq)) bucket rq now_ms) (\<lambda>_. record_receipt env now_ms rq) db1)
        = (Ok u, db')"
    using assms unfolding first_commit_def Let_def sbind_eq_Ok by blast
  then obtain bucket w db2 where applied: "apply_commit env cfg (we_rls env (sm_auth rq)) bucket rq now_ms db1 = (Ok w, db2)"
      and recorded: "record_receipt env now_ms rq db2 = (Ok u, db')"
    by (auto simp: sbind_eq_Ok split: sum.split_asm if_split_asm)
  have "quota_tables (sd_reservations db1) (sd_receipts db1) db2"
    by (rule preservesD [OF quota_frame.apply_commit_keeps [OF refl] _ applied]) (simp add: quota_tables_def)
  then show ?thesis
    using consume_for_Ok [OF consumed] recorded
    by (auto simp: quota_tables_def record_receipt_def storage_record_commit_receipt_def receipt_of_def split: if_split_asm)
qed


text \<open>The receipt a commit leaves is the one a later request for the same grant finds.\<close>

lemma receipt_found:
  assumes "find (\<lambda>r. cr_project_id r = p \<and> cr_nonce r = n) (sd_receipts db) = Some x"
  shows "storage_commit_receipt p n su tk bd t db
     = (if cr_subject x \<noteq> su \<or> cr_token_id x \<noteq> tk \<or> cr_binding_digest x \<noteq> bd \<or> cr_expires_at_ms x \<le> t
        then Err StorageReservationMismatch else Ok (Some (cr_commit_digest x, cr_result_json x)))"
  using assms by (simp add: storage_commit_receipt_def)

lemma find_append_new: "find p xs = None \<Longrightarrow> p x \<Longrightarrow> find p (xs @ [x]) = Some x"
  by (induction xs) (auto split: if_split_asm)

lemma commit_callback_cases:
  assumes "commit_callback env cfg now_ms rq db = (Ok u, db')"
  obtains (Replayed) x where "db' = db" "x \<in> set (sd_receipts db)"
      "find (\<lambda>r. cr_project_id r = ac_project_id (sm_auth rq) \<and> cr_nonce r = sm_reservation_nonce rq) (sd_receipts db) = Some x"
      "cr_commit_digest x = commit_result_digest env (commit_binding_digest env rq) (commit_result rq)"
    | (Fresh) "first_commit env cfg now_ms rq db = (Ok u, db')"
      "find (\<lambda>r. cr_project_id r = ac_project_id (sm_auth rq) \<and> cr_nonce r = sm_reservation_nonce rq) (sd_receipts db) = None"
      "find (\<lambda>r. cr_project_id r = ac_project_id (sm_auth rq) \<and> cr_nonce r = sm_reservation_nonce rq) (sd_receipts db')
        = Some (receipt_of env now_ms rq)"
proof (cases "find (\<lambda>r. cr_project_id r = ac_project_id (sm_auth rq) \<and> cr_nonce r = sm_reservation_nonce rq) (sd_receipts db)")
  case None
  then have "first_commit env cfg now_ms rq db = (Ok u, db')"
    using assms by (simp add: commit_callback_def storage_commit_receipt_def)
  moreover from this have "find (\<lambda>r. cr_project_id r = ac_project_id (sm_auth rq) \<and> cr_nonce r = sm_reservation_nonce rq)
      (sd_receipts db') = Some (receipt_of env now_ms rq)"
    using find_append_new [OF None, of "receipt_of env now_ms rq"] first_commit_Ok [of env cfg now_ms rq db u db']
    by (simp add: receipt_of_def)
  ultimately show thesis using that(2) None by blast
next
  case (Some x)
  then have "x \<in> set (sd_receipts db)" by (auto simp: find_Some_iff)
  then show thesis
    using assms Some that(1) by (auto simp: commit_callback_def receipt_found [OF Some] split: if_split_asm)
qed

text \<open>
  C24. A durable commit happens exactly once. From a reachable store, the first commit under a nonce that
  succeeds consumed a live reservation that matches the request in every bound column, left no
  reservation with its key, and recorded a receipt. Until that receipt expires the same commit succeeds
  again and changes nothing, and a commit under the same nonce whose binding or result has another digest
  is refused and changes nothing.
\<close>

theorem durable_commit_exactly_once:
  assumes "empty_tables db0" and "(storage_step env cfg)\<^sup>*\<^sup>* db0 db"
    and "commit_sync env cfg t1 rq db = (Ok (), db')" and "requires_durable_reservation (sm_action rq)"
    and "find (\<lambda>r. cr_project_id r = ac_project_id (sm_auth rq) \<and> cr_nonce r = sm_reservation_nonce rq) (sd_receipts db) = None"
  shows "(\<exists>x\<in>set (sd_reservations db). reservation_matches t1 rq x)
    \<and> (ac_project_id (sm_auth rq), sm_reservation_nonce rq) \<notin> reservation_key ` set (sd_reservations db')
    \<and> sd_receipts db' = sd_receipts db @ [receipt_of env t1 rq]
    \<and> (\<forall>t2. t2 < saturating_add_i64 t1 day_ms \<longrightarrow> commit_sync env cfg t2 rq db' = (Ok (), db'))
    \<and> (\<forall>t2 other. ac_project_id (sm_auth other) = ac_project_id (sm_auth rq) \<longrightarrow>
         sm_reservation_nonce other = sm_reservation_nonce rq \<longrightarrow>
         commit_binding_digest env other \<noteq> commit_binding_digest env rq
           \<or> commit_result_digest env (commit_binding_digest env other) (commit_result other)
             \<noteq> commit_result_digest env (commit_binding_digest env rq) (commit_result rq) \<longrightarrow>
         commit_sync env cfg t2 other db' = (Err (map_runtime StorageReservationMismatch), db'))"
proof -
  have "store_ok db" using assms(1,2) by (rule store.reachable_inv)
  then have keys: "distinct (map reservation_key (sd_reservations db))" by (simp add: store_ok_def quota_wf_def)
  have project: "ac_project_id (sm_auth rq) = mc_project_id cfg" and run: "commit_callback env cfg t1 rq db = (Ok (), db')"
    using assms(3) by (simp_all add: commit_sync_def with_user_Ok atomically_Ok)
  from run assms(5) have first: "first_commit env cfg t1 rq db = (Ok (), db')"
    and kept: "find (\<lambda>r. cr_project_id r = ac_project_id (sm_auth rq) \<and> cr_nonce r = sm_reservation_nonce rq) (sd_receipts db')
        = Some (receipt_of env t1 rq)"
    by (auto elim: commit_callback_cases)
  have used: "\<exists>x\<in>set (sd_reservations db). reservation_matches t1 rq x"
      "sd_reservations db' = filter (\<lambda>x. \<not> reservation_matches t1 rq x) (sd_reservations db)"
      "sd_receipts db' = sd_receipts db @ [receipt_of env t1 rq]"
    using first_commit_Ok [OF first] assms(4) by auto
  from used(1) obtain x where x: "x \<in> set (sd_reservations db)" "reservation_matches t1 rq x" by blast
  have gone: "(ac_project_id (sm_auth rq), sm_reservation_nonce rq) \<notin> reservation_key ` set (sd_reservations db')"
  proof
    assume "(ac_project_id (sm_auth rq), sm_reservation_nonce rq) \<in> reservation_key ` set (sd_reservations db')"
    then obtain y where y: "y \<in> set (sd_reservations db)" "\<not> reservation_matches t1 rq y" "reservation_key y = reservation_key x"
      using used(2) x(2) by (auto simp: reservation_matches_def reservation_key_def)
    then show False using keys x by (auto simp: distinct_map dest: inj_onD)
  qed
  have again: "commit_sync env cfg t2 rq db' = (Ok (), db')" if "t2 < saturating_add_i64 t1 day_ms" for t2
  proof -
    have "commit_callback env cfg t2 rq db' = (Ok (), db')"
      using that by (simp add: commit_callback_def receipt_found [OF kept] receipt_of_def)
    then show ?thesis using project by (simp add: commit_sync_def with_user_Ok atomically_Ok)
  qed
  have refused: "commit_sync env cfg t2 other db' = (Err (map_runtime StorageReservationMismatch), db')"
    if same: "ac_project_id (sm_auth other) = ac_project_id (sm_auth rq)" "sm_reservation_nonce other = sm_reservation_nonce rq"
      and differs: "commit_binding_digest env other \<noteq> commit_binding_digest env rq
           \<or> commit_result_digest env (commit_binding_digest env other) (commit_result other)
             \<noteq> commit_result_digest env (commit_binding_digest env rq) (commit_result rq)" for t2 other
  proof -
    have "commit_callback env cfg t2 other db' = (Err StorageReservationMismatch, db')"
      using same differs by (auto simp: commit_callback_def receipt_found [OF kept] receipt_of_def)
    then show ?thesis using same project by (simp add: commit_sync_def with_user_def check_project_def atomically_def)
  qed
  show ?thesis using used gone again refused by blast
qed


definition sample_commit :: "string \<Rightarrow> storage_metadata_commit" where
  "sample_commit etag = \<lparr>sm_auth = sample_auth, sm_bucket = ''photos'', sm_object_key = ''cat.png'',
     sm_provider_key = ''projects/p/buckets/b1/objects/o1'', sm_action = Upload, sm_content_length = Some 40,
     sm_checksum_sha256 = None, sm_content_type = None, sm_upload_id = None, sm_part_number = None, sm_etag = Some etag,
     sm_version_id = None, sm_reservation_nonce = ''nonce-0000000001'', sm_reservation_bytes = 40,
     sm_reservation_expires_at_ms = 9000, sm_replacement_fingerprint = None\<rparr>"

theorem durable_commit_exactly_once_witness:
  "\<exists>db'. commit_sync sample_worker sample_config 2000 (sample_commit ''e1'') sample_reserved_store = (Ok (), db')
     \<and> map ob_object_key (sd_objects db') = [''cat.png'']
     \<and> commit_sync sample_worker sample_config 3000 (sample_commit ''e1'') db' = (Ok (), db')
     \<and> commit_sync sample_worker sample_config 3000 (sample_commit ''e2'') db' = (Err Sto_Internal, db')"
proof -
  define out where "out = commit_sync sample_worker sample_config 2000 (sample_commit ''e1'') sample_reserved_store"
  have facts: "fst out = Ok ()" "map ob_object_key (sd_objects (snd out)) = [''cat.png'']" unfolding out_def by code_simp+
  from facts(1) have run: "commit_sync sample_worker sample_config 2000 (sample_commit ''e1'') sample_reserved_store = (Ok (), snd out)"
    unfolding out_def by (simp add: prod_eq_iff)
  have "requires_durable_reservation (sm_action (sample_commit ''e1''))"
      "find (\<lambda>r. cr_project_id r = ac_project_id (sm_auth (sample_commit ''e1''))
        \<and> cr_nonce r = sm_reservation_nonce (sample_commit ''e1'')) (sd_receipts sample_reserved_store) = None"
    by code_simp+
  note once = durable_commit_exactly_once [OF sample_store_empty sample_reserved_reachable run this]
  have "3000 < saturating_add_i64 2000 day_ms" by code_simp
  then have "commit_sync sample_worker sample_config 3000 (sample_commit ''e1'') (snd out) = (Ok (), snd out)"
    using once by blast
  moreover have "commit_result_digest sample_worker (commit_binding_digest sample_worker (sample_commit ''e2'')) (commit_result (sample_commit ''e2''))
      \<noteq> commit_result_digest sample_worker (commit_binding_digest sample_worker (sample_commit ''e1'')) (commit_result (sample_commit ''e1''))"
    by code_simp
  moreover have "ac_project_id (sm_auth (sample_commit ''e2'')) = ac_project_id (sm_auth (sample_commit ''e1''))"
      "sm_reservation_nonce (sample_commit ''e2'') = sm_reservation_nonce (sample_commit ''e1'')"
    by (simp_all add: sample_commit_def)
  ultimately have "commit_sync sample_worker sample_config 3000 (sample_commit ''e2'') (snd out)
      = (Err (map_runtime StorageReservationMismatch), snd out)"
    using once by blast
  with facts(2) run \<open>commit_sync sample_worker sample_config 3000 (sample_commit ''e1'') (snd out) = (Ok (), snd out)\<close>
  show ?thesis by (intro exI [of _ "snd out"]) simp
qed

section \<open>The gateway on the durable store\<close>

lemma receipt_sync_Ok:
  "receipt_sync env cfg t rq db = Ok r \<longleftrightarrow> ac_project_id (sq_auth rq) = mc_project_id cfg
     \<and> (\<exists>receipt. storage_commit_receipt (ac_project_id (sq_auth rq)) (sq_reservation_nonce rq) (ac_subject (sq_auth rq))
           (ac_token_id (sq_auth rq)) (receipt_binding_digest env rq) t db = Ok receipt
         \<and> (case receipt of None \<Rightarrow> r = None | Some (_, json) \<Rightarrow> (\<exists>v. we_result_parse env json = Some v \<and> r = Some v)))"
proof (cases "storage_commit_receipt (ac_project_id (sq_auth rq)) (sq_reservation_nonce rq) (ac_subject (sq_auth rq))
           (ac_token_id (sq_auth rq)) (receipt_binding_digest env rq) t db")
  case (Inr receipt)
  then show ?thesis
    by (cases receipt) (auto simp: receipt_sync_def with_user_def check_project_def ffdb_result)
qed (auto simp: receipt_sync_def with_user_def check_project_def ffdb_result)

lemma receipt_sync_later:
  assumes "receipt_sync env cfg t rq db = Ok (Some v)"
    and "\<forall>x\<in>set (sd_receipts db). receipt_key x = (ac_project_id (sq_auth rq), sq_reservation_nonce rq) \<longrightarrow> later < cr_expires_at_ms x"
  shows "receipt_sync env cfg later rq db = Ok (Some v)"
proof -
  obtain x where x: "find (\<lambda>r. cr_project_id r = ac_project_id (sq_auth rq) \<and> cr_nonce r = sq_reservation_nonce rq) (sd_receipts db) = Some x"
    using assms(1) by (auto simp: receipt_sync_Ok storage_commit_receipt_def split: option.split_asm)
  then have "x \<in> set (sd_receipts db)" "receipt_key x = (ac_project_id (sq_auth rq), sq_reservation_nonce rq)"
    by (auto simp: find_Some_iff receipt_key_def)
  then have "later < cr_expires_at_ms x" using assms(2) by blast
  then show ?thesis
    using assms(1) unfolding receipt_sync_Ok receipt_found [OF x] by (auto split: if_split_asm)
qed

text \<open>A result that reports exactly what was granted.\<close>

definition exact_result :: "grant_claims \<Rightarrow> storage_commit_result \<Rightarrow> bool" where
  "exact_result claims result \<longleftrightarrow>
     sc_content_length result = gc_max_bytes claims \<and> sc_checksum_sha256 result = gc_checksum_sha256 claims"

lemma exact_commit:
  assumes "exact_result claims result"
  shows "commit_binding_digest env (metadata_commit claims auth result) = receipt_binding_digest env (receipt_request claims auth)"
    and "commit_result (metadata_commit claims auth result) = result"
  using assms
  by (cases result, simp add: exact_result_def commit_binding_digest_def receipt_binding_digest_def metadata_commit_def
      receipt_request_def commit_result_def or_else_def split: option.split)+

lemma commit_then_receipt:
  assumes "exact_result claims result" and "we_result_parse env (we_result_json env result) = Some result"
    and "receipt_sync env cfg t (receipt_request claims auth) db = Ok None"
    and "commit_sync env cfg t (metadata_commit claims auth result) db = (Ok (), db')"
  shows "receipt_sync env cfg t (receipt_request claims auth) db' = Ok (Some result)"
proof -
  let ?rq = "metadata_commit claims auth result"
  have project: "ac_project_id auth = mc_project_id cfg" and run: "commit_callback env cfg t ?rq db = (Ok (), db')"
    using assms(4) by (simp_all add: commit_sync_def with_user_Ok atomically_Ok metadata_commit_def)
  have "find (\<lambda>r. cr_project_id r = ac_project_id (sm_auth ?rq) \<and> cr_nonce r = sm_reservation_nonce ?rq) (sd_receipts db) = None"
    using assms(3)
    by (auto simp: receipt_sync_Ok storage_commit_receipt_def metadata_commit_def receipt_request_def
        split: option.split_asm if_split_asm)
  with run have first: "first_commit env cfg t ?rq db = (Ok (), db')"
    and kept: "find (\<lambda>r. cr_project_id r = ac_project_id (sm_auth ?rq) \<and> cr_nonce r = sm_reservation_nonce ?rq) (sd_receipts db')
        = Some (receipt_of env t ?rq)"
    by (auto elim: commit_callback_cases)
  have "t < saturating_add_i64 t day_ms" using first_commit_Ok [OF first] by simp
  then have "storage_commit_receipt (ac_project_id (sm_auth ?rq)) (sm_reservation_nonce ?rq) (ac_subject (sm_auth ?rq))
      (ac_token_id (sm_auth ?rq)) (commit_binding_digest env ?rq) t db'
      = Ok (Some (commit_result_digest env (commit_binding_digest env ?rq) (commit_result ?rq), we_result_json env result))"
    unfolding receipt_found [OF kept] by (simp add: receipt_of_def exact_commit(2) [OF assms(1)])
  then show ?thesis
    using project assms(2) unfolding receipt_sync_Ok exact_commit(1) [OF assms(1)]
    by (simp add: metadata_commit_def receipt_request_def)
qed

text \<open>
  A commit is bound to its grant and happens once. A successful commit was made with a token whose
  signature is the HMAC of its payload under the gateway's secret, by the user and with the access token
  it was issued for, within its lifetime, with a provider result no larger than granted and with
  the granted checksum; the reservation is gone; and, for a result that reports what was granted, the same
  commit made again before the grant and the stored receipt expire succeeds without writing to the store.
\<close>

theorem storage_commit_bound_and_once:
  assumes "hm_wf (by_nonce (gw_local gw))"
    and "commit_metadata env cfg (sqlite_authorizer wenv mcfg now_ms) token auth result now_ms gw = (Ok (), gw')"
    and "we_result_parse wenv (we_result_json wenv result) = Some result"
  shows "\<exists>payload64 signature64 payload claims. token = payload64 @ CHR ''.'' # signature64
    \<and> sv_b64_decode env payload64 = Some payload \<and> sv_decode env payload = Some claims
    \<and> sv_b64_decode env signature64 = Some (sv_hmac env (cd_secret (gf_codec cfg)) payload)
    \<and> gc_project_id claims = ac_project_id auth \<and> gc_subject claims = ac_subject auth
    \<and> gc_token_id claims = ac_token_id auth
    \<and> gc_issued_at_ms claims \<le> now_ms \<and> now_ms < gc_expires_at_ms claims
    \<and> (\<forall>n mx. sc_content_length result = Some n \<longrightarrow> gc_max_bytes claims = Some mx \<longrightarrow> n \<le> mx)
    \<and> (\<forall>s t. sc_checksum_sha256 result = Some s \<longrightarrow> gc_checksum_sha256 claims = Some t \<longrightarrow> s = t)
    \<and> hm_get (by_nonce (gw_local gw')) (gc_nonce claims) = None
    \<and> (exact_result claims result \<longrightarrow>
        (\<forall>later r gw''. commit_metadata env cfg (sqlite_authorizer wenv mcfg later) token auth result later gw' = (r, gw'') \<longrightarrow>
         now_ms \<le> later \<longrightarrow> later < gc_expires_at_ms claims \<longrightarrow>
         (\<forall>x\<in>set (sd_receipts (gw_store gw')). receipt_key x = (gc_project_id claims, gc_nonce claims) \<longrightarrow> later < cr_expires_at_ms x) \<longrightarrow>
         r = Ok () \<and> gw_store gw'' = gw_store gw'))"
proof -
  let ?ma = "sqlite_authorizer wenv mcfg now_ms"
  obtain claims where c: "grant_verify env (gf_codec cfg) token now_ms = Ok claims"
    "\<not> identity_differs claims auth" "\<not> result_refused claims result"
    "hm_get (by_nonce (gw_local gw')) (gc_nonce claims) = None"
    and receipt: "ma_receipt ?ma (receipt_request claims auth) (gw_store gw) = Ok (Some result) \<and> gw_store gw' = gw_store gw
     \<or> ma_receipt ?ma (receipt_request claims auth) (gw_store gw) = Ok None
       \<and> ma_commit ?ma (metadata_commit claims auth result) (gw_store gw) = (Ok (), gw_store gw')"
    using assms(2) by (rule commit_metadata_Ok)
  have authentic: "verify_authenticated env (gf_codec cfg) token = Ok claims"
    and window: "gc_issued_at_ms claims \<le> now_ms" "now_ms < gc_expires_at_ms claims"
      "gc_expires_at_ms claims - gc_issued_at_ms claims \<le> cd_max_ttl_ms (gf_codec cfg)"
    using c(1) by (auto simp: grant_verify_def ffdb_result split: if_split_asm)
  obtain payload64 signature64 payload where t: "token = payload64 @ CHR ''.'' # signature64"
    "sv_b64_decode env payload64 = Some payload"
    "sv_b64_decode env signature64 = Some (sv_hmac env (cd_secret (gf_codec cfg)) payload)"
    "sv_decode env payload = Some claims"
    using authentic by (rule verify_authenticated_Ok)
  have again: "r = Ok () \<and> gw_store gw'' = gw_store gw'"
    if retry: "commit_metadata env cfg (sqlite_authorizer wenv mcfg later) token auth result later gw' = (r, gw'')"
      "now_ms \<le> later" "later < gc_expires_at_ms claims"
      and unexpired: "\<forall>x\<in>set (sd_receipts (gw_store gw')). receipt_key x = (gc_project_id claims, gc_nonce claims) \<longrightarrow> later < cr_expires_at_ms x"
      and exact: "exact_result claims result" for later r gw''
  proof -
    have "receipt_sync wenv mcfg now_ms (receipt_request claims auth) (gw_store gw') = Ok (Some result)"
      using receipt commit_then_receipt [OF exact assms(3), of mcfg now_ms auth "gw_store gw" "gw_store gw'"]
      by (auto simp: sqlite_authorizer_def)
    moreover have "gc_project_id claims = ac_project_id auth" using c(2) by (simp add: identity_differs_def)
    ultimately have "receipt_sync wenv mcfg later (receipt_request claims auth) (gw_store gw') = Ok (Some result)"
      using unexpired by - (rule receipt_sync_later, assumption, simp add: receipt_request_def)
    moreover have "grant_verify env (gf_codec cfg) token later = Ok claims"
      using authentic window retry(2,3) by (simp add: grant_verify_def)
    ultimately have "commit_metadata env cfg (sqlite_authorizer wenv mcfg later) token auth result later gw'
        = finish_commit claims later gw'"
      using c(2,3) by (simp add: commit_metadata_def sqlite_authorizer_def)
    then show ?thesis
      using retry(1) finish_commit_released [OF c(4) commit_metadata_wf [OF assms(2,1)], of later]
      by (metis fst_conv snd_conv)
  qed
  have "\<forall>n mx. sc_content_length result = Some n \<longrightarrow> gc_max_bytes claims = Some mx \<longrightarrow> n \<le> mx"
      "\<forall>s t. sc_checksum_sha256 result = Some s \<longrightarrow> gc_checksum_sha256 claims = Some t \<longrightarrow> s = t"
    using c(3) by (auto simp: result_refused_def)
  moreover have "gc_project_id claims = ac_project_id auth" "gc_subject claims = ac_subject auth"
      "gc_token_id claims = ac_token_id auth"
    using c(2) by (simp_all add: identity_differs_def)
  moreover have "exact_result claims result \<longrightarrow>
        (\<forall>later r gw''. commit_metadata env cfg (sqlite_authorizer wenv mcfg later) token auth result later gw' = (r, gw'') \<longrightarrow>
         now_ms \<le> later \<longrightarrow> later < gc_expires_at_ms claims \<longrightarrow>
         (\<forall>x\<in>set (sd_receipts (gw_store gw')). receipt_key x = (gc_project_id claims, gc_nonce claims) \<longrightarrow> later < cr_expires_at_ms x) \<longrightarrow>
         r = Ok () \<and> gw_store gw'' = gw_store gw')"
    by (intro impI allI) (rule again)
  moreover note t window(1,2) c(4)
  ultimately show ?thesis
    by - (rule exI [of _ payload64], rule exI [of _ signature64], rule exI [of _ payload], rule exI [of _ claims],
         intro conjI; assumption)
qed

definition sample_claims :: grant_claims where
  "sample_claims = \<lparr>gc_project_id = ''p'', gc_subject = ''u'', gc_token_id = ''t'', gc_bucket = ''photos'',
     gc_object_key = ''cat.png'', gc_provider_key = ''projects/p/buckets/b1/objects/o1'', gc_action = Upload,
     gc_max_bytes = Some 40, gc_checksum_sha256 = None, gc_content_type = None, gc_upload_id = None, gc_part_number = None,
     gc_scope_fingerprint = ''f'', gc_issued_at_ms = 1000, gc_expires_at_ms = 9000, gc_nonce = ''nonce-0000000001'',
     gc_reservation_bytes = 40, gc_reservation_expires_at_ms = 9000, gc_replacement_fingerprint = None\<rparr>"

definition sample_env :: storage_env where
  "sample_env = \<lparr>sv_claims_json_len = (\<lambda>_. 2), sv_encode = (\<lambda>_. ''claims''), sv_decode = (\<lambda>_. Some sample_claims),
     sv_b64_encode = (\<lambda>s. if length s = 32 then s @ replicate 11 CHR ''b'' else s),
     sv_b64_decode = (\<lambda>s. Some (if length s = 43 then take 32 s else s)),
     sv_hmac = (\<lambda>_ _. replicate 32 CHR ''a'')\<rparr>"

definition sample_gateway_config :: gateway_config where
  "sample_gateway_config = \<lparr>gf_codec = \<lparr>cd_secret = replicate 32 CHR ''k'', cd_max_ttl_ms = 8000\<rparr>,
     gf_limits = \<lparr>sl_signed_url_ttl_ms = 1000, sl_grant_ttl_ms = 8000, sl_max_pending_reservations = 4\<rparr>\<rparr>"

definition sample_gateway :: "storage_db gateway" where
  "sample_gateway = \<lparr>gw_local = snd (local_reserve (gf_limits sample_gateway_config) ''nonce-0000000001'' ''p'' 40 0 100 1000
       reservations_default), gw_store = sample_reserved_store\<rparr>"

definition sample_token :: string where
  "sample_token = grant_issue sample_env (gf_codec sample_gateway_config) sample_claims"

theorem storage_commit_bound_and_once_witness:
  "\<exists>gw'. commit_metadata sample_env sample_gateway_config (sqlite_authorizer sample_worker sample_config 2000) sample_token sample_auth
        sample_result 2000 sample_gateway = (Ok (), gw')
     \<and> hm_get (by_nonce (gw_local gw')) ''nonce-0000000001'' = None
     \<and> (\<exists>gw''. commit_metadata sample_env sample_gateway_config (sqlite_authorizer sample_worker sample_config 3000) sample_token sample_auth
          sample_result 3000 gw' = (Ok (), gw'') \<and> gw_store gw'' = gw_store gw')"
proof -
  let ?commit = "\<lambda>t. commit_metadata sample_env sample_gateway_config (sqlite_authorizer sample_worker sample_config t) sample_token sample_auth
        sample_result t"
  define out where "out = ?commit 2000 sample_gateway"
  have facts: "fst out = Ok ()" "map cr_expires_at_ms (sd_receipts (gw_store (snd out))) = [86402000]" unfolding out_def by code_simp+
  from facts(1) have run: "?commit 2000 sample_gateway = (Ok (), snd out)" unfolding out_def by (simp add: prod_eq_iff)
  have wf: "hm_wf (by_nonce (gw_local sample_gateway))" by code_simp
  have serde: "we_result_parse sample_worker (we_result_json sample_worker sample_result) = Some sample_result"
    by (simp add: sample_worker_def)
  obtain claims where c: "sv_decode sample_env payload = Some claims" "hm_get (by_nonce (gw_local (snd out))) (gc_nonce claims) = None"
      and once: "exact_result claims sample_result \<longrightarrow>
        (\<forall>later r gw''. ?commit later (snd out) = (r, gw'') \<longrightarrow> 2000 \<le> later \<longrightarrow> later < gc_expires_at_ms claims \<longrightarrow>
         (\<forall>x\<in>set (sd_receipts (gw_store (snd out))). receipt_key x = (gc_project_id claims, gc_nonce claims) \<longrightarrow> later < cr_expires_at_ms x) \<longrightarrow>
         r = Ok () \<and> gw_store gw'' = gw_store (snd out))" for payload
    using storage_commit_bound_and_once [OF wf run serde] by (auto simp: sample_env_def)
  have claims: "claims = sample_claims" using c(1) by (simp add: sample_env_def)
  have "\<forall>x\<in>set (sd_receipts (gw_store (snd out))). 3000 < cr_expires_at_ms x"
    using facts(2) by (auto simp: map_eq_Cons_conv)
  moreover have "exact_result sample_claims sample_result" by code_simp
  moreover obtain r gw'' where "?commit 3000 (snd out) = (r, gw'')" by force
  moreover have "3000 < gc_expires_at_ms sample_claims" by (simp add: sample_claims_def)
  ultimately have "?commit 3000 (snd out) = (Ok (), gw'') \<and> gw_store gw'' = gw_store (snd out)"
    using once [rule_format, of 3000 r gw''] unfolding claims by auto
  then show ?thesis using run c(2) unfolding claims by (auto simp: sample_claims_def prod_eq_iff)
qed

end
