(* ===== verification/Storage_Cleanup.thy ===== *)
theory Storage_Cleanup
  imports Storage_Guarantees
begin

text \<open>
  The cleanup queue as its workers see it: a claim hands out what is waiting, and gives each item to one
  worker until the lease runs out or its holder acknowledges it, whatever other requests come between.
\<close>

section \<open>A claim, row by row\<close>

text \<open>A well-formed queue with a row of a given identifier and property.\<close>

definition has_row :: "(cleanup_row \<Rightarrow> bool) \<Rightarrow> string \<Rightarrow> cleanup_row list \<Rightarrow> bool" where
  "has_row R j Q \<longleftrightarrow> queue_wf Q \<and> (\<exists>x\<in>set Q. cq_id x = j \<and> R x)"

text \<open>The row an item was made from, taken at \<open>n\<close> and under the item's lease until \<open>l\<close>.\<close>

definition leased_to :: "int \<Rightarrow> int \<Rightarrow> cleanup_item \<Rightarrow> cleanup_row \<Rightarrow> bool" where
  "leased_to n l i x \<longleftrightarrow> cq_provider_key x = ci_provider_key i \<and> cq_action x = ci_action i
     \<and> cq_upload_id x = ci_upload_id i \<and> cq_lease_token x = Some (ci_lease_token i)
     \<and> cq_lease_expires_at_ms x = Some l \<and> cq_attempts x = int (ci_attempt i) \<and> cq_available_at_ms x \<le> n"

definition leased_row :: "int \<Rightarrow> int \<Rightarrow> storage_db \<Rightarrow> cleanup_item \<Rightarrow> bool" where
  "leased_row n l db i \<longleftrightarrow> (\<exists>x\<in>set (sd_cleanup db). cq_id x = ci_id i \<and> leased_to n l i x)"

lemma filter_key_single:
  assumes "distinct (map f xs)" and "x \<in> set xs" and "p x"
  shows "length (filter (\<lambda>y. f y = f x \<and> p y) xs) = 1"
  using assms
proof (induction xs)
  case (Cons a xs)
  show ?case
  proof (cases "f a = f x")
    case True
    then have "a = x" using Cons.prems by auto
    moreover have "filter (\<lambda>y. f y = f x \<and> p y) xs = []"
      using Cons.prems(1) True by (auto simp: filter_empty_conv image_iff)
    ultimately show ?thesis using Cons.prems(3) by simp
  next
    case False
    then show ?thesis using Cons by auto
  qed
qed simp

lemma key_unique: "distinct (map f xs) \<Longrightarrow> x \<in> set xs \<Longrightarrow> y \<in> set xs \<Longrightarrow> f x = f y \<Longrightarrow> x = y"
  by (meson distinct_map inj_onD)

lemma claim_one_ok:
  assumes "queue_ok db" and "q \<in> set (sd_cleanup db)" and "leasable now_ms q"
  obtains i db' where "claim_one uuid now_ms l q db = (Ok i, db')" "ci_id i = cq_id q" "leased_row now_ms l db' i"
    "ci_lease_expires_at_ms i = l"
    "map cq_id (sd_cleanup db') = map cq_id (sd_cleanup db)"
    "\<And>x. x \<in> set (sd_cleanup db) \<Longrightarrow> cq_id x \<noteq> cq_id q \<Longrightarrow> x \<in> set (sd_cleanup db')"
proof -
  define token where "token = uuid (sd_drawn db)"
  define f where "f = (\<lambda>x :: cleanup_row. x\<lparr>cq_lease_token := Some token, cq_lease_expires_at_ms := Some l,
     cq_attempts := next_attempt q\<rparr>)"
  define rows where "rows = map (\<lambda>x. if cq_id x = cq_id q \<and> leasable now_ms x then f x else x) (sd_cleanup db)"
  define i where "i = \<lparr>ci_id = cq_id q, ci_provider_key = cq_provider_key q, ci_action = cq_action q,
     ci_upload_id = cq_upload_id q, ci_lease_token = token, ci_attempt = nat (next_attempt q), ci_lease_expires_at_ms = l\<rparr>"
  have "length (filter (\<lambda>x. cq_id x = cq_id q \<and> leasable now_ms x) (sd_cleanup db)) = 1"
    using assms by (intro filter_key_single) (simp_all add: queue_wf_def)
  then have run: "claim_one uuid now_ms l q db = (Ok i, db\<lparr>sd_drawn := Suc (sd_drawn db), sd_cleanup := rows\<rparr>)"
    by (simp add: claim_one_def sbind_def draw_def update_cleanup_def slift_def token_def i_def rows_def f_def)
  have "f q \<in> set rows" using assms(2,3) by (force simp: rows_def)
  moreover have "0 \<le> next_attempt q"
    using assms(1,2) by (auto simp: queue_wf_def next_attempt_def max_cleanup_attempts_def saturating_add_i64_def
        i64_max_def i64_min_def)
  ultimately have "leased_row now_ms l (db\<lparr>sd_drawn := Suc (sd_drawn db), sd_cleanup := rows\<rparr>) i"
    using assms(3) unfolding leased_row_def by (intro bexI [of _ "f q"]) (simp_all add: f_def i_def leased_to_def leasable_def)
  moreover have "map cq_id rows = map cq_id (sd_cleanup db)" by (simp add: rows_def f_def)
  moreover have "x \<in> set rows" if "x \<in> set (sd_cleanup db)" "cq_id x \<noteq> cq_id q" for x
    using that by (force simp: rows_def)
  ultimately show thesis using that [OF run] by (simp add: i_def)
qed

lemma claim_all_ok:
  assumes "queue_ok db" and "set qs \<subseteq> set (sd_cleanup db)" and "\<forall>q\<in>set qs. leasable now_ms q" and "distinct (map cq_id qs)"
  shows "\<exists>items db'. claim_all uuid now_ms l qs db = (Ok items, db') \<and> map ci_id items = map cq_id qs
    \<and> (\<forall>i\<in>set items. leased_row now_ms l db' i \<and> ci_lease_expires_at_ms i = l)
    \<and> map cq_id (sd_cleanup db') = map cq_id (sd_cleanup db)
    \<and> (\<forall>x\<in>set (sd_cleanup db). cq_id x \<notin> cq_id ` set qs \<longrightarrow> x \<in> set (sd_cleanup db'))"
  using assms
proof (induction qs arbitrary: db)
  case (Cons q qs)
  have q: "q \<in> set (sd_cleanup db)" "leasable now_ms q" using Cons.prems(2,3) by auto
  from Cons.prems(1) q obtain i db1 where one: "claim_one uuid now_ms l q db = (Ok i, db1)" "ci_id i = cq_id q" "leased_row now_ms l db1 i"
    "ci_lease_expires_at_ms i = l"
    "map cq_id (sd_cleanup db1) = map cq_id (sd_cleanup db)"
    "\<And>x. x \<in> set (sd_cleanup db) \<Longrightarrow> cq_id x \<noteq> cq_id q \<Longrightarrow> x \<in> set (sd_cleanup db1)"
    by (rule claim_one_ok) auto
  have nonneg: "\<forall>x\<in>set [q]. 0 \<le> cq_attempts x" using Cons.prems(1,2) by (auto simp: queue_wf_def)
  have "claim_all uuid now_ms l [q] db = (Ok [i], db1)" using one(1) by (simp add: sbind_def sok_def)
  then have "queue_ok db1" using preservesD [OF claim_all_queue [OF nonneg] Cons.prems(1)] by blast
  moreover have "set qs \<subseteq> set (sd_cleanup db1)" 
  proof
    fix x
    assume "x \<in> set qs"
    then have "x \<in> set (sd_cleanup db)" using Cons.prems(2) by auto
    moreover from \<open>x \<in> set qs\<close> have "cq_id x \<in> cq_id ` set qs" by simp
    with Cons.prems(4) have "cq_id x \<noteq> cq_id q" by auto
    ultimately show "x \<in> set (sd_cleanup db1)" by (rule one(6))
  qed
  ultimately obtain items db' where rest: "claim_all uuid now_ms l qs db1 = (Ok items, db')" "map ci_id items = map cq_id qs"
    "\<forall>i\<in>set items. leased_row now_ms l db' i \<and> ci_lease_expires_at_ms i = l" "map cq_id (sd_cleanup db') = map cq_id (sd_cleanup db1)"
    "\<forall>x\<in>set (sd_cleanup db1). cq_id x \<notin> cq_id ` set qs \<longrightarrow> x \<in> set (sd_cleanup db')"
    using Cons.IH [of db1] Cons.prems(3,4) by auto
  have "leased_row now_ms l db' i"
    using one(2,3) rest(5) Cons.prems(4) unfolding leased_row_def by force
  moreover have "claim_all uuid now_ms l (q # qs) db = (Ok (i # items), db')"
    using one(1) rest(1) by (simp add: sbind_def sok_def)
  ultimately show ?case using one(2,4,5,6) rest by auto
qed (simp add: sok_def)

section \<open>Exclusive leases\<close>

definition waiting :: "int \<Rightarrow> storage_db \<Rightarrow> cleanup_row list" where
  "waiting now_ms db = filter (\<lambda>q. leasable now_ms q \<and> cq_attempts q < max_cleanup_attempts) (sd_cleanup db)"

lemma candidates_distinct: "queue_ok db \<Longrightarrow> distinct (map cq_id (cleanup_candidates now_ms limit db))"
  by (auto simp: cleanup_candidates_def queue_wf_def distinct_map inj_on_def dest!: in_set_takeD)

lemma claim_cleanup_ok:
  assumes "queue_ok db" and "0 < limit" "limit \<le> 100" and "1000 \<le> dur" "dur \<le> 15 * 60 * 1000"
  obtains items db' where "storage_claim_cleanup uuid now_ms limit dur db = (Ok items, db')"
    "map ci_id items = map cq_id (cleanup_candidates now_ms limit db)"
    "\<forall>i\<in>set items. leased_row now_ms (saturating_add_i64 now_ms dur) db' i
       \<and> ci_lease_expires_at_ms i = saturating_add_i64 now_ms dur" "queue_ok db'"
    "\<forall>x\<in>set (sd_cleanup db). cq_id x \<notin> cq_id ` set (cleanup_candidates now_ms limit db) \<longrightarrow> x \<in> set (sd_cleanup db')"
proof -
  have sub: "set (cleanup_candidates now_ms limit db) \<subseteq> set (sd_cleanup db)"
      "\<forall>q\<in>set (cleanup_candidates now_ms limit db). leasable now_ms q"
    using candidates_subset [of now_ms limit db] by auto
  obtain items db' where r: "claim_all uuid now_ms (saturating_add_i64 now_ms dur) (cleanup_candidates now_ms limit db) db = (Ok items, db')"
      "map ci_id items = map cq_id (cleanup_candidates now_ms limit db)"
      "\<forall>i\<in>set items. leased_row now_ms (saturating_add_i64 now_ms dur) db' i
         \<and> ci_lease_expires_at_ms i = saturating_add_i64 now_ms dur"
      "\<forall>x\<in>set (sd_cleanup db). cq_id x \<notin> cq_id ` set (cleanup_candidates now_ms limit db) \<longrightarrow> x \<in> set (sd_cleanup db')"
    using claim_all_ok [OF assms(1) sub candidates_distinct [OF assms(1)], of uuid "saturating_add_i64 now_ms dur"] by blast
  moreover from r(1) have "storage_claim_cleanup uuid now_ms limit dur db = (Ok items, db')"
    using assms(2-5) by (simp add: storage_claim_cleanup_def)
  moreover from this have "queue_ok db'" using preservesD [OF claim_cleanup_keeps(2) assms(1)] by blast
  ultimately show thesis using that by blast
qed

lemma waiting_claimed: "length (waiting now_ms db) \<le> limit \<Longrightarrow> set (cleanup_candidates now_ms limit db) = set (waiting now_ms db)"
  by (simp add: cleanup_candidates_def waiting_def)

section \<open>What other requests leave of a row\<close>

lemma has_row_unique: "has_row R j Q \<Longrightarrow> y \<in> set Q \<Longrightarrow> cq_id y = j \<Longrightarrow> R y"
  unfolding has_row_def queue_wf_def using key_unique by metis

lemma has_row_enqueue: "preserves (\<lambda>db. has_row R j (sd_cleanup db)) (enqueue_cleanup uuid k a u n)"
proof (rule preservesI)
  fix db r db'
  assume "has_row R j (sd_cleanup db)" and run: "enqueue_cleanup uuid k a u n db = (r, db')"
  moreover from this have "queue_ok db'" using preservesD [OF enqueue_queue_ok] by (auto simp: has_row_def)
  moreover have "set (sd_cleanup db) \<subseteq> set (sd_cleanup db')"
    using run by (auto simp: enqueue_cleanup_def sbind_def draw_def split: if_split_asm)
  ultimately show "has_row R j (sd_cleanup db')" by (auto simp: has_row_def)
qed

lemma ledger_keeps_queue [intro]:
  "preserves (queue_is Q) (delete_one p)" "preserves (queue_is Q) (record_receipt env now_ms rq)"
  "preserves (queue_is Q) (storage_reserve pr su tk no by ex now_ms key ac up)"
  by (auto simp: preserves_def queue_is_def delete_one_def Let_def record_receipt_def storage_record_commit_receipt_def
      elim!: storage_reserve_cases split: if_split_asm)

interpretation row: store_frame "\<lambda>db. has_row R j (sd_cleanup db)" uuid for R j uuid
  by unfold_locales (auto intro: preserves_queue_property has_row_enqueue)

text \<open>
  A property of rows is fenced for an item until \<open>l\<close> when no claim before \<open>l\<close> takes such a row and no
  token but the item's names it: then claims before \<open>l\<close> and acknowledgements of other leases leave it.
\<close>

definition fenced :: "int \<Rightarrow> cleanup_item \<Rightarrow> (cleanup_row \<Rightarrow> bool) \<Rightarrow> bool" where
  "fenced l i R \<longleftrightarrow> (\<forall>x. R x \<longrightarrow> cq_lease_token x \<in> {None, Some (ci_lease_token i)} \<and> (\<forall>t<l. \<not> leasable t x))"

lemma fenced_not_candidate:
  assumes "fenced l i R" and "has_row R (ci_id i) (sd_cleanup db)" and "t < l"
  shows "ci_id i \<notin> cq_id ` set (cleanup_candidates t limit db)"
proof
  assume "ci_id i \<in> cq_id ` set (cleanup_candidates t limit db)"
  then obtain q where q: "q \<in> set (sd_cleanup db)" "leasable t q" "cq_id q = ci_id i"
    using candidates_subset [of t limit db] by auto
  with assms(1,3) has_row_unique [OF assms(2) q(1,3)] show False by (auto simp: fenced_def)
qed

lemma fenced_claim:
  assumes "fenced l i R" and "t < l" and row: "has_row R (ci_id i) (sd_cleanup db)"
    and run: "storage_claim_cleanup uuid t limit dur db = (r, db')"
  shows "has_row R (ci_id i) (sd_cleanup db') \<and> (\<forall>items. r = Ok items \<longrightarrow> ci_id i \<notin> ci_id ` set items)"
proof (cases "0 < limit \<and> limit \<le> 100 \<and> 1000 \<le> dur \<and> dur \<le> 15 * 60 * 1000")
  case True
  then have valid: "0 < limit" "limit \<le> 100" "1000 \<le> dur" "dur \<le> 15 * 60 * 1000" by auto
  have "queue_ok db" using row by (simp add: has_row_def)
  from this valid obtain items d where c: "storage_claim_cleanup uuid t limit dur db = (Ok items, d)"
      "map ci_id items = map cq_id (cleanup_candidates t limit db)" "queue_ok d"
      "\<forall>x\<in>set (sd_cleanup db). cq_id x \<notin> cq_id ` set (cleanup_candidates t limit db) \<longrightarrow> x \<in> set (sd_cleanup d)"
    by (rule claim_cleanup_ok [of db limit dur uuid t]) blast
  note out = fenced_not_candidate [OF assms(1) row assms(2), of limit]
  obtain x where "x \<in> set (sd_cleanup db)" "cq_id x = ci_id i" "R x" using row by (auto simp: has_row_def)
  with c(3,4) out have "has_row R (ci_id i) (sd_cleanup d)" by (auto simp: has_row_def)
  moreover have "ci_id i \<notin> ci_id ` set items" using out arg_cong [OF c(2), of set] by simp
  ultimately show ?thesis using c(1) run by simp
next
  case False
  then show ?thesis using run row by (auto simp: storage_claim_cleanup_def split: if_split_asm)
qed

lemma fenced_ack:
  assumes "fenced l i R" and e: "(fst e, fst (snd e)) \<noteq> (ci_id i, ci_lease_token i)"
  shows "preserves (\<lambda>db. has_row R (ci_id i) (sd_cleanup db)) (ack_one t e)"
proof (rule preservesI)
  fix db r db'
  assume row: "has_row R (ci_id i) (sd_cleanup db)" and run: "ack_one t e db = (r, db')"
  obtain k w d where e': "e = (k, w, d)" by (cases e) auto
  from row obtain x where x: "x \<in> set (sd_cleanup db)" "cq_id x = ci_id i" "R x" by (auto simp: has_row_def)
  have "\<not> (cq_id x = k \<and> cq_lease_token x = Some w)"
    using x(2,3) assms(1) e by (auto simp: e' fenced_def)
  then have "x \<in> set (sd_cleanup db')"
    using run x(1)
    by (force simp: e' ack_one_def Let_def sbind_def update_cleanup_def slift_def split: cleanup_disposition.split_asm option.split_asm)
  moreover have "queue_ok db'" using preservesD [OF ack_one_keeps(1) _ run] row by (simp add: has_row_def)
  ultimately show "has_row R (ci_id i) (sd_cleanup db')" using x by (auto simp: has_row_def)
qed

text \<open>
  The requests that may come while an item is out until \<open>l\<close>: anything of the worker, except that claims
  are made before \<open>l\<close> and nobody but the holder acknowledges with the item's token.
\<close>

inductive other_step :: "worker_env \<Rightarrow> metadata_config \<Rightarrow> int \<Rightarrow> cleanup_item \<Rightarrow> storage_db \<Rightarrow> storage_db \<Rightarrow> bool"
  for env cfg l i where
  authorize: "authorize_sync env cfg t arq db = (a, db') \<Longrightarrow> other_step env cfg l i db db'"
| reserve: "reserve_sync env cfg t rrq db = (u, db') \<Longrightarrow> other_step env cfg l i db db'"
| commit: "commit_sync env cfg t crq db = (u, db') \<Longrightarrow> other_step env cfg l i db db'"
| release: "release_reservation_sync env cfg t auth nonce bytes expires db = (u, db') \<Longrightarrow> other_step env cfg l i db db'"
| expire: "cleanup_expired_reservations_sync env t db = (n, db') \<Longrightarrow> other_step env cfg l i db db'"
| claim: "cleanup_claim_sync env t limit db = (b, db') \<Longrightarrow> t < l \<Longrightarrow> other_step env cfg l i db db'"
| ack: "cleanup_ack_sync t items db = (p, db') \<Longrightarrow> \<forall>e\<in>set items. (fst e, fst (snd e)) \<noteq> (ci_id i, ci_lease_token i)
    \<Longrightarrow> other_step env cfg l i db db'"

lemma fenced_step:
  assumes "other_step env cfg l i db db'" and "fenced l i R" and "has_row R (ci_id i) (sd_cleanup db)"
  shows "has_row R (ci_id i) (sd_cleanup db')"
  using assms
proof (induction rule: other_step.induct)
  case (claim t limit db b db')
  have "preserves (\<lambda>db. has_row R (ci_id i) (sd_cleanup db)) (storage_claim_cleanup (we_uuid env) t limit cleanup_lease_ms)"
    using fenced_claim [OF claim(3,2)] by (blast intro: preservesI)
  from refl this claim(1,4) show ?case by (rule row.claim_step)
next
  case (ack t items db p db')
  have "preserves (\<lambda>db. has_row R (ci_id i) (sd_cleanup db)) (ack_one t e)" if "e \<in> set items" for e
    using fenced_ack [OF ack(3)] ack(2) that by blast
  from this ack(1,4) show ?case by (rule row.ack_step)
qed (auto dest: row.authorize_step row.reserve_step row.commit_step [OF refl] row.release_step [OF refl]
    row.expire_step [OF refl])

lemma fenced_run:
  "(other_step env cfg l i)\<^sup>*\<^sup>* db db' \<Longrightarrow> fenced l i R \<Longrightarrow> has_row R (ci_id i) (sd_cleanup db) \<Longrightarrow>
     has_row R (ci_id i) (sd_cleanup db')"
  by (induction rule: rtranclp_induct) (auto dest: fenced_step)

text \<open>A claim of the worker is the preparation followed by the claim on the queue.\<close>

lemma claim_sync_Ok:
  assumes "cleanup_claim_sync env t limit db = (Ok (removed, out), db')"
  obtains d where "storage_prepare_expired_cleanup (we_uuid env) t limit db = (Ok removed, d)"
    and "storage_claim_cleanup (we_uuid env) t limit cleanup_lease_ms d = (Ok (map fst out), db')"
proof -
  have fsts: "map fst zs = ys" if "mapr (\<lambda>i. bindr (protocol_storage_action (ci_action i)) (\<lambda>a. Ok (i, a))) ys = Ok zs" for ys zs
    using that by (induction ys arbitrary: zs) (auto simp: bindr_eq_Ok)
  obtain p d where p: "storage_prepare_expired_cleanup (we_uuid env) t limit db = (p, d)" by force
  obtain c d' where c: "storage_claim_cleanup (we_uuid env) t limit cleanup_lease_ms d = (c, d')" by force
  show thesis
    using assms p c fsts that
    by (cases p; cases c)
      (auto simp: cleanup_claim_sync_def with_maintenance_def atomically_def sbind_def slift_def bindr_eq_Ok map_err_eq_Ok
        split: sum.split_asm prod.split_asm)
qed

lemma fenced_claim_sync:
  assumes "fenced l i R" and "t < l" and "has_row R (ci_id i) (sd_cleanup db)"
    and "cleanup_claim_sync env t limit db = (Ok (removed, out), db')"
  shows "ci_id i \<notin> ci_id ` fst ` set out"
proof -
  from assms(4) obtain d where d: "storage_prepare_expired_cleanup (we_uuid env) t limit db = (Ok removed, d)"
      "storage_claim_cleanup (we_uuid env) t limit cleanup_lease_ms d = (Ok (map fst out), db')"
    by (rule claim_sync_Ok)
  have "has_row R (ci_id i) (sd_cleanup d)" using preservesD [OF row.prepare_keeps assms(3) d(1)] .
  from fenced_claim [OF assms(1,2) this d(2)] show ?thesis by simp
qed

section \<open>Exclusive leases\<close>

lemma leased_fenced: "fenced l i (leased_to n l i)"
  by (auto simp: fenced_def leased_to_def leasable_def)

lemma claimed_has_row:
  "leased_row n l db i \<Longrightarrow> queue_ok db \<Longrightarrow> has_row (leased_to n l i) (ci_id i) (sd_cleanup db)"
  by (auto simp: leased_row_def has_row_def)

text \<open>The acknowledgements of one item: with its token they succeed, with any other they change nothing.\<close>

lemma ack_single:
  assumes "has_row (leased_to n l i) (ci_id i) (sd_cleanup db)"
  shows "\<exists>db'. cleanup_ack_sync t [(ci_id i, ci_lease_token i, Deleted)] db = (Ok (1, 0), db')
      \<and> ci_id i \<notin> cq_id ` set (sd_cleanup db')"
    and "\<exists>db'. cleanup_ack_sync t [(ci_id i, ci_lease_token i, Retry)] db = (Ok (0, 1), db')
      \<and> has_row (\<lambda>x. cq_lease_token x = None
          \<and> cq_available_at_ms x = saturating_add_i64 t (backoff_ms (int (ci_attempt i)))) (ci_id i) (sd_cleanup db')"
    and "w \<noteq> ci_lease_token i \<Longrightarrow> cleanup_ack_sync t [(ci_id i, w, d)] db = (Err (map_runtime StorageReservationMismatch), db)"
proof -
  obtain x where x: "x \<in> set (sd_cleanup db)" "cq_id x = ci_id i" "cq_lease_token x = Some (ci_lease_token i)"
      "cq_attempts x = int (ci_attempt i)"
    using assms by (auto simp: has_row_def leased_to_def)
  have ok: "queue_ok db" and keys: "distinct (map cq_id (sd_cleanup db))"
    using assms by (auto simp: has_row_def queue_wf_def)
  have only: "y = x" if "y \<in> set (sd_cleanup db)" "cq_id y = ci_id i" for y
    using keys that(1) x(1) by (rule key_unique) (simp add: that(2) x(2))
  let ?mine = "\<lambda>q. cq_id q = ci_id i \<and> cq_lease_token q = Some (ci_lease_token i)"
  have one: "length (filter ?mine (sd_cleanup db)) = 1"
    using filter_key_single [of cq_id "sd_cleanup db" x "\<lambda>q. cq_lease_token q = Some (ci_lease_token i)"] keys x by simp
  show "\<exists>db'. cleanup_ack_sync t [(ci_id i, ci_lease_token i, Deleted)] db = (Ok (1, 0), db')
      \<and> ci_id i \<notin> cq_id ` set (sd_cleanup db')"
    using one only x(3)
    by (auto simp: cleanup_ack_sync_def with_maintenance_def atomically_def storage_ack_cleanup_def ack_one_def sbind_def sok_def)
  have found: "find ?mine (sd_cleanup db) = Some x"
  proof (cases "find ?mine (sd_cleanup db)")
    case None
    then show ?thesis using x(1-3) by (auto simp: find_None_iff)
  next
    case (Some y)
    then have "y \<in> set (sd_cleanup db)" "cq_id y = ci_id i" by (auto simp: find_Some_iff)
    then show ?thesis using only Some by simp
  qed
  let ?f = "\<lambda>q. q\<lparr>cq_available_at_ms := saturating_add_i64 t (backoff_ms (cq_attempts x)), cq_lease_token := None,
     cq_lease_expires_at_ms := None\<rparr>"
  obtain r d where r: "ack_one t (ci_id i, ci_lease_token i, Retry) db = (r, d)" by force
  have run: "r = Ok ()" "sd_cleanup d = map (\<lambda>q. if ?mine q then ?f q else q) (sd_cleanup db)"
    using r one found by (auto simp: ack_one_def Let_def sbind_def update_cleanup_def slift_def)
  have "?f x \<in> set (sd_cleanup d)" using x(1-3) run(2) by force
  moreover have "queue_ok d" using preservesD [OF ack_one_keeps(1) ok r] .
  ultimately have "has_row (\<lambda>x. cq_lease_token x = None
          \<and> cq_available_at_ms x = saturating_add_i64 t (backoff_ms (int (ci_attempt i)))) (ci_id i) (sd_cleanup d)"
    using x(2,4) unfolding has_row_def by (intro conjI bexI [of _ "?f x"]) simp_all
  then show "\<exists>db'. cleanup_ack_sync t [(ci_id i, ci_lease_token i, Retry)] db = (Ok (0, 1), db')
      \<and> has_row (\<lambda>x. cq_lease_token x = None
          \<and> cq_available_at_ms x = saturating_add_i64 t (backoff_ms (int (ci_attempt i)))) (ci_id i) (sd_cleanup db')"
    using r run(1)
    by (auto simp: cleanup_ack_sync_def with_maintenance_def atomically_def storage_ack_cleanup_def sbind_def sok_def)
  assume "w \<noteq> ci_lease_token i"
  then have none: "filter (\<lambda>q. cq_id q = ci_id i \<and> cq_lease_token q = Some w) (sd_cleanup db) = []"
    using only x(3) by (auto simp: filter_empty_conv)
  then have "find (\<lambda>q. cq_id q = ci_id i \<and> cq_lease_token q = Some w) (sd_cleanup db) = None"
    by (simp add: find_None_iff filter_empty_conv)
  with none show "cleanup_ack_sync t [(ci_id i, w, d)] db = (Err (map_runtime StorageReservationMismatch), db)" for d
    by (cases d) (auto simp: cleanup_ack_sync_def with_maintenance_def atomically_def storage_ack_cleanup_def ack_one_def sbind_def)
qed

text \<open>
  C25. Cleanup work is handed out to one worker at a time. Take any reachable store, a claim of the worker,
  which first prepares what has expired, and any requests after it as long as claims are made before the
  lease runs out and nobody else uses the item's token (\<open>other_step\<close>); times are 64-bit. The claim returned at most
  \<open>limit\<close> distinct items, each until five minutes later; the item is still leased under its token; no
  claim before the lease ends returns it. An acknowledgement with any other token is refused and changes
  nothing. The holder can report the item deleted, which takes it off the queue, or give it back for a
  retry; then no claim returns it before the backoff has passed, again whatever comes between. When the
  lease has run out the item is waiting again unless its attempts are used up, and a claim on the queue
  succeeds and returns all that is waiting when it fits the limit.
\<close>

theorem cleanup_claims_are_exclusive:
  assumes reach: "empty_tables db0" "(storage_step env cfg)\<^sup>*\<^sup>* db0 db" and now: "now_ms \<le> i64_max"
    and claim: "cleanup_claim_sync env now_ms limit db = (Ok (removed, out), db')" and i: "(i, a) \<in> set out"
    and l: "l = saturating_add_i64 now_ms cleanup_lease_ms" and others: "(other_step env cfg l i)\<^sup>*\<^sup>* db' db2"
  shows "distinct (map (ci_id \<circ> fst) out) \<and> length out \<le> limit \<and> ci_lease_expires_at_ms i = l \<and> leased_row now_ms l db2 i
    \<and> (\<forall>t<l. \<forall>limit2 removed2 out2 db3. cleanup_claim_sync env t limit2 db2 = (Ok (removed2, out2), db3) \<longrightarrow>
         ci_id i \<notin> ci_id ` fst ` set out2)
    \<and> (\<forall>t w d. w \<noteq> ci_lease_token i \<longrightarrow>
         cleanup_ack_sync t [(ci_id i, w, d)] db2 = (Err (map_runtime StorageReservationMismatch), db2))
    \<and> (\<forall>t. \<exists>db3. cleanup_ack_sync t [(ci_id i, ci_lease_token i, Deleted)] db2 = (Ok (1, 0), db3)
         \<and> ci_id i \<notin> cq_id ` set (sd_cleanup db3))
    \<and> (\<forall>t b. b = saturating_add_i64 t (backoff_ms (int (ci_attempt i))) \<longrightarrow>
         (\<exists>db3. cleanup_ack_sync t [(ci_id i, ci_lease_token i, Retry)] db2 = (Ok (0, 1), db3)
           \<and> (\<forall>db4 t' limit2 removed2 out2 db5. (other_step env cfg b i)\<^sup>*\<^sup>* db3 db4 \<longrightarrow> t' < b \<longrightarrow>
                cleanup_claim_sync env t' limit2 db4 = (Ok (removed2, out2), db5) \<longrightarrow> ci_id i \<notin> ci_id ` fst ` set out2)))
    \<and> (\<forall>t\<ge>l. int (ci_attempt i) < max_cleanup_attempts \<longrightarrow> ci_id i \<in> cq_id ` set (waiting t db2))
    \<and> (\<forall>t limit2. 0 < limit2 \<longrightarrow> limit2 \<le> 100 \<longrightarrow> length (waiting t db2) \<le> limit2 \<longrightarrow>
         (\<exists>items db3. storage_claim_cleanup (we_uuid env) t limit2 cleanup_lease_ms db2 = (Ok items, db3)
            \<and> ci_id ` set items = cq_id ` set (waiting t db2)))"
proof -
  have "store_ok db" using reach by (rule store.reachable_inv)
  obtain d where d: "storage_prepare_expired_cleanup (we_uuid env) now_ms limit db = (Ok removed, d)"
      "storage_claim_cleanup (we_uuid env) now_ms limit cleanup_lease_ms d = (Ok (map fst out), db')"
    using claim by (rule claim_sync_Ok)
  have ok: "queue_ok d" using preservesD [OF frame.prepare_keeps \<open>store_ok db\<close> d(1)] by (simp add: store_ok_def)
  have limit: "0 < limit" "limit \<le> 100" using d(2) by (auto simp: storage_claim_cleanup_def split: if_split_asm)
  have lease: "1000 \<le> cleanup_lease_ms" "cleanup_lease_ms \<le> 15 * 60 * 1000" by (simp_all add: cleanup_lease_ms_def)
  have out: "map ci_id (map fst out) = map cq_id (cleanup_candidates now_ms limit d)"
      "\<forall>i\<in>set (map fst out). leased_row now_ms l db' i \<and> ci_lease_expires_at_ms i = l" "queue_ok db'"
    using claim_cleanup_ok [OF ok limit lease, of "we_uuid env" now_ms] d(2) unfolding l
    by (metis Pair_inject sum.inject(2))+
  have mem: "i \<in> set (map fst out)" using i by force
  have c1: "distinct (map (ci_id \<circ> fst) out)" using candidates_distinct [OF ok, of now_ms limit] out(1) by simp
  have c2: "length out \<le> limit" using arg_cong [OF out(1), of length] by (simp add: cleanup_candidates_def)
  have "has_row (leased_to now_ms l i) (ci_id i) (sd_cleanup db')"
    using out(2,3) mem by (blast intro: claimed_has_row)
  from fenced_run [OF others leased_fenced this]
  have held: "has_row (leased_to now_ms l i) (ci_id i) (sd_cleanup db2)" .
  have c4: "leased_row now_ms l db2 i" using held by (auto simp: leased_row_def has_row_def)
  have c3: "ci_lease_expires_at_ms i = l" using out(2) mem by blast
  have c8: "\<exists>db3. cleanup_ack_sync t [(ci_id i, ci_lease_token i, Retry)] db2 = (Ok (0, 1), db3)
           \<and> (\<forall>db4 t' limit2 removed2 out2 db5. (other_step env cfg b i)\<^sup>*\<^sup>* db3 db4 \<longrightarrow> t' < b \<longrightarrow>
                cleanup_claim_sync env t' limit2 db4 = (Ok (removed2, out2), db5) \<longrightarrow> ci_id i \<notin> ci_id ` fst ` set out2)"
    if b: "b = saturating_add_i64 t (backoff_ms (int (ci_attempt i)))" for t b
  proof -
    let ?R = "\<lambda>x. cq_lease_token x = None \<and> cq_available_at_ms x = b"
    obtain db3 where db3: "cleanup_ack_sync t [(ci_id i, ci_lease_token i, Retry)] db2 = (Ok (0, 1), db3)"
        "has_row ?R (ci_id i) (sd_cleanup db3)"
      using ack_single(2) [OF held, of t] unfolding b by blast
    have "fenced b i ?R" by (auto simp: fenced_def leasable_def)
    with db3 fenced_run fenced_claim_sync show ?thesis by blast
  qed
  have c9: "ci_id i \<in> cq_id ` set (waiting t db2)" if "l \<le> t" "int (ci_attempt i) < max_cleanup_attempts" for t
  proof -
    have "now_ms \<le> l" using now by (simp add: l cleanup_lease_ms_def saturating_add_i64_def)
    with held that show ?thesis by (force simp: has_row_def leased_to_def waiting_def leasable_def)
  qed
  have c10: "\<exists>items db3. storage_claim_cleanup (we_uuid env) t limit2 cleanup_lease_ms db2 = (Ok items, db3)
            \<and> ci_id ` set items = cq_id ` set (waiting t db2)"
    if "0 < limit2" "limit2 \<le> 100" "length (waiting t db2) \<le> limit2" for t limit2
  proof -
    have "queue_ok db2" using held by (simp add: has_row_def)
    from claim_cleanup_ok [OF this that(1,2) lease, of "we_uuid env" t] waiting_claimed [OF that(3)] show ?thesis
      by (metis list.set_map)
  qed
  show ?thesis
    by (intro conjI allI impI; rule c1 c2 c3 c4 fenced_claim_sync [OF leased_fenced _ held] ack_single(3) [OF held]
        ack_single(1) [OF held] c8 c9 c10; assumption)
qed

text \<open>The reservation of the example store runs out and its object is queued for deletion.\<close>

definition sample_queued_store :: storage_db where
  "sample_queued_store = snd (cleanup_expired_reservations_sync sample_worker 10000 sample_reserved_store)"

lemma sample_queued_reachable: "(storage_step sample_worker sample_config)\<^sup>*\<^sup>* sample_store sample_queued_store"
proof -
  have "storage_step sample_worker sample_config sample_reserved_store sample_queued_store"
    by (rule storage_step.expire [of _ 10000]) (simp add: sample_queued_store_def prod_eq_iff)
  with sample_reserved_reachable show ?thesis by (rule rtranclp.rtrancl_into_rtrancl)
qed

definition sample_claim :: "(storage_error + nat \<times> (cleanup_item \<times> storage_action) list) \<times> storage_db" where
  "sample_claim = cleanup_claim_sync sample_worker 11000 10 sample_queued_store"

definition sample_item :: cleanup_item where
  "sample_item = fst (hd (snd (projr (fst sample_claim))))"

theorem cleanup_claims_are_exclusive_witness:
  "ci_provider_key sample_item = ''projects/p/buckets/b1/objects/o1''
     \<and> leased_row 11000 311000 (snd (cleanup_claim_sync sample_worker 12000 10 (snd sample_claim))) sample_item
     \<and> ci_id sample_item \<in> cq_id ` set (waiting 400000 (snd (cleanup_claim_sync sample_worker 12000 10 (snd sample_claim))))"
proof -
  let ?db = "snd (cleanup_claim_sync sample_worker 12000 10 (snd sample_claim))"
  have facts: "ci_provider_key sample_item = ''projects/p/buckets/b1/objects/o1''"
      "length (snd (projr (fst sample_claim))) = 1" "int (ci_attempt sample_item) < max_cleanup_attempts"
      "case fst sample_claim of Inl e \<Rightarrow> False | Inr b \<Rightarrow> True"
    by code_simp+
  define removed where "removed = fst (projr (fst sample_claim))"
  define out where "out = snd (projr (fst sample_claim))"
  have claim: "cleanup_claim_sync sample_worker 11000 10 sample_queued_store = (Ok (removed, out), snd sample_claim)"
    using facts(4) unfolding removed_def out_def sample_claim_def by (auto simp: prod_eq_iff split: sum.split_asm)
  have item: "(sample_item, snd (hd out)) \<in> set out"
    using facts(2) unfolding sample_item_def out_def by (cases "snd (projr (fst sample_claim))") auto
  have l: "(311000 :: int) = saturating_add_i64 11000 cleanup_lease_ms" by code_simp
  have "other_step sample_worker sample_config 311000 sample_item (snd sample_claim) ?db"
    by (rule other_step.claim [OF surjective_pairing]) simp
  then have others: "(other_step sample_worker sample_config 311000 sample_item)\<^sup>*\<^sup>* (snd sample_claim) ?db" by simp
  have "(11000 :: int) \<le> i64_max" by (simp add: i64_max_def)
  note c = cleanup_claims_are_exclusive [OF sample_store_empty sample_queued_reachable this claim item l others]
  have "leased_row 11000 311000 ?db sample_item" using c by blast
  moreover have "(311000 :: int) \<le> 400000" by simp
  then have "ci_id sample_item \<in> cq_id ` set (waiting 400000 ?db)" using c facts(3) by blast
  ultimately show ?thesis using facts(1) by blast
qed

end
