(* ===== verification/Storage_Retries.thy ===== *)
theory Storage_Retries
  imports Storage_Guarantees
begin

text \<open>
  Two commits that the gateway accepts once and refuses when the client repeats them, and an
  address the endpoint check lets through.
\<close>

section \<open>Repeated commits\<close>

text \<open>An open multipart upload with one granted part.\<close>

definition part_claims :: grant_claims where
  "part_claims = sample_claims\<lparr>gc_action := UploadPart, gc_upload_id := Some ''up1'', gc_part_number := Some 1,
     gc_reservation_bytes := 0\<rparr>"

definition part_env :: storage_env where
  "part_env = sample_env\<lparr>sv_decode := (\<lambda>_. Some part_claims)\<rparr>"

text \<open>What \<open>commit_multipart\<close> reports of a part, and what the store keeps of it.\<close>

definition part_result :: storage_commit_result where
  "part_result = \<lparr>sc_content_length = None, sc_checksum_sha256 = None, sc_etag = Some ''e1'', sc_version_id = None\<rparr>"

definition part_worker :: worker_env where
  "part_worker = sample_worker\<lparr>we_result_json := (\<lambda>r. if sc_content_length r = None then ''none'' else ''some''),
     we_result_parse := (\<lambda>s. if s = ''none'' then Some part_result else Some (part_result\<lparr>sc_content_length := Some 40\<rparr>))\<rparr>"

definition part_store :: storage_db where
  "part_store = sample_store\<lparr>
     sd_uploads := [\<lparr>up_id = ''up1'', up_bucket_id = ''b1'', up_object_key = ''cat.png'', up_owner_id = ''u'',
       up_expected_size_bytes = Some 80, up_checksum_sha256 = None, up_content_type = None, up_status = ''active'',
       up_created_at_ms = 500, up_expires_at_ms = 90000\<rparr>],
     sd_provider_uploads := [\<lparr>ub_upload_id = ''up1'', ub_provider_key = ''projects/p/buckets/b1/objects/o1'',
       ub_reserved_bytes = 80, ub_replacement_fingerprint = None\<rparr>]\<rparr>"

definition part_gateway :: "storage_db gateway" where
  "part_gateway = \<lparr>gw_local = reservations_default, gw_store = snd (reserve_sync part_worker sample_config 1000
     ((sample_reservation ''nonce-0000000001'' 0)\<lparr>sr_action := UploadPart, sr_upload_id := Some ''up1''\<rparr>) part_store)\<rparr>"

definition part_commit :: "int \<Rightarrow> storage_db gateway \<Rightarrow> (storage_error + unit) \<times> storage_db gateway" where
  "part_commit t = commit_multipart_stage part_env sample_gateway_config (sqlite_authorizer part_worker sample_config t) sample_token
     sample_auth UploadPart part_result t"

text \<open>
  A part is committed; the same commit, repeated while the grant is valid, is refused as an invalid
  grant: the receipt holds the granted length, the repeated result none.
\<close>

lemma part_commit_cannot_be_repeated:
  "fst (part_commit 2000 part_gateway) = Ok ()
   \<and> map pt_part_number (sd_upload_parts (gw_store (snd (part_commit 2000 part_gateway)))) = [1]
   \<and> fst (part_commit 3000 (snd (part_commit 2000 part_gateway))) = Err InvalidGrant"
  by (intro conjI) code_simp+

text \<open>
  An upload granted without a checksum, for which the provider reports one: the commit succeeds, and
  repeated it fails with an internal error, because the receipt's binding digest covers the reported
  checksum and the one of the repeated request the granted one.
\<close>

definition checksum_worker :: worker_env where
  "checksum_worker = sample_worker\<lparr>we_binding_json := (\<lambda>b. case bp_checksum_sha256 b of None \<Rightarrow> ''none'' | Some c \<Rightarrow> c)\<rparr>"

definition checksum_commit :: "int \<Rightarrow> storage_db gateway \<Rightarrow> (storage_error + unit) \<times> storage_db gateway" where
  "checksum_commit t = commit_metadata sample_env sample_gateway_config (sqlite_authorizer checksum_worker sample_config t) sample_token
     sample_auth (sample_result\<lparr>sc_checksum_sha256 := Some ''sum''\<rparr>) t"

lemma reported_checksum_cannot_be_repeated:
  "fst (checksum_commit 2000 sample_gateway) = Ok ()
   \<and> fst (checksum_commit 3000 (snd (checksum_commit 2000 sample_gateway))) = Err Sto_Internal"
  by (intro conjI) code_simp+

section \<open>Public addresses\<close>

text \<open>The loopback address 127.0.0.1, written as an IPv4-mapped IPv6 address, counts as public.\<close>

lemma mapped_loopback_is_public:
  "\<not> is_public_ip (V4 127 0 0 1) \<and> is_public_ip (V6 0 0 0 0 0 65535 32512 1)"
  by code_simp

end
