(* ===== verification/Storage_Listing.thy ===== *)
theory Storage_Listing
  imports Storage_Guarantees
begin

text \<open>
  Listing a bucket page by page. The reference is one sorted listing of the objects a user sees; a client
  that follows the cursors of \<open>list_sync\<close> obtains exactly that, each object once, and comes to an end.
\<close>

section \<open>The reference listing\<close>

definition object_order :: "object_row \<Rightarrow> string \<times> string" where
  "object_order x = (ob_object_key x, ob_id x)"

definition in_listing :: "storage_rls \<Rightarrow> string \<Rightarrow> string \<Rightarrow> storage_db \<Rightarrow> object_row \<Rightarrow> bool" where
  "in_listing rls bucket_name prefix db x \<longleftrightarrow> rl_object_select rls x
     \<and> list_ex (\<lambda>b. rl_bucket_select rls b \<and> bk_id b = ob_bucket_id x \<and> bk_name b = bucket_name) (sd_buckets db)
     \<and> starts_with (ob_object_key x) prefix"

definition item_of :: "object_row \<Rightarrow> storage_object_item" where
  "item_of x = \<lparr>si_id = ob_id x, si_object_key = ob_object_key x, si_owner_id = ob_owner_id x, si_size_bytes = nat (ob_size_bytes x),
     si_content_type = ob_content_type x, si_checksum_sha256 = ob_checksum_sha256 x, si_etag = ob_etag x,
     si_version_id = ob_version_id x, si_created_at_ms = ob_created_at_ms x, si_updated_at_ms = ob_updated_at_ms x\<rparr>"

definition full_listing :: "storage_rls \<Rightarrow> string \<Rightarrow> string \<Rightarrow> storage_db \<Rightarrow> storage_object_item list" where
  "full_listing rls bucket_name prefix db =
     map item_of (sort_key object_order (filter (in_listing rls bucket_name prefix db) (sd_objects db)))"

text \<open>A client that asks for the next page while it is given a cursor.\<close>

fun follow_pages ::
    "nat \<Rightarrow> worker_env \<Rightarrow> metadata_config \<Rightarrow> auth_context \<Rightarrow> storage_list_request \<Rightarrow> storage_db
      \<Rightarrow> (storage_error + storage_object_item list) option" where
  "follow_pages 0 env cfg auth rq db = None"
| "follow_pages (Suc fuel) env cfg auth rq db =
     (case list_sync env cfg auth rq db of
        Inl e \<Rightarrow> Some (Err e)
      | Inr (items, None) \<Rightarrow> Some (Ok items)
      | Inr (items, Some c) \<Rightarrow>
          map_option (\<lambda>r. bindr r (\<lambda>more. Ok (items @ more))) (follow_pages fuel env cfg auth (rq\<lparr>rq_cursor := Some c\<rparr>) db))"

section \<open>Sorted lists and their tails\<close>

lemma listed_filter:
  "listed rls bucket_name prefix a db =
     filter (\<lambda>x. a < object_order x) (sort_key object_order (filter (in_listing rls bucket_name prefix db) (sd_objects db)))"
proof -
  have "listed rls bucket_name prefix a db
      = sort_key object_order (filter (\<lambda>x. a < object_order x) (filter (in_listing rls bucket_name prefix db) (sd_objects db)))"
    unfolding listed_def object_order_def [abs_def] filter_filter
    by (rule arg_cong [where f = "sort_key _"], rule filter_cong)
       (auto simp: in_listing_def object_order_def less_prod_def)
  then show ?thesis by (simp add: filter_sort)
qed

lemma filter_above_nth:
  fixes f :: "'a \<Rightarrow> 'b::linorder"
  assumes "sorted (map f xs)" and "distinct (map f xs)" and "k < length xs"
  shows "filter (\<lambda>x. f (xs ! k) < f x) xs = drop (Suc k) xs"
  using assms
proof (induction xs arbitrary: k)
  case (Cons x xs)
  have above: "f x < f y" if "y \<in> set xs" for y
    using Cons.prems(1,2) that by (force simp: order_less_le)
  show ?case
  proof (cases k)
    case 0
    then show ?thesis using above by simp
  next
    case (Suc j)
    then have "xs ! j \<in> set xs" using Cons.prems(3) by simp
    then have "\<not> f (xs ! j) < f x" using above by (meson order_less_asym)
    then show ?thesis using Cons Suc by simp
  qed
qed simp

lemma filter_above_drop:
  fixes f :: "'a \<Rightarrow> 'b::linorder"
  assumes "sorted (map f xs)" and "distinct (map f xs)" and "k < length (filter (\<lambda>x. a < f x) xs)"
    and "b = f (filter (\<lambda>x. a < f x) xs ! k)"
  shows "filter (\<lambda>x. b < f x) xs = drop (Suc k) (filter (\<lambda>x. a < f x) xs)"
proof -
  let ?ys = "filter (\<lambda>x. a < f x) xs"
  have "?ys ! k \<in> set ?ys" using assms(3) by (rule nth_mem)
  then have "a < b" using assms(4) by simp
  then have "filter (\<lambda>x. b < f x) xs = filter (\<lambda>x. b < f x) ?ys"
    unfolding filter_filter by (intro filter_cong) auto
  moreover have "sorted (map f ?ys)" using assms(1) by (rule sorted_filter)
  moreover have "distinct (map f ?ys)" using assms(2) by (rule distinct_map_filter)
  ultimately show ?thesis using filter_above_nth [OF _ _ assms(3)] assms(4) by simp
qed

section \<open>One page\<close>

text \<open>What the store relies on: base64 and serde decode what they encoded, and a cursor fits its limit.\<close>

definition cursor_codec_ok :: "worker_env \<Rightarrow> metadata_config \<Rightarrow> bool" where
  "cursor_codec_ok env cfg \<longleftrightarrow>
     (\<forall>s. we_b64_decode env (we_b64_encode env s) = Some s \<and> CHR ''.'' \<notin> set (we_b64_encode env s))
     \<and> (\<forall>c. we_cursor_parse env (we_cursor_json env c) = Some c)"

definition cursor_at :: "worker_env \<Rightarrow> auth_context \<Rightarrow> storage_list_request \<Rightarrow> object_row \<Rightarrow> list_cursor" where
  "cursor_at env auth rq x =
     \<lparr>lc_project_id = ac_project_id auth, lc_subject = ac_subject auth, lc_token_id = ac_token_id auth,
      lc_scope_fingerprint = scope_fingerprint env auth, lc_bucket = rq_bucket rq, lc_prefix = rq_prefix rq,
      lc_object_key = ob_object_key x, lc_id = ob_id x\<rparr>"

definition cursors_fit :: "worker_env \<Rightarrow> metadata_config \<Rightarrow> auth_context \<Rightarrow> storage_list_request \<Rightarrow> storage_db \<Rightarrow> bool" where
  "cursors_fit env cfg auth rq db \<longleftrightarrow>
     (\<forall>x\<in>set (sd_objects db). \<exists>c. cursor_encode env (mc_secret cfg) (cursor_at env auth rq x) = Ok c)"

lemma cursor_roundtrip:
  assumes "cursor_codec_ok env cfg" and "cursor_encode env (mc_secret cfg) c = Ok s"
  shows "cursor_decode env (mc_secret cfg) s = Ok c"
  using assms
  by (auto simp: cursor_encode_def cursor_decode_def cursor_codec_ok_def Let_def split_once_append split: if_split_asm)

lemma storage_item_ok: "0 \<le> ob_size_bytes x \<Longrightarrow> storage_item x = Ok (item_of x)"
  by (simp add: storage_item_def u64_of_i64_def item_of_def)

lemma mapr_ok: "(\<And>x. x \<in> set xs \<Longrightarrow> f x = Ok (g x)) \<Longrightarrow> mapr f xs = Ok (map g xs)"
  by (induction xs) auto

lemma list_page_cases:
  assumes "\<forall>x\<in>set (sd_objects db). 0 \<le> ob_size_bytes x" and "cursors_fit env cfg auth rq db" and "0 < rq_limit rq"
    and "L = listed (we_rls env auth) (rq_bucket rq) (rq_prefix rq) a db"
  obtains (Last) "length L \<le> rq_limit rq" "list_page env cfg auth rq a db = Ok (map item_of L, None)"
    | (More) c where "rq_limit rq < length L"
        "list_page env cfg auth rq a db = Ok (map item_of (take (rq_limit rq) L), Some c)"
        "cursor_encode env (mc_secret cfg) (cursor_at env auth rq (L ! (rq_limit rq - 1))) = Ok c"
proof -
  have sub: "set L \<subseteq> set (sd_objects db)" by (auto simp: assms(4) listed_def)
  then have items: "mapr storage_item (take (rq_limit rq + 1) L) = Ok (map item_of (take (rq_limit rq + 1) L))"
    using assms(1) by (intro mapr_ok storage_item_ok) (auto dest: in_set_takeD)
  show thesis
  proof (cases "length L \<le> rq_limit rq")
    case True
    then show thesis using Last items by (simp add: list_page_def assms(4) [symmetric])
  next
    case False
    define x where "x = L ! (rq_limit rq - 1)"
    have "x \<in> set L" using False assms(3) by (simp add: x_def)
    then obtain c where c: "cursor_encode env (mc_secret cfg) (cursor_at env auth rq x) = Ok c"
      using sub assms(2) by (auto simp: cursors_fit_def)
    have ne: "take (rq_limit rq) L \<noteq> []" using False assms(3) by auto
    then have "last (take (rq_limit rq) L) = x"
      using False assms(3) by (subst last_conv_nth) (auto simp: x_def min_def)
    with ne have "list_page env cfg auth rq a db = Ok (map item_of (take (rq_limit rq) L), Some c)"
      using False assms(3) items c
      by (simp add: list_page_def assms(4) [symmetric] take_map last_map cursor_at_def item_of_def min_def)
    then show thesis using More False c by (simp add: x_def)
  qed
qed

section \<open>All pages\<close>

definition valid_list_request :: "metadata_config \<Rightarrow> auth_context \<Rightarrow> storage_list_request \<Rightarrow> bool" where
  "valid_list_request cfg auth rq \<longleftrightarrow> 0 < rq_limit rq \<and> rq_limit rq \<le> 200 \<and> length (rq_prefix rq) \<le> 1024
     \<and> CHR 0x00 \<notin> set (rq_prefix rq) \<and> ac_project_id auth = mc_project_id cfg"

text \<open>The point a request continues after.\<close>

definition continues_after ::
    "worker_env \<Rightarrow> metadata_config \<Rightarrow> auth_context \<Rightarrow> storage_list_request \<Rightarrow> string \<times> string \<Rightarrow> bool" where
  "continues_after env cfg auth rq a \<longleftrightarrow> rq_cursor rq = None \<and> a = ([], [])
     \<or> (\<exists>x c. rq_cursor rq = Some c \<and> cursor_encode env (mc_secret cfg) (cursor_at env auth rq x) = Ok c \<and> a = object_order x)"

lemma list_sync_page:
  assumes "cursor_codec_ok env cfg" and "valid_list_request cfg auth rq" and "continues_after env cfg auth rq a"
  shows "list_sync env cfg auth rq db = map_err map_runtime (list_page env cfg auth rq a db)"
proof -
  have user: "fst (with_user cfg auth (\<lambda>db. (q db, db)) db) = map_err map_runtime (q db)" for q :: "storage_db \<Rightarrow> runtime_error + 'z"
    using assms(2) by (simp add: with_user_def check_project_def valid_list_request_def)
  from assms(3) consider "rq_cursor rq = None" "a = ([], [])"
    | x c where "rq_cursor rq = Some c" "cursor_decode env (mc_secret cfg) c = Ok (cursor_at env auth rq x)" "a = object_order x"
    using cursor_roundtrip [OF assms(1)] by (auto simp: continues_after_def)
  then show ?thesis
  proof cases
    case 1
    then show ?thesis using assms(2) by (simp add: list_sync_def user valid_list_request_def)
  next
    case 2
    then show ?thesis
      using assms(2)
      by (simp add: list_sync_def user valid_list_request_def cursor_foreign_def cursor_at_def object_order_def)
  qed
qed

lemma follow_pages_from:
  assumes "cursor_codec_ok env cfg" and "valid_list_request cfg auth rq" and "cursors_fit env cfg auth rq db"
    and "\<forall>x\<in>set (sd_objects db). 0 \<le> ob_size_bytes x" and "distinct (map ob_id (sd_objects db))"
    and "continues_after env cfg auth rq a"
    and "length (listed (we_rls env auth) (rq_bucket rq) (rq_prefix rq) a db) < fuel"
  shows "follow_pages fuel env cfg auth rq db
    = Some (Ok (map item_of (listed (we_rls env auth) (rq_bucket rq) (rq_prefix rq) a db)))"
  using assms(2,3,6,7)
proof (induction fuel arbitrary: rq a)
  case (Suc fuel)
  define all where "all = sort_key object_order (filter (in_listing (we_rls env auth) (rq_bucket rq) (rq_prefix rq) db) (sd_objects db))"
  define L where "L = listed (we_rls env auth) (rq_bucket rq) (rq_prefix rq) a db"
  have L: "L = filter (\<lambda>x. a < object_order x) all" by (simp add: L_def all_def listed_filter)
  note page = list_sync_page [OF assms(1) Suc.prems(1,3), of db]
  have n: "0 < rq_limit rq" using Suc.prems(1) by (simp add: valid_list_request_def)
  from assms(4) Suc.prems(2) n L_def show ?case
  proof (cases rule: list_page_cases)
    case Last
    then show ?thesis by (simp add: page L_def [symmetric])
  next
    case (More c)
    let ?n = "rq_limit rq" and ?rq = "rq\<lparr>rq_cursor := Some c\<rparr>"
    let ?x = "L ! (?n - 1)"
    have "cursor_at env auth ?rq = cursor_at env auth rq" by (simp add: cursor_at_def fun_eq_iff)
    then have following: "valid_list_request cfg auth ?rq" "cursors_fit env cfg auth ?rq db"
        "continues_after env cfg auth ?rq (object_order ?x)"
      using Suc.prems(1,2) More(3) by (auto simp: valid_list_request_def cursors_fit_def continues_after_def)
    have "distinct (map object_order all)"
      using assms(5) by (auto simp: all_def distinct_map object_order_def inj_on_def)
    moreover have "sorted (map object_order all)" by (simp add: all_def)
    ultimately have rest: "listed (we_rls env auth) (rq_bucket ?rq) (rq_prefix ?rq) (object_order ?x) db = drop ?n L"
      using filter_above_drop [of object_order all "?n - 1" a "object_order ?x"] More(1) n
      by (simp add: listed_filter all_def [symmetric] L)
    have "length (drop ?n L) < fuel" using Suc.prems(4) More(1) n by (simp add: L_def [symmetric])
    then have "follow_pages fuel env cfg auth ?rq db = Some (Ok (map item_of (drop ?n L)))"
      using Suc.IH [OF following] unfolding rest by simp
    then show ?thesis
      using More(2) by (simp add: page L_def [symmetric] flip: map_append)
  qed
qed simp

text \<open>
  C26. Paging through a listing is the same as one sorted listing. With a codec that decodes what it
  encoded and cursors within their size, a client that starts without a cursor and follows the cursors it
  is given reaches the last page after at most one page per object, and the pages together are exactly
  the objects the user may see under the prefix, in key order, each once.
\<close>

theorem paged_listing_equals_full_listing:
  assumes "cursor_codec_ok env cfg" and "valid_list_request cfg auth rq" and "rq_cursor rq = None"
    and "cursors_fit env cfg auth rq db"
    and "\<forall>x\<in>set (sd_objects db). 0 \<le> ob_size_bytes x \<and> ob_id x \<noteq> []" and "distinct (map ob_id (sd_objects db))"
    and "length (sd_objects db) < fuel"
  shows "follow_pages fuel env cfg auth rq db = Some (Ok (full_listing (we_rls env auth) (rq_bucket rq) (rq_prefix rq) db))"
proof -
  let ?all = "sort_key object_order (filter (in_listing (we_rls env auth) (rq_bucket rq) (rq_prefix rq) db) (sd_objects db))"
  have "([], []) < object_order x" if "x \<in> set ?all" for x
    using assms(5) that by (cases "ob_object_key x"; cases "ob_id x") (auto simp: object_order_def less_prod_def)
  then have start: "listed (we_rls env auth) (rq_bucket rq) (rq_prefix rq) ([], []) db = ?all"
    by (simp add: listed_filter)
  have "length ?all \<le> length (sd_objects db)" by simp
  then have "length (listed (we_rls env auth) (rq_bucket rq) (rq_prefix rq) ([], []) db) < fuel"
    using assms(7) unfolding start by linarith
  moreover have "continues_after env cfg auth rq ([], [])" using assms(3) by (simp add: continues_after_def)
  moreover have "\<forall>x\<in>set (sd_objects db). 0 \<le> ob_size_bytes x" using assms(5) by blast
  ultimately have "follow_pages fuel env cfg auth rq db
      = Some (Ok (map item_of (listed (we_rls env auth) (rq_bucket rq) (rq_prefix rq) ([], []) db)))"
    using follow_pages_from [OF assms(1,2,4) _ assms(6)] by blast
  then show ?thesis unfolding full_listing_def start .
qed

text \<open>A codec for the example: a transport encoding without dots, and strings terminated one after the other.\<close>

definition dotless :: "string \<Rightarrow> string" where
  "dotless s = concat (map (\<lambda>c. if c = CHR ''.'' then ''ab'' else if c = CHR ''a'' then ''aa'' else [c]) s)"

fun undotless :: "string \<Rightarrow> string option" where
  "undotless [] = Some []"
| "undotless (c # s) =
     (if c = CHR ''a'' then
        (case s of [] \<Rightarrow> None
         | d # s' \<Rightarrow> map_option ((#) (if d = CHR ''b'' then CHR ''.'' else CHR ''a'')) (undotless s'))
      else map_option ((#) c) (undotless s))"

lemma dotless_roundtrip: "undotless (dotless s) = Some s \<and> CHR ''.'' \<notin> set (dotless s)"
  by (induction s) (auto simp: dotless_def)

definition terminated :: "string list \<Rightarrow> string" where
  "terminated xs = concat (map (\<lambda>x. concat (map (\<lambda>c. [CHR ''x'', c]) x) @ ''e'') xs)"

fun fields :: "string \<Rightarrow> string \<Rightarrow> string list" where
  "fields acc (a # c # s) = (if a = CHR ''x'' then fields (acc @ [c]) s else acc # fields [] (c # s))"
| "fields acc [a] = [acc]"
| "fields acc [] = []"

lemma fields_string: "fields acc (concat (map (\<lambda>c. [CHR ''x'', c]) x) @ s) = fields (acc @ x) s"
  by (induction x arbitrary: acc) auto

lemma fields_terminated: "fields [] (terminated xs) = xs"
proof (induction xs)
  case (Cons x xs)
  have "fields x (CHR ''e'' # s) = x # fields [] s" for s by (cases s) auto
  then show ?case using Cons by (simp add: terminated_def fields_string)
qed (simp add: terminated_def)

definition sample_list_worker :: worker_env where
  "sample_list_worker = sample_worker\<lparr>we_b64_encode := dotless, we_b64_decode := undotless,
     we_cursor_json := (\<lambda>c. terminated [lc_project_id c, lc_subject c, lc_token_id c, lc_scope_fingerprint c,
        lc_bucket c, lc_prefix c, lc_object_key c, lc_id c]),
     we_cursor_parse := (\<lambda>s. case fields [] s of
        [a, b, c, d, e, f, g, h] \<Rightarrow> Some \<lparr>lc_project_id = a, lc_subject = b, lc_token_id = c, lc_scope_fingerprint = d,
          lc_bucket = e, lc_prefix = f, lc_object_key = g, lc_id = h\<rparr> | _ \<Rightarrow> None)\<rparr>"

definition sample_row :: "string \<Rightarrow> string \<Rightarrow> object_row" where
  "sample_row i k = \<lparr>ob_id = i, ob_bucket_id = ''b1'', ob_object_key = k, ob_owner_id = ''u'', ob_size_bytes = 1,
     ob_content_type = None, ob_checksum_sha256 = None, ob_etag = None, ob_version_id = None, ob_created_at_ms = 0,
     ob_updated_at_ms = 0\<rparr>"

definition sample_objects :: storage_db where
  "sample_objects = sample_store\<lparr>sd_objects := [sample_row ''i1'' ''i/b'', sample_row ''i2'' ''d'', sample_row ''i3'' ''i/a'']\<rparr>"

definition sample_list_request :: storage_list_request where
  "sample_list_request = \<lparr>rq_bucket = ''photos'', rq_prefix = ''i/'', rq_cursor = None, rq_limit = 1\<rparr>"

theorem paged_listing_equals_full_listing_witness:
  "\<exists>items. follow_pages 4 sample_list_worker sample_config sample_auth sample_list_request sample_objects = Some (Ok items)
     \<and> map si_object_key items = [''i/a'', ''i/b'']"
proof -
  have "cursor_codec_ok sample_list_worker sample_config"
    using fields_terminated by (simp add: cursor_codec_ok_def sample_list_worker_def dotless_roundtrip)
  moreover have "valid_list_request sample_config sample_auth sample_list_request" "rq_cursor sample_list_request = None" by code_simp+
  moreover have "list_all (\<lambda>x. \<not> isl (cursor_encode sample_list_worker (mc_secret sample_config)
      (cursor_at sample_list_worker sample_auth sample_list_request x))) (sd_objects sample_objects)" by code_simp
  then have "cursors_fit sample_list_worker sample_config sample_auth sample_list_request sample_objects"
    unfolding cursors_fit_def list_all_iff by (metis sum.collapse(2))
  moreover have "list_all (\<lambda>x. 0 \<le> ob_size_bytes x \<and> ob_id x \<noteq> []) (sd_objects sample_objects)" by code_simp
  then have "\<forall>x\<in>set (sd_objects sample_objects). 0 \<le> ob_size_bytes x \<and> ob_id x \<noteq> []" by (simp add: list_all_iff)
  moreover have "distinct (map ob_id (sd_objects sample_objects))" "length (sd_objects sample_objects) < 4" by code_simp+
  ultimately have "follow_pages 4 sample_list_worker sample_config sample_auth sample_list_request sample_objects
      = Some (Ok (full_listing (we_rls sample_list_worker sample_auth) (rq_bucket sample_list_request) (rq_prefix sample_list_request) sample_objects))"
    by (rule paged_listing_equals_full_listing)
  moreover have "map si_object_key (full_listing (we_rls sample_list_worker sample_auth) (rq_bucket sample_list_request)
      (rq_prefix sample_list_request) sample_objects) = [''i/a'', ''i/b'']"
    by (simp add: full_listing_def in_listing_def sample_objects_def sample_row_def sample_store_def sample_list_worker_def
        sample_worker_def sample_rls_def sample_list_request_def object_order_def item_of_def less_eq_prod_def)
  ultimately show ?thesis by (intro exI conjI)
qed

end
