(* ===== verification/Audit_Log.thy ===== *)
theory Audit_Log
  imports Collections Transition_System
begin

text \<open>
  \<open>crates/audit/src/lib.rs\<close>: the append-only, hash-chained audit log. Drafts are validated and their
  metadata redacted before an event is built; each event carries the hash of the previous event of
  its stream (a project, an organization, or the platform). The in-memory sink keeps the head of
  each stream in a map; the PostgreSQL sink reads it from the table in append order.

  Identifiers and addresses are their canonical text, a hash is its bytes. The new event's UUID is
  an argument. \<open>serde_json::to_vec\<close> and SHA-256 are the fields of \<open>audit_env\<close>.
\<close>

datatype actor_kind = Anonymous | Actor_User | Actor_ApiKey | Operator | Service

datatype audit_outcome = Success | Denied | Failure

datatype audit_error = InvalidEvent | Audit_Unavailable | Integrity

record audit_draft =
  ad_occurred_at_ms :: int
  ad_organization_id :: "string option"
  ad_project_id :: "string option"
  ad_request_id :: string
  ad_actor_kind :: actor_kind
  ad_actor_id :: "string option"
  ad_action :: string
  ad_resource_kind :: string
  ad_resource_id :: "string option"
  ad_outcome :: audit_outcome
  ad_source_ip :: "string option"
  ad_metadata :: json

record audit_event =
  ev_id :: string
  ev_occurred_at_ms :: int
  ev_organization_id :: "string option"
  ev_project_id :: "string option"
  ev_request_id :: string
  ev_actor_kind :: actor_kind
  ev_actor_id :: "string option"
  ev_action :: string
  ev_resource_kind :: string
  ev_resource_id :: "string option"
  ev_outcome :: audit_outcome
  ev_source_ip :: "string option"
  ev_metadata :: json
  ev_previous_hash :: "string option"
  ev_event_hash :: string

datatype audit_stream = Stream_Project string | Stream_Organization string | Stream_Global

record audit_state =
  as_events :: "audit_event list"
  as_heads :: "(audit_stream, string) hash_map"

definition audit_default :: audit_state where
  "audit_default = \<lparr>as_events = [], as_heads = []\<rparr>"

record audit_env =
  ae_to_vec :: "json \<Rightarrow> string option"
  ae_sha256 :: "string \<Rightarrow> string"

section \<open>Validation and redaction\<close>

definition REDACTED :: string where "REDACTED = ''[REDACTED]''"
definition MAX_METADATA_BYTES :: nat where "MAX_METADATA_BYTES = 16 * 1024"

definition is_sensitive_key :: "string \<Rightarrow> bool" where
  "is_sensitive_key key =
     (let normalized = map (\<lambda>c. if c = CHR ''-'' then CHR ''_'' else c) (to_ascii_lowercase key) in
      normalized = ''authorization''
      \<or> normalized = ''cookie''
      \<or> normalized = ''set_cookie''
      \<or> contains_str normalized ''password''
      \<or> contains_str normalized ''secret''
      \<or> contains_str normalized ''token''
      \<or> contains_str normalized ''private_key''
      \<or> contains_str normalized ''api_key'')"

definition safe_identifier :: "string \<Rightarrow> bool" where
  "safe_identifier s =
     (1 \<le> length s \<and> length s \<le> 128
      \<and> list_all (\<lambda>b. is_ascii_lowercase b \<or> is_ascii_digit b \<or> b \<in> {CHR ''.'', CHR ''_'', CHR ''-''}) s)"

text \<open>
  The recursion threads the count of visited nodes; the two loops over the children of an array and
  of an object are functions of their own.
\<close>

fun redact_value :: "string option \<Rightarrow> json \<Rightarrow> nat \<Rightarrow> nat \<Rightarrow> audit_error + json \<times> nat"
and redact_array :: "json list \<Rightarrow> nat \<Rightarrow> nat \<Rightarrow> audit_error + json list \<times> nat"
and redact_object :: "json_map \<Rightarrow> nat \<Rightarrow> nat \<Rightarrow> audit_error + json_map \<times> nat" where
  "redact_value key v depth nodes =
     bindr (ok_or (checked_add_u64 nodes 1) InvalidEvent) (\<lambda>n.
       if depth > 8 \<or> n > 512 then Err InvalidEvent
       else if (case key of None \<Rightarrow> False | Some k \<Rightarrow> is_sensitive_key k) then Ok (JString REDACTED, n)
       else case v of
           JArray vs \<Rightarrow> bindr (redact_array vs (depth + 1) n) (\<lambda>(vs', n'). Ok (JArray vs', n'))
         | JObject kvs \<Rightarrow> bindr (redact_object kvs (depth + 1) n) (\<lambda>(kvs', n'). Ok (JObject kvs', n'))
         | JString s \<Rightarrow> if length s > 2048 then Err InvalidEvent else Ok (v, n)
         | _ \<Rightarrow> Ok (v, n))"
| "redact_array [] depth nodes = Ok ([], nodes)"
| "redact_array (v # vs) depth nodes =
     bindr (redact_value None v depth nodes) (\<lambda>(v', n).
     bindr (redact_array vs depth n) (\<lambda>(vs', n'). Ok (v' # vs', n')))"
| "redact_object [] depth nodes = Ok ([], nodes)"
| "redact_object ((k, v) # kvs) depth nodes =
     bindr (redact_value (Some k) v depth nodes) (\<lambda>(v', n).
     bindr (redact_object kvs depth n) (\<lambda>(kvs', n'). Ok ((k, v') # kvs', n')))"

declare redact_value.simps [simp del]

definition validate_and_redact :: "audit_env \<Rightarrow> audit_draft \<Rightarrow> audit_error + audit_draft" where
  "validate_and_redact env d =
     (if ad_occurred_at_ms d < 0
        \<or> \<not> safe_identifier (ad_action d)
        \<or> \<not> safe_identifier (ad_resource_kind d)
        \<or> (ad_actor_kind d = Anonymous \<and> ad_actor_id d \<noteq> None)
      then Err InvalidEvent
      else
        bindr (redact_value None (ad_metadata d) 0 0) (\<lambda>(metadata, nodes).
        bindr (ok_or (ae_to_vec env metadata) InvalidEvent) (\<lambda>encoded.
          if length encoded > MAX_METADATA_BYTES then Err InvalidEvent
          else Ok (d\<lparr>ad_metadata := metadata\<rparr>))))"

section \<open>Events and their hashes\<close>

fun actor_kind_name :: "actor_kind \<Rightarrow> string" where
  "actor_kind_name Anonymous = ''anonymous''"
| "actor_kind_name Actor_User = ''user''"
| "actor_kind_name Actor_ApiKey = ''api_key''"
| "actor_kind_name Operator = ''operator''"
| "actor_kind_name Service = ''service''"

fun outcome_name :: "audit_outcome \<Rightarrow> string" where
  "outcome_name Success = ''success''"
| "outcome_name Denied = ''denied''"
| "outcome_name Failure = ''failure''"

definition opt_json :: "('a \<Rightarrow> json) \<Rightarrow> 'a option \<Rightarrow> json" where
  "opt_json f x = (case x of None \<Rightarrow> JNull | Some a \<Rightarrow> f a)"

definition bytes_json :: "string \<Rightarrow> json" where
  "bytes_json s = JArray (map (\<lambda>b. JNumber (show_nat (code b))) s)"

text \<open>
  The value the hash is computed on. The derived serialization of the two enums
  (\<open>rename_all = "snake_case"\<close>) gives the same names as \<open>actor_kind_name\<close> and \<open>outcome_name\<close>.
\<close>

definition canonical_event :: "audit_event \<Rightarrow> json" where
  "canonical_event e = JObject [
     (''id'', JString (ev_id e)),
     (''occurred_at_ms'', JNumber (show_int (ev_occurred_at_ms e))),
     (''organization_id'', opt_json JString (ev_organization_id e)),
     (''project_id'', opt_json JString (ev_project_id e)),
     (''request_id'', JString (ev_request_id e)),
     (''actor_kind'', JString (actor_kind_name (ev_actor_kind e))),
     (''actor_id'', opt_json JString (ev_actor_id e)),
     (''action'', JString (ev_action e)),
     (''resource_kind'', JString (ev_resource_kind e)),
     (''resource_id'', opt_json JString (ev_resource_id e)),
     (''outcome'', JString (outcome_name (ev_outcome e))),
     (''source_ip'', opt_json JString (ev_source_ip e)),
     (''metadata'', ev_metadata e),
     (''previous_hash'', opt_json bytes_json (ev_previous_hash e))]"

definition compute_hash :: "audit_env \<Rightarrow> audit_event \<Rightarrow> audit_error + string" where
  "compute_hash env e =
     bindr (ok_or (ae_to_vec env (canonical_event e)) InvalidEvent) (\<lambda>canonical.
       Ok (ae_sha256 env canonical))"

definition build_event :: "audit_env \<Rightarrow> string \<Rightarrow> audit_draft \<Rightarrow> string option \<Rightarrow> audit_error + audit_event" where
  "build_event env uuid d previous_hash =
     (let event = \<lparr>ev_id = uuid, ev_occurred_at_ms = ad_occurred_at_ms d,
        ev_organization_id = ad_organization_id d, ev_project_id = ad_project_id d,
        ev_request_id = ad_request_id d, ev_actor_kind = ad_actor_kind d, ev_actor_id = ad_actor_id d,
        ev_action = ad_action d, ev_resource_kind = ad_resource_kind d,
        ev_resource_id = ad_resource_id d, ev_outcome = ad_outcome d, ev_source_ip = ad_source_ip d,
        ev_metadata = ad_metadata d, ev_previous_hash = previous_hash,
        ev_event_hash = replicate 32 (char_of (0::nat))\<rparr> in
      bindr (compute_hash env event) (\<lambda>h. Ok (event\<lparr>ev_event_hash := h\<rparr>)))"

definition stream_for :: "audit_draft \<Rightarrow> audit_stream" where
  "stream_for d =
     (case ad_project_id d of Some p \<Rightarrow> Stream_Project p
      | None \<Rightarrow> (case ad_organization_id d of Some org \<Rightarrow> Stream_Organization org | None \<Rightarrow> Stream_Global))"

definition stream_for_event :: "audit_event \<Rightarrow> audit_stream" where
  "stream_for_event e =
     (case ev_project_id e of Some p \<Rightarrow> Stream_Project p
      | None \<Rightarrow> (case ev_organization_id e of Some org \<Rightarrow> Stream_Organization org | None \<Rightarrow> Stream_Global))"

section \<open>The in-memory sink\<close>

definition audit_append ::
    "audit_env \<Rightarrow> string \<Rightarrow> audit_draft \<Rightarrow> audit_state \<Rightarrow> (audit_error + audit_event) \<times> audit_state" where
  "audit_append env uuid draft st =
     (case validate_and_redact env draft of
        Inl e \<Rightarrow> (Err e, st)
      | Inr d \<Rightarrow>
          (let stream = stream_for d;
               previous_hash = hm_get (as_heads st) stream
           in case build_event env uuid d previous_hash of
                Inl e \<Rightarrow> (Err e, st)
              | Inr event \<Rightarrow>
                  (Ok event,
                   st\<lparr>as_heads := hm_insert stream (ev_event_hash event) (as_heads st),
                      as_events := as_events st @ [event]\<rparr>)))"

fun verify_events ::
    "audit_env \<Rightarrow> (audit_stream, string) hash_map \<Rightarrow> audit_event list \<Rightarrow> audit_error + unit" where
  "verify_events env heads [] = Ok ()"
| "verify_events env heads (e # es) =
     (let stream = stream_for_event e in
      if ev_previous_hash e \<noteq> hm_get heads stream then Err Integrity
      else bindr (compute_hash env e) (\<lambda>h.
        if h \<noteq> ev_event_hash e then Err Integrity
        else verify_events env (hm_insert stream (ev_event_hash e) heads) es))"

definition audit_verify :: "audit_env \<Rightarrow> audit_state \<Rightarrow> audit_error + unit" where
  "audit_verify env st = verify_events env [] (as_events st)"

section \<open>The PostgreSQL sink\<close>

text \<open>
  The table \<open>audit_events\<close> is the list of its rows in \<open>append_sequence\<close> order. Which of the five
  database calls fail is the argument \<open>pg_calls\<close>; a transaction that is dropped before its commit
  leaves the table as it was. The advisory lock serializes the appends to one stream, so that an
  append is one step.
\<close>

record pg_calls =
  pg_begin_ok :: bool
  pg_lock_ok :: bool
  pg_head_ok :: bool
  pg_insert_ok :: bool
  pg_commit_ok :: bool

definition stream_lock_key :: "audit_draft \<Rightarrow> string" where
  "stream_lock_key d =
     (case stream_for d of
        Stream_Project i \<Rightarrow> ''project:'' @ i
      | Stream_Organization i \<Rightarrow> ''organization:'' @ i
      | Stream_Global \<Rightarrow> ''global'')"

definition last_hash :: "(audit_event \<Rightarrow> bool) \<Rightarrow> audit_event list \<Rightarrow> string option" where
  "last_hash P table =
     (case rev (filter P table) of [] \<Rightarrow> None | e # _ \<Rightarrow> Some (ev_event_hash e))"

definition pg_head :: "audit_draft \<Rightarrow> audit_event list \<Rightarrow> string option" where
  "pg_head d table =
     (case ad_project_id d of
        Some p \<Rightarrow> last_hash (\<lambda>e. ev_project_id e = Some p) table
      | None \<Rightarrow>
          (case ad_organization_id d of
             Some org \<Rightarrow> last_hash (\<lambda>e. ev_project_id e = None \<and> ev_organization_id e = Some org) table
           | None \<Rightarrow> last_hash (\<lambda>e. ev_project_id e = None \<and> ev_organization_id e = None) table))"

definition pg_append ::
    "audit_env \<Rightarrow> pg_calls \<Rightarrow> string \<Rightarrow> audit_draft \<Rightarrow> audit_event list
      \<Rightarrow> (audit_error + audit_event) \<times> audit_event list" where
  "pg_append env calls uuid draft table =
     (case validate_and_redact env draft of
        Inl e \<Rightarrow> (Err e, table)
      | Inr d \<Rightarrow>
          if \<not> pg_begin_ok calls \<or> \<not> pg_lock_ok calls \<or> \<not> pg_head_ok calls then (Err Audit_Unavailable, table)
          else
            (let previous_hash = pg_head d table in
             if \<not> opt_all (\<lambda>h. length h = 32) previous_hash then (Err Integrity, table)
             else case build_event env uuid d previous_hash of
                 Inl e \<Rightarrow> (Err e, table)
               | Inr event \<Rightarrow>
                   if \<not> pg_insert_ok calls \<or> \<not> pg_commit_ok calls then (Err Audit_Unavailable, table)
                   else (Ok event, table @ [event])))"

end
