(* ===== verification/Audit_Properties.thy ===== *)
theory Audit_Properties
  imports Audit_Log
begin

text \<open>
  What the audit log guarantees: no secret value reaches the log, every log built by the sink
  verifies, the PostgreSQL sink appends what the in-memory sink appends, and a log whose stream
  heads are known cannot be altered without a collision of the hash.
\<close>

section \<open>Decimal text is injective\<close>

lemma code_digit_char: "n < 10 \<Longrightarrow> code (digit_char n) = 48 + n"
  by (simp add: code_def digit_char_def)

lemma show_nat_value: "foldl (\<lambda>a c. a * 10 + (code c - 48)) 0 (show_nat n) = n"
proof (induction n rule: show_nat.induct)
  case (1 n)
  show ?case
    by (subst show_nat.simps) (use 1 in \<open>auto simp: code_digit_char\<close>)
qed

lemma show_nat_eq_iff [simp]: "show_nat a = show_nat b \<longleftrightarrow> a = b"
  by (metis show_nat_value)

lemma digit_char_neq_minus: "n < 10 \<Longrightarrow> digit_char n \<noteq> CHR ''-''"
  using code_digit_char [of n] by (auto simp: code_def)

lemma show_nat_no_minus: "CHR ''-'' \<notin> set (show_nat n)"
proof (induction n rule: show_nat.induct)
  case (1 n)
  show ?case
    using 1 digit_char_neq_minus [of n] digit_char_neq_minus [of "n mod 10"]
    by (subst show_nat.simps) auto
qed

lemma show_int_eq_iff [simp]: "show_int a = show_int b \<longleftrightarrow> a = b"
proof -
  have "CHR ''-'' # xs \<noteq> show_nat n" for xs n
    using show_nat_no_minus [of n] by (metis list.set_intros(1))
  then show ?thesis
    by (auto simp: show_int_def dest: sym [of "CHR ''-'' # _"]) (metis)+
qed

lemma code_eq_iff [simp]: "code a = code b \<longleftrightarrow> a = b"
  by (simp add: code_def)

section \<open>The canonical form determines the event\<close>

lemma opt_json_JString_eq [simp]: "opt_json JString a = opt_json JString b \<longleftrightarrow> a = b"
  by (cases a; cases b) (simp_all add: opt_json_def)

lemma bytes_json_eq [simp]: "bytes_json a = bytes_json b \<longleftrightarrow> a = b"
proof -
  have "inj (\<lambda>b. JNumber (show_nat (code b)))" by (simp add: inj_def)
  then show ?thesis by (simp add: bytes_json_def inj_map_eq_map)
qed

lemma opt_json_bytes_eq [simp]: "opt_json bytes_json a = opt_json bytes_json b \<longleftrightarrow> a = b"
proof -
  have "JNull \<noteq> bytes_json s" for s by (simp add: bytes_json_def)
  then show ?thesis by (cases a; cases b) (simp_all add: opt_json_def not_sym)
qed

lemma actor_kind_name_eq [simp]: "actor_kind_name a = actor_kind_name b \<longleftrightarrow> a = b"
  by (cases a; cases b) simp_all

lemma outcome_name_eq [simp]: "outcome_name a = outcome_name b \<longleftrightarrow> a = b"
  by (cases a; cases b) simp_all

lemma canonical_event_determines:
  "canonical_event e = canonical_event f \<Longrightarrow> ev_event_hash e = ev_event_hash f \<Longrightarrow> e = f"
  by (cases e; cases f) (simp add: canonical_event_def)

section \<open>Redaction\<close>

text \<open>Metadata in which every sensitive key holds the marker and every string is bounded.\<close>

fun redacted :: "json \<Rightarrow> bool" where
  "redacted (JArray vs) = list_all redacted vs"
| "redacted (JObject kvs) =
     list_all (\<lambda>(k, v). if is_sensitive_key k then v = JString REDACTED else redacted v) kvs"
| "redacted (JString s) = (length s \<le> 2048)"
| "redacted _ = True"

lemma redacted_marker [simp]: "redacted (JString REDACTED)"
  by (simp add: REDACTED_def)

definition redacted_under :: "string option \<Rightarrow> json \<Rightarrow> bool" where
  "redacted_under key v =
     (case key of None \<Rightarrow> redacted v
      | Some k \<Rightarrow> if is_sensitive_key k then v = JString REDACTED else redacted v)"

definition sensitive :: "string option \<Rightarrow> bool" where
  "sensitive key = (case key of None \<Rightarrow> False | Some k \<Rightarrow> is_sensitive_key k)"

lemma redact_value_cases:
  assumes "redact_value key v depth n = Ok (v', n')"
  obtains (Marker) "sensitive key" "v' = JString REDACTED" "n' = n + 1" "n < 512"
    | (Array) vs vs' where "\<not> sensitive key" "v = JArray vs" "v' = JArray vs'" "n < 512"
        "redact_array vs (depth + 1) (n + 1) = Ok (vs', n')"
    | (Object) kvs kvs' where "\<not> sensitive key" "v = JObject kvs" "v' = JObject kvs'" "n < 512"
        "redact_object kvs (depth + 1) (n + 1) = Ok (kvs', n')"
    | (Leaf) "\<not> sensitive key" "v' = v" "n' = n + 1" "n < 512" "redacted v"
proof (cases "sensitive key")
  case True
  then show ?thesis
    using assms Marker
    by (auto simp: redact_value.simps [of key] sensitive_def [symmetric] ffdb_result ffdb_int
        split: if_splits)
next
  case False
  have *: "n < 512" "(case v of
       JArray vs \<Rightarrow> bindr (redact_array vs (depth + 1) (Suc n)) (\<lambda>(vs', n'). Ok (JArray vs', n'))
     | JObject kvs \<Rightarrow> bindr (redact_object kvs (depth + 1) (Suc n)) (\<lambda>(kvs', n'). Ok (JObject kvs', n'))
     | JString s \<Rightarrow> if length s > 2048 then Err InvalidEvent else Ok (v, Suc n)
     | _ \<Rightarrow> Ok (v, Suc n)) = Ok (v', n')"
    using assms False
    by (auto simp: redact_value.simps [of key] sensitive_def [symmetric] ffdb_result ffdb_int
        split: if_splits)
  show ?thesis
    using * False Array Object Leaf
    by (cases v) (auto simp: ffdb_result split: if_splits)
qed

lemma redact_redacts:
  "redact_value key v depth n = Ok (v', n') \<Longrightarrow> redacted_under key v' \<and> n < n' \<and> n' \<le> 512"
  "redact_array vs depth n = Ok (vs', n') \<Longrightarrow> list_all redacted vs' \<and> n \<le> n' \<and> (n \<le> 512 \<longrightarrow> n' \<le> 512)"
  "redact_object kvs depth n = Ok (kvs', n') \<Longrightarrow>
     list_all (\<lambda>(k, v). if is_sensitive_key k then v = JString REDACTED else redacted v) kvs'
     \<and> n \<le> n' \<and> (n \<le> 512 \<longrightarrow> n' \<le> 512)"
proof (induction key v depth n and vs depth n and kvs depth n arbitrary: v' n' and vs' n' and kvs' n'
    rule: redact_value_redact_array_redact_object.induct)
  case (1 key v depth n)
  have under: "redacted_under key w" if "\<not> sensitive key" "redacted w" for w
    using that by (simp add: redacted_under_def sensitive_def split: option.splits)
  have marker: "redacted_under key (JString REDACTED)"
    using redacted_marker by (auto simp: redacted_under_def simp del: redacted.simps split: option.split)
  have step: "checked_add_u64 n 1 = Some (n + 1) \<and> depth \<le> 8 \<and> n < 512"
    using 1(3) by (auto simp: redact_value.simps [of key] ffdb_result ffdb_int split: if_splits)
  have key: "\<not> sensitive key \<Longrightarrow> \<not> (case key of None \<Rightarrow> False | Some k \<Rightarrow> is_sensitive_key k)"
    by (simp add: sensitive_def)
  show ?case
    using 1(3)
  proof (cases rule: redact_value_cases)
    case Marker
    then show ?thesis using marker by simp
  next
    case (Array vs vs')
    have "list_all redacted vs' \<and> n + 1 \<le> n' \<and> (n + 1 \<le> 512 \<longrightarrow> n' \<le> 512)"
      using step key Array by (intro 1(1) [of "n + 1"]) simp_all
    then show ?thesis using Array under [of "JArray vs'"] by simp
  next
    case (Object kvs kvs')
    have "list_all (\<lambda>(k, v). if is_sensitive_key k then v = JString REDACTED else redacted v) kvs'
        \<and> n + 1 \<le> n' \<and> (n + 1 \<le> 512 \<longrightarrow> n' \<le> 512)"
      using step key Object by (intro 1(2) [of "n + 1"]) simp_all
    then show ?thesis using Object under [of "JObject kvs'"] by simp
  next
    case Leaf
    then show ?thesis using under by simp
  qed
next
  case (3 v vs depth n)
  obtain w m ws where w: "redact_value None v depth n = Ok (w, m)" "redact_array vs depth m = Ok (ws, n')"
      and vs': "vs' = w # ws"
    using 3(3) by (auto simp: ffdb_result)
  show ?case
    using 3(1) [OF w(1)] 3(2) [OF w(1) refl w(2)] by (auto simp: vs' redacted_under_def)
next
  case (5 k v kvs depth n)
  obtain w m ws where w: "redact_value (Some k) v depth n = Ok (w, m)" "redact_object kvs depth m = Ok (ws, n')"
      and kvs': "kvs' = (k, w) # ws"
    using 5(3) by (auto simp: ffdb_result)
  show ?case
    using 5(1) [OF w(1)] 5(2) [OF w(1) refl w(2)] by (auto simp: kvs' redacted_under_def)
qed simp_all


lemma validate_and_redact_Ok:
  assumes "validate_and_redact env d = Ok d'"
  shows "redacted (ad_metadata d')" and "0 \<le> ad_occurred_at_ms d'" and "safe_identifier (ad_action d')"
    and "safe_identifier (ad_resource_kind d')" and "ad_actor_kind d' = Anonymous \<longrightarrow> ad_actor_id d' = None"
    and "stream_for d' = stream_for d"
  using assms redact_redacts(1) [of None "ad_metadata d" 0 0]
  by (auto simp: validate_and_redact_def ffdb_result redacted_under_def stream_for_def
      split: if_splits option.split)

section \<open>The chain of one stream\<close>

definition stream_events :: "audit_stream \<Rightarrow> audit_event list \<Rightarrow> audit_event list" where
  "stream_events k es = filter (\<lambda>e. stream_for_event e = k) es"

definition head_from :: "string option \<Rightarrow> audit_event list \<Rightarrow> string option" where
  "head_from p es = (if es = [] then p else Some (ev_event_hash (last es)))"

definition audit_head :: "audit_stream \<Rightarrow> audit_event list \<Rightarrow> string option" where
  "audit_head k es = head_from None (stream_events k es)"

fun chained :: "audit_env \<Rightarrow> string option \<Rightarrow> audit_event list \<Rightarrow> bool" where
  "chained env p [] = True"
| "chained env p (e # es) \<longleftrightarrow>
     ev_previous_hash e = p \<and> compute_hash env e = Ok (ev_event_hash e)
     \<and> chained env (Some (ev_event_hash e)) es"

lemma head_from_snoc [simp]: "head_from p (es @ [e]) = Some (ev_event_hash e)"
  by (simp add: head_from_def)

lemma chained_snoc:
  "chained env p (es @ [e]) \<longleftrightarrow> chained env p es \<and> ev_previous_hash e = head_from p es
     \<and> compute_hash env e = Ok (ev_event_hash e)"
  by (induction es arbitrary: p) (auto simp: head_from_def)

lemma last_hash_eq: "last_hash P es = head_from None (filter P es)"
proof (cases "filter P es" rule: rev_cases)
  case (snoc ys y)
  then have "rev (filter P es) = y # rev ys" by simp
  then show ?thesis using snoc by (simp add: last_hash_def head_from_def)
qed (simp add: last_hash_def head_from_def)

text \<open>The check of the whole log is the check of every stream's chain.\<close>

lemma verify_events_chains:
  "verify_events env heads es = Ok () \<longleftrightarrow> (\<forall>k. chained env (hm_get heads k) (stream_events k es))"
proof (induction es arbitrary: heads)
  case (Cons e es)
  let ?k = "stream_for_event e"
  have "verify_events env heads (e # es) = Ok () \<longleftrightarrow>
      ev_previous_hash e = hm_get heads ?k \<and> compute_hash env e = Ok (ev_event_hash e)
      \<and> (\<forall>k. chained env (hm_get (hm_insert ?k (ev_event_hash e) heads) k) (stream_events k es))"
    using Cons by (auto simp: Let_def ffdb_result)
  also have "\<dots> \<longleftrightarrow> (\<forall>k. chained env (hm_get heads k) (stream_events k (e # es)))"
    by (auto simp: stream_events_def hm_get_insert)
  finally show ?case .
qed (simp add: stream_events_def)

text \<open>Two chains with the same last hash are the same, or two of their events have a common hash.\<close>

lemma chains_agree:
  assumes "chained env None es" and "chained env None fs" and "head_from None es = head_from None fs"
  shows "es = fs \<or> (\<exists>e \<in> set es. \<exists>f \<in> set fs. canonical_event e \<noteq> canonical_event f
     \<and> compute_hash env e = compute_hash env f)"
  using assms
proof (induction es arbitrary: fs rule: rev_induct)
  case Nil
  then show ?case by (simp add: head_from_def split: if_splits)
next
  case (snoc e es)
  then obtain gs f where fs: "fs = gs @ [f]"
    by (cases fs rule: rev_cases) (simp_all add: head_from_def)
  have same: "compute_hash env e = compute_hash env f" "ev_event_hash e = ev_event_hash f"
    using snoc.prems by (simp_all add: fs chained_snoc)
  show ?case
  proof (cases "canonical_event e = canonical_event f")
    case True
    then have "e = f" using same(2) by (rule canonical_event_determines)
    then have "head_from None es = head_from None gs"
      using snoc.prems by (simp add: fs chained_snoc)
    then have "es = gs \<or> (\<exists>e \<in> set es. \<exists>f \<in> set gs. canonical_event e \<noteq> canonical_event f
        \<and> compute_hash env e = compute_hash env f)"
      using snoc.IH [of gs] snoc.prems by (simp add: fs chained_snoc)
    then show ?thesis using fs \<open>e = f\<close> by auto
  next
    case False
    then show ?thesis using fs same(1) by auto
  qed
qed


section \<open>The sink as a transition system\<close>

inductive audit_step :: "audit_env \<Rightarrow> audit_state \<Rightarrow> audit_state \<Rightarrow> bool" for env where
  append: "audit_append env uuid draft st = (r, st') \<Longrightarrow> audit_step env st st'"

inductive_cases audit_stepE: "audit_step env st st'"

definition audit_init :: "audit_state \<Rightarrow> bool" where
  "audit_init st = (st = audit_default)"

definition well_formed_event :: "audit_event \<Rightarrow> bool" where
  "well_formed_event e \<longleftrightarrow> redacted (ev_metadata e) \<and> 0 \<le> ev_occurred_at_ms e
     \<and> safe_identifier (ev_action e) \<and> safe_identifier (ev_resource_kind e)
     \<and> (ev_actor_kind e = Anonymous \<longrightarrow> ev_actor_id e = None)"

definition audit_inv :: "audit_env \<Rightarrow> audit_state \<Rightarrow> bool" where
  "audit_inv env st \<longleftrightarrow> hm_wf (as_heads st)
     \<and> (\<forall>k. hm_get (as_heads st) k = audit_head k (as_events st))
     \<and> (\<forall>k. chained env None (stream_events k (as_events st)))
     \<and> list_all well_formed_event (as_events st)"

lemma build_event_Ok:
  assumes "build_event env uuid d p = Ok e"
  shows "compute_hash env e = Ok (ev_event_hash e)" and "ev_previous_hash e = p"
    and "stream_for_event e = stream_for d" and "ev_metadata e = ad_metadata d"
    and "ev_id e = uuid" and "ev_occurred_at_ms e = ad_occurred_at_ms d" and "ev_action e = ad_action d"
    and "ev_resource_kind e = ad_resource_kind d" and "ev_actor_kind e = ad_actor_kind d"
    and "ev_actor_id e = ad_actor_id d"
  using assms
  by (auto simp: build_event_def Let_def ffdb_result compute_hash_def canonical_event_def
      stream_for_event_def stream_for_def cong: option.case_cong)

lemma audit_append_cases:
  assumes "audit_append env uuid draft st = (r, st')"
  obtains (Refused) e where "r = Err e" "st' = st"
    | (Appended) d e where "r = Ok e" "validate_and_redact env draft = Ok d"
        "build_event env uuid d (hm_get (as_heads st) (stream_for d)) = Ok e"
        "as_heads st' = hm_insert (stream_for d) (ev_event_hash e) (as_heads st)"
        "as_events st' = as_events st @ [e]"
proof (cases "validate_and_redact env draft")
  case (Inl e)
  then show ?thesis using assms Refused [of e] by (auto simp: audit_append_def)
next
  case (Inr d)
  show ?thesis
  proof (cases "build_event env uuid d (hm_get (as_heads st) (stream_for d))")
    case (Inl e)
    then show ?thesis using assms Refused [of e] by (auto simp: audit_append_def Inr Let_def)
  next
    case event: (Inr e)
    then show ?thesis using assms Appended [of e d] by (auto simp: audit_append_def Inr Let_def)
  qed
qed

lemma audit_step_inv:
  assumes "audit_step env st st'" and inv: "audit_inv env st"
  shows "audit_inv env st'"
proof -
  obtain uuid draft r where "audit_append env uuid draft st = (r, st')"
    using assms(1) by (rule audit_stepE)
  then show ?thesis
  proof (cases rule: audit_append_cases)
    case Refused
    then show ?thesis using inv by simp
  next
    case (Appended d e)
    note e = build_event_Ok [OF Appended(3)] and d = validate_and_redact_Ok [OF Appended(2)]
    have k: "stream_events k (as_events st') =
        stream_events k (as_events st) @ (if k = stream_for d then [e] else [])" for k
      using e(3) by (auto simp: stream_events_def Appended(5))
    have "well_formed_event e"
      using e d by (simp add: well_formed_event_def)
    then show ?thesis
      using inv e k
      by (auto simp: audit_inv_def Appended(4,5) hm_wf_insert hm_get_insert audit_head_def chained_snoc)
  qed
qed

lemma audit_default_inv: "audit_init st \<Longrightarrow> audit_inv env st"
  by (simp add: audit_init_def audit_default_def audit_inv_def audit_head_def head_from_def
      stream_events_def)

interpretation audit: transition_system audit_init "audit_step env" "audit_inv env" for env
  by unfold_locales (auto intro: audit_default_inv audit_step_inv)

lemma audit_reachable_inv:
  "(audit_step env)\<^sup>*\<^sup>* audit_default st \<Longrightarrow> audit_inv env st"
  using audit.reachable_inv by (auto simp: audit_init_def)

section \<open>A concrete log\<close>

definition demo_to_vec :: "json \<Rightarrow> string option" where
  "demo_to_vec j = Some (case j of
     JObject kvs \<Rightarrow> concat (map (\<lambda>(k, v). case v of JString s \<Rightarrow> s | _ \<Rightarrow> []) kvs) | _ \<Rightarrow> [])"

definition demo_audit_env :: audit_env where
  "demo_audit_env = \<lparr>ae_to_vec = demo_to_vec, ae_sha256 = (\<lambda>s. take 32 (s @ replicate 32 (CHR ''0'')))\<rparr>"

definition demo_draft :: audit_draft where
  "demo_draft = \<lparr>ad_occurred_at_ms = 100, ad_organization_id = None, ad_project_id = Some ''p'',
     ad_request_id = ''r'', ad_actor_kind = Actor_ApiKey, ad_actor_id = Some ''a'', ad_action = ''project.update'',
     ad_resource_kind = ''project'', ad_resource_id = Some ''p'', ad_outcome = Success, ad_source_ip = None,
     ad_metadata = JObject [(''safe'', JString ''visible''), (''Refresh-Token'', JString ''plaintext'')]\<rparr>"

definition demo_audit_state :: audit_state where
  "demo_audit_state = snd (audit_append demo_audit_env ''e2'' demo_draft
     (snd (audit_append demo_audit_env ''e1'' demo_draft audit_default)))"

lemma demo_audit_reachable: "(audit_step demo_audit_env)\<^sup>*\<^sup>* audit_default demo_audit_state"
proof -
  have "audit_step env st (snd (audit_append env uuid d st))" for env st uuid d
    by (rule audit_step.append [where r = "fst (audit_append env uuid d st)"]) simp
  then show ?thesis
    unfolding demo_audit_state_def
    by (intro rtranclp.rtrancl_into_rtrancl [OF rtranclp.rtrancl_into_rtrancl [OF rtranclp.rtrancl_refl]])
qed

section \<open>Properties\<close>

text \<open>
  C29. Whatever is appended to a fresh sink, the log verifies, the head kept for each stream is the
  hash of that stream's last event, and no event carries an unredacted sensitive value, an oversized
  string or a malformed action.
\<close>

theorem audit_log_verifies_and_redacts:
  assumes "(audit_step env)\<^sup>*\<^sup>* audit_default st"
  shows "audit_verify env st = Ok ()
    \<and> (\<forall>k. hm_get (as_heads st) k = audit_head k (as_events st))
    \<and> list_all well_formed_event (as_events st)"
  using audit_reachable_inv [OF assms]
  by (simp add: audit_inv_def audit_verify_def verify_events_chains)

lemma audit_log_verifies_and_redacts_witness:
  "audit_verify demo_audit_env demo_audit_state = Ok () \<and> length (as_events demo_audit_state) = 2
   \<and> map ev_metadata (as_events demo_audit_state) = replicate 2
       (JObject [(''safe'', JString ''visible''), (''Refresh-Token'', JString ''[REDACTED]'')])"
proof (intro conjI)
  show "audit_verify demo_audit_env demo_audit_state = Ok ()"
    using audit_log_verifies_and_redacts [OF demo_audit_reachable] by blast
qed code_simp+

text \<open>
  C30. An alteration of the log is evident. A log that verifies and has, for some stream, the same
  head as another log that verifies holds the same events of that stream in the same order, or it
  holds an event with another content and the same hash.
\<close>

theorem audit_log_is_tamper_evident:
  assumes "audit_verify env s = Ok ()" and "audit_verify env t = Ok ()"
    and "audit_head k (as_events s) = audit_head k (as_events t)"
  shows "stream_events k (as_events s) = stream_events k (as_events t)
    \<or> (\<exists>e \<in> set (as_events s). \<exists>f \<in> set (as_events t).
         canonical_event e \<noteq> canonical_event f \<and> compute_hash env e = compute_hash env f)"
proof -
  have "stream_events k (as_events s) = stream_events k (as_events t)
    \<or> (\<exists>e \<in> set (stream_events k (as_events s)). \<exists>f \<in> set (stream_events k (as_events t)).
         canonical_event e \<noteq> canonical_event f \<and> compute_hash env e = compute_hash env f)"
    using assms by (intro chains_agree) (simp_all add: audit_verify_def verify_events_chains audit_head_def)
  then show ?thesis by (auto simp: stream_events_def)
qed

definition demo_other_log :: audit_state where
  "demo_other_log = snd (audit_append demo_audit_env ''e3'' (demo_draft\<lparr>ad_project_id := None\<rparr>) demo_audit_state)"

lemma audit_log_is_tamper_evident_witness:
  "as_events demo_audit_state \<noteq> as_events demo_other_log
   \<and> (stream_events (Stream_Project ''p'') (as_events demo_audit_state)
        = stream_events (Stream_Project ''p'') (as_events demo_other_log)
     \<or> (\<exists>e \<in> set (as_events demo_audit_state). \<exists>f \<in> set (as_events demo_other_log).
          canonical_event e \<noteq> canonical_event f
          \<and> compute_hash demo_audit_env e = compute_hash demo_audit_env f))"
proof (rule conjI)
  show "as_events demo_audit_state \<noteq> as_events demo_other_log" by code_simp
  have "audit_verify demo_audit_env demo_audit_state = Ok ()" "audit_verify demo_audit_env demo_other_log = Ok ()"
    "audit_head (Stream_Project ''p'') (as_events demo_audit_state)
       = audit_head (Stream_Project ''p'') (as_events demo_other_log)"
    by code_simp+
  then show "stream_events (Stream_Project ''p'') (as_events demo_audit_state)
        = stream_events (Stream_Project ''p'') (as_events demo_other_log)
     \<or> (\<exists>e \<in> set (as_events demo_audit_state). \<exists>f \<in> set (as_events demo_other_log).
          canonical_event e \<noteq> canonical_event f
          \<and> compute_hash demo_audit_env e = compute_hash demo_audit_env f)"
    by (rule audit_log_is_tamper_evident)
qed

text \<open>The head query of the PostgreSQL sink finds the head of the draft's stream.\<close>

lemma pg_head_eq: "pg_head d table = audit_head (stream_for d) table"
  by (auto simp: pg_head_def audit_head_def stream_events_def last_hash_eq stream_for_def
      stream_for_event_def intro!: arg_cong [of _ _ "head_from None"] filter_cong split: option.splits)

lemma chained_hashes:
  "chained env p es \<Longrightarrow> \<forall>x. length (ae_sha256 env x) = 32 \<Longrightarrow> opt_all (\<lambda>h. length h = 32) p
    \<Longrightarrow> opt_all (\<lambda>h. length h = 32) (head_from p es)"
  by (cases es rule: rev_cases)
    (auto simp: head_from_def chained_snoc compute_hash_def ffdb_result dest: sym [of "ae_sha256 env _"])

text \<open>
  The PostgreSQL sink refines the in-memory sink. On a table that holds the events of a sink,
  an append whose database calls succeed returns what the sink returns and leaves its events; an
  append one of whose calls fails is an error and leaves the table unchanged.
\<close>

theorem pg_sink_refines_memory_sink:
  assumes "(audit_step env)\<^sup>*\<^sup>* audit_default st" and "\<forall>x. length (ae_sha256 env x) = 32"
  shows "(let (r, table) = pg_append env calls uuid draft (as_events st);
              (r', st') = audit_append env uuid draft st
          in if pg_begin_ok calls \<and> pg_lock_ok calls \<and> pg_head_ok calls \<and> pg_insert_ok calls \<and> pg_commit_ok calls
             then r = r' \<and> table = as_events st'
             else isl r \<and> table = as_events st)"
proof -
  have inv: "audit_inv env st" by (rule audit_reachable_inv [OF assms(1)])
  have "opt_all (\<lambda>h. length h = 32) (audit_head k (as_events st))" for k
    unfolding audit_head_def using inv assms(2) by (intro chained_hashes) (simp_all add: audit_inv_def)
  then show ?thesis
    using inv
    by (auto simp: pg_append_def audit_append_def Let_def pg_head_eq audit_inv_def split: sum.splits)
qed

lemma pg_sink_refines_memory_sink_witness:
  "fst (pg_append demo_audit_env \<lparr>pg_begin_ok = True, pg_lock_ok = True, pg_head_ok = True, pg_insert_ok = True,
       pg_commit_ok = True\<rparr> ''e3'' demo_draft (as_events demo_audit_state))
   = fst (audit_append demo_audit_env ''e3'' demo_draft demo_audit_state)
   \<and> isl (fst (pg_append demo_audit_env \<lparr>pg_begin_ok = True, pg_lock_ok = True, pg_head_ok = True,
       pg_insert_ok = True, pg_commit_ok = False\<rparr> ''e3'' demo_draft (as_events demo_audit_state)))"
proof -
  have "\<forall>x. length (ae_sha256 demo_audit_env x) = 32" by (simp add: demo_audit_env_def min_def)
  note refines = pg_sink_refines_memory_sink [OF demo_audit_reachable this, where uuid = "''e3''" and draft = demo_draft]
  show ?thesis
    using refines [of "\<lparr>pg_begin_ok = True, pg_lock_ok = True, pg_head_ok = True, pg_insert_ok = True, pg_commit_ok = True\<rparr>"]
      refines [of "\<lparr>pg_begin_ok = True, pg_lock_ok = True, pg_head_ok = True, pg_insert_ok = True, pg_commit_ok = False\<rparr>"]
    by (simp add: case_prod_beta Let_def)
qed

end
