(* ===== verification/Metrics_Store.thy ===== *)
theory Metrics_Store
  imports Collections Transition_System "HOL-Library.Product_Lexorder"
begin

text \<open>
  \<open>crates/org-metrics/src/lib.rs\<close>: the usage ledger of one organization, a SQLite database with the
  billing periods, the receipts of ingested usage events, hourly usage, active-user claims, storage
  sizes, usage reservations, and the outbox of reports to the billing provider. A table is the list
  of its rows in insertion order; each definition translates the fixed SQL statements of one
  function. An operation that runs in a transaction leaves the database as it was when it fails.

  SQL integers are 64-bit: \<open>SUM\<close> fails on overflow, while \<open>+\<close> turns an overflowing result into a
  floating-point value, which a later read as \<open>i64\<close> refuses. A cell is therefore an \<^typ>\<open>int\<close>, and
  a cell outside the range stands for such a value. Failures of the file system and of SQLite
  itself (\<open>map_sqlite\<close>, \<open>Unavailable\<close>) are not injected. SHA-256 is the argument \<open>sha\<close>, a UUID is its
  16 bytes.
\<close>

section \<open>Data\<close>

definition HOUR_MS :: int where "HOUR_MS = 60 * 60 * 1000"
definition MAX_PERIOD_MS :: int where "MAX_PERIOD_MS = 366 * 24 * HOUR_MS"
definition MAX_IDENTIFIER_BYTES :: nat where "MAX_IDENTIFIER_BYTES = 100"
definition MAX_RESOURCE_ID_BYTES :: nat where "MAX_RESOURCE_ID_BYTES = 200"
definition MAX_PROVIDER_ERROR_BYTES :: nat where "MAX_PROVIDER_ERROR_BYTES = 1024"

datatype metrics_error =
    InvalidInput
  | HashConflict
  | OrganizationMismatch
  | PeriodSealed
  | LimitExceeded string
  | ReservationNotFound
  | ReservationMismatch
  | StaleLease
  | ReconciliationPending
  | Metrics_Unavailable

record metering_period =
  mp_start_ms :: int
  mp_end_ms :: int
  mp_cutoff_ms :: int

definition period_validate :: "metering_period \<Rightarrow> metrics_error + unit" where
  "period_validate p =
     (if mp_start_ms p < 0
        \<or> mp_end_ms p \<le> mp_start_ms p
        \<or> saturating_sub_i64 (mp_end_ms p) (mp_start_ms p) > MAX_PERIOD_MS
        \<or> mp_cutoff_ms p < mp_end_ms p
        \<or> saturating_sub_i64 (mp_cutoff_ms p) (mp_end_ms p) > 7 * 24 * HOUR_MS
      then Err InvalidInput else Ok ())"

record usage_limits =
  ul_read_units :: nat
  ul_write_units :: nat
  ul_monthly_active_users :: nat
  ul_storage_bytes :: nat
  ul_enforce_read_limit :: bool
  ul_enforce_write_limit :: bool
  ul_enforce_mau_limit :: bool
  ul_enforce_storage_limit :: bool

record storage_snapshot =
  sn_resource_id :: string
  sn_logical_bytes :: nat

record usage_event =
  ue_event_id :: string
  ue_project_id :: string
  ue_period :: metering_period
  ue_occurred_at_ms :: int
  ue_recorded_at_ms :: int
  ue_read_units :: nat
  ue_write_units :: nat
  ue_active_subject_hash :: "string option"
  ue_storage_snapshots :: "storage_snapshot list"

record reservation_request =
  rr_reservation_id :: string
  rr_project_id :: string
  rr_period :: metering_period
  rr_created_at_ms :: int
  rr_expires_at_ms :: int
  rr_read_units :: nat
  rr_write_units :: nat
  rr_storage_growth_bytes :: nat
  rr_active_subject_hash :: "string option"

datatype usage_reservation_status = Res_Active | Res_Settled | Res_Released | Res_Expired

datatype reservation_admission = Reserved | Reservation_Duplicate usage_reservation_status

record reservation_context =
  rc_project_id :: string
  rc_period_start_ms :: int
  rc_period_end_ms :: int
  rc_status :: usage_reservation_status

datatype ingest_outcome = Inserted | Ingest_Duplicate

datatype usage_dimension = ReadUnits | WriteUnits | MonthlyActiveUsers | StorageByteMilliseconds

fun usage_dimension_str :: "usage_dimension \<Rightarrow> string" where
  "usage_dimension_str ReadUnits = ''read_units''"
| "usage_dimension_str WriteUnits = ''write_units''"
| "usage_dimension_str MonthlyActiveUsers = ''monthly_active_users''"
| "usage_dimension_str StorageByteMilliseconds = ''storage_byte_milliseconds''"

record usage_summary =
  us_read_units :: nat
  us_write_units :: nat
  us_monthly_active_users :: nat
  us_storage_bytes_at_end :: nat
  us_storage_byte_milliseconds :: nat

record reporting_progress =
  rp_enqueued_quantity :: nat
  rp_latest_window_end_ms :: "int option"

record outbox_checkpoint =
  oc_outstanding :: nat
  oc_failed :: nat
  oc_last_acknowledged_at_ms :: "int option"

datatype billing_period_status = Period_Open | Period_Sealed | Period_Finalized

record report_request =
  rq_identifier :: string
  rq_event_name :: string
  rq_customer_id :: string
  rq_period :: metering_period
  rq_dimension :: usage_dimension
  rq_window_start_ms :: int
  rq_window_end_ms :: int
  rq_quantity :: nat
  rq_provider_timestamp_ms :: int
  rq_now_ms :: int

record claimed_report =
  cl_identifier :: string
  cl_event_name :: string
  cl_customer_id :: string
  cl_dimension :: usage_dimension
  cl_quantity :: nat
  cl_provider_timestamp_ms :: int
  cl_lease_token :: string
  cl_attempt :: nat

datatype reconciliation_status = Matched | Mismatched

section \<open>Tables\<close>

record period_row =
  pr_start_ms :: int
  pr_end_ms :: int
  pr_cutoff_ms :: int
  pr_status :: string
  pr_sealed_at_ms :: "int option"
  pr_finalized_at_ms :: "int option"

record event_receipt_row =
  er_event_id :: string
  er_payload_sha256 :: string
  er_project_id :: string
  er_period_start_ms :: int
  er_occurred_at_ms :: int
  er_recorded_at_ms :: int

record hourly_row =
  hr_period_start_ms :: int
  hr_bucket_start_ms :: int
  hr_project_id :: string
  hr_read_units :: int
  hr_write_units :: int

record claim_row =
  ac_period_start_ms :: int
  ac_period_end_ms :: int
  ac_subject_hash :: string
  ac_active :: bool
  ac_reservation_count :: int
  ac_first_seen_ms :: "int option"
  ac_last_seen_ms :: "int option"

record transition_row =
  tr_resource_id :: string
  tr_occurred_at_ms :: int
  tr_event_id :: string
  tr_logical_bytes :: int

record usage_reservation_row =
  ur_reservation_id :: string
  ur_request_sha256 :: string
  ur_project_id :: string
  ur_period_start_ms :: int
  ur_period_end_ms :: int
  ur_created_at_ms :: int
  ur_expires_at_ms :: int
  ur_read_units :: int
  ur_write_units :: int
  ur_storage_growth_bytes :: int
  ur_subject_hash :: "string option"
  ur_mau_claimed :: bool
  ur_status :: string
  ur_event_id :: "string option"
  ur_resolved_at_ms :: "int option"

record outbox_row =
  ox_identifier :: string
  ox_payload_sha256 :: string
  ox_event_name :: string
  ox_customer_id :: string
  ox_period_start_ms :: int
  ox_period_end_ms :: int
  ox_dimension :: string
  ox_window_start_ms :: int
  ox_window_end_ms :: int
  ox_quantity :: int
  ox_provider_timestamp_ms :: int
  ox_state :: string
  ox_attempt_count :: int
  ox_next_attempt_ms :: int
  ox_lease_token :: "string option"
  ox_lease_expires_ms :: "int option"
  ox_provider_event_id :: "string option"
  ox_last_error :: "string option"
  ox_created_at_ms :: int
  ox_acknowledged_at_ms :: "int option"

record reconciliation_row =
  rn_period_start_ms :: int
  rn_dimension :: string
  rn_local_quantity :: int
  rn_provider_quantity :: int
  rn_status :: string
  rn_checked_at_ms :: int

record metrics_db =
  md_metadata :: "(string \<times> int) option"
  md_periods :: "period_row list"
  md_receipts :: "event_receipt_row list"
  md_hourly :: "hourly_row list"
  md_claims :: "claim_row list"
  md_transitions :: "transition_row list"
  md_current :: "transition_row list"
  md_reservations :: "usage_reservation_row list"
  md_outbox :: "outbox_row list"
  md_reconciliations :: "reconciliation_row list"

definition metrics_empty :: metrics_db where
  "metrics_empty = \<lparr>md_metadata = None, md_periods = [], md_receipts = [], md_hourly = [], md_claims = [],
     md_transitions = [], md_current = [], md_reservations = [], md_outbox = [], md_reconciliations = []\<rparr>"

definition SCHEMA_VERSION :: int where "SCHEMA_VERSION = 1"

section \<open>SQL\<close>

text \<open>The first row with a key, an upsert on a key, and a statement that updates the rows it selects.\<close>

definition row_where :: "('r \<Rightarrow> bool) \<Rightarrow> 'r list \<Rightarrow> 'r option" where
  "row_where P rows = List.find P rows"

definition upsert :: "('r \<Rightarrow> bool) \<Rightarrow> 'r \<Rightarrow> ('r \<Rightarrow> 'r) \<Rightarrow> 'r list \<Rightarrow> 'r list" where
  "upsert key r f rows =
     (if list_ex key rows then map (\<lambda>x. if key x then f x else x) rows else rows @ [r])"

definition update_where :: "('r \<Rightarrow> bool) \<Rightarrow> ('r \<Rightarrow> 'r) \<Rightarrow> 'r list \<Rightarrow> 'r list" where
  "update_where P f rows = map (\<lambda>x. if P x then f x else x) rows"

text \<open>\<open>COALESCE(SUM(column),0)\<close> read as \<open>i64\<close>.\<close>

definition is_i64 :: "int \<Rightarrow> bool" where
  "is_i64 i \<longleftrightarrow> i64_min \<le> i \<and> i \<le> i64_max"

definition select_sum :: "int list \<Rightarrow> metrics_error + int" where
  "select_sum xs = (if list_all is_i64 xs \<and> is_i64 (sum_list xs) then Ok (sum_list xs) else Err Metrics_Unavailable)"

text \<open>\<open>MAX\<close> over a column that may be empty or null, \<open>COALESCE(a,b)\<close>, and \<open>MAX(a,b)\<close> of two values.\<close>

definition select_max :: "int list \<Rightarrow> int option" where
  "select_max xs = (if xs = [] then None else Some (Max (set xs)))"

definition coalesce :: "'a option \<Rightarrow> 'a \<Rightarrow> 'a" where
  "coalesce x d = (case x of None \<Rightarrow> d | Some a \<Rightarrow> a)"

definition count_rows :: "('r \<Rightarrow> bool) \<Rightarrow> 'r list \<Rightarrow> nat" where
  "count_rows P rows = length (filter P rows)"

definition to_i64 :: "nat \<Rightarrow> metrics_error + int" where
  "to_i64 n = (if int n \<le> i64_max then Ok (int n) else Err InvalidInput)"

definition as_u64 :: "int \<Rightarrow> metrics_error + nat" where
  "as_u64 i = (if 0 \<le> i then Ok (nat i) else Err Metrics_Unavailable)"

text \<open>A transaction: its writes are kept when the body succeeds and dropped when it fails.\<close>

type_synonym 'a metrics_tx = "metrics_db \<Rightarrow> metrics_error + 'a \<times> metrics_db"
type_synonym 'a metrics_op = "metrics_db \<Rightarrow> (metrics_error + 'a) \<times> metrics_db"

definition metrics_transaction :: "'a metrics_tx \<Rightarrow> 'a metrics_op" where
  "metrics_transaction f db = (case f db of Inl e \<Rightarrow> (Err e, db) | Inr (a, db') \<Rightarrow> (Ok a, db'))"

definition tx_bind :: "'a metrics_tx \<Rightarrow> ('a \<Rightarrow> 'b metrics_tx) \<Rightarrow> 'b metrics_tx" where
  "tx_bind m f db = bindr (m db) (\<lambda>(a, db'). f a db')"

definition tx_lift :: "metrics_error + 'a \<Rightarrow> 'a metrics_tx" where
  "tx_lift r db = bindr r (\<lambda>a. Ok (a, db))"

lemma tx_bind_eq_Ok [ffdb_result]:
  "tx_bind m f db = Ok r \<longleftrightarrow> (\<exists>a db'. m db = Ok (a, db') \<and> f a db' = Ok r)"
  by (auto simp: tx_bind_def ffdb_result)

lemma tx_lift_eq_Ok [ffdb_result]: "tx_lift r db = Ok (a, db') \<longleftrightarrow> r = Ok a \<and> db' = db"
  by (auto simp: tx_lift_def ffdb_result)

lemma metrics_transaction_cases:
  assumes "metrics_transaction f db = (r, db')"
  obtains (Failed) e where "f db = Err e" "r = Err e" "db' = db"
    | (Done) a where "f db = Ok (a, db')" "r = Ok a"
  using assms by (auto simp: metrics_transaction_def split: sum.splits prod.splits)

end
