(* ===== verification/Metrics_Usage.thy ===== *)
theory Metrics_Usage
  imports Metrics_Store
begin

text \<open>
  \<open>crates/org-metrics/src/lib.rs\<close>: billing periods, usage reservations, ingestion of usage events,
  and the summaries read back from them.
\<close>

section \<open>Validation\<close>

definition validate_identifier :: "string \<Rightarrow> metrics_error + unit" where
  "validate_identifier s =
     (if s = [] \<or> length s > MAX_IDENTIFIER_BYTES
        \<or> \<not> list_all (\<lambda>b. is_ascii_alphanumeric b \<or> b \<in> {CHR ''-'', CHR ''_'', CHR ''.'', CHR '':''}) s
      then Err InvalidInput else Ok ())"

definition validate_resource_id :: "string \<Rightarrow> metrics_error + unit" where
  "validate_resource_id s =
     (if s = [] \<or> length s > MAX_RESOURCE_ID_BYTES
        \<or> list_ex (\<lambda>b. code b = 0 \<or> code b < 32 \<or> code b = 127) s
      then Err InvalidInput else Ok ())"

fun check_all :: "(metrics_error + 'a) list \<Rightarrow> metrics_error + unit" where
  "check_all [] = Ok ()"
| "check_all (r # rs) = bindr r (\<lambda>_. check_all rs)"

fun adjacent_equal :: "string list \<Rightarrow> bool" where
  "adjacent_equal (a # b # xs) = (a = b \<or> adjacent_equal (b # xs))"
| "adjacent_equal _ = False"

definition validate_event :: "usage_event \<Rightarrow> metrics_error + unit" where
  "validate_event e =
     bindr (validate_identifier (ue_event_id e)) (\<lambda>_.
     bindr (period_validate (ue_period e)) (\<lambda>_.
       if ue_occurred_at_ms e < mp_start_ms (ue_period e)
         \<or> ue_occurred_at_ms e \<ge> mp_end_ms (ue_period e)
         \<or> ue_recorded_at_ms e < ue_occurred_at_ms e
         \<or> ue_recorded_at_ms e > mp_cutoff_ms (ue_period e)
         \<or> length (ue_storage_snapshots e) > 64
         \<or> list_ex (\<lambda>s. isl (validate_resource_id (sn_resource_id s))) (ue_storage_snapshots e)
       then Err InvalidInput
       else if adjacent_equal (sort (map sn_resource_id (ue_storage_snapshots e))) then Err InvalidInput
       else check_all (map to_i64 (ue_read_units e # ue_write_units e # map sn_logical_bytes (ue_storage_snapshots e)))))"

definition validate_reservation :: "reservation_request \<Rightarrow> metrics_error + unit" where
  "validate_reservation q =
     bindr (validate_identifier (rr_reservation_id q)) (\<lambda>_.
     bindr (period_validate (rr_period q)) (\<lambda>_.
       if rr_created_at_ms q < mp_start_ms (rr_period q)
         \<or> rr_created_at_ms q \<ge> mp_end_ms (rr_period q)
         \<or> rr_expires_at_ms q \<le> rr_created_at_ms q
         \<or> rr_expires_at_ms q > mp_cutoff_ms (rr_period q)
         \<or> saturating_sub_i64 (rr_expires_at_ms q) (rr_created_at_ms q) > HOUR_MS
       then Err InvalidInput
       else check_all (map to_i64 [rr_read_units q, rr_write_units q, rr_storage_growth_bytes q])))"

definition enforce_limit :: "nat \<Rightarrow> nat \<Rightarrow> nat \<Rightarrow> string \<Rightarrow> metrics_error + unit" where
  "enforce_limit current requested limit dimension =
     (case checked_add_u64 current requested of
        None \<Rightarrow> Err (LimitExceeded dimension)
      | Some t \<Rightarrow> if t > limit then Err (LimitExceeded dimension) else Ok ())"

fun parse_reservation_status :: "string \<Rightarrow> metrics_error + usage_reservation_status" where
  "parse_reservation_status s =
     (if s = ''active'' then Ok Res_Active
      else if s = ''settled'' then Ok Res_Settled
      else if s = ''released'' then Ok Res_Released
      else if s = ''expired'' then Ok Res_Expired
      else Err Metrics_Unavailable)"

declare parse_reservation_status.simps [simp del]

section \<open>Digests\<close>

text \<open>\<open>u64::to_be_bytes\<close> and \<open>i64::to_be_bytes\<close>.\<close>

definition be64 :: "nat \<Rightarrow> string" where
  "be64 n = map (\<lambda>i. char_of (n div 256 ^ i mod 256)) (rev [0..<8])"

definition be64_int :: "int \<Rightarrow> string" where
  "be64_int i = be64 (nat (i mod 2 ^ 64))"

text \<open>\<open>Uuid::to_string\<close> on the 16 bytes.\<close>

definition uuid_text :: "string \<Rightarrow> string" where
  "uuid_text u = join ''-'' (map (\<lambda>(a, n). concat (map hex_byte (take n (drop a u))))
     [(0, 4), (4, 2), (6, 2), (8, 2), (10, 6)])"

definition nul :: char where "nul = char_of (0::nat)"

definition event_digest :: "(string \<Rightarrow> string) \<Rightarrow> usage_event \<Rightarrow> string" where
  "event_digest sha e = sha (
     ''ffdb.metrics.event.v1'' @ [nul] @ ue_event_id e @ ue_project_id e
     @ be64_int (mp_start_ms (ue_period e)) @ be64_int (mp_end_ms (ue_period e))
     @ be64_int (mp_cutoff_ms (ue_period e)) @ be64_int (ue_occurred_at_ms e)
     @ be64_int (ue_recorded_at_ms e) @ be64 (ue_read_units e) @ be64 (ue_write_units e)
     @ (case ue_active_subject_hash e of Some v \<Rightarrow> char_of (1::nat) # v | None \<Rightarrow> [nul])
     @ concat (map (\<lambda>s. be64 (length (sn_resource_id s)) @ sn_resource_id s @ be64 (sn_logical_bytes s))
         (sort_key (\<lambda>s. (sn_resource_id s, sn_logical_bytes s)) (ue_storage_snapshots e))))"

definition reservation_digest :: "(string \<Rightarrow> string) \<Rightarrow> reservation_request \<Rightarrow> string" where
  "reservation_digest sha q = sha (
     ''ffdb.metrics.reservation.v1'' @ [nul] @ rr_reservation_id q @ rr_project_id q
     @ be64_int (mp_start_ms (rr_period q)) @ be64_int (mp_end_ms (rr_period q))
     @ be64_int (mp_cutoff_ms (rr_period q)) @ be64_int (rr_created_at_ms q)
     @ be64_int (rr_expires_at_ms q) @ be64 (rr_read_units q) @ be64 (rr_write_units q)
     @ be64 (rr_storage_growth_bytes q)
     @ (case rr_active_subject_hash q of Some v \<Rightarrow> v | None \<Rightarrow> []))"

definition hash_active_subject ::
    "(string \<Rightarrow> string \<Rightarrow> string) \<Rightarrow> string \<Rightarrow> string \<Rightarrow> metering_period \<Rightarrow> string \<Rightarrow> metrics_error + string" where
  "hash_active_subject hmac subject_key organization_id p subject =
     bindr (period_validate p) (\<lambda>_.
       if subject = [] \<or> length subject > 512 \<or> list_ex (\<lambda>b. code b = 0) subject then Err InvalidInput
       else Ok (hmac subject_key (''ffdb.metrics.mau.v1'' @ [nul] @ organization_id
              @ be64_int (mp_start_ms p) @ be64_int (mp_end_ms p) @ subject)))"

section \<open>Opening\<close>

definition metrics_migrate :: "string \<Rightarrow> metrics_db \<Rightarrow> (metrics_error + unit) \<times> metrics_db" where
  "metrics_migrate organization_id db =
     (case md_metadata db of
        Some (org, version) \<Rightarrow>
          if org = uuid_text organization_id \<and> version = SCHEMA_VERSION then (Ok (), db)
          else (Err OrganizationMismatch, db)
      | None \<Rightarrow> (Ok (), db\<lparr>md_metadata := Some (uuid_text organization_id, SCHEMA_VERSION)\<rparr>))"

section \<open>Periods\<close>

definition period_at :: "int \<Rightarrow> metrics_db \<Rightarrow> period_row option" where
  "period_at start_ms db = row_where (\<lambda>r. pr_start_ms r = start_ms) (md_periods db)"

definition ensure_period :: "metering_period \<Rightarrow> unit metrics_tx" where
  "ensure_period p db =
     bindr (period_validate p) (\<lambda>_.
       case period_at (mp_start_ms p) db of
         None \<Rightarrow>
           Ok ((), db\<lparr>md_periods := md_periods db @ [\<lparr>pr_start_ms = mp_start_ms p, pr_end_ms = mp_end_ms p,
             pr_cutoff_ms = mp_cutoff_ms p, pr_status = ''open'', pr_sealed_at_ms = None,
             pr_finalized_at_ms = None\<rparr>]\<rparr>)
       | Some r \<Rightarrow>
           if pr_end_ms r = mp_end_ms p \<and> pr_cutoff_ms r = mp_cutoff_ms p then Ok ((), db)
           else Err HashConflict)"

definition ensure_accepting :: "metering_period \<Rightarrow> int \<Rightarrow> unit metrics_tx" where
  "ensure_accepting p recorded_at_ms db =
     (case period_at (mp_start_ms p) db of
        None \<Rightarrow> Err Metrics_Unavailable
      | Some r \<Rightarrow>
          if pr_status r \<in> {''sealed'', ''finalized''} \<or> recorded_at_ms > mp_cutoff_ms p then Err PeriodSealed
          else Ok ((), db))"

section \<open>Active-user claims\<close>

definition claim_key :: "int \<Rightarrow> string \<Rightarrow> claim_row \<Rightarrow> bool" where
  "claim_key start_ms subject c \<longleftrightarrow> ac_period_start_ms c = start_ms \<and> ac_subject_hash c = subject"

text \<open>The row after a user has been seen at a time.\<close>

definition seen :: "int \<Rightarrow> claim_row \<Rightarrow> claim_row" where
  "seen at c = c\<lparr>ac_active := True,
     ac_first_seen_ms := Some (coalesce (ac_first_seen_ms c) at),
     ac_last_seen_ms := Some (max (coalesce (ac_last_seen_ms c) at) at)\<rparr>"

definition mark_active :: "int \<Rightarrow> int \<Rightarrow> string \<Rightarrow> int \<Rightarrow> claim_row list \<Rightarrow> claim_row list" where
  "mark_active start_ms end_ms subject at claims =
     upsert (claim_key start_ms subject)
       \<lparr>ac_period_start_ms = start_ms, ac_period_end_ms = end_ms, ac_subject_hash = subject, ac_active = True,
        ac_reservation_count = 0, ac_first_seen_ms = Some at, ac_last_seen_ms = Some at\<rparr>
       (seen at) claims"

definition release_claim :: "int \<Rightarrow> string \<Rightarrow> claim_row list \<Rightarrow> claim_row list" where
  "release_claim start_ms subject claims =
     filter (\<lambda>c. \<not> (claim_key start_ms subject c \<and> \<not> ac_active c \<and> ac_reservation_count c = 0))
       (update_where (\<lambda>c. claim_key start_ms subject c \<and> ac_reservation_count c > 0)
         (\<lambda>c. c\<lparr>ac_reservation_count := ac_reservation_count c - 1\<rparr>) claims)"

definition release_mau_claim :: "usage_reservation_row \<Rightarrow> unit metrics_tx" where
  "release_mau_claim r db =
     (if \<not> ur_mau_claimed r then Ok ((), db)
      else case ur_subject_hash r of
          None \<Rightarrow> Err Metrics_Unavailable
        | Some subject \<Rightarrow> Ok ((), db\<lparr>md_claims := release_claim (ur_period_start_ms r) subject (md_claims db)\<rparr>))"

definition activate_mau_claim :: "usage_reservation_row \<Rightarrow> int \<Rightarrow> unit metrics_tx" where
  "activate_mau_claim r now_ms db =
     (if \<not> ur_mau_claimed r then Ok ((), db)
      else case ur_subject_hash r of
          None \<Rightarrow> Err Metrics_Unavailable
        | Some subject \<Rightarrow>
            (let held = (\<lambda>c. claim_key (ur_period_start_ms r) subject c \<and> ac_reservation_count c > 0) in
             if list_ex held (md_claims db) then
               Ok ((), db\<lparr>md_claims := update_where held
                 (\<lambda>c. (seen now_ms c)\<lparr>ac_reservation_count := ac_reservation_count c - 1\<rparr>) (md_claims db)\<rparr>)
             else
               Ok ((), db\<lparr>md_claims := mark_active (ur_period_start_ms r) (ur_period_end_ms r) subject now_ms
                 (md_claims db)\<rparr>)))"

section \<open>Reservations\<close>

definition usage_reservation :: "string \<Rightarrow> metrics_db \<Rightarrow> usage_reservation_row option" where
  "usage_reservation rid db = row_where (\<lambda>r. ur_reservation_id r = rid) (md_reservations db)"

definition expiring :: "int \<Rightarrow> usage_reservation_row \<Rightarrow> bool" where
  "expiring now_ms r \<longleftrightarrow> ur_status r = ''active'' \<and> ur_expires_at_ms r \<le> now_ms"

fun release_claims :: "usage_reservation_row list \<Rightarrow> unit metrics_tx" where
  "release_claims [] db = Ok ((), db)"
| "release_claims (r # rs) db = tx_bind (release_mau_claim r) (\<lambda>_. release_claims rs) db"

definition expire_reservations :: "int \<Rightarrow> unit metrics_tx" where
  "expire_reservations now_ms db =
     bindr (release_claims (filter (expiring now_ms) (md_reservations db)) db) (\<lambda>(_, db').
       Ok ((), db'\<lparr>md_reservations := update_where (expiring now_ms)
         (\<lambda>r. r\<lparr>ur_status := ''expired'', ur_resolved_at_ms := Some now_ms\<rparr>) (md_reservations db')\<rparr>))"

definition active_in :: "int \<Rightarrow> usage_reservation_row \<Rightarrow> bool" where
  "active_in start_ms r \<longleftrightarrow> ur_period_start_ms r = start_ms \<and> ur_status r = ''active''"

definition limit_check :: "bool \<Rightarrow> int \<Rightarrow> int \<Rightarrow> nat \<Rightarrow> nat \<Rightarrow> string \<Rightarrow> metrics_error + unit" where
  "limit_check enforced current reserved requested limit dimension =
     (if enforced then
        bindr (as_u64 current) (\<lambda>c. bindr (as_u64 reserved) (\<lambda>r.
          enforce_limit (saturating_add_u64 c r) requested limit dimension))
      else Ok ())"

text \<open>The sums read from the tables, and the checks against the limits.\<close>

definition check_limits :: "reservation_request \<Rightarrow> usage_limits \<Rightarrow> metrics_db \<Rightarrow> metrics_error + unit" where
  "check_limits q limits db =
     (let start_ms = mp_start_ms (rr_period q);
          used = filter (\<lambda>h. hr_period_start_ms h = start_ms) (md_hourly db);
          held = filter (active_in start_ms) (md_reservations db)
      in
      bindr (select_sum (map hr_read_units used)) (\<lambda>reads.
      bindr (select_sum (map hr_write_units used)) (\<lambda>writes.
      bindr (select_sum (map ur_read_units held)) (\<lambda>reserved_reads.
      bindr (select_sum (map ur_write_units held)) (\<lambda>reserved_writes.
      bindr (select_sum (map ur_storage_growth_bytes held)) (\<lambda>reserved_storage.
      bindr (select_sum (map tr_logical_bytes (md_current db))) (\<lambda>storage.
      bindr (limit_check (ul_enforce_read_limit limits) reads reserved_reads (rr_read_units q)
               (ul_read_units limits) ''read_units'') (\<lambda>_.
      bindr (limit_check (ul_enforce_write_limit limits) writes reserved_writes (rr_write_units q)
               (ul_write_units limits) ''write_units'') (\<lambda>_.
      limit_check (ul_enforce_storage_limit limits) storage reserved_storage (rr_storage_growth_bytes q)
               (ul_storage_bytes limits) ''storage_bytes'')))))))))"

definition claim_subject :: "reservation_request \<Rightarrow> usage_limits \<Rightarrow> bool metrics_tx" where
  "claim_subject q limits db =
     (case rr_active_subject_hash q of
        None \<Rightarrow> Ok (False, db)
      | Some subject \<Rightarrow>
          (let start_ms = mp_start_ms (rr_period q);
               existing = row_where (claim_key start_ms subject) (md_claims db);
               claimed = count_rows (\<lambda>c. ac_period_start_ms c = start_ms
                 \<and> (ac_active c \<or> ac_reservation_count c > 0)) (md_claims db)
           in
           bindr (if existing = None \<and> ul_enforce_mau_limit limits
                  then enforce_limit claimed 1 (ul_monthly_active_users limits) ''monthly_active_users''
                  else Ok ()) (\<lambda>_.
             Ok (True, db\<lparr>md_claims := upsert (claim_key start_ms subject)
               \<lparr>ac_period_start_ms = start_ms, ac_period_end_ms = mp_end_ms (rr_period q), ac_subject_hash = subject,
                ac_active = False, ac_reservation_count = 1, ac_first_seen_ms = None, ac_last_seen_ms = None\<rparr>
               (\<lambda>c. c\<lparr>ac_reservation_count := ac_reservation_count c + 1\<rparr>) (md_claims db)\<rparr>))))"

definition insert_reservation :: "(string \<Rightarrow> string) \<Rightarrow> reservation_request \<Rightarrow> bool \<Rightarrow> unit metrics_tx" where
  "insert_reservation sha q mau_claimed db =
     bindr (to_i64 (rr_read_units q)) (\<lambda>reads.
     bindr (to_i64 (rr_write_units q)) (\<lambda>writes.
     bindr (to_i64 (rr_storage_growth_bytes q)) (\<lambda>growth.
       Ok ((), db\<lparr>md_reservations := md_reservations db @ [\<lparr>ur_reservation_id = rr_reservation_id q,
         ur_request_sha256 = reservation_digest sha q, ur_project_id = uuid_text (rr_project_id q),
         ur_period_start_ms = mp_start_ms (rr_period q), ur_period_end_ms = mp_end_ms (rr_period q),
         ur_created_at_ms = rr_created_at_ms q, ur_expires_at_ms = rr_expires_at_ms q,
         ur_read_units = reads, ur_write_units = writes, ur_storage_growth_bytes = growth,
         ur_subject_hash = rr_active_subject_hash q, ur_mau_claimed = mau_claimed, ur_status = ''active'',
         ur_event_id = None, ur_resolved_at_ms = None\<rparr>]\<rparr>))))"

text \<open>
  The transaction of \<open>reserve\<close>: the stored status of an earlier request with the same identifier,
  or a new reservation.
\<close>

definition reserve_tx :: "(string \<Rightarrow> string) \<Rightarrow> reservation_request \<Rightarrow> usage_limits \<Rightarrow> string option metrics_tx" where
  "reserve_tx sha q limits =
     tx_bind (ensure_period (rr_period q)) (\<lambda>_.
     tx_bind (ensure_accepting (rr_period q) (rr_created_at_ms q)) (\<lambda>_.
     tx_bind (expire_reservations (rr_created_at_ms q)) (\<lambda>_ db.
       case usage_reservation (rr_reservation_id q) db of
         Some r \<Rightarrow>
           if ur_request_sha256 r \<noteq> reservation_digest sha q then Err HashConflict
           else Ok (Some (ur_status r), db)
       | None \<Rightarrow>
           tx_bind (tx_lift (check_limits q limits db)) (\<lambda>_.
           tx_bind (claim_subject q limits) (\<lambda>mau_claimed.
           tx_bind (insert_reservation sha q mau_claimed) (\<lambda>_.
             tx_lift (Ok None)))) db)))"

definition reserve :: "(string \<Rightarrow> string) \<Rightarrow> reservation_request \<Rightarrow> usage_limits \<Rightarrow> reservation_admission metrics_op" where
  "reserve sha q limits db =
     (case validate_reservation q of
        Inl e \<Rightarrow> (Err e, db)
      | Inr _ \<Rightarrow>
          (case metrics_transaction (reserve_tx sha q limits) db of
             (Inl e, db') \<Rightarrow> (Err e, db')
           | (Inr None, db') \<Rightarrow> (Ok Reserved, db')
           | (Inr (Some s), db') \<Rightarrow>
               (bindr (parse_reservation_status s) (\<lambda>st. Ok (Reservation_Duplicate st)), db')))"

definition release_tx :: "string \<Rightarrow> int \<Rightarrow> usage_reservation_status metrics_tx" where
  "release_tx rid now_ms db =
     bindr (ok_or (usage_reservation rid db) ReservationNotFound) (\<lambda>r.
     bindr (parse_reservation_status (ur_status r)) (\<lambda>status.
       if status = Res_Active then
         bindr (release_mau_claim r db) (\<lambda>(_, db').
           Ok (Res_Released, db'\<lparr>md_reservations := update_where
             (\<lambda>x. ur_reservation_id x = rid \<and> ur_status x = ''active'')
             (\<lambda>x. x\<lparr>ur_status := ''released'', ur_resolved_at_ms := Some now_ms\<rparr>) (md_reservations db')\<rparr>))
       else Ok (status, db)))"

definition release_usage_reservation :: "string \<Rightarrow> int \<Rightarrow> usage_reservation_status metrics_op" where
  "release_usage_reservation rid now_ms db =
     (case validate_identifier rid of
        Inl e \<Rightarrow> (Err e, db)
      | Inr _ \<Rightarrow>
          if now_ms < 0 then (Err InvalidInput, db)
          else metrics_transaction (release_tx rid now_ms) db)"

definition get_reservation_context ::
    "(string \<Rightarrow> string option) \<Rightarrow> string \<Rightarrow> metrics_db \<Rightarrow> metrics_error + reservation_context option" where
  "get_reservation_context parse_uuid rid db =
     bindr (validate_identifier rid) (\<lambda>_.
       case usage_reservation rid db of
         None \<Rightarrow> Ok None
       | Some r \<Rightarrow>
           bindr (ok_or (parse_uuid (ur_project_id r)) Metrics_Unavailable) (\<lambda>project.
           bindr (parse_reservation_status (ur_status r)) (\<lambda>status.
             Ok (Some \<lparr>rc_project_id = project, rc_period_start_ms = ur_period_start_ms r,
               rc_period_end_ms = ur_period_end_ms r, rc_status = status\<rparr>))))"

end
