(* ===== verification/Metrics_Ingest.thy ===== *)
theory Metrics_Ingest
  imports Metrics_Usage
begin

text \<open>
  \<open>crates/org-metrics/src/lib.rs\<close>: ingestion of usage events, directly or by settling a reservation,
  the summary of a period with its storage integral, and the sealing of a period.
\<close>

section \<open>Ingestion\<close>

definition hourly_key :: "int \<Rightarrow> int \<Rightarrow> string \<Rightarrow> hourly_row \<Rightarrow> bool" where
  "hourly_key start_ms bucket project h \<longleftrightarrow>
     hr_period_start_ms h = start_ms \<and> hr_bucket_start_ms h = bucket \<and> hr_project_id h = project"

definition bucket_of :: "int \<Rightarrow> int" where
  "bucket_of t = t - t mod HOUR_MS"

definition add_usage :: "usage_event \<Rightarrow> int \<Rightarrow> int \<Rightarrow> hourly_row list \<Rightarrow> hourly_row list" where
  "add_usage e reads writes rows =
     (let start_ms = mp_start_ms (ue_period e);
          bucket = bucket_of (ue_occurred_at_ms e);
          project = uuid_text (ue_project_id e)
      in upsert (hourly_key start_ms bucket project)
           \<lparr>hr_period_start_ms = start_ms, hr_bucket_start_ms = bucket, hr_project_id = project,
            hr_read_units = reads, hr_write_units = writes\<rparr>
           (\<lambda>h. h\<lparr>hr_read_units := hr_read_units h + reads, hr_write_units := hr_write_units h + writes\<rparr>) rows)"

text \<open>One storage snapshot: the history gains a row, the current size follows the latest event.\<close>

definition newer :: "transition_row \<Rightarrow> transition_row \<Rightarrow> bool" where
  "newer t c \<longleftrightarrow> (tr_occurred_at_ms c, tr_event_id c) < (tr_occurred_at_ms t, tr_event_id t)"

definition record_snapshot :: "usage_event \<Rightarrow> storage_snapshot \<Rightarrow> unit metrics_tx" where
  "record_snapshot e s db =
     bindr (to_i64 (sn_logical_bytes s)) (\<lambda>bytes.
       let t = \<lparr>tr_resource_id = sn_resource_id s, tr_occurred_at_ms = ue_occurred_at_ms e,
                tr_event_id = ue_event_id e, tr_logical_bytes = bytes\<rparr> in
       if list_ex (\<lambda>x. tr_resource_id x = tr_resource_id t \<and> tr_occurred_at_ms x = tr_occurred_at_ms t
            \<and> tr_event_id x = tr_event_id t) (md_transitions db)
       then Err Metrics_Unavailable
       else Ok ((), db\<lparr>md_transitions := md_transitions db @ [t],
              md_current := upsert (\<lambda>c. tr_resource_id c = tr_resource_id t) t
                (\<lambda>c. if newer t c then t else c) (md_current db)\<rparr>))"

fun record_snapshots :: "usage_event \<Rightarrow> storage_snapshot list \<Rightarrow> unit metrics_tx" where
  "record_snapshots e [] db = Ok ((), db)"
| "record_snapshots e (s # ss) db = tx_bind (record_snapshot e s) (\<lambda>_. record_snapshots e ss) db"

definition stored_receipt :: "string \<Rightarrow> metrics_db \<Rightarrow> event_receipt_row option" where
  "stored_receipt eid db = row_where (\<lambda>r. er_event_id r = eid) (md_receipts db)"

definition insert_receipt :: "(string \<Rightarrow> string) \<Rightarrow> usage_event \<Rightarrow> metrics_db \<Rightarrow> metrics_db" where
  "insert_receipt sha e db = db\<lparr>md_receipts := md_receipts db @ [\<lparr>er_event_id = ue_event_id e,
     er_payload_sha256 = event_digest sha e, er_project_id = uuid_text (ue_project_id e),
     er_period_start_ms = mp_start_ms (ue_period e), er_occurred_at_ms = ue_occurred_at_ms e,
     er_recorded_at_ms = ue_recorded_at_ms e\<rparr>]\<rparr>"

definition add_event_usage :: "usage_event \<Rightarrow> unit metrics_tx" where
  "add_event_usage e db =
     bindr (to_i64 (ue_read_units e)) (\<lambda>reads.
     bindr (to_i64 (ue_write_units e)) (\<lambda>writes.
       Ok ((), db\<lparr>md_hourly := add_usage e reads writes (md_hourly db)\<rparr>)))"

definition mark_event_subject :: "usage_event \<Rightarrow> unit metrics_tx" where
  "mark_event_subject e db =
     Ok ((), case ue_active_subject_hash e of
         None \<Rightarrow> db
       | Some subject \<Rightarrow> db\<lparr>md_claims := mark_active (mp_start_ms (ue_period e)) (mp_end_ms (ue_period e)) subject
           (ue_occurred_at_ms e) (md_claims db)\<rparr>)"

definition ingest_event :: "(string \<Rightarrow> string) \<Rightarrow> usage_event \<Rightarrow> ingest_outcome metrics_tx" where
  "ingest_event sha e =
     tx_bind (ensure_period (ue_period e)) (\<lambda>_ db.
       case stored_receipt (ue_event_id e) db of
         Some r \<Rightarrow>
           if er_payload_sha256 r = event_digest sha e then Ok (Ingest_Duplicate, db) else Err HashConflict
       | None \<Rightarrow>
           tx_bind (add_event_usage e) (\<lambda>_.
           tx_bind (mark_event_subject e) (\<lambda>_.
           tx_bind (record_snapshots e (ue_storage_snapshots e)) (\<lambda>_.
             tx_lift (Ok Inserted)))) (insert_receipt sha e db))"

definition record_usage_event :: "(string \<Rightarrow> string) \<Rightarrow> usage_event \<Rightarrow> ingest_outcome metrics_op" where
  "record_usage_event sha e db =
     (case validate_event e of
        Inl err \<Rightarrow> (Err err, db)
      | Inr _ \<Rightarrow>
          metrics_transaction (tx_bind (ensure_period (ue_period e)) (\<lambda>_.
            tx_bind (ensure_accepting (ue_period e) (ue_recorded_at_ms e)) (\<lambda>_.
              ingest_event sha e))) db)"

section \<open>Settlement\<close>

definition reservation_covers :: "usage_reservation_row \<Rightarrow> usage_event \<Rightarrow> metrics_error + unit" where
  "reservation_covers r e =
     (if ur_project_id r \<noteq> uuid_text (ue_project_id e)
        \<or> ur_period_start_ms r \<noteq> mp_start_ms (ue_period e)
        \<or> ur_period_end_ms r \<noteq> mp_end_ms (ue_period e)
      then Err ReservationMismatch
      else bindr (as_u64 (ur_read_units r)) (\<lambda>reads.
        if ue_read_units e > reads then Err ReservationMismatch
        else bindr (as_u64 (ur_write_units r)) (\<lambda>writes.
          if ue_write_units e > writes \<or> ur_subject_hash r \<noteq> ue_active_subject_hash e
          then Err ReservationMismatch else Ok ())))"

definition settle_tx :: "(string \<Rightarrow> string) \<Rightarrow> string \<Rightarrow> usage_event \<Rightarrow> ingest_outcome metrics_tx" where
  "settle_tx sha rid e db =
     bindr (ok_or (usage_reservation rid db) ReservationNotFound) (\<lambda>r.
     bindr (parse_reservation_status (ur_status r)) (\<lambda>status.
       if status = Res_Settled then
         (if ur_event_id r = Some (ue_event_id e) then ingest_event sha e db else Err ReservationMismatch)
       else if status = Res_Released then Err ReservationMismatch
       else
         tx_bind (tx_lift (reservation_covers r e)) (\<lambda>_.
         tx_bind (ensure_accepting (ue_period e) (ue_recorded_at_ms e)) (\<lambda>_.
         tx_bind (ingest_event sha e) (\<lambda>outcome.
         tx_bind (activate_mau_claim r (ue_recorded_at_ms e)) (\<lambda>_ db'.
           Ok (outcome, db'\<lparr>md_reservations := update_where
             (\<lambda>x. ur_reservation_id x = rid \<and> ur_status x \<in> {''active'', ''expired''})
             (\<lambda>x. x\<lparr>ur_status := ''settled'', ur_event_id := Some (ue_event_id e),
                ur_resolved_at_ms := Some (ue_recorded_at_ms e)\<rparr>) (md_reservations db')\<rparr>))))) db))"

definition settle_reservation :: "(string \<Rightarrow> string) \<Rightarrow> string \<Rightarrow> usage_event \<Rightarrow> ingest_outcome metrics_op" where
  "settle_reservation sha rid e db =
     (case bindr (validate_identifier rid) (\<lambda>_. validate_event e) of
        Inl err \<Rightarrow> (Err err, db)
      | Inr _ \<Rightarrow> metrics_transaction (settle_tx sha rid e) db)"

section \<open>Summaries\<close>

text \<open>
  The loop of \<open>storage_integral\<close> over the transitions of one resource, in order of time: the size
  that holds, the time up to which it has been integrated, and the integral so far.
\<close>

definition u128_max :: nat where "u128_max = 2 ^ 128 - 1"

definition integrate :: "nat \<Rightarrow> nat \<Rightarrow> int \<Rightarrow> metrics_error + nat" where
  "integrate acc current duration =
     (if duration < 0 then Err Metrics_Unavailable
      else if acc + current * nat duration > u128_max then Err Metrics_Unavailable
      else Ok (acc + current * nat duration))"

fun integrate_resource :: "int \<Rightarrow> (int \<times> nat) list \<Rightarrow> nat \<Rightarrow> int \<Rightarrow> nat \<Rightarrow> metrics_error + nat \<times> int \<times> nat" where
  "integrate_resource start_ms [] current cursor acc = Ok (current, cursor, acc)"
| "integrate_resource start_ms ((at, bytes) # ts) current cursor acc =
     (if at \<le> start_ms then integrate_resource start_ms ts bytes cursor acc
      else bindr (integrate acc current (saturating_sub_i64 at cursor)) (\<lambda>acc'.
        integrate_resource start_ms ts bytes at acc'))"

fun integrate_resources :: "int \<Rightarrow> int \<Rightarrow> (string \<times> (int \<times> nat) list) list \<Rightarrow> nat \<Rightarrow> nat \<Rightarrow> metrics_error + nat \<times> nat" where
  "integrate_resources start_ms end_ms [] at_end acc = Ok (at_end, acc)"
| "integrate_resources start_ms end_ms ((rid, ts) # rs) at_end acc =
     bindr (integrate_resource start_ms ts 0 start_ms acc) (\<lambda>(current, cursor, acc1).
     bindr (integrate acc1 current (saturating_sub_i64 end_ms cursor)) (\<lambda>acc2.
     bindr (ok_or (checked_add_u64 at_end current) Metrics_Unavailable) (\<lambda>at_end'.
       integrate_resources start_ms end_ms rs at_end' acc2)))"

text \<open>The rows read for the integral, grouped by resource in a \<open>BTreeMap\<close>.\<close>

definition transitions_before :: "int \<Rightarrow> transition_row list \<Rightarrow> transition_row list" where
  "transitions_before end_ms ts =
     sort_key (\<lambda>t. (tr_resource_id t, tr_occurred_at_ms t, tr_event_id t))
       (filter (\<lambda>t. tr_occurred_at_ms t < end_ms) ts)"

definition push_transition ::
    "transition_row \<Rightarrow> (string, (int \<times> nat) list) btree_map \<Rightarrow> metrics_error + (string, (int \<times> nat) list) btree_map" where
  "push_transition t m =
     bindr (as_u64 (tr_logical_bytes t)) (\<lambda>bytes.
       Ok (bt_insert (tr_resource_id t)
         ((case bt_get m (tr_resource_id t) of None \<Rightarrow> [] | Some xs \<Rightarrow> xs) @ [(tr_occurred_at_ms t, bytes)]) m))"

fun group_transitions ::
    "transition_row list \<Rightarrow> (string, (int \<times> nat) list) btree_map \<Rightarrow> metrics_error + (string, (int \<times> nat) list) btree_map" where
  "group_transitions [] m = Ok m"
| "group_transitions (t # ts) m = bindr (push_transition t m) (group_transitions ts)"

definition storage_integral :: "transition_row list \<Rightarrow> int \<Rightarrow> int \<Rightarrow> metrics_error + nat \<times> nat" where
  "storage_integral rows start_ms end_ms =
     bindr (group_transitions (transitions_before end_ms rows) []) (\<lambda>resources.
       integrate_resources start_ms end_ms resources 0 0)"

definition summary_through :: "metering_period \<Rightarrow> int \<Rightarrow> metrics_db \<Rightarrow> metrics_error + usage_summary" where
  "summary_through p through_ms db =
     bindr (period_validate p) (\<lambda>_.
       if through_ms \<le> mp_start_ms p \<or> through_ms > mp_end_ms p then Err InvalidInput
       else
         (let used = filter (\<lambda>h. hr_period_start_ms h = mp_start_ms p \<and> hr_bucket_start_ms h < through_ms) (md_hourly db) in
          bindr (select_sum (map hr_read_units used)) (\<lambda>reads.
          bindr (select_sum (map hr_write_units used)) (\<lambda>writes.
          bindr (storage_integral (md_transitions db) (mp_start_ms p) through_ms) (\<lambda>(at_end, byte_ms).
          bindr (as_u64 reads) (\<lambda>r.
          bindr (as_u64 writes) (\<lambda>w.
            Ok \<lparr>us_read_units = r, us_write_units = w,
              us_monthly_active_users = count_rows (\<lambda>c. ac_period_start_ms c = mp_start_ms p \<and> ac_active c
                \<and> (case ac_first_seen_ms c of None \<Rightarrow> False | Some t \<Rightarrow> t < through_ms)) (md_claims db),
              us_storage_bytes_at_end = at_end, us_storage_byte_milliseconds = byte_ms\<rparr>)))))))"

definition summary :: "metering_period \<Rightarrow> metrics_db \<Rightarrow> metrics_error + usage_summary" where
  "summary p = summary_through p (mp_end_ms p)"

definition storage_resource_bytes :: "string \<Rightarrow> metrics_db \<Rightarrow> metrics_error + nat" where
  "storage_resource_bytes rid db =
     bindr (validate_resource_id rid) (\<lambda>_.
       as_u64 (case row_where (\<lambda>c. tr_resource_id c = rid) (md_current db) of
           None \<Rightarrow> 0 | Some c \<Rightarrow> tr_logical_bytes c))"

section \<open>Status and sealing\<close>

text \<open>
  These run outside a transaction: a period that \<open>ensure_period\<close> inserts stays when a later step
  fails.
\<close>

definition autocommit :: "unit metrics_tx \<Rightarrow> (metrics_db \<Rightarrow> (metrics_error + 'a) \<times> metrics_db) \<Rightarrow> 'a metrics_op" where
  "autocommit m f db = (case m db of Inl e \<Rightarrow> (Err e, db) | Inr (_, db') \<Rightarrow> f db')"

definition period_status :: "metering_period \<Rightarrow> billing_period_status metrics_op" where
  "period_status p =
     autocommit (ensure_period p) (\<lambda>db.
       (case row_where (\<lambda>r. pr_start_ms r = mp_start_ms p \<and> pr_end_ms r = mp_end_ms p) (md_periods db) of
          None \<Rightarrow> Err Metrics_Unavailable
        | Some r \<Rightarrow>
            if pr_status r \<in> {''open'', ''closing''} then Ok Period_Open
            else if pr_status r = ''sealed'' then Ok Period_Sealed
            else if pr_status r = ''finalized'' then Ok Period_Finalized
            else Err Metrics_Unavailable, db))"

definition seal_period :: "metering_period \<Rightarrow> int \<Rightarrow> unit metrics_op" where
  "seal_period p now_ms db =
     (case period_validate p of
        Inl e \<Rightarrow> (Err e, db)
      | Inr _ \<Rightarrow>
          if now_ms < mp_cutoff_ms p then (Err InvalidInput, db)
          else autocommit (ensure_period p) (\<lambda>db.
            (Ok (), db\<lparr>md_periods := update_where
               (\<lambda>r. pr_start_ms r = mp_start_ms p \<and> pr_status r \<in> {''open'', ''closing''})
               (\<lambda>r. r\<lparr>pr_status := ''sealed'', pr_sealed_at_ms := Some now_ms\<rparr>) (md_periods db)\<rparr>)) db)"

end
