(* ===== verification/Metrics_Integral.thy ===== *)
theory Metrics_Integral
  imports Metrics_Ingest
begin

text \<open>
  The storage integral of a summary. The code walks the size changes of each resource in order of
  time and adds size times duration; the reference sums, for every millisecond of the window, the
  size every resource has in that millisecond.
\<close>

section \<open>Sizes in force\<close>

text \<open>The size in force at a time, after the changes of a list in order of time.\<close>

fun size_from :: "nat \<Rightarrow> (int \<times> nat) list \<Rightarrow> int \<Rightarrow> nat" where
  "size_from c [] t = c"
| "size_from c ((at, b) # ts) t = size_from (if at \<le> t then b else c) ts t"

lemma size_from_before: "\<forall>x \<in> set ts. t < fst x \<Longrightarrow> size_from c ts t = c"
  by (induction c ts t rule: size_from.induct) auto

lemma size_from_filter:
  "size_from c ts t = (case rev (filter (\<lambda>x. fst x \<le> t) ts) of [] \<Rightarrow> c | x # _ \<Rightarrow> snd x)"
proof (induction ts arbitrary: c rule: rev_induct)
  case (snoc x ts)
  have "size_from c (ts @ [x]) t = (if fst x \<le> t then snd x else size_from c ts t)" for c
    by (induction c ts t rule: size_from.induct) (auto simp: case_prod_beta, (cases x; auto)+)
  then show ?case using snoc by (auto split: list.splits)
qed simp

definition ordered_from :: "int \<Rightarrow> int \<Rightarrow> (int \<times> nat) list \<Rightarrow> bool" where
  "ordered_from start_ms cursor ts \<longleftrightarrow> start_ms \<le> cursor \<and> sorted (map fst ts)
     \<and> (\<forall>x \<in> set ts. cursor \<le> fst x \<or> fst x \<le> start_ms \<and> cursor = start_ms)"

lemma sum_int_split:
  fixes a b c :: int and f :: "int \<Rightarrow> nat"
  assumes "a \<le> b" and "b \<le> c"
  shows "sum f {a..<c} = sum f {a..<b} + sum f {b..<c}"
proof -
  have "{a..<c} = {a..<b} \<union> {b..<c}" using assms by auto
  then show ?thesis by (simp add: sum.union_disjoint)
qed

lemma saturating_sub_exact:
  "0 \<le> b \<Longrightarrow> b \<le> a \<Longrightarrow> a \<le> i64_max \<Longrightarrow> saturating_sub_i64 a b = a - b"
  by (simp add: saturating_sub_i64_def i64_min_def)

section \<open>One resource\<close>

text \<open>What the loop adds for one resource, the part after the last change included.\<close>

definition resource_run ::
    "int \<Rightarrow> int \<Rightarrow> (int \<times> nat) list \<Rightarrow> nat \<Rightarrow> int \<Rightarrow> nat \<Rightarrow> metrics_error + nat \<times> nat" where
  "resource_run start_ms end_ms ts current cursor acc =
     bindr (integrate_resource start_ms ts current cursor acc) (\<lambda>(c, cur, a).
     bindr (integrate a c (saturating_sub_i64 end_ms cur)) (\<lambda>a'. Ok (c, a')))"

lemma integrate_eq:
  "0 \<le> d \<Longrightarrow> integrate acc c d =
     (if acc + c * nat d \<le> u128_max then Ok (acc + c * nat d) else Err Metrics_Unavailable)"
  by (simp add: integrate_def)

lemma resource_run_eq:
  assumes "ordered_from start_ms cursor ts" and "0 \<le> start_ms" and "cursor < end_ms" and "end_ms \<le> i64_max"
    and "\<forall>x \<in> set ts. fst x < end_ms"
  shows "resource_run start_ms end_ms ts c cursor acc =
    (let total = acc + (\<Sum>t \<in> {cursor..<end_ms}. size_from c ts t) in
     if total \<le> u128_max then Ok (size_from c ts (end_ms - 1), total) else Err Metrics_Unavailable)"
  using assms
proof (induction ts arbitrary: c cursor acc)
  case Nil
  have "saturating_sub_i64 end_ms cursor = end_ms - cursor"
    using Nil by (intro saturating_sub_exact) (auto simp: ordered_from_def)
  then show ?case
    using Nil by (simp add: resource_run_def integrate_eq mult.commute)
next
  case (Cons x ts)
  obtain at b where x: "x = (at, b)" by force
  have before: "at < end_ms" and order: "\<forall>y \<in> set ts. at \<le> fst y"
    using Cons.prems by (auto simp: x ordered_from_def)
  show ?case
  proof (cases "at \<le> start_ms")
    case True
    have "cursor = start_ms \<or> at = start_ms" "at \<le> cursor" "ordered_from start_ms cursor ts"
      using Cons.prems(1) True by (auto simp: x ordered_from_def)
    then have "resource_run start_ms end_ms (x # ts) c cursor acc = resource_run start_ms end_ms ts b cursor acc"
      and "(\<Sum>t \<in> {cursor..<end_ms}. size_from c (x # ts) t) = (\<Sum>t \<in> {cursor..<end_ms}. size_from b ts t)"
      using True by (auto simp: x resource_run_def intro!: sum.cong)
    then show ?thesis
      using Cons.IH [of cursor b acc] Cons.prems \<open>ordered_from start_ms cursor ts\<close> before by (simp add: x)
  next
    case False
    have le: "cursor \<le> at" and ord: "ordered_from start_ms at ts"
      using Cons.prems(1) False order by (auto simp: x ordered_from_def)
    have "saturating_sub_i64 at cursor = at - cursor"
      using Cons.prems le before by (intro saturating_sub_exact) (auto simp: ordered_from_def)
    then have run: "resource_run start_ms end_ms (x # ts) c cursor acc =
        (if acc + c * nat (at - cursor) \<le> u128_max
         then resource_run start_ms end_ms ts b at (acc + c * nat (at - cursor)) else Err Metrics_Unavailable)"
      using False le by (simp add: x resource_run_def integrate_eq)
    have "(\<Sum>t \<in> {cursor..<end_ms}. size_from c (x # ts) t)
        = (\<Sum>t \<in> {cursor..<at}. size_from c (x # ts) t) + (\<Sum>t \<in> {at..<end_ms}. size_from c (x # ts) t)"
      using le before by (intro sum_int_split) auto
    also have "(\<Sum>t \<in> {cursor..<at}. size_from c (x # ts) t) = (\<Sum>t \<in> {cursor..<at}. c)"
      using order by (intro sum.cong) (auto simp: x intro!: size_from_before)
    also have "(\<Sum>t \<in> {at..<end_ms}. size_from c (x # ts) t) = (\<Sum>t \<in> {at..<end_ms}. size_from b ts t)"
      by (intro sum.cong) (auto simp: x)
    finally have total: "(\<Sum>t \<in> {cursor..<end_ms}. size_from c (x # ts) t)
        = c * nat (at - cursor) + (\<Sum>t \<in> {at..<end_ms}. size_from b ts t)"
      by (simp add: mult.commute)
    have "size_from c (x # ts) (end_ms - 1) = size_from b ts (end_ms - 1)"
      using before by (simp add: x)
    then show ?thesis
      using Cons.IH [of at b "acc + c * nat (at - cursor)"] ord before Cons.prems
      by (simp add: run total Let_def add.assoc)
  qed
qed

section \<open>All resources\<close>

lemma integrate_resources_Cons:
  "integrate_resources start_ms end_ms ((rid, ts) # rs) at_end acc =
     bindr (resource_run start_ms end_ms ts 0 start_ms acc) (\<lambda>(current, acc').
     bindr (ok_or (checked_add_u64 at_end current) Metrics_Unavailable) (\<lambda>at_end'.
       integrate_resources start_ms end_ms rs at_end' acc'))"
  by (auto simp: resource_run_def bindr_def split: sum.splits prod.splits)

definition sizes_sum :: "(string \<times> (int \<times> nat) list) list \<Rightarrow> int \<Rightarrow> nat" where
  "sizes_sum rs t = (\<Sum>(rid, ts) \<leftarrow> rs. size_from 0 ts t)"

lemma integrate_resources_eq:
  assumes "\<forall>(rid, ts) \<in> set rs. sorted (map fst ts) \<and> (\<forall>x \<in> set ts. fst x < end_ms)"
    and "0 \<le> start_ms" and "start_ms < end_ms" and "end_ms \<le> i64_max"
  shows "at_end \<le> u64_max \<Longrightarrow> acc \<le> u128_max \<Longrightarrow> integrate_resources start_ms end_ms rs at_end acc =
    (let b = at_end + sizes_sum rs (end_ms - 1); m = acc + (\<Sum>t \<in> {start_ms..<end_ms}. sizes_sum rs t)
     in if b \<le> u64_max \<and> m \<le> u128_max then Ok (b, m) else Err Metrics_Unavailable)"
  using assms(1)
proof (induction rs arbitrary: at_end acc)
  case Nil
  then show ?case by (simp add: sizes_sum_def)
next
  case (Cons r rs)
  obtain rid ts where r: "r = (rid, ts)" by force
  have "ordered_from start_ms start_ms ts" "\<forall>x \<in> set ts. fst x < end_ms"
    using Cons.prems by (auto simp: r ordered_from_def)
  note run = resource_run_eq [OF this(1) assms(2-4) this(2), where c = 0 and acc = acc]
  let ?S = "\<Sum>t \<in> {start_ms..<end_ms}. size_from 0 ts t" and ?c = "size_from 0 ts (end_ms - 1)"
  have sums: "(\<Sum>t \<in> {start_ms..<end_ms}. sizes_sum (r # rs) t) = ?S + (\<Sum>t \<in> {start_ms..<end_ms}. sizes_sum rs t)"
    "sizes_sum (r # rs) (end_ms - 1) = ?c + sizes_sum rs (end_ms - 1)"
    by (simp_all add: sizes_sum_def r sum.distrib)
  show ?case
  proof (cases "acc + ?S \<le> u128_max \<and> at_end + ?c \<le> u64_max")
    case True
    then have "integrate_resources start_ms end_ms (r # rs) at_end acc =
        integrate_resources start_ms end_ms rs (at_end + ?c) (acc + ?S)"
      unfolding r integrate_resources_Cons run by (simp add: checked_add_u64_def)
    also have "\<dots> = (let b = (at_end + ?c) + sizes_sum rs (end_ms - 1);
          m = (acc + ?S) + (\<Sum>t \<in> {start_ms..<end_ms}. sizes_sum rs t)
        in if b \<le> u64_max \<and> m \<le> u128_max then Ok (b, m) else Err Metrics_Unavailable)"
      using Cons.prems(3) True by (intro Cons.IH) auto
    finally show ?thesis by (simp only: sums add.assoc)
  next
    case False
    then have "integrate_resources start_ms end_ms (r # rs) at_end acc = Err Metrics_Unavailable"
      unfolding r integrate_resources_Cons run by (auto simp: checked_add_u64_def Let_def)
    then show ?thesis using False by (auto simp: sums Let_def)
  qed
qed


section \<open>Grouping\<close>

definition change_of :: "transition_row \<Rightarrow> int \<times> nat" where
  "change_of t = (tr_occurred_at_ms t, nat (tr_logical_bytes t))"

definition changes :: "string \<Rightarrow> transition_row list \<Rightarrow> (int \<times> nat) list" where
  "changes rid rows = map change_of (filter (\<lambda>t. tr_resource_id t = rid) rows)"

definition appended :: "'a list option \<Rightarrow> 'a list \<Rightarrow> 'a list option" where
  "appended old new = (if new = [] then old else Some ((case old of None \<Rightarrow> [] | Some xs \<Rightarrow> xs) @ new))"

lemma group_transitions_eq:
  assumes "\<forall>t \<in> set rows. 0 \<le> tr_logical_bytes t" and "bt_wf m"
  shows "\<exists>m'. group_transitions rows m = Ok m' \<and> bt_wf m'
    \<and> (\<forall>rid. bt_get m' rid = appended (bt_get m rid) (changes rid rows))"
  using assms
proof (induction rows arbitrary: m)
  case Nil
  then show ?case by (simp add: appended_def changes_def)
next
  case (Cons t rows)
  let ?m = "bt_insert (tr_resource_id t)
      ((case bt_get m (tr_resource_id t) of None \<Rightarrow> [] | Some xs \<Rightarrow> xs) @ [change_of t]) m"
  have push: "push_transition t m = Ok ?m"
    using Cons.prems by (simp add: push_transition_def as_u64_def change_of_def)
  obtain m' where m': "group_transitions rows ?m = Ok m'" "bt_wf m'"
      "\<forall>rid. bt_get m' rid = appended (bt_get ?m rid) (changes rid rows)"
    using Cons.IH [of ?m] Cons.prems by (auto simp: bt_wf_insert)
  have "bt_get m' rid = appended (bt_get m rid) (changes rid (t # rows))" for rid
    using m'(3) by (auto simp: bt_get_insert appended_def changes_def)
  then show ?case using push m' by simp
qed

lemma bt_wf_sum:
  assumes "bt_wf m"
  shows "(\<Sum>(k, v) \<leftarrow> m. f v) = (\<Sum>k \<in> fst ` set m. f (the (bt_get m k)))"
proof -
  have d: "distinct (map fst m)" using bt_wf_hm_wf [OF assms] by (simp add: hm_wf_def)
  have "(\<Sum>(k, v) \<leftarrow> m. f v) = (\<Sum>k \<leftarrow> map fst m. f (the (bt_get m k)))"
    using d by (auto simp: bt_get_def comp_def case_prod_beta intro!: arg_cong [of _ _ sum_list] map_cong)
  also have "\<dots> = (\<Sum>k \<in> fst ` set m. f (the (bt_get m k)))"
    using sum_list_distinct_conv_sum_set [OF d, of "\<lambda>k. f (the (bt_get m k))"] by simp
  finally show ?thesis .
qed

lemma bt_keys: "fst ` set m = {k. bt_get m k \<noteq> None}"
  by (auto simp: bt_get_def map_of_eq_None_iff)

section \<open>The reference\<close>

text \<open>
  The size of a resource at a time: that of the latest of its changes up to then, where changes at
  the same time are ordered by their event.
\<close>

definition size_at :: "transition_row list \<Rightarrow> string \<Rightarrow> int \<Rightarrow> nat" where
  "size_at rows rid t =
     (let past = filter (\<lambda>x. tr_resource_id x = rid \<and> tr_occurred_at_ms x \<le> t) rows in
      if past = [] then 0
      else nat (tr_logical_bytes (last (sort_key (\<lambda>x. (tr_occurred_at_ms x, tr_event_id x)) past))))"

definition total_size_at :: "transition_row list \<Rightarrow> int \<Rightarrow> nat" where
  "total_size_at rows t = (\<Sum>rid \<in> tr_resource_id ` set rows. size_at rows rid t)"

lemma insort_key_cong:
  assumes "\<And>y. y \<in> set xs \<Longrightarrow> f x \<le> f y \<longleftrightarrow> g x \<le> g y"
  shows "insort_key f x xs = insort_key g x xs"
  using assms by (induction xs) auto

lemma sort_key_cong:
  assumes "\<And>x y. x \<in> set xs \<Longrightarrow> y \<in> set xs \<Longrightarrow> f x \<le> f y \<longleftrightarrow> g x \<le> g y"
  shows "sort_key f xs = sort_key g xs"
  using assms
proof (induction xs)
  case (Cons x xs)
  then have "sort_key f xs = sort_key g xs" by simp
  moreover have "insort_key f x (sort_key g xs) = insort_key g x (sort_key g xs)"
    by (rule insort_key_cong) (use Cons.prems in simp)
  ultimately show ?case by simp
qed simp

lemma sort_key_Nil_iff [simp]: "sort_key f xs = [] \<longleftrightarrow> xs = []"
  by (metis length_0_conv length_sort)

lemma transitions_before_changes:
  "changes rid (transitions_before end_ms rows) = map change_of
     (sort_key (\<lambda>x. (tr_occurred_at_ms x, tr_event_id x))
       (filter (\<lambda>x. tr_resource_id x = rid \<and> tr_occurred_at_ms x < end_ms) rows))"
proof -
  have "filter (\<lambda>t. tr_resource_id t = rid) (transitions_before end_ms rows) =
      sort_key (\<lambda>t. (tr_resource_id t, tr_occurred_at_ms t, tr_event_id t))
        (filter (\<lambda>x. tr_resource_id x = rid \<and> tr_occurred_at_ms x < end_ms) rows)"
    by (auto simp: transitions_before_def filter_sort intro!: arg_cong [of _ _ "sort_key _"] filter_cong)
  also have "\<dots> = sort_key (\<lambda>x. (tr_occurred_at_ms x, tr_event_id x))
        (filter (\<lambda>x. tr_resource_id x = rid \<and> tr_occurred_at_ms x < end_ms) rows)"
    by (intro sort_key_cong) auto
  finally show ?thesis by (simp add: changes_def)
qed

lemma size_from_changes:
  assumes "t < end_ms"
  shows "size_from 0 (changes rid (transitions_before end_ms rows)) t = size_at rows rid t"
proof -
  let ?key = "\<lambda>x. (tr_occurred_at_ms x, tr_event_id x)"
  let ?past = "filter (\<lambda>x. tr_resource_id x = rid \<and> tr_occurred_at_ms x \<le> t) rows"
  have "filter (\<lambda>x. fst x \<le> t) (changes rid (transitions_before end_ms rows))
      = map change_of (sort_key ?key (filter (\<lambda>x. tr_occurred_at_ms x \<le> t)
          (filter (\<lambda>x. tr_resource_id x = rid \<and> tr_occurred_at_ms x < end_ms) rows)))"
    unfolding transitions_before_changes by (simp add: filter_map comp_def change_of_def filter_sort)
  also have "filter (\<lambda>x. tr_occurred_at_ms x \<le> t)
      (filter (\<lambda>x. tr_resource_id x = rid \<and> tr_occurred_at_ms x < end_ms) rows) = ?past"
    using assms by (auto intro!: filter_cong)
  finally have "filter (\<lambda>x. fst x \<le> t) (changes rid (transitions_before end_ms rows))
      = map change_of (sort_key ?key ?past)" .
  moreover have "(case rev (map change_of xs) of [] \<Rightarrow> 0 | x # _ \<Rightarrow> snd x) =
      (if xs = [] then 0 else nat (tr_logical_bytes (last xs)))" for xs
    by (cases xs rule: rev_cases) (simp_all add: change_of_def)
  ultimately show ?thesis
    unfolding size_from_filter size_at_def Let_def by (simp only: sort_key_Nil_iff)
qed

lemma sizes_sum_total:
  assumes "bt_wf m" and "\<And>rid. bt_get m rid = appended None (changes rid (transitions_before end_ms rows))"
    and "t < end_ms"
  shows "sizes_sum m t = total_size_at rows t"
proof -
  let ?ch = "\<lambda>rid. changes rid (transitions_before end_ms rows)"
  have keys: "fst ` set m = {rid. ?ch rid \<noteq> []}"
    using assms(2) by (auto simp: bt_keys appended_def)
  have "sizes_sum m t = (\<Sum>rid \<in> {rid. ?ch rid \<noteq> []}. size_from 0 (the (bt_get m rid)) t)"
    using bt_wf_sum [OF assms(1), of "\<lambda>ts. size_from 0 ts t"] by (simp add: sizes_sum_def keys)
  also have "\<dots> = (\<Sum>rid \<in> {rid. ?ch rid \<noteq> []}. size_at rows rid t)"
    using assms(2,3) by (intro sum.cong) (auto simp: appended_def size_from_changes)
  also have "\<dots> = total_size_at rows t"
    unfolding total_size_at_def
  proof (rule sum.mono_neutral_left)
    show "{rid. ?ch rid \<noteq> []} \<subseteq> tr_resource_id ` set rows"
      by (auto simp: transitions_before_changes filter_empty_conv)
    show "\<forall>rid \<in> tr_resource_id ` set rows - {rid. ?ch rid \<noteq> []}. size_at rows rid t = 0"
      using size_from_changes [OF assms(3)] by (metis DiffE mem_Collect_eq size_from.simps(1))
  qed simp
  finally show ?thesis .
qed

text \<open>
  C33. The storage integral equals the sum, over the milliseconds of the window, of the sizes all
  resources have in that millisecond, and the size at the end is the one in force in the last
  millisecond; it fails exactly when one of the two results does not fit its integer type.
\<close>

theorem storage_integral_is_the_sum_over_time:
  assumes "\<forall>x \<in> set rows. 0 \<le> tr_logical_bytes x" and "0 \<le> start_ms" and "start_ms < end_ms" and "end_ms \<le> i64_max"
  shows "storage_integral rows start_ms end_ms =
    (let bytes_at_end = total_size_at rows (end_ms - 1);
         byte_milliseconds = (\<Sum>t \<in> {start_ms..<end_ms}. total_size_at rows t)
     in if bytes_at_end \<le> u64_max \<and> byte_milliseconds \<le> u128_max then Ok (bytes_at_end, byte_milliseconds)
        else Err Metrics_Unavailable)"
proof -
  have "\<forall>x \<in> set (transitions_before end_ms rows). 0 \<le> tr_logical_bytes x"
    using assms(1) by (simp add: transitions_before_def)
  from group_transitions_eq [OF this bt_wf_Nil] obtain m where m: "group_transitions (transitions_before end_ms rows) [] = Ok m"
      "bt_wf m" "\<And>rid. bt_get m rid = appended None (changes rid (transitions_before end_ms rows))"
    by auto
  have "sorted (map fst ts) \<and> (\<forall>x \<in> set ts. fst x < end_ms)" if "(rid, ts) \<in> set m" for rid ts
  proof -
    have "bt_get m rid = Some ts"
      using that bt_wf_hm_wf [OF m(2)] by (simp add: bt_get_def hm_wf_def)
    then have "ts = changes rid (transitions_before end_ms rows)"
      using m(3) [of rid] by (simp add: appended_def split: if_splits)
    moreover have "sorted (map tr_occurred_at_ms (sort_key (\<lambda>x. (tr_occurred_at_ms x, tr_event_id x)) xs))" for xs
      using sorted_sort_key [of "\<lambda>x. (tr_occurred_at_ms x, tr_event_id x)" xs]
      by (auto simp: sorted_wrt_map elim!: sorted_wrt_mono_rel [rotated])
    ultimately show ?thesis
      by (auto simp: transitions_before_changes change_of_def comp_def)
  qed
  then have "integrate_resources start_ms end_ms m 0 0 =
      (let b = sizes_sum m (end_ms - 1); n = (\<Sum>t \<in> {start_ms..<end_ms}. sizes_sum m t)
       in if b \<le> u64_max \<and> n \<le> u128_max then Ok (b, n) else Err Metrics_Unavailable)"
    using assms(2-4) by (subst integrate_resources_eq) auto
  moreover have "sizes_sum m t = total_size_at rows t" if "t < end_ms" for t
    using sizes_sum_total [OF m(2,3) that] .
  ultimately show ?thesis using m(1) by (simp add: storage_integral_def)
qed

definition demo_transitions :: "transition_row list" where
  "demo_transitions = [
     \<lparr>tr_resource_id = ''a'', tr_occurred_at_ms = 12, tr_event_id = ''e2'', tr_logical_bytes = 7\<rparr>,
     \<lparr>tr_resource_id = ''a'', tr_occurred_at_ms = 5, tr_event_id = ''e1'', tr_logical_bytes = 3\<rparr>,
     \<lparr>tr_resource_id = ''b'', tr_occurred_at_ms = 14, tr_event_id = ''e3'', tr_logical_bytes = 10\<rparr>]"

lemma storage_integral_is_the_sum_over_time_witness:
  "storage_integral demo_transitions 10 20 =
     (let bytes_at_end = total_size_at demo_transitions (20 - 1);
          byte_milliseconds = (\<Sum>t \<in> {10..<20}. total_size_at demo_transitions t)
      in if bytes_at_end \<le> u64_max \<and> byte_milliseconds \<le> u128_max then Ok (bytes_at_end, byte_milliseconds)
         else Err Metrics_Unavailable)
   \<and> storage_integral demo_transitions 10 20 = Ok (17, 122)"
proof (rule conjI)
  show "storage_integral demo_transitions 10 20 =
     (let bytes_at_end = total_size_at demo_transitions (20 - 1);
          byte_milliseconds = (\<Sum>t \<in> {10..<20}. total_size_at demo_transitions t)
      in if bytes_at_end \<le> u64_max \<and> byte_milliseconds \<le> u128_max then Ok (bytes_at_end, byte_milliseconds)
         else Err Metrics_Unavailable)"
    by (rule storage_integral_is_the_sum_over_time) (simp_all add: demo_transitions_def i64_max_def)
qed code_simp

end
