(* ===== verification/Metrics_Outbox.thy ===== *)
theory Metrics_Outbox
  imports Metrics_Ingest
begin

text \<open>
  \<open>crates/org-metrics/src/lib.rs\<close>: the leased outbox of reports to the billing provider, the
  reconciliation with the provider's totals, and the finalization of a period. The lease tokens
  (\<open>Uuid::now_v7\<close>) come from the argument \<open>uuid\<close>, indexed by the position in the batch.
\<close>

section \<open>Reports\<close>

definition validate_report :: "report_request \<Rightarrow> metrics_error + unit" where
  "validate_report r =
     bindr (validate_identifier (rq_identifier r)) (\<lambda>_.
     bindr (validate_identifier (rq_event_name r)) (\<lambda>_.
     bindr (validate_identifier (rq_customer_id r)) (\<lambda>_.
     bindr (period_validate (rq_period r)) (\<lambda>_.
       if rq_window_start_ms r < mp_start_ms (rq_period r)
         \<or> rq_window_end_ms r \<le> rq_window_start_ms r
         \<or> rq_window_end_ms r > mp_end_ms (rq_period r)
         \<or> rq_provider_timestamp_ms r < rq_window_start_ms r
         \<or> rq_provider_timestamp_ms r > rq_window_end_ms r
         \<or> rq_now_ms r < rq_provider_timestamp_ms r
       then Err InvalidInput
       else if rq_quantity r = 0 then Err InvalidInput
       else bindr (to_i64 (rq_quantity r)) (\<lambda>_. Ok ())))))"

definition report_digest :: "(string \<Rightarrow> string) \<Rightarrow> report_request \<Rightarrow> string" where
  "report_digest sha r = sha (
     ''ffdb.metrics.stripe-report.v1'' @ [nul] @ rq_identifier r @ rq_event_name r @ rq_customer_id r
     @ be64_int (mp_start_ms (rq_period r)) @ be64_int (mp_end_ms (rq_period r))
     @ usage_dimension_str (rq_dimension r)
     @ be64_int (rq_window_start_ms r) @ be64_int (rq_window_end_ms r)
     @ be64 (rq_quantity r) @ be64_int (rq_provider_timestamp_ms r))"

definition parse_dimension :: "string \<Rightarrow> metrics_error + usage_dimension" where
  "parse_dimension s =
     (if s = ''read_units'' then Ok ReadUnits
      else if s = ''write_units'' then Ok WriteUnits
      else if s = ''monthly_active_users'' then Ok MonthlyActiveUsers
      else if s = ''storage_byte_milliseconds'' then Ok StorageByteMilliseconds
      else Err Metrics_Unavailable)"

definition outbox_at :: "string \<Rightarrow> metrics_db \<Rightarrow> outbox_row option" where
  "outbox_at i db = row_where (\<lambda>r. ox_identifier r = i) (md_outbox db)"

definition enqueue_tx :: "(string \<Rightarrow> string) \<Rightarrow> report_request \<Rightarrow> ingest_outcome metrics_tx" where
  "enqueue_tx sha r =
     tx_bind (ensure_period (rq_period r)) (\<lambda>_ db.
       case outbox_at (rq_identifier r) db of
         Some x \<Rightarrow>
           if ox_payload_sha256 x = report_digest sha r then Ok (Ingest_Duplicate, db) else Err HashConflict
       | None \<Rightarrow>
           bindr (to_i64 (rq_quantity r)) (\<lambda>quantity.
             Ok (Inserted, db\<lparr>md_outbox := md_outbox db @ [\<lparr>ox_identifier = rq_identifier r,
               ox_payload_sha256 = report_digest sha r, ox_event_name = rq_event_name r,
               ox_customer_id = rq_customer_id r, ox_period_start_ms = mp_start_ms (rq_period r),
               ox_period_end_ms = mp_end_ms (rq_period r), ox_dimension = usage_dimension_str (rq_dimension r),
               ox_window_start_ms = rq_window_start_ms r, ox_window_end_ms = rq_window_end_ms r,
               ox_quantity = quantity, ox_provider_timestamp_ms = rq_provider_timestamp_ms r,
               ox_state = ''pending'', ox_attempt_count = 0, ox_next_attempt_ms = rq_now_ms r,
               ox_lease_token = None, ox_lease_expires_ms = None, ox_provider_event_id = None,
               ox_last_error = None, ox_created_at_ms = rq_now_ms r, ox_acknowledged_at_ms = None\<rparr>]\<rparr>)))"

definition enqueue_report :: "(string \<Rightarrow> string) \<Rightarrow> report_request \<Rightarrow> ingest_outcome metrics_op" where
  "enqueue_report sha r db =
     (case validate_report r of
        Inl e \<Rightarrow> (Err e, db)
      | Inr _ \<Rightarrow> metrics_transaction (enqueue_tx sha r) db)"

definition outbox_rows :: "metering_period \<Rightarrow> metrics_db \<Rightarrow> outbox_row list" where
  "outbox_rows p db = filter (\<lambda>r. ox_period_start_ms r = mp_start_ms p \<and> ox_period_end_ms r = mp_end_ms p) (md_outbox db)"

definition get_reporting_progress :: "metering_period \<Rightarrow> usage_dimension \<Rightarrow> metrics_db \<Rightarrow> metrics_error + reporting_progress" where
  "get_reporting_progress p d db =
     bindr (period_validate p) (\<lambda>_.
       let rows = filter (\<lambda>r. ox_dimension r = usage_dimension_str d) (outbox_rows p db) in
       bindr (select_sum (map ox_quantity rows)) (\<lambda>quantity.
       bindr (as_u64 quantity) (\<lambda>q.
         Ok \<lparr>rp_enqueued_quantity = q, rp_latest_window_end_ms = select_max (map ox_window_end_ms rows)\<rparr>)))"

definition get_outbox_checkpoint :: "metering_period \<Rightarrow> metrics_db \<Rightarrow> metrics_error + outbox_checkpoint" where
  "get_outbox_checkpoint p db =
     bindr (period_validate p) (\<lambda>_.
       let rows = outbox_rows p db in
       Ok \<lparr>oc_outstanding = count_rows (\<lambda>r. ox_state r \<noteq> ''acknowledged'') rows,
          oc_failed = count_rows (\<lambda>r. ox_state r = ''failed'') rows,
          oc_last_acknowledged_at_ms = select_max (List.map_filter ox_acknowledged_at_ms rows)\<rparr>)"

section \<open>Claims\<close>

definition claimable :: "int \<Rightarrow> outbox_row \<Rightarrow> bool" where
  "claimable now_ms r \<longleftrightarrow>
     (ox_state r \<in> {''pending'', ''failed''} \<and> ox_next_attempt_ms r \<le> now_ms)
     \<or> (ox_state r = ''in_flight'' \<and> (case ox_lease_expires_ms r of None \<Rightarrow> False | Some t \<Rightarrow> t \<le> now_ms))"

definition due_reports :: "metering_period option \<Rightarrow> int \<Rightarrow> nat \<Rightarrow> metrics_db \<Rightarrow> outbox_row list" where
  "due_reports p now_ms limit db =
     take limit (sort_key (\<lambda>r. (ox_provider_timestamp_ms r, ox_identifier r))
       (filter (\<lambda>r. (case p of None \<Rightarrow> True
            | Some q \<Rightarrow> ox_period_start_ms r = mp_start_ms q \<and> ox_period_end_ms r = mp_end_ms q)
          \<and> claimable now_ms r) (md_outbox db)))"

definition claim_report :: "string \<Rightarrow> int \<Rightarrow> int \<Rightarrow> outbox_row \<Rightarrow> claimed_report option metrics_tx" where
  "claim_report lease_token now_ms lease_duration_ms r db =
     (let hit = (\<lambda>x. ox_identifier x = ox_identifier r \<and> claimable now_ms x);
          db' = db\<lparr>md_outbox := update_where hit
            (\<lambda>x. x\<lparr>ox_state := ''in_flight'', ox_attempt_count := ox_attempt_count x + 1,
               ox_lease_token := Some lease_token,
               ox_lease_expires_ms := Some (saturating_add_i64 now_ms lease_duration_ms),
               ox_last_error := None\<rparr>) (md_outbox db)\<rparr>
      in
      if count_rows hit (md_outbox db) = 1 then
        bindr (parse_dimension (ox_dimension r)) (\<lambda>d.
        bindr (as_u64 (ox_quantity r)) (\<lambda>q.
          let attempt = saturating_add_i64 (ox_attempt_count r) 1 in
          if attempt < 0 \<or> attempt > int u32_max then Err Metrics_Unavailable
          else Ok (Some \<lparr>cl_identifier = ox_identifier r, cl_event_name = ox_event_name r,
            cl_customer_id = ox_customer_id r, cl_dimension = d, cl_quantity = q,
            cl_provider_timestamp_ms = ox_provider_timestamp_ms r, cl_lease_token = lease_token,
            cl_attempt = nat attempt\<rparr>, db')))
      else Ok (None, db'))"

fun claim_rows :: "(nat \<Rightarrow> string) \<Rightarrow> nat \<Rightarrow> int \<Rightarrow> int \<Rightarrow> outbox_row list \<Rightarrow> claimed_report list metrics_tx" where
  "claim_rows uuid i now_ms lease_duration_ms [] db = Ok ([], db)"
| "claim_rows uuid i now_ms lease_duration_ms (r # rs) db =
     tx_bind (claim_report (uuid i) now_ms lease_duration_ms r) (\<lambda>c.
     tx_bind (claim_rows uuid (Suc i) now_ms lease_duration_ms rs) (\<lambda>cs.
       tx_lift (Ok (case c of None \<Rightarrow> cs | Some x \<Rightarrow> x # cs)))) db"

definition claim_reports_inner ::
    "(nat \<Rightarrow> string) \<Rightarrow> metering_period option \<Rightarrow> int \<Rightarrow> int \<Rightarrow> nat \<Rightarrow> claimed_report list metrics_op" where
  "claim_reports_inner uuid p now_ms lease_duration_ms limit db =
     (if now_ms < 0 \<or> lease_duration_ms < 1000 \<or> lease_duration_ms > 10 * 60 * 1000 \<or> limit < 1 \<or> limit > 100
      then (Err InvalidInput, db)
      else metrics_transaction (\<lambda>db. claim_rows uuid 0 now_ms lease_duration_ms (due_reports p now_ms limit db) db) db)"

definition claim_reports :: "(nat \<Rightarrow> string) \<Rightarrow> int \<Rightarrow> int \<Rightarrow> nat \<Rightarrow> claimed_report list metrics_op" where
  "claim_reports uuid now_ms lease_duration_ms limit = claim_reports_inner uuid None now_ms lease_duration_ms limit"

definition claim_reports_for_period ::
    "(nat \<Rightarrow> string) \<Rightarrow> metering_period \<Rightarrow> int \<Rightarrow> int \<Rightarrow> nat \<Rightarrow> claimed_report list metrics_op" where
  "claim_reports_for_period uuid p now_ms lease_duration_ms limit db =
     (case period_validate p of
        Inl e \<Rightarrow> (Err e, db)
      | Inr _ \<Rightarrow> claim_reports_inner uuid (Some p) now_ms lease_duration_ms limit db)"

section \<open>Acknowledgement and failure\<close>

definition leased :: "string \<Rightarrow> string \<Rightarrow> outbox_row \<Rightarrow> bool" where
  "leased i token r \<longleftrightarrow> ox_identifier r = i \<and> ox_state r = ''in_flight'' \<and> ox_lease_token r = Some token"

definition acknowledge_report :: "string \<Rightarrow> string \<Rightarrow> string \<Rightarrow> int \<Rightarrow> unit metrics_op" where
  "acknowledge_report i token provider_event_id now_ms db =
     (case check_all [validate_identifier i, validate_identifier token, validate_identifier provider_event_id] of
        Inl e \<Rightarrow> (Err e, db)
      | Inr _ \<Rightarrow>
          (if count_rows (leased i token) (md_outbox db) = 1 then Ok () else Err StaleLease,
           db\<lparr>md_outbox := update_where (leased i token)
             (\<lambda>r. r\<lparr>ox_state := ''acknowledged'', ox_provider_event_id := Some provider_event_id,
                ox_acknowledged_at_ms := Some now_ms, ox_lease_token := None, ox_lease_expires_ms := None,
                ox_last_error := None\<rparr>) (md_outbox db)\<rparr>))"

definition fail_report :: "string \<Rightarrow> string \<Rightarrow> int \<Rightarrow> string \<Rightarrow> unit metrics_op" where
  "fail_report i token retry_at_ms error db =
     (case check_all [validate_identifier i, validate_identifier token] of
        Inl e \<Rightarrow> (Err e, db)
      | Inr _ \<Rightarrow>
          if retry_at_ms < 0 \<or> error = [] \<or> length error > MAX_PROVIDER_ERROR_BYTES then (Err InvalidInput, db)
          else
            (if count_rows (leased i token) (md_outbox db) = 1 then Ok () else Err StaleLease,
             db\<lparr>md_outbox := update_where (leased i token)
               (\<lambda>r. r\<lparr>ox_state := ''failed'', ox_next_attempt_ms := retry_at_ms, ox_last_error := Some error,
                  ox_lease_token := None, ox_lease_expires_ms := None\<rparr>) (md_outbox db)\<rparr>))"

section \<open>Reconciliation and finalization\<close>

definition record_reconciliation ::
    "metering_period \<Rightarrow> usage_dimension \<Rightarrow> nat \<Rightarrow> nat \<Rightarrow> int \<Rightarrow> reconciliation_status metrics_op" where
  "record_reconciliation p d local_quantity provider_quantity checked_at_ms =
     (let status = if local_quantity = provider_quantity then Matched else Mismatched in
      autocommit (ensure_period p) (\<lambda>db.
        case bindr (to_i64 local_quantity) (\<lambda>l. bindr (to_i64 provider_quantity) (\<lambda>q. Ok (l, q))) of
          Inl e \<Rightarrow> (Err e, db)
        | Inr (l, q) \<Rightarrow>
            (let row = \<lparr>rn_period_start_ms = mp_start_ms p, rn_dimension = usage_dimension_str d,
               rn_local_quantity = l, rn_provider_quantity = q,
               rn_status = (if status = Matched then ''matched'' else ''mismatched''),
               rn_checked_at_ms = checked_at_ms\<rparr>
             in (Ok status, db\<lparr>md_reconciliations := upsert
                  (\<lambda>x. rn_period_start_ms x = mp_start_ms p \<and> rn_dimension x = usage_dimension_str d)
                  row (\<lambda>_. row) (md_reconciliations db)\<rparr>))))"

definition finalize_tx :: "metering_period \<Rightarrow> int \<Rightarrow> unit metrics_tx" where
  "finalize_tx p now_ms db =
     bindr (ok_or (row_where (\<lambda>r. pr_start_ms r = mp_start_ms p \<and> pr_end_ms r = mp_end_ms p) (md_periods db))
       ReconciliationPending) (\<lambda>row.
       let outstanding = count_rows (\<lambda>r. ox_period_start_ms r = mp_start_ms p \<and> ox_state r \<noteq> ''acknowledged'') (md_outbox db);
           matched = count_rows (\<lambda>r. rn_period_start_ms r = mp_start_ms p \<and> rn_status r = ''matched'') (md_reconciliations db);
           mismatched = count_rows (\<lambda>r. rn_period_start_ms r = mp_start_ms p \<and> rn_status r = ''mismatched'') (md_reconciliations db)
       in
       if pr_status row \<noteq> ''sealed'' \<or> outstanding \<noteq> 0 \<or> matched \<noteq> 4 \<or> mismatched \<noteq> 0 then Err ReconciliationPending
       else Ok ((), db\<lparr>md_periods := update_where (\<lambda>r. pr_start_ms r = mp_start_ms p \<and> pr_status r = ''sealed'')
         (\<lambda>r. r\<lparr>pr_status := ''finalized'', pr_finalized_at_ms := Some now_ms\<rparr>) (md_periods db)\<rparr>))"

definition finalize_period :: "metering_period \<Rightarrow> int \<Rightarrow> unit metrics_op" where
  "finalize_period p now_ms db =
     (case period_validate p of
        Inl e \<Rightarrow> (Err e, db)
      | Inr _ \<Rightarrow> metrics_transaction (finalize_tx p now_ms) db)"


text \<open>
  The digest of a report joins the event name and the customer without a separator: a replay under
  the same identifier that moves characters from one to the other has the same digest, so that it is
  taken for a duplicate.
\<close>

lemma report_digest_is_ambiguous:
  "report_digest sha (r\<lparr>rq_event_name := a @ b, rq_customer_id := c\<rparr>)
    = report_digest sha (r\<lparr>rq_event_name := a, rq_customer_id := b @ c\<rparr>)"
  by (simp add: report_digest_def)

end
