(* ===== verification/Metrics_Effects.thy ===== *)
theory Metrics_Effects
  imports Metrics_Outbox
begin

text \<open>
  What each operation of the usage ledger does to the tables, and what it leaves alone: one case
  rule per operation, over which the properties are proved.
\<close>

section \<open>Tables\<close>

lemma update_where_map: "(\<And>x. P x \<Longrightarrow> g (f x) = g x) \<Longrightarrow> map g (update_where P f rows) = map g rows"
  by (simp add: update_where_def)

lemma upsert_filter_other:
  assumes "\<And>x. key x \<Longrightarrow> \<not> P x \<and> \<not> P (f x)" and "\<not> P r"
  shows "filter P (upsert key r f rows) = filter P rows"
proof -
  have "filter P (map (\<lambda>x. if key x then f x else x) rows) = filter P rows"
    using assms(1) by (induction rows) auto
  then show ?thesis using assms(2) by (simp add: upsert_def)
qed

lemma row_where_append [simp]:
  "row_where P (xs @ ys) = (case row_where P xs of None \<Rightarrow> row_where P ys | Some x \<Rightarrow> Some x)"
  by (induction xs) (auto simp: row_where_def)

lemma row_where_Nil [simp]: "row_where P [] = None"
  by (simp add: row_where_def)

lemma row_where_Cons [simp]: "row_where P (x # xs) = (if P x then Some x else row_where P xs)"
  by (simp add: row_where_def)

lemma row_where_None_iff: "row_where P xs = None \<longleftrightarrow> (\<forall>x \<in> set xs. \<not> P x)"
  by (auto simp: row_where_def find_None_iff)

lemma row_where_SomeD: "row_where P xs = Some x \<Longrightarrow> x \<in> set xs \<and> P x"
  by (auto simp: row_where_def find_Some_iff)

lemma row_where_update:
  assumes "\<And>x. Q x \<Longrightarrow> P (f x) \<longleftrightarrow> P x"
  shows "row_where P (update_where Q f xs) = map_option (\<lambda>x. if Q x then f x else x) (row_where P xs)"
  using assms by (induction xs) (auto simp: update_where_def)

text \<open>An upsert that adds to the row with a key, or inserts it.\<close>

lemma upsert_keys:
  assumes "distinct (map k rows)" and "\<And>x. k (f x) = k x" and "k r = a"
  shows "distinct (map k (upsert (\<lambda>x. k x = a) r f rows))"
proof -
  have "map k (map (\<lambda>x. if k x = a then f x else x) rows) = map k rows"
    using assms(2) by simp
  then show ?thesis
    using assms by (auto simp: upsert_def list_ex_iff simp del: map_map)
qed

lemma upsert_sum:
  fixes v :: "'r \<Rightarrow> int"
  assumes "distinct (map k rows)" and "\<And>x. k (f x) = k x" and "\<And>x. v (f x) = v x + d" and "k r = a" and "v r = d"
  shows "sum_list (map v (filter (\<lambda>x. P (k x)) (upsert (\<lambda>x. k x = a) r f rows)))
    = sum_list (map v (filter (\<lambda>x. P (k x)) rows)) + (if P a then d else 0)"
proof (cases "list_ex (\<lambda>x. k x = a) rows")
  case True
  then have "sum_list (map v (filter (\<lambda>x. P (k x)) (map (\<lambda>x. if k x = a then f x else x) rows)))
    = sum_list (map v (filter (\<lambda>x. P (k x)) rows)) + (if P a then d else 0)"
    using assms(1)
  proof (induction rows)
    case (Cons x rows)
    show ?case
    proof (cases "k x = a")
      case True
      then have "\<forall>y \<in> set rows. k y \<noteq> a" using Cons.prems(2) by (auto simp: image_iff)
      then have "map (\<lambda>x. if k x = a then f x else x) rows = rows" by (simp add: map_idI)
      then show ?thesis using True assms(2,3) by simp
    next
      case False
      then show ?thesis using Cons by auto
    qed
  qed simp
  then show ?thesis using True by (simp add: upsert_def)
next
  case False
  then show ?thesis using assms by (simp add: upsert_def)
qed

section \<open>What each operation leaves alone\<close>

definition same_usage :: "metrics_db \<Rightarrow> metrics_db \<Rightarrow> bool" where
  "same_usage db db' \<longleftrightarrow> md_hourly db' = md_hourly db \<and> md_receipts db' = md_receipts db"

lemma same_usage_refl [simp]: "same_usage db db"
  by (simp add: same_usage_def)

lemma same_usage_trans [trans]: "same_usage a b \<Longrightarrow> same_usage b c \<Longrightarrow> same_usage a c"
  by (simp add: same_usage_def)

lemma ensure_period_cases:
  assumes "ensure_period p db = Ok (u, db')"
  obtains (Old) r where "db' = db" "period_at (mp_start_ms p) db = Some r"
      "pr_end_ms r = mp_end_ms p" "pr_cutoff_ms r = mp_cutoff_ms p"
    | (New) "period_at (mp_start_ms p) db = None"
      "db' = db\<lparr>md_periods := md_periods db @ [\<lparr>pr_start_ms = mp_start_ms p, pr_end_ms = mp_end_ms p,
             pr_cutoff_ms = mp_cutoff_ms p, pr_status = ''open'', pr_sealed_at_ms = None,
             pr_finalized_at_ms = None\<rparr>]\<rparr>"
  using assms by (auto simp: ensure_period_def ffdb_result split: option.splits if_splits)

lemma ensure_period_same: "ensure_period p db = Ok (u, db') \<Longrightarrow> \<exists>ps. db' = db\<lparr>md_periods := ps\<rparr>"
  by (erule ensure_period_cases) (auto intro: exI [of _ "md_periods db"])

lemma ensure_accepting_Ok:
  "ensure_accepting p t db = Ok (u, db') \<longleftrightarrow>
     db' = db \<and> t \<le> mp_cutoff_ms p
     \<and> (\<exists>r. period_at (mp_start_ms p) db = Some r \<and> pr_status r \<noteq> ''sealed'' \<and> pr_status r \<noteq> ''finalized'')"
  by (auto simp: ensure_accepting_def split: option.splits if_splits)


lemma release_mau_claim_Ok:
  assumes "release_mau_claim r db = Ok (u, db')"
  obtains "db' = db" "\<not> ur_mau_claimed r"
    | subject where "ur_mau_claimed r" "ur_subject_hash r = Some subject"
        "db' = db\<lparr>md_claims := release_claim (ur_period_start_ms r) subject (md_claims db)\<rparr>"
  using assms by (auto simp: release_mau_claim_def split: if_splits option.splits)

lemma activate_mau_claim_Ok:
  assumes "activate_mau_claim r now_ms db = Ok (u, db')"
  shows "\<exists>cs. db' = db\<lparr>md_claims := cs\<rparr>"
  using assms by (auto simp: activate_mau_claim_def Let_def split: if_splits option.splits
      intro: exI [of _ "md_claims db"])

lemma release_claims_Ok:
  "release_claims rs db = Ok (u, db') \<Longrightarrow> \<exists>cs. db' = db\<lparr>md_claims := cs\<rparr>"
proof (induction rs arbitrary: db)
  case (Cons r rs)
  obtain v db1 where "release_mau_claim r db = Ok (v, db1)" "release_claims rs db1 = Ok (u, db')"
    using Cons.prems by (auto simp: ffdb_result)
  moreover obtain cs where "db1 = db\<lparr>md_claims := cs\<rparr>"
    using calculation(1) by (rule release_mau_claim_Ok) (auto intro: that [of "md_claims db"])
  ultimately show ?case using Cons.IH [of db1] by auto
next
  case Nil
  then have "db' = db\<lparr>md_claims := md_claims db\<rparr>" by simp
  then show ?case by blast
qed

lemma expire_reservations_Ok:
  assumes "expire_reservations now_ms db = Ok (u, db')"
  obtains cs where "db' = db\<lparr>md_claims := cs, md_reservations := update_where (expiring now_ms)
      (\<lambda>r. r\<lparr>ur_status := ''expired'', ur_resolved_at_ms := Some now_ms\<rparr>) (md_reservations db)\<rparr>"
proof -
  obtain v db1 where 1: "release_claims (filter (expiring now_ms) (md_reservations db)) db = Ok (v, db1)"
      and 2: "db' = db1\<lparr>md_reservations := update_where (expiring now_ms)
        (\<lambda>r. r\<lparr>ur_status := ''expired'', ur_resolved_at_ms := Some now_ms\<rparr>) (md_reservations db1)\<rparr>"
    using assms by (auto simp: expire_reservations_def ffdb_result)
  obtain cs where cs: "db1 = db\<lparr>md_claims := cs\<rparr>" using release_claims_Ok [OF 1] by blast
  show ?thesis by (rule that [of cs]) (simp add: 2 cs)
qed

lemma claim_subject_Ok:
  "claim_subject q limits db = Ok (b, db') \<Longrightarrow> \<exists>cs. db' = db\<lparr>md_claims := cs\<rparr>"
  by (auto simp: claim_subject_def Let_def ffdb_result split: option.splits intro: exI [of _ "md_claims db"])

lemma insert_reservation_Ok:
  assumes "insert_reservation sha q m db = Ok (u, db')"
  obtains row where "db' = db\<lparr>md_reservations := md_reservations db @ [row]\<rparr>"
    "ur_reservation_id row = rr_reservation_id q" "ur_period_start_ms row = mp_start_ms (rr_period q)"
    "ur_read_units row = int (rr_read_units q)" "ur_write_units row = int (rr_write_units q)"
    "ur_status row = ''active''" "ur_event_id row = None" "ur_subject_hash row = rr_active_subject_hash q"
    "ur_mau_claimed row = m"
  using assms by (auto simp: insert_reservation_def ffdb_result to_i64_def split: if_splits)

text \<open>The steps of a new reservation.\<close>

lemma reserve_tx_cases:
  assumes "reserve_tx sha q limits db = Ok (s, db')"
  obtains (Known) db1 db2 r u v where "ensure_period (rr_period q) db = Ok (u, db1)"
      "expire_reservations (rr_created_at_ms q) db1 = Ok (v, db2)" "db' = db2"
      "usage_reservation (rr_reservation_id q) db2 = Some r" "s = Some (ur_status r)"
    | (New) db1 db2 db3 u v m w where "ensure_period (rr_period q) db = Ok (u, db1)"
      "expire_reservations (rr_created_at_ms q) db1 = Ok (v, db2)"
      "usage_reservation (rr_reservation_id q) db2 = None" "s = None"
      "check_limits q limits db2 = Ok ()" "claim_subject q limits db2 = Ok (m, db3)"
      "insert_reservation sha q m db3 = Ok (w, db')"
proof -
  obtain u db1 v db2 where 1: "ensure_period (rr_period q) db = Ok (u, db1)"
      "expire_reservations (rr_created_at_ms q) db1 = Ok (v, db2)"
    and 2: "(case usage_reservation (rr_reservation_id q) db2 of
         Some r \<Rightarrow>
           if ur_request_sha256 r \<noteq> reservation_digest sha q then Err HashConflict
           else Ok (Some (ur_status r), db2)
       | None \<Rightarrow>
           tx_bind (tx_lift (check_limits q limits db2)) (\<lambda>_.
           tx_bind (claim_subject q limits) (\<lambda>mau_claimed.
           tx_bind (insert_reservation sha q mau_claimed) (\<lambda>_.
             tx_lift (Ok None)))) db2) = Ok (s, db')"
    using assms unfolding reserve_tx_def by (auto simp: tx_bind_eq_Ok ensure_accepting_Ok)
  show ?thesis
  proof (cases "usage_reservation (rr_reservation_id q) db2")
    case (Some r)
    then show ?thesis using 1 2 Known by (auto split: if_splits)
  next
    case None
    then obtain m db3 w where "check_limits q limits db2 = Ok ()" "claim_subject q limits db2 = Ok (m, db3)"
        "insert_reservation sha q m db3 = Ok (w, db')" "s = None"
      using 2 by (auto simp: tx_bind_eq_Ok tx_lift_eq_Ok)
    then show ?thesis using 1 None New by blast
  qed
qed

lemma reserve_cases:
  assumes "reserve sha q limits db = (r, db')"
  obtains (Same) "db' = db" "isl r" | (Tx) s where "reserve_tx sha q limits db = Ok (s, db')" "s = None \<longleftrightarrow> r = Ok Reserved"
proof (cases "validate_reservation q")
  case (Inl e)
  then show ?thesis using assms Same by (auto simp: reserve_def)
next
  case (Inr u)
  show ?thesis
  proof (cases "reserve_tx sha q limits db")
    case (Inl e)
    then show ?thesis using assms Inr Same by (auto simp: reserve_def metrics_transaction_def)
  next
    case ok: (Inr x)
    obtain s db2 where x: "x = (s, db2)" by force
    show ?thesis
    proof (cases s)
      case None
      then show ?thesis using assms Inr ok x Tx [of None] by (auto simp: reserve_def metrics_transaction_def)
    next
      case (Some t)
      then have "db' = db2" "r = bindr (parse_reservation_status t) (\<lambda>st. Ok (Reservation_Duplicate st))"
        using assms Inr ok x by (auto simp: reserve_def metrics_transaction_def)
      then show ?thesis using ok x Some Tx [of "Some t"] by (cases "parse_reservation_status t") auto
    qed
  qed
qed

lemma reserve_same_usage:
  assumes "reserve sha q limits db = (r, db')"
  shows "same_usage db db'"
  using assms
proof (cases rule: reserve_cases)
  case (Tx s)
  from Tx(1) show ?thesis
  proof (cases rule: reserve_tx_cases)
    case (Known db1 db2 r u v)
    from ensure_period_same [OF Known(1)] Known(2,3) show ?thesis
      by (auto simp: same_usage_def elim!: expire_reservations_Ok)
  next
    case (New db1 db2 db3 u v m w)
    from ensure_period_same [OF New(1)] New(2) claim_subject_Ok [OF New(6)] New(7) show ?thesis
      by (auto simp: same_usage_def elim!: expire_reservations_Ok insert_reservation_Ok)
  qed
qed simp


section \<open>Ingestion\<close>

lemma record_snapshots_Ok:
  "record_snapshots e ss db = Ok (u, db') \<Longrightarrow> \<exists>ts cur. db' = db\<lparr>md_transitions := ts, md_current := cur\<rparr>"
proof (induction ss arbitrary: db)
  case Nil
  then have "db' = db\<lparr>md_transitions := md_transitions db, md_current := md_current db\<rparr>" by simp
  then show ?case by blast
next
  case (Cons s ss)
  obtain v db1 where 1: "record_snapshot e s db = Ok (v, db1)" and 2: "record_snapshots e ss db1 = Ok (u, db')"
    using Cons.prems by (auto simp: ffdb_result)
  obtain ts cur where "db1 = db\<lparr>md_transitions := ts, md_current := cur\<rparr>"
    using 1 by (auto simp: record_snapshot_def ffdb_result Let_def split: if_splits)
  then show ?case using Cons.IH [OF 2] by auto
qed

definition event_receipt :: "(string \<Rightarrow> string) \<Rightarrow> usage_event \<Rightarrow> event_receipt_row" where
  "event_receipt sha e = \<lparr>er_event_id = ue_event_id e, er_payload_sha256 = event_digest sha e,
     er_project_id = uuid_text (ue_project_id e), er_period_start_ms = mp_start_ms (ue_period e),
     er_occurred_at_ms = ue_occurred_at_ms e, er_recorded_at_ms = ue_recorded_at_ms e\<rparr>"

definition event_claims :: "usage_event \<Rightarrow> claim_row list \<Rightarrow> claim_row list" where
  "event_claims e cs = (case ue_active_subject_hash e of None \<Rightarrow> cs
     | Some subject \<Rightarrow> mark_active (mp_start_ms (ue_period e)) (mp_end_ms (ue_period e)) subject (ue_occurred_at_ms e) cs)"

lemma ingest_cases:
  assumes "ingest_event sha e db = Ok (outcome, db')"
  obtains (Known) r ps u where "ensure_period (ue_period e) db = Ok (u, db')" "db' = db\<lparr>md_periods := ps\<rparr>"
      "stored_receipt (ue_event_id e) db = Some r" "er_payload_sha256 r = event_digest sha e" "outcome = Ingest_Duplicate"
    | (New) ps u ts cur where "ensure_period (ue_period e) db = Ok (u, db\<lparr>md_periods := ps\<rparr>)"
      "stored_receipt (ue_event_id e) db = None" "outcome = Inserted"
      "db' = db\<lparr>md_periods := ps, md_receipts := md_receipts db @ [event_receipt sha e],
         md_hourly := add_usage e (int (ue_read_units e)) (int (ue_write_units e)) (md_hourly db),
         md_claims := event_claims e (md_claims db), md_transitions := ts, md_current := cur\<rparr>"
proof -
  obtain u db1 where 1: "ensure_period (ue_period e) db = Ok (u, db1)"
    and 2: "(case stored_receipt (ue_event_id e) db1 of
         Some r \<Rightarrow>
           if er_payload_sha256 r = event_digest sha e then Ok (Ingest_Duplicate, db1) else Err HashConflict
       | None \<Rightarrow>
           tx_bind (add_event_usage e) (\<lambda>_.
           tx_bind (mark_event_subject e) (\<lambda>_.
           tx_bind (record_snapshots e (ue_storage_snapshots e)) (\<lambda>_.
             tx_lift (Ok Inserted)))) (insert_receipt sha e db1)) = Ok (outcome, db')"
    using assms unfolding ingest_event_def by (auto simp: tx_bind_eq_Ok)
  obtain ps where ps: "db1 = db\<lparr>md_periods := ps\<rparr>" using ensure_period_same [OF 1] by blast
  have receipts: "stored_receipt i db1 = stored_receipt i db" for i by (simp add: ps stored_receipt_def)
  show ?thesis
  proof (cases "stored_receipt (ue_event_id e) db")
    case (Some r)
    then show ?thesis
      using 1 2 ps receipts Known [of u ps r] by (auto split: if_splits)
  next
    case None
    obtain v w db2 db3 where 3: "add_event_usage e (insert_receipt sha e db1) = Ok (v, db2)"
        "mark_event_subject e db2 = Ok (w, db3)" "record_snapshots e (ue_storage_snapshots e) db3 = Ok ((), db')"
        "outcome = Inserted"
      using 2 None receipts by (auto simp: tx_bind_eq_Ok tx_lift_eq_Ok)
    have db3: "db3 = db\<lparr>md_periods := ps, md_receipts := md_receipts db @ [event_receipt sha e],
         md_hourly := add_usage e (int (ue_read_units e)) (int (ue_write_units e)) (md_hourly db),
         md_claims := event_claims e (md_claims db)\<rparr>"
      using 3(1,2)
      by (auto simp: add_event_usage_def mark_event_subject_def insert_receipt_def event_receipt_def ps
          ffdb_result to_i64_def event_claims_def split: if_splits option.splits)
    show ?thesis
      using record_snapshots_Ok [OF 3(3)] 1 None 3(4) New [of u ps] by (auto simp: db3 ps)
  qed
qed

lemma record_usage_event_cases:
  assumes "record_usage_event sha e db = (r, db')"
  obtains (Failed) "db' = db" "isl r"
    | (Ingested) ps u outcome where "validate_event e = Ok ()" "ensure_period (ue_period e) db = Ok (u, db\<lparr>md_periods := ps\<rparr>)"
      "ensure_accepting (ue_period e) (ue_recorded_at_ms e) (db\<lparr>md_periods := ps\<rparr>) = Ok ((), db\<lparr>md_periods := ps\<rparr>)"
      "ingest_event sha e (db\<lparr>md_periods := ps\<rparr>) = Ok (outcome, db')" "r = Ok outcome"
proof (cases "validate_event e")
  case (Inl x)
  then show ?thesis using assms Failed by (auto simp: record_usage_event_def)
next
  case (Inr v)
  with assms have "metrics_transaction (tx_bind (ensure_period (ue_period e)) (\<lambda>_.
            tx_bind (ensure_accepting (ue_period e) (ue_recorded_at_ms e)) (\<lambda>_.
              ingest_event sha e))) db = (r, db')"
    by (simp add: record_usage_event_def)
  then show ?thesis
  proof (cases rule: metrics_transaction_cases)
    case Failed
    then show ?thesis using that(1) by simp
  next
    case (Done outcome)
    then obtain u db1 where 1: "ensure_period (ue_period e) db = Ok (u, db1)"
        "ensure_accepting (ue_period e) (ue_recorded_at_ms e) db1 = Ok ((), db1)"
        "ingest_event sha e db1 = Ok (outcome, db')"
      by (auto simp: tx_bind_eq_Ok ensure_accepting_Ok)
    then show ?thesis
      using ensure_period_same [OF 1(1)] Done Inr Ingested [of u _ outcome] by auto
  qed
qed

text \<open>Settling: a repeated settlement only replays the event; a new one also spends the reservation.\<close>

definition settled :: "string \<Rightarrow> usage_event \<Rightarrow> usage_reservation_row list \<Rightarrow> usage_reservation_row list" where
  "settled rid e = update_where (\<lambda>x. ur_reservation_id x = rid \<and> ur_status x \<in> {''active'', ''expired''})
     (\<lambda>x. x\<lparr>ur_status := ''settled'', ur_event_id := Some (ue_event_id e),
        ur_resolved_at_ms := Some (ue_recorded_at_ms e)\<rparr>)"

lemma parse_reservation_status_eq:
  "parse_reservation_status s = Ok Res_Settled \<longleftrightarrow> s = ''settled''"
  "parse_reservation_status s = Ok Res_Active \<longleftrightarrow> s = ''active''"
  "parse_reservation_status s = Ok Res_Released \<longleftrightarrow> s = ''released''"
  "parse_reservation_status s = Ok Res_Expired \<longleftrightarrow> s = ''expired''"
  by (auto simp: parse_reservation_status.simps)

lemma reservation_covers_Ok:
  assumes "reservation_covers r e = Ok u"
  shows "ur_period_start_ms r = mp_start_ms (ue_period e)" and "int (ue_read_units e) \<le> ur_read_units r"
    and "int (ue_write_units e) \<le> ur_write_units r" and "ur_subject_hash r = ue_active_subject_hash e"
  using assms by (auto simp: reservation_covers_def as_u64_def ffdb_result split: if_splits)

lemma settle_reservation_cases:
  assumes "settle_reservation sha rid e db = (out, db')"
  obtains (Failed) "db' = db" "isl out"
    | (Replayed) r outcome where "usage_reservation rid db = Some r" "ur_status r = ''settled''"
      "ur_event_id r = Some (ue_event_id e)" "ingest_event sha e db = Ok (outcome, db')" "out = Ok outcome"
    | (Settled) r outcome db1 cs u where "validate_event e = Ok ()" "usage_reservation rid db = Some r" "ur_status r \<in> {''active'', ''expired''}"
      "reservation_covers r e = Ok ()" "ensure_accepting (ue_period e) (ue_recorded_at_ms e) db = Ok ((), db)"
      "ingest_event sha e db = Ok (outcome, db1)"
      "activate_mau_claim r (ue_recorded_at_ms e) db1 = Ok (u, db1\<lparr>md_claims := cs\<rparr>)"
      "db' = db1\<lparr>md_claims := cs, md_reservations := settled rid e (md_reservations db1)\<rparr>" "out = Ok outcome"
proof (cases "bindr (validate_identifier rid) (\<lambda>_. validate_event e)")
  case (Inl x)
  then show ?thesis using assms Failed by (auto simp: settle_reservation_def)
next
  case (Inr v)
  with assms have "metrics_transaction (settle_tx sha rid e) db = (out, db')"
    by (simp add: settle_reservation_def)
  then show ?thesis
  proof (cases rule: metrics_transaction_cases)
    case Failed
    then show ?thesis using that(1) by simp
  next
    case (Done outcome)
    then obtain r st where r: "usage_reservation rid db = Some r" "parse_reservation_status (ur_status r) = Ok st"
      and body: "(if st = Res_Settled then
         (if ur_event_id r = Some (ue_event_id e) then ingest_event sha e db else Err ReservationMismatch)
       else if st = Res_Released then Err ReservationMismatch
       else
         tx_bind (tx_lift (reservation_covers r e)) (\<lambda>_.
         tx_bind (ensure_accepting (ue_period e) (ue_recorded_at_ms e)) (\<lambda>_.
         tx_bind (ingest_event sha e) (\<lambda>outcome.
         tx_bind (activate_mau_claim r (ue_recorded_at_ms e)) (\<lambda>_ db'.
           Ok (outcome, db'\<lparr>md_reservations := settled rid e (md_reservations db')\<rparr>))))) db) = Ok (outcome, db')"
      unfolding settle_tx_def settled_def by (auto simp: bindr_eq_Ok ok_or_eq_Ok)
    consider (Old) "st = Res_Settled" | (Off) "st = Res_Released" | (On) "st = Res_Active \<or> st = Res_Expired"
      by (cases st) auto
    then show ?thesis
    proof cases
      case Old
      then show ?thesis using r body Done Replayed [of r outcome] by (auto simp: parse_reservation_status_eq split: if_splits)
    next
      case Off
      then show ?thesis using body by simp
    next
      case On
      then have status: "ur_status r \<in> {''active'', ''expired''}" using r by (auto simp: parse_reservation_status_eq)
      have "st \<noteq> Res_Settled" "st \<noteq> Res_Released" using On by auto
      with body obtain db1 db2 u where 1: "reservation_covers r e = Ok ()"
          "ensure_accepting (ue_period e) (ue_recorded_at_ms e) db = Ok ((), db)"
          "ingest_event sha e db = Ok (outcome, db1)"
          "activate_mau_claim r (ue_recorded_at_ms e) db1 = Ok (u, db2)"
          "db' = db2\<lparr>md_reservations := settled rid e (md_reservations db2)\<rparr>"
        by (auto simp: tx_bind_eq_Ok tx_lift_eq_Ok ensure_accepting_Ok)
      obtain cs where "db2 = db1\<lparr>md_claims := cs\<rparr>" using activate_mau_claim_Ok [OF 1(4)] by blast
      then show ?thesis using 1 r(1) status Done(2) Inr Settled [of r outcome db1 u cs] by (auto simp: bindr_eq_Ok)
    qed
  qed
qed


section \<open>The other operations\<close>

lemma release_Ok:
  assumes "release_usage_reservation rid now_ms db = (out, db')"
  obtains (Same) "db' = db"
    | (Released) r cs where "usage_reservation rid db = Some r" "ur_status r = ''active''"
      "release_mau_claim r db = Ok ((), db\<lparr>md_claims := cs\<rparr>)"
      "db' = db\<lparr>md_claims := cs, md_reservations := update_where
         (\<lambda>x. ur_reservation_id x = rid \<and> ur_status x = ''active'')
         (\<lambda>x. x\<lparr>ur_status := ''released'', ur_resolved_at_ms := Some now_ms\<rparr>) (md_reservations db)\<rparr>"
proof (cases "isl (validate_identifier rid) \<or> now_ms < 0")
  case True
  then show ?thesis using assms Same by (auto simp: release_usage_reservation_def split: sum.splits)
next
  case False
  with assms have "metrics_transaction (release_tx rid now_ms) db = (out, db')"
    by (auto simp: release_usage_reservation_def split: sum.splits)
  then show ?thesis
  proof (cases rule: metrics_transaction_cases)
    case Failed
    then show ?thesis using Same by simp
  next
    case (Done a)
    then obtain r st where r: "usage_reservation rid db = Some r" "parse_reservation_status (ur_status r) = Ok st"
      and body: "(if st = Res_Active then
         bindr (release_mau_claim r db) (\<lambda>(_, db').
           Ok (Res_Released, db'\<lparr>md_reservations := update_where
             (\<lambda>x. ur_reservation_id x = rid \<and> ur_status x = ''active'')
             (\<lambda>x. x\<lparr>ur_status := ''released'', ur_resolved_at_ms := Some now_ms\<rparr>) (md_reservations db')\<rparr>))
       else Ok (st, db)) = Ok (a, db')"
      unfolding release_tx_def by (auto simp: bindr_eq_Ok ok_or_eq_Ok)
    show ?thesis
    proof (cases "st = Res_Active")
      case True
      then obtain db1 where 1: "release_mau_claim r db = Ok ((), db1)"
          "db' = db1\<lparr>md_reservations := update_where
             (\<lambda>x. ur_reservation_id x = rid \<and> ur_status x = ''active'')
             (\<lambda>x. x\<lparr>ur_status := ''released'', ur_resolved_at_ms := Some now_ms\<rparr>) (md_reservations db1)\<rparr>"
        using body by (auto simp: bindr_eq_Ok)
      obtain cs where "db1 = db\<lparr>md_claims := cs\<rparr>"
        using release_claims_Ok [of "[r]" db] 1(1) by (auto simp: tx_bind_def)
      then show ?thesis using 1 r True Released [of r cs] by (auto simp: parse_reservation_status_eq)
    next
      case False
      then show ?thesis using body Same by simp
    qed
  qed
qed

lemma autocommit_cases:
  assumes "autocommit (ensure_period p) f db = (r, db')"
  obtains (Failed) "db' = db" | (Ok) ps u where "ensure_period p db = Ok (u, db\<lparr>md_periods := ps\<rparr>)" "f (db\<lparr>md_periods := ps\<rparr>) = (r, db')"
proof (cases "ensure_period p db")
  case (Inl e)
  then show ?thesis using assms Failed by (simp add: autocommit_def)
next
  case (Inr x)
  obtain u db1 where x: "x = (u, db1)" by (cases x)
  then show ?thesis using assms Inr ensure_period_same [of p db u db1] Ok [of u] by (auto simp: autocommit_def)
qed

text \<open>The operations on the outbox, the reconciliations and the metadata keep the usage tables.\<close>

definition same_ledger :: "metrics_db \<Rightarrow> metrics_db \<Rightarrow> bool" where
  "same_ledger db db' \<longleftrightarrow> same_usage db db' \<and> md_claims db' = md_claims db \<and> md_reservations db' = md_reservations db
     \<and> md_transitions db' = md_transitions db \<and> md_current db' = md_current db"

lemma same_ledger_refl [simp]: "same_ledger db db"
  by (simp add: same_ledger_def)

lemma same_ledger_updates [simp]:
  "same_ledger db (db\<lparr>md_periods := ps\<rparr>)" "same_ledger db (db\<lparr>md_outbox := ox\<rparr>)"
  "same_ledger db (db\<lparr>md_periods := ps, md_outbox := ox\<rparr>)" "same_ledger db (db\<lparr>md_metadata := md\<rparr>)"
  "same_ledger db (db\<lparr>md_periods := ps, md_reconciliations := rc\<rparr>)"
  by (simp_all add: same_ledger_def same_usage_def)

lemma claim_rows_Ok:
  "claim_rows uuid i now_ms d rs db = Ok (cs, db') \<Longrightarrow> \<exists>ox. db' = db\<lparr>md_outbox := ox\<rparr>"
proof (induction rs arbitrary: i db cs)
  case Nil
  then have "db' = db\<lparr>md_outbox := md_outbox db\<rparr>" by simp
  then show ?case by blast
next
  case (Cons r rs)
  then obtain c db1 cs' where "claim_report (uuid i) now_ms d r db = Ok (c, db1)"
      "claim_rows uuid (Suc i) now_ms d rs db1 = Ok (cs', db')"
    by (auto simp: tx_bind_eq_Ok tx_lift_eq_Ok)
  moreover obtain ox where "db1 = db\<lparr>md_outbox := ox\<rparr>"
    using calculation(1) by (auto simp: claim_report_def Let_def ffdb_result split: if_splits)
  ultimately show ?case using Cons.IH [of "Suc i" db1 cs'] by auto
qed

lemma claim_reports_inner_Ok:
  assumes "claim_reports_inner uuid p now_ms d limit db = (r, db')"
  obtains ox where "db' = db\<lparr>md_outbox := ox\<rparr>"
proof (cases "now_ms < 0 \<or> d < 1000 \<or> d > 10 * 60 * 1000 \<or> limit < 1 \<or> limit > 100")
  case True
  then show ?thesis using assms that [of "md_outbox db"] by (auto simp: claim_reports_inner_def)
next
  case False
  with assms have "metrics_transaction (\<lambda>db. claim_rows uuid 0 now_ms d (due_reports p now_ms limit db) db) db = (r, db')"
    by (auto simp: claim_reports_inner_def)
  then show ?thesis
    by (cases rule: metrics_transaction_cases) (use that [of "md_outbox db"] that claim_rows_Ok in \<open>auto, blast\<close>)
qed

lemma enqueue_report_Ok:
  assumes "enqueue_report sha q db = (r, db')"
  obtains (Same) "db' = db"
    | (Changed) ps u ox where "ensure_period (rq_period q) db = Ok (u, db\<lparr>md_periods := ps\<rparr>)"
      "db' = db\<lparr>md_periods := ps, md_outbox := ox\<rparr>"
proof (cases "validate_report q")
  case (Inl e)
  then show ?thesis using assms Same by (simp add: enqueue_report_def)
next
  case (Inr v)
  with assms have "metrics_transaction (enqueue_tx sha q) db = (r, db')" by (simp add: enqueue_report_def)
  then show ?thesis
  proof (cases rule: metrics_transaction_cases)
    case (Done a)
    then obtain u db1 where 1: "ensure_period (rq_period q) db = Ok (u, db1)"
      and 2: "db' = db1 \<or> (\<exists>ox. db' = db1\<lparr>md_outbox := ox\<rparr>)"
      by (auto simp: enqueue_tx_def tx_bind_eq_Ok ffdb_result split: option.splits if_splits)
    obtain ps where ps: "db1 = db\<lparr>md_periods := ps\<rparr>" using ensure_period_same [OF 1] by blast
    from 2 have "\<exists>ox. db' = db\<lparr>md_periods := ps, md_outbox := ox\<rparr>"
    proof
      assume "db' = db1"
      then have "db' = db\<lparr>md_periods := ps, md_outbox := md_outbox db\<rparr>" by (simp add: ps)
      then show ?thesis by blast
    qed (auto simp: ps)
    then show ?thesis using Changed 1 ps by auto
  qed (use Same in simp)
qed

end
