(* ===== verification/Metrics_Properties.thy ===== *)
theory Metrics_Properties
  imports Metrics_Effects
begin

text \<open>
  What the usage ledger guarantees over every sequence of its operations: each usage event is
  counted once, and a sealed period's usage is final.
\<close>

section \<open>Runs of the ledger\<close>

text \<open>
  A step is one call; its label is the event it ingested, if any. A run collects the ingested
  events.
\<close>

definition ingested :: "metrics_error + ingest_outcome \<Rightarrow> usage_event \<Rightarrow> usage_event list" where
  "ingested r e = (if r = Ok Inserted then [e] else [])"

inductive metrics_step :: "(string \<Rightarrow> string) \<Rightarrow> usage_event list \<Rightarrow> metrics_db \<Rightarrow> metrics_db \<Rightarrow> bool" for sha where
  reserve: "reserve sha q limits db = (r, db') \<Longrightarrow> metrics_step sha [] db db'"
| release: "release_usage_reservation rid now_ms db = (r', db') \<Longrightarrow> metrics_step sha [] db db'"
| settle: "settle_reservation sha rid e db = (out, db') \<Longrightarrow> metrics_step sha (ingested out e) db db'"
| recorded: "record_usage_event sha e db = (out, db') \<Longrightarrow> metrics_step sha (ingested out e) db db'"
| status: "period_status p db = (ps, db') \<Longrightarrow> metrics_step sha [] db db'"
| seal: "seal_period p now_ms db = (u, db') \<Longrightarrow> metrics_step sha [] db db'"
| enqueue: "enqueue_report sha req db = (out, db') \<Longrightarrow> metrics_step sha [] db db'"
| claim: "claim_reports uuid now_ms d limit db = (crs, db') \<Longrightarrow> metrics_step sha [] db db'"
| claim_period: "claim_reports_for_period uuid p now_ms d limit db = (crs, db') \<Longrightarrow> metrics_step sha [] db db'"
| acknowledge: "acknowledge_report i token pe now_ms db = (u, db') \<Longrightarrow> metrics_step sha [] db db'"
| fail: "fail_report i token retry_at err db = (u, db') \<Longrightarrow> metrics_step sha [] db db'"
| reconcile: "record_reconciliation p dim l q' checked db = (rs, db') \<Longrightarrow> metrics_step sha [] db db'"
| finalize: "finalize_period p now_ms db = (u, db') \<Longrightarrow> metrics_step sha [] db db'"
| migrate: "metrics_migrate org db = (u, db') \<Longrightarrow> metrics_step sha [] db db'"

inductive metrics_run :: "(string \<Rightarrow> string) \<Rightarrow> usage_event list \<Rightarrow> metrics_db \<Rightarrow> metrics_db \<Rightarrow> bool" for sha where
  start: "metrics_run sha [] db db"
| step: "metrics_run sha es db db' \<Longrightarrow> metrics_step sha fs db' db'' \<Longrightarrow> metrics_run sha (es @ fs) db db''"

text \<open>The status of a period as the code reads it.\<close>

definition closed :: "int \<Rightarrow> metrics_db \<Rightarrow> bool" where
  "closed s db \<longleftrightarrow> (\<exists>r. period_at s db = Some r \<and> pr_status r \<in> {''sealed'', ''finalized''})"

lemma closed_cong: "md_periods db' = md_periods db \<Longrightarrow> closed s db' = closed s db"
  by (simp add: closed_def period_at_def)

lemma closed_ensure:
  "ensure_period p db = Ok (u, db') \<Longrightarrow> closed s db' \<longleftrightarrow> closed s db"
  by (erule ensure_period_cases) (auto simp: closed_def period_at_def split: option.splits)

lemma closed_update:
  assumes "\<And>r. Q r \<Longrightarrow> pr_start_ms (f r) = pr_start_ms r" and "\<And>r. Q r \<Longrightarrow> pr_status (f r) \<in> {''sealed'', ''finalized''}"
  shows "closed s db \<Longrightarrow> closed s (db\<lparr>md_periods := update_where Q f (md_periods db)\<rparr>)"
proof -
  assume "closed s db"
  then obtain r where r: "row_where (\<lambda>r. pr_start_ms r = s) (md_periods db) = Some r"
      "pr_status r \<in> {''sealed'', ''finalized''}"
    by (auto simp: closed_def period_at_def)
  have "row_where (\<lambda>r. pr_start_ms r = s) (update_where Q f (md_periods db)) = Some (if Q r then f r else r)"
    by (subst row_where_update) (use assms(1) r(1) in auto)
  then show "closed s (db\<lparr>md_periods := update_where Q f (md_periods db)\<rparr>)"
    using r(2) assms(2) [of r] by (auto simp: closed_def period_at_def)
qed

lemma accepting_not_closed:
  "ensure_accepting p t db = Ok (u, db') \<Longrightarrow> \<not> closed (mp_start_ms p) db"
  by (auto simp: ensure_accepting_Ok closed_def)

section \<open>The steps that leave the usage alone\<close>

lemma finalize_period_Ok:
  assumes "finalize_period p now_ms db = (r, db')"
  obtains (Same) "db' = db" "isl r"
    | (Finalized) row where "row_where (\<lambda>r. pr_start_ms r = mp_start_ms p \<and> pr_end_ms r = mp_end_ms p) (md_periods db) = Some row"
      "pr_status row = ''sealed''" "r = Ok ()"
      "count_rows (\<lambda>r. ox_period_start_ms r = mp_start_ms p \<and> ox_state r \<noteq> ''acknowledged'') (md_outbox db) = 0"
      "count_rows (\<lambda>r. rn_period_start_ms r = mp_start_ms p \<and> rn_status r = ''matched'') (md_reconciliations db) = 4"
      "count_rows (\<lambda>r. rn_period_start_ms r = mp_start_ms p \<and> rn_status r = ''mismatched'') (md_reconciliations db) = 0"
      "db' = db\<lparr>md_periods := update_where (\<lambda>r. pr_start_ms r = mp_start_ms p \<and> pr_status r = ''sealed'')
         (\<lambda>r. r\<lparr>pr_status := ''finalized'', pr_finalized_at_ms := Some now_ms\<rparr>) (md_periods db)\<rparr>"
proof (cases "period_validate p")
  case (Inl e)
  then have "r = Err e" "db' = db" using assms by (auto simp: finalize_period_def)
  then show ?thesis using Same by simp
next
  case (Inr v)
  with assms have "metrics_transaction (finalize_tx p now_ms) db = (r, db')" by (simp add: finalize_period_def)
  then show ?thesis
  proof (cases rule: metrics_transaction_cases)
    case (Done a)
    then show ?thesis
      using Finalized by (auto simp: finalize_tx_def ffdb_result Let_def split: if_splits)
  qed (use Same in auto)
qed

text \<open>Every other step either ingests nothing, keeps the ledger tables and closes no period again.\<close>

definition quiet :: "metrics_db \<Rightarrow> metrics_db \<Rightarrow> bool" where
  "quiet db db' \<longleftrightarrow> same_ledger db db' \<and> (\<forall>s. closed s db \<longrightarrow> closed s db')"

lemma quiet_refl [simp]: "quiet db db"
  by (simp add: quiet_def)

lemma quiet_ensure:
  "ensure_period p db = Ok (u, db\<lparr>md_periods := ps\<rparr>) \<Longrightarrow> quiet db (db\<lparr>md_periods := ps\<rparr>)"
  using closed_ensure [of p db u "db\<lparr>md_periods := ps\<rparr>"] by (simp add: quiet_def)

lemma quiet_other [simp]:
  "quiet db (db\<lparr>md_outbox := ox\<rparr>)" "quiet db (db\<lparr>md_metadata := md\<rparr>)"
  by (simp_all add: quiet_def closed_def period_at_def)

lemma period_status_quiet: "period_status p db = (r, db') \<Longrightarrow> quiet db db'"
  unfolding period_status_def by (erule autocommit_cases) (auto dest: quiet_ensure)

lemma seal_period_quiet:
  assumes "seal_period p now_ms db = (r, db')"
  shows "quiet db db'"
proof (cases "period_validate p = Ok () \<and> \<not> now_ms < mp_cutoff_ms p")
  case True
  with assms have "autocommit (ensure_period p) (\<lambda>db.
      (Ok (), db\<lparr>md_periods := update_where
         (\<lambda>r. pr_start_ms r = mp_start_ms p \<and> pr_status r \<in> {''open'', ''closing''})
         (\<lambda>r. r\<lparr>pr_status := ''sealed'', pr_sealed_at_ms := Some now_ms\<rparr>) (md_periods db)\<rparr>)) db = (r, db')"
    by (simp add: seal_period_def)
  then show ?thesis
  proof (cases rule: autocommit_cases)
    case (Ok ps u)
    have "closed s db'" if "closed s db" for s
    proof -
      have "closed s (db\<lparr>md_periods := ps\<rparr>)" using that closed_ensure [OF Ok(1)] by simp
      then show ?thesis
        using Ok(2) closed_update [of "\<lambda>r. pr_start_ms r = mp_start_ms p \<and> pr_status r \<in> {''open'', ''closing''}"
          "\<lambda>r. r\<lparr>pr_status := ''sealed'', pr_sealed_at_ms := Some now_ms\<rparr>" s "db\<lparr>md_periods := ps\<rparr>"]
        by auto
    qed
    then show ?thesis using Ok(2) by (auto simp: quiet_def same_ledger_def same_usage_def)
  qed simp
next
  case False
  then show ?thesis using assms by (auto simp: seal_period_def split: sum.splits if_splits)
qed

lemma finalize_period_quiet: "finalize_period p now_ms db = (r, db') \<Longrightarrow> quiet db db'"
  by (erule finalize_period_Ok) (auto simp: quiet_def intro!: closed_update)

lemma enqueue_report_quiet: "enqueue_report sha q db = (r, db') \<Longrightarrow> quiet db db'"
  by (erule enqueue_report_Ok) (auto simp: quiet_def closed_ensure closed_def period_at_def dest: closed_ensure)

lemma claim_reports_inner_quiet: "claim_reports_inner uuid p now_ms d limit db = (r, db') \<Longrightarrow> quiet db db'"
  by (erule claim_reports_inner_Ok) simp

lemma claim_reports_for_period_quiet: "claim_reports_for_period uuid p now_ms d limit db = (r, db') \<Longrightarrow> quiet db db'"
  by (auto simp: claim_reports_for_period_def dest: claim_reports_inner_quiet split: sum.splits)

lemma acknowledge_report_quiet: "acknowledge_report i token pe now_ms db = (r, db') \<Longrightarrow> quiet db db'"
  by (auto simp: acknowledge_report_def split: sum.splits)

lemma fail_report_quiet: "fail_report i token retry_at err db = (r, db') \<Longrightarrow> quiet db db'"
  by (auto simp: fail_report_def split: sum.splits if_splits)

lemma record_reconciliation_quiet: "record_reconciliation p d l q checked db = (r, db') \<Longrightarrow> quiet db db'"
  unfolding record_reconciliation_def Let_def
  by (erule autocommit_cases)
    (auto dest!: quiet_ensure simp: quiet_def same_ledger_def same_usage_def closed_def period_at_def split: sum.splits)

lemma metrics_migrate_quiet: "metrics_migrate org db = (r, db') \<Longrightarrow> quiet db db'"
  by (auto simp: metrics_migrate_def split: option.splits if_splits)

lemmas quiet_ops = period_status_quiet seal_period_quiet finalize_period_quiet enqueue_report_quiet
  claim_reports_inner_quiet claim_reports_for_period_quiet acknowledge_report_quiet fail_report_quiet
  record_reconciliation_quiet metrics_migrate_quiet

text \<open>A step is quiet, changes reservations, or ingests.\<close>

lemma metrics_step_cases:
  assumes "metrics_step sha fs db db'"
  obtains (Quiet) "fs = []" "quiet db db'"
    | (Reserve) q limits r where "fs = []" "reserve sha q limits db = (r, db')"
    | (Release) rid now_ms r where "fs = []" "release_usage_reservation rid now_ms db = (r, db')"
    | (Settle) rid e out where "fs = ingested out e" "settle_reservation sha rid e db = (out, db')"
    | (Record) e out where "fs = ingested out e" "record_usage_event sha e db = (out, db')"
  using assms
proof cases
  case (claim uuid now_ms d limit crs)
  then show ?thesis using Quiet claim_reports_inner_quiet by (auto simp: claim_reports_def)
qed (auto intro: quiet_ops that)


section \<open>Every event is counted once\<close>

definition hour_key :: "hourly_row \<Rightarrow> int \<times> int \<times> string" where
  "hour_key h = (hr_period_start_ms h, hr_bucket_start_ms h, hr_project_id h)"

definition usage_key :: "usage_event \<Rightarrow> int \<times> int \<times> string" where
  "usage_key e = (mp_start_ms (ue_period e), bucket_of (ue_occurred_at_ms e), uuid_text (ue_project_id e))"

text \<open>What a step does to the receipts and the hourly usage.\<close>

definition metered :: "(string \<Rightarrow> string) \<Rightarrow> usage_event list \<Rightarrow> metrics_db \<Rightarrow> metrics_db \<Rightarrow> bool" where
  "metered sha fs db db' \<longleftrightarrow>
     (case fs of
        [] \<Rightarrow> same_usage db db'
      | [e] \<Rightarrow> stored_receipt (ue_event_id e) db = None \<and> md_receipts db' = md_receipts db @ [event_receipt sha e]
          \<and> md_hourly db' = add_usage e (int (ue_read_units e)) (int (ue_write_units e)) (md_hourly db)
      | _ \<Rightarrow> False)"

lemma ingest_metered:
  assumes "ingest_event sha e db = Ok (outcome, db')"
  shows "metered sha (ingested (Ok outcome) e) db db'"
  using assms by (cases rule: ingest_cases) (auto simp: metered_def ingested_def same_usage_def)

lemma metered_cong:
  "metered sha fs db1 db2 \<Longrightarrow> md_hourly db = md_hourly db1 \<Longrightarrow> md_receipts db = md_receipts db1
    \<Longrightarrow> md_hourly db' = md_hourly db2 \<Longrightarrow> md_receipts db' = md_receipts db2 \<Longrightarrow> metered sha fs db db'"
  by (auto simp: metered_def same_usage_def stored_receipt_def split: list.splits)

lemma isl_not_ingested: "isl out \<Longrightarrow> ingested out e = []"
  by (auto simp: ingested_def)

lemma metrics_step_metered:
  assumes "metrics_step sha fs db db'"
  shows "metered sha fs db db'"
  using assms
proof (cases rule: metrics_step_cases)
  case Quiet
  then show ?thesis by (simp add: metered_def quiet_def same_ledger_def)
next
  case (Reserve q limits r)
  then show ?thesis using reserve_same_usage by (simp add: metered_def)
next
  case (Release rid now_ms r)
  from Release(2) show ?thesis
    by (cases rule: release_Ok) (simp_all add: metered_def same_usage_def Release(1))
next
  case (Settle rid e out)
  from Settle(2) show ?thesis
  proof (cases rule: settle_reservation_cases)
    case Failed
    then show ?thesis by (simp add: Settle(1) isl_not_ingested metered_def)
  next
    case (Replayed r outcome)
    then show ?thesis using ingest_metered Settle(1) by simp
  next
    case (Settled r outcome db1 cs u)
    have "metered sha fs db db1" using ingest_metered [OF Settled(6)] Settled(9) Settle(1) by simp
    then show ?thesis by (rule metered_cong) (simp_all add: Settled(8))
  qed
next
  case (Record e out)
  from Record(2) show ?thesis
  proof (cases rule: record_usage_event_cases)
    case Failed
    then show ?thesis by (simp add: Record(1) isl_not_ingested metered_def)
  next
    case (Ingested ps u outcome)
    have "metered sha fs (db\<lparr>md_periods := ps\<rparr>) db'"
      using ingest_metered [OF Ingested(4)] Ingested(5) Record(1) by simp
    then show ?thesis by (rule metered_cong) simp_all
  qed
qed

definition usage_where :: "(hourly_row \<Rightarrow> int) \<Rightarrow> (int \<times> int \<times> string \<Rightarrow> bool) \<Rightarrow> metrics_db \<Rightarrow> int" where
  "usage_where f P db = sum_list (map f (filter (\<lambda>h. P (hour_key h)) (md_hourly db)))"

lemma add_usage_upsert:
  "add_usage e r w rows = upsert (\<lambda>h. hour_key h = usage_key e)
     \<lparr>hr_period_start_ms = mp_start_ms (ue_period e), hr_bucket_start_ms = bucket_of (ue_occurred_at_ms e),
      hr_project_id = uuid_text (ue_project_id e), hr_read_units = r, hr_write_units = w\<rparr>
     (\<lambda>h. h\<lparr>hr_read_units := hr_read_units h + r, hr_write_units := hr_write_units h + w\<rparr>) rows"
proof -
  have "hourly_key (mp_start_ms (ue_period e)) (bucket_of (ue_occurred_at_ms e)) (uuid_text (ue_project_id e))
      = (\<lambda>h. hour_key h = usage_key e)"
    by (simp add: fun_eq_iff hourly_key_def hour_key_def usage_key_def)
  then show ?thesis by (simp add: add_usage_def Let_def)
qed

lemma metered_step:
  assumes "metered sha fs db db'" and "distinct (map hour_key (md_hourly db))"
  shows "distinct (map hour_key (md_hourly db'))"
    and "usage_where hr_read_units P db' = usage_where hr_read_units P db
      + (\<Sum>e \<leftarrow> filter (\<lambda>e. P (usage_key e)) fs. int (ue_read_units e))"
    and "usage_where hr_write_units P db' = usage_where hr_write_units P db
      + (\<Sum>e \<leftarrow> filter (\<lambda>e. P (usage_key e)) fs. int (ue_write_units e))"
    and "map er_event_id (md_receipts db') = map er_event_id (md_receipts db) @ map ue_event_id fs"
    and "\<forall>e \<in> set fs. ue_event_id e \<notin> set (map er_event_id (md_receipts db))" and "distinct fs"
proof -
  consider (None) "fs = []" "same_usage db db'"
    | (One) e where "fs = [e]" "stored_receipt (ue_event_id e) db = None"
      "md_receipts db' = md_receipts db @ [event_receipt sha e]"
      "md_hourly db' = add_usage e (int (ue_read_units e)) (int (ue_write_units e)) (md_hourly db)"
    using assms(1) by (auto simp: metered_def split: list.splits)
  then have "distinct (map hour_key (md_hourly db'))
    \<and> usage_where hr_read_units P db' = usage_where hr_read_units P db
      + (\<Sum>e \<leftarrow> filter (\<lambda>e. P (usage_key e)) fs. int (ue_read_units e))
    \<and> usage_where hr_write_units P db' = usage_where hr_write_units P db
      + (\<Sum>e \<leftarrow> filter (\<lambda>e. P (usage_key e)) fs. int (ue_write_units e))
    \<and> map er_event_id (md_receipts db') = map er_event_id (md_receipts db) @ map ue_event_id fs
    \<and> (\<forall>e \<in> set fs. ue_event_id e \<notin> set (map er_event_id (md_receipts db))) \<and> distinct fs"
  proof cases
    case None
    then show ?thesis using assms(2) by (simp add: same_usage_def usage_where_def)
  next
    case (One e)
    have "distinct (map hour_key (md_hourly db'))"
      unfolding One(4) add_usage_upsert
      by (rule upsert_keys [OF assms(2)]) (simp_all add: hour_key_def usage_key_def)
    moreover have "usage_where hr_read_units P db' = usage_where hr_read_units P db
        + (if P (usage_key e) then int (ue_read_units e) else 0)"
      unfolding usage_where_def One(4) add_usage_upsert
      by (rule upsert_sum [OF assms(2)]) (simp_all add: hour_key_def usage_key_def)
    moreover have "usage_where hr_write_units P db' = usage_where hr_write_units P db
        + (if P (usage_key e) then int (ue_write_units e) else 0)"
      unfolding usage_where_def One(4) add_usage_upsert
      by (rule upsert_sum [OF assms(2)]) (simp_all add: hour_key_def usage_key_def)
    moreover have "ue_event_id e \<notin> set (map er_event_id (md_receipts db))"
      using One(2) by (auto simp: stored_receipt_def row_where_None_iff)
    ultimately show ?thesis by (simp add: One(1,3) event_receipt_def)
  qed
  then show "distinct (map hour_key (md_hourly db'))"
    and "usage_where hr_read_units P db' = usage_where hr_read_units P db
      + (\<Sum>e \<leftarrow> filter (\<lambda>e. P (usage_key e)) fs. int (ue_read_units e))"
    and "usage_where hr_write_units P db' = usage_where hr_write_units P db
      + (\<Sum>e \<leftarrow> filter (\<lambda>e. P (usage_key e)) fs. int (ue_write_units e))"
    and "map er_event_id (md_receipts db') = map er_event_id (md_receipts db) @ map ue_event_id fs"
    and "\<forall>e \<in> set fs. ue_event_id e \<notin> set (map er_event_id (md_receipts db))" and "distinct fs"
    by simp_all
qed

lemma run_counts:
  assumes "metrics_run sha es db0 db" and "db0 = metrics_empty"
  shows "distinct (map hour_key (md_hourly db)) \<and> distinct (map ue_event_id es)
    \<and> map er_event_id (md_receipts db) = map ue_event_id es
    \<and> usage_where hr_read_units P db = (\<Sum>e \<leftarrow> filter (\<lambda>e. P (usage_key e)) es. int (ue_read_units e))
    \<and> usage_where hr_write_units P db = (\<Sum>e \<leftarrow> filter (\<lambda>e. P (usage_key e)) es. int (ue_write_units e))"
  using assms
proof (induction rule: metrics_run.induct)
  case (start db)
  then show ?case by (simp add: metrics_empty_def usage_where_def)
next
  case (step es db db' fs db'')
  note IH = step.IH [OF step.prems]
  have keys: "distinct (map hour_key (md_hourly db'))" using IH by blast
  have ids: "map er_event_id (md_receipts db') = map ue_event_id es" using IH by blast
  note c = metered_step(1,4,5) [OF metrics_step_metered [OF step.hyps(2)] keys]
    metered_step(2,3) [where P = P, OF metrics_step_metered [OF step.hyps(2)] keys]
  have fs: "length fs \<le> 1"
    using metrics_step_metered [OF step.hyps(2)] by (auto simp: metered_def split: list.splits)
  have new: "distinct (map ue_event_id fs)" using fs by (cases fs) auto
  have "A \<inter> set (map ue_event_id fs) = {}" if "\<forall>e \<in> set fs. ue_event_id e \<notin> A" for A
    using that by auto
  from this [OF c(3), unfolded ids] have "set (map ue_event_id es) \<inter> set (map ue_event_id fs) = {}" .
  then have "distinct (map ue_event_id (es @ fs))"
    using IH new by (simp only: map_append distinct_append)
  then show ?case
    using IH c by (simp only: filter_append map_append sum_list.append)
qed

section \<open>A concrete ledger\<close>

definition demo_sha :: "string \<Rightarrow> string" where
  "demo_sha s = take 1 (rev s)"

definition demo_period :: metering_period where
  "demo_period = \<lparr>mp_start_ms = 0, mp_end_ms = 20, mp_cutoff_ms = 20\<rparr>"

definition demo_event :: usage_event where
  "demo_event = \<lparr>ue_event_id = ''e1'', ue_project_id = ''p'', ue_period = demo_period,
     ue_occurred_at_ms = 5, ue_recorded_at_ms = 6, ue_read_units = 3, ue_write_units = 2,
     ue_active_subject_hash = Some ''u'', ue_storage_snapshots = [\<lparr>sn_resource_id = ''r'', sn_logical_bytes = 9\<rparr>]\<rparr>"

definition demo_ledger :: metrics_db where
  "demo_ledger = metrics_empty\<lparr>
     md_periods := [\<lparr>pr_start_ms = 0, pr_end_ms = 20, pr_cutoff_ms = 20, pr_status = ''open'',
       pr_sealed_at_ms = None, pr_finalized_at_ms = None\<rparr>],
     md_receipts := [\<lparr>er_event_id = ''e1'', er_payload_sha256 = [CHR 0x09], er_project_id = ''70----'',
       er_period_start_ms = 0, er_occurred_at_ms = 5, er_recorded_at_ms = 6\<rparr>],
     md_hourly := [\<lparr>hr_period_start_ms = 0, hr_bucket_start_ms = 0, hr_project_id = ''70----'',
       hr_read_units = 3, hr_write_units = 2\<rparr>],
     md_claims := [\<lparr>ac_period_start_ms = 0, ac_period_end_ms = 20, ac_subject_hash = ''u'', ac_active = True,
       ac_reservation_count = 0, ac_first_seen_ms = Some 5, ac_last_seen_ms = Some 5\<rparr>],
     md_transitions := [\<lparr>tr_resource_id = ''r'', tr_occurred_at_ms = 5, tr_event_id = ''e1'', tr_logical_bytes = 9\<rparr>],
     md_current := [\<lparr>tr_resource_id = ''r'', tr_occurred_at_ms = 5, tr_event_id = ''e1'', tr_logical_bytes = 9\<rparr>]\<rparr>"

definition demo_sealed :: metrics_db where
  "demo_sealed = demo_ledger\<lparr>md_periods := [\<lparr>pr_start_ms = 0, pr_end_ms = 20, pr_cutoff_ms = 20,
     pr_status = ''sealed'', pr_sealed_at_ms = Some 20, pr_finalized_at_ms = None\<rparr>]\<rparr>"

lemma demo_recorded: "record_usage_event demo_sha demo_event metrics_empty = (Ok Inserted, demo_ledger)"
  by code_simp

lemma demo_repeated: "record_usage_event demo_sha demo_event demo_ledger = (Ok Ingest_Duplicate, demo_ledger)"
  by code_simp

lemma demo_seal: "seal_period demo_period 20 demo_ledger = (Ok (), demo_sealed)"
  by code_simp

lemma demo_run: "metrics_run demo_sha [demo_event] metrics_empty demo_sealed"
proof -
  have "metrics_run demo_sha ([] @ ingested (Ok Inserted) demo_event) metrics_empty demo_ledger"
    by (rule metrics_run.step [OF metrics_run.start metrics_step.recorded [OF demo_recorded]])
  from metrics_run.step [OF this metrics_step.recorded [OF demo_repeated]]
  have "metrics_run demo_sha [demo_event] metrics_empty demo_ledger"
    by (simp add: ingested_def)
  from metrics_run.step [OF this metrics_step.seal [OF demo_seal]] show ?thesis by simp
qed

section \<open>Exactly-once metering\<close>

text \<open>
  Usage is counted exactly once. After any sequence of calls on a new ledger, the events that
  were reported as inserted have different identifiers, and for every billing period, hour and
  project (and any union of them) the metered reads and writes are the sums over these events:
  duplicates, refused events, failed settlements and retries contribute nothing.
\<close>

theorem usage_counts_each_event_once:
  assumes "metrics_run sha es metrics_empty db"
  shows "distinct (map ue_event_id es)
    \<and> usage_where hr_read_units P db = (\<Sum>e \<leftarrow> filter (\<lambda>e. P (usage_key e)) es. int (ue_read_units e))
    \<and> usage_where hr_write_units P db = (\<Sum>e \<leftarrow> filter (\<lambda>e. P (usage_key e)) es. int (ue_write_units e))"
  using run_counts [OF assms refl, of P] by blast


lemma usage_counts_each_event_once_witness:
  "usage_where hr_read_units (\<lambda>_. True) demo_sealed = 3 \<and> map hr_bucket_start_ms (md_hourly demo_sealed) = [0]"
proof (rule conjI)
  show "usage_where hr_read_units (\<lambda>_. True) demo_sealed = 3"
    using usage_counts_each_event_once [OF demo_run, of "\<lambda>_. True"] by (simp add: demo_event_def)
qed code_simp

section \<open>A sealed period is final\<close>

text \<open>The users counted as active in a period, with the time each was first seen.\<close>

definition active_view :: "int \<Rightarrow> claim_row list \<Rightarrow> (string \<times> int option) list" where
  "active_view s cs = map (\<lambda>c. (ac_subject_hash c, ac_first_seen_ms c))
     (filter (\<lambda>c. ac_period_start_ms c = s \<and> ac_active c) cs)"

lemma active_view_update:
  assumes "\<And>c. Q c \<Longrightarrow> ac_period_start_ms (f c) = ac_period_start_ms c"
    and "\<And>c. Q c \<Longrightarrow> ac_period_start_ms c = s \<Longrightarrow>
      ac_active (f c) = ac_active c \<and> ac_subject_hash (f c) = ac_subject_hash c \<and> ac_first_seen_ms (f c) = ac_first_seen_ms c"
  shows "active_view s (map (\<lambda>c. if Q c then f c else c) cs) = active_view s cs"
  using assms by (induction cs) (auto simp: active_view_def)

lemma active_view_release [simp]: "active_view s (release_claim start_ms subject cs) = active_view s cs"
proof -
  have "active_view s (filter (\<lambda>c. \<not> (claim_key start_ms subject c \<and> \<not> ac_active c \<and> ac_reservation_count c = 0)) xs)
      = active_view s xs" for xs
    by (induction xs) (auto simp: active_view_def)
  moreover have "active_view s (update_where (\<lambda>c. claim_key start_ms subject c \<and> ac_reservation_count c > 0)
      (\<lambda>c. c\<lparr>ac_reservation_count := ac_reservation_count c - 1\<rparr>) cs) = active_view s cs"
    unfolding update_where_def by (rule active_view_update) simp_all
  ultimately show ?thesis by (simp add: release_claim_def)
qed

lemma active_view_mark:
  assumes "start_ms \<noteq> s"
  shows "active_view s (mark_active start_ms end_ms subject at cs) = active_view s cs"
proof (cases "list_ex (claim_key start_ms subject) cs")
  case True
  then show ?thesis
    unfolding mark_active_def upsert_def
    by (simp, intro active_view_update) (use assms in \<open>auto simp: seen_def claim_key_def\<close>)
next
  case False
  then show ?thesis using assms by (simp add: mark_active_def upsert_def active_view_def)
qed

lemma release_claims_view:
  "release_claims rs db = Ok (u, db') \<Longrightarrow> active_view s (md_claims db') = active_view s (md_claims db)"
proof (induction rs arbitrary: db)
  case (Cons r rs)
  obtain v db1 where 1: "release_mau_claim r db = Ok (v, db1)" and 2: "release_claims rs db1 = Ok (u, db')"
    using Cons.prems by (auto simp: tx_bind_eq_Ok)
  have "active_view s (md_claims db1) = active_view s (md_claims db)"
    using 1 by (rule release_mau_claim_Ok) auto
  then show ?case using Cons.IH [OF 2] by simp
qed simp

lemma expire_view:
  assumes "expire_reservations now_ms db = Ok (u, db')"
  shows "active_view s (md_claims db') = active_view s (md_claims db)"
proof -
  obtain v db1 where "release_claims (filter (expiring now_ms) (md_reservations db)) db = Ok (v, db1)"
      "md_claims db' = md_claims db1"
    using assms by (auto simp: expire_reservations_def ffdb_result)
  then show ?thesis using release_claims_view by metis
qed

lemma claim_subject_view:
  assumes "claim_subject q limits db = Ok (b, db')"
  shows "active_view s (md_claims db') = active_view s (md_claims db)"
proof (cases "rr_active_subject_hash q")
  case None
  then show ?thesis using assms by (simp add: claim_subject_def)
next
  case (Some subject)
  let ?key = "claim_key (mp_start_ms (rr_period q)) subject"
  have "active_view s (map (\<lambda>c. if ?key c then c\<lparr>ac_reservation_count := ac_reservation_count c + 1\<rparr> else c) (md_claims db))
      = active_view s (md_claims db)"
    by (rule active_view_update) simp_all
  then show ?thesis
    using assms Some by (auto simp: claim_subject_def Let_def ffdb_result upsert_def active_view_def)
qed

lemma activate_view:
  assumes "activate_mau_claim r now_ms db = Ok (u, db')" and "ur_period_start_ms r \<noteq> s"
  shows "active_view s (md_claims db') = active_view s (md_claims db)"
proof (cases "ur_mau_claimed r")
  case True
  then obtain subject where s: "ur_subject_hash r = Some subject"
    using assms(1) by (auto simp: activate_mau_claim_def split: option.splits)
  let ?held = "\<lambda>c. claim_key (ur_period_start_ms r) subject c \<and> ac_reservation_count c > 0"
  have "active_view s (map (\<lambda>c. if ?held c then (seen now_ms c)\<lparr>ac_reservation_count := ac_reservation_count c - 1\<rparr> else c)
      (md_claims db)) = active_view s (md_claims db)"
    by (rule active_view_update) (use assms(2) in \<open>auto simp: seen_def claim_key_def\<close>)
  then show ?thesis
    using assms True s active_view_mark [OF assms(2)]
    by (auto simp: activate_mau_claim_def Let_def update_where_def split: if_splits)
qed (use assms in \<open>simp add: activate_mau_claim_def\<close>)

text \<open>Settled reservations name an ingested event.\<close>

definition settled_have_receipts :: "metrics_db \<Rightarrow> bool" where
  "settled_have_receipts db \<longleftrightarrow>
     set (map ur_event_id (md_reservations db)) \<subseteq> insert None (Some ` set (map er_event_id (md_receipts db)))"

text \<open>What a step may do to a closed period: nothing to its usage and its active users.\<close>

definition frozen :: "int \<Rightarrow> usage_event list \<Rightarrow> metrics_db \<Rightarrow> metrics_db \<Rightarrow> bool" where
  "frozen s fs db db' \<longleftrightarrow> closed s db' \<and> active_view s (md_claims db') = active_view s (md_claims db)
     \<and> (\<forall>e \<in> set fs. mp_start_ms (ue_period e) \<noteq> s)"

lemma same_periods_closed:
  "ensure_period p db = Ok (u, db1) \<Longrightarrow> md_periods db' = md_periods db1 \<Longrightarrow> closed s db' \<longleftrightarrow> closed s db"
  using closed_ensure closed_cong by blast

lemma ingest_periods:
  assumes "ingest_event sha e db = Ok (outcome, db')"
  shows "closed s db' \<longleftrightarrow> closed s db"
  using assms
proof (cases rule: ingest_cases)
  case (New ps u ts cur)
  then show ?thesis by (intro same_periods_closed [OF New(1)]) simp
qed (rule closed_ensure)

lemma ingest_view:
  assumes "ingest_event sha e db = Ok (outcome, db')" and "outcome = Inserted \<longrightarrow> mp_start_ms (ue_period e) \<noteq> s"
  shows "active_view s (md_claims db') = active_view s (md_claims db)"
  using assms(1)
proof (cases rule: ingest_cases)
  case (New ps u ts cur)
  then show ?thesis
    using assms(2) by (auto simp: event_claims_def active_view_mark split: option.split)
qed simp


lemma closed_upd [simp]:
  "closed s (db\<lparr>md_claims := cs\<rparr>) = closed s db" "closed s (db\<lparr>md_reservations := rs\<rparr>) = closed s db"
  by (simp_all add: closed_def period_at_def)

lemma reserve_frozen:
  assumes "reserve sha q limits db = (r, db')" and "closed s db"
  shows "frozen s [] db db'"
  using assms(1)
proof (cases rule: reserve_cases)
  case (Tx t)
  from Tx(1) show ?thesis
  proof (cases rule: reserve_tx_cases)
    case (Known db1 db2 r u v)
    obtain ps where "db1 = db\<lparr>md_periods := ps\<rparr>" using ensure_period_same [OF Known(1)] by blast
    moreover have "closed s db2" using Known(1,2) assms(2) closed_ensure by (auto elim!: expire_reservations_Ok)
    ultimately show ?thesis using expire_view [OF Known(2), of s] by (simp add: frozen_def Known(3))
  next
    case (New db1 db2 db3 u v m w)
    obtain ps where ps: "db1 = db\<lparr>md_periods := ps\<rparr>" using ensure_period_same [OF New(1)] by blast
    have "closed s db2" using New(1,2) assms(2) closed_ensure by (auto elim!: expire_reservations_Ok)
    then have "closed s db3" using claim_subject_Ok [OF New(6)] by auto
    moreover obtain rs where "db' = db3\<lparr>md_reservations := rs\<rparr>" using New(7) by (rule insert_reservation_Ok) blast
    ultimately show ?thesis
      using expire_view [OF New(2), of s] claim_subject_view [OF New(6), of s] by (simp add: frozen_def ps)
  qed
qed (use assms(2) in \<open>simp add: frozen_def\<close>)

lemma replay_is_duplicate:
  assumes "ingest_event sha e db = Ok (outcome, db')" and "ue_event_id e \<in> set (map er_event_id (md_receipts db))"
  shows "outcome = Ingest_Duplicate"
  using assms(1)
proof (cases rule: ingest_cases)
  case New
  then show ?thesis using assms(2) by (auto simp: stored_receipt_def row_where_None_iff)
qed simp

lemma settle_frozen:
  assumes "settle_reservation sha rid e db = (out, db')" and "closed s db" and "settled_have_receipts db"
  shows "frozen s (ingested out e) db db'"
  using assms(1)
proof (cases rule: settle_reservation_cases)
  case Failed
  then show ?thesis using assms(2) by (simp add: frozen_def isl_not_ingested)
next
  case (Replayed r outcome)
  have "r \<in> set (md_reservations db)" using Replayed(1) by (auto simp: usage_reservation_def dest: row_where_SomeD)
  then have "Some (ue_event_id e) \<in> set (map ur_event_id (md_reservations db))"
    using Replayed(3) by (simp add: rev_image_eqI)
  then have "ue_event_id e \<in> set (map er_event_id (md_receipts db))"
    using assms(3) unfolding settled_have_receipts_def by blast
  then have "outcome = Ingest_Duplicate" by (rule replay_is_duplicate [OF Replayed(4)])
  then show ?thesis
    using Replayed(4,5) assms(2) ingest_view [OF Replayed(4), of s] ingest_periods [OF Replayed(4), of s]
    by (simp add: frozen_def ingested_def)
next
  case (Settled r outcome db1 cs u)
  have other: "mp_start_ms (ue_period e) \<noteq> s" using accepting_not_closed [OF Settled(5)] assms(2) by auto
  then have "ur_period_start_ms r \<noteq> s" using reservation_covers_Ok(1) [OF Settled(4)] by simp
  then have "active_view s cs = active_view s (md_claims db1)"
    using activate_view [OF Settled(7), of s] by simp
  then show ?thesis
    using other assms(2) ingest_view [OF Settled(6), of s] ingest_periods [OF Settled(6), of s]
    by (auto simp: frozen_def ingested_def Settled(8))
qed

lemma record_frozen:
  assumes "record_usage_event sha e db = (out, db')" and "closed s db"
  shows "frozen s (ingested out e) db db'"
  using assms(1)
proof (cases rule: record_usage_event_cases)
  case Failed
  then show ?thesis using assms(2) by (simp add: frozen_def isl_not_ingested)
next
  case (Ingested ps u outcome)
  have closed: "closed s (db\<lparr>md_periods := ps\<rparr>)" using closed_ensure [OF Ingested(2)] assms(2) by simp
  then have "mp_start_ms (ue_period e) \<noteq> s" using accepting_not_closed [OF Ingested(3)] by auto
  then show ?thesis
    using closed ingest_view [OF Ingested(4), of s] ingest_periods [OF Ingested(4), of s]
    by (auto simp: frozen_def ingested_def)
qed

lemma step_frozen:
  assumes "metrics_step sha fs db db'" and "closed s db" and "settled_have_receipts db"
  shows "frozen s fs db db'"
  using assms(1)
proof (cases rule: metrics_step_cases)
  case Quiet
  then show ?thesis using assms(2) by (simp add: frozen_def quiet_def same_ledger_def)
next
  case (Reserve q limits r)
  then show ?thesis using reserve_frozen assms(2) by simp
next
  case (Release rid now_ms r)
  from Release(2) show ?thesis
  proof (cases rule: release_Ok)
    case (Released r cs)
    have "active_view s cs = active_view s (md_claims db)"
      using release_claims_view [of "[r]" db "()" "db\<lparr>md_claims := cs\<rparr>" s] Released(3) by (simp add: tx_bind_def)
    then show ?thesis using assms(2) by (simp add: frozen_def Release(1) Released(4))
  qed (use assms(2) in \<open>simp add: frozen_def Release(1)\<close>)
next
  case (Settle rid e out)
  then show ?thesis using settle_frozen assms(2,3) by simp
next
  case (Record e out)
  then show ?thesis using record_frozen assms(2) by simp
qed


lemma settled_cong:
  assumes "settled_have_receipts db" and "set (map er_event_id (md_receipts db)) \<subseteq> set (map er_event_id (md_receipts db'))"
    and "set (map ur_event_id (md_reservations db')) \<subseteq>
      set (map ur_event_id (md_reservations db)) \<union> insert None (Some ` set (map er_event_id (md_receipts db')))"
  shows "settled_have_receipts db'"
  using assms unfolding settled_have_receipts_def by blast

lemma event_ids_update:
  "(\<And>r. Q r \<Longrightarrow> ur_event_id (f r) = ur_event_id r) \<Longrightarrow> map ur_event_id (update_where Q f rs) = map ur_event_id rs"
  by (rule update_where_map)

lemma reserve_settled:
  assumes "reserve sha q limits db = (r, db')" and "settled_have_receipts db"
  shows "settled_have_receipts db'"
  using assms(1)
proof (cases rule: reserve_cases)
  case (Tx t)
  have receipts: "md_receipts db' = md_receipts db" using reserve_same_usage [OF assms(1)] by (simp add: same_usage_def)
  have "set (map ur_event_id (md_reservations db')) \<subseteq> insert None (set (map ur_event_id (md_reservations db)))"
    using Tx(1)
  proof (cases rule: reserve_tx_cases)
    case (Known db1 db2 r u v)
    obtain ps where ps: "db1 = db\<lparr>md_periods := ps\<rparr>" using ensure_period_same [OF Known(1)] by blast
    from Known(2) have "map ur_event_id (md_reservations db2) = map ur_event_id (md_reservations db1)"
      by (rule expire_reservations_Ok) (simp add: event_ids_update)
    then show ?thesis by (auto simp: ps Known(3) simp del: list.set_map)
  next
    case (New db1 db2 db3 u v m w)
    obtain ps where ps: "db1 = db\<lparr>md_periods := ps\<rparr>" using ensure_period_same [OF New(1)] by blast
    from New(2) have "map ur_event_id (md_reservations db2) = map ur_event_id (md_reservations db1)"
      by (rule expire_reservations_Ok) (simp add: event_ids_update)
    moreover have "md_reservations db3 = md_reservations db2" using claim_subject_Ok [OF New(6)] by auto
    moreover from New(7) have "map ur_event_id (md_reservations db') = map ur_event_id (md_reservations db3) @ [None]"
      by (rule insert_reservation_Ok) simp
    ultimately show ?thesis by (auto simp: ps simp del: list.set_map)
  qed
  then show ?thesis using assms(2) unfolding settled_have_receipts_def receipts by blast
qed (use assms(2) in simp)

lemma ingest_receipts:
  assumes "ingest_event sha e db = Ok (outcome, db')"
  shows "set (map er_event_id (md_receipts db')) = insert (ue_event_id e) (set (map er_event_id (md_receipts db)))"
    and "md_reservations db' = md_reservations db"
proof -
  have "set (map er_event_id (md_receipts db')) = insert (ue_event_id e) (set (map er_event_id (md_receipts db)))
      \<and> md_reservations db' = md_reservations db"
    using assms
  proof (cases rule: ingest_cases)
    case (Known r ps u)
    have "r \<in> set (md_receipts db) \<and> er_event_id r = ue_event_id e"
      using Known(3) unfolding stored_receipt_def by (rule row_where_SomeD)
    then have "ue_event_id e \<in> set (map er_event_id (md_receipts db))" by force
    then show ?thesis by (simp add: Known(2) insert_absorb)
  qed (simp add: event_receipt_def)
  then show "set (map er_event_id (md_receipts db')) = insert (ue_event_id e) (set (map er_event_id (md_receipts db)))"
    and "md_reservations db' = md_reservations db" by simp_all
qed

lemma step_settled:
  assumes "metrics_step sha fs db db'" and "settled_have_receipts db"
  shows "settled_have_receipts db'"
  using assms(1)
proof (cases rule: metrics_step_cases)
  case Quiet
  then show ?thesis
    using assms(2) by (simp add: settled_have_receipts_def quiet_def same_ledger_def same_usage_def)
next
  case (Reserve q limits r)
  then show ?thesis using reserve_settled assms(2) by simp
next
  case (Release rid now_ms r)
  from Release(2) show ?thesis
    by (cases rule: release_Ok) (use assms(2) in \<open>simp_all add: settled_have_receipts_def event_ids_update del: list.set_map\<close>)
next
  case (Settle rid e out)
  from Settle(2) show ?thesis
  proof (cases rule: settle_reservation_cases)
    case (Replayed r outcome)
    show ?thesis
      using ingest_receipts [OF Replayed(4)] by (intro settled_cong [OF assms(2)]) auto
  next
    case (Settled r outcome db1 cs u)
    have "set (map ur_event_id (settled rid e rs)) \<subseteq> insert (Some (ue_event_id e)) (set (map ur_event_id rs))" for rs
      by (auto simp: settled_def update_where_def)
    then have "set (map ur_event_id (md_reservations db')) \<subseteq>
        insert (Some (ue_event_id e)) (set (map ur_event_id (md_reservations db)))"
      using ingest_receipts(2) [OF Settled(6)] by (simp add: Settled(8) del: list.set_map)
    moreover have "set (map er_event_id (md_receipts db')) = insert (ue_event_id e) (set (map er_event_id (md_receipts db)))"
      using ingest_receipts(1) [OF Settled(6)] by (simp add: Settled(8) del: list.set_map)
    ultimately show ?thesis
      by (intro settled_cong [OF assms(2)]) blast+
  qed (use assms(2) in simp)
next
  case (Record e out)
  from Record(2) show ?thesis
  proof (cases rule: record_usage_event_cases)
    case (Ingested ps u outcome)
    show ?thesis
      using ingest_receipts [OF Ingested(4)] by (intro settled_cong [OF assms(2)]) auto
  qed (use assms(2) in simp)
qed

lemma run_settled: "metrics_run sha es db db' \<Longrightarrow> settled_have_receipts db \<Longrightarrow> settled_have_receipts db'"
  by (induction rule: metrics_run.induct) (auto intro: step_settled)

lemma frozen_usage:
  assumes "metrics_step sha fs db db'" and "\<forall>e \<in> set fs. mp_start_ms (ue_period e) \<noteq> s"
  shows "filter (\<lambda>h. hr_period_start_ms h = s) (md_hourly db') = filter (\<lambda>h. hr_period_start_ms h = s) (md_hourly db)"
proof -
  consider (None) "md_hourly db' = md_hourly db"
    | (One) e where "fs = [e]" "md_hourly db' = add_usage e (int (ue_read_units e)) (int (ue_write_units e)) (md_hourly db)"
    using metrics_step_metered [OF assms(1)] by (auto simp: metered_def same_usage_def split: list.splits)
  then show ?thesis
  proof cases
    case (One e)
    then show ?thesis
      using assms(2) unfolding One(2) add_usage_def Let_def
      by (intro upsert_filter_other) (auto simp: hourly_key_def)
  qed simp
qed

lemma run_frozen:
  assumes "metrics_run sha es db db'" and "closed s db" and "settled_have_receipts db"
  shows "frozen s es db db' \<and> settled_have_receipts db'
    \<and> filter (\<lambda>h. hr_period_start_ms h = s) (md_hourly db') = filter (\<lambda>h. hr_period_start_ms h = s) (md_hourly db)"
  using assms
proof (induction rule: metrics_run.induct)
  case (step es db db' fs db'')
  then have IH: "frozen s es db db'" "settled_have_receipts db'" "filter (\<lambda>h. hr_period_start_ms h = s) (md_hourly db')
      = filter (\<lambda>h. hr_period_start_ms h = s) (md_hourly db)" by simp_all
  have one: "frozen s fs db' db''" using step_frozen [OF step.hyps(2)] IH(1,2) by (simp add: frozen_def)
  then show ?case
    using IH step_settled [OF step.hyps(2)] frozen_usage [OF step.hyps(2), of s] by (auto simp: frozen_def)
qed (simp add: frozen_def)

lemma filter_conj_split: "filter (\<lambda>x. P x \<and> Q x) xs = filter Q (filter P xs)"
  by (simp add: conj_commute)

text \<open>
  C32. The usage of a sealed period is final. From any reachable state in which a period is sealed
  (or finalized), whatever calls follow, the period stays closed, no event of the period is ingested,
  and two summaries of the period up to the same time agree on reads, writes and active users.
\<close>

theorem sealed_usage_is_final:
  assumes "metrics_run sha es metrics_empty db" and "closed (mp_start_ms p) db" and "metrics_run sha fs db db'"
    and "summary_through p t db = Ok u" and "summary_through p t db' = Ok u'"
  shows "closed (mp_start_ms p) db' \<and> (\<forall>e \<in> set fs. mp_start_ms (ue_period e) \<noteq> mp_start_ms p)
    \<and> us_read_units u' = us_read_units u \<and> us_write_units u' = us_write_units u
    \<and> us_monthly_active_users u' = us_monthly_active_users u"
proof -
  let ?s = "mp_start_ms p"
  have "settled_have_receipts db"
    by (rule run_settled [OF assms(1)]) (simp add: settled_have_receipts_def metrics_empty_def)
  note f = run_frozen [OF assms(3,2) this]
  have mau: "count_rows (\<lambda>c. ac_period_start_ms c = ?s \<and> ac_active c
      \<and> (case ac_first_seen_ms c of None \<Rightarrow> False | Some v \<Rightarrow> v < t)) cs
    = length (filter (\<lambda>(_, seen). case seen of None \<Rightarrow> False | Some v \<Rightarrow> v < t) (active_view ?s cs))" for cs
    by (induction cs) (auto simp: count_rows_def active_view_def split: option.splits)
  have used: "filter (\<lambda>h. hr_period_start_ms h = ?s \<and> hr_bucket_start_ms h < t) (md_hourly db')
      = filter (\<lambda>h. hr_period_start_ms h = ?s \<and> hr_bucket_start_ms h < t) (md_hourly db)"
    using f by (simp add: filter_conj_split del: filter_filter)
  show ?thesis
    using assms(4,5) f unfolding summary_through_def Let_def used mau
    by (auto simp: ffdb_result frozen_def split: if_splits)
qed

lemma demo_refused:
  "record_usage_event demo_sha (demo_event\<lparr>ue_event_id := ''e2''\<rparr>) demo_sealed = (Err PeriodSealed, demo_sealed)"
  by code_simp

lemma demo_summary: "summary_through demo_period 20 demo_sealed = Ok \<lparr>us_read_units = 3, us_write_units = 2,
    us_monthly_active_users = 1, us_storage_bytes_at_end = 9, us_storage_byte_milliseconds = 135\<rparr>"
  by code_simp

lemma sealed_usage_is_final_witness:
  "fst (record_usage_event demo_sha (demo_event\<lparr>ue_event_id := ''e2''\<rparr>) demo_sealed) = Err PeriodSealed
   \<and> closed (mp_start_ms demo_period) demo_sealed"
proof -
  have closed: "closed (mp_start_ms demo_period) demo_sealed"
    by (simp add: closed_def period_at_def demo_sealed_def demo_period_def)
  have "metrics_run demo_sha [] demo_sealed demo_sealed"
    using metrics_run.step [OF metrics_run.start metrics_step.recorded [OF demo_refused]] by (simp add: ingested_def)
  from sealed_usage_is_final [OF demo_run closed this demo_summary demo_summary]
  show ?thesis by (simp add: demo_refused)
qed

end
