(* ===== verification/Metrics_Limits.thy ===== *)
theory Metrics_Limits
  imports Metrics_Properties
begin

text \<open>
  Admission control. What has been used and what is reserved exceed, together, the limits under which
  reservations are admitted at most by what was metered without an active reservation: by
  \<open>record_event\<close>, which checks no limit, or by settling a reservation that had expired. The same holds
  of the number of monthly active users.
\<close>

section \<open>Claims and the reservations behind them\<close>

type_synonym claim_id = "int \<times> string"

definition claim_id :: "claim_row \<Rightarrow> claim_id" where
  "claim_id c = (ac_period_start_ms c, ac_subject_hash c)"

lemma claim_key_id: "claim_key s x = (\<lambda>c. claim_id c = (s, x))"
  by (simp add: fun_eq_iff claim_key_def claim_id_def)

text \<open>
  The accounting of the claims: one row per period and user, each row in use, and a row not yet
  active counts exactly the reservations that hold it (\<open>n\<close> of them).
\<close>

definition accounted :: "claim_row list \<Rightarrow> (claim_id \<Rightarrow> int) \<Rightarrow> bool" where
  "accounted cs n \<longleftrightarrow> distinct (map claim_id cs)
     \<and> (\<forall>c \<in> set cs. ac_active c \<or> (ac_reservation_count c = n (claim_id c) \<and> 0 < n (claim_id c)))
     \<and> (\<forall>k. 0 \<le> n k \<and> (0 < n k \<longrightarrow> k \<in> claim_id ` set cs))"

lemma accountedI:
  assumes "distinct (map claim_id cs)"
    and "\<And>c. c \<in> set cs \<Longrightarrow> ac_active c \<or> (ac_reservation_count c = n (claim_id c) \<and> 0 < n (claim_id c))"
    and "\<And>k. 0 \<le> n k" and "\<And>k. 0 < n k \<Longrightarrow> k \<in> claim_id ` set cs"
  shows "accounted cs n"
  unfolding accounted_def using assms by blast

lemma accountedD:
  assumes "accounted cs n"
  shows "distinct (map claim_id cs)" and "0 \<le> n k" and "0 < n k \<Longrightarrow> \<exists>c \<in> set cs. claim_id c = k"
    and "c \<in> set cs \<Longrightarrow> ac_active c \<or> (ac_reservation_count c = n (claim_id c) \<and> 0 < n (claim_id c))"
  using assms unfolding accounted_def by blast+

definition users_in :: "int \<Rightarrow> claim_row list \<Rightarrow> nat" where
  "users_in s cs = length (filter (\<lambda>c. ac_period_start_ms c = s) cs)"

lemma users_in_map: "(\<And>c. claim_id (f c) = claim_id c) \<Longrightarrow> users_in s (map f cs) = users_in s cs"
  by (induction cs) (auto simp: users_in_def claim_id_def)

lemma users_in_filter_le: "users_in s (filter P cs) \<le> users_in s cs"
  by (induction cs) (auto simp: users_in_def)

lemma release_claim_accounted:
  assumes "accounted cs n" and "0 < n (s, x)"
  shows "accounted (release_claim s x cs) (n((s, x) := n (s, x) - 1))" and "users_in t (release_claim s x cs) \<le> users_in t cs"
proof -
  let ?upd = "\<lambda>c. if claim_id c = (s, x) \<and> ac_reservation_count c > 0
      then c\<lparr>ac_reservation_count := ac_reservation_count c - 1\<rparr> else c"
  let ?keep = "\<lambda>c. \<not> (claim_id c = (s, x) \<and> \<not> ac_active c \<and> ac_reservation_count c = 0)"
  have eq: "release_claim s x cs = filter ?keep (map ?upd cs)"
    by (simp add: release_claim_def update_where_def claim_key_id)
  have ids: "claim_id (?upd c) = claim_id c" for c by (simp add: claim_id_def)
  have "map claim_id (map ?upd cs) = map claim_id cs" by (simp add: ids)
  then have d: "distinct (map claim_id (map ?upd cs))" using assms(1) by (simp only: accounted_def)
  have "distinct (map claim_id (filter ?keep (map ?upd cs)))" using d by (rule distinct_map_filter)
  moreover have "ac_active c \<or> (ac_reservation_count c = (n((s, x) := n (s, x) - 1)) (claim_id c)
      \<and> 0 < (n((s, x) := n (s, x) - 1)) (claim_id c))" if "c \<in> set (filter ?keep (map ?upd cs))" for c
  proof -
    from that have "c \<in> ?upd ` set cs \<and> ?keep c" by (simp only: set_filter set_map mem_Collect_eq simp_thms)
    then have "c \<in> ?upd ` set cs" and keep: "?keep c" by blast+
    then obtain c0 where c0: "c0 \<in> set cs" "c = ?upd c0" by blast
    show ?thesis using c0 keep accountedD(4) [OF assms(1) c0(1)] assms(2) by (auto simp: claim_id_def)
  qed
  moreover have "k \<in> claim_id ` set (filter ?keep (map ?upd cs))" if k: "0 < (n((s, x) := n (s, x) - 1)) k" for k
  proof -
    have "0 < n k" using k assms(2) by (auto split: if_splits)
    then obtain c where c: "c \<in> set cs" "claim_id c = k" using accountedD(3) [OF assms(1)] by blast
    have "?keep (?upd c)" using k c accountedD(4) [OF assms(1) c(1)] by (auto simp: claim_id_def split: if_splits)
    moreover have "?upd c \<in> ?upd ` set cs" using c(1) by (rule imageI)
    ultimately have "?upd c \<in> set (filter ?keep (map ?upd cs))"
      by (simp only: set_filter set_map mem_Collect_eq simp_thms)
    moreover have "claim_id (?upd c) = k" by (rule trans [OF ids c(2)])
    ultimately show ?thesis by blast
  qed
  moreover have "0 \<le> (n((s, x) := n (s, x) - 1)) k" for k
    using assms(2) accountedD(2) [OF assms(1), of k] by auto
  ultimately show "accounted (release_claim s x cs) (n((s, x) := n (s, x) - 1))"
    unfolding eq by (intro accountedI) auto
  show "users_in t (release_claim s x cs) \<le> users_in t cs"
    unfolding eq using users_in_filter_le [of t ?keep "map ?upd cs"] users_in_map [of ?upd, OF ids] by simp
qed

text \<open>A change of the rows that keeps their keys.\<close>

lemma map_accounted:
  assumes "accounted cs n" and ids: "\<And>c. claim_id (f c) = claim_id c"
    and rows: "\<And>c. c \<in> set cs \<Longrightarrow> ac_active (f c)
      \<or> (ac_reservation_count (f c) = n' (claim_id c) \<and> 0 < n' (claim_id c))"
    and n': "\<And>k. 0 \<le> n' k" "\<And>k. 0 < n' k \<Longrightarrow> 0 < n k"
  shows "accounted (map f cs) n'" and "users_in t (map f cs) = users_in t cs"
proof -
  have eq: "map claim_id (map f cs) = map claim_id cs" by (simp add: ids)
  show "accounted (map f cs) n'"
  proof (rule accountedI)
    show "distinct (map claim_id (map f cs))" using accountedD(1) [OF assms(1)] by (simp only: eq)
    show "ac_active c \<or> (ac_reservation_count c = n' (claim_id c) \<and> 0 < n' (claim_id c))" if "c \<in> set (map f cs)" for c
    proof -
      obtain c0 where c0: "c0 \<in> set cs" "c = f c0" using \<open>c \<in> set (map f cs)\<close> by auto
      then show ?thesis using rows [OF c0(1)] by (simp add: ids)
    qed
    show "k \<in> claim_id ` set (map f cs)" if "0 < n' k" for k
    proof -
      obtain c where "c \<in> set cs" "claim_id c = k" using accountedD(3) [OF assms(1)] n'(2) \<open>0 < n' k\<close> by blast
      then have "k \<in> set (map claim_id cs)" by auto
      then show ?thesis using eq by (metis list.set_map)
    qed
  qed (rule n'(1))
  show "users_in t (map f cs) = users_in t cs" by (rule users_in_map) (rule ids)
qed

text \<open>Marking the user of a held claim as active, spending the claim, and claiming.\<close>

lemma held_claim_exists:
  assumes "accounted cs n" and "0 < n (s, x)"
  shows "list_ex (\<lambda>c. claim_id c = (s, x)) cs"
  using accountedD(3) [OF assms] by (auto simp: list_ex_iff)

lemma mark_active_eq:
  "list_ex (\<lambda>c. claim_id c = (s, x)) cs \<Longrightarrow>
     mark_active s e x at cs = map (\<lambda>c. if claim_id c = (s, x) then seen at c else c) cs"
  by (simp add: mark_active_def upsert_def claim_key_id)

lemma mark_active_accounted:
  assumes "accounted cs n" and "0 < n (s, x)"
  shows "accounted (mark_active s e x at cs) n" and "users_in t (mark_active s e x at cs) = users_in t cs"
proof -
  note eq = mark_active_eq [OF held_claim_exists [OF assms], of e at]
  have "accounted (map (\<lambda>c. if claim_id c = (s, x) then seen at c else c) cs) n"
    by (rule map_accounted(1) [OF assms(1)])
      (use accountedD(2,4) [OF assms(1)] in \<open>auto simp: claim_id_def seen_def\<close>)
  then show "accounted (mark_active s e x at cs) n" unfolding eq .
  show "users_in t (mark_active s e x at cs) = users_in t cs"
    unfolding eq by (rule users_in_map) (simp add: claim_id_def seen_def)
qed

lemma spend_accounted:
  assumes "accounted cs n" and "0 < n (s, x)" and "\<forall>c \<in> set cs. claim_id c = (s, x) \<longrightarrow> Q c \<or> ac_active c"
    and "\<And>c. ac_active (f c) \<and> claim_id (f c) = claim_id c"
  shows "accounted (map (\<lambda>c. if claim_id c = (s, x) \<and> Q c then f c else c) cs) (n((s, x) := n (s, x) - 1))"
    and "users_in t (map (\<lambda>c. if claim_id c = (s, x) \<and> Q c then f c else c) cs) = users_in t cs"
proof -
  show "accounted (map (\<lambda>c. if claim_id c = (s, x) \<and> Q c then f c else c) cs) (n((s, x) := n (s, x) - 1))"
  proof (rule map_accounted(1) [OF assms(1)])
    fix c assume "c \<in> set cs"
    then show "ac_active (if claim_id c = (s, x) \<and> Q c then f c else c)
        \<or> (ac_reservation_count (if claim_id c = (s, x) \<and> Q c then f c else c) = (n((s, x) := n (s, x) - 1)) (claim_id c)
           \<and> 0 < (n((s, x) := n (s, x) - 1)) (claim_id c))"
      using assms(3,4) accountedD(4) [OF assms(1), of c] by (cases "claim_id c = (s, x)") auto
  next
    fix k show "0 \<le> (n((s, x) := n (s, x) - 1)) k"
      using assms(2) accountedD(2) [OF assms(1), of k] by (cases "k = (s, x)") auto
  next
    fix k assume "0 < (n((s, x) := n (s, x) - 1)) k"
    then show "0 < n k" using assms(2) by (cases "k = (s, x)") auto
  qed (use assms(4) in simp)
  show "users_in t (map (\<lambda>c. if claim_id c = (s, x) \<and> Q c then f c else c) cs) = users_in t cs"
    by (rule users_in_map) (use assms(4) in simp)
qed

lemma activate_accounted:
  assumes "activate_mau_claim r now_ms db = Ok (u, db')" and "ur_mau_claimed r" and "ur_subject_hash r = Some x"
    and "accounted (md_claims db) n" and "0 < n (ur_period_start_ms r, x)"
  shows "accounted (md_claims db') (n((ur_period_start_ms r, x) := n (ur_period_start_ms r, x) - 1))"
    and "users_in t (md_claims db') = users_in t (md_claims db)"
proof -
  let ?s = "ur_period_start_ms r"
  have "md_claims db' = map (\<lambda>c. if claim_id c = (?s, x) \<and> ac_reservation_count c > 0
        then (seen now_ms c)\<lparr>ac_reservation_count := ac_reservation_count c - 1\<rparr> else c) (md_claims db)
    \<or> md_claims db' = map (\<lambda>c. if claim_id c = (?s, x) \<and> True then seen now_ms c else c) (md_claims db)"
    using assms(1-3) mark_active_eq [OF held_claim_exists [OF assms(4,5)]]
    by (auto simp: activate_mau_claim_def Let_def claim_key_id update_where_def split: if_splits)
  moreover have held: "\<forall>c \<in> set (md_claims db). claim_id c = (?s, x) \<longrightarrow> ac_reservation_count c > 0 \<or> ac_active c"
    using accountedD(4) [OF assms(4)] by metis
  note spend1 = spend_accounted [OF assms(4,5) held]
    and spend2 = spend_accounted [OF assms(4,5), of "\<lambda>_. True"]
  have "accounted (map (\<lambda>c. if claim_id c = (?s, x) \<and> ac_reservation_count c > 0
        then (seen now_ms c)\<lparr>ac_reservation_count := ac_reservation_count c - 1\<rparr> else c) (md_claims db))
      (n((?s, x) := n (?s, x) - 1))"
    by (rule spend1(1)) (simp add: seen_def claim_id_def)
  moreover have "accounted (map (\<lambda>c. if claim_id c = (?s, x) \<and> True then seen now_ms c else c) (md_claims db))
      (n((?s, x) := n (?s, x) - 1))"
    by (rule spend2(1)) (simp_all add: seen_def claim_id_def)
  moreover have "users_in t (map (\<lambda>c. if claim_id c = (?s, x) \<and> ac_reservation_count c > 0
        then (seen now_ms c)\<lparr>ac_reservation_count := ac_reservation_count c - 1\<rparr> else c) (md_claims db))
      = users_in t (md_claims db)"
    by (rule spend1(2)) (simp add: seen_def claim_id_def)
  moreover have "users_in t (map (\<lambda>c. if claim_id c = (?s, x) \<and> True then seen now_ms c else c) (md_claims db))
      = users_in t (md_claims db)"
    by (rule spend2(2)) (simp_all add: seen_def claim_id_def)
  ultimately show "accounted (md_claims db') (n((?s, x) := n (?s, x) - 1))"
    and "users_in t (md_claims db') = users_in t (md_claims db)"
    by (elim disjE; simp only:)+
qed

section \<open>What is reserved\<close>

definition held :: "(usage_reservation_row \<Rightarrow> int) \<Rightarrow> (usage_reservation_row \<Rightarrow> bool) \<Rightarrow> usage_reservation_row list \<Rightarrow> int" where
  "held f P rs = sum_list (map f (filter (\<lambda>r. ur_status r = ''active'' \<and> P r) rs))"

definition holders :: "usage_reservation_row list \<Rightarrow> claim_id \<Rightarrow> int" where
  "holders rs k = held (\<lambda>_. 1) (\<lambda>r. ur_period_start_ms r = fst k \<and> ur_subject_hash r = Some (snd k)) rs"

definition in_period :: "int \<Rightarrow> usage_reservation_row \<Rightarrow> bool" where
  "in_period s r \<longleftrightarrow> ur_period_start_ms r = s"

lemma held_append [simp]: "held f P (rs @ ss) = held f P rs + held f P ss"
  by (simp add: held_def)

lemma held_Cons: "held f P (r # rs) = (if ur_status r = ''active'' \<and> P r then f r else 0) + held f P rs"
  by (simp add: held_def)

lemma held_Nil [simp]: "held f P [] = 0"
  by (simp add: held_def)

text \<open>A reservation that ceases to be active is no longer held.\<close>

lemma held_update_other:
  "\<forall>r \<in> set rs. ur_reservation_id r \<noteq> rid \<Longrightarrow>
     held f P (update_where (\<lambda>x. ur_reservation_id x = rid \<and> Q x) g rs) = held f P rs"
  by (induction rs) (auto simp: held_Cons update_where_def)

lemma held_update:
  assumes "distinct (map ur_reservation_id rs)" and "row_where (\<lambda>x. ur_reservation_id x = rid) rs = Some r"
    and "Q r" and "ur_status (g r) \<noteq> ''active''"
  shows "held f P (update_where (\<lambda>x. ur_reservation_id x = rid \<and> Q x) g rs)
    = held f P rs - (if ur_status r = ''active'' \<and> P r then f r else 0)"
  using assms
proof (induction rs)
  case (Cons y rs)
  show ?case
  proof (cases "ur_reservation_id y = rid")
    case True
    then have y: "y = r" using Cons.prems(2) by simp
    have "\<forall>z \<in> set rs. ur_reservation_id z \<noteq> rid" using Cons.prems(1) True by (auto simp: rev_image_eqI)
    from held_update_other [OF this, of f P Q g] show ?thesis
      using Cons.prems(3,4) True by (simp add: y update_where_def held_Cons)
  next
    case False
    then show ?thesis using Cons by (simp add: update_where_def held_Cons)
  qed
qed simp

lemma held_expire:
  "held f P (update_where (expiring t) (\<lambda>r. r\<lparr>ur_status := ''expired'', ur_resolved_at_ms := Some t\<rparr>) rs)
    = held f P rs - held f P (filter (expiring t) rs)"
  by (induction rs) (auto simp: update_where_def held_Cons expiring_def)

lemma held_nonneg: "\<forall>r \<in> set rs. 0 \<le> f r \<Longrightarrow> 0 \<le> held f P rs"
  by (induction rs) (auto simp: held_Cons)

lemma held_filter_le: "\<forall>r \<in> set rs. 0 \<le> f r \<Longrightarrow> held f P (filter Q rs) \<le> held f P rs"
  by (induction rs) (auto simp: held_Cons)

lemma held_member:
  assumes "r \<in> set rs" and "ur_status r = ''active''" and "P r" and "\<forall>r \<in> set rs. 0 \<le> f r"
  shows "f r \<le> held f P rs"
  using assms
proof (induction rs)
  case (Cons y rs)
  then show ?case using held_nonneg [of rs f P] by (auto simp: held_Cons)
qed simp

section \<open>The invariant\<close>

text \<open>What a list of events adds up to in a period, and whether an event names a user.\<close>

definition period_sum :: "(usage_event \<Rightarrow> nat) \<Rightarrow> int \<Rightarrow> usage_event list \<Rightarrow> nat" where
  "period_sum f s es = sum_list (map f (filter (\<lambda>e. mp_start_ms (ue_period e) = s) es))"

definition names_user :: "usage_event \<Rightarrow> nat" where
  "names_user e = (if ue_active_subject_hash e = None then 0 else 1)"

lemma period_sum_simps [simp]:
  "period_sum f s [] = 0" "period_sum f s (es @ fs) = period_sum f s es + period_sum f s fs"
  "period_sum f s [e] = (if mp_start_ms (ue_period e) = s then f e else 0)"
  by (simp_all add: period_sum_def)

text \<open>The limits hold up to what the events \<open>es\<close>, metered without an active reservation, add up to.\<close>

definition limits_inv :: "usage_limits \<Rightarrow> usage_event list \<Rightarrow> metrics_db \<Rightarrow> bool" where
  "limits_inv L es db \<longleftrightarrow>
     distinct (map ur_reservation_id (md_reservations db))
     \<and> distinct (map hour_key (md_hourly db))
     \<and> (\<forall>r \<in> set (md_reservations db). 0 \<le> ur_read_units r \<and> 0 \<le> ur_write_units r
          \<and> ur_mau_claimed r = (ur_subject_hash r \<noteq> None))
     \<and> accounted (md_claims db) (holders (md_reservations db))
     \<and> (\<forall>s. (ul_enforce_read_limit L \<longrightarrow>
              usage_where hr_read_units (\<lambda>k. fst k = s) db + held ur_read_units (in_period s) (md_reservations db) \<le> int (ul_read_units L + period_sum ue_read_units s es))
          \<and> (ul_enforce_write_limit L \<longrightarrow>
              usage_where hr_write_units (\<lambda>k. fst k = s) db + held ur_write_units (in_period s) (md_reservations db) \<le> int (ul_write_units L + period_sum ue_write_units s es))
          \<and> (ul_enforce_mau_limit L \<longrightarrow> users_in s (md_claims db) \<le> ul_monthly_active_users L + period_sum names_user s es))"

text \<open>
  The invariant follows for a state that grew by no more than the events \<open>fs\<close>, in particular for one
  with less reserved and no more claims.
\<close>

lemma limits_inv_grow:
  assumes inv: "limits_inv L es db" and "distinct (map ur_reservation_id (md_reservations db'))"
    and "distinct (map hour_key (md_hourly db'))"
    and "\<forall>r \<in> set (md_reservations db'). 0 \<le> ur_read_units r \<and> 0 \<le> ur_write_units r
          \<and> ur_mau_claimed r = (ur_subject_hash r \<noteq> None)"
    and "accounted (md_claims db') (holders (md_reservations db'))"
    and reads: "\<And>s. usage_where hr_read_units (\<lambda>k. fst k = s) db' + held ur_read_units (in_period s) (md_reservations db')
        \<le> usage_where hr_read_units (\<lambda>k. fst k = s) db + held ur_read_units (in_period s) (md_reservations db)
          + int (period_sum ue_read_units s fs)"
    and writes: "\<And>s. usage_where hr_write_units (\<lambda>k. fst k = s) db' + held ur_write_units (in_period s) (md_reservations db')
        \<le> usage_where hr_write_units (\<lambda>k. fst k = s) db + held ur_write_units (in_period s) (md_reservations db)
          + int (period_sum ue_write_units s fs)"
    and users: "\<And>s. users_in s (md_claims db') \<le> users_in s (md_claims db) + period_sum names_user s fs"
  shows "limits_inv L (es @ fs) db'"
  unfolding limits_inv_def
proof (intro conjI allI impI)
  fix s
  show "usage_where hr_read_units (\<lambda>k. fst k = s) db' + held ur_read_units (in_period s) (md_reservations db')
      \<le> int (ul_read_units L + period_sum ue_read_units s (es @ fs))" if "ul_enforce_read_limit L"
  proof -
    have "usage_where hr_read_units (\<lambda>k. fst k = s) db + held ur_read_units (in_period s) (md_reservations db)
        \<le> int (ul_read_units L + period_sum ue_read_units s es)" using inv that unfolding limits_inv_def by blast
    then show ?thesis using reads [of s] by simp
  qed
  show "usage_where hr_write_units (\<lambda>k. fst k = s) db' + held ur_write_units (in_period s) (md_reservations db')
      \<le> int (ul_write_units L + period_sum ue_write_units s (es @ fs))" if "ul_enforce_write_limit L"
  proof -
    have "usage_where hr_write_units (\<lambda>k. fst k = s) db + held ur_write_units (in_period s) (md_reservations db)
        \<le> int (ul_write_units L + period_sum ue_write_units s es)" using inv that unfolding limits_inv_def by blast
    then show ?thesis using writes [of s] by simp
  qed
  show "users_in s (md_claims db') \<le> ul_monthly_active_users L + period_sum names_user s (es @ fs)" if "ul_enforce_mau_limit L"
  proof -
    have "users_in s (md_claims db) \<le> ul_monthly_active_users L + period_sum names_user s es"
      using inv that unfolding limits_inv_def by blast
    then show ?thesis using users [of s] by simp
  qed
qed (use assms in blast)+

lemma limits_inv_mono:
  assumes inv: "limits_inv L es db" and "distinct (map ur_reservation_id (md_reservations db'))"
    and "distinct (map hour_key (md_hourly db'))"
    and "\<forall>r \<in> set (md_reservations db'). 0 \<le> ur_read_units r \<and> 0 \<le> ur_write_units r
          \<and> ur_mau_claimed r = (ur_subject_hash r \<noteq> None)"
    and "accounted (md_claims db') (holders (md_reservations db'))"
    and reads: "\<And>s. usage_where hr_read_units (\<lambda>k. fst k = s) db' + held ur_read_units (in_period s) (md_reservations db')
        \<le> usage_where hr_read_units (\<lambda>k. fst k = s) db + held ur_read_units (in_period s) (md_reservations db)"
    and writes: "\<And>s. usage_where hr_write_units (\<lambda>k. fst k = s) db' + held ur_write_units (in_period s) (md_reservations db')
        \<le> usage_where hr_write_units (\<lambda>k. fst k = s) db + held ur_write_units (in_period s) (md_reservations db)"
    and users: "\<And>s. users_in s (md_claims db') \<le> users_in s (md_claims db)"
  shows "limits_inv L es db'"
proof -
  have "limits_inv L (es @ []) db'"
    by (rule limits_inv_grow [OF assms(1-5)]) (use reads writes users in simp_all)
  then show ?thesis by simp
qed

section \<open>Expiry\<close>

lemma holders_Cons:
  "holders (r # rs) k = (if ur_status r = ''active'' \<and> ur_period_start_ms r = fst k \<and> ur_subject_hash r = Some (snd k)
     then 1 else 0) + holders rs k"
  by (simp add: holders_def held_Cons)

lemma release_claims_accounted:
  assumes "release_claims rs db = Ok (u, db')" and "accounted (md_claims db) n"
    and "\<And>k. holders rs k \<le> n k" and "\<forall>r \<in> set rs. ur_status r = ''active'' \<and> ur_mau_claimed r = (ur_subject_hash r \<noteq> None)"
  shows "accounted (md_claims db') (\<lambda>k. n k - holders rs k) \<and> (\<forall>t. users_in t (md_claims db') \<le> users_in t (md_claims db))"
  using assms
proof (induction rs arbitrary: db n)
  case Nil
  then show ?case by (simp add: holders_def)
next
  case (Cons r rs)
  obtain v db1 where 1: "release_mau_claim r db = Ok (v, db1)" and 2: "release_claims rs db1 = Ok (u, db')"
    using Cons.prems(1) by (auto simp: tx_bind_eq_Ok)
  have nonneg: "0 \<le> holders rs k" for k unfolding holders_def by (rule held_nonneg) simp
  show ?case
  proof (cases "ur_subject_hash r")
    case None
    then have "db1 = db" "\<And>k. holders (r # rs) k = holders rs k"
      using 1 Cons.prems(4) by (auto simp: release_mau_claim_def holders_Cons)
    then show ?thesis using Cons.IH [OF 2] Cons.prems by auto
  next
    case (Some x)
    let ?k = "(ur_period_start_ms r, x)"
    define n1 where "n1 = n(?k := n ?k - 1)"
    have claims: "md_claims db1 = release_claim (ur_period_start_ms r) x (md_claims db)"
      using 1 Some Cons.prems(4) by (auto simp: release_mau_claim_def)
    have h: "holders (r # rs) k = (if k = ?k then 1 else 0) + holders rs k" for k
      using Some Cons.prems(4) by (cases k) (auto simp: holders_Cons)
    then have pos: "0 < n ?k" using Cons.prems(3) [of ?k] nonneg [of ?k] by simp
    note rel = release_claim_accounted [OF Cons.prems(2) pos]
    have acc: "accounted (md_claims db1) n1" using rel(1) unfolding claims n1_def .
    have le: "holders rs k \<le> n1 k" for k using Cons.prems(3) [of k] h [of k] by (cases "k = ?k") (auto simp: n1_def)
    have "accounted (md_claims db') (\<lambda>k. n1 k - holders rs k)
        \<and> (\<forall>t. users_in t (md_claims db') \<le> users_in t (md_claims db1))"
      by (rule Cons.IH [OF 2 acc le]) (use Cons.prems(4) in simp)
    moreover have "(\<lambda>k. n1 k - holders rs k) = (\<lambda>k. n k - holders (r # rs) k)" using h by (auto simp: n1_def)
    ultimately show ?thesis using rel(2) unfolding claims by (metis order_trans)
  qed
qed


lemma expire_limits:
  assumes "expire_reservations t db = Ok (u, db')" and inv: "limits_inv L es db"
  shows "limits_inv L es db'"
proof -
  let ?rs = "md_reservations db" and ?exp = "filter (expiring t) (md_reservations db)"
  obtain v db1 where 1: "release_claims ?exp db = Ok (v, db1)"
      and db': "db' = db1\<lparr>md_reservations := update_where (expiring t)
        (\<lambda>r. r\<lparr>ur_status := ''expired'', ur_resolved_at_ms := Some t\<rparr>) (md_reservations db1)\<rparr>"
    using assms(1) by (auto simp: expire_reservations_def ffdb_result)
  obtain cs where db1: "db1 = db\<lparr>md_claims := cs\<rparr>" using release_claims_Ok [OF 1] by blast
  have rs': "md_reservations db' = update_where (expiring t)
      (\<lambda>r. r\<lparr>ur_status := ''expired'', ur_resolved_at_ms := Some t\<rparr>) ?rs"
    by (simp add: db' db1)
  have ids: "map ur_reservation_id (md_reservations db') = map ur_reservation_id ?rs"
    unfolding rs' by (rule update_where_map) simp
  have hold: "holders (md_reservations db') k = holders ?rs k - holders ?exp k" for k
    unfolding rs' holders_def by (rule held_expire)
  have exp: "held f P ?exp \<le> held f P ?rs" "0 \<le> held f P ?exp" if "\<forall>r \<in> set ?rs. 0 \<le> f r" for f P
    using held_filter_le held_nonneg [of ?exp f P] that by auto
  have rows: "\<forall>r \<in> set ?rs. 0 \<le> ur_read_units r \<and> 0 \<le> ur_write_units r \<and> ur_mau_claimed r = (ur_subject_hash r \<noteq> None)"
    using inv by (simp add: limits_inv_def)
  have acc0: "accounted (md_claims db) (holders ?rs)" using inv by (simp add: limits_inv_def)
  have le: "holders ?exp k \<le> holders ?rs k" for k unfolding holders_def by (rule exp(1)) simp
  have "accounted (md_claims db1) (\<lambda>k. holders ?rs k - holders ?exp k)
      \<and> (\<forall>s. users_in s (md_claims db1) \<le> users_in s (md_claims db))"
    by (rule release_claims_accounted [OF 1 acc0 le]) (use rows in \<open>simp add: expiring_def\<close>)
  moreover have "(\<lambda>k. holders ?rs k - holders ?exp k) = holders (md_reservations db')"
    using hold by (intro ext) simp
  ultimately have acc: "accounted cs (holders (md_reservations db')) \<and> (\<forall>s. users_in s cs \<le> users_in s (md_claims db))"
    by (simp add: db1)
  show ?thesis
  proof (rule limits_inv_mono [OF inv])
    show "distinct (map ur_reservation_id (md_reservations db'))" using inv ids by (simp add: limits_inv_def)
    show "distinct (map hour_key (md_hourly db'))" using inv by (simp add: limits_inv_def db' db1)
    show "\<forall>r \<in> set (md_reservations db'). 0 \<le> ur_read_units r \<and> 0 \<le> ur_write_units r
          \<and> ur_mau_claimed r = (ur_subject_hash r \<noteq> None)"
      using rows by (auto simp: rs' update_where_def)
    show "accounted (md_claims db') (holders (md_reservations db'))"
      and "users_in s (md_claims db') \<le> users_in s (md_claims db)" for s
      using acc by (simp_all add: db' db1)
  qed (use rows exp in \<open>simp_all add: rs' held_expire, simp_all add: db' db1 usage_where_def\<close>)
qed


section \<open>Admission\<close>

lemma select_sum_Ok: "select_sum xs = Ok n \<Longrightarrow> n = sum_list xs \<and> n \<le> i64_max"
  by (auto simp: select_sum_def is_i64_def split: if_splits)

lemma limit_check_Ok:
  assumes "limit_check enforced c r req limit d = Ok ()" and enforced and "c \<le> i64_max" and "r \<le> i64_max"
  shows "c + r + int req \<le> int limit"
proof -
  have "nat c + nat r \<le> u64_max" using assms(3,4) by (simp add: i64_max_def u64_max_def)
  then show ?thesis
    using assms(1,2)
    by (auto simp: limit_check_def as_u64_def enforce_limit_def saturating_add_u64_exact checked_add_u64_def
        ffdb_result split: if_splits option.splits)
qed

lemma usage_where_period:
  "usage_where f (\<lambda>k. fst k = s) db = sum_list (map f (filter (\<lambda>h. hr_period_start_ms h = s) (md_hourly db)))"
  by (simp add: usage_where_def hour_key_def)

lemma held_period: "held f (in_period s) rs = sum_list (map f (filter (active_in s) rs))"
proof -
  have "filter (\<lambda>r. ur_status r = ''active'' \<and> in_period s r) rs = filter (active_in s) rs"
    by (rule filter_cong) (auto simp: in_period_def active_in_def)
  then show ?thesis by (simp add: held_def)
qed

lemma check_limits_Ok:
  assumes "check_limits q L db = Ok ()"
  shows "ul_enforce_read_limit L \<Longrightarrow> usage_where hr_read_units (\<lambda>k. fst k = mp_start_ms (rr_period q)) db
      + held ur_read_units (in_period (mp_start_ms (rr_period q))) (md_reservations db) + int (rr_read_units q) \<le> int (ul_read_units L)"
    and "ul_enforce_write_limit L \<Longrightarrow> usage_where hr_write_units (\<lambda>k. fst k = mp_start_ms (rr_period q)) db
      + held ur_write_units (in_period (mp_start_ms (rr_period q))) (md_reservations db) + int (rr_write_units q) \<le> int (ul_write_units L)"
proof -
  let ?s = "mp_start_ms (rr_period q)"
  let ?used = "filter (\<lambda>h. hr_period_start_ms h = ?s) (md_hourly db)" and ?held = "filter (active_in ?s) (md_reservations db)"
  obtain a b c d where sums: "select_sum (map hr_read_units ?used) = Ok a" "select_sum (map hr_write_units ?used) = Ok b"
      "select_sum (map ur_read_units ?held) = Ok c" "select_sum (map ur_write_units ?held) = Ok d"
    and checks: "limit_check (ul_enforce_read_limit L) a c (rr_read_units q) (ul_read_units L) ''read_units'' = Ok ()"
      "limit_check (ul_enforce_write_limit L) b d (rr_write_units q) (ul_write_units L) ''write_units'' = Ok ()"
    using assms unfolding check_limits_def Let_def by (auto simp: bindr_eq_Ok)
  note s = select_sum_Ok [OF sums(1)] select_sum_Ok [OF sums(2)] select_sum_Ok [OF sums(3)] select_sum_Ok [OF sums(4)]
  show "ul_enforce_read_limit L \<Longrightarrow> usage_where hr_read_units (\<lambda>k. fst k = ?s) db
      + held ur_read_units (in_period ?s) (md_reservations db) + int (rr_read_units q) \<le> int (ul_read_units L)"
    using limit_check_Ok [OF checks(1)] s by (simp add: usage_where_period held_period)
  show "ul_enforce_write_limit L \<Longrightarrow> usage_where hr_write_units (\<lambda>k. fst k = ?s) db
      + held ur_write_units (in_period ?s) (md_reservations db) + int (rr_write_units q) \<le> int (ul_write_units L)"
    using limit_check_Ok [OF checks(2)] s by (simp add: usage_where_period held_period)
qed

lemma upsert_claim_accounted:
  assumes "accounted cs n"
    and new: "claim_id c0 = k" "ac_reservation_count c0 = 1"
  shows "accounted (upsert (\<lambda>c. claim_id c = k) c0 (\<lambda>c. c\<lparr>ac_reservation_count := ac_reservation_count c + 1\<rparr>) cs)
      (n(k := n k + 1))"
proof (cases "list_ex (\<lambda>c. claim_id c = k) cs")
  case True
  let ?f = "\<lambda>c. if claim_id c = k then c\<lparr>ac_reservation_count := ac_reservation_count c + 1\<rparr> else c"
  have "accounted (map ?f cs) (n(k := n k + 1))"
  proof (rule accountedI)
    have "map claim_id (map ?f cs) = map claim_id cs" by (simp add: claim_id_def)
    then show "distinct (map claim_id (map ?f cs))" using accountedD(1) [OF assms(1)] by (simp only:)
  next
    fix c assume "c \<in> set (map ?f cs)"
    then obtain c1 where "c1 \<in> set cs" "c = ?f c1" by auto
    then show "ac_active c \<or> (ac_reservation_count c = (n(k := n k + 1)) (claim_id c) \<and> 0 < (n(k := n k + 1)) (claim_id c))"
      using accountedD(4) [OF assms(1), of c1] by (cases "claim_id c1 = k") (auto simp: claim_id_def)
  next
    fix k' show "0 \<le> (n(k := n k + 1)) k'" using accountedD(2) [OF assms(1), of k'] by (cases "k' = k") auto
  next
    fix k' assume "0 < (n(k := n k + 1)) k'"
    then have "\<exists>c \<in> set cs. claim_id c = k'"
      using accountedD(3) [OF assms(1), of k'] True by (cases "k' = k") (auto simp: list_ex_iff)
    then obtain c where c: "c \<in> set cs" "claim_id c = k'" by blast
    have "?f c \<in> set (map ?f cs)" "claim_id (?f c) = k'" using c by (auto simp: claim_id_def)
    then show "k' \<in> claim_id ` set (map ?f cs)" by blast
  qed
  then show ?thesis using True by (simp add: upsert_def)
next
  case False
  then have fresh: "\<forall>c \<in> set cs. claim_id c \<noteq> k" by (auto simp: list_ex_iff)
  then have zero: "n k = 0" using accountedD(2,3) [OF assms(1), of k] by (cases "0 < n k") auto
  have "accounted (cs @ [c0]) (n(k := n k + 1))"
  proof (rule accountedI)
    show "distinct (map claim_id (cs @ [c0]))" using accountedD(1) [OF assms(1)] fresh new by auto
  next
    fix c assume "c \<in> set (cs @ [c0])"
    then show "ac_active c \<or> (ac_reservation_count c = (n(k := n k + 1)) (claim_id c) \<and> 0 < (n(k := n k + 1)) (claim_id c))"
      using accountedD(4) [OF assms(1), of c] fresh new zero by auto
  next
    fix k' show "0 \<le> (n(k := n k + 1)) k'" using accountedD(2) [OF assms(1), of k'] by (cases "k' = k") auto
  next
    fix k' assume "0 < (n(k := n k + 1)) k'"
    then show "k' \<in> claim_id ` set (cs @ [c0])"
      using accountedD(3) [OF assms(1), of k'] new by (cases "k' = k") auto
  qed
  then show ?thesis using False by (simp add: upsert_def)
qed

lemma claim_subject_accounted:
  assumes "claim_subject q L db = Ok (m, db')" and acc: "accounted (md_claims db) n"
    and users: "ul_enforce_mau_limit L \<longrightarrow> (\<forall>s. users_in s (md_claims db) \<le> ul_monthly_active_users L + extra s)"
  shows "m = (rr_active_subject_hash q \<noteq> None)"
    and "accounted (md_claims db') (case rr_active_subject_hash q of None \<Rightarrow> n
       | Some x \<Rightarrow> n((mp_start_ms (rr_period q), x) := n (mp_start_ms (rr_period q), x) + 1))"
    and "ul_enforce_mau_limit L \<Longrightarrow> users_in s (md_claims db') \<le> ul_monthly_active_users L + extra s"
proof -
  have "m = (rr_active_subject_hash q \<noteq> None)
    \<and> accounted (md_claims db') (case rr_active_subject_hash q of None \<Rightarrow> n
       | Some x \<Rightarrow> n((mp_start_ms (rr_period q), x) := n (mp_start_ms (rr_period q), x) + 1))
    \<and> (ul_enforce_mau_limit L \<longrightarrow> users_in s (md_claims db') \<le> ul_monthly_active_users L + extra s)"
  proof (cases "rr_active_subject_hash q")
    case None
    then show ?thesis using assms by (auto simp: claim_subject_def)
  next
    case (Some x)
    let ?s = "mp_start_ms (rr_period q)"
    let ?c0 = "\<lparr>ac_period_start_ms = ?s, ac_period_end_ms = mp_end_ms (rr_period q), ac_subject_hash = x,
        ac_active = False, ac_reservation_count = 1, ac_first_seen_ms = None, ac_last_seen_ms = None\<rparr>"
    let ?new = "upsert (\<lambda>c. claim_id c = (?s, x)) ?c0 (\<lambda>c. c\<lparr>ac_reservation_count := ac_reservation_count c + 1\<rparr>) (md_claims db)"
    have count: "count_rows (\<lambda>c. ac_period_start_ms c = ?s \<and> (ac_active c \<or> ac_reservation_count c > 0)) (md_claims db)
        = users_in ?s (md_claims db)"
      unfolding count_rows_def users_in_def
      by (intro arg_cong [of _ _ length] filter_cong [OF refl]) (use accountedD(4) [OF acc] in fastforce)
    have db': "m" "md_claims db' = ?new"
      and guard: "row_where (\<lambda>c. claim_id c = (?s, x)) (md_claims db) = None \<and> ul_enforce_mau_limit L
        \<longrightarrow> enforce_limit (users_in ?s (md_claims db)) 1 (ul_monthly_active_users L) ''monthly_active_users'' = Ok ()"
      using assms(1) Some unfolding claim_subject_def Let_def claim_key_id count
      by (auto simp: bindr_eq_Ok split: if_splits)
    have "users_in s ?new \<le> ul_monthly_active_users L + extra s" if "ul_enforce_mau_limit L"
    proof (cases "list_ex (\<lambda>c. claim_id c = (?s, x)) (md_claims db)")
      case True
      then have "users_in s ?new = users_in s (md_claims db)"
        unfolding upsert_def by (simp only: if_True, intro users_in_map) (simp add: claim_id_def)
      then show ?thesis using users that by simp
    next
      case False
      then have "row_where (\<lambda>c. claim_id c = (?s, x)) (md_claims db) = None"
        by (auto simp: row_where_None_iff list_ex_iff)
      then have "users_in ?s (md_claims db) + 1 \<le> ul_monthly_active_users L"
        using guard that by (auto simp: enforce_limit_def checked_add_u64_def split: if_splits option.splits)
      moreover have "users_in s ?new = users_in s (md_claims db) + (if s = ?s then 1 else 0)"
        using False by (simp add: upsert_def users_in_def)
      ultimately show ?thesis using users that by (auto simp: trans_le_add1)
    qed
    moreover have "accounted ?new (n((?s, x) := n (?s, x) + 1))"
      by (rule upsert_claim_accounted [OF acc]) (simp_all add: claim_id_def)
    ultimately show ?thesis using db' Some by simp
  qed
  then show "m = (rr_active_subject_hash q \<noteq> None)"
    and "accounted (md_claims db') (case rr_active_subject_hash q of None \<Rightarrow> n
       | Some x \<Rightarrow> n((mp_start_ms (rr_period q), x) := n (mp_start_ms (rr_period q), x) + 1))"
    and "ul_enforce_mau_limit L \<Longrightarrow> users_in s (md_claims db') \<le> ul_monthly_active_users L + extra s" by blast+
qed


lemma limits_inv_cong:
  "limits_inv L es db \<Longrightarrow> same_ledger db db' \<Longrightarrow> limits_inv L es db'"
  by (simp add: limits_inv_def same_ledger_def same_usage_def usage_where_def)

lemma limits_invD:
  assumes "limits_inv L es db"
  shows "distinct (map ur_reservation_id (md_reservations db))" and "distinct (map hour_key (md_hourly db))"
    and "\<forall>r \<in> set (md_reservations db). 0 \<le> ur_read_units r \<and> 0 \<le> ur_write_units r
          \<and> ur_mau_claimed r = (ur_subject_hash r \<noteq> None)"
    and "accounted (md_claims db) (holders (md_reservations db))"
    and "ul_enforce_read_limit L \<Longrightarrow> usage_where hr_read_units (\<lambda>k. fst k = s) db
          + held ur_read_units (in_period s) (md_reservations db) \<le> int (ul_read_units L + period_sum ue_read_units s es)"
    and "ul_enforce_write_limit L \<Longrightarrow> usage_where hr_write_units (\<lambda>k. fst k = s) db
          + held ur_write_units (in_period s) (md_reservations db) \<le> int (ul_write_units L + period_sum ue_write_units s es)"
    and "ul_enforce_mau_limit L \<Longrightarrow> users_in s (md_claims db) \<le> ul_monthly_active_users L + period_sum names_user s es"
  using assms unfolding limits_inv_def by blast+

lemma admit_limits:
  assumes inv: "limits_inv L es db" and new: "usage_reservation (rr_reservation_id q) db = None"
    and ok: "check_limits q L db = Ok ()" "claim_subject q L db = Ok (m, db1)" "insert_reservation sha q m db1 = Ok (w, db')"
  shows "limits_inv L es db'"
proof -
  note D = limits_invD [OF inv]
  obtain cs where db1: "db1 = db\<lparr>md_claims := cs\<rparr>" using claim_subject_Ok [OF ok(2)] by blast
  note claim = claim_subject_accounted [OF ok(2) D(4), of "\<lambda>s. period_sum names_user s es"]
  obtain row where db': "db' = db1\<lparr>md_reservations := md_reservations db1 @ [row]\<rparr>"
    and row: "ur_reservation_id row = rr_reservation_id q" "ur_period_start_ms row = mp_start_ms (rr_period q)"
      "ur_read_units row = int (rr_read_units q)" "ur_write_units row = int (rr_write_units q)" "ur_status row = ''active''"
      "ur_subject_hash row = rr_active_subject_hash q" "ur_mau_claimed row = m"
    using ok(3) by (rule insert_reservation_Ok) blast
  have rs: "md_reservations db' = md_reservations db @ [row]" and hourly: "md_hourly db' = md_hourly db"
    and claims: "md_claims db' = md_claims db1" by (simp_all add: db' db1)
  have usage: "usage_where f P db' = usage_where f P db" for f P by (simp add: usage_where_def hourly)
  have "holders (md_reservations db') = (case rr_active_subject_hash q of None \<Rightarrow> holders (md_reservations db)
      | Some x \<Rightarrow> (holders (md_reservations db))((mp_start_ms (rr_period q), x) :=
          holders (md_reservations db) (mp_start_ms (rr_period q), x) + 1))"
    by (auto simp: fun_eq_iff rs holders_def held_Cons row split: option.split)
  then have acc: "accounted (md_claims db') (holders (md_reservations db'))"
    using claim(2) D(7) by (simp add: claims)
  have fresh: "rr_reservation_id q \<notin> ur_reservation_id ` set (md_reservations db)"
    using new by (auto simp: usage_reservation_def row_where_None_iff)
  show ?thesis
    unfolding limits_inv_def
  proof (intro conjI allI impI)
    show "distinct (map ur_reservation_id (md_reservations db'))" using D(1) fresh by (simp add: rs row)
    show "distinct (map hour_key (md_hourly db'))" using D(2) by (simp add: hourly)
    show "\<forall>r \<in> set (md_reservations db'). 0 \<le> ur_read_units r \<and> 0 \<le> ur_write_units r
        \<and> ur_mau_claimed r = (ur_subject_hash r \<noteq> None)"
      using D(3,7) claim(1) by (auto simp: rs row)
    show "accounted (md_claims db') (holders (md_reservations db'))" by (rule acc)
  next
    fix s
    show "usage_where hr_read_units (\<lambda>k. fst k = s) db' + held ur_read_units (in_period s) (md_reservations db')
        \<le> int (ul_read_units L + period_sum ue_read_units s es)" if "ul_enforce_read_limit L"
      using D(5) [of s] check_limits_Ok(1) [OF ok(1)] that by (auto simp: usage rs held_Cons row in_period_def)
    show "usage_where hr_write_units (\<lambda>k. fst k = s) db' + held ur_write_units (in_period s) (md_reservations db')
        \<le> int (ul_write_units L + period_sum ue_write_units s es)" if "ul_enforce_write_limit L"
      using D(6) [of s] check_limits_Ok(2) [OF ok(1)] that by (auto simp: usage rs held_Cons row in_period_def)
    show "users_in s (md_claims db') \<le> ul_monthly_active_users L + period_sum names_user s es" if "ul_enforce_mau_limit L"
      using claim(3) [of s] D(7) that by (simp add: claims)
  qed
qed

lemma reserve_limits:
  assumes "reserve sha q L db = (r, db')" and inv: "limits_inv L es db"
  shows "limits_inv L es db'"
  using assms(1)
proof (cases rule: reserve_cases)
  case (Tx t)
  from Tx(1) show ?thesis
  proof (cases rule: reserve_tx_cases)
    case (Known db1 db2 r u v)
    have "limits_inv L es db1" using ensure_period_same [OF Known(1)] inv by (auto intro: limits_inv_cong)
    then show ?thesis using expire_limits [OF Known(2)] Known(3) by simp
  next
    case (New db1 db2 db3 u v m w)
    have "limits_inv L es db1" using ensure_period_same [OF New(1)] inv by (auto intro: limits_inv_cong)
    then have "limits_inv L es db2" by (rule expire_limits [OF New(2)])
    then show ?thesis using New(3,5,6,7) by (rule admit_limits)
  qed
qed (use inv in simp)

lemma release_limits:
  assumes "release_usage_reservation rid t db = (r, db')" and inv: "limits_inv L es db"
  shows "limits_inv L es db'"
  using assms(1)
proof (cases rule: release_Ok)
  case (Released r cs)
  note D = limits_invD [OF inv]
  let ?rs = "md_reservations db"
  have r: "row_where (\<lambda>x. ur_reservation_id x = rid) ?rs = Some r" using Released(1) by (simp add: usage_reservation_def)
  have mem: "r \<in> set ?rs" using row_where_SomeD [OF r] by blast
  have rs': "md_reservations db' = update_where (\<lambda>x. ur_reservation_id x = rid \<and> ur_status x = ''active'')
      (\<lambda>x. x\<lparr>ur_status := ''released'', ur_resolved_at_ms := Some t\<rparr>) ?rs" by (simp add: Released(4))
  have held: "held f P (md_reservations db') = held f P ?rs - (if P r then f r else 0)" for f P
    unfolding rs' using held_update [OF D(1) r, of "\<lambda>x. ur_status x = ''active''"] Released(2) by simp
  have "holders [r] k \<le> holders ?rs k" for k
    using held_member [OF mem Released(2), of _ "\<lambda>_. 1"] held_nonneg [of ?rs "\<lambda>_. 1"]
    by (auto simp: holders_def held_Cons)
  moreover have "release_claims [r] db = Ok ((), db\<lparr>md_claims := cs\<rparr>)" using Released(3) by (simp add: tx_bind_def)
  ultimately have "accounted cs (\<lambda>k. holders ?rs k - holders [r] k) \<and> (\<forall>s. users_in s cs \<le> users_in s (md_claims db))"
    using release_claims_accounted [of "[r]" db "()" "db\<lparr>md_claims := cs\<rparr>", OF _ D(4)] D(3) mem Released(2) by auto
  moreover have "(\<lambda>k. holders ?rs k - holders [r] k) = holders (md_reservations db')"
    by (auto simp: fun_eq_iff holders_def held held_Cons Released(2))
  ultimately have acc: "accounted cs (holders (md_reservations db')) \<and> (\<forall>s. users_in s cs \<le> users_in s (md_claims db))"
    by simp
  have ids: "map ur_reservation_id (md_reservations db') = map ur_reservation_id ?rs"
    unfolding rs' by (rule update_where_map) simp
  show ?thesis
  proof (rule limits_inv_mono [OF inv])
    show "distinct (map ur_reservation_id (md_reservations db'))" using D(1) ids by simp
    show "\<forall>r \<in> set (md_reservations db'). 0 \<le> ur_read_units r \<and> 0 \<le> ur_write_units r
        \<and> ur_mau_claimed r = (ur_subject_hash r \<noteq> None)"
      using D(3) by (auto simp: rs' update_where_def)
  qed (use D(2,3) acc mem in \<open>auto simp: held, auto simp: Released(4) usage_where_def\<close>)
qed (use inv in simp)


section \<open>Settlement\<close>

lemma ingest_usage:
  assumes "ingest_event sha e db = Ok (outcome, db')" and keys: "distinct (map hour_key (md_hourly db))"
  shows "distinct (map hour_key (md_hourly db'))"
    and "usage_where hr_read_units (\<lambda>k. fst k = s) db' \<le> usage_where hr_read_units (\<lambda>k. fst k = s) db
      + int (period_sum ue_read_units s [e])"
    and "usage_where hr_write_units (\<lambda>k. fst k = s) db' \<le> usage_where hr_write_units (\<lambda>k. fst k = s) db
      + int (period_sum ue_write_units s [e])"
proof -
  have c: "metered sha (ingested (Ok outcome) e) db db'" using assms(1) by (rule ingest_metered)
  show "distinct (map hour_key (md_hourly db'))" using metered_step(1) [OF c keys] .
  show "usage_where hr_read_units (\<lambda>k. fst k = s) db' \<le> usage_where hr_read_units (\<lambda>k. fst k = s) db
      + int (period_sum ue_read_units s [e])"
    using metered_step(2) [OF c keys, of "\<lambda>k. fst k = s"] by (auto simp: ingested_def usage_key_def)
  show "usage_where hr_write_units (\<lambda>k. fst k = s) db' \<le> usage_where hr_write_units (\<lambda>k. fst k = s) db
      + int (period_sum ue_write_units s [e])"
    using metered_step(3) [OF c keys, of "\<lambda>k. fst k = s"] by (auto simp: ingested_def usage_key_def)
qed

text \<open>What ingestion does to the claims for an event covered by an active reservation.\<close>

lemma ingest_covered:
  assumes "ingest_event sha e db = Ok (outcome, db')" and acc: "accounted (md_claims db) n"
    and pos: "\<And>x. ue_active_subject_hash e = Some x \<Longrightarrow> 0 < n (mp_start_ms (ue_period e), x)"
  shows "accounted (md_claims db') n" and "users_in s (md_claims db') = users_in s (md_claims db)"
proof -
  have "accounted (md_claims db') n \<and> users_in s (md_claims db') = users_in s (md_claims db)"
    using assms(1)
  proof (cases rule: ingest_cases)
    case (New ps u ts cur)
    then show ?thesis
      using acc pos mark_active_accounted [OF acc] by (auto simp: event_claims_def split: option.split)
  qed (use acc in simp)
  then show "accounted (md_claims db') n" and "users_in s (md_claims db') = users_in s (md_claims db)" by simp_all
qed

text \<open>The claims after an active reservation is spent.\<close>

lemma settle_accounted:
  assumes act: "activate_mau_claim r t db = Ok (u, db\<lparr>md_claims := cs\<rparr>)" and acc: "accounted (md_claims db) (holders rs)"
    and mem: "r \<in> set rs" and active: "ur_status r = ''active''" and mau: "ur_mau_claimed r = (ur_subject_hash r \<noteq> None)"
    and held: "\<And>f P. held f P rs' = held f P rs - (if P r then f r else 0)"
  shows "accounted cs (holders rs')" and "users_in s cs = users_in s (md_claims db)"
proof -
  have "accounted cs (holders rs') \<and> users_in s cs = users_in s (md_claims db)"
  proof (cases "ur_subject_hash r")
    case None
    then have "db\<lparr>md_claims := cs\<rparr> = db" using act mau by (simp add: activate_mau_claim_def)
    from arg_cong [OF this, of md_claims] have "cs = md_claims db" by simp
    moreover have "holders rs' = holders rs" using None by (auto simp: fun_eq_iff holders_def held)
    ultimately show ?thesis using acc by simp
  next
    case (Some x)
    have pos: "0 < holders rs (ur_period_start_ms r, x)"
      using held_member [OF mem active, of "\<lambda>r'. ur_period_start_ms r' = ur_period_start_ms r \<and> ur_subject_hash r' = Some x" "\<lambda>_. 1"] Some
      by (simp add: holders_def)
    have "holders rs' = (holders rs)((ur_period_start_ms r, x) := holders rs (ur_period_start_ms r, x) - 1)"
      using Some by (auto simp: fun_eq_iff holders_def held)
    then show ?thesis
      using activate_accounted [OF act _ Some acc pos] mau Some by simp
  qed
  then show "accounted cs (holders rs')" and "users_in s cs = users_in s (md_claims db)" by simp_all
qed

lemma settle_limits:
  assumes "settle_reservation sha rid e db = (out, db')" and inv: "limits_inv L es db" and rec: "settled_have_receipts db"
    and live: "\<And>r. usage_reservation rid db = Some r \<Longrightarrow> ur_status r \<noteq> ''expired''"
  shows "limits_inv L es db'"
  using assms(1)
proof (cases rule: settle_reservation_cases)
  case (Replayed r outcome)
  have "r \<in> set (md_reservations db)" using Replayed(1) by (auto simp: usage_reservation_def dest: row_where_SomeD)
  then have "Some (ue_event_id e) \<in> set (map ur_event_id (md_reservations db))"
    using Replayed(3) by (simp add: rev_image_eqI)
  then have "ue_event_id e \<in> set (map er_event_id (md_receipts db))"
    using rec unfolding settled_have_receipts_def by blast
  then have "outcome = Ingest_Duplicate" by (rule replay_is_duplicate [OF Replayed(4)])
  with Replayed(4) show ?thesis by (cases rule: ingest_cases) (auto intro: limits_inv_cong [OF inv])
next
  case (Settled r outcome db1 cs u)
  note D = limits_invD [OF inv] and cov = reservation_covers_Ok [OF Settled(4)]
  let ?rs = "md_reservations db" and ?n = "holders (md_reservations db)"
  have r: "row_where (\<lambda>x. ur_reservation_id x = rid) ?rs = Some r" using Settled(2) by (simp add: usage_reservation_def)
  have mem: "r \<in> set ?rs" using row_where_SomeD [OF r] by blast
  have active: "ur_status r = ''active''" using live [OF Settled(2)] Settled(3) by auto
  have pos: "0 < ?n (ur_period_start_ms r, x)" if "ur_subject_hash r = Some x" for x
    using held_member [OF mem active, of "\<lambda>r'. ur_period_start_ms r' = ur_period_start_ms r \<and> ur_subject_hash r' = Some x" "\<lambda>_. 1"] that
    by (simp add: holders_def)
  note ing = ingest_covered [OF Settled(6) D(4)] and use = ingest_usage [OF Settled(6) D(2)]
  have ing_pos: "\<And>x. ue_active_subject_hash e = Some x \<Longrightarrow> 0 < ?n (mp_start_ms (ue_period e), x)"
    using pos cov(1,4) by simp
  have rs': "md_reservations db' = settled rid e ?rs" using ingest_receipts(2) [OF Settled(6)] by (simp add: Settled(8))
  have held: "held f P (md_reservations db') = held f P ?rs - (if P r then f r else 0)" for f P
    unfolding rs' settled_def using held_update [OF D(1) r, of "\<lambda>x. ur_status x \<in> {''active'', ''expired''}"] active by simp
  have mau: "ur_mau_claimed r = (ur_subject_hash r \<noteq> None)" using D(3) mem by simp
  note acc = settle_accounted [OF Settled(7) ing(1) [OF ing_pos] mem active mau held]
  show ?thesis
  proof (rule limits_inv_mono [OF inv])
    show "distinct (map ur_reservation_id (md_reservations db'))"
      unfolding rs' settled_def by (subst update_where_map) (simp_all add: D(1))
    show "distinct (map hour_key (md_hourly db'))" using use(1) by (simp add: Settled(8))
    show "\<forall>r \<in> set (md_reservations db'). 0 \<le> ur_read_units r \<and> 0 \<le> ur_write_units r
        \<and> ur_mau_claimed r = (ur_subject_hash r \<noteq> None)"
      using D(3) by (auto simp: rs' settled_def update_where_def)
    show "accounted (md_claims db') (holders (md_reservations db'))"
      and "users_in s (md_claims db') \<le> users_in s (md_claims db)" for s
      using acc(1) acc(2) [of s] ing(2) [OF ing_pos, of s] by (simp_all add: Settled(8))
  next
    fix s
    have same: "usage_where f P db' = usage_where f P db1" for f P by (simp add: usage_where_def Settled(8))
    show "usage_where hr_read_units (\<lambda>k. fst k = s) db' + held ur_read_units (in_period s) (md_reservations db')
        \<le> usage_where hr_read_units (\<lambda>k. fst k = s) db + held ur_read_units (in_period s) ?rs"
      using use(2) [of s] cov(1,2) by (auto simp: same held in_period_def split: if_splits)
    show "usage_where hr_write_units (\<lambda>k. fst k = s) db' + held ur_write_units (in_period s) (md_reservations db')
        \<le> usage_where hr_write_units (\<lambda>k. fst k = s) db + held ur_write_units (in_period s) ?rs"
      using use(3) [of s] cov(1,3) by (auto simp: same held in_period_def split: if_splits)
  qed
qed (use inv in simp)


section \<open>Usage without an active reservation\<close>

lemma users_in_card: "distinct (map claim_id cs) \<Longrightarrow> users_in s cs = card {k \<in> claim_id ` set cs. fst k = s}"
proof -
  assume "distinct (map claim_id cs)"
  then have "distinct (map claim_id (filter (\<lambda>c. ac_period_start_ms c = s) cs))" by (rule distinct_map_filter)
  from distinct_card [OF this] have "users_in s cs = card (claim_id ` set (filter (\<lambda>c. ac_period_start_ms c = s) cs))"
    by (simp add: users_in_def)
  moreover have "claim_id ` set (filter (\<lambda>c. ac_period_start_ms c = s) cs) = {k \<in> claim_id ` set cs. fst k = s}"
    by (auto simp: claim_id_def)
  ultimately show ?thesis by simp
qed

definition event_users :: "usage_event \<Rightarrow> claim_id set" where
  "event_users e = (case ue_active_subject_hash e of None \<Rightarrow> {} | Some x \<Rightarrow> {(mp_start_ms (ue_period e), x)})"

text \<open>Claims that gained no user but the event's.\<close>

definition claims_grow :: "usage_event \<Rightarrow> (claim_id \<Rightarrow> int) \<Rightarrow> claim_row list \<Rightarrow> claim_row list \<Rightarrow> bool" where
  "claims_grow e n cs cs' \<longleftrightarrow> (accounted cs n \<longrightarrow> accounted cs' n)
     \<and> claim_id ` set cs' \<subseteq> claim_id ` set cs \<union> event_users e"

lemma claims_grow_refl: "claims_grow e n cs cs"
  by (simp add: claims_grow_def)

lemma claims_grow_trans: "claims_grow e n a b \<Longrightarrow> claims_grow e n b c \<Longrightarrow> claims_grow e n a c"
  unfolding claims_grow_def by blast

lemma claims_grow_users:
  assumes "claims_grow e n cs cs'" and "accounted cs n"
  shows "users_in s cs' \<le> users_in s cs + period_sum names_user s [e]"
proof -
  have d: "distinct (map claim_id cs)" "distinct (map claim_id cs')"
    using assms by (auto simp: claims_grow_def accounted_def)
  let ?new = "{k \<in> event_users e. fst k = s}"
  let ?old = "{k \<in> claim_id ` set cs. fst k = s}"
  have sub: "{k \<in> claim_id ` set cs'. fst k = s} \<subseteq> ?old \<union> ?new"
    using assms(1) by (auto simp: claims_grow_def)
  have "finite (event_users e)" by (simp add: event_users_def split: option.split)
  then have "finite (?old \<union> ?new)" by simp
  from card_mono [OF this sub] card_Un_le [of ?old ?new]
  have "card {k \<in> claim_id ` set cs'. fst k = s} \<le> card ?old + card ?new" by (rule order_trans)
  moreover have "card ?new \<le> period_sum names_user s [e]"
  proof (cases "mp_start_ms (ue_period e) = s")
    case True
    have "card (event_users e) = names_user e" by (simp add: event_users_def names_user_def split: option.split)
    then show ?thesis using True card_mono [OF \<open>finite (event_users e)\<close>, of ?new] by auto
  next
    case False
    then have "?new = {}" by (auto simp: event_users_def split: option.split_asm)
    then show ?thesis by (simp only: card.empty)
  qed
  ultimately show ?thesis
    unfolding users_in_card [OF d(1)] users_in_card [OF d(2)] by linarith
qed

lemma claims_grow_map:
  assumes "\<And>c. claim_id (f c) = claim_id c" and "\<And>c. f c = c \<or> ac_active (f c)"
  shows "claims_grow e n cs (map f cs)"
proof -
  have "accounted (map f cs) n" if acc: "accounted cs n"
  proof (rule map_accounted(1) [OF acc assms(1)])
    show "ac_active (f c) \<or> (ac_reservation_count (f c) = n (claim_id c) \<and> 0 < n (claim_id c))" if "c \<in> set cs" for c
      using accountedD(4) [OF acc that] assms(2) [of c] by metis
  qed (use accountedD(2) [OF acc] in auto)
  then show ?thesis using assms(1) by (auto simp: claims_grow_def)
qed

lemma claims_grow_mark:
  assumes "ue_active_subject_hash e = Some x" and "s = mp_start_ms (ue_period e)"
  shows "claims_grow e n cs (mark_active s end_ms x at cs)"
proof (cases "list_ex (\<lambda>c. claim_id c = (s, x)) cs")
  case True
  show ?thesis
    unfolding mark_active_eq [OF True] by (rule claims_grow_map) (auto simp: claim_id_def seen_def)
next
  case False
  define c0 where "c0 = \<lparr>ac_period_start_ms = s, ac_period_end_ms = end_ms, ac_subject_hash = x, ac_active = True,
        ac_reservation_count = 0, ac_first_seen_ms = Some at, ac_last_seen_ms = Some at\<rparr>"
  have eq: "mark_active s end_ms x at cs = cs @ [c0]"
    using False by (simp add: mark_active_def upsert_def claim_key_id c0_def)
  have c0: "claim_id c0 = (s, x)" "ac_active c0" by (simp_all add: c0_def claim_id_def)
  have "accounted (cs @ [c0]) n" if "accounted cs n"
  proof (rule accountedI)
    show "distinct (map claim_id (cs @ [c0]))" using accountedD(1) [OF that] False c0 by (auto simp: list_ex_iff)
    show "ac_active c \<or> (ac_reservation_count c = n (claim_id c) \<and> 0 < n (claim_id c))" if "c \<in> set (cs @ [c0])" for c
      using accountedD(4) [OF \<open>accounted cs n\<close>, of c] c0 that by (cases "c = c0") simp_all
    show "k \<in> claim_id ` set (cs @ [c0])" if "0 < n k" for k
      using accountedD(3) [OF \<open>accounted cs n\<close> that] by auto
  qed (rule accountedD(2) [OF that])
  then show ?thesis unfolding claims_grow_def eq using assms c0(1) by (simp add: event_users_def)
qed

lemma ingest_grow:
  "ingest_event sha e db = Ok (outcome, db') \<Longrightarrow> claims_grow e n (md_claims db) (md_claims db')"
  by (cases rule: ingest_cases, assumption)
    (auto simp: event_claims_def claims_grow_refl claims_grow_mark split: option.split)

lemma activate_grow:
  assumes "activate_mau_claim r t db = Ok (u, db')" and "reservation_covers r e = Ok ()"
  shows "claims_grow e n (md_claims db) (md_claims db')"
proof (cases "ur_mau_claimed r")
  case False
  then show ?thesis using assms(1) by (simp add: activate_mau_claim_def claims_grow_refl)
next
  case True
  then obtain x where x: "ur_subject_hash r = Some x" using assms(1) by (auto simp: activate_mau_claim_def split: option.split_asm)
  note cov = reservation_covers_Ok [OF assms(2)]
  let ?held = "\<lambda>c. claim_id c = (ur_period_start_ms r, x) \<and> ac_reservation_count c > 0"
  let ?spend = "\<lambda>c. (seen t c)\<lparr>ac_reservation_count := ac_reservation_count c - 1\<rparr>"
  have "claims_grow e n (md_claims db) (map (\<lambda>c. if ?held c then ?spend c else c) (md_claims db))"
    by (rule claims_grow_map) (auto simp: claim_id_def seen_def)
  moreover have "claims_grow e n (md_claims db) (mark_active (ur_period_start_ms r) (ur_period_end_ms r) x t (md_claims db))"
    by (rule claims_grow_mark) (use cov(1,4) x in simp_all)
  ultimately show ?thesis
    using assms(1) True x by (auto simp: activate_mau_claim_def Let_def claim_key_id update_where_def split: if_split_asm)
qed

text \<open>An event recorded without a reservation, and the settlement of an expired one.\<close>

lemma limits_inv_event:
  assumes inv: "limits_inv L es db" and ing: "ingest_event sha e db = Ok (outcome, db1)"
    and hourly: "md_hourly db' = md_hourly db1"
    and grow: "claims_grow e (holders (md_reservations db)) (md_claims db) (md_claims db')"
    and ids: "map ur_reservation_id (md_reservations db') = map ur_reservation_id (md_reservations db)"
    and rows: "\<forall>r \<in> set (md_reservations db'). 0 \<le> ur_read_units r \<and> 0 \<le> ur_write_units r
          \<and> ur_mau_claimed r = (ur_subject_hash r \<noteq> None)"
    and held: "\<And>f P. held f P (md_reservations db') = held f P (md_reservations db)"
  shows "limits_inv L (es @ [e]) db'"
proof (rule limits_inv_grow [OF inv])
  note D = limits_invD [OF inv] and use = ingest_usage [OF ing limits_invD(2) [OF inv]]
  show "distinct (map ur_reservation_id (md_reservations db'))" using D(1) ids by simp
  show "distinct (map hour_key (md_hourly db'))" using use(1) hourly by simp
  have "holders (md_reservations db') = holders (md_reservations db)" by (simp add: fun_eq_iff holders_def held)
  then show "accounted (md_claims db') (holders (md_reservations db'))" using grow D(4) by (simp add: claims_grow_def)
  show "users_in s (md_claims db') \<le> users_in s (md_claims db) + period_sum names_user s [e]" for s
    using grow D(4) by (rule claims_grow_users)
  have same: "usage_where f P db' = usage_where f P db1" for f P by (simp add: usage_where_def hourly)
  show "usage_where hr_read_units (\<lambda>k. fst k = s) db' + held ur_read_units (in_period s) (md_reservations db')
        \<le> usage_where hr_read_units (\<lambda>k. fst k = s) db + held ur_read_units (in_period s) (md_reservations db)
          + int (period_sum ue_read_units s [e])" for s
    using use(2) [of s] by (simp add: same held)
  show "usage_where hr_write_units (\<lambda>k. fst k = s) db' + held ur_write_units (in_period s) (md_reservations db')
        \<le> usage_where hr_write_units (\<lambda>k. fst k = s) db + held ur_write_units (in_period s) (md_reservations db)
          + int (period_sum ue_write_units s [e])" for s
    using use(3) [of s] by (simp add: same held)
qed (rule rows)

lemma record_limits:
  assumes "record_usage_event sha e db = (out, db')" and inv: "limits_inv L es db"
  shows "limits_inv L (es @ ingested out e) db'"
  using assms(1)
proof (cases rule: record_usage_event_cases)
  case (Ingested ps u outcome)
  have inv': "limits_inv L es (db\<lparr>md_periods := ps\<rparr>)" by (rule limits_inv_cong [OF inv]) simp
  have rs: "md_reservations db' = md_reservations db" using ingest_receipts(2) [OF Ingested(4)] by simp
  show ?thesis
  proof (cases "outcome = Inserted")
    case True
    have "limits_inv L (es @ [e]) db'"
      by (rule limits_inv_event [OF inv' Ingested(4) refl ingest_grow [OF Ingested(4)]])
        (use limits_invD(3) [OF inv] in \<open>simp_all add: rs\<close>)
    then show ?thesis using True Ingested(5) by (simp add: ingested_def)
  next
    case False
    from Ingested(4) have "same_ledger (db\<lparr>md_periods := ps\<rparr>) db'"
      by (cases rule: ingest_cases) (use False in \<open>auto simp: same_ledger_def same_usage_def\<close>)
    then show ?thesis using limits_inv_cong [OF inv'] False Ingested(5) by (simp add: ingested_def)
  qed
qed (use inv in \<open>auto simp: ingested_def\<close>)

lemma late_limits:
  assumes "settle_reservation sha rid e db = (Ok outcome', db')" and inv: "limits_inv L es db"
    and late: "usage_reservation rid db = Some r0" "ur_status r0 = ''expired''"
  shows "limits_inv L (es @ [e]) db'"
  using assms(1)
proof (cases rule: settle_reservation_cases)
  case (Settled r outcome db1 cs u)
  note D = limits_invD [OF inv]
  have r: "row_where (\<lambda>x. ur_reservation_id x = rid) (md_reservations db) = Some r"
    using Settled(2) by (simp add: usage_reservation_def)
  have rs': "md_reservations db' = settled rid e (md_reservations db)"
    using ingest_receipts(2) [OF Settled(6)] by (simp add: Settled(8))
  have held: "held f P (md_reservations db') = held f P (md_reservations db)" for f P
    unfolding rs' settled_def using held_update [OF D(1) r, of "\<lambda>x. ur_status x \<in> {''active'', ''expired''}"] late Settled(2) by simp
  show ?thesis
  proof (rule limits_inv_event [OF inv Settled(6) _ _ _ _ held])
    show "md_hourly db' = md_hourly db1" by (simp add: Settled(8))
    show "claims_grow e (holders (md_reservations db)) (md_claims db) (md_claims db')"
      using claims_grow_trans [OF ingest_grow [OF Settled(6)] activate_grow [OF Settled(7,4)]] by (simp add: Settled(8))
    show "map ur_reservation_id (md_reservations db') = map ur_reservation_id (md_reservations db)"
      unfolding rs' settled_def by (rule update_where_map) simp
    show "\<forall>r \<in> set (md_reservations db'). 0 \<le> ur_read_units r \<and> 0 \<le> ur_write_units r
        \<and> ur_mau_claimed r = (ur_subject_hash r \<noteq> None)"
      using D(3) by (auto simp: rs' settled_def update_where_def)
  qed
qed (use late in auto)

section \<open>Governed runs\<close>

text \<open>
  The events metered by a settlement without an active reservation: those of reservations that had
  expired.
\<close>

definition late_events :: "string \<Rightarrow> usage_event \<Rightarrow> metrics_error + ingest_outcome \<Rightarrow> metrics_db \<Rightarrow> usage_event list" where
  "late_events rid e out db =
     (case (usage_reservation rid db, out) of
        (Some r, Inr _) \<Rightarrow> if ur_status r = ''expired'' then [e] else []
      | _ \<Rightarrow> [])"

text \<open>
  Every call of the ledger, where reservations are admitted under the limits \<open>L\<close>; the state carries the
  events that were metered without an active reservation.
\<close>

inductive governed_step ::
    "(string \<Rightarrow> string) \<Rightarrow> usage_limits \<Rightarrow> usage_event list \<times> metrics_db \<Rightarrow> usage_event list \<times> metrics_db \<Rightarrow> bool" for sha L where
  reserve: "reserve sha q L db = (r, db') \<Longrightarrow> governed_step sha L (es, db) (es, db')"
| release: "release_usage_reservation rid now_ms db = (r', db') \<Longrightarrow> governed_step sha L (es, db) (es, db')"
| settle: "settle_reservation sha rid e db = (out, db') \<Longrightarrow> governed_step sha L (es, db) (es @ late_events rid e out db, db')"
| recorded: "record_usage_event sha e db = (out, db') \<Longrightarrow> governed_step sha L (es, db) (es @ ingested out e, db')"
| status: "period_status p db = (ps, db') \<Longrightarrow> governed_step sha L (es, db) (es, db')"
| seal: "seal_period p now_ms db = (u, db') \<Longrightarrow> governed_step sha L (es, db) (es, db')"
| enqueue: "enqueue_report sha req db = (out', db') \<Longrightarrow> governed_step sha L (es, db) (es, db')"
| claim: "claim_reports uuid now_ms d limit db = (crs, db') \<Longrightarrow> governed_step sha L (es, db) (es, db')"
| claim_period: "claim_reports_for_period uuid p now_ms d limit db = (crs, db') \<Longrightarrow> governed_step sha L (es, db) (es, db')"
| acknowledge: "acknowledge_report i token pe now_ms db = (u, db') \<Longrightarrow> governed_step sha L (es, db) (es, db')"
| fail: "fail_report i token retry_at err db = (u, db') \<Longrightarrow> governed_step sha L (es, db) (es, db')"
| reconcile: "record_reconciliation p dim l q' checked db = (rs, db') \<Longrightarrow> governed_step sha L (es, db) (es, db')"
| finalize: "finalize_period p now_ms db = (u, db') \<Longrightarrow> governed_step sha L (es, db) (es, db')"
| migrate: "metrics_migrate org db = (u, db') \<Longrightarrow> governed_step sha L (es, db) (es, db')"

definition governed_inv :: "usage_limits \<Rightarrow> usage_event list \<times> metrics_db \<Rightarrow> bool" where
  "governed_inv L st \<longleftrightarrow> limits_inv L (fst st) (snd st) \<and> settled_have_receipts (snd st)"

lemma governed_is_step: "governed_step sha L st st' \<Longrightarrow> \<exists>fs. metrics_step sha fs (snd st) (snd st')"
  by (erule governed_step.cases) (simp, blast intro: metrics_step.intros)+

lemma quiet_limits: "quiet db db' \<Longrightarrow> limits_inv L es db \<Longrightarrow> limits_inv L es db'"
  unfolding quiet_def using limits_inv_cong by blast

lemma settle_step_limits:
  assumes "settle_reservation sha rid e db = (out, db')" and "limits_inv L es db" and "settled_have_receipts db"
  shows "limits_inv L (es @ late_events rid e out db) db'"
proof (cases "\<exists>r. usage_reservation rid db = Some r \<and> ur_status r = ''expired''")
  case True
  then obtain r where r: "usage_reservation rid db = Some r" "ur_status r = ''expired''" by blast
  show ?thesis
  proof (cases out)
    case (Inl x)
    then have "db' = db" using assms(1) by (auto elim: settle_reservation_cases)
    then show ?thesis using assms(2) Inl by (simp add: late_events_def r)
  next
    case (Inr outcome)
    then show ?thesis using late_limits [OF _ assms(2) r] assms(1) by (simp add: late_events_def r)
  qed
next
  case False
  then have "limits_inv L es db'" using settle_limits [OF assms] by blast
  moreover have "late_events rid e out db = []" using False by (auto simp: late_events_def split: option.split sum.split)
  ultimately show ?thesis by simp
qed

lemma governed_step_limits:
  assumes "governed_step sha L st st'" and "limits_inv L (fst st) (snd st)" and "settled_have_receipts (snd st)"
  shows "limits_inv L (fst st') (snd st')"
  using assms
proof (induction rule: governed_step.induct)
  case (claim uuid now_ms d limit db crs db' es)
  then have "quiet db db'" using claim_reports_inner_quiet by (simp add: claim_reports_def)
  then show ?case using claim(2) by (simp add: quiet_limits)
qed (auto intro: reserve_limits release_limits settle_step_limits record_limits quiet_limits quiet_ops)

lemma governed_step_inv: "governed_step sha L st st' \<Longrightarrow> governed_inv L st \<Longrightarrow> governed_inv L st'"
  unfolding governed_inv_def using governed_is_step [of sha L st st'] step_settled governed_step_limits by blast

lemma metrics_empty_inv: "st = ([], metrics_empty) \<Longrightarrow> governed_inv L st"
  by (simp add: governed_inv_def limits_inv_def settled_have_receipts_def metrics_empty_def accounted_def
      holders_def usage_where_def users_in_def)

interpretation governed: transition_system "\<lambda>st. st = ([], metrics_empty)" "governed_step sha L" "governed_inv L" for sha L
  by unfold_locales (auto intro: metrics_empty_inv governed_step_inv)

text \<open>
  C31. Usage outgrows the limits only by what bypasses admission. Over every call of the ledger, where
  reservations are admitted under the same limits, in every billing period the metered reads plus the
  reads still reserved stay within an enforced read limit plus the reads of the events that were metered
  without an active reservation: those \<open>record_event\<close> inserted, for which the code checks no limit, and
  those of reservations settled after they had expired. Likewise the writes; and the active or claimed
  users stay within an enforced limit on monthly active users plus the number of such events that name a
  user. With none of them the limits hold as they are.
\<close>

theorem admitted_usage_within_limits:
  assumes "(governed_step sha L)\<^sup>*\<^sup>* ([], metrics_empty) (es, db)"
  shows "(ul_enforce_read_limit L \<longrightarrow> usage_where hr_read_units (\<lambda>k. fst k = s) db
      + held ur_read_units (in_period s) (md_reservations db) \<le> int (ul_read_units L + period_sum ue_read_units s es))
    \<and> (ul_enforce_write_limit L \<longrightarrow> usage_where hr_write_units (\<lambda>k. fst k = s) db
      + held ur_write_units (in_period s) (md_reservations db) \<le> int (ul_write_units L + period_sum ue_write_units s es))
    \<and> (ul_enforce_mau_limit L \<longrightarrow> users_in s (md_claims db) \<le> ul_monthly_active_users L + period_sum names_user s es)"
proof -
  have "limits_inv L es db" using governed.reachable_inv [OF refl assms] by (simp add: governed_inv_def)
  then show ?thesis using limits_invD(5-7) [of L es db s] by blast
qed

definition demo_limits :: usage_limits where
  "demo_limits = \<lparr>ul_read_units = 5, ul_write_units = 5, ul_monthly_active_users = 1, ul_storage_bytes = 0,
     ul_enforce_read_limit = True, ul_enforce_write_limit = True, ul_enforce_mau_limit = True, ul_enforce_storage_limit = False\<rparr>"

definition demo_request :: "string \<Rightarrow> int \<Rightarrow> reservation_request" where
  "demo_request i t = \<lparr>rr_reservation_id = i, rr_project_id = ''p'', rr_period = demo_period, rr_created_at_ms = t,
     rr_expires_at_ms = t + 2, rr_read_units = 4, rr_write_units = 2, rr_storage_growth_bytes = 0,
     rr_active_subject_hash = Some ''u''\<rparr>"

definition demo_first :: metrics_db where
  "demo_first = metrics_empty\<lparr>
     md_periods := [\<lparr>pr_start_ms = 0, pr_end_ms = 20, pr_cutoff_ms = 20, pr_status = ''open'',
       pr_sealed_at_ms = None, pr_finalized_at_ms = None\<rparr>],
     md_claims := [\<lparr>ac_period_start_ms = 0, ac_period_end_ms = 20, ac_subject_hash = ''u'', ac_active = False,
       ac_reservation_count = 1, ac_first_seen_ms = None, ac_last_seen_ms = None\<rparr>],
     md_reservations := [\<lparr>ur_reservation_id = ''a'', ur_request_sha256 = ''u'', ur_project_id = ''70----'',
       ur_period_start_ms = 0, ur_period_end_ms = 20, ur_created_at_ms = 4, ur_expires_at_ms = 6, ur_read_units = 4,
       ur_write_units = 2, ur_storage_growth_bytes = 0, ur_subject_hash = Some ''u'', ur_mau_claimed = True,
       ur_status = ''active'', ur_event_id = None, ur_resolved_at_ms = None\<rparr>]\<rparr>"

lemma demo_reserved: "reserve demo_sha (demo_request ''a'' 4) demo_limits metrics_empty = (Ok Reserved, demo_first)"
  by code_simp

lemma demo_limit_reached:
  "reserve demo_sha (demo_request ''b'' 5) demo_limits demo_first = (Err (LimitExceeded ''read_units''), demo_first)"
  by code_simp

text \<open>
  The excess is real, in both ways. A recorded event counts although the limit is reached, as does its
  user: with a second user's event on top of the reservation, seven reads are used or reserved under a
  limit of five, and two users are counted under a limit of one.
\<close>

definition demo_unreserved :: usage_event where
  "demo_unreserved = demo_event\<lparr>ue_event_id := ''f'', ue_active_subject_hash := Some ''v''\<rparr>"

definition demo_over :: metrics_db where
  "demo_over = snd (record_usage_event demo_sha demo_unreserved demo_first)"

lemma recorded_event_exceeds_limit:
  "fst (record_usage_event demo_sha demo_unreserved demo_first) = Ok Inserted
   \<and> usage_where hr_read_units (\<lambda>k. fst k = 0) demo_over + held ur_read_units (in_period 0) (md_reservations demo_over) = 7
   \<and> users_in 0 (md_claims demo_over) = 2"
  by code_simp

lemma admitted_usage_within_limits_witness:
  "usage_where hr_read_units (\<lambda>k. fst k = 0) demo_over
      + held ur_read_units (in_period 0) (md_reservations demo_over) \<le> int (5 + 3)
   \<and> users_in 0 (md_claims demo_over) \<le> 1 + 1"
proof -
  have "record_usage_event demo_sha demo_unreserved demo_first = (Ok Inserted, demo_over)"
    using recorded_event_exceeds_limit by (simp add: prod_eq_iff demo_over_def)
  from governed_step.recorded [OF this, of demo_limits "[]"]
  have "governed_step demo_sha demo_limits ([], demo_first) ([demo_unreserved], demo_over)" by (simp add: ingested_def)
  with governed_step.reserve [OF demo_reserved, of "[]"]
  have "(governed_step demo_sha demo_limits)\<^sup>*\<^sup>* ([], metrics_empty) ([demo_unreserved], demo_over)" by (rule converse_rtranclp_into_rtranclp [OF _ r_into_rtranclp])
  from admitted_usage_within_limits [OF this, of 0] show ?thesis
    by (simp add: demo_limits_def demo_unreserved_def demo_event_def demo_period_def names_user_def)
qed

text \<open>
  A reservation that has expired, and whose share has been given to another, can still be settled. Here two reservations of four reads each are
  admitted under a limit of five, the second after the first has expired, and settling the first
  leaves seven reads used or reserved.
\<close>

definition demo_second :: metrics_db where
  "demo_second = demo_first\<lparr>
     md_reservations := [\<lparr>ur_reservation_id = ''a'', ur_request_sha256 = ''u'', ur_project_id = ''70----'',
       ur_period_start_ms = 0, ur_period_end_ms = 20, ur_created_at_ms = 4, ur_expires_at_ms = 6, ur_read_units = 4,
       ur_write_units = 2, ur_storage_growth_bytes = 0, ur_subject_hash = Some ''u'', ur_mau_claimed = True,
       ur_status = ''expired'', ur_event_id = None, ur_resolved_at_ms = Some 7\<rparr>,
       \<lparr>ur_reservation_id = ''b'', ur_request_sha256 = ''u'', ur_project_id = ''70----'',
       ur_period_start_ms = 0, ur_period_end_ms = 20, ur_created_at_ms = 7, ur_expires_at_ms = 9, ur_read_units = 4,
       ur_write_units = 2, ur_storage_growth_bytes = 0, ur_subject_hash = Some ''u'', ur_mau_claimed = True,
       ur_status = ''active'', ur_event_id = None, ur_resolved_at_ms = None\<rparr>]\<rparr>"

lemma expired_settlement_exceeds_limit:
  "reserve demo_sha (demo_request ''b'' 7) demo_limits demo_first = (Ok Reserved, demo_second)"
  "fst (settle_reservation demo_sha ''a'' demo_event demo_second) = Ok Inserted"
  "(let db = snd (settle_reservation demo_sha ''a'' demo_event demo_second) in
    usage_where hr_read_units (\<lambda>k. fst k = 0) db + held ur_read_units (in_period 0) (md_reservations db) = 7)"
  by code_simp+

end
