(* ===== verification/Migration_Engine.thy ===== *)
theory Migration_Engine
  imports Sqlite_Session
begin

text \<open>
  \<open>crates/migration-engine/src/lib.rs\<close>: a migration is applied or rolled back inside one transaction of
  a developer's session, together with its record, the schema version and the caller's receipt. The
  internal tables it writes belong to \<open>crates/sqlite-runtime/src/lib.rs\<close>.

  The content of the database is the type parameter of the session. The internal tables are part of
  it: \<open>internal_tables\<close> holds how they are read from the content and put back, and which statement on
  them fails. The statements themselves are the definitions below. The time a migration took is the
  argument \<open>elapsed\<close>; JSON text is a parameter.
\<close>

section \<open>Data\<close>

record migration_spec =
  ms_id :: string
  ms_name :: string
  ms_up_sql :: string
  ms_down_sql :: string
  ms_checksum :: string
  ms_created_at_ms :: int

datatype migration_status = Migration_Applied | RolledBack

record migration_outcome =
  mo_id :: string
  mo_status :: migration_status
  mo_schema_version_before :: nat
  mo_schema_version_after :: nat
  mo_applied_at_ms :: int
  mo_duration_ms :: nat
  mo_execution_log :: "string list"

record durable_operation_receipt =
  dr_receipt_id :: string
  dr_request_digest :: string

datatype migration_error =
  InvalidMetadata | MissingDirection | ChecksumMismatch | AlreadyApplied | NotApplied | InvalidSql | Execution

record stored_migration =
  sm_id :: string
  sm_name :: string
  sm_checksum :: string
  sm_up_sql :: string
  sm_down_sql :: string
  sm_created_at_ms :: int
  sm_applied_at_ms :: int
  sm_actor_id :: string
  sm_duration_ms :: int
  sm_version_before :: nat
  sm_version_after :: nat
  sm_status :: string

record worker_receipt =
  wr_receipt_id :: string
  wr_request_digest :: string
  wr_operation :: string
  wr_result_json :: string
  wr_recorded_at_ms :: int

record 'd internal_tables =
  it_migrations :: "'d \<Rightarrow> stored_migration list"
  it_put_migrations :: "stored_migration list \<Rightarrow> 'd \<Rightarrow> 'd"
  it_schema_version :: "'d \<Rightarrow> nat option"
  it_put_schema_version :: "nat \<Rightarrow> 'd \<Rightarrow> 'd"
  it_put_catalog_json :: "string \<Rightarrow> 'd \<Rightarrow> 'd"
  it_receipts :: "'d \<Rightarrow> worker_receipt list"
  it_put_receipts :: "worker_receipt list \<Rightarrow> 'd \<Rightarrow> 'd"
  it_fails :: "string \<Rightarrow> 'd \<Rightarrow> rusqlite_error option"
  it_encode_catalog :: "rls_catalog \<Rightarrow> string option"
  it_encode_outcome :: "migration_outcome \<Rightarrow> string option"

section \<open>Specifications\<close>

definition calculate_checksum :: "(string \<Rightarrow> string) \<Rightarrow> migration_spec \<Rightarrow> string" where
  "calculate_checksum sha256 m =
     concat (map hex_byte (sha256 (ms_id m @ [char_of (0::nat)] @ ms_name m @ [char_of (0::nat)]
       @ ms_up_sql m @ [char_of (0::nat)] @ ms_down_sql m)))"

lemma checksum_is_ambiguous:
  "calculate_checksum sha256 (m\<lparr>ms_name := a @ char_of (0::nat) # b, ms_up_sql := c\<rparr>)
     = calculate_checksum sha256 (m\<lparr>ms_name := a, ms_up_sql := b @ char_of (0::nat) # c\<rparr>)"
  by (simp add: calculate_checksum_def)

definition spec_validate :: "(string \<Rightarrow> string) \<Rightarrow> migration_spec \<Rightarrow> migration_error + unit" where
  "spec_validate sha256 m =
     (if ms_id m = [] \<or> length (ms_id m) > 128
        \<or> \<not> list_all (\<lambda>b. is_ascii_alphanumeric b \<or> b \<in> {CHR ''_'', CHR ''-'', CHR ''.''}) (ms_id m)
        \<or> ms_name m = [] \<or> length (ms_name m) > 256
      then Err InvalidMetadata
      else if trim (ms_up_sql m) = [] \<or> trim (ms_down_sql m) = [] then Err MissingDirection
      else if length (ms_checksum m) \<noteq> 64 \<or> ms_checksum m \<noteq> calculate_checksum sha256 m then Err ChecksumMismatch
      else Ok ())"

text \<open>\<open>u8::from_str_radix(_, 16)\<close> on two bytes; a leading plus sign is accepted.\<close>

definition hex_digit :: "char \<Rightarrow> nat option" where
  "hex_digit c =
     (if is_ascii_digit c then Some (code c - 48)
      else if 97 \<le> code c \<and> code c \<le> 102 then Some (code c - 87)
      else if 65 \<le> code c \<and> code c \<le> 70 then Some (code c - 55)
      else None)"

definition hex_pair :: "char \<Rightarrow> char \<Rightarrow> char option" where
  "hex_pair a b =
     (case hex_digit b of
        None \<Rightarrow> None
      | Some l \<Rightarrow>
          if a = CHR ''+'' then Some (char_of l)
          else map_option (\<lambda>h. char_of (16 * h + l)) (hex_digit a))"

fun decode_pairs :: "string \<Rightarrow> runtime_error + string" where
  "decode_pairs (a # b # s) =
     bindr (ok_or (hex_pair a b) ConstraintViolation) (\<lambda>c. bindr (decode_pairs s) (\<lambda>cs. Ok (c # cs)))"
| "decode_pairs _ = Ok []"

definition decode_checksum :: "string \<Rightarrow> runtime_error + string" where
  "decode_checksum s = (if length s \<noteq> 64 then Err ConstraintViolation else decode_pairs s)"

definition outcome_from_record :: "stored_migration \<Rightarrow> migration_status \<Rightarrow> migration_outcome" where
  "outcome_from_record r status =
     \<lparr>mo_id = sm_id r, mo_status = status, mo_schema_version_before = sm_version_before r,
      mo_schema_version_after = sm_version_after r, mo_applied_at_ms = sm_applied_at_ms r,
      mo_duration_ms = (if sm_duration_ms r < 0 then 0 else nat (sm_duration_ms r)),
      mo_execution_log = [case status of
          Migration_Applied \<Rightarrow> ''migration applied atomically''
        | RolledBack \<Rightarrow> ''developer-supplied down SQL executed atomically'']\<rparr>"

section \<open>The internal tables\<close>

text \<open>A read and a write of the internal tables inside an internal lease.\<close>

definition internal_read :: "'d internal_tables \<Rightarrow> string \<Rightarrow> ('d \<Rightarrow> rusqlite_error + 'a) \<Rightarrow> ('d, 'a) session_op" where
  "internal_read it name q =
     with_internal (query_op (\<lambda>d. case it_fails it name d of Some e \<Rightarrow> Err e | None \<Rightarrow> q d))"

definition internal_write ::
    "'d internal_tables \<Rightarrow> string \<Rightarrow> ('d \<Rightarrow> rusqlite_error + ('a \<times> 'd)) \<Rightarrow> ('d, 'a) session_op" where
  "internal_write it name f =
     with_internal (\<lambda>s.
       let d = cn_data (ss_connection s) in
       case it_fails it name d of
         Some e \<Rightarrow> (Err (from_rusqlite e), s)
       | None \<Rightarrow>
           (case f d of
              Inl e \<Rightarrow> (Err (from_rusqlite e), s)
            | Inr (a, d') \<Rightarrow> (Ok a, s\<lparr>ss_connection := (ss_connection s)\<lparr>cn_data := d'\<rparr>\<rparr>)))"

text \<open>A parameter of type \<open>u64\<close> is bound as a signed integer, or not at all.\<close>

definition bind_u64 :: "nat \<Rightarrow> rusqlite_error + int" where
  "bind_u64 n = (if int n \<le> i64_max then Ok (int n) else Err OtherRusqlite)"

definition schema_version :: "'d internal_tables \<Rightarrow> ('d, nat) session_op" where
  "schema_version it = internal_read it ''schema_version'' (\<lambda>d. ok_or (it_schema_version it d) OtherRusqlite)"

definition set_schema_version :: "'d internal_tables \<Rightarrow> nat \<Rightarrow> ('d, unit) session_op" where
  "set_schema_version it v = internal_write it ''set_schema_version'' (\<lambda>d.
     bindr (bind_u64 v) (\<lambda>_.
       Ok ((), if it_schema_version it d = None then d else it_put_schema_version it v d)))"

definition migration_record :: "'d internal_tables \<Rightarrow> string \<Rightarrow> ('d, stored_migration option) session_op" where
  "migration_record it i = internal_read it ''migration_record'' (\<lambda>d.
     Ok (List.find (\<lambda>r. sm_id r = i) (it_migrations it d)))"

definition migration_history ::
    "'d internal_tables \<Rightarrow> nat \<Rightarrow> nat option \<Rightarrow> ('d, stored_migration list) session_op" where
  "migration_history it limit before_version =
     (if limit = 0 \<or> limit > 1000 then slift (Err StatementNotAllowed)
      else
        (let before = (case before_version of None \<Rightarrow> i64_max
               | Some v \<Rightarrow> if int v \<le> i64_max then int v else i64_max)
         in internal_read it ''migration_history'' (\<lambda>d.
              Ok (take limit (rev (sort_key sm_version_after (sort_key sm_id
                (filter (\<lambda>r. int (sm_version_after r) < before) (it_migrations it d)))))))))"

text \<open>The upsert keeps the time of creation of an existing record.\<close>

definition upsert_migration :: "stored_migration \<Rightarrow> stored_migration list \<Rightarrow> stored_migration list" where
  "upsert_migration r rs =
     (if list_ex (\<lambda>x. sm_id x = sm_id r) rs
      then map (\<lambda>x. if sm_id x = sm_id r then r\<lparr>sm_created_at_ms := sm_created_at_ms x\<rparr> else x) rs
      else rs @ [r])"

definition store_migration :: "'d internal_tables \<Rightarrow> stored_migration \<Rightarrow> ('d, unit) session_op" where
  "store_migration it r = internal_write it ''store_migration'' (\<lambda>d.
     bindr (bind_u64 (sm_version_before r)) (\<lambda>_. bindr (bind_u64 (sm_version_after r)) (\<lambda>_.
       Ok ((), it_put_migrations it (upsert_migration r (it_migrations it d)) d))))"

definition store_rls_catalog :: "'d internal_tables \<Rightarrow> rls_catalog \<Rightarrow> ('d, unit) session_op" where
  "store_rls_catalog it catalog =
     sbind (slift (ok_or (it_encode_catalog it catalog) Database)) (\<lambda>json.
       internal_write it ''store_rls_catalog'' (\<lambda>d. Ok ((), it_put_catalog_json it json d)))"

text \<open>A receipt is replaced only by one for the same request and operation.\<close>

definition upsert_receipt :: "worker_receipt \<Rightarrow> worker_receipt list \<Rightarrow> nat \<times> worker_receipt list" where
  "upsert_receipt r rs =
     (case List.find (\<lambda>x. wr_receipt_id x = wr_receipt_id r) rs of
        None \<Rightarrow> (1, rs @ [r])
      | Some x \<Rightarrow>
          if wr_request_digest x = wr_request_digest r \<and> wr_operation x = wr_operation r
          then (1, map (\<lambda>y. if wr_receipt_id y = wr_receipt_id r
                 then y\<lparr>wr_result_json := wr_result_json r, wr_recorded_at_ms := wr_recorded_at_ms r\<rparr> else y) rs)
          else (0, rs))"

definition store_worker_operation_receipt :: "'d internal_tables \<Rightarrow> worker_receipt \<Rightarrow> ('d, unit) session_op" where
  "store_worker_operation_receipt it r =
     sbind (internal_write it ''store_worker_operation_receipt'' (\<lambda>d.
       let (n, rs) = upsert_receipt r (it_receipts it d) in Ok (n, it_put_receipts it rs d))) (\<lambda>updated.
       slift (if updated = 1 then Ok () else Err ConstraintViolation))"

section \<open>Running the SQL of a migration\<close>

text \<open>One statement: a policy statement is applied to the catalog and recompiled, any other is executed.\<close>

definition execute_one :: "'d sqlite_env \<Rightarrow> 'd internal_tables \<Rightarrow> string \<Rightarrow> ('d, unit) session_op" where
  "execute_one env it stmt =
     sbind (slift (map_err (\<lambda>_. StatementNotAllowed) (classify_statement stmt))) (\<lambda>class.
       if kind class = Kind_Rls then
         sbind (slift (map_err (\<lambda>_. StatementNotAllowed) (parse_rls_statement stmt))) (\<lambda>statement.
         sbind (load_rls_catalog env) (\<lambda>catalog.
         sbind (schema_snapshot env catalog) (\<lambda>schema.
           let (r, catalog') = catalog_apply schema statement catalog in
           sbind (slift (map_err (\<lambda>_. StatementNotAllowed) r)) (\<lambda>_.
           sbind (schema_snapshot env catalog') (\<lambda>current_schema.
           sbind (slift (map_err (\<lambda>_. StatementNotAllowed) (compile (sq_sha256 env) current_schema catalog'))) (\<lambda>plan.
           sbind (apply_rls_plan env plan) (\<lambda>_.
             store_rls_catalog it catalog')))))))
       else
         sbind (execute env \<lparr>st_sql = stmt, st_parameters = []\<rparr>) (\<lambda>_. sok ()))"

definition execute_sql :: "'d sqlite_env \<Rightarrow> 'd internal_tables \<Rightarrow> string \<Rightarrow> ('d, unit) session_op" where
  "execute_sql env it sql_text =
     sbind (slift (map_err (\<lambda>_. StatementNotAllowed) (split_sql_statements sql_text))) (\<lambda>statements.
       if statements = [] then slift (Err StatementNotAllowed)
       else
         sbind (sfor statements (execute_one env it)) (\<lambda>_.
         sbind (load_rls_catalog env) (\<lambda>catalog.
           refresh_change_capture env catalog)))"

definition store_durable_receipt ::
    "'d internal_tables \<Rightarrow> durable_operation_receipt \<Rightarrow> string \<Rightarrow> migration_outcome \<Rightarrow> int \<Rightarrow> ('d, unit) session_op" where
  "store_durable_receipt it receipt operation outcome recorded_at_ms =
     sbind (slift (ok_or (it_encode_outcome it outcome) Database)) (\<lambda>result_json.
       store_worker_operation_receipt it
         \<lparr>wr_receipt_id = dr_receipt_id receipt, wr_request_digest = dr_request_digest receipt,
          wr_operation = operation, wr_result_json = result_json, wr_recorded_at_ms = recorded_at_ms\<rparr>)"

definition store_optional_receipt ::
    "'d internal_tables \<Rightarrow> durable_operation_receipt option \<Rightarrow> string \<Rightarrow> migration_outcome \<Rightarrow> int \<Rightarrow> ('d, unit) session_op" where
  "store_optional_receipt it receipt operation outcome recorded_at_ms =
     (case receipt of None \<Rightarrow> sok () | Some r \<Rightarrow> store_durable_receipt it r operation outcome recorded_at_ms)"

section \<open>Applying\<close>

definition clamp_duration :: "nat \<Rightarrow> int" where
  "clamp_duration elapsed = (if int elapsed \<le> i64_max then int elapsed else i64_max)"

text \<open>The body of the transaction that applies a migration.\<close>

definition apply_body ::
    "'d sqlite_env \<Rightarrow> 'd internal_tables \<Rightarrow> developer_principal \<Rightarrow> migration_spec \<Rightarrow> int \<Rightarrow> nat
      \<Rightarrow> durable_operation_receipt option \<Rightarrow> ('d, migration_outcome) session_op" where
  "apply_body env it developer spec applied_at_ms elapsed receipt =
     sbind (schema_version it) (\<lambda>version_before.
     sbind (execute_sql env it (ms_up_sql spec)) (\<lambda>_.
     sbind (slift (ok_or (checked_add_u64 version_before 1) Database)) (\<lambda>version_after.
     sbind (set_schema_version it version_after) (\<lambda>_.
     sbind (slift (decode_checksum (ms_checksum spec))) (\<lambda>checksum.
       let stored = \<lparr>sm_id = ms_id spec, sm_name = ms_name spec, sm_checksum = checksum,
             sm_up_sql = ms_up_sql spec, sm_down_sql = ms_down_sql spec, sm_created_at_ms = ms_created_at_ms spec,
             sm_applied_at_ms = applied_at_ms, sm_actor_id = dp_api_key_id developer,
             sm_duration_ms = clamp_duration elapsed, sm_version_before = version_before,
             sm_version_after = version_after, sm_status = ''applied''\<rparr>;
           outcome = outcome_from_record stored Migration_Applied
       in
       sbind (store_migration it stored) (\<lambda>_.
       sbind (store_optional_receipt it receipt ''migration.apply'' outcome applied_at_ms) (\<lambda>_.
         sok outcome)))))))"

text \<open>An applied migration is not run again: its outcome is returned, with the receipt of this request.\<close>

definition replay_outcome ::
    "'d sqlite_env \<Rightarrow> 'd internal_tables \<Rightarrow> stored_migration \<Rightarrow> durable_operation_receipt option \<Rightarrow> int
      \<Rightarrow> ('d, migration_outcome) session_op" where
  "replay_outcome env it r receipt applied_at_ms =
     (let outcome = outcome_from_record r Migration_Applied in
      case receipt of
        None \<Rightarrow> sok outcome
      | Some rc \<Rightarrow>
          atomic env (sbind (store_durable_receipt it rc ''migration.apply'' outcome applied_at_ms) (\<lambda>_. sok outcome)))"

definition apply_session ::
    "'d sqlite_env \<Rightarrow> 'd internal_tables \<Rightarrow> developer_principal \<Rightarrow> migration_spec \<Rightarrow> int \<Rightarrow> nat
      \<Rightarrow> durable_operation_receipt option \<Rightarrow> ('d, migration_outcome) session_op" where
  "apply_session env it developer spec applied_at_ms elapsed receipt =
     sbind (migration_record it (ms_id spec)) (\<lambda>existing.
       case existing of
         None \<Rightarrow> atomic env (apply_body env it developer spec applied_at_ms elapsed receipt)
       | Some r \<Rightarrow>
           sbind (slift (decode_checksum (ms_checksum spec))) (\<lambda>checksum.
             if sm_checksum r \<noteq> checksum then slift (Err ConstraintViolation)
             else if sm_status r = ''applied'' then replay_outcome env it r receipt applied_at_ms
             else atomic env (apply_body env it developer spec applied_at_ms elapsed receipt)))"

definition apply_with_receipt ::
    "'d sqlite_env \<Rightarrow> 'd internal_tables \<Rightarrow> developer_principal \<Rightarrow> migration_spec \<Rightarrow> int \<Rightarrow> nat \<Rightarrow> string
      \<Rightarrow> request_budget \<Rightarrow> nat \<Rightarrow> durable_operation_receipt option \<Rightarrow> 'd database
      \<Rightarrow> (migration_error + migration_outcome) \<times> 'd database" where
  "apply_with_receipt env it developer spec applied_at_ms elapsed transaction_id budget n receipt db =
     (case spec_validate (sq_sha256 env) spec of
        Inl e \<Rightarrow> (Err e, db)
      | Inr _ \<Rightarrow>
          (let (r, db') = with_context_budget env (Developer developer) transaction_id budget n
                 (apply_session env it developer spec applied_at_ms elapsed receipt) db
           in (map_err (\<lambda>e. if e = ConstraintViolation then ChecksumMismatch else Execution) r, db')))"

section \<open>Rolling back\<close>

definition rollback_body ::
    "'d sqlite_env \<Rightarrow> 'd internal_tables \<Rightarrow> developer_principal \<Rightarrow> stored_migration \<Rightarrow> int \<Rightarrow> nat
      \<Rightarrow> durable_operation_receipt option \<Rightarrow> ('d, migration_outcome) session_op" where
  "rollback_body env it developer existing rolled_back_at_ms elapsed receipt =
     sbind (schema_version it) (\<lambda>version_before.
     sbind (execute_sql env it (sm_down_sql existing)) (\<lambda>_.
     sbind (slift (ok_or (checked_add_u64 version_before 1) Database)) (\<lambda>version_after.
     sbind (set_schema_version it version_after) (\<lambda>_.
       let stored = existing\<lparr>sm_applied_at_ms := rolled_back_at_ms, sm_actor_id := dp_api_key_id developer,
             sm_duration_ms := clamp_duration elapsed, sm_version_before := version_before,
             sm_version_after := version_after, sm_status := ''rolled_back''\<rparr>;
           outcome = outcome_from_record stored RolledBack
       in
       sbind (store_migration it stored) (\<lambda>_.
       sbind (store_optional_receipt it receipt ''migration.rollback'' outcome rolled_back_at_ms) (\<lambda>_.
         sok outcome))))))"

definition rollback_session ::
    "'d sqlite_env \<Rightarrow> 'd internal_tables \<Rightarrow> developer_principal \<Rightarrow> string \<Rightarrow> int \<Rightarrow> nat
      \<Rightarrow> durable_operation_receipt option \<Rightarrow> ('d, migration_outcome) session_op" where
  "rollback_session env it developer migration_id rolled_back_at_ms elapsed receipt =
     sbind (migration_record it migration_id) (\<lambda>existing.
       case existing of
         None \<Rightarrow> slift (Err StatementNotAllowed)
       | Some r \<Rightarrow>
           if sm_status r \<noteq> ''applied'' then slift (Err StatementNotAllowed)
           else atomic env (rollback_body env it developer r rolled_back_at_ms elapsed receipt))"

definition rollback_with_receipt ::
    "'d sqlite_env \<Rightarrow> 'd internal_tables \<Rightarrow> developer_principal \<Rightarrow> string \<Rightarrow> int \<Rightarrow> nat \<Rightarrow> string
      \<Rightarrow> request_budget \<Rightarrow> nat \<Rightarrow> durable_operation_receipt option \<Rightarrow> 'd database
      \<Rightarrow> (migration_error + migration_outcome) \<times> 'd database" where
  "rollback_with_receipt env it developer migration_id rolled_back_at_ms elapsed transaction_id budget n receipt db =
     (let (r, db') = with_context_budget env (Developer developer) transaction_id budget n
            (rollback_session env it developer migration_id rolled_back_at_ms elapsed receipt) db
      in (map_err (\<lambda>e. if e = StatementNotAllowed then NotApplied else Execution) r, db'))"

end
