(* ===== verification/Migration_Properties.thy ===== *)
theory Migration_Properties
  imports Migration_Engine Sqlite_Properties
begin

text \<open>
  A migration is applied and rolled back all or nothing, whatever its SQL does short of transaction
  control: the calculus of \<open>Sqlite_Properties\<close> carries over to the operations of the migration engine.
\<close>

section \<open>The parts of a migration inside its transaction\<close>

lemma internal_read_guarded: "stays k d s \<Longrightarrow> guarded k d s (internal_read it n q s)"
  unfolding internal_read_def by (intro guarded_intros)

lemma internal_write_guarded: "stays k d s \<Longrightarrow> guarded k d s (internal_write it n f s)"
  unfolding internal_write_def
  by (rule with_internal_guarded)
    (auto simp: Let_def stays_def same_frame_def intro!: guardedI split: option.split sum.split prod.split)

lemma apply_rls_plan_guarded:
  assumes "stays k d s"
  shows "guarded k d s (apply_rls_plan env plan s)"
proof -
  have tail: "guarded k d t (case sfor bs (batch_op env) t of
      (Inl e, s') \<Rightarrow> (Err e, control_ignored env (Release rls_plan) (control_ignored env (Rollback_To rls_plan) s'))
    | (Inr _, s') \<Rightarrow> sbind (control_op env (Release rls_plan)) (\<lambda>_ s''. (Ok (), approve ns s'')) s')"
    if "stays k d t" for t bs ns
  proof (cases "sfor bs (batch_op env) t")
    case (Pair r t')
    have g: "guarded k d t (r, t')"
      using sfor_guarded [OF that, of "batch_op env" bs] batch_guarded Pair by metis
    show ?thesis
    proof (cases r)
      case (Inl e)
      then show ?thesis using g undo_guarded [of k d t e t' rls_plan e env] Pair by simp
    next
      case (Inr u)
      then have t': "stays k d t'" "same_frame t t'" using g by (auto simp: guarded_def)
      have "guarded k d t' (sbind (control_op env (Release rls_plan)) (\<lambda>_ s''. (Ok (), approve ns s'')) t')"
        using t'(1) by (intro guarded_sbind control_guarded) (auto simp: approve_def stays_def same_frame_def intro!: guardedI)
      then show ?thesis using Pair Inr t'(2) by (auto simp: guarded_def intro: same_frame_trans)
    qed
  qed
  show ?thesis
    unfolding apply_rls_plan_def by (intro guarded_sbind with_internal_guarded control_guarded tail assms) auto
qed

lemmas migration_guarded_intros =
  guarded_intros internal_read_guarded internal_write_guarded load_rls_catalog_guarded schema_snapshot_guarded
  apply_rls_plan_guarded refresh_change_capture_guarded

lemma store_durable_receipt_guarded: "stays k d s \<Longrightarrow> guarded k d s (store_durable_receipt it rc op out n s)"
  unfolding store_durable_receipt_def store_worker_operation_receipt_def by (intro migration_guarded_intros) auto

lemma store_optional_receipt_guarded: "stays k d s \<Longrightarrow> guarded k d s (store_optional_receipt it rc op out n s)"
  by (simp add: store_optional_receipt_def sok_guarded store_durable_receipt_guarded split: option.split)

definition no_control_sql :: "string \<Rightarrow> bool" where
  "no_control_sql sql_text =
     (case split_sql_statements sql_text of
        Inl _ \<Rightarrow> True
      | Inr stmts \<Rightarrow> list_all (\<lambda>x. statement_kind_option x \<noteq> Some Kind_TransactionControl) stmts)"

lemma execute_one_guarded:
  assumes "control_is_explicit env" and "statement_kind_option x \<noteq> Some Kind_TransactionControl" and "stays k d s"
  shows "guarded k d s (execute_one env it x s)"
proof -
  have run: "guarded k d t (sbind (execute env \<lparr>st_sql = x, st_parameters = []\<rparr>) (\<lambda>_. sok ()) t)"
    if "stays k d t" for t
    using assms(1,2) that by (intro guarded_sbind execute_guarded sok_guarded) (simp_all add: no_control_def)
  show ?thesis
    unfolding execute_one_def store_rls_catalog_def Let_def
    by (intro guarded_sbind) (auto intro!: migration_guarded_intros run assms(3) split: prod.split)
qed

lemma sfor_guarded_list:
  assumes "stays k d s" and "\<And>x t. x \<in> set xs \<Longrightarrow> stays k d t \<Longrightarrow> guarded k d t (f x t)"
  shows "guarded k d s (sfor xs f s)"
  using assms
proof (induction xs arbitrary: s)
  case (Cons x xs)
  then show ?case using guarded_sbind [of k d s "f x" "\<lambda>_. sfor xs f"] by simp
qed (simp add: guardedI)

lemma execute_sql_guarded:
  assumes "control_is_explicit env" and "no_control_sql q" and "stays k d s"
  shows "guarded k d s (execute_sql env it q s)"
  unfolding execute_sql_def
proof (rule guarded_sbind)
  show "guarded k d s (slift (map_err (\<lambda>_. StatementNotAllowed) (split_sql_statements q)) s)"
    by (rule slift_guarded [OF assms(3)])
next
  fix stmts t
  assume "slift (map_err (\<lambda>_. StatementNotAllowed) (split_sql_statements q)) s = (Ok stmts, t)"
  then have stmts: "split_sql_statements q = Ok stmts" by (simp add: slift_def map_err_eq_Ok)
  assume t: "stays k d t"
  have "guarded k d t (sfor stmts (execute_one env it) t)"
    using assms(1,2) stmts t
    by (intro sfor_guarded_list execute_one_guarded) (auto simp: no_control_sql_def list_all_iff)
  then show "guarded k d t ((if stmts = [] then slift (Err StatementNotAllowed)
       else sbind (sfor stmts (execute_one env it)) (\<lambda>_. sbind (load_rls_catalog env) (refresh_change_capture env))) t)"
    using t by (auto intro!: migration_guarded_intros)
qed

lemma apply_body_guarded:
  assumes "control_is_explicit env" and "no_control_sql (ms_up_sql spec)" and "stays k d s"
  shows "guarded k d s (apply_body env it developer spec now elapsed receipt s)"
  unfolding apply_body_def Let_def schema_version_def set_schema_version_def store_migration_def
  by (intro guarded_sbind internal_read_guarded internal_write_guarded slift_guarded sok_guarded
      execute_sql_guarded store_optional_receipt_guarded assms)

lemma rollback_body_guarded:
  assumes "control_is_explicit env" and "no_control_sql (sm_down_sql r)" and "stays k d s"
  shows "guarded k d s (rollback_body env it developer r now elapsed receipt s)"
  unfolding rollback_body_def Let_def schema_version_def set_schema_version_def store_migration_def
  by (intro guarded_sbind internal_read_guarded internal_write_guarded slift_guarded sok_guarded
      execute_sql_guarded store_optional_receipt_guarded assms)

section \<open>All or nothing\<close>

lemma atomic_guarded_cases:
  assumes "atomic env callback s = (r, t)" and "\<not> in_transaction (ss_connection s)"
    and "\<And>c. sq_control_fails env Rollback c = None"
    and "\<And>u. stays True (cn_data (ss_connection s)) u \<Longrightarrow> guarded True (cn_data (ss_connection s)) u (callback u)"
  obtains (Failed) e where "r = Err e" "cn_data (ss_connection t) = cn_data (ss_connection s)"
      "approved_sources (ss_context t) = approved_sources (ss_context s)" "\<not> in_transaction (ss_connection t)"
    | (Committed) x u w where "callback u = (Ok x, w)" "r = Ok x" "cn_data (ss_connection u) = cn_data (ss_connection s)"
      "cn_data (ss_connection t) = cn_data (ss_connection w)" "\<not> in_transaction (ss_connection t)"
  using assms(1,2)
proof (cases rule: atomic_cases)
  case (Refused e)
  then show thesis using Failed assms(2) by simp
next
  case (Begun u)
  let ?d = "cn_data (ss_connection s)"
  have u: "stays True ?d u" "cn_data (ss_connection u) = ?d" using Begun by (simp_all add: stays_def)
  obtain v w where cb: "callback u = (v, w)" by force
  have "conn_begin w = Some ?d \<or> (\<exists>e. v = Err e) \<and> lost ?d w"
    using assms(4) [OF u(1)] cb by (auto simp: guarded_def stays_def)
  from Begun(6) [unfolded cb] this assms(3) show thesis
  proof (cases rule: finish_atomic_cases)
    case (Failed e)
    then show thesis using that(1) by (simp add: in_transaction_def)
  next
    case (Committed x)
    then show thesis using that(2) cb u(2) by simp
  qed
qed

text \<open>The laws of the internal tables: each table is written and read independently of the others.\<close>

definition internal_tables_laws :: "'d internal_tables \<Rightarrow> bool" where
  "internal_tables_laws it \<longleftrightarrow>
     (\<forall>x d. it_migrations it (it_put_migrations it x d) = x \<and> it_schema_version it (it_put_migrations it x d) = it_schema_version it d)
   \<and> (\<forall>x d. it_schema_version it (it_put_schema_version it x d) = Some x
        \<and> it_migrations it (it_put_schema_version it x d) = it_migrations it d)
   \<and> (\<forall>x d. it_receipts it (it_put_receipts it x d) = x \<and> it_migrations it (it_put_receipts it x d) = it_migrations it d
        \<and> it_schema_version it (it_put_receipts it x d) = it_schema_version it d)"

lemma internal_read_Ok:
  "internal_read it n q s = (Ok a, t) \<Longrightarrow> q (cn_data (ss_connection s)) = Ok a \<and> ss_connection t = ss_connection s"
  by (auto simp: internal_read_def with_internal_def query_op_def map_err_def split: sum.split_asm option.split_asm prod.split_asm)

lemma internal_read_unchanged: "internal_read it n q s = (r, t) \<Longrightarrow> ss_connection t = ss_connection s
    \<and> approved_sources (ss_context t) = approved_sources (ss_context s)"
  by (auto simp: internal_read_def with_internal_def query_op_def enter_internal_def leave_internal_def
      split: sum.split_asm prod.split_asm if_split_asm)

lemma internal_write_Ok:
  "internal_write it n f s = (Ok a, t) \<Longrightarrow> f (cn_data (ss_connection s)) = Ok (a, cn_data (ss_connection t))"
  by (auto simp: internal_write_def with_internal_def Let_def split: sum.split_asm option.split_asm prod.split_asm)

lemma store_optional_receipt_Ok:
  assumes "internal_tables_laws it" and "store_optional_receipt it rc op out n s = (Ok u, t)"
  shows "it_migrations it (cn_data (ss_connection t)) = it_migrations it (cn_data (ss_connection s))
    \<and> it_schema_version it (cn_data (ss_connection t)) = it_schema_version it (cn_data (ss_connection s))"
proof (cases rc)
  case None
  then show ?thesis using assms(2) by (simp add: store_optional_receipt_def sok_def)
next
  case (Some r)
  then have "\<exists>rs. it_put_receipts it rs (cn_data (ss_connection s)) = cn_data (ss_connection t)"
    using assms(2)
    by (auto simp: store_optional_receipt_def store_durable_receipt_def store_worker_operation_receipt_def sbind_def
        slift_def Let_def ok_or_def dest!: internal_write_Ok split: sum.split_asm prod.split_asm option.split_asm)
  then show ?thesis using assms(1) unfolding internal_tables_laws_def by metis
qed

lemma find_upsert:
  "\<exists>c. List.find (\<lambda>x. sm_id x = sm_id r) (upsert_migration r rs) = Some (r\<lparr>sm_created_at_ms := c\<rparr>)"
proof (cases "list_ex (\<lambda>x. sm_id x = sm_id r) rs")
  case True
  then have "\<exists>c. List.find (\<lambda>x. sm_id x = sm_id r)
      (map (\<lambda>x. if sm_id x = sm_id r then r\<lparr>sm_created_at_ms := sm_created_at_ms x\<rparr> else x) rs) = Some (r\<lparr>sm_created_at_ms := c\<rparr>)"
    by (induction rs) auto
  then show ?thesis using True by (simp add: upsert_migration_def)
next
  case False
  then have "List.find (\<lambda>x. sm_id x = sm_id r) (rs @ [r]) = Some r" by (induction rs) auto
  then show ?thesis using False by (intro exI [of _ "sm_created_at_ms r"]) (simp add: upsert_migration_def)
qed

text \<open>What both bodies end with: the version, the record and the receipt are written.\<close>

definition recorded :: "'d internal_tables \<Rightarrow> string \<Rightarrow> string \<Rightarrow> migration_outcome \<Rightarrow> 'd \<Rightarrow> bool" where
  "recorded it i status outcome d \<longleftrightarrow>
     (\<exists>r. List.find (\<lambda>x. sm_id x = i) (it_migrations it d) = Some r \<and> sm_status r = status
        \<and> sm_version_before r = mo_schema_version_before outcome \<and> sm_version_after r = mo_schema_version_after outcome
        \<and> mo_schema_version_after outcome = Suc (mo_schema_version_before outcome))
   \<and> (\<forall>v. it_schema_version it d = Some v \<longrightarrow> v = mo_schema_version_after outcome)"

lemma write_record_Ok:
  assumes "internal_tables_laws it"
    and "set_schema_version it (Suc v) s = (Ok u, s1)" and "store_migration it r s1 = (Ok u', s2)"
    and "store_optional_receipt it rc op outcome n s2 = (Ok u'', t)"
    and "outcome = outcome_from_record r st" and "sm_version_before r = v" and "sm_version_after r = Suc v"
  shows "recorded it (sm_id r) (sm_status r) outcome (cn_data (ss_connection t))"
proof -
  let ?d = "\<lambda>x. cn_data (ss_connection x)"
  have v: "it_schema_version it (?d s1) = Some w \<Longrightarrow> w = Suc v" for w
    using internal_write_Ok [OF assms(2) [unfolded set_schema_version_def]] assms(1)
    by (auto simp: bindr_eq_Ok internal_tables_laws_def split: if_split_asm) (metis option.inject)
  have m: "?d s2 = it_put_migrations it (upsert_migration r (it_migrations it (?d s1))) (?d s1)"
    using internal_write_Ok [OF assms(3) [unfolded store_migration_def]] by (auto simp: bindr_eq_Ok)
  obtain c where "List.find (\<lambda>x. sm_id x = sm_id r) (upsert_migration r (it_migrations it (?d s1)))
      = Some (r\<lparr>sm_created_at_ms := c\<rparr>)"
    using find_upsert by blast
  moreover have "it_migrations it (?d t) = upsert_migration r (it_migrations it (?d s1))"
      "it_schema_version it (?d t) = it_schema_version it (?d s1)"
    using store_optional_receipt_Ok [OF assms(1,4)] m assms(1) by (simp_all add: internal_tables_laws_def)
  ultimately show ?thesis
    using v assms(5-7) by (auto simp: recorded_def outcome_from_record_def)
qed

lemma apply_body_Ok:
  assumes "internal_tables_laws it"
    and "apply_body env it developer spec now elapsed receipt s = (Ok outcome, t)"
  shows "recorded it (ms_id spec) ''applied'' outcome (cn_data (ss_connection t))
    \<and> it_schema_version it (cn_data (ss_connection s)) = Some (mo_schema_version_before outcome)"
proof -
  let ?r = "\<lambda>v c. \<lparr>sm_id = ms_id spec, sm_name = ms_name spec, sm_checksum = c, sm_up_sql = ms_up_sql spec,
    sm_down_sql = ms_down_sql spec, sm_created_at_ms = ms_created_at_ms spec, sm_applied_at_ms = now,
    sm_actor_id = dp_api_key_id developer, sm_duration_ms = clamp_duration elapsed, sm_version_before = v,
    sm_version_after = Suc v, sm_status = ''applied''\<rparr>"
  obtain v c s1 s2 s3 s4 where "schema_version it s = (Ok v, s1)" "set_schema_version it (Suc v) s2 = (Ok (), s3)"
      "store_migration it (?r v c) s3 = (Ok (), s4)" "outcome = outcome_from_record (?r v c) Migration_Applied"
      "store_optional_receipt it receipt ''migration.apply'' outcome now s4 = (Ok (), t)"
    using assms(2) by (auto simp: apply_body_def Let_def sbind_eq_Ok slift_def ok_or_eq_Ok checked_add_u64_Some sok_def)
  then show ?thesis
    using write_record_Ok [OF assms(1), of v s2 "()" s3 "?r v c" "()" s4] internal_read_Ok
    by (fastforce simp: schema_version_def ok_or_eq_Ok outcome_from_record_def)
qed

lemma rollback_body_Ok:
  assumes "internal_tables_laws it"
    and "rollback_body env it developer m now elapsed receipt s = (Ok outcome, t)"
  shows "recorded it (sm_id m) ''rolled_back'' outcome (cn_data (ss_connection t))
    \<and> it_schema_version it (cn_data (ss_connection s)) = Some (mo_schema_version_before outcome)"
proof -
  let ?r = "\<lambda>v. m\<lparr>sm_applied_at_ms := now, sm_actor_id := dp_api_key_id developer, sm_duration_ms := clamp_duration elapsed,
    sm_version_before := v, sm_version_after := Suc v, sm_status := ''rolled_back''\<rparr>"
  obtain v s1 s2 s3 s4 where "schema_version it s = (Ok v, s1)" "set_schema_version it (Suc v) s2 = (Ok (), s3)"
      "store_migration it (?r v) s3 = (Ok (), s4)" "outcome = outcome_from_record (?r v) RolledBack"
      "store_optional_receipt it receipt ''migration.rollback'' outcome now s4 = (Ok (), t)"
    using assms(2) by (auto simp: rollback_body_def Let_def sbind_eq_Ok slift_def ok_or_eq_Ok checked_add_u64_Some sok_def)
  then show ?thesis
    using write_record_Ok [OF assms(1), of v s2 "()" s3 "?r v" "()" s4] internal_read_Ok
    by (fastforce simp: schema_version_def ok_or_eq_Ok outcome_from_record_def)
qed

lemma atomic_body_outcome:
  assumes "\<And>c. sq_control_fails env Rollback c = None" and "\<not> in_transaction (ss_connection s)"
    and "\<And>u. stays True (cn_data (ss_connection s)) u \<Longrightarrow> guarded True (cn_data (ss_connection s)) u (body u)"
    and "\<And>u x w. body u = (Ok x, w) \<Longrightarrow> cn_data (ss_connection u) = cn_data (ss_connection s)
      \<Longrightarrow> Q x (cn_data (ss_connection w))"
    and "atomic env body s = (r, t)"
  shows "\<not> in_transaction (ss_connection t)
    \<and> (\<forall>e. r = Err e \<longrightarrow> cn_data (ss_connection t) = cn_data (ss_connection s)
         \<and> approved_sources (ss_context t) = approved_sources (ss_context s))
    \<and> (\<forall>x. r = Ok x \<longrightarrow> Q x (cn_data (ss_connection t)))"
proof (rule atomic_guarded_cases [OF assms(5,2,1,3)], goal_cases)
  case (3 x u w)
  then show ?thesis using assms(4) [OF 3(1,3)] by simp
qed simp_all

lemma replay_outcome_cases:
  assumes "\<And>c. sq_control_fails env Rollback c = None" and "internal_tables_laws it"
    and "\<not> in_transaction (ss_connection s)" and "replay_outcome env it m receipt now s = (r, t)"
  shows "\<not> in_transaction (ss_connection t)
    \<and> (\<forall>e. r = Err e \<longrightarrow> cn_data (ss_connection t) = cn_data (ss_connection s)
         \<and> approved_sources (ss_context t) = approved_sources (ss_context s))
    \<and> (\<forall>x. r = Ok x \<longrightarrow> x = outcome_from_record m Migration_Applied
         \<and> it_migrations it (cn_data (ss_connection t)) = it_migrations it (cn_data (ss_connection s)))"
proof (cases receipt)
  case None
  then show ?thesis using assms(3,4) by (auto simp: replay_outcome_def sok_def)
next
  case (Some rc)
  let ?o = "outcome_from_record m Migration_Applied"
  let ?body = "sbind (store_durable_receipt it rc ''migration.apply'' ?o now) (\<lambda>_. sok ?o)"
  have run: "atomic env ?body s = (r, t)" using assms(4) Some by (simp add: replay_outcome_def Let_def)
  have body: "x = ?o \<and> it_migrations it (cn_data (ss_connection w)) = it_migrations it (cn_data (ss_connection u))"
    if "?body u = (Ok x, w)" for u x w
    using that store_optional_receipt_Ok [OF assms(2), of "Some rc"]
    by (auto simp: sbind_eq_Ok sok_eq store_optional_receipt_def)
  show ?thesis
    using atomic_body_outcome [OF assms(1,3) _ _ run, where Q = "\<lambda>x d. x = ?o
        \<and> it_migrations it d = it_migrations it (cn_data (ss_connection s))"] body
      guarded_sbind store_durable_receipt_guarded sok_guarded by metis
qed

text \<open>
  C34. A migration is applied all or nothing. Whatever its SQL does short of transaction control, and
  whatever fails: after an error the data and the approved sources are as before and no transaction is
  open. After a success the migration is recorded as applied, one schema version above the version the
  database had, and the database is at that version; or it had been applied before with the same
  checksum, and its recorded outcome is returned with the history unchanged.
\<close>

theorem migration_apply_all_or_nothing:
  assumes "control_is_explicit env" and "\<And>c. sq_control_fails env Rollback c = None" and "internal_tables_laws it"
    and "\<not> in_transaction (ss_connection s)" and "no_control_sql (ms_up_sql spec)"
    and "apply_session env it developer spec now elapsed receipt s = (r, t)"
  shows "\<not> in_transaction (ss_connection t)
    \<and> (\<forall>e. r = Err e \<longrightarrow> cn_data (ss_connection t) = cn_data (ss_connection s)
         \<and> approved_sources (ss_context t) = approved_sources (ss_context s))
    \<and> (\<forall>outcome. r = Ok outcome \<longrightarrow>
         recorded it (ms_id spec) ''applied'' outcome (cn_data (ss_connection t))
           \<and> it_schema_version it (cn_data (ss_connection s)) = Some (mo_schema_version_before outcome)
         \<or> (\<exists>m. List.find (\<lambda>x. sm_id x = ms_id spec) (it_migrations it (cn_data (ss_connection s))) = Some m
             \<and> sm_status m = ''applied'' \<and> decode_checksum (ms_checksum spec) = Ok (sm_checksum m)
             \<and> outcome = outcome_from_record m Migration_Applied
             \<and> it_migrations it (cn_data (ss_connection t)) = it_migrations it (cn_data (ss_connection s))))"
    (is "?P r t")
proof -
  obtain q s1 where rd: "migration_record it (ms_id spec) s = (q, s1)" by force
  have s1: "ss_connection s1 = ss_connection s" "approved_sources (ss_context s1) = approved_sources (ss_context s)"
    using internal_read_unchanged [OF rd [unfolded migration_record_def]] by auto
  note at = atomic_body_outcome [OF assms(2), of s1, unfolded s1, OF assms(4)]
  have fresh: "?P r t" if "atomic env (apply_body env it developer spec now elapsed receipt) s1 = (r, t)"
  proof -
    let ?Q = "\<lambda>x d. recorded it (ms_id spec) ''applied'' x d
      \<and> it_schema_version it (cn_data (ss_connection s)) = Some (mo_schema_version_before x)"
    have "?Q x (cn_data (ss_connection w))"
      if "apply_body env it developer spec now elapsed receipt u = (Ok x, w)"
        "cn_data (ss_connection u) = cn_data (ss_connection s)" for u x w
      using apply_body_Ok [OF assms(3) that(1)] that(2) by simp
    from at [OF apply_body_guarded [OF assms(1,5)], where Q = ?Q, OF _ this that] show ?thesis by simp
  qed
  show ?thesis
  proof (cases q)
    case (Inl e)
    then show ?thesis using assms(4,6) rd s1 by (auto simp: apply_session_def sbind_def)
  next
    case (Inr found)
    then have found: "List.find (\<lambda>x. sm_id x = ms_id spec) (it_migrations it (cn_data (ss_connection s))) = found"
      using internal_read_Ok [OF rd [unfolded migration_record_def Inr]] by simp
    have run: "(case found of None \<Rightarrow> atomic env (apply_body env it developer spec now elapsed receipt)
        | Some m \<Rightarrow> sbind (slift (decode_checksum (ms_checksum spec))) (\<lambda>checksum.
             if sm_checksum m \<noteq> checksum then slift (Err ConstraintViolation)
             else if sm_status m = ''applied'' then replay_outcome env it m receipt now
             else atomic env (apply_body env it developer spec now elapsed receipt))) s1 = (r, t)"
      using assms(6) rd Inr by (simp add: apply_session_def sbind_def)
    show ?thesis
    proof (cases "\<exists>m. found = Some m \<and> decode_checksum (ms_checksum spec) = Ok (sm_checksum m) \<and> sm_status m = ''applied''")
      case True
      then obtain m where m: "found = Some m" "decode_checksum (ms_checksum spec) = Ok (sm_checksum m)" "sm_status m = ''applied''"
        by blast
      then have rep: "replay_outcome env it m receipt now s1 = (r, t)" using run by (simp add: sbind_def slift_def)
      show ?thesis
        using replay_outcome_cases [OF assms(2,3) _ rep] assms(4) s1 m found by simp
    next
      case False
      then show ?thesis
        using run fresh s1 assms(4)
        by (auto simp: sbind_def slift_def split: option.split_asm sum.split_asm if_split_asm)
    qed
  qed
qed

text \<open>The same for rolling back, with the down SQL that was stored.\<close>

theorem migration_rollback_all_or_nothing:
  assumes "control_is_explicit env" and "\<And>c. sq_control_fails env Rollback c = None" and "internal_tables_laws it"
    and "\<not> in_transaction (ss_connection s)"
    and "list_all (\<lambda>m. no_control_sql (sm_down_sql m)) (it_migrations it (cn_data (ss_connection s)))"
    and "rollback_session env it developer i now elapsed receipt s = (r, t)"
  shows "\<not> in_transaction (ss_connection t)
    \<and> (\<forall>e. r = Err e \<longrightarrow> cn_data (ss_connection t) = cn_data (ss_connection s)
         \<and> approved_sources (ss_context t) = approved_sources (ss_context s))
    \<and> (\<forall>outcome. r = Ok outcome \<longrightarrow>
         recorded it i ''rolled_back'' outcome (cn_data (ss_connection t))
         \<and> it_schema_version it (cn_data (ss_connection s)) = Some (mo_schema_version_before outcome))"
proof -
  obtain q s1 where rd: "migration_record it i s = (q, s1)" by force
  have s1: "ss_connection s1 = ss_connection s" "approved_sources (ss_context s1) = approved_sources (ss_context s)"
    using internal_read_unchanged [OF rd [unfolded migration_record_def]] by auto
  note at = atomic_body_outcome [OF assms(2), of s1, unfolded s1, OF assms(4)]
  show ?thesis
  proof (cases "\<exists>m. q = Ok (Some m) \<and> sm_status m = ''applied''")
    case False
    then show ?thesis
      using assms(4,6) rd s1
      by (auto simp: rollback_session_def sbind_def slift_def split: sum.split_asm option.split_asm if_split_asm)
  next
    case True
    then obtain m where m: "q = Ok (Some m)" "sm_status m = ''applied''" by blast
    have found: "List.find (\<lambda>x. sm_id x = i) (it_migrations it (cn_data (ss_connection s))) = Some m"
      using internal_read_Ok [OF rd [unfolded migration_record_def m(1)]] by simp
    then have mi: "sm_id m = i" "no_control_sql (sm_down_sql m)"
      using assms(5) by (auto simp: find_Some_iff list_all_length)
    have run: "atomic env (rollback_body env it developer m now elapsed receipt) s1 = (r, t)"
      using assms(6) rd m by (simp add: rollback_session_def sbind_def)
    let ?Q = "\<lambda>x d. recorded it i ''rolled_back'' x d
      \<and> it_schema_version it (cn_data (ss_connection s)) = Some (mo_schema_version_before x)"
    have "?Q x (cn_data (ss_connection w))"
      if "rollback_body env it developer m now elapsed receipt u = (Ok x, w)"
        "cn_data (ss_connection u) = cn_data (ss_connection s)" for u x w
      using rollback_body_Ok [OF assms(3) that(1)] that(2) mi(1) by simp
    from at [OF rollback_body_guarded [OF assms(1) mi(2)], where Q = ?Q, OF _ this run] show ?thesis by simp
  qed
qed

section \<open>Witness\<close>

text \<open>A database that counts the statements it ran, beside its internal tables.\<close>

record demo_content =
  dc_statements :: nat
  dc_migrations :: "stored_migration list"
  dc_version :: "nat option"
  dc_receipts :: "worker_receipt list"

definition demo_tables :: "demo_content internal_tables" where
  "demo_tables =
     \<lparr>it_migrations = dc_migrations, it_put_migrations = (\<lambda>x d. d\<lparr>dc_migrations := x\<rparr>),
      it_schema_version = dc_version, it_put_schema_version = (\<lambda>x d. d\<lparr>dc_version := Some x\<rparr>),
      it_put_catalog_json = (\<lambda>_ d. d), it_receipts = dc_receipts, it_put_receipts = (\<lambda>x d. d\<lparr>dc_receipts := x\<rparr>),
      it_fails = (\<lambda>_ _. None), it_encode_catalog = (\<lambda>_. Some ''{}''), it_encode_outcome = (\<lambda>_. Some ''{}'')\<rparr>"

lemma demo_tables_laws: "internal_tables_laws demo_tables"
  by (simp add: internal_tables_laws_def demo_tables_def)

definition demo_migration_env :: "demo_content sqlite_env" where
  "demo_migration_env =
     \<lparr>sq_actions = (\<lambda>_ _. []), sq_prepare = (\<lambda>_ _. Ok \<lparr>pr_columns = [], pr_parameter_count = 0\<rparr>),
      sq_run = (\<lambda>_ _ _ c. (Ok demo_outcome, c\<lparr>cn_data := (cn_data c)\<lparr>dc_statements := dc_statements (cn_data c) + 1\<rparr>\<rparr>)),
      sq_batch = (\<lambda>_ d. (Ok (), d)), sq_control_fails = (\<lambda>_ _. None), sq_pages = (\<lambda>d. Ok (1, 4096)),
      sq_capture_triggers = (\<lambda>_. Ok []), sq_table_names = (\<lambda>_. Ok []), sq_table_exists = (\<lambda>_ _. Ok False),
      sq_table_xinfo = (\<lambda>_ _. Ok []), sq_catalog_json = (\<lambda>_. Ok None), sq_decode_catalog = (\<lambda>_. None),
      sq_utf8_lossy = (\<lambda>x. x), sq_base64 = (\<lambda>x. x), sq_sha256 = (\<lambda>x. x), sq_now = (\<lambda>n. n),
      sq_cancelled = (\<lambda>_. False), sq_instant_max = 1000000\<rparr>"

lemma demo_migration_control_is_explicit: "control_is_explicit demo_migration_env"
  by (auto simp: control_is_explicit_def demo_migration_env_def)

definition demo_developer :: developer_principal where
  "demo_developer = \<lparr>dp_actor_id = ''a'', dp_api_key_id = ''k''\<rparr>"

definition demo_migration :: migration_spec where
  "demo_migration = \<lparr>ms_id = ''m1'', ms_name = ''notes'', ms_up_sql = ''CREATE TABLE notes (id INTEGER); INSERT INTO notes VALUES (1)'',
     ms_down_sql = ''DROP TABLE notes'', ms_checksum = replicate 64 CHR ''a'', ms_created_at_ms = 5\<rparr>"

definition demo_migration_session :: "demo_content session" where
  "demo_migration_session =
     \<lparr>ss_connection = \<lparr>cn_data = \<lparr>dc_statements = 0, dc_migrations = [], dc_version = Some 3, dc_receipts = []\<rparr>,
        cn_begin = None, cn_saves = []\<rparr>,
      ss_context = context_default\<lparr>active := Some (Developer demo_developer)\<rparr>, ss_mode = Developer demo_developer,
      ss_limits = limits_default, ss_transaction_deadline = None, ss_request_deadline = 1000, ss_reading = 0\<rparr>"

definition demo_applied :: "demo_content session" where
  "demo_applied = snd (apply_session demo_migration_env demo_tables demo_developer demo_migration 9 2 None demo_migration_session)"

lemma demo_applied_run:
  "apply_session demo_migration_env demo_tables demo_developer demo_migration 9 2 None demo_migration_session
     = (Ok \<lparr>mo_id = ''m1'', mo_status = Migration_Applied, mo_schema_version_before = 3, mo_schema_version_after = 4,
         mo_applied_at_ms = 9, mo_duration_ms = 2, mo_execution_log = [''migration applied atomically'']\<rparr>, demo_applied)"
  by code_simp

lemma demo_migration_no_control: "no_control_sql (ms_up_sql demo_migration)"
  by code_simp

theorem migration_apply_all_or_nothing_witness:
  "\<not> in_transaction (ss_connection demo_applied)
   \<and> recorded demo_tables ''m1'' ''applied'' \<lparr>mo_id = ''m1'', mo_status = Migration_Applied, mo_schema_version_before = 3,
        mo_schema_version_after = 4, mo_applied_at_ms = 9, mo_duration_ms = 2,
        mo_execution_log = [''migration applied atomically'']\<rparr> (cn_data (ss_connection demo_applied))"
proof -
  have "\<not> in_transaction (ss_connection demo_migration_session)"
    "List.find (\<lambda>x. sm_id x = ms_id demo_migration) (it_migrations demo_tables (cn_data (ss_connection demo_migration_session))) = None"
    "\<And>c. sq_control_fails demo_migration_env Rollback c = None" "ms_id demo_migration = ''m1''"
    by (simp_all add: demo_migration_session_def in_transaction_def demo_tables_def demo_migration_env_def demo_migration_def)
  then show ?thesis
    using migration_apply_all_or_nothing [OF demo_migration_control_is_explicit _ demo_tables_laws _
        demo_migration_no_control demo_applied_run] by simp
qed

end
