(* ===== verification/Worker_Router.thy ===== *)
theory Worker_Router
  imports Control_Registry
begin

text \<open>
  \<open>crates/database-router/src/lib.rs\<close>: requests are carried to database workers, one process per database
  and route generation, over pipes of length-prefixed frames. The loop of the process is
  \<open>serve_frames\<close> in \<open>apps/database-worker/src/lib.rs\<close>.

  Requests run concurrently. The model interleaves them at the points where the source awaits: a
  request is a task whose phase says how far it is, a process has two pipes and a lock, and one
  label is one step of one task or process. Of what a request and an answer contain only what the
  router looks at is modelled; JSON text, the handling of a request inside the worker and the outcome
  of starting a process are parameters.
\<close>

section \<open>Errors, requests and answers\<close>

datatype execution_error =
    Exec_QueueFull | Exec_DeadlineExceeded | Exec_StaleGeneration | Exec_Protocol | Exec_Rejected string | Exec_Unavailable

record 'q worker_request =
  wq_protocol_version :: nat
  wq_request_id :: uuid
  wq_route :: database_route
  wq_deadline_epoch_ms :: int
  wq_operation :: 'q

record platform_error =
  pe_code :: string
  pe_message :: string
  pe_request_id :: uuid

datatype 'a wire_response = Wire_Ok 'a | Wire_Error platform_error

record ('q, 'a, 'w) router_env =
  re_encode_request :: "'q worker_request \<Rightarrow> string option"
  re_decode_request :: "string \<Rightarrow> 'q worker_request option"
  re_encode_response :: "'a wire_response \<Rightarrow> string option"
  re_decode_response :: "string \<Rightarrow> 'a wire_response option"
  re_handle :: "database_route \<Rightarrow> 'w \<Rightarrow> 'q worker_request \<Rightarrow> ((string \<times> string) + 'a) \<times> 'w"
  re_spawn :: "database_route \<Rightarrow> 'w option"

definition mapped_code :: "string \<Rightarrow> bool" where
  "mapped_code c \<longleftrightarrow>
     starts_with c ''query.'' \<or> starts_with c ''rls.'' \<or> starts_with c ''migration.'' \<or> starts_with c ''sync.''
     \<or> starts_with c ''auth.'' \<or> starts_with c ''storage.''"

definition map_platform_error :: "platform_error \<Rightarrow> execution_error" where
  "map_platform_error e =
     (if pe_code e = ''project.stale_route'' then Exec_StaleGeneration
      else if pe_code e = ''query.deadline_exceeded'' then Exec_DeadlineExceeded
      else if mapped_code (pe_code e) then Exec_Rejected (pe_code e)
      else Exec_Protocol)"

section \<open>Frames\<close>

definition MAX_WORKER_FRAME_BYTES :: nat where "MAX_WORKER_FRAME_BYTES = 9 * 1024 * 1024"

definition be32 :: "nat \<Rightarrow> string" where
  "be32 n = map (\<lambda>k. char_of (n div 256 ^ k mod 256)) [3, 2, 1, 0]"

definition from_be32 :: "string \<Rightarrow> nat" where
  "from_be32 s = foldl (\<lambda>n c. 256 * n + code c) 0 s"

definition frame :: "string \<Rightarrow> string" where
  "frame payload = be32 (length payload) @ payload"

datatype read_outcome = Read_Incomplete | Read_Invalid | Read_Frame string string

text \<open>What a reader finds in a pipe: less than a frame, a length out of range, or a frame and the rest.\<close>

definition read_frame :: "string \<Rightarrow> read_outcome" where
  "read_frame input =
     (if length input < 4 then Read_Incomplete
      else
        (let n = from_be32 (take 4 input); body = drop 4 input in
         if n = 0 \<or> n > MAX_WORKER_FRAME_BYTES then Read_Invalid
         else if length body < n then Read_Incomplete
         else Read_Frame (take n body) (drop n body)))"

section \<open>Processes\<close>

record 'w worker_process =
  wp_route :: database_route
  wp_state :: 'w
  wp_stdin :: string
  wp_stdout :: string
  wp_exited :: bool
  wp_holder :: "nat option"

definition spawn :: "('q, 'a, 'w) router_env \<Rightarrow> database_route \<Rightarrow> execution_error + 'w worker_process" where
  "spawn env route =
     bindr (ok_or (re_spawn env route) Exec_Unavailable) (\<lambda>w.
       Ok \<lparr>wp_route = route, wp_state = w, wp_stdin = [], wp_stdout = [], wp_exited = False, wp_holder = None\<rparr>)"

definition wire_of :: "(string \<times> string) + 'a \<Rightarrow> uuid \<Rightarrow> 'a wire_response" where
  "wire_of r rid =
     (case r of
        Inr a \<Rightarrow> Wire_Ok a
      | Inl (c, msg) \<Rightarrow> Wire_Error \<lparr>pe_code = c, pe_message = msg, pe_request_id = rid\<rparr>)"

text \<open>One round of the loop of the process, which blocks on an incomplete frame and ends on any other failure.\<close>

definition serve_frame :: "('q, 'a, 'w) router_env \<Rightarrow> 'w worker_process \<Rightarrow> 'w worker_process" where
  "serve_frame env p =
     (case read_frame (wp_stdin p) of
        Read_Incomplete \<Rightarrow> p
      | Read_Invalid \<Rightarrow> p\<lparr>wp_exited := True\<rparr>
      | Read_Frame bytes rest \<Rightarrow>
          (case re_decode_request env bytes of
             None \<Rightarrow> p\<lparr>wp_exited := True\<rparr>
           | Some rq \<Rightarrow>
               (let (r, w) = re_handle env (wp_route p) (wp_state p) rq;
                    p' = p\<lparr>wp_stdin := rest, wp_state := w\<rparr>
                in case re_encode_response env (wire_of r (wq_request_id rq)) of
                     None \<Rightarrow> p'\<lparr>wp_exited := True\<rparr>
                   | Some payload \<Rightarrow>
                       if length payload > MAX_WORKER_FRAME_BYTES then p'\<lparr>wp_exited := True\<rparr>
                       else p'\<lparr>wp_stdout := wp_stdout p @ frame payload\<rparr>)))"

text \<open>\<open>exchange\<close> in two halves: writing the request, and reading an answer once one is there.\<close>

definition exchange_send :: "('q, 'a, 'w) router_env \<Rightarrow> 'q worker_request \<Rightarrow> 'w worker_process \<Rightarrow> execution_error + 'w worker_process" where
  "exchange_send env rq p =
     bindr (ok_or (re_encode_request env rq) Exec_Protocol) (\<lambda>payload.
       if payload = [] \<or> length payload > MAX_WORKER_FRAME_BYTES then Err Exec_Protocol
       else if wp_exited p then Err Exec_Unavailable
       else Ok (p\<lparr>wp_stdin := wp_stdin p @ frame payload\<rparr>))"

definition wire_result :: "'a wire_response \<Rightarrow> execution_error + 'a" where
  "wire_result w = (case w of Wire_Ok a \<Rightarrow> Ok a | Wire_Error e \<Rightarrow> Err (map_platform_error e))"

definition exchange_receive ::
    "('q, 'a, 'w) router_env \<Rightarrow> 'w worker_process \<Rightarrow> ((execution_error + 'a) \<times> 'w worker_process) option" where
  "exchange_receive env p =
     (case read_frame (wp_stdout p) of
        Read_Incomplete \<Rightarrow> if wp_exited p then Some (Err Exec_Unavailable, p\<lparr>wp_stdout := []\<rparr>) else None
      | Read_Invalid \<Rightarrow> Some (Err Exec_Protocol, p\<lparr>wp_stdout := drop 4 (wp_stdout p)\<rparr>)
      | Read_Frame bytes rest \<Rightarrow>
          Some (case re_decode_response env bytes of None \<Rightarrow> Err Exec_Protocol | Some w \<Rightarrow> wire_result w,
            p\<lparr>wp_stdout := rest\<rparr>))"

section \<open>The executor\<close>

record executor_config =
  ex_worker_binary :: string
  ex_database_root :: string
  ex_backup_root :: string
  ex_node_id :: uuid
  ex_max_workers :: nat
  ex_queue_capacity :: nat

record worker_entry =
  we_process :: nat
  we_last_used :: nat

datatype 'a phase = Queued | Assigned nat | Exchanging nat | Finished "execution_error + 'a"

record ('q, 'a) task =
  ta_route :: database_route
  ta_request :: "'q worker_request"
  ta_phase :: "'a phase"

record ('q, 'a, 'w) router_state =
  rt_workers :: "(uuid \<times> nat, worker_entry) hash_map"
  rt_processes :: "'w worker_process list"
  rt_permits :: nat
  rt_tasks :: "('q, 'a) task list"

text \<open>The components of an absolute path: empty ones and dots are skipped.\<close>

definition path_components :: "string \<Rightarrow> string list" where
  "path_components p = filter (\<lambda>c. c \<noteq> [] \<and> c \<noteq> ''.'') (split_on CHR ''/'' p)"

definition specific_absolute_path :: "string \<Rightarrow> bool" where
  "specific_absolute_path p \<longleftrightarrow>
     starts_with p ''/'' \<and> path_components p \<noteq> [] \<and> ''..'' \<notin> set (path_components p)
     \<and> list_ex (\<lambda>c. c \<noteq> ''..'') (path_components p)"

definition executor_new :: "executor_config \<Rightarrow> execution_error + ('q, 'a, 'w) router_state" where
  "executor_new cfg =
     (if \<not> specific_absolute_path (ex_worker_binary cfg) \<or> \<not> specific_absolute_path (ex_database_root cfg)
        \<or> \<not> specific_absolute_path (ex_backup_root cfg) \<or> ex_max_workers cfg = 0 \<or> ex_queue_capacity cfg = 0
      then Err Exec_Protocol
      else Ok \<lparr>rt_workers = [], rt_processes = [], rt_permits = ex_queue_capacity cfg, rt_tasks = []\<rparr>)"

definition WORKER_IDLE_TTL :: nat where "WORKER_IDLE_TTL = 5 * 60 * 1000"

definition holds :: "nat \<Rightarrow> 'a phase \<Rightarrow> bool" where
  "holds p ph \<longleftrightarrow> ph = Assigned p \<or> ph = Exchanging p"

text \<open>\<open>Arc::strong_count\<close> of a process in the pool is above one when a task holds it.\<close>

definition in_use :: "('q, 'a) task list \<Rightarrow> nat \<Rightarrow> bool" where
  "in_use ts p = list_ex (\<lambda>t. holds p (ta_phase t)) ts"

definition worker_for ::
    "('q, 'a, 'w) router_env \<Rightarrow> executor_config \<Rightarrow> nat \<Rightarrow> database_route \<Rightarrow> ('q, 'a, 'w) router_state
      \<Rightarrow> (execution_error + nat) \<times> ('q, 'a, 'w) router_state" where
  "worker_for env cfg now route st =
     (if ro_node_id route \<noteq> ex_node_id cfg then (Err Exec_StaleGeneration, st)
      else
        (let key = (ro_database_id route, ro_generation route);
             workers = hm_retain (\<lambda>_ e. in_use (rt_tasks st) (we_process e) \<or> now - we_last_used e < WORKER_IDLE_TTL)
               (rt_workers st)
         in case hm_get workers key of
              Some e \<Rightarrow> (Ok (we_process e), st\<lparr>rt_workers := hm_insert key (e\<lparr>we_last_used := now\<rparr>) workers\<rparr>)
            | None \<Rightarrow>
                (let workers' = hm_retain (\<lambda>k _. fst k \<noteq> ro_database_id route) workers in
                 if length workers' \<ge> ex_max_workers cfg then (Err Exec_QueueFull, st\<lparr>rt_workers := workers'\<rparr>)
                 else case spawn env route of
                   Inl e \<Rightarrow> (Err e, st\<lparr>rt_workers := workers'\<rparr>)
                 | Inr p \<Rightarrow>
                     (let pid = length (rt_processes st) in
                      (Ok pid, st\<lparr>rt_workers := hm_insert key \<lparr>we_process = pid, we_last_used = now\<rparr> workers',
                         rt_processes := rt_processes st @ [p]\<rparr>)))))"

definition evict :: "uuid \<Rightarrow> nat \<Rightarrow> ('q, 'a, 'w) router_state \<Rightarrow> bool \<times> ('q, 'a, 'w) router_state" where
  "evict did g st =
     (hm_get (rt_workers st) (did, g) \<noteq> None, st\<lparr>rt_workers := hm_remove (did, g) (rt_workers st)\<rparr>)"

record pool_snapshot =
  ps_active_workers :: nat
  ps_max_workers :: nat
  ps_execution_slots_in_use :: nat
  ps_queue_capacity :: nat

definition snapshot_pool :: "executor_config \<Rightarrow> ('q, 'a, 'w) router_state \<Rightarrow> pool_snapshot" where
  "snapshot_pool cfg st =
     \<lparr>ps_active_workers = length (rt_workers st), ps_max_workers = ex_max_workers cfg,
      ps_execution_slots_in_use = ex_queue_capacity cfg - rt_permits st, ps_queue_capacity = ex_queue_capacity cfg\<rparr>"

section \<open>A request, step by step\<close>

definition set_phase :: "nat \<Rightarrow> 'a phase \<Rightarrow> ('q, 'a, 'w) router_state \<Rightarrow> ('q, 'a, 'w) router_state" where
  "set_phase i ph st = st\<lparr>rt_tasks := (rt_tasks st)[i := (rt_tasks st ! i)\<lparr>ta_phase := ph\<rparr>]\<rparr>"

text \<open>The end of a task gives its permit back.\<close>

definition finish :: "nat \<Rightarrow> execution_error + 'a \<Rightarrow> ('q, 'a, 'w) router_state \<Rightarrow> ('q, 'a, 'w) router_state" where
  "finish i r st = (set_phase i (Finished r) st)\<lparr>rt_permits := rt_permits st + 1\<rparr>"

definition set_process :: "nat \<Rightarrow> 'w worker_process \<Rightarrow> ('q, 'a, 'w) router_state \<Rightarrow> ('q, 'a, 'w) router_state" where
  "set_process p w st = st\<lparr>rt_processes := (rt_processes st)[p := w]\<rparr>"

text \<open>The result of the exchange or of its timeout: on an error the generation is evicted.\<close>

definition conclude :: "nat \<Rightarrow> execution_error + 'a \<Rightarrow> ('q, 'a, 'w) router_state \<Rightarrow> ('q, 'a, 'w) router_state" where
  "conclude i r st =
     (let route = ta_route (rt_tasks st ! i) in
      finish i r (case r of Inl _ \<Rightarrow> snd (evict (ro_database_id route) (ro_generation route) st) | Inr _ \<Rightarrow> st))"

definition arrive :: "database_route \<Rightarrow> 'q worker_request \<Rightarrow> ('q, 'a, 'w) router_state \<Rightarrow> ('q, 'a, 'w) router_state" where
  "arrive route rq st =
     (if wq_route rq \<noteq> route then
        st\<lparr>rt_tasks := rt_tasks st @ [\<lparr>ta_route = route, ta_request = rq, ta_phase = Finished (Err Exec_StaleGeneration)\<rparr>]\<rparr>
      else if rt_permits st = 0 then
        st\<lparr>rt_tasks := rt_tasks st @ [\<lparr>ta_route = route, ta_request = rq, ta_phase = Finished (Err Exec_QueueFull)\<rparr>]\<rparr>
      else
        st\<lparr>rt_permits := rt_permits st - 1,
           rt_tasks := rt_tasks st @ [\<lparr>ta_route = route, ta_request = rq, ta_phase = Queued\<rparr>]\<rparr>)"

text \<open>Finding the worker, and the time that remains: \<open>now_ms\<close> is None when the clock is before the epoch.\<close>

definition remaining_ms :: "nat option \<Rightarrow> int \<Rightarrow> execution_error + nat" where
  "remaining_ms now_ms deadline =
     bindr (ok_or now_ms Exec_Unavailable) (\<lambda>n.
       if deadline < 0 then Err Exec_DeadlineExceeded
       else if nat deadline < n then Err Exec_DeadlineExceeded
       else Ok (min (nat deadline - n) u64_max))"

definition assign ::
    "('q, 'a, 'w) router_env \<Rightarrow> executor_config \<Rightarrow> nat \<Rightarrow> nat option \<Rightarrow> nat \<Rightarrow> ('q, 'a, 'w) router_state
      \<Rightarrow> ('q, 'a, 'w) router_state" where
  "assign env cfg now now_ms i st =
     (let t = rt_tasks st ! i in
      case worker_for env cfg now (ta_route t) st of
        (Inl e, st') \<Rightarrow> finish i (Err e) st'
      | (Inr p, st') \<Rightarrow>
          (case remaining_ms now_ms (wq_deadline_epoch_ms (ta_request t)) of
             Inl e \<Rightarrow> finish i (Err e) st'
           | Inr _ \<Rightarrow> set_phase i (Assigned p) st'))"

definition send :: "('q, 'a, 'w) router_env \<Rightarrow> nat \<Rightarrow> nat \<Rightarrow> ('q, 'a, 'w) router_state \<Rightarrow> ('q, 'a, 'w) router_state" where
  "send env i p st =
     (case exchange_send env (ta_request (rt_tasks st ! i)) (rt_processes st ! p) of
        Inl e \<Rightarrow> conclude i (Err e) st
      | Inr w \<Rightarrow> set_phase i (Exchanging p) (set_process p (w\<lparr>wp_holder := Some i\<rparr>) st))"

definition receive ::
    "('q, 'a, 'w) router_env \<Rightarrow> nat \<Rightarrow> nat \<Rightarrow> ('q, 'a, 'w) router_state \<Rightarrow> ('q, 'a, 'w) router_state option" where
  "receive env i p st =
     map_option (\<lambda>(r, w). conclude i r (set_process p (w\<lparr>wp_holder := None\<rparr>) st))
       (exchange_receive env (rt_processes st ! p))"

text \<open>
  The timeout drops the exchange where it is: before the lock, while the request is being written (\<open>k\<close>
  bytes of it have been), or while the answer is awaited or read (\<open>k\<close> bytes of it have been).
\<close>

definition cut_send :: "('q, 'a, 'w) router_env \<Rightarrow> nat \<Rightarrow> nat \<Rightarrow> nat \<Rightarrow> ('q, 'a, 'w) router_state \<Rightarrow> ('q, 'a, 'w) router_state" where
  "cut_send env i p k st =
     (let w = rt_processes st ! p;
          bytes = (case re_encode_request env (ta_request (rt_tasks st ! i)) of None \<Rightarrow> [] | Some payload \<Rightarrow> frame payload)
      in conclude i (Err Exec_DeadlineExceeded) (set_process p (w\<lparr>wp_stdin := wp_stdin w @ take k bytes\<rparr>) st))"

definition cut_receive :: "nat \<Rightarrow> nat \<Rightarrow> nat \<Rightarrow> ('q, 'a, 'w) router_state \<Rightarrow> ('q, 'a, 'w) router_state" where
  "cut_receive i p k st =
     (let w = rt_processes st ! p in
      conclude i (Err Exec_DeadlineExceeded)
        (set_process p (w\<lparr>wp_stdout := drop k (wp_stdout w), wp_holder := None\<rparr>) st))"

datatype 'q label =
    Arrive database_route "'q worker_request" | Assign nat nat "nat option" | Send nat | Serve nat | Receive nat
  | Timeout nat | Cut_Send nat nat | Cut_Receive nat nat | Evict uuid nat

definition phase_of :: "('q, 'a, 'w) router_state \<Rightarrow> nat \<Rightarrow> 'a phase option" where
  "phase_of st i = (if i < length (rt_tasks st) then Some (ta_phase (rt_tasks st ! i)) else None)"

fun router_step ::
    "('q, 'a, 'w) router_env \<Rightarrow> executor_config \<Rightarrow> 'q label \<Rightarrow> ('q, 'a, 'w) router_state \<Rightarrow> ('q, 'a, 'w) router_state option" where
  "router_step env cfg (Arrive route rq) st = Some (arrive route rq st)"
| "router_step env cfg (Assign i now now_ms) st =
     (case phase_of st i of Some Queued \<Rightarrow> Some (assign env cfg now now_ms i st) | _ \<Rightarrow> None)"
| "router_step env cfg (Send i) st =
     (case phase_of st i of
        Some (Assigned p) \<Rightarrow> if wp_holder (rt_processes st ! p) = None then Some (send env i p st) else None
      | _ \<Rightarrow> None)"
| "router_step env cfg (Serve p) st =
     (if p < length (rt_processes st) \<and> \<not> wp_exited (rt_processes st ! p)
      then Some (set_process p (serve_frame env (rt_processes st ! p)) st) else None)"
| "router_step env cfg (Receive i) st =
     (case phase_of st i of Some (Exchanging p) \<Rightarrow> receive env i p st | _ \<Rightarrow> None)"
| "router_step env cfg (Timeout i) st =
     (case phase_of st i of Some (Assigned p) \<Rightarrow> Some (conclude i (Err Exec_DeadlineExceeded) st) | _ \<Rightarrow> None)"
| "router_step env cfg (Cut_Send i k) st =
     (case phase_of st i of
        Some (Assigned p) \<Rightarrow> if wp_holder (rt_processes st ! p) = None then Some (cut_send env i p k st) else None
      | _ \<Rightarrow> None)"
| "router_step env cfg (Cut_Receive i k) st =
     (case phase_of st i of Some (Exchanging p) \<Rightarrow> Some (cut_receive i p k st) | _ \<Rightarrow> None)"
| "router_step env cfg (Evict did g) st = Some (snd (evict did g st))"

fun router_run ::
    "('q, 'a, 'w) router_env \<Rightarrow> executor_config \<Rightarrow> 'q label list \<Rightarrow> ('q, 'a, 'w) router_state \<Rightarrow> ('q, 'a, 'w) router_state option" where
  "router_run env cfg [] st = Some st"
| "router_run env cfg (l # ls) st =
     (case router_step env cfg l st of None \<Rightarrow> None | Some st' \<Rightarrow> router_run env cfg ls st')"

end
