(* ===== verification/Router_Properties.thy ===== *)
theory Router_Properties
  imports Worker_Router Transition_System
begin

text \<open>
  The worker pool over every interleaving of requests, processes, timeouts and evictions: it stays
  within its bounds and a request is only ever handed to a process of its own database, node and
  generation. As long as no exchange is cut off by its timeout, every answer is the answer to the
  request that receives it; an example shows what happens when one is.
\<close>

section \<open>Frames\<close>

lemma from_be32_be32: "n < 2 ^ 32 \<Longrightarrow> from_be32 (be32 n) = n"
proof -
  assume n: "n < 2 ^ 32"
  define a where "a = n div 256"
  define b where "b = a div 256"
  define c where "c = b div 256"
  have "c < 256" using n by (simp add: a_def b_def c_def)
  have "n = 256 * a + n mod 256" "a = 256 * b + a mod 256" "b = 256 * c + b mod 256"
    by (simp_all add: a_def b_def c_def)
  moreover have "n div 256 ^ 3 = c" "n div 256 ^ 2 = b" "n div 256 ^ 1 = a"
    by (simp_all add: a_def b_def c_def div_mult2_eq [symmetric] power3_eq_cube power2_eq_square)
  ultimately show ?thesis
    using \<open>c < 256\<close> unfolding from_be32_def be32_def code_def by simp
qed

lemma length_be32 [simp]: "length (be32 n) = 4"
  by (simp add: be32_def)

lemma read_frame_frame:
  assumes "payload \<noteq> []" and "length payload \<le> MAX_WORKER_FRAME_BYTES"
  shows "read_frame (frame payload @ rest) = Read_Frame payload rest"
proof -
  have "from_be32 (be32 (length payload)) = length payload"
    using assms(2) by (intro from_be32_be32) (simp add: MAX_WORKER_FRAME_BYTES_def)
  then show ?thesis using assms by (simp add: read_frame_def frame_def Let_def)
qed

lemma read_frame_Nil [simp]: "read_frame [] = Read_Incomplete"
  by (simp add: read_frame_def)

lemma read_frame_partial:
  assumes "k < length (frame payload)" and "payload \<noteq> []" and "length payload \<le> MAX_WORKER_FRAME_BYTES"
  shows "read_frame (take k (frame payload)) = Read_Incomplete"
proof -
  have "from_be32 (be32 (length payload)) = length payload"
    using assms(3) by (intro from_be32_be32) (simp add: MAX_WORKER_FRAME_BYTES_def)
  then show ?thesis using assms by (auto simp: read_frame_def frame_def Let_def)
qed

section \<open>The pool\<close>

definition target :: "database_route \<Rightarrow> uuid \<times> uuid \<times> nat" where
  "target r = (ro_database_id r, ro_node_id r, ro_generation r)"

definition workers_ok :: "executor_config \<Rightarrow> ('q, 'a, 'w) router_state \<Rightarrow> bool" where
  "workers_ok cfg st \<longleftrightarrow>
     hm_wf (rt_workers st) \<and> length (rt_workers st) \<le> ex_max_workers cfg
     \<and> (\<forall>k k'. hm_get (rt_workers st) k \<noteq> None \<longrightarrow> hm_get (rt_workers st) k' \<noteq> None \<longrightarrow> fst k = fst k' \<longrightarrow> k = k')
     \<and> (\<forall>k e. hm_get (rt_workers st) k = Some e \<longrightarrow> we_process e < length (rt_processes st)
          \<and> target (wp_route (rt_processes st ! we_process e)) = (fst k, ex_node_id cfg, snd k))"

definition tasks_ok :: "('q, 'a, 'w) router_state \<Rightarrow> bool" where
  "tasks_ok st \<longleftrightarrow>
     (\<forall>t\<in>set (rt_tasks st). \<forall>p. holds p (ta_phase t) \<longrightarrow> p < length (rt_processes st)
        \<and> target (wp_route (rt_processes st ! p)) = target (ta_route t))"

definition unfinished :: "('q, 'a) task \<Rightarrow> bool" where
  "unfinished t \<longleftrightarrow> (\<forall>r. ta_phase t \<noteq> Finished r)"

definition permits_ok :: "executor_config \<Rightarrow> ('q, 'a, 'w) router_state \<Rightarrow> bool" where
  "permits_ok cfg st \<longleftrightarrow> rt_permits st + length (filter unfinished (rt_tasks st)) = ex_queue_capacity cfg"

definition pool_ok :: "executor_config \<Rightarrow> ('q, 'a, 'w) router_state \<Rightarrow> bool" where
  "pool_ok cfg st \<longleftrightarrow> workers_ok cfg st \<and> tasks_ok st \<and> permits_ok cfg st"

text \<open>What the small updates do to each part.\<close>

lemma router_simps [simp]:
  "rt_workers (set_phase i ph st) = rt_workers st" "rt_processes (set_phase i ph st) = rt_processes st"
  "rt_permits (set_phase i ph st) = rt_permits st" "rt_workers (finish i r st) = rt_workers st"
  "rt_processes (finish i r st) = rt_processes st" "rt_permits (finish i r st) = Suc (rt_permits st)"
  "rt_tasks (finish i r st) = rt_tasks (set_phase i (Finished r) st)"
  "rt_workers (set_process p w st) = rt_workers st" "rt_permits (set_process p w st) = rt_permits st"
  "rt_tasks (set_process p w st) = rt_tasks st" "rt_processes (set_process p w st) = (rt_processes st)[p := w]"
  "rt_processes (snd (evict d g st)) = rt_processes st" "rt_tasks (snd (evict d g st)) = rt_tasks st"
  "rt_permits (snd (evict d g st)) = rt_permits st"
  by (simp_all add: set_phase_def finish_def set_process_def evict_def)

lemma conclude_simps [simp]:
  "rt_processes (conclude i r st) = rt_processes st" "rt_permits (conclude i r st) = Suc (rt_permits st)"
  "rt_tasks (conclude i r st) = rt_tasks (set_phase i (Finished r) st)"
  by (auto simp: conclude_def Let_def set_phase_def split: sum.split)

lemma tasks_set_phase: "rt_tasks (set_phase i ph st) = (rt_tasks st)[i := (rt_tasks st ! i)\<lparr>ta_phase := ph\<rparr>]"
  by (simp add: set_phase_def)

lemma workers_ok_cong:
  assumes "workers_ok cfg st" and "rt_workers st' = rt_workers st"
    and "map wp_route (rt_processes st') = map wp_route (rt_processes st)"
  shows "workers_ok cfg st'"
  using assms unfolding workers_ok_def by (metis length_map nth_map)

lemma workers_ok_smaller:
  assumes "workers_ok cfg st" and "hm_wf ws" and "length ws \<le> length (rt_workers st)"
    and "\<And>k e. hm_get ws k = Some e \<Longrightarrow> hm_get (rt_workers st) k = Some e"
  shows "workers_ok cfg (st\<lparr>rt_workers := ws\<rparr>)"
proof -
  have "k = k'" if "hm_get ws k \<noteq> None" "hm_get ws k' \<noteq> None" "fst k = fst k'" for k k'
  proof -
    have "hm_get (rt_workers st) k \<noteq> None" "hm_get (rt_workers st) k' \<noteq> None"
      using that assms(4) [of k] assms(4) [of k'] by force+
    then show ?thesis using assms(1) that(3) unfolding workers_ok_def by blast
  qed
  moreover have "we_process e < length (rt_processes st)
      \<and> target (wp_route (rt_processes st ! we_process e)) = (fst k, ex_node_id cfg, snd k)" if "hm_get ws k = Some e" for k e
    using assms(1) assms(4) [OF that] unfolding workers_ok_def by blast
  ultimately show ?thesis
    using assms(1-3) unfolding workers_ok_def by (intro conjI allI impI) (simp_all del: split_paired_All)
qed

lemma workers_ok_evict: "workers_ok cfg st \<Longrightarrow> workers_ok cfg (snd (evict d g st))"
  unfolding evict_def snd_conv
  by (rule workers_ok_smaller)
    (auto simp: hm_get_remove hm_length_remove workers_ok_def hm_wf_remove split: if_split_asm)

lemma workers_ok_conclude:
  assumes "workers_ok cfg st"
  shows "workers_ok cfg (conclude i r st)"
proof (cases r)
  case (Inl e)
  let ?st = "snd (evict (ro_database_id (ta_route (rt_tasks st ! i))) (ro_generation (ta_route (rt_tasks st ! i))) st)"
  have "workers_ok cfg ?st" using assms by (rule workers_ok_evict)
  then show ?thesis by (rule workers_ok_cong) (simp_all add: Inl conclude_def Let_def)
next
  case (Inr a)
  from assms show ?thesis by (rule workers_ok_cong) (simp_all add: Inr conclude_def Let_def)
qed

lemma tasks_ok_set_phase:
  assumes "tasks_ok st" and "i < length (rt_tasks st)" and "rt_tasks st' = rt_tasks (set_phase i ph st)"
    and "map wp_route (rt_processes st') = map wp_route (rt_processes st)"
    and "\<And>p. holds p ph \<Longrightarrow> p < length (rt_processes st) \<and> target (wp_route (rt_processes st ! p)) = target (ta_route (rt_tasks st ! i))"
  shows "tasks_ok st'"
proof -
  have n: "length (rt_processes st') = length (rt_processes st)"
    "\<And>p. p < length (rt_processes st) \<Longrightarrow> wp_route (rt_processes st' ! p) = wp_route (rt_processes st ! p)"
    using assms(4) by (metis length_map, metis length_map nth_map)
  show ?thesis
    unfolding tasks_ok_def
  proof (intro ballI allI impI)
    fix t p
    assume t: "t \<in> set (rt_tasks st')" and p: "holds p (ta_phase t)"
    from t have "t = (rt_tasks st ! i)\<lparr>ta_phase := ph\<rparr> \<or> t \<in> set (rt_tasks st)"
      using set_update_subset_insert [of "rt_tasks st"] by (auto simp: assms(3) tasks_set_phase)
    then show "p < length (rt_processes st') \<and> target (wp_route (rt_processes st' ! p)) = target (ta_route t)"
    proof
      assume "t = (rt_tasks st ! i)\<lparr>ta_phase := ph\<rparr>"
      then show ?thesis using assms(5) [of p] p n by simp
    next
      assume "t \<in> set (rt_tasks st)"
      then show ?thesis using assms(1) p n unfolding tasks_ok_def by simp
    qed
  qed
qed

lemma permits_ok_finish:
  assumes "permits_ok cfg st" and "i < length (rt_tasks st)" and "unfinished (rt_tasks st ! i)"
    and "rt_tasks st' = rt_tasks (set_phase i (Finished r) st)" and "rt_permits st' = Suc (rt_permits st)"
  shows "permits_ok cfg st'"
proof -
  let ?t = "(rt_tasks st ! i)\<lparr>ta_phase := Finished r\<rparr>"
  have ts: "rt_tasks st = take i (rt_tasks st) @ rt_tasks st ! i # drop (Suc i) (rt_tasks st)"
    using assms(2) by (rule id_take_nth_drop)
  have "length (filter unfinished (rt_tasks st)) = Suc (length (filter unfinished ((rt_tasks st)[i := ?t])))"
    using assms(2,3) by (subst ts) (simp add: upd_conv_take_nth_drop unfinished_def)
  then show ?thesis using assms(1,4,5) by (simp add: permits_ok_def tasks_set_phase)
qed

lemma permits_ok_move:
  assumes "permits_ok cfg st" and "i < length (rt_tasks st)" and "unfinished (rt_tasks st ! i)"
    and "rt_tasks st' = rt_tasks (set_phase i ph st)" and "rt_permits st' = rt_permits st" and "\<And>r. ph \<noteq> Finished r"
  shows "permits_ok cfg st'"
proof -
  let ?t = "(rt_tasks st ! i)\<lparr>ta_phase := ph\<rparr>"
  have ts: "rt_tasks st = take i (rt_tasks st) @ rt_tasks st ! i # drop (Suc i) (rt_tasks st)"
    using assms(2) by (rule id_take_nth_drop)
  have "unfinished ?t" using assms(6) by (simp add: unfinished_def)
  then have "length (filter unfinished ((rt_tasks st)[i := ?t])) = length (filter unfinished (rt_tasks st))"
    using assms(2,3) by (subst (3) ts) (simp add: upd_conv_take_nth_drop)
  then show ?thesis using assms(1,4,5) by (simp add: permits_ok_def tasks_set_phase)
qed

text \<open>A task that ends, and one that goes on to another phase.\<close>

lemma pool_ok_conclude:
  assumes "pool_ok cfg st" and "i < length (rt_tasks st)" and "unfinished (rt_tasks st ! i)"
    and "rt_workers st1 = rt_workers st" and "rt_tasks st1 = rt_tasks st" and "rt_permits st1 = rt_permits st"
    and "map wp_route (rt_processes st1) = map wp_route (rt_processes st)"
  shows "pool_ok cfg (conclude i r st1)"
proof -
  have "workers_ok cfg st1" "permits_ok cfg st1"
    using assms by (auto simp: pool_ok_def permits_ok_def intro: workers_ok_cong)
  then show ?thesis
    using assms workers_ok_conclude [of cfg st1 i r] permits_ok_finish [of cfg st1 i "conclude i r st1" r]
      tasks_ok_set_phase [of st i "conclude i r st1" "Finished r"]
    by (simp add: pool_ok_def holds_def tasks_set_phase)
qed

text \<open>Finding a worker keeps the pool's bounds and returns a process of the route's own target.\<close>

lemma worker_for_ok:
  assumes "workers_ok cfg st" and "worker_for env cfg now route st = (r, st')"
  shows "workers_ok cfg st' \<and> rt_tasks st' = rt_tasks st \<and> rt_permits st' = rt_permits st
    \<and> (\<exists>ps. rt_processes st' = rt_processes st @ ps)
    \<and> (\<forall>p. r = Ok p \<longrightarrow> p < length (rt_processes st') \<and> target (wp_route (rt_processes st' ! p)) = target route)"
proof (cases "ro_node_id route = ex_node_id cfg")
  case False
  then show ?thesis using assms by (auto simp: worker_for_def)
next
  case True
  let ?key = "(ro_database_id route, ro_generation route)"
  define ws where "ws = hm_retain (\<lambda>_ e. in_use (rt_tasks st) (we_process e) \<or> now - we_last_used e < WORKER_IDLE_TTL) (rt_workers st)"
  have wf: "hm_wf (rt_workers st)" "length (rt_workers st) \<le> ex_max_workers cfg" using assms(1) by (simp_all add: workers_ok_def)
  have sub: "hm_get ws k = Some e \<Longrightarrow> hm_get (rt_workers st) k = Some e" for k e
    using wf by (auto simp: ws_def hm_get_retain split: option.split_asm if_split_asm)
  have ws: "workers_ok cfg (st\<lparr>rt_workers := ws\<rparr>)" "hm_wf ws"
    using assms(1) wf by (auto simp: ws_def hm_wf_retain intro!: workers_ok_smaller [OF assms(1)] sub [unfolded ws_def])
  show ?thesis
  proof (cases "hm_get ws ?key")
    case (Some e)
    have st': "r = Ok (we_process e)" "st' = st\<lparr>rt_workers := hm_insert ?key (e\<lparr>we_last_used := now\<rparr>) ws\<rparr>"
      using assms(2) True Some by (auto simp: worker_for_def Let_def simp flip: ws_def)
    have old: "we_process e < length (rt_processes st)" "target (wp_route (rt_processes st ! we_process e)) = target route"
      using ws(1) Some True by (auto simp: workers_ok_def target_def)
    have "workers_ok cfg st'"
      using ws Some unfolding st' workers_ok_def
      by (auto simp: hm_wf_insert hm_length_insert hm_get_insert split: if_split_asm) (metis not_Some_eq)
    then show ?thesis using st' old by auto
  next
    case None
    define ws' where "ws' = hm_retain (\<lambda>k _. fst k \<noteq> ro_database_id route) ws"
    have sub': "hm_get ws' k = Some x \<Longrightarrow> hm_get ws k = Some x \<and> fst k \<noteq> ro_database_id route" for k x
      using ws(2) by (auto simp: ws'_def hm_get_retain split: option.split_asm if_split_asm)
    have ws': "workers_ok cfg (st\<lparr>rt_workers := ws'\<rparr>)" "hm_wf ws'"
      using workers_ok_smaller [OF ws(1), of ws'] ws(2) sub' by (auto simp: ws'_def hm_wf_retain)
    show ?thesis
    proof (cases "\<exists>p. length ws' < ex_max_workers cfg \<and> spawn env route = Ok p")
      case False
      then have "(\<exists>e. r = Err e) \<and> st' = st\<lparr>rt_workers := ws'\<rparr>"
        using assms(2) True None
        by (auto simp: worker_for_def Let_def simp flip: ws_def ws'_def split: sum.split_asm if_split_asm)
      then show ?thesis using ws' by auto
    next
      case spawned: True
      then obtain p where p: "length ws' < ex_max_workers cfg" "spawn env route = Ok p" by blast
      have route: "wp_route p = route" using p(2) by (auto simp: spawn_def bindr_eq_Ok)
      have st': "r = Ok (length (rt_processes st))" "st' = st\<lparr>rt_workers := hm_insert ?key
          \<lparr>we_process = length (rt_processes st), we_last_used = now\<rparr> ws', rt_processes := rt_processes st @ [p]\<rparr>"
        using assms(2) True None p by (auto simp: worker_for_def Let_def simp flip: ws_def ws'_def)
      have none: "hm_get ws' k = None" if "fst k = ro_database_id route" for k
        using sub' [of k] that by (cases "hm_get ws' k") auto
      have uniq: "k = k'" if "k = ?key \<or> hm_get ws' k \<noteq> None" "k' = ?key \<or> hm_get ws' k' \<noteq> None" "fst k = fst k'" for k k'
        using that none ws'(1) unfolding workers_ok_def by (simp del: split_paired_All) (metis fst_conv)
      have old: "we_process e < length (rt_processes st)
          \<and> target (wp_route (rt_processes st ! we_process e)) = (fst k, ex_node_id cfg, snd k)"
        if "hm_get ws' k = Some e" for k e
        using ws'(1) that unfolding workers_ok_def by (simp del: split_paired_All)
      have get: "hm_get (rt_workers st') k = (if k = ?key
          then Some \<lparr>we_process = length (rt_processes st), we_last_used = now\<rparr> else hm_get ws' k)" for k
        using st' by (simp add: hm_get_insert)
      have pool: "hm_wf (rt_workers st')" "length (rt_workers st') \<le> ex_max_workers cfg"
          "rt_processes st' = rt_processes st @ [p]"
        using st' ws'(2) none [of ?key] p(1) by (simp_all add: hm_wf_insert hm_length_insert)
      have "k = k'" if "hm_get (rt_workers st') k \<noteq> None" "hm_get (rt_workers st') k' \<noteq> None" "fst k = fst k'" for k k'
        using that uniq [of k k'] by (simp only: get split: if_split_asm) simp_all
      moreover have "we_process e < length (rt_processes st')
          \<and> target (wp_route (rt_processes st' ! we_process e)) = (fst k, ex_node_id cfg, snd k)"
        if "hm_get (rt_workers st') k = Some e" for k e
      proof (cases "k = ?key")
        case key: True
        then have "e = \<lparr>we_process = length (rt_processes st), we_last_used = now\<rparr>" using that by (simp only: get) simp
        then show ?thesis using pool(3) key route True by (simp add: target_def)
      next
        case False
        then have "hm_get ws' k = Some e" using that by (simp only: get) simp
        then show ?thesis using old [of k e] pool(3) by (simp add: nth_append)
      qed
      ultimately have "workers_ok cfg st'" unfolding workers_ok_def using pool(1,2) by blast
      then show ?thesis using st' route by auto
    qed
  qed
qed

lemma tasks_ok_grow:
  assumes "tasks_ok st" and "rt_tasks st' = rt_tasks st" and "\<exists>ps. rt_processes st' = rt_processes st @ ps"
  shows "tasks_ok st'"
  using assms unfolding tasks_ok_def by (fastforce simp: nth_append)

lemma pool_ok_arrive: "pool_ok cfg st \<Longrightarrow> pool_ok cfg (arrive route rq st)"
  by (auto simp: pool_ok_def arrive_def workers_ok_def tasks_ok_def permits_ok_def unfinished_def holds_def)

lemma phase_of_Some: "phase_of st i = Some ph \<longleftrightarrow> i < length (rt_tasks st) \<and> ta_phase (rt_tasks st ! i) = ph"
  by (simp add: phase_of_def)

lemma pool_ok_assign:
  assumes "pool_ok cfg st" and "phase_of st i = Some Queued"
  shows "pool_ok cfg (assign env cfg now now_ms i st)"
proof -
  let ?t = "rt_tasks st ! i"
  have i: "i < length (rt_tasks st)" "unfinished ?t" using assms(2) by (simp_all add: phase_of_Some unfinished_def)
  obtain r st1 where wf: "worker_for env cfg now (ta_route ?t) st = (r, st1)" by force
  have st1: "workers_ok cfg st1" "rt_tasks st1 = rt_tasks st" "rt_permits st1 = rt_permits st"
      "\<exists>ps. rt_processes st1 = rt_processes st @ ps"
      "\<And>p. r = Ok p \<Longrightarrow> p < length (rt_processes st1) \<and> target (wp_route (rt_processes st1 ! p)) = target (ta_route ?t)"
    using worker_for_ok [OF _ wf] assms(1) by (auto simp: pool_ok_def)
  have ok1: "pool_ok cfg st1" "i < length (rt_tasks st1)" "unfinished (rt_tasks st1 ! i)"
    using st1 assms(1) i tasks_ok_grow [of st st1] by (auto simp: pool_ok_def permits_ok_def)
  have fin: "pool_ok cfg (finish i x st1)" for x
    using ok1 permits_ok_finish [of cfg st1 i "finish i x st1" x] tasks_ok_set_phase [of st1 i "finish i x st1" "Finished x"]
      workers_ok_cong [of cfg st1 "finish i x st1"] by (simp add: pool_ok_def holds_def)
  have go: "pool_ok cfg (set_phase i (Assigned p) st1)" if "r = Ok p" for p
    using ok1 st1(2) st1(5) [OF that] permits_ok_move [of cfg st1 i "set_phase i (Assigned p) st1" "Assigned p"]
      tasks_ok_set_phase [of st1 i "set_phase i (Assigned p) st1" "Assigned p"]
      workers_ok_cong [of cfg st1 "set_phase i (Assigned p) st1"] by (auto simp: pool_ok_def holds_def)
  show ?thesis using wf fin go by (auto simp: assign_def Let_def split: sum.split)
qed

lemma same_routes: "wp_route w = wp_route (ps ! p) \<Longrightarrow> map wp_route (ps[p := w]) = map wp_route ps"
  by (cases "p < length ps") (auto simp: nth_list_update intro!: nth_equalityI)

lemma serve_frame_same [simp]:
  "wp_route (serve_frame env p) = wp_route p" "wp_holder (serve_frame env p) = wp_holder p"
  by (simp_all add: serve_frame_def Let_def split: read_outcome.split option.split prod.split)

lemma exchange_send_Ok:
  "exchange_send env rq p = Ok w \<Longrightarrow> \<exists>payload. re_encode_request env rq = Some payload \<and> payload \<noteq> []
     \<and> length payload \<le> MAX_WORKER_FRAME_BYTES \<and> \<not> wp_exited p \<and> w = p\<lparr>wp_stdin := wp_stdin p @ frame payload\<rparr>"
  by (auto simp: exchange_send_def bindr_eq_Ok ok_or_eq_Ok split: if_split_asm)

lemma exchange_receive_route: "exchange_receive env p = Some (r, w) \<Longrightarrow> wp_route w = wp_route p"
  by (auto simp: exchange_receive_def split: read_outcome.split_asm if_split_asm)

lemma pool_ok_send:
  assumes "pool_ok cfg st" and "phase_of st i = Some (Assigned p)"
  shows "pool_ok cfg (send env i p st)"
proof (cases "exchange_send env (ta_request (rt_tasks st ! i)) (rt_processes st ! p)")
  case (Inl e)
  then show ?thesis
    using assms pool_ok_conclude [OF assms(1), of i st] by (simp add: send_def phase_of_Some unfinished_def)
next
  case (Inr w)
  let ?st = "send env i p st"
  have w: "wp_route w = wp_route (rt_processes st ! p)" using exchange_send_Ok [OF Inr] by auto
  have i: "i < length (rt_tasks st)" "unfinished (rt_tasks st ! i)" "rt_tasks st ! i \<in> set (rt_tasks st)"
    "holds p (ta_phase (rt_tasks st ! i))"
    using assms(2) by (simp_all add: phase_of_Some unfinished_def holds_def)
  have routes: "map wp_route (rt_processes ?st) = map wp_route (rt_processes st)"
    using Inr w same_routes [of "w\<lparr>wp_holder := Some i\<rparr>" "rt_processes st" p] by (simp add: send_def)
  have p: "p < length (rt_processes st) \<and> target (wp_route (rt_processes st ! p)) = target (ta_route (rt_tasks st ! i))"
    using assms(1) i unfolding pool_ok_def tasks_ok_def by blast
  have "workers_ok cfg ?st" "tasks_ok ?st" "permits_ok cfg ?st"
    using assms(1) i routes p workers_ok_cong [of cfg st ?st] permits_ok_move [of cfg st i ?st "Exchanging p"]
      tasks_ok_set_phase [of st i ?st "Exchanging p"] Inr
    by (auto simp: pool_ok_def send_def tasks_set_phase holds_def)
  then show ?thesis by (simp add: pool_ok_def)
qed

lemma pool_ok_step:
  assumes "router_step env cfg l st = Some st'" and "pool_ok cfg st"
  shows "pool_ok cfg st'"
proof (cases l)
  case (Arrive route rq)
  then show ?thesis using assms pool_ok_arrive by auto
next
  case (Assign i now now_ms)
  then show ?thesis using assms pool_ok_assign by (auto split: option.split_asm phase.split_asm)
next
  case (Send i)
  then show ?thesis using assms pool_ok_send by (auto split: option.split_asm phase.split_asm if_split_asm)
next
  case (Serve p)
  let ?st = "set_process p (serve_frame env (rt_processes st ! p)) st"
  have "map wp_route (rt_processes ?st) = map wp_route (rt_processes st)" by (simp add: same_routes)
  then have "workers_ok cfg ?st" "tasks_ok ?st" "permits_ok cfg ?st"
    using assms(2) workers_ok_cong [of cfg st ?st]
    unfolding pool_ok_def tasks_ok_def permits_ok_def by (auto dest: map_eq_imp_length_eq) (metis length_map nth_map)+
  then show ?thesis using assms(1) Serve by (auto simp: pool_ok_def split: if_split_asm)
next
  case (Evict d g)
  then show ?thesis
    using assms workers_ok_evict [of cfg st d g] by (auto simp: pool_ok_def tasks_ok_def permits_ok_def)
next
  case (Receive i)
  then obtain p r w where p: "phase_of st i = Some (Exchanging p)" "exchange_receive env (rt_processes st ! p) = Some (r, w)"
      "st' = conclude i r (set_process p (w\<lparr>wp_holder := None\<rparr>) st)"
    using assms(1) by (auto simp: receive_def split: option.split_asm phase.split_asm)
  then show ?thesis
    using assms(2) exchange_receive_route [OF p(2)]
    by (auto simp: phase_of_Some unfinished_def same_routes intro!: pool_ok_conclude [OF assms(2)])
next
  case (Timeout i)
  then show ?thesis
    using assms by (auto simp: phase_of_Some unfinished_def split: option.split_asm phase.split_asm intro!: pool_ok_conclude [OF assms(2)])
next
  case (Cut_Send i k)
  then show ?thesis
    using assms by (auto simp: cut_send_def Let_def phase_of_Some unfinished_def same_routes
        split: option.split_asm phase.split_asm if_split_asm intro!: pool_ok_conclude [OF assms(2)])
next
  case (Cut_Receive i k)
  then show ?thesis
    using assms by (auto simp: cut_receive_def Let_def phase_of_Some unfinished_def same_routes
        split: option.split_asm phase.split_asm if_split_asm intro!: pool_ok_conclude [OF assms(2)])
qed

lemma executor_new_ok: "executor_new cfg = Ok st \<Longrightarrow> pool_ok cfg st"
  by (auto simp: executor_new_def pool_ok_def workers_ok_def tasks_ok_def permits_ok_def split: if_split_asm)

interpretation router: transition_system "\<lambda>st. executor_new cfg = Ok st" "\<lambda>s t. \<exists>l. router_step env cfg l s = Some t"
    "pool_ok cfg" for env cfg
  by unfold_locales (auto intro: executor_new_ok pool_ok_step)

lemma router_run_steps:
  "router_run env cfg ls s = Some t \<Longrightarrow> (\<lambda>s t. \<exists>l. router_step env cfg l s = Some t)\<^sup>*\<^sup>* s t"
proof (induction ls arbitrary: s)
  case (Cons l ls)
  then obtain u where "router_step env cfg l s = Some u" "router_run env cfg ls u = Some t"
    by (auto split: option.split_asm)
  then show ?case using Cons.IH by (auto intro: converse_rtranclp_into_rtranclp)
qed simp

text \<open>
  The worker pool stays within its bounds. Over every interleaving of requests, worker processes,
  timeouts and evictions: there are at most the configured number of workers, and one generation of a
  database; the requests that run are as many as permits are taken, at most the queue's capacity; and a
  request that has been given a process was given one of its own database, node and generation.
\<close>

theorem worker_pool_is_bounded:
  assumes "executor_new cfg = Ok s" and "router_run env cfg ls s = Some t"
  shows "length (rt_workers t) \<le> ex_max_workers cfg
    \<and> (\<forall>k k'. hm_get (rt_workers t) k \<noteq> None \<longrightarrow> hm_get (rt_workers t) k' \<noteq> None \<longrightarrow> fst k = fst k' \<longrightarrow> k = k')
    \<and> length (filter unfinished (rt_tasks t)) = ps_execution_slots_in_use (snapshot_pool cfg t)
    \<and> length (filter unfinished (rt_tasks t)) \<le> ex_queue_capacity cfg
    \<and> (\<forall>i p. phase_of t i = Some (Assigned p) \<or> phase_of t i = Some (Exchanging p) \<longrightarrow>
         p < length (rt_processes t) \<and> target (wp_route (rt_processes t ! p)) = target (ta_route (rt_tasks t ! i)))"
proof -
  have ok: "pool_ok cfg t" using router.reachable_inv [OF assms(1) router_run_steps [OF assms(2)]] .
  then have "workers_ok cfg t" "tasks_ok t" "permits_ok cfg t" by (simp_all add: pool_ok_def)
  then show ?thesis
    by (auto simp: workers_ok_def tasks_ok_def permits_ok_def phase_of_Some snapshot_pool_def holds_def simp del: split_paired_All)
qed

section \<open>Answers\<close>

text \<open>What JSON promises: what was written is read back.\<close>

definition codec_ok :: "('q, 'a, 'w) router_env \<Rightarrow> bool" where
  "codec_ok env \<longleftrightarrow>
     (\<forall>x s. re_encode_request env x = Some s \<longrightarrow> re_decode_request env s = Some x)
     \<and> (\<forall>x s. re_encode_response env x = Some s \<longrightarrow> re_decode_response env s = Some x)"

text \<open>The answer of a process of the route's target to this request, in some state of the process.\<close>

definition own_answer ::
    "('q, 'a, 'w) router_env \<Rightarrow> database_route \<Rightarrow> 'q worker_request \<Rightarrow> execution_error + 'a \<Rightarrow> bool" where
  "own_answer env route rq r \<longleftrightarrow>
     (\<exists>route' w w' x. target route' = target route \<and> re_handle env route' w rq = (x, w')
        \<and> r = wire_result (wire_of x (wq_request_id rq)))"

definition is_answer :: "execution_error + 'a \<Rightarrow> bool" where
  "is_answer r = (case r of Inr _ \<Rightarrow> True | Inl (Exec_Rejected _) \<Rightarrow> True | _ \<Rightarrow> False)"

text \<open>A process with no exchange has empty pipes; one with an exchange holds its request or its answer.\<close>

definition pipes_ok :: "('q, 'a, 'w) router_env \<Rightarrow> ('q, 'a) task list \<Rightarrow> nat \<Rightarrow> 'w worker_process \<Rightarrow> bool" where
  "pipes_ok env ts p w \<longleftrightarrow>
     (case wp_holder w of
        None \<Rightarrow> wp_exited w \<or> wp_stdin w = [] \<and> wp_stdout w = []
      | Some i \<Rightarrow> i < length ts \<and> ta_phase (ts ! i) = Exchanging p
          \<and> (wp_exited w \<and> wp_stdout w = []
            \<or> (\<exists>payload. re_encode_request env (ta_request (ts ! i)) = Some payload \<and> payload \<noteq> []
                \<and> length payload \<le> MAX_WORKER_FRAME_BYTES \<and> wp_stdin w = frame payload \<and> wp_stdout w = [])
            \<or> (\<exists>x payload. own_answer env (wp_route w) (ta_request (ts ! i)) (wire_result x)
                \<and> re_encode_response env x = Some payload \<and> length payload \<le> MAX_WORKER_FRAME_BYTES
                \<and> wp_stdin w = [] \<and> wp_stdout w = frame payload)))"

definition exchange_ok :: "('q, 'a, 'w) router_env \<Rightarrow> ('q, 'a, 'w) router_state \<Rightarrow> bool" where
  "exchange_ok env st \<longleftrightarrow>
     (\<forall>p < length (rt_processes st). pipes_ok env (rt_tasks st) p (rt_processes st ! p))
     \<and> (\<forall>i p. phase_of st i = Some (Exchanging p) \<longrightarrow> wp_holder (rt_processes st ! p) = Some i)
     \<and> (\<forall>i r. phase_of st i = Some (Finished r) \<longrightarrow> is_answer r
          \<longrightarrow> own_answer env (ta_route (rt_tasks st ! i)) (ta_request (rt_tasks st ! i)) r)"

fun uncut :: "'q label \<Rightarrow> bool" where
  "uncut (Cut_Send _ _) = False"
| "uncut (Cut_Receive _ _) = False"
| "uncut _ = True"

lemma pipes_ok_tasks:
  assumes "pipes_ok env ts p w"
    and "\<And>i. wp_holder w = Some i \<Longrightarrow> i < length ts \<Longrightarrow> ta_phase (ts ! i) = Exchanging p \<Longrightarrow> i < length ts' \<and> ts' ! i = ts ! i"
  shows "pipes_ok env ts' p w"
proof (cases "wp_holder w")
  case None
  then show ?thesis using assms(1) by (simp add: pipes_ok_def)
next
  case (Some i)
  then have "i < length ts'" "ts' ! i = ts ! i" using assms by (auto simp: pipes_ok_def)
  then show ?thesis using assms(1) Some by (simp add: pipes_ok_def)
qed

definition quiet :: "'a phase \<Rightarrow> bool" where
  "quiet ph = (case ph of Exchanging _ \<Rightarrow> False | Finished r \<Rightarrow> \<not> is_answer r | _ \<Rightarrow> True)"

text \<open>A task that is not exchanging moves to a phase without an answer; processes may have been added.\<close>

lemma exchange_ok_quiet:
  assumes "exchange_ok env st" and "i < length (rt_tasks st)" and "\<And>p. ta_phase (rt_tasks st ! i) \<noteq> Exchanging p"
    and "quiet ph" and "rt_tasks st' = rt_tasks (set_phase i ph st)"
    and "\<And>p. p < length (rt_processes st') \<Longrightarrow> p < length (rt_processes st) \<and> rt_processes st' ! p = rt_processes st ! p
      \<or> pipes_ok env [] p (rt_processes st' ! p) \<and> p \<ge> length (rt_processes st)"
    and "\<And>p. p < length (rt_processes st) \<Longrightarrow> rt_processes st' ! p = rt_processes st ! p"
    and "\<And>j p. phase_of st j = Some (Exchanging p) \<Longrightarrow> p < length (rt_processes st)"
  shows "exchange_ok env st'"
proof -
  let ?ts = "(rt_tasks st)[i := (rt_tasks st ! i)\<lparr>ta_phase := ph\<rparr>]"
  have ts: "rt_tasks st' = ?ts" by (simp add: assms(5) tasks_set_phase)
  have ph: "phase_of st' j = (if j = i then Some ph else phase_of st j)" for j
    using assms(2) by (simp add: phase_of_def ts nth_list_update)
  have task: "ta_route (rt_tasks st' ! j) = ta_route (rt_tasks st ! j)" "ta_request (rt_tasks st' ! j) = ta_request (rt_tasks st ! j)" for j
    using assms(2) by (simp_all add: ts nth_list_update)
  have "pipes_ok env ?ts p (rt_processes st' ! p)" if p: "p < length (rt_processes st')" for p
    using assms(6) [OF p]
  proof
    assume old: "p < length (rt_processes st) \<and> rt_processes st' ! p = rt_processes st ! p"
    then have "pipes_ok env (rt_tasks st) p (rt_processes st' ! p)" using assms(1) by (simp add: exchange_ok_def)
    then show ?thesis by (rule pipes_ok_tasks) (metis assms(3) length_list_update nth_list_update_neq)
  next
    assume new: "pipes_ok env [] p (rt_processes st' ! p) \<and> p \<ge> length (rt_processes st)"
    then show ?thesis by (auto intro: pipes_ok_tasks)
  qed
  moreover have "wp_holder (rt_processes st' ! p) = Some j" if "phase_of st' j = Some (Exchanging p)" for j p
  proof -
    have j: "phase_of st j = Some (Exchanging p)" using that ph [of j] assms(4) by (auto simp: quiet_def split: if_split_asm)
    then show ?thesis using assms(1,7,8) by (simp add: exchange_ok_def)
  qed
  moreover have "own_answer env (ta_route (rt_tasks st' ! j)) (ta_request (rt_tasks st' ! j)) r"
    if "phase_of st' j = Some (Finished r)" "is_answer r" for j r
  proof -
    have "phase_of st j = Some (Finished r)" using that ph [of j] assms(4) by (auto simp: quiet_def split: if_split_asm)
    then show ?thesis using assms(1) that(2) by (simp add: exchange_ok_def task)
  qed
  ultimately show ?thesis by (simp add: exchange_ok_def ts)
qed

lemma exchanging_process: "pool_ok cfg st \<Longrightarrow> phase_of st j = Some (Exchanging p) \<Longrightarrow> p < length (rt_processes st)
    \<and> target (wp_route (rt_processes st ! p)) = target (ta_route (rt_tasks st ! j))"
  unfolding pool_ok_def tasks_ok_def phase_of_Some by (metis holds_def nth_mem)

lemma exchange_ok_arrive:
  assumes "exchange_ok env st"
  shows "exchange_ok env (arrive route rq st)"
proof -
  obtain t where t: "rt_tasks (arrive route rq st) = rt_tasks st @ [t]" "quiet (ta_phase t)"
      "rt_processes (arrive route rq st) = rt_processes st"
    by (cases "wq_route rq = route"; cases "rt_permits st = 0") (auto simp: arrive_def quiet_def is_answer_def)
  have ph: "phase_of (arrive route rq st) j = Some x \<longleftrightarrow> phase_of st j = Some x \<or> j = length (rt_tasks st) \<and> ta_phase t = x" for j x
    by (auto simp: phase_of_def t(1) nth_append)
  have "pipes_ok env (rt_tasks st @ [t]) p (rt_processes st ! p)" if "p < length (rt_processes st)" for p
    using assms that by (auto simp: exchange_ok_def nth_append intro: pipes_ok_tasks)
  then show ?thesis
    using assms t(2) unfolding exchange_ok_def t(1,3) ph
    by (auto simp: quiet_def nth_append phase_of_Some)
qed

lemma worker_for_quiet:
  assumes "worker_for env cfg now route st = (r, st')"
  shows "(\<forall>e. r = Err e \<longrightarrow> \<not> is_answer (Err e :: execution_error + 'a))
    \<and> (rt_processes st' = rt_processes st \<or> (\<exists>p. rt_processes st' = rt_processes st @ [p] \<and> pipes_ok env [] (length (rt_processes st)) p))"
  using assms
  by (auto simp: worker_for_def Let_def spawn_def is_answer_def pipes_ok_def ok_or_def bindr_def
      split: if_split_asm option.split_asm sum.split_asm)

lemma remaining_ms_quiet: "remaining_ms n d = Err e \<Longrightarrow> \<not> is_answer (Err e :: execution_error + 'a)"
  by (auto simp: remaining_ms_def is_answer_def bindr_def ok_or_def split: if_split_asm option.split_asm)

lemma exchange_ok_assign:
  fixes st :: "('q, 'b, 'w) router_state"
  assumes "exchange_ok env st" and "pool_ok cfg st" and "phase_of st i = Some Queued"
  shows "exchange_ok env (assign env cfg now now_ms i st)"
proof -
  let ?t = "rt_tasks st ! i"
  have i: "i < length (rt_tasks st)" "\<And>p. ta_phase ?t \<noteq> Exchanging p" using assms(3) by (simp_all add: phase_of_Some)
  obtain r st1 where wf: "worker_for env cfg now (ta_route ?t) st = (r, st1)" by force
  have tasks: "rt_tasks st1 = rt_tasks st" using worker_for_ok [OF _ wf] assms(2) by (simp add: pool_ok_def)
  note q = worker_for_quiet [OF wf]
  have go: "exchange_ok env st'" if "quiet ph" "rt_tasks st' = rt_tasks (set_phase i ph st1)" "rt_processes st' = rt_processes st1" for st' ph
  proof (rule exchange_ok_quiet [OF assms(1) i that(1)])
    show "rt_tasks st' = rt_tasks (set_phase i ph st)" using that(2) tasks by (simp add: tasks_set_phase)
  next
    fix p assume "p < length (rt_processes st')"
    then show "p < length (rt_processes st) \<and> rt_processes st' ! p = rt_processes st ! p
      \<or> pipes_ok env [] p (rt_processes st' ! p) \<and> p \<ge> length (rt_processes st)"
      using q that(3) by (auto simp: nth_append less_Suc_eq)
  next
    fix p assume "p < length (rt_processes st)"
    then show "rt_processes st' ! p = rt_processes st ! p" using q that(3) by (auto simp: nth_append)
  qed (use exchanging_process [OF assms(2)] in blast)
  have "exchange_ok env (finish i (Err e) st1)" if "\<not> is_answer (Err e :: execution_error + 'b)" for e
    using that by (intro go [of "Finished (Err e)"]) (simp_all add: quiet_def)
  moreover have "exchange_ok env (set_phase i (Assigned p) st1)" for p
    by (rule go [of "Assigned p"]) (simp_all add: quiet_def)
  moreover have "remaining_ms n d = Err e \<Longrightarrow> \<not> is_answer (Err e :: execution_error + 'b)" for n d e
    by (rule remaining_ms_quiet)
  ultimately show ?thesis using wf q by (auto simp: assign_def Let_def split: sum.split)
qed

lemma exchange_ok_conclude_quiet:
  assumes "exchange_ok env st" and "pool_ok cfg st" and "phase_of st i = Some (Assigned p)" and "\<not> is_answer r"
  shows "exchange_ok env (conclude i r st)"
proof (rule exchange_ok_quiet [OF assms(1), where i = i and ph = "Finished r"])
  fix j p
  assume "phase_of st j = Some (Exchanging p)"
  then show "p < length (rt_processes st)" using exchanging_process [OF assms(2)] by blast
qed (use assms in \<open>auto simp: phase_of_Some quiet_def\<close>)

text \<open>One process and the task it works for change together.\<close>

lemma exchange_ok_process:
  assumes "exchange_ok env st" and "i < length (rt_tasks st)" and "p < length (rt_processes st)"
    and "rt_tasks st' = rt_tasks (set_phase i ph st)" and "rt_processes st' = (rt_processes st)[p := w]"
    and "\<And>j. wp_holder (rt_processes st ! p) = Some j \<Longrightarrow> j = i" and "\<And>q. ta_phase (rt_tasks st ! i) = Exchanging q \<Longrightarrow> q = p"
    and "pipes_ok env (rt_tasks st') p w"
    and "ph = Exchanging p \<and> wp_holder w = Some i \<or> (\<exists>r. ph = Finished r
      \<and> (is_answer r \<longrightarrow> own_answer env (ta_route (rt_tasks st ! i)) (ta_request (rt_tasks st ! i)) r))"
  shows "exchange_ok env st'"
proof -
  let ?ts = "(rt_tasks st)[i := (rt_tasks st ! i)\<lparr>ta_phase := ph\<rparr>]"
  have ts: "rt_tasks st' = ?ts" by (simp add: assms(4) tasks_set_phase)
  have ph: "phase_of st' j = (if j = i then Some ph else phase_of st j)" for j
    using assms(2) by (simp add: phase_of_def ts nth_list_update)
  have task: "ta_route (rt_tasks st' ! j) = ta_route (rt_tasks st ! j)" "ta_request (rt_tasks st' ! j) = ta_request (rt_tasks st ! j)" for j
    using assms(2) by (simp_all add: ts nth_list_update)
  have ex: "wp_holder (rt_processes st ! q) = Some j" if "phase_of st j = Some (Exchanging q)" for j q
    using assms(1) that by (simp add: exchange_ok_def)
  have "pipes_ok env (rt_tasks st') q (rt_processes st' ! q)" if "q < length (rt_processes st')" for q
  proof (cases "q = p")
    case True
    then show ?thesis using assms(3,5,8) by simp
  next
    case False
    then have "pipes_ok env (rt_tasks st) q (rt_processes st' ! q)" using assms(1,5) that by (simp add: exchange_ok_def)
    then show ?thesis
    proof (rule pipes_ok_tasks)
      fix j
      assume "j < length (rt_tasks st)" "ta_phase (rt_tasks st ! j) = Exchanging q"
      then show "j < length (rt_tasks st') \<and> rt_tasks st' ! j = rt_tasks st ! j"
        using False assms(7) unfolding ts by (metis length_list_update nth_list_update_neq)
    qed
  qed
  moreover have "wp_holder (rt_processes st' ! q) = Some j" if "phase_of st' j = Some (Exchanging q)" for j q
  proof (cases "j = i")
    case True
    then show ?thesis using that ph [of j] assms(3,5,9) by auto
  next
    case False
    then have j: "wp_holder (rt_processes st ! q) = Some j" using that ph [of j] ex by simp
    then have "q \<noteq> p" using False assms(6) by auto
    then show ?thesis using j assms(5) by simp
  qed
  moreover have "own_answer env (ta_route (rt_tasks st' ! j)) (ta_request (rt_tasks st' ! j)) r"
    if "phase_of st' j = Some (Finished r)" "is_answer r" for j r
    using that ph [of j] assms(1,9) by (auto simp: exchange_ok_def task split: if_split_asm)
  ultimately show ?thesis by (simp add: exchange_ok_def)
qed

lemma exchange_ok_send:
  assumes "exchange_ok env st" and "pool_ok cfg st" and "phase_of st i = Some (Assigned p)"
    and "wp_holder (rt_processes st ! p) = None"
  shows "exchange_ok env (send env i p st)"
proof (cases "exchange_send env (ta_request (rt_tasks st ! i)) (rt_processes st ! p)")
  case (Inl e)
  then have "\<not> is_answer (Err e :: execution_error + 'b)"
    by (auto simp: exchange_send_def is_answer_def bindr_def ok_or_def split: option.split_asm if_split_asm)
  then show ?thesis using Inl exchange_ok_conclude_quiet [OF assms(1-3)] by (simp add: send_def)
next
  case (Inr w)
  obtain payload where w: "re_encode_request env (ta_request (rt_tasks st ! i)) = Some payload" "payload \<noteq> []"
      "length payload \<le> MAX_WORKER_FRAME_BYTES" "\<not> wp_exited (rt_processes st ! p)"
      "w = (rt_processes st ! p)\<lparr>wp_stdin := wp_stdin (rt_processes st ! p) @ frame payload\<rparr>"
    using exchange_send_Ok [OF Inr] by blast
  have i: "i < length (rt_tasks st)" "ta_phase (rt_tasks st ! i) = Assigned p" using assms(3) by (simp_all add: phase_of_Some)
  have p: "p < length (rt_processes st)"
    using assms(2) i unfolding pool_ok_def tasks_ok_def by (metis holds_def nth_mem)
  have empty: "wp_stdin (rt_processes st ! p) = []" "wp_stdout (rt_processes st ! p) = []"
    using assms(1,4) p w(4) by (auto simp: exchange_ok_def pipes_ok_def)
  show ?thesis
    by (rule exchange_ok_process [OF assms(1) i(1) p, where ph = "Exchanging p" and w = "w\<lparr>wp_holder := Some i\<rparr>"])
      (use Inr i p w empty assms(4) in \<open>auto simp: send_def tasks_set_phase pipes_ok_def\<close>)
qed

lemma exchange_ok_serve:
  assumes "codec_ok env" and "exchange_ok env st" and "p < length (rt_processes st)" and "\<not> wp_exited (rt_processes st ! p)"
  shows "exchange_ok env (set_process p (serve_frame env (rt_processes st ! p)) st)"
proof -
  let ?w = "rt_processes st ! p"
  have old: "pipes_ok env (rt_tasks st) p ?w" using assms(2,3) by (simp add: exchange_ok_def)
  have "pipes_ok env (rt_tasks st) p (serve_frame env ?w)"
  proof (cases "wp_stdin ?w = []")
    case True
    then show ?thesis using old by (simp add: serve_frame_def)
  next
    case False
    then obtain i payload where i: "wp_holder ?w = Some i" "i < length (rt_tasks st)" "ta_phase (rt_tasks st ! i) = Exchanging p"
        "re_encode_request env (ta_request (rt_tasks st ! i)) = Some payload" "payload \<noteq> []"
        "length payload \<le> MAX_WORKER_FRAME_BYTES" "wp_stdin ?w = frame payload" "wp_stdout ?w = []"
      using old assms(4) by (auto simp: pipes_ok_def split: option.split_asm)
    have rd: "read_frame (wp_stdin ?w) = Read_Frame payload []"
      using read_frame_frame [OF i(5,6), of "[]"] i(7) by simp
    have dec: "re_decode_request env payload = Some (ta_request (rt_tasks st ! i))"
      using assms(1) i(4) by (simp add: codec_ok_def)
    obtain x w' where h: "re_handle env (wp_route ?w) (wp_state ?w) (ta_request (rt_tasks st ! i)) = (x, w')" by force
    let ?x = "wire_of x (wq_request_id (ta_request (rt_tasks st ! i)))"
    have own: "own_answer env (wp_route ?w) (ta_request (rt_tasks st ! i)) (wire_result ?x)"
      using h unfolding own_answer_def by blast
    show ?thesis
    proof (cases "re_encode_response env ?x")
      case None
      then show ?thesis using i rd dec h by (auto simp: serve_frame_def pipes_ok_def Let_def)
    next
      case (Some pl)
      then show ?thesis using i rd dec h own by (auto simp: serve_frame_def pipes_ok_def Let_def)
    qed
  qed
  then show ?thesis
    using assms(2,3) by (auto simp: exchange_ok_def phase_of_def nth_list_update)
qed

lemma exchange_ok_receive:
  assumes "codec_ok env" and "exchange_ok env st" and "pool_ok cfg st" and "phase_of st i = Some (Exchanging p)"
    and "receive env i p st = Some st'"
  shows "exchange_ok env st'"
proof -
  let ?w = "rt_processes st ! p"
  obtain r w where r: "exchange_receive env ?w = Some (r, w)" "st' = conclude i r (set_process p (w\<lparr>wp_holder := None\<rparr>) st)"
    using assms(5) by (auto simp: receive_def)
  have i: "i < length (rt_tasks st)" "ta_phase (rt_tasks st ! i) = Exchanging p" "wp_holder ?w = Some i"
    using assms(2,4) by (auto simp: phase_of_Some exchange_ok_def)
  have p: "p < length (rt_processes st)" "target (wp_route ?w) = target (ta_route (rt_tasks st ! i))"
    using exchanging_process [OF assms(3,4)] by simp_all
  have old: "pipes_ok env (rt_tasks st) p ?w" using assms(2) p(1) by (simp add: exchange_ok_def)
  have new: "(wp_exited w \<or> wp_stdin w = [] \<and> wp_stdout w = []) \<and>
      (is_answer r \<longrightarrow> own_answer env (ta_route (rt_tasks st ! i)) (ta_request (rt_tasks st ! i)) r)"
  proof (cases "wp_stdout ?w = []")
    case True
    then show ?thesis using r(1) by (auto simp: exchange_receive_def is_answer_def split: if_split_asm)
  next
    case False
    then obtain x payload where x: "own_answer env (wp_route ?w) (ta_request (rt_tasks st ! i)) (wire_result x)"
        "re_encode_response env x = Some payload" "length payload \<le> MAX_WORKER_FRAME_BYTES"
        "wp_stdin ?w = []" "wp_stdout ?w = frame payload"
      using old i(3) by (auto simp: pipes_ok_def)
    show ?thesis
    proof (cases "payload = []")
      case True
      have "read_frame (frame []) = Read_Invalid" by (simp add: read_frame_def frame_def from_be32_be32)
      then show ?thesis using r(1) x(4,5) True by (auto simp: exchange_receive_def is_answer_def frame_def)
    next
      case False
      have "read_frame (wp_stdout ?w) = Read_Frame payload []"
        using read_frame_frame [OF False x(3), of "[]"] x(5) by simp
      moreover have "re_decode_response env payload = Some x" using assms(1) x(2) by (simp add: codec_ok_def)
      ultimately have "r = wire_result x" "w = ?w\<lparr>wp_stdout := []\<rparr>" using r(1) by (auto simp: exchange_receive_def)
      then show ?thesis using x(1,4) p(2) by (auto simp: own_answer_def)
    qed
  qed
  show ?thesis
    by (rule exchange_ok_process [OF assms(2) i(1) p(1), where ph = "Finished r" and w = "w\<lparr>wp_holder := None\<rparr>"])
      (use r(2) i p(1) new in \<open>auto simp: tasks_set_phase pipes_ok_def\<close>)
qed

lemma exchange_ok_step:
  assumes "codec_ok env" and "router_step env cfg l st = Some st'" and "uncut l" and "pool_ok cfg st" and "exchange_ok env st"
  shows "exchange_ok env st'"
proof (cases l)
  case (Arrive route rq)
  then show ?thesis using assms exchange_ok_arrive by auto
next
  case (Assign i now now_ms)
  then show ?thesis
    using assms exchange_ok_assign [OF assms(5,4)] by (auto split: option.split_asm phase.split_asm)
next
  case (Send i)
  then show ?thesis
    using assms exchange_ok_send [OF assms(5,4)] by (auto split: option.split_asm phase.split_asm if_split_asm)
next
  case (Serve p)
  then show ?thesis using assms exchange_ok_serve [OF assms(1,5)] by (auto split: if_split_asm)
next
  case (Receive i)
  then show ?thesis
    using assms exchange_ok_receive [OF assms(1,5,4)] by (auto split: option.split_asm phase.split_asm)
next
  case (Timeout i)
  then show ?thesis
    using assms exchange_ok_conclude_quiet [OF assms(5,4), of i _ "Err Exec_DeadlineExceeded"]
    by (auto simp: is_answer_def split: option.split_asm phase.split_asm)
next
  case (Evict d g)
  then show ?thesis using assms(2,5) by (auto simp: exchange_ok_def phase_of_def)
qed (use assms(3) in auto)

lemma executor_new_exchange: "executor_new cfg = Ok st \<Longrightarrow> exchange_ok env st"
  by (auto simp: executor_new_def exchange_ok_def phase_of_def split: if_split_asm)

interpretation uncut_router: transition_system "\<lambda>st. executor_new cfg = Ok st"
    "\<lambda>s t. \<exists>l. uncut l \<and> router_step env cfg l s = Some t"
    "\<lambda>st. pool_ok cfg st \<and> (codec_ok env \<longrightarrow> exchange_ok env st)" for env cfg
  by unfold_locales (auto intro: executor_new_ok executor_new_exchange pool_ok_step exchange_ok_step)

lemma uncut_run_steps:
  "router_run env cfg ls s = Some t \<Longrightarrow> list_all uncut ls
    \<Longrightarrow> (\<lambda>s t. \<exists>l. uncut l \<and> router_step env cfg l s = Some t)\<^sup>*\<^sup>* s t"
proof (induction ls arbitrary: s)
  case (Cons l ls)
  then obtain u where "router_step env cfg l s = Some u" "router_run env cfg ls u = Some t" "uncut l"
    by (auto split: option.split_asm)
  then show ?case using Cons by (auto intro: converse_rtranclp_into_rtranclp)
qed simp

text \<open>
  C35. An answer belongs to the request that receives it. Over every interleaving of arrivals,
  assignments, sends, served frames, receives, timeouts before the exchange and evictions, in which no
  exchange is cut off in the middle (by its timeout or by a caller that drops the call), every result that a request obtains from a worker is what a process of its own database, node and
  generation answered to this very request.
\<close>

theorem answers_belong_to_their_requests:
  assumes "codec_ok env" and "executor_new cfg = Ok s" and "router_run env cfg ls s = Some t" and "list_all uncut ls"
    and "i < length (rt_tasks t)" and "ta_phase (rt_tasks t ! i) = Finished r" and "is_answer r"
  shows "\<exists>route w w' x. target route = target (ta_route (rt_tasks t ! i))
    \<and> re_handle env route w (ta_request (rt_tasks t ! i)) = (x, w')
    \<and> r = wire_result (wire_of x (wq_request_id (ta_request (rt_tasks t ! i))))"
proof -
  have "exchange_ok env t"
    using uncut_router.reachable_inv [OF assms(2) uncut_run_steps [OF assms(3,4)]] assms(1) by blast
  then show ?thesis using assms(5-7) by (auto simp: exchange_ok_def phase_of_Some own_answer_def)
qed

section \<open>Witnesses, and what a cut exchange does\<close>

text \<open>A worker that answers with the operation it was sent; text is a list of numbers below 256.\<close>

definition text_of :: "nat list \<Rightarrow> string" where "text_of = map char_of"
definition numbers_of :: "string \<Rightarrow> nat list" where "numbers_of = map of_char"

definition demo_encode :: "nat worker_request \<Rightarrow> string option" where
  "demo_encode rq =
     (let r = wq_route rq;
          ns = [wq_protocol_version rq, wq_request_id rq, ro_project_id r, ro_database_id r, ro_node_id r, ro_generation r,
            nat (wq_deadline_epoch_ms rq), wq_operation rq]
      in if list_all (\<lambda>n. n < 256) ns \<and> wq_deadline_epoch_ms rq \<ge> 0 then Some (text_of ns) else None)"

definition demo_decode :: "string \<Rightarrow> nat worker_request option" where
  "demo_decode s =
     (case numbers_of s of
        [v, i, p, d, n, g, t, x] \<Rightarrow> Some \<lparr>wq_protocol_version = v, wq_request_id = i,
          wq_route = \<lparr>ro_project_id = p, ro_database_id = d, ro_node_id = n, ro_generation = g\<rparr>,
          wq_deadline_epoch_ms = int t, wq_operation = x\<rparr>
      | _ \<Rightarrow> None)"

definition demo_encode_answer :: "nat wire_response \<Rightarrow> string option" where
  "demo_encode_answer x = (case x of Wire_Ok n \<Rightarrow> if n < 256 then Some (text_of [n]) else None | Wire_Error e \<Rightarrow> None)"

definition demo_decode_answer :: "string \<Rightarrow> nat wire_response option" where
  "demo_decode_answer s = (case numbers_of s of [n] \<Rightarrow> Some (Wire_Ok n) | _ \<Rightarrow> None)"

definition demo_router :: "(nat, nat, nat) router_env" where
  "demo_router =
     \<lparr>re_encode_request = demo_encode, re_decode_request = demo_decode, re_encode_response = demo_encode_answer,
      re_decode_response = demo_decode_answer, re_handle = (\<lambda>_ w rq. (Ok (wq_operation rq), Suc w)), re_spawn = (\<lambda>_. Some 0)\<rparr>"

lemma demo_codec_ok: "codec_ok demo_router"
  by (auto simp: codec_ok_def demo_router_def demo_encode_def demo_decode_def demo_encode_answer_def demo_decode_answer_def
      text_of_def numbers_of_def Let_def split: if_split_asm wire_response.split_asm)

definition demo_executor :: executor_config where
  "demo_executor = \<lparr>ex_worker_binary = ''/opt/worker'', ex_database_root = ''/var/db'', ex_backup_root = ''/var/backup'',
     ex_node_id = 4, ex_max_workers = 2, ex_queue_capacity = 3\<rparr>"

definition demo_start :: "(nat, nat, nat) router_state" where
  "demo_start = \<lparr>rt_workers = [], rt_processes = [], rt_permits = 3, rt_tasks = []\<rparr>"

lemma demo_start_new: "executor_new demo_executor = Ok demo_start"
  by code_simp

definition demo_route :: "nat \<Rightarrow> database_route" where
  "demo_route g = \<lparr>ro_project_id = 1, ro_database_id = 2, ro_node_id = 4, ro_generation = g\<rparr>"

definition demo_worker_request :: "nat \<Rightarrow> nat \<Rightarrow> nat \<Rightarrow> nat worker_request" where
  "demo_worker_request g i x = \<lparr>wq_protocol_version = 1, wq_request_id = i, wq_route = demo_route g,
     wq_deadline_epoch_ms = 100, wq_operation = x\<rparr>"

definition demo_arrivals :: "nat label list" where
  "demo_arrivals = [Arrive (demo_route 1) (demo_worker_request 1 10 7), Arrive (demo_route 1) (demo_worker_request 1 11 8),
     Assign 0 5 (Some 50), Assign 1 5 (Some 50)]"

definition demo_uncut :: "nat label list" where
  "demo_uncut = demo_arrivals @ [Send 0, Serve 0, Receive 0, Send 1, Serve 0, Receive 1]"

definition demo_answered :: "(nat, nat, nat) router_state" where
  "demo_answered = the (router_run demo_router demo_executor demo_uncut demo_start)"

lemma demo_answered_run: "router_run demo_router demo_executor demo_uncut demo_start = Some demo_answered"
  by code_simp

lemma demo_answered_phases:
  "map ta_phase (rt_tasks demo_answered) = [Finished (Ok 7), Finished (Ok 8)] \<and> list_all uncut demo_uncut"
  by code_simp

theorem worker_pool_is_bounded_witness:
  "router_run demo_router demo_executor demo_uncut demo_start = Some demo_answered
   \<and> length (rt_workers demo_answered) \<le> 2 \<and> length (filter unfinished (rt_tasks demo_answered)) \<le> 3"
  using worker_pool_is_bounded [OF demo_start_new demo_answered_run] demo_answered_run by (simp add: demo_executor_def)

theorem answers_belong_to_their_requests_witness:
  "\<exists>route w w' x. target route = target (ta_route (rt_tasks demo_answered ! 1))
    \<and> re_handle demo_router route w (ta_request (rt_tasks demo_answered ! 1)) = (x, w')
    \<and> Ok 8 = wire_result (wire_of x (wq_request_id (ta_request (rt_tasks demo_answered ! 1))))"
proof -
  have n: "length (rt_tasks demo_answered) = 2"
    using demo_answered_phases by (metis length_Cons length_map list.size(3) numeral_2_eq_2)
  moreover have "ta_phase (rt_tasks demo_answered ! 1) = map ta_phase (rt_tasks demo_answered) ! 1" using n by simp
  then have "ta_phase (rt_tasks demo_answered ! 1) = Finished (Ok 8)" using demo_answered_phases by simp
  ultimately show ?thesis
    using answers_belong_to_their_requests [OF demo_codec_ok demo_start_new demo_answered_run _ _ _, of 1 "Ok 8"]
      demo_answered_phases by (simp add: is_answer_def)
qed

text \<open>
  When the first exchange is cut off while its answer is awaited, the second request, already waiting
  for the same process, is given the answer to the first.
\<close>

lemma cut_exchange_misdirects_an_answer:
  "(case router_run demo_router demo_executor (demo_arrivals @ [Send 0, Cut_Receive 0 0, Send 1, Serve 0, Receive 1]) demo_start of
      Some t \<Rightarrow> map ta_phase (rt_tasks t) = [Finished (Err Exec_DeadlineExceeded), Finished (Ok 7)]
        \<and> map (wq_operation \<circ> ta_request) (rt_tasks t) = [7, 8]
    | None \<Rightarrow> False)"
  by code_simp

text \<open>
  A request with an older route is not refused: it retires the worker of the newer generation and is
  answered by a process started for the older one.
\<close>

lemma older_generation_retires_newer_worker:
  "(case router_run demo_router demo_executor
        [Arrive (demo_route 2) (demo_worker_request 2 10 7), Assign 0 5 (Some 50), Send 0, Serve 0, Receive 0,
         Arrive (demo_route 1) (demo_worker_request 1 11 8), Assign 1 6 (Some 51), Send 1, Serve 1, Receive 1] demo_start of
      Some t \<Rightarrow> map ta_phase (rt_tasks t) = [Finished (Ok 7), Finished (Ok 8)] \<and> map fst (rt_workers t) = [(2, 1)]
    | None \<Rightarrow> False)"
  by code_simp

end
