(* ===== verification/Auth_Jwt.thy ===== *)
theory Auth_Jwt
  imports Auth_Tokens
begin

text \<open>
  \<open>crates/auth/src/jwt.rs\<close>: access tokens signed with the key of a project. Base64url, JSON text and
  Ed25519 are parameters (\<open>jwt_env\<close>). Sums and differences of times are those of \<open>i64\<close> in a release
  build, which wrap around.
\<close>

section \<open>Data\<close>

definition wrap_i64 :: "int \<Rightarrow> int" where
  "wrap_i64 x = (x + 2 ^ 63) mod 2 ^ 64 - 2 ^ 63"

lemma wrap_i64_exact: "i64_min \<le> x \<Longrightarrow> x \<le> i64_max \<Longrightarrow> wrap_i64 x = x"
  by (simp add: wrap_i64_def i64_min_def i64_max_def)

definition MAX_BEARER_TOKEN_BYTES :: nat where "MAX_BEARER_TOKEN_BYTES = 16 * 1024"
definition MAX_CLOCK_SKEW_SECONDS :: int where "MAX_CLOCK_SKEW_SECONDS = 30"
definition MAX_ACCESS_TOKEN_LIFETIME_SECONDS :: int where "MAX_ACCESS_TOKEN_LIFETIME_SECONDS = 15 * 60"

record jwt_header =
  jh_alg :: string
  jh_typ :: string
  jh_kid :: string

record access_token_claims =
  ac_iss :: string
  ac_aud :: string
  ac_sub :: token_uuid
  ac_project_id :: token_uuid
  ac_jti :: token_uuid
  ac_sid :: "token_uuid option"
  ac_iat :: int
  ac_nbf :: int
  ac_exp :: int
  ac_role :: string
  ac_claims :: json_map

datatype verification_key_status = Key_Active | Key_Grace | Key_Revoked

record verification_key =
  vk_project_id :: token_uuid
  vk_kid :: string
  vk_public_key :: string
  vk_status :: verification_key_status
  vk_valid_from_seconds :: int
  vk_valid_until_seconds :: "int option"

record project_signer =
  sg_project_id :: token_uuid
  sg_kid :: string
  sg_key :: string

record jwt_issuer =
  ji_issuer :: string
  ji_audience :: string

record user_context =
  uc_project_id :: token_uuid
  uc_subject :: token_uuid
  uc_role :: string
  uc_claims :: json_map
  uc_token_id :: token_uuid

record verified_access_token =
  va_context :: user_context
  va_session_id :: "token_uuid option"
  va_issued_at :: int
  va_expires_at :: int
  va_kid :: string

datatype jwt_error =
    Jwt_Malformed | Jwt_UnsupportedAlgorithm | Jwt_UnknownKey | Jwt_InvalidSignature | Jwt_InvalidClaims
  | Jwt_TimeInvalid | Jwt_Encoding | Jwt_KeyStoreUnavailable | Jwt_KeyGeneration

record jwt_env =
  je_b64_encode :: "string \<Rightarrow> string"
  je_b64_decode :: "string \<Rightarrow> string option"
  je_header_json :: "jwt_header \<Rightarrow> string option"
  je_parse_header :: "string \<Rightarrow> jwt_header option"
  je_claims_json :: "access_token_claims \<Rightarrow> string option"
  je_parse_claims :: "string \<Rightarrow> access_token_claims option"
  je_key_ok :: "string \<Rightarrow> bool"
  je_public_key :: "string \<Rightarrow> string"
  je_sign :: "string \<Rightarrow> string \<Rightarrow> string"
  je_verify :: "string \<Rightarrow> string \<Rightarrow> string \<Rightarrow> bool"

section \<open>Checks\<close>

definition validate_kid :: "string \<Rightarrow> jwt_error + unit" where
  "validate_kid kid =
     (if \<not> (8 \<le> length kid \<and> length kid \<le> 64)
        \<or> \<not> list_all (\<lambda>b. is_ascii_alphanumeric b \<or> b \<in> {CHR ''_'', CHR ''-''}) kid
      then Err Jwt_UnknownKey else Ok ())"

fun is_bounded_json :: "json \<Rightarrow> nat \<Rightarrow> bool" where
  "is_bounded_json (JString s) depth = (depth \<le> 4 \<and> length s \<le> 1024)"
| "is_bounded_json (JArray vs) depth = (depth \<le> 4 \<and> length vs \<le> 32 \<and> list_all (\<lambda>v. is_bounded_json v (depth + 1)) vs)"
| "is_bounded_json (JObject kvs) depth =
     (depth \<le> 4 \<and> length kvs \<le> 32 \<and> list_all (\<lambda>(k, v). length k \<le> 64 \<and> is_bounded_json v (depth + 1)) kvs)"
| "is_bounded_json _ depth = (depth \<le> 4)"

definition validate_claim_strings :: "access_token_claims \<Rightarrow> jwt_error + unit" where
  "validate_claim_strings c =
     (if ac_iss c = [] \<or> length (ac_iss c) > 256 \<or> ac_aud c = [] \<or> length (ac_aud c) > 128
        \<or> ac_role c = [] \<or> length (ac_role c) > 64
        \<or> \<not> list_all (\<lambda>b. is_ascii_alphanumeric b \<or> b \<in> {CHR ''_'', CHR ''-'', CHR '':''}) (ac_role c)
        \<or> length (ac_claims c) > 64
      then Err Jwt_InvalidClaims
      else if \<not> list_all (\<lambda>(k, v). k \<noteq> [] \<and> length k \<le> 64 \<and> is_bounded_json v 0) (ac_claims c)
      then Err Jwt_InvalidClaims
      else Ok ())"

definition decode_segment :: "jwt_env \<Rightarrow> string \<Rightarrow> nat \<Rightarrow> jwt_error + string" where
  "decode_segment env segment max_decoded =
     (if length segment > min (max_decoded * 2) u64_max then Err Jwt_Malformed
      else
        bindr (ok_or (je_b64_decode env segment) Jwt_Malformed) (\<lambda>decoded.
          if length decoded > max_decoded \<or> je_b64_encode env decoded \<noteq> segment then Err Jwt_Malformed
          else Ok decoded))"

section \<open>Signing\<close>

definition signer_from_bytes :: "token_uuid \<Rightarrow> string \<Rightarrow> string \<Rightarrow> jwt_error + project_signer" where
  "signer_from_bytes project kid key =
     bindr (validate_kid kid) (\<lambda>_. Ok \<lparr>sg_project_id = project, sg_kid = kid, sg_key = key\<rparr>)"

text \<open>The private key is drawn at random; the argument is None when that fails.\<close>

definition signer_generate :: "string option \<Rightarrow> token_uuid \<Rightarrow> string \<Rightarrow> jwt_error + project_signer" where
  "signer_generate entropy project kid =
     bindr (validate_kid kid) (\<lambda>_.
     bindr (ok_or entropy Jwt_KeyGeneration) (\<lambda>key.
       Ok \<lparr>sg_project_id = project, sg_kid = kid, sg_key = key\<rparr>))"

definition signer_verification_key ::
    "jwt_env \<Rightarrow> project_signer \<Rightarrow> verification_key_status \<Rightarrow> int \<Rightarrow> int option \<Rightarrow> verification_key" where
  "signer_verification_key env s status valid_from valid_until =
     \<lparr>vk_project_id = sg_project_id s, vk_kid = sg_kid s, vk_public_key = je_public_key env (sg_key s),
      vk_status = status, vk_valid_from_seconds = valid_from, vk_valid_until_seconds = valid_until\<rparr>"

definition sign_token :: "jwt_env \<Rightarrow> project_signer \<Rightarrow> access_token_claims \<Rightarrow> jwt_error + string" where
  "sign_token env s c =
     (if ac_project_id c \<noteq> sg_project_id s \<or> ac_exp c \<le> ac_iat c \<or> ac_nbf c > ac_exp c
        \<or> wrap_i64 (ac_exp c - ac_iat c) > MAX_ACCESS_TOKEN_LIFETIME_SECONDS
      then Err Jwt_InvalidClaims
      else
        bindr (validate_claim_strings c) (\<lambda>_.
        bindr (ok_or (je_header_json env \<lparr>jh_alg = ''EdDSA'', jh_typ = ''JWT'', jh_kid = sg_kid s\<rparr>) Jwt_Encoding) (\<lambda>h.
        bindr (ok_or (je_claims_json env c) Jwt_Encoding) (\<lambda>p.
          let signing_input = je_b64_encode env h @ ''.'' @ je_b64_encode env p
          in Ok (signing_input @ ''.'' @ je_b64_encode env (je_sign env (sg_key s) signing_input))))))"

definition issuer_new :: "string \<Rightarrow> string \<Rightarrow> jwt_error + jwt_issuer" where
  "issuer_new iss aud =
     (if iss = [] \<or> length iss > 256 \<or> aud = [] \<or> length aud > 128 then Err Jwt_InvalidClaims
      else Ok \<lparr>ji_issuer = iss, ji_audience = aud\<rparr>)"

record session_policy =
  sp_session_id :: "token_uuid option"
  sp_now_seconds :: int
  sp_ttl_seconds :: int

text \<open>\<open>jti\<close> is the generated token identifier.\<close>

definition claims_with_session_policy ::
    "jwt_issuer \<Rightarrow> token_uuid \<Rightarrow> token_uuid \<Rightarrow> token_uuid \<Rightarrow> string \<Rightarrow> json_map \<Rightarrow> session_policy
      \<Rightarrow> jwt_error + access_token_claims" where
  "claims_with_session_policy i jti project subject role custom policy =
     (if \<not> (60 \<le> sp_ttl_seconds policy \<and> sp_ttl_seconds policy \<le> MAX_ACCESS_TOKEN_LIFETIME_SECONDS) then Err Jwt_InvalidClaims
      else
        bindr (ok_or (checked_add_i64 (sp_now_seconds policy) (sp_ttl_seconds policy)) Jwt_InvalidClaims) (\<lambda>e.
          let c = \<lparr>ac_iss = ji_issuer i, ac_aud = ji_audience i, ac_sub = subject, ac_project_id = project, ac_jti = jti,
                ac_sid = sp_session_id policy, ac_iat = sp_now_seconds policy, ac_nbf = sp_now_seconds policy,
                ac_exp = e, ac_role = role, ac_claims = custom\<rparr>
          in bindr (validate_claim_strings c) (\<lambda>_. Ok c)))"

definition claims_for_session ::
    "jwt_issuer \<Rightarrow> token_uuid \<Rightarrow> token_uuid \<Rightarrow> token_uuid \<Rightarrow> string \<Rightarrow> json_map \<Rightarrow> token_uuid option \<Rightarrow> int
      \<Rightarrow> jwt_error + access_token_claims" where
  "claims_for_session i jti project subject role custom session now =
     claims_with_session_policy i jti project subject role custom
       \<lparr>sp_session_id = session, sp_now_seconds = now, sp_ttl_seconds = MAX_ACCESS_TOKEN_LIFETIME_SECONDS\<rparr>"

section \<open>Verifying\<close>

record expected_access_token =
  ea_issuer :: string
  ea_audience :: string
  ea_project_id :: token_uuid
  ea_now_seconds :: int

text \<open>The key named by the header, among those of the expected project.\<close>

definition select_key :: "expected_access_token \<Rightarrow> verification_key list \<Rightarrow> string \<Rightarrow> jwt_error + verification_key" where
  "select_key ex keys kid =
     bindr (ok_or (List.find (\<lambda>k. vk_project_id k = ea_project_id ex \<and> vk_kid k = kid) keys) Jwt_UnknownKey) (\<lambda>k.
       if vk_status k = Key_Revoked
         \<or> wrap_i64 (ea_now_seconds ex + MAX_CLOCK_SKEW_SECONDS) < vk_valid_from_seconds k
         \<or> (case vk_valid_until_seconds k of None \<Rightarrow> False
             | Some e \<Rightarrow> wrap_i64 (ea_now_seconds ex - MAX_CLOCK_SKEW_SECONDS) > e)
       then Err Jwt_UnknownKey else Ok k)"

definition check_access_claims :: "expected_access_token \<Rightarrow> access_token_claims \<Rightarrow> jwt_error + unit" where
  "check_access_claims ex c =
     bindr (validate_claim_strings c) (\<lambda>_.
       if ac_iss c \<noteq> ea_issuer ex \<or> ac_aud c \<noteq> ea_audience ex \<or> ac_project_id c \<noteq> ea_project_id ex
         \<or> ac_sub c = 0 \<or> ac_jti c = 0
       then Err Jwt_InvalidClaims
       else if ac_exp c \<le> ac_iat c \<or> ac_nbf c > ac_exp c
         \<or> wrap_i64 (ac_exp c - ac_iat c) > MAX_ACCESS_TOKEN_LIFETIME_SECONDS
         \<or> ac_iat c > wrap_i64 (ea_now_seconds ex + MAX_CLOCK_SKEW_SECONDS)
         \<or> ac_nbf c > wrap_i64 (ea_now_seconds ex + MAX_CLOCK_SKEW_SECONDS)
         \<or> ac_exp c \<le> wrap_i64 (ea_now_seconds ex - MAX_CLOCK_SKEW_SECONDS)
       then Err Jwt_TimeInvalid
       else Ok ())"

definition verified_from :: "access_token_claims \<Rightarrow> string \<Rightarrow> verified_access_token" where
  "verified_from c kid =
     \<lparr>va_context = \<lparr>uc_project_id = ac_project_id c, uc_subject = ac_sub c, uc_role = ac_role c, uc_claims = ac_claims c,
        uc_token_id = ac_jti c\<rparr>,
      va_session_id = ac_sid c, va_issued_at = ac_iat c, va_expires_at = ac_exp c, va_kid = kid\<rparr>"

definition verify_access_token ::
    "jwt_env \<Rightarrow> string \<Rightarrow> expected_access_token \<Rightarrow> verification_key list \<Rightarrow> jwt_error + verified_access_token" where
  "verify_access_token env token ex keys =
     (if token = [] \<or> length token > MAX_BEARER_TOKEN_BYTES then Err Jwt_Malformed
      else case split_on CHR ''.'' token of
        [hs, ps, ss] \<Rightarrow>
          if hs = [] \<or> ps = [] \<or> ss = [] then Err Jwt_Malformed
          else
            bindr (decode_segment env hs 1024) (\<lambda>hb.
            bindr (ok_or (je_parse_header env hb) Jwt_Malformed) (\<lambda>h.
            if jh_alg h \<noteq> ''EdDSA'' \<or> jh_typ h \<noteq> ''JWT'' then Err Jwt_UnsupportedAlgorithm
            else
              bindr (validate_kid (jh_kid h)) (\<lambda>_.
              bindr (select_key ex keys (jh_kid h)) (\<lambda>k.
              bindr (decode_segment env ss 64) (\<lambda>signature.
              if length signature \<noteq> 64 then Err Jwt_Malformed
              else if \<not> je_verify env (vk_public_key k) (hs @ ''.'' @ ps) signature then Err Jwt_InvalidSignature
              else
                bindr (decode_segment env ps MAX_BEARER_TOKEN_BYTES) (\<lambda>pb.
                bindr (ok_or (je_parse_claims env pb) Jwt_InvalidClaims) (\<lambda>c.
                bindr (check_access_claims ex c) (\<lambda>_.
                  Ok (verified_from c (jh_kid h))))))))))
      | _ \<Rightarrow> Err Jwt_Malformed)"

definition issuer_verify ::
    "jwt_env \<Rightarrow> jwt_issuer \<Rightarrow> string \<Rightarrow> token_uuid \<Rightarrow> verification_key list \<Rightarrow> int \<Rightarrow> jwt_error + verified_access_token" where
  "issuer_verify env i token project keys now =
     verify_access_token env token \<lparr>ea_issuer = ji_issuer i, ea_audience = ji_audience i, ea_project_id = project,
       ea_now_seconds = now\<rparr> keys"

end
