(* ===== verification/Auth_Accounts.thy ===== *)
theory Auth_Accounts
  imports Auth_Jwt
begin

text \<open>
  \<open>crates/auth/src/password.rs\<close>, \<open>account.rs\<close> and \<open>api_key.rs\<close>: password policy and rehashing, the accounts of a
  project with their registration, authentication, verification and password changes, and developers'
  keys. Argon2 is a parameter, as are the generated identifiers and salts. The account store and the store of one-time tokens
  are each behind a mutex, and a service call is the sequence of their operations.
\<close>

section \<open>Passwords\<close>

datatype password_error = Pw_Policy | Pw_InvalidHash | Pw_UnsupportedHash | Pw_HashingUnavailable

datatype verify_outcome = Pw_Invalid | Pw_Valid | Pw_ValidNeedsRehash

record argon2_hasher =
  ar_memory_kib :: nat
  ar_iterations :: nat
  ar_lanes :: nat
  ar_output_len :: nat
  ar_max_password_bytes :: nat

record parsed_hash =
  ph_algorithm :: string
  ph_version :: "nat option"
  ph_m :: "nat option"
  ph_t :: "nat option"
  ph_p :: "nat option"

text \<open>\<open>pe_verify\<close>: whether the password matches, or None for any other error.\<close>

record password_env =
  pe_params_ok :: "nat \<Rightarrow> nat \<Rightarrow> nat \<Rightarrow> nat \<Rightarrow> bool"
  pe_hash :: "argon2_hasher \<Rightarrow> string \<Rightarrow> string \<Rightarrow> string option"
  pe_parse :: "string \<Rightarrow> parsed_hash option"
  pe_verify :: "string \<Rightarrow> string \<Rightarrow> bool option"

definition hasher_default :: argon2_hasher where
  "hasher_default = \<lparr>ar_memory_kib = 19 * 1024, ar_iterations = 2, ar_lanes = 1, ar_output_len = 32, ar_max_password_bytes = 1024\<rparr>"

definition hasher_new :: "password_env \<Rightarrow> nat \<Rightarrow> nat \<Rightarrow> nat \<Rightarrow> nat \<Rightarrow> password_error + argon2_hasher" where
  "hasher_new env m t p max_bytes =
     (if \<not> pe_params_ok env m t p 32 then Err Pw_HashingUnavailable
      else if max_bytes = 0 then Err Pw_Policy
      else Ok \<lparr>ar_memory_kib = m, ar_iterations = t, ar_lanes = p, ar_output_len = 32, ar_max_password_bytes = max_bytes\<rparr>)"

definition password_hash_parse :: "password_env \<Rightarrow> string \<Rightarrow> password_error + string" where
  "password_hash_parse env v =
     bindr (ok_or (pe_parse env v) Pw_InvalidHash) (\<lambda>p.
       if ph_algorithm p \<noteq> ''argon2id'' then Err Pw_UnsupportedHash else Ok v)"

definition hasher_engine :: "password_env \<Rightarrow> argon2_hasher \<Rightarrow> password_error + unit" where
  "hasher_engine env h =
     require (pe_params_ok env (ar_memory_kib h) (ar_iterations h) (ar_lanes h) (ar_output_len h)) Pw_HashingUnavailable"

definition validate_password :: "argon2_hasher \<Rightarrow> string \<Rightarrow> password_error + unit" where
  "validate_password h pw =
     (if length pw < 8 \<or> length pw > ar_max_password_bytes h then Err Pw_Policy else Ok ())"

definition needs_rehash :: "argon2_hasher \<Rightarrow> parsed_hash \<Rightarrow> bool" where
  "needs_rehash h p \<longleftrightarrow>
     ph_version p \<noteq> Some 19 \<or> ph_m p \<noteq> Some (ar_memory_kib h) \<or> ph_t p \<noteq> Some (ar_iterations h)
     \<or> ph_p p \<noteq> Some (ar_lanes h)"

definition hash_password :: "password_env \<Rightarrow> argon2_hasher \<Rightarrow> string \<Rightarrow> string \<Rightarrow> password_error + string" where
  "hash_password env h salt pw =
     bindr (validate_password h pw) (\<lambda>_.
     bindr (hasher_engine env h) (\<lambda>_.
     bindr (ok_or (pe_hash env h salt pw) Pw_HashingUnavailable) (\<lambda>encoded.
       password_hash_parse env encoded)))"

definition verify_password :: "password_env \<Rightarrow> argon2_hasher \<Rightarrow> string \<Rightarrow> string \<Rightarrow> password_error + verify_outcome" where
  "verify_password env h pw hash =
     bindr (validate_password h pw) (\<lambda>_.
     bindr (ok_or (pe_parse env hash) Pw_InvalidHash) (\<lambda>p.
       if ph_algorithm p \<noteq> ''argon2id'' then Err Pw_UnsupportedHash
       else
         bindr (hasher_engine env h) (\<lambda>_.
           case pe_verify env hash pw of
             Some True \<Rightarrow> Ok (if needs_rehash h p then Pw_ValidNeedsRehash else Pw_Valid)
           | Some False \<Rightarrow> Ok Pw_Invalid
           | None \<Rightarrow> Err Pw_InvalidHash)))"

section \<open>Accounts\<close>

record auth_user =
  au_id :: token_uuid
  au_project_id :: token_uuid
  au_normalized_email :: string
  au_password_hash :: string
  au_role :: string
  au_custom_claims :: json_map
  au_email_verified_at_ms :: "int option"
  au_disabled_at_ms :: "int option"
  au_password_changed_at_ms :: int
  au_created_at_ms :: int

record authenticated_user =
  ad_user_id :: token_uuid
  ad_user_project_id :: token_uuid
  ad_normalized_email :: string
  ad_role :: string
  ad_custom_claims :: json_map
  ad_email_verified :: bool
  ad_created_at_ms :: int

datatype account_error =
    Acc_InvalidEmail | Acc_EmailInUse | Acc_InvalidCredentials | Acc_InvalidClaims | Acc_VerificationRequired | Acc_Disabled
  | Acc_NotFound | Acc_Unavailable | Acc_Password password_error | Acc_OneTime one_time_error

record account_state =
  as_by_id :: "(token_uuid \<times> token_uuid, auth_user) hash_map"
  as_by_email :: "(token_uuid \<times> string, token_uuid) hash_map"

definition account_default :: account_state where
  "account_default = \<lparr>as_by_id = [], as_by_email = []\<rparr>"

definition account_insert :: "auth_user \<Rightarrow> account_state \<Rightarrow> (account_error + unit) \<times> account_state" where
  "account_insert u st =
     (let key = (au_project_id u, au_normalized_email u) in
      if hm_contains_key (as_by_email st) key then (Err Acc_EmailInUse, st)
      else (Ok (), st\<lparr>as_by_email := hm_insert key (au_id u) (as_by_email st),
              as_by_id := hm_insert (au_project_id u, au_id u) u (as_by_id st)\<rparr>))"

definition find_by_email :: "token_uuid \<Rightarrow> string \<Rightarrow> account_state \<Rightarrow> auth_user option" where
  "find_by_email project email st =
     (case hm_get (as_by_email st) (project, email) of
        None \<Rightarrow> None
      | Some i \<Rightarrow> hm_get (as_by_id st) (project, i))"

definition find_by_id :: "token_uuid \<Rightarrow> token_uuid \<Rightarrow> account_state \<Rightarrow> auth_user option" where
  "find_by_id project user st = hm_get (as_by_id st) (project, user)"

text \<open>The three updates find the account and change one field of it.\<close>

definition update_account :: "token_uuid \<Rightarrow> token_uuid \<Rightarrow> (auth_user \<Rightarrow> auth_user) \<Rightarrow> account_state \<Rightarrow> bool \<times> account_state" where
  "update_account project user f st =
     (case hm_get (as_by_id st) (project, user) of
        None \<Rightarrow> (False, st)
      | Some u \<Rightarrow> (True, st\<lparr>as_by_id := hm_insert (project, user) (f u) (as_by_id st)\<rparr>))"

definition set_verified :: "token_uuid \<Rightarrow> token_uuid \<Rightarrow> int \<Rightarrow> account_state \<Rightarrow> bool \<times> account_state" where
  "set_verified project user at_ms =
     update_account project user (\<lambda>u. u\<lparr>au_email_verified_at_ms := get_or_insert at_ms (au_email_verified_at_ms u)\<rparr>)"

definition set_password :: "token_uuid \<Rightarrow> token_uuid \<Rightarrow> string \<Rightarrow> int \<Rightarrow> account_state \<Rightarrow> bool \<times> account_state" where
  "set_password project user hash at_ms =
     update_account project user (\<lambda>u. u\<lparr>au_password_hash := hash, au_password_changed_at_ms := at_ms\<rparr>)"

definition disable_account :: "token_uuid \<Rightarrow> token_uuid \<Rightarrow> int \<Rightarrow> account_state \<Rightarrow> bool \<times> account_state" where
  "disable_account project user at_ms =
     update_account project user (\<lambda>u. u\<lparr>au_disabled_at_ms := get_or_insert at_ms (au_disabled_at_ms u)\<rparr>)"

section \<open>Email addresses and claims\<close>

text \<open>\<open>rsplit_once\<close>: cut at the last occurrence.\<close>

definition rsplit_once :: "char \<Rightarrow> string \<Rightarrow> (string \<times> string) option" where
  "rsplit_once d s = map_option (\<lambda>(a, b). (rev b, rev a)) (split_once d (rev s))"

definition is_ascii_control :: "char \<Rightarrow> bool" where
  "is_ascii_control c \<longleftrightarrow> code c < 32 \<or> code c = 127"

definition normalize_email :: "string \<Rightarrow> account_error + string" where
  "normalize_email email =
     (if length email > 254 \<or> trim email \<noteq> email \<or> \<not> list_all (\<lambda>c. code c < 128) email then Err Acc_InvalidEmail
      else
        bindr (ok_or (rsplit_once CHR ''@'' email) Acc_InvalidEmail) (\<lambda>(local_part, domain).
          if local_part = [] \<or> length local_part > 64 \<or> domain = [] \<or> CHR ''.'' \<notin> set domain
            \<or> list_ex (\<lambda>b. is_ascii_whitespace b \<or> is_ascii_control b) email
          then Err Acc_InvalidEmail
          else Ok (to_ascii_lowercase local_part @ ''@'' @ to_ascii_lowercase domain)))"

definition RESERVED_CLAIMS :: "string list" where
  "RESERVED_CLAIMS = [''iss'', ''aud'', ''sub'', ''project_id'', ''jti'', ''iat'', ''nbf'', ''exp'', ''role'']"

fun valid_claim_value :: "json \<Rightarrow> nat \<Rightarrow> bool" where
  "valid_claim_value (JString s) depth = (depth \<le> 4 \<and> length s \<le> 1024)"
| "valid_claim_value (JArray vs) depth = (depth \<le> 4 \<and> length vs \<le> 32 \<and> list_all (\<lambda>v. valid_claim_value v (depth + 1)) vs)"
| "valid_claim_value (JObject kvs) depth =
     (depth \<le> 4 \<and> length kvs \<le> 32 \<and> list_all (\<lambda>(k, v). k \<noteq> [] \<and> length k \<le> 64 \<and> valid_claim_value v (depth + 1)) kvs)"
| "valid_claim_value _ depth = (depth \<le> 4)"

text \<open>\<open>to_vec\<close> is the JSON text of an object.\<close>

definition validate_custom_claims :: "(json_map \<Rightarrow> string option) \<Rightarrow> json_map \<Rightarrow> account_error + unit" where
  "validate_custom_claims to_vec claims =
     (if length claims > 32 then Err Acc_InvalidClaims
      else
        bindr (ok_or (to_vec claims) Acc_InvalidClaims) (\<lambda>bytes.
          if length bytes > 4096 then Err Acc_InvalidClaims
          else if \<not> list_all (\<lambda>(k, v). k \<noteq> [] \<and> length k \<le> 64 \<and> k \<notin> set RESERVED_CLAIMS
              \<and> list_all (\<lambda>b. is_ascii_alphanumeric b \<or> b \<in> {CHR ''_'', CHR ''-''}) k \<and> valid_claim_value v 0) claims
          then Err Acc_InvalidClaims
          else Ok ()))"

section \<open>The account service\<close>

record account_service =
  sv_project_id :: token_uuid
  sv_hasher :: argon2_hasher
  sv_codec :: opaque_token_codec
  sv_dummy_hash :: string

record account_env =
  an_passwords :: password_env
  an_tokens :: token_env
  an_claims_json :: "json_map \<Rightarrow> string option"

record service_state =
  ss_accounts :: account_state
  ss_one_time :: one_time_state

definition service_new ::
    "account_env \<Rightarrow> token_uuid \<Rightarrow> argon2_hasher \<Rightarrow> opaque_token_codec \<Rightarrow> string \<Rightarrow> account_error + account_service" where
  "service_new env project h codec salt =
     bindr (map_err Acc_Password (hash_password (an_passwords env) h salt ''ffdb-dummy-password-verification-work-factor''))
       (\<lambda>d. Ok \<lparr>sv_project_id = project, sv_hasher = h, sv_codec = codec, sv_dummy_hash = d\<rparr>)"

definition register_with_policy ::
    "account_env \<Rightarrow> account_service \<Rightarrow> token_uuid \<Rightarrow> string \<Rightarrow> string \<Rightarrow> string \<Rightarrow> json_map \<Rightarrow> bool \<Rightarrow> nat \<Rightarrow> int
      \<Rightarrow> service_state \<Rightarrow> (account_error + auth_user) \<times> service_state" where
  "register_with_policy env sv uid salt email pw claims verification_required min_length now st =
     (if \<not> (8 \<le> min_length \<and> min_length \<le> 128) \<or> length pw < min_length then (Err (Acc_Password Pw_Policy), st)
      else case
        bindr (normalize_email email) (\<lambda>normalized.
        bindr (validate_custom_claims (an_claims_json env) claims) (\<lambda>_.
        bindr (map_err Acc_Password (hash_password (an_passwords env) (sv_hasher sv) salt pw)) (\<lambda>hash.
          Ok \<lparr>au_id = uid, au_project_id = sv_project_id sv, au_normalized_email = normalized, au_password_hash = hash,
            au_role = ''authenticated'', au_custom_claims = claims,
            au_email_verified_at_ms = (if verification_required then None else Some now), au_disabled_at_ms = None,
            au_password_changed_at_ms = now, au_created_at_ms = now\<rparr>)))
      of
        Inl e \<Rightarrow> (Err e, st)
      | Inr u \<Rightarrow>
          (case account_insert u (ss_accounts st) of
             (Inl e, acc) \<Rightarrow> (Err e, st\<lparr>ss_accounts := acc\<rparr>)
           | (Inr _, acc) \<Rightarrow> (Ok u, st\<lparr>ss_accounts := acc\<rparr>)))"

definition register_account ::
    "account_env \<Rightarrow> account_service \<Rightarrow> token_uuid \<Rightarrow> string \<Rightarrow> string \<Rightarrow> string \<Rightarrow> int
      \<Rightarrow> service_state \<Rightarrow> (account_error + auth_user) \<times> service_state" where
  "register_account env sv uid salt email pw now = register_with_policy env sv uid salt email pw [] True 8 now"

definition matches :: "verify_outcome \<Rightarrow> bool" where
  "matches v \<longleftrightarrow> v = Pw_Valid \<or> v = Pw_ValidNeedsRehash"

definition authenticate_with_policy ::
    "account_env \<Rightarrow> account_service \<Rightarrow> string \<Rightarrow> string \<Rightarrow> bool \<Rightarrow> service_state \<Rightarrow> account_error + authenticated_user" where
  "authenticate_with_policy env sv email pw verification_required st =
     bindr (map_err (\<lambda>_. Acc_InvalidCredentials) (normalize_email email)) (\<lambda>normalized.
       case find_by_email (sv_project_id sv) normalized (ss_accounts st) of
         None \<Rightarrow>
           bindr (map_err Acc_Password (verify_password (an_passwords env) (sv_hasher sv) pw (sv_dummy_hash sv))) (\<lambda>_.
             Err Acc_InvalidCredentials)
       | Some u \<Rightarrow>
           bindr (map_err Acc_Password (verify_password (an_passwords env) (sv_hasher sv) pw (au_password_hash u))) (\<lambda>v.
             if \<not> matches v then Err Acc_InvalidCredentials
             else if au_disabled_at_ms u \<noteq> None then Err Acc_Disabled
             else if verification_required \<and> au_email_verified_at_ms u = None then Err Acc_VerificationRequired
             else Ok \<lparr>ad_user_id = au_id u, ad_user_project_id = au_project_id u, ad_normalized_email = au_normalized_email u,
               ad_role = au_role u, ad_custom_claims = au_custom_claims u,
               ad_email_verified = (au_email_verified_at_ms u \<noteq> None), ad_created_at_ms = au_created_at_ms u\<rparr>))"

definition issue_one_time ::
    "account_env \<Rightarrow> account_service \<Rightarrow> entropy \<Rightarrow> token_uuid \<Rightarrow> token_uuid \<Rightarrow> one_time_purpose \<Rightarrow> int \<Rightarrow> service_state
      \<Rightarrow> (account_error + string \<times> one_time_record) \<times> service_state" where
  "issue_one_time env sv ent tid user purpose now st =
     (let (r, ot) = one_time_issue (an_tokens env) (sv_codec sv) ent tid (sv_project_id sv) user purpose now (ss_one_time st)
      in (map_err Acc_OneTime r, st\<lparr>ss_one_time := ot\<rparr>))"

definition issue_verification ::
    "account_env \<Rightarrow> account_service \<Rightarrow> entropy \<Rightarrow> token_uuid \<Rightarrow> token_uuid \<Rightarrow> int \<Rightarrow> service_state
      \<Rightarrow> (account_error + string \<times> one_time_record) \<times> service_state" where
  "issue_verification env sv ent tid user now st =
     (case find_by_id (sv_project_id sv) user (ss_accounts st) of
        None \<Rightarrow> (Err Acc_NotFound, st)
      | Some u \<Rightarrow>
          if au_disabled_at_ms u \<noteq> None then (Err Acc_Disabled, st)
          else issue_one_time env sv ent tid user EmailVerification now st)"

definition issue_verification_for_email ::
    "account_env \<Rightarrow> account_service \<Rightarrow> entropy \<Rightarrow> token_uuid \<Rightarrow> string \<Rightarrow> int \<Rightarrow> service_state
      \<Rightarrow> (account_error + (string \<times> one_time_record) option) \<times> service_state" where
  "issue_verification_for_email env sv ent tid email now st =
     (case normalize_email email of
        Inl e \<Rightarrow> (Err e, st)
      | Inr normalized \<Rightarrow>
          (case find_by_email (sv_project_id sv) normalized (ss_accounts st) of
             None \<Rightarrow> (Ok None, st)
           | Some u \<Rightarrow>
               if au_disabled_at_ms u \<noteq> None then (Ok None, st)
               else (let (r, st') = issue_verification env sv ent tid (au_id u) now st
                     in (bindr r (\<lambda>t. Ok (Some t)), st'))))"

definition issue_password_reset ::
    "account_env \<Rightarrow> account_service \<Rightarrow> entropy \<Rightarrow> token_uuid \<Rightarrow> string \<Rightarrow> int \<Rightarrow> service_state
      \<Rightarrow> (account_error + (string \<times> one_time_record) option) \<times> service_state" where
  "issue_password_reset env sv ent tid email now st =
     (case normalize_email email of
        Inl e \<Rightarrow> (Err e, st)
      | Inr normalized \<Rightarrow>
          (case find_by_email (sv_project_id sv) normalized (ss_accounts st) of
             None \<Rightarrow> (Ok None, st)
           | Some u \<Rightarrow>
               if au_disabled_at_ms u \<noteq> None then (Ok None, st)
               else (let (r, st') = issue_one_time env sv ent tid (au_id u) PasswordReset now st
                     in (bindr r (\<lambda>t. Ok (Some t)), st'))))"

text \<open>A token is consumed first; then it must belong to the service's project and to an account there.\<close>

definition consume_one_time ::
    "account_env \<Rightarrow> account_service \<Rightarrow> string \<Rightarrow> one_time_purpose \<Rightarrow> int
      \<Rightarrow> (token_uuid \<Rightarrow> account_state \<Rightarrow> bool \<times> account_state) \<Rightarrow> service_state
      \<Rightarrow> (account_error + token_uuid) \<times> service_state" where
  "consume_one_time env sv token purpose now effect st =
     (case one_time_consume (an_tokens env) (sv_codec sv) token purpose now (ss_one_time st) of
        (Inl e, ot) \<Rightarrow> (Err (Acc_OneTime e), st\<lparr>ss_one_time := ot\<rparr>)
      | (Inr r, ot) \<Rightarrow>
          (let st1 = st\<lparr>ss_one_time := ot\<rparr> in
           if ot_project_id r \<noteq> sv_project_id sv then (Err Acc_NotFound, st1)
           else
             (let (found, acc) = effect (ot_user_id r) (ss_accounts st1)
              in if found then (Ok (ot_user_id r), st1\<lparr>ss_accounts := acc\<rparr>)
                 else (Err Acc_NotFound, st1\<lparr>ss_accounts := acc\<rparr>))))"

definition verify_email ::
    "account_env \<Rightarrow> account_service \<Rightarrow> string \<Rightarrow> int \<Rightarrow> service_state \<Rightarrow> (account_error + token_uuid) \<times> service_state" where
  "verify_email env sv token now =
     consume_one_time env sv token EmailVerification now (\<lambda>user. set_verified (sv_project_id sv) user now)"

definition reset_password ::
    "account_env \<Rightarrow> account_service \<Rightarrow> string \<Rightarrow> string \<Rightarrow> string \<Rightarrow> int \<Rightarrow> service_state
      \<Rightarrow> (account_error + token_uuid) \<times> service_state" where
  "reset_password env sv salt token pw now st =
     (case hash_password (an_passwords env) (sv_hasher sv) salt pw of
        Inl e \<Rightarrow> (Err (Acc_Password e), st)
      | Inr hash \<Rightarrow> consume_one_time env sv token PasswordReset now (\<lambda>user. set_password (sv_project_id sv) user hash now) st)"

definition change_password ::
    "account_env \<Rightarrow> account_service \<Rightarrow> string \<Rightarrow> token_uuid \<Rightarrow> string \<Rightarrow> string \<Rightarrow> int \<Rightarrow> service_state
      \<Rightarrow> (account_error + unit) \<times> service_state" where
  "change_password env sv salt user current new now st =
     (case find_by_id (sv_project_id sv) user (ss_accounts st) of
        None \<Rightarrow> (Err Acc_InvalidCredentials, st)
      | Some u \<Rightarrow>
          if au_disabled_at_ms u \<noteq> None then (Err Acc_InvalidCredentials, st)
          else case verify_password (an_passwords env) (sv_hasher sv) current (au_password_hash u) of
            Inl e \<Rightarrow> (Err (Acc_Password e), st)
          | Inr v \<Rightarrow>
              if \<not> matches v then (Err Acc_InvalidCredentials, st)
              else case hash_password (an_passwords env) (sv_hasher sv) salt new of
                Inl e \<Rightarrow> (Err (Acc_Password e), st)
              | Inr hash \<Rightarrow>
                  (let (found, acc) = set_password (sv_project_id sv) user hash now (ss_accounts st)
                   in (if found then Ok () else Err Acc_InvalidCredentials, st\<lparr>ss_accounts := acc\<rparr>)))"

definition disable_user ::
    "account_service \<Rightarrow> token_uuid \<Rightarrow> int \<Rightarrow> service_state \<Rightarrow> (account_error + unit) \<times> service_state" where
  "disable_user sv user now st =
     (let (found, acc) = disable_account (sv_project_id sv) user now (ss_accounts st)
      in (if found then Ok () else Err Acc_NotFound, st\<lparr>ss_accounts := acc\<rparr>))"

end
