(* ===== verification/Auth_Credentials.thy ===== *)
theory Auth_Credentials
  imports Auth_Accounts
begin

text \<open>
  \<open>crates/auth/src/api_key.rs\<close>, \<open>credential.rs\<close>, \<open>key_management.rs\<close> and the stores of \<open>postgres.rs\<close> they use: what the
  API accepts as a credential. The tables are the record \<open>credential_state\<close>; a PostgreSQL call that
  fails is the argument \<open>up = False\<close>, which ends the operation and rolls its transaction back.
\<close>

section \<open>Developer keys\<close>

datatype developer_scope =
    ProjectsRead | ProjectsWrite | DatabaseQuery | DatabaseMigrate | DatabaseSchema | AuthManage | StorageManage
  | EmailManage | KeysRotate | BackupsManage | LogsRead | CommerceManage

record api_key_record =
  ak_id :: token_uuid
  ak_organization_id :: token_uuid
  ak_project_id :: "token_uuid option"
  ak_prefix :: string
  ak_digest :: credential_digest
  ak_scopes :: "developer_scope list"
  ak_expires_at_ms :: "int option"
  ak_revoked_at_ms :: "int option"

record developer_identity =
  di_organization_id :: token_uuid
  di_api_key_id :: token_uuid
  di_scopes :: "developer_scope list"
  di_actor_label :: string

datatype api_key_verification = Key_Verified developer_identity | Key_Rejected

definition api_key_codec_new :: "string \<Rightarrow> token_error + opaque_token_codec" where
  "api_key_codec_new p = codec_new ''dev'' p"

definition api_key_issue ::
    "token_env \<Rightarrow> opaque_token_codec \<Rightarrow> entropy \<Rightarrow> token_uuid \<Rightarrow> token_uuid \<Rightarrow> token_uuid option \<Rightarrow> developer_scope list
      \<Rightarrow> token_error + string \<times> api_key_record" where
  "api_key_issue env c ent kid organization project scopes =
     bindr (token_issue env c ent) (\<lambda>(plaintext, parts).
       Ok (plaintext, \<lparr>ak_id = kid, ak_organization_id = organization, ak_project_id = project, ak_prefix = tp_prefix parts,
         ak_digest = tp_digest parts, ak_scopes = scopes, ak_expires_at_ms = None, ak_revoked_at_ms = None\<rparr>))"

text \<open>The label of the actor is the key's identifier in the text form of \<open>show_uuid\<close>.\<close>

definition api_key_verify ::
    "(token_uuid \<Rightarrow> string) \<Rightarrow> token_parts \<Rightarrow> api_key_record \<Rightarrow> int \<Rightarrow> api_key_verification" where
  "api_key_verify show_uuid candidate r now =
     (if tp_prefix candidate \<noteq> ak_prefix r \<or> \<not> verify_digest (tp_digest candidate) (ak_digest r)
        \<or> ak_revoked_at_ms r \<noteq> None \<or> (case ak_expires_at_ms r of None \<Rightarrow> False | Some e \<Rightarrow> now \<ge> e)
      then Key_Rejected
      else Key_Verified \<lparr>di_organization_id = ak_organization_id r, di_api_key_id = ak_id r, di_scopes = ak_scopes r,
        di_actor_label = ''api-key:'' @ show_uuid (ak_id r)\<rparr>)"

definition api_key_has_scope :: "api_key_record \<Rightarrow> developer_scope \<Rightarrow> bool" where
  "api_key_has_scope r scope = (scope \<in> set (ak_scopes r))"

section \<open>Signing keys\<close>

datatype key_management_error =
    Km_InvalidConfiguration | Km_InvalidInput | Km_ProjectNotFound | Km_ActiveKeyExists | Km_NoActiveKey | Km_Encryption | Km_Unavailable

definition MIN_GRACE_SECONDS :: int where "MIN_GRACE_SECONDS = 60"
definition MAX_GRACE_SECONDS :: int where "MAX_GRACE_SECONDS = 30 * 24 * 60 * 60"

record signing_key_row =
  sk_project_id :: token_uuid
  sk_kid :: string
  sk_public_key :: string
  sk_encrypted_private_key :: string
  sk_encryption_key_version :: int
  sk_status :: string
  sk_valid_from_seconds :: int
  sk_valid_until_seconds :: "int option"
  sk_revoked :: bool

record key_env =
  ke_jwt :: jwt_env
  ke_seal :: "string \<Rightarrow> string \<Rightarrow> string \<Rightarrow> string \<Rightarrow> string option"
  ke_open :: "string \<Rightarrow> string \<Rightarrow> string \<Rightarrow> string \<Rightarrow> string option"
  ke_uuid_bytes :: "token_uuid \<Rightarrow> string"

record key_envelope =
  kv_master_key :: string
  kv_version :: int

definition envelope_new :: "string \<Rightarrow> int \<Rightarrow> key_management_error + key_envelope" where
  "envelope_new key version =
     (if length key \<noteq> 32 then Err Km_InvalidConfiguration
      else if version \<le> 0 then Err Km_InvalidConfiguration
      else Ok \<lparr>kv_master_key = key, kv_version = version\<rparr>)"

definition big_endian :: "nat \<Rightarrow> nat \<Rightarrow> string" where
  "big_endian n x = map (\<lambda>k. char_of (x div 256 ^ k mod 256)) (rev [0..<n])"

definition signing_key_aad :: "key_env \<Rightarrow> token_uuid \<Rightarrow> string \<Rightarrow> int \<Rightarrow> key_management_error + string" where
  "signing_key_aad env project kid version =
     (if version \<le> 0 \<or> \<not> (8 \<le> length kid \<and> length kid \<le> 64)
        \<or> \<not> list_all (\<lambda>b. is_ascii_alphanumeric b \<or> b \<in> {CHR ''_'', CHR ''-''}) kid
      then Err Km_InvalidInput
      else Ok (''ffdb.jwt-key.aes256gcm.v1'' @ [char_of (0::nat)] @ big_endian 4 (nat version) @ ke_uuid_bytes env project
        @ big_endian 2 (length kid) @ kid))"

text \<open>Sealing takes key, nonce, associated data and plaintext; the nonce is the argument, None when none can be drawn.\<close>

definition encrypt_key ::
    "key_env \<Rightarrow> key_envelope \<Rightarrow> string option \<Rightarrow> token_uuid \<Rightarrow> string \<Rightarrow> string \<Rightarrow> key_management_error + string" where
  "encrypt_key env v nonce project kid private_key =
     bindr (signing_key_aad env project kid (kv_version v)) (\<lambda>aad.
     bindr (ok_or nonce Km_Encryption) (\<lambda>n.
     bindr (ok_or (ke_seal env (kv_master_key v) n aad private_key) Km_Encryption) (\<lambda>sealed.
       Ok (n @ sealed))))"

definition decrypt_key ::
    "key_env \<Rightarrow> key_envelope \<Rightarrow> token_uuid \<Rightarrow> string \<Rightarrow> string \<Rightarrow> int \<Rightarrow> jwt_error + string" where
  "decrypt_key env v project kid ciphertext version =
     (if version \<noteq> kv_version v \<or> length ciphertext \<noteq> 12 + 32 + 16 then Err Jwt_KeyStoreUnavailable
      else
        bindr (map_err (\<lambda>_. Jwt_KeyStoreUnavailable) (signing_key_aad env project kid version)) (\<lambda>aad.
        bindr (ok_or (ke_open env (kv_master_key v) (take 12 ciphertext) aad (drop 12 ciphertext)) Jwt_KeyStoreUnavailable) (\<lambda>p.
          if length p \<noteq> 32 then Err Jwt_KeyStoreUnavailable else Ok p)))"

text \<open>A generated key: its row, before it is inserted.\<close>

definition generate_key ::
    "key_env \<Rightarrow> key_envelope \<Rightarrow> string option \<Rightarrow> string option \<Rightarrow> string \<Rightarrow> token_uuid \<Rightarrow> int
      \<Rightarrow> key_management_error + signing_key_row" where
  "generate_key env v entropy nonce uuid_text project now =
     (let kid = ''key_'' @ uuid_text in
      bindr (map_err (\<lambda>_. Km_Encryption) (signer_generate entropy project kid)) (\<lambda>s.
      bindr (encrypt_key env v nonce project kid (sg_key s)) (\<lambda>c.
        Ok \<lparr>sk_project_id = project, sk_kid = kid, sk_public_key = je_public_key (ke_jwt env) (sg_key s),
          sk_encrypted_private_key = c, sk_encryption_key_version = kv_version v, sk_status = ''active'',
          sk_valid_from_seconds = now, sk_valid_until_seconds = None, sk_revoked = False\<rparr>)))"

definition validate_time :: "int \<Rightarrow> key_management_error + unit" where
  "validate_time now = (if now \<le> 0 then Err Km_InvalidInput else Ok ())"

definition is_active :: "token_uuid \<Rightarrow> signing_key_row \<Rightarrow> bool" where
  "is_active project r \<longleftrightarrow> sk_project_id r = project \<and> sk_status r = ''active''"

text \<open>The unique constraints of the table: one active key in a project, and no key identifier twice.\<close>

definition insert_key :: "signing_key_row \<Rightarrow> signing_key_row list \<Rightarrow> key_management_error + signing_key_row list" where
  "insert_key r rows =
     (if list_ex (is_active (sk_project_id r)) rows
        \<or> list_ex (\<lambda>x. sk_project_id x = sk_project_id r \<and> sk_kid x = sk_kid r) rows
      then Err Km_ActiveKeyExists else Ok (rows @ [r]))"

definition bootstrap_key ::
    "key_env \<Rightarrow> key_envelope \<Rightarrow> string option \<Rightarrow> string option \<Rightarrow> string \<Rightarrow> bool \<Rightarrow> bool \<Rightarrow> token_uuid \<Rightarrow> int
      \<Rightarrow> signing_key_row list \<Rightarrow> (key_management_error + signing_key_row) \<times> signing_key_row list" where
  "bootstrap_key env v entropy nonce uuid_text up project_exists project now rows =
     (case bindr (validate_time now) (\<lambda>_. bindr (generate_key env v entropy nonce uuid_text project now) (\<lambda>g.
        if \<not> up then Err Km_Unavailable
        else if \<not> project_exists then Err Km_ProjectNotFound
        else if list_ex (is_active project) rows then Err Km_ActiveKeyExists
        else bindr (insert_key g rows) (\<lambda>rows'. Ok (g, rows'))))
      of Inl e \<Rightarrow> (Err e, rows) | Inr (g, rows') \<Rightarrow> (Ok g, rows'))"

definition retire_key :: "token_uuid \<Rightarrow> int \<Rightarrow> signing_key_row \<Rightarrow> signing_key_row" where
  "retire_key project grace_until r =
     (if is_active project r
      then r\<lparr>sk_status := ''grace'', sk_valid_until_seconds := Some (max (sk_valid_from_seconds r + 1) grace_until)\<rparr>
      else r)"

definition rotate_key ::
    "key_env \<Rightarrow> key_envelope \<Rightarrow> string option \<Rightarrow> string option \<Rightarrow> string \<Rightarrow> bool \<Rightarrow> bool \<Rightarrow> token_uuid \<Rightarrow> int \<Rightarrow> int
      \<Rightarrow> signing_key_row list \<Rightarrow> (key_management_error + string \<times> int \<times> signing_key_row) \<times> signing_key_row list" where
  "rotate_key env v entropy nonce uuid_text up project_exists project now grace rows =
     (case bindr (validate_time now) (\<lambda>_.
        if \<not> (MIN_GRACE_SECONDS \<le> grace \<and> grace \<le> MAX_GRACE_SECONDS) then Err Km_InvalidInput
        else
          bindr (ok_or (checked_add_i64 now grace) Km_InvalidInput) (\<lambda>grace_until.
          bindr (generate_key env v entropy nonce uuid_text project now) (\<lambda>g.
          if \<not> up then Err Km_Unavailable
          else if \<not> project_exists then Err Km_ProjectNotFound
          else
            bindr (ok_or (List.find (is_active project) rows) Km_NoActiveKey) (\<lambda>previous.
            bindr (insert_key g (map (retire_key project grace_until) rows)) (\<lambda>rows'.
              Ok ((sk_kid previous, grace_until, g), rows'))))))
      of Inl e \<Rightarrow> (Err e, rows) | Inr (r, rows') \<Rightarrow> (Ok r, rows'))"

text \<open>\<open>PgSigningKeyStore\<close>: the signer in force at \<open>now\<close>, and the keys a token may have been signed with.\<close>

definition signable :: "token_uuid \<Rightarrow> int \<Rightarrow> signing_key_row \<Rightarrow> bool" where
  "signable project now r \<longleftrightarrow>
     is_active project r \<and> \<not> sk_revoked r \<and> sk_valid_from_seconds r \<le> now
     \<and> (case sk_valid_until_seconds r of None \<Rightarrow> True | Some e \<Rightarrow> e > now)"

definition active_signer ::
    "key_env \<Rightarrow> key_envelope \<Rightarrow> bool \<Rightarrow> int \<Rightarrow> token_uuid \<Rightarrow> signing_key_row list \<Rightarrow> jwt_error + project_signer" where
  "active_signer env v up now project rows =
     (if \<not> up then Err Jwt_KeyStoreUnavailable
      else
        bindr (ok_or (List.find (signable project now) rows) Jwt_UnknownKey) (\<lambda>r.
        bindr (decrypt_key env v project (sk_kid r) (sk_encrypted_private_key r) (sk_encryption_key_version r)) (\<lambda>p.
          signer_from_bytes project (sk_kid r) p)))"

definition verification_key_from_row :: "jwt_env \<Rightarrow> token_uuid \<Rightarrow> signing_key_row \<Rightarrow> jwt_error + verification_key" where
  "verification_key_from_row env project r =
     (if length (sk_public_key r) \<noteq> 32 \<or> \<not> je_key_ok env (sk_public_key r) then Err Jwt_KeyStoreUnavailable
      else
        bindr (if sk_status r = ''active'' then Ok Key_Active else if sk_status r = ''grace'' then Ok Key_Grace
               else Err Jwt_KeyStoreUnavailable) (\<lambda>s.
          Ok \<lparr>vk_project_id = project, vk_kid = sk_kid r, vk_public_key = sk_public_key r, vk_status = s,
            vk_valid_from_seconds = sk_valid_from_seconds r, vk_valid_until_seconds = sk_valid_until_seconds r\<rparr>))"

definition verification_keys :: "jwt_env \<Rightarrow> bool \<Rightarrow> token_uuid \<Rightarrow> signing_key_row list \<Rightarrow> jwt_error + verification_key list" where
  "verification_keys env up project rows =
     (if \<not> up then Err Jwt_KeyStoreUnavailable
      else mapr (verification_key_from_row env project)
        (filter (\<lambda>r. sk_project_id r = project \<and> sk_status r \<in> {''active'', ''grace''} \<and> \<not> sk_revoked r) rows))"

section \<open>Verifying credentials\<close>

datatype credential_error =
    Cred_Invalid | Cred_Expired | Cred_WrongProject | Cred_InsufficientScope | Cred_Disabled | Cred_Unavailable

record credential_state =
  cs_api_keys :: "api_key_record list"
  cs_project_organizations :: "(token_uuid \<times> token_uuid) list"
  cs_accounts :: account_state
  cs_keys :: "signing_key_row list"
  cs_sessions :: refresh_state
  cs_verification_required :: "(token_uuid \<times> bool) list"

record credential_env =
  ce_tokens :: token_env
  ce_jwt :: jwt_env
  ce_show_uuid :: "token_uuid \<Rightarrow> string"

record credential_verifier =
  cv_codec :: opaque_token_codec
  cv_issuer :: jwt_issuer

definition verifier_new :: "string \<Rightarrow> string \<Rightarrow> string \<Rightarrow> credential_error + credential_verifier" where
  "verifier_new p iss aud =
     bindr (map_err (\<lambda>_. Cred_Invalid) (api_key_codec_new p)) (\<lambda>c.
     bindr (map_err (\<lambda>_. Cred_Invalid) (issuer_new iss aud)) (\<lambda>i.
       Ok \<lparr>cv_codec = c, cv_issuer = i\<rparr>))"

definition verify_developer_at ::
    "credential_env \<Rightarrow> credential_verifier \<Rightarrow> bool \<Rightarrow> credential_state \<Rightarrow> token_uuid \<Rightarrow> string \<Rightarrow> developer_scope \<Rightarrow> int
      \<Rightarrow> credential_error + developer_identity" where
  "verify_developer_at env v up st project token scope now =
     bindr (map_err (\<lambda>_. Cred_Invalid) (parse_and_digest (ce_tokens env) (cv_codec v) token)) (\<lambda>candidate.
       if \<not> up then Err Cred_Unavailable
       else
         bindr (ok_or (List.find (\<lambda>r. ak_prefix r = tp_prefix candidate) (cs_api_keys st)) Cred_Invalid) (\<lambda>r.
           case api_key_verify (ce_show_uuid env) candidate r now of
             Key_Rejected \<Rightarrow> Err Cred_Invalid
           | Key_Verified identity \<Rightarrow>
               if (case ak_project_id r of
                     Some p \<Rightarrow> p \<noteq> project
                   | None \<Rightarrow> map_of (cs_project_organizations st) project \<noteq> Some (ak_organization_id r))
               then Err Cred_WrongProject
               else if scope \<notin> set (ak_scopes r) then Err Cred_InsufficientScope
               else Ok identity))"

fun map_jwt_error :: "jwt_error \<Rightarrow> credential_error" where
  "map_jwt_error Jwt_TimeInvalid = Cred_Expired"
| "map_jwt_error Jwt_KeyStoreUnavailable = Cred_Unavailable"
| "map_jwt_error Jwt_KeyGeneration = Cred_Unavailable"
| "map_jwt_error _ = Cred_Invalid"

definition verify_end_user_token_with_policy ::
    "credential_env \<Rightarrow> credential_verifier \<Rightarrow> bool \<Rightarrow> credential_state \<Rightarrow> token_uuid \<Rightarrow> string \<Rightarrow> int \<Rightarrow> bool
      \<Rightarrow> credential_error + verified_access_token" where
  "verify_end_user_token_with_policy env v up st project token now_seconds verification_required =
     bindr (map_err map_jwt_error (verification_keys (ce_jwt env) up project (cs_keys st))) (\<lambda>keys.
     bindr (map_err map_jwt_error (issuer_verify (ce_jwt env) (cv_issuer v) token project keys now_seconds)) (\<lambda>t.
       if uc_project_id (va_context t) \<noteq> project then Err Cred_WrongProject
       else
         bindr (ok_or (find_by_id project (uc_subject (va_context t)) (cs_accounts st)) Cred_Invalid) (\<lambda>u.
           if au_disabled_at_ms u \<noteq> None then Err Cred_Disabled
           else if verification_required \<and> au_email_verified_at_ms u = None
             \<or> va_issued_at t < au_password_changed_at_ms u div 1000
           then Err Cred_Invalid
           else Ok t)))"

text \<open>A session of the user is live while neither it nor its refresh family is revoked and it has not expired.\<close>

definition live_session :: "refresh_state \<Rightarrow> token_uuid \<Rightarrow> token_uuid \<Rightarrow> token_uuid \<Rightarrow> int \<Rightarrow> bool" where
  "live_session rs project user session now_seconds =
     (case hm_get (sessions rs) session of
        None \<Rightarrow> False
      | Some s \<Rightarrow>
          se_project_id s = project \<and> se_user_id s = user \<and> se_revoked_at_ms s = None
          \<and> se_expires_at_ms s > now_seconds * 1000
          \<and> list_ex (\<lambda>(_, f). fa_session_id f = session \<and> fa_project_id f = project \<and> fa_user_id f = user
              \<and> fa_revoked_at_ms f = None) (families rs))"

definition verify_end_user_token_with_project_policy ::
    "credential_env \<Rightarrow> credential_verifier \<Rightarrow> bool \<Rightarrow> credential_state \<Rightarrow> token_uuid \<Rightarrow> string \<Rightarrow> int
      \<Rightarrow> credential_error + verified_access_token" where
  "verify_end_user_token_with_project_policy env v up st project token now_seconds =
     (if \<not> up then Err Cred_Unavailable
      else case map_of (cs_verification_required st) project of
        None \<Rightarrow> Err Cred_Unavailable
      | Some required \<Rightarrow>
          bindr (verify_end_user_token_with_policy env v up st project token now_seconds required) (\<lambda>t.
          bindr (ok_or (va_session_id t) Cred_Invalid) (\<lambda>session.
            if live_session (cs_sessions st) project (uc_subject (va_context t)) session now_seconds then Ok t
            else Err Cred_Invalid)))"

datatype credential_mode = Cred_Developer developer_identity | Cred_EndUser user_context

definition verify_query_credential ::
    "credential_env \<Rightarrow> credential_verifier \<Rightarrow> bool \<Rightarrow> credential_state \<Rightarrow> token_uuid \<Rightarrow> string \<Rightarrow> int
      \<Rightarrow> credential_error + credential_mode" where
  "verify_query_credential env v up st project token now =
     (if starts_with token ''ffdb_dev_''
      then bindr (verify_developer_at env v up st project token DatabaseQuery now) (\<lambda>d. Ok (Cred_Developer d))
      else bindr (verify_end_user_token_with_project_policy env v up st project token (now div 1000)) (\<lambda>t.
        Ok (Cred_EndUser (va_context t))))"

end
