(* ===== verification/Account_Properties.thy ===== *)
theory Account_Properties
  imports Auth_Credentials Auth_One_Time
begin

text \<open>
  The accounts of projects: the two indexes agree and an address belongs to one account; a disabled
  account is locked out for good; and who registers can sign in and be issued access tokens.
\<close>

section \<open>Accounts over any sequence of calls\<close>

text \<open>The calls of the service that change something, for any projects. New accounts have fresh identifiers.\<close>

inductive service_step :: "account_env \<Rightarrow> service_state \<Rightarrow> service_state \<Rightarrow> bool" for env where
  register: "register_with_policy env sv uid salt email pw claims required min_length now st = (r, st') \<Longrightarrow>
    hm_get (as_by_id (ss_accounts st)) (sv_project_id sv, uid) = None \<Longrightarrow> service_step env st st'"
| issue_verification: "issue_verification env sv ent tid user now st = (r, st') \<Longrightarrow> service_step env st st'"
| issue_for_email: "issue_verification_for_email env sv ent tid email now st = (r', st') \<Longrightarrow> service_step env st st'"
| issue_reset: "issue_password_reset env sv ent tid email now st = (r', st') \<Longrightarrow> service_step env st st'"
| verify: "verify_email env sv token now st = (r'', st') \<Longrightarrow> service_step env st st'"
| reset: "reset_password env sv salt token pw now st = (r'', st') \<Longrightarrow> service_step env st st'"
| change: "change_password env sv salt user old pw now st = (r3, st') \<Longrightarrow> service_step env st st'"
| disable: "disable_user sv user now st = (r3, st') \<Longrightarrow> service_step env st st'"

text \<open>What a step does to the accounts: nothing, a new account, or one account with the same identity and address.\<close>

definition same_account :: "auth_user \<Rightarrow> auth_user \<Rightarrow> bool" where
  "same_account u u' \<longleftrightarrow>
     au_id u' = au_id u \<and> au_project_id u' = au_project_id u \<and> au_normalized_email u' = au_normalized_email u
     \<and> au_role u' = au_role u \<and> au_custom_claims u' = au_custom_claims u
     \<and> (au_disabled_at_ms u \<noteq> None \<longrightarrow> au_disabled_at_ms u' = au_disabled_at_ms u)"

inductive account_change :: "account_state \<Rightarrow> account_state \<Rightarrow> bool" where
  none: "account_change a a"
| insert: "account_insert u a = (Ok (), a') \<Longrightarrow> hm_get (as_by_id a) (au_project_id u, au_id u) = None \<Longrightarrow> account_change a a'"
| update: "update_account p i f a = (r, a') \<Longrightarrow> (\<And>u. same_account u (f u)) \<Longrightarrow> account_change a a'"

lemma same_account_updates:
  "same_account u (u\<lparr>au_email_verified_at_ms := v\<rparr>)" "same_account u (u\<lparr>au_password_hash := h, au_password_changed_at_ms := t\<rparr>)"
  "same_account u (u\<lparr>au_disabled_at_ms := get_or_insert t (au_disabled_at_ms u)\<rparr>)"
  by (auto simp: same_account_def get_or_insert_def)

lemma issue_one_time_accounts:
  "issue_one_time env sv ent tid user purpose now st = (r, st') \<Longrightarrow> ss_accounts st' = ss_accounts st"
  by (auto simp: issue_one_time_def split: prod.split_asm)

lemma issue_verification_accounts:
  "issue_verification env sv ent tid user now st = (r, st') \<Longrightarrow> ss_accounts st' = ss_accounts st"
  by (auto simp: issue_verification_def dest: issue_one_time_accounts split: option.split_asm if_split_asm)

lemma consume_one_time_change:
  assumes "consume_one_time env sv token purpose now effect st = (r, st')"
    and "\<And>user a b a'. effect user a = (b, a') \<Longrightarrow> account_change a a'"
  shows "account_change (ss_accounts st) (ss_accounts st')"
  using assms by (auto simp: consume_one_time_def Let_def intro: account_change.none split: prod.split_asm sum.split_asm if_split_asm)

lemma set_account_change:
  "set_verified p i t a = (b, a') \<Longrightarrow> account_change a a'" "set_password p i h t a = (b, a') \<Longrightarrow> account_change a a'"
  "disable_account p i t a = (b, a') \<Longrightarrow> account_change a a'"
  unfolding set_verified_def set_password_def disable_account_def
  by (erule account_change.update, rule same_account_updates)+

lemma account_insert_Err: "account_insert u a = (Err e, a') \<Longrightarrow> a' = a"
  by (auto simp: account_insert_def Let_def split: if_split_asm)

lemma register_accounts:
  assumes "register_with_policy env sv uid salt email pw claims required min_length now st = (r, st')"
  shows "ss_accounts st' = ss_accounts st
    \<or> (\<exists>u. au_id u = uid \<and> au_project_id u = sv_project_id sv \<and> r = Ok u \<and> account_insert u (ss_accounts st) = (Ok (), ss_accounts st'))"
  using assms unfolding register_with_policy_def
  by (auto simp: bindr_eq_Ok dest: account_insert_Err split: if_split_asm sum.split_asm prod.split_asm)

lemma service_step_change:
  assumes "service_step env st st'"
  shows "account_change (ss_accounts st) (ss_accounts st')"
  using assms
proof cases
  case (register sv uid salt email pw claims required min_length now r)
  then show ?thesis using register_accounts [OF register(1)] by (auto intro: account_change.none account_change.insert)
next
  case (issue_verification sv ent tid user now r)
  then show ?thesis using issue_verification_accounts [OF issue_verification] by (simp add: account_change.none)
next
  case (issue_for_email sv ent tid email now r')
  then show ?thesis
    by (auto simp: issue_verification_for_email_def dest!: issue_verification_accounts intro: account_change.none
        split: sum.split_asm option.split_asm if_split_asm prod.split_asm)
next
  case (issue_reset sv ent tid email now r')
  then show ?thesis
    by (auto simp: issue_password_reset_def dest!: issue_one_time_accounts intro: account_change.none
        split: sum.split_asm option.split_asm if_split_asm prod.split_asm)
next
  case (verify sv token now r'')
  then show ?thesis unfolding verify_email_def by (rule consume_one_time_change) (rule set_account_change)
next
  case (reset sv salt token pw now r'')
  then show ?thesis
    by (auto simp: reset_password_def intro: account_change.none set_account_change elim!: consume_one_time_change split: sum.split_asm)
next
  case (change sv salt user old pw now r3)
  then show ?thesis
    by (auto simp: change_password_def Let_def intro: account_change.none set_account_change
        split: option.split_asm if_split_asm sum.split_asm prod.split_asm)
next
  case (disable sv user now r3)
  then show ?thesis by (auto simp: disable_user_def intro: set_account_change split: prod.split_asm)
qed

section \<open>The indexes\<close>

definition accounts_ok :: "account_state \<Rightarrow> bool" where
  "accounts_ok a \<longleftrightarrow>
     (\<forall>p e i. hm_get (as_by_email a) (p, e) = Some i \<longrightarrow>
        (\<exists>u. hm_get (as_by_id a) (p, i) = Some u \<and> au_normalized_email u = e))
     \<and> (\<forall>p i u. hm_get (as_by_id a) (p, i) = Some u \<longrightarrow>
        au_id u = i \<and> au_project_id u = p \<and> hm_get (as_by_email a) (p, au_normalized_email u) = Some i)"

lemma accounts_okI:
  assumes "\<And>p e i. hm_get (as_by_email a) (p, e) = Some i \<Longrightarrow> \<exists>u. hm_get (as_by_id a) (p, i) = Some u \<and> au_normalized_email u = e"
    and "\<And>p i u. hm_get (as_by_id a) (p, i) = Some u \<Longrightarrow>
      au_id u = i \<and> au_project_id u = p \<and> hm_get (as_by_email a) (p, au_normalized_email u) = Some i"
  shows "accounts_ok a"
  unfolding accounts_ok_def using assms by blast

lemma accounts_ok_email:
  "accounts_ok a \<Longrightarrow> hm_get (as_by_email a) (p, e) = Some i \<Longrightarrow>
    \<exists>u. hm_get (as_by_id a) (p, i) = Some u \<and> au_normalized_email u = e"
  unfolding accounts_ok_def by blast

lemma accounts_ok_id:
  "accounts_ok a \<Longrightarrow> hm_get (as_by_id a) (p, i) = Some u \<Longrightarrow>
    au_id u = i \<and> au_project_id u = p \<and> hm_get (as_by_email a) (p, au_normalized_email u) = Some i"
  unfolding accounts_ok_def by blast

lemma account_change_ok:
  assumes "account_change a a'" and "accounts_ok a"
  shows "accounts_ok a'"
  using assms(1)
proof cases
  case none
  then show ?thesis using assms(2) by simp
next
  case (insert u)
  then have a': "hm_get (as_by_email a) (au_project_id u, au_normalized_email u) = None"
      "a' = a\<lparr>as_by_email := hm_insert (au_project_id u, au_normalized_email u) (au_id u) (as_by_email a),
        as_by_id := hm_insert (au_project_id u, au_id u) u (as_by_id a)\<rparr>"
    by (auto simp: account_insert_def Let_def hm_contains_key_def split: if_split_asm)
  show ?thesis
  proof (rule accounts_okI)
    fix p e i
    assume "hm_get (as_by_email a') (p, e) = Some i"
    then show "\<exists>x. hm_get (as_by_id a') (p, i) = Some x \<and> au_normalized_email x = e"
      using accounts_ok_email [OF assms(2), of p e i] insert(2)
      by (cases "(p, e) = (au_project_id u, au_normalized_email u)") (auto simp: a'(2) hm_get_insert)
  next
    fix p i x
    assume "hm_get (as_by_id a') (p, i) = Some x"
    then show "au_id x = i \<and> au_project_id x = p \<and> hm_get (as_by_email a') (p, au_normalized_email x) = Some i"
      using accounts_ok_id [OF assms(2), of p i x] a'(1)
      by (cases "(p, i) = (au_project_id u, au_id u)") (auto simp: a'(2) hm_get_insert)
  qed
next
  case (update p i f r)
  show ?thesis
  proof (cases "hm_get (as_by_id a) (p, i)")
    case None
    then show ?thesis using update(1) assms(2) by (simp add: update_account_def)
  next
    case (Some u)
    then have a': "a' = a\<lparr>as_by_id := hm_insert (p, i) (f u) (as_by_id a)\<rparr>" using update(1) by (simp add: update_account_def)
    have same: "same_account u (f u)" by (rule update(2))
    show ?thesis
    proof (rule accounts_okI)
      fix q e j
      assume "hm_get (as_by_email a') (q, e) = Some j"
      then show "\<exists>x. hm_get (as_by_id a') (q, j) = Some x \<and> au_normalized_email x = e"
        using accounts_ok_email [OF assms(2), of q e j] same Some
        by (cases "(q, j) = (p, i)") (auto simp: a' hm_get_insert same_account_def)
    next
      fix q j x
      assume "hm_get (as_by_id a') (q, j) = Some x"
      then show "au_id x = j \<and> au_project_id x = q \<and> hm_get (as_by_email a') (q, au_normalized_email x) = Some j"
        using accounts_ok_id [OF assms(2), of q j] same Some
        by (cases "(q, j) = (p, i)") (auto simp: a' hm_get_insert same_account_def)
    qed
  qed
qed

interpretation accounts: transition_system "\<lambda>st. ss_accounts st = account_default" "service_step env"
    "\<lambda>st. accounts_ok (ss_accounts st)" for env
  by unfold_locales (simp add: accounts_ok_def account_default_def hm_get_def, blast intro: account_change_ok service_step_change)

definition locked :: "token_uuid \<Rightarrow> token_uuid \<Rightarrow> account_state \<Rightarrow> bool" where
  "locked p i a \<longleftrightarrow> accounts_ok a \<and> (\<exists>u. hm_get (as_by_id a) (p, i) = Some u \<and> au_disabled_at_ms u \<noteq> None)"

lemma account_change_locked:
  assumes "account_change a a'" and "locked p i a"
  shows "locked p i a'"
proof -
  have ok: "accounts_ok a'" using account_change_ok assms by (auto simp: locked_def)
  from assms(1) show ?thesis
  proof cases
    case (insert u)
    then show ?thesis
      using assms(2) ok by (auto simp: locked_def account_insert_def Let_def hm_get_insert split: if_split_asm)
  next
    case (update q j f r)
    have "same_account u (f u)" for u by (rule update(2))
    then show ?thesis
      using assms(2) update(1) ok
      by (auto simp: locked_def update_account_def hm_get_insert same_account_def split: option.split_asm if_split_asm)
  qed (use assms(2) in simp)
qed

interpretation lockout: transition_system "\<lambda>st. locked p i (ss_accounts st)" "service_step env"
    "\<lambda>st. locked p i (ss_accounts st)" for env p i
  by unfold_locales (simp, blast intro: account_change_locked service_step_change)

lemma authenticate_Ok:
  assumes "authenticate_with_policy env sv email pw required st = Ok a"
  obtains e u where "normalize_email email = Ok e" "find_by_email (sv_project_id sv) e (ss_accounts st) = Some u"
    "au_disabled_at_ms u = None" "ad_user_id a = au_id u"
proof -
  obtain e where e: "normalize_email email = Ok e"
      "(case find_by_email (sv_project_id sv) e (ss_accounts st) of
         None \<Rightarrow>
           bindr (map_err Acc_Password (verify_password (an_passwords env) (sv_hasher sv) pw (sv_dummy_hash sv))) (\<lambda>_.
             Err Acc_InvalidCredentials)
       | Some u \<Rightarrow>
           bindr (map_err Acc_Password (verify_password (an_passwords env) (sv_hasher sv) pw (au_password_hash u))) (\<lambda>v.
             if \<not> matches v then Err Acc_InvalidCredentials
             else if au_disabled_at_ms u \<noteq> None then Err Acc_Disabled
             else if required \<and> au_email_verified_at_ms u = None then Err Acc_VerificationRequired
             else Ok \<lparr>ad_user_id = au_id u, ad_user_project_id = au_project_id u, ad_normalized_email = au_normalized_email u,
               ad_role = au_role u, ad_custom_claims = au_custom_claims u,
               ad_email_verified = (au_email_verified_at_ms u \<noteq> None), ad_created_at_ms = au_created_at_ms u\<rparr>)) = Ok a"
    using assms unfolding authenticate_with_policy_def by (simp only: bindr_eq_Ok map_err_eq_Ok) blast
  then show thesis
    using that [of e] by (cases "find_by_email (sv_project_id sv) e (ss_accounts st)") (auto simp: bindr_eq_Ok split: if_split_asm)
qed

text \<open>
  C17. Nobody signs in to a disabled account again. When an account has been disabled, then after any later
  calls, for whatever projects, no address and password sign in as it; \<open>change_password\<close> is refused and
  changes nothing; and no verification or reset token is issued for it, by identifier or by address. A reset
  token issued before the disabling can still be redeemed: \<open>reset_password\<close> is among the later calls, so
  the account stays locked out with the new password too (\<open>outstanding_reset_changes_disabled_password\<close>).
\<close>

theorem disabled_account_stays_locked_out:
  assumes "(service_step env)\<^sup>*\<^sup>* \<lparr>ss_accounts = account_default, ss_one_time = ot\<rparr> st" and "disable_user sv user now st = (Ok (), st1)"
    and "(service_step env)\<^sup>*\<^sup>* st1 st2"
  shows "(\<forall>a. authenticate_with_policy env sv email pw required st2 = Ok a \<longrightarrow> ad_user_id a \<noteq> user)
    \<and> change_password env sv salt user old pw t st2 = (Err Acc_InvalidCredentials, st2)
    \<and> issue_verification env sv ent tid user t st2 = (Err Acc_Disabled, st2)
    \<and> (\<forall>u. find_by_id (sv_project_id sv) user (ss_accounts st2) = Some u \<longrightarrow> normalize_email email = Ok (au_normalized_email u) \<longrightarrow>
         issue_password_reset env sv ent tid email t st2 = (Ok None, st2)
         \<and> issue_verification_for_email env sv ent tid email t st2 = (Ok None, st2))"
proof -
  have "accounts_ok (ss_accounts st)" by (rule accounts.reachable_inv [OF _ assms(1)]) simp
  then have "accounts_ok (ss_accounts st1)"
    using accounts.step_inv [OF service_step.disable [OF assms(2)]] by blast
  then have "locked (sv_project_id sv) user (ss_accounts st1)"
    using assms(2)
    by (auto simp: locked_def disable_user_def disable_account_def update_account_def hm_get_insert get_or_insert_def
        split: option.split_asm prod.split_asm if_split_asm option.split)
  then have "locked (sv_project_id sv) user (ss_accounts st2)" by (rule lockout.reachable_inv [OF _ assms(3)])
  then obtain u where u: "accounts_ok (ss_accounts st2)" "hm_get (as_by_id (ss_accounts st2)) (sv_project_id sv, user) = Some u"
      "au_disabled_at_ms u \<noteq> None"
    unfolding locked_def by blast
  have email: "hm_get (as_by_email (ss_accounts st2)) (sv_project_id sv, au_normalized_email u) = Some user"
    using accounts_ok_id [OF u(1,2)] by blast
  have "ad_user_id a \<noteq> user" if auth: "authenticate_with_policy env sv email pw required st2 = Ok a" for a
  proof -
    obtain e x where e: "find_by_email (sv_project_id sv) e (ss_accounts st2) = Some x" "au_disabled_at_ms x = None"
        "ad_user_id a = au_id x"
      by (rule authenticate_Ok [OF auth]) blast
    then obtain i where x: "hm_get (as_by_email (ss_accounts st2)) (sv_project_id sv, e) = Some i"
        "hm_get (as_by_id (ss_accounts st2)) (sv_project_id sv, i) = Some x"
      by (auto simp: find_by_email_def split: option.split_asm)
    then show ?thesis using accounts_ok_id [OF u(1) x(2)] u(2,3) e by auto
  qed
  moreover have "change_password env sv salt user old pw t st2 = (Err Acc_InvalidCredentials, st2)"
      "issue_verification env sv ent tid user t st2 = (Err Acc_Disabled, st2)"
    using u by (auto simp: change_password_def issue_verification_def find_by_id_def)
  moreover have "issue_password_reset env sv ent tid email t st2 = (Ok None, st2)
      \<and> issue_verification_for_email env sv ent tid email t st2 = (Ok None, st2)"
    if "find_by_id (sv_project_id sv) user (ss_accounts st2) = Some x" "normalize_email email = Ok (au_normalized_email x)" for x
    using u email that
    by (auto simp: issue_password_reset_def issue_verification_for_email_def find_by_email_def find_by_id_def)
  ultimately show ?thesis by blast
qed

section \<open>Signing in\<close>

text \<open>What is used of Argon2: a hash it makes parses, names the algorithm, and verifies the password it was made of.\<close>

definition password_laws :: "password_env \<Rightarrow> bool" where
  "password_laws env \<longleftrightarrow>
     (\<forall>h salt pw e. pe_hash env h salt pw = Some e \<longrightarrow>
        pe_verify env e pw = Some True \<and> (\<exists>p. pe_parse env e = Some p \<and> ph_algorithm p = ''argon2id''))"

lemma hash_verifies:
  assumes "password_laws env" and "hash_password env h salt pw = Ok hash"
  shows "\<exists>v. verify_password env h pw hash = Ok v \<and> matches v"
proof -
  have *: "validate_password h pw = Ok ()" "hasher_engine env h = Ok ()" "pe_hash env h salt pw = Some hash"
    using assms(2) by (auto simp: hash_password_def bindr_eq_Ok ok_or_eq_Ok password_hash_parse_def split: if_split_asm)
  then obtain p where "pe_verify env hash pw = Some True" "pe_parse env hash = Some p" "ph_algorithm p = ''argon2id''"
    using assms(1) unfolding password_laws_def by blast
  then show ?thesis using * by (simp add: verify_password_def matches_def)
qed

lemma valid_claim_bounded: "valid_claim_value v depth \<Longrightarrow> is_bounded_json v depth"
  by (induction v depth rule: is_bounded_json.induct) (auto simp: list_all_iff)

lemma registered_account:
  assumes "register_with_policy env sv uid salt email pw claims required min_length now st = (Ok u, st')"
  obtains e where "normalize_email email = Ok e" "validate_custom_claims (an_claims_json env) claims = Ok ()"
    "hash_password (an_passwords env) (sv_hasher sv) salt pw = Ok (au_password_hash u)"
    "account_insert u (ss_accounts st) = (Ok (), ss_accounts st')" "au_id u = uid" "au_project_id u = sv_project_id sv"
    "au_normalized_email u = e" "au_role u = ''authenticated''" "au_custom_claims u = claims" "au_disabled_at_ms u = None"
    "required \<or> au_email_verified_at_ms u \<noteq> None"
  using assms unfolding register_with_policy_def
  by (auto simp: bindr_eq_Ok map_err_eq_Ok split: if_split_asm sum.split_asm prod.split_asm)

lemma registered_claims_issue:
  assumes "validate_custom_claims to_vec claims = Ok ()" and "issuer_new iss aud = Ok i"
    and "60 \<le> sp_ttl_seconds policy" and "sp_ttl_seconds policy \<le> MAX_ACCESS_TOKEN_LIFETIME_SECONDS"
    and "i64_min \<le> sp_now_seconds policy" and "sp_now_seconds policy + sp_ttl_seconds policy \<le> i64_max"
  shows "\<exists>c. claims_with_session_policy i jti project subject ''authenticated'' claims policy = Ok c"
proof -
  have "checked_add_i64 (sp_now_seconds policy) (sp_ttl_seconds policy) = Some (sp_now_seconds policy + sp_ttl_seconds policy)"
    using assms(3,5,6) by (simp add: checked_add_i64_Some)
  moreover have "length claims \<le> 32" "list_all (\<lambda>(k, v). k \<noteq> [] \<and> length k \<le> 64 \<and> is_bounded_json v 0) claims"
    using assms(1) by (auto simp: validate_custom_claims_def bindr_eq_Ok list_all_iff valid_claim_bounded split: if_split_asm)
  moreover have "ji_issuer i \<noteq> []" "length (ji_issuer i) \<le> 256" "ji_audience i \<noteq> []" "length (ji_audience i) \<le> 128"
    using assms(2) by (auto simp: issuer_new_def split: if_split_asm)
  moreover have "list_all (\<lambda>b. is_ascii_alphanumeric b \<or> b \<in> {CHR ''_'', CHR ''-'', CHR '':''}) ''authenticated''" by code_simp
  ultimately show ?thesis
    using assms(3,4) by (simp add: claims_with_session_policy_def validate_claim_strings_def)
qed

text \<open>
  Who registers can sign in and be issued tokens. After a registration, the same password signs in
  under every spelling of the address with the same normal form, as the new account with the role
  \<open>authenticated\<close> and the registered claims, unless verification is required and the account was
  registered unverified; and for every issuer and admissible lifetime, claims for an access token of it are
  made without error.
\<close>

theorem registered_account_signs_in:
  assumes "password_laws (an_passwords env)"
    and "register_with_policy env sv uid salt email pw claims required min_length now st = (Ok u, st')"
    and "normalize_email email' = normalize_email email" and "required' \<longrightarrow> \<not> required"
    and "issuer_new iss aud = Ok i" and "60 \<le> sp_ttl_seconds policy" and "sp_ttl_seconds policy \<le> MAX_ACCESS_TOKEN_LIFETIME_SECONDS"
    and "i64_min \<le> sp_now_seconds policy" and "sp_now_seconds policy + sp_ttl_seconds policy \<le> i64_max"
  shows "\<exists>a c. authenticate_with_policy env sv email' pw required' st' = Ok a
    \<and> ad_user_id a = uid \<and> ad_role a = ''authenticated'' \<and> ad_custom_claims a = claims
    \<and> claims_with_session_policy i jti (ad_user_project_id a) (ad_user_id a) (ad_role a) (ad_custom_claims a) policy = Ok c"
proof -
  obtain e where e: "normalize_email email = Ok e" "validate_custom_claims (an_claims_json env) claims = Ok ()"
      "hash_password (an_passwords env) (sv_hasher sv) salt pw = Ok (au_password_hash u)"
      "account_insert u (ss_accounts st) = (Ok (), ss_accounts st')"
    and u: "au_id u = uid" "au_project_id u = sv_project_id sv" "au_normalized_email u = e" "au_role u = ''authenticated''"
      "au_custom_claims u = claims" "au_disabled_at_ms u = None" "required \<or> au_email_verified_at_ms u \<noteq> None"
    by (rule registered_account [OF assms(2)])
  have "find_by_email (sv_project_id sv) e (ss_accounts st') = Some u"
  proof -
    have "ss_accounts st' = (ss_accounts st)\<lparr>as_by_email := hm_insert (sv_project_id sv, e) uid (as_by_email (ss_accounts st)),
        as_by_id := hm_insert (sv_project_id sv, uid) u (as_by_id (ss_accounts st))\<rparr>"
      using e(4) u(1-3) by (auto simp: account_insert_def Let_def split: if_split_asm)
    then show ?thesis by (simp add: find_by_email_def hm_get_insert)
  qed
  moreover obtain v where "verify_password (an_passwords env) (sv_hasher sv) pw (au_password_hash u) = Ok v" "matches v"
    using hash_verifies [OF assms(1) e(3)] by blast
  ultimately have "authenticate_with_policy env sv email' pw required' st' =
      Ok \<lparr>ad_user_id = uid, ad_user_project_id = sv_project_id sv, ad_normalized_email = e, ad_role = ''authenticated'',
        ad_custom_claims = claims, ad_email_verified = (au_email_verified_at_ms u \<noteq> None), ad_created_at_ms = au_created_at_ms u\<rparr>"
    using e(1) assms(3,4) u by (auto simp: authenticate_with_policy_def)
  then show ?thesis using registered_claims_issue [OF e(2) assms(5-9)] by simp
qed

section \<open>A concrete service\<close>

definition demo_passwords :: password_env where
  "demo_passwords = \<lparr>pe_params_ok = (\<lambda>_ _ _ _. True), pe_hash = (\<lambda>_ salt pw. Some (''$'' @ pw)),
     pe_parse = (\<lambda>_. Some \<lparr>ph_algorithm = ''argon2id'', ph_version = Some 19, ph_m = None, ph_t = None, ph_p = None\<rparr>),
     pe_verify = (\<lambda>h pw. Some (h = ''$'' @ pw))\<rparr>"

definition demo_account_env :: account_env where
  "demo_account_env = \<lparr>an_passwords = demo_passwords, an_tokens = demo_token_env, an_claims_json = (\<lambda>_. Some ''{}'')\<rparr>"

definition demo_service :: account_service where
  "demo_service = \<lparr>sv_project_id = 1, sv_hasher = hasher_default, sv_codec = demo_codec, sv_dummy_hash = ''$''\<rparr>"

definition demo_service_empty :: service_state where
  "demo_service_empty = \<lparr>ss_accounts = account_default, ss_one_time = one_time_default\<rparr>"

definition demo_registration :: "(account_error + auth_user) \<times> service_state" where
  "demo_registration = register_with_policy demo_account_env demo_service 7 ''salt'' ''Ada@Example.org'' ''correct horse''
     [(''team'', JString ''blue'')] False 8 1000 demo_service_empty"

theorem disabled_account_stays_locked_out_witness:
  "change_password demo_account_env demo_service ''salt'' 7 ''correct horse'' ''battery staple'' 3000
        (snd (disable_user demo_service 7 2000 (snd demo_registration)))
      = (Err Acc_InvalidCredentials, snd (disable_user demo_service 7 2000 (snd demo_registration)))
   \<and> issue_verification demo_account_env demo_service (demo_entropy CHR ''a'') 9 7 3000
        (snd (disable_user demo_service 7 2000 (snd demo_registration)))
      = (Err Acc_Disabled, snd (disable_user demo_service 7 2000 (snd demo_registration)))"
proof -
  have "(service_step demo_account_env)\<^sup>*\<^sup>* \<lparr>ss_accounts = account_default, ss_one_time = one_time_default\<rparr> (snd demo_registration)"
    unfolding demo_registration_def demo_service_empty_def
    by (rule r_into_rtranclp, rule service_step.register [OF surjective_pairing]) (simp add: account_default_def)
  moreover have "fst (disable_user demo_service 7 2000 (snd demo_registration)) = Ok ()" by code_simp
  then have "disable_user demo_service 7 2000 (snd demo_registration) = (Ok (), snd (disable_user demo_service 7 2000 (snd demo_registration)))"
    by (metis prod.collapse)
  ultimately show ?thesis using disabled_account_stays_locked_out by blast
qed

text \<open>
  A reset link sent before the account was disabled still changes its password: \<open>reset_password\<close> does not
  look at \<open>disabled_at_ms\<close>. The account remains disabled.
\<close>

definition demo_reset_sent :: service_state where
  "demo_reset_sent = snd (issue_password_reset demo_account_env demo_service (demo_entropy CHR ''a'') 9 ''ada@example.org'' 1500
     (snd demo_registration))"

definition demo_reset_late :: "(account_error + token_uuid) \<times> service_state" where
  "demo_reset_late = reset_password demo_account_env demo_service ''salt'' (demo_token CHR ''a'') ''battery staple'' 3000
     (snd (disable_user demo_service 7 2000 demo_reset_sent))"

lemma outstanding_reset_changes_disabled_password:
  "fst demo_reset_late = Ok 7
   \<and> map_option (\<lambda>u. au_disabled_at_ms u = Some 2000) (find_by_id 1 7 (ss_accounts (snd demo_reset_late))) = Some True
   \<and> map_option au_password_hash (find_by_id 1 7 (ss_accounts (snd demo_reset_late)))
       \<noteq> map_option au_password_hash (find_by_id 1 7 (ss_accounts demo_reset_sent))"
  by code_simp

theorem registered_account_signs_in_witness:
  "\<exists>a c. authenticate_with_policy demo_account_env demo_service ''ada@EXAMPLE.org'' ''correct horse'' True (snd demo_registration) = Ok a
    \<and> ad_user_id a = 7 \<and> ad_role a = ''authenticated'' \<and> ad_custom_claims a = [(''team'', JString ''blue'')]
    \<and> claims_with_session_policy \<lparr>ji_issuer = ''iss'', ji_audience = ''aud''\<rparr> 8 (ad_user_project_id a) (ad_user_id a) (ad_role a)
        (ad_custom_claims a) \<lparr>sp_session_id = None, sp_now_seconds = 1, sp_ttl_seconds = 60\<rparr> = Ok c"
proof -
  have laws: "password_laws (an_passwords demo_account_env)"
    by (simp add: password_laws_def demo_account_env_def demo_passwords_def)
  have "case fst demo_registration of Inr _ \<Rightarrow> True | Inl _ \<Rightarrow> False" by code_simp
  then obtain u where "fst demo_registration = Ok u" by (auto split: sum.split_asm)
  then have reg: "register_with_policy demo_account_env demo_service 7 ''salt'' ''Ada@Example.org'' ''correct horse''
     [(''team'', JString ''blue'')] False 8 1000 demo_service_empty = (Ok u, snd demo_registration)"
    unfolding demo_registration_def by (metis prod.collapse)
  have email: "normalize_email ''ada@EXAMPLE.org'' = normalize_email ''Ada@Example.org''" by code_simp
  have issuer: "issuer_new ''iss'' ''aud'' = Ok \<lparr>ji_issuer = ''iss'', ji_audience = ''aud''\<rparr>" by code_simp
  show ?thesis
    by (rule registered_account_signs_in [OF laws reg email _ issuer]) (simp_all add: MAX_ACCESS_TOKEN_LIFETIME_SECONDS_def i64_min_def i64_max_def)
qed

end
