(* ===== verification/Credential_Properties.thy ===== *)
theory Credential_Properties
  imports Auth_Credentials Auth_One_Time
begin

text \<open>
  Access tokens, signing keys and credentials: what is signed verifies, also after the key was rotated;
  and what is accepted as a credential was signed or issued for the project, in time, for a live account
  and session.
\<close>

section \<open>Access tokens\<close>

text \<open>What is used of base64url, JSON, Ed25519 and AES-GCM.\<close>

definition jwt_laws :: "jwt_env \<Rightarrow> bool" where
  "jwt_laws env \<longleftrightarrow>
     (\<forall>s. je_b64_decode env (je_b64_encode env s) = Some s) \<and> (\<forall>s. CHR ''.'' \<notin> set (je_b64_encode env s))
     \<and> (\<forall>s. length s \<le> length (je_b64_encode env s) \<and> length (je_b64_encode env s) \<le> 2 * length s)
     \<and> (\<forall>h s. je_header_json env h = Some s \<longrightarrow> je_parse_header env s = Some h \<and> s \<noteq> []
          \<and> length s \<le> 100 + length (jh_alg h) + length (jh_typ h) + 6 * length (jh_kid h))
     \<and> (\<forall>c s. je_claims_json env c = Some s \<longrightarrow> je_parse_claims env s = Some c \<and> s \<noteq> [])
     \<and> (\<forall>k m. length (je_sign env k m) = 64 \<and> je_verify env (je_public_key env k) m (je_sign env k m))
     \<and> (\<forall>k. je_key_ok env (je_public_key env k) \<and> length (je_public_key env k) = 32)"

lemma jwt_lawsD:
  assumes "jwt_laws env"
  shows "je_b64_decode env (je_b64_encode env s) = Some s" "CHR ''.'' \<notin> set (je_b64_encode env s)"
    "length (je_b64_encode env s) \<le> 2 * length s"
    "je_header_json env h = Some s \<Longrightarrow> je_parse_header env s = Some h" "je_header_json env h = Some s \<Longrightarrow> s \<noteq> []"
    "je_claims_json env c = Some s \<Longrightarrow> je_parse_claims env s = Some c" "je_claims_json env c = Some s \<Longrightarrow> s \<noteq> []"
    "length (je_sign env k m) = 64" "je_verify env (je_public_key env k) m (je_sign env k m)"
    "je_key_ok env (je_public_key env k)" "length (je_public_key env k) = 32"
    "je_header_json env h = Some s \<Longrightarrow> length s \<le> 100 + length (jh_alg h) + length (jh_typ h) + 6 * length (jh_kid h)"
    "length s \<le> length (je_b64_encode env s)"
  using assms unfolding jwt_laws_def by blast+

lemma decode_encoded:
  assumes "jwt_laws env" and "length s \<le> n" and "2 * n \<le> u64_max"
  shows "decode_segment env (je_b64_encode env s) n = Ok s"
proof -
  have "length (je_b64_encode env s) \<le> n * 2" using jwt_lawsD(3) [OF assms(1), of s] assms(2) by simp
  then show ?thesis
    using assms(2,3) jwt_lawsD(1) [OF assms(1), of s] by (simp add: decode_segment_def min_def)
qed

lemma encode_not_Nil:
  assumes "jwt_laws env" and "s \<noteq> []"
  shows "je_b64_encode env s \<noteq> []"
proof
  assume "je_b64_encode env s = []"
  moreover have "je_b64_encode env [] = []" using jwt_lawsD(3) [OF assms(1), of "[]"] by simp
  ultimately have "Some s = Some []" using jwt_lawsD(1) [OF assms(1), of s] jwt_lawsD(1) [OF assms(1), of "[]"] by simp
  then show False using assms(2) by simp
qed

text \<open>A signed token is accepted wherever its key is selected and its claims pass.\<close>

lemma signed_token_verifies:
  assumes "jwt_laws env" and "sign_token env s c = Ok token" and "validate_kid (sg_kid s) = Ok ()"
    and "length token \<le> MAX_BEARER_TOKEN_BYTES"
    and "select_key ex keys (sg_kid s) = Ok k" and "vk_public_key k = je_public_key env (sg_key s)"
    and "check_access_claims ex c = Ok ()"
  shows "verify_access_token env token ex keys = Ok (verified_from c (sg_kid s))"
proof -
  let ?h = "\<lparr>jh_alg = ''EdDSA'', jh_typ = ''JWT'', jh_kid = sg_kid s\<rparr>"
  obtain h p where hp: "je_header_json env ?h = Some h" "je_claims_json env c = Some p"
    and token: "token = je_b64_encode env h @ CHR ''.'' # je_b64_encode env p
      @ CHR ''.'' # je_b64_encode env (je_sign env (sg_key s) (je_b64_encode env h @ ''.'' @ je_b64_encode env p))"
    using assms(2) by (auto simp: sign_token_def bindr_eq_Ok ok_or_eq_Ok Let_def split: if_split_asm)
  let ?sig = "je_sign env (sg_key s) (je_b64_encode env h @ ''.'' @ je_b64_encode env p)"
  have segs: "split_on CHR ''.'' token = [je_b64_encode env h, je_b64_encode env p, je_b64_encode env ?sig]"
    unfolding token using jwt_lawsD(2) [OF assms(1)] by (simp add: split_on_append split_on_plain)
  have big: "2 * MAX_BEARER_TOKEN_BYTES \<le> u64_max" "2 * 1024 \<le> u64_max" "2 * 64 \<le> u64_max"
    by (simp_all add: MAX_BEARER_TOKEN_BYTES_def u64_max_def)
  have len: "length ?sig = 64" by (rule jwt_lawsD(8) [OF assms(1)])
  then have "?sig \<noteq> []" by auto
  then have ne: "je_b64_encode env h \<noteq> []" "je_b64_encode env p \<noteq> []" "je_b64_encode env ?sig \<noteq> []"
    using encode_not_Nil [OF assms(1)] jwt_lawsD(5,7) [OF assms(1)] hp by blast+
  have "length (sg_kid s) \<le> 64" using assms(3) by (auto simp: validate_kid_def split: if_split_asm)
  then have "length h \<le> 1024" using jwt_lawsD(12) [OF assms(1) hp(1)] by simp
  moreover have "length p \<le> MAX_BEARER_TOKEN_BYTES"
    using jwt_lawsD(13) [OF assms(1), of p] assms(4) by (simp add: token)
  ultimately
  have dec: "decode_segment env (je_b64_encode env h) 1024 = Ok h" "decode_segment env (je_b64_encode env ?sig) 64 = Ok ?sig"
      "decode_segment env (je_b64_encode env p) MAX_BEARER_TOKEN_BYTES = Ok p"
    using decode_encoded [OF assms(1)] big len hp by simp_all
  have parse: "je_parse_header env h = Some ?h" "je_parse_claims env p = Some c"
    using jwt_lawsD(4,6) [OF assms(1)] hp by blast+
  have ver: "je_verify env (vk_public_key k) (je_b64_encode env h @ ''.'' @ je_b64_encode env p) ?sig"
    unfolding assms(6) by (rule jwt_lawsD(9) [OF assms(1)])
  show ?thesis
    using assms(3-5,7) segs ne dec parse ver len token unfolding verify_access_token_def by simp
qed

section \<open>Signing keys\<close>

definition key_laws :: "key_env \<Rightarrow> bool" where
  "key_laws env \<longleftrightarrow> jwt_laws (ke_jwt env)
     \<and> (\<forall>k n a p c. ke_seal env k n a p = Some c \<longrightarrow> ke_open env k n a c = Some p \<and> length c = length p + 16)"

text \<open>The steps of the key table. Random keys have 32 bytes and nonces 12.\<close>

inductive key_step :: "key_env \<Rightarrow> key_envelope \<Rightarrow> signing_key_row list \<Rightarrow> signing_key_row list \<Rightarrow> bool"
  for env v where
  bootstrap: "bootstrap_key env v entropy nonce u up ex project now rows = (r, rows') \<Longrightarrow>
    opt_all (\<lambda>x. length x = 32) entropy \<Longrightarrow> opt_all (\<lambda>x. length x = 12) nonce \<Longrightarrow> key_step env v rows rows'"
| rotate: "rotate_key env v entropy nonce u up ex project now grace rows = (r, rows') \<Longrightarrow>
    opt_all (\<lambda>x. length x = 32) entropy \<Longrightarrow> opt_all (\<lambda>x. length x = 12) nonce \<Longrightarrow> key_step env v rows rows'"

definition key_row_ok :: "key_env \<Rightarrow> key_envelope \<Rightarrow> signing_key_row \<Rightarrow> bool" where
  "key_row_ok env v r \<longleftrightarrow>
     sk_status r \<in> {''active'', ''grace''} \<and> \<not> sk_revoked r
     \<and> (sk_status r = ''active'' \<longrightarrow> sk_valid_until_seconds r = None) \<and> validate_kid (sk_kid r) = Ok ()
     \<and> (\<exists>k. decrypt_key env v (sk_project_id r) (sk_kid r) (sk_encrypted_private_key r) (sk_encryption_key_version r) = Ok k
          \<and> sk_public_key r = je_public_key (ke_jwt env) k)"

definition keys_ok :: "key_env \<Rightarrow> key_envelope \<Rightarrow> signing_key_row list \<Rightarrow> bool" where
  "keys_ok env v rows \<longleftrightarrow>
     distinct (map (\<lambda>r. (sk_project_id r, sk_kid r)) rows)
     \<and> (\<forall>p. length (filter (is_active p) rows) \<le> 1) \<and> list_all (key_row_ok env v) rows"

lemma generate_key_Ok:
  assumes "key_laws env" and "generate_key env v entropy nonce u project now = Ok g"
    and "opt_all (\<lambda>x. length x = 32) entropy" and "opt_all (\<lambda>x. length x = 12) nonce"
  shows "key_row_ok env v g \<and> sk_project_id g = project \<and> sk_status g = ''active''"
proof -
  let ?kid = "''key_'' @ u"
  obtain k n aad c where k: "validate_kid ?kid = Ok ()" "entropy = Some k" "nonce = Some n"
      "signing_key_aad env project ?kid (kv_version v) = Ok aad" "ke_seal env (kv_master_key v) n aad k = Some c"
    and g: "g = \<lparr>sk_project_id = project, sk_kid = ?kid, sk_public_key = je_public_key (ke_jwt env) k,
      sk_encrypted_private_key = n @ c, sk_encryption_key_version = kv_version v, sk_status = ''active'',
      sk_valid_from_seconds = now, sk_valid_until_seconds = None, sk_revoked = False\<rparr>"
    using assms(2)
    by (auto simp: generate_key_def Let_def bindr_eq_Ok map_err_eq_Ok signer_generate_def encrypt_key_def ok_or_eq_Ok)
  have "ke_open env (kv_master_key v) n aad c = Some k" "length c = length k + 16"
    using assms(1) k(5) unfolding key_laws_def by blast+
  moreover have "length k = 32" "length n = 12" using assms(3,4) k(2,3) by simp_all
  ultimately have "decrypt_key env v project ?kid (n @ c) (kv_version v) = Ok k"
    using k(4) by (simp add: decrypt_key_def)
  then show ?thesis using k(1) g by (auto simp: key_row_ok_def)
qed

lemma retire_key_same [simp]:
  "sk_project_id (retire_key p t r) = sk_project_id r" "sk_kid (retire_key p t r) = sk_kid r"
  "sk_public_key (retire_key p t r) = sk_public_key r" "sk_valid_from_seconds (retire_key p t r) = sk_valid_from_seconds r"
  by (simp_all add: retire_key_def)

lemma retire_key_row_ok: "key_row_ok env v r \<Longrightarrow> key_row_ok env v (retire_key p t r)"
  by (auto simp: key_row_ok_def retire_key_def)

lemma is_active_retire: "is_active q (retire_key p t r) \<longleftrightarrow> is_active q r \<and> q \<noteq> p"
  by (auto simp: is_active_def retire_key_def)

lemma keys_ok_insert:
  assumes "keys_ok env v rows" and "insert_key g rows = Ok rows'" and "key_row_ok env v g"
  shows "keys_ok env v rows'"
proof -
  have rows': "rows' = rows @ [g]" "\<not> list_ex (is_active (sk_project_id g)) rows"
      "\<not> list_ex (\<lambda>x. sk_project_id x = sk_project_id g \<and> sk_kid x = sk_kid g) rows"
    using assms(2) by (auto simp: insert_key_def split: if_split_asm)
  have "filter (is_active (sk_project_id g)) rows = []" using rows'(2) by (auto simp: filter_empty_conv list_ex_iff)
  then have "length (filter (is_active p) rows') \<le> 1" for p
    using assms(1) rows'(1) by (cases "p = sk_project_id g") (auto simp: keys_ok_def is_active_def)
  then show ?thesis using assms(1,3) rows'(1,3) by (auto simp: keys_ok_def list_ex_iff)
qed

lemma keys_ok_retire:
  assumes "keys_ok env v rows"
  shows "keys_ok env v (map (retire_key p t) rows)"
proof -
  have "length (filter (is_active q) (map (retire_key p t) rows)) \<le> length (filter (is_active q) rows)" for q
    by (induction rows) (auto simp: is_active_retire)
  then have "length (filter (is_active q) (map (retire_key p t) rows)) \<le> 1" for q
    using assms unfolding keys_ok_def by (meson order_trans)
  moreover have "map (\<lambda>r. (sk_project_id r, sk_kid r)) (map (retire_key p t) rows) = map (\<lambda>r. (sk_project_id r, sk_kid r)) rows"
    by simp
  ultimately show ?thesis
    using assms unfolding keys_ok_def by (auto simp: list_all_iff intro: retire_key_row_ok simp del: map_map)
qed

lemma rotate_key_cases:
  assumes "rotate_key env v entropy nonce u up ex project now grace rows = (r, rows')"
  obtains (Same) e where "r = Err e" "rows' = rows"
    | (Rotated) g kid where "r = Ok (kid, now + grace, g)" "generate_key env v entropy nonce u project now = Ok g"
      "insert_key g (map (retire_key project (now + grace)) rows) = Ok rows'"
proof (cases r)
  case (Inl e)
  then show thesis using assms Same by (auto simp: rotate_key_def split: sum.split_asm prod.split_asm)
next
  case (Inr x)
  then obtain g kid where "r = Ok (kid, now + grace, g)" "generate_key env v entropy nonce u project now = Ok g"
      "insert_key g (map (retire_key project (now + grace)) rows) = Ok rows'"
    using assms
    by (auto simp: rotate_key_def bindr_eq_Ok ok_or_eq_Ok checked_add_i64_Some split: sum.split_asm prod.split_asm if_split_asm)
  then show thesis by (rule Rotated)
qed

lemma key_step_ok:
  assumes "key_step env v rows rows'" and "key_laws env" and "keys_ok env v rows"
  shows "keys_ok env v rows'"
  using assms(1)
proof cases
  case (bootstrap entropy nonce u up ex project now r)
  then show ?thesis
    using assms(2,3) keys_ok_insert [OF assms(3)] generate_key_Ok [OF assms(2)]
    by (auto simp: bootstrap_key_def bindr_eq_Ok split: sum.split_asm prod.split_asm if_split_asm)
next
  case (rotate entropy nonce u up ex project now grace r)
  from rotate(1) show ?thesis
  proof (cases rule: rotate_key_cases)
    case (Rotated g kid)
    then show ?thesis
      using keys_ok_insert [OF keys_ok_retire [OF assms(3)] Rotated(3)] generate_key_Ok [OF assms(2) Rotated(2)] rotate(2,3) by blast
  qed (use assms(3) in simp)
qed

interpretation signing_keys: transition_system "\<lambda>rows. rows = []" "key_step env v"
    "\<lambda>rows. key_laws env \<longrightarrow> keys_ok env v rows" for env v
  by unfold_locales (simp add: keys_ok_def, blast intro: key_step_ok)

text \<open>A row of the table is among the keys a token may be verified with, and is the one its identifier selects.\<close>

lemma verification_keys_row:
  assumes "keys_ok env v rows" and "key_laws env" and "r \<in> set rows"
  obtains keys where "verification_keys (ke_jwt env) True (sk_project_id r) rows = Ok keys"
    "List.find (\<lambda>k. vk_project_id k = sk_project_id r \<and> vk_kid k = sk_kid r) keys
       = Some \<lparr>vk_project_id = sk_project_id r, vk_kid = sk_kid r, vk_public_key = sk_public_key r,
           vk_status = (if sk_status r = ''active'' then Key_Active else Key_Grace),
           vk_valid_from_seconds = sk_valid_from_seconds r, vk_valid_until_seconds = sk_valid_until_seconds r\<rparr>"
proof -
  let ?p = "sk_project_id r"
  let ?key = "\<lambda>x. \<lparr>vk_project_id = ?p, vk_kid = sk_kid x, vk_public_key = sk_public_key x,
      vk_status = (if sk_status x = ''active'' then Key_Active else Key_Grace),
      vk_valid_from_seconds = sk_valid_from_seconds x, vk_valid_until_seconds = sk_valid_until_seconds x\<rparr>"
  have row: "key_row_ok env v x" if "x \<in> set rows" for x using assms(1) that by (simp add: keys_ok_def list_all_iff)
  have laws: "jwt_laws (ke_jwt env)" using assms(2) by (simp add: key_laws_def)
  have from_row: "verification_key_from_row (ke_jwt env) ?p x = Ok (?key x)" if "x \<in> set rows" for x
    using row [OF that] jwt_lawsD(10,11) [OF laws] by (auto simp: verification_key_from_row_def key_row_ok_def)
  have mapr: "mapr (verification_key_from_row (ke_jwt env) ?p) xs = Ok (map ?key xs)" if "set xs \<subseteq> set rows" for xs
    using that by (induction xs) (auto simp: from_row)
  define xs where "xs = filter (\<lambda>x. sk_project_id x = ?p) rows"
  have "verification_keys (ke_jwt env) True ?p rows = Ok (map ?key xs)"
  proof -
    have "filter (\<lambda>x. sk_project_id x = ?p \<and> sk_status x \<in> {''active'', ''grace''} \<and> \<not> sk_revoked x) rows = xs"
      unfolding xs_def using row by (intro filter_cong) (auto simp: key_row_ok_def)
    then show ?thesis using mapr [of xs] by (simp add: verification_keys_def xs_def)
  qed
  moreover have "List.find (\<lambda>k. vk_project_id k = ?p \<and> vk_kid k = sk_kid r) (map ?key xs) = Some (?key r)"
  proof -
    have "r \<in> set xs" "\<And>x. x \<in> set xs \<Longrightarrow> sk_kid x = sk_kid r \<Longrightarrow> x = r"
      using assms(1,3) by (auto simp: xs_def keys_ok_def distinct_map inj_on_def)
    then show ?thesis by (induction xs) auto
  qed
  ultimately show thesis using that by blast
qed

lemma active_signer_row:
  assumes "keys_ok env v rows" and "active_signer env v True now project rows = Ok s"
  obtains r where "r \<in> set rows" "sk_project_id r = project" "sk_kid r = sg_kid s" "sk_valid_from_seconds r \<le> now"
    "sk_public_key r = je_public_key (ke_jwt env) (sg_key s)" "validate_kid (sg_kid s) = Ok ()" "sg_project_id s = project"
    "sk_valid_until_seconds r = None" "is_active project r"
proof -
  obtain r k where r: "List.find (signable project now) rows = Some r"
      "decrypt_key env v project (sk_kid r) (sk_encrypted_private_key r) (sk_encryption_key_version r) = Ok k"
      "validate_kid (sk_kid r) = Ok ()" "s = \<lparr>sg_project_id = project, sg_kid = sk_kid r, sg_key = k\<rparr>"
    using assms(2) by (auto simp: active_signer_def bindr_eq_Ok ok_or_eq_Ok signer_from_bytes_def)
  have mem: "r \<in> set rows" "signable project now r" using r(1) by (auto simp: find_Some_iff)
  have "key_row_ok env v r" using assms(1) mem(1) by (simp add: keys_ok_def list_all_iff)
  then have "sk_public_key r = je_public_key (ke_jwt env) k" "sk_valid_until_seconds r = None"
    using r(2) mem(2) by (auto simp: key_row_ok_def signable_def is_active_def)
  then show thesis
    using that [of r] r mem by (auto simp: signable_def is_active_def split: option.split_asm)
qed

text \<open>The claims that are issued pass the checks until they expire.\<close>

lemma issued_claims_pass:
  assumes "claims_with_session_policy i jti project subject role custom policy = Ok c"
    and "sp_now_seconds policy = now" and "subject \<noteq> 0" and "jti \<noteq> 0"
    and "0 \<le> now" and "now \<le> now'" and "now' \<le> ac_exp c" and "now' + 30 \<le> i64_max"
  shows "check_access_claims \<lparr>ea_issuer = ji_issuer i, ea_audience = ji_audience i, ea_project_id = project, ea_now_seconds = now'\<rparr> c = Ok ()"
proof -
  have c: "validate_claim_strings c = Ok ()" "ac_iss c = ji_issuer i" "ac_aud c = ji_audience i" "ac_project_id c = project"
      "ac_sub c = subject" "ac_jti c = jti" "ac_iat c = now" "ac_nbf c = now" "ac_exp c = now + sp_ttl_seconds policy"
      "60 \<le> sp_ttl_seconds policy" "sp_ttl_seconds policy \<le> MAX_ACCESS_TOKEN_LIFETIME_SECONDS"
    using assms(1,2)
    by (auto simp: claims_with_session_policy_def bindr_eq_Ok ok_or_eq_Ok checked_add_i64_Some Let_def split: if_split_asm)
  have w: "wrap_i64 (now' + 30) = now' + 30" "wrap_i64 (now' - 30) = now' - 30"
    using assms(5-8) by (simp_all add: wrap_i64_exact i64_min_def i64_max_def)
  have l: "wrap_i64 (ac_exp c - ac_iat c) = sp_ttl_seconds policy"
    using c(7,9,10,11) by (simp add: wrap_i64_exact i64_min_def i64_max_def MAX_ACCESS_TOKEN_LIFETIME_SECONDS_def)
  show ?thesis
    using c assms w l by (simp add: check_access_claims_def MAX_CLOCK_SKEW_SECONDS_def MAX_ACCESS_TOKEN_LIFETIME_SECONDS_def)
qed

lemma rotated_row:
  assumes "rotate_key env v entropy nonce u up ex project t grace rows = (Ok x, rows')" and "r \<in> set rows"
    and "is_active project r"
  shows "retire_key project (t + grace) r \<in> set rows' \<and> sk_status (retire_key project (t + grace) r) = ''grace''
    \<and> (\<forall>e. sk_valid_until_seconds (retire_key project (t + grace) r) = Some e \<longrightarrow> e \<ge> t + grace)"
  using assms(1)
proof (cases rule: rotate_key_cases)
  case (Rotated g kid)
  then show ?thesis using assms(2,3) by (auto simp: insert_key_def retire_key_def split: if_split_asm)
qed simp

text \<open>
  C16. An issued access token verifies until it expires, also after a rotation. In every state of the key
  table that bootstraps and rotations reach, a token signed with the project's active key for claims the
  issuer made verifies against the keys of the project from its issue to its expiry, and yields these
  claims: with the table as it was, or after the key was rotated with a grace period no shorter than the
  token's lifetime.
\<close>

theorem issued_token_survives_rotation:
  assumes "key_laws env" and "(key_step env v)\<^sup>*\<^sup>* [] rows" and "active_signer env v True now project rows = Ok s"
    and "claims_with_session_policy i jti project subject role custom policy = Ok c" and "sp_now_seconds policy = now"
    and "subject \<noteq> 0" and "jti \<noteq> 0"
    and "sign_token (ke_jwt env) s c = Ok token" and "length token \<le> MAX_BEARER_TOKEN_BYTES"
    and "rows' = rows \<or> (\<exists>entropy nonce u t grace x. rotate_key env v entropy nonce u True True project t grace rows = (Ok x, rows')
      \<and> opt_all (\<lambda>x. length x = 32) entropy \<and> opt_all (\<lambda>x. length x = 12) nonce
      \<and> now \<le> t \<and> sp_ttl_seconds policy \<le> grace)"
    and "0 \<le> now" and "now \<le> now'" and "now' \<le> ac_exp c" and "now' + 30 \<le> i64_max"
  shows "\<exists>keys. verification_keys (ke_jwt env) True project rows' = Ok keys
    \<and> issuer_verify (ke_jwt env) i token project keys now' = Ok (verified_from c (sg_kid s))"
proof -
  have laws: "jwt_laws (ke_jwt env)" using assms(1) by (simp add: key_laws_def)
  have ok: "keys_ok env v rows" using signing_keys.reachable_inv [OF refl assms(2)] assms(1) by blast
  obtain r where r: "r \<in> set rows" "sk_project_id r = project" "sk_kid r = sg_kid s" "sk_valid_from_seconds r \<le> now"
      "sk_public_key r = je_public_key (ke_jwt env) (sg_key s)" "validate_kid (sg_kid s) = Ok ()"
      "sk_valid_until_seconds r = None" "is_active project r"
    using active_signer_row [OF ok assms(3)] by metis
  have expires: "ac_exp c = now + sp_ttl_seconds policy"
    using assms(4,5) by (auto simp: claims_with_session_policy_def bindr_eq_Ok ok_or_eq_Ok checked_add_i64_Some Let_def split: if_split_asm)
  have "\<exists>r'. keys_ok env v rows' \<and> r' \<in> set rows' \<and> sk_project_id r' = project \<and> sk_kid r' = sg_kid s
      \<and> sk_valid_from_seconds r' \<le> now \<and> sk_public_key r' = je_public_key (ke_jwt env) (sg_key s)
      \<and> (\<forall>e. sk_valid_until_seconds r' = Some e \<longrightarrow> ac_exp c \<le> e)"
    using assms(10)
  proof
    assume "rows' = rows"
    then show ?thesis using ok r by auto
  next
    assume "\<exists>entropy nonce u t grace x. rotate_key env v entropy nonce u True True project t grace rows = (Ok x, rows')
      \<and> opt_all (\<lambda>x. length x = 32) entropy \<and> opt_all (\<lambda>x. length x = 12) nonce \<and> now \<le> t \<and> sp_ttl_seconds policy \<le> grace"
    then obtain entropy nonce u t grace x where
      rot: "rotate_key env v entropy nonce u True True project t grace rows = (Ok x, rows')"
        "opt_all (\<lambda>x. length x = 32) entropy" "opt_all (\<lambda>x. length x = 12) nonce" "now \<le> t" "sp_ttl_seconds policy \<le> grace"
      by blast
    have "keys_ok env v rows'" using key_step_ok [OF key_step.rotate [OF rot(1-3)] assms(1) ok] .
    moreover have "ac_exp c \<le> t + grace" using rot(4,5) expires by linarith
    ultimately show ?thesis
      using rotated_row [OF rot(1) r(1,8)] r by (intro exI [of _ "retire_key project (t + grace) r"]) auto
  qed
  then obtain r' where r': "keys_ok env v rows'" "r' \<in> set rows'" "sk_project_id r' = project" "sk_kid r' = sg_kid s"
      "sk_valid_from_seconds r' \<le> now" "sk_public_key r' = je_public_key (ke_jwt env) (sg_key s)"
      "\<forall>e. sk_valid_until_seconds r' = Some e \<longrightarrow> ac_exp c \<le> e"
    by blast
  let ?ex = "\<lparr>ea_issuer = ji_issuer i, ea_audience = ji_audience i, ea_project_id = project, ea_now_seconds = now'\<rparr>"
  define k where "k = \<lparr>vk_project_id = project, vk_kid = sg_kid s, vk_public_key = sk_public_key r',
      vk_status = (if sk_status r' = ''active'' then Key_Active else Key_Grace),
      vk_valid_from_seconds = sk_valid_from_seconds r', vk_valid_until_seconds = sk_valid_until_seconds r'\<rparr>"
  obtain keys where keys: "verification_keys (ke_jwt env) True project rows' = Ok keys"
      "List.find (\<lambda>k. vk_project_id k = project \<and> vk_kid k = sg_kid s) keys = Some k"
    using verification_keys_row [OF r'(1) assms(1) r'(2), unfolded r'(3,4)] unfolding k_def by blast
  have k: "vk_public_key k = je_public_key (ke_jwt env) (sg_key s)" "vk_status k \<noteq> Key_Revoked"
      "vk_valid_from_seconds k \<le> now" "\<forall>e. vk_valid_until_seconds k = Some e \<longrightarrow> ac_exp c \<le> e"
    using r'(5-7) by (simp_all add: k_def)
  have "wrap_i64 (now' + 30) = now' + 30" "wrap_i64 (now' - 30) = now' - 30"
    using assms(11,12,14) by (simp_all add: wrap_i64_exact i64_min_def i64_max_def)
  then have "select_key ?ex keys (sg_kid s) = Ok k"
    using keys(2) k assms(12,13)
    by (auto simp: select_key_def MAX_CLOCK_SKEW_SECONDS_def split: option.split)
  then have "verify_access_token (ke_jwt env) token ?ex keys = Ok (verified_from c (sg_kid s))"
    using issued_claims_pass [OF assms(4-7,11-14)]
    by (intro signed_token_verifies [OF laws assms(8) r(6) assms(9) _ k(1)])
  then show ?thesis using keys(1) by (auto simp: issuer_verify_def)
qed

section \<open>A concrete instance\<close>

definition demo_b64_encode :: "string \<Rightarrow> string" where
  "demo_b64_encode s = concat (map (\<lambda>c. [char_of (65 + code c div 16), char_of (65 + code c mod 16)]) s)"

fun demo_b64_decode :: "string \<Rightarrow> string option" where
  "demo_b64_decode [] = Some []"
| "demo_b64_decode [_] = None"
| "demo_b64_decode (a # b # s) = map_option ((#) (char_of ((code a - 65) * 16 + (code b - 65)))) (demo_b64_decode s)"

definition demo_policy :: session_policy where
  "demo_policy = \<lparr>sp_session_id = Some 9, sp_now_seconds = 1000, sp_ttl_seconds = 600\<rparr>"

definition demo_header :: jwt_header where
  "demo_header = \<lparr>jh_alg = ''EdDSA'', jh_typ = ''JWT'', jh_kid = ''key_0001''\<rparr>"

definition demo_claims :: access_token_claims where
  "demo_claims = \<lparr>ac_iss = ''iss'', ac_aud = ''aud'', ac_sub = 7, ac_project_id = 1, ac_jti = 8, ac_sid = Some 9,
     ac_iat = 1000, ac_nbf = 1000, ac_exp = 1600, ac_role = ''authenticated'', ac_claims = []\<rparr>"

definition demo_jwt_env :: jwt_env where
  "demo_jwt_env = \<lparr>je_b64_encode = demo_b64_encode, je_b64_decode = demo_b64_decode,
     je_header_json = (\<lambda>h. if h = demo_header then Some ''header'' else None),
     je_parse_header = (\<lambda>s. if s = ''header'' then Some demo_header else None),
     je_claims_json = (\<lambda>c. if c = demo_claims then Some ''claims'' else None),
     je_parse_claims = (\<lambda>s. if s = ''claims'' then Some demo_claims else None),
     je_key_ok = (\<lambda>_. True), je_public_key = (\<lambda>k. take 32 (k @ replicate 32 CHR ''p'')),
     je_sign = (\<lambda>k m. replicate 64 CHR ''s''), je_verify = (\<lambda>p m s. s = replicate 64 CHR ''s'')\<rparr>"

definition demo_key_env :: key_env where
  "demo_key_env = \<lparr>ke_jwt = demo_jwt_env, ke_seal = (\<lambda>k n a p. Some (p @ replicate 16 CHR ''t'')),
     ke_open = (\<lambda>k n a c. Some (take (length c - 16) c)), ke_uuid_bytes = (\<lambda>u. replicate 16 CHR ''u'')\<rparr>"

definition demo_envelope :: key_envelope where
  "demo_envelope = \<lparr>kv_master_key = replicate 32 CHR ''m'', kv_version = 1\<rparr>"

definition demo_rows :: "signing_key_row list" where
  "demo_rows = snd (bootstrap_key demo_key_env demo_envelope (Some (replicate 32 CHR ''k'')) (Some (replicate 12 CHR ''n''))
     ''0001'' True True 1 900 [])"

definition demo_rotated :: "signing_key_row list" where
  "demo_rotated = snd (rotate_key demo_key_env demo_envelope (Some (replicate 32 CHR ''q'')) (Some (replicate 12 CHR ''n''))
     ''0002'' True True 1 1100 600 demo_rows)"

definition demo_signer :: project_signer where
  "demo_signer = \<lparr>sg_project_id = 1, sg_kid = ''key_0001'', sg_key = replicate 32 CHR ''k''\<rparr>"

definition demo_issuer :: jwt_issuer where
  "demo_issuer = \<lparr>ji_issuer = ''iss'', ji_audience = ''aud''\<rparr>"

definition demo_jwt :: string where
  "demo_jwt = demo_b64_encode ''header'' @ ''.'' @ demo_b64_encode ''claims'' @ ''.'' @ demo_b64_encode (replicate 64 CHR ''s'')"

lemma nibble: "code (char_of (65 + code c div 16)) = 65 + code c div 16" "code (char_of (65 + code c mod 16)) = 65 + code c mod 16"
proof -
  have "code c < 256" using nat_of_char_less_256 [of c] by (simp add: code_def)
  then have "code c div 16 < 16" by simp
  then show "code (char_of (65 + code c div 16)) = 65 + code c div 16" by (simp add: code_def)
  show "code (char_of (65 + code c mod 16)) = 65 + code c mod 16" by (simp add: code_def)
qed

lemma demo_b64_roundtrip: "demo_b64_decode (demo_b64_encode s) = Some s"
  by (induction s) (simp_all add: demo_b64_encode_def nibble, simp add: code_def)

lemma demo_b64_plain: "CHR ''.'' \<notin> set (demo_b64_encode s)"
proof -
  have "CHR ''.'' \<noteq> char_of (65 + code c div 16)" "CHR ''.'' \<noteq> char_of (65 + code c mod 16)" for c
  proof -
    have "code CHR ''.'' = 46" by (simp add: code_def)
    then show "CHR ''.'' \<noteq> char_of (65 + code c div 16)" "CHR ''.'' \<noteq> char_of (65 + code c mod 16)"
      using nibble [of c] by auto
  qed
  then show ?thesis by (auto simp: demo_b64_encode_def)
qed

lemma demo_key_laws: "key_laws demo_key_env"
proof -
  have "length (demo_b64_encode s) = 2 * length s" for s by (induction s) (simp_all add: demo_b64_encode_def)
  then have "jwt_laws demo_jwt_env"
    unfolding jwt_laws_def using demo_b64_roundtrip demo_b64_plain
    by (simp add: demo_jwt_env_def min_def)
  then show ?thesis by (simp add: key_laws_def demo_key_env_def)
qed

lemma demo_rows_reached: "(key_step demo_key_env demo_envelope)\<^sup>*\<^sup>* [] demo_rows"
proof -
  have "key_step demo_key_env demo_envelope [] demo_rows"
    unfolding demo_rows_def by (rule key_step.bootstrap [OF surjective_pairing]) simp_all
  then show ?thesis by (rule r_into_rtranclp)
qed

lemma demo_rotation: "rotate_key demo_key_env demo_envelope (Some (replicate 32 CHR ''q'')) (Some (replicate 12 CHR ''n''))
     ''0002'' True True 1 1100 600 demo_rows
   = (Ok (''key_0001'', 1700, last demo_rotated), demo_rotated)"
  by code_simp

lemma demo_signing: "active_signer demo_key_env demo_envelope True 1000 1 demo_rows = Ok demo_signer"
  "claims_with_session_policy demo_issuer 8 1 7 ''authenticated'' [] demo_policy = Ok demo_claims"
  "sign_token (ke_jwt demo_key_env) demo_signer demo_claims = Ok demo_jwt"
  "length demo_jwt \<le> MAX_BEARER_TOKEN_BYTES"
  by code_simp+

theorem issued_token_survives_rotation_witness:
  "\<exists>keys. verification_keys (ke_jwt demo_key_env) True 1 demo_rotated = Ok keys
    \<and> issuer_verify (ke_jwt demo_key_env) demo_issuer demo_jwt 1 keys 1500 = Ok (verified_from demo_claims (sg_kid demo_signer))"
proof (rule issued_token_survives_rotation
    [OF demo_key_laws demo_rows_reached demo_signing(1) demo_signing(2) _ _ _ demo_signing(3,4)])
  show "demo_rotated = demo_rows
    \<or> (\<exists>entropy nonce u t grace x. rotate_key demo_key_env demo_envelope entropy nonce u True True 1 t grace demo_rows = (Ok x, demo_rotated)
      \<and> opt_all (\<lambda>x. length x = 32) entropy \<and> opt_all (\<lambda>x. length x = 12) nonce \<and> 1000 \<le> t \<and> sp_ttl_seconds demo_policy \<le> grace)"
    by (rule disjI2, intro exI conjI, rule demo_rotation) (simp_all add: demo_policy_def)
qed (simp_all add: demo_policy_def demo_claims_def i64_max_def)

section \<open>Accepted credentials\<close>

lemma split_on_Cons:
  "split_on d s = a # ws \<Longrightarrow> ws \<noteq> [] \<Longrightarrow> \<exists>t. s = a @ d # t \<and> split_on d t = ws"
proof (induction s arbitrary: a)
  case (Cons c s)
  show ?case
  proof (cases "c = d")
    case True
    then show ?thesis using Cons.prems by auto
  next
    case False
    obtain w ws' where w: "split_on d s = w # ws'" using split_on_not_Nil [of d s] by (cases "split_on d s") auto
    then have a: "a = c # w" "ws = ws'" using Cons.prems(1) False by auto
    then obtain t where "s = w @ d # t" "split_on d t = ws" using Cons.IH [of w] Cons.prems(2) w by auto
    then show ?thesis using a by auto
  qed
qed simp

lemma split_on_single: "split_on d s = [a] \<Longrightarrow> s = a"
  by (induction s arbitrary: a) (auto split: if_split_asm list.split_asm simp: split_on_not_Nil)

lemma split_on_three: "split_on d s = [a, b, c] \<Longrightarrow> s = a @ d # b @ d # c"
  using split_on_Cons [of d s a "[b, c]"] split_on_Cons [of d _ b "[c]"] split_on_single by fastforce

lemma verify_access_token_Ok:
  assumes "verify_access_token env token ex keys = Ok t"
  obtains hs ps ss k sig pb c where "token = hs @ CHR ''.'' # ps @ CHR ''.'' # ss" "k \<in> set keys"
    "vk_project_id k = ea_project_id ex" "vk_status k \<noteq> Key_Revoked" "je_b64_decode env ss = Some sig"
    "je_verify env (vk_public_key k) (hs @ ''.'' @ ps) sig" "je_b64_decode env ps = Some pb"
    "je_parse_claims env pb = Some c" "check_access_claims ex c = Ok ()" "t = verified_from c (vk_kid k)"
proof -
  obtain hs ps ss where split: "split_on CHR ''.'' token = [hs, ps, ss]"
    using assms by (auto simp: verify_access_token_def split: if_split_asm list.split_asm)
  have "\<exists>kid k sig pb c. select_key ex keys kid = Ok k \<and> decode_segment env ss 64 = Ok sig
      \<and> je_verify env (vk_public_key k) (hs @ ''.'' @ ps) sig \<and> decode_segment env ps MAX_BEARER_TOKEN_BYTES = Ok pb
      \<and> je_parse_claims env pb = Some c \<and> check_access_claims ex c = Ok () \<and> t = verified_from c kid"
    using assms split by (clarsimp simp: verify_access_token_def bindr_eq_Ok ok_or_eq_Ok split: if_split_asm) blast
  then obtain kid k sig pb c where "select_key ex keys kid = Ok k" "decode_segment env ss 64 = Ok sig"
      "je_verify env (vk_public_key k) (hs @ ''.'' @ ps) sig" "decode_segment env ps MAX_BEARER_TOKEN_BYTES = Ok pb"
      "je_parse_claims env pb = Some c" "check_access_claims ex c = Ok ()" "t = verified_from c kid"
    by blast
  then show thesis
    using that [of hs ps ss k sig pb c] split_on_three [OF split]
    by (auto simp: select_key_def decode_segment_def bindr_eq_Ok ok_or_eq_Ok find_Some_iff split: if_split_asm option.split_asm)
qed

lemma list_all2_right: "list_all2 P xs ys \<Longrightarrow> y \<in> set ys \<Longrightarrow> \<exists>x\<in>set xs. P x y"
  by (induction rule: list_all2_induct) auto

lemma verification_keys_from_rows:
  assumes "verification_keys env up project rows = Ok keys" and "k \<in> set keys"
  shows "\<exists>r\<in>set rows. sk_project_id r = project \<and> sk_status r \<in> {''active'', ''grace''} \<and> \<not> sk_revoked r
    \<and> sk_public_key r = vk_public_key k \<and> sk_kid r = vk_kid k"
proof -
  have all: "list_all2 (\<lambda>x y. verification_key_from_row env project x = Ok y)
      (filter (\<lambda>r. sk_project_id r = project \<and> sk_status r \<in> {''active'', ''grace''} \<and> \<not> sk_revoked r) rows) keys"
    using assms(1) by (simp add: verification_keys_def mapr_eq_Ok split: if_split_asm)
  obtain r where "r \<in> set (filter (\<lambda>r. sk_project_id r = project \<and> sk_status r \<in> {''active'', ''grace''} \<and> \<not> sk_revoked r) rows)"
      "verification_key_from_row env project r = Ok k"
    using list_all2_right [OF all assms(2)] by blast
  then show ?thesis
    by (intro bexI [of _ r]) (auto simp: verification_key_from_row_def bindr_eq_Ok split: if_split_asm)
qed

definition authentic_key :: "credential_env \<Rightarrow> credential_verifier \<Rightarrow> credential_state \<Rightarrow> token_uuid \<Rightarrow> string \<Rightarrow> int
    \<Rightarrow> developer_identity \<Rightarrow> bool" where
  "authentic_key env v st project token now d \<longleftrightarrow>
     (\<exists>r\<in>set (cs_api_keys st). te_hmac (ce_tokens env) (pepper (cv_codec v)) token = Some (ak_digest r)
        \<and> ak_revoked_at_ms r = None \<and> (\<forall>e. ak_expires_at_ms r = Some e \<longrightarrow> now < e) \<and> DatabaseQuery \<in> set (ak_scopes r)
        \<and> (ak_project_id r = Some project
           \<or> ak_project_id r = None \<and> map_of (cs_project_organizations st) project = Some (ak_organization_id r))
        \<and> di_api_key_id d = ak_id r \<and> di_organization_id d = ak_organization_id r \<and> di_scopes d = ak_scopes r)"

definition authentic_token :: "credential_env \<Rightarrow> credential_verifier \<Rightarrow> credential_state \<Rightarrow> token_uuid \<Rightarrow> string \<Rightarrow> int
    \<Rightarrow> user_context \<Rightarrow> bool" where
  "authentic_token env v st project token seconds u \<longleftrightarrow>
     (\<exists>hs ps ss sig r pb c a session. token = hs @ CHR ''.'' # ps @ CHR ''.'' # ss
        \<and> r \<in> set (cs_keys st) \<and> sk_project_id r = project \<and> sk_status r \<in> {''active'', ''grace''} \<and> \<not> sk_revoked r
        \<and> je_b64_decode (ce_jwt env) ss = Some sig \<and> je_verify (ce_jwt env) (sk_public_key r) (hs @ ''.'' @ ps) sig
        \<and> je_b64_decode (ce_jwt env) ps = Some pb \<and> je_parse_claims (ce_jwt env) pb = Some c
        \<and> ac_iss c = ji_issuer (cv_issuer v) \<and> ac_aud c = ji_audience (cv_issuer v) \<and> ac_project_id c = project
        \<and> ac_exp c > wrap_i64 (seconds - MAX_CLOCK_SKEW_SECONDS)
        \<and> u = \<lparr>uc_project_id = project, uc_subject = ac_sub c, uc_role = ac_role c, uc_claims = ac_claims c, uc_token_id = ac_jti c\<rparr>
        \<and> find_by_id project (ac_sub c) (cs_accounts st) = Some a \<and> au_disabled_at_ms a = None
        \<and> (map_of (cs_verification_required st) project = Some True \<longrightarrow> au_email_verified_at_ms a \<noteq> None)
        \<and> au_password_changed_at_ms a div 1000 \<le> ac_iat c
        \<and> ac_sid c = Some session \<and> live_session (cs_sessions st) project (ac_sub c) session seconds)"

text \<open>
  C15. What is accepted as a credential for queries is authentic. A developer's key has the digest of
  exactly the presented token, is neither revoked nor expired, has the scope, and belongs to the project or,
  unbound, to its organization. A user's token is signed, over exactly its first two segments, by a key of
  the project that is active or in grace; its issuer, audience and project are the expected ones and it has
  not expired; its account exists and is not disabled, its address is verified where the project asks for
  it, its password has not changed since the second of issue, and its session is live.
\<close>

theorem accepted_credential_is_authentic:
  assumes "verify_query_credential env v up st project token now = Ok mode"
  shows "case mode of Cred_Developer d \<Rightarrow> authentic_key env v st project token now d
    | Cred_EndUser u \<Rightarrow> authentic_token env v st project token (now div 1000) u"
proof (cases "starts_with token ''ffdb_dev_''")
  case True
  then obtain d where d: "verify_developer_at env v up st project token DatabaseQuery now = Ok d" "mode = Cred_Developer d"
    using assms by (auto simp: verify_query_credential_def bindr_eq_Ok)
  obtain parts r where r: "parse_and_digest (ce_tokens env) (cv_codec v) token = Ok parts"
      "List.find (\<lambda>r. ak_prefix r = tp_prefix parts) (cs_api_keys st) = Some r"
    and run: "(case api_key_verify (ce_show_uuid env) parts r now of
        Key_Rejected \<Rightarrow> Err Cred_Invalid
      | Key_Verified identity \<Rightarrow>
          if (case ak_project_id r of Some p \<Rightarrow> p \<noteq> project
              | None \<Rightarrow> map_of (cs_project_organizations st) project \<noteq> Some (ak_organization_id r)) then Err Cred_WrongProject
          else if DatabaseQuery \<notin> set (ak_scopes r) then Err Cred_InsufficientScope else Ok identity) = Ok d"
    using d(1) by (auto simp only: verify_developer_at_def bindr_eq_Ok ok_or_eq_Ok map_err_eq_Ok split: if_split_asm)
  have v: "api_key_verify (ce_show_uuid env) parts r now = Key_Verified d" "DatabaseQuery \<in> set (ak_scopes r)"
      "ak_project_id r = Some project
        \<or> ak_project_id r = None \<and> map_of (cs_project_organizations st) project = Some (ak_organization_id r)"
    using run by (cases "api_key_verify (ce_show_uuid env) parts r now"; cases "ak_project_id r"; auto split: if_split_asm)+
  have "te_hmac (ce_tokens env) (pepper (cv_codec v)) token = Some (tp_digest parts)"
    using r(1) by (auto simp: parse_and_digest_def bindr_eq_Ok ok_or_eq_Ok token_digest_def split: if_split_asm)
  moreover have "r \<in> set (cs_api_keys st)" using r(2) by (auto simp: find_Some_iff)
  ultimately show ?thesis
    using v d(2)
    by (auto simp: authentic_key_def api_key_verify_def verify_digest_def split: if_split_asm option.split_asm intro!: bexI [of _ r])
next
  case False
  then obtain t where t: "verify_end_user_token_with_project_policy env v up st project token (now div 1000) = Ok t"
      "mode = Cred_EndUser (va_context t)"
    using assms by (auto simp: verify_query_credential_def bindr_eq_Ok)
  obtain required keys a session where ok: "map_of (cs_verification_required st) project = Some required"
      "verification_keys (ce_jwt env) up project (cs_keys st) = Ok keys"
      "issuer_verify (ce_jwt env) (cv_issuer v) token project keys (now div 1000) = Ok t"
      "find_by_id project (uc_subject (va_context t)) (cs_accounts st) = Some a" "au_disabled_at_ms a = None"
      "required \<longrightarrow> au_email_verified_at_ms a \<noteq> None" "au_password_changed_at_ms a div 1000 \<le> va_issued_at t"
      "va_session_id t = Some session" "live_session (cs_sessions st) project (uc_subject (va_context t)) session (now div 1000)"
    using t(1)
    by (auto simp: verify_end_user_token_with_project_policy_def verify_end_user_token_with_policy_def bindr_eq_Ok ok_or_eq_Ok
        map_err_eq_Ok split: if_split_asm option.split_asm)
  from ok(3) [unfolded issuer_verify_def] obtain hs ps ss k sig pb c where
    tok: "token = hs @ CHR ''.'' # ps @ CHR ''.'' # ss" "k \<in> set keys" "je_b64_decode (ce_jwt env) ss = Some sig"
      "je_verify (ce_jwt env) (vk_public_key k) (hs @ ''.'' @ ps) sig" "je_b64_decode (ce_jwt env) ps = Some pb"
      "je_parse_claims (ce_jwt env) pb = Some c"
    and cc: "check_access_claims \<lparr>ea_issuer = ji_issuer (cv_issuer v), ea_audience = ji_audience (cv_issuer v), ea_project_id = project,
        ea_now_seconds = now div 1000\<rparr> c = Ok ()" and tc: "t = verified_from c (vk_kid k)"
    by (rule verify_access_token_Ok) blast
  obtain r where r: "r \<in> set (cs_keys st)" "sk_project_id r = project" "sk_status r \<in> {''active'', ''grace''}" "\<not> sk_revoked r"
      "sk_public_key r = vk_public_key k"
    using verification_keys_from_rows [OF ok(2) tok(2)] by blast
  have c: "ac_iss c = ji_issuer (cv_issuer v)" "ac_aud c = ji_audience (cv_issuer v)" "ac_project_id c = project"
      "ac_exp c > wrap_i64 (now div 1000 - MAX_CLOCK_SKEW_SECONDS)"
    using cc by (auto simp: check_access_claims_def bindr_eq_Ok split: if_split_asm)
  have "authentic_token env v st project token (now div 1000) (va_context t)"
    unfolding authentic_token_def
    by (rule exI [of _ hs], rule exI [of _ ps], rule exI [of _ ss], rule exI [of _ sig], rule exI [of _ r],
        rule exI [of _ pb], rule exI [of _ c], rule exI [of _ a], rule exI [of _ session])
      (use ok tok r c tc in \<open>simp add: verified_from_def\<close>)
  then show ?thesis using t(2) by simp
qed

definition demo_credential_env :: credential_env where
  "demo_credential_env = \<lparr>ce_tokens = demo_token_env, ce_jwt = demo_jwt_env, ce_show_uuid = (\<lambda>_. ''id'')\<rparr>"

definition demo_verifier :: credential_verifier where
  "demo_verifier = \<lparr>cv_codec = demo_codec, cv_issuer = demo_issuer\<rparr>"

definition demo_user :: auth_user where
  "demo_user = \<lparr>au_id = 7, au_project_id = 1, au_normalized_email = ''a@b.c'', au_password_hash = ''h'', au_role = ''authenticated'',
     au_custom_claims = [], au_email_verified_at_ms = Some 1, au_disabled_at_ms = None, au_password_changed_at_ms = 1000999,
     au_created_at_ms = 1\<rparr>"

definition demo_credentials :: credential_state where
  "demo_credentials = \<lparr>cs_api_keys = [], cs_project_organizations = [], cs_accounts = snd (account_insert demo_user account_default),
     cs_keys = demo_rotated,
     cs_sessions = \<lparr>
       sessions = [(9, \<lparr>se_id = 9, se_project_id = 1, se_user_id = 7, se_expires_at_ms = 9000000, se_revoked_at_ms = None,
         se_revoke_reason = None\<rparr>)],
       families = [(5, \<lparr>fa_id = 5, fa_project_id = 1, fa_user_id = 7, fa_session_id = 9, fa_revoked_at_ms = None,
         fa_revoke_reason = None\<rparr>)], tokens = [], token_by_prefix = []\<rparr>,
     cs_verification_required = [(1, True)]\<rparr>"

theorem accepted_credential_is_authentic_witness:
  "authentic_token demo_credential_env demo_verifier demo_credentials 1 demo_jwt 1500
     \<lparr>uc_project_id = 1, uc_subject = 7, uc_role = ''authenticated'', uc_claims = [], uc_token_id = 8\<rparr>"
proof -
  have "verify_query_credential demo_credential_env demo_verifier True demo_credentials 1 demo_jwt 1500000
    = Ok (Cred_EndUser \<lparr>uc_project_id = 1, uc_subject = 7, uc_role = ''authenticated'', uc_claims = [], uc_token_id = 8\<rparr>)"
    by code_simp
  from accepted_credential_is_authentic [OF this] show ?thesis by simp
qed

end
