(* ===== verification/Auth_Pg.thy ===== *)
theory Auth_Pg
  imports Auth_Credentials
begin

text \<open>
  \<open>crates/auth/src/postgres.rs\<close>: the PostgreSQL stores of developers' keys, accounts, one-time tokens and sessions.
  A table is the list of its rows, with the unique, foreign-key and check constraints that an insert meets
  written out; times are whole milliseconds. Row locks and transactions make each operation atomic. A
  PostgreSQL call that fails, at whatever point, ends the operation with its transaction rolled back: the
  argument \<open>up = False\<close>.
\<close>

section \<open>Tables\<close>

record api_key_row =
  kr_id :: token_uuid
  kr_organization_id :: token_uuid
  kr_project_id :: "token_uuid option"
  kr_name :: string
  kr_prefix :: string
  kr_digest :: credential_digest
  kr_scopes :: "string list"
  kr_created_by :: token_uuid
  kr_expires_at_ms :: "int option"
  kr_revoked_at_ms :: "int option"

record pg_session = session_record +
  ps_created_at_ms :: int
  ps_last_seen_at_ms :: int

record pg_auth =
  pa_projects :: "(token_uuid \<times> token_uuid) list"
  pa_api_keys :: "api_key_row list"
  pa_users :: "auth_user list"
  pa_one_time :: "one_time_record list"
  pa_sessions :: "pg_session list"
  pa_families :: "refresh_family list"
  pa_tokens :: "refresh_token_record list"

text \<open>A transaction: an error rolls it back.\<close>

definition transact :: "bool \<Rightarrow> 'e \<Rightarrow> ('db \<Rightarrow> 'e + 'a \<times> 'db) \<Rightarrow> 'db \<Rightarrow> ('e + 'a) \<times> 'db" where
  "transact up unavailable body db =
     (if \<not> up then (Err unavailable, db)
      else case body db of Inl e \<Rightarrow> (Err e, db) | Inr (a, db') \<Rightarrow> (Ok a, db'))"

definition update_rows :: "('r \<Rightarrow> bool) \<Rightarrow> ('r \<Rightarrow> 'r) \<Rightarrow> 'r list \<Rightarrow> 'r list" where
  "update_rows P f rows = map (\<lambda>r. if P r then f r else r) rows"

definition rows_affected :: "('r \<Rightarrow> bool) \<Rightarrow> 'r list \<Rightarrow> nat" where
  "rows_affected P rows = length (filter P rows)"

section \<open>Developers' keys\<close>

fun scope_name :: "developer_scope \<Rightarrow> string" where
  "scope_name ProjectsRead = ''projects_read''"
| "scope_name ProjectsWrite = ''projects_write''"
| "scope_name DatabaseQuery = ''database_query''"
| "scope_name DatabaseMigrate = ''database_migrate''"
| "scope_name DatabaseSchema = ''database_schema''"
| "scope_name AuthManage = ''auth_manage''"
| "scope_name StorageManage = ''storage_manage''"
| "scope_name EmailManage = ''email_manage''"
| "scope_name KeysRotate = ''keys_rotate''"
| "scope_name BackupsManage = ''backups_manage''"
| "scope_name LogsRead = ''logs_read''"
| "scope_name CommerceManage = ''commerce_manage''"

definition parse_scope :: "string \<Rightarrow> account_error + developer_scope" where
  "parse_scope s =
     (if s = ''projects_read'' then Ok ProjectsRead else if s = ''projects_write'' then Ok ProjectsWrite
      else if s = ''database_query'' then Ok DatabaseQuery else if s = ''database_migrate'' then Ok DatabaseMigrate
      else if s = ''database_schema'' then Ok DatabaseSchema else if s = ''auth_manage'' then Ok AuthManage
      else if s = ''storage_manage'' then Ok StorageManage else if s = ''email_manage'' then Ok EmailManage
      else if s = ''keys_rotate'' then Ok KeysRotate else if s = ''backups_manage'' then Ok BackupsManage
      else if s = ''logs_read'' then Ok LogsRead else if s = ''commerce_manage'' then Ok CommerceManage
      else Err Acc_Unavailable)"

definition api_key_from_row :: "api_key_row \<Rightarrow> account_error + api_key_record" where
  "api_key_from_row r =
     bindr (mapr parse_scope (kr_scopes r)) (\<lambda>scopes.
       Ok \<lparr>ak_id = kr_id r, ak_organization_id = kr_organization_id r, ak_project_id = kr_project_id r, ak_prefix = kr_prefix r,
         ak_digest = kr_digest r, ak_scopes = scopes, ak_expires_at_ms = kr_expires_at_ms r, ak_revoked_at_ms = kr_revoked_at_ms r\<rparr>)"

text \<open>The table refuses an identifier or prefix it has, and a prefix outside \<open>[A-Za-z0-9_-]{12,32}\<close>.\<close>

definition key_row_refused :: "api_key_row \<Rightarrow> api_key_row list \<Rightarrow> bool" where
  "key_row_refused r rows \<longleftrightarrow>
     list_ex (\<lambda>x. kr_id x = kr_id r \<or> kr_prefix x = kr_prefix r) rows
     \<or> \<not> (12 \<le> length (kr_prefix r) \<and> length (kr_prefix r) \<le> 32)
     \<or> \<not> list_all (\<lambda>b. is_ascii_alphanumeric b \<or> b \<in> {CHR ''_'', CHR ''-''}) (kr_prefix r)"

definition pg_api_key_insert ::
    "bool \<Rightarrow> api_key_record \<Rightarrow> string \<Rightarrow> token_uuid \<Rightarrow> pg_auth \<Rightarrow> (account_error + unit) \<times> pg_auth" where
  "pg_api_key_insert up k name created_by db =
     (if name = [] \<or> length name > 128 \<or> ak_scopes k = [] then (Err Acc_Unavailable, db)
      else
        transact up Acc_Unavailable (\<lambda>db.
          let r = \<lparr>kr_id = ak_id k, kr_organization_id = ak_organization_id k, kr_project_id = ak_project_id k, kr_name = name,
                kr_prefix = ak_prefix k, kr_digest = ak_digest k, kr_scopes = map scope_name (ak_scopes k),
                kr_created_by = created_by, kr_expires_at_ms = ak_expires_at_ms k, kr_revoked_at_ms = ak_revoked_at_ms k\<rparr>
          in if key_row_refused r (pa_api_keys db) then Err Acc_Unavailable
             else Ok ((), db\<lparr>pa_api_keys := pa_api_keys db @ [r]\<rparr>)) db)"

definition pg_find_by_prefix :: "bool \<Rightarrow> string \<Rightarrow> pg_auth \<Rightarrow> account_error + api_key_record option" where
  "pg_find_by_prefix up prefix db =
     (if \<not> up then Err Acc_Unavailable
      else case List.find (\<lambda>r. kr_prefix r = prefix) (pa_api_keys db) of
        None \<Rightarrow> Ok None
      | Some r \<Rightarrow> bindr (api_key_from_row r) (\<lambda>k. Ok (Some k)))"

definition pg_project_organization :: "bool \<Rightarrow> token_uuid \<Rightarrow> pg_auth \<Rightarrow> account_error + token_uuid option" where
  "pg_project_organization up project db =
     (if \<not> up then Err Acc_Unavailable else Ok (map_of (pa_projects db) project))"

definition pg_api_key_revoke :: "bool \<Rightarrow> token_uuid \<Rightarrow> int \<Rightarrow> pg_auth \<Rightarrow> (account_error + bool) \<times> pg_auth" where
  "pg_api_key_revoke up kid now =
     transact up Acc_Unavailable (\<lambda>db.
       Ok (rows_affected (\<lambda>r. kr_id r = kid) (pa_api_keys db) = 1,
           db\<lparr>pa_api_keys := update_rows (\<lambda>r. kr_id r = kid)
                (\<lambda>r. r\<lparr>kr_revoked_at_ms := get_or_insert now (kr_revoked_at_ms r)\<rparr>) (pa_api_keys db)\<rparr>))"

section \<open>Accounts\<close>

definition account_from_row :: "account_env \<Rightarrow> auth_user \<Rightarrow> account_error + auth_user" where
  "account_from_row env r =
     bindr (map_err (\<lambda>_. Acc_Unavailable) (validate_custom_claims (an_claims_json env) (au_custom_claims r))) (\<lambda>_.
       if au_role r = [] \<or> length (au_role r) > 64 \<or> any_control (au_role r) then Err Acc_Unavailable
       else
         bindr (map_err Acc_Password (password_hash_parse (an_passwords env) (au_password_hash r))) (\<lambda>_. Ok r))"

definition is_user :: "token_uuid \<Rightarrow> token_uuid \<Rightarrow> auth_user \<Rightarrow> bool" where
  "is_user project user r \<longleftrightarrow> au_project_id r = project \<and> au_id r = user"

text \<open>Listed in order of creation and, of those created together, of identifiers.\<close>

definition list_project_users ::
    "account_env \<Rightarrow> bool \<Rightarrow> token_uuid \<Rightarrow> int \<Rightarrow> pg_auth \<Rightarrow> account_error + auth_user list" where
  "list_project_users env up project limit db =
     (if \<not> (1 \<le> limit \<and> limit \<le> 1000) then Err Acc_InvalidClaims
      else if \<not> up then Err Acc_Unavailable
      else mapr (account_from_row env)
        (take (nat limit) (sort_key au_created_at_ms (sort_key au_id (filter (\<lambda>r. au_project_id r = project) (pa_users db))))))"

definition pg_account_insert :: "bool \<Rightarrow> auth_user \<Rightarrow> pg_auth \<Rightarrow> (account_error + unit) \<times> pg_auth" where
  "pg_account_insert up u =
     transact up Acc_Unavailable (\<lambda>db.
       if list_ex (\<lambda>x. au_id x = au_id u
           \<or> au_project_id x = au_project_id u \<and> to_ascii_lowercase (au_normalized_email x) = to_ascii_lowercase (au_normalized_email u))
           (pa_users db) then Err Acc_EmailInUse
       else if map_of (pa_projects db) (au_project_id u) = None then Err Acc_Unavailable
       else Ok ((), db\<lparr>pa_users := pa_users db @ [u]\<rparr>))"

definition pg_find_by_email ::
    "account_env \<Rightarrow> bool \<Rightarrow> token_uuid \<Rightarrow> string \<Rightarrow> pg_auth \<Rightarrow> account_error + auth_user option" where
  "pg_find_by_email env up project email db =
     (if \<not> up then Err Acc_Unavailable
      else case List.find (\<lambda>r. au_project_id r = project \<and> to_ascii_lowercase (au_normalized_email r) = to_ascii_lowercase email)
             (pa_users db) of
        None \<Rightarrow> Ok None
      | Some r \<Rightarrow> bindr (account_from_row env r) (\<lambda>u. Ok (Some u)))"

definition pg_find_by_id ::
    "account_env \<Rightarrow> bool \<Rightarrow> token_uuid \<Rightarrow> token_uuid \<Rightarrow> pg_auth \<Rightarrow> account_error + auth_user option" where
  "pg_find_by_id env up project user db =
     (if \<not> up then Err Acc_Unavailable
      else case List.find (is_user project user) (pa_users db) of
        None \<Rightarrow> Ok None
      | Some r \<Rightarrow> bindr (account_from_row env r) (\<lambda>u. Ok (Some u)))"

definition pg_set_verified :: "bool \<Rightarrow> token_uuid \<Rightarrow> token_uuid \<Rightarrow> int \<Rightarrow> pg_auth \<Rightarrow> (account_error + bool) \<times> pg_auth" where
  "pg_set_verified up project user at_ms =
     transact up Acc_Unavailable (\<lambda>db.
       Ok (rows_affected (is_user project user) (pa_users db) = 1,
           db\<lparr>pa_users := update_rows (is_user project user)
                (\<lambda>r. r\<lparr>au_email_verified_at_ms := get_or_insert at_ms (au_email_verified_at_ms r)\<rparr>) (pa_users db)\<rparr>))"

definition revoke_session_row :: "int \<Rightarrow> string \<Rightarrow> pg_session \<Rightarrow> pg_session" where
  "revoke_session_row now reason s =
     s\<lparr>se_revoked_at_ms := get_or_insert now (se_revoked_at_ms s), se_revoke_reason := get_or_insert reason (se_revoke_reason s)\<rparr>"

definition revoke_family_row :: "int \<Rightarrow> string \<Rightarrow> refresh_family \<Rightarrow> refresh_family" where
  "revoke_family_row now reason f =
     f\<lparr>fa_revoked_at_ms := get_or_insert now (fa_revoked_at_ms f), fa_revoke_reason := get_or_insert reason (fa_revoke_reason f)\<rparr>"

definition revoke_user_sessions :: "token_uuid \<Rightarrow> token_uuid \<Rightarrow> int \<Rightarrow> string \<Rightarrow> pg_auth \<Rightarrow> pg_auth" where
  "revoke_user_sessions project user now reason db =
     db\<lparr>pa_sessions := update_rows (\<lambda>s. se_project_id s = project \<and> se_user_id s = user) (revoke_session_row now reason) (pa_sessions db),
        pa_families := update_rows (\<lambda>f. fa_project_id f = project \<and> fa_user_id f = user) (revoke_family_row now reason) (pa_families db)\<rparr>"

text \<open>An update of an account, after which its sessions are revoked when it changed exactly one row.\<close>

definition update_user ::
    "(auth_user \<Rightarrow> bool) \<Rightarrow> (auth_user \<Rightarrow> auth_user) \<Rightarrow> (pg_auth \<Rightarrow> pg_auth) \<Rightarrow> pg_auth \<Rightarrow> bool \<times> pg_auth" where
  "update_user P f after db =
     (let db1 = db\<lparr>pa_users := update_rows P f (pa_users db)\<rparr>; one = (rows_affected P (pa_users db) = 1)
      in (one, if one then after db1 else db1))"

definition pg_set_password ::
    "bool \<Rightarrow> token_uuid \<Rightarrow> token_uuid \<Rightarrow> string \<Rightarrow> int \<Rightarrow> pg_auth \<Rightarrow> (account_error + bool) \<times> pg_auth" where
  "pg_set_password up project user hash at_ms =
     transact up Acc_Unavailable (\<lambda>db. Ok
       (update_user (\<lambda>r. is_user project user r \<and> au_disabled_at_ms r = None)
          (\<lambda>r. r\<lparr>au_password_hash := hash, au_password_changed_at_ms := at_ms\<rparr>)
          (revoke_user_sessions project user at_ms ''password_changed'') db))"

definition pg_disable ::
    "bool \<Rightarrow> token_uuid \<Rightarrow> token_uuid \<Rightarrow> int \<Rightarrow> pg_auth \<Rightarrow> (account_error + bool) \<times> pg_auth" where
  "pg_disable up project user at_ms =
     transact up Acc_Unavailable (\<lambda>db. Ok
       (update_user (is_user project user) (\<lambda>r. r\<lparr>au_disabled_at_ms := get_or_insert at_ms (au_disabled_at_ms r)\<rparr>)
          (revoke_user_sessions project user at_ms ''account_disabled'') db))"

definition set_disabled_for_project ::
    "bool \<Rightarrow> token_uuid \<Rightarrow> token_uuid \<Rightarrow> bool \<Rightarrow> int \<Rightarrow> pg_auth \<Rightarrow> (account_error + bool) \<times> pg_auth" where
  "set_disabled_for_project up project user disabled now =
     transact up Acc_Unavailable (\<lambda>db. Ok
       (update_user (is_user project user)
          (\<lambda>r. r\<lparr>au_disabled_at_ms := (if disabled then get_or_insert now (au_disabled_at_ms r) else None),
                 au_password_changed_at_ms := max (au_password_changed_at_ms r) now\<rparr>)
          (if disabled then revoke_user_sessions project user now ''account_disabled'' else (\<lambda>db. db)) db))"

section \<open>One-time tokens\<close>

fun purpose_name :: "one_time_purpose \<Rightarrow> string" where
  "purpose_name EmailVerification = ''email_verification''"
| "purpose_name PasswordReset = ''password_reset''"

definition parse_purpose :: "string \<Rightarrow> account_error + one_time_purpose" where
  "parse_purpose s =
     (if s = ''email_verification'' then Ok EmailVerification else if s = ''password_reset'' then Ok PasswordReset
      else Err Acc_Unavailable)"

definition one_time_live :: "one_time_purpose \<Rightarrow> int \<Rightarrow> token_parts \<Rightarrow> one_time_record \<Rightarrow> bool" where
  "one_time_live purpose now candidate r \<longleftrightarrow>
     ot_purpose r = purpose \<and> ot_consumed_at_ms r = None \<and> ot_expires_at_ms r > now
     \<and> verify_digest (tp_digest candidate) (ot_digest r)"

definition identify_one_time ::
    "token_env \<Rightarrow> opaque_token_codec \<Rightarrow> bool \<Rightarrow> token_uuid \<Rightarrow> string \<Rightarrow> one_time_purpose \<Rightarrow> int \<Rightarrow> pg_auth
      \<Rightarrow> one_time_error + token_uuid option" where
  "identify_one_time env c up project plaintext purpose now db =
     (case parse_and_digest env c plaintext of
        Inl _ \<Rightarrow> Ok None
      | Inr candidate \<Rightarrow>
          if \<not> up then Err OneTime_Unavailable
          else case List.find (\<lambda>r. ot_prefix r = tp_prefix candidate) (pa_one_time db) of
            None \<Rightarrow> Ok None
          | Some r \<Rightarrow>
              if ot_project_id r \<noteq> project \<or> \<not> one_time_live purpose now candidate r then Ok None
              else Ok (Some (ot_user_id r)))"

definition lock_one_time_token ::
    "token_env \<Rightarrow> opaque_token_codec \<Rightarrow> token_uuid \<Rightarrow> string \<Rightarrow> one_time_purpose \<Rightarrow> int \<Rightarrow> pg_auth
      \<Rightarrow> one_time_error + one_time_record" where
  "lock_one_time_token env c project plaintext purpose now db =
     bindr (map_err (\<lambda>_. OneTime_Rejected) (parse_and_digest env c plaintext)) (\<lambda>candidate.
     bindr (ok_or (List.find (\<lambda>r. ot_prefix r = tp_prefix candidate) (pa_one_time db)) OneTime_Rejected) (\<lambda>r.
       if ot_project_id r \<noteq> project \<or> \<not> one_time_live purpose now candidate r then Err OneTime_Rejected
       else Ok r))"

definition consume_one_time_token :: "token_uuid \<Rightarrow> int \<Rightarrow> pg_auth \<Rightarrow> one_time_error + pg_auth" where
  "consume_one_time_token tid now db =
     (let P = \<lambda>r. ot_id r = tid \<and> ot_consumed_at_ms r = None in
      if rows_affected P (pa_one_time db) \<noteq> 1 then Err OneTime_Rejected
      else Ok (db\<lparr>pa_one_time := update_rows P (\<lambda>r. r\<lparr>ot_consumed_at_ms := Some now\<rparr>) (pa_one_time db)\<rparr>))"

definition verify_email_for_project ::
    "token_env \<Rightarrow> opaque_token_codec \<Rightarrow> bool \<Rightarrow> token_uuid \<Rightarrow> string \<Rightarrow> int \<Rightarrow> pg_auth
      \<Rightarrow> (one_time_error + token_uuid) \<times> pg_auth" where
  "verify_email_for_project env c up project plaintext now =
     transact up OneTime_Unavailable (\<lambda>db.
       bindr (lock_one_time_token env c project plaintext EmailVerification now db) (\<lambda>r.
         let P = \<lambda>u. is_user project (ot_user_id r) u \<and> au_disabled_at_ms u = None in
         if rows_affected P (pa_users db) \<noteq> 1 then Err OneTime_Rejected
         else
           bindr (consume_one_time_token (ot_id r) now
             (db\<lparr>pa_users := update_rows P (\<lambda>u. u\<lparr>au_email_verified_at_ms := get_or_insert now (au_email_verified_at_ms u)\<rparr>)
                (pa_users db)\<rparr>)) (\<lambda>db'. Ok (ot_user_id r, db'))))"

definition reset_password_for_project ::
    "token_env \<Rightarrow> opaque_token_codec \<Rightarrow> bool \<Rightarrow> token_uuid \<Rightarrow> string \<Rightarrow> string \<Rightarrow> int \<Rightarrow> pg_auth
      \<Rightarrow> (one_time_error + token_uuid) \<times> pg_auth" where
  "reset_password_for_project env c up project plaintext hash now =
     transact up OneTime_Unavailable (\<lambda>db.
       bindr (lock_one_time_token env c project plaintext PasswordReset now db) (\<lambda>r.
         let P = \<lambda>u. is_user project (ot_user_id r) u \<and> au_disabled_at_ms u = None in
         if rows_affected P (pa_users db) \<noteq> 1 then Err OneTime_Rejected
         else
           bindr (consume_one_time_token (ot_id r) now
             (revoke_user_sessions project (ot_user_id r) now ''password_reset''
               (db\<lparr>pa_users := update_rows P (\<lambda>u. u\<lparr>au_password_hash := hash, au_password_changed_at_ms := now\<rparr>) (pa_users db)\<rparr>)))
             (\<lambda>db'. Ok (ot_user_id r, db'))))"

text \<open>The table refuses an identifier or prefix it has; the account must exist.\<close>

definition pg_one_time_issue ::
    "token_env \<Rightarrow> opaque_token_codec \<Rightarrow> bool \<Rightarrow> entropy \<Rightarrow> token_uuid \<Rightarrow> token_uuid \<Rightarrow> token_uuid \<Rightarrow> one_time_purpose \<Rightarrow> int
      \<Rightarrow> pg_auth \<Rightarrow> (one_time_error + string \<times> one_time_record) \<times> pg_auth" where
  "pg_one_time_issue env c up ent tid project user purpose now db =
     (case bindr (ok_or (checked_add_i64 now ONE_TIME_TOKEN_TTL_MS) OneTime_Unavailable) (\<lambda>expiry.
        bindr (map_err (\<lambda>_. OneTime_Unavailable) (token_issue env c ent)) (\<lambda>t. Ok (expiry, t)))
      of
        Inl e \<Rightarrow> (Err e, db)
      | Inr (expiry, plaintext, parts) \<Rightarrow>
          transact up OneTime_Unavailable (\<lambda>db.
            if \<not> list_ex (is_user project user) (pa_users db) then Err OneTime_Rejected
            else if list_ex (\<lambda>r. ot_id r = tid \<or> ot_prefix r = tp_prefix parts) (pa_one_time db) then Err OneTime_Unavailable
            else
              let r = \<lparr>ot_id = tid, ot_project_id = project, ot_user_id = user, ot_purpose = purpose, ot_prefix = tp_prefix parts,
                    ot_digest = tp_digest parts, ot_expires_at_ms = expiry, ot_consumed_at_ms = None\<rparr>;
                  rows = update_rows (\<lambda>x. ot_project_id x = project \<and> ot_user_id x = user \<and> ot_purpose x = purpose
                      \<and> ot_consumed_at_ms x = None) (\<lambda>x. x\<lparr>ot_consumed_at_ms := Some now\<rparr>) (pa_one_time db)
              in Ok ((plaintext, r), db\<lparr>pa_one_time := rows @ [r]\<rparr>)) db)"

definition pg_one_time_consume ::
    "token_env \<Rightarrow> opaque_token_codec \<Rightarrow> bool \<Rightarrow> string \<Rightarrow> one_time_purpose \<Rightarrow> int \<Rightarrow> pg_auth
      \<Rightarrow> (one_time_error + one_time_record) \<times> pg_auth" where
  "pg_one_time_consume env c up plaintext purpose now db =
     (case parse_and_digest env c plaintext of
        Inl _ \<Rightarrow> (Err OneTime_Rejected, db)
      | Inr candidate \<Rightarrow>
          transact up OneTime_Unavailable (\<lambda>db.
            bindr (ok_or (List.find (\<lambda>r. ot_prefix r = tp_prefix candidate) (pa_one_time db)) OneTime_Rejected) (\<lambda>r.
              if \<not> one_time_live purpose now candidate r then Err OneTime_Rejected
              else Ok (r\<lparr>ot_consumed_at_ms := Some now\<rparr>,
                db\<lparr>pa_one_time := update_rows (\<lambda>x. ot_id x = ot_id r) (\<lambda>x. x\<lparr>ot_consumed_at_ms := Some now\<rparr>) (pa_one_time db)\<rparr>))) db)"

definition consume_for_project ::
    "token_env \<Rightarrow> opaque_token_codec \<Rightarrow> bool \<Rightarrow> token_uuid \<Rightarrow> string \<Rightarrow> one_time_purpose \<Rightarrow> int \<Rightarrow> pg_auth
      \<Rightarrow> (one_time_error + one_time_record) \<times> pg_auth" where
  "consume_for_project env c up project plaintext purpose now db =
     (case bindr (map_err (\<lambda>_. OneTime_Rejected) (parse_and_digest env c plaintext)) (\<lambda>candidate.
        if \<not> up then Err OneTime_Unavailable
        else
          bindr (ok_or (List.find (\<lambda>r. ot_prefix r = tp_prefix candidate) (pa_one_time db)) OneTime_Rejected) (\<lambda>r.
            require (ot_project_id r = project \<and> verify_digest (tp_digest candidate) (ot_digest r)) OneTime_Rejected))
      of
        Inl e \<Rightarrow> (Err e, db)
      | Inr _ \<Rightarrow> pg_one_time_consume env c up plaintext purpose now db)"

section \<open>Sessions and refresh tokens\<close>

definition find_joined ::
    "string \<Rightarrow> pg_auth \<Rightarrow> (refresh_token_record \<times> refresh_family \<times> pg_session) option" where
  "find_joined prefix db =
     (case List.find (\<lambda>t. rt_prefix t = prefix) (pa_tokens db) of
        None \<Rightarrow> None
      | Some t \<Rightarrow>
          (case List.find (\<lambda>f. fa_id f = rt_family_id t) (pa_families db) of
             None \<Rightarrow> None
           | Some f \<Rightarrow> map_option (\<lambda>s. (t, f, s)) (List.find (\<lambda>s. se_id s = fa_session_id f) (pa_sessions db))))"

definition identify_refresh ::
    "token_env \<Rightarrow> opaque_token_codec \<Rightarrow> bool \<Rightarrow> token_uuid \<Rightarrow> string \<Rightarrow> int \<Rightarrow> pg_auth
      \<Rightarrow> refresh_store_error + (token_uuid \<times> token_uuid) option" where
  "identify_refresh env c up project presented now db =
     (case parse_and_digest env c presented of
        Inl _ \<Rightarrow> Ok None
      | Inr candidate \<Rightarrow>
          if \<not> up then Err Refresh_Unavailable
          else case find_joined (tp_prefix candidate) db of
            None \<Rightarrow> Ok None
          | Some (t, f, s) \<Rightarrow>
              if fa_project_id f \<noteq> project \<or> rt_expires_at_ms t \<le> now \<or> se_expires_at_ms s \<le> now
                \<or> fa_revoked_at_ms f \<noteq> None \<or> se_revoked_at_ms s \<noteq> None
                \<or> \<not> verify_digest (tp_digest candidate) (rt_digest t)
              then Ok None else Ok (Some (fa_user_id f, fa_session_id f)))"

definition insert_refresh_token :: "refresh_token_record \<Rightarrow> pg_auth \<Rightarrow> refresh_store_error + pg_auth" where
  "insert_refresh_token t db =
     (if list_ex (\<lambda>x. rt_id x = rt_id t \<or> rt_prefix x = rt_prefix t) (pa_tokens db)
        \<or> \<not> list_ex (\<lambda>f. fa_id f = rt_family_id t) (pa_families db) \<or> rt_expires_at_ms t \<le> rt_issued_at_ms t
      then Err Refresh_Unavailable else Ok (db\<lparr>pa_tokens := pa_tokens db @ [t]\<rparr>))"

definition revoke_family :: "token_uuid \<Rightarrow> token_uuid \<Rightarrow> int \<Rightarrow> string \<Rightarrow> pg_auth \<Rightarrow> pg_auth" where
  "revoke_family fid sid now reason db =
     db\<lparr>pa_families := update_rows (\<lambda>f. fa_id f = fid) (revoke_family_row now reason) (pa_families db),
        pa_sessions := update_rows (\<lambda>s. se_id s = sid) (revoke_session_row now reason) (pa_sessions db)\<rparr>"

definition pg_rotate ::
    "token_env \<Rightarrow> opaque_token_codec \<Rightarrow> bool \<Rightarrow> entropy \<Rightarrow> token_uuid \<Rightarrow> string \<Rightarrow> int \<Rightarrow> pg_auth
      \<Rightarrow> (refresh_store_error + refresh_rotation) \<times> pg_auth" where
  "pg_rotate env c up ent next_id presented now db =
     (case parse_and_digest env c presented of
        Inl _ \<Rightarrow> (Ok Rotation_Rejected, db)
      | Inr candidate \<Rightarrow>
          transact up Refresh_Unavailable (\<lambda>db.
            case find_joined (tp_prefix candidate) db of
              None \<Rightarrow> Ok (Rotation_Rejected, db)
            | Some (current, family, session) \<Rightarrow>
                if \<not> verify_digest (tp_digest candidate) (rt_digest current) then Ok (Rotation_Rejected, db)
                else if fa_revoked_at_ms family \<noteq> None \<or> se_revoked_at_ms session \<noteq> None \<or> se_expires_at_ms session \<le> now
                  \<or> rt_expires_at_ms current \<le> now
                then Ok (Rotation_Rejected, db)
                else if rt_used_at_ms current \<noteq> None
                then Ok (ReuseDetected (fa_id family) (fa_session_id family),
                  revoke_family (fa_id family) (fa_session_id family) now ''refresh_reuse'' db)
                else
                  bindr (map_err (\<lambda>_. Refresh_Unavailable) (token_issue env c ent)) (\<lambda>(plaintext, parts).
                    let new = next_token next_id now parts current family;
                        P = \<lambda>t. rt_id t = rt_id current \<and> rt_used_at_ms t = None
                    in
                    bindr (insert_refresh_token new db) (\<lambda>db1.
                      if rows_affected P (pa_tokens db1) \<noteq> 1 then Err Refresh_Unavailable
                      else Ok (Rotated plaintext new family,
                        db1\<lparr>pa_tokens := update_rows P (\<lambda>t. t\<lparr>rt_used_at_ms := Some now, rt_replaced_by := Some next_id\<rparr>) (pa_tokens db1),
                            pa_sessions := update_rows (\<lambda>s. se_id s = fa_session_id family)
                              (\<lambda>s. s\<lparr>ps_last_seen_at_ms := max (ps_last_seen_at_ms s) now\<rparr>) (pa_sessions db1)\<rparr>)))) db)"

definition rotate_for_project ::
    "token_env \<Rightarrow> opaque_token_codec \<Rightarrow> bool \<Rightarrow> entropy \<Rightarrow> token_uuid \<Rightarrow> token_uuid \<Rightarrow> string \<Rightarrow> int \<Rightarrow> pg_auth
      \<Rightarrow> (refresh_store_error + refresh_rotation) \<times> pg_auth" where
  "rotate_for_project env c up ent next_id project presented now db =
     (case parse_and_digest env c presented of
        Inl _ \<Rightarrow> (Ok Rotation_Rejected, db)
      | Inr candidate \<Rightarrow>
          if \<not> up then (Err Refresh_Unavailable, db)
          else case List.find (\<lambda>t. rt_prefix t = tp_prefix candidate) (pa_tokens db) of
            None \<Rightarrow> (Ok Rotation_Rejected, db)
          | Some t \<Rightarrow>
              (case List.find (\<lambda>f. fa_id f = rt_family_id t) (pa_families db) of
                 None \<Rightarrow> (Ok Rotation_Rejected, db)
               | Some f \<Rightarrow>
                   if fa_project_id f \<noteq> project \<or> \<not> verify_digest (tp_digest candidate) (rt_digest t) then (Ok Rotation_Rejected, db)
                   else pg_rotate env c up ent next_id presented now db))"

definition revoke_presented_for_project ::
    "token_env \<Rightarrow> opaque_token_codec \<Rightarrow> bool \<Rightarrow> token_uuid \<Rightarrow> string \<Rightarrow> int \<Rightarrow> pg_auth
      \<Rightarrow> (refresh_store_error + bool) \<times> pg_auth" where
  "revoke_presented_for_project env c up project presented now db =
     (case parse_and_digest env c presented of
        Inl _ \<Rightarrow> (Ok False, db)
      | Inr candidate \<Rightarrow>
          transact up Refresh_Unavailable (\<lambda>db.
            case List.find (\<lambda>t. rt_prefix t = tp_prefix candidate) (pa_tokens db) of
              None \<Rightarrow> Ok (False, db)
            | Some t \<Rightarrow>
                (case List.find (\<lambda>f. fa_id f = rt_family_id t) (pa_families db) of
                   None \<Rightarrow> Ok (False, db)
                 | Some f \<Rightarrow>
                     if fa_project_id f \<noteq> project \<or> \<not> verify_digest (tp_digest candidate) (rt_digest t) then Ok (False, db)
                     else Ok (True, revoke_family (fa_id f) (fa_session_id f) now ''signed_out'' db))) db)"

record session_summary =
  sm_id :: token_uuid
  sm_created_at_ms :: int
  sm_last_seen_at_ms :: int
  sm_expires_at_ms :: int
  sm_revoked_at_ms :: "int option"

definition list_user_sessions ::
    "bool \<Rightarrow> token_uuid \<Rightarrow> token_uuid \<Rightarrow> pg_auth \<Rightarrow> refresh_store_error + session_summary list" where
  "list_user_sessions up project user db =
     (if \<not> up then Err Refresh_Unavailable
      else Ok (map (\<lambda>s. \<lparr>sm_id = se_id s, sm_created_at_ms = ps_created_at_ms s, sm_last_seen_at_ms = ps_last_seen_at_ms s,
          sm_expires_at_ms = se_expires_at_ms s, sm_revoked_at_ms = se_revoked_at_ms s\<rparr>)
        (take 100 (sort_key (\<lambda>s. - ps_created_at_ms s)
          (filter (\<lambda>s. se_project_id s = project \<and> se_user_id s = user) (pa_sessions db))))))"

definition revoke_user_session ::
    "bool \<Rightarrow> token_uuid \<Rightarrow> token_uuid \<Rightarrow> token_uuid \<Rightarrow> int \<Rightarrow> pg_auth \<Rightarrow> (refresh_store_error + bool) \<times> pg_auth" where
  "revoke_user_session up project user sid now =
     transact up Refresh_Unavailable (\<lambda>db.
       case List.find (\<lambda>f. fa_project_id f = project \<and> fa_user_id f = user \<and> fa_session_id f = sid
           \<and> list_ex (\<lambda>s. se_id s = sid \<and> se_project_id s = project \<and> se_user_id s = user) (pa_sessions db)) (pa_families db) of
         None \<Rightarrow> Ok (False, db)
       | Some f \<Rightarrow> Ok (True, revoke_family (fa_id f) sid now ''user_revoked'' db))"

definition issue_session_with_ttl ::
    "token_env \<Rightarrow> opaque_token_codec \<Rightarrow> bool \<Rightarrow> entropy \<Rightarrow> token_uuid \<times> token_uuid \<times> token_uuid \<Rightarrow> token_uuid \<Rightarrow> token_uuid \<Rightarrow> int
      \<Rightarrow> nat \<Rightarrow> pg_auth \<Rightarrow> (refresh_store_error + refresh_issue) \<times> pg_auth" where
  "issue_session_with_ttl env c up ent ids project user now ttl_seconds db =
     (let (sid, fid, tid) = ids in
      case
        if \<not> (3600 \<le> ttl_seconds \<and> ttl_seconds \<le> 7776000) then Err Refresh_Invalid
        else
          bindr (ok_or (checked_add_i64 now (int ttl_seconds * 1000)) Refresh_Invalid) (\<lambda>expires.
          bindr (map_err (\<lambda>_. Refresh_Unavailable) (token_issue env c ent)) (\<lambda>t. Ok (expires, t)))
      of
        Inl e \<Rightarrow> (Err e, db)
      | Inr (expires, plaintext, parts) \<Rightarrow>
          let session = \<lparr>se_id = sid, se_project_id = project, se_user_id = user,
                se_expires_at_ms = expires, se_revoked_at_ms = None, se_revoke_reason = None\<rparr>;
              family = \<lparr>fa_id = fid, fa_project_id = project, fa_user_id = user,
                fa_session_id = sid, fa_revoked_at_ms = None, fa_revoke_reason = None\<rparr>;
              token = \<lparr>rt_id = tid, rt_family_id = fid, rt_prefix = tp_prefix parts, rt_digest = tp_digest parts,
                rt_issued_at_ms = now, rt_expires_at_ms = expires, rt_used_at_ms = None, rt_replaced_by = None\<rparr>
          in transact up Refresh_Unavailable (\<lambda>db.
            if list_ex (\<lambda>s. se_id s = sid) (pa_sessions db) \<or> \<not> list_ex (is_user project user) (pa_users db)
              \<or> list_ex (\<lambda>f. fa_id f = fid \<or> fa_session_id f = sid) (pa_families db)
            then Err Refresh_Unavailable
            else
              bindr (insert_refresh_token token
                (db\<lparr>pa_sessions := pa_sessions db @
                      [session_record.extend session (pg_session.fields now now)],
                    pa_families := pa_families db @ [family]\<rparr>)) (\<lambda>db'.
                Ok (\<lparr>ri_plaintext = plaintext, ri_session = session, ri_family = family, ri_token = token\<rparr>, db'))) db)"

definition pg_issue_session ::
    "token_env \<Rightarrow> opaque_token_codec \<Rightarrow> bool \<Rightarrow> entropy \<Rightarrow> token_uuid \<times> token_uuid \<times> token_uuid \<Rightarrow> token_uuid \<Rightarrow> token_uuid \<Rightarrow> int
      \<Rightarrow> pg_auth \<Rightarrow> (refresh_store_error + refresh_issue) \<times> pg_auth" where
  "pg_issue_session env c up ent ids project user now =
     issue_session_with_ttl env c up ent ids project user now (nat (REFRESH_TOKEN_TTL_MS div 1000))"

definition pg_revoke_session ::
    "bool \<Rightarrow> token_uuid \<Rightarrow> int \<Rightarrow> string \<Rightarrow> pg_auth \<Rightarrow> (refresh_store_error + bool) \<times> pg_auth" where
  "pg_revoke_session up sid now reason db =
     (if reason = [] \<or> length reason > 64 then (Err Refresh_Invalid, db)
      else
        transact up Refresh_Unavailable (\<lambda>db.
          case List.find (\<lambda>f. fa_session_id f = sid) (pa_families db) of
            None \<Rightarrow> Ok (False, db)
          | Some f \<Rightarrow> Ok (True, revoke_family (fa_id f) sid now reason db)) db)"

end
