(* ===== verification/Auth_Pg_Properties.thy ===== *)
theory Auth_Pg_Properties
  imports Auth_Pg Auth_Properties
begin

text \<open>
  The PostgreSQL stores: a change of password, a reset and a disabling end the user's sessions for good, whatever
  operations follow, and the refresh store gives the answers of the in-memory store.
\<close>

section \<open>Rows\<close>

lemma find_update_rows:
  assumes "\<And>r. key (f r) = key r"
  shows "List.find (\<lambda>r. key r = k) (update_rows P f rows) = map_option (\<lambda>r. if P r then f r else r) (List.find (\<lambda>r. key r = k) rows)"
  using assms by (induction rows) (auto simp: update_rows_def)

lemma find_update_key:
  assumes "\<And>r. key (f r) = key r"
  shows "List.find (\<lambda>r. key r = k) (update_rows (\<lambda>r. key r = k0) f rows) =
    (if k = k0 then map_option f (List.find (\<lambda>r. key r = k) rows) else List.find (\<lambda>r. key r = k) rows)"
  using assms by (induction rows) (auto simp: update_rows_def)

lemma set_update_rows: "set (update_rows P f rows) = (\<lambda>r. if P r then f r else r) ` set rows"
  by (simp add: update_rows_def)

lemma image_update_rows: "(\<And>r. key (f r) = key r) \<Longrightarrow> key ` set (update_rows P f rows) = key ` set rows"
  unfolding set_update_rows image_image by (rule image_cong) simp_all

lemma get_or_insert_Some [simp]: "\<exists>y. get_or_insert v x = Some y"
  by (simp add: get_or_insert_def split: option.split)

lemma transact_cases:
  assumes "transact up e body db = (r, db')"
  obtains (Same) e' where "db' = db" "r = Err e'" | (Done) a where "body db = Ok (a, db')" "r = Ok a"
  using assms by (auto simp: transact_def split: if_split_asm sum.split_asm prod.split_asm)

section \<open>All operations\<close>

text \<open>\<open>oc\<close> and \<open>rc\<close> are the codecs of one-time and of refresh tokens.\<close>

inductive pg_step :: "token_env \<Rightarrow> opaque_token_codec \<Rightarrow> opaque_token_codec \<Rightarrow> pg_auth \<Rightarrow> pg_auth \<Rightarrow> bool" for env oc rc where
  key_insert: "pg_api_key_insert up k name by db = (r0, db') \<Longrightarrow> pg_step env oc rc db db'"
| key_revoke: "pg_api_key_revoke up kid now db = (r1, db') \<Longrightarrow> pg_step env oc rc db db'"
| account_insert: "pg_account_insert up u db = (r0, db') \<Longrightarrow> pg_step env oc rc db db'"
| set_verified: "pg_set_verified up project user now db = (r1, db') \<Longrightarrow> pg_step env oc rc db db'"
| set_password: "pg_set_password up project user hash now db = (r1, db') \<Longrightarrow> pg_step env oc rc db db'"
| disable: "pg_disable up project user now db = (r1, db') \<Longrightarrow> pg_step env oc rc db db'"
| set_disabled: "set_disabled_for_project up project user disabled now db = (r1, db') \<Longrightarrow> pg_step env oc rc db db'"
| verify_email: "verify_email_for_project env oc up project token now db = (r2, db') \<Longrightarrow> pg_step env oc rc db db'"
| reset_password: "reset_password_for_project env oc up project token hash now db = (r2, db') \<Longrightarrow> pg_step env oc rc db db'"
| one_time_issue: "pg_one_time_issue env oc up ent tid project user purpose now db = (r3, db') \<Longrightarrow> pg_step env oc rc db db'"
| one_time_consume: "pg_one_time_consume env oc up token purpose now db = (r4, db') \<Longrightarrow> pg_step env oc rc db db'"
| consume_for_project: "consume_for_project env oc up project token purpose now db = (r4, db') \<Longrightarrow> pg_step env oc rc db db'"
| issue_session: "issue_session_with_ttl env rc up ent ids project user now ttl db = (r5, db') \<Longrightarrow> pg_step env oc rc db db'"
| rotate: "pg_rotate env rc up ent tid token now db = (r6, db') \<Longrightarrow> pg_step env oc rc db db'"
| rotate_for_project: "rotate_for_project env rc up ent tid project token now db = (r6, db') \<Longrightarrow> pg_step env oc rc db db'"
| revoke_session: "pg_revoke_session up sid now reason db = (r7, db') \<Longrightarrow> pg_step env oc rc db db'"
| revoke_user_session: "revoke_user_session up project user sid now db = (r7, db') \<Longrightarrow> pg_step env oc rc db db'"
| revoke_presented: "revoke_presented_for_project env rc up project token now db = (r7, db') \<Longrightarrow> pg_step env oc rc db db'"

text \<open>What an operation does to the sessions: it keeps each with its revocation, and adds at most one with a new identifier.\<close>

inductive session_change :: "pg_session list \<Rightarrow> pg_session list \<Rightarrow> bool" where
  keep: "session_change ss ss"
| update: "(\<And>s. se_id (f s) = se_id s) \<Longrightarrow> (\<And>s. se_revoked_at_ms s \<noteq> None \<Longrightarrow> se_revoked_at_ms (f s) \<noteq> None) \<Longrightarrow>
    session_change ss (update_rows P f ss)"
| add: "se_id s \<notin> se_id ` set ss \<Longrightarrow> session_change ss (ss @ [s])"

declare session_change.keep [simp, intro!]

lemma revoke_row_change: "session_change ss (update_rows P (revoke_session_row now reason) ss)"
  by (rule session_change.update) (simp_all add: revoke_session_row_def)

lemma revoke_changes [simp]:
  "session_change (pa_sessions db) (pa_sessions (revoke_user_sessions project user now reason db))"
  "session_change (pa_sessions db) (pa_sessions (revoke_family fid sid now reason db))"
  by (simp_all add: revoke_user_sessions_def revoke_family_def revoke_row_change)

lemma update_user_change:
  assumes "update_user P f after db = (b, db')" and "\<And>db. session_change (pa_sessions db) (pa_sessions (after db))"
  shows "session_change (pa_sessions db) (pa_sessions db')"
  using assms(1) assms(2) [of "db\<lparr>pa_users := update_rows P f (pa_users db)\<rparr>"]
  by (auto simp: update_user_def Let_def split: if_split_asm)

lemma insert_refresh_token_Ok:
  assumes "insert_refresh_token t db = Ok db'"
  shows "db' = db\<lparr>pa_tokens := pa_tokens db @ [t]\<rparr>" "\<not> list_ex (\<lambda>x. rt_id x = rt_id t \<or> rt_prefix x = rt_prefix t) (pa_tokens db)"
  using assms by (auto simp: insert_refresh_token_def split: if_split_asm)

lemma issue_session_change:
  assumes "issue_session_with_ttl env rc up ent ids project user now ttl db = (r, db')"
  shows "session_change (pa_sessions db) (pa_sessions db')"
proof -
  obtain sid fid tid where ids: "ids = (sid, fid, tid)" by (cases ids)
  show ?thesis
    using assms unfolding issue_session_with_ttl_def ids Let_def
    by (auto simp: bindr_eq_Ok session_record.defs pg_session.defs list_ex_iff dest!: insert_refresh_token_Ok(1)
        elim!: transact_cases split: sum.split_asm prod.split_asm if_split_asm)
      (rule session_change.add, force)
qed

lemma rotate_change:
  assumes "pg_rotate env rc up ent tid token now db = (r, db')"
  shows "session_change (pa_sessions db) (pa_sessions db')"
proof (cases "parse_and_digest env rc token")
  case (Inl e)
  then show ?thesis using assms by (simp add: pg_rotate_def)
next
  case (Inr candidate)
  have touch: "session_change ss (update_rows P (\<lambda>s. s\<lparr>ps_last_seen_at_ms := max (ps_last_seen_at_ms s) now\<rparr>) ss)" for ss P
    by (rule session_change.update) simp_all
  show ?thesis
    using assms Inr unfolding pg_rotate_def
    by (auto simp: bindr_eq_Ok Let_def simp: touch dest!: insert_refresh_token_Ok(1)
        elim!: transact_cases split: option.split_asm prod.split_asm if_split_asm)
qed

lemma consume_one_time_token_sessions: "consume_one_time_token tid now db = Ok db' \<Longrightarrow> pa_sessions db' = pa_sessions db"
  by (auto simp: consume_one_time_token_def Let_def split: if_split_asm)

lemma pg_one_time_consume_sessions: "pg_one_time_consume env c up token purpose now db = (r, db') \<Longrightarrow> pa_sessions db' = pa_sessions db"
  by (auto simp: pg_one_time_consume_def bindr_eq_Ok elim!: transact_cases split: sum.split_asm if_split_asm)

lemma reset_password_cases:
  assumes "reset_password_for_project env oc up project token hash now db = (r, db')"
  obtains (Same) e where "db' = db" "r = Err e"
    | (Reset) user db1 where "r = Ok user" "pa_sessions db' = pa_sessions (revoke_user_sessions project user now ''password_reset'' db1)"
        "pa_sessions db1 = pa_sessions db"
  using assms unfolding reset_password_for_project_def
  by (auto simp: bindr_eq_Ok Let_def revoke_user_sessions_def dest!: consume_one_time_token_sessions elim!: transact_cases split: if_split_asm)

lemma pg_step_sessions:
  assumes "pg_step env oc rc db db'"
  shows "session_change (pa_sessions db) (pa_sessions db')"
  using assms
proof cases
  case (reset_password up project token hash now r2)
  then show ?thesis
    by (cases rule: reset_password_cases) (auto simp: revoke_user_sessions_def revoke_row_change)
next
  case (issue_session up ent ids project user now ttl r5)
  then show ?thesis by (rule issue_session_change)
next
  case (rotate up ent tid token now r6)
  then show ?thesis by (rule rotate_change)
next
  case (rotate_for_project up ent tid project token now r6)
  then show ?thesis
    by (auto simp: rotate_for_project_def intro: rotate_change split: sum.split_asm option.split_asm if_split_asm)
next
  case (consume_for_project up project token purpose now r4)
  then show ?thesis
    by (auto simp: consume_for_project_def simp del: not_None_eq split: sum.split_asm dest: pg_one_time_consume_sessions [symmetric])
next
  case (one_time_consume up token purpose now r4)
  then show ?thesis using pg_one_time_consume_sessions [OF one_time_consume] by simp
next
  case (verify_email up project token now r2)
  then show ?thesis
    by (auto simp: verify_email_for_project_def bindr_eq_Ok Let_def dest!: consume_one_time_token_sessions
        elim!: transact_cases split: if_split_asm)
next
  case (one_time_issue up ent tid project user purpose now r3)
  then show ?thesis
    by (auto simp: pg_one_time_issue_def bindr_eq_Ok Let_def elim!: transact_cases
        split: sum.split_asm prod.split_asm if_split_asm)
next
  case (set_password up project user hash now r1)
  then show ?thesis by (auto simp: pg_set_password_def intro: update_user_change elim!: transact_cases)
next
  case (disable up project user now r1)
  then show ?thesis by (auto simp: pg_disable_def intro: update_user_change elim!: transact_cases)
next
  case (set_disabled up project user disabled now r1)
  then show ?thesis
    by (auto simp: set_disabled_for_project_def intro: update_user_change elim!: transact_cases split: if_split_asm)
qed (auto simp: pg_api_key_insert_def pg_api_key_revoke_def pg_account_insert_def pg_set_verified_def pg_revoke_session_def
    revoke_user_session_def revoke_presented_for_project_def Let_def
    elim!: transact_cases split: if_split_asm option.split_asm sum.split_asm)

section \<open>Ended sessions\<close>

definition ended :: "token_uuid \<Rightarrow> pg_auth \<Rightarrow> bool" where
  "ended sid db \<longleftrightarrow> sid \<in> se_id ` set (pa_sessions db)
     \<and> (\<forall>s\<in>set (pa_sessions db). se_id s = sid \<longrightarrow> se_revoked_at_ms s \<noteq> None)"

lemma session_change_ended:
  assumes "session_change (pa_sessions db) (pa_sessions db')" and "ended sid db"
  shows "ended sid db'"
  using assms(1)
proof cases
  case (update f P)
  have "se_id ` set (pa_sessions db') = se_id ` set (pa_sessions db)"
    unfolding update(1) by (rule image_update_rows) (rule update(2))
  then show ?thesis using assms(2) update(2,3) unfolding ended_def update(1) set_update_rows by auto
qed (use assms(2) in \<open>auto simp: ended_def\<close>)

interpretation ended_session: transition_system "ended sid" "pg_step env oc rc" "ended sid" for env oc rc sid
  by unfold_locales (assumption, blast intro: session_change_ended pg_step_sessions)

lemma revoke_user_sessions_ended:
  assumes "s \<in> set (pa_sessions db)" and "se_project_id s = project" and "se_user_id s = user" and "distinct (map se_id (pa_sessions db))"
    and "pa_sessions db' = pa_sessions (revoke_user_sessions project user now reason db)"
  shows "ended (se_id s) db'"
proof -
  have ids: "se_id ` set (pa_sessions db') = se_id ` set (pa_sessions db)"
    unfolding assms(5) revoke_user_sessions_def by (simp add: image_update_rows revoke_session_row_def)
  have "x = s" if "x \<in> set (pa_sessions db)" "se_id x = se_id s" for x
    using assms(1,4) that by (auto simp: distinct_map inj_on_def)
  then have "\<forall>x\<in>set (pa_sessions db'). se_id x = se_id s \<longrightarrow> se_revoked_at_ms x \<noteq> None"
    using assms(2,3) unfolding assms(5)
    by (auto simp: revoke_user_sessions_def set_update_rows revoke_session_row_def)
  then show ?thesis using assms(1) ids by (simp add: ended_def)
qed

definition refresh_view :: "pg_auth \<Rightarrow> refresh_state" where
  "refresh_view db =
     \<lparr>sessions = map (\<lambda>s. (se_id s, session_record.truncate s)) (pa_sessions db), families = map (\<lambda>f. (fa_id f, f)) (pa_families db),
      tokens = map (\<lambda>t. (rt_id t, t)) (pa_tokens db), token_by_prefix = map (\<lambda>t. (rt_prefix t, rt_id t)) (pa_tokens db)\<rparr>"

lemma ended_is_dead:
  assumes "ended sid db"
  shows "\<not> live_session (refresh_view db) project user sid t"
    and "find_joined prefix db = Some (tok, f, s) \<Longrightarrow> fa_session_id f = sid \<Longrightarrow> se_revoked_at_ms s \<noteq> None"
proof -
  have "se_revoked_at_ms x \<noteq> None" if "hm_get (sessions (refresh_view db)) sid = Some x" for x
    using that assms unfolding hm_get_def refresh_view_def ended_def
    by (auto dest!: map_of_SomeD simp: session_record.defs)
  then show "\<not> live_session (refresh_view db) project user sid t"
    by (auto simp: live_session_def split: option.split_asm)
  show "se_revoked_at_ms s \<noteq> None" if "find_joined prefix db = Some (tok, f, s)" "fa_session_id f = sid"
    using that assms by (auto simp: find_joined_def ended_def find_Some_iff split: option.split_asm)
qed

lemma rotate_Rotated:
  assumes "pg_rotate env rc up ent tid token now db = (Ok (Rotated p new f), db')"
  obtains prefix cur s where "find_joined prefix db = Some (cur, f, s)" "se_revoked_at_ms s = None"
  using assms unfolding pg_rotate_def
  by (auto simp: bindr_eq_Ok Let_def elim!: transact_cases split: sum.split_asm option.split_asm prod.split_asm if_split_asm)

text \<open>The operations that end the sessions of a user.\<close>

definition ends_sessions ::
    "token_env \<Rightarrow> opaque_token_codec \<Rightarrow> token_uuid \<Rightarrow> token_uuid \<Rightarrow> pg_auth \<Rightarrow> pg_auth \<Rightarrow> bool" where
  "ends_sessions env oc project user db db' \<longleftrightarrow>
     (\<exists>up hash now. pg_set_password up project user hash now db = (Ok True, db'))
     \<or> (\<exists>up token hash now. reset_password_for_project env oc up project token hash now db = (Ok user, db'))
     \<or> (\<exists>up now. pg_disable up project user now db = (Ok True, db'))
     \<or> (\<exists>up now. set_disabled_for_project up project user True now db = (Ok True, db'))"

lemma ends_sessions_rows:
  assumes "ends_sessions env oc project user db db'"
  obtains now reason db1 where "pa_sessions db' = pa_sessions (revoke_user_sessions project user now reason db1)" "pa_sessions db1 = pa_sessions db"
proof -
  have upd: "\<exists>db1. db' = after db1 \<and> pa_sessions db1 = pa_sessions db" if "update_user P f after db = (True, db')" for P f after
    using that by (auto simp: update_user_def Let_def intro!: exI [of _ "db\<lparr>pa_users := update_rows P f (pa_users db)\<rparr>"] split: if_split_asm)
  from assms consider
      (Password) up hash now where "pg_set_password up project user hash now db = (Ok True, db')"
    | (Reset) up token hash now where "reset_password_for_project env oc up project token hash now db = (Ok user, db')"
    | (Disable) up now where "pg_disable up project user now db = (Ok True, db')"
    | (Disabled) up now where "set_disabled_for_project up project user True now db = (Ok True, db')"
    unfolding ends_sessions_def by blast
  then show thesis
  proof cases
    case Reset
    then show thesis by (cases rule: reset_password_cases) (auto intro: that)
  qed (auto simp: pg_set_password_def pg_disable_def set_disabled_for_project_def elim!: transact_cases dest!: upd intro: that)
qed

text \<open>
  C19. A change of password, a reset or a disabling ends the user's sessions for good. After it, and after
  any later operations of the stores, no session the user had is live for an access token, no refresh
  token of it is rotated, and none identifies the user.
\<close>

theorem password_change_ends_sessions:
  assumes "distinct (map se_id (pa_sessions db))" and "s \<in> set (pa_sessions db)" and "se_project_id s = project" and "se_user_id s = user"
    and "ends_sessions env oc project user db db1" and "(pg_step env oc rc)\<^sup>*\<^sup>* db1 db2"
  shows "\<not> live_session (refresh_view db2) project user (se_id s) t
    \<and> (\<forall>p new f db3. pg_rotate env rc up ent tid token now db2 = (Ok (Rotated p new f), db3) \<longrightarrow> fa_session_id f \<noteq> se_id s)
    \<and> (\<forall>u sid. identify_refresh env rc up project token now db2 = Ok (Some (u, sid)) \<longrightarrow> sid \<noteq> se_id s)"
proof -
  obtain now' reason db' where rows: "pa_sessions db1 = pa_sessions (revoke_user_sessions project user now' reason db')" "pa_sessions db' = pa_sessions db"
    using assms(5) by (rule ends_sessions_rows)
  have "ended (se_id s) db1"
    by (rule revoke_user_sessions_ended [OF _ assms(3,4) _ rows(1)]) (use assms(1,2) rows(2) in simp_all)
  then have e: "ended (se_id s) db2" by (rule ended_session.reachable_inv [OF _ assms(6)])
  have "fa_session_id f \<noteq> se_id s" if "pg_rotate env rc up ent tid token now db2 = (Ok (Rotated p new f), db3)" for p new f db3
    using that by (rule rotate_Rotated) (use ended_is_dead(2) [OF e] in blast)
  moreover have "sid \<noteq> se_id s" if known: "identify_refresh env rc up project token now db2 = Ok (Some (u, sid))" for u sid
  proof -
    obtain prefix t f x where "find_joined prefix db2 = Some (t, f, x)" "fa_session_id f = sid" "se_revoked_at_ms x = None"
      using known by (auto simp: identify_refresh_def split: sum.split_asm if_split_asm option.split_asm prod.split_asm)
    then show ?thesis using ended_is_dead(2) [OF e] by blast
  qed
  ultimately show ?thesis using ended_is_dead(1) [OF e] by blast
qed

section \<open>The refresh store refines the in-memory store\<close>

text \<open>
  The rows and the maps agree: every lookup of the in-memory store finds what the query finds. The tables
  have unique identifiers, prefixes and session identifiers of families; \<open>refresh_ok\<close> is the invariant of the in-memory store.
\<close>

definition pg_refines :: "pg_auth \<Rightarrow> refresh_state \<Rightarrow> bool" where
  "pg_refines db m \<longleftrightarrow>
     (\<forall>k. hm_get (sessions m) k = map_option session_record.truncate (List.find (\<lambda>s. se_id s = k) (pa_sessions db)))
     \<and> (\<forall>k. hm_get (families m) k = List.find (\<lambda>f. fa_id f = k) (pa_families db))
     \<and> (\<forall>k. hm_get (tokens m) k = List.find (\<lambda>t. rt_id t = k) (pa_tokens db))
     \<and> (\<forall>p. hm_get (token_by_prefix m) p = map_option rt_id (List.find (\<lambda>t. rt_prefix t = p) (pa_tokens db)))
     \<and> hm_wf (families m) \<and> refresh_ok m
     \<and> distinct (map fa_id (pa_families db)) \<and> distinct (map fa_session_id (pa_families db)) \<and> distinct (map rt_id (pa_tokens db))"

lemma find_key: "List.find (\<lambda>r. key r = k) rows = Some x \<Longrightarrow> key x = k"
  by (auto simp: find_Some_iff)

lemma find_unique:
  assumes "distinct (map key rows)" and "r \<in> set rows"
  shows "List.find (\<lambda>x. key x = key r) rows = Some r"
  using assms by (induction rows) (auto simp: image_iff)

lemma find_prefix_id:
  assumes "pg_refines db m" and "List.find (\<lambda>t. rt_prefix t = p) (pa_tokens db) = Some t"
  shows "hm_get (tokens m) (rt_id t) = Some t" "hm_get (token_by_prefix m) p = Some (rt_id t)"
proof -
  have "t \<in> set (pa_tokens db)" using assms(2) by (auto simp: find_Some_iff)
  then have "List.find (\<lambda>x. rt_id x = rt_id t) (pa_tokens db) = Some t"
    using assms(1) by (intro find_unique) (simp_all add: pg_refines_def)
  then show "hm_get (tokens m) (rt_id t) = Some t" "hm_get (token_by_prefix m) p = Some (rt_id t)"
    using assms unfolding pg_refines_def by simp_all
qed

lemma pg_refinesD:
  assumes "pg_refines db m"
  shows "hm_get (sessions m) k = map_option session_record.truncate (List.find (\<lambda>s. se_id s = k) (pa_sessions db))"
    "hm_get (families m) k = List.find (\<lambda>f. fa_id f = k) (pa_families db)"
    "hm_get (tokens m) k = List.find (\<lambda>t. rt_id t = k) (pa_tokens db)"
    "hm_get (token_by_prefix m) p = map_option rt_id (List.find (\<lambda>t. rt_prefix t = p) (pa_tokens db))"
    "hm_wf (families m)" "refresh_ok m" "distinct (map fa_id (pa_families db))" "distinct (map fa_session_id (pa_families db))"
    "distinct (map rt_id (pa_tokens db))"
  using assms unfolding pg_refines_def by blast+

text \<open>The join of \<open>rotate\<close> finds what the three lookups find.\<close>

lemma find_presented_joined:
  assumes "pg_refines db m" and "parse_and_digest env c presented = Ok candidate"
  shows "find_presented env c presented now m =
    (case find_joined (tp_prefix candidate) db of
       None \<Rightarrow> Err (Ok Rotation_Rejected)
     | Some (t, f, s) \<Rightarrow>
         if \<not> verify_digest (tp_digest candidate) (rt_digest t)
           \<or> rotation_refused f (session_record.truncate s) t now
         then Err (Ok Rotation_Rejected) else Ok (rt_id t, t, f, session_record.truncate s))"
proof (cases "List.find (\<lambda>t. rt_prefix t = tp_prefix candidate) (pa_tokens db)")
  case None
  then show ?thesis
    using assms(2) pg_refinesD(4) [OF assms(1), of "tp_prefix candidate"] by (simp add: find_presented_def find_joined_def)
next
  case (Some t)
  note t = find_prefix_id [OF assms(1) Some]
  have ok: "maps_ok m" using pg_refinesD(6) [OF assms(1)] by (simp add: refresh_ok_def)
  obtain f where f: "hm_get (families m) (rt_family_id t) = Some f" using t(1) ok unfolding maps_ok_def by blast
  obtain s' where s': "hm_get (sessions m) (fa_session_id f) = Some s'" using f ok unfolding maps_ok_def by blast
  obtain s where s: "List.find (\<lambda>s. se_id s = fa_session_id f) (pa_sessions db) = Some s" "s' = session_record.truncate s"
    using s' pg_refinesD(1) [OF assms(1), of "fa_session_id f"] by auto
  have "List.find (\<lambda>x. fa_id x = rt_family_id t) (pa_families db) = Some f"
    using f pg_refinesD(2) [OF assms(1), of "rt_family_id t"] by simp
  then have "find_joined (tp_prefix candidate) db = Some (t, f, s)" using Some s(1) by (simp add: find_joined_def)
  then show ?thesis
    using assms(2) t f s' s(2) by (cases "verify_digest (tp_digest candidate) (rt_digest t)") (auto simp: find_presented_def)
qed

lemma refused_truncate:
  "rotation_refused f (session_record.truncate s) t now \<longleftrightarrow>
     fa_revoked_at_ms f \<noteq> None \<or> se_revoked_at_ms s \<noteq> None \<or> se_expires_at_ms s \<le> now \<or> rt_expires_at_ms t \<le> now"
  by (simp add: rotation_refused_def session_record.defs)

lemma truncate_revoked:
  "session_record.truncate (revoke_session_row now reason s) = (session_record.truncate s)
     \<lparr>se_revoked_at_ms := get_or_insert now (se_revoked_at_ms (session_record.truncate s)),
      se_revoke_reason := get_or_insert reason (se_revoke_reason (session_record.truncate s))\<rparr>"
  by (simp add: revoke_session_row_def session_record.defs)

text \<open>Revoking a family and its session does the same to both.\<close>

lemma revoke_family_refines:
  assumes "pg_refines db m" and "f \<in> set (pa_families db)"
  shows "pg_refines (revoke_family (fa_id f) (fa_session_id f) now reason db) (revoke_family_locked (fa_id f) now reason m)"
proof -
  have f: "hm_get (families m) (fa_id f) = Some f"
    unfolding pg_refinesD(2) [OF assms(1)] by (rule find_unique [OF pg_refinesD(7) [OF assms(1)] assms(2)])
  have ok: "refresh_ok (revoke_family_locked (fa_id f) now reason m)" using pg_refinesD(6) [OF assms(1)] by (rule revoke_family_ok)
  obtain s' where s': "hm_get (sessions m) (fa_session_id f) = Some s'"
    using f pg_refinesD(6) [OF assms(1)] unfolding refresh_ok_def maps_ok_def by blast
  then obtain s where s: "List.find (\<lambda>s. se_id s = fa_session_id f) (pa_sessions db) = Some s" "s' = session_record.truncate s"
    using pg_refinesD(1) [OF assms(1), of "fa_session_id f"] by auto
  let ?rf = "f\<lparr>fa_revoked_at_ms := get_or_insert now (fa_revoked_at_ms f), fa_revoke_reason := get_or_insert reason (fa_revoke_reason f)\<rparr>"
  let ?rs = "s'\<lparr>se_revoked_at_ms := get_or_insert now (se_revoked_at_ms s'), se_revoke_reason := get_or_insert reason (se_revoke_reason s')\<rparr>"
  have m': "revoke_family_locked (fa_id f) now reason m =
      m\<lparr>families := hm_insert (fa_id f) ?rf (families m), sessions := hm_insert (fa_session_id f) ?rs (sessions m)\<rparr>"
    using f s' by (simp add: revoke_family_locked_def Let_def)
  have fam: "List.find (\<lambda>x. fa_id x = k) (update_rows (\<lambda>x. fa_id x = fa_id f) (revoke_family_row now reason) (pa_families db))
      = ((hm_get (families m))(fa_id f \<mapsto> ?rf)) k" for k
    using f pg_refinesD(2) [OF assms(1), of k]
    by (subst find_update_key) (auto simp: revoke_family_row_def)
  have ses: "map_option session_record.truncate (List.find (\<lambda>x. se_id x = k)
      (update_rows (\<lambda>x. se_id x = fa_session_id f) (revoke_session_row now reason) (pa_sessions db)))
      = ((hm_get (sessions m))(fa_session_id f \<mapsto> ?rs)) k" for k
    using s pg_refinesD(1) [OF assms(1), of k]
    by (subst find_update_key [where key = se_id]) (auto simp: truncate_revoked, simp add: revoke_session_row_def)
  have ids: "map key (update_rows P (revoke_family_row now reason) rows) = map key rows"
    if "\<And>x. key (revoke_family_row now reason x) = key x" for key :: "refresh_family \<Rightarrow> nat" and P rows
    using that by (simp add: update_rows_def)
  show ?thesis
    using ok pg_refinesD [OF assms(1)] fam ses unfolding pg_refines_def m' revoke_family_def
    by (simp add: hm_get_insert hm_wf_insert ids revoke_family_row_def)
qed

lemma revoke_session_refines:
  assumes "pg_refines db m" and "pg_revoke_session True sid now reason db = (r, db')" and "revoke_session sid now reason m = (r', m')"
  shows "r = r' \<and> pg_refines db' m'"
proof (cases "reason = [] \<or> length reason > 64")
  case True
  then show ?thesis using assms by (simp add: pg_revoke_session_def revoke_session_def)
next
  case False
  have rows: "(k, f) \<in> set (families m) \<longleftrightarrow> hm_get (families m) k = Some f" for k f
    using pg_refinesD(5) [OF assms(1)] unfolding hm_wf_def hm_get_def by (simp add: map_of_eq_Some_iff)
  have mem: "hm_get (families m) k = Some f \<Longrightarrow> f \<in> set (pa_families db)" for k f
    unfolding pg_refinesD(2) [OF assms(1)] by (auto simp: find_Some_iff)
  have get: "hm_get (families m) (fa_id f) = Some f" if "f \<in> set (pa_families db)" for f
    unfolding pg_refinesD(2) [OF assms(1)] by (rule find_unique [OF pg_refinesD(7) [OF assms(1)] that])
  show ?thesis
  proof (cases "List.find (\<lambda>f. fa_session_id f = sid) (pa_families db)")
    case None
    have "List.find (\<lambda>(k, f). fa_session_id f = sid) (families m) = None"
      using None mem rows by (force simp: find_None_iff)
    then show ?thesis using None False assms by (simp add: pg_revoke_session_def revoke_session_def transact_def)
  next
    case (Some f)
    then have f: "f \<in> set (pa_families db)" "fa_session_id f = sid" by (auto simp: find_Some_iff)
    have "(fa_id f, f) \<in> set (families m)" using get [OF f(1)] rows by simp
    then obtain k g where g: "List.find (\<lambda>(k, f). fa_session_id f = sid) (families m) = Some (k, g)"
      using f(2) by (cases "List.find (\<lambda>(k, f). fa_session_id f = sid) (families m)") (auto simp: find_None_iff)
    then have "g \<in> set (pa_families db)" "fa_session_id g = sid" using mem rows by (auto simp: find_Some_iff) (metis nth_mem)+
    then have "g = f" using f pg_refinesD(8) [OF assms(1)] by (auto simp: distinct_map inj_on_def)
    then show ?thesis
      using Some g False assms(2,3) f(2) revoke_family_refines [OF assms(1) f(1), of now reason]
      by (simp add: pg_revoke_session_def revoke_session_def transact_def)
  qed
qed

lemma fresh_rows:
  assumes "pg_refines db m" and "hm_get (tokens m) tid = None" and "hm_get (token_by_prefix m) p = None"
  shows "\<not> list_ex (\<lambda>x. rt_id x = tid \<or> rt_prefix x = p) (pa_tokens db)" "tid \<notin> rt_id ` set (pa_tokens db)"
    "List.find (\<lambda>x. rt_id x = tid) (pa_tokens db) = None" "List.find (\<lambda>x. rt_prefix x = p) (pa_tokens db) = None"
  using assms(2,3) unfolding pg_refinesD(3,4) [OF assms(1)] by (auto simp: find_None_iff list_ex_iff)

lemma filter_single: "distinct xs \<Longrightarrow> x \<in> set xs \<Longrightarrow> filter (\<lambda>y. y = x) xs = [x]"
  by (induction xs) (auto simp: filter_empty_conv)

text \<open>A rotation that yields a new token: one row more, and the presented one marked as used.\<close>

lemma rotated_refines:
  assumes "pg_refines db m" and "List.find (\<lambda>t. rt_prefix t = p) (pa_tokens db) = Some cur" and "rt_used_at_ms cur = None"
    and "hm_get (tokens m) (rt_id new) = None" and "hm_get (token_by_prefix m) (rt_prefix new) = None"
    and "m' = put_token new (m\<lparr>tokens := hm_insert (rt_id cur) (cur\<lparr>rt_used_at_ms := Some now, rt_replaced_by := Some i\<rparr>) (tokens m)\<rparr>)"
    and "refresh_ok m'"
  defines "P \<equiv> \<lambda>t. rt_id t = rt_id cur \<and> rt_used_at_ms t = None"
  shows "rows_affected P (pa_tokens db @ [new]) = 1"
    and "pg_refines (db\<lparr>pa_tokens := update_rows P (\<lambda>t. t\<lparr>rt_used_at_ms := Some now, rt_replaced_by := Some i\<rparr>) (pa_tokens db @ [new]),
      pa_sessions := update_rows Q (\<lambda>s. s\<lparr>ps_last_seen_at_ms := max (ps_last_seen_at_ms s) now\<rparr>) (pa_sessions db)\<rparr>) m'"
proof -
  note fresh = fresh_rows [OF assms(1,4,5)]
  have cur: "cur \<in> set (pa_tokens db)" using assms(2) by (auto simp: find_Some_iff)
  have uniq: "x = cur" if "x \<in> set (pa_tokens db)" "rt_id x = rt_id cur" for x
    using that cur pg_refinesD(9) [OF assms(1)] by (auto simp: distinct_map inj_on_def)
  have new: "rt_id new \<noteq> rt_id cur" using fresh(2) cur by auto
  have "filter P (pa_tokens db) = [cur]"
  proof -
    have "filter P (pa_tokens db) = filter (\<lambda>x. x = cur) (pa_tokens db)"
      using uniq assms(3) by (intro filter_cong) (auto simp: P_def)
    moreover have "distinct (pa_tokens db)" using pg_refinesD(9) [OF assms(1)] by (simp add: distinct_map)
    ultimately show ?thesis using cur by (simp add: filter_single)
  qed
  then show "rows_affected P (pa_tokens db @ [new]) = 1" using new by (simp add: rows_affected_def P_def)
  let ?f = "\<lambda>t. t\<lparr>rt_used_at_ms := Some now, rt_replaced_by := Some i\<rparr>"
  have find_cur: "List.find (\<lambda>t. rt_id t = rt_id cur) (pa_tokens db) = Some cur"
    by (rule find_unique [OF pg_refinesD(9) [OF assms(1)] cur])
  have ids: "List.find (\<lambda>t. rt_id t = k) (update_rows P ?f (pa_tokens db @ [new])) =
      ((hm_get (tokens m))(rt_id cur \<mapsto> ?f cur, rt_id new \<mapsto> new)) k" for k
  proof -
    have upd: "List.find (\<lambda>t. rt_id t = k) (update_rows P ?f (pa_tokens db @ [new])) =
        map_option (\<lambda>t. if P t then ?f t else t) (List.find (\<lambda>t. rt_id t = k) (pa_tokens db @ [new]))"
      by (rule find_update_rows) simp
    consider "k = rt_id new" | "k = rt_id cur" | "k \<noteq> rt_id new" "k \<noteq> rt_id cur" by blast
    then show ?thesis
    proof cases
      case 1
      then show ?thesis unfolding upd by (simp add: find_append fresh(3) P_def new)
    next
      case 2
      then show ?thesis unfolding upd using new by (simp add: find_append find_cur P_def assms(3))
    next
      case 3
      then have "map_option (\<lambda>t. if P t then ?f t else t) (List.find (\<lambda>t. rt_id t = k) (pa_tokens db)) = List.find (\<lambda>t. rt_id t = k) (pa_tokens db)"
        by (cases "List.find (\<lambda>t. rt_id t = k) (pa_tokens db)") (auto dest: find_key simp: P_def)
      moreover have "List.find (\<lambda>t. rt_id t = k) (pa_tokens db @ [new]) = List.find (\<lambda>t. rt_id t = k) (pa_tokens db)"
        using 3(1) by (simp add: find_append split: option.split)
      ultimately show ?thesis unfolding upd using 3 pg_refinesD(3) [OF assms(1), of k] by simp
    qed
  qed
  have prefixes: "map_option rt_id (List.find (\<lambda>t. rt_prefix t = q) (update_rows P ?f (pa_tokens db @ [new]))) =
      ((hm_get (token_by_prefix m))(rt_prefix new \<mapsto> rt_id new)) q" for q
    using fresh(4) pg_refinesD(4) [OF assms(1), of q]
    by (subst find_update_rows) (auto simp: find_append split: option.split)
  have ses: "map_option session_record.truncate (List.find (\<lambda>s. se_id s = k)
      (update_rows Q (\<lambda>s. s\<lparr>ps_last_seen_at_ms := max (ps_last_seen_at_ms s) now\<rparr>) (pa_sessions db))) = hm_get (sessions m) k" for k
    unfolding pg_refinesD(1) [OF assms(1)]
    by (subst find_update_rows [where key = se_id], simp)
      (cases "List.find (\<lambda>s. se_id s = k) (pa_sessions db)"; simp add: session_record.defs)
  have "distinct (map rt_id (update_rows P ?f (pa_tokens db @ [new])))"
    using fresh(2) pg_refinesD(9) [OF assms(1)] by (simp add: update_rows_def comp_def if_distrib cong: if_cong)
  then show "pg_refines (db\<lparr>pa_tokens := update_rows P ?f (pa_tokens db @ [new]),
      pa_sessions := update_rows Q (\<lambda>s. s\<lparr>ps_last_seen_at_ms := max (ps_last_seen_at_ms s) now\<rparr>) (pa_sessions db)\<rparr>) m'"
    using pg_refinesD(2,5-8) [OF assms(1)] ids prefixes ses assms(7) unfolding pg_refines_def assms(6)
    by (simp add: put_token_def hm_get_insert)
qed

lemma rotate_refines:
  assumes "pg_refines db m" and "pg_rotate env c True ent next_id presented now db = (r, db')"
    and "rotate_token env c ent next_id presented now m = (r', m')"
    and fresh: "hm_get (tokens m) next_id = None" "fresh_prefix env c ent m"
  shows "r = r' \<and> pg_refines db' m'"
proof (cases "parse_and_digest env c presented")
  case (Inl e)
  then show ?thesis using assms(1-3) by (simp add: pg_rotate_def rotate_token_def find_presented_def)
next
  case (Inr candidate)
  note found = find_presented_joined [OF assms(1) Inr, of now]
  show ?thesis
  proof (cases "find_joined (tp_prefix candidate) db")
    case None
    then show ?thesis using assms(1-3) Inr found by (simp add: pg_rotate_def rotate_token_def transact_def)
  next
    case (Some tfs)
    obtain t f s where tfs: "tfs = (t, f, s)" by (cases tfs)
    have rows: "List.find (\<lambda>x. rt_prefix x = tp_prefix candidate) (pa_tokens db) = Some t" "f \<in> set (pa_families db)" "fa_id f = rt_family_id t"
      using Some unfolding tfs find_joined_def by (auto simp: find_Some_iff split: option.split_asm)
    show ?thesis
    proof (cases "\<not> verify_digest (tp_digest candidate) (rt_digest t) \<or> rotation_refused f (session_record.truncate s) t now")
      case True
      then show ?thesis
        using assms(1-3) Inr found Some
        by (auto simp: tfs pg_rotate_def rotate_token_def transact_def refused_truncate split: if_split_asm)
    next
      case ok: False
      then have live: "find_presented env c presented now m = Ok (rt_id t, t, f, session_record.truncate s)" using found Some tfs by simp
      show ?thesis
      proof (cases "rt_used_at_ms t")
        case (Some u)
        then have "r' = Ok (ReuseDetected (fa_id f) (fa_session_id f))" "m' = revoke_family_locked (fa_id f) now ''refresh_reuse'' m"
            "r = Ok (ReuseDetected (fa_id f) (fa_session_id f))" "db' = revoke_family (fa_id f) (fa_session_id f) now ''refresh_reuse'' db"
          using assms(2,3) Inr ok live \<open>find_joined (tp_prefix candidate) db = Some tfs\<close>
          by (auto simp: tfs pg_rotate_def rotate_token_def transact_def refused_truncate)
        then show ?thesis using revoke_family_refines [OF assms(1) rows(2)] by simp
      next
        case None
        show ?thesis
        proof (cases "token_issue env c ent")
          case (Inl e)
          then show ?thesis
            using assms(1-3) Inr ok live Some None by (auto simp: tfs pg_rotate_def rotate_token_def transact_def refused_truncate)
        next
          case issue: (Inr pp)
          obtain plaintext parts where pp: "pp = (plaintext, parts)" by (cases pp)
          define new where "new = next_token next_id now parts t f"
          have new: "rt_id new = next_id" "rt_prefix new = tp_prefix parts" "rt_family_id new = fa_id f" "rt_issued_at_ms new = now"
              "rt_expires_at_ms new = rt_expires_at_ms t"
            by (simp_all add: new_def next_token_def)
          have prefix: "hm_get (token_by_prefix m) (tp_prefix parts) = None" using fresh(2) issue pp by (simp add: fresh_prefix_def)
          have mem: "r' = Ok (Rotated plaintext new f)" "m' = put_token new
              (m\<lparr>tokens := hm_insert (rt_id t) (t\<lparr>rt_used_at_ms := Some now, rt_replaced_by := Some next_id\<rparr>) (tokens m)\<rparr>)"
            using assms(3) live None issue pp by (simp_all add: rotate_token_def new_def Let_def)
          have okm: "refresh_ok m'" by (rule rotate_token_ok [OF assms(3) pg_refinesD(6) [OF assms(1)] fresh(1)])
          note step = rotated_refines [OF assms(1) rows(1) None _ _ mem(2) okm, unfolded new(1,2), OF fresh(1) prefix]
          have "insert_refresh_token new db = Ok (db\<lparr>pa_tokens := pa_tokens db @ [new]\<rparr>)"
            using fresh_rows(1) [OF assms(1) fresh(1) prefix] new rows(2) ok
            by (auto simp: insert_refresh_token_def refused_truncate list_ex_iff)
          then show ?thesis
            using assms(2) Inr ok Some None issue pp mem(1) step
            by (auto simp: tfs pg_rotate_def transact_def refused_truncate Let_def new_def)
        qed
      qed
    qed
  qed
qed

lemma issue_refines:
  assumes "pg_refines db m" and "pg_issue_session env c True ent (sid, fid, tid) project user now db = (r, db')"
    and "issue_session env c ent (sid, fid, tid) project user now m = (r', m')"
    and "list_ex (is_user project user) (pa_users db)"
    and fresh: "hm_get (sessions m) sid = None" "hm_get (families m) fid = None" "hm_get (tokens m) tid = None" "fresh_prefix env c ent m"
  shows "r = r' \<and> pg_refines db' m'"
proof -
  have ttl: "int (nat (REFRESH_TOKEN_TTL_MS div 1000)) * 1000 = REFRESH_TOKEN_TTL_MS"
      "3600 \<le> nat (REFRESH_TOKEN_TTL_MS div 1000) \<and> nat (REFRESH_TOKEN_TTL_MS div 1000) \<le> 7776000" "REFRESH_TOKEN_TTL_MS > 0"
    by (simp_all add: REFRESH_TOKEN_TTL_MS_def)
  show ?thesis
  proof (cases "checked_add_i64 now REFRESH_TOKEN_TTL_MS")
    case None
    then show ?thesis using assms(1-3) ttl by (simp add: pg_issue_session_def issue_session_with_ttl_def issue_session_def)
  next
    case expires: (Some expires)
    show ?thesis
    proof (cases "token_issue env c ent")
      case (Inl e)
      then show ?thesis using assms(1-3) ttl expires by (simp add: pg_issue_session_def issue_session_with_ttl_def issue_session_def)
    next
      case (Inr pp)
      obtain plaintext parts where pp: "pp = (plaintext, parts)" by (cases pp)
      have prefix: "hm_get (token_by_prefix m) (tp_prefix parts) = None" using fresh(4) Inr pp by (simp add: fresh_prefix_def)
      note rows = fresh_rows [OF assms(1) fresh(3) prefix]
      have no_sid: "List.find (\<lambda>s. se_id s = sid) (pa_sessions db) = None" "List.find (\<lambda>f. fa_id f = fid) (pa_families db) = None"
        using fresh(1,2) pg_refinesD(1,2) [OF assms(1)] by simp_all
      have okm: "refresh_ok m'" by (rule issue_session_ok [OF assms(3) pg_refinesD(6) [OF assms(1)] fresh(1-3)])
      have no_fam: "sid \<notin> fa_session_id ` set (pa_families db)"
      proof
        assume "sid \<in> fa_session_id ` set (pa_families db)"
        then obtain f where "f \<in> set (pa_families db)" "fa_session_id f = sid" by auto
        then have "hm_get (families m) (fa_id f) = Some f" "fa_session_id f = sid"
          unfolding pg_refinesD(2) [OF assms(1)] using find_unique [OF pg_refinesD(7) [OF assms(1)]] by simp_all
        then show False using pg_refinesD(6) [OF assms(1)] fresh(1) unfolding refresh_ok_def maps_ok_def by metis
      qed
      define ses where "ses = \<lparr>se_id = sid, se_project_id = project, se_user_id = user,
          se_expires_at_ms = expires, se_revoked_at_ms = None, se_revoke_reason = None\<rparr>"
      define row where "row = session_record.extend ses (pg_session.fields now now)"
      define fam where "fam = \<lparr>fa_id = fid, fa_project_id = project, fa_user_id = user,
          fa_session_id = sid, fa_revoked_at_ms = None, fa_revoke_reason = None\<rparr>"
      define tok where "tok = \<lparr>rt_id = tid, rt_family_id = fid, rt_prefix = tp_prefix parts, rt_digest = tp_digest parts,
          rt_issued_at_ms = now, rt_expires_at_ms = expires, rt_used_at_ms = None, rt_replaced_by = None\<rparr>"
      have mem: "r' = Ok \<lparr>ri_plaintext = plaintext, ri_session = ses, ri_family = fam, ri_token = tok\<rparr>"
          "m' = put_token tok (m\<lparr>sessions := hm_insert sid ses (sessions m), families := hm_insert fid fam (families m)\<rparr>)"
        using assms(3) expires Inr pp by (simp_all add: issue_session_def ses_def fam_def tok_def Let_def)
      have "expires > now" using expires ttl(3) by (auto simp: checked_add_i64_Some)
      then have "insert_refresh_token tok (db\<lparr>pa_sessions := pa_sessions db @ [row], pa_families := pa_families db @ [fam]\<rparr>)
          = Ok (db\<lparr>pa_sessions := pa_sessions db @ [row], pa_families := pa_families db @ [fam], pa_tokens := pa_tokens db @ [tok]\<rparr>)"
        using rows(1) by (auto simp: insert_refresh_token_def tok_def fam_def)
      moreover have "\<not> list_ex (\<lambda>s. se_id s = sid) (pa_sessions db)" "\<not> list_ex (\<lambda>f. fa_id f = fid \<or> fa_session_id f = sid) (pa_families db)"
        using no_sid no_fam by (auto simp: list_ex_iff find_None_iff)
      ultimately have pg: "r = r'"
          "db' = db\<lparr>pa_sessions := pa_sessions db @ [row], pa_families := pa_families db @ [fam], pa_tokens := pa_tokens db @ [tok]\<rparr>"
        using assms(2,4) ttl expires Inr pp mem(1)
        by (simp_all add: pg_issue_session_def issue_session_with_ttl_def transact_def Let_def ses_def fam_def tok_def row_def)
      have trunc: "session_record.truncate row = ses" "se_id row = sid" by (simp_all add: row_def ses_def session_record.defs pg_session.defs)
      have "fid \<notin> fa_id ` set (pa_families db)" using no_sid(2) by (auto simp: find_None_iff)
      then have "pg_refines db' m'"
        using okm pg_refinesD [OF assms(1)] no_sid no_fam rows trunc unfolding pg_refines_def mem(2) pg(2)
        by (auto simp: put_token_def hm_get_insert hm_wf_insert find_append fam_def tok_def split: option.split)
      then show ?thesis using pg(1) by simp
    qed
  qed
qed

section \<open>Runs of both stores\<close>

datatype refresh_op =
    Op_Issue entropy "token_uuid \<times> token_uuid \<times> token_uuid" token_uuid token_uuid int
  | Op_Rotate entropy token_uuid string int
  | Op_Revoke token_uuid int string

datatype refresh_answer =
    An_Issue "refresh_store_error + refresh_issue"
  | An_Rotate "refresh_store_error + refresh_rotation"
  | An_Revoke "refresh_store_error + bool"

fun pg_answer :: "token_env \<Rightarrow> opaque_token_codec \<Rightarrow> refresh_op \<Rightarrow> pg_auth \<Rightarrow> refresh_answer \<times> pg_auth" where
  "pg_answer env c (Op_Issue ent ids project user now) db = map_prod An_Issue (\<lambda>x. x) (pg_issue_session env c True ent ids project user now db)"
| "pg_answer env c (Op_Rotate ent tid presented now) db = map_prod An_Rotate (\<lambda>x. x) (pg_rotate env c True ent tid presented now db)"
| "pg_answer env c (Op_Revoke sid now reason) db = map_prod An_Revoke (\<lambda>x. x) (pg_revoke_session True sid now reason db)"

fun memory_answer :: "token_env \<Rightarrow> opaque_token_codec \<Rightarrow> refresh_op \<Rightarrow> refresh_state \<Rightarrow> refresh_answer \<times> refresh_state" where
  "memory_answer env c (Op_Issue ent ids project user now) m = map_prod An_Issue (\<lambda>x. x) (issue_session env c ent ids project user now m)"
| "memory_answer env c (Op_Rotate ent tid presented now) m = map_prod An_Rotate (\<lambda>x. x) (rotate_token env c ent tid presented now m)"
| "memory_answer env c (Op_Revoke sid now reason) m = map_prod An_Revoke (\<lambda>x. x) (revoke_session sid now reason m)"

fun answers :: "('op \<Rightarrow> 's \<Rightarrow> 'a \<times> 's) \<Rightarrow> 'op list \<Rightarrow> 's \<Rightarrow> 'a list" where
  "answers f [] s = []"
| "answers f (op # ops) s = fst (f op s) # answers f ops (snd (f op s))"

text \<open>New identifiers and prefixes are fresh when they are drawn, and sessions are issued for accounts of the table.\<close>

lemma fresh_prefix_code [code]:
  "fresh_prefix env c ent m = (case token_issue env c ent of Inl _ \<Rightarrow> True | Inr (_, parts) \<Rightarrow> hm_get (token_by_prefix m) (tp_prefix parts) = None)"
  by (auto simp: fresh_prefix_def split: sum.split)

fun op_fresh :: "token_env \<Rightarrow> opaque_token_codec \<Rightarrow> refresh_op \<Rightarrow> refresh_state \<Rightarrow> bool" where
  "op_fresh env c (Op_Issue ent (sid, fid, tid) project user now) m =
     (hm_get (sessions m) sid = None \<and> hm_get (families m) fid = None \<and> hm_get (tokens m) tid = None \<and> fresh_prefix env c ent m)"
| "op_fresh env c (Op_Rotate ent tid presented now) m = (hm_get (tokens m) tid = None \<and> fresh_prefix env c ent m)"
| "op_fresh env c (Op_Revoke sid now reason) m = True"

fun ops_fresh :: "token_env \<Rightarrow> opaque_token_codec \<Rightarrow> refresh_op list \<Rightarrow> refresh_state \<Rightarrow> bool" where
  "ops_fresh env c [] m = True"
| "ops_fresh env c (op # ops) m = (op_fresh env c op m \<and> ops_fresh env c ops (snd (memory_answer env c op m)))"

fun op_known :: "auth_user list \<Rightarrow> refresh_op \<Rightarrow> bool" where
  "op_known users (Op_Issue ent ids project user now) = list_ex (is_user project user) users"
| "op_known users _ = True"

lemma transact_users:
  assumes "\<And>a db'. body db = Ok (a, db') \<Longrightarrow> pa_users db' = pa_users db"
  shows "pa_users (snd (transact up e body db)) = pa_users db"
  using assms by (auto simp: transact_def split: sum.split)

lemma refresh_ops_keep_users: "pa_users (snd (pg_answer env c op db)) = pa_users db"
proof (cases op)
  case (Op_Issue ent ids project user now)
  then show ?thesis
    by (auto simp: pg_issue_session_def issue_session_with_ttl_def Let_def bindr_eq_Ok dest!: insert_refresh_token_Ok(1)
        intro!: transact_users split: sum.split prod.split if_split_asm)
next
  case (Op_Rotate ent tid presented now)
  then show ?thesis
    by (auto simp: pg_rotate_def revoke_family_def Let_def bindr_eq_Ok dest!: insert_refresh_token_Ok(1)
        intro!: transact_users split: sum.split option.split_asm prod.split_asm if_split_asm)
next
  case (Op_Revoke sid now reason)
  then show ?thesis
    by (auto simp: pg_revoke_session_def revoke_family_def intro!: transact_users split: option.split_asm if_split)
qed

lemma answer_refines:
  assumes "pg_refines db m" and "op_fresh env c op m" and "op_known (pa_users db) op"
  shows "fst (pg_answer env c op db) = fst (memory_answer env c op m)
    \<and> pg_refines (snd (pg_answer env c op db)) (snd (memory_answer env c op m))"
proof (cases op)
  case (Op_Issue ent ids project user now)
  obtain sid fid tid where ids: "ids = (sid, fid, tid)" by (cases ids)
  then show ?thesis
    using issue_refines [OF assms(1) surjective_pairing surjective_pairing, of project user sid fid tid env c ent now] assms(2,3)
    by (simp add: Op_Issue)
next
  case (Op_Rotate ent tid presented now)
  then show ?thesis
    using rotate_refines [OF assms(1) surjective_pairing surjective_pairing, of tid env c ent presented now] assms(2) by simp
next
  case (Op_Revoke sid now reason)
  then show ?thesis
    using revoke_session_refines [OF assms(1) surjective_pairing surjective_pairing, of sid now reason] by simp
qed

lemma answers_refine:
  "pg_refines db m \<Longrightarrow> ops_fresh env c ops m \<Longrightarrow> list_all (op_known (pa_users db)) ops \<Longrightarrow>
    answers (pg_answer env c) ops db = answers (memory_answer env c) ops m"
proof (induction ops arbitrary: db m)
  case (Cons op ops)
  then show ?case using answer_refines [of db m env c op] refresh_ops_keep_users [of env c op db] by simp
qed simp

text \<open>
  C18. The PostgreSQL refresh store refines the in-memory store. While PostgreSQL answers, any sequence of
  issuing, rotating and revoking, started on empty tables, gives exactly the answers of the in-memory
  store, errors and detected reuse included.
\<close>

theorem pg_refresh_store_refines_memory:
  assumes "pa_sessions db = []" and "pa_families db = []" and "pa_tokens db = []"
    and "ops_fresh env c ops refresh_default" and "list_all (op_known (pa_users db)) ops"
  shows "answers (pg_answer env c) ops db = answers (memory_answer env c) ops refresh_default"
proof (rule answers_refine [OF _ assms(4,5)])
  have "refresh_ok refresh_default" by (rule refresh_default_ok)
  then show "pg_refines db refresh_default" using assms(1-3) by (simp add: pg_refines_def refresh_default_def)
qed

section \<open>Concrete tables\<close>

definition demo_pg :: pg_auth where
  "demo_pg = \<lparr>pa_projects = [(7, 1)], pa_api_keys = [],
     pa_users = [\<lparr>au_id = 8, au_project_id = 7, au_normalized_email = ''a@b.c'', au_password_hash = ''h'', au_role = ''authenticated'',
       au_custom_claims = [], au_email_verified_at_ms = None, au_disabled_at_ms = None, au_password_changed_at_ms = 1, au_created_at_ms = 1\<rparr>],
     pa_one_time = [], pa_sessions = [], pa_families = [], pa_tokens = []\<rparr>"

definition demo_refresh_ops :: "refresh_op list" where
  "demo_refresh_ops = [Op_Issue (demo_entropy CHR ''a'') (1, 2, 3) 7 8 1000, Op_Rotate (demo_entropy CHR ''b'') 4 (demo_token CHR ''a'') 2000,
     Op_Rotate (demo_entropy CHR ''c'') 5 (demo_token CHR ''a'') 3000, Op_Rotate (demo_entropy CHR ''d'') 6 (demo_token CHR ''b'') 4000]"

text \<open>A token is rotated, presented again, and its successor is then rejected, by both stores.\<close>

theorem pg_refresh_store_refines_memory_witness:
  "answers (pg_answer demo_token_env demo_codec) demo_refresh_ops demo_pg
     = answers (memory_answer demo_token_env demo_codec) demo_refresh_ops refresh_default
   \<and> drop 2 (answers (pg_answer demo_token_env demo_codec) demo_refresh_ops demo_pg)
     = [An_Rotate (Ok (ReuseDetected 2 1)), An_Rotate (Ok Rotation_Rejected)]"
proof
  have "ops_fresh demo_token_env demo_codec demo_refresh_ops refresh_default" by code_simp
  moreover have "list_all (op_known (pa_users demo_pg)) demo_refresh_ops" by code_simp
  ultimately show "answers (pg_answer demo_token_env demo_codec) demo_refresh_ops demo_pg
     = answers (memory_answer demo_token_env demo_codec) demo_refresh_ops refresh_default"
    by (intro pg_refresh_store_refines_memory) (simp_all add: demo_pg_def)
  show "drop 2 (answers (pg_answer demo_token_env demo_codec) demo_refresh_ops demo_pg)
     = [An_Rotate (Ok (ReuseDetected 2 1)), An_Rotate (Ok Rotation_Rejected)]" by code_simp
qed

definition demo_pg_session :: pg_auth where
  "demo_pg_session = snd (pg_issue_session demo_token_env demo_codec True (demo_entropy CHR ''a'') (1, 2, 3) 7 8 1000 demo_pg)"

theorem password_change_ends_sessions_witness:
  "\<not> live_session (refresh_view (snd (pg_set_password True 7 8 ''new'' 2000 demo_pg_session))) 7 8 1 3"
proof -
  define s where "s = hd (pa_sessions demo_pg_session)"
  have s: "distinct (map se_id (pa_sessions demo_pg_session))" "pa_sessions demo_pg_session \<noteq> []" "se_project_id s = 7" "se_user_id s = 8" "se_id s = 1"
    unfolding s_def by code_simp+
  have "fst (pg_set_password True 7 8 ''new'' 2000 demo_pg_session) = Ok True" by code_simp
  then have "ends_sessions demo_token_env demo_codec 7 8 demo_pg_session (snd (pg_set_password True 7 8 ''new'' 2000 demo_pg_session))"
    unfolding ends_sessions_def by (metis prod.collapse)
  from password_change_ends_sessions [OF s(1) _ s(3,4) this rtranclp.rtrancl_refl] s show ?thesis by (simp add: s_def)
qed

end
