(* ===== verification/Email_Templates.thy ===== *)
theory Email_Templates
  imports Collections "HOL-Library.Word"
begin

unbundle bit_operations_syntax

text \<open>
  \<open>crates/email/src/lib.rs\<close>: precompiled templates, their validation and rendering, and the checks of the
  provider endpoint. The regular expression of forbidden markup, SHA-256 and the text of identifiers are
  parameters (\<open>email_env\<close>); the expression of the markers is written out (\<open>marker_at\<close>).
\<close>

section \<open>Data\<close>

datatype template_kind = Email_Verification | Password_Reset | Email_Change | Invitation | Magic_Link

datatype email_error =
    Em_InvalidArtifact | Em_UnsafeArtifact | Em_UndeclaredVariable string | Em_MissingVariable string
  | Em_InvalidVariableValue | Em_HeaderInjection | Em_InvalidMailbox | Em_InvalidIdempotencyKey
  | Em_UnsafeProviderEndpoint | Em_ProviderDnsFailed | Em_InvalidConfiguration | Em_ProviderUnavailable
  | Em_ProviderRateLimited | Em_ProviderRejected | Em_InvalidProviderResponse | Em_TemplateVersionExists
  | Em_TemplateNotFound | Em_Encryption | Em_RepositoryUnavailable

record precompiled_template =
  pt_project_id :: string
  pt_template_id :: string
  pt_kind :: template_kind
  pt_version :: nat
  pt_source_sha256 :: string
  pt_subject_template :: string
  pt_html_template :: string
  pt_text_template :: string
  pt_allowed_variables :: "string list"
  pt_compiled_at_ms :: int

record rendered_email =
  re_to :: string
  re_from :: string
  re_reply_to :: "string option"
  re_subject :: string
  re_html :: string
  re_text :: string
  re_template_id :: string
  re_template_version :: nat
  re_idempotency_key :: string

datatype scalar_value = Scalar_String string | Scalar_Number int | Scalar_Boolean bool

record email_env =
  ev_forbidden :: "string \<Rightarrow> bool"
  ev_sha256_hex :: "string \<Rightarrow> string"
  ev_show_uuid :: "nat \<Rightarrow> string"

fun show_scalar :: "scalar_value \<Rightarrow> string" where
  "show_scalar (Scalar_String s) = s"
| "show_scalar (Scalar_Number n) = show_int n"
| "show_scalar (Scalar_Boolean b) = (if b then ''true'' else ''false'')"

section \<open>Markers\<close>

text \<open>
  A match of \<open>{{name}}\<close> at the start of a text, where a name is a letter followed by letters, digits and
  underscores: the name and what follows the match.
\<close>

definition is_name_char :: "char \<Rightarrow> bool" where
  "is_name_char c \<longleftrightarrow> is_ascii_alphanumeric c \<or> c = CHR ''_''"

definition marker_at :: "string \<Rightarrow> (string \<times> string) option" where
  "marker_at s =
     (case strip_prefix s ''{{'' of
        None \<Rightarrow> None
      | Some t \<Rightarrow>
          let name = takeWhile is_name_char t; rest = dropWhile is_name_char t
          in (case name of
               [] \<Rightarrow> None
             | c # _ \<Rightarrow>
                 if \<not> is_ascii_alphabetic c then None
                 else map_option (\<lambda>r. (name, r)) (strip_prefix rest ''}}'')))"

lemma strip_prefix_length: "strip_prefix s p = Some t \<Longrightarrow> length t + length p = length s"
  by (auto simp: strip_prefix_def starts_with_iff split: if_split_asm)

lemma marker_at_shorter: "marker_at s = Some (name, rest) \<Longrightarrow> length rest < length s"
proof -
  assume "marker_at s = Some (name, rest)"
  then obtain t where t: "strip_prefix s ''{{'' = Some t" "strip_prefix (dropWhile is_name_char t) ''}}'' = Some rest"
    by (auto simp: marker_at_def Let_def split: option.split_asm list.split_asm if_split_asm)
  then have "length rest + 2 = length (dropWhile is_name_char t)" "length t + 2 = length s"
    by (auto dest: strip_prefix_length)
  then show ?thesis using length_dropWhile_le [of is_name_char t] by simp
qed

text \<open>The text in order: characters outside the matches, and the matches.\<close>

function segments :: "string \<Rightarrow> (char + string) list" where
  "segments [] = []"
| "segments (c # s) =
     (case marker_at (c # s) of
        None \<Rightarrow> Inl c # segments s
      | Some (name, rest) \<Rightarrow> Inr name # segments rest)"
  by pat_completeness auto
termination by (relation "measure length") (auto dest: marker_at_shorter)

fun btree_set :: "string list \<Rightarrow> string list" where
  "btree_set xs = sort (remdups xs)"

definition variables_in :: "string \<Rightarrow> string list" where
  "variables_in template = btree_set (List.map_filter (\<lambda>x. case x of Inl _ \<Rightarrow> None | Inr n \<Rightarrow> Some n) (segments template))"

section \<open>Validation\<close>

definition validate_template :: "email_env \<Rightarrow> precompiled_template \<Rightarrow> email_error + unit" where
  "validate_template env t =
     (if pt_project_id t = [] \<or> pt_template_id t = [] \<or> pt_version t = 0 \<or> length (pt_source_sha256 t) \<noteq> 64
        \<or> pt_subject_template t = [] \<or> length (pt_subject_template t) > 998
        \<or> pt_html_template t = [] \<or> length (pt_html_template t) > 1000000 \<or> length (pt_text_template t) > 500000
        \<or> length (pt_allowed_variables t) > 64
      then Err Em_InvalidArtifact
      else if ev_forbidden env (pt_html_template t) \<or> contains_str (pt_html_template t) ''{{{''
        \<or> CHR 0x0D \<in> set (pt_subject_template t) \<or> CHR 0x0A \<in> set (pt_subject_template t)
      then Err Em_UnsafeArtifact
      else
        case List.find (\<lambda>v. v \<notin> set (pt_allowed_variables t))
          (variables_in (pt_subject_template t) @ variables_in (pt_html_template t) @ variables_in (pt_text_template t)) of
          Some v \<Rightarrow> Err (Em_UndeclaredVariable v)
        | None \<Rightarrow> Ok ())"

section \<open>Rendering\<close>

datatype escape_mode = Esc_Header | Esc_Html | Esc_Text

definition replace_char :: "char \<Rightarrow> string \<Rightarrow> string \<Rightarrow> string" where
  "replace_char c r s = concat (map (\<lambda>x. if x = c then r else [x]) s)"

definition escape :: "string \<Rightarrow> escape_mode \<Rightarrow> email_error + string" where
  "escape v mode =
     (if length v > 16384 \<or> CHR 0x00 \<in> set v then Err Em_InvalidVariableValue
      else case mode of
        Esc_Html \<Rightarrow>
          Ok (replace_char (CHR 0x27) ''&#39;'' (replace_char (CHR 0x22) ''&quot;''
            (replace_char CHR ''>'' ''&gt;'' (replace_char CHR ''<'' ''&lt;'' (replace_char CHR ''&'' ''&amp;'' v)))))
      | Esc_Header \<Rightarrow>
          if CHR 0x0D \<in> set v \<or> CHR 0x0A \<in> set v then Err Em_HeaderInjection else Ok v
      | Esc_Text \<Rightarrow> Ok v)"

fun substitute_segments ::
    "(string \<times> scalar_value) list \<Rightarrow> escape_mode \<Rightarrow> (char + string) list \<Rightarrow> email_error + string" where
  "substitute_segments vars mode [] = Ok []"
| "substitute_segments vars mode (Inl c # xs) = bindr (substitute_segments vars mode xs) (\<lambda>r. Ok (c # r))"
| "substitute_segments vars mode (Inr name # xs) =
     bindr (ok_or (map_of vars name) (Em_MissingVariable name)) (\<lambda>v.
     bindr (escape (show_scalar v) mode) (\<lambda>e.
     bindr (substitute_segments vars mode xs) (\<lambda>r. Ok (e @ r))))"

definition substitute :: "string \<Rightarrow> (string \<times> scalar_value) list \<Rightarrow> escape_mode \<Rightarrow> email_error + string" where
  "substitute template vars mode = substitute_segments vars mode (segments template)"

definition validate_variable_set :: "string list \<Rightarrow> (string \<times> scalar_value) list \<Rightarrow> email_error + unit" where
  "validate_variable_set allowed vars =
     (case List.find (\<lambda>n. n \<notin> set allowed) (map fst vars) of
        Some n \<Rightarrow> Err (Em_UndeclaredVariable n)
      | None \<Rightarrow>
          (case List.find (\<lambda>n. map_of vars n = None) allowed of
             Some n \<Rightarrow> Err (Em_MissingVariable n)
           | None \<Rightarrow> Ok ()))"

definition line_break_or_nul :: "string \<Rightarrow> bool" where
  "line_break_or_nul s \<longleftrightarrow> CHR 0x0D \<in> set s \<or> CHR 0x0A \<in> set s \<or> CHR 0x00 \<in> set s"

definition validate_mailbox :: "string \<Rightarrow> email_error + unit" where
  "validate_mailbox address =
     (if length address > 320 \<or> line_break_or_nul address
        \<or> (case split_once CHR ''@'' address of None \<Rightarrow> True | Some (l, d) \<Rightarrow> l = [] \<or> CHR ''.'' \<notin> set d)
      then Err Em_InvalidMailbox else Ok ())"

definition renderer_new :: "email_env \<Rightarrow> precompiled_template \<Rightarrow> email_error + precompiled_template" where
  "renderer_new env t = bindr (validate_template env t) (\<lambda>_. Ok t)"

definition render_email ::
    "precompiled_template \<Rightarrow> string \<Rightarrow> string \<Rightarrow> string option \<Rightarrow> (string \<times> scalar_value) list \<Rightarrow> string
      \<Rightarrow> email_error + rendered_email" where
  "render_email t to_addr from_addr reply_to vars key =
     bindr (validate_variable_set (pt_allowed_variables t) vars) (\<lambda>_.
     bindr (substitute (pt_subject_template t) vars Esc_Header) (\<lambda>subject.
     bindr (substitute (pt_html_template t) vars Esc_Html) (\<lambda>html.
     bindr (substitute (pt_text_template t) vars Esc_Text) (\<lambda>txt.
     bindr (validate_mailbox to_addr) (\<lambda>_.
     bindr (validate_mailbox from_addr) (\<lambda>_.
     bindr (case reply_to of None \<Rightarrow> Ok () | Some a \<Rightarrow> validate_mailbox a) (\<lambda>_.
       if length key < 8 \<or> length key > 256 then Err Em_InvalidIdempotencyKey
       else Ok \<lparr>re_to = to_addr, re_from = from_addr, re_reply_to = reply_to, re_subject = subject, re_html = html, re_text = txt,
         re_template_id = pt_template_id t, re_template_version = pt_version t, re_idempotency_key = key\<rparr>)))))))"

section \<open>Default templates\<close>

fun default_texts :: "template_kind \<Rightarrow> string \<times> string \<times> string \<times> string \<times> string" where
  "default_texts Email_Verification =
     (''email-verification'', ''Verify your email for {{project_name}}'', ''Verify your email'', ''Verify email'',
      ''Confirm this address to finish creating your account.'')"
| "default_texts Password_Reset =
     (''password-reset'', ''Reset your password for {{project_name}}'', ''Reset your password'', ''Reset password'',
      ''Use this secure link to choose a new password.'')"
| "default_texts Email_Change =
     (''email-change'', ''Confirm your new {{project_name}} email'', ''Confirm your new email'', ''Confirm email'',
      ''Confirm this address to complete your email change.'')"
| "default_texts Invitation =
     (''invitation'', ''You were invited to {{project_name}}'', ''Join {{project_name}}'', ''Accept invitation'',
      ''You have been invited to collaborate.'')"
| "default_texts Magic_Link =
     (''magic-link'', ''Sign in to {{project_name}}'', ''Sign in securely'', ''Sign in'', ''Use this one-time link to continue.'')"

definition default_template :: "email_env \<Rightarrow> string \<Rightarrow> template_kind \<Rightarrow> int \<Rightarrow> precompiled_template" where
  "default_template env project kind compiled_at =
     (let (tid, subject, heading, action, explanatory) = default_texts kind; q = [CHR 0x22]; nl = [CHR 0x0A];
        html = ''<!doctype html><html><body style='' @ q
          @ ''margin:0;background:#f7f8fa;font-family:Arial,sans-serif;color:#101828'' @ q @ ''><main style='' @ q
          @ ''max-width:560px;margin:40px auto;padding:32px;background:#fff;border:1px solid #d6dce5'' @ q
          @ ''><h1>'' @ heading @ ''</h1><p>'' @ explanatory @ ''</p><p><a href='' @ q @ ''{{action_url}}'' @ q @ '' style='' @ q
          @ ''display:inline-block;padding:12px 18px;background:#0868e8;color:#fff;text-decoration:none;border-radius:5px'' @ q
          @ ''>'' @ action @ ''</a></p><p style='' @ q @ ''color:#4b5565;font-size:13px'' @ q
          @ ''>This link expires in {{expires_in}}.</p></main></body></html>'';
        txt = heading @ nl @ nl @ explanatory @ nl @ nl @ ''{{action_url}}'' @ nl @ nl @ ''This link expires in {{expires_in}}.''
      in \<lparr>pt_project_id = project, pt_template_id = tid, pt_kind = kind, pt_version = 1, pt_source_sha256 = ev_sha256_hex env tid,
          pt_subject_template = subject, pt_html_template = html, pt_text_template = txt,
          pt_allowed_variables = [''action_url'', ''expires_in'', ''project_name''], pt_compiled_at_ms = compiled_at\<rparr>)"

section \<open>The provider endpoint\<close>

text \<open>A parsed URL, and addresses by their octets and segments.\<close>

record url =
  ur_scheme :: string
  ur_host :: "string option"
  ur_username :: string
  ur_password :: "string option"
  ur_path :: string
  ur_query :: "string option"
  ur_fragment :: "string option"

definition is_local_host :: "string \<Rightarrow> bool" where
  "is_local_host host \<longleftrightarrow> host \<in> {''localhost'', ''127.0.0.1'', ''::1''}"

definition validate_resend_url :: "url \<Rightarrow> bool \<Rightarrow> email_error + string" where
  "validate_resend_url u allow_insecure_localhost =
     bindr (ok_or (ur_host u) Em_UnsafeProviderEndpoint) (\<lambda>host.
       let localhost = allow_insecure_localhost \<and> is_local_host host in
       if ur_username u \<noteq> [] \<or> ur_password u \<noteq> None \<or> ur_query u \<noteq> None \<or> ur_fragment u \<noteq> None \<or> ur_path u \<noteq> ''/''
         \<or> host \<noteq> ''api.resend.com'' \<and> \<not> localhost \<or> ur_scheme u \<noteq> ''https'' \<and> \<not> localhost
       then Err Em_UnsafeProviderEndpoint else Ok host)"

datatype provider_ip = IpV4 "8 word" "8 word" "8 word" "8 word" | IpV6 "16 word list"

fun is_loopback :: "provider_ip \<Rightarrow> bool" where
  "is_loopback (IpV4 a b c d) = (a = 127)"
| "is_loopback (IpV6 ss) = (ss = [0, 0, 0, 0, 0, 0, 0, 1])"

fun is_private_v4 :: "provider_ip \<Rightarrow> bool" where
  "is_private_v4 (IpV4 a b c d) = (a = 10 \<or> a = 172 \<and> b AND 0xf0 = 16 \<or> a = 192 \<and> b = 168)"
| "is_private_v4 (IpV6 ss) = False"

fun provider_ip_public :: "provider_ip \<Rightarrow> bool" where
  "provider_ip_public (IpV4 a b c d) \<longleftrightarrow>
     \<not> (is_private_v4 (IpV4 a b c d) \<or> a = 127 \<or> a = 169 \<and> b = 254
       \<or> a = 255 \<and> b = 255 \<and> c = 255 \<and> d = 255
       \<or> a = 192 \<and> b = 0 \<and> c = 2 \<or> a = 198 \<and> b = 51 \<and> c = 100 \<or> a = 203 \<and> b = 0 \<and> c = 113
       \<or> a = 0 \<and> b = 0 \<and> c = 0 \<and> d = 0 \<or> a AND 0xf0 = 224 \<or> a = 0)"
| "provider_ip_public (IpV6 ss) \<longleftrightarrow>
     \<not> (is_loopback (IpV6 ss) \<or> ss = [0, 0, 0, 0, 0, 0, 0, 0] \<or> hd ss AND 0xff00 = 0xff00
       \<or> hd ss AND 0xfe00 = 0xfc00 \<or> hd ss AND 0xffc0 = 0xfe80)"

text \<open>\<open>header_ok\<close>: whether a text is a legal header value.\<close>

definition new_with_resolved_addresses ::
    "(string \<Rightarrow> bool) \<Rightarrow> url \<Rightarrow> string \<Rightarrow> bool \<Rightarrow> provider_ip list \<Rightarrow> email_error + string \<times> provider_ip list" where
  "new_with_resolved_addresses header_ok u api_key allow_insecure_localhost addresses =
     bindr (validate_resend_url u allow_insecure_localhost) (\<lambda>host.
       if addresses = []
         \<or> list_ex (\<lambda>a. \<not> (provider_ip_public a \<or> allow_insecure_localhost \<and> is_local_host host \<and> is_loopback a)) addresses
       then Err Em_UnsafeProviderEndpoint
       else if length api_key < 16 \<or> \<not> header_ok (''Bearer '' @ api_key) then Err Em_InvalidConfiguration
       else Ok (host, addresses))"

text \<open>The answer of the provider: no answer, or a status with the identifier in its body, if it has one.\<close>

definition resend_outcome :: "(nat \<times> string option) option \<Rightarrow> email_error + string" where
  "resend_outcome response =
     (case response of
        None \<Rightarrow> Err Em_ProviderUnavailable
      | Some (status, body) \<Rightarrow>
          if status = 429 then Err Em_ProviderRateLimited
          else if \<not> (200 \<le> status \<and> status \<le> 299) then Err Em_ProviderRejected
          else (case body of
            None \<Rightarrow> Err Em_InvalidProviderResponse
          | Some i \<Rightarrow> if i = [] \<or> length i > 256 then Err Em_InvalidProviderResponse else Ok i))"

end
