(* ===== verification/Email_Outbox.thy ===== *)
theory Email_Outbox
  imports Email_Templates
begin

text \<open>
  \<open>crates/email/src/outbox.rs\<close>: template versions and the outbox of encrypted delivery jobs in PostgreSQL, and
  the worker that delivers them. The tables are lists of rows; a call that fails is a flag \<open>up = False\<close>.
  AES-GCM, HMAC and the JSON text of a message are parameters (\<open>outbox_env\<close>).
\<close>

section \<open>The cipher\<close>

record email_cipher =
  ec_key :: string
  ec_key_version :: int

record outbox_env =
  ox_email :: email_env
  ox_seal :: "string \<Rightarrow> string \<Rightarrow> string \<Rightarrow> string \<Rightarrow> string option"
  ox_open :: "string \<Rightarrow> string \<Rightarrow> string \<Rightarrow> string \<Rightarrow> string option"
  ox_hmac :: "string \<Rightarrow> string \<Rightarrow> string"
  ox_to_json :: "rendered_email \<Rightarrow> string option"
  ox_of_json :: "string \<Rightarrow> rendered_email option"

definition cipher_new :: "string \<Rightarrow> int \<Rightarrow> email_error + email_cipher" where
  "cipher_new key version =
     (if length key \<noteq> 32 then Err Em_InvalidConfiguration
      else if version \<le> 0 then Err Em_InvalidConfiguration
      else Ok \<lparr>ec_key = key, ec_key_version = version\<rparr>)"

definition email_aad :: "outbox_env \<Rightarrow> nat \<Rightarrow> nat \<Rightarrow> int \<Rightarrow> string" where
  "email_aad env tenant job version =
     ''ffdb.email.job.v1|'' @ show_int version @ ''|'' @ ev_show_uuid (ox_email env) tenant @ ''|'' @ ev_show_uuid (ox_email env) job"

definition encrypt_message ::
    "outbox_env \<Rightarrow> email_cipher \<Rightarrow> string option \<Rightarrow> nat \<Rightarrow> nat \<Rightarrow> rendered_email \<Rightarrow> email_error + string" where
  "encrypt_message env c nonce tenant job message =
     bindr (ok_or nonce Em_Encryption) (\<lambda>n.
     bindr (ok_or (ox_to_json env message) Em_InvalidArtifact) (\<lambda>plaintext.
     bindr (ok_or (ox_seal env (ec_key c) n (email_aad env tenant job (ec_key_version c)) plaintext) Em_Encryption) (\<lambda>sealed.
       Ok (n @ sealed))))"

definition decrypt_message ::
    "outbox_env \<Rightarrow> email_cipher \<Rightarrow> nat \<Rightarrow> nat \<Rightarrow> int \<Rightarrow> string \<Rightarrow> email_error + rendered_email" where
  "decrypt_message env c tenant job version encrypted =
     (if version \<noteq> ec_key_version c \<or> length encrypted \<le> 12 + 16 then Err Em_Encryption
      else
        bindr (ok_or (ox_open env (ec_key c) (take 12 encrypted) (email_aad env tenant job version) (drop 12 encrypted)) Em_Encryption)
          (\<lambda>plaintext. ok_or (ox_of_json env plaintext) Em_Encryption))"

definition recipient_fingerprint :: "outbox_env \<Rightarrow> email_cipher \<Rightarrow> string \<Rightarrow> string" where
  "recipient_fingerprint env c recipient = ox_hmac env (ec_key c) (to_ascii_lowercase (trim recipient))"

section \<open>Tables\<close>

fun kind_name :: "template_kind \<Rightarrow> string" where
  "kind_name Email_Verification = ''verification''"
| "kind_name Password_Reset = ''password_reset''"
| "kind_name Email_Change = ''email_change''"
| "kind_name Invitation = ''invitation''"
| "kind_name Magic_Link = ''magic_link''"

definition parse_kind :: "string \<Rightarrow> email_error + template_kind" where
  "parse_kind s =
     (if s = ''verification'' then Ok Email_Verification else if s = ''password_reset'' then Ok Password_Reset
      else if s = ''email_change'' then Ok Email_Change else if s = ''invitation'' then Ok Invitation
      else if s = ''magic_link'' then Ok Magic_Link else Err Em_InvalidArtifact)"

record template_input =
  ti_project_id :: nat
  ti_kind :: template_kind
  ti_version :: nat
  ti_source :: string
  ti_subject_template :: string
  ti_html_template :: string
  ti_text_template :: string
  ti_allowed_variables :: "string list"

record template_row =
  tr_project_id :: nat
  tr_kind :: string
  tr_version :: nat
  tr_source :: string
  tr_source_sha256 :: string
  tr_subject_template :: string
  tr_html_template :: string
  tr_text_template :: string
  tr_allowed_variables :: "string list"
  tr_compilation_errors :: "string list"
  tr_artifact_status :: string
  tr_compiled_at_ms :: "int option"
  tr_published_at_ms :: "int option"

record template_record =
  te_artifact :: precompiled_template
  te_source :: string
  te_artifact_status :: string
  te_compilation_errors :: "string list"
  te_published_at_ms :: "int option"

record delivery_row =
  dj_id :: nat
  dj_project_id :: "nat option"
  dj_organization_id :: "nat option"
  dj_kind :: string
  dj_template_version :: nat
  dj_recipient_fingerprint :: string
  dj_encrypted_message :: string
  dj_encryption_key_version :: int
  dj_idempotency_key :: string
  dj_state :: string
  dj_attempt_count :: int
  dj_max_attempts :: int
  dj_next_attempt_at_ms :: int
  dj_locked_at_ms :: "int option"
  dj_created_at_ms :: int
  dj_last_error_code :: "string option"
  dj_provider_message_id :: "string option"

record email_db =
  ed_projects :: "nat list"
  ed_organizations :: "nat list"
  ed_templates :: "template_row list"
  ed_jobs :: "delivery_row list"

definition MAX_ATTEMPTS :: int where "MAX_ATTEMPTS = 8"

section \<open>Templates\<close>

definition input_artifact :: "email_env \<Rightarrow> template_input \<Rightarrow> int \<Rightarrow> precompiled_template" where
  "input_artifact env i compiled_at =
     \<lparr>pt_project_id = ev_show_uuid env (ti_project_id i), pt_template_id = kind_name (ti_kind i), pt_kind = ti_kind i,
      pt_version = ti_version i, pt_source_sha256 = ev_sha256_hex env (ti_source i), pt_subject_template = ti_subject_template i,
      pt_html_template = ti_html_template i, pt_text_template = ti_text_template i,
      pt_allowed_variables = ti_allowed_variables i, pt_compiled_at_ms = compiled_at\<rparr>"

definition template_of_row :: "email_env \<Rightarrow> template_row \<Rightarrow> email_error + template_record" where
  "template_of_row env r =
     bindr (parse_kind (tr_kind r)) (\<lambda>kind.
     bindr (ok_or (tr_compiled_at_ms r) Em_RepositoryUnavailable) (\<lambda>compiled_at.
       let artifact = \<lparr>pt_project_id = ev_show_uuid env (tr_project_id r), pt_template_id = tr_kind r, pt_kind = kind,
             pt_version = tr_version r, pt_source_sha256 = tr_source_sha256 r, pt_subject_template = tr_subject_template r,
             pt_html_template = tr_html_template r, pt_text_template = tr_text_template r,
             pt_allowed_variables = btree_set (tr_allowed_variables r), pt_compiled_at_ms = compiled_at\<rparr>
       in bindr (validate_template env artifact) (\<lambda>_.
         Ok \<lparr>te_artifact = artifact, te_source = tr_source r, te_artifact_status = tr_artifact_status r,
           te_compilation_errors = tr_compilation_errors r, te_published_at_ms = tr_published_at_ms r\<rparr>)))"

definition same_version :: "nat \<Rightarrow> template_kind \<Rightarrow> nat \<Rightarrow> template_row \<Rightarrow> bool" where
  "same_version project kind version r \<longleftrightarrow>
     tr_project_id r = project \<and> tr_kind r = kind_name kind \<and> tr_version r = version"

definition import_precompiled_artifact ::
    "email_env \<Rightarrow> bool \<Rightarrow> template_input \<Rightarrow> string \<Rightarrow> int \<Rightarrow> email_db \<Rightarrow> (email_error + template_record) \<times> email_db" where
  "import_precompiled_artifact env up i expected_sha compiled_at db =
     (let artifact = input_artifact env i compiled_at in
      if ti_source i = [] \<or> length (ti_source i) > 1000000 then (Err Em_InvalidArtifact, db)
      else if length expected_sha \<noteq> 64
        \<or> \<not> list_all (\<lambda>b. is_ascii_digit b \<or> b \<in> set ''abcdef'') expected_sha \<or> pt_source_sha256 artifact \<noteq> expected_sha
      then (Err Em_InvalidArtifact, db)
      else case validate_template env artifact of
        Inl e \<Rightarrow> (Err e, db)
      | Inr _ \<Rightarrow>
          if int (ti_version i) > i64_max then (Err Em_InvalidArtifact, db)
          else if \<not> up then (Err Em_RepositoryUnavailable, db)
          else if list_ex (same_version (ti_project_id i) (ti_kind i) (ti_version i)) (ed_templates db)
          then (Err Em_TemplateVersionExists, db)
          else if ti_project_id i \<notin> set (ed_projects db) then (Err Em_RepositoryUnavailable, db)
          else
            (Ok \<lparr>te_artifact = artifact, te_source = ti_source i, te_artifact_status = ''validated'', te_compilation_errors = [],
               te_published_at_ms = None\<rparr>,
             db\<lparr>ed_templates := ed_templates db @
               [\<lparr>tr_project_id = ti_project_id i, tr_kind = kind_name (ti_kind i), tr_version = ti_version i, tr_source = ti_source i,
                 tr_source_sha256 = pt_source_sha256 artifact, tr_subject_template = ti_subject_template i,
                 tr_html_template = ti_html_template i, tr_text_template = ti_text_template i,
                 tr_allowed_variables = ti_allowed_variables i, tr_compilation_errors = [], tr_artifact_status = ''validated'',
                 tr_compiled_at_ms = Some compiled_at, tr_published_at_ms = None\<rparr>]\<rparr>))"

definition publishable :: "nat \<Rightarrow> template_kind \<Rightarrow> nat \<Rightarrow> template_row \<Rightarrow> bool" where
  "publishable project kind version r \<longleftrightarrow>
     same_version project kind version r \<and> tr_compiled_at_ms r \<noteq> None \<and> tr_artifact_status r = ''validated''
     \<and> tr_compilation_errors r = []"

text \<open>\<open>db_now\<close> is the clock of the database.\<close>

definition publish_template ::
    "email_env \<Rightarrow> bool \<Rightarrow> int \<Rightarrow> nat \<Rightarrow> template_kind \<Rightarrow> nat \<Rightarrow> email_db \<Rightarrow> (email_error + template_record) \<times> email_db" where
  "publish_template env up db_now project kind version db =
     (if int version > i64_max then (Err Em_InvalidArtifact, db)
      else if \<not> up then (Err Em_RepositoryUnavailable, db)
      else
        let cleared = map (\<lambda>r. if tr_project_id r = project \<and> tr_kind r = kind_name kind then r\<lparr>tr_published_at_ms := None\<rparr> else r)
              (ed_templates db);
            published = map (\<lambda>r. if publishable project kind version r then r\<lparr>tr_published_at_ms := Some db_now\<rparr> else r) cleared
        in case List.find (publishable project kind version) published of
             None \<Rightarrow> (Err Em_TemplateNotFound, db)
           | Some r \<Rightarrow> (template_of_row env r, db\<lparr>ed_templates := published\<rparr>))"

definition find_template ::
    "email_env \<Rightarrow> bool \<Rightarrow> nat \<Rightarrow> template_kind \<Rightarrow> nat \<Rightarrow> email_db \<Rightarrow> email_error + template_record" where
  "find_template env up project kind version db =
     (if int version > i64_max then Err Em_InvalidArtifact
      else if \<not> up then Err Em_RepositoryUnavailable
      else bindr (ok_or (List.find (same_version project kind version) (ed_templates db)) Em_TemplateNotFound) (template_of_row env))"

definition list_templates ::
    "email_env \<Rightarrow> bool \<Rightarrow> nat \<Rightarrow> template_kind option \<Rightarrow> email_db \<Rightarrow> email_error + template_record list" where
  "list_templates env up project kind db =
     (if \<not> up then Err Em_RepositoryUnavailable
      else mapr (template_of_row env) (take 500 (sort_key tr_kind (sort_key (\<lambda>r. - int (tr_version r))
        (filter (\<lambda>r. tr_project_id r = project \<and> (case kind of None \<Rightarrow> True | Some k \<Rightarrow> tr_kind r = kind_name k)) (ed_templates db))))))"

definition published_template ::
    "email_env \<Rightarrow> bool \<Rightarrow> nat \<Rightarrow> template_kind \<Rightarrow> email_db \<Rightarrow> email_error + precompiled_template option" where
  "published_template env up project kind db =
     (if \<not> up then Err Em_RepositoryUnavailable
      else case List.find (\<lambda>r. tr_project_id r = project \<and> tr_kind r = kind_name kind \<and> tr_published_at_ms r \<noteq> None) (ed_templates db) of
        None \<Rightarrow> Ok None
      | Some r \<Rightarrow> bindr (template_of_row env r) (\<lambda>t. Ok (Some (te_artifact t))))"

section \<open>Enqueueing\<close>

record enqueue_request =
  eq_project_id :: nat
  eq_kind :: template_kind
  eq_recipient :: string
  eq_from :: string
  eq_reply_to :: "string option"
  eq_variables :: "(string \<times> scalar_value) list"
  eq_idempotency_key :: string
  eq_now_ms :: int

text \<open>The checks of the table on a new row, besides the unique indexes.\<close>

definition job_row_refused :: "email_db \<Rightarrow> delivery_row \<Rightarrow> bool" where
  "job_row_refused db j \<longleftrightarrow>
     \<not> (29 \<le> length (dj_encrypted_message j) \<and> length (dj_encrypted_message j) \<le> 2200000)
     \<or> \<not> (8 \<le> char_count (dj_idempotency_key j) \<and> char_count (dj_idempotency_key j) \<le> 256)
     \<or> length (dj_recipient_fingerprint j) \<noteq> 32 \<or> dj_template_version j = 0 \<or> dj_encryption_key_version j \<le> 0
     \<or> \<not> list_all (\<lambda>p. p \<in> set (ed_projects db)) (case dj_project_id j of None \<Rightarrow> [] | Some p \<Rightarrow> [p])
     \<or> \<not> list_all (\<lambda>p. p \<in> set (ed_organizations db)) (case dj_organization_id j of None \<Rightarrow> [] | Some p \<Rightarrow> [p])"

definition same_request :: "delivery_row \<Rightarrow> delivery_row \<Rightarrow> bool" where
  "same_request j x \<longleftrightarrow>
     dj_idempotency_key x = dj_idempotency_key j
     \<and> (dj_project_id j \<noteq> None \<and> dj_project_id x = dj_project_id j
        \<or> dj_organization_id j \<noteq> None \<and> dj_organization_id x = dj_organization_id j)"

text \<open>\<open>INSERT ... ON CONFLICT DO NOTHING\<close>, and the identifier of the row that was there.\<close>

definition insert_job :: "delivery_row \<Rightarrow> email_db \<Rightarrow> (email_error + nat) \<times> email_db" where
  "insert_job j db =
     (if job_row_refused db j then (Err Em_RepositoryUnavailable, db)
      else if list_ex (\<lambda>x. dj_id x = dj_id j \<or> same_request j x) (ed_jobs db) then
        (case List.find (same_request j) (ed_jobs db) of
           None \<Rightarrow> (Err Em_RepositoryUnavailable, db)
         | Some x \<Rightarrow> (Ok (dj_id x), db))
      else (Ok (dj_id j), db\<lparr>ed_jobs := ed_jobs db @ [j]\<rparr>))"

definition new_job ::
    "nat \<Rightarrow> nat option \<Rightarrow> nat option \<Rightarrow> template_kind \<Rightarrow> nat \<Rightarrow> string \<Rightarrow> string \<Rightarrow> int \<Rightarrow> string \<Rightarrow> int \<Rightarrow> int \<Rightarrow> delivery_row" where
  "new_job jid project organization kind version fingerprint encrypted key_version key now db_now =
     \<lparr>dj_id = jid, dj_project_id = project, dj_organization_id = organization, dj_kind = kind_name kind,
      dj_template_version = version, dj_recipient_fingerprint = fingerprint, dj_encrypted_message = encrypted,
      dj_encryption_key_version = key_version, dj_idempotency_key = key, dj_state = ''queued'', dj_attempt_count = 0,
      dj_max_attempts = MAX_ATTEMPTS, dj_next_attempt_at_ms = now, dj_locked_at_ms = None, dj_created_at_ms = db_now,
      dj_last_error_code = None, dj_provider_message_id = None\<rparr>"

definition enqueue ::
    "outbox_env \<Rightarrow> email_cipher \<Rightarrow> bool \<Rightarrow> nat \<Rightarrow> string option \<Rightarrow> int \<Rightarrow> enqueue_request \<Rightarrow> email_db \<Rightarrow> (email_error + nat) \<times> email_db" where
  "enqueue env c up jid nonce db_now q db =
     (let fingerprint = recipient_fingerprint env c (eq_recipient q) in
      case
        bindr (published_template (ox_email env) up (eq_project_id q) (eq_kind q) db) (\<lambda>found.
        let t = (case found of Some t \<Rightarrow> t
          | None \<Rightarrow> default_template (ox_email env) (ev_show_uuid (ox_email env) (eq_project_id q)) (eq_kind q) (eq_now_ms q)) in
        bindr (renderer_new (ox_email env) t) (\<lambda>renderer.
        bindr (render_email renderer (eq_recipient q) (eq_from q) (eq_reply_to q) (eq_variables q) (eq_idempotency_key q)) (\<lambda>message.
        bindr (encrypt_message env c nonce (eq_project_id q) jid message) (\<lambda>encrypted.
          if int (pt_version t) > i64_max then Err Em_InvalidArtifact else Ok (t, encrypted)))))
      of
        Inl e \<Rightarrow> (Err e, db)
      | Inr (t, encrypted) \<Rightarrow>
          if \<not> up then (Err Em_RepositoryUnavailable, db)
          else insert_job (new_job jid (Some (eq_project_id q)) None (eq_kind q) (pt_version t) fingerprint encrypted (ec_key_version c)
            (eq_idempotency_key q) (eq_now_ms q) db_now) db)"

record invitation_request =
  iq_organization_id :: nat
  iq_recipient :: string
  iq_from :: string
  iq_variables :: "(string \<times> scalar_value) list"
  iq_idempotency_key :: string
  iq_now_ms :: int

definition enqueue_organization_invitation ::
    "outbox_env \<Rightarrow> email_cipher \<Rightarrow> bool \<Rightarrow> nat \<Rightarrow> string option \<Rightarrow> int \<Rightarrow> invitation_request \<Rightarrow> email_db
      \<Rightarrow> (email_error + nat) \<times> email_db" where
  "enqueue_organization_invitation env c up jid nonce db_now q db =
     (let t = default_template (ox_email env) (ev_show_uuid (ox_email env) (iq_organization_id q)) Invitation (iq_now_ms q) in
      case
        bindr (renderer_new (ox_email env) t) (\<lambda>renderer.
        bindr (render_email renderer (iq_recipient q) (iq_from q) None (iq_variables q) (iq_idempotency_key q)) (\<lambda>message.
        bindr (encrypt_message env c nonce (iq_organization_id q) jid message) (\<lambda>encrypted.
          if int (pt_version t) > i64_max then Err Em_InvalidArtifact else Ok encrypted)))
      of
        Inl e \<Rightarrow> (Err e, db)
      | Inr encrypted \<Rightarrow>
          if \<not> up then (Err Em_RepositoryUnavailable, db)
          else insert_job (new_job jid None (Some (iq_organization_id q)) Invitation (pt_version t)
            (recipient_fingerprint env c (iq_recipient q)) encrypted (ec_key_version c) (iq_idempotency_key q) (iq_now_ms q) db_now) db)"

section \<open>Delivery\<close>

definition job_claimable :: "int \<Rightarrow> delivery_row \<Rightarrow> bool" where
  "job_claimable now j \<longleftrightarrow>
     dj_state j = ''queued'' \<and> dj_next_attempt_at_ms j \<le> now
     \<or> dj_state j = ''processing'' \<and> (case dj_locked_at_ms j of None \<Rightarrow> False | Some l \<Rightarrow> l < now - 300000)"

definition replace_job :: "delivery_row \<Rightarrow> delivery_row list \<Rightarrow> delivery_row list" where
  "replace_job j jobs = map (\<lambda>x. if dj_id x = dj_id j then j else x) jobs"

definition claim_job :: "int \<Rightarrow> int \<Rightarrow> email_db \<Rightarrow> delivery_row option \<times> email_db" where
  "claim_job now db_now db =
     (case sort_key dj_next_attempt_at_ms (sort_key dj_created_at_ms (filter (job_claimable now) (ed_jobs db))) of
        [] \<Rightarrow> (None, db)
      | j # _ \<Rightarrow>
          let j' = j\<lparr>dj_state := ''processing'', dj_locked_at_ms := Some db_now, dj_attempt_count := dj_attempt_count j + 1\<rparr>
          in (Some j', db\<lparr>ed_jobs := replace_job j' (ed_jobs db)\<rparr>))"

fun error_code :: "email_error \<Rightarrow> string" where
  "error_code Em_ProviderUnavailable = ''provider_unavailable''"
| "error_code Em_ProviderRateLimited = ''provider_rate_limited''"
| "error_code Em_ProviderRejected = ''provider_rejected''"
| "error_code Em_InvalidProviderResponse = ''provider_invalid_response''"
| "error_code Em_Encryption = ''message_decryption_failed''"
| "error_code _ = ''delivery_invalid''"

definition retry_delay_ms :: "int \<Rightarrow> int" where
  "retry_delay_ms attempt_count =
     (let previous = max (attempt_count - 1) (- (2 ^ 31)); exponent = (if previous < 0 then 16 else min 16 (nat previous))
      in min (30000 * 2 ^ exponent) 3600000)"

text \<open>The final update of a job, made only while it is being processed.\<close>

definition finish_job :: "nat \<Rightarrow> (delivery_row \<Rightarrow> delivery_row) \<Rightarrow> email_db \<Rightarrow> email_db" where
  "finish_job jid f db =
     db\<lparr>ed_jobs := map (\<lambda>x. if dj_id x = jid \<and> dj_state x = ''processing'' then f x else x) (ed_jobs db)\<rparr>"

definition fail_job :: "delivery_row \<Rightarrow> email_error \<Rightarrow> int \<Rightarrow> bool \<Rightarrow> email_db \<Rightarrow> email_db" where
  "fail_job j e now permanent db =
     (let dead = (permanent \<or> dj_attempt_count j \<ge> dj_max_attempts j)
      in finish_job (dj_id j) (\<lambda>x. x\<lparr>dj_state := (if dead then ''dead'' else ''queued''), dj_last_error_code := Some (error_code e),
           dj_locked_at_ms := None, dj_next_attempt_at_ms := saturating_add_i64 now (retry_delay_ms (dj_attempt_count j))\<rparr>) db)"

definition deliver_job :: "delivery_row \<Rightarrow> string \<Rightarrow> email_db \<Rightarrow> email_db" where
  "deliver_job j provider_id =
     finish_job (dj_id j) (\<lambda>x. x\<lparr>dj_state := ''delivered'', dj_provider_message_id := Some provider_id, dj_locked_at_ms := None,
       dj_last_error_code := None\<rparr>)"

text \<open>
  \<open>send\<close> is the transport. The claim and the final update are separate calls of the database, which can fail
  each (\<open>up_claim\<close>, \<open>up_finish\<close>); a provider identifier of more than 256 characters fails the update.
\<close>

definition tenant_of :: "delivery_row \<Rightarrow> nat option" where
  "tenant_of j = (case dj_project_id j of Some p \<Rightarrow> Some p | None \<Rightarrow> dj_organization_id j)"

definition is_transient :: "email_error \<Rightarrow> bool" where
  "is_transient e \<longleftrightarrow> e \<in> {Em_ProviderUnavailable, Em_ProviderRateLimited, Em_ProviderDnsFailed}"

definition deliver_one ::
    "outbox_env \<Rightarrow> email_cipher \<Rightarrow> (rendered_email \<Rightarrow> email_error + string) \<Rightarrow> bool \<Rightarrow> bool \<Rightarrow> int \<Rightarrow> int \<Rightarrow> email_db
      \<Rightarrow> (email_error + bool) \<times> email_db" where
  "deliver_one env c send up_claim up_finish now db_now db =
     (if \<not> up_claim then (Err Em_RepositoryUnavailable, db)
      else case claim_job now db_now db of
        (None, db1) \<Rightarrow> (Ok False, db1)
      | (Some j, db1) \<Rightarrow>
          (case tenant_of j of
             None \<Rightarrow> (Err Em_RepositoryUnavailable, db1)
           | Some tenant \<Rightarrow>
          (case decrypt_message env c tenant (dj_id j) (dj_encryption_key_version j) (dj_encrypted_message j) of
             Inl e \<Rightarrow> if up_finish then (Ok True, fail_job j e now True db1) else (Err Em_RepositoryUnavailable, db1)
           | Inr message \<Rightarrow>
               (case send message of
                  Inr provider_id \<Rightarrow>
                    if up_finish \<and> char_count provider_id \<le> 256 then (Ok True, deliver_job j provider_id db1)
                    else (Err Em_RepositoryUnavailable, db1)
                | Inl e \<Rightarrow>
                    if up_finish then (Ok True, fail_job j e now (\<not> is_transient e) db1)
                    else (Err Em_RepositoryUnavailable, db1)))))"

text \<open>One round of the worker: at most 25 deliveries, ending early when nothing is due or on an error.\<close>

fun worker_round ::
    "outbox_env \<Rightarrow> email_cipher \<Rightarrow> ((rendered_email \<Rightarrow> email_error + string) \<times> bool \<times> bool \<times> int \<times> int) list \<Rightarrow> email_db \<Rightarrow> email_db" where
  "worker_round env c [] db = db"
| "worker_round env c ((send, up_claim, up_finish, now, db_now) # calls) db =
     (case deliver_one env c send up_claim up_finish now db_now db of
        (Inr True, db') \<Rightarrow> worker_round env c calls db'
      | (_, db') \<Rightarrow> db')"

definition OUTBOX_BATCH :: nat where "OUTBOX_BATCH = 25"

definition worker_tick ::
    "outbox_env \<Rightarrow> email_cipher \<Rightarrow> ((rendered_email \<Rightarrow> email_error + string) \<times> bool \<times> bool \<times> int \<times> int) list \<Rightarrow> email_db \<Rightarrow> email_db" where
  "worker_tick env c calls db = worker_round env c (take OUTBOX_BATCH calls) db"

end
