(* ===== verification/Email_Delivery.thy ===== *)
theory Email_Delivery
  imports Email_Outbox
begin

text \<open>
  The outbox: a request is enqueued once under its key, and its job is tried a bounded number of times, until it is
  delivered or dead, as long as each delivery that claims a job also completes. Two lemmas show what
  happens to a job whose delivery does not.
\<close>

section \<open>Invariant\<close>

definition job_ok :: "delivery_row \<Rightarrow> bool" where
  "job_ok j \<longleftrightarrow>
     tenant_of j \<noteq> None \<and> dj_state j \<in> {''queued'', ''delivered'', ''dead''} \<and> 0 \<le> dj_attempt_count j
     \<and> dj_attempt_count j \<le> dj_max_attempts j \<and> (dj_state j = ''queued'' \<longrightarrow> dj_attempt_count j < dj_max_attempts j)"

definition outbox_ok :: "email_db \<Rightarrow> bool" where
  "outbox_ok db \<longleftrightarrow> distinct (map dj_id (ed_jobs db)) \<and> list_all job_ok (ed_jobs db)"

text \<open>The attempts that are left.\<close>

definition attempts_left :: "delivery_row \<Rightarrow> nat" where
  "attempts_left j = (if dj_state j = ''queued'' then nat (dj_max_attempts j - dj_attempt_count j) else 0)"

definition budget :: "email_db \<Rightarrow> nat" where
  "budget db = sum_list (map attempts_left (ed_jobs db))"

definition settled :: "email_db \<Rightarrow> bool" where
  "settled db \<longleftrightarrow> list_all (\<lambda>j. dj_state j = ''delivered'' \<or> dj_state j = ''dead'') (ed_jobs db)"

lemma budget_0_settled: "outbox_ok db \<Longrightarrow> budget db = 0 \<Longrightarrow> settled db"
proof -
  assume ok: "outbox_ok db" and none: "budget db = 0"
  have "dj_state j = ''delivered'' \<or> dj_state j = ''dead''" if "j \<in> set (ed_jobs db)" for j
  proof -
    have "attempts_left j = 0" using none that by (simp add: budget_def)
    moreover have "job_ok j" using ok that by (simp add: outbox_ok_def list_all_iff)
    ultimately show ?thesis by (auto simp: job_ok_def attempts_left_def split: if_split_asm)
  qed
  then show ?thesis by (simp add: settled_def list_all_iff)
qed

section \<open>One delivery\<close>

text \<open>A delivery that completes: what it makes of the job it claimed.\<close>

definition deliver_outcome ::
    "outbox_env \<Rightarrow> email_cipher \<Rightarrow> (rendered_email \<Rightarrow> email_error + string) \<Rightarrow> int \<Rightarrow> delivery_row \<Rightarrow> delivery_row" where
  "deliver_outcome env c send now j =
     (let n = dj_attempt_count j + 1;
          failed = (\<lambda>e permanent. j\<lparr>dj_state := (if permanent \<or> n \<ge> dj_max_attempts j then ''dead'' else ''queued''),
            dj_attempt_count := n, dj_last_error_code := Some (error_code e), dj_locked_at_ms := None,
            dj_next_attempt_at_ms := saturating_add_i64 now (retry_delay_ms n)\<rparr>)
      in case decrypt_message env c (the (tenant_of j)) (dj_id j) (dj_encryption_key_version j) (dj_encrypted_message j) of
           Inl e \<Rightarrow> failed e True
         | Inr message \<Rightarrow> (case send message of
               Inr pid \<Rightarrow> j\<lparr>dj_state := ''delivered'', dj_attempt_count := n, dj_provider_message_id := Some pid,
                 dj_locked_at_ms := None, dj_last_error_code := None\<rparr>
             | Inl e \<Rightarrow> failed e (\<not> is_transient e)))"

definition short_answers :: "(rendered_email \<Rightarrow> email_error + string) \<Rightarrow> bool" where
  "short_answers send \<longleftrightarrow> (\<forall>m. case send m of Inl _ \<Rightarrow> True | Inr pid \<Rightarrow> char_count pid \<le> 256)"

lemma claim_job_cases:
  obtains (none) "claim_job now db_now db = (None, db)" "\<not> list_ex (job_claimable now) (ed_jobs db)"
  | (some) j where "j \<in> set (ed_jobs db)" "job_claimable now j"
      "claim_job now db_now db = (let j' = j\<lparr>dj_state := ''processing'', dj_locked_at_ms := Some db_now,
         dj_attempt_count := dj_attempt_count j + 1\<rparr> in (Some j', db\<lparr>ed_jobs := replace_job j' (ed_jobs db)\<rparr>))"
proof (cases "sort_key dj_next_attempt_at_ms (sort_key dj_created_at_ms (filter (job_claimable now) (ed_jobs db)))")
  case Nil
  then have "set (filter (job_claimable now) (ed_jobs db)) = {}" by (metis set_empty set_sort)
  then show ?thesis using none Nil by (auto simp: claim_job_def list_ex_iff)
next
  case (Cons j js)
  then have "j \<in> set (filter (job_claimable now) (ed_jobs db))" by (metis list.set_intros(1) set_sort)
  then show ?thesis using some [of j] Cons by (simp add: claim_job_def)
qed

lemma finish_after_claim:
  assumes "dj_id j' = dj_id j" "dj_state j' = ''processing''"
    and "\<And>x. dj_id (f x) = dj_id x"
  shows "finish_job (dj_id j) f (db\<lparr>ed_jobs := replace_job j' (ed_jobs db)\<rparr>) =
    db\<lparr>ed_jobs := map (\<lambda>x. if dj_id x = dj_id j then f j' else x) (ed_jobs db)\<rparr>"
  using assms by (simp add: finish_job_def replace_job_def comp_def cong: if_cong)

lemma deliver_one_complete:
  assumes "outbox_ok db" and "short_answers send"
  obtains (idle) "deliver_one env c send True True now db_now db = (Ok False, db)" "\<not> list_ex (job_claimable now) (ed_jobs db)"
  | (work) j where "j \<in> set (ed_jobs db)" "job_claimable now j"
      "deliver_one env c send True True now db_now db =
        (Ok True, db\<lparr>ed_jobs := map (\<lambda>x. if dj_id x = dj_id j then deliver_outcome env c send now j else x) (ed_jobs db)\<rparr>)"
proof (cases rule: claim_job_cases [of now db_now db])
  case none
  then show ?thesis using idle by (simp add: deliver_one_def)
next
  case (some j)
  obtain tenant where tenant: "tenant_of j = Some tenant"
    using assms(1) some(1) by (auto simp: outbox_ok_def list_all_iff job_ok_def)
  have pid: "char_count pid \<le> 256" if "send m = Inr pid" for m pid
    using assms(2) that by (auto simp: short_answers_def split: sum.split_asm)
  define j' where "j' = j\<lparr>dj_state := ''processing'', dj_locked_at_ms := Some db_now, dj_attempt_count := dj_attempt_count j + 1\<rparr>"
  have j': "dj_id j' = dj_id j" "dj_state j' = ''processing''" "tenant_of j' = Some tenant"
      "dj_encryption_key_version j' = dj_encryption_key_version j" "dj_encrypted_message j' = dj_encrypted_message j"
    using tenant by (simp_all add: j'_def tenant_of_def split: option.split_asm)
  let ?db = "db\<lparr>ed_jobs := replace_job j' (ed_jobs db)\<rparr>"
  have claim: "claim_job now db_now db = (Some j', ?db)" using some(3) by (simp add: j'_def Let_def)
  let ?r = "\<lambda>y. db\<lparr>ed_jobs := map (\<lambda>x. if dj_id x = dj_id j then y else x) (ed_jobs db)\<rparr>"
  have failed: "fail_job j' e now permanent ?db =
      ?r (j'\<lparr>dj_state := (if permanent \<or> dj_attempt_count j' \<ge> dj_max_attempts j' then ''dead'' else ''queued''),
        dj_last_error_code := Some (error_code e), dj_locked_at_ms := None,
        dj_next_attempt_at_ms := saturating_add_i64 now (retry_delay_ms (dj_attempt_count j'))\<rparr>)" for e permanent
    unfolding fail_job_def Let_def j'(1) by (rule finish_after_claim) (simp_all add: j')
  have delivered: "deliver_job j' pid ?db =
      ?r (j'\<lparr>dj_state := ''delivered'', dj_provider_message_id := Some pid, dj_locked_at_ms := None, dj_last_error_code := None\<rparr>)" for pid
    unfolding deliver_job_def j'(1) by (rule finish_after_claim) (simp_all add: j')
  have "deliver_one env c send True True now db_now db = (Ok True, ?r (deliver_outcome env c send now j))"
    unfolding deliver_one_def claim prod.case option.case j' failed delivered deliver_outcome_def tenant option.sel
    by (auto simp: pid Let_def j'_def split: sum.split)
  then show ?thesis using work some by blast
qed

lemma deliver_outcome_ok:
  assumes "job_ok j" "job_claimable now j"
  shows "job_ok (deliver_outcome env c send now j)" "attempts_left (deliver_outcome env c send now j) < attempts_left j"
    and "dj_id (deliver_outcome env c send now j) = dj_id j"
proof -
  have queued: "dj_state j = ''queued''" "dj_attempt_count j < dj_max_attempts j" "0 \<le> dj_attempt_count j" "tenant_of j \<noteq> None"
    using assms by (auto simp: job_ok_def job_claimable_def)
  let ?o = "deliver_outcome env c send now j"
  have o: "dj_attempt_count ?o = dj_attempt_count j + 1" "dj_max_attempts ?o = dj_max_attempts j" "dj_id ?o = dj_id j"
      "dj_project_id ?o = dj_project_id j" "dj_organization_id ?o = dj_organization_id j"
      "dj_state ?o \<in> {''queued'', ''delivered'', ''dead''}" "dj_state ?o = ''queued'' \<Longrightarrow> dj_attempt_count j + 1 < dj_max_attempts j"
    by (auto simp: deliver_outcome_def Let_def split: sum.splits if_splits)
  have "tenant_of ?o = tenant_of j" unfolding tenant_of_def o ..
  then show "job_ok ?o" using o queued by (auto simp: job_ok_def)
  show "attempts_left ?o < attempts_left j" using o queued by (auto simp: attempts_left_def)
  show "dj_id ?o = dj_id j" by (rule o)
qed

lemma saturating_add_le: "0 \<le> a \<Longrightarrow> 0 \<le> b \<Longrightarrow> saturating_add_i64 a b \<le> a + b"
  by (simp add: saturating_add_i64_def i64_min_def)

lemma retry_delay_bounds: "30000 \<le> retry_delay_ms n \<and> retry_delay_ms n \<le> 3600000"
  by (auto simp: retry_delay_ms_def Let_def)

lemma deliver_outcome_due:
  assumes "0 \<le> now"
  shows "dj_next_attempt_at_ms (deliver_outcome env c send now j) \<le> max (dj_next_attempt_at_ms j) (now + 3600000)"
proof -
  have "saturating_add_i64 now (retry_delay_ms n) \<le> now + 3600000" for n
    using saturating_add_le [OF assms, of "retry_delay_ms n"] retry_delay_bounds [of n] by linarith
  then show ?thesis by (auto simp: deliver_outcome_def Let_def le_max_iff_disj split: sum.split)
qed

lemma replace_one:
  assumes "distinct (map dj_id js)" "j \<in> set js"
  obtains a b where "js = a @ j # b" "map (\<lambda>x. if dj_id x = dj_id j then y else x) js = a @ y # b"
proof -
  obtain a b where js: "js = a @ j # b" using assms(2) by (meson split_list)
  then have "dj_id j \<notin> dj_id ` set (a @ b)" using assms(1) by auto
  then have "map (\<lambda>x. if dj_id x = dj_id j then y else x) (a @ b) = a @ b"
    by (intro map_idI) (metis image_eqI)
  then show ?thesis using that js by simp
qed

text \<open>A complete delivery keeps the invariant; it reports work exactly when a job was due, and then uses up an attempt.\<close>

lemma deliver_one_progress:
  assumes "outbox_ok db" "short_answers send" "deliver_one env c send True True now db_now db = (r, db')"
  shows "outbox_ok db'" "r = Ok (list_ex (job_claimable now) (ed_jobs db))" "map dj_id (ed_jobs db') = map dj_id (ed_jobs db)"
    and "if list_ex (job_claimable now) (ed_jobs db) then budget db' < budget db else db' = db"
    and "0 \<le> now \<Longrightarrow> list_all (\<lambda>j. dj_next_attempt_at_ms j \<le> now) (ed_jobs db) \<Longrightarrow>
      list_all (\<lambda>j. dj_next_attempt_at_ms j \<le> now + 3600000) (ed_jobs db')"
proof -
  have "outbox_ok db' \<and> r = Ok (list_ex (job_claimable now) (ed_jobs db)) \<and> map dj_id (ed_jobs db') = map dj_id (ed_jobs db)
    \<and> (if list_ex (job_claimable now) (ed_jobs db) then budget db' < budget db else db' = db)
    \<and> (0 \<le> now \<longrightarrow> list_all (\<lambda>j. dj_next_attempt_at_ms j \<le> now) (ed_jobs db) \<longrightarrow>
      list_all (\<lambda>j. dj_next_attempt_at_ms j \<le> now + 3600000) (ed_jobs db'))"
    using assms(1,2)
  proof (cases rule: deliver_one_complete [where env = env and c = c and now = now and db_now = db_now])
    case idle
    then show ?thesis using assms(1,3) by (auto simp: list_all_iff)
  next
    case (work j)
    let ?o = "deliver_outcome env c send now j"
    have j: "job_ok j" using assms(1) work(1) by (simp add: outbox_ok_def list_all_iff)
    note o = deliver_outcome_ok [OF j work(2), of env c send]
    have distinct: "distinct (map dj_id (ed_jobs db))" using assms(1) by (simp add: outbox_ok_def)
    obtain a b where jobs: "ed_jobs db = a @ j # b"
      and "map (\<lambda>x. if dj_id x = dj_id j then ?o else x) (ed_jobs db) = a @ ?o # b"
      by (rule replace_one [OF distinct work(1)])
    then have jobs': "ed_jobs db' = a @ ?o # b" using assms(3) work(3) by auto
    have "outbox_ok db'" using assms(1) o by (simp add: outbox_ok_def jobs jobs')
    moreover have "budget db' < budget db" using o(2) by (simp add: budget_def jobs jobs')
    moreover have "list_ex (job_claimable now) (ed_jobs db)" using work(2) by (simp add: jobs)
    moreover have "r = Ok True" using assms(3) work(3) by simp
    moreover have "map dj_id (ed_jobs db') = map dj_id (ed_jobs db)" using o(3) by (simp add: jobs jobs')
    moreover have "list_all (\<lambda>j. dj_next_attempt_at_ms j \<le> now + 3600000) (ed_jobs db')"
      if "0 \<le> now" "list_all (\<lambda>j. dj_next_attempt_at_ms j \<le> now) (ed_jobs db)"
    proof -
      have le: "dj_next_attempt_at_ms x \<le> now" if "x \<in> set (a @ j # b)" for x
        using \<open>list_all _ (ed_jobs db)\<close> that by (auto simp: jobs list_all_iff)
      have "dj_next_attempt_at_ms x \<le> now + 3600000" if "x \<in> set (a @ b)" for x using le [of x] that by auto
      moreover have "dj_next_attempt_at_ms ?o \<le> now + 3600000"
        using deliver_outcome_due [OF that(1), of env c send j] le [of j] by simp
      ultimately show ?thesis unfolding jobs' list_all_iff by auto
    qed
    ultimately show ?thesis by simp
  qed
  then show "outbox_ok db'" "r = Ok (list_ex (job_claimable now) (ed_jobs db))" "map dj_id (ed_jobs db') = map dj_id (ed_jobs db)"
    "if list_ex (job_claimable now) (ed_jobs db) then budget db' < budget db else db' = db"
    "0 \<le> now \<Longrightarrow> list_all (\<lambda>j. dj_next_attempt_at_ms j \<le> now) (ed_jobs db) \<Longrightarrow>
      list_all (\<lambda>j. dj_next_attempt_at_ms j \<le> now + 3600000) (ed_jobs db')"
    by simp_all
qed

section \<open>Every job settles\<close>

type_synonym delivery_call = "(rendered_email \<Rightarrow> email_error + string) \<times> int \<times> int"

fun deliveries :: "outbox_env \<Rightarrow> email_cipher \<Rightarrow> delivery_call list \<Rightarrow> email_db \<Rightarrow> (email_error + bool) list \<times> email_db" where
  "deliveries env c [] db = ([], db)"
| "deliveries env c ((send, now, db_now) # calls) db =
     (let (r, db1) = deliver_one env c send True True now db_now db; (rs, db2) = deliveries env c calls db1
      in (r # rs, db2))"

text \<open>Calls an hour apart, from time \<open>t\<close>, to a provider whose identifiers fit.\<close>

fun hourly_calls :: "int \<Rightarrow> delivery_call list \<Rightarrow> bool" where
  "hourly_calls t [] = True"
| "hourly_calls t ((send, now, _) # calls) = (t \<le> now \<and> hourly_calls (now + 3600000) calls)"

lemma deliveries_bounded:
  assumes "outbox_ok db" "list_all (\<lambda>(send, _). short_answers send) calls" "deliveries env c calls db = (rs, db')"
  shows "outbox_ok db' \<and> map dj_id (ed_jobs db') = map dj_id (ed_jobs db)
    \<and> list_all (\<lambda>r. r = Ok True \<or> r = Ok False) rs
    \<and> budget db' + length (filter (\<lambda>r. r = Ok True) rs) \<le> budget db"
  using assms
proof (induction calls arbitrary: db rs)
  case (Cons x calls)
  obtain send now db_now where x: "x = (send, now, db_now)" by (cases x)
  obtain r db1 where one: "deliver_one env c send True True now db_now db = (r, db1)" by fastforce
  obtain rs' where rest: "deliveries env c calls db1 = (rs', db')" and rs: "rs = r # rs'"
    using Cons.prems(3) by (auto simp: x one split: prod.split_asm)
  have send: "short_answers send" using Cons.prems(2) by (simp add: x)
  note p = deliver_one_progress [OF Cons.prems(1) send one]
  have "outbox_ok db' \<and> map dj_id (ed_jobs db') = map dj_id (ed_jobs db1)
    \<and> list_all (\<lambda>r. r = Ok True \<or> r = Ok False) rs'
    \<and> budget db' + length (filter (\<lambda>r. r = Ok True) rs') \<le> budget db1"
    by (rule Cons.IH [OF p(1) _ rest]) (use Cons.prems(2) in simp)
  then show ?case using p(2-4) rs by (auto split: if_split_asm)
qed simp

lemma hourly_calls_settle:
  assumes "outbox_ok db" "list_all (\<lambda>(send, _). short_answers send) calls"
    and "0 \<le> t" "hourly_calls t calls" "list_all (\<lambda>j. dj_next_attempt_at_ms j \<le> t) (ed_jobs db)" "budget db \<le> length calls"
  shows "settled (snd (deliveries env c calls db))"
  using assms
proof (induction calls arbitrary: db t)
  case Nil
  then show ?case using budget_0_settled by simp
next
  case (Cons x calls)
  obtain send now db_now where x: "x = (send, now, db_now)" by (cases x)
  obtain r db1 where one: "deliver_one env c send True True now db_now db = (r, db1)" by fastforce
  have send: "short_answers send" and now: "t \<le> now" "hourly_calls (now + 3600000) calls"
    using Cons.prems(2,4) by (simp_all add: x)
  note p = deliver_one_progress [OF Cons.prems(1) send one]
  have due: "list_all (\<lambda>j. dj_next_attempt_at_ms j \<le> now) (ed_jobs db)" using Cons.prems(5) now(1) by (fastforce simp: list_all_iff)
  have "budget db1 \<le> length calls"
  proof (cases "list_ex (job_claimable now) (ed_jobs db)")
    case True
    then show ?thesis using p(4) Cons.prems(6) by simp
  next
    case False
    then have "dj_state j \<noteq> ''queued''" if "j \<in> set (ed_jobs db)" for j
      using that due by (auto simp: list_ex_iff job_claimable_def list_all_iff)
    then have "budget db = 0" by (simp add: budget_def attempts_left_def)
    then show ?thesis using p(4) False by simp
  qed
  moreover have "list_all (\<lambda>j. dj_next_attempt_at_ms j \<le> now + 3600000) (ed_jobs db1)"
    using p(5) due Cons.prems(3) now(1) by simp
  ultimately have "settled (snd (deliveries env c calls db1))"
    using Cons.IH [OF p(1) _ _ now(2)] Cons.prems(2,3) now(1) by simp
  then show ?case by (auto simp: x one split: prod.split)
qed

text \<open>
  C37. The retries of the outbox end. Over any sequence of deliveries that complete, at most as many find work as
  there are attempts left, no job is tried more often than its limit, and no job is lost; and when there are as many calls as attempts left, an hour apart
  from the time the jobs are due, every job is delivered or dead.
\<close>

theorem outbox_retries_end:
  assumes "outbox_ok db" "list_all (\<lambda>(send, _). short_answers send) calls" "deliveries env c calls db = (rs, db')"
  shows "length (filter (\<lambda>r. r = Ok True) rs) \<le> budget db
    \<and> map dj_id (ed_jobs db') = map dj_id (ed_jobs db) \<and> list_all (\<lambda>j. dj_attempt_count j \<le> dj_max_attempts j) (ed_jobs db')
    \<and> (\<forall>t \<ge> 0. hourly_calls t calls \<longrightarrow> list_all (\<lambda>j. dj_next_attempt_at_ms j \<le> t) (ed_jobs db) \<longrightarrow> budget db \<le> length calls
         \<longrightarrow> settled db')"
  using deliveries_bounded [OF assms] hourly_calls_settle [OF assms(1,2), of _ env c] assms(3)
  by (auto simp: outbox_ok_def job_ok_def list_all_iff)

section \<open>A job that is delivered, and one that is given up\<close>

definition demo_message :: rendered_email where
  "demo_message = \<lparr>re_to = ''a@b.c'', re_from = ''x@y.z'', re_reply_to = None, re_subject = ''Hi'', re_html = ''<p>Hi</p>'', re_text = ''Hi'',
     re_template_id = ''t'', re_template_version = 1, re_idempotency_key = ''key-0001''\<rparr>"

definition demo_email_env :: email_env where
  "demo_email_env = \<lparr>ev_forbidden = (\<lambda>s. contains_str s ''<script''), ev_sha256_hex = (\<lambda>_. replicate 64 CHR ''0''),
     ev_show_uuid = (\<lambda>_. ''project'')\<rparr>"

definition demo_outbox_env :: outbox_env where
  "demo_outbox_env = \<lparr>ox_email = demo_email_env, ox_seal = (\<lambda>_ _ _ p. Some (p @ replicate 16 CHR ''#'')),
     ox_open = (\<lambda>_ _ _ s. Some (take (length s - 16) s)), ox_hmac = (\<lambda>_ _. replicate 32 CHR ''f''),
     ox_to_json = (\<lambda>m. Some (re_to m)), ox_of_json = (\<lambda>a. Some (demo_message\<lparr>re_to := a\<rparr>))\<rparr>"

definition demo_cipher :: email_cipher where
  "demo_cipher = \<lparr>ec_key = replicate 32 CHR ''k'', ec_key_version = 1\<rparr>"

definition demo_email_job :: "nat \<Rightarrow> string \<Rightarrow> delivery_row" where
  "demo_email_job i recipient = new_job i (Some 1) None Invitation 1 (replicate 32 CHR ''f'')
     (replicate 12 CHR ''n'' @ recipient @ replicate 16 CHR ''#'') 1 (''key-000'' @ show_nat i) 1000 1000"

definition demo_outbox :: email_db where
  "demo_outbox = \<lparr>ed_projects = [1], ed_organizations = [], ed_templates = [], ed_jobs = [demo_email_job 1 ''a@b.c'', demo_email_job 2 ''down@b.c'']\<rparr>"

definition demo_provider :: "rendered_email \<Rightarrow> email_error + string" where
  "demo_provider m = (if re_to m = ''a@b.c'' then Ok ''message-1'' else Err Em_ProviderUnavailable)"

definition demo_calls :: "delivery_call list" where
  "demo_calls = map (\<lambda>i. (demo_provider, 1000 + 3600000 * int i, 0)) [0..<16]"

lemma demo_provider_short: "short_answers demo_provider"
  by (simp add: short_answers_def demo_provider_def char_count_def)

theorem outbox_retries_end_witness:
  "length (filter (\<lambda>r. r = Ok True) (fst (deliveries demo_outbox_env demo_cipher demo_calls demo_outbox))) \<le> 16
    \<and> settled (snd (deliveries demo_outbox_env demo_cipher demo_calls demo_outbox))
    \<and> map dj_state (ed_jobs (snd (deliveries demo_outbox_env demo_cipher demo_calls demo_outbox))) = [''delivered'', ''dead'']"
proof -
  have ok: "outbox_ok demo_outbox" by code_simp
  have short: "list_all (\<lambda>(send, _). short_answers send) demo_calls"
    using demo_provider_short by (simp add: demo_calls_def list_all_iff)
  have hourly: "hourly_calls 1000 demo_calls" by (simp add: demo_calls_def upt_rec)
  have due: "list_all (\<lambda>j. dj_next_attempt_at_ms j \<le> 1000) (ed_jobs demo_outbox)" by code_simp
  have left: "budget demo_outbox = 16" "length demo_calls = 16" by code_simp+
  note t = outbox_retries_end [OF ok short, of demo_outbox_env demo_cipher, OF prod.collapse [symmetric]]
  have "length (filter (\<lambda>r. r = Ok True) (fst (deliveries demo_outbox_env demo_cipher demo_calls demo_outbox))) \<le> 16"
    using t left by simp
  moreover have "settled (snd (deliveries demo_outbox_env demo_cipher demo_calls demo_outbox))"
    using t hourly due left by (auto dest!: spec [of _ 1000])
  moreover have "map dj_state (ed_jobs (snd (deliveries demo_outbox_env demo_cipher demo_calls demo_outbox))) = [''delivered'', ''dead'']"
    by code_simp
  ultimately show ?thesis by blast
qed

section \<open>Enqueueing\<close>

lemma insert_job_ok:
  assumes "outbox_ok db" "insert_job j db = (r, db')" "job_ok j"
  shows "outbox_ok db'"
proof (cases "db' = db")
  case False
  then have "db' = db\<lparr>ed_jobs := ed_jobs db @ [j]\<rparr>" "dj_id j \<notin> dj_id ` set (ed_jobs db)"
    using assms(2) by (force simp: insert_job_def list_ex_iff split: if_split_asm option.split_asm)+
  then show ?thesis using assms(1,3) by (simp add: outbox_ok_def)
qed (use assms(1) in simp)

lemma new_job_ok: "project \<noteq> None \<or> organization \<noteq> None \<Longrightarrow> job_ok (new_job i project organization kind v f e kv key now db_now)"
  by (auto simp: job_ok_def new_job_def tenant_of_def MAX_ATTEMPTS_def split: option.split)

lemma enqueue_ok: "outbox_ok db \<Longrightarrow> outbox_ok (snd (enqueue env c up i nonce db_now q db))"
  using insert_job_ok [OF _ prod.collapse [symmetric] new_job_ok]
  by (auto simp: enqueue_def Let_def split: sum.split prod.split)

lemma enqueue_organization_invitation_ok:
  "outbox_ok db \<Longrightarrow> outbox_ok (snd (enqueue_organization_invitation env c up i nonce db_now q db))"
  using insert_job_ok [OF _ prod.collapse [symmetric] new_job_ok]
  by (auto simp: enqueue_organization_invitation_def Let_def split: sum.split prod.split)

text \<open>A request under a key that was used before answers with the job that is there, and adds none.\<close>

lemma insert_job_again:
  assumes "insert_job j db = (Ok i, db1)" and "insert_job j' db1 = (r, db2)"
    and "dj_idempotency_key j' = dj_idempotency_key j" "dj_project_id j' = dj_project_id j" "dj_organization_id j' = dj_organization_id j"
    and "tenant_of j \<noteq> None"
  shows "db2 = db1 \<and> (\<forall>i'. r = Ok i' \<longrightarrow> i' = i)"
proof -
  have same: "same_request j' = same_request j" using assms(3-5) by (simp add: same_request_def fun_eq_iff)
  have own: "same_request j j" using assms(6) by (auto simp: same_request_def tenant_of_def split: option.split_asm)
  obtain x where x: "List.find (same_request j) (ed_jobs db1) = Some x" "dj_id x = i"
  proof (cases "db1 = db")
    case True
    then have "\<exists>x. List.find (same_request j) (ed_jobs db) = Some x \<and> dj_id x = i"
      using assms(1) by (auto simp: insert_job_def dest: arg_cong [of _ _ ed_jobs] split: if_split_asm option.split_asm)
    then show ?thesis using that True by blast
  next
    case False
    then have "db1 = db\<lparr>ed_jobs := ed_jobs db @ [j]\<rparr>" "List.find (same_request j) (ed_jobs db) = None" "dj_id j = i"
      using assms(1) by (auto simp: insert_job_def list_ex_iff find_None_iff split: if_split_asm option.split_asm)
    then show ?thesis using that [of j] own by (simp add: find_append)
  qed
  then have "list_ex (\<lambda>x. dj_id x = dj_id j' \<or> same_request j x) (ed_jobs db1)"
    by (auto simp: list_ex_iff find_Some_iff)
  then show ?thesis using assms(2) x by (auto simp: insert_job_def same split: if_split_asm)
qed

text \<open>A job whose delivery did not complete is taken again after five minutes, whatever its count: its limit does not bound the attempts.\<close>

lemma abandoned_job_ignores_its_limit:
  assumes "ed_jobs db = [j]" "dj_state j = ''processing''" "dj_locked_at_ms j = Some l" "l < now - 300000" "tenant_of j \<noteq> None"
    and "decrypt_message env c (the (tenant_of j)) (dj_id j) (dj_encryption_key_version j) (dj_encrypted_message j) = Ok message"
  shows "deliver_one env c send True False now db_now db =
    (Err Em_RepositoryUnavailable, db\<lparr>ed_jobs := [j\<lparr>dj_state := ''processing'', dj_locked_at_ms := Some db_now,
      dj_attempt_count := dj_attempt_count j + 1\<rparr>]\<rparr>)"
proof -
  obtain tenant where tenant: "tenant_of j = Some tenant" using assms(5) by blast
  have "tenant_of (j\<lparr>dj_state := s, dj_locked_at_ms := k, dj_attempt_count := n\<rparr>) = Some tenant" for s k n
    using tenant by (simp add: tenant_of_def split: option.split_asm)
  then show ?thesis using assms tenant
    by (simp add: deliver_one_def claim_job_def job_claimable_def replace_job_def Let_def split: sum.split)
qed

text \<open>A worker that reports a failure after its lease expired puts the job back while another one is sending it.\<close>

lemma late_failure_requeues:
  assumes "ed_jobs db = [x]" "dj_id x = dj_id j" "dj_state x = ''processing''" "is_transient e"
    and "dj_attempt_count j < dj_max_attempts j"
  shows "map dj_state (ed_jobs (fail_job j e now False db)) = [''queued'']"
  using assms by (simp add: fail_job_def finish_job_def)

end
