(* ===== verification/Email_Smtp.thy ===== *)
theory Email_Smtp
  imports Email_Templates
begin

text \<open>
  \<open>crates/email/src/smtp.rs\<close>: the SMTP transport for development. The server is the list of what reading a line
  gives, None for a timeout or an error and an empty line at the end of the stream; a delivery yields its
  result and the text sent.
\<close>

abbreviation CR :: char where "CR \<equiv> CHR 0x0D"
abbreviation LF :: char where "LF \<equiv> CHR 0x0A"
abbreviation CRLF :: string where "CRLF \<equiv> [CR, LF]"

section \<open>Endpoint\<close>

fun smtp_local_address :: "provider_ip \<Rightarrow> bool" where
  "smtp_local_address (IpV4 a b c d) = (is_private_v4 (IpV4 a b c d) \<or> is_loopback (IpV4 a b c d))"
| "smtp_local_address (IpV6 ss) = (hd ss AND 0xfe00 = 0xfc00 \<or> is_loopback (IpV6 ss))"

record smtp_transport =
  st_host :: string
  st_port :: nat
  st_addresses :: "provider_ip list"

definition development_with_resolved_addresses :: "string \<Rightarrow> nat \<Rightarrow> provider_ip list \<Rightarrow> email_error + smtp_transport" where
  "development_with_resolved_addresses host port addresses =
     (if port = 0 \<or> host \<notin> {''localhost'', ''127.0.0.1'', ''::1'', ''mailpit''} \<or> addresses = []
        \<or> list_ex (\<lambda>a. if host = ''mailpit'' then \<not> smtp_local_address a else \<not> is_loopback a) addresses
      then Err Em_UnsafeProviderEndpoint
      else Ok \<lparr>st_host = host, st_port = port, st_addresses = addresses\<rparr>)"

section \<open>Messages\<close>

fun crlf_to_lf :: "string \<Rightarrow> string" where
  "crlf_to_lf (a # b # s) = (if a = CR \<and> b = LF then LF # crlf_to_lf s else a # crlf_to_lf (b # s))"
| "crlf_to_lf s = s"

definition dot_stuff :: "string \<Rightarrow> string" where
  "dot_stuff v =
     join CRLF (map (\<lambda>line. if starts_with line ''.'' then CHR ''.'' # line else line)
       (split_on LF (map (\<lambda>c. if c = CR then LF else c) (crlf_to_lf v))))"

text \<open>The byte after the last occurrence, by its distance from the end, as \<open>rfind\<close> finds it.\<close>

definition rfind :: "char \<Rightarrow> string \<Rightarrow> nat option" where
  "rfind c s = (if c \<in> set s then Some (length s - 1 - length (takeWhile (\<lambda>x. x \<noteq> c) (rev s))) else None)"

definition envelope_mailbox :: "string \<Rightarrow> email_error + string" where
  "envelope_mailbox v =
     (if line_break_or_nul v then Err Em_InvalidMailbox
      else
        let mailbox = (case (rfind CHR ''<'' v, rfind CHR ''>'' v) of
              (Some s, Some e) \<Rightarrow> if s < e then drop (s + 1) (take e v) else v
            | _ \<Rightarrow> v)
        in if length mailbox > 320
             \<or> (case split_once CHR ''@'' mailbox of None \<Rightarrow> True | Some (l, d) \<Rightarrow> l = [] \<or> CHR ''.'' \<notin> set d)
           then Err Em_InvalidMailbox else Ok mailbox)"

definition mime_message :: "email_env \<Rightarrow> rendered_email \<Rightarrow> email_error + string" where
  "mime_message env m =
     (if line_break_or_nul (re_to m) \<or> line_break_or_nul (re_from m) \<or> line_break_or_nul (re_subject m) then Err Em_HeaderInjection
      else
        let boundary = ''ffdb-'' @ take 32 (ev_sha256_hex env (re_idempotency_key m)); q = [CHR 0x22];
            body = join CRLF
              [''From: '' @ re_from m, ''To: '' @ re_to m, ''Subject: '' @ re_subject m, ''MIME-Version: 1.0'',
               ''Content-Type: multipart/alternative; boundary='' @ q @ boundary @ q, [],
               ''--'' @ boundary, ''Content-Type: text/plain; charset=utf-8'', ''Content-Transfer-Encoding: 8bit'', [],
               dot_stuff (re_text m),
               ''--'' @ boundary, ''Content-Type: text/html; charset=utf-8'', ''Content-Transfer-Encoding: 8bit'', [],
               dot_stuff (re_html m), ''--'' @ boundary @ ''--'']
        in if length body > 2000000 then Err Em_InvalidArtifact else Ok body)"

section \<open>The dialogue\<close>

definition response_status :: "string \<Rightarrow> email_error + nat \<times> char" where
  "response_status line =
     (case line of
        a # b # c # rest \<Rightarrow>
          if \<not> (is_ascii_digit a \<and> is_ascii_digit b \<and> is_ascii_digit c) then Err Em_InvalidProviderResponse
          else (case rest of
            [] \<Rightarrow> Err Em_InvalidProviderResponse
          | sep # _ \<Rightarrow> Ok ((code a - 48) * 100 + (code b - 48) * 10 + (code c - 48), sep))
      | _ \<Rightarrow> Err Em_InvalidProviderResponse)"

fun expect :: "nat \<Rightarrow> nat \<Rightarrow> string option list \<Rightarrow> (email_error + unit) \<times> string option list" where
  "expect seen expected [] = (Err Em_ProviderUnavailable, [])"
| "expect seen expected (None # replies) = (Err Em_ProviderUnavailable, replies)"
| "expect seen expected (Some line # replies) =
     (let seen' = saturating_add_u64 seen (length line) in
      if length line = 0 \<or> seen' > 32 * 1024 then (Err Em_InvalidProviderResponse, replies)
      else (case response_status line of
        Inl e \<Rightarrow> (Err e, replies)
      | Inr (status, sep) \<Rightarrow>
          if status \<noteq> expected then
            (Err (if status \<in> {421, 450, 451, 452} then Em_ProviderUnavailable else Em_ProviderRejected), replies)
          else if sep = CHR '' '' then (Ok (), replies)
          else if sep \<noteq> CHR ''-'' then (Err Em_InvalidProviderResponse, replies)
          else expect seen' expected replies))"

text \<open>A command is checked, written (\<open>up = False\<close> when that fails), and its reply awaited.\<close>

definition smtp_command ::
    "bool \<Rightarrow> string \<Rightarrow> nat \<Rightarrow> string \<Rightarrow> string option list \<Rightarrow> (email_error + unit) \<times> string \<times> string option list" where
  "smtp_command up cmd expected sent replies =
     (if length cmd > 1024 \<or> CHR 0x00 \<in> set cmd then (Err Em_InvalidArtifact, sent, replies)
      else if \<not> up then (Err Em_ProviderUnavailable, sent, replies)
      else (case expect 0 expected replies of (r, replies') \<Rightarrow> (r, sent @ cmd, replies')))"

definition smtp_then ::
    "(email_error + unit) \<times> string \<times> string option list \<Rightarrow> (string \<Rightarrow> string option list \<Rightarrow> (email_error + unit) \<times> string \<times> string option list)
      \<Rightarrow> (email_error + unit) \<times> string \<times> string option list" where
  "smtp_then x f = (case x of (Inl e, s, rs) \<Rightarrow> (Err e, s, rs) | (Inr _, s, rs) \<Rightarrow> f s rs)"

definition smtp_deliver ::
    "email_env \<Rightarrow> bool \<Rightarrow> bool \<Rightarrow> rendered_email \<Rightarrow> string option list \<Rightarrow> (email_error + unit) \<times> string \<times> string option list" where
  "smtp_deliver env connected up m replies =
     (if \<not> connected then (Err Em_ProviderUnavailable, [], replies)
      else
        smtp_then (case expect 0 220 replies of (r, rs) \<Rightarrow> (r, [], rs)) (\<lambda>s rs.
        smtp_then (smtp_command up (''EHLO ffdb.local'' @ CRLF) 250 s rs) (\<lambda>s rs.
        smtp_then (case envelope_mailbox (re_from m) of Inl e \<Rightarrow> (Err e, s, rs)
          | Inr a \<Rightarrow> smtp_command up (''MAIL FROM:<'' @ a @ ''>'' @ CRLF) 250 s rs) (\<lambda>s rs.
        smtp_then (case envelope_mailbox (re_to m) of Inl e \<Rightarrow> (Err e, s, rs)
          | Inr a \<Rightarrow> smtp_command up (''RCPT TO:<'' @ a @ ''>'' @ CRLF) 250 s rs) (\<lambda>s rs.
        smtp_then (smtp_command up (''DATA'' @ CRLF) 354 s rs) (\<lambda>s rs.
        (case mime_message env m of
           Inl e \<Rightarrow> (Err e, s, rs)
         | Inr body \<Rightarrow>
             if \<not> up then (Err Em_ProviderUnavailable, s, rs)
             else smtp_then (case expect 0 250 rs of (r, rs') \<Rightarrow> (r, s @ body @ CRLF @ ''.'' @ CRLF, rs')) (\<lambda>s rs.
               (case smtp_command up (''QUIT'' @ CRLF) 221 s rs of (_, s', rs') \<Rightarrow> (Ok (), s', rs')))))))))) "

end
