(* ===== verification/Email_Properties.thy ===== *)
theory Email_Properties
  imports Email_Delivery Email_Smtp
begin

text \<open>
  Email: rendering inserts values once, escaped; a session with an SMTP server carries one
  message, which ends where it ends. Two lemmas show what the checks of markup and of addresses let through.
\<close>

section \<open>Rendering\<close>

text \<open>The text a segment stands for in the template, and in the message.\<close>

fun marker_text :: "char + string \<Rightarrow> string" where
  "marker_text (Inl c) = [c]"
| "marker_text (Inr n) = ''{{'' @ n @ ''}}''"

definition interpolate :: "(string \<times> scalar_value) list \<Rightarrow> (string \<Rightarrow> string) \<Rightarrow> (char + string) list \<Rightarrow> string" where
  "interpolate vars enc xs = concat (map (\<lambda>x. case x of Inl c \<Rightarrow> [c] | Inr n \<Rightarrow> enc (show_scalar (the (map_of vars n)))) xs)"

definition esc_char :: "char \<Rightarrow> string" where
  "esc_char c =
     (if c = CHR ''&'' then ''&amp;'' else if c = CHR ''<'' then ''&lt;'' else if c = CHR ''>'' then ''&gt;''
      else if c = CHR 0x22 then ''&quot;'' else if c = CHR 0x27 then ''&#39;'' else [c])"

definition html_escape :: "string \<Rightarrow> string" where
  "html_escape v = concat (map esc_char v)"

definition entities :: "(string \<times> char) list" where
  "entities = [(''&amp;'', CHR ''&''), (''&lt;'', CHR ''<''), (''&gt;'', CHR ''>''), (''&quot;'', CHR 0x22), (''&#39;'', CHR 0x27)]"

function html_unescape :: "string \<Rightarrow> string" where
  "html_unescape [] = []"
| "html_unescape (c # s) =
     (case List.find (\<lambda>(p, _). starts_with (c # s) p) entities of
        None \<Rightarrow> c # html_unescape s
      | Some (p, d) \<Rightarrow> d # html_unescape (drop (length p - 1) s))"
  by pat_completeness auto
termination by (relation "measure length") auto

lemma strip_prefix_Some: "strip_prefix s p = Some t \<longleftrightarrow> s = p @ t"
  by (auto simp: strip_prefix_def starts_with_iff)

lemma marker_at_text: "marker_at s = Some (name, rest) \<Longrightarrow> s = ''{{'' @ name @ ''}}'' @ rest"
  by (auto simp: marker_at_def Let_def strip_prefix_Some split: option.split_asm list.split_asm if_split_asm)
    (metis append_Cons append_Nil takeWhile_dropWhile_id)+

lemma segments_text: "concat (map marker_text (segments s)) = s"
proof (induction s rule: segments.induct)
  case (2 c s)
  then show ?case by (auto dest: marker_at_text split: option.split)
qed simp

lemma replace_char_append: "replace_char c r (xs @ ys) = replace_char c r xs @ replace_char c r ys"
  by (simp add: replace_char_def)

lemma escape_chain:
  "replace_char (CHR 0x27) ''&#39;'' (replace_char (CHR 0x22) ''&quot;''
      (replace_char CHR ''>'' ''&gt;'' (replace_char CHR ''<'' ''&lt;'' (replace_char CHR ''&'' ''&amp;'' v)))) = html_escape v"
  (is "?chain v = _")
proof (induction v)
  case (Cons c v)
  have "?chain [c] = esc_char c" by (simp add: replace_char_def esc_char_def)
  moreover have "?chain (c # v) = ?chain [c] @ ?chain v"
    using replace_char_append by (metis append_Cons append_Nil)
  moreover have "html_escape (c # v) = esc_char c @ html_escape v" by (simp add: html_escape_def)
  ultimately show ?case using Cons.IH by (simp only:)
qed (simp add: replace_char_def html_escape_def)

lemma escape_html: "escape v Esc_Html = Ok e \<Longrightarrow> e = html_escape v"
  by (simp add: escape_def escape_chain split: if_split_asm)

lemma substitute_segments_Ok:
  assumes "\<And>v e. escape v mode = Ok e \<Longrightarrow> e = enc v"
  shows "substitute_segments vars mode xs = Ok r \<Longrightarrow> r = interpolate vars enc xs
    \<and> (\<forall>n. Inr n \<in> set xs \<longrightarrow> (\<exists>v e. map_of vars n = Some v \<and> escape (show_scalar v) mode = Ok e))"
proof (induction xs arbitrary: r)
  case (Cons x xs)
  then show ?case
    by (cases x) (auto simp: interpolate_def bindr_eq_Ok ok_or_eq_Ok dest: assms)
qed (simp add: interpolate_def)

lemma unescape_esc_char: "html_unescape (esc_char c @ s) = c # html_unescape s"
proof -
  have "html_unescape ([c] @ s) = c # html_unescape s" if "c \<noteq> CHR ''&''"
    using that by (simp add: entities_def)
  then show ?thesis by (auto simp: esc_char_def entities_def)
qed

lemma html_escape_roundtrip: "html_unescape (html_escape v) = v"
  by (induction v) (simp_all add: html_escape_def unescape_esc_char)

lemma html_escape_plain: "set (html_escape v) \<inter> {CHR ''<'', CHR ''>'', CHR 0x22, CHR 0x27} = {}"
proof -
  have "set (esc_char c) \<inter> {CHR ''<'', CHR ''>'', CHR 0x22, CHR 0x27} = {}" for c
    by (simp add: esc_char_def)
  then show ?thesis unfolding html_escape_def by auto
qed

lemma escape_same: "escape v Esc_Text = Ok e \<Longrightarrow> e = v" "escape v Esc_Header = Ok e \<Longrightarrow> e = v \<and> CR \<notin> set v \<and> LF \<notin> set v"
  by (auto simp: escape_def split: if_split_asm)

lemma literal_chars: "Inl c \<in> set (segments s) \<Longrightarrow> c \<in> set s"
proof -
  assume "Inl c \<in> set (segments s)"
  then have "c \<in> set (concat (map marker_text (segments s)))" by force
  then show ?thesis by (simp add: segments_text)
qed

text \<open>
  C36. A rendered message is the template with each marker replaced once by its value. The template is the
  literal text of its segments; in the HTML part every value is inserted escaped, so that it has neither
  angle brackets nor quotation marks and reads back as the value; nothing inserted is expanded again. The
  message carries the addresses it was rendered for; the subject has no line break, and the recipient, the
  sender and the reply address, when there is one, are mailboxes without line break or NUL.
\<close>

theorem rendered_message_is_inert:
  assumes "renderer_new env t = Ok t'" and "render_email t' to_addr from_addr reply_to vars key = Ok m"
  shows "concat (map marker_text (segments (pt_html_template t))) = pt_html_template t
    \<and> re_html m = interpolate vars html_escape (segments (pt_html_template t))
    \<and> re_text m = interpolate vars (\<lambda>v. v) (segments (pt_text_template t))
    \<and> re_subject m = interpolate vars (\<lambda>v. v) (segments (pt_subject_template t))
    \<and> CR \<notin> set (re_subject m) \<and> LF \<notin> set (re_subject m)
    \<and> re_to m = to_addr \<and> re_from m = from_addr \<and> re_reply_to m = reply_to
    \<and> (\<forall>a \<in> {re_to m, re_from m} \<union> set_option (re_reply_to m). validate_mailbox a = Ok () \<and> \<not> line_break_or_nul a)
    \<and> (\<forall>v. set (html_escape v) \<inter> {CHR ''<'', CHR ''>'', CHR 0x22, CHR 0x27} = {} \<and> html_unescape (html_escape v) = v)"
proof -
  have t: "t' = t" "CR \<notin> set (pt_subject_template t)" "LF \<notin> set (pt_subject_template t)"
    using assms(1) by (auto simp: renderer_new_def validate_template_def bindr_eq_Ok split: if_split_asm)
  have m: "substitute (pt_subject_template t) vars Esc_Header = Ok (re_subject m)"
      "substitute (pt_html_template t) vars Esc_Html = Ok (re_html m)" "substitute (pt_text_template t) vars Esc_Text = Ok (re_text m)"
      "re_to m = to_addr" "re_from m = from_addr" "re_reply_to m = reply_to"
    using assms(2) unfolding t(1) by (auto simp: render_email_def bindr_eq_Ok split: if_split_asm)
  have "validate_mailbox a = Ok ()" if "a \<in> {to_addr, from_addr} \<union> set_option reply_to" for a
    using assms(2) that by (auto simp: render_email_def bindr_eq_Ok split: if_split_asm option.split_asm)
  moreover have "\<not> line_break_or_nul a" if "validate_mailbox a = Ok ()" for a
    using that by (auto simp: validate_mailbox_def split: if_split_asm)
  ultimately have mail: "\<forall>a \<in> {re_to m, re_from m} \<union> set_option (re_reply_to m). validate_mailbox a = Ok () \<and> \<not> line_break_or_nul a"
    unfolding m(4-6) by blast
  have html: "re_html m = interpolate vars html_escape (segments (pt_html_template t))"
    using substitute_segments_Ok [of Esc_Html html_escape] escape_html m(2) by (simp add: substitute_def)
  have body: "re_text m = interpolate vars (\<lambda>v. v) (segments (pt_text_template t))"
    using substitute_segments_Ok [of Esc_Text "\<lambda>v. v"] escape_same(1) m(3) by (simp add: substitute_def)
  have subject: "re_subject m = interpolate vars (\<lambda>v. v) (segments (pt_subject_template t))
      \<and> (\<forall>n. Inr n \<in> set (segments (pt_subject_template t)) \<longrightarrow> (\<exists>v e. map_of vars n = Some v \<and> escape (show_scalar v) Esc_Header = Ok e))"
    using substitute_segments_Ok [of Esc_Header "\<lambda>v. v"] escape_same(2) m(1) by (simp add: substitute_def)
  have breaks: "c \<notin> set (re_subject m)" if "c = CR \<or> c = LF" for c
  proof
    assume "c \<in> set (re_subject m)"
    then obtain x where x: "x \<in> set (segments (pt_subject_template t))"
        "c \<in> set (case x of Inl d \<Rightarrow> [d] | Inr n \<Rightarrow> show_scalar (the (map_of vars n)))"
      using subject by (auto simp: interpolate_def)
    show False
    proof (cases x)
      case (Inl d)
      then show False using x that t(2,3) literal_chars by fastforce
    next
      case (Inr n)
      then show False using x that subject escape_same(2) by fastforce
    qed
  qed
  show ?thesis
    by (intro conjI allI) (fact segments_text html body conjunct1 [OF subject] breaks [of CR, simplified] breaks [of LF, simplified]
        m(4-6) mail html_escape_plain html_escape_roundtrip)+
qed

definition demo_template :: precompiled_template where
  "demo_template = \<lparr>pt_project_id = ''project'', pt_template_id = ''t'', pt_kind = Invitation, pt_version = 1,
     pt_source_sha256 = replicate 64 CHR ''0'', pt_subject_template = ''Hi {{name}}'', pt_html_template = ''<p>{{name}}</p>'',
     pt_text_template = ''{{name}}'', pt_allowed_variables = [''name''], pt_compiled_at_ms = 0\<rparr>"

definition demo_rendered :: "email_error + rendered_email" where
  "demo_rendered = render_email demo_template ''a@b.c'' ''x@y.z'' (Some ''r@y.z'') [(''name'', Scalar_String ''<b>{{name}}'')] ''key-0001''"

theorem rendered_message_is_inert_witness:
  "re_html (projr demo_rendered) = interpolate [(''name'', Scalar_String ''<b>{{name}}'')] html_escape (segments (pt_html_template demo_template))
    \<and> re_html (projr demo_rendered) = ''<p>&lt;b&gt;{{name}}</p>'' \<and> LF \<notin> set (re_subject (projr demo_rendered))
    \<and> re_reply_to (projr demo_rendered) = Some ''r@y.z'' \<and> \<not> line_break_or_nul ''r@y.z''"
proof -
  have new: "renderer_new demo_email_env demo_template = Ok demo_template" by code_simp
  have render_email: "render_email demo_template ''a@b.c'' ''x@y.z'' (Some ''r@y.z'') [(''name'', Scalar_String ''<b>{{name}}'')] ''key-0001'' = Ok (projr demo_rendered)"
    by code_simp
  have html: "re_html (projr demo_rendered) = ''<p>&lt;b&gt;{{name}}</p>''" by code_simp
  show ?thesis using rendered_message_is_inert [OF new render_email] html by auto
qed

text \<open>The check of the markup is made on the template: a marker inside a tag hides it, and an empty value restores it.\<close>

lemma marker_hides_a_script_tag:
  "renderer_new demo_email_env (demo_template\<lparr>pt_html_template := ''<scr{{name}}ipt>''\<rparr>) = Ok (demo_template\<lparr>pt_html_template := ''<scr{{name}}ipt>''\<rparr>)
    \<and> bindr (render_email (demo_template\<lparr>pt_html_template := ''<scr{{name}}ipt>''\<rparr>) ''a@b.c'' ''x@y.z'' None
        [(''name'', Scalar_String [])] ''key-0001'') (\<lambda>m. Ok (re_html m)) = (Ok ''<script>'' :: email_error + string)"
  by (intro conjI) code_simp+

text \<open>An IPv4 address written as an IPv6 address is not looked at.\<close>

lemma mapped_loopback_reaches_provider: "provider_ip_public (IpV6 [0, 0, 0, 0, 0, 0xffff, 0x7f00, 1])"
  by simp

section \<open>The SMTP message\<close>

definition plain_line :: "string \<Rightarrow> bool" where
  "plain_line l \<longleftrightarrow> CR \<notin> set l \<and> LF \<notin> set l \<and> l \<noteq> ''.''"

lemma join_append:
  "xs \<noteq> [] \<Longrightarrow> ys \<noteq> [] \<Longrightarrow> join d (xs @ ys) = join d xs @ d @ join d ys"
proof (induction xs rule: induct_list012)
  case (2 x)
  then show ?case by (cases ys) auto
qed auto

lemma join_nested:
  assumes "ys \<noteq> []"
  shows "join d (xs @ join d ys # zs) = join d (xs @ ys @ zs)"
proof -
  have tail: "join d (join d ys # zs) = join d (ys @ zs)"
    using assms join_append [of ys zs d] join_append [of "[join d ys]" zs d] by (cases "zs = []") auto
  show ?thesis
  proof (cases "xs = []")
    case False
    then show ?thesis using assms tail join_append [of xs "join d ys # zs" d] join_append [of xs "ys @ zs" d] by simp
  qed (use tail in simp)
qed

lemma split_on_join:
  "ls \<noteq> [] \<Longrightarrow> list_all (\<lambda>l. LF \<notin> set l) ls \<Longrightarrow> split_on LF (join CRLF ls @ CRLF) = map (\<lambda>l. l @ [CR]) ls @ [[]]"
proof (induction ls rule: induct_list012)
  case (2 l)
  have "split_on LF ((l @ [CR]) @ LF # []) = (l @ [CR]) # split_on LF []" by (rule split_on_append) (use 2 in simp)
  then show ?case by simp
next
  case (3 l l' ls)
  have "split_on LF ((l @ [CR]) @ LF # (join CRLF (l' # ls) @ CRLF)) = (l @ [CR]) # split_on LF (join CRLF (l' # ls) @ CRLF)"
    by (rule split_on_append) (use 3(4) in simp)
  then show ?case using 3 by simp
qed simp

lemma split_on_free: "w \<in> set (split_on d s) \<Longrightarrow> d \<notin> set w \<and> set w \<subseteq> set s"
  by (induction s arbitrary: w) (fastforce split: list.split_asm if_split_asm)+

lemma end_of_data_is_last:
  assumes "list_all plain_line ls"
    and "join CRLF (ls @ [''.'']) @ CRLF = x @ CRLF @ ''.'' @ CRLF @ y"
  shows "y = []"
proof -
  let ?L = "map (\<lambda>l. l @ [CR]) (ls @ [''.'']) @ [[]]" and ?k = "length (split_on LF (x @ [CR]))"
  have "split_on LF (join CRLF (ls @ [''.'']) @ CRLF) = ?L"
    by (rule split_on_join) (use assms(1) in \<open>auto simp: plain_line_def list_all_iff\<close>)
  moreover have "split_on LF (x @ CRLF @ ''.'' @ CRLF @ y) = split_on LF (x @ [CR]) @ [CHR ''.'', CR] # split_on LF y"
    using split_on_append_sep [of LF "x @ [CR]" "''.'' @ CRLF @ y"] split_on_append [of LF "[CHR ''.'', CR]" y] by simp
  ultimately have L: "?L = split_on LF (x @ [CR]) @ [CHR ''.'', CR] # split_on LF y" using assms(2) by metis
  then have at: "?L ! ?k = [CHR ''.'', CR]" by (metis nth_append_length)
  have "length ?L = ?k + 1 + length (split_on LF y)" using arg_cong [OF L, of length] by simp
  moreover have "length (split_on LF y) > 0" by (simp add: split_on_not_Nil)
  moreover have "\<not> ?k < length ls"
  proof
    assume k: "?k < length ls"
    then have "ls ! ?k @ [CR] = [CHR ''.'', CR]" using at by (simp add: nth_append)
    moreover have "plain_line (ls ! ?k)" using assms(1) k by (simp add: list_all_length)
    ultimately show False by (simp add: plain_line_def append_eq_Cons_conv)
  qed
  ultimately have k: "?k = length ls" by (simp only: length_append length_map list.size)
  then have "[[]] = split_on LF y"
    using arg_cong [OF L, of "drop (length ls + 1)"] by simp
  then show ?thesis using split_on_not_Nil [of LF "tl y"] by (cases y) (auto split: if_split_asm list.split_asm)
qed

lemma dot_stuff_lines:
  obtains ls where "dot_stuff v = join CRLF ls" "ls \<noteq> []" "list_all plain_line ls"
proof
  let ?v = "map (\<lambda>c. if c = CR then LF else c) (crlf_to_lf v)"
  let ?ls = "map (\<lambda>line. if starts_with line ''.'' then CHR ''.'' # line else line) (split_on LF ?v)"
  show "dot_stuff v = join CRLF ?ls" by (simp add: dot_stuff_def)
  show "?ls \<noteq> []" by (simp add: split_on_not_Nil)
  have "plain_line (if starts_with w ''.'' then CHR ''.'' # w else w)" if "w \<in> set (split_on LF ?v)" for w
  proof -
    have "LF \<notin> set w" "set w \<subseteq> set ?v" using split_on_free [OF that] by auto
    moreover have "CR \<notin> set ?v" by auto
    ultimately show ?thesis by (auto simp: plain_line_def starts_with_iff)
  qed
  then show "list_all plain_line ?ls" unfolding list_all_iff by (metis (no_types, lifting) imageE list.set_map)
qed

lemma mime_message_lines:
  assumes "mime_message env m = Ok body" and "CR \<notin> set (ev_sha256_hex env (re_idempotency_key m))"
    and "LF \<notin> set (ev_sha256_hex env (re_idempotency_key m))"
  obtains ls where "body = join CRLF ls" "ls \<noteq> []" "list_all plain_line ls"
proof -
  obtain ts where ts: "dot_stuff (re_text m) = join CRLF ts" "ts \<noteq> []" "list_all plain_line ts" by (rule dot_stuff_lines)
  obtain hs where hs: "dot_stuff (re_html m) = join CRLF hs" "hs \<noteq> []" "list_all plain_line hs" by (rule dot_stuff_lines)
  define b where "b = ''ffdb-'' @ take 32 (ev_sha256_hex env (re_idempotency_key m))"
  define part where "part kind = [''--'' @ b, kind, ''Content-Transfer-Encoding: 8bit'', []]" for kind
  define top where "top = [''From: '' @ re_from m, ''To: '' @ re_to m, ''Subject: '' @ re_subject m, ''MIME-Version: 1.0'',
      ''Content-Type: multipart/alternative; boundary='' @ [CHR 0x22] @ b @ [CHR 0x22], []] @ part ''Content-Type: text/plain; charset=utf-8''"
  define middle where "middle = part ''Content-Type: text/html; charset=utf-8''"
  have safe: "\<not> line_break_or_nul (re_to m)" "\<not> line_break_or_nul (re_from m)" "\<not> line_break_or_nul (re_subject m)"
    and body: "body = join CRLF (top @ join CRLF ts # (middle @ join CRLF hs # [''--'' @ b @ ''--'']))"
    using assms(1) by (simp_all add: mime_message_def Let_def ts(1) hs(1) top_def middle_def part_def b_def split: if_split_asm)
  let ?ls = "(top @ ts @ middle) @ hs @ [''--'' @ b @ ''--'']"
  have "CR \<notin> set b" "LF \<notin> set b" using assms(2,3) in_set_takeD by (fastforce simp: b_def)+
  then have "list_all plain_line ?ls"
    using safe ts(3) hs(3) by (simp add: plain_line_def top_def middle_def part_def line_break_or_nul_def)
  moreover have "body = join CRLF ?ls"
    using body join_nested [OF ts(2)] join_nested [OF hs(2), of CRLF "top @ ts @ middle"] by simp
  ultimately show ?thesis using that [of ?ls] by simp
qed

text \<open>
  A delivery that succeeds sends one message: the text of the session is the greeting, one sender and one
  recipient without line breaks, and the message, and the line that ends the data occurs once, at the
  end of the message. No text of a message, whatever dots and line breaks it has, ends it early.
\<close>

theorem smtp_session_carries_one_message:
  assumes "smtp_deliver env True True m replies = (Ok (), sent, unread)"
    and "CR \<notin> set (ev_sha256_hex env (re_idempotency_key m))" and "LF \<notin> set (ev_sha256_hex env (re_idempotency_key m))"
  shows "\<exists>a b body. sent = ''EHLO ffdb.local'' @ CRLF @ ''MAIL FROM:<'' @ a @ ''>'' @ CRLF @ ''RCPT TO:<'' @ b @ ''>'' @ CRLF
        @ ''DATA'' @ CRLF @ body @ CRLF @ ''.'' @ CRLF @ ''QUIT'' @ CRLF
    \<and> envelope_mailbox (re_from m) = Ok a \<and> envelope_mailbox (re_to m) = Ok b \<and> mime_message env m = Ok body
    \<and> set a \<inter> {CR, LF} = {} \<and> set b \<inter> {CR, LF} = {}
    \<and> (\<forall>x y. ''DATA'' @ CRLF @ body @ CRLF @ ''.'' @ CRLF = x @ CRLF @ ''.'' @ CRLF @ y \<longrightarrow> y = [])"
proof -
  obtain a b body where parts: "envelope_mailbox (re_from m) = Ok a" "envelope_mailbox (re_to m) = Ok b" "mime_message env m = Ok body"
    and sent: "sent = ''EHLO ffdb.local'' @ CRLF @ ''MAIL FROM:<'' @ a @ ''>'' @ CRLF @ ''RCPT TO:<'' @ b @ ''>'' @ CRLF
        @ ''DATA'' @ CRLF @ body @ CRLF @ ''.'' @ CRLF @ ''QUIT'' @ CRLF"
    using assms(1) by (auto simp: smtp_deliver_def smtp_then_def smtp_command_def split: prod.split_asm sum.split_asm if_split_asm)
  have mailbox: "set a \<inter> {CR, LF} = {}" if "envelope_mailbox v = Ok a" for v a
    using that by (auto simp: envelope_mailbox_def line_break_or_nul_def Let_def split: if_split_asm option.split_asm
        dest!: in_set_dropD in_set_takeD)
  obtain ls where ls: "body = join CRLF ls" "ls \<noteq> []" "list_all plain_line ls"
    using mime_message_lines [OF parts(3) assms(2,3)] by blast
  have "y = []" if "''DATA'' @ CRLF @ body @ CRLF @ ''.'' @ CRLF = x @ CRLF @ ''.'' @ CRLF @ y" for x y
  proof (rule end_of_data_is_last [of "''DATA'' # ls" x])
    show "list_all plain_line (''DATA'' # ls)" using ls(3) by (simp add: plain_line_def)
    show "join CRLF ((''DATA'' # ls) @ [''.'']) @ CRLF = x @ CRLF @ ''.'' @ CRLF @ y"
      using that ls(1,2) join_append [of "[''DATA'']" "ls @ [''.'']" CRLF] join_append [of ls "[''.'']" CRLF] by simp
  qed
  then show ?thesis using sent parts mailbox [OF parts(1)] mailbox [OF parts(2)] by blast
qed

definition demo_replies :: "string option list" where
  "demo_replies = map Some [''220 ready'' @ CRLF, ''250-ffdb'' @ CRLF, ''250 ok'' @ CRLF, ''250 ok'' @ CRLF, ''250 ok'' @ CRLF, ''354 go'' @ CRLF,
     ''250 ok'' @ CRLF, ''221 bye'' @ CRLF]"

definition dotted_message :: rendered_email where
  "dotted_message = demo_message\<lparr>re_text := ''a'' @ CRLF @ ''.'' @ CRLF @ ''MAIL FROM:<x>''\<rparr>"

definition demo_session :: "(email_error + unit) \<times> string \<times> string option list" where
  "demo_session = smtp_deliver demo_email_env True True dotted_message demo_replies"

theorem smtp_session_carries_one_message_witness:
  "\<exists>a b body. fst (snd demo_session) = ''EHLO ffdb.local'' @ CRLF @ ''MAIL FROM:<'' @ a @ ''>'' @ CRLF @ ''RCPT TO:<'' @ b @ ''>'' @ CRLF
      @ ''DATA'' @ CRLF @ body @ CRLF @ ''.'' @ CRLF @ ''QUIT'' @ CRLF \<and> mime_message demo_email_env dotted_message = Ok body"
proof -
  have "smtp_deliver demo_email_env True True dotted_message demo_replies = (Ok (), fst (snd demo_session), [])" by code_simp
  from smtp_session_carries_one_message [OF this] show ?thesis by (simp add: demo_email_env_def) blast
qed

end
