(* ===== verification/Api_Idempotency.thy ===== *)
theory Api_Idempotency
  imports Collections "HOL-Library.Word"
begin

unbundle bit_operations_syntax

text \<open>
  \<open>apps/api/src/idempotency.rs\<close>: admission of requests under an idempotency key, with leases, completion and
  replay of the stored response, on the table \<open>idempotency_keys\<close>; and the handler of \<open>apps/api/src/commerce.rs\<close> that
  runs a mutation under a key. Each function is one transaction or one statement on one row; \<open>up = False\<close> when
  the database fails. Times are milliseconds of the database's clock \<open>now\<close>. SHA-256 and JSON texts are parameters.
\<close>

section \<open>Data\<close>

definition LEASE_SECONDS :: int where "LEASE_SECONDS = 30"
definition RETENTION_HOURS :: int where "RETENTION_HOURS = 24"
definition MAX_RESPONSE_BYTES :: nat where "MAX_RESPONSE_BYTES = 512 * 1024"

datatype idem_scope = Scope_Project nat | Scope_Organization nat

record idem_claim =
  cl_scope :: idem_scope
  cl_operation :: string
  cl_key_hash :: string
  cl_owner_token :: nat

datatype admission = Adm_Owner idem_claim | Adm_Replay nat json | Adm_Conflict | Adm_InProgress

datatype idem_error = Idem_InvalidKey | Idem_InvalidRequest | Idem_InvalidStoredResponse | Idem_ResponseTooLarge | Idem_Unavailable

record idem_row =
  ir_scope :: idem_scope
  ir_operation :: string
  ir_key_hash :: string
  ir_request_hash :: string
  ir_response_status :: "int option"
  ir_response_body :: "json option"
  ir_owner_token :: "nat option"
  ir_lease_expires_at :: "int option"
  ir_expires_at :: int
  ir_created_at :: int
  ir_completed_at :: "int option"

record idem_db =
  id_projects :: "nat list"
  id_organizations :: "nat list"
  id_rows :: "idem_row list"

text \<open>\<open>ie_jsonb_length\<close> is the length of the text PostgreSQL gives a stored body.\<close>

record idem_env =
  ie_sha256 :: "string \<Rightarrow> string"
  ie_to_vec :: "json \<Rightarrow> string option"
  ie_jsonb_length :: "json \<Rightarrow> nat"
  ie_uuid_bytes :: "nat \<Rightarrow> string"

definition request_hash :: "idem_env \<Rightarrow> json \<Rightarrow> idem_error + string" where
  "request_hash env v = map_err (\<lambda>_. Idem_InvalidRequest) (bindr (ok_or (ie_to_vec env v) Idem_InvalidRequest) (\<lambda>e. Ok (ie_sha256 env e)))"

definition key_byte :: "char \<Rightarrow> bool" where
  "key_byte c \<longleftrightarrow> 33 \<le> code c \<and> code c \<le> 126 \<and> c \<noteq> CHR '','' \<and> c \<noteq> CHR '';''"

definition key_hash :: "idem_env \<Rightarrow> string \<Rightarrow> idem_error + string" where
  "key_hash env key =
     (if \<not> (8 \<le> length key \<and> length key \<le> 256) \<or> \<not> list_all key_byte key then Err Idem_InvalidKey else Ok (ie_sha256 env key))"

section \<open>Rows\<close>

definition row_at :: "idem_scope \<Rightarrow> string \<Rightarrow> string \<Rightarrow> idem_row \<Rightarrow> bool" where
  "row_at scope operation kh r \<longleftrightarrow> ir_scope r = scope \<and> ir_operation r = operation \<and> ir_key_hash r = kh"

definition scope_exists :: "idem_db \<Rightarrow> idem_scope \<Rightarrow> bool" where
  "scope_exists db scope = (case scope of Scope_Project p \<Rightarrow> p \<in> set (id_projects db) | Scope_Organization g \<Rightarrow> g \<in> set (id_organizations db))"

definition update_row :: "(idem_row \<Rightarrow> bool) \<Rightarrow> (idem_row \<Rightarrow> idem_row) \<Rightarrow> idem_db \<Rightarrow> idem_db" where
  "update_row P f db = db\<lparr>id_rows := map (\<lambda>r. if P r then f r else r) (id_rows db)\<rparr>"

definition insert_candidate ::
    "int \<Rightarrow> idem_scope \<Rightarrow> string \<Rightarrow> string \<Rightarrow> string \<Rightarrow> nat \<Rightarrow> idem_db \<Rightarrow> idem_error + idem_db" where
  "insert_candidate now scope operation kh rh token db =
     (if list_ex (row_at scope operation kh) (id_rows db) then Ok db
      else if \<not> scope_exists db scope then Err Idem_Unavailable
      else Ok (db\<lparr>id_rows := id_rows db @
        [\<lparr>ir_scope = scope, ir_operation = operation, ir_key_hash = kh, ir_request_hash = rh, ir_response_status = None,
          ir_response_body = None, ir_owner_token = Some token, ir_lease_expires_at = Some (now + LEASE_SECONDS * 1000),
          ir_expires_at = now + RETENTION_HOURS * 3600000, ir_created_at = now, ir_completed_at = None\<rparr>]\<rparr>))"

definition lock_row :: "idem_scope \<Rightarrow> string \<Rightarrow> string \<Rightarrow> idem_db \<Rightarrow> idem_error + idem_row" where
  "lock_row scope operation kh db = ok_or (List.find (row_at scope operation kh) (id_rows db)) Idem_Unavailable"

definition row_expired :: "int \<Rightarrow> idem_row \<Rightarrow> bool" where
  "row_expired now r \<longleftrightarrow> ir_expires_at r \<le> now"

definition lease_expired :: "int \<Rightarrow> idem_row \<Rightarrow> bool" where
  "lease_expired now r = (case ir_lease_expires_at r of None \<Rightarrow> True | Some l \<Rightarrow> l \<le> now)"

definition update_owner ::
    "int \<Rightarrow> idem_scope \<Rightarrow> string \<Rightarrow> string \<Rightarrow> string option \<Rightarrow> nat \<Rightarrow> idem_db \<Rightarrow> idem_db" where
  "update_owner now scope operation kh rh token =
     update_row (row_at scope operation kh) (\<lambda>r.
       case rh of
         Some h \<Rightarrow> r\<lparr>ir_request_hash := h, ir_response_status := None, ir_response_body := None, ir_completed_at := None,
           ir_owner_token := Some token, ir_lease_expires_at := Some (now + LEASE_SECONDS * 1000), ir_created_at := now,
           ir_expires_at := now + RETENTION_HOURS * 3600000\<rparr>
       | None \<Rightarrow> r\<lparr>ir_owner_token := Some token, ir_lease_expires_at := Some (now + LEASE_SECONDS * 1000)\<rparr>)"

definition reset_row :: "int \<Rightarrow> idem_scope \<Rightarrow> string \<Rightarrow> string \<Rightarrow> string \<Rightarrow> nat \<Rightarrow> idem_db \<Rightarrow> idem_db" where
  "reset_row now scope operation kh rh token = update_owner now scope operation kh (Some rh) token"

definition take_over_row :: "int \<Rightarrow> idem_scope \<Rightarrow> string \<Rightarrow> string \<Rightarrow> nat \<Rightarrow> idem_db \<Rightarrow> idem_db" where
  "take_over_row now scope operation kh token = update_owner now scope operation kh None token"

section \<open>Operations\<close>

definition purgeable :: "int \<Rightarrow> idem_row \<Rightarrow> bool" where
  "purgeable now r \<longleftrightarrow> ir_expires_at r \<le> now \<and> (ir_owner_token r = None \<or> ir_lease_expires_at r = None \<or> lease_expired now r)"

definition purge_expired :: "bool \<Rightarrow> int \<Rightarrow> nat \<Rightarrow> idem_db \<Rightarrow> (idem_error + nat) \<times> idem_db" where
  "purge_expired up now limit db =
     (if limit = 0 \<or> limit > 10000 then (Err Idem_InvalidRequest, db)
      else if \<not> up then (Err Idem_Unavailable, db)
      else
        let doomed = take limit (sort_key ir_expires_at (filter (purgeable now) (id_rows db)))
        in (Ok (length doomed), db\<lparr>id_rows := filter (\<lambda>r. r \<notin> set doomed) (id_rows db)\<rparr>))"

text \<open>A status that can be stored and replayed: three digits, and not a server error.\<close>

definition replay_status :: "int \<Rightarrow> idem_error + nat" where
  "replay_status s = (if 100 \<le> s \<and> s \<le> 999 \<and> \<not> (500 \<le> s \<and> s \<le> 599) then Ok (nat s) else Err Idem_InvalidStoredResponse)"

definition decide ::
    "int \<Rightarrow> idem_scope \<Rightarrow> string \<Rightarrow> string \<Rightarrow> string \<Rightarrow> nat \<Rightarrow> idem_row \<Rightarrow> idem_db \<Rightarrow> idem_error + (admission \<times> idem_db)" where
  "decide now scope operation kh rh token r db =
     (let owner = Adm_Owner \<lparr>cl_scope = scope, cl_operation = operation, cl_key_hash = kh, cl_owner_token = token\<rparr> in
      if ir_owner_token r = Some token then Ok (owner, db)
      else if row_expired now r \<and> (lease_expired now r \<or> ir_owner_token r = None)
      then Ok (owner, reset_row now scope operation kh rh token db)
      else if ir_request_hash r \<noteq> rh then Ok (Adm_Conflict, db)
      else case (ir_response_status r, ir_response_body r) of
        (Some s, Some body) \<Rightarrow> bindr (replay_status s) (\<lambda>status. Ok (Adm_Replay status body, db))
      | _ \<Rightarrow>
          if lease_expired now r \<or> ir_owner_token r = None then Ok (owner, take_over_row now scope operation kh token db)
          else Ok (Adm_InProgress, db))"

text \<open>The rest of an admission after the purge, in one transaction that an error rolls back.\<close>

definition admit ::
    "idem_env \<Rightarrow> bool \<Rightarrow> bool \<Rightarrow> int \<Rightarrow> idem_scope \<Rightarrow> string \<Rightarrow> string \<Rightarrow> string \<Rightarrow> nat \<Rightarrow> idem_db \<Rightarrow> (idem_error + admission) \<times> idem_db" where
  "admit env up_purge up now scope operation key rh token db =
     (if operation = [] \<or> length operation > 128 then (Err Idem_InvalidRequest, db)
      else case key_hash env key of
        Inl e \<Rightarrow> (Err e, db)
      | Inr kh \<Rightarrow>
          (case purge_expired up_purge now 64 db of
             (Inl e, db1) \<Rightarrow> (Err e, db1)
           | (Inr _, db1) \<Rightarrow>
               if \<not> up then (Err Idem_Unavailable, db1)
               else
                 (case bindr (insert_candidate now scope operation kh rh token db1) (\<lambda>db2.
                    bindr (lock_row scope operation kh db2) (\<lambda>r. decide now scope operation kh rh token r db2)) of
                    Inl e \<Rightarrow> (Err e, db1)
                  | Inr (a, db2) \<Rightarrow> (Ok a, db2))))"

definition owned_by :: "idem_claim \<Rightarrow> idem_row \<Rightarrow> bool" where
  "owned_by c r \<longleftrightarrow>
     row_at (cl_scope c) (cl_operation c) (cl_key_hash c) r \<and> ir_owner_token r = Some (cl_owner_token c) \<and> ir_response_body r = None"

definition complete_claim ::
    "idem_env \<Rightarrow> bool \<Rightarrow> int \<Rightarrow> idem_claim \<Rightarrow> nat \<Rightarrow> json \<Rightarrow> idem_db \<Rightarrow> (idem_error + unit) \<times> idem_db" where
  "complete_claim env up now c status body db =
     (if 500 \<le> status \<and> status \<le> 599 \<or> status = 401 \<or> status = 403 then (Err Idem_InvalidStoredResponse, db)
      else case ie_to_vec env body of
        None \<Rightarrow> (Err Idem_InvalidStoredResponse, db)
      | Some encoded \<Rightarrow>
          if length encoded > MAX_RESPONSE_BYTES then (Err Idem_ResponseTooLarge, db)
          else if \<not> up then (Err Idem_Unavailable, db)
          else if length (filter (owned_by c) (id_rows db)) \<noteq> 1 \<or> ie_jsonb_length env body > 524288 then (Err Idem_Unavailable, db)
          else (Ok (), update_row (owned_by c) (\<lambda>r. r\<lparr>ir_response_status := Some (int status), ir_response_body := Some body,
                 ir_completed_at := Some now, ir_owner_token := None, ir_lease_expires_at := None\<rparr>) db))"

definition abandon :: "bool \<Rightarrow> idem_claim \<Rightarrow> idem_db \<Rightarrow> (idem_error + unit) \<times> idem_db" where
  "abandon up c db =
     (if \<not> up then (Err Idem_Unavailable, db) else (Ok (), db\<lparr>id_rows := filter (\<lambda>r. \<not> owned_by c r) (id_rows db)\<rparr>))"

definition renew :: "bool \<Rightarrow> int \<Rightarrow> idem_claim \<Rightarrow> idem_db \<Rightarrow> (idem_error + bool) \<times> idem_db" where
  "renew up now c db =
     (if \<not> up then (Err Idem_Unavailable, db)
      else (Ok (length (filter (owned_by c) (id_rows db)) = 1),
            update_row (owned_by c) (\<lambda>r. r\<lparr>ir_lease_expires_at := Some (now + LEASE_SECONDS * 1000)\<rparr>) db))"

text \<open>The heartbeat renews in a loop until the claim is lost: one round, with its effect on the health flag.\<close>

definition heartbeat_round :: "bool \<Rightarrow> int \<Rightarrow> idem_claim \<Rightarrow> idem_db \<Rightarrow> bool \<times> bool \<times> idem_db" where
  "heartbeat_round up now c db =
     (case renew up now c db of
        (Inr True, db') \<Rightarrow> (True, True, db')
      | (Inr False, db') \<Rightarrow> (False, False, db')
      | (Inl _, db') \<Rightarrow> (False, True, db'))"

definition confirm_owner :: "bool \<Rightarrow> bool \<Rightarrow> int \<Rightarrow> idem_claim \<Rightarrow> idem_db \<Rightarrow> bool \<times> idem_db" where
  "confirm_owner healthy up now c db =
     (if healthy then (True, db) else case renew up now c db of (r, db') \<Rightarrow> (r = Ok True, db'))"

section \<open>Identifiers derived from a claim\<close>

definition scope_id :: "idem_scope \<Rightarrow> nat" where
  "scope_id s = (case s of Scope_Project p \<Rightarrow> p | Scope_Organization g \<Rightarrow> g)"

definition tagged_uuid :: "idem_env \<Rightarrow> string \<Rightarrow> idem_claim \<Rightarrow> 8 word list" where
  "tagged_uuid env tag c =
     (let hash = map (\<lambda>b. word_of_nat (code b)) (ie_sha256 env (tag @ [CHR 0x00] @ ie_uuid_bytes env (scope_id (cl_scope c)) @ cl_operation c @ cl_key_hash c));
          bytes = take 16 hash;
          bytes = bytes[6 := (bytes ! 6 AND 0x0f) OR 0x50]
      in bytes[8 := (bytes ! 8 AND 0x3f) OR 0x80])"

definition deterministic_uuid :: "idem_env \<Rightarrow> idem_claim \<Rightarrow> 8 word list" where
  "deterministic_uuid env = tagged_uuid env ''ffdb.idempotency.resource.v1''"

definition receipt_uuid :: "idem_env \<Rightarrow> idem_claim \<Rightarrow> 8 word list" where
  "receipt_uuid env = tagged_uuid env ''ffdb.idempotency.worker-receipt.v1''"

section \<open>Mutations of commerce\<close>

datatype commerce_service_error =
    Cs_InvalidConfiguration | Cs_InvalidRequest | Cs_NotFound | Cs_Forbidden | Cs_AccountNotConfigured | Cs_AccountInUse
  | Cs_AccountRestricted | Cs_CapabilityUnavailable | Cs_Conflict | Cs_Encryption | Cs_ProviderUnavailable | Cs_ProviderRejected
  | Cs_ProviderResponseInvalid | Cs_InvalidSignature | Cs_WebhookHashConflict | Cs_Unavailable

datatype http_response = Resp_Json nat json | Resp_Empty nat | Resp_Error nat string

fun service_error :: "commerce_service_error \<Rightarrow> http_response" where
  "service_error Cs_InvalidConfiguration = Resp_Error 503 ''commerce.unavailable''"
| "service_error Cs_Unavailable = Resp_Error 503 ''commerce.unavailable''"
| "service_error Cs_InvalidRequest = Resp_Error 400 ''commerce.invalid_request''"
| "service_error Cs_ProviderResponseInvalid = Resp_Error 400 ''commerce.invalid_request''"
| "service_error Cs_NotFound = Resp_Error 404 ''commerce.not_found''"
| "service_error Cs_Forbidden = Resp_Error 403 ''commerce.forbidden''"
| "service_error Cs_AccountNotConfigured = Resp_Error 409 ''commerce.account_not_configured''"
| "service_error Cs_AccountInUse = Resp_Error 409 ''commerce.account_in_use''"
| "service_error Cs_AccountRestricted = Resp_Error 409 ''commerce.account_restricted''"
| "service_error Cs_CapabilityUnavailable = Resp_Error 409 ''commerce.account_restricted''"
| "service_error Cs_Conflict = Resp_Error 409 ''commerce.conflict''"
| "service_error Cs_WebhookHashConflict = Resp_Error 409 ''commerce.conflict''"
| "service_error Cs_Encryption = Resp_Error 503 ''commerce.secret_unavailable''"
| "service_error Cs_ProviderUnavailable = Resp_Error 502 ''commerce.provider_unavailable''"
| "service_error Cs_ProviderRejected = Resp_Error 422 ''commerce.provider_rejected''"
| "service_error Cs_InvalidSignature = Resp_Error 400 ''commerce.invalid_webhook_signature''"

definition validate_idempotency_key :: "string \<Rightarrow> commerce_service_error + unit" where
  "validate_idempotency_key v =
     (if \<not> (8 \<le> length v \<and> length v \<le> 200) \<or> \<not> list_all key_byte v then Err Cs_InvalidRequest else Ok ())"

record mutation_admission =
  ma_claim :: idem_claim
  ma_provider_key :: string

text \<open>\<open>header\<close> is the text of the header \<open>idempotency-key\<close>; \<open>show_uuid\<close> the text of an identifier.\<close>

definition admit_mutation ::
    "idem_env \<Rightarrow> (nat \<Rightarrow> string) \<Rightarrow> bool \<Rightarrow> bool \<Rightarrow> int \<Rightarrow> nat \<Rightarrow> string option \<Rightarrow> string \<Rightarrow> json \<Rightarrow> nat \<Rightarrow> idem_db
      \<Rightarrow> (http_response + mutation_admission) \<times> idem_db" where
  "admit_mutation env show_uuid up_purge up now project header operation payload token db =
     (case header of
        None \<Rightarrow> (Err (service_error Cs_InvalidRequest), db)
      | Some key \<Rightarrow>
          (case validate_idempotency_key key of
             Inl e \<Rightarrow> (Err (service_error e), db)
           | Inr _ \<Rightarrow>
               (case request_hash env payload of
                  Inl _ \<Rightarrow> (Err (service_error Cs_InvalidRequest), db)
                | Inr hash \<Rightarrow>
                    (case admit env up_purge up now (Scope_Project project) operation key hash token db of
                       (Inr (Adm_Owner c), db') \<Rightarrow>
                         (Ok \<lparr>ma_claim = c, ma_provider_key = operation @ '':'' @ show_uuid project @ '':'' @ key\<rparr>, db')
                     | (Inr (Adm_Replay status body), db') \<Rightarrow> (Err (Resp_Json status body), db')
                     | (Inr Adm_Conflict, db') \<Rightarrow> (Err (service_error Cs_WebhookHashConflict), db')
                     | (Inr Adm_InProgress, db') \<Rightarrow> (Err (Resp_Json 409 (JObject [(''error'', JString ''request_in_progress'')])), db')
                     | (Inl _, db') \<Rightarrow> (Err (service_error Cs_Unavailable), db')))))"

text \<open>\<open>to_value\<close> is the serialization of a result.\<close>

definition finish_mutation ::
    "idem_env \<Rightarrow> ('a \<Rightarrow> json option) \<Rightarrow> bool \<Rightarrow> int \<Rightarrow> mutation_admission \<Rightarrow> commerce_service_error + 'a \<Rightarrow> nat \<Rightarrow> idem_db
      \<Rightarrow> http_response \<times> idem_db" where
  "finish_mutation env to_value up now adm outcome success_status db =
     (case outcome of
        Inl e \<Rightarrow> (service_error e, snd (abandon up (ma_claim adm) db))
      | Inr v \<Rightarrow>
          (case to_value v of
             None \<Rightarrow> (service_error Cs_Unavailable, snd (abandon up (ma_claim adm) db))
           | Some body \<Rightarrow>
               (case complete_claim env up now (ma_claim adm) success_status body db of
                  (Inl _, db') \<Rightarrow> (service_error Cs_Unavailable, db')
                | (Inr _, db') \<Rightarrow> (if success_status = 204 then Resp_Empty success_status else Resp_Json success_status body, db'))))"

text \<open>
  The whole handler, on the state \<open>'s\<close> of what the mutation changes. The database can fail at the purge, at the
  admission and at the end.
\<close>

definition mutation_handler ::
    "idem_env \<Rightarrow> (nat \<Rightarrow> string) \<Rightarrow> ('a \<Rightarrow> json option) \<Rightarrow> bool \<Rightarrow> bool \<Rightarrow> bool \<Rightarrow> int \<Rightarrow> int \<Rightarrow> nat \<Rightarrow> string option \<Rightarrow> string \<Rightarrow> json option
      \<Rightarrow> nat \<Rightarrow> nat \<Rightarrow> (string \<Rightarrow> 's \<Rightarrow> (commerce_service_error + 'a) \<times> 's) \<Rightarrow> idem_db \<times> 's \<Rightarrow> http_response \<times> idem_db \<times> 's" where
  "mutation_handler env show_uuid to_value up_purge up up_end now now_end project header operation input success_status token run = (\<lambda>(db, s).
     case input of
       None \<Rightarrow> (service_error Cs_InvalidRequest, db, s)
     | Some payload \<Rightarrow>
         (case admit_mutation env show_uuid up_purge up now project header operation payload token db of
            (Inl response, db1) \<Rightarrow> (response, db1, s)
          | (Inr adm, db1) \<Rightarrow>
              (case run (ma_provider_key adm) s of
                 (outcome, s1) \<Rightarrow>
                   (case finish_mutation env to_value up_end now_end adm outcome success_status db1 of (response, db2) \<Rightarrow> (response, db2, s1)))))"

end
