(* ===== verification/Idempotency_Properties.thy ===== *)
theory Idempotency_Properties
  imports Api_Idempotency
begin

text \<open>
  Idempotency keys: a claim whose lease is alive excludes every other claimant, and a request that was completed is answered
  from its record, never run again, until the record expires, whatever else happens on the table.
\<close>

section \<open>Operations as steps\<close>

datatype idem_op =
    Op_Admit bool bool int idem_scope string string string nat
  | Op_Complete bool int idem_claim nat json
  | Op_Abandon bool idem_claim
  | Op_Renew bool int idem_claim
  | Op_Purge bool int nat

fun exec :: "idem_env \<Rightarrow> idem_op \<Rightarrow> idem_db \<Rightarrow> idem_db" where
  "exec env (Op_Admit up_purge up now scope operation key rh token) db = snd (admit env up_purge up now scope operation key rh token db)"
| "exec env (Op_Complete up now c status body) db = snd (complete_claim env up now c status body db)"
| "exec env (Op_Abandon up c) db = snd (abandon up c db)"
| "exec env (Op_Renew up now c) db = snd (renew up now c db)"
| "exec env (Op_Purge up now limit) db = snd (purge_expired up now limit db)"

definition exec_all :: "idem_env \<Rightarrow> idem_op list \<Rightarrow> idem_db \<Rightarrow> idem_db" where
  "exec_all env = fold (exec env)"

text \<open>The clock of an operation, where it reads one, is before \<open>t\<close>.\<close>

fun before :: "int \<Rightarrow> idem_op \<Rightarrow> bool" where
  "before t (Op_Admit _ _ now _ _ _ _ _) = (now < t)"
| "before t (Op_Purge _ now _) = (now < t)"
| "before t _ = True"

text \<open>The operation does not act under a token: it neither draws it nor holds a claim with it.\<close>

fun avoids :: "nat \<Rightarrow> idem_op \<Rightarrow> bool" where
  "avoids k (Op_Admit _ _ _ _ _ _ _ token) = (token \<noteq> k)"
| "avoids k (Op_Complete _ _ c _ _) = (cl_owner_token c \<noteq> k)"
| "avoids k (Op_Abandon _ c) = (cl_owner_token c \<noteq> k)"
| "avoids k _ = True"

text \<open>What an admission that draws the token does not do, and a renewal, an abandonment or a completion under it may.\<close>

fun draws :: "nat \<Rightarrow> idem_op \<Rightarrow> bool" where
  "draws k (Op_Admit _ _ _ _ _ _ _ token) = (token = k)"
| "draws k _ = False"

definition idem_key :: "idem_row \<Rightarrow> idem_scope \<times> string \<times> string" where
  "idem_key r = (ir_scope r, ir_operation r, ir_key_hash r)"

definition keys_unique :: "idem_db \<Rightarrow> bool" where
  "keys_unique db \<longleftrightarrow> distinct (map idem_key (id_rows db))"

lemma row_at_key: "row_at scope operation kh r \<longleftrightarrow> idem_key r = (scope, operation, kh)"
  by (simp add: row_at_def idem_key_def)

lemma idem_key_unique: "keys_unique db \<Longrightarrow> r \<in> set (id_rows db) \<Longrightarrow> r' \<in> set (id_rows db) \<Longrightarrow> idem_key r = idem_key r' \<Longrightarrow> r = r'"
  by (metis distinct_map inj_onD keys_unique_def)

lemma keys_unique_update_row: "(\<And>r. idem_key (f r) = idem_key r) \<Longrightarrow> keys_unique (update_row P f db) \<longleftrightarrow> keys_unique db"
  by (simp add: keys_unique_def update_row_def comp_def if_distrib cong: if_cong)

lemma keys_unique_filter: "keys_unique db \<Longrightarrow> keys_unique (db\<lparr>id_rows := filter P (id_rows db)\<rparr>)"
  by (simp add: keys_unique_def distinct_map_filter)

lemma lock_row_at:
  assumes "keys_unique db" "r \<in> set (id_rows db)" "row_at scope operation kh r"
  shows "lock_row scope operation kh db = Ok r"
proof -
  obtain r' where r': "List.find (row_at scope operation kh) (id_rows db) = Some r'"
    using assms(2,3) by (metis find_None_iff not_None_eq)
  then have "r' \<in> set (id_rows db)" "row_at scope operation kh r'" by (auto simp: find_Some_iff in_set_conv_nth)
  then have "r' = r" using idem_key_unique [OF assms(1)] assms(2,3) by (simp add: row_at_key)
  then show ?thesis using r' by (simp add: lock_row_def)
qed

text \<open>An update of the owner, and what each operation does to the rows.\<close>

lemma row_key_update_owner [simp]: "idem_key (case rh of
      Some h \<Rightarrow> r\<lparr>ir_request_hash := h, ir_response_status := None, ir_response_body := None, ir_completed_at := None,
           ir_owner_token := Some token, ir_lease_expires_at := Some l, ir_created_at := now, ir_expires_at := x\<rparr>
    | None \<Rightarrow> r\<lparr>ir_owner_token := Some token, ir_lease_expires_at := Some l\<rparr>) = idem_key r"
  by (simp add: idem_key_def split: option.split)

lemma purge_cases:
  assumes "purge_expired up now limit db = (r, db')"
  obtains D where "D \<subseteq> {x. purgeable now x}" "db' = db\<lparr>id_rows := filter (\<lambda>x. x \<notin> D) (id_rows db)\<rparr>"
proof (cases "limit = 0 \<or> limit > 10000 \<or> \<not> up")
  case True
  then have "db' = db" using assms by (auto simp: purge_expired_def split: if_split_asm)
  then show ?thesis using that [of "{}"] by simp
next
  case False
  let ?D = "set (take limit (sort_key ir_expires_at (filter (purgeable now) (id_rows db))))"
  have "?D \<subseteq> set (filter (purgeable now) (id_rows db))" by (metis set_sort set_take_subset)
  then have "?D \<subseteq> {x. purgeable now x}" by auto
  then show ?thesis using that [of ?D] False assms by (auto simp: purge_expired_def Let_def)
qed

lemma admit_cases:
  assumes "admit env up_purge up now scope operation key rh token db = (res, db')"
  obtains (refused) D e where "D \<subseteq> {x. purgeable now x}" "db' = db\<lparr>id_rows := filter (\<lambda>x. x \<notin> D) (id_rows db)\<rparr>" "res = Err e"
  | (decided) D kh db1 r a where "D \<subseteq> {x. purgeable now x}" "key_hash env key = Ok kh"
      "insert_candidate now scope operation kh rh token (db\<lparr>id_rows := filter (\<lambda>x. x \<notin> D) (id_rows db)\<rparr>) = Ok db1"
      "lock_row scope operation kh db1 = Ok r" "decide now scope operation kh rh token r db1 = Ok (a, db')" "res = Ok a"
proof (cases "operation = [] \<or> length operation > 128 \<or> (\<exists>e. key_hash env key = Err e)")
  case True
  then have "db' = db" "\<exists>e. res = Err e" using assms by (auto simp: admit_def split: if_split_asm)
  then show ?thesis using refused [of "{}"] by auto
next
  case False
  then obtain kh where kh: "key_hash env key = Ok kh" by (cases "key_hash env key") auto
  obtain p db1 where p: "purge_expired up_purge now 64 db = (p, db1)" by fastforce
  obtain D where D: "D \<subseteq> {x. purgeable now x}" "db1 = db\<lparr>id_rows := filter (\<lambda>x. x \<notin> D) (id_rows db)\<rparr>" by (rule purge_cases [OF p])
  show ?thesis
  proof (cases "\<exists>e. res = Err e")
    case True
    then have "db' = db1" using assms False kh p
      by (auto simp: admit_def split: if_split_asm sum.split_asm)
    then show ?thesis using refused D True by blast
  next
    case False
    then show ?thesis using decided [OF D(1) kh] assms \<open>\<not> (operation = [] \<or> _)\<close> p kh unfolding D(2)
      by (auto simp: admit_def bindr_eq_Ok split: if_split_asm sum.split_asm)
  qed
qed

section \<open>The effect of an operation on one row\<close>

inductive row_step :: "idem_op \<Rightarrow> idem_row \<Rightarrow> idem_row \<Rightarrow> bool" where
  kept: "row_step op r r"
| reset: "row_expired now r \<Longrightarrow> lease_expired now r \<or> ir_owner_token r = None \<Longrightarrow>
    row_step (Op_Admit a b now scope operation key rh token) r
      (r\<lparr>ir_request_hash := rh, ir_response_status := None, ir_response_body := None, ir_completed_at := None,
         ir_owner_token := Some token, ir_lease_expires_at := Some (now + LEASE_SECONDS * 1000), ir_created_at := now,
         ir_expires_at := now + RETENTION_HOURS * 3600000\<rparr>)"
| taken: "ir_request_hash r = rh \<Longrightarrow> ir_response_status r = None \<or> ir_response_body r = None \<Longrightarrow>
    lease_expired now r \<or> ir_owner_token r = None \<Longrightarrow>
    row_step (Op_Admit a b now scope operation key rh token) r
      (r\<lparr>ir_owner_token := Some token, ir_lease_expires_at := Some (now + LEASE_SECONDS * 1000)\<rparr>)"
| completed: "owned_by c r \<Longrightarrow>
    row_step (Op_Complete up now c status body) r (r\<lparr>ir_response_status := Some (int status), ir_response_body := Some body,
      ir_completed_at := Some now, ir_owner_token := None, ir_lease_expires_at := None\<rparr>)"
| renewed: "owned_by c r \<Longrightarrow> row_step (Op_Renew up now c) r (r\<lparr>ir_lease_expires_at := Some (now + LEASE_SECONDS * 1000)\<rparr>)"

inductive_cases row_stepE: "row_step op r r'"

fun may_drop :: "idem_op \<Rightarrow> idem_row \<Rightarrow> bool" where
  "may_drop (Op_Admit _ _ now _ _ _ _ _) r = purgeable now r"
| "may_drop (Op_Purge _ now _) r = purgeable now r"
| "may_drop (Op_Abandon _ c) r = owned_by c r"
| "may_drop _ r = False"

fun may_add :: "idem_op \<Rightarrow> idem_row \<Rightarrow> bool" where
  "may_add (Op_Admit _ _ now scope operation key rh token) r \<longleftrightarrow>
     ir_scope r = scope \<and> ir_operation r = operation \<and> ir_request_hash r = rh \<and> ir_owner_token r = Some token
     \<and> ir_response_body r = None \<and> ir_expires_at r = now + RETENTION_HOURS * 3600000"
| "may_add _ r = False"

definition effect :: "idem_op \<Rightarrow> idem_db \<Rightarrow> idem_db \<Rightarrow> bool" where
  "effect op db db' \<longleftrightarrow> keys_unique db'
     \<and> (\<forall>r \<in> set (id_rows db). \<not> may_drop op r \<longrightarrow> (\<exists>r' \<in> set (id_rows db'). row_step op r r'))
     \<and> (\<forall>r' \<in> set (id_rows db'). may_add op r' \<or> (\<exists>r \<in> set (id_rows db). row_step op r r'))"

lemma row_step_key: "row_step op r r' \<Longrightarrow> idem_key r' = idem_key r"
  by (auto elim!: row_stepE simp: idem_key_def)

lemma effect_filter:
  assumes "keys_unique db" "\<And>r. \<not> P r \<Longrightarrow> may_drop op r"
  shows "effect op db (db\<lparr>id_rows := filter P (id_rows db)\<rparr>)"
  using assms keys_unique_filter [OF assms(1)] unfolding effect_def by (auto intro: row_step.kept)

lemma effect_update_row:
  assumes "keys_unique db" "\<And>r. P r \<Longrightarrow> r \<in> set (id_rows db) \<Longrightarrow> row_step op r (f r)" "\<And>r. idem_key (f r) = idem_key r"
  shows "effect op db (update_row P f db)"
proof -
  let ?g = "\<lambda>r. if P r then f r else r"
  have "row_step op r (?g r)" if "r \<in> set (id_rows db)" for r using assms(2) that by (simp add: row_step.kept)
  moreover have "id_rows (update_row P f db) = map ?g (id_rows db)" by (simp add: update_row_def)
  moreover have "keys_unique (update_row P f db)" using assms(1,3) by (simp add: keys_unique_update_row)
  ultimately show ?thesis unfolding effect_def by (metis (no_types, lifting) imageE image_eqI list.set_map)
qed

lemma effect_trans_filter:
  assumes "effect op (db\<lparr>id_rows := filter P (id_rows db)\<rparr>) db'" "\<And>r. \<not> P r \<Longrightarrow> may_drop op r"
  shows "effect op db db'"
  using assms unfolding effect_def by fastforce

lemma effect_refl: "keys_unique db \<Longrightarrow> effect op db db"
  unfolding effect_def by (auto intro: row_step.kept)

lemma effect_decide:
  assumes "keys_unique db" "insert_candidate now scope operation kh rh token db = Ok db1"
    "lock_row scope operation kh db1 = Ok r" "decide now scope operation kh rh token r db1 = Ok (a, db')"
  shows "effect (Op_Admit x y now scope operation key rh token) db db'"
proof (cases "list_ex (row_at scope operation kh) (id_rows db)")
  case True
  then have db1: "db1 = db" using assms(2) by (simp add: insert_candidate_def)
  have r: "r \<in> set (id_rows db)" "row_at scope operation kh r"
    using assms(3) by (auto simp: lock_row_def ok_or_eq_Ok find_Some_iff in_set_conv_nth db1)
  have only: "r' = r" if "r' \<in> set (id_rows db)" "row_at scope operation kh r'" for r'
    using idem_key_unique [OF assms(1) that(1) r(1)] that(2) r(2) by (simp add: row_at_key)
  have own: "effect (Op_Admit x y now scope operation key rh token) db (update_owner now scope operation kh h token db)"
    if "h = Some rh \<and> row_expired now r \<and> (lease_expired now r \<or> ir_owner_token r = None)
      \<or> h = None \<and> ir_request_hash r = rh \<and> (ir_response_status r = None \<or> ir_response_body r = None)
        \<and> (lease_expired now r \<or> ir_owner_token r = None)" for h
    unfolding update_owner_def using that only
    by (intro effect_update_row [OF assms(1)]) (auto intro: row_step.reset row_step.taken)
  show ?thesis
    using assms(4) own [of "Some rh"] own [of None] effect_refl [OF assms(1)] unfolding db1
    by (auto simp: decide_def Let_def reset_row_def take_over_row_def bindr_eq_Ok split: if_split_asm option.split_asm)
next
  case False
  define n where "n = \<lparr>ir_scope = scope, ir_operation = operation, ir_key_hash = kh, ir_request_hash = rh, ir_response_status = None,
          ir_response_body = None, ir_owner_token = Some token, ir_lease_expires_at = Some (now + LEASE_SECONDS * 1000),
          ir_expires_at = now + RETENTION_HOURS * 3600000, ir_created_at = now, ir_completed_at = None\<rparr>"
  have db1: "db1 = db\<lparr>id_rows := id_rows db @ [n]\<rparr>"
    using assms(2) False by (simp add: insert_candidate_def n_def split: if_split_asm)
  have fresh: "\<not> row_at scope operation kh r'" if "r' \<in> set (id_rows db)" for r' using False that by (auto simp: list_ex_iff)
  have unique: "keys_unique db1" using assms(1) fresh by (auto simp: db1 keys_unique_def row_at_key n_def idem_key_def)
  have "lock_row scope operation kh db1 = Ok n"
    by (rule lock_row_at [OF unique]) (simp_all add: db1 n_def row_at_def)
  then have "r = n" using assms(3) by simp
  then have "db' = db1" using assms(4) by (simp add: decide_def Let_def n_def)
  then show ?thesis using unique unfolding effect_def by (auto simp: db1 n_def intro: row_step.kept)
qed

lemma exec_effect:
  assumes "keys_unique db"
  shows "effect op db (exec env op db)"
proof (cases op)
  case (Op_Admit up_purge up now scope operation key rh token)
  obtain res db' where a: "admit env up_purge up now scope operation key rh token db = (res, db')" by fastforce
  have drop: "may_drop op r" if "D \<subseteq> {x. purgeable now x}" "\<not> r \<notin> D" for r D using that Op_Admit by auto
  show ?thesis
    using a
  proof (cases rule: admit_cases)
    case (refused D e)
    have "effect op db (db\<lparr>id_rows := filter (\<lambda>x. x \<notin> D) (id_rows db)\<rparr>)"
      by (rule effect_filter [OF assms drop [OF refused(1)]])
    then show ?thesis using refused(2) a Op_Admit by simp
  next
    case (decided D kh db1 r ad)
    have "effect op (db\<lparr>id_rows := filter (\<lambda>x. x \<notin> D) (id_rows db)\<rparr>) db'"
      unfolding Op_Admit by (rule effect_decide [OF keys_unique_filter [OF assms] decided(3-5)])
    then have "effect op db db'" by (rule effect_trans_filter) (rule drop [OF decided(1)])
    then show ?thesis using a Op_Admit by simp
  qed
next
  case (Op_Complete up now c status body)
  have "effect op db (update_row (owned_by c) (\<lambda>r. r\<lparr>ir_response_status := Some (int status), ir_response_body := Some body,
                 ir_completed_at := Some now, ir_owner_token := None, ir_lease_expires_at := None\<rparr>) db)"
    by (rule effect_update_row [OF assms]) (auto simp: Op_Complete idem_key_def intro: row_step.completed)
  then show ?thesis using effect_refl [OF assms] by (auto simp: Op_Complete complete_claim_def split: option.split)
next
  case (Op_Abandon up c)
  then show ?thesis using effect_refl [OF assms] by (auto simp: abandon_def intro: effect_filter [OF assms])
next
  case (Op_Renew up now c)
  have "effect op db (update_row (owned_by c) (\<lambda>r. r\<lparr>ir_lease_expires_at := Some (now + LEASE_SECONDS * 1000)\<rparr>) db)"
    by (rule effect_update_row [OF assms]) (auto simp: Op_Renew idem_key_def intro: row_step.renewed)
  then show ?thesis using effect_refl [OF assms] by (auto simp: Op_Renew renew_def)
next
  case (Op_Purge up now limit)
  obtain res db' where p: "purge_expired up now limit db = (res, db')" by fastforce
  obtain D where D: "D \<subseteq> {x. purgeable now x}" "db' = db\<lparr>id_rows := filter (\<lambda>x. x \<notin> D) (id_rows db)\<rparr>" by (rule purge_cases [OF p])
  have "effect op db (db\<lparr>id_rows := filter (\<lambda>x. x \<notin> D) (id_rows db)\<rparr>)"
    by (rule effect_filter [OF assms]) (use D(1) Op_Purge in auto)
  then show ?thesis using p D(2) Op_Purge by simp
qed

section \<open>What lasts\<close>

definition persists :: "idem_scope \<times> string \<times> string \<Rightarrow> (idem_row \<Rightarrow> bool) \<Rightarrow> idem_db \<Rightarrow> bool" where
  "persists k Q db \<longleftrightarrow> keys_unique db \<and> (\<exists>r \<in> set (id_rows db). idem_key r = k \<and> Q r)"

lemma persists_exec:
  assumes "persists k Q db" "\<And>r. Q r \<Longrightarrow> idem_key r = k \<Longrightarrow> \<not> may_drop op r" "\<And>r r'. row_step op r r' \<Longrightarrow> Q r \<Longrightarrow> idem_key r = k \<Longrightarrow> Q r'"
  shows "persists k Q (exec env op db)"
proof -
  obtain r where r: "r \<in> set (id_rows db)" "idem_key r = k" "Q r" using assms(1) by (auto simp: persists_def)
  have e: "effect op db (exec env op db)" using assms(1) exec_effect by (simp add: persists_def)
  then obtain r' where "r' \<in> set (id_rows (exec env op db))" "row_step op r r'"
    using r assms(2) by (auto simp: effect_def)
  then show ?thesis using e r assms(3) row_step_key by (fastforce simp: persists_def effect_def)
qed

lemma persists_exec_all:
  assumes "persists k Q db" "list_all ok ops"
    and "\<And>op r. ok op \<Longrightarrow> Q r \<Longrightarrow> idem_key r = k \<Longrightarrow> \<not> may_drop op r"
    and "\<And>op r r'. ok op \<Longrightarrow> row_step op r r' \<Longrightarrow> Q r \<Longrightarrow> idem_key r = k \<Longrightarrow> Q r'"
  shows "persists k Q (exec_all env ops db)"
  using assms(1,2) unfolding exec_all_def
proof (induction ops arbitrary: db)
  case (Cons op ops)
  then show ?case using persists_exec [OF Cons.prems(1), of op] assms(3,4) [of op] by simp
qed simp

lemma exec_all_unique: "keys_unique db \<Longrightarrow> keys_unique (exec_all env ops db)"
  unfolding exec_all_def by (induction ops arbitrary: db) (use exec_effect in \<open>auto simp: effect_def\<close>)

text \<open>A response that is stored stays until it expires.\<close>

definition answered :: "string \<Rightarrow> nat \<Rightarrow> json \<Rightarrow> int \<Rightarrow> idem_row \<Rightarrow> bool" where
  "answered rh status body e r \<longleftrightarrow>
     ir_request_hash r = rh \<and> ir_response_status r = Some (int status) \<and> ir_response_body r = Some body
     \<and> ir_owner_token r = None \<and> ir_expires_at r = e"

lemma answered_lasts:
  assumes "persists k (answered rh status body e) db" "list_all (before e) ops"
  shows "persists k (answered rh status body e) (exec_all env ops db)"
  by (rule persists_exec_all [OF assms])
    (auto elim!: before.elims row_stepE simp: answered_def purgeable_def owned_by_def row_expired_def)

lemma decide_answered:
  assumes "answered rh status body e r" "now < e" "100 \<le> status" "status \<le> 999" "\<not> (500 \<le> status \<and> status \<le> 599)"
  shows "decide now scope operation kh rh' token r db = Ok (if rh' = rh then Adm_Replay status body else Adm_Conflict, db)"
  using assms by (auto simp: decide_def answered_def row_expired_def replay_status_def)

lemma admit_answered:
  assumes "persists (scope, operation, kh) (answered rh status body e) db" "key_hash env key = Ok kh" "now < e"
    and "operation \<noteq> []" "length operation \<le> 128" "100 \<le> status" "status \<le> 999" "\<not> (500 \<le> status \<and> status \<le> 599)"
  shows "fst (admit env True True now scope operation key rh' token db) = Ok (if rh' = rh then Adm_Replay status body else Adm_Conflict)"
proof -
  let ?p = "purge_expired True now 64 db"
  obtain n db1 where p: "?p = (Ok n, db1)" by (auto simp: purge_expired_def Let_def)
  have "persists (scope, operation, kh) (answered rh status body e) (exec env (Op_Purge True now 64) db)"
    using answered_lasts [OF assms(1), of "[Op_Purge True now 64]" env] assms(3) by (simp add: exec_all_def)
  then obtain r where r: "keys_unique db1" "r \<in> set (id_rows db1)" "row_at scope operation kh r" "answered rh status body e r"
    using p by (auto simp: persists_def row_at_key)
  have "insert_candidate now scope operation kh rh' token db1 = Ok db1"
    using r(2,3) by (auto simp: insert_candidate_def list_ex_iff)
  moreover have "lock_row scope operation kh db1 = Ok r" by (rule lock_row_at [OF r(1-3)])
  moreover have "decide now scope operation kh rh' token r db1 = Ok (if rh' = rh then Adm_Replay status body else Adm_Conflict, db1)"
    by (rule decide_answered [OF r(4) assms(3,6-8)])
  ultimately show ?thesis using assms(2,4,5) p by (simp add: admit_def)
qed

text \<open>Whoever holds the token holds the key it was drawn for, with the request it was drawn for.\<close>

definition holds_only :: "nat \<Rightarrow> idem_scope \<times> string \<times> string \<Rightarrow> string \<Rightarrow> int \<Rightarrow> idem_db \<Rightarrow> bool" where
  "holds_only token k rh e db \<longleftrightarrow> keys_unique db
     \<and> (\<forall>r \<in> set (id_rows db). ir_owner_token r = Some token \<longrightarrow> idem_key r = k \<and> ir_request_hash r = rh \<and> ir_expires_at r = e)"

lemma holds_only_exec:
  assumes "holds_only token k rh e db" "\<not> draws token op"
  shows "holds_only token k rh e (exec env op db)"
proof -
  have e: "effect op db (exec env op db)" using assms(1) exec_effect by (simp add: holds_only_def)
  have "idem_key r' = k \<and> ir_request_hash r' = rh \<and> ir_expires_at r' = e"
    if r': "r' \<in> set (id_rows (exec env op db))" "ir_owner_token r' = Some token" for r'
  proof -
    have "\<not> may_add op r'" using assms(2) r'(2) by (cases op) auto
    then obtain r where r: "r \<in> set (id_rows db)" "row_step op r r'" using e r'(1) by (auto simp: effect_def)
    have "ir_owner_token r = Some token \<and> idem_key r' = idem_key r \<and> ir_request_hash r' = ir_request_hash r \<and> ir_expires_at r' = ir_expires_at r"
      using r(2) r'(2) assms(2) by (auto elim!: row_stepE simp: idem_key_def)
    then show ?thesis using assms(1) r(1) by (auto simp: holds_only_def)
  qed
  then show ?thesis using e by (simp add: holds_only_def effect_def)
qed

lemma holds_only_exec_all:
  "holds_only token k rh e db \<Longrightarrow> list_all (\<lambda>op. \<not> draws token op) ops \<Longrightarrow> holds_only token k rh e (exec_all env ops db)"
  unfolding exec_all_def by (induction ops arbitrary: db) (auto intro: holds_only_exec)

section \<open>Admission\<close>

definition unused_token :: "nat \<Rightarrow> idem_db \<Rightarrow> bool" where
  "unused_token token db \<longleftrightarrow> list_all (\<lambda>r. ir_owner_token r \<noteq> Some token) (id_rows db)"

lemma update_owner_holds:
  assumes "keys_unique db" "unused_token token db" "r \<in> set (id_rows db)" "row_at scope operation kh r"
    and "h = Some rh \<and> e = now + RETENTION_HOURS * 3600000 \<or> h = None \<and> ir_request_hash r = rh \<and> ir_expires_at r = e"
  shows "holds_only token (scope, operation, kh) rh e (update_owner now scope operation kh h token db)"
proof -
  have unique: "keys_unique (update_owner now scope operation kh h token db)"
    unfolding update_owner_def using assms(1) by (subst keys_unique_update_row) simp_all
  have only: "r' = r" if "r' \<in> set (id_rows db)" "row_at scope operation kh r'" for r'
    using idem_key_unique [OF assms(1) that(1) assms(3)] that(2) assms(4) by (simp add: row_at_key)
  have "idem_key r' = (scope, operation, kh) \<and> ir_request_hash r' = rh \<and> ir_expires_at r' = e"
    if r': "r' \<in> set (id_rows (update_owner now scope operation kh h token db))" "ir_owner_token r' = Some token" for r'
  proof -
    obtain r0 where r0: "r0 \<in> set (id_rows db)" "r' = (if row_at scope operation kh r0 then
        (case h of Some h \<Rightarrow> r0\<lparr>ir_request_hash := h, ir_response_status := None, ir_response_body := None, ir_completed_at := None,
           ir_owner_token := Some token, ir_lease_expires_at := Some (now + LEASE_SECONDS * 1000), ir_created_at := now,
           ir_expires_at := now + RETENTION_HOURS * 3600000\<rparr>
       | None \<Rightarrow> r0\<lparr>ir_owner_token := Some token, ir_lease_expires_at := Some (now + LEASE_SECONDS * 1000)\<rparr>) else r0)"
      using r'(1) unfolding update_owner_def update_row_def by auto
    have at: "row_at scope operation kh r0" using r0 r'(2) assms(2) by (auto simp: unused_token_def list_all_iff split: if_split_asm)
    then have "r0 = r" using only r0(1) by blast
    then show ?thesis using r0(2) at assms(5) by (auto simp: row_at_def idem_key_def)
  qed
  then show ?thesis using unique by (simp add: holds_only_def)
qed

lemma decide_owner_holds:
  assumes "keys_unique db" "unused_token token db" "insert_candidate now scope operation kh rh token db = Ok db1"
    "lock_row scope operation kh db1 = Ok r" "decide now scope operation kh rh token r db1 = Ok (Adm_Owner c, db')"
  shows "\<exists>e. holds_only token (scope, operation, kh) rh e db'"
proof (cases "list_ex (row_at scope operation kh) (id_rows db)")
  case True
  then have db1: "db1 = db" using assms(3) by (simp add: insert_candidate_def)
  have r: "r \<in> set (id_rows db)" "row_at scope operation kh r"
    using assms(4) by (auto simp: lock_row_def ok_or_eq_Ok find_Some_iff in_set_conv_nth db1)
  have "ir_owner_token r \<noteq> Some token" using assms(2) r(1) by (simp add: unused_token_def list_all_iff)
  then have "db' = update_owner now scope operation kh (Some rh) token db
      \<or> db' = update_owner now scope operation kh None token db \<and> ir_request_hash r = rh"
    using assms(5) unfolding db1
    by (auto simp: decide_def Let_def reset_row_def take_over_row_def bindr_eq_Ok split: if_split_asm option.split_asm)
  then show ?thesis using update_owner_holds [OF assms(1,2) r, of "Some rh" rh _ now] update_owner_holds [OF assms(1,2) r, of None rh _ now] by metis
next
  case False
  have rows: "id_rows db1 = id_rows db @ [\<lparr>ir_scope = scope, ir_operation = operation, ir_key_hash = kh, ir_request_hash = rh,
      ir_response_status = None, ir_response_body = None, ir_owner_token = Some token,
      ir_lease_expires_at = Some (now + LEASE_SECONDS * 1000), ir_expires_at = now + RETENTION_HOURS * 3600000,
      ir_created_at = now, ir_completed_at = None\<rparr>]" (is "_ = _ @ [?n]")
    using assms(3) False by (auto simp: insert_candidate_def split: if_split_asm)
  have unique: "keys_unique db1" using assms(1) False by (auto simp: rows keys_unique_def row_at_key idem_key_def list_ex_iff)
  have "r = ?n" using lock_row_at [OF unique, of ?n scope operation kh] assms(4) by (simp add: rows row_at_def)
  then have "db' = db1" using assms(5) by (simp add: decide_def Let_def)
  then have "holds_only token (scope, operation, kh) rh (now + RETENTION_HOURS * 3600000) db'"
    using unique assms(2) by (auto simp: holds_only_def rows idem_key_def unused_token_def list_all_iff)
  then show ?thesis by blast
qed

lemma decide_owner_claim:
  "decide now scope operation kh rh token r db = Ok (Adm_Owner c, db') \<Longrightarrow>
    c = \<lparr>cl_scope = scope, cl_operation = operation, cl_key_hash = kh, cl_owner_token = token\<rparr>"
  by (auto simp: decide_def Let_def bindr_eq_Ok split: if_split_asm option.split_asm)

lemma admit_owner:
  assumes "keys_unique db" "unused_token token db"
    and "admit env up_purge up now scope operation key rh token db = (Ok (Adm_Owner c), db1)"
  obtains kh e where "key_hash env key = Ok kh" "c = \<lparr>cl_scope = scope, cl_operation = operation, cl_key_hash = kh, cl_owner_token = token\<rparr>"
    "holds_only token (scope, operation, kh) rh e db1" "operation \<noteq> []" "length operation \<le> 128"
  using assms(3)
proof (cases rule: admit_cases)
  case (decided D kh db2 r a)
  let ?db = "db\<lparr>id_rows := filter (\<lambda>x. x \<notin> D) (id_rows db)\<rparr>"
  have a: "decide now scope operation kh rh token r db2 = Ok (Adm_Owner c, db1)" using decided(5,6) by simp
  have unused: "unused_token token ?db" using assms(2) by (auto simp: unused_token_def list_all_iff)
  obtain e where "holds_only token (scope, operation, kh) rh e db1"
    using decide_owner_holds [OF keys_unique_filter [OF assms(1)] unused decided(3,4) a] by blast
  moreover have "operation \<noteq> []" "length operation \<le> 128" using assms(3) by (auto simp: admit_def split: if_split_asm)
  ultimately show ?thesis using that decided(2) decide_owner_claim [OF a] by blast
qed simp

lemma complete_answers:
  assumes "complete_claim env up now c status body db = (Ok (), db')" "holds_only (cl_owner_token c) k rh e db"
  shows "persists k (answered rh status body e) db'" "\<not> (500 \<le> status \<and> status \<le> 599)"
proof -
  have c: "length (filter (owned_by c) (id_rows db)) = 1"
      "db' = update_row (owned_by c) (\<lambda>r. r\<lparr>ir_response_status := Some (int status), ir_response_body := Some body,
         ir_completed_at := Some now, ir_owner_token := None, ir_lease_expires_at := None\<rparr>) db"
    and status: "\<not> (500 \<le> status \<and> status \<le> 599)"
    using assms(1) by (auto simp: complete_claim_def split: if_split_asm option.split_asm)
  obtain r where r: "r \<in> set (id_rows db)" "owned_by c r"
  proof -
    have "filter (owned_by c) (id_rows db) \<noteq> []" using c(1) by auto
    then show ?thesis using that by (auto simp: filter_empty_conv)
  qed
  have held: "idem_key r = k" "ir_request_hash r = rh" "ir_expires_at r = e"
    using assms(2) r by (auto simp: holds_only_def owned_by_def)
  have "keys_unique db'" unfolding c(2) using assms(2) by (subst keys_unique_update_row) (simp_all add: idem_key_def holds_only_def)
  moreover have "r\<lparr>ir_response_status := Some (int status), ir_response_body := Some body,
         ir_completed_at := Some now, ir_owner_token := None, ir_lease_expires_at := None\<rparr> \<in> set (id_rows db')"
    using r unfolding c(2) update_row_def by force
  ultimately show "persists k (answered rh status body e) db'"
    unfolding persists_def using held by (intro conjI bexI) (auto simp: idem_key_def answered_def)
  show "\<not> (500 \<le> status \<and> status \<le> 599)" by (rule status)
qed

text \<open>
  C38. A request under an idempotency key takes effect once. When the request that was admitted under a fresh token has
  been completed, then, until its record expires and whatever other requests are admitted, completed,
  abandoned, renewed or purged before and after, every later admission under the key gets the stored response, or a conflict
  when its content differs; nobody is admitted to run it again.
\<close>

theorem completed_request_is_replayed:
  assumes "keys_unique db" "unused_token token db"
    and "admit env up_purge up now scope operation key rh token db = (Ok (Adm_Owner c), db1)"
    and "list_all (\<lambda>op. \<not> draws token op) ops1"
    and "complete_claim env up' now' c status body (exec_all env ops1 db1) = (Ok (), db2)" "100 \<le> status" "status \<le> 999"
  shows "\<exists>e kh. key_hash env key = Ok kh
    \<and> (\<forall>ops2 now2 rh' token'. list_all (before e) ops2 \<and> now2 < e \<longrightarrow>
        fst (admit env True True now2 scope operation key rh' token' (exec_all env ops2 db2)) =
          Ok (if rh' = rh then Adm_Replay status body else Adm_Conflict))
    \<and> (\<exists>r \<in> set (id_rows db2). row_at scope operation kh r \<and> ir_expires_at r = e)"
proof -
  obtain kh e where kh: "key_hash env key = Ok kh"
    and c: "c = \<lparr>cl_scope = scope, cl_operation = operation, cl_key_hash = kh, cl_owner_token = token\<rparr>"
    and held: "holds_only token (scope, operation, kh) rh e db1" and bounds: "operation \<noteq> []" "length operation \<le> 128"
    by (rule admit_owner [OF assms(1-3)])
  have "holds_only (cl_owner_token c) (scope, operation, kh) rh e (exec_all env ops1 db1)"
    using holds_only_exec_all [OF held assms(4)] by (simp add: c)
  note answer = complete_answers [OF assms(5) this]
  have "fst (admit env True True now2 scope operation key rh' token' (exec_all env ops2 db2)) =
      Ok (if rh' = rh then Adm_Replay status body else Adm_Conflict)"
    if "list_all (before e) ops2" "now2 < e" for ops2 now2 rh' token'
    by (rule admit_answered [OF answered_lasts [OF answer(1) that(1)] kh that(2) bounds assms(6,7) answer(2)])
  moreover have "\<exists>r \<in> set (id_rows db2). row_at scope operation kh r \<and> ir_expires_at r = e"
    using answer(1) by (auto simp: persists_def answered_def row_at_key)
  ultimately show ?thesis using kh by blast
qed

section \<open>A live lease excludes\<close>

definition lease_live :: "nat \<Rightarrow> int \<Rightarrow> idem_row \<Rightarrow> bool" where
  "lease_live token t r \<longleftrightarrow> ir_owner_token r = Some token \<and> ir_response_body r = None \<and> (\<exists>l. ir_lease_expires_at r = Some l \<and> t \<le> l)"

fun renewed_until :: "nat \<Rightarrow> int \<Rightarrow> idem_op \<Rightarrow> bool" where
  "renewed_until token t (Op_Renew _ now c) = (cl_owner_token c = token \<longrightarrow> t \<le> now + LEASE_SECONDS * 1000)"
| "renewed_until token t _ = True"

lemma leased_lasts:
  assumes "persists k (lease_live token t) db" "list_all (\<lambda>op. before t op \<and> avoids token op \<and> renewed_until token t op) ops"
  shows "persists k (lease_live token t) (exec_all env ops db)"
proof (rule persists_exec_all [OF assms])
  fix op r assume ok: "before t op \<and> avoids token op \<and> renewed_until token t op" and r: "lease_live token t r"
  show "\<not> may_drop op r"
    using ok r by (cases op) (auto simp: lease_live_def purgeable_def owned_by_def lease_expired_def)
  fix r' assume "row_step op r r'"
  then show "lease_live token t r'"
    using ok r by cases (auto simp: lease_live_def owned_by_def lease_expired_def)
qed

text \<open>While the lease runs, every other admission under the key is refused.\<close>

lemma admit_leased:
  assumes "persists (scope, operation, kh) (lease_live token t) db" "key_hash env key = Ok kh" "now < t" "token' \<noteq> token"
    and "operation \<noteq> []" "length operation \<le> 128"
  shows "fst (admit env True True now scope operation key rh token' db) \<in> {Ok Adm_Conflict, Ok Adm_InProgress}"
proof -
  obtain n db1 where p: "purge_expired True now 64 db = (Ok n, db1)" by (auto simp: purge_expired_def Let_def)
  have "persists (scope, operation, kh) (lease_live token t) (exec env (Op_Purge True now 64) db)"
    using leased_lasts [OF assms(1), of "[Op_Purge True now 64]" env] assms(3) by (simp add: exec_all_def)
  then obtain r where r: "keys_unique db1" "r \<in> set (id_rows db1)" "row_at scope operation kh r" "lease_live token t r"
    using p by (auto simp: persists_def row_at_key)
  have "insert_candidate now scope operation kh rh token' db1 = Ok db1"
    using r(2,3) by (auto simp: insert_candidate_def list_ex_iff)
  moreover have "lock_row scope operation kh db1 = Ok r" by (rule lock_row_at [OF r(1-3)])
  moreover have "decide now scope operation kh rh token' r db1 \<in> {Ok (Adm_Conflict, db1), Ok (Adm_InProgress, db1)}"
    using r(4) assms(3,4) by (auto simp: decide_def lease_live_def lease_expired_def Let_def split: option.split)
  ultimately show ?thesis using assms(2,5,6) p by (auto simp: admit_def)
qed

text \<open>Who has lost the row can neither complete nor renew it.\<close>

lemma lost_claim_is_powerless:
  assumes "list_all (\<lambda>r. ir_owner_token r \<noteq> Some (cl_owner_token c)) (id_rows db)"
  shows "\<exists>e. complete_claim env True now c status body db = (Err e, db)" "renew True now c db = (Ok False, db)" "abandon True c db = (Ok (), db)"
proof -
  have none: "filter (owned_by c) (id_rows db) = []" "filter (\<lambda>r. \<not> owned_by c r) (id_rows db) = id_rows db"
    using assms by (auto simp: owned_by_def filter_empty_conv filter_id_conv list_all_iff)
  show "\<exists>e. complete_claim env True now c status body db = (Err e, db)" by (auto simp: complete_claim_def none split: option.split)
  have "map (\<lambda>r. if owned_by c r then f r else r) (id_rows db) = id_rows db" for f
    using assms by (intro map_idI) (auto simp: owned_by_def list_all_iff)
  then show "renew True now c db = (Ok False, db)" by (simp add: renew_def none update_row_def)
  show "abandon True c db = (Ok (), db)" by (simp add: abandon_def none)
qed

section \<open>An example\<close>

definition demo_idem_env :: idem_env where
  "demo_idem_env = \<lparr>ie_sha256 = (\<lambda>s. s), ie_to_vec = (\<lambda>_. Some ''{}''), ie_jsonb_length = (\<lambda>_. 2), ie_uuid_bytes = (\<lambda>_. ''uuid'')\<rparr>"

definition demo_idem_db :: idem_db where
  "demo_idem_db = \<lparr>id_projects = [1], id_organizations = [], id_rows = []\<rparr>"

definition demo_claim :: idem_claim where
  "demo_claim = \<lparr>cl_scope = Scope_Project 1, cl_operation = ''pay'', cl_key_hash = ''key-00001'', cl_owner_token = 7\<rparr>"

definition demo_admitted :: idem_db where
  "demo_admitted = snd (admit demo_idem_env True True 0 (Scope_Project 1) ''pay'' ''key-00001'' ''h'' 7 demo_idem_db)"

definition demo_ops :: "idem_op list" where
  "demo_ops = [Op_Admit True True 1000 (Scope_Project 1) ''pay'' ''key-00001'' ''h'' 8, Op_Renew True 2000 demo_claim]"

definition demo_completed :: idem_db where
  "demo_completed = snd (complete_claim demo_idem_env True 5000 demo_claim 201 (JString ''paid'') (exec_all demo_idem_env demo_ops demo_admitted))"

theorem completed_request_is_replayed_witness:
  "fst (admit demo_idem_env True True 90000 (Scope_Project 1) ''pay'' ''key-00001'' ''h'' 9
      (exec_all demo_idem_env [Op_Purge True 80000 64] demo_completed)) = Ok (Adm_Replay 201 (JString ''paid''))
    \<and> fst (admit demo_idem_env True True 90000 (Scope_Project 1) ''pay'' ''key-00001'' ''other'' 9
      (exec_all demo_idem_env [Op_Purge True 80000 64] demo_completed)) = Ok Adm_Conflict"
proof -
  have u: "keys_unique demo_idem_db" "unused_token 7 demo_idem_db" by code_simp+
  have a: "admit demo_idem_env True True 0 (Scope_Project 1) ''pay'' ''key-00001'' ''h'' 7 demo_idem_db = (Ok (Adm_Owner demo_claim), demo_admitted)"
    by code_simp
  have d: "list_all (\<lambda>op. \<not> draws 7 op) demo_ops" by code_simp
  have c: "complete_claim demo_idem_env True 5000 demo_claim 201 (JString ''paid'') (exec_all demo_idem_env demo_ops demo_admitted) = (Ok (), demo_completed)"
    by code_simp
  have e: "list_all (\<lambda>r. ir_expires_at r = 86400000) (id_rows demo_completed)" by code_simp
  obtain e kh where t: "\<forall>ops2 now2 rh' token'. list_all (before e) ops2 \<and> now2 < e \<longrightarrow>
        fst (admit demo_idem_env True True now2 (Scope_Project 1) ''pay'' ''key-00001'' rh' token' (exec_all demo_idem_env ops2 demo_completed)) =
          Ok (if rh' = ''h'' then Adm_Replay 201 (JString ''paid'') else Adm_Conflict)"
    and r: "\<exists>r \<in> set (id_rows demo_completed). row_at (Scope_Project 1) ''pay'' kh r \<and> ir_expires_at r = e"
    using completed_request_is_replayed [OF u a d c] by auto
  have "e = 86400000" using e r by (auto simp: list_all_iff)
  then show ?thesis using t [rule_format, of "[Op_Purge True 80000 64]" 90000] by simp
qed

section \<open>Derived identifiers\<close>

text \<open>
  The identifiers of what a request creates depend on the key and not on who holds it, so that a request taken over after a
  crash works on the same resource; they are RFC 9562 identifiers of version 5 when the digest has 32 bytes.
\<close>

lemma derived_identifier_is_stable:
  "cl_scope c = cl_scope c' \<Longrightarrow> cl_operation c = cl_operation c' \<Longrightarrow> cl_key_hash c = cl_key_hash c' \<Longrightarrow>
    deterministic_uuid env c = deterministic_uuid env c' \<and> receipt_uuid env c = receipt_uuid env c'"
  by (simp add: deterministic_uuid_def receipt_uuid_def tagged_uuid_def)

lemma word_version: "((w :: 8 word) AND 0x0f OR 0x50) AND 0xf0 = 0x50" and word_variant: "((w :: 8 word) AND 0x3f OR 0x80) AND 0xc0 = 0x80"
  by (simp_all add: bit.conj_disj_distrib2 and.assoc)

lemma derived_identifier_is_a_uuid:
  assumes "\<And>s. length (ie_sha256 env s) = 32"
  shows "length (tagged_uuid env tag c) = 16 \<and> tagged_uuid env tag c ! 6 AND 0xf0 = 0x50 \<and> tagged_uuid env tag c ! 8 AND 0xc0 = 0x80"
  using assms word_version word_variant by (simp add: tagged_uuid_def Let_def)

section \<open>Mutations\<close>

text \<open>A mutation that another request completed is answered with the stored response and does not run.\<close>

lemma mutation_handler_replays:
  assumes "persists (Scope_Project project, operation, kh) (answered rh status body e) db" "key_hash env key = Ok kh" "now < e"
    and "operation \<noteq> []" "length operation \<le> 128" "100 \<le> status" "status \<le> 999" "\<not> (500 \<le> status \<and> status \<le> 599)"
    and "validate_idempotency_key key = Ok ()" "request_hash env payload = Ok rh'"
  obtains db' where "mutation_handler env show_uuid to_value True True up_end now now_end project (Some key) operation (Some payload) s1 token run (db, s) =
    (if rh' = rh then Resp_Json status body else service_error Cs_WebhookHashConflict, db', s)"
proof -
  obtain db' where "admit env True True now (Scope_Project project) operation key rh' token db =
      (Ok (if rh' = rh then Adm_Replay status body else Adm_Conflict), db')"
    using admit_answered [OF assms(1-8), of rh' token] by (metis prod.collapse)
  then show ?thesis using that assms(9,10) by (simp add: mutation_handler_def admit_mutation_def)
qed

end
