(* ===== verification/Billing_Stripe.thy ===== *)
theory Billing_Stripe
  imports Email_Templates Complex_Main
begin

text \<open>
  \<open>crates/billing/src/lib.rs\<close> and \<open>stripe.rs\<close>: tiers and allowances, the configuration of the Stripe adapter, verification and
  reading of webhooks, and the requests. JSON texts, URLs, identifiers as text and HMAC are parameters
  (\<open>stripe_env\<close>); the answer of the provider is an argument of a request.
\<close>

section \<open>Data\<close>

datatype billing_tier = Tier_Free | Tier_PayAsYouGo | Tier_Pro

datatype billing_unit = Unit_Organization | Unit_Seat

datatype usage_metric = Metric_Reads | Metric_Writes | Metric_StorageByteHours | Metric_MonthlyActiveUsers

definition metrics_ALL :: "usage_metric list" where
  "metrics_ALL = [Metric_Reads, Metric_Writes, Metric_StorageByteHours, Metric_MonthlyActiveUsers]"

fun metric_name :: "usage_metric \<Rightarrow> string" where
  "metric_name Metric_Reads = ''reads''"
| "metric_name Metric_Writes = ''writes''"
| "metric_name Metric_StorageByteHours = ''storage_byte_hours''"
| "metric_name Metric_MonthlyActiveUsers = ''monthly_active_users''"

record usage_allowance =
  al_storage_bytes :: nat
  al_monthly_reads :: nat
  al_monthly_writes :: nat
  al_monthly_active_users :: nat
  al_overage_enabled :: bool

fun default_allowance :: "billing_tier \<Rightarrow> usage_allowance" where
  "default_allowance Tier_Free = \<lparr>al_storage_bytes = 1000000000, al_monthly_reads = 1000000, al_monthly_writes = 50000,
     al_monthly_active_users = 5000, al_overage_enabled = False\<rparr>"
| "default_allowance Tier_PayAsYouGo = \<lparr>al_storage_bytes = 1000000000, al_monthly_reads = 1000000, al_monthly_writes = 50000,
     al_monthly_active_users = 5000, al_overage_enabled = True\<rparr>"
| "default_allowance Tier_Pro = \<lparr>al_storage_bytes = 10000000000, al_monthly_reads = 15000000, al_monthly_writes = 750000,
     al_monthly_active_users = 50000, al_overage_enabled = True\<rparr>"

datatype provider_status =
  Ps_CheckoutPending | Ps_Trialing | Ps_Active | Ps_PastDue | Ps_Unpaid | Ps_Canceled | Ps_Paused | Ps_Incomplete

datatype invoice_status = Is_Draft | Is_Open | Is_Paid | Is_Uncollectible | Is_Void | Is_PaymentFailed

datatype billing_error =
  Be_InvalidConfiguration | Be_InvalidRequest | Be_InvalidWebhookSignature | Be_InvalidWebhookPayload
  | Be_ProviderUnavailable | Be_ProviderRejected

record checkout_input =
  ci_organization_id :: nat
  ci_tier :: billing_tier
  ci_billing_email :: string
  ci_existing_customer_id :: "string option"
  ci_quantity :: nat
  ci_idempotency_key :: string

record portal_input =
  pi_organization_id :: nat
  pi_customer_id :: string
  pi_idempotency_key :: string

record billing_update =
  bu_organization_id :: nat
  bu_customer_id :: string
  bu_subscription_id :: "string option"
  bu_tier :: billing_tier
  bu_status :: provider_status
  bu_quantity :: nat
  bu_current_period_start_ms :: "int option"
  bu_current_period_end_ms :: "int option"
  bu_cancel_at_period_end :: bool

record invoice_update =
  iu_organization_id :: nat
  iu_invoice_id :: string
  iu_customer_id :: string
  iu_subscription_id :: "string option"
  iu_status :: invoice_status
  iu_currency :: string
  iu_amount_due_minor :: nat
  iu_amount_paid_minor :: nat
  iu_period_start_ms :: "int option"
  iu_period_end_ms :: "int option"
  iu_hosted_invoice_url :: "string option"
  iu_invoice_pdf_url :: "string option"

record verified_event =
  ve_provider_event_id :: string
  ve_event_type :: string
  ve_livemode :: bool
  ve_created_at_ms :: int
  ve_platform_update :: "billing_update option"
  ve_invoice_update :: "invoice_update option"

record meter_event =
  me_customer_id :: string
  me_metric :: usage_metric
  me_identifier :: string
  me_value :: nat
  me_timestamp_ms :: int

record summary_input =
  su_customer_id :: string
  su_metric :: usage_metric
  su_start_ms :: int
  su_end_ms :: int

record usage_meter =
  um_metric :: usage_metric
  um_event_name :: string
  um_meter_id :: string
  um_payg_price_id :: string
  um_pro_price_id :: string

record stripe_config =
  sc_secret_key :: string
  sc_webhook_secret :: string
  sc_connected_account :: "string option"
  sc_pro_base_price_id :: string
  sc_usage_meters :: "usage_meter list"
  sc_pro_billing_unit :: billing_unit
  sc_success_url :: url
  sc_cancel_url :: url
  sc_portal_return_url :: url

record stripe_event =
  se_id :: string
  se_type :: string
  se_created :: int
  se_livemode :: bool
  se_account :: "string option"
  se_object :: json

text \<open>\<open>sv_parse_event\<close> reads a JSON text as a \<open>StripeEvent\<close>; \<open>sv_as_i64\<close> and \<open>sv_as_u64\<close> read a JSON number.\<close>

record stripe_env =
  sv_parse_event :: "string \<Rightarrow> stripe_event option"
  sv_as_i64 :: "string \<Rightarrow> int option"
  sv_as_u64 :: "string \<Rightarrow> nat option"
  sv_parse_url :: "string \<Rightarrow> url option"
  sv_url_text :: "url \<Rightarrow> string"
  sv_parse_uuid :: "string \<Rightarrow> nat option"
  sv_show_uuid :: "nat \<Rightarrow> string"
  sv_hmac :: "string \<Rightarrow> string \<Rightarrow> string"

section \<open>JSON values\<close>

fun jv_get :: "string \<Rightarrow> json \<Rightarrow> json option" where
  "jv_get k (JObject es) = map_of es k"
| "jv_get k _ = None"

fun jv_str :: "json \<Rightarrow> string option" where
  "jv_str (JString s) = Some s"
| "jv_str _ = None"

fun jv_array :: "json \<Rightarrow> json list option" where
  "jv_array (JArray xs) = Some xs"
| "jv_array _ = None"

fun jv_object :: "json \<Rightarrow> json_map option" where
  "jv_object (JObject es) = Some es"
| "jv_object _ = None"

fun jv_bool :: "json \<Rightarrow> bool option" where
  "jv_bool (JBool b) = Some b"
| "jv_bool _ = None"

fun jv_i64 :: "stripe_env \<Rightarrow> json \<Rightarrow> int option" where
  "jv_i64 env (JNumber n) = sv_as_i64 env n"
| "jv_i64 env _ = None"

fun jv_u64 :: "stripe_env \<Rightarrow> json \<Rightarrow> nat option" where
  "jv_u64 env (JNumber n) = sv_as_u64 env n"
| "jv_u64 env _ = None"

text \<open>\<open>pointer\<close> along the names of members.\<close>

fun jv_pointer :: "string list \<Rightarrow> json \<Rightarrow> json option" where
  "jv_pointer [] v = Some v"
| "jv_pointer (k # ks) v = Option.bind (jv_get k v) (jv_pointer ks)"

section \<open>Checks\<close>

definition valid_provider_id :: "string \<Rightarrow> string \<Rightarrow> bool" where
  "valid_provider_id v prefix \<longleftrightarrow>
     starts_with v prefix \<and> length prefix + 4 \<le> length v \<and> length v \<le> 255
     \<and> list_all (\<lambda>b. is_ascii_alphanumeric b \<or> b = CHR ''_'') v"

definition valid_event_name :: "string \<Rightarrow> bool" where
  "valid_event_name v \<longleftrightarrow>
     3 \<le> length v \<and> length v \<le> 100 \<and> list_all (\<lambda>b. is_ascii_lowercase b \<or> is_ascii_digit b \<or> b = CHR ''_'') v"

definition valid_return_url :: "url \<Rightarrow> bool" where
  "valid_return_url u \<longleftrightarrow>
     ur_scheme u \<in> {''http'', ''https''} \<and> ur_host u \<noteq> None \<and> ur_username u = [] \<and> ur_password u = None \<and> ur_fragment u = None"

definition validate_stripe_key :: "string \<Rightarrow> billing_error + unit" where
  "validate_stripe_key v =
     (if \<not> (8 \<le> length v \<and> length v \<le> 255) \<or> \<not> list_all (\<lambda>c. 33 \<le> code c \<and> code c \<le> 126) v then Err Be_InvalidRequest else Ok ())"

definition meter_ids :: "usage_meter \<Rightarrow> string list" where
  "meter_ids m = [um_meter_id m, um_payg_price_id m, um_pro_price_id m]"

definition validate_stripe_config :: "stripe_config \<Rightarrow> billing_error + unit" where
  "validate_stripe_config c =
     (let ms = sc_usage_meters c;
          meters_valid = (length ms = 4 \<and> list_all (\<lambda>k. k \<in> um_metric ` set ms) metrics_ALL
            \<and> list_all (\<lambda>m. valid_event_name (um_event_name m) \<and> valid_provider_id (um_meter_id m) ''mtr_''
                \<and> valid_provider_id (um_payg_price_id m) ''price_'' \<and> valid_provider_id (um_pro_price_id m) ''price_'') ms
            \<and> distinct (concat (map meter_ids ms)))
      in if \<not> starts_with (sc_secret_key c) ''sk_'' \<or> length (sc_secret_key c) < 16
           \<or> \<not> starts_with (sc_webhook_secret c) ''whsec_'' \<or> length (sc_webhook_secret c) < 16
           \<or> \<not> valid_provider_id (sc_pro_base_price_id c) ''price_''
           \<or> (case sc_connected_account c of None \<Rightarrow> False | Some a \<Rightarrow> \<not> valid_provider_id a ''acct_'')
           \<or> \<not> meters_valid \<or> sc_pro_base_price_id c \<in> set (concat (map meter_ids ms))
           \<or> \<not> valid_return_url (sc_success_url c) \<or> \<not> valid_return_url (sc_cancel_url c) \<or> \<not> valid_return_url (sc_portal_return_url c)
         then Err Be_InvalidConfiguration else Ok ())"

definition find_meter :: "stripe_config \<Rightarrow> usage_metric \<Rightarrow> billing_error + usage_meter" where
  "find_meter c k = ok_or (List.find (\<lambda>m. um_metric m = k) (sc_usage_meters c)) Be_InvalidConfiguration"

definition expected_prices :: "stripe_config \<Rightarrow> billing_tier \<Rightarrow> string set" where
  "expected_prices c tier =
     set (map (\<lambda>m. case tier of Tier_PayAsYouGo \<Rightarrow> um_payg_price_id m | Tier_Pro \<Rightarrow> um_pro_price_id m | Tier_Free \<Rightarrow> []) (sc_usage_meters c))
     \<union> (if tier = Tier_Pro then {sc_pro_base_price_id c} else {})"

fun tier_name :: "billing_tier \<Rightarrow> string" where
  "tier_name Tier_Free = ''free''"
| "tier_name Tier_PayAsYouGo = ''pay_as_you_go''"
| "tier_name Tier_Pro = ''pro''"

section \<open>Reading events\<close>

definition checked_milliseconds :: "int option \<Rightarrow> billing_error + int option" where
  "checked_milliseconds seconds =
     (case seconds of
        None \<Rightarrow> Ok None
      | Some v \<Rightarrow> if i64_min \<le> v * 1000 \<and> v * 1000 \<le> i64_max then Ok (Some (v * 1000)) else Err Be_InvalidWebhookPayload)"

definition non_negative_amount :: "stripe_env \<Rightarrow> json \<Rightarrow> string \<Rightarrow> billing_error + nat" where
  "non_negative_amount env object key =
     (case Option.bind (jv_get key object) (jv_i64 env) of
        Some v \<Rightarrow> if v < 0 then Err Be_InvalidWebhookPayload else Ok (nat v)
      | None \<Rightarrow> Err Be_InvalidWebhookPayload)"

definition ends_with :: "string \<Rightarrow> string \<Rightarrow> bool" where
  "ends_with s p = starts_with (rev s) (rev p)"

definition verified_stripe_url :: "stripe_env \<Rightarrow> json \<Rightarrow> string \<Rightarrow> billing_error + string option" where
  "verified_stripe_url env object key =
     (case jv_get key object of
        None \<Rightarrow> Ok None
      | Some v \<Rightarrow>
          (case jv_str v of
             None \<Rightarrow> if v = JNull then Ok None else Err Be_InvalidWebhookPayload
           | Some raw \<Rightarrow>
               bindr (ok_or (sv_parse_url env raw) Be_InvalidWebhookPayload) (\<lambda>u.
               bindr (ok_or (ur_host u) Be_InvalidWebhookPayload) (\<lambda>host.
                 if ur_scheme u \<noteq> ''https'' \<or> ur_username u \<noteq> [] \<or> ur_password u \<noteq> None
                   \<or> \<not> (host = ''stripe.com'' \<or> ends_with host ''.stripe.com'')
                 then Err Be_InvalidWebhookPayload else Ok (Some (sv_url_text env u))))))"

definition is_platform_metadata :: "json_map \<Rightarrow> bool" where
  "is_platform_metadata md \<longleftrightarrow> Option.bind (map_of md ''ffdb_scope'') jv_str = Some ''platform''"

definition platform_metadata :: "json \<Rightarrow> json_map option" where
  "platform_metadata object =
     (case Option.bind (jv_get ''metadata'' object) jv_object of
        None \<Rightarrow> None
      | Some md \<Rightarrow> if is_platform_metadata md then Some md else None)"

definition organization_from_metadata :: "stripe_env \<Rightarrow> json_map \<Rightarrow> billing_error + nat" where
  "organization_from_metadata env md =
     ok_or (Option.bind (Option.bind (map_of md ''ffdb_organization_id'') jv_str) (sv_parse_uuid env)) Be_InvalidWebhookPayload"

definition tier_from_metadata :: "json_map \<Rightarrow> billing_error + billing_tier" where
  "tier_from_metadata md =
     (case Option.bind (map_of md ''ffdb_tier'') jv_str of
        None \<Rightarrow> Err Be_InvalidWebhookPayload
      | Some t \<Rightarrow>
          if t = ''pay_as_you_go'' then Ok Tier_PayAsYouGo else if t = ''pro'' then Ok Tier_Pro
          else if t = ''free'' then Ok Tier_Free else Err Be_InvalidWebhookPayload)"

definition stripe_reference :: "json option \<Rightarrow> string \<Rightarrow> billing_error + string" where
  "stripe_reference v prefix =
     bindr (ok_or v Be_InvalidWebhookPayload) (\<lambda>v.
     bindr (ok_or (or_else (jv_str v) (Option.bind (jv_get ''id'' v) jv_str)) Be_InvalidWebhookPayload) (\<lambda>i.
       if valid_provider_id i prefix then Ok i else Err Be_InvalidWebhookPayload))"

definition stripe_reference_optional :: "json option \<Rightarrow> string \<Rightarrow> billing_error + string option" where
  "stripe_reference_optional v prefix =
     (case v of
        None \<Rightarrow> Ok None
      | Some v' \<Rightarrow> if v' = JNull then Ok None else bindr (stripe_reference (Some v') prefix) (\<lambda>i. Ok (Some i)))"

definition parse_provider_status :: "string \<Rightarrow> billing_error + provider_status" where
  "parse_provider_status s =
     (if s = ''trialing'' then Ok Ps_Trialing else if s = ''active'' then Ok Ps_Active else if s = ''past_due'' then Ok Ps_PastDue
      else if s = ''unpaid'' then Ok Ps_Unpaid else if s = ''canceled'' \<or> s = ''incomplete_expired'' then Ok Ps_Canceled
      else if s = ''paused'' then Ok Ps_Paused else if s = ''incomplete'' then Ok Ps_Incomplete else Err Be_InvalidWebhookPayload)"

definition checkout_update :: "stripe_env \<Rightarrow> json \<Rightarrow> billing_error + billing_update option" where
  "checkout_update env object =
     (case platform_metadata object of
        None \<Rightarrow> Ok None
      | Some md \<Rightarrow>
          bindr (organization_from_metadata env md) (\<lambda>org.
          bindr (tier_from_metadata md) (\<lambda>tier.
          if tier = Tier_Free then Err Be_InvalidWebhookPayload
          else bindr (stripe_reference (jv_get ''customer'' object) ''cus_'') (\<lambda>customer.
          bindr (stripe_reference_optional (jv_get ''subscription'' object) ''sub_'') (\<lambda>subscription.
            Ok (Some \<lparr>bu_organization_id = org, bu_customer_id = customer, bu_subscription_id = subscription, bu_tier = tier,
              bu_status = Ps_CheckoutPending, bu_quantity = 1, bu_current_period_start_ms = None, bu_current_period_end_ms = None,
              bu_cancel_at_period_end = False\<rparr>))))))"

text \<open>The loop over the items of a subscription: prices seen, quantity of the base price, and the period.\<close>

record item_state =
  is_prices :: "string list"
  is_base_quantity :: nat
  is_start :: "int option"
  is_end :: "int option"

definition subscription_item :: "stripe_env \<Rightarrow> stripe_config \<Rightarrow> json \<Rightarrow> item_state \<Rightarrow> billing_error + item_state" where
  "subscription_item env c item s =
     bindr (ok_or (jv_object item) Be_InvalidWebhookPayload) (\<lambda>es.
     bindr (case map_of es ''price'' of None \<Rightarrow> Err Be_InvalidWebhookPayload
        | Some p \<Rightarrow> map_err (\<lambda>_. Be_InvalidWebhookPayload) (stripe_reference (Some p) ''price_'')) (\<lambda>price.
     if price \<in> set (is_prices s) then Err Be_InvalidWebhookPayload
     else bindr (if price = sc_pro_base_price_id c
         then (case Option.bind (map_of es ''quantity'') (jv_u64 env) of
             Some q \<Rightarrow> if 1 \<le> q \<and> q \<le> 100000 then Ok q else Err Be_InvalidWebhookPayload
           | None \<Rightarrow> Err Be_InvalidWebhookPayload)
         else Ok (is_base_quantity s)) (\<lambda>q.
       let upd = (\<lambda>f old k. case Option.bind (map_of es k) (jv_i64 env) of
             None \<Rightarrow> old | Some v \<Rightarrow> Some (case old of None \<Rightarrow> v | Some x \<Rightarrow> f x v))
       in Ok \<lparr>is_prices = price # is_prices s, is_base_quantity = q, is_start = upd min (is_start s) ''current_period_start'',
            is_end = upd max (is_end s) ''current_period_end''\<rparr>)))"

fun subscription_items :: "stripe_env \<Rightarrow> stripe_config \<Rightarrow> json list \<Rightarrow> item_state \<Rightarrow> billing_error + item_state" where
  "subscription_items env c [] s = Ok s"
| "subscription_items env c (i # is) s = bindr (subscription_item env c i s) (subscription_items env c is)"

definition subscription_update :: "stripe_env \<Rightarrow> stripe_config \<Rightarrow> json \<Rightarrow> string \<Rightarrow> billing_error + billing_update option" where
  "subscription_update env c object event_type =
     (case platform_metadata object of
        None \<Rightarrow> Ok None
      | Some md \<Rightarrow>
          bindr (organization_from_metadata env md) (\<lambda>org.
          bindr (stripe_reference (jv_get ''customer'' object) ''cus_'') (\<lambda>customer.
          bindr (stripe_reference (jv_get ''id'' object) ''sub_'') (\<lambda>subscription.
          bindr (tier_from_metadata md) (\<lambda>tier.
          if tier = Tier_Free then Err Be_InvalidWebhookPayload
          else bindr (case Option.bind (jv_pointer [''items'', ''data''] object) jv_array of
              Some (i # is) \<Rightarrow> Ok (i # is) | _ \<Rightarrow> Err Be_InvalidWebhookPayload) (\<lambda>items.
          bindr (subscription_items env c items \<lparr>is_prices = [], is_base_quantity = 1, is_start = None, is_end = None\<rparr>) (\<lambda>s.
          if set (is_prices s) \<noteq> expected_prices c tier then Err Be_InvalidWebhookPayload
          else bindr (if event_type = ''customer.subscription.deleted'' then Ok Ps_Canceled
              else bindr (ok_or (Option.bind (jv_get ''status'' object) jv_str) Be_InvalidWebhookPayload) parse_provider_status) (\<lambda>status.
          bindr (checked_milliseconds (is_start s)) (\<lambda>start_ms.
          bindr (checked_milliseconds (is_end s)) (\<lambda>end_ms.
            Ok (Some \<lparr>bu_organization_id = org, bu_customer_id = customer, bu_subscription_id = Some subscription, bu_tier = tier,
              bu_status = status, bu_quantity = (if tier = Tier_Pro then is_base_quantity s else 1), bu_current_period_start_ms = start_ms,
              bu_current_period_end_ms = end_ms,
              bu_cancel_at_period_end = (case Option.bind (jv_get ''cancel_at_period_end'' object) jv_bool of None \<Rightarrow> False | Some b \<Rightarrow> b)\<rparr>)))))))))))"

definition parse_invoice_event_status :: "string \<Rightarrow> string option \<Rightarrow> billing_error + invoice_status" where
  "parse_invoice_event_status event_type status =
     (if event_type = ''invoice.payment_failed'' then Ok Is_PaymentFailed
      else if status = Some ''draft'' then Ok Is_Draft else if status = Some ''open'' then Ok Is_Open
      else if status = Some ''paid'' then Ok Is_Paid else if status = Some ''uncollectible'' then Ok Is_Uncollectible
      else if status = Some ''void'' then Ok Is_Void else Err Be_InvalidWebhookPayload)"

definition invoice_update_of :: "stripe_env \<Rightarrow> json \<Rightarrow> string \<Rightarrow> billing_error + invoice_update option" where
  "invoice_update_of env object event_type =
     (case Option.bind (or_else (jv_pointer [''parent'', ''subscription_details'', ''metadata''] object)
        (or_else (jv_pointer [''subscription_details'', ''metadata''] object) (jv_get ''metadata'' object))) jv_object of
        None \<Rightarrow> Ok None
      | Some md \<Rightarrow>
          if \<not> is_platform_metadata md then Ok None
          else
          bindr (organization_from_metadata env md) (\<lambda>org.
          bindr (stripe_reference (jv_get ''id'' object) ''in_'') (\<lambda>invoice.
          bindr (stripe_reference (jv_get ''customer'' object) ''cus_'') (\<lambda>customer.
          bindr (stripe_reference_optional (or_else (jv_pointer [''parent'', ''subscription_details'', ''subscription''] object)
              (jv_get ''subscription'' object)) ''sub_'') (\<lambda>subscription.
          bindr (parse_invoice_event_status event_type (Option.bind (jv_get ''status'' object) jv_str)) (\<lambda>status.
          bindr (case Option.bind (jv_get ''currency'' object) jv_str of
              Some v \<Rightarrow> if length v = 3 \<and> list_all is_ascii_lowercase v then Ok v else Err Be_InvalidWebhookPayload
            | None \<Rightarrow> Err Be_InvalidWebhookPayload) (\<lambda>currency.
          bindr (non_negative_amount env object ''amount_due'') (\<lambda>due.
          bindr (non_negative_amount env object ''amount_paid'') (\<lambda>paid.
          bindr (checked_milliseconds (Option.bind (jv_get ''period_start'' object) (jv_i64 env))) (\<lambda>start_ms.
          bindr (checked_milliseconds (Option.bind (jv_get ''period_end'' object) (jv_i64 env))) (\<lambda>end_ms.
          bindr (verified_stripe_url env object ''hosted_invoice_url'') (\<lambda>hosted.
          bindr (verified_stripe_url env object ''invoice_pdf'') (\<lambda>pdf.
            Ok (Some \<lparr>iu_organization_id = org, iu_invoice_id = invoice, iu_customer_id = customer, iu_subscription_id = subscription,
              iu_status = status, iu_currency = currency, iu_amount_due_minor = due, iu_amount_paid_minor = paid, iu_period_start_ms = start_ms,
              iu_period_end_ms = end_ms, iu_hosted_invoice_url = hosted, iu_invoice_pdf_url = pdf\<rparr>))))))))))))))"

definition parse_event :: "stripe_env \<Rightarrow> stripe_config \<Rightarrow> string \<Rightarrow> billing_error + verified_event" where
  "parse_event env c payload =
     bindr (ok_or (sv_parse_event env payload) Be_InvalidWebhookPayload) (\<lambda>e.
     if \<not> valid_provider_id (se_id e) ''evt_'' \<or> length (se_type e) > 128 then Err Be_InvalidWebhookPayload
     else if se_account e \<noteq> sc_connected_account c then Err Be_InvalidWebhookPayload
     else if se_livemode e \<noteq> starts_with (sc_secret_key c) ''sk_live_'' then Err Be_InvalidWebhookPayload
     else bindr (checked_milliseconds (Some (se_created e))) (\<lambda>created.
     bindr (if se_type e = ''checkout.session.completed'' then checkout_update env (se_object e)
        else if se_type e \<in> {''customer.subscription.created'', ''customer.subscription.updated'', ''customer.subscription.deleted'',
          ''customer.subscription.paused'', ''customer.subscription.resumed''} then subscription_update env c (se_object e) (se_type e)
        else Ok None) (\<lambda>platform.
     bindr (if se_type e \<in> {''invoice.created'', ''invoice.finalized'', ''invoice.paid'', ''invoice.payment_failed'', ''invoice.voided'',
          ''invoice.marked_uncollectible''} then invoice_update_of env (se_object e) (se_type e) else Ok None) (\<lambda>invoice.
       Ok \<lparr>ve_provider_event_id = se_id e, ve_event_type = se_type e, ve_livemode = se_livemode e, ve_created_at_ms = the created,
         ve_platform_update = platform, ve_invoice_update = invoice\<rparr>))))"

section \<open>Webhooks\<close>

definition SIGNATURE_TOLERANCE_SECONDS :: nat where "SIGNATURE_TOLERANCE_SECONDS = 300"

fun digits_value :: "nat \<Rightarrow> string \<Rightarrow> nat option" where
  "digits_value acc [] = Some acc"
| "digits_value acc (c # s) = (if is_ascii_digit c then digits_value (acc * 10 + (code c - 48)) s else None)"

text \<open>\<open>str::parse::<i64>\<close>: an optional sign and at least one digit, within range.\<close>

definition parse_i64 :: "string \<Rightarrow> int option" where
  "parse_i64 s =
     (let (neg, ds) = (case s of [] \<Rightarrow> (False, [])
            | c # t \<Rightarrow> if c = CHR ''-'' then (True, t) else if c = CHR ''+'' then (False, t) else (False, s))
      in if ds = [] then None
         else case digits_value 0 ds of
           None \<Rightarrow> None
         | Some n \<Rightarrow> let v = (if neg then - int n else int n) in if i64_min \<le> v \<and> v \<le> i64_max then Some v else None)"

definition hex_nibble :: "char \<Rightarrow> nat option" where
  "hex_nibble c =
     (if is_ascii_digit c then Some (code c - 48) else if 97 \<le> code c \<and> code c \<le> 102 then Some (code c - 97 + 10)
      else if 65 \<le> code c \<and> code c \<le> 70 then Some (code c - 65 + 10) else None)"

fun decode_hex :: "string \<Rightarrow> string option" where
  "decode_hex [] = Some []"
| "decode_hex (a # b # s) =
     Option.bind (hex_nibble a) (\<lambda>h. Option.bind (hex_nibble b) (\<lambda>l. map_option (\<lambda>r. char_of (h * 16 + l) # r) (decode_hex s)))"
| "decode_hex [a] = Some []"

definition decode_hex_32 :: "string \<Rightarrow> string option" where
  "decode_hex_32 v = (if length v \<noteq> 64 then None else decode_hex v)"

text \<open>The fields of the signature header: the first time that parses, and every signature.\<close>

fun signature_fields :: "string list \<Rightarrow> int option \<times> string list \<Rightarrow> int option \<times> string list" where
  "signature_fields [] acc = acc"
| "signature_fields (f # fs) (t, sigs) =
     (case split_once CHR ''='' (trim f) of
        None \<Rightarrow> signature_fields fs (t, sigs)
      | Some (name, v) \<Rightarrow>
          if name = ''t'' \<and> t = None then signature_fields fs (parse_i64 v, sigs)
          else if name = ''v1'' then signature_fields fs (t, sigs @ [v])
          else signature_fields fs (t, sigs))"

definition signed_text :: "int \<Rightarrow> string \<Rightarrow> string" where
  "signed_text t payload = show_int t @ ''.'' @ payload"

definition signature_matches :: "stripe_env \<Rightarrow> stripe_config \<Rightarrow> int \<Rightarrow> string \<Rightarrow> string \<Rightarrow> bool" where
  "signature_matches env c t payload s =
     (case decode_hex_32 s of None \<Rightarrow> False | Some mac \<Rightarrow> sv_hmac env (sc_webhook_secret c) (signed_text t payload) = mac)"

definition verify_webhook :: "stripe_env \<Rightarrow> stripe_config \<Rightarrow> string \<Rightarrow> string \<Rightarrow> int \<Rightarrow> billing_error + verified_event" where
  "verify_webhook env c payload signature now =
     (if length signature > 4096 \<or> length payload > 512 * 1024 then Err Be_InvalidWebhookSignature
      else
        let (timestamp, sigs) = signature_fields (split_on CHR '','' signature) (None, [])
        in bindr (ok_or timestamp Be_InvalidWebhookSignature) (\<lambda>t.
          if nat \<bar>now - t\<bar> > SIGNATURE_TOLERANCE_SECONDS then Err Be_InvalidWebhookSignature
          else if \<not> list_ex (signature_matches env c t payload) sigs then Err Be_InvalidWebhookSignature
          else parse_event env c payload))"

section \<open>Requests\<close>

text \<open>An answer is a status with the URL of its body, if it can be read; None when there is no answer.\<close>

definition post_form :: "stripe_env \<Rightarrow> string \<Rightarrow> string \<Rightarrow> (nat \<times> string option) option \<Rightarrow> billing_error + string" where
  "post_form env key expected_host reply =
     bindr (validate_stripe_key key) (\<lambda>_.
     case reply of
       None \<Rightarrow> Err Be_ProviderUnavailable
     | Some (status, body) \<Rightarrow>
         if \<not> (200 \<le> status \<and> status \<le> 299) then Err (if 500 \<le> status \<and> status \<le> 599 then Be_ProviderUnavailable else Be_ProviderRejected)
         else bindr (ok_or body Be_ProviderUnavailable) (\<lambda>raw.
           bindr (ok_or (sv_parse_url env raw) Be_ProviderUnavailable) (\<lambda>u.
             if ur_scheme u \<noteq> ''https'' \<or> ur_host u \<noteq> Some expected_host then Err Be_ProviderUnavailable else Ok (sv_url_text env u))))"

text \<open>A line of the order by its index.\<close>

definition line_item :: "nat \<Rightarrow> string \<Rightarrow> string \<Rightarrow> string \<times> string" where
  "line_item i field v = (''line_items['' @ show_nat i @ ''][''  @ field @ '']'', v)"

definition checkout_lines :: "stripe_config \<Rightarrow> checkout_input \<Rightarrow> (string \<times> string) list" where
  "checkout_lines c i =
     (let base = (if ci_tier i = Tier_Pro
            then line_item 0 ''price'' (sc_pro_base_price_id c)
              # (if sc_pro_billing_unit c = Unit_Seat then [line_item 0 ''quantity'' (show_nat (ci_quantity i))] else [])
            else []);
          first = (if ci_tier i = Tier_Pro then 1 else 0)
      in base @ map (\<lambda>(k, m). line_item (first + k) ''price''
             (if ci_tier i = Tier_PayAsYouGo then um_payg_price_id m else um_pro_price_id m)) (enumerate 0 (sc_usage_meters c)))"

definition checkout_parameters :: "stripe_env \<Rightarrow> stripe_config \<Rightarrow> checkout_input \<Rightarrow> billing_error + (string \<times> string) list" where
  "checkout_parameters env c i =
     (if length (ci_billing_email i) > 320 \<or> CHR ''@'' \<notin> set (ci_billing_email i) \<or> \<not> (1 \<le> ci_quantity i \<and> ci_quantity i \<le> 100000)
      then Err Be_InvalidRequest
      else if ci_tier i = Tier_Free then Err Be_InvalidRequest
      else
        let org = sv_show_uuid env (ci_organization_id i); tier = tier_name (ci_tier i) in
        bindr (case ci_existing_customer_id i of
            Some cus \<Rightarrow> if valid_provider_id cus ''cus_'' then Ok (''customer'', cus) else Err Be_InvalidRequest
          | None \<Rightarrow> Ok (''customer_email'', ci_billing_email i)) (\<lambda>customer.
          Ok ([(''mode'', ''subscription''), (''ui_mode'', ''hosted''), (''success_url'', sv_url_text env (sc_success_url c)),
            (''cancel_url'', sv_url_text env (sc_cancel_url c)), (''client_reference_id'', org), (''metadata[ffdb_scope]'', ''platform''),
            (''metadata[ffdb_organization_id]'', org), (''metadata[ffdb_tier]'', tier),
            (''subscription_data[metadata][ffdb_scope]'', ''platform''), (''subscription_data[metadata][ffdb_organization_id]'', org),
            (''subscription_data[metadata][ffdb_tier]'', tier)] @ checkout_lines c i @ [customer])))"

definition create_checkout ::
    "stripe_env \<Rightarrow> stripe_config \<Rightarrow> ((string \<times> string) list \<Rightarrow> (nat \<times> string option) option) \<Rightarrow> checkout_input \<Rightarrow> billing_error + string" where
  "create_checkout env c send i =
     bindr (checkout_parameters env c i) (\<lambda>ps. post_form env (ci_idempotency_key i) ''checkout.stripe.com'' (send ps))"

definition create_portal ::
    "stripe_env \<Rightarrow> stripe_config \<Rightarrow> ((string \<times> string) list \<Rightarrow> (nat \<times> string option) option) \<Rightarrow> portal_input \<Rightarrow> billing_error + string" where
  "create_portal env c send i =
     (if \<not> valid_provider_id (pi_customer_id i) ''cus_'' then Err Be_InvalidRequest
      else post_form env (pi_idempotency_key i) ''billing.stripe.com''
        (send [(''customer'', pi_customer_id i), (''return_url'', sv_url_text env (sc_portal_return_url c))]))"

text \<open>The outcome of an answer to a report or a query: 429 counts as unavailable.\<close>

definition provider_failure :: "nat \<Rightarrow> billing_error" where
  "provider_failure status = (if 500 \<le> status \<and> status \<le> 599 \<or> status = 429 then Be_ProviderUnavailable else Be_ProviderRejected)"

definition meter_form :: "usage_meter \<Rightarrow> meter_event \<Rightarrow> (string \<times> string) list" where
  "meter_form m e =
     [(''event_name'', um_event_name m), (''identifier'', me_identifier e), (''payload[stripe_customer_id]'', me_customer_id e),
      (''payload[value]'', show_nat (me_value e)), (''timestamp'', show_int (me_timestamp_ms e div 1000))]"

definition report_usage ::
    "stripe_config \<Rightarrow> ((string \<times> string) list \<Rightarrow> nat option) \<Rightarrow> meter_event \<Rightarrow> billing_error + unit" where
  "report_usage c send e =
     (if \<not> valid_provider_id (me_customer_id e) ''cus_'' \<or> \<not> (8 \<le> length (me_identifier e) \<and> length (me_identifier e) \<le> 100)
        \<or> \<not> list_all (\<lambda>b. is_ascii_alphanumeric b \<or> b = CHR ''_'' \<or> b = CHR ''-'') (me_identifier e)
        \<or> me_value e = 0 \<or> me_timestamp_ms e < 0
      then Err Be_InvalidRequest
      else bindr (find_meter c (me_metric e)) (\<lambda>m.
        case send (meter_form m e) of
          None \<Rightarrow> Err Be_ProviderUnavailable
        | Some status \<Rightarrow> if 200 \<le> status \<and> status \<le> 299 then Ok () else Err (provider_failure status)))"

text \<open>The rows of a summary are the finite floating-point numbers of a JSON text, here as rationals.\<close>

fun add_summary_rows :: "nat \<Rightarrow> rat list \<Rightarrow> billing_error + nat" where
  "add_summary_rows acc [] = Ok acc"
| "add_summary_rows acc (r # rs) =
     (if r < 0 \<or> \<lfloor>r\<rfloor> \<noteq> \<lceil>r\<rceil> then Err Be_ProviderUnavailable
      else bindr (ok_or (checked_add_u64 acc (min u64_max (nat \<lfloor>r\<rfloor>))) Be_ProviderUnavailable) (\<lambda>acc'. add_summary_rows acc' rs))"

definition stripe_usage_summary ::
    "stripe_config \<Rightarrow> (string \<Rightarrow> (string \<times> string) list \<Rightarrow> (nat \<times> (rat list \<times> bool) option) option) \<Rightarrow> summary_input \<Rightarrow> billing_error + nat" where
  "stripe_usage_summary c send i =
     (if \<not> valid_provider_id (su_customer_id i) ''cus_'' \<or> su_start_ms i < 0 \<or> su_end_ms i \<le> su_start_ms i then Err Be_InvalidRequest
      else bindr (find_meter c (su_metric i)) (\<lambda>m.
        case send (um_meter_id m) [(''customer'', su_customer_id i), (''start_time'', show_int (su_start_ms i div 1000)),
            (''end_time'', show_int (su_end_ms i div 1000)), (''limit'', ''100'')] of
          None \<Rightarrow> Err Be_ProviderUnavailable
        | Some (status, body) \<Rightarrow>
            if \<not> (200 \<le> status \<and> status \<le> 299) then Err (provider_failure status)
            else (case body of
                None \<Rightarrow> Err Be_ProviderUnavailable
              | Some (rows, has_more) \<Rightarrow> if has_more then Err Be_ProviderUnavailable else add_summary_rows 0 rows)))"

end
