(* ===== verification/Api_Billing.thy ===== *)
theory Api_Billing
  imports Billing_Stripe Api_Idempotency
begin

text \<open>
  \<open>apps/api/src/billing.rs\<close>: billing accounts and invoices of organizations, kept by verified webhooks, the summary of an
  organization's entitlement, and the redirects to the provider, run under an idempotency key. Tables are lists of
  rows; a webhook is one transaction that an error rolls back (\<open>up = False\<close> when the database fails). The comparison
  of texts in the database is a parameter \<open>coll\<close> (\<open>coll a b\<close>: a sorts at or after b), since it depends on the collation.
\<close>

section \<open>Data\<close>

datatype billing_service_error =
    Bs_InvalidRequest | Bs_InvalidSignature | Bs_InvalidEvent | Bs_Forbidden | Bs_CustomerMissing | Bs_ReplayConflict
  | Bs_ProviderUnavailable | Bs_Unavailable | Bs_Provider billing_error

datatype webhook_outcome = Processed | Duplicate

record billing_account =
  ba_organization_id :: nat
  ba_customer_id :: string
  ba_subscription_id :: "string option"
  ba_tier :: string
  ba_status :: string
  ba_billing_unit :: string
  ba_seat_quantity :: nat
  ba_period_start_ms :: "int option"
  ba_period_end_ms :: "int option"
  ba_cancel_at_period_end :: bool
  ba_last_event_ms :: int
  ba_last_event_id :: string

record invoice_row =
  in_organization_id :: nat
  in_invoice_id :: string
  in_subscription_id :: "string option"
  in_status :: string
  in_currency :: string
  in_amount_due :: int
  in_amount_paid :: int
  in_period_start_ms :: "int option"
  in_period_end_ms :: "int option"
  in_hosted_url :: "string option"
  in_pdf_url :: "string option"
  in_created_at_ms :: int
  in_last_event_ms :: int
  in_last_event_id :: string

record webhook_row =
  wh_event_id :: string
  wh_event_type :: string
  wh_livemode :: bool
  wh_payload_sha256 :: string
  wh_organization_id :: "nat option"
  wh_created_at_ms :: int

record catalog_row =
  ca_tier :: string
  ca_project_limit :: "int option"
  ca_storage_bytes :: int
  ca_monthly_reads :: int
  ca_monthly_writes :: int
  ca_monthly_active_users :: int
  ca_overage_enabled :: bool
  ca_active :: bool

record billing_db =
  bd_organizations :: "(nat \<times> bool) list"
  bd_memberships :: "(nat \<times> nat) list"
  bd_accounts :: "billing_account list"
  bd_invoices :: "invoice_row list"
  bd_events :: "webhook_row list"
  bd_catalog :: "catalog_row list"
  bd_enforcement :: "bool option"
  bd_exemptions :: "nat list"

section \<open>Names\<close>

fun status_name :: "provider_status \<Rightarrow> string" where
  "status_name Ps_CheckoutPending = ''checkout_pending''"
| "status_name Ps_Trialing = ''trialing''"
| "status_name Ps_Active = ''active''"
| "status_name Ps_PastDue = ''past_due''"
| "status_name Ps_Unpaid = ''unpaid''"
| "status_name Ps_Canceled = ''canceled''"
| "status_name Ps_Paused = ''paused''"
| "status_name Ps_Incomplete = ''incomplete''"

fun invoice_status_name :: "invoice_status \<Rightarrow> string" where
  "invoice_status_name Is_Draft = ''draft''"
| "invoice_status_name Is_Open = ''open''"
| "invoice_status_name Is_Paid = ''paid''"
| "invoice_status_name Is_Uncollectible = ''uncollectible''"
| "invoice_status_name Is_Void = ''void''"
| "invoice_status_name Is_PaymentFailed = ''payment_failed''"

fun billing_unit_name :: "billing_unit \<Rightarrow> string" where
  "billing_unit_name Unit_Organization = ''organization''"
| "billing_unit_name Unit_Seat = ''seat''"

datatype billing_status = St_Free | St_Provider provider_status

definition parse_tier :: "string \<Rightarrow> billing_service_error + billing_tier" where
  "parse_tier s =
     (if s = ''free'' then Ok Tier_Free else if s = ''pay_as_you_go'' then Ok Tier_PayAsYouGo else if s = ''pro'' then Ok Tier_Pro
      else Err Bs_Unavailable)"

definition parse_billing_status :: "string \<Rightarrow> billing_service_error + billing_status" where
  "parse_billing_status s =
     (if s = ''free'' then Ok St_Free
      else case List.find (\<lambda>p. status_name p = s)
          [Ps_CheckoutPending, Ps_Trialing, Ps_Active, Ps_PastDue, Ps_Unpaid, Ps_Canceled, Ps_Paused, Ps_Incomplete] of
        Some p \<Rightarrow> Ok (St_Provider p) | None \<Rightarrow> Err Bs_Unavailable)"

definition parse_invoice_status :: "string \<Rightarrow> billing_service_error + invoice_status" where
  "parse_invoice_status s =
     (case List.find (\<lambda>p. invoice_status_name p = s) [Is_Draft, Is_Open, Is_Paid, Is_Uncollectible, Is_Void, Is_PaymentFailed] of
        Some p \<Rightarrow> Ok p | None \<Rightarrow> Err Bs_Unavailable)"

definition parse_billing_unit :: "string \<Rightarrow> billing_service_error + billing_unit" where
  "parse_billing_unit s =
     (if s = ''organization'' then Ok Unit_Organization else if s = ''seat'' then Ok Unit_Seat else Err Bs_Unavailable)"

definition positive_u64 :: "int \<Rightarrow> billing_service_error + nat" where
  "positive_u64 v = (if v > 0 then Ok (nat v) else Err Bs_Unavailable)"

definition positive_or_zero_u64 :: "int \<Rightarrow> billing_service_error + nat" where
  "positive_or_zero_u64 v = (if v \<ge> 0 then Ok (nat v) else Err Bs_Unavailable)"

fun billing_service_response :: "billing_service_error \<Rightarrow> http_response" where
  "billing_service_response Bs_InvalidRequest = Resp_Error 400 ''billing.invalid_request''"
| "billing_service_response Bs_InvalidEvent = Resp_Error 400 ''billing.invalid_request''"
| "billing_service_response Bs_InvalidSignature = Resp_Error 400 ''billing.invalid_webhook_signature''"
| "billing_service_response Bs_Forbidden = Resp_Error 403 ''billing.forbidden''"
| "billing_service_response Bs_CustomerMissing = Resp_Error 409 ''billing.customer_missing''"
| "billing_service_response Bs_ReplayConflict = Resp_Error 409 ''billing.webhook_replay_conflict''"
| "billing_service_response Bs_ProviderUnavailable = Resp_Error 503 ''billing.provider_unavailable''"
| "billing_service_response Bs_Unavailable = Resp_Error 503 ''billing.unavailable''"
| "billing_service_response (Bs_Provider e) =
     (case e of
        Be_InvalidWebhookSignature \<Rightarrow> Resp_Error 400 ''billing.invalid_webhook_signature''
      | Be_InvalidWebhookPayload \<Rightarrow> Resp_Error 400 ''billing.invalid_webhook_payload''
      | Be_ProviderRejected \<Rightarrow> Resp_Error 502 ''billing.provider_rejected''
      | _ \<Rightarrow> Resp_Error 503 ''billing.unavailable'')"

section \<open>Accounts\<close>

definition event_before :: "int \<Rightarrow> string \<Rightarrow> int \<Rightarrow> string \<Rightarrow> bool" where
  "event_before t i t' i' \<longleftrightarrow> t < t' \<or> t = t' \<and> i < i'"

definition event_not_before :: "(string \<Rightarrow> string \<Rightarrow> bool) \<Rightarrow> int \<Rightarrow> string \<Rightarrow> int \<Rightarrow> string \<Rightarrow> bool" where
  "event_not_before coll t i t' i' \<longleftrightarrow> t > t' \<or> t = t' \<and> coll i i'"

definition account_of :: "billing_db \<Rightarrow> nat \<Rightarrow> billing_account option" where
  "account_of db org = List.find (\<lambda>a. ba_organization_id a = org) (bd_accounts db)"

definition account_row :: "verified_event \<Rightarrow> billing_update \<Rightarrow> billing_unit \<Rightarrow> billing_account" where
  "account_row e u pro_unit =
     \<lparr>ba_organization_id = bu_organization_id u, ba_customer_id = bu_customer_id u, ba_subscription_id = bu_subscription_id u,
      ba_tier = tier_name (bu_tier u), ba_status = status_name (bu_status u),
      ba_billing_unit = billing_unit_name (if bu_tier u = Tier_Pro then pro_unit else Unit_Organization),
      ba_seat_quantity = bu_quantity u, ba_period_start_ms = bu_current_period_start_ms u, ba_period_end_ms = bu_current_period_end_ms u,
      ba_cancel_at_period_end = bu_cancel_at_period_end u, ba_last_event_ms = ve_created_at_ms e, ba_last_event_id = ve_provider_event_id e\<rparr>"

text \<open>The constraints on a row: the tier is not free, the quantity is positive, the organization exists, and customer and subscription are those of no other organization.\<close>

definition account_refused :: "billing_db \<Rightarrow> billing_account \<Rightarrow> bool" where
  "account_refused db a \<longleftrightarrow>
     ba_tier a = ''free'' \<or> ba_seat_quantity a = 0 \<or> ba_organization_id a \<notin> fst ` set (bd_organizations db)
     \<or> list_ex (\<lambda>x. ba_organization_id x \<noteq> ba_organization_id a
          \<and> (ba_customer_id x = ba_customer_id a \<or> ba_subscription_id a \<noteq> None \<and> ba_subscription_id x = ba_subscription_id a)) (bd_accounts db)"

definition apply_update ::
    "(string \<Rightarrow> string \<Rightarrow> bool) \<Rightarrow> verified_event \<Rightarrow> billing_update \<Rightarrow> billing_unit \<Rightarrow> billing_db \<Rightarrow> billing_service_error + billing_db" where
  "apply_update coll e u pro_unit db =
     (let existing = account_of db (bu_organization_id u); row = account_row e u pro_unit;
          misscoped = (case existing of None \<Rightarrow> False
            | Some x \<Rightarrow> ba_customer_id x \<noteq> bu_customer_id u
                \<or> (case (ba_subscription_id x, bu_subscription_id u) of
                     (Some old, Some new) \<Rightarrow> new \<noteq> old \<and> ba_status x \<noteq> ''canceled''
                   | _ \<Rightarrow> False));
          stale = (case existing of None \<Rightarrow> False
            | Some x \<Rightarrow> event_before (ve_created_at_ms e) (ve_provider_event_id e) (ba_last_event_ms x) (ba_last_event_id x))
      in if misscoped then Err Bs_InvalidEvent
         else if stale then Ok db
         else if bu_quantity u > 2147483647 then Err Bs_InvalidEvent
         else case existing of
           None \<Rightarrow>
             if account_refused db row then Err Bs_Unavailable else Ok (db\<lparr>bd_accounts := bd_accounts db @ [row]\<rparr>)
         | Some x \<Rightarrow>
             if \<not> event_not_before coll (ve_created_at_ms e) (ve_provider_event_id e) (ba_last_event_ms x) (ba_last_event_id x) then Ok db
             else
               let row' = row\<lparr>ba_subscription_id := or_else (bu_subscription_id u) (ba_subscription_id x)\<rparr>
               in if account_refused db row' then Err Bs_Unavailable
                  else Ok (db\<lparr>bd_accounts := map (\<lambda>y. if ba_organization_id y = bu_organization_id u then row' else y) (bd_accounts db)\<rparr>))"

section \<open>Invoices\<close>

definition invoice_row_of :: "verified_event \<Rightarrow> invoice_update \<Rightarrow> invoice_row" where
  "invoice_row_of e u =
     \<lparr>in_organization_id = iu_organization_id u, in_invoice_id = iu_invoice_id u, in_subscription_id = iu_subscription_id u,
      in_status = invoice_status_name (iu_status u), in_currency = iu_currency u, in_amount_due = int (iu_amount_due_minor u),
      in_amount_paid = int (iu_amount_paid_minor u), in_period_start_ms = iu_period_start_ms u, in_period_end_ms = iu_period_end_ms u,
      in_hosted_url = iu_hosted_invoice_url u, in_pdf_url = iu_invoice_pdf_url u, in_created_at_ms = ve_created_at_ms e,
      in_last_event_ms = ve_created_at_ms e, in_last_event_id = ve_provider_event_id e\<rparr>"

definition invoice_refused :: "invoice_row \<Rightarrow> bool" where
  "invoice_refused r \<longleftrightarrow>
     \<not> (in_amount_paid r \<le> in_amount_due r \<or> in_status r = ''paid'')
     \<or> (case in_hosted_url r of None \<Rightarrow> False | Some u \<Rightarrow> \<not> starts_with u ''https://'')
     \<or> (case in_pdf_url r of None \<Rightarrow> False | Some u \<Rightarrow> \<not> starts_with u ''https://'')"

definition apply_invoice_update ::
    "(string \<Rightarrow> string \<Rightarrow> bool) \<Rightarrow> verified_event \<Rightarrow> invoice_update \<Rightarrow> billing_db \<Rightarrow> billing_service_error + billing_db" where
  "apply_invoice_update coll e u db =
     (case account_of db (iu_organization_id u) of
        None \<Rightarrow> Err Bs_InvalidEvent
      | Some a \<Rightarrow>
          if ba_customer_id a \<noteq> iu_customer_id u
            \<or> (case ba_subscription_id a of None \<Rightarrow> False | Some expected \<Rightarrow> iu_subscription_id u \<noteq> Some expected)
          then Err Bs_InvalidEvent
          else if int (iu_amount_due_minor u) > i64_max \<or> int (iu_amount_paid_minor u) > i64_max then Err Bs_InvalidEvent
          else
            let row = invoice_row_of e u in
            if invoice_refused row then Err Bs_Unavailable
            else case List.find (\<lambda>x. in_invoice_id x = iu_invoice_id u) (bd_invoices db) of
              None \<Rightarrow> Ok (db\<lparr>bd_invoices := bd_invoices db @ [row]\<rparr>)
            | Some x \<Rightarrow>
                if in_organization_id x = iu_organization_id u
                  \<and> event_not_before coll (ve_created_at_ms e) (ve_provider_event_id e) (in_last_event_ms x) (in_last_event_id x)
                then
                  let row' = row\<lparr>in_subscription_id := or_else (iu_subscription_id u) (in_subscription_id x),
                        in_hosted_url := or_else (iu_hosted_invoice_url u) (in_hosted_url x),
                        in_pdf_url := or_else (iu_invoice_pdf_url u) (in_pdf_url x), in_created_at_ms := in_created_at_ms x\<rparr>
                  in Ok (db\<lparr>bd_invoices := map (\<lambda>y. if in_invoice_id y = iu_invoice_id u then row' else y) (bd_invoices db)\<rparr>)
                else if in_organization_id x \<noteq> iu_organization_id u then Err Bs_InvalidEvent
                else Ok db)"

section \<open>Webhooks\<close>

definition persist_event ::
    "(string \<Rightarrow> string \<Rightarrow> bool) \<Rightarrow> (string \<Rightarrow> string) \<Rightarrow> bool \<Rightarrow> string \<Rightarrow> verified_event \<Rightarrow> billing_unit \<Rightarrow> billing_db
      \<Rightarrow> (billing_service_error + webhook_outcome) \<times> billing_db" where
  "persist_event coll sha up payload e pro_unit db =
     (if \<not> up then (Err Bs_Unavailable, db)
      else
        let org = or_else (map_option bu_organization_id (ve_platform_update e)) (map_option iu_organization_id (ve_invoice_update e)) in
        case List.find (\<lambda>w. wh_event_id w = ve_provider_event_id e) (bd_events db) of
          Some w \<Rightarrow> (if wh_payload_sha256 w = sha payload then Ok Duplicate else Err Bs_ReplayConflict, db)
        | None \<Rightarrow>
            if (case org of None \<Rightarrow> False | Some g \<Rightarrow> g \<notin> fst ` set (bd_organizations db)) then (Err Bs_Unavailable, db)
            else
              let db1 = db\<lparr>bd_events := bd_events db @ [\<lparr>wh_event_id = ve_provider_event_id e, wh_event_type = ve_event_type e,
                    wh_livemode = ve_livemode e, wh_payload_sha256 = sha payload, wh_organization_id = org,
                    wh_created_at_ms = ve_created_at_ms e\<rparr>]\<rparr>
              in case
                bindr (case ve_platform_update e of None \<Rightarrow> Ok db1 | Some u \<Rightarrow> apply_update coll e u pro_unit db1) (\<lambda>db2.
                  case ve_invoice_update e of None \<Rightarrow> Ok db2 | Some u \<Rightarrow> apply_invoice_update coll e u db2) of
                  Inl err \<Rightarrow> (Err err, db)
                | Inr db' \<Rightarrow> (Ok Processed, db'))"

text \<open>\<open>provider\<close> is the adapter's configuration, when there is one.\<close>

definition apply_webhook ::
    "stripe_env \<Rightarrow> (string \<Rightarrow> string \<Rightarrow> bool) \<Rightarrow> (string \<Rightarrow> string) \<Rightarrow> bool \<Rightarrow> stripe_config option \<Rightarrow> billing_unit \<Rightarrow> string \<Rightarrow> string \<Rightarrow> int
      \<Rightarrow> billing_db \<Rightarrow> (billing_service_error + webhook_outcome) \<times> billing_db" where
  "apply_webhook env coll sha up provider pro_unit payload signature now db =
     (case provider of
        None \<Rightarrow> (Err Bs_ProviderUnavailable, db)
      | Some c \<Rightarrow>
          (case verify_webhook env c payload signature now of
             Inl err \<Rightarrow> (Err (Bs_Provider err), db)
           | Inr e \<Rightarrow> persist_event coll sha up payload e pro_unit db))"

definition stripe_webhook ::
    "stripe_env \<Rightarrow> (string \<Rightarrow> string \<Rightarrow> bool) \<Rightarrow> (string \<Rightarrow> string) \<Rightarrow> bool \<Rightarrow> stripe_config option \<Rightarrow> billing_unit \<Rightarrow> string option \<Rightarrow> string \<Rightarrow> int
      \<Rightarrow> billing_db \<Rightarrow> http_response \<times> billing_db" where
  "stripe_webhook env coll sha up provider pro_unit header body now_ms db =
     (case header of
        None \<Rightarrow> (billing_service_response Bs_InvalidSignature, db)
      | Some signature \<Rightarrow>
          (case apply_webhook env coll sha up provider pro_unit body signature (now_ms div 1000) db of
             (Inr Processed, db') \<Rightarrow> (Resp_Json 200 (JObject [(''received'', JBool True)]), db')
           | (Inr Duplicate, db') \<Rightarrow> (Resp_Json 200 (JObject [(''received'', JBool True), (''duplicate'', JBool True)]), db')
           | (Inl err, db') \<Rightarrow> (billing_service_response err, db')))"

section \<open>Entitlement\<close>

definition ensure_membership :: "bool \<Rightarrow> billing_db \<Rightarrow> nat \<Rightarrow> nat \<Rightarrow> billing_service_error + unit" where
  "ensure_membership up db org actor =
     (if \<not> up then Err Bs_Unavailable
      else if (org, actor) \<in> set (bd_memberships db) \<and> list_ex (\<lambda>(g, disabled). g = org \<and> \<not> disabled) (bd_organizations db)
      then Ok () else Err Bs_Forbidden)"

record billing_summary =
  bm_organization_id :: nat
  bm_tier :: billing_tier
  bm_status :: billing_status
  bm_billing_unit :: billing_unit
  bm_seat_quantity :: nat
  bm_project_limit :: "nat option"
  bm_usage_allowance :: usage_allowance
  bm_period_start_ms :: "int option"
  bm_period_end_ms :: "int option"
  bm_cancel_at_period_end :: bool
  bm_provider_configured :: bool
  bm_enforcement_enabled :: bool
  bm_exempt :: bool

definition entitlement_tier :: "billing_tier \<Rightarrow> billing_status \<Rightarrow> billing_tier" where
  "entitlement_tier tier status = (if status \<in> {St_Provider Ps_Active, St_Provider Ps_Trialing} then tier else Tier_Free)"

definition billing_summary_of :: "bool \<Rightarrow> bool \<Rightarrow> billing_db \<Rightarrow> nat \<Rightarrow> nat \<Rightarrow> billing_service_error + billing_summary" where
  "billing_summary_of up configured db org actor =
     bindr (ensure_membership up db org actor) (\<lambda>_.
     bindr (case account_of db org of
         None \<Rightarrow> Ok (Tier_Free, St_Free, Unit_Organization, 1, None, None, False)
       | Some a \<Rightarrow>
           bindr (parse_tier (ba_tier a)) (\<lambda>tier. bindr (parse_billing_status (ba_status a)) (\<lambda>status.
           bindr (parse_billing_unit (ba_billing_unit a)) (\<lambda>unt.
             Ok (tier, status, unt, ba_seat_quantity a, ba_period_start_ms a, ba_period_end_ms a, ba_cancel_at_period_end a)))))
       (\<lambda>(tier, status, unt, seats, start_ms, end_ms, cancel).
     bindr (ok_or (List.find (\<lambda>r. ca_tier r = tier_name (entitlement_tier tier status) \<and> ca_active r) (bd_catalog db)) Bs_Unavailable) (\<lambda>cat.
       let enforced = (case bd_enforcement db of None \<Rightarrow> False | Some b \<Rightarrow> b); exempt = (org \<in> set (bd_exemptions db)) in
       bindr (if enforced \<and> \<not> exempt
           then (case ca_project_limit cat of None \<Rightarrow> Ok None | Some l \<Rightarrow> if l < 0 then Err Bs_Unavailable else Ok (Some (nat l)))
           else Ok None) (\<lambda>limit.
       bindr (positive_u64 (ca_storage_bytes cat)) (\<lambda>storage. bindr (positive_u64 (ca_monthly_reads cat)) (\<lambda>reads.
       bindr (positive_u64 (ca_monthly_writes cat)) (\<lambda>writes. bindr (positive_u64 (ca_monthly_active_users cat)) (\<lambda>mau.
         Ok \<lparr>bm_organization_id = org, bm_tier = tier, bm_status = status, bm_billing_unit = unt, bm_seat_quantity = seats,
           bm_project_limit = limit,
           bm_usage_allowance = \<lparr>al_storage_bytes = storage, al_monthly_reads = reads, al_monthly_writes = writes,
             al_monthly_active_users = mau, al_overage_enabled = ca_overage_enabled cat\<rparr>,
           bm_period_start_ms = start_ms, bm_period_end_ms = end_ms, bm_cancel_at_period_end = cancel, bm_provider_configured = configured,
           bm_enforcement_enabled = enforced, bm_exempt = exempt\<rparr>))))))))"

definition list_invoices :: "bool \<Rightarrow> billing_db \<Rightarrow> nat \<Rightarrow> nat \<Rightarrow> billing_service_error + (invoice_row \<times> invoice_status \<times> nat \<times> nat) list" where
  "list_invoices up db org actor =
     bindr (ensure_membership up db org actor) (\<lambda>_.
       mapr (\<lambda>r. bindr (parse_invoice_status (in_status r)) (\<lambda>s. bindr (positive_or_zero_u64 (in_amount_due r)) (\<lambda>due.
           bindr (positive_or_zero_u64 (in_amount_paid r)) (\<lambda>paid. Ok (r, s, due, paid)))))
         (take 100 (rev (sort_key in_created_at_ms (sort_key in_invoice_id (filter (\<lambda>r. in_organization_id r = org) (bd_invoices db)))))))"

section \<open>Redirects\<close>

definition billing_checkout ::
    "stripe_env \<Rightarrow> ((string \<times> string) list \<Rightarrow> (nat \<times> string option) option) \<Rightarrow> bool \<Rightarrow> stripe_config option \<Rightarrow> billing_unit \<Rightarrow> nat \<Rightarrow> billing_tier
      \<Rightarrow> string \<Rightarrow> string \<Rightarrow> billing_db \<Rightarrow> billing_service_error + string" where
  "billing_checkout env send up provider pro_unit org tier email key db =
     (if tier = Tier_Free then Err Bs_InvalidRequest
      else bindr (ok_or provider Bs_ProviderUnavailable) (\<lambda>c.
        if \<not> up then Err Bs_Unavailable
        else
          let members = length (filter (\<lambda>(g, _). g = org) (bd_memberships db)) in
          bindr (if tier = Tier_Pro \<and> pro_unit = Unit_Seat
              then (if max members 1 > u32_max then Err Bs_InvalidRequest else Ok (max members 1)) else Ok 1) (\<lambda>quantity.
            map_err Bs_Provider (create_checkout env c send
              \<lparr>ci_organization_id = org, ci_tier = tier, ci_billing_email = email,
               ci_existing_customer_id = map_option ba_customer_id (account_of db org), ci_quantity = quantity, ci_idempotency_key = key\<rparr>))))"

definition billing_portal ::
    "stripe_env \<Rightarrow> ((string \<times> string) list \<Rightarrow> (nat \<times> string option) option) \<Rightarrow> bool \<Rightarrow> stripe_config option \<Rightarrow> nat \<Rightarrow> string \<Rightarrow> billing_db
      \<Rightarrow> billing_service_error + string" where
  "billing_portal env send up provider org key db =
     bindr (ok_or provider Bs_ProviderUnavailable) (\<lambda>c.
     if \<not> up then Err Bs_Unavailable
     else bindr (ok_or (account_of db org) Bs_CustomerMissing) (\<lambda>a.
       map_err Bs_Provider (create_portal env c send
         \<lparr>pi_organization_id = org, pi_customer_id = ba_customer_id a, pi_idempotency_key = key\<rparr>)))"

definition provider_idempotency_key :: "idem_env \<Rightarrow> string \<Rightarrow> nat \<Rightarrow> string \<Rightarrow> string" where
  "provider_idempotency_key env operation org caller_key =
     ''ffdb-'' @ operation @ ''-'' @ concat (map hex_byte (ie_sha256 env
       (''ffdb.stripe.idempotency.v1'' @ [CHR 0x00] @ operation @ ie_uuid_bytes env org @ caller_key)))"

end
