(* ===== verification/Billing_Properties.thy ===== *)
theory Billing_Properties
  imports Api_Billing
begin

text \<open>
  Platform billing: an accepted webhook is signed, and a subscription it reports has exactly the prices of its tier; the
  account an organization ends up with depends on the set of its subscription events, not on their order or
  repetition. Lemmas show what a late checkout event and events of the same second do.
\<close>

section \<open>Webhooks are authentic\<close>

lemma signature_fields_sigs:
  "signature_fields fs (t, sigs) = (t', sigs') \<Longrightarrow> s \<in> set sigs' \<Longrightarrow>
    s \<in> set sigs \<or> (\<exists>f \<in> set fs. split_once CHR ''='' (trim f) = Some (''v1'', s))"
  by (induction fs "(t, sigs)" arbitrary: t sigs rule: signature_fields.induct)
    (fastforce split: option.split_asm if_split_asm)+

lemma subscription_item_Ok:
  assumes "subscription_item env c item s = Ok s'"
  shows "1 \<le> is_base_quantity s \<and> is_base_quantity s \<le> 100000 \<Longrightarrow> 1 \<le> is_base_quantity s' \<and> is_base_quantity s' \<le> 100000"
  using assms by (auto simp: subscription_item_def bindr_eq_Ok Let_def split: if_split_asm option.split_asm)

lemma subscription_items_Ok:
  "subscription_items env c items s = Ok s' \<Longrightarrow> 1 \<le> is_base_quantity s \<and> is_base_quantity s \<le> 100000
    \<Longrightarrow> 1 \<le> is_base_quantity s' \<and> is_base_quantity s' \<le> 100000"
proof (induction items arbitrary: s)
  case (Cons i items)
  then show ?case using subscription_item_Ok by (fastforce simp: bindr_eq_Ok)
qed simp

text \<open>The prices of a subscription, read from its items.\<close>

definition item_price :: "json \<Rightarrow> string option" where
  "item_price item = Option.bind (Option.bind (jv_object item) (\<lambda>es. map_of es ''price'')) (\<lambda>p.
     case stripe_reference (Some p) ''price_'' of Inl _ \<Rightarrow> None | Inr r \<Rightarrow> Some r)"

lemma subscription_item_price:
  assumes "subscription_item env c item s = Ok s'"
  obtains p where "item_price item = Some p" "is_prices s' = p # is_prices s"
  using assms by (auto simp: subscription_item_def item_price_def bindr_eq_Ok ok_or_eq_Ok map_err_def Let_def
      split: if_split_asm option.split_asm sum.split_asm)

lemma subscription_items_prices:
  "subscription_items env c items s = Ok s' \<Longrightarrow> Some ` set (is_prices s') = item_price ` set items \<union> Some ` set (is_prices s)"
proof (induction items arbitrary: s)
  case (Cons i items)
  obtain s1 where s1: "subscription_item env c i s = Ok s1" "subscription_items env c items s1 = Ok s'"
    using Cons.prems by (auto simp: bindr_eq_Ok)
  obtain p where "item_price i = Some p" "is_prices s1 = p # is_prices s" by (rule subscription_item_price [OF s1(1)])
  then show ?case using Cons.IH [OF s1(2)] by auto
qed simp

definition object_items :: "json \<Rightarrow> json list" where
  "object_items v = (case Option.bind (jv_pointer [''items'', ''data''] v) jv_array of None \<Rightarrow> [] | Some is \<Rightarrow> is)"

lemma subscription_update_Ok:
  assumes "subscription_update env c object ty = Ok (Some u)"
  shows "bu_tier u \<noteq> Tier_Free" "item_price ` set (object_items object) = Some ` expected_prices c (bu_tier u)"
    and "1 \<le> bu_quantity u \<and> bu_quantity u \<le> 100000" "bu_subscription_id u \<noteq> None"
proof -
  obtain md where md: "platform_metadata object = Some md"
    using assms by (auto simp: subscription_update_def split: option.split_asm)
  have "\<exists>items s tier. (case Option.bind (jv_pointer [''items'', ''data''] object) jv_array of
        Some (i # is) \<Rightarrow> Ok (i # is) | _ \<Rightarrow> Err Be_InvalidWebhookPayload) = Ok items
    \<and> subscription_items env c items \<lparr>is_prices = [], is_base_quantity = 1, is_start = None, is_end = None\<rparr> = Ok s
    \<and> tier \<noteq> Tier_Free \<and> \<not> set (is_prices s) \<noteq> expected_prices c tier \<and> bu_tier u = tier
    \<and> bu_quantity u = (if tier = Tier_Pro then is_base_quantity s else 1) \<and> bu_subscription_id u \<noteq> None"
    using assms unfolding subscription_update_def md option.case
    by (elim bindr_OkE if_Err_OkE, intro exI conjI) (assumption | simp only: sum.inject option.inject, force)+
  then obtain items s tier where items: "(case Option.bind (jv_pointer [''items'', ''data''] object) jv_array of
        Some (i # is) \<Rightarrow> Ok (i # is) | _ \<Rightarrow> Err Be_InvalidWebhookPayload) = Ok items"
    and s: "subscription_items env c items \<lparr>is_prices = [], is_base_quantity = 1, is_start = None, is_end = None\<rparr> = Ok s"
    and u: "bu_tier u = tier" "tier \<noteq> Tier_Free" "set (is_prices s) = expected_prices c tier"
      "bu_quantity u = (if tier = Tier_Pro then is_base_quantity s else 1)" "bu_subscription_id u \<noteq> None"
    by blast
  have items': "Option.bind (jv_pointer [''items'', ''data''] object) jv_array = Some items"
    using items by (auto split: option.split_asm list.split_asm simp del: jv_pointer.simps)
  show "bu_tier u \<noteq> Tier_Free" "bu_subscription_id u \<noteq> None" using u by simp_all
  show "item_price ` set (object_items object) = Some ` expected_prices c (bu_tier u)"
    using subscription_items_prices [OF s] u(1,3) by (simp add: object_items_def items' del: jv_pointer.simps)
  show "1 \<le> bu_quantity u \<and> bu_quantity u \<le> 100000" using subscription_items_Ok [OF s] u(4) by simp
qed

definition subscription_events :: "string set" where
  "subscription_events = {''customer.subscription.created'', ''customer.subscription.updated'', ''customer.subscription.deleted'',
     ''customer.subscription.paused'', ''customer.subscription.resumed''}"

lemma checkout_update_Ok:
  assumes "checkout_update env object = Ok (Some u)"
  shows "bu_tier u \<noteq> Tier_Free" "bu_status u = Ps_CheckoutPending" "bu_quantity u = 1"
  using assms by (auto simp: checkout_update_def bindr_eq_Ok split: option.split_asm if_split_asm)

lemma parse_event_Ok:
  assumes "parse_event env c payload = Ok e"
  obtains ev where "sv_parse_event env payload = Some ev" "ve_provider_event_id e = se_id ev" "ve_event_type e = se_type ev"
    "ve_livemode e = starts_with (sc_secret_key c) ''sk_live_''" "se_account ev = sc_connected_account c"
    "ve_platform_update e \<noteq> None \<longrightarrow> se_type ev = ''checkout.session.completed'' \<and> checkout_update env (se_object ev) = Ok (ve_platform_update e)
       \<or> se_type ev \<in> subscription_events \<and> subscription_update env c (se_object ev) (se_type ev) = Ok (ve_platform_update e)"
proof -
  have "\<exists>ev. sv_parse_event env payload = Some ev \<and> \<not> se_account ev \<noteq> sc_connected_account c
    \<and> \<not> se_livemode ev \<noteq> starts_with (sc_secret_key c) ''sk_live_''
    \<and> ve_provider_event_id e = se_id ev \<and> ve_event_type e = se_type ev \<and> ve_livemode e = se_livemode ev
    \<and> (if se_type ev = ''checkout.session.completed'' then checkout_update env (se_object ev)
        else if se_type ev \<in> subscription_events then subscription_update env c (se_object ev) (se_type ev) else Ok None) = Ok (ve_platform_update e)"
    using assms unfolding parse_event_def subscription_events_def [symmetric]
    by (elim bindr_OkE if_Err_OkE, intro exI conjI) (simp only: ok_or_eq_Ok | assumption | simp only: sum.inject, force)+
  then obtain ev where ev: "sv_parse_event env payload = Some ev" "se_account ev = sc_connected_account c"
      "se_livemode ev = starts_with (sc_secret_key c) ''sk_live_''"
      "ve_provider_event_id e = se_id ev" "ve_event_type e = se_type ev" "ve_livemode e = se_livemode ev"
    and platform: "(if se_type ev = ''checkout.session.completed'' then checkout_update env (se_object ev)
        else if se_type ev \<in> subscription_events then subscription_update env c (se_object ev) (se_type ev) else Ok None) = Ok (ve_platform_update e)"
    by blast
  have "ve_platform_update e \<noteq> None \<longrightarrow> se_type ev = ''checkout.session.completed'' \<and> checkout_update env (se_object ev) = Ok (ve_platform_update e)
       \<or> se_type ev \<in> subscription_events \<and> subscription_update env c (se_object ev) (se_type ev) = Ok (ve_platform_update e)"
    using platform by (cases "ve_platform_update e") (simp_all split: if_split_asm)
  then show ?thesis using that [OF ev(1,4,5)] ev by simp
qed

text \<open>
  C40. An accepted webhook is authentic and means what was paid for: one of its signatures is the MAC of its time and its
  text under the webhook secret, made within five minutes of now; it is of the account and the mode the instance is configured for;
  and when it updates an organization from a subscription, the prices of the subscription are exactly the prices of the
  tier, which is not the free one, in a quantity within bounds. A checkout alone never activates anything.
\<close>

theorem accepted_webhook_is_authentic:
  assumes "verify_webhook env c payload signature now = Ok e"
  shows "\<exists>t s f ev. f \<in> set (split_on CHR '','' signature) \<and> split_once CHR ''='' (trim f) = Some (''v1'', s)
    \<and> decode_hex_32 s = Some (sv_hmac env (sc_webhook_secret c) (signed_text t payload)) \<and> \<bar>now - t\<bar> \<le> 300
    \<and> sv_parse_event env payload = Some ev \<and> ve_provider_event_id e = se_id ev \<and> se_account ev = sc_connected_account c
    \<and> ve_livemode e = starts_with (sc_secret_key c) ''sk_live_''
    \<and> (\<forall>u. ve_platform_update e = Some u \<longrightarrow>
         bu_tier u \<noteq> Tier_Free \<and> 1 \<le> bu_quantity u \<and> bu_quantity u \<le> 100000
         \<and> (bu_status u \<noteq> Ps_CheckoutPending \<longrightarrow> item_price ` set (object_items (se_object ev)) = Some ` expected_prices c (bu_tier u)))"
proof -
  obtain t0 sigs where fields: "signature_fields (split_on CHR '','' signature) (None, []) = (t0, sigs)" by fastforce
  then obtain t where t: "t0 = Some t" "nat \<bar>now - t\<bar> \<le> 300" and sig: "list_ex (signature_matches env c t payload) sigs"
    and parsed: "parse_event env c payload = Ok e"
    using assms by (auto simp: verify_webhook_def bindr_eq_Ok ok_or_eq_Ok SIGNATURE_TOLERANCE_SECONDS_def split: if_split_asm)
  obtain s where s: "s \<in> set sigs" "decode_hex_32 s = Some (sv_hmac env (sc_webhook_secret c) (signed_text t payload))"
    using sig by (auto simp: list_ex_iff signature_matches_def split: option.split_asm)
  obtain f where f: "f \<in> set (split_on CHR '','' signature)" "split_once CHR ''='' (trim f) = Some (''v1'', s)"
    using signature_fields_sigs [OF fields s(1)] by auto
  obtain ev where ev: "sv_parse_event env payload = Some ev" "ve_provider_event_id e = se_id ev" "ve_event_type e = se_type ev"
    "ve_livemode e = starts_with (sc_secret_key c) ''sk_live_''" "se_account ev = sc_connected_account c"
    "ve_platform_update e \<noteq> None \<longrightarrow> se_type ev = ''checkout.session.completed'' \<and> checkout_update env (se_object ev) = Ok (ve_platform_update e)
       \<or> se_type ev \<in> subscription_events \<and> subscription_update env c (se_object ev) (se_type ev) = Ok (ve_platform_update e)"
    by (rule parse_event_Ok [OF parsed])
  have "bu_tier u \<noteq> Tier_Free \<and> 1 \<le> bu_quantity u \<and> bu_quantity u \<le> 100000
      \<and> (bu_status u \<noteq> Ps_CheckoutPending \<longrightarrow> item_price ` set (object_items (se_object ev)) = Some ` expected_prices c (bu_tier u))"
    if "ve_platform_update e = Some u" for u
    using ev(6) that checkout_update_Ok [of env "se_object ev" u] subscription_update_Ok [of env c "se_object ev" "se_type ev" u] by auto
  moreover have "\<bar>now - t\<bar> \<le> 300" using t(2) by linarith
  ultimately show ?thesis using f s(2) ev(1,2,4,5) by blast
qed

section \<open>Accounts converge\<close>

type_synonym delivery = "string \<times> verified_event"

fun deliver :: "(string \<Rightarrow> string \<Rightarrow> bool) \<Rightarrow> (string \<Rightarrow> string) \<Rightarrow> billing_unit \<Rightarrow> delivery list \<Rightarrow> billing_db \<Rightarrow> billing_db" where
  "deliver coll sha pro_unit [] db = db"
| "deliver coll sha pro_unit ((payload, e) # ds) db = deliver coll sha pro_unit ds (snd (persist_event coll sha True payload e pro_unit db))"

text \<open>The events of one subscription of an organization: what can be delivered, in any order and repeatedly.\<close>

definition update_of :: "verified_event \<Rightarrow> billing_update" where
  "update_of e = the (ve_platform_update e)"

definition feed_event :: "nat \<Rightarrow> string \<Rightarrow> string \<Rightarrow> verified_event \<Rightarrow> bool" where
  "feed_event org customer subscription e \<longleftrightarrow>
     ve_platform_update e \<noteq> None \<and> ve_invoice_update e = None \<and> bu_organization_id (update_of e) = org
     \<and> bu_customer_id (update_of e) = customer \<and> bu_subscription_id (update_of e) = Some subscription
     \<and> bu_tier (update_of e) \<noteq> Tier_Free \<and> 1 \<le> bu_quantity (update_of e) \<and> bu_quantity (update_of e) \<le> 100000"

definition feed :: "nat \<Rightarrow> string \<Rightarrow> string \<Rightarrow> delivery set \<Rightarrow> bool" where
  "feed org customer subscription F \<longleftrightarrow>
     (\<forall>d \<in> F. feed_event org customer subscription (snd d))
     \<and> (\<forall>d \<in> F. \<forall>d' \<in> F. ve_provider_event_id (snd d) = ve_provider_event_id (snd d') \<longrightarrow> d = d')"

text \<open>No account of another organization has the customer or the subscription.\<close>

definition separate :: "nat \<Rightarrow> string \<Rightarrow> string \<Rightarrow> billing_db \<Rightarrow> bool" where
  "separate org customer subscription db \<longleftrightarrow>
     org \<in> fst ` set (bd_organizations db)
     \<and> list_all (\<lambda>x. ba_organization_id x \<noteq> org \<longrightarrow> ba_customer_id x \<noteq> customer \<and> ba_subscription_id x \<noteq> Some subscription) (bd_accounts db)"

definition event_seen :: "(string \<Rightarrow> string) \<Rightarrow> billing_db \<Rightarrow> delivery \<Rightarrow> bool" where
  "event_seen sha db d \<longleftrightarrow> (\<exists>w. List.find (\<lambda>w. wh_event_id w = ve_provider_event_id (snd d)) (bd_events db) = Some w \<and> wh_payload_sha256 w = sha (fst d))"

definition unseen :: "billing_db \<Rightarrow> delivery \<Rightarrow> bool" where
  "unseen db d \<longleftrightarrow> List.find (\<lambda>w. wh_event_id w = ve_provider_event_id (snd d)) (bd_events db) = None"

definition older :: "verified_event \<Rightarrow> verified_event \<Rightarrow> bool" where
  "older e e' \<longleftrightarrow> event_before (ve_created_at_ms e) (ve_provider_event_id e) (ve_created_at_ms e') (ve_provider_event_id e')"

definition newest :: "delivery set \<Rightarrow> verified_event \<Rightarrow> bool" where
  "newest P e \<longleftrightarrow> e \<in> snd ` P \<and> (\<forall>d \<in> P. \<not> older e (snd d))"

text \<open>The state after the deliveries in \<open>P\<close> out of the feed \<open>F\<close>.\<close>

definition delivered ::
    "(string \<Rightarrow> string) \<Rightarrow> billing_unit \<Rightarrow> nat \<Rightarrow> string \<Rightarrow> string \<Rightarrow> delivery set \<Rightarrow> delivery set \<Rightarrow> billing_db \<Rightarrow> bool" where
  "delivered sha pro_unit org customer subscription F P db \<longleftrightarrow>
     separate org customer subscription db \<and> (\<forall>d \<in> P. event_seen sha db d) \<and> (\<forall>d \<in> F - P. unseen db d)
     \<and> (if P = {} then account_of db org = None
        else \<exists>e. newest P e \<and> account_of db org = Some (account_row e (update_of e) pro_unit))"

lemma older_total: "\<not> older e e' \<Longrightarrow> \<not> older e' e \<Longrightarrow> ve_provider_event_id e = ve_provider_event_id e'"
  by (auto simp: older_def event_before_def)

lemma not_older_trans: "\<not> older e e' \<Longrightarrow> \<not> older e' e'' \<Longrightarrow> \<not> older e e''"
  by (auto simp: older_def event_before_def)

lemma account_not_refused:
  assumes "feed_event org customer subscription e" "separate org customer subscription db"
  shows "\<not> account_refused db (account_row e (update_of e) pro_unit)"
proof -
  have "tier_name (bu_tier (update_of e)) \<noteq> ''free''" using assms(1) by (cases "bu_tier (update_of e)") (auto simp: feed_event_def)
  then show ?thesis using assms
    by (auto simp: account_refused_def account_row_def feed_event_def separate_def list_ex_iff list_all_iff)
qed

lemma apply_update_feed:
  assumes "feed_event org customer subscription e" "separate org customer subscription db"
    and "account_of db org = None \<or> (\<exists>e'. feed_event org customer subscription e' \<and> account_of db org = Some (account_row e' (update_of e') pro_unit))"
  obtains db' where "apply_update (\<lambda>a b. b \<le> a) e (update_of e) pro_unit db = Ok db'" "separate org customer subscription db'"
    "bd_events db' = bd_events db"
    "account_of db' org = (case account_of db org of None \<Rightarrow> Some (account_row e (update_of e) pro_unit)
       | Some x \<Rightarrow> if event_before (ve_created_at_ms e) (ve_provider_event_id e) (ba_last_event_ms x) (ba_last_event_id x) then Some x
           else Some (account_row e (update_of e) pro_unit))"
proof -
  let ?row = "account_row e (update_of e) pro_unit"
  have e: "bu_organization_id (update_of e) = org" "bu_customer_id (update_of e) = customer"
      "bu_subscription_id (update_of e) = Some subscription" "\<not> bu_quantity (update_of e) > 2147483647"
    using assms(1) by (auto simp: feed_event_def)
  note refused = account_not_refused [OF assms(1,2), of pro_unit]
  have row: "ba_organization_id ?row = org" by (simp add: account_row_def e)
  have sub: "?row\<lparr>ba_subscription_id := Some subscription\<rparr> = ?row" by (simp add: account_row_def e)
  show ?thesis
  proof (cases "account_of db org")
    case None
    have "separate org customer subscription (db\<lparr>bd_accounts := bd_accounts db @ [?row]\<rparr>)"
      using assms(2) row by (simp add: separate_def)
    moreover have "account_of (db\<lparr>bd_accounts := bd_accounts db @ [?row]\<rparr>) org = Some ?row"
      using None row by (simp add: account_of_def find_append)
    ultimately show ?thesis
      using that [of "db\<lparr>bd_accounts := bd_accounts db @ [?row]\<rparr>"] None e refused by (simp add: apply_update_def)
  next
    case (Some x)
    then obtain e' where e': "feed_event org customer subscription e'" "x = account_row e' (update_of e') pro_unit" using assms(3) by auto
    then have x: "ba_customer_id x = customer" "ba_subscription_id x = Some subscription" "ba_organization_id x = org"
      by (auto simp: account_row_def feed_event_def)
    let ?stale = "event_before (ve_created_at_ms e) (ve_provider_event_id e) (ba_last_event_ms x) (ba_last_event_id x)"
    let ?db = "db\<lparr>bd_accounts := map (\<lambda>y. if ba_organization_id y = org then ?row else y) (bd_accounts db)\<rparr>"
    show ?thesis
    proof (cases ?stale)
      case True
      then show ?thesis using that [of db] Some e x assms(2) by (simp add: apply_update_def)
    next
      case False
      then have due: "event_not_before (\<lambda>a b. b \<le> a) (ve_created_at_ms e) (ve_provider_event_id e) (ba_last_event_ms x) (ba_last_event_id x)"
        by (auto simp: event_not_before_def event_before_def)
      have "separate org customer subscription ?db" using assms(2) row by (auto simp: separate_def list_all_iff)
      moreover have "account_of ?db org = Some ?row"
      proof -
        have "List.find (\<lambda>a. ba_organization_id a = org) (map (\<lambda>y. if ba_organization_id y = org then ?row else y) as) = Some ?row"
          if "List.find (\<lambda>a. ba_organization_id a = org) as = Some x" for as
          using that row by (induction as) (auto split: if_split_asm)
        then show ?thesis using Some by (simp add: account_of_def)
      qed
      moreover have "apply_update (\<lambda>a b. b \<le> a) e (update_of e) pro_unit db = Ok ?db"
        using Some False due e x refused sub by (simp add: apply_update_def or_else_def)
      ultimately show ?thesis using that [of ?db] Some False by simp
    qed
  qed
qed

lemma event_seen_append:
  assumes "ws = bd_events db @ [w]" "bd_events db' = ws"
  shows "event_seen sha db d \<Longrightarrow> event_seen sha db' d" "unseen db d \<Longrightarrow> wh_event_id w \<noteq> ve_provider_event_id (snd d) \<Longrightarrow> unseen db' d"
    and "unseen db d \<Longrightarrow> wh_event_id w = ve_provider_event_id (snd d) \<Longrightarrow> wh_payload_sha256 w = sha (fst d) \<Longrightarrow> event_seen sha db' d"
  using assms by (auto simp: event_seen_def unseen_def find_append)

lemma delivered_step:
  assumes "feed org customer subscription F" "delivered sha pro_unit org customer subscription F P db" "P \<subseteq> F" "(payload, e) \<in> F"
  shows "delivered sha pro_unit org customer subscription F (insert (payload, e) P) (snd (persist_event (\<lambda>a b. b \<le> a) sha True payload e pro_unit db))"
proof (cases "(payload, e) \<in> P")
  case True
  then obtain w where "List.find (\<lambda>w. wh_event_id w = ve_provider_event_id e) (bd_events db) = Some w" "wh_payload_sha256 w = sha payload"
    using assms(2) by (fastforce simp: delivered_def event_seen_def)
  then have "snd (persist_event (\<lambda>a b. b \<le> a) sha True payload e pro_unit db) = db" by (simp add: persist_event_def Let_def)
  then show ?thesis using True assms(2) by (simp add: insert_absorb)
next
  case False
  have e: "feed_event org customer subscription e" using assms(1,4) by (auto simp: feed_def)
  have unseen: "unseen db (payload, e)" using assms(2,4) False by (auto simp: delivered_def)
  then have new: "List.find (\<lambda>w. wh_event_id w = ve_provider_event_id e) (bd_events db) = None" by (simp add: unseen_def)
  have update: "ve_platform_update e = Some (update_of e)" "ve_invoice_update e = None" "bu_organization_id (update_of e) = org"
    using e by (auto simp: feed_event_def update_of_def)
  define w where "w = \<lparr>wh_event_id = ve_provider_event_id e, wh_event_type = ve_event_type e, wh_livemode = ve_livemode e,
      wh_payload_sha256 = sha payload, wh_organization_id = Some org, wh_created_at_ms = ve_created_at_ms e\<rparr>"
  define db1 where "db1 = db\<lparr>bd_events := bd_events db @ [w]\<rparr>"
  have sep: "separate org customer subscription db1" and acc: "account_of db1 org = account_of db org"
    using assms(2) by (auto simp: delivered_def separate_def db1_def account_of_def)
  have known: "account_of db1 org = None \<or> (\<exists>e'. feed_event org customer subscription e' \<and> account_of db1 org = Some (account_row e' (update_of e') pro_unit))"
  proof (cases "P = {}")
    case True
    then show ?thesis using assms(2) acc by (simp add: delivered_def)
  next
    case False
    then obtain e' where "newest P e'" "account_of db org = Some (account_row e' (update_of e') pro_unit)"
      using assms(2) by (auto simp: delivered_def)
    then show ?thesis using acc assms(1,3) by (fastforce simp: newest_def feed_def)
  qed
  obtain db' where db': "apply_update (\<lambda>a b. b \<le> a) e (update_of e) pro_unit db1 = Ok db'" "separate org customer subscription db'"
    "bd_events db' = bd_events db1"
    "account_of db' org = (case account_of db1 org of None \<Rightarrow> Some (account_row e (update_of e) pro_unit)
       | Some x \<Rightarrow> if event_before (ve_created_at_ms e) (ve_provider_event_id e) (ba_last_event_ms x) (ba_last_event_id x) then Some x
           else Some (account_row e (update_of e) pro_unit))"
    by (rule apply_update_feed [OF e sep known])
  have "org \<in> fst ` set (bd_organizations db)" using assms(2) by (simp add: delivered_def separate_def)
  then have result: "snd (persist_event (\<lambda>a b. b \<le> a) sha True payload e pro_unit db) = db'"
    using new update db'(1) by (simp add: persist_event_def Let_def or_else_def w_def [symmetric] db1_def [symmetric])
  have events: "bd_events db' = bd_events db @ [w]" using db'(3) by (simp add: db1_def)
  have others: "wh_event_id w \<noteq> ve_provider_event_id (snd d)" if "d \<in> F - insert (payload, e) P" for d
    using assms(1,4) that by (auto simp: feed_def w_def)
  have "\<forall>d \<in> insert (payload, e) P. event_seen sha db' d"
    using assms(2) unseen event_seen_append(1,3) [OF refl events, where sha = sha] by (auto simp: delivered_def w_def)
  moreover have "\<forall>d \<in> F - insert (payload, e) P. unseen db' d"
    using assms(2) others event_seen_append(2) [OF refl events] by (auto simp: delivered_def)
  moreover have "\<exists>n. newest (insert (payload, e) P) n \<and> account_of db' org = Some (account_row n (update_of n) pro_unit)"
  proof (cases "P = {}")
    case True
    then have "account_of db' org = Some (account_row e (update_of e) pro_unit)" using db'(4) acc assms(2) by (simp add: delivered_def)
    then show ?thesis using True by (auto simp: newest_def older_def event_before_def)
  next
    case False
    then obtain n where n: "newest P n" "account_of db org = Some (account_row n (update_of n) pro_unit)"
      using assms(2) by (auto simp: delivered_def)
    show ?thesis
    proof (cases "older e n")
      case True
      then have "account_of db' org = Some (account_row n (update_of n) pro_unit)"
        using db'(4) acc n(2) by (simp add: older_def account_row_def)
      moreover have "\<not> older n e" using True by (auto simp: older_def event_before_def)
      ultimately show ?thesis using n(1) by (auto simp: newest_def)
    next
      case False
      then have "account_of db' org = Some (account_row e (update_of e) pro_unit)"
        using db'(4) acc n(2) by (simp add: older_def account_row_def)
      moreover have "\<not> older e e" by (simp add: older_def event_before_def)
      moreover have "\<not> older e (snd d)" if "d \<in> P" for d using not_older_trans [OF False] n(1) that by (auto simp: newest_def)
      ultimately show ?thesis by (auto simp: newest_def)
    qed
  qed
  ultimately show ?thesis using result db'(2) by (simp add: delivered_def)
qed

lemma delivered_all:
  assumes "feed org customer subscription F"
  shows "delivered sha pro_unit org customer subscription F P db \<Longrightarrow> P \<subseteq> F \<Longrightarrow> set ds \<subseteq> F \<Longrightarrow>
    delivered sha pro_unit org customer subscription F (P \<union> set ds) (deliver (\<lambda>a b. b \<le> a) sha pro_unit ds db)"
proof (induction ds arbitrary: P db)
  case (Cons d ds)
  obtain payload e where d: "d = (payload, e)" by (cases d)
  have "delivered sha pro_unit org customer subscription F (insert d P) (snd (persist_event (\<lambda>a b. b \<le> a) sha True payload e pro_unit db))"
    using delivered_step [OF assms Cons.prems(1,2), of payload e] Cons.prems(3) by (simp add: d)
  from Cons.IH [OF this] show ?case using Cons.prems(2,3) by (simp add: d)
qed simp

lemma newest_unique:
  assumes "feed org customer subscription F" "newest F e" "newest F e'"
  shows "e = e'"
proof -
  obtain d d' where d: "d \<in> F" "e = snd d" "d' \<in> F" "e' = snd d'" using assms(2,3) by (auto simp: newest_def)
  then have "ve_provider_event_id e = ve_provider_event_id e'" using older_total assms(2,3) by (auto simp: newest_def)
  then show ?thesis using assms(1) d by (auto simp: feed_def)
qed

text \<open>
  C39. The account of an organization converges: however the events of its subscription are delivered, late, out of
  order or more than once, the account is the one the newest of them describes (by time, then identifier). Any two deliveries of
  the same set of events end in the same account. This holds where the database compares texts by their bytes.
\<close>

theorem billing_account_converges:
  assumes "feed org customer subscription (set ds)" "ds \<noteq> []" "set ds = set ds'"
    and "separate org customer subscription db" "account_of db org = None" "list_all (unseen db) ds"
    and "coll = (\<lambda>a b. b \<le> a)"
  shows "\<exists>e \<in> snd ` set ds. (\<forall>d \<in> set ds. \<not> older e (snd d))
    \<and> account_of (deliver coll sha pro_unit ds db) org = Some (account_row e (update_of e) pro_unit)
    \<and> account_of (deliver coll sha pro_unit ds' db) org = Some (account_row e (update_of e) pro_unit)"
proof -
  have start: "delivered sha pro_unit org customer subscription (set ds) {} db"
    using assms(4-6) by (simp add: delivered_def list_all_iff)
  have fin: "\<exists>e. newest (set ds) e \<and> account_of (deliver coll sha pro_unit xs db) org = Some (account_row e (update_of e) pro_unit)"
    if "set xs = set ds" for xs
    using delivered_all [OF assms(1) start, of xs] that assms(2) by (simp add: delivered_def assms(7))
  obtain e where e: "newest (set ds) e" "account_of (deliver coll sha pro_unit ds db) org = Some (account_row e (update_of e) pro_unit)"
    using fin by blast
  obtain e' where e': "newest (set ds) e'" "account_of (deliver coll sha pro_unit ds' db) org = Some (account_row e' (update_of e') pro_unit)"
    using fin [of ds'] assms(3) by auto
  have "e' = e" by (rule newest_unique [OF assms(1) e'(1) e(1)])
  then show ?thesis using e e'(2) by (auto simp: newest_def)
qed

section \<open>What the order of events does not tell\<close>

text \<open>
  A completed checkout that is newer than the activation of its subscription resets the account to pending, and with it the
  entitlement, until the next event of the subscription.
\<close>

lemma late_checkout_suspends_entitlement:
  assumes "account_of db org = Some x" "ba_customer_id x = bu_customer_id u" "ba_subscription_id x = bu_subscription_id u"
    and "bu_organization_id u = org" "bu_status u = Ps_CheckoutPending" "bu_quantity u = 1"
    and "ba_last_event_ms x < ve_created_at_ms e" "apply_update coll e u pro_unit db = Ok db'"
  shows "\<exists>y. account_of db' org = Some y \<and> ba_status y = ''checkout_pending'' \<and> ba_period_end_ms y = bu_current_period_end_ms u
    \<and> entitlement_tier tier (St_Provider Ps_CheckoutPending) = Tier_Free"
proof -
  let ?row = "(account_row e u pro_unit)\<lparr>ba_subscription_id := or_else (bu_subscription_id u) (ba_subscription_id x)\<rparr>"
  have db': "bd_accounts db' = map (\<lambda>y. if ba_organization_id y = org then ?row else y) (bd_accounts db)"
    using assms by (auto simp: apply_update_def event_before_def event_not_before_def Let_def split: if_split_asm option.split_asm)
  have "List.find (\<lambda>a. ba_organization_id a = org) (map (\<lambda>y. if ba_organization_id y = org then ?row else y) as) = Some ?row"
    if "List.find (\<lambda>a. ba_organization_id a = org) as = Some x" for as
    using that assms(4) by (induction as) (auto simp: account_row_def split: if_split_asm)
  then have "account_of db' org = Some ?row" using assms(1) by (simp add: account_of_def db')
  then show ?thesis using assms(5) by (auto simp: account_row_def entitlement_tier_def)
qed

text \<open>Of two events of the same second the one with the smaller identifier is dropped, whichever came later.\<close>

lemma same_second_event_is_dropped:
  assumes "account_of db (bu_organization_id u) = Some x" "ba_customer_id x = bu_customer_id u" "ba_subscription_id x = bu_subscription_id u"
    and "ve_created_at_ms e = ba_last_event_ms x" "ve_provider_event_id e < ba_last_event_id x"
  shows "apply_update coll e u pro_unit db = Ok db"
  using assms by (auto simp: apply_update_def event_before_def Let_def split: option.split)

section \<open>Examples\<close>

definition demo_billing_event :: "string \<Rightarrow> int \<Rightarrow> provider_status \<Rightarrow> delivery" where
  "demo_billing_event i t status =
     (i, \<lparr>ve_provider_event_id = i, ve_event_type = ''customer.subscription.updated'', ve_livemode = False, ve_created_at_ms = t,
       ve_platform_update = Some \<lparr>bu_organization_id = 1, bu_customer_id = ''cus_0001'', bu_subscription_id = Some ''sub_0001'', bu_tier = Tier_Pro,
         bu_status = status, bu_quantity = 1, bu_current_period_start_ms = None, bu_current_period_end_ms = None, bu_cancel_at_period_end = False\<rparr>,
       ve_invoice_update = None\<rparr>)"

definition demo_billing_db :: billing_db where
  "demo_billing_db = \<lparr>bd_organizations = [(1, False)], bd_memberships = [], bd_accounts = [], bd_invoices = [], bd_events = [], bd_catalog = [],
     bd_enforcement = None, bd_exemptions = []\<rparr>"

definition demo_in_order :: "delivery list" where
  "demo_in_order = [demo_billing_event ''evt_0001'' 1000 Ps_Active, demo_billing_event ''evt_0002'' 2000 Ps_PastDue]"

definition demo_out_of_order :: "delivery list" where
  "demo_out_of_order = rev demo_in_order @ demo_in_order"

theorem billing_account_converges_witness:
  "account_of (deliver (\<lambda>a b. b \<le> a) (\<lambda>p. p) Unit_Seat demo_out_of_order demo_billing_db) 1
      = account_of (deliver (\<lambda>a b. b \<le> a) (\<lambda>p. p) Unit_Seat demo_in_order demo_billing_db) 1
    \<and> map_option ba_status (account_of (deliver (\<lambda>a b. b \<le> a) (\<lambda>p. p) Unit_Seat demo_out_of_order demo_billing_db) 1) = Some ''past_due''"
proof -
  have f: "feed 1 ''cus_0001'' ''sub_0001'' (set demo_in_order)"
    by (auto simp: feed_def feed_event_def update_of_def demo_in_order_def demo_billing_event_def)
  have s: "demo_in_order \<noteq> []" "set demo_in_order = set demo_out_of_order" by (auto simp: demo_in_order_def demo_out_of_order_def)
  have d: "separate 1 ''cus_0001'' ''sub_0001'' demo_billing_db" "account_of demo_billing_db 1 = None" by code_simp+
  have u: "list_all (unseen demo_billing_db) demo_in_order" by (simp add: demo_in_order_def unseen_def demo_billing_db_def)
  note t = billing_account_converges [OF f s d u refl, of "\<lambda>p. p" Unit_Seat]
  moreover have "map_option ba_status (account_of (deliver (\<lambda>a b. b \<le> a) (\<lambda>p. p) Unit_Seat demo_out_of_order demo_billing_db) 1) = Some ''past_due''"
    by code_simp
  ultimately show ?thesis by auto
qed

definition demo_subscription :: json where
  "demo_subscription = JObject [(''id'', JString ''sub_0001''), (''customer'', JString ''cus_0001''), (''status'', JString ''active''),
     (''metadata'', JObject [(''ffdb_scope'', JString ''platform''), (''ffdb_organization_id'', JString ''1''), (''ffdb_tier'', JString ''pay_as_you_go'')]),
     (''items'', JObject [(''data'', JArray [JObject [(''price'', JString ''price_0001'')]])])]"

definition demo_stripe_env :: stripe_env where
  "demo_stripe_env = \<lparr>sv_parse_event = (\<lambda>_. Some \<lparr>se_id = ''evt_0001'', se_type = ''customer.subscription.updated'', se_created = 7, se_livemode = False,
       se_account = None, se_object = demo_subscription\<rparr>),
     sv_as_i64 = (\<lambda>_. None), sv_as_u64 = (\<lambda>_. None), sv_parse_url = (\<lambda>_. None), sv_url_text = (\<lambda>_. []), sv_parse_uuid = (\<lambda>_. Some 1),
     sv_show_uuid = (\<lambda>_. ''1''), sv_hmac = (\<lambda>_ _. replicate 32 CHR ''U'')\<rparr>"

definition demo_url :: url where
  "demo_url = \<lparr>ur_scheme = ''https'', ur_host = Some ''x.test'', ur_username = [], ur_password = None, ur_path = ''/'', ur_query = None, ur_fragment = None\<rparr>"

definition demo_stripe_config :: stripe_config where
  "demo_stripe_config = \<lparr>sc_secret_key = ''sk_test_1234567890'', sc_webhook_secret = ''whsec_1234567890'', sc_connected_account = None,
     sc_pro_base_price_id = ''price_base'',
     sc_usage_meters = [\<lparr>um_metric = Metric_Reads, um_event_name = ''reads'', um_meter_id = ''mtr_0001'', um_payg_price_id = ''price_0001'',
       um_pro_price_id = ''price_0002''\<rparr>],
     sc_pro_billing_unit = Unit_Organization, sc_success_url = demo_url, sc_cancel_url = demo_url, sc_portal_return_url = demo_url\<rparr>"

definition demo_signature :: string where
  "demo_signature = ''t=1000, v1='' @ concat (replicate 32 ''55'')"

definition demo_verified :: "billing_error + verified_event" where
  "demo_verified = verify_webhook demo_stripe_env demo_stripe_config ''{}'' demo_signature 1200"

theorem accepted_webhook_is_authentic_witness:
  "bu_tier (update_of (projr demo_verified)) = Tier_PayAsYouGo \<and> bu_status (update_of (projr demo_verified)) = Ps_Active
    \<and> item_price ` set (object_items demo_subscription) = Some ` expected_prices demo_stripe_config Tier_PayAsYouGo
    \<and> (\<exists>t s. decode_hex_32 s = Some (sv_hmac demo_stripe_env ''whsec_1234567890'' (signed_text t ''{}'')) \<and> \<bar>1200 - t\<bar> \<le> (300 :: int))"
proof -
  have ok: "verify_webhook demo_stripe_env demo_stripe_config ''{}'' demo_signature 1200 = Ok (projr demo_verified)" by code_simp
  have upd: "ve_platform_update (projr demo_verified) = Some (update_of (projr demo_verified))"
    "bu_tier (update_of (projr demo_verified)) = Tier_PayAsYouGo" "bu_status (update_of (projr demo_verified)) = Ps_Active" by code_simp+
  have env: "sv_parse_event demo_stripe_env ''{}'' = Some ev \<Longrightarrow> se_object ev = demo_subscription" for ev by (auto simp: demo_stripe_env_def)
  have secret: "sc_webhook_secret demo_stripe_config = ''whsec_1234567890''" by (simp add: demo_stripe_config_def)
  obtain t s f ev where sig: "decode_hex_32 s = Some (sv_hmac demo_stripe_env (sc_webhook_secret demo_stripe_config) (signed_text t ''{}''))" "\<bar>1200 - t\<bar> \<le> 300"
    and ev: "sv_parse_event demo_stripe_env ''{}'' = Some ev"
    and price: "\<forall>u. ve_platform_update (projr demo_verified) = Some u \<longrightarrow> bu_tier u \<noteq> Tier_Free \<and> 1 \<le> bu_quantity u \<and> bu_quantity u \<le> 100000
       \<and> (bu_status u \<noteq> Ps_CheckoutPending \<longrightarrow> item_price ` set (object_items (se_object ev)) = Some ` expected_prices demo_stripe_config (bu_tier u))"
    using accepted_webhook_is_authentic [OF ok] by blast
  have "item_price ` set (object_items demo_subscription) = Some ` expected_prices demo_stripe_config Tier_PayAsYouGo"
    using price [rule_format, OF upd(1)] unfolding upd(2,3) env [OF ev] by simp
  then show ?thesis using upd(2,3) sig unfolding secret by blast
qed

end
