(* ===== verification/Platform_Auth.thy ===== *)
theory Platform_Auth
  imports Auth_Pg
begin

text \<open>
  \<open>crates/control-plane/src/developer_auth.rs\<close>: the developers of an instance, the bootstrap of the first of them, and
  their rotating sessions in PostgreSQL. Tables are lists of rows with their constraints; \<open>up = False\<close> when the
  database fails, with the transaction rolled back.
\<close>

section \<open>Data\<close>

definition PLATFORM_SESSION_TTL_MS :: int where "PLATFORM_SESSION_TTL_MS = 30 * 24 * 60 * 60 * 1000"

record platform_user =
  pu_id :: token_uuid
  pu_normalized_email :: string
  pu_password_hash :: string
  pu_email_verified_at_ms :: "int option"
  pu_disabled_at_ms :: "int option"
  pu_created_at_ms :: int

record platform_session =
  pt_id :: token_uuid
  pt_family_id :: token_uuid
  pt_user_id :: token_uuid
  pt_prefix :: string
  pt_digest :: credential_digest
  pt_issued_at_ms :: int
  pt_expires_at_ms :: int
  pt_used_at_ms :: "int option"
  pt_replaced_by :: "token_uuid option"
  pt_revoked_at_ms :: "int option"

record platform_identity =
  pid_user_id :: token_uuid
  pid_normalized_email :: string
  pid_family_id :: token_uuid
  pid_authenticated_at_ms :: int

datatype platform_rotation =
    Platform_Rotated string platform_session platform_identity
  | Platform_ReuseDetected token_uuid token_uuid
  | Platform_Rejected

datatype platform_auth_error =
    Pf_AlreadyInitialized | Pf_InvalidEmail | Pf_InvalidPassword | Pf_InvalidCredentials | Pf_Disabled
  | Pf_VerificationRequired | Pf_InvalidSession | Pf_Unavailable

text \<open>A row of \<open>platform_sessions\<close> is a session with the reason of its revocation.\<close>

record platform_session_row = platform_session +
  pt_revoke_reason :: "string option"

record platform_db =
  pf_users :: "platform_user list"
  pf_owner :: "token_uuid option"
  pf_administrators :: "(token_uuid \<times> string) list"
  pf_sessions :: "platform_session_row list"

record platform_service =
  pv_hasher :: argon2_hasher
  pv_codec :: opaque_token_codec
  pv_dummy_hash :: string

section \<open>Users\<close>

definition platform_normalize_email :: "string \<Rightarrow> platform_auth_error + string" where
  "platform_normalize_email email =
     (if length email > 254 \<or> trim email \<noteq> email \<or> \<not> list_all (\<lambda>c. code c < 128) email then Err Pf_InvalidEmail
      else
        bindr (ok_or (rsplit_once CHR ''@'' email) Pf_InvalidEmail) (\<lambda>(local_part, domain).
          if local_part = [] \<or> length local_part > 64 \<or> domain = [] \<or> CHR ''.'' \<notin> set domain
            \<or> list_ex (\<lambda>b. is_ascii_whitespace b \<or> is_ascii_control b) email
          then Err Pf_InvalidEmail
          else Ok (to_ascii_lowercase local_part @ ''@'' @ to_ascii_lowercase domain)))"

text \<open>The owner of the instance is set with the first user; every user row is unique by identifier and address.\<close>

definition insert_first :: "bool \<Rightarrow> platform_user \<Rightarrow> platform_db \<Rightarrow> (platform_auth_error + unit) \<times> platform_db" where
  "insert_first up u =
     transact up Pf_Unavailable (\<lambda>db.
       if pf_users db \<noteq> [] then Err Pf_AlreadyInitialized
       else if pf_owner db \<noteq> None \<or> pu_id u \<in> fst ` set (pf_administrators db) then Err Pf_AlreadyInitialized
       else Ok ((), db\<lparr>pf_users := [u], pf_owner := Some (pu_id u), pf_administrators := pf_administrators db @ [(pu_id u, ''owner'')]\<rparr>))"

definition platform_user_from_row :: "password_env \<Rightarrow> platform_user \<Rightarrow> platform_auth_error + platform_user" where
  "platform_user_from_row env r = bindr (map_err (\<lambda>_. Pf_Unavailable) (password_hash_parse env (pu_password_hash r))) (\<lambda>_. Ok r)"

definition platform_find_by_email :: "password_env \<Rightarrow> bool \<Rightarrow> string \<Rightarrow> platform_db \<Rightarrow> platform_auth_error + platform_user option" where
  "platform_find_by_email env up email db =
     (if \<not> up then Err Pf_Unavailable
      else case List.find (\<lambda>u. to_ascii_lowercase (pu_normalized_email u) = to_ascii_lowercase email) (pf_users db) of
        None \<Rightarrow> Ok None
      | Some r \<Rightarrow> bindr (platform_user_from_row env r) (\<lambda>u. Ok (Some u)))"

definition platform_service_new ::
    "password_env \<Rightarrow> argon2_hasher \<Rightarrow> opaque_token_codec \<Rightarrow> string \<Rightarrow> platform_auth_error + platform_service" where
  "platform_service_new env h codec salt =
     bindr (map_err (\<lambda>_. Pf_InvalidPassword) (hash_password env h salt ''ffdb-platform-dummy-password-work-factor'')) (\<lambda>d.
       Ok \<lparr>pv_hasher = h, pv_codec = codec, pv_dummy_hash = d\<rparr>)"

definition bootstrap_first_user ::
    "password_env \<Rightarrow> platform_service \<Rightarrow> bool \<Rightarrow> token_uuid \<Rightarrow> string \<Rightarrow> string \<Rightarrow> string \<Rightarrow> int \<Rightarrow> platform_db
      \<Rightarrow> (platform_auth_error + platform_user) \<times> platform_db" where
  "bootstrap_first_user env sv up uid salt email pw now db =
     (case bindr (platform_normalize_email email) (\<lambda>normalized.
        bindr (map_err (\<lambda>_. Pf_InvalidPassword) (hash_password env (pv_hasher sv) salt pw)) (\<lambda>hash.
          Ok \<lparr>pu_id = uid, pu_normalized_email = normalized, pu_password_hash = hash, pu_email_verified_at_ms = Some now,
            pu_disabled_at_ms = None, pu_created_at_ms = now\<rparr>)) of
        Inl e \<Rightarrow> (Err e, db)
      | Inr u \<Rightarrow> (case insert_first up u db of (Inl e, db') \<Rightarrow> (Err e, db') | (Inr _, db') \<Rightarrow> (Ok u, db')))"

section \<open>Sessions\<close>

text \<open>A violated unique index is reported as \<open>Pf_AlreadyInitialized\<close>, any other refusal as \<open>Pf_Unavailable\<close>.\<close>

definition insert_platform_session :: "platform_session \<Rightarrow> platform_db \<Rightarrow> platform_auth_error + platform_db" where
  "insert_platform_session s db =
     (if length (pt_digest s) \<noteq> 32 \<or> pt_expires_at_ms s \<le> pt_issued_at_ms s \<or> pt_user_id s \<notin> pu_id ` set (pf_users db) then Err Pf_Unavailable
      else if list_ex (\<lambda>r. pt_id r = pt_id s \<or> pt_prefix r = pt_prefix s) (pf_sessions db) then Err Pf_AlreadyInitialized
      else Ok (db\<lparr>pf_sessions := pf_sessions db @ [platform_session.extend s \<lparr>pt_revoke_reason = None\<rparr>]\<rparr>))"

definition platform_issue ::
    "token_env \<Rightarrow> opaque_token_codec \<Rightarrow> bool \<Rightarrow> entropy \<Rightarrow> token_uuid \<Rightarrow> token_uuid \<Rightarrow> platform_user \<Rightarrow> int \<Rightarrow> platform_db
      \<Rightarrow> (platform_auth_error + string \<times> platform_session \<times> platform_identity) \<times> platform_db" where
  "platform_issue env c up ent sid family u now db =
     (case bindr (ok_or (checked_add_i64 now PLATFORM_SESSION_TTL_MS) Pf_InvalidSession) (\<lambda>expires.
        bindr (map_err (\<lambda>_. Pf_Unavailable) (token_issue env c ent)) (\<lambda>(plaintext, parts).
          Ok (plaintext, \<lparr>pt_id = sid, pt_family_id = family, pt_user_id = pu_id u, pt_prefix = tp_prefix parts, pt_digest = tp_digest parts,
            pt_issued_at_ms = now, pt_expires_at_ms = expires, pt_used_at_ms = None, pt_replaced_by = None, pt_revoked_at_ms = None\<rparr>))) of
        Inl e \<Rightarrow> (Err e, db)
      | Inr (plaintext, s) \<Rightarrow>
          transact up Pf_Unavailable (\<lambda>db. bindr (insert_platform_session s db) (\<lambda>db'.
            Ok ((plaintext, s, \<lparr>pid_user_id = pu_id u, pid_normalized_email = pu_normalized_email u, pid_family_id = family,
              pid_authenticated_at_ms = now\<rparr>), db'))) db)"

definition revoke_platform_family :: "token_uuid \<Rightarrow> int \<Rightarrow> string \<Rightarrow> platform_db \<Rightarrow> platform_db" where
  "revoke_platform_family family now reason db =
     db\<lparr>pf_sessions := update_rows (\<lambda>r. pt_family_id r = family) (\<lambda>r. r\<lparr>pt_revoked_at_ms := or_else (pt_revoked_at_ms r) (Some now),
       pt_revoke_reason := or_else (pt_revoke_reason r) (Some reason)\<rparr>) (pf_sessions db)\<rparr>"

text \<open>The join of a session with its user, and the first issue in its family.\<close>

definition joined_session :: "string \<Rightarrow> platform_db \<Rightarrow> (platform_session_row \<times> platform_user) option" where
  "joined_session prefix db =
     (case List.find (\<lambda>r. pt_prefix r = prefix) (pf_sessions db) of
        None \<Rightarrow> None
      | Some r \<Rightarrow> map_option (\<lambda>u. (r, u)) (List.find (\<lambda>u. pu_id u = pt_user_id r) (pf_users db)))"

definition authenticated_at :: "token_uuid \<Rightarrow> platform_db \<Rightarrow> int" where
  "authenticated_at family db =
     (case map pt_issued_at_ms (filter (\<lambda>r. pt_family_id r = family) (pf_sessions db)) of [] \<Rightarrow> 0 | t # ts \<Rightarrow> fold min ts t)"

definition platform_rotate ::
    "token_env \<Rightarrow> opaque_token_codec \<Rightarrow> bool \<Rightarrow> entropy \<Rightarrow> token_uuid \<Rightarrow> string \<Rightarrow> int \<Rightarrow> platform_db
      \<Rightarrow> (platform_auth_error + platform_rotation) \<times> platform_db" where
  "platform_rotate env c up ent next_id presented now db =
     (case parse_and_digest env c presented of
        Inl _ \<Rightarrow> (Ok Platform_Rejected, db)
      | Inr candidate \<Rightarrow>
          transact up Pf_Unavailable (\<lambda>db.
            case joined_session (tp_prefix candidate) db of
              None \<Rightarrow> Ok (Platform_Rejected, db)
            | Some (current, u) \<Rightarrow>
                if \<not> verify_digest (tp_digest candidate) (pt_digest current) then Ok (Platform_Rejected, db)
                else if pt_revoked_at_ms current \<noteq> None \<or> pu_disabled_at_ms u \<noteq> None \<or> pt_expires_at_ms current \<le> now
                then Ok (Platform_Rejected, db)
                else if pt_used_at_ms current \<noteq> None
                then Ok (Platform_ReuseDetected (pt_family_id current) (pt_user_id current),
                  revoke_platform_family (pt_family_id current) now ''session_reuse'' db)
                else
                  bindr (map_err (\<lambda>_. Pf_Unavailable) (token_issue env c ent)) (\<lambda>(plaintext, parts).
                    let new = \<lparr>pt_id = next_id, pt_family_id = pt_family_id current, pt_user_id = pt_user_id current, pt_prefix = tp_prefix parts,
                          pt_digest = tp_digest parts, pt_issued_at_ms = now, pt_expires_at_ms = pt_expires_at_ms current,
                          pt_used_at_ms = None, pt_replaced_by = None, pt_revoked_at_ms = None\<rparr>;
                        P = (\<lambda>r. pt_id r = pt_id current \<and> pt_used_at_ms r = None)
                    in bindr (insert_platform_session new db) (\<lambda>db1.
                      if rows_affected P (pf_sessions db1) \<noteq> 1 then Err Pf_Unavailable
                      else Ok (Platform_Rotated plaintext new \<lparr>pid_user_id = pt_user_id current, pid_normalized_email = pu_normalized_email u,
                            pid_family_id = pt_family_id current, pid_authenticated_at_ms = authenticated_at (pt_family_id current) db\<rparr>,
                        db1\<lparr>pf_sessions := update_rows P (\<lambda>r. r\<lparr>pt_used_at_ms := Some now, pt_replaced_by := Some next_id\<rparr>) (pf_sessions db1)\<rparr>)))) db)"

definition authenticate_record ::
    "token_parts \<Rightarrow> platform_session_row \<Rightarrow> string \<Rightarrow> int option \<Rightarrow> int \<Rightarrow> int \<Rightarrow> platform_auth_error + platform_identity" where
  "authenticate_record candidate r email disabled_at at now =
     (if \<not> verify_digest (tp_digest candidate) (pt_digest r) \<or> pt_expires_at_ms r \<le> now \<or> pt_used_at_ms r \<noteq> None
        \<or> pt_revoked_at_ms r \<noteq> None \<or> disabled_at \<noteq> None
      then Err Pf_InvalidCredentials
      else Ok \<lparr>pid_user_id = pt_user_id r, pid_normalized_email = email, pid_family_id = pt_family_id r, pid_authenticated_at_ms = at\<rparr>)"

definition platform_authenticate ::
    "token_env \<Rightarrow> opaque_token_codec \<Rightarrow> bool \<Rightarrow> string \<Rightarrow> int \<Rightarrow> platform_db \<Rightarrow> platform_auth_error + platform_identity" where
  "platform_authenticate env c up presented now db =
     bindr (map_err (\<lambda>_. Pf_InvalidCredentials) (parse_and_digest env c presented)) (\<lambda>candidate.
     if \<not> up then Err Pf_Unavailable
     else bindr (ok_or (joined_session (tp_prefix candidate) db) Pf_InvalidCredentials) (\<lambda>(r, u).
       authenticate_record candidate r (pu_normalized_email u) (pu_disabled_at_ms u) (authenticated_at (pt_family_id r) db) now))"

definition platform_revoke ::
    "token_env \<Rightarrow> opaque_token_codec \<Rightarrow> bool \<Rightarrow> string \<Rightarrow> int \<Rightarrow> platform_db \<Rightarrow> (platform_auth_error + bool) \<times> platform_db" where
  "platform_revoke env c up presented now db =
     (case parse_and_digest env c presented of
        Inl _ \<Rightarrow> (Err Pf_InvalidSession, db)
      | Inr candidate \<Rightarrow>
          transact up Pf_Unavailable (\<lambda>db.
            case List.find (\<lambda>r. pt_prefix r = tp_prefix candidate) (pf_sessions db) of
              None \<Rightarrow> Ok (False, db)
            | Some r \<Rightarrow>
                if \<not> verify_digest (tp_digest candidate) (pt_digest r) then Ok (False, db)
                else Ok (True, revoke_platform_family (pt_family_id r) now ''signed_out'' db)) db)"

section \<open>Signing in\<close>

definition platform_sign_in ::
    "password_env \<Rightarrow> token_env \<Rightarrow> platform_service \<Rightarrow> bool \<Rightarrow> bool \<Rightarrow> entropy \<Rightarrow> token_uuid \<Rightarrow> token_uuid \<Rightarrow> string \<Rightarrow> string \<Rightarrow> int \<Rightarrow> platform_db
      \<Rightarrow> (platform_auth_error + string \<times> platform_session \<times> platform_identity) \<times> platform_db" where
  "platform_sign_in penv tenv sv up up_issue ent sid family email pw now db =
     (case bindr (map_err (\<lambda>_. Pf_InvalidCredentials) (platform_normalize_email email)) (\<lambda>normalized.
        bindr (platform_find_by_email penv up normalized db) (\<lambda>found.
        case found of
          None \<Rightarrow> bindr (map_err (\<lambda>_. Pf_InvalidCredentials) (verify_password penv (pv_hasher sv) pw (pv_dummy_hash sv))) (\<lambda>_. Err Pf_InvalidCredentials)
        | Some u \<Rightarrow>
            bindr (map_err (\<lambda>_. Pf_InvalidCredentials) (verify_password penv (pv_hasher sv) pw (pu_password_hash u))) (\<lambda>v.
              if \<not> matches v then Err Pf_InvalidCredentials
              else if pu_disabled_at_ms u \<noteq> None then Err Pf_Disabled
              else if pu_email_verified_at_ms u = None then Err Pf_VerificationRequired
              else Ok u))) of
        Inl e \<Rightarrow> (Err e, db)
      | Inr u \<Rightarrow> platform_issue tenv (pv_codec sv) up_issue ent sid family u now db)"

end
