(* ===== verification/Platform_Properties.thy ===== *)
theory Platform_Properties
  imports Platform_Auth Transition_System Auth_Pg_Properties
begin

text \<open>
  Sessions of developers: a family of rotated tokens has at most one that is live, and a family that was signed out, or in
  which a token was used twice, stays dead.
\<close>

section \<open>Steps\<close>

definition live_row :: "platform_session_row \<Rightarrow> bool" where
  "live_row r \<longleftrightarrow> pt_used_at_ms r = None \<and> pt_revoked_at_ms r = None"

definition platform_initial :: "platform_db \<Rightarrow> bool" where
  "platform_initial db \<longleftrightarrow> pf_sessions db = []"

text \<open>Identifiers of new families are fresh; a developer can be disabled or change their password at any time.\<close>

inductive platform_step :: "token_env \<Rightarrow> opaque_token_codec \<Rightarrow> platform_db \<Rightarrow> platform_db \<Rightarrow> bool" for env c where
  issue: "family \<notin> pt_family_id ` set (pf_sessions db) \<Longrightarrow> platform_step env c db (snd (platform_issue env c up ent sid family u now db))"
| rotate: "platform_step env c db (snd (platform_rotate env c up ent next_id presented now db))"
| revoke: "platform_step env c db (snd (platform_revoke env c up presented now db))"
| users: "platform_step env c db (db\<lparr>pf_users := us, pf_owner := w, pf_administrators := as\<rparr>)"

definition sessions_ok :: "platform_session_row list \<Rightarrow> bool" where
  "sessions_ok rs \<longleftrightarrow> distinct (map pt_id rs) \<and> distinct (map pt_prefix rs)
     \<and> (\<forall>r \<in> set rs. \<forall>r' \<in> set rs. pt_family_id r = pt_family_id r' \<longrightarrow>
          (pt_revoked_at_ms r = None \<longleftrightarrow> pt_revoked_at_ms r' = None) \<and> (live_row r \<and> live_row r' \<longrightarrow> r = r'))"

definition platform_ok :: "platform_db \<Rightarrow> bool" where
  "platform_ok db \<longleftrightarrow> sessions_ok (pf_sessions db)"

lemma extend_simps [simp]:
  "pt_id (platform_session.extend s m) = pt_id s" "pt_family_id (platform_session.extend s m) = pt_family_id s"
  "pt_user_id (platform_session.extend s m) = pt_user_id s" "pt_prefix (platform_session.extend s m) = pt_prefix s"
  "pt_used_at_ms (platform_session.extend s m) = pt_used_at_ms s" "pt_revoked_at_ms (platform_session.extend s m) = pt_revoked_at_ms s"
  "pt_digest (platform_session.extend s m) = pt_digest s"
  by (simp_all add: platform_session.defs)

lemma insert_session_cases:
  assumes "insert_platform_session s db = Ok db'"
  shows "db' = db\<lparr>pf_sessions := pf_sessions db @ [platform_session.extend s \<lparr>pt_revoke_reason = None\<rparr>]\<rparr>"
    and "pt_id s \<notin> pt_id ` set (pf_sessions db)" "pt_prefix s \<notin> pt_prefix ` set (pf_sessions db)"
  using assms by (auto simp: insert_platform_session_def list_ex_iff split: if_split_asm)

text \<open>What the operations do to the rows.\<close>

definition revoked_rows :: "token_uuid \<Rightarrow> int \<Rightarrow> string \<Rightarrow> platform_session_row list \<Rightarrow> platform_session_row list" where
  "revoked_rows family now reason rs = update_rows (\<lambda>r. pt_family_id r = family) (\<lambda>r. r\<lparr>pt_revoked_at_ms := or_else (pt_revoked_at_ms r) (Some now),
       pt_revoke_reason := or_else (pt_revoke_reason r) (Some reason)\<rparr>) rs"

definition rotated_rows :: "platform_session_row \<Rightarrow> platform_session \<Rightarrow> int \<Rightarrow> platform_session_row list \<Rightarrow> platform_session_row list" where
  "rotated_rows current new now rs =
     update_rows (\<lambda>r. pt_id r = pt_id current \<and> pt_used_at_ms r = None) (\<lambda>r. r\<lparr>pt_used_at_ms := Some now, pt_replaced_by := Some (pt_id new)\<rparr>)
       (rs @ [platform_session.extend new \<lparr>pt_revoke_reason = None\<rparr>])"

lemma rotate_cases:
  assumes "platform_rotate env c up ent next_id presented now db = (res, db')"
  obtains (same) "db' = db" "\<forall>p s i. res \<noteq> Ok (Platform_Rotated p s i)" "\<forall>f u. res \<noteq> Ok (Platform_ReuseDetected f u)"
  | (reuse) r where "r \<in> set (pf_sessions db)" "res = Ok (Platform_ReuseDetected (pt_family_id r) (pt_user_id r))"
      "db' = revoke_platform_family (pt_family_id r) now ''session_reuse'' db"
  | (rotated) current new p i where "current \<in> set (pf_sessions db)" "live_row current" "res = Ok (Platform_Rotated p new i)"
      "pt_family_id new = pt_family_id current" "pt_used_at_ms new = None" "pt_revoked_at_ms new = None"
      "pt_id new \<notin> pt_id ` set (pf_sessions db)" "pt_prefix new \<notin> pt_prefix ` set (pf_sessions db)"
      "db' = db\<lparr>pf_sessions := rotated_rows current new now (pf_sessions db)\<rparr>"
proof (cases "\<exists>f u. res = Ok (Platform_ReuseDetected f u)")
  case True
  then have "\<exists>prefix current u. joined_session prefix db = Some (current, u)
      \<and> res = Ok (Platform_ReuseDetected (pt_family_id current) (pt_user_id current))
      \<and> db' = revoke_platform_family (pt_family_id current) now ''session_reuse'' db"
    using assms by (auto simp: platform_rotate_def transact_def Let_def bindr_eq_Ok
        split: sum.split_asm if_split_asm option.split_asm prod.split_asm)
  then obtain prefix current u where found: "joined_session prefix db = Some (current, u)"
    and out: "res = Ok (Platform_ReuseDetected (pt_family_id current) (pt_user_id current))"
      "db' = revoke_platform_family (pt_family_id current) now ''session_reuse'' db" by blast
  have "current \<in> set (pf_sessions db)"
    using found by (auto simp: joined_session_def find_Some_iff split: option.split_asm)
  then show ?thesis using reuse out by blast
next
  case False
  show ?thesis
  proof (cases "\<exists>p s i. res = Ok (Platform_Rotated p s i)")
    case True
    then obtain p new i where res: "res = Ok (Platform_Rotated p new i)" by blast
    then obtain prefix current u where found: "joined_session prefix db = Some (current, u)"
      and body: "bindr (map_err (\<lambda>_. Pf_Unavailable) (token_issue env c ent)) (\<lambda>(plaintext, parts).
                    let new = \<lparr>pt_id = next_id, pt_family_id = pt_family_id current, pt_user_id = pt_user_id current, pt_prefix = tp_prefix parts,
                          pt_digest = tp_digest parts, pt_issued_at_ms = now, pt_expires_at_ms = pt_expires_at_ms current,
                          pt_used_at_ms = None, pt_replaced_by = None, pt_revoked_at_ms = None\<rparr>;
                        P = (\<lambda>r. pt_id r = pt_id current \<and> pt_used_at_ms r = None)
                    in bindr (insert_platform_session new db) (\<lambda>db1.
                      if rows_affected P (pf_sessions db1) \<noteq> 1 then Err Pf_Unavailable
                      else Ok (Platform_Rotated plaintext new \<lparr>pid_user_id = pt_user_id current, pid_normalized_email = pu_normalized_email u,
                            pid_family_id = pt_family_id current, pid_authenticated_at_ms = authenticated_at (pt_family_id current) db\<rparr>,
                        db1\<lparr>pf_sessions := update_rows P (\<lambda>r. r\<lparr>pt_used_at_ms := Some now, pt_replaced_by := Some next_id\<rparr>) (pf_sessions db1)\<rparr>)))
        = Ok (Platform_Rotated p new i, db')"
      and live: "pt_revoked_at_ms current = None" "pt_used_at_ms current = None"
      using assms by (auto simp: platform_rotate_def transact_def split: sum.split_asm if_split_asm option.split_asm)
    have current: "current \<in> set (pf_sessions db)"
      using found by (auto simp: joined_session_def find_Some_iff split: option.split_asm)
    from body obtain db1 where db1: "insert_platform_session new db = Ok db1" and new: "pt_id new = next_id"
        "pt_family_id new = pt_family_id current" "pt_used_at_ms new = None" "pt_revoked_at_ms new = None"
      and db': "db' = db1\<lparr>pf_sessions := update_rows (\<lambda>r. pt_id r = pt_id current \<and> pt_used_at_ms r = None)
          (\<lambda>r. r\<lparr>pt_used_at_ms := Some now, pt_replaced_by := Some next_id\<rparr>) (pf_sessions db1)\<rparr>"
      by (auto simp: bindr_eq_Ok Let_def split: prod.split_asm if_split_asm)
    note ins = insert_session_cases [OF db1]
    show ?thesis
      by (rule rotated [OF current _ res new(2-4) ins(2,3)]) (use live db' ins(1) new(1) in \<open>simp_all add: live_row_def rotated_rows_def\<close>)
  next
    case False
    then have "db' = db" using assms \<open>\<not> (\<exists>f u. res = Ok (Platform_ReuseDetected f u))\<close>
      by (auto simp: platform_rotate_def transact_def Let_def bindr_eq_Ok split: sum.split_asm if_split_asm option.split_asm prod.split_asm)
    then show ?thesis using same False \<open>\<not> (\<exists>f u. res = Ok (Platform_ReuseDetected f u))\<close> by blast
  qed
qed

lemma revoke_cases:
  assumes "platform_revoke env c up presented now db = (res, db')"
  obtains (same) "db' = db" "res \<noteq> Ok True"
  | (revoked) r where "r \<in> set (pf_sessions db)" "res = Ok True" "db' = revoke_platform_family (pt_family_id r) now ''signed_out'' db"
      "\<exists>candidate. parse_and_digest env c presented = Ok candidate \<and> List.find (\<lambda>r. pt_prefix r = tp_prefix candidate) (pf_sessions db) = Some r"
proof (cases "res = Ok True")
  case True
  then obtain candidate r where r: "parse_and_digest env c presented = Ok candidate"
      "List.find (\<lambda>r. pt_prefix r = tp_prefix candidate) (pf_sessions db) = Some r"
      "db' = revoke_platform_family (pt_family_id r) now ''signed_out'' db"
    using assms by (auto simp: platform_revoke_def transact_def split: sum.split_asm if_split_asm option.split_asm)
  then show ?thesis using revoked True by (metis find_Some_iff nth_mem)
next
  case False
  then show ?thesis using same assms
    by (auto simp: platform_revoke_def transact_def split: sum.split_asm if_split_asm option.split_asm)
qed

lemma issue_cases:
  assumes "platform_issue env c up ent sid family u now db = (res, db')"
  obtains (same) "db' = db"
  | (issued) s where "db' = db\<lparr>pf_sessions := pf_sessions db @ [platform_session.extend s \<lparr>pt_revoke_reason = None\<rparr>]\<rparr>"
      "pt_family_id s = family" "pt_used_at_ms s = None" "pt_revoked_at_ms s = None"
      "pt_id s \<notin> pt_id ` set (pf_sessions db)" "pt_prefix s \<notin> pt_prefix ` set (pf_sessions db)"
proof (cases "db' = db")
  case False
  then obtain s where s: "insert_platform_session s db = Ok db'" "pt_family_id s = family" "pt_used_at_ms s = None" "pt_revoked_at_ms s = None"
    using assms by (auto simp: platform_issue_def transact_def bindr_eq_Ok split: sum.split_asm if_split_asm prod.split_asm)
  then show ?thesis using issued insert_session_cases [OF s(1)] by blast
qed (use same in blast)

section \<open>The invariant\<close>

lemma map_update_rows: "(\<And>r. g (f r) = g r) \<Longrightarrow> map g (update_rows P f rs) = map g rs"
  by (induction rs) (auto simp: update_rows_def)

lemma sessions_okI:
  assumes "distinct (map pt_id rs)" "distinct (map pt_prefix rs)"
    and "\<And>r r'. r \<in> set rs \<Longrightarrow> r' \<in> set rs \<Longrightarrow> pt_family_id r = pt_family_id r' \<Longrightarrow>
      (pt_revoked_at_ms r = None \<longleftrightarrow> pt_revoked_at_ms r' = None) \<and> (live_row r \<and> live_row r' \<longrightarrow> r = r')"
  shows "sessions_ok rs"
  unfolding sessions_ok_def using assms by blast

lemma sessions_okD:
  assumes "sessions_ok rs" "r \<in> set rs" "r' \<in> set rs" "pt_family_id r = pt_family_id r'"
  shows "(pt_revoked_at_ms r = None \<longleftrightarrow> pt_revoked_at_ms r' = None) \<and> (live_row r \<and> live_row r' \<longrightarrow> r = r')"
  using assms unfolding sessions_ok_def by blast

lemma revoked_rows_ok: "sessions_ok rs \<Longrightarrow> sessions_ok (revoked_rows family now reason rs)"
proof -
  assume ok: "sessions_ok rs"
  have ids: "map pt_id (revoked_rows family now reason rs) = map pt_id rs" "map pt_prefix (revoked_rows family now reason rs) = map pt_prefix rs"
    unfolding revoked_rows_def by (auto intro!: map_update_rows)
  have rows: "\<exists>r0 \<in> set rs. pt_family_id r = pt_family_id r0 \<and> (if pt_family_id r0 = family then pt_revoked_at_ms r \<noteq> None else r = r0)"
    if "r \<in> set (revoked_rows family now reason rs)" for r
    using that by (auto simp: revoked_rows_def update_rows_def or_else_def split: option.split)
  show ?thesis
  proof (rule sessions_okI)
    fix r r' assume r: "r \<in> set (revoked_rows family now reason rs)" "r' \<in> set (revoked_rows family now reason rs)" "pt_family_id r = pt_family_id r'"
    show "(pt_revoked_at_ms r = None \<longleftrightarrow> pt_revoked_at_ms r' = None) \<and> (live_row r \<and> live_row r' \<longrightarrow> r = r')"
    proof (cases "pt_family_id r = family")
      case True
      have "pt_revoked_at_ms r \<noteq> None" "pt_revoked_at_ms r' \<noteq> None" using rows [OF r(1)] rows [OF r(2)] r(3) True by auto
      then show ?thesis by (auto simp: live_row_def)
    next
      case False
      have "r \<in> set rs" "r' \<in> set rs" using rows [OF r(1)] rows [OF r(2)] r(3) False by auto
      then show ?thesis using sessions_okD [OF ok] r(3) by blast
    qed
  qed (use ok in \<open>simp_all only: ids sessions_ok_def\<close>)
qed

lemma append_row_ok:
  assumes "sessions_ok rs" "pt_id n \<notin> pt_id ` set rs" "pt_prefix n \<notin> pt_prefix ` set rs" "pt_family_id n \<notin> pt_family_id ` set rs"
  shows "sessions_ok (rs @ [n])"
proof (rule sessions_okI)
  fix r r' assume r: "r \<in> set (rs @ [n])" "r' \<in> set (rs @ [n])" "pt_family_id r = pt_family_id r'"
  then consider "r = n" "r' = n" | "r \<in> set rs" "r' \<in> set rs" using assms(4) by (auto simp: image_iff)
  then show "(pt_revoked_at_ms r = None \<longleftrightarrow> pt_revoked_at_ms r' = None) \<and> (live_row r \<and> live_row r' \<longrightarrow> r = r')"
  proof cases
    case 2
    then show ?thesis using sessions_okD [OF assms(1)] r(3) by blast
  qed simp
qed (use assms(1-3) in \<open>simp_all add: sessions_ok_def\<close>)

lemma rotated_rows_ok:
  assumes "sessions_ok rs" "current \<in> set rs" "live_row current" "pt_family_id new = pt_family_id current"
    and "pt_used_at_ms new = None" "pt_revoked_at_ms new = None" "pt_id new \<notin> pt_id ` set rs" "pt_prefix new \<notin> pt_prefix ` set rs"
  shows "sessions_ok (rotated_rows current new now rs)"
proof -
  let ?n = "platform_session.extend new \<lparr>pt_revoke_reason = None\<rparr>"
  have ids: "map pt_id (rotated_rows current new now rs) = map pt_id rs @ [pt_id new]"
    "map pt_prefix (rotated_rows current new now rs) = map pt_prefix rs @ [pt_prefix new]"
    unfolding rotated_rows_def by (simp_all add: map_update_rows)
  have rows: "r = ?n \<or> r \<in> set rs \<and> pt_id r \<noteq> pt_id current
      \<or> pt_family_id r = pt_family_id current \<and> pt_used_at_ms r \<noteq> None \<and> pt_revoked_at_ms r = None"
    if in_rows: "r \<in> set (rotated_rows current new now rs)" for r
  proof -
    let ?P = "\<lambda>r. pt_id r = pt_id current \<and> pt_used_at_ms r = None"
    obtain r0 where "r0 \<in> set (rs @ [?n])"
      and r: "r = (if ?P r0 then r0\<lparr>pt_used_at_ms := Some now, pt_replaced_by := Some (pt_id new)\<rparr> else r0)"
      using in_rows by (auto simp only: rotated_rows_def update_rows_def set_map)
    then have r0: "r0 \<in> set rs \<or> r0 = ?n" by auto
    have cur: "r0 = current" if "r0 \<in> set rs" "pt_id r0 = pt_id current"
      using assms(1,2) that unfolding sessions_ok_def distinct_map inj_on_def by blast
    have "\<not> ?P ?n" using assms(2,7) by (auto simp: image_iff)
    then consider "r = ?n" | "r0 \<in> set rs" "pt_id r0 = pt_id current" | "r = r0" "r0 \<in> set rs" "pt_id r0 \<noteq> pt_id current"
      using r0 r by (auto split: if_split_asm)
    then show ?thesis
    proof cases
      case 2
      then have "r0 = current" by (rule cur)
      then show ?thesis using r assms(3) by (simp add: live_row_def)
    qed simp_all
  qed
  have fam: "pt_revoked_at_ms r = None \<and> \<not> live_row r" if "r \<in> set rs" "pt_family_id r = pt_family_id current" "pt_id r \<noteq> pt_id current" for r
    using sessions_okD [OF assms(1) that(1) assms(2)] that(2,3) assms(3) by (auto simp: live_row_def)
  have n: "live_row ?n" "pt_family_id ?n = pt_family_id current" "pt_revoked_at_ms ?n = None" using assms(4-6) by (simp_all add: live_row_def)
  have "(pt_revoked_at_ms r = None \<longleftrightarrow> pt_revoked_at_ms r' = None) \<and> (live_row r \<and> live_row r' \<longrightarrow> r = r')"
    if r: "r \<in> set (rotated_rows current new now rs)" "r' \<in> set (rotated_rows current new now rs)" "pt_family_id r = pt_family_id r'" for r r'
  proof (cases "pt_family_id r = pt_family_id current")
    case True
    have "pt_revoked_at_ms x = None \<and> (live_row x \<longrightarrow> x = ?n)"
      if "x \<in> set (rotated_rows current new now rs)" "pt_family_id x = pt_family_id current" for x
      using rows [OF that(1)] fam [of x] that(2) n by (auto simp: live_row_def)
    then show ?thesis using r True by auto
  next
    case False
    then have "r \<in> set rs" "r' \<in> set rs" using rows [OF r(1)] rows [OF r(2)] r(3) n(2) by auto
    then show ?thesis using sessions_okD [OF assms(1)] r(3) by blast
  qed
  then show ?thesis by (rule sessions_okI [rotated 2]) (use ids assms(1,7,8) in \<open>simp_all add: sessions_ok_def\<close>)
qed

lemma pf_sessions_revoke: "pf_sessions (revoke_platform_family family now reason db) = revoked_rows family now reason (pf_sessions db)"
  by (simp add: revoke_platform_family_def revoked_rows_def)

lemma platform_step_ok: "platform_step env c db db' \<Longrightarrow> platform_ok db \<Longrightarrow> platform_ok db'"
proof (induction rule: platform_step.induct)
  case (issue family db up ent sid u now)
  obtain res db' where i: "platform_issue env c up ent sid family u now db = (res, db')" by fastforce
  then show ?case
  proof (cases rule: issue_cases)
    case same
    then show ?thesis using i issue by simp
  next
    case (issued s)
    then show ?thesis using i issue append_row_ok [of "pf_sessions db" "platform_session.extend s \<lparr>pt_revoke_reason = None\<rparr>"]
      by (simp add: platform_ok_def)
  qed
next
  case (rotate db up ent next_id presented now)
  obtain res db' where i: "platform_rotate env c up ent next_id presented now db = (res, db')" by fastforce
  then show ?case
  proof (cases rule: rotate_cases)
    case same
    then show ?thesis using i rotate by simp
  next
    case (reuse r)
    then show ?thesis using i rotate by (simp add: platform_ok_def pf_sessions_revoke revoked_rows_ok)
  next
    case (rotated current new p j)
    have "sessions_ok (rotated_rows current new now (pf_sessions db))"
      by (rule rotated_rows_ok) (use rotated rotate in \<open>simp_all add: platform_ok_def\<close>)
    then show ?thesis using i rotated(9) by (simp add: platform_ok_def)
  qed
next
  case (revoke db up presented now)
  obtain res db' where i: "platform_revoke env c up presented now db = (res, db')" by fastforce
  then show ?case
  proof (cases rule: revoke_cases)
    case same
    then show ?thesis using i revoke by simp
  next
    case (revoked r)
    then show ?thesis using i revoke by (simp add: platform_ok_def pf_sessions_revoke revoked_rows_ok)
  qed
qed (simp add: platform_ok_def)

section \<open>Families that are dead\<close>

definition dead_families :: "platform_db \<Rightarrow> token_uuid set" where
  "dead_families db = pt_family_id ` {r \<in> set (pf_sessions db). pt_revoked_at_ms r \<noteq> None}"

lemma revoked_rows_dead:
  "pt_family_id ` {r \<in> set rs. pt_revoked_at_ms r \<noteq> None} \<union> {f} \<inter> pt_family_id ` set rs
     \<subseteq> pt_family_id ` {r \<in> set (revoked_rows f now reason rs). pt_revoked_at_ms r \<noteq> None}"
proof
  fix g assume "g \<in> pt_family_id ` {r \<in> set rs. pt_revoked_at_ms r \<noteq> None} \<union> {f} \<inter> pt_family_id ` set rs"
  then obtain r where r: "r \<in> set rs" "pt_family_id r = g" "pt_revoked_at_ms r \<noteq> None \<or> g = f" by auto
  let ?r = "if pt_family_id r = f then r\<lparr>pt_revoked_at_ms := or_else (pt_revoked_at_ms r) (Some now),
       pt_revoke_reason := or_else (pt_revoke_reason r) (Some reason)\<rparr> else r"
  have "?r \<in> set (revoked_rows f now reason rs)" using r(1) unfolding revoked_rows_def update_rows_def set_map by (rule imageI)
  moreover have "pt_family_id ?r = g" "pt_revoked_at_ms ?r \<noteq> None" using r(2,3) by (auto simp: or_else_def split: option.split)
  ultimately show "g \<in> pt_family_id ` {r \<in> set (revoked_rows f now reason rs). pt_revoked_at_ms r \<noteq> None}" by blast
qed

lemma revoke_family_dead:
  "dead_families db \<subseteq> dead_families (revoke_platform_family f now reason db)"
  "r \<in> set (pf_sessions db) \<Longrightarrow> f = pt_family_id r \<Longrightarrow> f \<in> dead_families (revoke_platform_family f now reason db)"
  using revoked_rows_dead [of "pf_sessions db" f now reason] unfolding dead_families_def pf_sessions_revoke by auto

lemma rotated_rows_dead:
  assumes "r \<in> set rs" "pt_revoked_at_ms r \<noteq> None"
  shows "pt_family_id r \<in> pt_family_id ` {r \<in> set (rotated_rows current new now rs). pt_revoked_at_ms r \<noteq> None}"
proof -
  define q where "q = (if pt_id r = pt_id current \<and> pt_used_at_ms r = None then r\<lparr>pt_used_at_ms := Some now, pt_replaced_by := Some (pt_id new)\<rparr> else r)"
  have "q \<in> set (rotated_rows current new now rs)" using assms(1) unfolding rotated_rows_def update_rows_def set_map q_def by (intro imageI) simp
  moreover have "pt_family_id r = pt_family_id q" "pt_revoked_at_ms q \<noteq> None" using assms(2) by (auto simp: q_def)
  ultimately show ?thesis by blast
qed

lemma platform_step_dead: "platform_step env c db db' \<Longrightarrow> dead_families db \<subseteq> dead_families db'"
proof (induction rule: platform_step.induct)
  case (issue family db up ent sid u now)
  obtain res db' where i: "platform_issue env c up ent sid family u now db = (res, db')" by fastforce
  then show ?case by (cases rule: issue_cases) (auto simp: dead_families_def i)
next
  case (rotate db up ent next_id presented now)
  obtain res db' where i: "platform_rotate env c up ent next_id presented now db = (res, db')" by fastforce
  then show ?case
  proof (cases rule: rotate_cases)
    case (rotated current new p j)
    show ?thesis
    proof
      fix f assume "f \<in> dead_families db"
      then obtain r where r: "r \<in> set (pf_sessions db)" "pt_revoked_at_ms r \<noteq> None" "f = pt_family_id r" unfolding dead_families_def by blast
      show "f \<in> dead_families (snd (platform_rotate env c up ent next_id presented now db))"
        using rotated_rows_dead [OF r(1,2)] rotated(9) r(3) by (simp add: i dead_families_def)
    qed
  qed (use i revoke_family_dead(1) in auto)
next
  case (revoke db up presented now)
  obtain res db' where i: "platform_revoke env c up presented now db = (res, db')" by fastforce
  then show ?case by (cases rule: revoke_cases) (use i revoke_family_dead(1) in auto)
qed (simp add: dead_families_def)

interpretation developers: monotone_system platform_initial "platform_step env c" platform_ok dead_families for env c
proof
  show "platform_initial s \<Longrightarrow> platform_ok s" for s by (simp add: platform_initial_def platform_ok_def sessions_ok_def)
  show "platform_step env c s t \<Longrightarrow> platform_ok s \<Longrightarrow> platform_ok t" for s t by (rule platform_step_ok)
  show "platform_step env c s t \<Longrightarrow> platform_ok s \<Longrightarrow> dead_families s \<subseteq> dead_families t" for s t by (rule platform_step_dead)
qed

lemma authenticate_live:
  assumes "platform_authenticate env c up presented now db = Ok i"
  obtains candidate r where "parse_and_digest env c presented = Ok candidate" "r \<in> set (pf_sessions db)" "live_row r"
    "pt_prefix r = tp_prefix candidate" "pt_family_id r = pid_family_id i"
    "List.find (\<lambda>r. pt_prefix r = tp_prefix candidate) (pf_sessions db) = Some r" "verify_digest (tp_digest candidate) (pt_digest r)"
proof -
  obtain candidate r u where c: "parse_and_digest env c presented = Ok candidate" and j: "joined_session (tp_prefix candidate) db = Some (r, u)"
    and a: "live_row r" "pt_family_id r = pid_family_id i" "verify_digest (tp_digest candidate) (pt_digest r)"
    using assms by (auto simp: platform_authenticate_def bindr_eq_Ok authenticate_record_def ok_or_def live_row_def map_err_def
        split: if_split_asm option.split_asm sum.split_asm)
  then have f: "List.find (\<lambda>r. pt_prefix r = tp_prefix candidate) (pf_sessions db) = Some r"
    by (auto simp: joined_session_def split: option.split_asm)
  then have "r \<in> set (pf_sessions db)" "pt_prefix r = tp_prefix candidate" by (auto simp: find_Some_iff)
  then show ?thesis using that c a f by blast
qed

lemma rotated_family:
  assumes "platform_rotate env c up ent nid presented now db = (Ok (Platform_Rotated p s i), db')"
  shows "\<exists>r \<in> set (pf_sessions db). live_row r \<and> pt_family_id r = pt_family_id s"
  using assms by (cases rule: rotate_cases) auto

lemma dead_not_live:
  assumes "platform_ok db" "f \<in> dead_families db" "r \<in> set (pf_sessions db)" "live_row r"
  shows "pt_family_id r \<noteq> f"
proof
  assume "pt_family_id r = f"
  moreover obtain r' where "r' \<in> set (pf_sessions db)" "pt_family_id r' = f" "pt_revoked_at_ms r' \<noteq> None"
    using assms(2) by (auto simp: dead_families_def)
  ultimately show False using sessions_okD [of "pf_sessions db" r r'] assms(1,3,4) by (auto simp: platform_ok_def live_row_def)
qed

text \<open>The tokens that authenticate into one family are one, and the two ways a family ends.\<close>

lemma single_live_token:
  assumes "platform_ok db" "platform_authenticate env c up presented now db = Ok i" "platform_authenticate env c up other now db = Ok j"
    and "pid_family_id j = pid_family_id i" "parse_and_digest env c presented = Ok d" "parse_and_digest env c other = Ok d'"
  shows "tp_prefix d = tp_prefix d'"
proof -
  obtain e r where r: "parse_and_digest env c presented = Ok e" "r \<in> set (pf_sessions db)" "live_row r"
    "pt_prefix r = tp_prefix e" "pt_family_id r = pid_family_id i" using assms(2) by (elim authenticate_live)
  obtain e' r' where r': "parse_and_digest env c other = Ok e'" "r' \<in> set (pf_sessions db)" "live_row r'"
    "pt_prefix r' = tp_prefix e'" "pt_family_id r' = pid_family_id j" using assms(3) by (elim authenticate_live)
  have "r = r'" using sessions_okD [of "pf_sessions db" r r'] assms(1,4) r(2,3,5) r'(2,3,5) by (auto simp: platform_ok_def)
  then show ?thesis using r r' assms(5,6) by simp
qed

lemma signed_out_family_dead:
  assumes "platform_authenticate env c up presented now db = Ok i"
  shows "fst (platform_revoke env c True presented at db) = Ok True"
    and "pid_family_id i \<in> dead_families (snd (platform_revoke env c True presented at db))"
proof -
  obtain candidate r where r: "parse_and_digest env c presented = Ok candidate" "r \<in> set (pf_sessions db)" "pt_family_id r = pid_family_id i"
    "List.find (\<lambda>r. pt_prefix r = tp_prefix candidate) (pf_sessions db) = Some r" "verify_digest (tp_digest candidate) (pt_digest r)"
    using assms by (elim authenticate_live)
  then have "platform_revoke env c True presented at db = (Ok True, revoke_platform_family (pid_family_id i) at ''signed_out'' db)"
    by (simp add: platform_revoke_def transact_def)
  then show "fst (platform_revoke env c True presented at db) = Ok True"
    and "pid_family_id i \<in> dead_families (snd (platform_revoke env c True presented at db))"
    using revoke_family_dead(2) [OF r(2) r(3) [symmetric]] by simp_all
qed

lemma reused_family_dead:
  assumes "platform_rotate env c up ent nid replayed at db = (Ok (Platform_ReuseDetected f u), db1)"
  shows "f \<in> dead_families db1"
  using assms by (cases rule: rotate_cases) (auto intro: revoke_family_dead(2))

section \<open>Properties\<close>

text \<open>
  C22. Over any run of sign-ins, rotations, sign-outs and changes of the developer tables: two tokens that authenticate
  into one session family are the same token by prefix; signing out with a live token succeeds; and once a family was
  signed out, or a token of it was presented for rotation a second time, no token authenticates into it or rotates in it
  in any later state, whatever further steps are taken.
\<close>

theorem developer_sessions_end:
  assumes run: "platform_initial db0" "(platform_step env c)\<^sup>*\<^sup>* db0 db"
    and signed_in: "platform_authenticate env c True presented now db = Ok i"
    and ended: "db1 = snd (platform_revoke env c True presented at db) \<and> f = pid_family_id i
      \<or> (\<exists>u. platform_rotate env c True ent nid replayed at db = (Ok (Platform_ReuseDetected f u), db1))"
    and later: "(platform_step env c)\<^sup>*\<^sup>* db1 db2"
  shows "fst (platform_revoke env c True presented at db) = Ok True
    \<and> (\<forall>other j d d'. platform_authenticate env c True other now db = Ok j \<and> pid_family_id j = pid_family_id i
        \<and> parse_and_digest env c presented = Ok d \<and> parse_and_digest env c other = Ok d' \<longrightarrow> tp_prefix d = tp_prefix d')
    \<and> (\<forall>up p t j. platform_authenticate env c up p t db2 = Ok j \<longrightarrow> pid_family_id j \<noteq> f)
    \<and> (\<forall>up e n p t q s j. fst (platform_rotate env c up e n p t db2) = Ok (Platform_Rotated q s j) \<longrightarrow> pt_family_id s \<noteq> f)"
proof -
  have ok: "platform_ok db" using run by (rule developers.reachable_inv)
  have "f \<in> dead_families db1 \<and> platform_step env c db db1" using ended
  proof
    assume "db1 = snd (platform_revoke env c True presented at db) \<and> f = pid_family_id i"
    then show ?thesis using signed_out_family_dead(2) [OF signed_in] platform_step.revoke [of env c db True presented at] by simp
  next
    assume "\<exists>u. platform_rotate env c True ent nid replayed at db = (Ok (Platform_ReuseDetected f u), db1)"
    then obtain u where rot: "platform_rotate env c True ent nid replayed at db = (Ok (Platform_ReuseDetected f u), db1)" ..
    then show ?thesis using reused_family_dead [OF rot] platform_step.rotate [of env c db True ent nid replayed at] by simp
  qed
  then have "platform_ok db1" "f \<in> dead_families db1" using ok by (auto dest: platform_step_ok)
  then have db2: "platform_ok db2" "f \<in> dead_families db2" using later developers.run_inv developers.run_clock by blast+
  show ?thesis
  proof (intro conjI)
    show "fst (platform_revoke env c True presented at db) = Ok True" using signed_in by (rule signed_out_family_dead)
    show "\<forall>other j d d'. platform_authenticate env c True other now db = Ok j \<and> pid_family_id j = pid_family_id i
        \<and> parse_and_digest env c presented = Ok d \<and> parse_and_digest env c other = Ok d' \<longrightarrow> tp_prefix d = tp_prefix d'"
      using single_live_token [OF ok signed_in] by blast
    show "\<forall>up p t j. platform_authenticate env c up p t db2 = Ok j \<longrightarrow> pid_family_id j \<noteq> f"
      using dead_not_live [OF db2] by (metis authenticate_live)
    show "\<forall>up e n p t q s j. fst (platform_rotate env c up e n p t db2) = Ok (Platform_Rotated q s j) \<longrightarrow> pt_family_id s \<noteq> f"
      using dead_not_live [OF db2] rotated_family by (metis prod.collapse)
  qed
qed

text \<open>A developer signs in, and signs out.\<close>

definition demo_platform_env :: token_env where
  "demo_platform_env = demo_token_env\<lparr>te_hmac := (\<lambda>k s. Some (take 32 (rev s @ k)))\<rparr>"

definition demo_developer :: platform_user where
  "demo_developer = \<lparr>pu_id = 7, pu_normalized_email = ''a@b.c'', pu_password_hash = [], pu_email_verified_at_ms = Some 1,
     pu_disabled_at_ms = None, pu_created_at_ms = 1\<rparr>"

definition demo_platform :: platform_db where
  "demo_platform = \<lparr>pf_users = [demo_developer], pf_owner = Some 7, pf_administrators = [(7, ''owner'')], pf_sessions = []\<rparr>"

definition demo_signed_in :: "(platform_auth_error + string \<times> platform_session \<times> platform_identity) \<times> platform_db" where
  "demo_signed_in = platform_issue demo_platform_env demo_codec True (demo_entropy CHR ''a'') 1 2 demo_developer 1000 demo_platform"

definition demo_presented :: string where
  "demo_presented = (case fst demo_signed_in of Inr (p, _) \<Rightarrow> p | Inl _ \<Rightarrow> [])"

definition signed_in_family :: "platform_auth_error + platform_identity \<Rightarrow> token_uuid option" where
  "signed_in_family res = (case res of Inr i \<Rightarrow> Some (pid_family_id i) | Inl _ \<Rightarrow> None)"

theorem developer_sessions_end_witness:
  "fst (platform_revoke demo_platform_env demo_codec True demo_presented 2000 (snd demo_signed_in)) = Ok True
   \<and> signed_in_family (platform_authenticate demo_platform_env demo_codec True demo_presented 1500 (snd demo_signed_in)) = Some 2
   \<and> signed_in_family (platform_authenticate demo_platform_env demo_codec True demo_presented 2500
        (snd (platform_revoke demo_platform_env demo_codec True demo_presented 2000 (snd demo_signed_in)))) \<noteq> Some 2"
proof -
  have "signed_in_family (platform_authenticate demo_platform_env demo_codec True demo_presented 1500 (snd demo_signed_in)) = Some 2" by code_simp
  then obtain i where i: "platform_authenticate demo_platform_env demo_codec True demo_presented 1500 (snd demo_signed_in) = Ok i"
    and f: "pid_family_id i = 2" by (auto simp: signed_in_family_def split: sum.split_asm)
  have init: "platform_initial demo_platform" by code_simp
  have "platform_step demo_platform_env demo_codec demo_platform (snd demo_signed_in)"
    unfolding demo_signed_in_def by (rule platform_step.issue) (simp add: demo_platform_def)
  then have run: "(platform_step demo_platform_env demo_codec)\<^sup>*\<^sup>* demo_platform (snd demo_signed_in)" by blast
  note ended = developer_sessions_end [where at = 2000, OF init run i disjI1 rtranclp.rtrancl_refl, OF conjI [OF refl refl]]
  show ?thesis using ended i f by (auto simp: signed_in_family_def split: sum.split)
qed

end
