(* ===== verification/Spec2Isabelle.thy ===== *)
theory Spec2Isabelle
  imports Sync_Idempotency Rls_Properties Commerce_Properties Auth_One_Time Rate_Quota Registry_Properties
    Sqlite_Properties Storage_Cleanup Storage_Retries Storage_Listing Audit_Properties
    Metrics_Integral Metrics_Limits Migration_Properties Router_Properties
    Account_Properties Credential_Properties Auth_Pg_Properties
    Email_Properties Idempotency_Properties Billing_Properties Platform_Properties
begin

text \<open>
  \<^bold>\<open>FFDB: a verification development of the core of the server.\<close>

  FFDB is a multi-tenant database service: every project has its own SQLite database, reached through
  an HTTP API, with row-level security written in a dialect of SQL, offline synchronization for
  clients, accounts and sessions, and a commerce layer. The HTTP servers under \<open>apps/\<close> are shells around
  the crates under \<open>crates/\<close>; the rules of the product are in the crates. This development models the
  crates that hold rules rather than input and output.

  \<^bold>\<open>Shared layer.\<close>
  \<^item> \<open>Ffdb_Prelude\<close>: results (\<open>Ok\<close>, \<open>Err\<close>, \<open>bindr\<close>, \<open>require\<close>, \<open>map_err\<close>), the checked and saturating
    operations of \<open>u64\<close> and \<open>i64\<close> (integers with their bounds written out), ASCII predicates and the string
    operations the sources use. The collections \<open>ffdb_result\<close> and \<open>ffdb_int\<close> carry the component proofs.
  \<^item> \<open>Collections\<close>: \<open>HashMap\<close> and \<open>BTreeMap\<close> as association lists with the contract \<open>map_store\<close> (a locale),
    interpreted for both.
  \<^item> \<open>Transition_System\<close>: the contract of a stateful component (locales \<open>transition_system\<close> and
    \<open>monotone_system\<close>), interpreted for each state machine below.

  \<^bold>\<open>Synchronization\<close> (\<open>crates/sync-engine/src/lib.rs\<close>).
  \<open>Sync_Engine\<close> models the in-memory engine: its rows, event log, idempotency records and counters, with one
  definition per operation (new, restore, checkpoint, snapshot, pull, push in both modes, invalidate,
  compact), the cursor codec and errors as values. \<open>Sync_Invariant\<close> proves that every operation keeps the
  engine valid, \<open>Sync_Replication\<close> defines a client replica that applies snapshots and pages,
  \<open>Sync_Properties\<close> shows that checkpoints restore, that a pull returns the visible events in order and
  without gaps, that a replica converges to the server's rows and that cursors are bound to their session.
  \<open>Sync_Idempotency\<close> shows that a retried batch is applied once.

  \<^bold>\<open>SQL front end\<close> (\<open>crates/sql-parser/src/\<close>).
  \<open>Sql_Scanner\<close> models \<open>scanner.rs\<close> and \<open>identifier.rs\<close> (a byte index is the remaining suffix),
  \<open>Sql_Classifier\<close> models \<open>classifier.rs\<close> and \<open>Rls_Parser\<close> models \<open>rls.rs\<close> and the entry point of \<open>lib.rs\<close>.
  \<open>Rls_Lexing\<close> and \<open>Rls_Statements\<close> prove that lexing is compositional and define a printer;
  \<open>Sql_Properties\<close> holds the splitting, classification, token-limit and parse/print results.
  The loops recurse on the remaining input, so they are total and no fuel is needed.

  \<^bold>\<open>Row-level security compiler\<close> (\<open>crates/sqlite-rls/src/lib.rs\<close>).
  \<open>Sqlite_Rls\<close> models the policy catalog, the combination of policies and the generated statements;
  SHA-256 is an argument. \<open>Rls_Semantics\<close> gives the generated conditions a meaning in three-valued logic.
  \<open>Rls_Properties\<close> shows that the compiled condition lets a row through exactly when the
  policies do, that the default is to deny, and that the catalog stays consistent.

  \<^bold>\<open>Commerce\<close> (\<open>crates/commerce/src/lib.rs\<close>).
  \<open>Commerce_Catalog\<close> (money, merchants, prices), \<open>Commerce_Ledger\<close> (provider events),
  \<open>Commerce_Subscriptions\<close> and \<open>Commerce_Payments\<close> (orders, payments, refunds, checkout) have one definition per
  constructor and method. \<open>Commerce_Invariant\<close> keeps the payment invariant over every interleaving;
  \<open>Commerce_Properties\<close> bounds refunds by captures, applies events at most once and in order,
  computes exact totals, and shows which orders can be fulfilled, among them one paid by the same
  payment listed twice.

  \<^bold>\<open>Authentication\<close> (\<open>crates/auth/src/opaque_token.rs\<close>, \<open>refresh.rs\<close>, \<open>one_time.rs\<close>).
  \<open>Auth_Tokens\<close> models the token codec and the two in-memory stores; each store is behind one mutex, so
  that concurrent calls are sequences of operations. \<open>Auth_Properties\<close> shows that refresh tokens
  are single use, that reuse revokes the family and that revocation is final; \<open>Auth_One_Time\<close> does the same for one-time tokens and shows that the codec reads what it issues. Base64 and
  HMAC-SHA256 are the record \<open>token_env\<close>; random bytes and new identifiers are arguments, fresh where a
  step relation says so.

  \<^bold>\<open>Credentials\<close> (\<open>crates/auth/src/jwt.rs\<close>, \<open>password.rs\<close>, \<open>account.rs\<close>, \<open>api_key.rs\<close>, \<open>key_management.rs\<close>,
  \<open>credential.rs\<close>, \<open>postgres.rs\<close>).
  \<open>Auth_Jwt\<close> models access tokens, \<open>Auth_Accounts\<close> password policy, the account repository and the account
  service, \<open>Auth_Credentials\<close> developers' keys, the envelope, bootstrap and rotation of signing keys, and the
  verification of credentials. Base64url, JSON, Ed25519, AES-GCM and Argon2 are records of functions, with
  the laws that are used of them as hypotheses. \<open>Account_Properties\<close> shows that nobody signs in to a disabled account and that a
  registered one can sign in; \<open>Credential_Properties\<close> that issued tokens verify until they expire, also
  after a rotation, and that every accepted credential is authentic. \<open>Auth_Pg\<close> models the PostgreSQL stores of
  \<open>postgres.rs\<close> (tables as lists of rows, transactions); \<open>Auth_Pg_Properties\<close> shows that the refresh store answers as
  the in-memory store does and that a new password or a disabling ends the user's sessions.

  \<^bold>\<open>E-mail\<close> (\<open>crates/email/src/lib.rs\<close>, \<open>outbox.rs\<close>, \<open>smtp.rs\<close>).
  \<open>Email_Templates\<close> models templates, rendering and the checks of the provider endpoint, \<open>Email_Outbox\<close> the queue of
  encrypted jobs and the worker, \<open>Email_Smtp\<close> the SMTP dialogue. \<open>Email_Properties\<close> shows that values are inserted
  escaped and once and that a session carries one message; \<open>Email_Delivery\<close> that a request is queued once and that retries end
  when deliveries complete.

  \<^bold>\<open>Idempotency keys\<close> (\<open>apps/api/src/idempotency.rs\<close>, \<open>mutation_handler\<close> in \<open>apps/api/src/commerce.rs\<close>).
  \<open>Api_Idempotency\<close> models admission, leases, completion and replay on the table of keys, and the handler that runs a mutation
  under a key; \<open>Idempotency_Properties\<close> shows that a completed request is replayed and not run again until its record expires,
  whatever operations interleave, and that a live lease excludes every other claimant.

  \<^bold>\<open>Billing\<close> (\<open>crates/billing/src\<close>, \<open>apps/api/src/billing.rs\<close>).
  \<open>Billing_Stripe\<close> models the Stripe adapter: its configuration, the verification and reading of webhooks, and its requests.
  \<open>Api_Billing\<close> models what verified events do to billing accounts and invoices, and the entitlement read from them.
  \<open>Billing_Properties\<close> shows that accepted webhooks are authentic and that accounts converge whatever the order of events.

  \<^bold>\<open>Developer accounts\<close> (\<open>crates/control-plane/src/developer_auth.rs\<close>).
  \<open>Platform_Auth\<close> models the first developer, sign-in and the rotating sessions in PostgreSQL; \<open>Platform_Properties\<close> runs them
  as a \<open>monotone_system\<close> whose set of dead families only grows, and shows that a family that ended stays dead.

  \<^bold>\<open>Rate limits\<close> (\<open>crates/rate-limits/src/lib.rs\<close>).
  \<open>Rate_Quota\<close> models key derivation and the fixed-window quota and shows that its decisions are exact as
  long as the clock does not run backwards, and an example shows what happens when it does.

  \<^bold>\<open>Control plane\<close> (\<open>crates/control-plane/src/lib.rs\<close>).
  \<open>Control_Registry\<close> models the in-memory registry of organizations, projects, nodes and routes, the project
  life cycle and the allowance decision. \<open>Registry_Properties\<close> shows, over every sequence of operations,
  that projects do not share databases, that routes are served only while a project is provisioning or
  active, and that a reroute fences every earlier generation for good.

  \<^bold>\<open>SQLite runtime\<close> (\<open>crates/sqlite-runtime/src/\<close>).
  \<open>Sqlite_Context\<close> models the request context and its leases, the auth functions, the authorizer callback,
  the limits and values (\<open>context.rs\<close>, \<open>authorizer.rs\<close>, \<open>limits.rs\<close>, \<open>value.rs\<close>); \<open>Sqlite_Session\<close> models
  sessions (\<open>lib.rs\<close>): validation, bounded execution inside savepoints, probes, transactions, policy plans
  and the change-capture triggers of \<open>sync.rs\<close>. SQLite is the record \<open>sqlite_env\<close>: what it answers and how it
  changes the data is arbitrary; what transaction control does to the stack of open savepoints is
  defined here. \<open>Sqlite_Properties\<close> shows that transactions are all or nothing, that a probed write leaves
  no trace, and what an end user's statement can touch; a lemma shows that a developer's \<open>COMMIT\<close> escapes a
  transaction.

  \<^bold>\<open>Object storage\<close> (\<open>crates/object-storage/src/lib.rs\<close>, \<open>crates/sqlite-runtime/src/storage.rs\<close>,
  \<open>apps/database-worker/src/storage.rs\<close>).
  \<open>Storage_Gateway\<close> models the gateway: signed grants, local reservations, commits, multipart uploads. The
  metadata store it calls is the record \<open>metadata_authorizer\<close>. \<open>Storage_Ledger\<close> models the durable tables as
  lists of rows with one definition per SQL method, \<open>Storage_Metadata\<close> and \<open>Storage_Commit\<close> the worker's
  operations on them, ending in the instance \<open>sqlite_authorizer\<close> of the gateway's store. \<open>Storage_Properties\<close>
  covers the local quota over every interleaving. \<open>Storage_Durable\<close> proves the invariant of the durable
  tables over every sequence of requests (a calculus of preserved predicates and the locales
  \<open>commit_frame\<close> and \<open>store_frame\<close>); \<open>Storage_Guarantees\<close> shows that reservations stay within the quota, that a commit happens
  exactly once, and what the gateway on top of the store guarantees; \<open>Storage_Cleanup\<close> that cleanup work is
  leased to one worker at a time, whatever other requests come between; \<open>Storage_Listing\<close> that paging through a listing is one
  sorted listing (the fuel of \<open>follow_pages\<close> bounds the pages: more than the number of objects is enough);
  \<open>Storage_Retries\<close> shows commits that cannot be repeated.

  \<^bold>\<open>Audit log\<close> (\<open>crates/audit/src/lib.rs\<close>).
  \<open>Audit_Log\<close> models drafts, redaction, the hash chain of each stream, the in-memory sink and the PostgreSQL sink
  (the table in append order, with the outcome of each database call as an argument). \<open>Audit_Properties\<close>
  shows that every log verifies and holds only redacted metadata, that the PostgreSQL sink appends what the
  in-memory sink appends, and that two logs with the same head have the same events or a hash collision.

  \<^bold>\<open>Organization metrics\<close> (\<open>crates/org-metrics/src/lib.rs\<close>).
  \<open>Metrics_Store\<close> holds the data, the tables (lists of rows) and the transactions, \<open>Metrics_Usage\<close> the periods,
  reservations and active-user claims, \<open>Metrics_Ingest\<close> usage events, settlement, summaries and sealing, and
  \<open>Metrics_Outbox\<close> the leased reports, reconciliation and finalization. \<open>Metrics_Effects\<close> has a case rule per operation.
  \<open>Metrics_Integral\<close> proves the storage integral equal to a sum over milliseconds, \<open>Metrics_Properties\<close> that every
  event is counted once and that a sealed period's usage is final, and \<open>Metrics_Limits\<close> that usage exceeds
  the limits at most by what was metered without an active reservation, with examples of both ways it can.

  \<^bold>\<open>Migrations\<close> (\<open>crates/migration-engine/src/lib.rs\<close>, the internal tables in \<open>crates/sqlite-runtime/src/lib.rs\<close>).
  \<open>Migration_Engine\<close> models specifications and checksums, the migration, version, catalog and receipt tables and
  the operations that apply and roll back a migration inside one transaction of a session; where the internal tables
  lie in the database content is the parameter \<open>internal_tables\<close>. \<open>Migration_Properties\<close> shows both to be all or nothing.

  \<^bold>\<open>Database router\<close> (\<open>crates/database-router/src/lib.rs\<close>, \<open>serve_frames\<close> in \<open>apps/database-worker/src/lib.rs\<close>).
  \<open>Worker_Router\<close> models requests as tasks interleaved with the worker processes at the points where the source
  awaits: permits, the pool, the lock and the pipes of a process, and timeouts that cut an exchange anywhere.
  \<open>Router_Properties\<close> shows over every run that the pool is bounded and that, while no exchange is cut, an answer
  belongs to the request that receives it; an example shows a cut exchange handing its answer to another request.

  \<^bold>\<open>How the components interact.\<close>
  A statement from a client goes through the scanner and the classifier, a policy statement through the
  parser into the catalog (the compiler's definitions take the parser's data types), and the compiled
  statements go to SQLite through a session of the runtime. Mutations are pushed to the sync engine, which other clients
  pull from. Sessions, quotas and the ledger are consulted by the API server around these calls.

  Object storage composes three layers: the gateway's grants, the worker's metadata operations under the
  user's row-level security, and the ledger inside the project's database; its statements run through
  sessions of the SQLite runtime.

  \<^bold>\<open>Not modelled.\<close>
  The HTTP servers, PostgreSQL adapters, the SQLite C library, the S3 client, configuration
  and observability are input and output or code outside the repository; the token bucket computes in
  floating point; the TypeScript packages are another program. Next in the plan: the
  backup and usage receipts of the SQLite runtime, and its synchronization sessions.
\<close>

end
